(* ===== verification/Kernel_Errors.thy ===== *)
theory Kernel_Errors
  imports Prelude
begin

section \<open>Errors: \<^verbatim>\<open>framework/kernel/errors.go\<close> and the Kubernetes error mapping\<close>

text \<open>
  A Go \<^verbatim>\<open>error\<close> value is a tree: a leaf, a \<^verbatim>\<open>*kernel.Error\<close> with an optional cause, or a
  wrapper made by \<^verbatim>\<open>fmt.Errorf\<close> with one or more \<^verbatim>\<open>%w\<close> verbs. \<open>chain\<close> is the pre-order
  traversal \<^verbatim>\<open>errors.Is\<close> and \<^verbatim>\<open>errors.AsType\<close> make. An error that comes from client-go is a
  leaf carrying what the code observes of it: the predicates of
  \<^verbatim>\<open>k8s.io/apimachinery/pkg/api/errors\<close> that answer true, whether it is a \<^verbatim>\<open>*StatusError\<close>, and
  the number of causes of its status details.
\<close>

datatype err_kind =
    KindForbidden | KindNotFound | KindConflict | KindPreconditionFailed | KindValidation
  | KindUnavailable | KindAlreadyExists | KindUnauthorized | KindInternal
  | KindOther int \<comment> \<open>any other value of the Go integer type\<close>

fun kind_string :: "err_kind \<Rightarrow> string" where
  "kind_string KindForbidden = ''forbidden''"
| "kind_string KindNotFound = ''not found''"
| "kind_string KindConflict = ''conflict''"
| "kind_string KindPreconditionFailed = ''precondition failed''"
| "kind_string KindValidation = ''validation error''"
| "kind_string KindUnavailable = ''service unavailable''"
| "kind_string KindAlreadyExists = ''resource already exists''"
| "kind_string KindUnauthorized = ''unauthorized''"
| "kind_string KindInternal = ''internal error''"
| "kind_string (KindOther n) = ''unknown error''"

record error_source =
  src_name :: string
  src_value :: string

text \<open>Package-level error variables that are compared by identity.\<close>

datatype sentinel =
    ErrStillProcessing | ErrNotSupported | ErrBadRequest | ErrRequestEntityTooLarge

fun sentinel_text :: "sentinel \<Rightarrow> string" where
  "sentinel_text ErrStillProcessing = ''operation still in progress''"
| "sentinel_text ErrNotSupported = ''operation not supported by the provider''"
| "sentinel_text ErrBadRequest = ''bad request''"
| "sentinel_text ErrRequestEntityTooLarge = ''request entity too large''"

text \<open>The apimachinery predicates the code asks.\<close>

datatype kube_pred =
    IsNotFound | IsAlreadyExists | IsConflict | IsInvalid | IsForbidden | IsResourceExpired
  | IsGone | IsUnauthorized | IsServiceUnavailable | IsServerTimeout | IsTimeout

datatype go_error =
    GoError string
  | Sentinel sentinel
  | KubeError (kube_preds: "kube_pred list") (is_status_error: bool) (status_causes: "nat option") string
  | DomainError (dom_kind: err_kind) (dom_sources: "error_source list") (dom_cause: "go_error option")
  | WrapError string "go_error list"

fun error_text :: "go_error \<Rightarrow> string" where
  "error_text (GoError t) = t"
| "error_text (Sentinel s) = sentinel_text s"
| "error_text (KubeError ps b c t) = t"
| "error_text (DomainError k ss None) = kind_string k"
| "error_text (DomainError k ss (Some c)) = kind_string k @ '': '' @ error_text c"
| "error_text (WrapError t es) = t"

fun chain :: "go_error \<Rightarrow> go_error list" where
  "chain (DomainError k ss None) = [DomainError k ss None]"
| "chain (DomainError k ss (Some c)) = DomainError k ss (Some c) # chain c"
| "chain (WrapError t es) = WrapError t es # concat (map chain es)"
| "chain (GoError t) = [GoError t]"
| "chain (Sentinel s) = [Sentinel s]"
| "chain (KubeError ps b c t) = [KubeError ps b c t]"

text \<open>\<^verbatim>\<open>fmt.Errorf("msg: %w", err)\<close>.\<close>

definition wrapf :: "string \<Rightarrow> go_error \<Rightarrow> go_error" where
  "wrapf msg e = WrapError (msg @ '': '' @ error_text e) [e]"

text \<open>\<^verbatim>\<open>fmt.Errorf("%w: msg", sentinel)\<close>, the sentinel first.\<close>

definition wrap_first :: "go_error \<Rightarrow> string \<Rightarrow> go_error list \<Rightarrow> go_error" where
  "wrap_first e msg es = WrapError (error_text e @ '': '' @ msg) (e # es)"

definition new_error :: "err_kind \<Rightarrow> go_error \<Rightarrow> go_error" where
  "new_error k cause = DomainError k [] (Some cause)"

definition kernel_sentinel :: "err_kind \<Rightarrow> go_error" where
  "kernel_sentinel k = new_error k (GoError (kind_string k))"

abbreviation "err_forbidden \<equiv> kernel_sentinel KindForbidden"
abbreviation "err_not_found \<equiv> kernel_sentinel KindNotFound"
abbreviation "err_already_exists \<equiv> kernel_sentinel KindAlreadyExists"
abbreviation "err_unauthorized \<equiv> kernel_sentinel KindUnauthorized"
abbreviation "err_unavailable \<equiv> kernel_sentinel KindUnavailable"
abbreviation "err_internal \<equiv> kernel_sentinel KindInternal"

fun is_domain_error :: "go_error \<Rightarrow> bool" where
  "is_domain_error (DomainError k ss c) = True"
| "is_domain_error e = False"

fun is_kube_error :: "go_error \<Rightarrow> bool" where
  "is_kube_error (KubeError ps b c t) = True"
| "is_kube_error e = False"

text \<open>\<^verbatim>\<open>kernel.AsError\<close>: the first domain error of the chain.\<close>

definition as_error :: "go_error \<Rightarrow> go_error option" where
  "as_error e = find is_domain_error (chain e)"

text \<open>The \<^verbatim>\<open>Is\<close> method of \<^verbatim>\<open>*kernel.Error\<close>: equal kinds.\<close>

definition domain_is :: "go_error \<Rightarrow> go_error \<Rightarrow> bool" where
  "domain_is e target = (case as_error target of
      Some te \<Rightarrow> dom_kind e = dom_kind te
    | None \<Rightarrow> False)"

text \<open>
  \<^verbatim>\<open>errors.Is(err, target)\<close>: some error of the chain is the target, or has an \<^verbatim>\<open>Is\<close> method
  that answers true. The targets of the code are package variables: a plain sentinel, or a
  domain error.
\<close>

fun is_match :: "go_error \<Rightarrow> go_error \<Rightarrow> bool" where
  "is_match (DomainError k ss c) target = (DomainError k ss c = target \<or> domain_is (DomainError k ss c) target)"
| "is_match e target = (e = target)"

definition errors_is :: "go_error \<Rightarrow> go_error \<Rightarrow> bool" where
  "errors_is e target = list_ex (\<lambda>n. is_match n target) (chain e)"

definition with_source :: "go_error \<Rightarrow> string \<Rightarrow> string \<Rightarrow> go_error" where
  "with_source e n v = (case e of
      DomainError k ss c \<Rightarrow> DomainError k (ss @ [\<lparr>src_name = n, src_value = v\<rparr>]) c
    | _ \<Rightarrow> e)"

subsection \<open>What \<^verbatim>\<open>errors.Is\<close> comes to on the code's sentinels\<close>

definition has_kind :: "err_kind \<Rightarrow> go_error \<Rightarrow> bool" where
  "has_kind k e \<longleftrightarrow> (\<exists>n \<in> set (chain e). is_domain_error n \<and> dom_kind n = k)"

lemma as_error_kernel_sentinel [simp]: "as_error (kernel_sentinel k) = Some (kernel_sentinel k)"
  by (simp add: as_error_def kernel_sentinel_def new_error_def)

lemma dom_kind_kernel_sentinel [simp]: "dom_kind (kernel_sentinel k) = k"
  by (simp add: kernel_sentinel_def new_error_def)

lemma is_match_kernel_sentinel:
  "is_match n (kernel_sentinel k) \<longleftrightarrow> is_domain_error n \<and> dom_kind n = k"
  by (cases n) (auto simp: domain_is_def, auto simp: kernel_sentinel_def new_error_def)

lemma errors_is_kernel_sentinel [errs]: "errors_is e (kernel_sentinel k) \<longleftrightarrow> has_kind k e"
  by (auto simp: errors_is_def has_kind_def list_ex_iff is_match_kernel_sentinel)

lemma is_match_sentinel: "is_match n (Sentinel s) \<longleftrightarrow> n = Sentinel s"
  by (cases n) (auto simp: domain_is_def as_error_def)

lemma errors_is_sentinel [errs]: "errors_is e (Sentinel s) \<longleftrightarrow> Sentinel s \<in> set (chain e)"
  by (auto simp: errors_is_def list_ex_iff is_match_sentinel)

lemma chain_self [simp]: "e \<in> set (chain e)"
  by (cases e rule: chain.cases) auto

lemma has_kind_domain [errs]:
  "has_kind k (DomainError k' ss c) \<longleftrightarrow> k' = k \<or> (\<exists>c'. c = Some c' \<and> has_kind k c')"
  by (cases c) (auto simp: has_kind_def)

lemma has_kind_new_error [errs]: "has_kind k (new_error k' c) \<longleftrightarrow> k' = k \<or> has_kind k c"
  by (simp add: new_error_def has_kind_domain)

lemma has_kind_leaf [errs]:
  "\<not> has_kind k (GoError t)" "\<not> has_kind k (Sentinel s)" "\<not> has_kind k (KubeError ps b c t)"
  by (simp_all add: has_kind_def)

lemma has_kind_wrapf [errs]: "has_kind k (wrapf m e) \<longleftrightarrow> has_kind k e"
  by (auto simp: has_kind_def wrapf_def)

lemma has_kind_sentinel [errs]: "has_kind k (kernel_sentinel k') \<longleftrightarrow> k' = k"
  by (simp add: kernel_sentinel_def errs)

lemma as_error_new_error [simp]: "as_error (new_error k c) = Some (new_error k c)"
  by (cases c) (simp_all add: as_error_def new_error_def)

lemma as_error_wrapf [simp]: "as_error (wrapf m e) = as_error e"
  by (simp add: as_error_def wrapf_def)

subsection \<open>\<^verbatim>\<open>framework/backend/kubernetes/errors.go\<close>\<close>

text \<open>An apimachinery predicate asked of an error: it looks through wrappers for the API error.\<close>

definition kube_is :: "kube_pred \<Rightarrow> go_error \<Rightarrow> bool" where
  "kube_is p e = (case find is_kube_error (chain e) of
      Some n \<Rightarrow> p \<in> set (kube_preds n)
    | None \<Rightarrow> False)"

definition is_resource_version_conflict :: "go_error \<Rightarrow> bool" where
  "is_resource_version_conflict e =
    (if \<not> kube_is IsConflict e then False
     else case find (\<lambda>n. is_kube_error n \<and> is_status_error n) (chain e) of
        None \<Rightarrow> False
      | Some n \<Rightarrow> (status_causes n = None \<or> status_causes n = Some 0))"

definition k8s_to_domain_error_kind :: "go_error \<Rightarrow> err_kind" where
  "k8s_to_domain_error_kind e =
    (if kube_is IsNotFound e then KindNotFound
     else if kube_is IsAlreadyExists e then KindAlreadyExists
     else if kube_is IsConflict e then
       (if is_resource_version_conflict e then KindPreconditionFailed else KindConflict)
     else if kube_is IsInvalid e then KindValidation
     else if kube_is IsForbidden e then KindForbidden
     else if kube_is IsResourceExpired e \<or> kube_is IsGone e then KindPreconditionFailed
     else if kube_is IsUnauthorized e then KindForbidden
     else if kube_is IsServiceUnavailable e \<or> kube_is IsServerTimeout e \<or> kube_is IsTimeout e
       then KindUnavailable
     else KindUnavailable)"

definition kube_to_domain_error :: "go_error \<Rightarrow> go_error" where
  "kube_to_domain_error e = new_error (k8s_to_domain_error_kind e) e"

lemma kube_is_wrapf [errs]: "kube_is p (wrapf m e) = kube_is p e"
  by (simp add: kube_is_def wrapf_def)

lemma kube_is_KubeError [errs]: "kube_is p (KubeError ps b c t) \<longleftrightarrow> p \<in> set ps"
  by (simp add: kube_is_def)

lemma kube_kind_wrapf [errs]: "k8s_to_domain_error_kind (wrapf m e) = k8s_to_domain_error_kind e"
  by (simp add: k8s_to_domain_error_kind_def is_resource_version_conflict_def errs, simp add: wrapf_def)

lemma as_error_kube_to_domain [simp]:
  "as_error (kube_to_domain_error e) = Some (kube_to_domain_error e)"
  by (simp add: kube_to_domain_error_def)

lemma dom_kind_kube_to_domain [errs]:
  "dom_kind (kube_to_domain_error e) = k8s_to_domain_error_kind e"
  by (simp add: kube_to_domain_error_def new_error_def)

text \<open>
  An error straight from the API server carries no domain error, so the kind of the converted
  error is the only kind \<^verbatim>\<open>errors.Is\<close> finds in it.
\<close>

lemma has_kind_kube_to_domain [errs]:
  "has_kind k (kube_to_domain_error e) \<longleftrightarrow> k8s_to_domain_error_kind e = k \<or> has_kind k e"
  by (simp add: kube_to_domain_error_def errs)

lemma has_kind_kube_wrapped:
  assumes "is_kube_error e"
  shows "has_kind k (kube_to_domain_error (wrapf m e)) \<longleftrightarrow> k8s_to_domain_error_kind e = k"
  using assms by (cases e) (simp_all add: errs)

end
