(* ===== verification/Status.thy ===== *)
theory Status
  imports Kernel_Errors
begin

section \<open>Resource states, conditions and their history\<close>

text \<open>
  Models \<^verbatim>\<open>resource/common/domain/status.go\<close>, \<^verbatim>\<open>resource/common/backend/conditions.go\<close>,
  \<^verbatim>\<open>TrimConditions\<close> of \<^verbatim>\<open>resource/common/backend/update.go\<close> and the state and condition mappers
  of \<^verbatim>\<open>resource/common/backend/mapper.go\<close>. The newest condition is the head of the list. A
  receiver that may be nil is an option; the clock reading \<^verbatim>\<open>time.Now()\<close> is an argument.
\<close>

datatype resource_state =
    StateUnset \<comment> \<open>the empty string\<close>
  | StatePending | StateCreating | StateActive | StateUpdating | StateDeleting | StateError
  | StateOther string \<comment> \<open>any other string\<close>

fun state_string :: "resource_state \<Rightarrow> string" where
  "state_string StateUnset = []"
| "state_string StatePending = ''pending''"
| "state_string StateCreating = ''creating''"
| "state_string StateActive = ''active''"
| "state_string StateUpdating = ''updating''"
| "state_string StateDeleting = ''deleting''"
| "state_string StateError = ''error''"
| "state_string (StateOther s) = s"

record status_condition =
  c_last :: time
  c_message :: string
  c_reason :: string
  c_state :: resource_state
  c_type :: string
  c_occurrences :: int

record status =
  st_state :: resource_state
  st_conditions :: "status_condition list"

definition empty_status :: status where
  "empty_status = \<lparr>st_state = StateUnset, st_conditions = []\<rparr>"

definition default_pending_condition :: status_condition where
  "default_pending_condition =
    \<lparr>c_last = 0, c_message = ''resource is pending'', c_reason = ''Pending'',
     c_state = StatePending, c_type = ''Pending'', c_occurrences = 0\<rparr>"

definition equal_status_conditions :: "status_condition \<Rightarrow> status_condition \<Rightarrow> bool" where
  "equal_status_conditions a b =
    (if c_state a \<noteq> c_state b then False
     else if c_message a \<noteq> c_message b then False
     else if c_type a \<noteq> c_type b then False
     else if c_reason a \<noteq> c_reason b then False
     else True)"

definition peek_conditions :: "status option \<Rightarrow> status_condition option" where
  "peek_conditions s = (case s of
      None \<Rightarrow> None
    | Some st \<Rightarrow> (case st_conditions st of [] \<Rightarrow> None | c # cs \<Rightarrow> Some c))"

definition pop_condition :: "status option \<Rightarrow> status option" where
  "pop_condition s = (case s of
      None \<Rightarrow> None
    | Some st \<Rightarrow>
        if st_conditions st = [] then Some st
        else Some (st\<lparr>st_conditions := take (length (st_conditions st) - 1) (st_conditions st)\<rparr>))"

definition push_condition :: "time \<Rightarrow> status_condition \<Rightarrow> status option \<Rightarrow> status option" where
  "push_condition now condition s = (case s of
      None \<Rightarrow> None
    | Some st \<Rightarrow>
        let cond = (if c_last condition = 0 then condition\<lparr>c_last := now\<rparr> else condition) in
        (case peek_conditions s of
           None \<Rightarrow>
             Some (st\<lparr>st_conditions := cond\<lparr>c_occurrences := 1\<rparr> # st_conditions st,
                      st_state := c_state cond\<rparr>)
         | Some prev \<Rightarrow>
             if equal_status_conditions prev cond then
               Some (st\<lparr>st_conditions :=
                 prev\<lparr>c_last := c_last cond, c_occurrences := c_occurrences prev + 1\<rparr>
                 # tl (st_conditions st)\<rparr>)
             else
               Some (st\<lparr>st_conditions := cond\<lparr>c_occurrences := 1\<rparr> # st_conditions st,
                        st_state := c_state cond\<rparr>)))"

text \<open>The loop of \<^verbatim>\<open>TrimConditions\<close>, on a status that is not nil.\<close>

function trim_conditions :: "int \<Rightarrow> status \<Rightarrow> status" where
  "trim_conditions max_conditions st =
    (if 0 < max_conditions \<and> max_conditions < int (length (st_conditions st))
     then trim_conditions max_conditions (the (pop_condition (Some st)))
     else st)"
  by pat_completeness auto
termination
  by (relation "measure (\<lambda>(m, st). length (st_conditions st))") (auto simp: pop_condition_def)

declare trim_conditions.simps [simp del]

subsection \<open>Conditions for each outcome: \<^verbatim>\<open>conditions.go\<close>\<close>

definition condition_from_state :: "time \<Rightarrow> resource_state \<Rightarrow> status_condition" where
  "condition_from_state now state =
    \<lparr>c_last = now,
     c_message = (case state of
        StatePending \<Rightarrow> ''Resource is pending initialization.''
      | StateCreating \<Rightarrow> ''Resource is being created.''
      | StateActive \<Rightarrow> ''Resource is active and ready.''
      | StateUpdating \<Rightarrow> ''Resource is being updated.''
      | StateDeleting \<Rightarrow> ''Resource is being deleted.''
      | _ \<Rightarrow> []),
     c_reason = state_string state,
     c_state = state,
     c_type = ''Reconcile'',
     c_occurrences = 0\<rparr>"

definition condition_from_error :: "time \<Rightarrow> go_error \<Rightarrow> status_condition" where
  "condition_from_error now err =
    \<lparr>c_last = now, c_message = error_text err, c_reason = ''ReconcileError'',
     c_state = StateError, c_type = ''ReconcileError'', c_occurrences = 0\<rparr>"

definition dependency_pending_condition :: "time \<Rightarrow> resource_state \<Rightarrow> string \<Rightarrow> status_condition" where
  "dependency_pending_condition now state message =
    \<lparr>c_last = now, c_message = message, c_reason = ''WaitingForDependency'',
     c_state = state, c_type = ''DependencyPending'', c_occurrences = 0\<rparr>"

definition update_failed_condition_type :: string where
  "update_failed_condition_type = ''UpdateFailed''"

definition update_failed_condition :: "time \<Rightarrow> resource_state \<Rightarrow> string \<Rightarrow> status_condition" where
  "update_failed_condition now state message =
    \<lparr>c_last = now, c_message = message, c_reason = ''UpdateNotApplied'',
     c_state = state, c_type = update_failed_condition_type, c_occurrences = 0\<rparr>"

definition deletion_blocked_condition :: "time \<Rightarrow> resource_state \<Rightarrow> string \<Rightarrow> status_condition" where
  "deletion_blocked_condition now state message =
    \<lparr>c_last = now, c_message = message, c_reason = ''ReferencedByDependent'',
     c_state = state, c_type = ''DeletionBlocked'', c_occurrences = 0\<rparr>"

lemmas condition_constructors =
  condition_from_state_def condition_from_error_def dependency_pending_condition_def
  update_failed_condition_def deletion_blocked_condition_def

lemma c_state_constructors [simp, status_simps]:
  "c_state (condition_from_state now s) = s"
  "c_state (condition_from_error now e) = StateError"
  "c_state (dependency_pending_condition now s m) = s"
  "c_state (update_failed_condition now s m) = s"
  "c_state (deletion_blocked_condition now s m) = s"
  by (simp_all add: condition_constructors)

lemma c_type_constructors [simp, status_simps]:
  "c_type (condition_from_state now s) = ''Reconcile''"
  "c_type (condition_from_error now e) = ''ReconcileError''"
  "c_type (update_failed_condition now s m) = ''UpdateFailed''"
  by (simp_all add: condition_constructors update_failed_condition_type_def)

subsection \<open>Pushing\<close>

lemma equal_status_conditions_iff:
  "equal_status_conditions a b \<longleftrightarrow>
     c_state a = c_state b \<and> c_message a = c_message b \<and> c_type a = c_type b \<and> c_reason a = c_reason b"
  by (simp add: equal_status_conditions_def)

lemma push_condition_None [simp]: "push_condition now c None = None"
  by (simp add: push_condition_def)

lemma push_condition_not_None [simp]: "push_condition now c (Some st) \<noteq> None"
  by (simp add: push_condition_def Let_def split: option.splits)

text \<open>A push on a status that is not nil, as a total function.\<close>

definition pushed :: "time \<Rightarrow> status_condition \<Rightarrow> status \<Rightarrow> status" where
  "pushed now c st = the (push_condition now c (Some st))"

lemma push_condition_Some [status_simps]: "push_condition now c (Some st) = Some (pushed now c st)"
  by (simp add: pushed_def)

lemma pushed_cases:
  obtains (merge) prev cs where "st_conditions st = prev # cs"
      "c_state prev = c_state c"
      "st_conditions (pushed now c st) =
         prev\<lparr>c_last := (if c_last c = 0 then now else c_last c),
              c_occurrences := c_occurrences prev + 1\<rparr> # cs"
      "st_state (pushed now c st) = st_state st"
  | (fresh)
      "st_conditions (pushed now c st) =
         (if c_last c = 0 then c\<lparr>c_last := now\<rparr> else c)\<lparr>c_occurrences := 1\<rparr> # st_conditions st"
      "st_state (pushed now c st) = c_state c"
  by (cases "st_conditions st"; cases "equal_status_conditions (hd (st_conditions st)) c")
     (auto simp: pushed_def push_condition_def peek_conditions_def Let_def equal_status_conditions_iff)

lemma pushed_fresh:
  assumes "\<And>p cs. st_conditions st = p # cs \<Longrightarrow> c_state p \<noteq> c_state c"
  shows "st_state (pushed now c st) = c_state c"
    and "st_conditions (pushed now c st) =
       (if c_last c = 0 then c\<lparr>c_last := now\<rparr> else c)\<lparr>c_occurrences := 1\<rparr> # st_conditions st"
proof -
  show "st_state (pushed now c st) = c_state c"
    by (rule pushed_cases [of st c now]) (use assms in auto)
  show "st_conditions (pushed now c st) =
       (if c_last c = 0 then c\<lparr>c_last := now\<rparr> else c)\<lparr>c_occurrences := 1\<rparr> # st_conditions st"
    by (rule pushed_cases [of st c now]) (use assms in auto)
qed

lemma pushed_head:
  obtains h cs where "st_conditions (pushed now c st) = h # cs" "c_state h = c_state c"
  by (rule pushed_cases [of st c now]) auto

lemma pushed_head_equal:
  obtains h cs where "st_conditions (pushed now c st) = h # cs" "equal_status_conditions h c"
  by (cases "st_conditions st"; cases "equal_status_conditions (hd (st_conditions st)) c"; cases "c_last c = 0")
     (auto simp: pushed_def push_condition_def peek_conditions_def Let_def equal_status_conditions_iff)

lemma equal_status_conditions_trans:
  "equal_status_conditions a b \<Longrightarrow> equal_status_conditions b c \<Longrightarrow> equal_status_conditions a c"
  by (simp add: equal_status_conditions_iff)

lemma equal_update_failed [simp]:
  "equal_status_conditions (update_failed_condition t s m) (update_failed_condition t' s m)"
  by (simp add: equal_status_conditions_iff update_failed_condition_def)

lemma pushed_length: "length (st_conditions (pushed now c st)) \<le> Suc (length (st_conditions st))"
  by (rule pushed_cases [of st c now]) auto

subsection \<open>Trimming\<close>

lemma pop_condition_take:
  "st_conditions (the (pop_condition (Some st))) = take (length (st_conditions st) - 1) (st_conditions st)"
  by (simp add: pop_condition_def)

lemma st_state_pop: "st_state (the (pop_condition (Some st))) = st_state st"
  by (simp add: pop_condition_def)

text \<open>The loop keeps exactly the newest conditions.\<close>

lemma trim_conditions_eq:
  "trim_conditions m st =
    (if 0 < m then st\<lparr>st_conditions := take (nat m) (st_conditions st)\<rparr> else st)"
proof (induction m st rule: trim_conditions.induct)
  case (1 m st)
  show ?case
  proof (cases "0 < m \<and> m < int (length (st_conditions st))")
    case True
    then have "trim_conditions m st = trim_conditions m (the (pop_condition (Some st)))"
      by (simp add: trim_conditions.simps [of m st])
    also have "\<dots> = st\<lparr>st_conditions := take (nat m) (st_conditions st)\<rparr>"
      using True "1.IH" by (auto simp: pop_condition_def take_take min_def)
    finally show ?thesis using True by simp
  next
    case False
    then show ?thesis by (auto simp: trim_conditions.simps [of m st])
  qed
qed

lemma st_state_trim [simp]: "st_state (trim_conditions m st) = st_state st"
  by (simp add: trim_conditions_eq)

lemma st_conditions_trim [status_simps]:
  "st_conditions (trim_conditions m st) =
     (if 0 < m then take (nat m) (st_conditions st) else st_conditions st)"
  by (simp add: trim_conditions_eq)

lemma trim_conditions_bound:
  "0 < m \<Longrightarrow> int (length (st_conditions (trim_conditions m st))) \<le> m"
  by (simp add: status_simps)

subsection \<open>The invariant: the state mirrors the newest condition\<close>

definition status_ok :: "status \<Rightarrow> bool" where
  "status_ok st = (case st_conditions st of [] \<Rightarrow> True | c # cs \<Rightarrow> st_state st = c_state c)"

lemma status_ok_empty [simp]: "status_ok empty_status"
  by (simp add: status_ok_def empty_status_def)

lemma status_ok_pushed: "status_ok st \<Longrightarrow> status_ok (pushed now c st)"
  by (rule pushed_cases [of st c now]) (auto simp: status_ok_def)

lemma st_state_pushed: "status_ok st \<Longrightarrow> st_state (pushed now c st) = c_state c"
  by (rule pushed_cases [of st c now]) (auto simp: status_ok_def)

lemma status_ok_trim: "status_ok st \<Longrightarrow> status_ok (trim_conditions m st)"
  by (cases "st_conditions st"; cases "nat m") (auto simp: status_ok_def trim_conditions_eq)

subsection \<open>The mapping to the stored form: \<^verbatim>\<open>mapper.go\<close>\<close>

text \<open>The CRD enumerates the six states; the stored type is a string as well.\<close>

definition resource_state_to_cr :: "resource_state \<Rightarrow> resource_state option" where
  "resource_state_to_cr state = (case state of
      StatePending \<Rightarrow> Some StatePending
    | StateCreating \<Rightarrow> Some StateCreating
    | StateActive \<Rightarrow> Some StateActive
    | StateUpdating \<Rightarrow> Some StateUpdating
    | StateDeleting \<Rightarrow> Some StateDeleting
    | StateError \<Rightarrow> Some StateError
    | _ \<Rightarrow> None)"

definition resource_state_from_cr :: "resource_state \<Rightarrow> resource_state" where
  "resource_state_from_cr state = (case state of
      StatePending \<Rightarrow> StatePending
    | StateCreating \<Rightarrow> StateCreating
    | StateActive \<Rightarrow> StateActive
    | StateUpdating \<Rightarrow> StateUpdating
    | StateDeleting \<Rightarrow> StateDeleting
    | StateError \<Rightarrow> StateError
    | _ \<Rightarrow> StateUnset)"

definition status_condition_to_cr :: "status_condition \<Rightarrow> status_condition" where
  "status_condition_to_cr c =
    \<lparr>c_last = c_last c, c_message = c_message c, c_reason = c_reason c,
     c_state = (case resource_state_to_cr (c_state c) of Some s \<Rightarrow> s | None \<Rightarrow> StateUnset),
     c_type = c_type c, c_occurrences = c_occurrences c\<rparr>"

definition conditions_to_cr :: "status_condition list \<Rightarrow> status_condition list" where
  "conditions_to_cr conds = map status_condition_to_cr conds"

definition status_condition_from_cr :: "status_condition \<Rightarrow> status_condition" where
  "status_condition_from_cr c =
    \<lparr>c_last = c_last c, c_message = c_message c, c_reason = c_reason c,
     c_state = resource_state_from_cr (c_state c), c_type = c_type c,
     c_occurrences = c_occurrences c\<rparr>"

definition conditions_from_cr :: "status_condition list \<Rightarrow> status_condition list" where
  "conditions_from_cr conds = map status_condition_from_cr conds"

lemma resource_state_roundtrip [status_simps]:
  "resource_state_to_cr s = Some s' \<Longrightarrow> resource_state_from_cr s' = s"
  by (cases s) (auto simp: resource_state_to_cr_def resource_state_from_cr_def)

lemma status_condition_roundtrip:
  "status_condition_from_cr (status_condition_to_cr c) =
     c\<lparr>c_state := resource_state_from_cr (c_state c)\<rparr>"
  by (cases "c_state c")
     (simp_all add: status_condition_from_cr_def status_condition_to_cr_def
        resource_state_to_cr_def resource_state_from_cr_def)

end
