(* ===== verification/Resource_Model.thy ===== *)
theory Resource_Model
  imports Status
begin

section \<open>The domain types\<close>

text \<open>
  Models the structs of \<^verbatim>\<open>framework/kernel/resource\<close>, \<^verbatim>\<open>resource/common/domain\<close> and the
  \<^verbatim>\<open>domain.go\<close> of every resource with a reconcile loop. A struct that embeds a metadata struct
  is an extension of the metadata record, so the embedded fields are read and written under the
  same names everywhere; a status struct that embeds \<^verbatim>\<open>domain.Status\<close> has it as its first field. A
  pointer that may be nil is an option.
\<close>

subsection \<open>\<^verbatim>\<open>framework/kernel/resource\<close>\<close>

record scope =
  sc_tenant :: string
  sc_workspace :: string

record identity = scope +
  id_name :: string
  id_version :: string

record list_params = scope +
  lp_limit :: int
  lp_skip_token :: string
  lp_selector :: string

text \<open>The optional cap a token asserts on the scope of its requests.\<close>

record token_scope =
  ts_tenants :: "string list"
  ts_regions :: "string list"
  ts_workspaces :: "string list"

subsection \<open>\<^verbatim>\<open>resource/common/domain\<close>\<close>

record common_metadata =
  md_name :: string
  md_provider :: string
  md_version :: string
  md_created :: time
  md_updated :: time
  md_deleted :: "time option"

record global_tenant_metadata = common_metadata +
  md_tenant :: string
  md_workspace :: string
  md_labels :: strmap
  md_annotations :: strmap
  md_extensions :: strmap

record regional_metadata = global_tenant_metadata +
  md_region :: string

record regional_network_metadata = regional_metadata +
  md_network :: string

record reference =
  ref_provider :: string
  ref_region :: string
  ref_resource :: string
  ref_tenant :: string
  ref_workspace :: string

datatype ip_version = IPVersionUnset | IPVersionIPv4 | IPVersionIPv6 | IPVersionOther string

record cidr =
  cidr_ipv4 :: string
  cidr_ipv6 :: string

text \<open>A decoded JSON value, a Go \<^verbatim>\<open>any\<close>; a number that is not an integer is kept as its text.\<close>

datatype json =
    JNull | JBool bool | JInt int | JFloat string | JString string
  | JArray "json list" | JObject "(string \<times> json) list"

subsection \<open>The resources\<close>

record workspace_status =
  wss_status :: status
  wss_resource_count :: "int option"

record workspace = regional_metadata +
  ws_spec :: "(string \<times> json) list"
  ws_status :: "workspace_status option"

record network_spec =
  nws_additional_cidrs :: "cidr list"
  nws_cidr :: cidr
  nws_sku_ref :: reference

record network_status =
  nwst_status :: status

record network = regional_metadata +
  nw_spec :: network_spec
  nw_status :: "network_status option"

record internet_gateway_status =
  igst_status :: status

record internet_gateway = regional_metadata +
  ig_egress_only :: bool
  ig_status :: "internet_gateway_status option"

record nic_spec =
  nics_addresses :: "string list"
  nics_public_ip_refs :: "reference list"
  nics_security_group_refs :: "reference list"
  nics_sku_ref :: reference
  nics_subnet_ref :: reference

record nic_status =
  nicst_status :: status
  nicst_addresses :: "string list"
  nicst_mac_address :: string
  nicst_public_ip_refs :: "reference list"

record nic = regional_metadata +
  nic_spec :: nic_spec
  nic_status :: "nic_status option"

record public_ip_status =
  pist_status :: status
  pist_attached_to :: "reference option"
  pist_ip_address :: string

record public_ip = regional_metadata +
  pi_address :: string
  pi_ip_version :: ip_version
  pi_status :: "public_ip_status option"

record route_spec =
  rs_destination :: string
  rs_target_ref :: reference

record route_table_status =
  rtst_status :: status
  rtst_routes :: "status list"

record route_table = regional_network_metadata +
  rt_routes :: "route_spec list"
  rt_status :: "route_table_status option"

record icmp_config =
  icmp_code :: int
  icmp_type :: int

record ports =
  ports_from :: int
  ports_list :: "int list"
  ports_to :: int

record security_group_rule_spec =
  sgrs_direction :: string
  sgrs_icmp :: "icmp_config option"
  sgrs_ports :: "ports option"
  sgrs_protocol :: string
  sgrs_source_ref :: "reference list"
  sgrs_version :: ip_version

record security_group_rule_status =
  sgrst_status :: status

record security_group_rule = regional_metadata +
  sgr_spec :: security_group_rule_spec
  sgr_status :: "security_group_rule_status option"

record security_group_status =
  sgst_status :: status
  sgst_rules :: "status list"

record security_group = regional_metadata +
  sg_rule_refs :: "reference list"
  sg_rules :: "security_group_rule_spec list"
  sg_status :: "security_group_status option"

record subnet_spec =
  sns_cidr :: cidr
  sns_route_table_ref :: reference
  sns_sku_ref :: reference
  sns_zone :: string

record subnet_status =
  snst_status :: status
  snst_cidr :: "cidr option"
  snst_route_table_ref :: "reference option"

record subnet = regional_network_metadata +
  sn_spec :: subnet_spec
  sn_status :: "subnet_status option"

record permission =
  perm_provider :: string
  perm_resources :: "string list"
  perm_verb :: "string list"

record role_status =
  rost_status :: status

record role = global_tenant_metadata +
  ro_permissions :: "permission list"
  ro_status :: "role_status option"

record role_assignment_scope =
  ras_tenants :: "string list"
  ras_regions :: "string list"
  ras_workspaces :: "string list"

record role_assignment_status =
  rast_status :: status

record role_assignment = global_tenant_metadata +
  ra_subs :: "string list"
  ra_scopes :: "role_assignment_scope list"
  ra_roles :: "string list"
  ra_status :: "role_assignment_status option"

record image_spec =
  imgs_block_storage_ref :: reference
  imgs_cpu_architecture :: string
  imgs_boot :: string
  imgs_initializer :: string

record image_status =
  imgst_size_mb :: "int option"
  imgst_status :: status

record image = regional_metadata +
  img_spec :: image_spec
  img_status :: "image_status option"

record block_storage_spec =
  bss_size_gb :: int
  bss_sku_ref :: reference
  bss_source_image_ref :: "reference option"

record block_storage_status =
  bsst_attached_to :: "reference option"
  bsst_size_gb :: int
  bsst_status :: status

record block_storage = regional_metadata +
  bs_spec :: block_storage_spec
  bs_status :: "block_storage_status option"

datatype power_state = PowerUnset | PowerOn | PowerOff | PowerOther string

datatype restart_phase = PhaseUnset | PhasePowerOff | PhasePowerOn | PhaseOther string

record volume_reference =
  vol_device_ref :: reference
  vol_type :: string

record instance_spec =
  ins_additional_nic_refs :: "reference list"
  ins_anti_affinity_group :: string
  ins_boot_volume :: volume_reference
  ins_data_volumes :: "volume_reference list"
  ins_primary_nic_ref :: "reference option"
  ins_security_group_ref :: "reference option"
  ins_sku_ref :: reference
  ins_ssh_keys :: "string list"
  ins_user_data :: string
  ins_zone :: string

record instance_status =
  inst_status :: status
  inst_power_state :: power_state
  inst_power_state_since :: "time option"

record instance_res = regional_metadata +
  in_spec :: instance_spec
  in_status :: "instance_status option"
  in_desired_power_state :: power_state
  in_restart_id :: string
  in_restart_phase :: restart_phase

end
