(* ===== verification/Ports.thy ===== *)
theory Ports
  imports Resource_Model
begin

section \<open>The ports: repositories, delegated operations, plugin handlers\<close>

text \<open>
  Models the interfaces of \<^verbatim>\<open>framework/kernel/port\<close> as records of state-passing functions over a
  world \<open>'w\<close> (the API server, the provider, the clock: everything outside the resource value in
  hand), and the parts of \<^verbatim>\<open>framework/backend/kubernetes/plugin.go\<close> every plugin handler embeds.
  An operation returns the error it would return, if any, and the new world. A delegated
  operation gets a pointer to the resource, so it returns the resource as it left it.
\<close>

record ('r, 'w) repo =
  rp_create :: "'r \<Rightarrow> 'w \<Rightarrow> (go_error + 'r) \<times> 'w"
  rp_update :: "'r \<Rightarrow> 'w \<Rightarrow> (go_error + 'r) \<times> 'w"
  rp_update_status :: "'r \<Rightarrow> 'w \<Rightarrow> (go_error + 'r) \<times> 'w"
  rp_delete :: "'r \<Rightarrow> 'w \<Rightarrow> go_error option \<times> 'w"
  rp_load :: "'r \<Rightarrow> 'w \<Rightarrow> (go_error + 'r) \<times> 'w"
  rp_list :: "list_params \<Rightarrow> 'w \<Rightarrow> (go_error + 'r list \<times> string option) \<times> 'w"

type_synonym ('r, 'w) delegated = "'r \<Rightarrow> 'w \<Rightarrow> go_error option \<times> 'r \<times> 'w"

type_synonym 'r rejection_condition = "'r \<Rightarrow> go_error option"

text \<open>A \<^verbatim>\<open>schema.GroupVersionResource\<close>.\<close>

record gvr =
  gvr_group :: string
  gvr_version :: string
  gvr_resource :: string

text \<open>
  What \<^verbatim>\<open>HandleReconcile\<close> comes to: its two results, or \<^verbatim>\<open>log.Fatal\<close>, which ends the process.
\<close>

datatype reconcile_result =
    Reconciled (requeue: bool) (reconcile_error: "go_error option")
  | ProcessExit

text \<open>
  The fields of a plugin handler: its repository, the operations of its plugin that every
  resource has, the condition limit, and the clock of its world.
\<close>

record ('r, 'w) plugin_handler =
  h_repo :: "('r, 'w) repo"
  h_create :: "('r, 'w) delegated"
  h_update :: "('r, 'w) delegated"
  h_delete :: "('r, 'w) delegated"
  h_max_conditions :: int
  h_now :: "'w \<Rightarrow> time"

text \<open>\<^verbatim>\<open>BypassDelegated\<close>: no external call.\<close>

definition bypass_delegated :: "('r, 'w) delegated" where
  "bypass_delegated r w = (None, r, w)"

text \<open>\<^verbatim>\<open>errors.Join\<close>: nil when there is nothing to join.\<close>

definition errors_join :: "go_error list \<Rightarrow> go_error option" where
  "errors_join es = (if es = [] then None
     else Some (WrapError (join ''\<newline>'' (map error_text es)) es))"

text \<open>\<^verbatim>\<open>HandleAdmission\<close>: every rejection condition is asked, the refusals are joined.\<close>

definition handle_admission :: "'r rejection_condition list \<Rightarrow> 'r \<Rightarrow> go_error option" where
  "handle_admission conds r =
    (case errors_join (List.map_filter (\<lambda>cond. cond r) conds) of
       Some err \<Rightarrow> Some (wrapf ''admission failed'' err)
     | None \<Rightarrow> None)"

lemma map_filter_empty_iff: "List.map_filter f xs = [] \<longleftrightarrow> (\<forall>x \<in> set xs. f x = None)"
  by (induction xs) (auto simp: List.map_filter_simps split: option.splits)

lemma handle_admission_None:
  "handle_admission conds r = None \<longleftrightarrow> (\<forall>cond \<in> set conds. cond r = None)"
proof -
  have "handle_admission conds r = None \<longleftrightarrow> List.map_filter (\<lambda>cond. cond r) conds = []"
    by (simp add: handle_admission_def errors_join_def)
  then show ?thesis by (simp only: map_filter_empty_iff)
qed

text \<open>The refusal wraps every condition that failed: \<^verbatim>\<open>errors.Is\<close> still finds each of them.\<close>

lemma handle_admission_wraps:
  assumes "cond \<in> set conds" and "cond r = Some e"
  obtains err where "handle_admission conds r = Some err" and "e \<in> set (chain err)"
proof -
  have e: "e \<in> set (List.map_filter (\<lambda>cond. cond r) conds)"
    using assms by (force simp: List.map_filter_def)
  then have "List.map_filter (\<lambda>cond. cond r) conds \<noteq> []" by auto
  with e have "\<exists>err. handle_admission conds r = Some err \<and> e \<in> set (chain err)"
    by (auto simp: handle_admission_def errors_join_def wrapf_def intro: chain_self)
  with that show ?thesis by blast
qed

end
