(* ===== verification/Reconcile_Common.thy ===== *)
theory Reconcile_Common
  imports Ports
begin

section \<open>What the plugin handlers share: \<^verbatim>\<open>resource/common/backend/update.go\<close>\<close>

text \<open>
  \<^verbatim>\<open>HandleUpdate\<close> drives the plugin's update of an active resource. Its \<^verbatim>\<open>*domain.Status\<close> argument
  points into the resource, so it is a pair of functions here, one that reads the status of the
  resource and one that writes it.
\<close>

definition persist_ignoring_missing ::
  "('r, 'w) repo \<Rightarrow> 'r \<Rightarrow> 'w \<Rightarrow> go_error option \<times> 'w" where
  "persist_ignoring_missing repo r w =
    (case rp_update_status repo r w of
       (Inl err, w') \<Rightarrow> if errors_is err err_not_found then (None, w') else (Some err, w')
     | (Inr _, w') \<Rightarrow> (None, w'))"

definition record_update_failure ::
  "('r \<Rightarrow> status) \<Rightarrow> (status \<Rightarrow> 'r \<Rightarrow> 'r) \<Rightarrow> ('r, 'w, 'm) plugin_handler_scheme \<Rightarrow> go_error \<Rightarrow> 'r \<Rightarrow> 'w
   \<Rightarrow> go_error option \<times> 'r \<times> 'w" where
  "record_update_failure get put h update_err r w =
    (let condition = update_failed_condition (h_now h w) StateActive (error_text update_err) in
     case peek_conditions (Some (get r)) of
       Some previous \<Rightarrow>
         if equal_status_conditions previous condition then (None, r, w)
         else (let r' = put (trim_conditions (h_max_conditions h)
                          (pushed (h_now h w) condition (get r))) r in
               case persist_ignoring_missing (h_repo h) r' w of (e, w') \<Rightarrow> (e, r', w'))
     | None \<Rightarrow>
         (let r' = put (trim_conditions (h_max_conditions h)
                          (pushed (h_now h w) condition (get r))) r in
          case persist_ignoring_missing (h_repo h) r' w of (e, w') \<Rightarrow> (e, r', w')))"

definition clear_update_failure ::
  "('r \<Rightarrow> status) \<Rightarrow> (status \<Rightarrow> 'r \<Rightarrow> 'r) \<Rightarrow> ('r, 'w, 'm) plugin_handler_scheme \<Rightarrow> 'r \<Rightarrow> 'w
   \<Rightarrow> go_error option \<times> 'r \<times> 'w" where
  "clear_update_failure get put h r w =
    (let kept = filter (\<lambda>c. c_type c \<noteq> update_failed_condition_type) (st_conditions (get r)) in
     if length kept = length (st_conditions (get r)) then (None, r, w)
     else (let st = (get r)\<lparr>st_conditions := kept\<rparr>;
               r' = put (trim_conditions (h_max_conditions h)
                      (pushed (h_now h w) (condition_from_state (h_now h w) StateActive) st)) r in
           case persist_ignoring_missing (h_repo h) r' w of (e, w') \<Rightarrow> (e, r', w')))"

definition handle_update ::
  "('r \<Rightarrow> status) \<Rightarrow> (status \<Rightarrow> 'r \<Rightarrow> 'r) \<Rightarrow> ('r, 'w, 'm) plugin_handler_scheme \<Rightarrow> 'r \<Rightarrow> 'w
   \<Rightarrow> reconcile_result \<times> 'r \<times> 'w" where
  "handle_update get put h r w =
    (case h_update h r w of
       (None, r1, w1) \<Rightarrow>
         (case clear_update_failure get put h r1 w1 of (e, r2, w2) \<Rightarrow> (Reconciled False e, r2, w2))
     | (Some update_err, r1, w1) \<Rightarrow>
         if errors_is update_err (Sentinel ErrStillProcessing) then (Reconciled True None, r1, w1)
         else (case record_update_failure get put h update_err r1 w1 of
                 (e, r2, w2) \<Rightarrow>
                   (Reconciled (\<not> errors_is update_err (Sentinel ErrNotSupported)) e, r2, w2)))"

subsection \<open>Facts about updates\<close>

lemma persist_ignoring_missing_cases:
  obtains (ok) "persist_ignoring_missing repo r w = (None, snd (rp_update_status repo r w))"
  | (err) e where "persist_ignoring_missing repo r w = (Some e, snd (rp_update_status repo r w))"
      and "\<not> has_kind KindNotFound e"
proof (cases "rp_update_status repo r w")
  case (Pair x w')
  show thesis
  proof (cases x)
    case (Inl err)
    with Pair that show thesis
      by (cases "has_kind KindNotFound err") (auto simp: persist_ignoring_missing_def errs)
  next
    case (Inr y)
    with Pair that show thesis by (simp add: persist_ignoring_missing_def)
  qed
qed

lemma persist_never_not_found:
  "persist_ignoring_missing repo r w = (Some e, w') \<Longrightarrow> \<not> has_kind KindNotFound e"
  by (rule persist_ignoring_missing_cases [of repo r w]) auto

lemma handle_update_never_exits: "fst (handle_update get put h r w) \<noteq> ProcessExit"
  by (auto simp: handle_update_def split: prod.splits option.splits)

lemma st_state_pushed_same:
  "st_state st = s \<Longrightarrow> c_state c = s \<Longrightarrow> st_state (pushed now c st) = s"
  by (rule pushed_cases [of st c now]) auto

lemma pushed_untyped:
  "\<forall>c \<in> set (st_conditions st). c_type c \<noteq> t \<Longrightarrow> c_type c \<noteq> t \<Longrightarrow>
   \<forall>c \<in> set (st_conditions (pushed now c st)). c_type c \<noteq> t"
  by (rule pushed_cases [of st c now]) auto

lemma trim_conditions_all:
  "\<forall>c \<in> set (st_conditions st). P c \<Longrightarrow> \<forall>c \<in> set (st_conditions (trim_conditions m st)). P c"
  by (auto simp: status_simps dest: in_set_takeD)

lemma filter_all_kept:
  "length (filter P xs) = length xs \<Longrightarrow> \<forall>x \<in> set xs. P x"
  by (metis length_filter_less linorder_neq_iff)

text \<open>
  The view the handlers have of a resource: whether its deletion has been requested, its status
  if it has one, and the write of a status, which creates the status struct when there is none.
  \<open>the_status\<close> is what the pointer into the resource reads.
\<close>

definition the_status :: "('r \<Rightarrow> status option) \<Rightarrow> 'r \<Rightarrow> status" where
  "the_status status_of r = (case status_of r of None \<Rightarrow> empty_status | Some st \<Rightarrow> st)"

locale status_view =
  fixes deleted :: "'r \<Rightarrow> bool" and status_of :: "'r \<Rightarrow> status option"
    and put_status :: "status \<Rightarrow> 'r \<Rightarrow> 'r"
  assumes status_put [simp]: "status_of (put_status st r) = Some st"
    and deleted_put [simp]: "deleted (put_status st r) = deleted r"

text \<open>The law of a pointer: what is written is read back.\<close>

locale status_pointer =
  fixes get :: "'r \<Rightarrow> status" and put :: "status \<Rightarrow> 'r \<Rightarrow> 'r"
  assumes get_put: "get (put st r) = st"
begin

lemma update_keeps_active:
  assumes u: "h_update h r w = (e, r1, w1)"
    and a: "st_state (get r1) = StateActive"
    and r: "handle_update get put h r w = (res, r2, w2)"
  shows "st_state (get r2) = StateActive"
  using r u a
  by (auto simp: handle_update_def clear_update_failure_def record_update_failure_def get_put Let_def
      st_state_pushed_same split: option.splits if_splits prod.splits)

text \<open>A failure that is already the newest condition is neither pushed nor written again.\<close>

lemma stable_failure_silent:
  assumes u: "h_update h r w = (Some err, r1, w1)"
    and np: "\<not> errors_is err (Sentinel ErrStillProcessing)"
    and c: "st_conditions (get r1) = c # cs"
    and eq: "equal_status_conditions c (update_failed_condition now StateActive (error_text err))"
  shows "handle_update get put h r w = (Reconciled (\<not> errors_is err (Sentinel ErrNotSupported)) None, r1, w1)"
  using assms
  by (simp add: handle_update_def record_update_failure_def peek_conditions_def
      equal_status_conditions_iff update_failed_condition_def)

text \<open>A success with nothing to retract is neither pushed nor written.\<close>

lemma clean_success_silent:
  assumes "h_update h r w = (None, r1, w1)"
    and "\<forall>c \<in> set (st_conditions (get r1)). c_type c \<noteq> update_failed_condition_type"
  shows "handle_update get put h r w = (Reconciled False None, r1, w1)"
  using assms by (simp add: handle_update_def clear_update_failure_def)

lemma success_retracts:
  assumes u: "h_update h r w = (None, r1, w1)"
    and r: "handle_update get put h r w = (res, r2, w2)"
  shows "\<forall>c \<in> set (st_conditions (get r2)). c_type c \<noteq> update_failed_condition_type"
proof (cases "length (filter (\<lambda>c. c_type c \<noteq> update_failed_condition_type) (st_conditions (get r1)))
    = length (st_conditions (get r1))")
  case True
  then have "r2 = r1" using r u by (simp add: handle_update_def clear_update_failure_def)
  with filter_all_kept [OF True] show ?thesis by simp
next
  case False
  let ?st = "(get r1)\<lparr>st_conditions :=
    filter (\<lambda>c. c_type c \<noteq> update_failed_condition_type) (st_conditions (get r1))\<rparr>"
  have eq: "get r2 = trim_conditions (h_max_conditions h)
      (pushed (h_now h w1) (condition_from_state (h_now h w1) StateActive) ?st)"
    using False r u
    by (auto simp: handle_update_def clear_update_failure_def get_put Let_def split: prod.splits)
  have pushed: "\<forall>c \<in> set (st_conditions
      (pushed (h_now h w1) (condition_from_state (h_now h w1) StateActive) ?st)).
      c_type c \<noteq> update_failed_condition_type"
    by (rule pushed_untyped) (simp_all add: update_failed_condition_type_def)
  show ?thesis
    unfolding eq by (rule trim_conditions_all) (rule pushed)
qed

text \<open>
  After a failure has been recorded, the same failure is found at the head: the second pass is
  silent (one condition of the limit at least).
\<close>

lemma recorded_failure_at_head:
  assumes u: "h_update h r w = (Some err, r1, w1)"
    and np: "\<not> errors_is err (Sentinel ErrStillProcessing)"
    and r: "handle_update get put h r w = (res, r2, w2)"
  obtains c cs where "st_conditions (get r2) = c # cs"
    and "equal_status_conditions c (update_failed_condition now StateActive (error_text err))"
proof -
  let ?c = "update_failed_condition (h_now h w1) StateActive (error_text err)"
  let ?new = "trim_conditions (h_max_conditions h) (pushed (h_now h w1) ?c (get r1))"
  have "get r2 = ?new \<or> (\<exists>c cs. get r2 = get r1 \<and> st_conditions (get r1) = c # cs \<and> equal_status_conditions c ?c)"
    using r u np
    by (auto simp: handle_update_def record_update_failure_def get_put Let_def peek_conditions_def
        split: if_splits prod.splits list.splits)
  moreover have "\<exists>c cs. st_conditions ?new = c # cs \<and> equal_status_conditions c ?c"
    by (rule pushed_head_equal [of "h_now h w1" ?c "get r1"], cases "nat (h_max_conditions h)")
      (auto simp: status_simps)
  ultimately have "\<exists>c cs. st_conditions (get r2) = c # cs \<and> equal_status_conditions c ?c" by auto
  with that show ?thesis
    by (meson equal_status_conditions_trans equal_update_failed)
qed

end

sublocale status_view \<subseteq> pointer: status_pointer "the_status status_of" put_status
  by unfold_locales (simp add: the_status_def)

end
