(* ===== verification/Lifecycle.thy ===== *)
theory Lifecycle
  imports Reconcile_Common
begin

section \<open>The lifecycle of a resource\<close>

text \<open>
  The contract of a plugin handler. \<open>lc_step\<close> is the abstract state machine: which lifecycle
  states may follow which, with and without a deletion mark. \<open>lifecycle\<close> is the reconcile pass the
  handlers have in common, as a reference definition over the view of a resource (deletion mark
  and status). The interfaces \<open>reconciler\<close> (every handler), \<open>shared_arms\<close> (handlers that have code
  of their own for some of the arms) and \<open>plain_reconciler\<close> (no code of their own) state what a
  handler promises; their lemmas are proved here once and reach the handlers by interpretation.
\<close>

subsection \<open>The abstract state machine\<close>

datatype phase = Accepted | Phase resource_state

definition phase_of :: "status option \<Rightarrow> phase" where
  "phase_of s = (case s of None \<Rightarrow> Accepted | Some st \<Rightarrow> Phase (st_state st))"

lemma phase_of_simps [simp]:
  "phase_of None = Accepted" "phase_of (Some st) = Phase (st_state st)"
  by (simp_all add: phase_of_def)

lemma phase_of_Accepted [simp]: "phase_of s = Accepted \<longleftrightarrow> s = None"
  by (cases s) auto

inductive lc_step :: "bool \<Rightarrow> phase \<Rightarrow> phase \<Rightarrow> bool" where
  lc_accept: "lc_step d Accepted (Phase StatePending)"
| lc_start: "lc_step False (Phase StatePending) (Phase StateCreating)"
| lc_dependency_failed: "lc_step False (Phase StatePending) (Phase StateError)"
| lc_created: "lc_step False (Phase StateCreating) (Phase StateActive)"
| lc_create_failed: "lc_step False (Phase StateCreating) (Phase StateError)"
| lc_retry: "lc_step False (Phase StateError) (Phase StateCreating)"
| lc_resize: "lc_step False (Phase StateActive) (Phase StateUpdating)"
| lc_resized: "lc_step False (Phase StateUpdating) (Phase StateActive)"
| lc_resize_failed: "lc_step False (Phase StateUpdating) (Phase StateError)"
| lc_resize_retry: "lc_step False (Phase StateError) (Phase StateUpdating)"
| lc_delete: "s \<noteq> StateDeleting \<Longrightarrow> lc_step True (Phase s) (Phase StateDeleting)"
| lc_referrers_failed: "s \<noteq> StateDeleting \<Longrightarrow> lc_step True (Phase s) (Phase StateError)"
| lc_delete_failed: "lc_step True (Phase StateDeleting) (Phase StateError)"

inductive_cases into_active: "lc_step d p (Phase StateActive)"
inductive_cases into_creating: "lc_step d p (Phase StateCreating)"
inductive_cases into_deleting: "lc_step d p (Phase StateDeleting)"
inductive_cases into_updating: "lc_step d p (Phase StateUpdating)"
inductive_simps deletion_step: "lc_step True p p'"
inductive_simps live_step: "lc_step False p p'"

definition lc_move :: "bool \<Rightarrow> phase \<Rightarrow> phase \<Rightarrow> bool" where
  "lc_move d p p' \<longleftrightarrow> p = p' \<or> lc_step d p p'"

lemma lc_move_refl [simp, intro]: "lc_move d p p"
  by (simp add: lc_move_def)

lemma lc_move_step: "lc_step d p p' \<Longrightarrow> lc_move d p p'"
  by (simp add: lc_move_def)

lemmas lc_moves [intro] = lc_step.intros [THEN lc_move_step]

lemma active_only_from:
  "lc_move d p (Phase StateActive) \<Longrightarrow>
     p = Phase StateActive \<or> \<not> d \<and> p \<in> {Phase StateCreating, Phase StateUpdating}"
  by (auto simp: lc_move_def elim: into_active)

text \<open>A resource marked for deletion never comes back to life.\<close>

definition alive :: "phase \<Rightarrow> bool" where
  "alive p \<longleftrightarrow> p \<in> {Phase StateCreating, Phase StateActive, Phase StateUpdating}"

lemma deletion_never_revives:
  "lc_move True p p' \<Longrightarrow> alive p' \<Longrightarrow> p = p'"
  by (auto simp: lc_move_def alive_def deletion_step)

lemma deleting_only_when_marked:
  "lc_move d p (Phase StateDeleting) \<Longrightarrow> p = Phase StateDeleting \<or> d"
  by (auto simp: lc_move_def elim: into_deleting)

text \<open>The deletion mark of a resource.\<close>

definition deleted_at :: "'m common_metadata_scheme \<Rightarrow> bool" where
  "deleted_at r \<longleftrightarrow> md_deleted r \<noteq> None"

subsection \<open>The arms of the reconcile switch\<close>

datatype arm =
    ArmActive | ArmAccepted | ArmPending | ArmCreating | ArmWantDelete | ArmDeleting | ArmRetry | ArmIdle

text \<open>The second newest condition is the one the error was pushed over.\<close>

definition failed_while :: "resource_state \<Rightarrow> status \<Rightarrow> bool" where
  "failed_while s st \<longleftrightarrow> 1 < length (st_conditions st) \<and> c_state (st_conditions st ! 1) = s"

definition arm_of :: "bool \<Rightarrow> status option \<Rightarrow> arm" where
  "arm_of d s = (case s of
      None \<Rightarrow> ArmAccepted
    | Some st \<Rightarrow>
        if d then (if st_state st = StateDeleting then ArmDeleting else ArmWantDelete)
        else (case st_state st of
            StateActive \<Rightarrow> ArmActive
          | StatePending \<Rightarrow> ArmPending
          | StateCreating \<Rightarrow> ArmCreating
          | StateError \<Rightarrow> if failed_while StateCreating st then ArmRetry else ArmIdle
          | _ \<Rightarrow> ArmIdle))"

lemma arm_of_None [simp]: "arm_of d None = ArmAccepted"
  by (simp add: arm_of_def)

lemma arm_of_iff:
  "arm_of d s = ArmAccepted \<longleftrightarrow> s = None"
  "arm_of d (Some st) = ArmActive \<longleftrightarrow> \<not> d \<and> st_state st = StateActive"
  "arm_of d (Some st) = ArmPending \<longleftrightarrow> \<not> d \<and> st_state st = StatePending"
  "arm_of d (Some st) = ArmCreating \<longleftrightarrow> \<not> d \<and> st_state st = StateCreating"
  "arm_of d (Some st) = ArmWantDelete \<longleftrightarrow> d \<and> st_state st \<noteq> StateDeleting"
  "arm_of d (Some st) = ArmDeleting \<longleftrightarrow> d \<and> st_state st = StateDeleting"
  "arm_of d (Some st) = ArmRetry \<longleftrightarrow>
     \<not> d \<and> st_state st = StateError \<and> failed_while StateCreating st"
  by (auto simp: arm_of_def split: option.splits resource_state.splits if_splits)

subsection \<open>The reference reconcile pass\<close>

text \<open>Push a condition, trim, persist; an object that is gone by now is nothing to report.\<close>

definition settle ::
  "('r \<Rightarrow> status option) \<Rightarrow> (status \<Rightarrow> 'r \<Rightarrow> 'r) \<Rightarrow> ('r, 'w, 'm) plugin_handler_scheme
   \<Rightarrow> status_condition \<Rightarrow> bool \<Rightarrow> 'r \<Rightarrow> 'w \<Rightarrow> reconcile_result \<times> 'r \<times> 'w" where
  "settle status_of put h c rq r w =
    (let r' = put (trim_conditions (h_max_conditions h)
                (pushed (h_now h w) c (the_status status_of r))) r in
     case rp_update_status (h_repo h) r' w of
       (Inl err, w') \<Rightarrow>
         if errors_is err err_not_found then (Reconciled False None, r', w')
         else (Reconciled rq (Some err), r', w')
     | (Inr _, w') \<Rightarrow> (Reconciled rq None, r', w'))"

definition settle_state where
  "settle_state status_of put h s rq r w =
     settle status_of put h (condition_from_state (h_now h w) s) rq r w"

text \<open>A delegate that failed: the error is recorded, and the pass requeues when that worked.\<close>

definition settle_failure where
  "settle_failure status_of put h err r w =
    (if errors_is err (Sentinel ErrStillProcessing) then (Reconciled True None, r, w)
     else (case settle status_of put h (condition_from_error (h_now h w) err) False r w of
        (Reconciled rq (Some e), r', w') \<Rightarrow> (Reconciled rq (Some e), r', w')
      | (_, r', w') \<Rightarrow> (Reconciled True None, r', w')))"

definition delegate_of :: "arm \<Rightarrow> ('r, 'w, 'm) plugin_handler_scheme \<Rightarrow> ('r, 'w) delegated" where
  "delegate_of a h = (case a of
      ArmCreating \<Rightarrow> h_create h
    | ArmDeleting \<Rightarrow> h_delete h
    | _ \<Rightarrow> bypass_delegated)"

definition after_delegate where
  "after_delegate deleted status_of put h r w =
    (case arm_of (deleted r) (status_of r) of
       ArmAccepted \<Rightarrow> settle_state status_of put h StatePending False r w
     | ArmPending \<Rightarrow> settle_state status_of put h StateCreating True r w
     | ArmCreating \<Rightarrow> settle_state status_of put h StateActive False r w
     | ArmWantDelete \<Rightarrow> settle_state status_of put h StateDeleting True r w
     | ArmDeleting \<Rightarrow> (Reconciled False None, r, w)
     | ArmRetry \<Rightarrow> settle_state status_of put h StateCreating True r w
     | _ \<Rightarrow> (ProcessExit, r, w))"

definition lifecycle ::
  "('r \<Rightarrow> bool) \<Rightarrow> ('r \<Rightarrow> status option) \<Rightarrow> (status \<Rightarrow> 'r \<Rightarrow> 'r)
   \<Rightarrow> ('r, 'w, 'm) plugin_handler_scheme \<Rightarrow> 'r \<Rightarrow> 'w \<Rightarrow> reconcile_result \<times> 'r \<times> 'w" where
  "lifecycle deleted status_of put h r w =
    (case arm_of (deleted r) (status_of r) of
       ArmActive \<Rightarrow> handle_update (the_status status_of) put h r w
     | ArmIdle \<Rightarrow> (Reconciled False None, r, w)
     | a \<Rightarrow> (case delegate_of a h r w of
         (Some err, r1, w1) \<Rightarrow> settle_failure status_of put h err r1 w1
       | (None, r1, w1) \<Rightarrow> after_delegate deleted status_of put h r1 w1))"

text \<open>
  What the handlers rely on: the plugin's operations leave the lifecycle of the resource to the
  handler. They may change anything else of it.
\<close>

definition quiet :: "('r \<Rightarrow> bool) \<Rightarrow> ('r \<Rightarrow> status option) \<Rightarrow> ('r, 'w) delegated \<Rightarrow> bool" where
  "quiet deleted status_of op \<longleftrightarrow> (\<forall>r w.
     deleted (fst (snd (op r w))) = deleted r \<and> status_of (fst (snd (op r w))) = status_of r)"

definition quiet_plugin where
  "quiet_plugin deleted status_of h \<longleftrightarrow>
     quiet deleted status_of (h_create h) \<and> quiet deleted status_of (h_update h) \<and>
     quiet deleted status_of (h_delete h)"

lemma quietD:
  "quiet deleted status_of op \<Longrightarrow> op r w = (e, r1, w1) \<Longrightarrow> deleted r1 = deleted r"
  "quiet deleted status_of op \<Longrightarrow> op r w = (e, r1, w1) \<Longrightarrow> status_of r1 = status_of r"
  by (metis quiet_def fst_conv snd_conv)+

lemma quiet_bypass [simp]: "quiet deleted status_of bypass_delegated"
  by (simp add: quiet_def bypass_delegated_def)

lemma quiet_delegate_of:
  "quiet_plugin deleted status_of h \<Longrightarrow> quiet deleted status_of (delegate_of a h)"
  by (cases a) (simp_all add: delegate_of_def quiet_plugin_def)

definition view_ok :: "status option \<Rightarrow> bool" where
  "view_ok s = (case s of None \<Rightarrow> True | Some st \<Rightarrow> status_ok st)"

lemma view_ok_simps [simp]: "view_ok None" "view_ok (Some st) = status_ok st"
  by (simp_all add: view_ok_def)

lemma status_ok_the_status: "view_ok (status_of r) \<Longrightarrow> status_ok (the_status status_of r)"
  by (auto simp: the_status_def split: option.splits)

lemma status_ok_pushed_same:
  "st_state st = s \<Longrightarrow> c_state c = s \<Longrightarrow> status_ok (pushed now c st)"
  by (rule pushed_cases [of st c now]) (auto simp: status_ok_def)

lemma settle_result: "\<exists>rq e r' w'. settle status_of put h c b r w = (Reconciled rq e, r', w')"
  by (auto simp: settle_def Let_def split: prod.splits sum.splits)

lemma settle_failure_result:
  "\<exists>rq e r' w'. settle_failure status_of put h err r w = (Reconciled rq e, r', w')"
  by (auto simp: settle_failure_def split: prod.splits reconcile_result.splits option.splits)

text \<open>
  The shape of a pass, with the code for an active resource and for the second switch left open,
  and when two passes of that shape agree.
\<close>

definition pass_shape where
  "pass_shape deleted status_of put active after h r w =
    (case arm_of (deleted r) (status_of r) of
       ArmActive \<Rightarrow> active r w
     | ArmIdle \<Rightarrow> (Reconciled False None, r, w)
     | a \<Rightarrow> (case delegate_of a h r w of
         (Some err, r1, w1) \<Rightarrow> settle_failure status_of put h err r1 w1
       | (None, r1, w1) \<Rightarrow> after r1 w1))"

lemma lifecycle_shape:
  "lifecycle deleted status_of put h r w =
   pass_shape deleted status_of put (handle_update (the_status status_of) put h)
     (after_delegate deleted status_of put h) h r w"
  by (simp add: lifecycle_def pass_shape_def)

lemma pass_shape_agree:
  assumes q: "quiet_plugin deleted status_of h"
    and active: "arm_of (deleted r) (status_of r) = ArmActive \<Longrightarrow> active r w = active' r w"
    and after: "\<And>r1 w1. deleted r1 = deleted r \<Longrightarrow> status_of r1 = status_of r \<Longrightarrow> after r1 w1 = after' r1 w1"
  shows "pass_shape deleted status_of put active after h r w =
    pass_shape deleted status_of put active' after' h r w"
proof -
  let ?a = "arm_of (deleted r) (status_of r)"
  obtain e r1 w1 where d: "delegate_of ?a h r w = (e, r1, w1)" by (metis prod_cases3)
  with quiet_delegate_of [OF q] have "after r1 w1 = after' r1 w1" by (intro after) (auto dest: quietD)
  with active d show ?thesis
    by (cases ?a; cases e) (simp_all add: pass_shape_def)
qed

text \<open>What one pass promises: it returns, keeps the deletion mark and makes at most one step.\<close>

definition pass_ok where
  "pass_ok deleted status_of r res r' \<longleftrightarrow>
     res \<noteq> ProcessExit \<and> deleted r' = deleted r \<and> view_ok (status_of r') \<and>
     lc_move (deleted r) (phase_of (status_of r)) (phase_of (status_of r'))"

lemma pass_okI:
  "res \<noteq> ProcessExit \<Longrightarrow> deleted r' = deleted r \<Longrightarrow> view_ok (status_of r') \<Longrightarrow>
   lc_move (deleted r) (phase_of (status_of r)) (phase_of (status_of r')) \<Longrightarrow>
   pass_ok deleted status_of r res r'"
  by (simp add: pass_ok_def)

lemma pass_okD:
  assumes "pass_ok deleted status_of r res r'"
  shows "res \<noteq> ProcessExit" and "deleted r' = deleted r" and "view_ok (status_of r')"
    and "lc_move (deleted r) (phase_of (status_of r)) (phase_of (status_of r'))"
  using assms by (simp_all add: pass_ok_def)

text \<open>All an update writes is a status made by a push that keeps the resource active.\<close>

definition rewritten where
  "rewritten m get put r r' \<longleftrightarrow> r' = r \<or>
     (\<exists>n c st. r' = put (trim_conditions m (pushed n c st)) r \<and>
        st_state st = st_state (get r) \<and> c_state c = StateActive)"

lemma rewrittenI:
  "r' = put (trim_conditions m (pushed n c st)) r \<Longrightarrow> st_state st = st_state (get r) \<Longrightarrow>
   c_state c = StateActive \<Longrightarrow> rewritten m get put r r'"
  by (auto simp: rewritten_def)

lemma clear_rewritten:
  assumes "clear_update_failure get put h r w = (e, r', w')"
  shows "rewritten (h_max_conditions h) get put r r'"
proof (cases "length (filter (\<lambda>c. c_type c \<noteq> update_failed_condition_type) (st_conditions (get r)))
    = length (st_conditions (get r))")
  case True
  with assms show ?thesis by (simp add: clear_update_failure_def rewritten_def)
next
  case False
  with assms show ?thesis
    by (intro rewrittenI [where n = "h_now h w"
          and c = "condition_from_state (h_now h w) StateActive"
          and st = "(get r)\<lparr>st_conditions := filter (\<lambda>c. c_type c \<noteq> update_failed_condition_type)
              (st_conditions (get r))\<rparr>"])
      (auto simp: clear_update_failure_def Let_def split: prod.splits)
qed

lemma record_rewritten:
  assumes "record_update_failure get put h err r w = (e, r', w')"
  shows "rewritten (h_max_conditions h) get put r r'"
proof (cases "r' = r")
  case True
  then show ?thesis by (simp add: rewritten_def)
next
  case False
  with assms show ?thesis
    by (intro rewrittenI [where n = "h_now h w"
          and c = "update_failed_condition (h_now h w) StateActive (error_text err)" and st = "get r"])
      (auto simp: record_update_failure_def Let_def split: prod.splits option.splits if_splits)
qed

context status_view begin

lemma settle_cases:
  assumes "settle status_of put_status h c b r w = (res, r', w')"
  obtains rq e where "res = Reconciled rq e"
    and "r' = put_status (trim_conditions (h_max_conditions h)
           (pushed (h_now h w) c (the_status status_of r))) r"
    and "w' = snd (rp_update_status (h_repo h) r' w)"
  using assms by (auto simp: settle_def Let_def split: prod.splits sum.splits if_splits)

lemma settle_view:
  assumes "settle status_of put_status h c b r w = (res, r', w')" and "view_ok (status_of r)"
  shows "res \<noteq> ProcessExit" and "deleted r' = deleted r" and "view_ok (status_of r')"
    and "phase_of (status_of r') = Phase (c_state c)"
  using assms(1) by (rule settle_cases, simp add: status_ok_trim status_ok_pushed st_state_pushed
      status_ok_the_status assms(2))+

lemma settle_pass_ok:
  assumes "settle status_of put_status h c b r w = (res, r', w')" and "view_ok (status_of r)"
    and "deleted r = deleted r0" and "lc_move (deleted r0) (phase_of (status_of r0)) (Phase (c_state c))"
  shows "pass_ok deleted status_of r0 res r'"
  using settle_view [OF assms(1,2)] assms(3,4) by (simp add: pass_ok_def)

lemma settle_failure_cases:
  assumes "settle_failure status_of put_status h err r w = (res, r', w')"
  obtains (busy) "errors_is err (Sentinel ErrStillProcessing)" "res = Reconciled True None" "r' = r" "w' = w"
  | (failed) res1 where "\<not> errors_is err (Sentinel ErrStillProcessing)"
      "settle status_of put_status h (condition_from_error (h_now h w) err) False r w = (res1, r', w')"
      "res \<noteq> ProcessExit"
  using assms
  by (auto simp: settle_failure_def split: if_splits prod.splits reconcile_result.splits option.splits)

lemma settle_failure_pass_ok:
  assumes "settle_failure status_of put_status h err r w = (res, r', w')" and "view_ok (status_of r)"
    and "deleted r = deleted r0" and "status_of r = status_of r0"
    and "lc_move (deleted r0) (phase_of (status_of r0)) (Phase StateError)"
  shows "pass_ok deleted status_of r0 res r'"
  using assms(1)
proof (cases rule: settle_failure_cases)
  case busy
  then show ?thesis using assms by (simp add: pass_ok_def)
next
  case (failed res1)
  from settle_view [OF failed(2) assms(2)] failed(3) assms(3-5) show ?thesis
    by (simp add: pass_ok_def)
qed

lemma handle_update_rewritten:
  assumes u: "h_update h r w = (e, r1, w1)"
    and r: "handle_update (the_status status_of) put_status h r w = (res, r2, w2)"
  shows "rewritten (h_max_conditions h) (the_status status_of) put_status r1 r2"
proof (cases e)
  case None
  with u r have "clear_update_failure (the_status status_of) put_status h r1 w1 = (reconcile_error res, r2, w2)"
    by (auto simp: handle_update_def split: prod.splits)
  then show ?thesis by (rule clear_rewritten)
next
  case (Some err)
  show ?thesis
  proof (cases "errors_is err (Sentinel ErrStillProcessing)")
    case True
    with Some u r show ?thesis by (simp add: handle_update_def rewritten_def)
  next
    case False
    with Some u r have "record_update_failure (the_status status_of) put_status h err r1 w1
        = (reconcile_error res, r2, w2)"
      by (auto simp: handle_update_def split: prod.splits)
    then show ?thesis by (rule record_rewritten)
  qed
qed

lemma handle_update_view:
  assumes u: "h_update h r w = (e, r1, w1)"
    and r: "handle_update (the_status status_of) put_status h r w = (res, r2, w2)"
    and s: "status_of r1 = Some st" and a: "st_state st = StateActive" and ok: "status_ok st"
  shows "res \<noteq> ProcessExit" and "deleted r2 = deleted r1" and "view_ok (status_of r2)"
    and "phase_of (status_of r2) = Phase StateActive"
proof -
  show "res \<noteq> ProcessExit"
    using handle_update_never_exits [of "the_status status_of" put_status h r w] r by simp
  from handle_update_rewritten [OF u r] have "deleted r2 = deleted r1 \<and> view_ok (status_of r2) \<and> phase_of (status_of r2) = Phase StateActive"
    using s a ok
    by (auto simp: rewritten_def the_status_def st_state_pushed_same status_ok_pushed_same
        intro!: status_ok_trim)
  then show "deleted r2 = deleted r1" "view_ok (status_of r2)" "phase_of (status_of r2) = Phase StateActive"
    by auto
qed

end

end
