(* ===== verification/Reconcilers.thy ===== *)
theory Reconcilers
  imports Lifecycle
begin

section \<open>What every plugin handler promises\<close>

text \<open>
  The interfaces between the plugin handlers and the controller that calls them, with what
  follows from them: a pass returns, makes a step of the lifecycle machine, never undoes a
  deletion mark; repeated passes provision and delete a resource. \<open>passes\<close> is the controller's
  repetition of a handler's pass, on the resource as the pass left it.
\<close>

fun passes :: "('r \<Rightarrow> 'w \<Rightarrow> reconcile_result \<times> 'r \<times> 'w) \<Rightarrow> nat \<Rightarrow> 'r \<Rightarrow> 'w \<Rightarrow> 'r \<times> 'w" where
  "passes f 0 r w = (r, w)"
| "passes f (Suc n) r w = (case f r w of (res, r', w') \<Rightarrow> passes f n r' w')"

lemma passes_reach:
  assumes step: "\<And>r w res r' w'. G r \<Longrightarrow> \<not> D r w \<Longrightarrow> f r w = (res, r', w') \<Longrightarrow>
      D r' w' \<or> G r' \<and> (\<mu> r' w' :: nat) < \<mu> r w"
    and G: "G r"
  shows "\<exists>n \<le> Suc (\<mu> r w). \<exists>r' w'. passes f n r w = (r', w') \<and> D r' w'"
  using G
proof (induction "\<mu> r w" arbitrary: r w rule: less_induct)
  case less
  show ?case
  proof (cases "D r w")
    case True
    then show ?thesis by (intro exI [of _ 0]) simp
  next
    case False
    obtain res r1 w1 where f: "f r w = (res, r1, w1)" by (metis prod_cases3)
    from step [OF less.prems False f] show ?thesis
    proof
      assume "D r1 w1"
      then show ?thesis by (intro exI [of _ 1]) (simp add: f)
    next
      assume s: "G r1 \<and> \<mu> r1 w1 < \<mu> r w"
      with less.hyps [of r1 w1] obtain n r' w' where
        "n \<le> Suc (\<mu> r1 w1)" "passes f n r1 w1 = (r', w')" "D r' w'" by blast
      with s show ?thesis by (intro exI [of _ "Suc n"]) (auto simp: f)
    qed
  qed
qed

subsection \<open>Every handler: steps of the lifecycle machine\<close>

locale reconciler = status_view deleted status_of put_status
  for deleted :: "'r \<Rightarrow> bool" and status_of :: "'r \<Rightarrow> status option"
    and put_status :: "status \<Rightarrow> 'r \<Rightarrow> 'r" +
  fixes tame :: "('r, 'w, 'm) plugin_handler_scheme \<Rightarrow> bool"
    and reconcile :: "('r, 'w, 'm) plugin_handler_scheme \<Rightarrow> 'r \<Rightarrow> 'w \<Rightarrow> reconcile_result \<times> 'r \<times> 'w"
  assumes reconcile_pass: "tame h \<Longrightarrow> view_ok (status_of r) \<Longrightarrow> reconcile h r w = (res, r', w') \<Longrightarrow>
    pass_ok deleted status_of r res r'"
begin

lemma never_exits:
  "tame h \<Longrightarrow> view_ok (status_of r) \<Longrightarrow> fst (reconcile h r w) \<noteq> ProcessExit"
  by (metis reconcile_pass pass_okD(1) prod.collapse)

lemma refines_lifecycle:
  assumes "tame h" and "view_ok (status_of r)" and "reconcile h r w = (res, r', w')"
  shows "deleted r' = deleted r" and "view_ok (status_of r')"
    and "lc_move (deleted r) (phase_of (status_of r)) (phase_of (status_of r'))"
  using pass_okD [OF reconcile_pass [OF assms]] by auto

lemma passes_refine:
  assumes "tame h"
  shows "view_ok (status_of r) \<Longrightarrow> passes (reconcile h) n r w = (r', w') \<Longrightarrow>
    deleted r' = deleted r \<and> view_ok (status_of r') \<and>
    (lc_step (deleted r))\<^sup>*\<^sup>* (phase_of (status_of r)) (phase_of (status_of r'))"
proof (induction n arbitrary: r w)
  case 0
  then show ?case by simp
next
  case (Suc n)
  obtain res r1 w1 where f: "reconcile h r w = (res, r1, w1)" by (metis prod_cases3)
  note one = refines_lifecycle [OF assms Suc.prems(1) f]
  have "passes (reconcile h) n r1 w1 = (r', w')" using Suc.prems(2) f by simp
  from Suc.IH [OF one(2) this] one show ?case
    by (auto simp: lc_move_def intro: converse_rtranclp_into_rtranclp)
qed

lemma marked_never_revives:
  assumes "tame h" and "view_ok (status_of r)" and "deleted r"
    and "\<not> alive (phase_of (status_of r))" and "passes (reconcile h) n r w = (r', w')"
  shows "deleted r' \<and> \<not> alive (phase_of (status_of r'))"
  using assms(2-)
proof (induction n arbitrary: r w)
  case 0
  then show ?case by simp
next
  case (Suc n)
  obtain res r1 w1 where f: "reconcile h r w = (res, r1, w1)" by (metis prod_cases3)
  note one = refines_lifecycle [OF assms(1) Suc.prems(1) f]
  have "passes (reconcile h) n r1 w1 = (r', w')" using Suc.prems(4) f by simp
  moreover have "\<not> alive (phase_of (status_of r1))"
    using one Suc.prems(2,3) deletion_never_revives by metis
  ultimately show ?case using Suc.IH [OF one(2)] one(1) Suc.prems(2) by blast
qed

end

subsection \<open>Handlers that share arms of the reference pass\<close>

context status_view begin

lemma pass_ok_cong:
  "deleted r1 = deleted r \<Longrightarrow> status_of r1 = status_of r \<Longrightarrow>
   pass_ok deleted status_of r1 res r' = pass_ok deleted status_of r res r'"
  by (simp add: pass_ok_def)

lemma after_delegate_pass_ok:
  assumes ok: "view_ok (status_of r)"
    and a: "arm_of (deleted r) (status_of r) \<noteq> ArmActive" "arm_of (deleted r) (status_of r) \<noteq> ArmIdle"
    and s: "after_delegate deleted status_of put_status h r w = (res, r', w')"
  shows "pass_ok deleted status_of r res r'"
proof (cases "status_of r")
  case None
  with s have "settle status_of put_status h (condition_from_state (h_now h w) StatePending) False r w
      = (res, r', w')"
    by (simp add: after_delegate_def settle_state_def)
  then show ?thesis by (rule settle_pass_ok [OF _ ok]) (use None in auto)
next
  case (Some st)
  show ?thesis
  proof (cases "arm_of (deleted r) (status_of r) = ArmDeleting")
    case True
    with s ok show ?thesis by (auto simp: after_delegate_def pass_ok_def)
  next
    case False
    with s a Some show ?thesis
      by (auto simp: after_delegate_def settle_state_def arm_of_iff split: arm.splits)
        (rule settle_pass_ok [OF _ ok], assumption, auto)+
  qed
qed

lemma lifecycle_pass_ok:
  assumes q: "quiet_plugin deleted status_of h" and ok: "view_ok (status_of r)"
    and s: "lifecycle deleted status_of put_status h r w = (res, r', w')"
  shows "pass_ok deleted status_of r res r'"
proof -
  let ?a = "arm_of (deleted r) (status_of r)"
  consider (active) "?a = ArmActive" | (idle) "?a = ArmIdle"
    | (other) "?a \<noteq> ArmActive" "?a \<noteq> ArmIdle" by blast
  then show ?thesis
  proof cases
    case active
    then obtain st where st: "status_of r = Some st" "\<not> deleted r" "st_state st = StateActive"
      by (cases "status_of r") (auto simp: arm_of_iff)
    obtain e r1 w1 where u: "h_update h r w = (e, r1, w1)" by (metis prod_cases3)
    with q have r1: "deleted r1 = deleted r" "status_of r1 = status_of r"
      by (auto simp: quiet_plugin_def dest: quietD)
    from active s have "handle_update (the_status status_of) put_status h r w = (res, r', w')"
      by (simp add: lifecycle_def)
    from handle_update_view [OF u this] st r1 ok show ?thesis by (simp add: pass_ok_def)
  next
    case idle
    with s ok show ?thesis by (auto simp: lifecycle_def pass_ok_def)
  next
    case other
    obtain e r1 w1 where d: "delegate_of ?a h r w = (e, r1, w1)" by (metis prod_cases3)
    with quiet_delegate_of [OF q] have r1: "deleted r1 = deleted r" "status_of r1 = status_of r"
      by (auto dest: quietD)
    show ?thesis
    proof (cases e)
      case None
      with other d s have "after_delegate deleted status_of put_status h r1 w1 = (res, r', w')"
        by (auto simp: lifecycle_def split: arm.splits)
      then have "pass_ok deleted status_of r1 res r'"
        by (rule after_delegate_pass_ok [rotated 3]) (simp_all add: r1 ok other)
      then show ?thesis by (simp only: pass_ok_cong [OF r1])
    next
      case (Some err)
      with d have "?a = ArmCreating \<or> ?a = ArmDeleting"
        by (auto simp: delegate_of_def bypass_delegated_def split: arm.splits)
      then have "lc_move (deleted r) (phase_of (status_of r)) (Phase StateError)"
        by (cases "status_of r") (auto simp: arm_of_iff)
      moreover from Some other d s have "settle_failure status_of put_status h err r1 w1 = (res, r', w')"
        by (auto simp: lifecycle_def split: arm.splits)
      ultimately show ?thesis using settle_failure_pass_ok r1 ok by metis
    qed
  qed
qed

end

text \<open>
  A handler with code of its own for some arms (\<open>own\<close>) makes the reference pass on the others. It
  needs its plugin to be \<open>tame\<close>: at least quiet.
\<close>

locale shared_arms = status_view deleted status_of put_status
  for deleted :: "'r \<Rightarrow> bool" and status_of :: "'r \<Rightarrow> status option"
    and put_status :: "status \<Rightarrow> 'r \<Rightarrow> 'r" +
  fixes tame :: "('r, 'w, 'm) plugin_handler_scheme \<Rightarrow> bool"
    and reconcile :: "('r, 'w, 'm) plugin_handler_scheme \<Rightarrow> 'r \<Rightarrow> 'w \<Rightarrow> reconcile_result \<times> 'r \<times> 'w"
    and own :: "arm \<Rightarrow> bool"
  assumes tame_quiet: "tame h \<Longrightarrow> quiet_plugin deleted status_of h"
    and shared: "tame h \<Longrightarrow> \<not> own (arm_of (deleted r) (status_of r)) \<Longrightarrow>
      reconcile h r w = lifecycle deleted status_of put_status h r w"
    and own_pass: "tame h \<Longrightarrow> own (arm_of (deleted r) (status_of r)) \<Longrightarrow> view_ok (status_of r) \<Longrightarrow>
      reconcile h r w = (res, r', w') \<Longrightarrow> pass_ok deleted status_of r res r'"
begin

lemma reconcile_pass_ok:
  assumes "tame h" and "view_ok (status_of r)" and "reconcile h r w = (res, r', w')"
  shows "pass_ok deleted status_of r res r'"
proof (cases "own (arm_of (deleted r) (status_of r))")
  case True
  with assms own_pass show ?thesis by blast
next
  case False
  with assms shared have "lifecycle deleted status_of put_status h r w = (res, r', w')" by simp
  with lifecycle_pass_ok [OF tame_quiet] assms show ?thesis by blast
qed

text \<open>A new resource is admitted into \<open>pending\<close>, deletion mark or not.\<close>

lemma accepts:
  assumes "tame h" and "\<not> own ArmAccepted" and "status_of r = None"
    and "reconcile h r w = (res, r', w')"
  shows "phase_of (status_of r') = Phase StatePending"
proof -
  have "settle status_of put_status h (condition_from_state (h_now h w) StatePending) False r w = (res, r', w')"
    using shared [of h r w] assms
    by (simp add: lifecycle_def delegate_of_def bypass_delegated_def after_delegate_def settle_state_def)
  from settle_view(4) [OF this] assms(3) show ?thesis by simp
qed

text \<open>A resource becomes active only by a creation its plugin reports as done.\<close>

lemma active_by_create:
  assumes t: "tame h" and own: "\<not> own ArmCreating" "\<not> own ArmIdle" and ok: "view_ok (status_of r)"
    and s: "reconcile h r w = (res, r', w')"
    and a: "phase_of (status_of r') = Phase StateActive" "phase_of (status_of r) \<noteq> Phase StateActive"
  shows "phase_of (status_of r) = Phase StateCreating \<and> (\<exists>r1 w1. h_create h r w = (None, r1, w1))"
proof -
  have "lc_move (deleted r) (phase_of (status_of r)) (Phase StateActive)"
    using pass_okD(4) [OF reconcile_pass_ok [OF t ok s]] a by simp
  with active_only_from a have p: "\<not> deleted r"
    "phase_of (status_of r) \<in> {Phase StateCreating, Phase StateUpdating}" by blast+
  have arm: "arm_of (deleted r) (status_of r) \<in> {ArmCreating, ArmIdle}"
    using p by (cases "status_of r") (auto simp: arm_of_def)
  with own shared [OF t] s have l: "lifecycle deleted status_of put_status h r w = (res, r', w')" by auto
  obtain e r1 w1 where d: "h_create h r w = (e, r1, w1)" by (metis prod_cases3)
  from tame_quiet [OF t] d have r1: "deleted r1 = deleted r" "status_of r1 = status_of r"
    by (auto simp: quiet_plugin_def dest: quietD)
  from arm consider (idle) "arm_of (deleted r) (status_of r) = ArmIdle"
    | (creating) "arm_of (deleted r) (status_of r) = ArmCreating" by blast
  then show ?thesis
  proof cases
    case idle
    with l a show ?thesis by (auto simp: lifecycle_def)
  next
    case arm: creating
    then have ph: "phase_of (status_of r) = Phase StateCreating"
      by (cases "status_of r") (auto simp: arm_of_iff)
    have "e = None"
    proof (cases e)
      case (Some err)
      with l arm d have f: "settle_failure status_of put_status h err r1 w1 = (res, r', w')"
        by (simp add: lifecycle_def delegate_of_def)
      have False
        using f
      proof (cases rule: settle_failure_cases)
        case busy
        with r1 a ph show False by simp
      next
        case (failed res1)
        from settle_view(4) [OF failed(2)] r1 ok a show False by simp
      qed
      then show "e = None" ..
    qed
    with ph d show ?thesis by blast
  qed
qed

end

sublocale shared_arms \<subseteq> reconciler deleted status_of put_status tame reconcile
  by unfold_locales (rule reconcile_pass_ok)

subsection \<open>Handlers that make the reference pass on every arm\<close>

text \<open>
  Progress of a provider, measured on the world: an operation that refuses (with an error or with
  ``still processing'') brings the world closer to the point where it succeeds. \<open>stores\<close> says that
  status writes succeed and undo no progress; \<open>roomy\<close> that the condition limit keeps at least the
  two newest conditions, those the retry arm reads.
\<close>

definition progresses :: "('w \<Rightarrow> nat) \<Rightarrow> ('r, 'w) delegated \<Rightarrow> bool" where
  "progresses m op \<longleftrightarrow> (\<forall>r w. fst (op r w) \<noteq> None \<longrightarrow> m (snd (snd (op r w))) < m w)"

definition stores :: "('w \<Rightarrow> nat) \<Rightarrow> ('r, 'w) repo \<Rightarrow> bool" where
  "stores m repo \<longleftrightarrow> (\<forall>r w. \<not> isl (fst (rp_update_status repo r w)) \<and>
     m (snd (rp_update_status repo r w)) \<le> m w)"

definition settled_states :: "resource_state set" where
  "settled_states = {StatePending, StateCreating, StateActive, StateUpdating, StateDeleting, StateError}"

text \<open>
  The writes one pass may make of a resource: each status a settled condition leads to is stored,
  undoes no progress, and leaves resource and world with \<open>Q\<close>.
\<close>

definition lands ::
  "('r \<Rightarrow> 'w \<Rightarrow> bool) \<Rightarrow> ('w \<Rightarrow> nat) \<Rightarrow> ('r \<Rightarrow> status option) \<Rightarrow> (status \<Rightarrow> 'r \<Rightarrow> 'r)
   \<Rightarrow> ('r, 'w, 'm) plugin_handler_scheme \<Rightarrow> 'r \<Rightarrow> 'w \<Rightarrow> bool" where
  "lands Q m status_of put h r w \<longleftrightarrow> (\<forall>n c. c_state c \<in> settled_states \<longrightarrow>
     (\<exists>x w'. rp_update_status (h_repo h) (put (trim_conditions (h_max_conditions h)
          (pushed n c (the_status status_of r))) r) w = (Inr x, w') \<and> m w' \<le> m w \<and>
        Q (put (trim_conditions (h_max_conditions h) (pushed n c (the_status status_of r))) r) w'))"

lemma stores_lands: "stores m (h_repo h) \<Longrightarrow> lands (\<lambda>r w. True) m status_of put h r w"
  unfolding stores_def lands_def
  by (metis (no_types, lifting) isl_def prod.collapse sum.exhaust_sel)

definition roomy :: "('r, 'w, 'm) plugin_handler_scheme \<Rightarrow> bool" where
  "roomy h \<longleftrightarrow> h_max_conditions h \<le> 0 \<or> 2 \<le> h_max_conditions h"

definition well_formed :: "status \<Rightarrow> bool" where
  "well_formed st \<longleftrightarrow> status_ok st \<and> st_conditions st \<noteq> []"

definition provisioning :: "status option \<Rightarrow> bool" where
  "provisioning s = (case s of None \<Rightarrow> True | Some st \<Rightarrow> well_formed st \<and>
     (st_state st = StatePending \<or> st_state st = StateCreating \<or>
      st_state st = StateError \<and> failed_while StateCreating st))"

definition to_go :: "status option \<Rightarrow> nat" where
  "to_go s = (case s of None \<Rightarrow> 3 | Some st \<Rightarrow>
     if st_state st = StatePending then 2 else if st_state st = StateError then 1 else 0)"

definition to_go_deleting :: "status option \<Rightarrow> nat" where
  "to_go_deleting s = (case s of None \<Rightarrow> 3 | Some st \<Rightarrow> if st_state st = StateDeleting then 0 else 2)"

lemma well_formed_pushed:
  "status_ok st \<Longrightarrow> roomy h \<Longrightarrow> well_formed (trim_conditions (h_max_conditions h) (pushed n c st))"
  by (rule pushed_head [of n c st])
     (auto simp: well_formed_def status_ok_trim status_ok_pushed roomy_def st_conditions_trim)

lemma failed_while_pushed:
  assumes "well_formed st" and "c_state c \<noteq> st_state st" and "roomy h"
  shows "failed_while (st_state st) (trim_conditions (h_max_conditions h) (pushed n c st))"
proof -
  obtain p cs where p: "st_conditions st = p # cs" "c_state p = st_state st"
    using assms(1) by (cases "st_conditions st") (auto simp: well_formed_def status_ok_def)
  have "st_conditions (pushed n c st) =
      (if c_last c = 0 then c\<lparr>c_last := n\<rparr> else c)\<lparr>c_occurrences := 1\<rparr> # p # cs"
    using pushed_fresh(2) [of st c n] p assms(2) by auto
  then show ?thesis
    using assms(3) p
    by (cases "nat (h_max_conditions h)"; cases "nat (h_max_conditions h) - 1")
       (auto simp: failed_while_def roomy_def st_conditions_trim take_Cons' nth_Cons')
qed

context status_view begin

lemma settle_lands:
  assumes "settle status_of put_status h c b r w = (res, r', w')" and "view_ok (status_of r)"
    and "lands Q m status_of put_status h r w" and "c_state c \<in> settled_states"
  shows "res = Reconciled b None" and "Q r' w'" and "m w' \<le> m w" and "deleted r' = deleted r"
    and "phase_of (status_of r') = Phase (c_state c)"
proof -
  obtain x w1 where "rp_update_status (h_repo h) (put_status (trim_conditions (h_max_conditions h)
      (pushed (h_now h w) c (the_status status_of r))) r) w = (Inr x, w1)" "m w1 \<le> m w"
    "Q (put_status (trim_conditions (h_max_conditions h) (pushed (h_now h w) c (the_status status_of r))) r) w1"
    using assms(3,4) unfolding lands_def by blast
  with assms(1) show "res = Reconciled b None" "Q r' w'" "m w' \<le> m w"
    by (auto simp: settle_def Let_def)
  show "deleted r' = deleted r" "phase_of (status_of r') = Phase (c_state c)"
    using settle_view [OF assms(1,2)] by auto
qed

lemma settle_stored:
  assumes s: "settle status_of put_status h c b r w = (res, r', w')" and ok: "view_ok (status_of r)"
    and room: "roomy h" and l: "lands Q m status_of put_status h r w" and c: "c_state c \<in> settled_states"
  obtains st where "status_of r' = Some st" and "well_formed st" and "st_state st = c_state c"
    and "deleted r' = deleted r" and "m w' \<le> m w" and "res = Reconciled b None" and "Q r' w'"
    and "\<And>st0. status_of r = Some st0 \<Longrightarrow> well_formed st0 \<Longrightarrow> c_state c \<noteq> st_state st0 \<Longrightarrow>
      failed_while (st_state st0) st"
proof -
  let ?st = "trim_conditions (h_max_conditions h) (pushed (h_now h w) c (the_status status_of r))"
  note landed = settle_lands [OF s ok l c]
  from s have r': "r' = put_status ?st r" by (auto elim: settle_cases)
  have "well_formed ?st" "st_state ?st = c_state c"
    using status_ok_the_status [of status_of r] ok room
    by (simp_all add: well_formed_pushed st_state_pushed)
  moreover have "failed_while (st_state st0) ?st"
    if "status_of r = Some st0" "well_formed st0" "c_state c \<noteq> st_state st0" for st0
    using failed_while_pushed [OF that(2,3) room] that(1) by (simp add: the_status_def)
  ultimately show thesis using that [of ?st] r' landed by simp
qed

end

locale plain_reconciler = status_view deleted status_of put_status
  for deleted :: "'r \<Rightarrow> bool" and status_of :: "'r \<Rightarrow> status option"
    and put_status :: "status \<Rightarrow> 'r \<Rightarrow> 'r" +
  fixes reconcile :: "('r, 'w, 'm) plugin_handler_scheme \<Rightarrow> 'r \<Rightarrow> 'w \<Rightarrow> reconcile_result \<times> 'r \<times> 'w"
  assumes reconcile_eq: "reconcile h r w = lifecycle deleted status_of put_status h r w"

sublocale plain_reconciler \<subseteq> shared_arms deleted status_of put_status
    "quiet_plugin deleted status_of" reconcile "\<lambda>a. False"
  by unfold_locales (simp_all add: reconcile_eq)

context plain_reconciler begin

lemma provisioning_step_lands:
  assumes q: "quiet_plugin deleted status_of h" and room: "roomy h"
    and here: "lands Q m status_of put_status h r w"
    and made: "\<And>e r1 w1. h_create h r w = (e, r1, w1) \<Longrightarrow>
      lands Q m status_of put_status h r1 w1 \<and> Q r1 w1 \<and> (e \<noteq> None \<longrightarrow> m w1 < m w)"
    and g: "\<not> deleted r" "provisioning (status_of r)" and f: "reconcile h r w = (res, r', w')"
  shows "Q r' w' \<and> (phase_of (status_of r') = Phase StateActive \<or>
    (\<not> deleted r' \<and> provisioning (status_of r')) \<and>
    4 * m w' + to_go (status_of r') < 4 * m w + to_go (status_of r))"
proof -
  let ?a = "arm_of (deleted r) (status_of r)"
  have ok: "view_ok (status_of r)"
    using g by (auto simp: provisioning_def well_formed_def split: option.splits)
  have l: "lifecycle deleted status_of put_status h r w = (res, r', w')"
    using f by (simp add: reconcile_eq)
  have move: ?thesis
    if s: "settle_state status_of put_status h s b r w = (res, r', w')"
      and less: "s = StatePending \<and> status_of r = None \<or> s = StateCreating \<and> to_go (status_of r) > 0"
    for s b
  proof -
    from s [unfolded settle_state_def] ok room here obtain st' where
      "status_of r' = Some st'" "well_formed st'" "st_state st' = s" "deleted r' = deleted r" "m w' \<le> m w" "Q r' w'"
      by (rule settle_stored) (use less in \<open>auto simp: settled_states_def\<close>)
    then show ?thesis using less g by (auto simp: provisioning_def to_go_def)
  qed
  consider (accepted) "status_of r = None"
    | (pending) st where "status_of r = Some st" "st_state st = StatePending"
    | (creating) st where "status_of r = Some st" "st_state st = StateCreating" "well_formed st"
    | (retry) st where "status_of r = Some st" "st_state st = StateError" "failed_while StateCreating st"
    using g by (auto simp: provisioning_def split: option.splits)
  then show ?thesis
  proof cases
    case accepted
    with l show ?thesis
      by (intro move) (auto simp: lifecycle_def delegate_of_def bypass_delegated_def after_delegate_def)
  next
    case pending
    with l g show ?thesis
      by (intro move) (auto simp: lifecycle_def delegate_of_def bypass_delegated_def after_delegate_def
          arm_of_def to_go_def)
  next
    case retry
    with l g show ?thesis
      by (intro move) (auto simp: lifecycle_def delegate_of_def bypass_delegated_def after_delegate_def
          arm_of_def to_go_def)
  next
    case (creating st0)
    then have arm: "?a = ArmCreating" using g by (simp add: arm_of_def)
    obtain e r1 w1 where d: "h_create h r w = (e, r1, w1)" by (metis prod_cases3)
    with q have r1: "deleted r1 = deleted r" "status_of r1 = status_of r"
      by (auto simp: quiet_plugin_def dest: quietD)
    then have ok1: "view_ok (status_of r1)" using ok by simp
    from made [OF d] have there: "lands Q m status_of put_status h r1 w1" and Q1: "Q r1 w1" by auto
    show ?thesis
    proof (cases e)
      case None
      with l arm d r1 have s: "settle_state status_of put_status h StateActive False r1 w1 = (res, r', w')"
        by (simp add: lifecycle_def delegate_of_def after_delegate_def)
      from settle_lands [OF s [unfolded settle_state_def] ok1 there] show ?thesis
        by (simp add: settled_states_def)
    next
      case (Some err)
      with made [OF d] have less: "m w1 < m w" by simp
      from Some l arm d have "settle_failure status_of put_status h err r1 w1 = (res, r', w')"
        by (simp add: lifecycle_def delegate_of_def)
      then show ?thesis
      proof (cases rule: settle_failure_cases)
        case busy
        with less r1 creating g Q1 show ?thesis by (auto simp: to_go_def)
      next
        case (failed res1)
        from failed(2) ok1 room there obtain st' where
          "status_of r' = Some st'" "well_formed st'" "st_state st' = StateError" "deleted r' = deleted r1"
          "m w' \<le> m w1" "Q r' w'" "failed_while (st_state st0) st'"
          by (rule settle_stored) (use creating r1 in \<open>simp_all add: settled_states_def\<close>)
        then show ?thesis using less r1 creating g by (auto simp: provisioning_def to_go_def)
      qed
    qed
  qed
qed

lemma provisioning_step:
  assumes "quiet_plugin deleted status_of h" and "roomy h" and "stores m (h_repo h)"
    and "progresses m (h_create h)"
    and "\<not> deleted r" and "provisioning (status_of r)" and "reconcile h r w = (res, r', w')"
  shows "phase_of (status_of r') = Phase StateActive \<or>
    (\<not> deleted r' \<and> provisioning (status_of r')) \<and>
    4 * m w' + to_go (status_of r') < 4 * m w + to_go (status_of r)"
proof -
  note lands = stores_lands [OF assms(3)]
  have "lands (\<lambda>r w. True) m status_of put_status h r1 w1 \<and> True \<and> (e \<noteq> None \<longrightarrow> m w1 < m w)"
    if "h_create h r w = (e, r1, w1)" for e r1 w1
    using lands assms(4) that unfolding progresses_def by (metis fst_conv snd_conv)
  from provisioning_step_lands [OF assms(1,2) lands this assms(5-7)] show ?thesis by blast
qed

theorem eventually_active:
  assumes "quiet_plugin deleted status_of h" and "roomy h" and "stores m (h_repo h)"
    and "progresses m (h_create h)" and "\<not> deleted r" and "provisioning (status_of r)"
  shows "\<exists>n \<le> 4 * m w + 4. phase_of (status_of (fst (passes (reconcile h) n r w))) = Phase StateActive"
proof -
  have "\<exists>n \<le> Suc (4 * m w + to_go (status_of r)). \<exists>r' w'. passes (reconcile h) n r w = (r', w') \<and>
      phase_of (status_of r') = Phase StateActive"
  proof (rule passes_reach [where G = "\<lambda>r. \<not> deleted r \<and> provisioning (status_of r)"])
    fix r w res r' w'
    assume "\<not> deleted r \<and> provisioning (status_of r)" and "reconcile h r w = (res, r', w')"
    with provisioning_step [OF assms(1-4)]
    show "phase_of (status_of r') = Phase StateActive \<or>
      (\<not> deleted r' \<and> provisioning (status_of r')) \<and>
      4 * m w' + to_go (status_of r') < 4 * m w + to_go (status_of r)" by blast
  qed (use assms in simp)
  moreover have "to_go (status_of r) \<le> 3" by (simp add: to_go_def split: option.splits)
  ultimately obtain n where "n \<le> Suc (4 * m w + to_go (status_of r))"
    "phase_of (status_of (fst (passes (reconcile h) n r w))) = Phase StateActive" by auto
  with \<open>to_go (status_of r) \<le> 3\<close> show ?thesis by (intro exI [of _ n]) simp
qed

lemma deletion_step_lands:
  assumes q: "quiet_plugin deleted status_of h" and here: "lands Q m status_of put_status h r w"
    and unmade: "\<And>e r1 w1. h_delete h r w = (e, r1, w1) \<Longrightarrow>
      lands Q m status_of put_status h r1 w1 \<and> Q r1 w1 \<and> (e \<noteq> None \<longrightarrow> m w1 < m w)"
    and g: "deleted r" "view_ok (status_of r)" and f: "reconcile h r w = (res, r', w')"
    and nd: "\<not> (arm_of (deleted r) (status_of r) = ArmDeleting \<and> fst (h_delete h r w) = None)"
  shows "Q r' w' \<and> deleted r' \<and> view_ok (status_of r') \<and>
    4 * m w' + to_go_deleting (status_of r') < 4 * m w + to_go_deleting (status_of r)"
proof -
  have ok: "pass_ok deleted status_of r res r'" using reconcile_pass_ok [OF q g(2) f] .
  have l: "lifecycle deleted status_of put_status h r w = (res, r', w')"
    using f by (simp add: reconcile_eq)
  note measured = to_go_deleting_def phase_of_def settled_states_def
  consider (accepted) "status_of r = None"
    | (want) st where "status_of r = Some st" "st_state st \<noteq> StateDeleting"
    | (deleting) st where "status_of r = Some st" "st_state st = StateDeleting"
    by (cases "status_of r") auto
  then have "Q r' w' \<and> 4 * m w' + to_go_deleting (status_of r') < 4 * m w + to_go_deleting (status_of r)"
  proof cases
    case accepted
    with l have "settle status_of put_status h (condition_from_state (h_now h w) StatePending) False r w
        = (res, r', w')"
      by (simp add: lifecycle_def delegate_of_def bypass_delegated_def after_delegate_def settle_state_def)
    from settle_lands [OF this g(2) here] accepted show ?thesis
      by (auto simp: measured split: option.splits)
  next
    case (want st0)
    with l g have "settle status_of put_status h (condition_from_state (h_now h w) StateDeleting) True r w
        = (res, r', w')"
      by (simp add: lifecycle_def delegate_of_def bypass_delegated_def after_delegate_def settle_state_def
          arm_of_def)
    from settle_lands [OF this g(2) here] want show ?thesis
      by (auto simp: measured split: option.splits)
  next
    case (deleting st0)
    then have arm: "arm_of (deleted r) (status_of r) = ArmDeleting" using g by (simp add: arm_of_def)
    obtain e r1 w1 where d: "h_delete h r w = (e, r1, w1)" by (metis prod_cases3)
    with nd arm obtain err where e: "e = Some err" by (cases e) auto
    from d q have r1: "status_of r1 = status_of r" by (auto simp: quiet_plugin_def dest: quietD)
    then have ok1: "view_ok (status_of r1)" using g by simp
    from unmade [OF d] e have there: "lands Q m status_of put_status h r1 w1" and Q1: "Q r1 w1"
      and less: "m w1 < m w" by auto
    from e l arm d have "settle_failure status_of put_status h err r1 w1 = (res, r', w')"
      by (simp add: lifecycle_def delegate_of_def)
    then show ?thesis
    proof (cases rule: settle_failure_cases)
      case busy
      with less r1 deleting Q1 show ?thesis by simp
    next
      case (failed res1)
      have "c_state (condition_from_error (h_now h w1) err) \<in> settled_states"
        by (simp add: settled_states_def)
      from settle_lands(2,3) [OF failed(2) ok1 there this] less
      have "Q r' w'" "m w' < m w" by simp_all
      moreover have "to_go_deleting (status_of r') \<le> 3" by (simp add: to_go_deleting_def split: option.splits)
      ultimately show ?thesis by linarith
    qed
  qed
  with pass_okD [OF ok] g(1) show ?thesis by simp
qed

lemma deletion_step:
  assumes "quiet_plugin deleted status_of h" and "stores m (h_repo h)"
    and "progresses m (h_delete h)"
    and "deleted r" and "view_ok (status_of r)" and "reconcile h r w = (res, r', w')"
    and "\<not> (arm_of (deleted r) (status_of r) = ArmDeleting \<and> fst (h_delete h r w) = None)"
  shows "deleted r' \<and> view_ok (status_of r') \<and>
    4 * m w' + to_go_deleting (status_of r') < 4 * m w + to_go_deleting (status_of r)"
proof -
  note lands = stores_lands [OF assms(2)]
  have "lands (\<lambda>r w. True) m status_of put_status h r1 w1 \<and> True \<and> (e \<noteq> None \<longrightarrow> m w1 < m w)"
    if "h_delete h r w = (e, r1, w1)" for e r1 w1
    using lands assms(3) that unfolding progresses_def by (metis fst_conv snd_conv)
  from deletion_step_lands [OF assms(1) lands this assms(4-7)] show ?thesis by blast
qed

lemma deleted_pass:
  assumes "arm_of (deleted r) (status_of r) = ArmDeleting" and "fst (h_delete h r w) = None"
    and "quiet_plugin deleted status_of h"
  shows "fst (reconcile h r w) = Reconciled False None"
proof -
  obtain r1 w1 where d: "h_delete h r w = (None, r1, w1)" using assms(2) by (metis fst_conv prod_cases3)
  with assms(3) have "deleted r1 = deleted r" "status_of r1 = status_of r"
    by (auto simp: quiet_plugin_def dest: quietD)
  with assms(1) d show ?thesis
    by (simp add: reconcile_eq lifecycle_def delegate_of_def after_delegate_def)
qed

lemma eventually_deleted:
  assumes q: "quiet_plugin deleted status_of h" and st: "stores m (h_repo h)"
    and pr: "progresses m (h_delete h)" and g: "deleted r" "view_ok (status_of r)"
  shows "\<exists>n \<le> 4 * m w + 4. \<exists>r' w'. passes (reconcile h) n r w = (r', w') \<and>
    phase_of (status_of r') = Phase StateDeleting \<and> fst (h_delete h r' w') = None \<and>
    fst (reconcile h r' w') = Reconciled False None"
proof -
  let ?D = "\<lambda>r w. arm_of (deleted r) (status_of r) = ArmDeleting \<and> fst (h_delete h r w) = None"
  have "\<exists>n \<le> Suc (4 * m w + to_go_deleting (status_of r)). \<exists>r' w'. passes (reconcile h) n r w = (r', w') \<and> ?D r' w'"
  proof (rule passes_reach [where G = "\<lambda>r. deleted r \<and> view_ok (status_of r)"])
    fix r w res r' w'
    assume "deleted r \<and> view_ok (status_of r)" and "\<not> ?D r w" and "reconcile h r w = (res, r', w')"
    with deletion_step [OF q st pr]
    show "?D r' w' \<or> (deleted r' \<and> view_ok (status_of r')) \<and>
      4 * m w' + to_go_deleting (status_of r') < 4 * m w + to_go_deleting (status_of r)" by blast
  qed (use g in simp)
  then obtain n r' w' where n: "n \<le> Suc (4 * m w + to_go_deleting (status_of r))"
    "passes (reconcile h) n r w = (r', w')" and D: "?D r' w'" by blast
  have "to_go_deleting (status_of r) \<le> 3" by (simp add: to_go_deleting_def split: option.splits)
  with n(1) have "n \<le> 4 * m w + 4" by linarith
  from D have "phase_of (status_of r') = Phase StateDeleting"
    by (cases "status_of r'") (auto simp: arm_of_iff)
  with \<open>n \<le> 4 * m w + 4\<close> n(2) D deleted_pass [OF _ _ q] show ?thesis by blast
qed

text \<open>A pass leaves the status alone or writes a trimmed one: the condition limit holds for good.\<close>

lemma pass_writes:
  assumes q: "quiet_plugin deleted status_of h" and f: "reconcile h r w = (res, r', w')"
  shows "status_of r' = status_of r \<or>
    (\<exists>st. status_of r' = Some (trim_conditions (h_max_conditions h) st))"
proof -
  let ?a = "arm_of (deleted r) (status_of r)"
  have l: "lifecycle deleted status_of put_status h r w = (res, r', w')"
    using f by (simp add: reconcile_eq)
  have settled: "\<exists>st. status_of r' = Some (trim_conditions (h_max_conditions h) st)"
    if "settle status_of put_status h c b r1 w1 = (res1, r', w')" for c b r1 w1 res1
    using that by (rule settle_cases) (simp, blast)
  show ?thesis
  proof (cases "?a = ArmActive \<or> ?a = ArmIdle")
    case True
    obtain e r1 w1 where u: "h_update h r w = (e, r1, w1)" by (metis prod_cases3)
    with q have r1: "status_of r1 = status_of r" by (auto simp: quiet_plugin_def dest: quietD)
    show ?thesis
    proof (cases "?a = ArmActive")
      case True
      with l have "handle_update (the_status status_of) put_status h r w = (res, r', w')"
        by (simp add: lifecycle_def)
      from handle_update_rewritten [OF u this] r1 show ?thesis by (auto simp: rewritten_def)
    next
      case False
      with True l show ?thesis by (simp add: lifecycle_def)
    qed
  next
    case False
    obtain e r1 w1 where d: "delegate_of ?a h r w = (e, r1, w1)" by (metis prod_cases3)
    with quiet_delegate_of [OF q] have r1: "status_of r1 = status_of r" by (auto dest: quietD)
    show ?thesis
    proof (cases e)
      case None
      with False d l have "after_delegate deleted status_of put_status h r1 w1 = (res, r', w')"
        by (auto simp: lifecycle_def split: arm.splits)
      then show ?thesis
        using settled r1
        by (auto simp: after_delegate_def settle_state_def split: arm.splits)
    next
      case (Some err)
      with False d l have "settle_failure status_of put_status h err r1 w1 = (res, r', w')"
        by (auto simp: lifecycle_def split: arm.splits)
      then show ?thesis
      proof (cases rule: settle_failure_cases)
        case busy
        with r1 show ?thesis by simp
      next
        case (failed res1)
        from settled [OF failed(2)] show ?thesis ..
      qed
    qed
  qed
qed

lemma conditions_bounded:
  assumes "quiet_plugin deleted status_of h" and "0 < h_max_conditions h"
    and "int (length (st_conditions (the_status status_of r))) \<le> h_max_conditions h"
    and "reconcile h r w = (res, r', w')"
  shows "int (length (st_conditions (the_status status_of r'))) \<le> h_max_conditions h"
  using pass_writes [OF assms(1,4)] assms(2,3) trim_conditions_bound
  by (auto simp: the_status_def)

end

end
