(* ===== verification/Workspace_Handler.thy ===== *)
theory Workspace_Handler
  imports Reconcilers
begin

section \<open>The plugin handler of workspaces\<close>

text \<open>
  Each group: the empty status struct and the view of the resource (its embedded status, if the
  status pointer is set), the predicates of the switch, the two status setters, and
  \<^verbatim>\<open>HandleReconcile\<close>, whose second switch runs on the resource as the plugin's operation left it.
  The last lemma of a group shows that the handler is the reference pass; its interpretation as a
  \<open>plain_reconciler\<close> gives everything proved there.
\<close>

subsection \<open>Workspace\<close>

text \<open>\<^verbatim>\<open>resource/workspace/v1/backend/kubernetes/plugin_handler.go\<close>.\<close>

definition zero_workspace_status :: workspace_status where
  "zero_workspace_status = \<lparr>wss_status = empty_status, wss_resource_count = None\<rparr>"

definition workspace_view :: "workspace \<Rightarrow> status option" where
  "workspace_view r = map_option wss_status (ws_status r)"

definition put_workspace_status :: "status \<Rightarrow> workspace \<Rightarrow> workspace" where
  "put_workspace_status st r = r\<lparr>ws_status :=
     Some ((case ws_status r of None \<Rightarrow> zero_workspace_status | Some s \<Rightarrow> s)\<lparr>wss_status := st\<rparr>)\<rparr>"

interpretation workspace_status: status_view deleted_at workspace_view put_workspace_status
  by unfold_locales (simp_all add: workspace_view_def put_workspace_status_def deleted_at_def)

definition is_workspace_active :: "workspace \<Rightarrow> bool" where [handler_defs]:
  "is_workspace_active r \<longleftrightarrow> md_deleted r = None \<and>
     (case ws_status r of None \<Rightarrow> False | Some st \<Rightarrow> st_state (wss_status st) = StateActive)"

definition is_workspace_accepted :: "workspace \<Rightarrow> bool" where [handler_defs]:
  "is_workspace_accepted r \<longleftrightarrow> ws_status r = None"

definition is_workspace_pending :: "workspace \<Rightarrow> bool" where [handler_defs]:
  "is_workspace_pending r \<longleftrightarrow> md_deleted r = None \<and>
     (case ws_status r of None \<Rightarrow> True | Some st \<Rightarrow> st_state (wss_status st) = StatePending)"

definition is_workspace_creating :: "workspace \<Rightarrow> bool" where [handler_defs]:
  "is_workspace_creating r \<longleftrightarrow> md_deleted r = None \<and>
     (case ws_status r of None \<Rightarrow> False | Some st \<Rightarrow> st_state (wss_status st) = StateCreating)"

definition workspace_is_not_deleting :: "workspace \<Rightarrow> bool" where [handler_defs]:
  "workspace_is_not_deleting r \<longleftrightarrow> (case ws_status r of None \<Rightarrow> True | Some st \<Rightarrow> st_state (wss_status st) \<noteq> StateDeleting)"

definition want_workspace_delete :: "workspace \<Rightarrow> bool" where [handler_defs]:
  "want_workspace_delete r \<longleftrightarrow> md_deleted r \<noteq> None \<and> workspace_is_not_deleting r"

definition is_workspace_deleting :: "workspace \<Rightarrow> bool" where [handler_defs]:
  "is_workspace_deleting r \<longleftrightarrow> md_deleted r \<noteq> None \<and>
     (case ws_status r of None \<Rightarrow> False | Some st \<Rightarrow> st_state (wss_status st) = StateDeleting)"

definition want_workspace_retry_create :: "workspace \<Rightarrow> bool" where [handler_defs]:
  "want_workspace_retry_create r \<longleftrightarrow> md_deleted r = None \<and>
     (case ws_status r of None \<Rightarrow> False
      | Some st \<Rightarrow> st_state (wss_status st) = StateError \<and> 1 < length (st_conditions (wss_status st)) \<and>
          c_state (st_conditions (wss_status st) ! 1) = StateCreating)"

definition workspace_set_resource_state ::
  "(workspace, 'w, 'm) plugin_handler_scheme \<Rightarrow> workspace \<Rightarrow> resource_state \<Rightarrow> bool \<Rightarrow> 'w
   \<Rightarrow> reconcile_result \<times> workspace \<times> 'w" where
  "workspace_set_resource_state h r state rq w =
    (let st = (case ws_status r of None \<Rightarrow> zero_workspace_status | Some st \<Rightarrow> st);
         st' = pushed (h_now h w) (condition_from_state (h_now h w) state) (wss_status st);
         r' = r\<lparr>ws_status := Some (st\<lparr>wss_status := trim_conditions (h_max_conditions h) st'\<rparr>)\<rparr> in
     case rp_update_status (h_repo h) r' w of
       (Inl err, w') \<Rightarrow>
         if errors_is err err_not_found then (Reconciled False None, r', w')
         else (Reconciled rq (Some err), r', w')
     | (Inr stored, w') \<Rightarrow> (Reconciled rq None, r', w'))"

definition workspace_set_resource_error_state ::
  "(workspace, 'w, 'm) plugin_handler_scheme \<Rightarrow> workspace \<Rightarrow> go_error \<Rightarrow> bool \<Rightarrow> 'w
   \<Rightarrow> reconcile_result \<times> workspace \<times> 'w" where
  "workspace_set_resource_error_state h r cause rq w =
    (let st = (case ws_status r of None \<Rightarrow> zero_workspace_status | Some st \<Rightarrow> st);
         st' = pushed (h_now h w) (condition_from_error (h_now h w) cause) (wss_status st);
         r' = r\<lparr>ws_status := Some (st\<lparr>wss_status := trim_conditions (h_max_conditions h) st'\<rparr>)\<rparr> in
     case rp_update_status (h_repo h) r' w of
       (Inl err, w') \<Rightarrow>
         if errors_is err err_not_found then (Reconciled False None, r', w')
         else (Reconciled rq (Some err), r', w')
     | (Inr stored, w') \<Rightarrow> (Reconciled rq None, r', w'))"

definition workspace_handle_reconcile ::
  "(workspace, 'w) plugin_handler \<Rightarrow> workspace \<Rightarrow> 'w \<Rightarrow> reconcile_result \<times> workspace \<times> 'w" where
  "workspace_handle_reconcile h r w =
    (if is_workspace_active r then handle_update (the_status workspace_view) put_workspace_status h r w
     else let delegate =
        (if is_workspace_accepted r then Some bypass_delegated
         else if is_workspace_pending r then Some bypass_delegated
         else if is_workspace_creating r then Some (h_create h)
         else if want_workspace_delete r then Some bypass_delegated
         else if is_workspace_deleting r then Some (h_delete h)
         else if want_workspace_retry_create r then Some bypass_delegated
         else None) in
     case delegate of
       None \<Rightarrow> (Reconciled False None, r, w)
     | Some op \<Rightarrow> (case op r w of
         (Some err, r1, w1) \<Rightarrow>
           if errors_is err (Sentinel ErrStillProcessing) then (Reconciled True None, r1, w1)
           else (case workspace_set_resource_error_state h r1 err False w1 of
               (Reconciled rq (Some e), r2, w2) \<Rightarrow> (Reconciled rq (Some e), r2, w2)
             | (_, r2, w2) \<Rightarrow> (Reconciled True None, r2, w2))
       | (None, r1, w1) \<Rightarrow>
           if is_workspace_accepted r1 then workspace_set_resource_state h r1 StatePending False w1
           else if is_workspace_pending r1 then workspace_set_resource_state h r1 StateCreating True w1
           else if is_workspace_creating r1 then workspace_set_resource_state h r1 StateActive False w1
           else if want_workspace_delete r1 then workspace_set_resource_state h r1 StateDeleting True w1
           else if is_workspace_deleting r1 then (Reconciled False None, r1, w1)
           else if want_workspace_retry_create r1 then workspace_set_resource_state h r1 StateCreating True w1
           else (ProcessExit, r1, w1)))"

lemma workspace_switch:
  "(if is_workspace_accepted r then a else if is_workspace_pending r then b
    else if is_workspace_creating r then c else if want_workspace_delete r then d
    else if is_workspace_deleting r then e else if want_workspace_retry_create r then f else g) =
   (case arm_of (deleted_at r) (workspace_view r) of
      ArmAccepted \<Rightarrow> a | ArmPending \<Rightarrow> b | ArmCreating \<Rightarrow> c | ArmWantDelete \<Rightarrow> d
    | ArmDeleting \<Rightarrow> e | ArmRetry \<Rightarrow> f | _ \<Rightarrow> g)"
  by (cases "ws_status r"; cases "md_deleted r")
     (auto simp: handler_defs workspace_view_def deleted_at_def arm_of_def failed_while_def
       split: resource_state.splits)

lemma is_workspace_active_arm:
  "is_workspace_active r \<longleftrightarrow> arm_of (deleted_at r) (workspace_view r) = ArmActive"
  by (cases "ws_status r") (auto simp: is_workspace_active_def workspace_view_def deleted_at_def arm_of_iff)

lemma workspace_set_state_eq:
  "workspace_set_resource_state h r s rq w = settle_state workspace_view put_workspace_status h s rq r w"
  by (cases "ws_status r")
     (simp_all add: workspace_set_resource_state_def settle_state_def settle_def Let_def put_workspace_status_def
       workspace_view_def the_status_def zero_workspace_status_def split: prod.split sum.split)

lemma workspace_set_error_eq:
  "workspace_set_resource_error_state h r err rq w =
     settle workspace_view put_workspace_status h (condition_from_error (h_now h w) err) rq r w"
  by (cases "ws_status r")
     (simp_all add: workspace_set_resource_error_state_def settle_def Let_def put_workspace_status_def
       workspace_view_def the_status_def zero_workspace_status_def split: prod.split sum.split)

lemma workspace_reconcile_eq:
  "workspace_handle_reconcile h r w = lifecycle deleted_at workspace_view put_workspace_status h r w"
  unfolding workspace_handle_reconcile_def workspace_switch workspace_set_state_eq workspace_set_error_eq is_workspace_active_arm
    lifecycle_def settle_failure_def after_delegate_def
  by (cases "arm_of (deleted_at r) (workspace_view r)")
     (simp_all only: arm.case arm.distinct option.case refl simp_thms Let_def if_True if_False delegate_of_def)

interpretation workspace: plain_reconciler deleted_at workspace_view put_workspace_status workspace_handle_reconcile
  by unfold_locales (rule workspace_reconcile_eq)

end
