(* ===== verification/Network_Handlers.thy ===== *)
theory Network_Handlers
  imports Reconcilers
begin

section \<open>The plugin handlers of networks, gateways, subnets and route tables\<close>

text \<open>
  Each group: the empty status struct and the view of the resource (its embedded status, if the
  status pointer is set), the predicates of the switch, the two status setters, and
  \<^verbatim>\<open>HandleReconcile\<close>, whose second switch runs on the resource as the plugin's operation left it.
  The last lemma of a group shows that the handler is the reference pass; its interpretation as a
  \<open>plain_reconciler\<close> gives everything proved there.
\<close>

subsection \<open>Network\<close>

text \<open>\<^verbatim>\<open>resource/network/v1/network/backend/kubernetes/plugin_handler.go\<close>.\<close>

definition zero_network_status :: network_status where
  "zero_network_status = \<lparr>nwst_status = empty_status\<rparr>"

definition network_view :: "network \<Rightarrow> status option" where
  "network_view r = map_option nwst_status (nw_status r)"

definition put_network_status :: "status \<Rightarrow> network \<Rightarrow> network" where
  "put_network_status st r = r\<lparr>nw_status :=
     Some ((case nw_status r of None \<Rightarrow> zero_network_status | Some s \<Rightarrow> s)\<lparr>nwst_status := st\<rparr>)\<rparr>"

interpretation network_status: status_view deleted_at network_view put_network_status
  by unfold_locales (simp_all add: network_view_def put_network_status_def deleted_at_def)

definition is_network_active :: "network \<Rightarrow> bool" where [handler_defs]:
  "is_network_active r \<longleftrightarrow> md_deleted r = None \<and>
     (case nw_status r of None \<Rightarrow> False | Some st \<Rightarrow> st_state (nwst_status st) = StateActive)"

definition is_network_accepted :: "network \<Rightarrow> bool" where [handler_defs]:
  "is_network_accepted r \<longleftrightarrow> nw_status r = None"

definition is_network_pending :: "network \<Rightarrow> bool" where [handler_defs]:
  "is_network_pending r \<longleftrightarrow> md_deleted r = None \<and>
     (case nw_status r of None \<Rightarrow> True | Some st \<Rightarrow> st_state (nwst_status st) = StatePending)"

definition is_network_creating :: "network \<Rightarrow> bool" where [handler_defs]:
  "is_network_creating r \<longleftrightarrow> md_deleted r = None \<and>
     (case nw_status r of None \<Rightarrow> False | Some st \<Rightarrow> st_state (nwst_status st) = StateCreating)"

definition network_is_not_deleting :: "network \<Rightarrow> bool" where [handler_defs]:
  "network_is_not_deleting r \<longleftrightarrow> (case nw_status r of None \<Rightarrow> True | Some st \<Rightarrow> st_state (nwst_status st) \<noteq> StateDeleting)"

definition want_network_delete :: "network \<Rightarrow> bool" where [handler_defs]:
  "want_network_delete r \<longleftrightarrow> md_deleted r \<noteq> None \<and> network_is_not_deleting r"

definition is_network_deleting :: "network \<Rightarrow> bool" where [handler_defs]:
  "is_network_deleting r \<longleftrightarrow> md_deleted r \<noteq> None \<and>
     (case nw_status r of None \<Rightarrow> False | Some st \<Rightarrow> st_state (nwst_status st) = StateDeleting)"

definition want_network_retry_create :: "network \<Rightarrow> bool" where [handler_defs]:
  "want_network_retry_create r \<longleftrightarrow> md_deleted r = None \<and>
     (case nw_status r of None \<Rightarrow> False
      | Some st \<Rightarrow> st_state (nwst_status st) = StateError \<and> 1 < length (st_conditions (nwst_status st)) \<and>
          c_state (st_conditions (nwst_status st) ! 1) = StateCreating)"

definition network_set_resource_state ::
  "(network, 'w, 'm) plugin_handler_scheme \<Rightarrow> network \<Rightarrow> resource_state \<Rightarrow> bool \<Rightarrow> 'w
   \<Rightarrow> reconcile_result \<times> network \<times> 'w" where
  "network_set_resource_state h r state rq w =
    (let st = (case nw_status r of None \<Rightarrow> zero_network_status | Some st \<Rightarrow> st);
         st' = pushed (h_now h w) (condition_from_state (h_now h w) state) (nwst_status st);
         r' = r\<lparr>nw_status := Some (st\<lparr>nwst_status := trim_conditions (h_max_conditions h) st'\<rparr>)\<rparr> in
     case rp_update_status (h_repo h) r' w of
       (Inl err, w') \<Rightarrow>
         if errors_is err err_not_found then (Reconciled False None, r', w')
         else (Reconciled rq (Some err), r', w')
     | (Inr stored, w') \<Rightarrow> (Reconciled rq None, r', w'))"

definition network_set_resource_error_state ::
  "(network, 'w, 'm) plugin_handler_scheme \<Rightarrow> network \<Rightarrow> go_error \<Rightarrow> bool \<Rightarrow> 'w
   \<Rightarrow> reconcile_result \<times> network \<times> 'w" where
  "network_set_resource_error_state h r cause rq w =
    (let st = (case nw_status r of None \<Rightarrow> zero_network_status | Some st \<Rightarrow> st);
         st' = pushed (h_now h w) (condition_from_error (h_now h w) cause) (nwst_status st);
         r' = r\<lparr>nw_status := Some (st\<lparr>nwst_status := trim_conditions (h_max_conditions h) st'\<rparr>)\<rparr> in
     case rp_update_status (h_repo h) r' w of
       (Inl err, w') \<Rightarrow>
         if errors_is err err_not_found then (Reconciled False None, r', w')
         else (Reconciled rq (Some err), r', w')
     | (Inr stored, w') \<Rightarrow> (Reconciled rq None, r', w'))"

definition network_handle_reconcile ::
  "(network, 'w) plugin_handler \<Rightarrow> network \<Rightarrow> 'w \<Rightarrow> reconcile_result \<times> network \<times> 'w" where
  "network_handle_reconcile h r w =
    (if is_network_active r then handle_update (the_status network_view) put_network_status h r w
     else let delegate =
        (if is_network_accepted r then Some bypass_delegated
         else if is_network_pending r then Some bypass_delegated
         else if is_network_creating r then Some (h_create h)
         else if want_network_delete r then Some bypass_delegated
         else if is_network_deleting r then Some (h_delete h)
         else if want_network_retry_create r then Some bypass_delegated
         else None) in
     case delegate of
       None \<Rightarrow> (Reconciled False None, r, w)
     | Some op \<Rightarrow> (case op r w of
         (Some err, r1, w1) \<Rightarrow>
           if errors_is err (Sentinel ErrStillProcessing) then (Reconciled True None, r1, w1)
           else (case network_set_resource_error_state h r1 err False w1 of
               (Reconciled rq (Some e), r2, w2) \<Rightarrow> (Reconciled rq (Some e), r2, w2)
             | (_, r2, w2) \<Rightarrow> (Reconciled True None, r2, w2))
       | (None, r1, w1) \<Rightarrow>
           if is_network_accepted r1 then network_set_resource_state h r1 StatePending False w1
           else if is_network_pending r1 then network_set_resource_state h r1 StateCreating True w1
           else if is_network_creating r1 then network_set_resource_state h r1 StateActive False w1
           else if want_network_delete r1 then network_set_resource_state h r1 StateDeleting True w1
           else if is_network_deleting r1 then (Reconciled False None, r1, w1)
           else if want_network_retry_create r1 then network_set_resource_state h r1 StateCreating True w1
           else (ProcessExit, r1, w1)))"

lemma network_switch:
  "(if is_network_accepted r then a else if is_network_pending r then b
    else if is_network_creating r then c else if want_network_delete r then d
    else if is_network_deleting r then e else if want_network_retry_create r then f else g) =
   (case arm_of (deleted_at r) (network_view r) of
      ArmAccepted \<Rightarrow> a | ArmPending \<Rightarrow> b | ArmCreating \<Rightarrow> c | ArmWantDelete \<Rightarrow> d
    | ArmDeleting \<Rightarrow> e | ArmRetry \<Rightarrow> f | _ \<Rightarrow> g)"
  by (cases "nw_status r"; cases "md_deleted r")
     (auto simp: handler_defs network_view_def deleted_at_def arm_of_def failed_while_def
       split: resource_state.splits)

lemma is_network_active_arm:
  "is_network_active r \<longleftrightarrow> arm_of (deleted_at r) (network_view r) = ArmActive"
  by (cases "nw_status r") (auto simp: is_network_active_def network_view_def deleted_at_def arm_of_iff)

lemma network_set_state_eq:
  "network_set_resource_state h r s rq w = settle_state network_view put_network_status h s rq r w"
  by (cases "nw_status r")
     (simp_all add: network_set_resource_state_def settle_state_def settle_def Let_def put_network_status_def
       network_view_def the_status_def zero_network_status_def split: prod.split sum.split)

lemma network_set_error_eq:
  "network_set_resource_error_state h r err rq w =
     settle network_view put_network_status h (condition_from_error (h_now h w) err) rq r w"
  by (cases "nw_status r")
     (simp_all add: network_set_resource_error_state_def settle_def Let_def put_network_status_def
       network_view_def the_status_def zero_network_status_def split: prod.split sum.split)

lemma network_reconcile_eq:
  "network_handle_reconcile h r w = lifecycle deleted_at network_view put_network_status h r w"
  unfolding network_handle_reconcile_def network_switch network_set_state_eq network_set_error_eq is_network_active_arm
    lifecycle_def settle_failure_def after_delegate_def
  by (cases "arm_of (deleted_at r) (network_view r)")
     (simp_all only: arm.case arm.distinct option.case refl simp_thms Let_def if_True if_False delegate_of_def)

interpretation network: plain_reconciler deleted_at network_view put_network_status network_handle_reconcile
  by unfold_locales (rule network_reconcile_eq)

subsection \<open>Internet gateway\<close>

text \<open>\<^verbatim>\<open>resource/network/v1/internet-gateway/backend/kubernetes/plugin_handler.go\<close>.\<close>

definition zero_internet_gateway_status :: internet_gateway_status where
  "zero_internet_gateway_status = \<lparr>igst_status = empty_status\<rparr>"

definition internet_gateway_view :: "internet_gateway \<Rightarrow> status option" where
  "internet_gateway_view r = map_option igst_status (ig_status r)"

definition put_internet_gateway_status :: "status \<Rightarrow> internet_gateway \<Rightarrow> internet_gateway" where
  "put_internet_gateway_status st r = r\<lparr>ig_status :=
     Some ((case ig_status r of None \<Rightarrow> zero_internet_gateway_status | Some s \<Rightarrow> s)\<lparr>igst_status := st\<rparr>)\<rparr>"

interpretation internet_gateway_status: status_view deleted_at internet_gateway_view put_internet_gateway_status
  by unfold_locales (simp_all add: internet_gateway_view_def put_internet_gateway_status_def deleted_at_def)

definition is_internet_gateway_active :: "internet_gateway \<Rightarrow> bool" where [handler_defs]:
  "is_internet_gateway_active r \<longleftrightarrow> md_deleted r = None \<and>
     (case ig_status r of None \<Rightarrow> False | Some st \<Rightarrow> st_state (igst_status st) = StateActive)"

definition is_internet_gateway_accepted :: "internet_gateway \<Rightarrow> bool" where [handler_defs]:
  "is_internet_gateway_accepted r \<longleftrightarrow> ig_status r = None"

definition is_internet_gateway_pending :: "internet_gateway \<Rightarrow> bool" where [handler_defs]:
  "is_internet_gateway_pending r \<longleftrightarrow> md_deleted r = None \<and>
     (case ig_status r of None \<Rightarrow> True | Some st \<Rightarrow> st_state (igst_status st) = StatePending)"

definition is_internet_gateway_creating :: "internet_gateway \<Rightarrow> bool" where [handler_defs]:
  "is_internet_gateway_creating r \<longleftrightarrow> md_deleted r = None \<and>
     (case ig_status r of None \<Rightarrow> False | Some st \<Rightarrow> st_state (igst_status st) = StateCreating)"

definition internet_gateway_is_not_deleting :: "internet_gateway \<Rightarrow> bool" where [handler_defs]:
  "internet_gateway_is_not_deleting r \<longleftrightarrow> (case ig_status r of None \<Rightarrow> True | Some st \<Rightarrow> st_state (igst_status st) \<noteq> StateDeleting)"

definition want_internet_gateway_delete :: "internet_gateway \<Rightarrow> bool" where [handler_defs]:
  "want_internet_gateway_delete r \<longleftrightarrow> md_deleted r \<noteq> None \<and> internet_gateway_is_not_deleting r"

definition is_internet_gateway_deleting :: "internet_gateway \<Rightarrow> bool" where [handler_defs]:
  "is_internet_gateway_deleting r \<longleftrightarrow> md_deleted r \<noteq> None \<and>
     (case ig_status r of None \<Rightarrow> False | Some st \<Rightarrow> st_state (igst_status st) = StateDeleting)"

definition want_internet_gateway_retry_create :: "internet_gateway \<Rightarrow> bool" where [handler_defs]:
  "want_internet_gateway_retry_create r \<longleftrightarrow> md_deleted r = None \<and>
     (case ig_status r of None \<Rightarrow> False
      | Some st \<Rightarrow> st_state (igst_status st) = StateError \<and> 1 < length (st_conditions (igst_status st)) \<and>
          c_state (st_conditions (igst_status st) ! 1) = StateCreating)"

definition internet_gateway_set_resource_state ::
  "(internet_gateway, 'w, 'm) plugin_handler_scheme \<Rightarrow> internet_gateway \<Rightarrow> resource_state \<Rightarrow> bool \<Rightarrow> 'w
   \<Rightarrow> reconcile_result \<times> internet_gateway \<times> 'w" where
  "internet_gateway_set_resource_state h r state rq w =
    (let st = (case ig_status r of None \<Rightarrow> zero_internet_gateway_status | Some st \<Rightarrow> st);
         st' = pushed (h_now h w) (condition_from_state (h_now h w) state) (igst_status st);
         r' = r\<lparr>ig_status := Some (st\<lparr>igst_status := trim_conditions (h_max_conditions h) st'\<rparr>)\<rparr> in
     case rp_update_status (h_repo h) r' w of
       (Inl err, w') \<Rightarrow>
         if errors_is err err_not_found then (Reconciled False None, r', w')
         else (Reconciled rq (Some err), r', w')
     | (Inr stored, w') \<Rightarrow> (Reconciled rq None, r', w'))"

definition internet_gateway_set_resource_error_state ::
  "(internet_gateway, 'w, 'm) plugin_handler_scheme \<Rightarrow> internet_gateway \<Rightarrow> go_error \<Rightarrow> bool \<Rightarrow> 'w
   \<Rightarrow> reconcile_result \<times> internet_gateway \<times> 'w" where
  "internet_gateway_set_resource_error_state h r cause rq w =
    (let st = (case ig_status r of None \<Rightarrow> zero_internet_gateway_status | Some st \<Rightarrow> st);
         st' = pushed (h_now h w) (condition_from_error (h_now h w) cause) (igst_status st);
         r' = r\<lparr>ig_status := Some (st\<lparr>igst_status := trim_conditions (h_max_conditions h) st'\<rparr>)\<rparr> in
     case rp_update_status (h_repo h) r' w of
       (Inl err, w') \<Rightarrow>
         if errors_is err err_not_found then (Reconciled False None, r', w')
         else (Reconciled rq (Some err), r', w')
     | (Inr stored, w') \<Rightarrow> (Reconciled rq None, r', w'))"

definition internet_gateway_handle_reconcile ::
  "(internet_gateway, 'w) plugin_handler \<Rightarrow> internet_gateway \<Rightarrow> 'w \<Rightarrow> reconcile_result \<times> internet_gateway \<times> 'w" where
  "internet_gateway_handle_reconcile h r w =
    (if is_internet_gateway_active r then handle_update (the_status internet_gateway_view) put_internet_gateway_status h r w
     else let delegate =
        (if is_internet_gateway_accepted r then Some bypass_delegated
         else if is_internet_gateway_pending r then Some bypass_delegated
         else if is_internet_gateway_creating r then Some (h_create h)
         else if want_internet_gateway_delete r then Some bypass_delegated
         else if is_internet_gateway_deleting r then Some (h_delete h)
         else if want_internet_gateway_retry_create r then Some bypass_delegated
         else None) in
     case delegate of
       None \<Rightarrow> (Reconciled False None, r, w)
     | Some op \<Rightarrow> (case op r w of
         (Some err, r1, w1) \<Rightarrow>
           if errors_is err (Sentinel ErrStillProcessing) then (Reconciled True None, r1, w1)
           else (case internet_gateway_set_resource_error_state h r1 err False w1 of
               (Reconciled rq (Some e), r2, w2) \<Rightarrow> (Reconciled rq (Some e), r2, w2)
             | (_, r2, w2) \<Rightarrow> (Reconciled True None, r2, w2))
       | (None, r1, w1) \<Rightarrow>
           if is_internet_gateway_accepted r1 then internet_gateway_set_resource_state h r1 StatePending False w1
           else if is_internet_gateway_pending r1 then internet_gateway_set_resource_state h r1 StateCreating True w1
           else if is_internet_gateway_creating r1 then internet_gateway_set_resource_state h r1 StateActive False w1
           else if want_internet_gateway_delete r1 then internet_gateway_set_resource_state h r1 StateDeleting True w1
           else if is_internet_gateway_deleting r1 then (Reconciled False None, r1, w1)
           else if want_internet_gateway_retry_create r1 then internet_gateway_set_resource_state h r1 StateCreating True w1
           else (ProcessExit, r1, w1)))"

lemma internet_gateway_switch:
  "(if is_internet_gateway_accepted r then a else if is_internet_gateway_pending r then b
    else if is_internet_gateway_creating r then c else if want_internet_gateway_delete r then d
    else if is_internet_gateway_deleting r then e else if want_internet_gateway_retry_create r then f else g) =
   (case arm_of (deleted_at r) (internet_gateway_view r) of
      ArmAccepted \<Rightarrow> a | ArmPending \<Rightarrow> b | ArmCreating \<Rightarrow> c | ArmWantDelete \<Rightarrow> d
    | ArmDeleting \<Rightarrow> e | ArmRetry \<Rightarrow> f | _ \<Rightarrow> g)"
  by (cases "ig_status r"; cases "md_deleted r")
     (auto simp: handler_defs internet_gateway_view_def deleted_at_def arm_of_def failed_while_def
       split: resource_state.splits)

lemma is_internet_gateway_active_arm:
  "is_internet_gateway_active r \<longleftrightarrow> arm_of (deleted_at r) (internet_gateway_view r) = ArmActive"
  by (cases "ig_status r") (auto simp: is_internet_gateway_active_def internet_gateway_view_def deleted_at_def arm_of_iff)

lemma internet_gateway_set_state_eq:
  "internet_gateway_set_resource_state h r s rq w = settle_state internet_gateway_view put_internet_gateway_status h s rq r w"
  by (cases "ig_status r")
     (simp_all add: internet_gateway_set_resource_state_def settle_state_def settle_def Let_def put_internet_gateway_status_def
       internet_gateway_view_def the_status_def zero_internet_gateway_status_def split: prod.split sum.split)

lemma internet_gateway_set_error_eq:
  "internet_gateway_set_resource_error_state h r err rq w =
     settle internet_gateway_view put_internet_gateway_status h (condition_from_error (h_now h w) err) rq r w"
  by (cases "ig_status r")
     (simp_all add: internet_gateway_set_resource_error_state_def settle_def Let_def put_internet_gateway_status_def
       internet_gateway_view_def the_status_def zero_internet_gateway_status_def split: prod.split sum.split)

lemma internet_gateway_reconcile_eq:
  "internet_gateway_handle_reconcile h r w = lifecycle deleted_at internet_gateway_view put_internet_gateway_status h r w"
  unfolding internet_gateway_handle_reconcile_def internet_gateway_switch internet_gateway_set_state_eq internet_gateway_set_error_eq is_internet_gateway_active_arm
    lifecycle_def settle_failure_def after_delegate_def
  by (cases "arm_of (deleted_at r) (internet_gateway_view r)")
     (simp_all only: arm.case arm.distinct option.case refl simp_thms Let_def if_True if_False delegate_of_def)

interpretation internet_gateway: plain_reconciler deleted_at internet_gateway_view put_internet_gateway_status internet_gateway_handle_reconcile
  by unfold_locales (rule internet_gateway_reconcile_eq)

subsection \<open>Subnet\<close>

text \<open>\<^verbatim>\<open>resource/network/v1/subnet/backend/kubernetes/plugin_handler.go\<close>.\<close>

definition zero_subnet_status :: subnet_status where
  "zero_subnet_status = \<lparr>snst_status = empty_status, snst_cidr = None, snst_route_table_ref = None\<rparr>"

definition subnet_view :: "subnet \<Rightarrow> status option" where
  "subnet_view r = map_option snst_status (sn_status r)"

definition put_subnet_status :: "status \<Rightarrow> subnet \<Rightarrow> subnet" where
  "put_subnet_status st r = r\<lparr>sn_status :=
     Some ((case sn_status r of None \<Rightarrow> zero_subnet_status | Some s \<Rightarrow> s)\<lparr>snst_status := st\<rparr>)\<rparr>"

interpretation subnet_status: status_view deleted_at subnet_view put_subnet_status
  by unfold_locales (simp_all add: subnet_view_def put_subnet_status_def deleted_at_def)

definition is_subnet_active :: "subnet \<Rightarrow> bool" where [handler_defs]:
  "is_subnet_active r \<longleftrightarrow> md_deleted r = None \<and>
     (case sn_status r of None \<Rightarrow> False | Some st \<Rightarrow> st_state (snst_status st) = StateActive)"

definition is_subnet_accepted :: "subnet \<Rightarrow> bool" where [handler_defs]:
  "is_subnet_accepted r \<longleftrightarrow> sn_status r = None"

definition is_subnet_pending :: "subnet \<Rightarrow> bool" where [handler_defs]:
  "is_subnet_pending r \<longleftrightarrow> md_deleted r = None \<and>
     (case sn_status r of None \<Rightarrow> True | Some st \<Rightarrow> st_state (snst_status st) = StatePending)"

definition is_subnet_creating :: "subnet \<Rightarrow> bool" where [handler_defs]:
  "is_subnet_creating r \<longleftrightarrow> md_deleted r = None \<and>
     (case sn_status r of None \<Rightarrow> False | Some st \<Rightarrow> st_state (snst_status st) = StateCreating)"

definition subnet_is_not_deleting :: "subnet \<Rightarrow> bool" where [handler_defs]:
  "subnet_is_not_deleting r \<longleftrightarrow> (case sn_status r of None \<Rightarrow> True | Some st \<Rightarrow> st_state (snst_status st) \<noteq> StateDeleting)"

definition want_subnet_delete :: "subnet \<Rightarrow> bool" where [handler_defs]:
  "want_subnet_delete r \<longleftrightarrow> md_deleted r \<noteq> None \<and> subnet_is_not_deleting r"

definition is_subnet_deleting :: "subnet \<Rightarrow> bool" where [handler_defs]:
  "is_subnet_deleting r \<longleftrightarrow> md_deleted r \<noteq> None \<and>
     (case sn_status r of None \<Rightarrow> False | Some st \<Rightarrow> st_state (snst_status st) = StateDeleting)"

definition want_subnet_retry_create :: "subnet \<Rightarrow> bool" where [handler_defs]:
  "want_subnet_retry_create r \<longleftrightarrow> md_deleted r = None \<and>
     (case sn_status r of None \<Rightarrow> False
      | Some st \<Rightarrow> st_state (snst_status st) = StateError \<and> 1 < length (st_conditions (snst_status st)) \<and>
          c_state (st_conditions (snst_status st) ! 1) = StateCreating)"

definition subnet_set_resource_state ::
  "(subnet, 'w, 'm) plugin_handler_scheme \<Rightarrow> subnet \<Rightarrow> resource_state \<Rightarrow> bool \<Rightarrow> 'w
   \<Rightarrow> reconcile_result \<times> subnet \<times> 'w" where
  "subnet_set_resource_state h r state rq w =
    (let st = (case sn_status r of None \<Rightarrow> zero_subnet_status | Some st \<Rightarrow> st);
         st' = pushed (h_now h w) (condition_from_state (h_now h w) state) (snst_status st);
         r' = r\<lparr>sn_status := Some (st\<lparr>snst_status := trim_conditions (h_max_conditions h) st'\<rparr>)\<rparr> in
     case rp_update_status (h_repo h) r' w of
       (Inl err, w') \<Rightarrow>
         if errors_is err err_not_found then (Reconciled False None, r', w')
         else (Reconciled rq (Some err), r', w')
     | (Inr stored, w') \<Rightarrow> (Reconciled rq None, r', w'))"

definition subnet_set_resource_error_state ::
  "(subnet, 'w, 'm) plugin_handler_scheme \<Rightarrow> subnet \<Rightarrow> go_error \<Rightarrow> bool \<Rightarrow> 'w
   \<Rightarrow> reconcile_result \<times> subnet \<times> 'w" where
  "subnet_set_resource_error_state h r cause rq w =
    (let st = (case sn_status r of None \<Rightarrow> zero_subnet_status | Some st \<Rightarrow> st);
         st' = pushed (h_now h w) (condition_from_error (h_now h w) cause) (snst_status st);
         r' = r\<lparr>sn_status := Some (st\<lparr>snst_status := trim_conditions (h_max_conditions h) st'\<rparr>)\<rparr> in
     case rp_update_status (h_repo h) r' w of
       (Inl err, w') \<Rightarrow>
         if errors_is err err_not_found then (Reconciled False None, r', w')
         else (Reconciled rq (Some err), r', w')
     | (Inr stored, w') \<Rightarrow> (Reconciled rq None, r', w'))"

definition subnet_handle_reconcile ::
  "(subnet, 'w) plugin_handler \<Rightarrow> subnet \<Rightarrow> 'w \<Rightarrow> reconcile_result \<times> subnet \<times> 'w" where
  "subnet_handle_reconcile h r w =
    (if is_subnet_active r then handle_update (the_status subnet_view) put_subnet_status h r w
     else let delegate =
        (if is_subnet_accepted r then Some bypass_delegated
         else if is_subnet_pending r then Some bypass_delegated
         else if is_subnet_creating r then Some (h_create h)
         else if want_subnet_delete r then Some bypass_delegated
         else if is_subnet_deleting r then Some (h_delete h)
         else if want_subnet_retry_create r then Some bypass_delegated
         else None) in
     case delegate of
       None \<Rightarrow> (Reconciled False None, r, w)
     | Some op \<Rightarrow> (case op r w of
         (Some err, r1, w1) \<Rightarrow>
           if errors_is err (Sentinel ErrStillProcessing) then (Reconciled True None, r1, w1)
           else (case subnet_set_resource_error_state h r1 err False w1 of
               (Reconciled rq (Some e), r2, w2) \<Rightarrow> (Reconciled rq (Some e), r2, w2)
             | (_, r2, w2) \<Rightarrow> (Reconciled True None, r2, w2))
       | (None, r1, w1) \<Rightarrow>
           if is_subnet_accepted r1 then subnet_set_resource_state h r1 StatePending False w1
           else if is_subnet_pending r1 then subnet_set_resource_state h r1 StateCreating True w1
           else if is_subnet_creating r1 then subnet_set_resource_state h r1 StateActive False w1
           else if want_subnet_delete r1 then subnet_set_resource_state h r1 StateDeleting True w1
           else if is_subnet_deleting r1 then (Reconciled False None, r1, w1)
           else if want_subnet_retry_create r1 then subnet_set_resource_state h r1 StateCreating True w1
           else (ProcessExit, r1, w1)))"

lemma subnet_switch:
  "(if is_subnet_accepted r then a else if is_subnet_pending r then b
    else if is_subnet_creating r then c else if want_subnet_delete r then d
    else if is_subnet_deleting r then e else if want_subnet_retry_create r then f else g) =
   (case arm_of (deleted_at r) (subnet_view r) of
      ArmAccepted \<Rightarrow> a | ArmPending \<Rightarrow> b | ArmCreating \<Rightarrow> c | ArmWantDelete \<Rightarrow> d
    | ArmDeleting \<Rightarrow> e | ArmRetry \<Rightarrow> f | _ \<Rightarrow> g)"
  by (cases "sn_status r"; cases "md_deleted r")
     (auto simp: handler_defs subnet_view_def deleted_at_def arm_of_def failed_while_def
       split: resource_state.splits)

lemma is_subnet_active_arm:
  "is_subnet_active r \<longleftrightarrow> arm_of (deleted_at r) (subnet_view r) = ArmActive"
  by (cases "sn_status r") (auto simp: is_subnet_active_def subnet_view_def deleted_at_def arm_of_iff)

lemma subnet_set_state_eq:
  "subnet_set_resource_state h r s rq w = settle_state subnet_view put_subnet_status h s rq r w"
  by (cases "sn_status r")
     (simp_all add: subnet_set_resource_state_def settle_state_def settle_def Let_def put_subnet_status_def
       subnet_view_def the_status_def zero_subnet_status_def split: prod.split sum.split)

lemma subnet_set_error_eq:
  "subnet_set_resource_error_state h r err rq w =
     settle subnet_view put_subnet_status h (condition_from_error (h_now h w) err) rq r w"
  by (cases "sn_status r")
     (simp_all add: subnet_set_resource_error_state_def settle_def Let_def put_subnet_status_def
       subnet_view_def the_status_def zero_subnet_status_def split: prod.split sum.split)

lemma subnet_reconcile_eq:
  "subnet_handle_reconcile h r w = lifecycle deleted_at subnet_view put_subnet_status h r w"
  unfolding subnet_handle_reconcile_def subnet_switch subnet_set_state_eq subnet_set_error_eq is_subnet_active_arm
    lifecycle_def settle_failure_def after_delegate_def
  by (cases "arm_of (deleted_at r) (subnet_view r)")
     (simp_all only: arm.case arm.distinct option.case refl simp_thms Let_def if_True if_False delegate_of_def)

interpretation subnet: plain_reconciler deleted_at subnet_view put_subnet_status subnet_handle_reconcile
  by unfold_locales (rule subnet_reconcile_eq)

subsection \<open>Route table\<close>

text \<open>\<^verbatim>\<open>resource/network/v1/route-table/backend/kubernetes/plugin_handler.go\<close>.\<close>

definition zero_route_table_status :: route_table_status where
  "zero_route_table_status = \<lparr>rtst_status = empty_status, rtst_routes = []\<rparr>"

definition route_table_view :: "route_table \<Rightarrow> status option" where
  "route_table_view r = map_option rtst_status (rt_status r)"

definition put_route_table_status :: "status \<Rightarrow> route_table \<Rightarrow> route_table" where
  "put_route_table_status st r = r\<lparr>rt_status :=
     Some ((case rt_status r of None \<Rightarrow> zero_route_table_status | Some s \<Rightarrow> s)\<lparr>rtst_status := st\<rparr>)\<rparr>"

interpretation route_table_status: status_view deleted_at route_table_view put_route_table_status
  by unfold_locales (simp_all add: route_table_view_def put_route_table_status_def deleted_at_def)

definition is_route_table_active :: "route_table \<Rightarrow> bool" where [handler_defs]:
  "is_route_table_active r \<longleftrightarrow> md_deleted r = None \<and>
     (case rt_status r of None \<Rightarrow> False | Some st \<Rightarrow> st_state (rtst_status st) = StateActive)"

definition is_route_table_accepted :: "route_table \<Rightarrow> bool" where [handler_defs]:
  "is_route_table_accepted r \<longleftrightarrow> rt_status r = None"

definition is_route_table_pending :: "route_table \<Rightarrow> bool" where [handler_defs]:
  "is_route_table_pending r \<longleftrightarrow> md_deleted r = None \<and>
     (case rt_status r of None \<Rightarrow> True | Some st \<Rightarrow> st_state (rtst_status st) = StatePending)"

definition is_route_table_creating :: "route_table \<Rightarrow> bool" where [handler_defs]:
  "is_route_table_creating r \<longleftrightarrow> md_deleted r = None \<and>
     (case rt_status r of None \<Rightarrow> False | Some st \<Rightarrow> st_state (rtst_status st) = StateCreating)"

definition route_table_is_not_deleting :: "route_table \<Rightarrow> bool" where [handler_defs]:
  "route_table_is_not_deleting r \<longleftrightarrow> (case rt_status r of None \<Rightarrow> True | Some st \<Rightarrow> st_state (rtst_status st) \<noteq> StateDeleting)"

definition want_route_table_delete :: "route_table \<Rightarrow> bool" where [handler_defs]:
  "want_route_table_delete r \<longleftrightarrow> md_deleted r \<noteq> None \<and> route_table_is_not_deleting r"

definition is_route_table_deleting :: "route_table \<Rightarrow> bool" where [handler_defs]:
  "is_route_table_deleting r \<longleftrightarrow> md_deleted r \<noteq> None \<and>
     (case rt_status r of None \<Rightarrow> False | Some st \<Rightarrow> st_state (rtst_status st) = StateDeleting)"

definition want_route_table_retry_create :: "route_table \<Rightarrow> bool" where [handler_defs]:
  "want_route_table_retry_create r \<longleftrightarrow> md_deleted r = None \<and>
     (case rt_status r of None \<Rightarrow> False
      | Some st \<Rightarrow> st_state (rtst_status st) = StateError \<and> 1 < length (st_conditions (rtst_status st)) \<and>
          c_state (st_conditions (rtst_status st) ! 1) = StateCreating)"

definition route_table_set_resource_state ::
  "(route_table, 'w, 'm) plugin_handler_scheme \<Rightarrow> route_table \<Rightarrow> resource_state \<Rightarrow> bool \<Rightarrow> 'w
   \<Rightarrow> reconcile_result \<times> route_table \<times> 'w" where
  "route_table_set_resource_state h r state rq w =
    (let st = (case rt_status r of None \<Rightarrow> zero_route_table_status | Some st \<Rightarrow> st);
         st' = pushed (h_now h w) (condition_from_state (h_now h w) state) (rtst_status st);
         r' = r\<lparr>rt_status := Some (st\<lparr>rtst_status := trim_conditions (h_max_conditions h) st'\<rparr>)\<rparr> in
     case rp_update_status (h_repo h) r' w of
       (Inl err, w') \<Rightarrow>
         if errors_is err err_not_found then (Reconciled False None, r', w')
         else (Reconciled rq (Some err), r', w')
     | (Inr stored, w') \<Rightarrow> (Reconciled rq None, r', w'))"

definition route_table_set_resource_error_state ::
  "(route_table, 'w, 'm) plugin_handler_scheme \<Rightarrow> route_table \<Rightarrow> go_error \<Rightarrow> bool \<Rightarrow> 'w
   \<Rightarrow> reconcile_result \<times> route_table \<times> 'w" where
  "route_table_set_resource_error_state h r cause rq w =
    (let st = (case rt_status r of None \<Rightarrow> zero_route_table_status | Some st \<Rightarrow> st);
         st' = pushed (h_now h w) (condition_from_error (h_now h w) cause) (rtst_status st);
         r' = r\<lparr>rt_status := Some (st\<lparr>rtst_status := trim_conditions (h_max_conditions h) st'\<rparr>)\<rparr> in
     case rp_update_status (h_repo h) r' w of
       (Inl err, w') \<Rightarrow>
         if errors_is err err_not_found then (Reconciled False None, r', w')
         else (Reconciled rq (Some err), r', w')
     | (Inr stored, w') \<Rightarrow> (Reconciled rq None, r', w'))"

definition route_table_handle_reconcile ::
  "(route_table, 'w) plugin_handler \<Rightarrow> route_table \<Rightarrow> 'w \<Rightarrow> reconcile_result \<times> route_table \<times> 'w" where
  "route_table_handle_reconcile h r w =
    (if is_route_table_active r then handle_update (the_status route_table_view) put_route_table_status h r w
     else let delegate =
        (if is_route_table_accepted r then Some bypass_delegated
         else if is_route_table_pending r then Some bypass_delegated
         else if is_route_table_creating r then Some (h_create h)
         else if want_route_table_delete r then Some bypass_delegated
         else if is_route_table_deleting r then Some (h_delete h)
         else if want_route_table_retry_create r then Some bypass_delegated
         else None) in
     case delegate of
       None \<Rightarrow> (Reconciled False None, r, w)
     | Some op \<Rightarrow> (case op r w of
         (Some err, r1, w1) \<Rightarrow>
           if errors_is err (Sentinel ErrStillProcessing) then (Reconciled True None, r1, w1)
           else (case route_table_set_resource_error_state h r1 err False w1 of
               (Reconciled rq (Some e), r2, w2) \<Rightarrow> (Reconciled rq (Some e), r2, w2)
             | (_, r2, w2) \<Rightarrow> (Reconciled True None, r2, w2))
       | (None, r1, w1) \<Rightarrow>
           if is_route_table_accepted r1 then route_table_set_resource_state h r1 StatePending False w1
           else if is_route_table_pending r1 then route_table_set_resource_state h r1 StateCreating True w1
           else if is_route_table_creating r1 then route_table_set_resource_state h r1 StateActive False w1
           else if want_route_table_delete r1 then route_table_set_resource_state h r1 StateDeleting True w1
           else if is_route_table_deleting r1 then (Reconciled False None, r1, w1)
           else if want_route_table_retry_create r1 then route_table_set_resource_state h r1 StateCreating True w1
           else (ProcessExit, r1, w1)))"

lemma route_table_switch:
  "(if is_route_table_accepted r then a else if is_route_table_pending r then b
    else if is_route_table_creating r then c else if want_route_table_delete r then d
    else if is_route_table_deleting r then e else if want_route_table_retry_create r then f else g) =
   (case arm_of (deleted_at r) (route_table_view r) of
      ArmAccepted \<Rightarrow> a | ArmPending \<Rightarrow> b | ArmCreating \<Rightarrow> c | ArmWantDelete \<Rightarrow> d
    | ArmDeleting \<Rightarrow> e | ArmRetry \<Rightarrow> f | _ \<Rightarrow> g)"
  by (cases "rt_status r"; cases "md_deleted r")
     (auto simp: handler_defs route_table_view_def deleted_at_def arm_of_def failed_while_def
       split: resource_state.splits)

lemma is_route_table_active_arm:
  "is_route_table_active r \<longleftrightarrow> arm_of (deleted_at r) (route_table_view r) = ArmActive"
  by (cases "rt_status r") (auto simp: is_route_table_active_def route_table_view_def deleted_at_def arm_of_iff)

lemma route_table_set_state_eq:
  "route_table_set_resource_state h r s rq w = settle_state route_table_view put_route_table_status h s rq r w"
  by (cases "rt_status r")
     (simp_all add: route_table_set_resource_state_def settle_state_def settle_def Let_def put_route_table_status_def
       route_table_view_def the_status_def zero_route_table_status_def split: prod.split sum.split)

lemma route_table_set_error_eq:
  "route_table_set_resource_error_state h r err rq w =
     settle route_table_view put_route_table_status h (condition_from_error (h_now h w) err) rq r w"
  by (cases "rt_status r")
     (simp_all add: route_table_set_resource_error_state_def settle_def Let_def put_route_table_status_def
       route_table_view_def the_status_def zero_route_table_status_def split: prod.split sum.split)

lemma route_table_reconcile_eq:
  "route_table_handle_reconcile h r w = lifecycle deleted_at route_table_view put_route_table_status h r w"
  unfolding route_table_handle_reconcile_def route_table_switch route_table_set_state_eq route_table_set_error_eq is_route_table_active_arm
    lifecycle_def settle_failure_def after_delegate_def
  by (cases "arm_of (deleted_at r) (route_table_view r)")
     (simp_all only: arm.case arm.distinct option.case refl simp_thms Let_def if_True if_False delegate_of_def)

interpretation route_table: plain_reconciler deleted_at route_table_view put_route_table_status route_table_handle_reconcile
  by unfold_locales (rule route_table_reconcile_eq)

end
