(* ===== verification/Network_Edge_Handlers.thy ===== *)
theory Network_Edge_Handlers
  imports Reconcilers
begin

section \<open>The plugin handlers of NICs, public IPs, security groups and their rules\<close>

text \<open>
  Each group: the empty status struct and the view of the resource (its embedded status, if the
  status pointer is set), the predicates of the switch, the two status setters, and
  \<^verbatim>\<open>HandleReconcile\<close>, whose second switch runs on the resource as the plugin's operation left it.
  The last lemma of a group shows that the handler is the reference pass; its interpretation as a
  \<open>plain_reconciler\<close> gives everything proved there.
\<close>

subsection \<open>Nic\<close>

text \<open>\<^verbatim>\<open>resource/network/v1/nic/backend/kubernetes/plugin_handler.go\<close>.\<close>

definition zero_nic_status :: nic_status where
  "zero_nic_status = \<lparr>nicst_status = empty_status, nicst_addresses = [], nicst_mac_address = [],
     nicst_public_ip_refs = []\<rparr>"

definition nic_view :: "nic \<Rightarrow> status option" where
  "nic_view r = map_option nicst_status (nic_status r)"

definition put_nic_status :: "status \<Rightarrow> nic \<Rightarrow> nic" where
  "put_nic_status st r = r\<lparr>nic_status :=
     Some ((case nic_status r of None \<Rightarrow> zero_nic_status | Some s \<Rightarrow> s)\<lparr>nicst_status := st\<rparr>)\<rparr>"

interpretation nic_status: status_view deleted_at nic_view put_nic_status
  by unfold_locales (simp_all add: nic_view_def put_nic_status_def deleted_at_def)

definition is_nic_active :: "nic \<Rightarrow> bool" where [handler_defs]:
  "is_nic_active r \<longleftrightarrow> md_deleted r = None \<and>
     (case nic_status r of None \<Rightarrow> False | Some st \<Rightarrow> st_state (nicst_status st) = StateActive)"

definition is_nic_accepted :: "nic \<Rightarrow> bool" where [handler_defs]:
  "is_nic_accepted r \<longleftrightarrow> nic_status r = None"

definition is_nic_pending :: "nic \<Rightarrow> bool" where [handler_defs]:
  "is_nic_pending r \<longleftrightarrow> md_deleted r = None \<and>
     (case nic_status r of None \<Rightarrow> True | Some st \<Rightarrow> st_state (nicst_status st) = StatePending)"

definition is_nic_creating :: "nic \<Rightarrow> bool" where [handler_defs]:
  "is_nic_creating r \<longleftrightarrow> md_deleted r = None \<and>
     (case nic_status r of None \<Rightarrow> False | Some st \<Rightarrow> st_state (nicst_status st) = StateCreating)"

definition nic_is_not_deleting :: "nic \<Rightarrow> bool" where [handler_defs]:
  "nic_is_not_deleting r \<longleftrightarrow> (case nic_status r of None \<Rightarrow> True | Some st \<Rightarrow> st_state (nicst_status st) \<noteq> StateDeleting)"

definition want_nic_delete :: "nic \<Rightarrow> bool" where [handler_defs]:
  "want_nic_delete r \<longleftrightarrow> md_deleted r \<noteq> None \<and> nic_is_not_deleting r"

definition is_nic_deleting :: "nic \<Rightarrow> bool" where [handler_defs]:
  "is_nic_deleting r \<longleftrightarrow> md_deleted r \<noteq> None \<and>
     (case nic_status r of None \<Rightarrow> False | Some st \<Rightarrow> st_state (nicst_status st) = StateDeleting)"

definition want_nic_retry_create :: "nic \<Rightarrow> bool" where [handler_defs]:
  "want_nic_retry_create r \<longleftrightarrow> md_deleted r = None \<and>
     (case nic_status r of None \<Rightarrow> False
      | Some st \<Rightarrow> st_state (nicst_status st) = StateError \<and> 1 < length (st_conditions (nicst_status st)) \<and>
          c_state (st_conditions (nicst_status st) ! 1) = StateCreating)"

definition nic_set_resource_state ::
  "(nic, 'w, 'm) plugin_handler_scheme \<Rightarrow> nic \<Rightarrow> resource_state \<Rightarrow> bool \<Rightarrow> 'w
   \<Rightarrow> reconcile_result \<times> nic \<times> 'w" where
  "nic_set_resource_state h r state rq w =
    (let st = (case nic_status r of None \<Rightarrow> zero_nic_status | Some st \<Rightarrow> st);
         st' = pushed (h_now h w) (condition_from_state (h_now h w) state) (nicst_status st);
         r' = r\<lparr>nic_status := Some (st\<lparr>nicst_status := trim_conditions (h_max_conditions h) st'\<rparr>)\<rparr> in
     case rp_update_status (h_repo h) r' w of
       (Inl err, w') \<Rightarrow>
         if errors_is err err_not_found then (Reconciled False None, r', w')
         else (Reconciled rq (Some err), r', w')
     | (Inr stored, w') \<Rightarrow> (Reconciled rq None, r', w'))"

definition nic_set_resource_error_state ::
  "(nic, 'w, 'm) plugin_handler_scheme \<Rightarrow> nic \<Rightarrow> go_error \<Rightarrow> bool \<Rightarrow> 'w
   \<Rightarrow> reconcile_result \<times> nic \<times> 'w" where
  "nic_set_resource_error_state h r cause rq w =
    (let st = (case nic_status r of None \<Rightarrow> zero_nic_status | Some st \<Rightarrow> st);
         st' = pushed (h_now h w) (condition_from_error (h_now h w) cause) (nicst_status st);
         r' = r\<lparr>nic_status := Some (st\<lparr>nicst_status := trim_conditions (h_max_conditions h) st'\<rparr>)\<rparr> in
     case rp_update_status (h_repo h) r' w of
       (Inl err, w') \<Rightarrow>
         if errors_is err err_not_found then (Reconciled False None, r', w')
         else (Reconciled rq (Some err), r', w')
     | (Inr stored, w') \<Rightarrow> (Reconciled rq None, r', w'))"

definition nic_handle_reconcile ::
  "(nic, 'w) plugin_handler \<Rightarrow> nic \<Rightarrow> 'w \<Rightarrow> reconcile_result \<times> nic \<times> 'w" where
  "nic_handle_reconcile h r w =
    (if is_nic_active r then handle_update (the_status nic_view) put_nic_status h r w
     else let delegate =
        (if is_nic_accepted r then Some bypass_delegated
         else if is_nic_pending r then Some bypass_delegated
         else if is_nic_creating r then Some (h_create h)
         else if want_nic_delete r then Some bypass_delegated
         else if is_nic_deleting r then Some (h_delete h)
         else if want_nic_retry_create r then Some bypass_delegated
         else None) in
     case delegate of
       None \<Rightarrow> (Reconciled False None, r, w)
     | Some op \<Rightarrow> (case op r w of
         (Some err, r1, w1) \<Rightarrow>
           if errors_is err (Sentinel ErrStillProcessing) then (Reconciled True None, r1, w1)
           else (case nic_set_resource_error_state h r1 err False w1 of
               (Reconciled rq (Some e), r2, w2) \<Rightarrow> (Reconciled rq (Some e), r2, w2)
             | (_, r2, w2) \<Rightarrow> (Reconciled True None, r2, w2))
       | (None, r1, w1) \<Rightarrow>
           if is_nic_accepted r1 then nic_set_resource_state h r1 StatePending False w1
           else if is_nic_pending r1 then nic_set_resource_state h r1 StateCreating True w1
           else if is_nic_creating r1 then nic_set_resource_state h r1 StateActive False w1
           else if want_nic_delete r1 then nic_set_resource_state h r1 StateDeleting True w1
           else if is_nic_deleting r1 then (Reconciled False None, r1, w1)
           else if want_nic_retry_create r1 then nic_set_resource_state h r1 StateCreating True w1
           else (ProcessExit, r1, w1)))"

lemma nic_switch:
  "(if is_nic_accepted r then a else if is_nic_pending r then b
    else if is_nic_creating r then c else if want_nic_delete r then d
    else if is_nic_deleting r then e else if want_nic_retry_create r then f else g) =
   (case arm_of (deleted_at r) (nic_view r) of
      ArmAccepted \<Rightarrow> a | ArmPending \<Rightarrow> b | ArmCreating \<Rightarrow> c | ArmWantDelete \<Rightarrow> d
    | ArmDeleting \<Rightarrow> e | ArmRetry \<Rightarrow> f | _ \<Rightarrow> g)"
  by (cases "nic_status r"; cases "md_deleted r")
     (auto simp: handler_defs nic_view_def deleted_at_def arm_of_def failed_while_def
       split: resource_state.splits)

lemma is_nic_active_arm:
  "is_nic_active r \<longleftrightarrow> arm_of (deleted_at r) (nic_view r) = ArmActive"
  by (cases "nic_status r") (auto simp: is_nic_active_def nic_view_def deleted_at_def arm_of_iff)

lemma nic_set_state_eq:
  "nic_set_resource_state h r s rq w = settle_state nic_view put_nic_status h s rq r w"
  by (cases "nic_status r")
     (simp_all add: nic_set_resource_state_def settle_state_def settle_def Let_def put_nic_status_def
       nic_view_def the_status_def zero_nic_status_def split: prod.split sum.split)

lemma nic_set_error_eq:
  "nic_set_resource_error_state h r err rq w =
     settle nic_view put_nic_status h (condition_from_error (h_now h w) err) rq r w"
  by (cases "nic_status r")
     (simp_all add: nic_set_resource_error_state_def settle_def Let_def put_nic_status_def
       nic_view_def the_status_def zero_nic_status_def split: prod.split sum.split)

lemma nic_reconcile_eq:
  "nic_handle_reconcile h r w = lifecycle deleted_at nic_view put_nic_status h r w"
  unfolding nic_handle_reconcile_def nic_switch nic_set_state_eq nic_set_error_eq is_nic_active_arm
    lifecycle_def settle_failure_def after_delegate_def
  by (cases "arm_of (deleted_at r) (nic_view r)")
     (simp_all only: arm.case arm.distinct option.case refl simp_thms Let_def if_True if_False delegate_of_def)

interpretation nic: plain_reconciler deleted_at nic_view put_nic_status nic_handle_reconcile
  by unfold_locales (rule nic_reconcile_eq)

subsection \<open>Public IP\<close>

text \<open>\<^verbatim>\<open>resource/network/v1/public-ip/backend/kubernetes/plugin_handler.go\<close>.\<close>

definition zero_public_ip_status :: public_ip_status where
  "zero_public_ip_status = \<lparr>pist_status = empty_status, pist_attached_to = None, pist_ip_address = []\<rparr>"

definition public_ip_view :: "public_ip \<Rightarrow> status option" where
  "public_ip_view r = map_option pist_status (pi_status r)"

definition put_public_ip_status :: "status \<Rightarrow> public_ip \<Rightarrow> public_ip" where
  "put_public_ip_status st r = r\<lparr>pi_status :=
     Some ((case pi_status r of None \<Rightarrow> zero_public_ip_status | Some s \<Rightarrow> s)\<lparr>pist_status := st\<rparr>)\<rparr>"

interpretation public_ip_status: status_view deleted_at public_ip_view put_public_ip_status
  by unfold_locales (simp_all add: public_ip_view_def put_public_ip_status_def deleted_at_def)

definition is_public_ip_active :: "public_ip \<Rightarrow> bool" where [handler_defs]:
  "is_public_ip_active r \<longleftrightarrow> md_deleted r = None \<and>
     (case pi_status r of None \<Rightarrow> False | Some st \<Rightarrow> st_state (pist_status st) = StateActive)"

definition is_public_ip_accepted :: "public_ip \<Rightarrow> bool" where [handler_defs]:
  "is_public_ip_accepted r \<longleftrightarrow> pi_status r = None"

definition is_public_ip_pending :: "public_ip \<Rightarrow> bool" where [handler_defs]:
  "is_public_ip_pending r \<longleftrightarrow> md_deleted r = None \<and>
     (case pi_status r of None \<Rightarrow> True | Some st \<Rightarrow> st_state (pist_status st) = StatePending)"

definition is_public_ip_creating :: "public_ip \<Rightarrow> bool" where [handler_defs]:
  "is_public_ip_creating r \<longleftrightarrow> md_deleted r = None \<and>
     (case pi_status r of None \<Rightarrow> False | Some st \<Rightarrow> st_state (pist_status st) = StateCreating)"

definition public_ip_is_not_deleting :: "public_ip \<Rightarrow> bool" where [handler_defs]:
  "public_ip_is_not_deleting r \<longleftrightarrow> (case pi_status r of None \<Rightarrow> True | Some st \<Rightarrow> st_state (pist_status st) \<noteq> StateDeleting)"

definition want_public_ip_delete :: "public_ip \<Rightarrow> bool" where [handler_defs]:
  "want_public_ip_delete r \<longleftrightarrow> md_deleted r \<noteq> None \<and> public_ip_is_not_deleting r"

definition is_public_ip_deleting :: "public_ip \<Rightarrow> bool" where [handler_defs]:
  "is_public_ip_deleting r \<longleftrightarrow> md_deleted r \<noteq> None \<and>
     (case pi_status r of None \<Rightarrow> False | Some st \<Rightarrow> st_state (pist_status st) = StateDeleting)"

definition want_public_ip_retry_create :: "public_ip \<Rightarrow> bool" where [handler_defs]:
  "want_public_ip_retry_create r \<longleftrightarrow> md_deleted r = None \<and>
     (case pi_status r of None \<Rightarrow> False
      | Some st \<Rightarrow> st_state (pist_status st) = StateError \<and> 1 < length (st_conditions (pist_status st)) \<and>
          c_state (st_conditions (pist_status st) ! 1) = StateCreating)"

definition public_ip_set_resource_state ::
  "(public_ip, 'w, 'm) plugin_handler_scheme \<Rightarrow> public_ip \<Rightarrow> resource_state \<Rightarrow> bool \<Rightarrow> 'w
   \<Rightarrow> reconcile_result \<times> public_ip \<times> 'w" where
  "public_ip_set_resource_state h r state rq w =
    (let st = (case pi_status r of None \<Rightarrow> zero_public_ip_status | Some st \<Rightarrow> st);
         st' = pushed (h_now h w) (condition_from_state (h_now h w) state) (pist_status st);
         r' = r\<lparr>pi_status := Some (st\<lparr>pist_status := trim_conditions (h_max_conditions h) st'\<rparr>)\<rparr> in
     case rp_update_status (h_repo h) r' w of
       (Inl err, w') \<Rightarrow>
         if errors_is err err_not_found then (Reconciled False None, r', w')
         else (Reconciled rq (Some err), r', w')
     | (Inr stored, w') \<Rightarrow> (Reconciled rq None, r', w'))"

definition public_ip_set_resource_error_state ::
  "(public_ip, 'w, 'm) plugin_handler_scheme \<Rightarrow> public_ip \<Rightarrow> go_error \<Rightarrow> bool \<Rightarrow> 'w
   \<Rightarrow> reconcile_result \<times> public_ip \<times> 'w" where
  "public_ip_set_resource_error_state h r cause rq w =
    (let st = (case pi_status r of None \<Rightarrow> zero_public_ip_status | Some st \<Rightarrow> st);
         st' = pushed (h_now h w) (condition_from_error (h_now h w) cause) (pist_status st);
         r' = r\<lparr>pi_status := Some (st\<lparr>pist_status := trim_conditions (h_max_conditions h) st'\<rparr>)\<rparr> in
     case rp_update_status (h_repo h) r' w of
       (Inl err, w') \<Rightarrow>
         if errors_is err err_not_found then (Reconciled False None, r', w')
         else (Reconciled rq (Some err), r', w')
     | (Inr stored, w') \<Rightarrow> (Reconciled rq None, r', w'))"

definition public_ip_handle_reconcile ::
  "(public_ip, 'w) plugin_handler \<Rightarrow> public_ip \<Rightarrow> 'w \<Rightarrow> reconcile_result \<times> public_ip \<times> 'w" where
  "public_ip_handle_reconcile h r w =
    (if is_public_ip_active r then handle_update (the_status public_ip_view) put_public_ip_status h r w
     else let delegate =
        (if is_public_ip_accepted r then Some bypass_delegated
         else if is_public_ip_pending r then Some bypass_delegated
         else if is_public_ip_creating r then Some (h_create h)
         else if want_public_ip_delete r then Some bypass_delegated
         else if is_public_ip_deleting r then Some (h_delete h)
         else if want_public_ip_retry_create r then Some bypass_delegated
         else None) in
     case delegate of
       None \<Rightarrow> (Reconciled False None, r, w)
     | Some op \<Rightarrow> (case op r w of
         (Some err, r1, w1) \<Rightarrow>
           if errors_is err (Sentinel ErrStillProcessing) then (Reconciled True None, r1, w1)
           else (case public_ip_set_resource_error_state h r1 err False w1 of
               (Reconciled rq (Some e), r2, w2) \<Rightarrow> (Reconciled rq (Some e), r2, w2)
             | (_, r2, w2) \<Rightarrow> (Reconciled True None, r2, w2))
       | (None, r1, w1) \<Rightarrow>
           if is_public_ip_accepted r1 then public_ip_set_resource_state h r1 StatePending False w1
           else if is_public_ip_pending r1 then public_ip_set_resource_state h r1 StateCreating True w1
           else if is_public_ip_creating r1 then public_ip_set_resource_state h r1 StateActive False w1
           else if want_public_ip_delete r1 then public_ip_set_resource_state h r1 StateDeleting True w1
           else if is_public_ip_deleting r1 then (Reconciled False None, r1, w1)
           else if want_public_ip_retry_create r1 then public_ip_set_resource_state h r1 StateCreating True w1
           else (ProcessExit, r1, w1)))"

lemma public_ip_switch:
  "(if is_public_ip_accepted r then a else if is_public_ip_pending r then b
    else if is_public_ip_creating r then c else if want_public_ip_delete r then d
    else if is_public_ip_deleting r then e else if want_public_ip_retry_create r then f else g) =
   (case arm_of (deleted_at r) (public_ip_view r) of
      ArmAccepted \<Rightarrow> a | ArmPending \<Rightarrow> b | ArmCreating \<Rightarrow> c | ArmWantDelete \<Rightarrow> d
    | ArmDeleting \<Rightarrow> e | ArmRetry \<Rightarrow> f | _ \<Rightarrow> g)"
  by (cases "pi_status r"; cases "md_deleted r")
     (auto simp: handler_defs public_ip_view_def deleted_at_def arm_of_def failed_while_def
       split: resource_state.splits)

lemma is_public_ip_active_arm:
  "is_public_ip_active r \<longleftrightarrow> arm_of (deleted_at r) (public_ip_view r) = ArmActive"
  by (cases "pi_status r") (auto simp: is_public_ip_active_def public_ip_view_def deleted_at_def arm_of_iff)

lemma public_ip_set_state_eq:
  "public_ip_set_resource_state h r s rq w = settle_state public_ip_view put_public_ip_status h s rq r w"
  by (cases "pi_status r")
     (simp_all add: public_ip_set_resource_state_def settle_state_def settle_def Let_def put_public_ip_status_def
       public_ip_view_def the_status_def zero_public_ip_status_def split: prod.split sum.split)

lemma public_ip_set_error_eq:
  "public_ip_set_resource_error_state h r err rq w =
     settle public_ip_view put_public_ip_status h (condition_from_error (h_now h w) err) rq r w"
  by (cases "pi_status r")
     (simp_all add: public_ip_set_resource_error_state_def settle_def Let_def put_public_ip_status_def
       public_ip_view_def the_status_def zero_public_ip_status_def split: prod.split sum.split)

lemma public_ip_reconcile_eq:
  "public_ip_handle_reconcile h r w = lifecycle deleted_at public_ip_view put_public_ip_status h r w"
  unfolding public_ip_handle_reconcile_def public_ip_switch public_ip_set_state_eq public_ip_set_error_eq is_public_ip_active_arm
    lifecycle_def settle_failure_def after_delegate_def
  by (cases "arm_of (deleted_at r) (public_ip_view r)")
     (simp_all only: arm.case arm.distinct option.case refl simp_thms Let_def if_True if_False delegate_of_def)

interpretation public_ip: plain_reconciler deleted_at public_ip_view put_public_ip_status public_ip_handle_reconcile
  by unfold_locales (rule public_ip_reconcile_eq)

subsection \<open>Security group\<close>

text \<open>\<^verbatim>\<open>resource/network/v1/security-group/backend/kubernetes/plugin_handler.go\<close>.\<close>

definition zero_security_group_status :: security_group_status where
  "zero_security_group_status = \<lparr>sgst_status = empty_status, sgst_rules = []\<rparr>"

definition security_group_view :: "security_group \<Rightarrow> status option" where
  "security_group_view r = map_option sgst_status (sg_status r)"

definition put_security_group_status :: "status \<Rightarrow> security_group \<Rightarrow> security_group" where
  "put_security_group_status st r = r\<lparr>sg_status :=
     Some ((case sg_status r of None \<Rightarrow> zero_security_group_status | Some s \<Rightarrow> s)\<lparr>sgst_status := st\<rparr>)\<rparr>"

interpretation security_group_status: status_view deleted_at security_group_view put_security_group_status
  by unfold_locales (simp_all add: security_group_view_def put_security_group_status_def deleted_at_def)

definition is_security_group_active :: "security_group \<Rightarrow> bool" where [handler_defs]:
  "is_security_group_active r \<longleftrightarrow> md_deleted r = None \<and>
     (case sg_status r of None \<Rightarrow> False | Some st \<Rightarrow> st_state (sgst_status st) = StateActive)"

definition is_security_group_accepted :: "security_group \<Rightarrow> bool" where [handler_defs]:
  "is_security_group_accepted r \<longleftrightarrow> sg_status r = None"

definition is_security_group_pending :: "security_group \<Rightarrow> bool" where [handler_defs]:
  "is_security_group_pending r \<longleftrightarrow> md_deleted r = None \<and>
     (case sg_status r of None \<Rightarrow> True | Some st \<Rightarrow> st_state (sgst_status st) = StatePending)"

definition is_security_group_creating :: "security_group \<Rightarrow> bool" where [handler_defs]:
  "is_security_group_creating r \<longleftrightarrow> md_deleted r = None \<and>
     (case sg_status r of None \<Rightarrow> False | Some st \<Rightarrow> st_state (sgst_status st) = StateCreating)"

definition security_group_is_not_deleting :: "security_group \<Rightarrow> bool" where [handler_defs]:
  "security_group_is_not_deleting r \<longleftrightarrow> (case sg_status r of None \<Rightarrow> True | Some st \<Rightarrow> st_state (sgst_status st) \<noteq> StateDeleting)"

definition want_security_group_delete :: "security_group \<Rightarrow> bool" where [handler_defs]:
  "want_security_group_delete r \<longleftrightarrow> md_deleted r \<noteq> None \<and> security_group_is_not_deleting r"

definition is_security_group_deleting :: "security_group \<Rightarrow> bool" where [handler_defs]:
  "is_security_group_deleting r \<longleftrightarrow> md_deleted r \<noteq> None \<and>
     (case sg_status r of None \<Rightarrow> False | Some st \<Rightarrow> st_state (sgst_status st) = StateDeleting)"

definition want_security_group_retry_create :: "security_group \<Rightarrow> bool" where [handler_defs]:
  "want_security_group_retry_create r \<longleftrightarrow> md_deleted r = None \<and>
     (case sg_status r of None \<Rightarrow> False
      | Some st \<Rightarrow> st_state (sgst_status st) = StateError \<and> 1 < length (st_conditions (sgst_status st)) \<and>
          c_state (st_conditions (sgst_status st) ! 1) = StateCreating)"

definition security_group_set_resource_state ::
  "(security_group, 'w, 'm) plugin_handler_scheme \<Rightarrow> security_group \<Rightarrow> resource_state \<Rightarrow> bool \<Rightarrow> 'w
   \<Rightarrow> reconcile_result \<times> security_group \<times> 'w" where
  "security_group_set_resource_state h r state rq w =
    (let st = (case sg_status r of None \<Rightarrow> zero_security_group_status | Some st \<Rightarrow> st);
         st' = pushed (h_now h w) (condition_from_state (h_now h w) state) (sgst_status st);
         r' = r\<lparr>sg_status := Some (st\<lparr>sgst_status := trim_conditions (h_max_conditions h) st'\<rparr>)\<rparr> in
     case rp_update_status (h_repo h) r' w of
       (Inl err, w') \<Rightarrow>
         if errors_is err err_not_found then (Reconciled False None, r', w')
         else (Reconciled rq (Some err), r', w')
     | (Inr stored, w') \<Rightarrow> (Reconciled rq None, r', w'))"

definition security_group_set_resource_error_state ::
  "(security_group, 'w, 'm) plugin_handler_scheme \<Rightarrow> security_group \<Rightarrow> go_error \<Rightarrow> bool \<Rightarrow> 'w
   \<Rightarrow> reconcile_result \<times> security_group \<times> 'w" where
  "security_group_set_resource_error_state h r cause rq w =
    (let st = (case sg_status r of None \<Rightarrow> zero_security_group_status | Some st \<Rightarrow> st);
         st' = pushed (h_now h w) (condition_from_error (h_now h w) cause) (sgst_status st);
         r' = r\<lparr>sg_status := Some (st\<lparr>sgst_status := trim_conditions (h_max_conditions h) st'\<rparr>)\<rparr> in
     case rp_update_status (h_repo h) r' w of
       (Inl err, w') \<Rightarrow>
         if errors_is err err_not_found then (Reconciled False None, r', w')
         else (Reconciled rq (Some err), r', w')
     | (Inr stored, w') \<Rightarrow> (Reconciled rq None, r', w'))"

definition security_group_handle_reconcile ::
  "(security_group, 'w) plugin_handler \<Rightarrow> security_group \<Rightarrow> 'w \<Rightarrow> reconcile_result \<times> security_group \<times> 'w" where
  "security_group_handle_reconcile h r w =
    (if is_security_group_active r then handle_update (the_status security_group_view) put_security_group_status h r w
     else let delegate =
        (if is_security_group_accepted r then Some bypass_delegated
         else if is_security_group_pending r then Some bypass_delegated
         else if is_security_group_creating r then Some (h_create h)
         else if want_security_group_delete r then Some bypass_delegated
         else if is_security_group_deleting r then Some (h_delete h)
         else if want_security_group_retry_create r then Some bypass_delegated
         else None) in
     case delegate of
       None \<Rightarrow> (Reconciled False None, r, w)
     | Some op \<Rightarrow> (case op r w of
         (Some err, r1, w1) \<Rightarrow>
           if errors_is err (Sentinel ErrStillProcessing) then (Reconciled True None, r1, w1)
           else (case security_group_set_resource_error_state h r1 err False w1 of
               (Reconciled rq (Some e), r2, w2) \<Rightarrow> (Reconciled rq (Some e), r2, w2)
             | (_, r2, w2) \<Rightarrow> (Reconciled True None, r2, w2))
       | (None, r1, w1) \<Rightarrow>
           if is_security_group_accepted r1 then security_group_set_resource_state h r1 StatePending False w1
           else if is_security_group_pending r1 then security_group_set_resource_state h r1 StateCreating True w1
           else if is_security_group_creating r1 then security_group_set_resource_state h r1 StateActive False w1
           else if want_security_group_delete r1 then security_group_set_resource_state h r1 StateDeleting True w1
           else if is_security_group_deleting r1 then (Reconciled False None, r1, w1)
           else if want_security_group_retry_create r1 then security_group_set_resource_state h r1 StateCreating True w1
           else (ProcessExit, r1, w1)))"

lemma security_group_switch:
  "(if is_security_group_accepted r then a else if is_security_group_pending r then b
    else if is_security_group_creating r then c else if want_security_group_delete r then d
    else if is_security_group_deleting r then e else if want_security_group_retry_create r then f else g) =
   (case arm_of (deleted_at r) (security_group_view r) of
      ArmAccepted \<Rightarrow> a | ArmPending \<Rightarrow> b | ArmCreating \<Rightarrow> c | ArmWantDelete \<Rightarrow> d
    | ArmDeleting \<Rightarrow> e | ArmRetry \<Rightarrow> f | _ \<Rightarrow> g)"
  by (cases "sg_status r"; cases "md_deleted r")
     (auto simp: handler_defs security_group_view_def deleted_at_def arm_of_def failed_while_def
       split: resource_state.splits)

lemma is_security_group_active_arm:
  "is_security_group_active r \<longleftrightarrow> arm_of (deleted_at r) (security_group_view r) = ArmActive"
  by (cases "sg_status r") (auto simp: is_security_group_active_def security_group_view_def deleted_at_def arm_of_iff)

lemma security_group_set_state_eq:
  "security_group_set_resource_state h r s rq w = settle_state security_group_view put_security_group_status h s rq r w"
  by (cases "sg_status r")
     (simp_all add: security_group_set_resource_state_def settle_state_def settle_def Let_def put_security_group_status_def
       security_group_view_def the_status_def zero_security_group_status_def split: prod.split sum.split)

lemma security_group_set_error_eq:
  "security_group_set_resource_error_state h r err rq w =
     settle security_group_view put_security_group_status h (condition_from_error (h_now h w) err) rq r w"
  by (cases "sg_status r")
     (simp_all add: security_group_set_resource_error_state_def settle_def Let_def put_security_group_status_def
       security_group_view_def the_status_def zero_security_group_status_def split: prod.split sum.split)

lemma security_group_reconcile_eq:
  "security_group_handle_reconcile h r w = lifecycle deleted_at security_group_view put_security_group_status h r w"
  unfolding security_group_handle_reconcile_def security_group_switch security_group_set_state_eq security_group_set_error_eq is_security_group_active_arm
    lifecycle_def settle_failure_def after_delegate_def
  by (cases "arm_of (deleted_at r) (security_group_view r)")
     (simp_all only: arm.case arm.distinct option.case refl simp_thms Let_def if_True if_False delegate_of_def)

interpretation security_group: plain_reconciler deleted_at security_group_view put_security_group_status security_group_handle_reconcile
  by unfold_locales (rule security_group_reconcile_eq)

subsection \<open>Security group rule\<close>

text \<open>\<^verbatim>\<open>resource/network/v1/security-group-rule/backend/kubernetes/plugin_handler.go\<close>.\<close>

definition zero_security_group_rule_status :: security_group_rule_status where
  "zero_security_group_rule_status = \<lparr>sgrst_status = empty_status\<rparr>"

definition security_group_rule_view :: "security_group_rule \<Rightarrow> status option" where
  "security_group_rule_view r = map_option sgrst_status (sgr_status r)"

definition put_security_group_rule_status :: "status \<Rightarrow> security_group_rule \<Rightarrow> security_group_rule" where
  "put_security_group_rule_status st r = r\<lparr>sgr_status :=
     Some ((case sgr_status r of None \<Rightarrow> zero_security_group_rule_status | Some s \<Rightarrow> s)\<lparr>sgrst_status := st\<rparr>)\<rparr>"

interpretation security_group_rule_status: status_view deleted_at security_group_rule_view put_security_group_rule_status
  by unfold_locales (simp_all add: security_group_rule_view_def put_security_group_rule_status_def deleted_at_def)

definition is_security_group_rule_active :: "security_group_rule \<Rightarrow> bool" where [handler_defs]:
  "is_security_group_rule_active r \<longleftrightarrow> md_deleted r = None \<and>
     (case sgr_status r of None \<Rightarrow> False | Some st \<Rightarrow> st_state (sgrst_status st) = StateActive)"

definition is_security_group_rule_accepted :: "security_group_rule \<Rightarrow> bool" where [handler_defs]:
  "is_security_group_rule_accepted r \<longleftrightarrow> sgr_status r = None"

definition is_security_group_rule_pending :: "security_group_rule \<Rightarrow> bool" where [handler_defs]:
  "is_security_group_rule_pending r \<longleftrightarrow> md_deleted r = None \<and>
     (case sgr_status r of None \<Rightarrow> True | Some st \<Rightarrow> st_state (sgrst_status st) = StatePending)"

definition is_security_group_rule_creating :: "security_group_rule \<Rightarrow> bool" where [handler_defs]:
  "is_security_group_rule_creating r \<longleftrightarrow> md_deleted r = None \<and>
     (case sgr_status r of None \<Rightarrow> False | Some st \<Rightarrow> st_state (sgrst_status st) = StateCreating)"

definition security_group_rule_is_not_deleting :: "security_group_rule \<Rightarrow> bool" where [handler_defs]:
  "security_group_rule_is_not_deleting r \<longleftrightarrow> (case sgr_status r of None \<Rightarrow> True | Some st \<Rightarrow> st_state (sgrst_status st) \<noteq> StateDeleting)"

definition want_security_group_rule_delete :: "security_group_rule \<Rightarrow> bool" where [handler_defs]:
  "want_security_group_rule_delete r \<longleftrightarrow> md_deleted r \<noteq> None \<and> security_group_rule_is_not_deleting r"

definition is_security_group_rule_deleting :: "security_group_rule \<Rightarrow> bool" where [handler_defs]:
  "is_security_group_rule_deleting r \<longleftrightarrow> md_deleted r \<noteq> None \<and>
     (case sgr_status r of None \<Rightarrow> False | Some st \<Rightarrow> st_state (sgrst_status st) = StateDeleting)"

definition want_security_group_rule_retry_create :: "security_group_rule \<Rightarrow> bool" where [handler_defs]:
  "want_security_group_rule_retry_create r \<longleftrightarrow> md_deleted r = None \<and>
     (case sgr_status r of None \<Rightarrow> False
      | Some st \<Rightarrow> st_state (sgrst_status st) = StateError \<and> 1 < length (st_conditions (sgrst_status st)) \<and>
          c_state (st_conditions (sgrst_status st) ! 1) = StateCreating)"

definition security_group_rule_set_resource_state ::
  "(security_group_rule, 'w, 'm) plugin_handler_scheme \<Rightarrow> security_group_rule \<Rightarrow> resource_state \<Rightarrow> bool \<Rightarrow> 'w
   \<Rightarrow> reconcile_result \<times> security_group_rule \<times> 'w" where
  "security_group_rule_set_resource_state h r state rq w =
    (let st = (case sgr_status r of None \<Rightarrow> zero_security_group_rule_status | Some st \<Rightarrow> st);
         st' = pushed (h_now h w) (condition_from_state (h_now h w) state) (sgrst_status st);
         r' = r\<lparr>sgr_status := Some (st\<lparr>sgrst_status := trim_conditions (h_max_conditions h) st'\<rparr>)\<rparr> in
     case rp_update_status (h_repo h) r' w of
       (Inl err, w') \<Rightarrow>
         if errors_is err err_not_found then (Reconciled False None, r', w')
         else (Reconciled rq (Some err), r', w')
     | (Inr stored, w') \<Rightarrow> (Reconciled rq None, r', w'))"

definition security_group_rule_set_resource_error_state ::
  "(security_group_rule, 'w, 'm) plugin_handler_scheme \<Rightarrow> security_group_rule \<Rightarrow> go_error \<Rightarrow> bool \<Rightarrow> 'w
   \<Rightarrow> reconcile_result \<times> security_group_rule \<times> 'w" where
  "security_group_rule_set_resource_error_state h r cause rq w =
    (let st = (case sgr_status r of None \<Rightarrow> zero_security_group_rule_status | Some st \<Rightarrow> st);
         st' = pushed (h_now h w) (condition_from_error (h_now h w) cause) (sgrst_status st);
         r' = r\<lparr>sgr_status := Some (st\<lparr>sgrst_status := trim_conditions (h_max_conditions h) st'\<rparr>)\<rparr> in
     case rp_update_status (h_repo h) r' w of
       (Inl err, w') \<Rightarrow>
         if errors_is err err_not_found then (Reconciled False None, r', w')
         else (Reconciled rq (Some err), r', w')
     | (Inr stored, w') \<Rightarrow> (Reconciled rq None, r', w'))"

definition security_group_rule_handle_reconcile ::
  "(security_group_rule, 'w) plugin_handler \<Rightarrow> security_group_rule \<Rightarrow> 'w \<Rightarrow> reconcile_result \<times> security_group_rule \<times> 'w" where
  "security_group_rule_handle_reconcile h r w =
    (if is_security_group_rule_active r then handle_update (the_status security_group_rule_view) put_security_group_rule_status h r w
     else let delegate =
        (if is_security_group_rule_accepted r then Some bypass_delegated
         else if is_security_group_rule_pending r then Some bypass_delegated
         else if is_security_group_rule_creating r then Some (h_create h)
         else if want_security_group_rule_delete r then Some bypass_delegated
         else if is_security_group_rule_deleting r then Some (h_delete h)
         else if want_security_group_rule_retry_create r then Some bypass_delegated
         else None) in
     case delegate of
       None \<Rightarrow> (Reconciled False None, r, w)
     | Some op \<Rightarrow> (case op r w of
         (Some err, r1, w1) \<Rightarrow>
           if errors_is err (Sentinel ErrStillProcessing) then (Reconciled True None, r1, w1)
           else (case security_group_rule_set_resource_error_state h r1 err False w1 of
               (Reconciled rq (Some e), r2, w2) \<Rightarrow> (Reconciled rq (Some e), r2, w2)
             | (_, r2, w2) \<Rightarrow> (Reconciled True None, r2, w2))
       | (None, r1, w1) \<Rightarrow>
           if is_security_group_rule_accepted r1 then security_group_rule_set_resource_state h r1 StatePending False w1
           else if is_security_group_rule_pending r1 then security_group_rule_set_resource_state h r1 StateCreating True w1
           else if is_security_group_rule_creating r1 then security_group_rule_set_resource_state h r1 StateActive False w1
           else if want_security_group_rule_delete r1 then security_group_rule_set_resource_state h r1 StateDeleting True w1
           else if is_security_group_rule_deleting r1 then (Reconciled False None, r1, w1)
           else if want_security_group_rule_retry_create r1 then security_group_rule_set_resource_state h r1 StateCreating True w1
           else (ProcessExit, r1, w1)))"

lemma security_group_rule_switch:
  "(if is_security_group_rule_accepted r then a else if is_security_group_rule_pending r then b
    else if is_security_group_rule_creating r then c else if want_security_group_rule_delete r then d
    else if is_security_group_rule_deleting r then e else if want_security_group_rule_retry_create r then f else g) =
   (case arm_of (deleted_at r) (security_group_rule_view r) of
      ArmAccepted \<Rightarrow> a | ArmPending \<Rightarrow> b | ArmCreating \<Rightarrow> c | ArmWantDelete \<Rightarrow> d
    | ArmDeleting \<Rightarrow> e | ArmRetry \<Rightarrow> f | _ \<Rightarrow> g)"
  by (cases "sgr_status r"; cases "md_deleted r")
     (auto simp: handler_defs security_group_rule_view_def deleted_at_def arm_of_def failed_while_def
       split: resource_state.splits)

lemma is_security_group_rule_active_arm:
  "is_security_group_rule_active r \<longleftrightarrow> arm_of (deleted_at r) (security_group_rule_view r) = ArmActive"
  by (cases "sgr_status r") (auto simp: is_security_group_rule_active_def security_group_rule_view_def deleted_at_def arm_of_iff)

lemma security_group_rule_set_state_eq:
  "security_group_rule_set_resource_state h r s rq w = settle_state security_group_rule_view put_security_group_rule_status h s rq r w"
  by (cases "sgr_status r")
     (simp_all add: security_group_rule_set_resource_state_def settle_state_def settle_def Let_def put_security_group_rule_status_def
       security_group_rule_view_def the_status_def zero_security_group_rule_status_def split: prod.split sum.split)

lemma security_group_rule_set_error_eq:
  "security_group_rule_set_resource_error_state h r err rq w =
     settle security_group_rule_view put_security_group_rule_status h (condition_from_error (h_now h w) err) rq r w"
  by (cases "sgr_status r")
     (simp_all add: security_group_rule_set_resource_error_state_def settle_def Let_def put_security_group_rule_status_def
       security_group_rule_view_def the_status_def zero_security_group_rule_status_def split: prod.split sum.split)

lemma security_group_rule_reconcile_eq:
  "security_group_rule_handle_reconcile h r w = lifecycle deleted_at security_group_rule_view put_security_group_rule_status h r w"
  unfolding security_group_rule_handle_reconcile_def security_group_rule_switch security_group_rule_set_state_eq security_group_rule_set_error_eq is_security_group_rule_active_arm
    lifecycle_def settle_failure_def after_delegate_def
  by (cases "arm_of (deleted_at r) (security_group_rule_view r)")
     (simp_all only: arm.case arm.distinct option.case refl simp_thms Let_def if_True if_False delegate_of_def)

interpretation security_group_rule: plain_reconciler deleted_at security_group_rule_view put_security_group_rule_status security_group_rule_handle_reconcile
  by unfold_locales (rule security_group_rule_reconcile_eq)

end
