(* ===== verification/Authorization_Handlers.thy ===== *)
theory Authorization_Handlers
  imports Reconcilers
begin

section \<open>The plugin handlers of roles and role assignments\<close>

text \<open>
  Each group: the empty status struct and the view of the resource (its embedded status, if the
  status pointer is set), the predicates of the switch, the two status setters, and
  \<^verbatim>\<open>HandleReconcile\<close>, whose second switch runs on the resource as the plugin's operation left it.
  The last lemma of a group shows that the handler is the reference pass; its interpretation as a
  \<open>plain_reconciler\<close> gives everything proved there.
\<close>

subsection \<open>Role\<close>

text \<open>\<^verbatim>\<open>resource/authorization/v1/role/backend/kubernetes/plugin_handler.go\<close>.\<close>

definition zero_role_status :: role_status where
  "zero_role_status = \<lparr>rost_status = empty_status\<rparr>"

definition role_view :: "role \<Rightarrow> status option" where
  "role_view r = map_option rost_status (ro_status r)"

definition put_role_status :: "status \<Rightarrow> role \<Rightarrow> role" where
  "put_role_status st r = r\<lparr>ro_status :=
     Some ((case ro_status r of None \<Rightarrow> zero_role_status | Some s \<Rightarrow> s)\<lparr>rost_status := st\<rparr>)\<rparr>"

interpretation role_status: status_view deleted_at role_view put_role_status
  by unfold_locales (simp_all add: role_view_def put_role_status_def deleted_at_def)

definition is_role_active :: "role \<Rightarrow> bool" where [handler_defs]:
  "is_role_active r \<longleftrightarrow> md_deleted r = None \<and>
     (case ro_status r of None \<Rightarrow> False | Some st \<Rightarrow> st_state (rost_status st) = StateActive)"

definition is_role_accepted :: "role \<Rightarrow> bool" where [handler_defs]:
  "is_role_accepted r \<longleftrightarrow> ro_status r = None"

definition is_role_pending :: "role \<Rightarrow> bool" where [handler_defs]:
  "is_role_pending r \<longleftrightarrow> md_deleted r = None \<and>
     (case ro_status r of None \<Rightarrow> True | Some st \<Rightarrow> st_state (rost_status st) = StatePending)"

definition is_role_creating :: "role \<Rightarrow> bool" where [handler_defs]:
  "is_role_creating r \<longleftrightarrow> md_deleted r = None \<and>
     (case ro_status r of None \<Rightarrow> False | Some st \<Rightarrow> st_state (rost_status st) = StateCreating)"

definition role_is_not_deleting :: "role \<Rightarrow> bool" where [handler_defs]:
  "role_is_not_deleting r \<longleftrightarrow> (case ro_status r of None \<Rightarrow> True | Some st \<Rightarrow> st_state (rost_status st) \<noteq> StateDeleting)"

definition want_role_delete :: "role \<Rightarrow> bool" where [handler_defs]:
  "want_role_delete r \<longleftrightarrow> md_deleted r \<noteq> None \<and> role_is_not_deleting r"

definition is_role_deleting :: "role \<Rightarrow> bool" where [handler_defs]:
  "is_role_deleting r \<longleftrightarrow> md_deleted r \<noteq> None \<and>
     (case ro_status r of None \<Rightarrow> False | Some st \<Rightarrow> st_state (rost_status st) = StateDeleting)"

definition want_role_retry_create :: "role \<Rightarrow> bool" where [handler_defs]:
  "want_role_retry_create r \<longleftrightarrow> md_deleted r = None \<and>
     (case ro_status r of None \<Rightarrow> False
      | Some st \<Rightarrow> st_state (rost_status st) = StateError \<and> 1 < length (st_conditions (rost_status st)) \<and>
          c_state (st_conditions (rost_status st) ! 1) = StateCreating)"

definition role_set_resource_state ::
  "(role, 'w, 'm) plugin_handler_scheme \<Rightarrow> role \<Rightarrow> resource_state \<Rightarrow> bool \<Rightarrow> 'w
   \<Rightarrow> reconcile_result \<times> role \<times> 'w" where
  "role_set_resource_state h r state rq w =
    (let st = (case ro_status r of None \<Rightarrow> zero_role_status | Some st \<Rightarrow> st);
         st' = pushed (h_now h w) (condition_from_state (h_now h w) state) (rost_status st);
         r' = r\<lparr>ro_status := Some (st\<lparr>rost_status := trim_conditions (h_max_conditions h) st'\<rparr>)\<rparr> in
     case rp_update_status (h_repo h) r' w of
       (Inl err, w') \<Rightarrow>
         if errors_is err err_not_found then (Reconciled False None, r', w')
         else (Reconciled rq (Some err), r', w')
     | (Inr stored, w') \<Rightarrow> (Reconciled rq None, r', w'))"

definition role_set_resource_error_state ::
  "(role, 'w, 'm) plugin_handler_scheme \<Rightarrow> role \<Rightarrow> go_error \<Rightarrow> bool \<Rightarrow> 'w
   \<Rightarrow> reconcile_result \<times> role \<times> 'w" where
  "role_set_resource_error_state h r cause rq w =
    (let st = (case ro_status r of None \<Rightarrow> zero_role_status | Some st \<Rightarrow> st);
         st' = pushed (h_now h w) (condition_from_error (h_now h w) cause) (rost_status st);
         r' = r\<lparr>ro_status := Some (st\<lparr>rost_status := trim_conditions (h_max_conditions h) st'\<rparr>)\<rparr> in
     case rp_update_status (h_repo h) r' w of
       (Inl err, w') \<Rightarrow>
         if errors_is err err_not_found then (Reconciled False None, r', w')
         else (Reconciled rq (Some err), r', w')
     | (Inr stored, w') \<Rightarrow> (Reconciled rq None, r', w'))"

definition role_handle_reconcile ::
  "(role, 'w) plugin_handler \<Rightarrow> role \<Rightarrow> 'w \<Rightarrow> reconcile_result \<times> role \<times> 'w" where
  "role_handle_reconcile h r w =
    (if is_role_active r then handle_update (the_status role_view) put_role_status h r w
     else let delegate =
        (if is_role_accepted r then Some bypass_delegated
         else if is_role_pending r then Some bypass_delegated
         else if is_role_creating r then Some (h_create h)
         else if want_role_delete r then Some bypass_delegated
         else if is_role_deleting r then Some (h_delete h)
         else if want_role_retry_create r then Some bypass_delegated
         else None) in
     case delegate of
       None \<Rightarrow> (Reconciled False None, r, w)
     | Some op \<Rightarrow> (case op r w of
         (Some err, r1, w1) \<Rightarrow>
           if errors_is err (Sentinel ErrStillProcessing) then (Reconciled True None, r1, w1)
           else (case role_set_resource_error_state h r1 err False w1 of
               (Reconciled rq (Some e), r2, w2) \<Rightarrow> (Reconciled rq (Some e), r2, w2)
             | (_, r2, w2) \<Rightarrow> (Reconciled True None, r2, w2))
       | (None, r1, w1) \<Rightarrow>
           if is_role_accepted r1 then role_set_resource_state h r1 StatePending False w1
           else if is_role_pending r1 then role_set_resource_state h r1 StateCreating True w1
           else if is_role_creating r1 then role_set_resource_state h r1 StateActive False w1
           else if want_role_delete r1 then role_set_resource_state h r1 StateDeleting True w1
           else if is_role_deleting r1 then (Reconciled False None, r1, w1)
           else if want_role_retry_create r1 then role_set_resource_state h r1 StateCreating True w1
           else (ProcessExit, r1, w1)))"

lemma role_switch:
  "(if is_role_accepted r then a else if is_role_pending r then b
    else if is_role_creating r then c else if want_role_delete r then d
    else if is_role_deleting r then e else if want_role_retry_create r then f else g) =
   (case arm_of (deleted_at r) (role_view r) of
      ArmAccepted \<Rightarrow> a | ArmPending \<Rightarrow> b | ArmCreating \<Rightarrow> c | ArmWantDelete \<Rightarrow> d
    | ArmDeleting \<Rightarrow> e | ArmRetry \<Rightarrow> f | _ \<Rightarrow> g)"
  by (cases "ro_status r"; cases "md_deleted r")
     (auto simp: handler_defs role_view_def deleted_at_def arm_of_def failed_while_def
       split: resource_state.splits)

lemma is_role_active_arm:
  "is_role_active r \<longleftrightarrow> arm_of (deleted_at r) (role_view r) = ArmActive"
  by (cases "ro_status r") (auto simp: is_role_active_def role_view_def deleted_at_def arm_of_iff)

lemma role_set_state_eq:
  "role_set_resource_state h r s rq w = settle_state role_view put_role_status h s rq r w"
  by (cases "ro_status r")
     (simp_all add: role_set_resource_state_def settle_state_def settle_def Let_def put_role_status_def
       role_view_def the_status_def zero_role_status_def split: prod.split sum.split)

lemma role_set_error_eq:
  "role_set_resource_error_state h r err rq w =
     settle role_view put_role_status h (condition_from_error (h_now h w) err) rq r w"
  by (cases "ro_status r")
     (simp_all add: role_set_resource_error_state_def settle_def Let_def put_role_status_def
       role_view_def the_status_def zero_role_status_def split: prod.split sum.split)

lemma role_reconcile_eq:
  "role_handle_reconcile h r w = lifecycle deleted_at role_view put_role_status h r w"
  unfolding role_handle_reconcile_def role_switch role_set_state_eq role_set_error_eq is_role_active_arm
    lifecycle_def settle_failure_def after_delegate_def
  by (cases "arm_of (deleted_at r) (role_view r)")
     (simp_all only: arm.case arm.distinct option.case refl simp_thms Let_def if_True if_False delegate_of_def)

interpretation role: plain_reconciler deleted_at role_view put_role_status role_handle_reconcile
  by unfold_locales (rule role_reconcile_eq)

subsection \<open>Role assignment\<close>

text \<open>\<^verbatim>\<open>resource/authorization/v1/role-assignment/backend/kubernetes/plugin_handler.go\<close>.\<close>

definition zero_role_assignment_status :: role_assignment_status where
  "zero_role_assignment_status = \<lparr>rast_status = empty_status\<rparr>"

definition role_assignment_view :: "role_assignment \<Rightarrow> status option" where
  "role_assignment_view r = map_option rast_status (ra_status r)"

definition put_role_assignment_status :: "status \<Rightarrow> role_assignment \<Rightarrow> role_assignment" where
  "put_role_assignment_status st r = r\<lparr>ra_status :=
     Some ((case ra_status r of None \<Rightarrow> zero_role_assignment_status | Some s \<Rightarrow> s)\<lparr>rast_status := st\<rparr>)\<rparr>"

interpretation role_assignment_status: status_view deleted_at role_assignment_view put_role_assignment_status
  by unfold_locales (simp_all add: role_assignment_view_def put_role_assignment_status_def deleted_at_def)

definition is_role_assignment_active :: "role_assignment \<Rightarrow> bool" where [handler_defs]:
  "is_role_assignment_active r \<longleftrightarrow> md_deleted r = None \<and>
     (case ra_status r of None \<Rightarrow> False | Some st \<Rightarrow> st_state (rast_status st) = StateActive)"

definition is_role_assignment_accepted :: "role_assignment \<Rightarrow> bool" where [handler_defs]:
  "is_role_assignment_accepted r \<longleftrightarrow> ra_status r = None"

definition is_role_assignment_pending :: "role_assignment \<Rightarrow> bool" where [handler_defs]:
  "is_role_assignment_pending r \<longleftrightarrow> md_deleted r = None \<and>
     (case ra_status r of None \<Rightarrow> True | Some st \<Rightarrow> st_state (rast_status st) = StatePending)"

definition is_role_assignment_creating :: "role_assignment \<Rightarrow> bool" where [handler_defs]:
  "is_role_assignment_creating r \<longleftrightarrow> md_deleted r = None \<and>
     (case ra_status r of None \<Rightarrow> False | Some st \<Rightarrow> st_state (rast_status st) = StateCreating)"

definition role_assignment_is_not_deleting :: "role_assignment \<Rightarrow> bool" where [handler_defs]:
  "role_assignment_is_not_deleting r \<longleftrightarrow> (case ra_status r of None \<Rightarrow> True | Some st \<Rightarrow> st_state (rast_status st) \<noteq> StateDeleting)"

definition want_role_assignment_delete :: "role_assignment \<Rightarrow> bool" where [handler_defs]:
  "want_role_assignment_delete r \<longleftrightarrow> md_deleted r \<noteq> None \<and> role_assignment_is_not_deleting r"

definition is_role_assignment_deleting :: "role_assignment \<Rightarrow> bool" where [handler_defs]:
  "is_role_assignment_deleting r \<longleftrightarrow> md_deleted r \<noteq> None \<and>
     (case ra_status r of None \<Rightarrow> False | Some st \<Rightarrow> st_state (rast_status st) = StateDeleting)"

definition want_role_assignment_retry_create :: "role_assignment \<Rightarrow> bool" where [handler_defs]:
  "want_role_assignment_retry_create r \<longleftrightarrow> md_deleted r = None \<and>
     (case ra_status r of None \<Rightarrow> False
      | Some st \<Rightarrow> st_state (rast_status st) = StateError \<and> 1 < length (st_conditions (rast_status st)) \<and>
          c_state (st_conditions (rast_status st) ! 1) = StateCreating)"

definition role_assignment_set_resource_state ::
  "(role_assignment, 'w, 'm) plugin_handler_scheme \<Rightarrow> role_assignment \<Rightarrow> resource_state \<Rightarrow> bool \<Rightarrow> 'w
   \<Rightarrow> reconcile_result \<times> role_assignment \<times> 'w" where
  "role_assignment_set_resource_state h r state rq w =
    (let st = (case ra_status r of None \<Rightarrow> zero_role_assignment_status | Some st \<Rightarrow> st);
         st' = pushed (h_now h w) (condition_from_state (h_now h w) state) (rast_status st);
         r' = r\<lparr>ra_status := Some (st\<lparr>rast_status := trim_conditions (h_max_conditions h) st'\<rparr>)\<rparr> in
     case rp_update_status (h_repo h) r' w of
       (Inl err, w') \<Rightarrow>
         if errors_is err err_not_found then (Reconciled False None, r', w')
         else (Reconciled rq (Some err), r', w')
     | (Inr stored, w') \<Rightarrow> (Reconciled rq None, r', w'))"

definition role_assignment_set_resource_error_state ::
  "(role_assignment, 'w, 'm) plugin_handler_scheme \<Rightarrow> role_assignment \<Rightarrow> go_error \<Rightarrow> bool \<Rightarrow> 'w
   \<Rightarrow> reconcile_result \<times> role_assignment \<times> 'w" where
  "role_assignment_set_resource_error_state h r cause rq w =
    (let st = (case ra_status r of None \<Rightarrow> zero_role_assignment_status | Some st \<Rightarrow> st);
         st' = pushed (h_now h w) (condition_from_error (h_now h w) cause) (rast_status st);
         r' = r\<lparr>ra_status := Some (st\<lparr>rast_status := trim_conditions (h_max_conditions h) st'\<rparr>)\<rparr> in
     case rp_update_status (h_repo h) r' w of
       (Inl err, w') \<Rightarrow>
         if errors_is err err_not_found then (Reconciled False None, r', w')
         else (Reconciled rq (Some err), r', w')
     | (Inr stored, w') \<Rightarrow> (Reconciled rq None, r', w'))"

definition role_assignment_handle_reconcile ::
  "(role_assignment, 'w) plugin_handler \<Rightarrow> role_assignment \<Rightarrow> 'w \<Rightarrow> reconcile_result \<times> role_assignment \<times> 'w" where
  "role_assignment_handle_reconcile h r w =
    (if is_role_assignment_active r then handle_update (the_status role_assignment_view) put_role_assignment_status h r w
     else let delegate =
        (if is_role_assignment_accepted r then Some bypass_delegated
         else if is_role_assignment_pending r then Some bypass_delegated
         else if is_role_assignment_creating r then Some (h_create h)
         else if want_role_assignment_delete r then Some bypass_delegated
         else if is_role_assignment_deleting r then Some (h_delete h)
         else if want_role_assignment_retry_create r then Some bypass_delegated
         else None) in
     case delegate of
       None \<Rightarrow> (Reconciled False None, r, w)
     | Some op \<Rightarrow> (case op r w of
         (Some err, r1, w1) \<Rightarrow>
           if errors_is err (Sentinel ErrStillProcessing) then (Reconciled True None, r1, w1)
           else (case role_assignment_set_resource_error_state h r1 err False w1 of
               (Reconciled rq (Some e), r2, w2) \<Rightarrow> (Reconciled rq (Some e), r2, w2)
             | (_, r2, w2) \<Rightarrow> (Reconciled True None, r2, w2))
       | (None, r1, w1) \<Rightarrow>
           if is_role_assignment_accepted r1 then role_assignment_set_resource_state h r1 StatePending False w1
           else if is_role_assignment_pending r1 then role_assignment_set_resource_state h r1 StateCreating True w1
           else if is_role_assignment_creating r1 then role_assignment_set_resource_state h r1 StateActive False w1
           else if want_role_assignment_delete r1 then role_assignment_set_resource_state h r1 StateDeleting True w1
           else if is_role_assignment_deleting r1 then (Reconciled False None, r1, w1)
           else if want_role_assignment_retry_create r1 then role_assignment_set_resource_state h r1 StateCreating True w1
           else (ProcessExit, r1, w1)))"

lemma role_assignment_switch:
  "(if is_role_assignment_accepted r then a else if is_role_assignment_pending r then b
    else if is_role_assignment_creating r then c else if want_role_assignment_delete r then d
    else if is_role_assignment_deleting r then e else if want_role_assignment_retry_create r then f else g) =
   (case arm_of (deleted_at r) (role_assignment_view r) of
      ArmAccepted \<Rightarrow> a | ArmPending \<Rightarrow> b | ArmCreating \<Rightarrow> c | ArmWantDelete \<Rightarrow> d
    | ArmDeleting \<Rightarrow> e | ArmRetry \<Rightarrow> f | _ \<Rightarrow> g)"
  by (cases "ra_status r"; cases "md_deleted r")
     (auto simp: handler_defs role_assignment_view_def deleted_at_def arm_of_def failed_while_def
       split: resource_state.splits)

lemma is_role_assignment_active_arm:
  "is_role_assignment_active r \<longleftrightarrow> arm_of (deleted_at r) (role_assignment_view r) = ArmActive"
  by (cases "ra_status r") (auto simp: is_role_assignment_active_def role_assignment_view_def deleted_at_def arm_of_iff)

lemma role_assignment_set_state_eq:
  "role_assignment_set_resource_state h r s rq w = settle_state role_assignment_view put_role_assignment_status h s rq r w"
  by (cases "ra_status r")
     (simp_all add: role_assignment_set_resource_state_def settle_state_def settle_def Let_def put_role_assignment_status_def
       role_assignment_view_def the_status_def zero_role_assignment_status_def split: prod.split sum.split)

lemma role_assignment_set_error_eq:
  "role_assignment_set_resource_error_state h r err rq w =
     settle role_assignment_view put_role_assignment_status h (condition_from_error (h_now h w) err) rq r w"
  by (cases "ra_status r")
     (simp_all add: role_assignment_set_resource_error_state_def settle_def Let_def put_role_assignment_status_def
       role_assignment_view_def the_status_def zero_role_assignment_status_def split: prod.split sum.split)

lemma role_assignment_reconcile_eq:
  "role_assignment_handle_reconcile h r w = lifecycle deleted_at role_assignment_view put_role_assignment_status h r w"
  unfolding role_assignment_handle_reconcile_def role_assignment_switch role_assignment_set_state_eq role_assignment_set_error_eq is_role_assignment_active_arm
    lifecycle_def settle_failure_def after_delegate_def
  by (cases "arm_of (deleted_at r) (role_assignment_view r)")
     (simp_all only: arm.case arm.distinct option.case refl simp_thms Let_def if_True if_False delegate_of_def)

interpretation role_assignment: plain_reconciler deleted_at role_assignment_view put_role_assignment_status role_assignment_handle_reconcile
  by unfold_locales (rule role_assignment_reconcile_eq)

end
