(* ===== verification/References.thy ===== *)
theory References
  imports Resource_Model
begin

section \<open>References between resources\<close>

text \<open>
  Models \<^verbatim>\<open>resource/common/domain/resource_path.go\<close> and the reference mapping of
  \<^verbatim>\<open>resource/common/backend/mapper.go\<close>. A stored reference keeps tenant and workspace in fields of
  their own; a domain reference carries them inside its resource path. The lemmas read the string
  functions on paths made of segments (\<open>join ''/''\<close>), and show that the mapping round-trips.
\<close>

subsection \<open>Resource paths\<close>

definition collection_type :: "string \<Rightarrow> string" where
  "collection_type kind =
    (if kind = ''instance'' then ''instances''
     else if kind = ''block-storage'' then ''block-storages''
     else if kind = ''image'' then ''images''
     else if kind = ''network'' then ''networks''
     else if kind = ''nic'' then ''nics''
     else if kind = ''public-ip'' then ''public-ips''
     else if kind = ''internet-gateway'' then ''internet-gateways''
     else if kind = ''security-group'' then ''security-groups''
     else if kind = ''security-group-rule'' then ''security-group-rules''
     else if kind = ''subnet'' then ''subnets''
     else if kind = ''routing-table'' \<or> kind = ''route-table'' then ''route-tables''
     else if kind = ''workspace'' then ''workspaces''
     else if kind = ''instance-sku'' \<or> kind = ''storage-sku'' \<or> kind = ''network-sku'' then ''skus''
     else if kind = ''role'' then ''roles''
     else if kind = ''role-assignment'' then ''role-assignments''
     else if kind = ''region'' then ''regions''
     else if kind \<noteq> [] \<and> last kind \<noteq> CHR ''s'' then kind @ ''s''
     else kind)"

definition format_resource :: "string \<Rightarrow> string \<Rightarrow> string" where
  "format_resource resource_type name = collection_type resource_type @ ''/'' @ name"

definition format_regional_resource :: "string \<Rightarrow> string \<Rightarrow> string" where
  "format_regional_resource resource_type name = collection_type resource_type @ ''/'' @ name"

definition format_regional_network_scoped_resource :: "string \<Rightarrow> string \<Rightarrow> string \<Rightarrow> string" where
  "format_regional_network_scoped_resource network resource_type name =
     ''networks/'' @ network @ ''/'' @ collection_type resource_type @ ''/'' @ name"

definition format_resource_ref :: "string \<Rightarrow> string \<Rightarrow> string \<Rightarrow> string" where
  "format_resource_ref provider resource_type name =
     provider @ ''/'' @ collection_type resource_type @ ''/'' @ name"

definition format_tenant_scoped_ref :: "string \<Rightarrow> string \<Rightarrow> string \<Rightarrow> string \<Rightarrow> string" where
  "format_tenant_scoped_ref provider tenant resource_type name =
     provider @ ''/tenants/'' @ tenant @ ''/'' @ collection_type resource_type @ ''/'' @ name"

definition format_regional_workspace_scoped_ref ::
  "string \<Rightarrow> string \<Rightarrow> string \<Rightarrow> string \<Rightarrow> string \<Rightarrow> string" where
  "format_regional_workspace_scoped_ref provider tenant workspace resource_type name =
     provider @ ''/tenants/'' @ tenant @ ''/workspaces/'' @ workspace @ ''/''
     @ collection_type resource_type @ ''/'' @ name"

definition format_regional_tenant_scoped_ref :: "string \<Rightarrow> string \<Rightarrow> string \<Rightarrow> string \<Rightarrow> string" where
  "format_regional_tenant_scoped_ref provider tenant resource_type name =
     provider @ ''/tenants/'' @ tenant @ ''/'' @ collection_type resource_type @ ''/'' @ name"

definition format_regional_network_scoped_ref ::
  "string \<Rightarrow> string \<Rightarrow> string \<Rightarrow> string \<Rightarrow> string \<Rightarrow> string \<Rightarrow> string" where
  "format_regional_network_scoped_ref provider tenant workspace network resource_type name =
     provider @ ''/tenants/'' @ tenant @ ''/workspaces/'' @ workspace @ ''/networks/'' @ network
     @ ''/'' @ collection_type resource_type @ ''/'' @ name"

subsection \<open>The mapping\<close>

definition embed_scope_in_resource :: "string \<Rightarrow> string \<Rightarrow> string \<Rightarrow> string" where
  "embed_scope_in_resource path tenant workspace =
    (case last_index CHR ''/'' path of
       None \<Rightarrow> path
     | Some last_slash \<Rightarrow>
         (let (prefix, suffix) =
            (case last_index CHR ''/'' (take last_slash path) of
               Some second_last \<Rightarrow> (take second_last path, drop (second_last + 1) path)
             | None \<Rightarrow> ([], path));
          scope_path =
            (if tenant \<noteq> [] \<and> workspace \<noteq> [] then ''tenants/'' @ tenant @ ''/workspaces/'' @ workspace
             else if tenant \<noteq> [] then ''tenants/'' @ tenant
             else if workspace \<noteq> [] then ''workspaces/'' @ workspace
             else []) in
          if prefix \<noteq> [] then prefix @ ''/'' @ scope_path @ ''/'' @ suffix
          else scope_path @ ''/'' @ suffix))"

text \<open>The value that follows a segment, and the path without the two; empty when there is none.\<close>

definition extract_and_strip_segment :: "string \<Rightarrow> string \<Rightarrow> string \<times> string" where
  "extract_and_strip_segment path segment =
    (let found =
       (if has_prefix segment path then Some (length segment, 0)
        else case str_index path (''/'' @ segment) of
            Some idx \<Rightarrow> Some (idx + 1 + length segment, idx)
          | None \<Rightarrow> None) in
     case found of
       None \<Rightarrow> ([], [])
     | Some (start_idx, prefix_len) \<Rightarrow>
         (case index_byte CHR ''/'' (drop start_idx path) of
            None \<Rightarrow> (drop start_idx path, if prefix_len > 0 then take prefix_len path else [])
          | Some end_idx \<Rightarrow>
              (let suffix = drop (start_idx + end_idx + 1) path in
               (take end_idx (drop start_idx path),
                if prefix_len > 0 then take prefix_len path @ ''/'' @ suffix else suffix))))"

definition reference_from_cr :: "reference \<Rightarrow> reference" where
  "reference_from_cr ref =
    \<lparr>ref_provider = ref_provider ref,
     ref_region = ref_region ref,
     ref_resource =
       (if ref_tenant ref \<noteq> [] \<or> ref_workspace ref \<noteq> []
        then embed_scope_in_resource (ref_resource ref) (ref_tenant ref) (ref_workspace ref)
        else ref_resource ref),
     ref_tenant = [], ref_workspace = []\<rparr>"

text \<open>One of the four fields: the domain's value, or the one the path carries.\<close>

definition take_segment :: "string \<Rightarrow> string \<Rightarrow> string \<Rightarrow> string \<times> string" where
  "take_segment given segment path =
    (if given = [] then
       (case extract_and_strip_segment path segment of
          (value, remaining) \<Rightarrow> if value \<noteq> [] then (value, remaining) else ([], path))
     else (given, path))"

definition reference_to_cr :: "reference \<Rightarrow> reference" where
  "reference_to_cr ref =
    (let (provider, p1) = take_segment (ref_provider ref) ''providers/'' (ref_resource ref);
         (region, p2) = take_segment (ref_region ref) ''regions/'' p1;
         (tenant, p3) = take_segment (ref_tenant ref) ''tenants/'' p2;
         (workspace, p4) = take_segment (ref_workspace ref) ''workspaces/'' p3 in
     \<lparr>ref_provider = provider, ref_region = region, ref_resource = p4,
      ref_tenant = tenant, ref_workspace = workspace\<rparr>)"

record reference_target =
  rt_tenant :: string
  rt_workspace :: string
  rt_name :: string

definition parse_reference :: "reference \<Rightarrow> string \<Rightarrow> reference_target" where
  "parse_reference ref default_tenant =
    (let cr = reference_to_cr ref;
         tenant = (if ref_tenant cr = [] then default_tenant else ref_tenant cr);
         name = (case last_index CHR ''/'' (ref_resource cr) of
            Some idx \<Rightarrow> drop (idx + 1) (ref_resource cr)
          | None \<Rightarrow> ref_resource cr) in
     \<lparr>rt_tenant = tenant, rt_workspace = ref_workspace cr, rt_name = name\<rparr>)"

subsection \<open>Paths as segments\<close>

definition segment :: "string \<Rightarrow> bool" where
  "segment s \<longleftrightarrow> s \<noteq> [] \<and> CHR ''/'' \<notin> set s"

abbreviation path :: "string list \<Rightarrow> string" where
  "path \<equiv> join ''/''"

lemma path_Cons: "ss \<noteq> [] \<Longrightarrow> path (s # ss) = s @ CHR ''/'' # path ss"
  by (cases ss) auto

lemma path_append: "ss \<noteq> [] \<Longrightarrow> ts \<noteq> [] \<Longrightarrow> path (ss @ ts) = path ss @ CHR ''/'' # path ts"
proof (induction ss)
  case (Cons s ss)
  then show ?case by (cases "ss = []") (auto simp: path_Cons)
qed simp

lemma path_nonempty: "segment s \<Longrightarrow> path (s # ss) \<noteq> []"
  by (cases ss) (auto simp: segment_def)

lemma str_index_skip:
  "c \<notin> set s \<Longrightarrow> str_index (s @ t) (c # u) = map_option ((+) (length s)) (str_index t (c # u))"
proof (induction s)
  case Nil
  then show ?case by (cases "str_index t (c # u)") auto
next
  case (Cons a s)
  then show ?case by (cases "str_index t (c # u)") auto
qed

lemma has_prefix_segment:
  assumes "CHR ''/'' \<notin> set k" and "CHR ''/'' \<notin> set s"
  shows "has_prefix (k @ ''/'') (s @ CHR ''/'' # t) \<longleftrightarrow> k = s"
    and "\<not> has_prefix (k @ ''/'') s"
proof -
  show "has_prefix (k @ ''/'') (s @ CHR ''/'' # t) \<longleftrightarrow> k = s"
    using assms
  proof (induction k arbitrary: s)
    case Nil
    then show ?case by (cases s) auto
  next
    case (Cons x k)
    then show ?case by (cases s) auto
  qed
  show "\<not> has_prefix (k @ ''/'') s"
    using assms(2) by (auto simp: has_prefix_iff)
qed

text \<open>The same on lists of segments: the first pair of neighbours whose first is the key.\<close>

fun take_pair :: "string \<Rightarrow> string list \<Rightarrow> (string \<times> string list) option" where
  "take_pair k (s # t # ss) =
     (if s = k then Some (t, ss)
      else map_option (\<lambda>(v, rest). (v, s # rest)) (take_pair k (t # ss)))"
| "take_pair k ss = None"

lemma take_pair_split:
  "take_pair k ss = Some (v, rest) \<Longrightarrow> \<exists>as bs. ss = as @ k # v # bs \<and> rest = as @ bs \<and> k \<notin> set as"
proof (induction k ss arbitrary: rest rule: take_pair.induct)
  case (1 k s t ss)
  show ?case
  proof (cases "s = k")
    case True
    with 1 show ?thesis by (intro exI [of _ "[]"] exI [of _ ss]) auto
  next
    case False
    with 1 obtain rest' where r: "take_pair k (t # ss) = Some (v, rest')" "rest = s # rest'" by auto
    with 1 False obtain as bs where "t # ss = as @ k # v # bs" "rest' = as @ bs" "k \<notin> set as" by blast
    with r False show ?thesis by (intro exI [of _ "s # as"] exI [of _ bs]) auto
  qed
qed auto

lemma take_pair_here: "k \<notin> set as \<Longrightarrow> take_pair k (as @ k # v # bs) = Some (v, as @ bs)"
proof (induction as)
  case (Cons a as)
  then show ?case by (cases as) auto
qed simp

lemma take_pair_absent: "k \<notin> set (butlast ss) \<Longrightarrow> take_pair k ss = None"
  by (induction k ss rule: take_pair.induct) auto

lemma take_pair_None: "take_pair k ss = None \<longleftrightarrow> k \<notin> set (butlast ss)"
  by (induction k ss rule: take_pair.induct) auto

lemma segments_slash: "segment s \<Longrightarrow> CHR ''/'' \<notin> set s"
  by (simp add: segment_def)

lemma str_index_path:
  assumes "\<forall>s \<in> set as. segment s" and "as \<noteq> []" and "segment k" and "k \<notin> set (tl as)"
  shows "str_index (path as @ CHR ''/'' # k @ CHR ''/'' # t) (CHR ''/'' # k @ ''/'') = Some (length (path as))"
  using assms
proof (induction as rule: induct_list012)
  case (2 a)
  then show ?case by (simp add: str_index_skip segments_slash has_prefix_iff)
next
  case (3 a b as)
  have "\<not> has_prefix (k @ ''/'') (path (b # as) @ CHR ''/'' # k @ CHR ''/'' # t)"
    using 3 has_prefix_segment(1) [of k b] by (cases as) (auto simp: segments_slash path_Cons)
  with 3 show ?case by (simp add: str_index_skip segments_slash)
qed simp

lemma str_index_path_None:
  assumes "\<forall>s \<in> set ss. segment s" and "ss \<noteq> []" and "segment k" and "k \<notin> set (butlast (tl ss))"
  shows "str_index (path ss) (CHR ''/'' # k @ ''/'') = None"
  using assms
proof (induction ss rule: induct_list012)
  case (2 a)
  then have "str_index (a @ []) (CHR ''/'' # k @ ''/'') = None"
    by (subst str_index_skip) (auto simp: segments_slash)
  then show ?case by simp
next
  case (3 a b ss)
  have "\<not> has_prefix (k @ ''/'') (path (b # ss))"
    using 3 has_prefix_segment [of k b] by (cases ss) (auto simp: segments_slash)
  with 3 show ?case by (cases ss) (simp_all add: str_index_skip segments_slash)
qed simp

text \<open>On a path of segments the extraction takes the first pair that starts with the key.\<close>

lemma extract_path:
  assumes ss: "\<forall>s \<in> set ss. segment s" "ss \<noteq> []" and k: "segment k"
  shows "extract_and_strip_segment (path ss) (k @ ''/'') =
    (case take_pair k ss of None \<Rightarrow> ([], []) | Some (v, rest) \<Rightarrow> (v, path rest))"
proof (cases "take_pair k ss")
  case None
  then have "k \<notin> set (butlast ss)" by (simp add: take_pair_None)
  then have "k \<notin> set (butlast (tl ss))" by (cases ss) (auto split: if_splits)
  moreover have "\<not> has_prefix (k @ ''/'') (path ss)"
    using None has_prefix_segment [of k "hd ss"] ss k
    by (cases ss; cases "tl ss") (auto simp: segments_slash split: if_splits)
  ultimately show ?thesis
    using None str_index_path_None [OF ss k] by (simp add: extract_and_strip_segment_def)
next
  case (Some p)
  obtain v rest where p: "p = (v, rest)" by (cases p)
  from take_pair_split [of k ss v rest] Some p obtain as bs where
    sp: "ss = as @ k # v # bs" "rest = as @ bs" "k \<notin> set as" by auto
  have v: "CHR ''/'' \<notin> set v" using ss sp by (auto simp: segments_slash)
  then have nb: "index_byte CHR ''/'' v = None" by simp
  have tail: "path (k # v # bs) = k @ CHR ''/'' # v @ (if bs = [] then [] else CHR ''/'' # path bs)"
    by (cases bs) auto
  show ?thesis
  proof (cases "as = []")
    case True
    with sp tail v nb Some p show ?thesis
      by (auto simp: extract_and_strip_segment_def has_prefix_iff Let_def)
  next
    case False
    have pre: "path ss = path as @ CHR ''/'' # k @ CHR ''/'' # v @ (if bs = [] then [] else CHR ''/'' # path bs)"
      using sp False tail by (simp add: path_append)
    have np: "\<not> has_prefix (k @ ''/'') (path ss)"
      using sp False ss k has_prefix_segment(1) [of k "hd as"]
      by (cases as; cases "tl as") (auto simp: segments_slash path_Cons)
    have ix: "str_index (path ss) (CHR ''/'' # k @ ''/'') = Some (length (path as))"
      unfolding pre by (rule str_index_path) (use ss sp False k in \<open>auto dest: list.set_sel(2)\<close>)
    have ne: "path as \<noteq> []" using False ss sp by (cases as) (auto simp: path_nonempty)
    show ?thesis
      using np ix ne Some p sp False v nb
      by (cases "bs = []") (auto simp: extract_and_strip_segment_def Let_def pre path_append path_Cons numeral_3_eq_3)
  qed
qed

subsection \<open>The round trip\<close>

definition reserved :: "string set" where
  "reserved = {''providers'', ''regions'', ''tenants'', ''workspaces''}"

text \<open>A field of a stored reference: empty, or one segment that is no reserved word.\<close>

definition plain_field :: "string \<Rightarrow> bool" where
  "plain_field s \<longleftrightarrow> s = [] \<or> segment s \<and> s \<notin> reserved"

definition scope_segments :: "string \<Rightarrow> string \<Rightarrow> string list" where
  "scope_segments t w = (if t = [] then [] else [''tenants'', t]) @ (if w = [] then [] else [''workspaces'', w])"

lemma last_index_path:
  "CHR ''/'' \<notin> set n \<Longrightarrow> ss \<noteq> [] \<Longrightarrow> last_index CHR ''/'' (path (ss @ [n])) = Some (length (path ss))"
  by (simp add: path_append)

lemma embed_path:
  assumes "\<forall>s \<in> set as. segment s" and "segment c" and "segment n" and "t \<noteq> [] \<or> w \<noteq> []"
  shows "embed_scope_in_resource (path (as @ [c, n])) t w = path (as @ scope_segments t w @ [c, n])"
proof -
  have l: "last_index CHR ''/'' (path (as @ [c, n])) = Some (length (path (as @ [c])))"
    using last_index_path [of n "as @ [c]"] assms(3) by (simp add: segments_slash)
  have tk: "take (length (path (as @ [c]))) (path (as @ [c, n])) = path (as @ [c])"
    using path_append [of "as @ [c]" "[n]"] by simp
  show ?thesis
  proof (cases "as = []")
    case True
    then show ?thesis
      using l tk assms by (auto simp: embed_scope_in_resource_def scope_segments_def segments_slash)
  next
    case False
    have l2: "last_index CHR ''/'' (path (as @ [c])) = Some (length (path as))"
      using last_index_path [of c as] assms(2) False by (simp add: segments_slash)
    have ne: "path as \<noteq> []" using False assms(1) by (cases as) (auto simp: path_nonempty)
    have tk2: "take (length (path as)) (path (as @ [c, n])) = path as"
      "drop (length (path as) + 1) (path (as @ [c, n])) = path [c, n]"
      using path_append [of as "[c, n]"] False by simp_all
    show ?thesis
      using l tk l2 tk2 ne assms(4) False
      by (auto simp: embed_scope_in_resource_def scope_segments_def path_append)
  qed
qed

lemma take_segment_given: "given \<noteq> [] \<Longrightarrow> take_segment given seg p = (given, p)"
  by (simp add: take_segment_def)

lemma take_segment_absent:
  assumes "\<forall>s \<in> set ss. segment s" and "ss \<noteq> []" and "segment k" and "k \<notin> set (butlast ss)"
  shows "take_segment given (k @ ''/'') (path ss) = (given, path ss)"
  using extract_path [OF assms(1-3)] assms(4) take_pair_None [of k ss]
  by (cases "given = []") (auto simp: take_segment_def)

lemma take_segment_here:
  assumes "\<forall>s \<in> set (as @ k # v # bs). segment s" and "k \<notin> set as"
  shows "take_segment [] (k @ ''/'') (path (as @ k # v # bs)) = (v, path (as @ bs))"
  using extract_path [of "as @ k # v # bs" k] assms take_pair_here [OF assms(2)]
  by (auto simp: take_segment_def segment_def)

lemma segment_words [simp]:
  "segment ''providers''" "segment ''regions''" "segment ''tenants''" "segment ''workspaces''"
  by (simp_all add: segment_def)

lemma reserved_words [simp]:
  "''providers'' \<in> reserved" "''regions'' \<in> reserved" "''tenants'' \<in> reserved"
  "''workspaces'' \<in> reserved"
  by (simp_all add: reserved_def)

lemma scope_segments_free:
  assumes "k \<in> reserved" and "plain_field t" and "plain_field w"
  shows "k \<in> set (scope_segments t w) \<longleftrightarrow>
    k = ''tenants'' \<and> t \<noteq> [] \<or> k = ''workspaces'' \<and> w \<noteq> []"
  using assms by (auto simp: scope_segments_def plain_field_def)

lemmas absent_provider = take_segment_absent [where k = "''providers''", simplified]
lemmas absent_region = take_segment_absent [where k = "''regions''", simplified]
lemmas absent_tenant = take_segment_absent [where k = "''tenants''", simplified]
lemmas absent_workspace = take_segment_absent [where k = "''workspaces''", simplified]
lemmas here_tenant = take_segment_here [where k = "''tenants''", simplified]
lemmas here_workspace = take_segment_here [where k = "''workspaces''", simplified]

text \<open>Reading a domain reference whose path names its scope before the last two segments.\<close>

lemma to_cr_path:
  assumes as: "\<forall>s \<in> set as. segment s \<and> s \<notin> reserved" and c: "segment c" "c \<notin> reserved" and n: "segment n"
    and t: "plain_field t" and w: "plain_field w"
  shows "reference_to_cr \<lparr>ref_provider = p, ref_region = r,
      ref_resource = path (as @ scope_segments t w @ [c, n]), ref_tenant = [], ref_workspace = []\<rparr>
    = \<lparr>ref_provider = p, ref_region = r, ref_resource = path (as @ [c, n]), ref_tenant = t, ref_workspace = w\<rparr>"
proof -
  let ?ss = "as @ scope_segments t w @ [c, n]"
  let ?ws = "as @ scope_segments [] w @ [c, n]"
  have free: "k \<notin> set as \<and> k \<noteq> c" if "k \<in> reserved" for k using that as c by auto
  have bl: "butlast (as @ xs @ [c, n]) = as @ xs @ [c]" for xs by (simp add: butlast_append)
  have segs: "\<forall>s \<in> set ?ss. segment s" "\<forall>s \<in> set ?ws. segment s" "\<forall>s \<in> set (as @ [c, n]). segment s"
    using as c n t w by (auto simp: scope_segments_def plain_field_def)
  have p: "take_segment p ''providers/'' (path ?ss) = (p, path ?ss)"
    and r: "take_segment r ''regions/'' (path ?ss) = (r, path ?ss)"
    using free scope_segments_free [OF _ t w] segs
    by (simp_all add: absent_provider absent_region bl)
  have t': "take_segment [] ''tenants/'' (path ?ss) = (t, path ?ws)"
  proof (cases "t = []")
    case True
    then show ?thesis
      using free scope_segments_free [OF _ t w] segs
      by (simp add: absent_tenant bl)
  next
    case False
    then show ?thesis
      using here_tenant [where as = as and v = t and bs = "scope_segments [] w @ [c, n]"] segs free
      by (simp add: scope_segments_def)
  qed
  have w': "take_segment [] ''workspaces/'' (path ?ws) = (w, path (as @ [c, n]))"
  proof (cases "w = []")
    case True
    then show ?thesis
      using free segs
      by (simp add: absent_workspace bl scope_segments_def butlast_append)
  next
    case False
    then show ?thesis
      using here_workspace [where as = as and v = w and bs = "[c, n]"] segs free
      by (simp add: scope_segments_def)
  qed
  show ?thesis using p r t' w' by (simp add: reference_to_cr_def)
qed

lemma from_cr_path:
  assumes "\<forall>s \<in> set as. segment s" and "segment c" and "segment n" and "ref_resource ref = path (as @ [c, n])"
  shows "reference_from_cr ref = \<lparr>ref_provider = ref_provider ref, ref_region = ref_region ref,
    ref_resource = path (as @ scope_segments (ref_tenant ref) (ref_workspace ref) @ [c, n]),
    ref_tenant = [], ref_workspace = []\<rparr>"
  using embed_path [OF assms(1-3)] assms(4)
  by (auto simp: reference_from_cr_def scope_segments_def)

subsection \<open>Correctness\<close>

lemma embedded_roundtrip:
  assumes "\<forall>s \<in> set as. segment s \<and> s \<notin> reserved" and "segment c" "c \<notin> reserved" and "segment n"
    and "ref_resource ref = path (as @ [c, n])"
    and "plain_field (ref_tenant ref)" and "plain_field (ref_workspace ref)"
  shows "reference_to_cr (reference_from_cr ref) = ref"
proof -
  have "\<forall>s \<in> set as. segment s" using assms(1) by blast
  note from_cr = from_cr_path [OF this assms(2,4,5)]
  show ?thesis
    unfolding from_cr to_cr_path [OF assms(1-4,6,7)]
    using assms(5) by (cases ref) simp
qed

text \<open>
  A stored reference survives the domain. A reference whose resource path ends in
  collection and name, whose other segments are no reserved word, and whose tenant and workspace are
  single segments or absent, comes back unchanged when it is read into the domain form, which
  embeds tenant and workspace in the path, and written again.
\<close>

theorem reference_roundtrip:
  assumes "\<forall>s \<in> set as. segment s \<and> s \<notin> reserved" and "segment c" "c \<notin> reserved" and "segment n"
    and "ref_resource ref = path (as @ [c, n])"
    and "plain_field (ref_tenant ref)" and "plain_field (ref_workspace ref)"
  shows "reference_to_cr (reference_from_cr ref) = ref"
  by (rule embedded_roundtrip [OF assms])

lemma reference_roundtrip_witness:
  "reference_to_cr (reference_from_cr \<lparr>ref_provider = [], ref_region = ''eu'',
       ref_resource = ''networks/n1/subnets/s1'', ref_tenant = ''t1'', ref_workspace = ''w1''\<rparr>)
   = \<lparr>ref_provider = [], ref_region = ''eu'',
      ref_resource = ''networks/n1/subnets/s1'', ref_tenant = ''t1'', ref_workspace = ''w1''\<rparr>"
  by (rule reference_roundtrip [where as = "[''networks'', ''n1'']" and c = "''subnets''" and n = "''s1''"])
    (simp_all add: segment_def reserved_def plain_field_def)

text \<open>
  What a reference points at. Read from the domain form, the target of such a reference has its
  tenant, or the default one when it names none, its workspace, and the last segment of its path
  as the name.
\<close>

theorem parse_reference_target:
  assumes "\<forall>s \<in> set as. segment s \<and> s \<notin> reserved" and "segment c" "c \<notin> reserved" and "segment n"
    and "ref_resource ref = path (as @ [c, n])"
    and "plain_field (ref_tenant ref)" and "plain_field (ref_workspace ref)"
  shows "parse_reference (reference_from_cr ref) default_tenant =
    \<lparr>rt_tenant = (if ref_tenant ref = [] then default_tenant else ref_tenant ref),
     rt_workspace = ref_workspace ref, rt_name = n\<rparr>"
proof -
  have "path (as @ [c, n]) = path (as @ [c]) @ CHR ''/'' # n"
    using path_append [of "as @ [c]" "[n]"] by simp
  moreover have "CHR ''/'' \<notin> set n" using assms(4) by (simp add: segment_def)
  ultimately show ?thesis
    by (simp add: parse_reference_def embedded_roundtrip [OF assms] assms(5))
qed

lemma parse_reference_target_witness:
  "rt_name (parse_reference (reference_from_cr \<lparr>ref_provider = [], ref_region = [],
     ref_resource = ''block-storages/web'', ref_tenant = [], ref_workspace = ''w1''\<rparr>) ''t0'') = ''web''"
  by (subst parse_reference_target [where as = "[]" and c = "''block-storages''" and n = "''web''"])
    (simp_all add: segment_def reserved_def plain_field_def)

end
