(* ===== verification/Image_Handler.thy ===== *)
theory Image_Handler
  imports Reconcilers References
begin

section \<open>The plugin handler of images\<close>

text \<open>
  \<^verbatim>\<open>resource/storage/v1/image/backend/kubernetes/plugin_handler.go\<close>. Like the plain handlers, but
  a pending image waits for its block storage (\<^verbatim>\<open>ensureBlockStorageReady\<close>): the pending arm is the
  handler's own, the others are shared with the reference pass.
\<close>

text \<open>The handler's fields: \<^verbatim>\<open>deps.State\<close> beside those every handler has.\<close>

record ('r, 'w) dependent_handler = "('r, 'w) plugin_handler" +
  h_dep_state :: "gvr \<Rightarrow> reference \<Rightarrow> string \<Rightarrow> 'w \<Rightarrow> (go_error + bool \<times> resource_state) \<times> 'w"

definition block_storage_gvr :: gvr where
  "block_storage_gvr = \<lparr>gvr_group = ''storage.v1.secapi.cloud'', gvr_version = ''v1'',
     gvr_resource = ''block-storages''\<rparr>"

definition zero_image_status :: image_status where
  "zero_image_status = \<lparr>imgst_size_mb = None, imgst_status = empty_status\<rparr>"

definition image_view :: "image \<Rightarrow> status option" where
  "image_view r = map_option imgst_status (img_status r)"

definition put_image_status :: "status \<Rightarrow> image \<Rightarrow> image" where
  "put_image_status st r = r\<lparr>img_status :=
     Some ((case img_status r of None \<Rightarrow> zero_image_status | Some s \<Rightarrow> s)\<lparr>imgst_status := st\<rparr>)\<rparr>"

interpretation image_status: status_view deleted_at image_view put_image_status
  by unfold_locales (simp_all add: image_view_def put_image_status_def deleted_at_def)

definition is_image_active :: "image \<Rightarrow> bool" where [handler_defs]:
  "is_image_active r \<longleftrightarrow> md_deleted r = None \<and>
     (case img_status r of None \<Rightarrow> False | Some st \<Rightarrow> st_state (imgst_status st) = StateActive)"

definition is_image_accepted :: "image \<Rightarrow> bool" where [handler_defs]:
  "is_image_accepted r \<longleftrightarrow> img_status r = None"

definition is_image_pending :: "image \<Rightarrow> bool" where [handler_defs]:
  "is_image_pending r \<longleftrightarrow> md_deleted r = None \<and>
     (case img_status r of None \<Rightarrow> True | Some st \<Rightarrow> st_state (imgst_status st) = StatePending)"

definition is_image_creating :: "image \<Rightarrow> bool" where [handler_defs]:
  "is_image_creating r \<longleftrightarrow> md_deleted r = None \<and>
     (case img_status r of None \<Rightarrow> False | Some st \<Rightarrow> st_state (imgst_status st) = StateCreating)"

definition image_is_not_deleting :: "image \<Rightarrow> bool" where [handler_defs]:
  "image_is_not_deleting r \<longleftrightarrow> (case img_status r of None \<Rightarrow> True | Some st \<Rightarrow> st_state (imgst_status st) \<noteq> StateDeleting)"

definition want_image_delete :: "image \<Rightarrow> bool" where [handler_defs]:
  "want_image_delete r \<longleftrightarrow> md_deleted r \<noteq> None \<and> image_is_not_deleting r"

definition is_image_deleting :: "image \<Rightarrow> bool" where [handler_defs]:
  "is_image_deleting r \<longleftrightarrow> md_deleted r \<noteq> None \<and>
     (case img_status r of None \<Rightarrow> False | Some st \<Rightarrow> st_state (imgst_status st) = StateDeleting)"

definition want_image_retry_create :: "image \<Rightarrow> bool" where [handler_defs]:
  "want_image_retry_create r \<longleftrightarrow> md_deleted r = None \<and>
     (case img_status r of None \<Rightarrow> False
      | Some st \<Rightarrow> st_state (imgst_status st) = StateError \<and> 1 < length (st_conditions (imgst_status st)) \<and>
          c_state (st_conditions (imgst_status st) ! 1) = StateCreating)"

definition image_set_resource_state ::
  "(image, 'w, 'm) plugin_handler_scheme \<Rightarrow> image \<Rightarrow> resource_state \<Rightarrow> bool \<Rightarrow> 'w
   \<Rightarrow> reconcile_result \<times> image \<times> 'w" where
  "image_set_resource_state h r state rq w =
    (let st = (case img_status r of None \<Rightarrow> zero_image_status | Some st \<Rightarrow> st);
         st' = pushed (h_now h w) (condition_from_state (h_now h w) state) (imgst_status st);
         r' = r\<lparr>img_status := Some (st\<lparr>imgst_status := trim_conditions (h_max_conditions h) st'\<rparr>)\<rparr> in
     case rp_update_status (h_repo h) r' w of
       (Inl err, w') \<Rightarrow>
         if errors_is err err_not_found then (Reconciled False None, r', w')
         else (Reconciled rq (Some err), r', w')
     | (Inr stored, w') \<Rightarrow> (Reconciled rq None, r', w'))"

definition image_set_resource_error_state ::
  "(image, 'w, 'm) plugin_handler_scheme \<Rightarrow> image \<Rightarrow> go_error \<Rightarrow> bool \<Rightarrow> 'w
   \<Rightarrow> reconcile_result \<times> image \<times> 'w" where
  "image_set_resource_error_state h r cause rq w =
    (let st = (case img_status r of None \<Rightarrow> zero_image_status | Some st \<Rightarrow> st);
         st' = pushed (h_now h w) (condition_from_error (h_now h w) cause) (imgst_status st);
         r' = r\<lparr>img_status := Some (st\<lparr>imgst_status := trim_conditions (h_max_conditions h) st'\<rparr>)\<rparr> in
     case rp_update_status (h_repo h) r' w of
       (Inl err, w') \<Rightarrow>
         if errors_is err err_not_found then (Reconciled False None, r', w')
         else (Reconciled rq (Some err), r', w')
     | (Inr stored, w') \<Rightarrow> (Reconciled rq None, r', w'))"

definition image_set_resource_condition ::
  "(image, 'w, 'm) plugin_handler_scheme \<Rightarrow> image \<Rightarrow> status_condition \<Rightarrow> bool \<Rightarrow> 'w
   \<Rightarrow> reconcile_result \<times> image \<times> 'w" where
  "image_set_resource_condition h r c rq w =
    (let st = (case img_status r of None \<Rightarrow> zero_image_status | Some st \<Rightarrow> st);
         st' = pushed (h_now h w) c (imgst_status st);
         r' = r\<lparr>img_status := Some (st\<lparr>imgst_status := trim_conditions (h_max_conditions h) st'\<rparr>)\<rparr> in
     case rp_update_status (h_repo h) r' w of
       (Inl err, w') \<Rightarrow>
         if errors_is err err_not_found then (Reconciled False None, r', w')
         else (Reconciled rq (Some err), r', w')
     | (Inr stored, w') \<Rightarrow> (Reconciled rq None, r', w'))"

definition ensure_block_storage_ready ::
  "(image, 'w, 'm) dependent_handler_scheme \<Rightarrow> image \<Rightarrow> 'w \<Rightarrow> reconcile_result \<times> image \<times> 'w" where
  "ensure_block_storage_ready h r w =
    (case h_dep_state h block_storage_gvr (imgs_block_storage_ref (img_spec r)) (md_tenant r) w of
       (Inl err, w1) \<Rightarrow> image_set_resource_error_state h r err True w1
     | (Inr (exists, state), w1) \<Rightarrow>
         if \<not> exists \<or> state \<noteq> StateActive then
           image_set_resource_condition h r
             (dependency_pending_condition (h_now h w1) StatePending
               (''waiting for block storage '' @ fmt_q (ref_resource (imgs_block_storage_ref (img_spec r)))
                @ '' to be active'')) True w1
         else image_set_resource_state h r StateCreating True w1)"

definition image_handle_reconcile ::
  "(image, 'w, 'm) dependent_handler_scheme \<Rightarrow> image \<Rightarrow> 'w \<Rightarrow> reconcile_result \<times> image \<times> 'w" where
  "image_handle_reconcile h r w =
    (if is_image_active r then handle_update (the_status image_view) put_image_status h r w
     else let delegate =
        (if is_image_accepted r then Some bypass_delegated
         else if is_image_pending r then Some bypass_delegated
         else if is_image_creating r then Some (h_create h)
         else if want_image_delete r then Some bypass_delegated
         else if is_image_deleting r then Some (h_delete h)
         else if want_image_retry_create r then Some bypass_delegated
         else None) in
     case delegate of
       None \<Rightarrow> (Reconciled False None, r, w)
     | Some op \<Rightarrow> (case op r w of
         (Some err, r1, w1) \<Rightarrow>
           if errors_is err (Sentinel ErrStillProcessing) then (Reconciled True None, r1, w1)
           else (case image_set_resource_error_state h r1 err False w1 of
               (Reconciled rq (Some e), r2, w2) \<Rightarrow> (Reconciled rq (Some e), r2, w2)
             | (_, r2, w2) \<Rightarrow> (Reconciled True None, r2, w2))
       | (None, r1, w1) \<Rightarrow>
           if is_image_accepted r1 then image_set_resource_state h r1 StatePending False w1
           else if is_image_pending r1 then ensure_block_storage_ready h r1 w1
           else if is_image_creating r1 then image_set_resource_state h r1 StateActive False w1
           else if want_image_delete r1 then image_set_resource_state h r1 StateDeleting True w1
           else if is_image_deleting r1 then (Reconciled False None, r1, w1)
           else if want_image_retry_create r1 then image_set_resource_state h r1 StateCreating True w1
           else (ProcessExit, r1, w1)))"

lemma image_switch:
  "(if is_image_accepted r then a else if is_image_pending r then b
    else if is_image_creating r then c else if want_image_delete r then d
    else if is_image_deleting r then e else if want_image_retry_create r then f else g) =
   (case arm_of (deleted_at r) (image_view r) of
      ArmAccepted \<Rightarrow> a | ArmPending \<Rightarrow> b | ArmCreating \<Rightarrow> c | ArmWantDelete \<Rightarrow> d
    | ArmDeleting \<Rightarrow> e | ArmRetry \<Rightarrow> f | _ \<Rightarrow> g)"
  by (cases "img_status r"; cases "md_deleted r")
     (auto simp: handler_defs image_view_def deleted_at_def arm_of_def failed_while_def
       split: resource_state.splits)

lemma is_image_active_arm:
  "is_image_active r \<longleftrightarrow> arm_of (deleted_at r) (image_view r) = ArmActive"
  by (cases "img_status r") (auto simp: is_image_active_def image_view_def deleted_at_def arm_of_iff)

lemma image_set_state_eq:
  "image_set_resource_state h r s rq w = settle_state image_view put_image_status h s rq r w"
  by (cases "img_status r")
     (simp_all add: image_set_resource_state_def settle_state_def settle_def Let_def put_image_status_def
       image_view_def the_status_def zero_image_status_def split: prod.split sum.split)

lemma image_set_error_eq:
  "image_set_resource_error_state h r err rq w =
     settle image_view put_image_status h (condition_from_error (h_now h w) err) rq r w"
  by (cases "img_status r")
     (simp_all add: image_set_resource_error_state_def settle_def Let_def put_image_status_def
       image_view_def the_status_def zero_image_status_def split: prod.split sum.split)

lemma image_set_condition_eq:
  "image_set_resource_condition h r c rq w = settle image_view put_image_status h c rq r w"
  by (cases "img_status r")
     (simp_all add: image_set_resource_condition_def settle_def Let_def put_image_status_def
       image_view_def the_status_def zero_image_status_def split: prod.split sum.split)

definition image_tame :: "(image, 'w, 'm) dependent_handler_scheme \<Rightarrow> bool" where
  "image_tame h \<longleftrightarrow> quiet_plugin deleted_at image_view h"

lemma image_reconcile_shape:
  "image_handle_reconcile h r w =
   pass_shape deleted_at image_view put_image_status (handle_update (the_status image_view) put_image_status h)
     (\<lambda>r1 w1. if arm_of (deleted_at r1) (image_view r1) = ArmPending then ensure_block_storage_ready h r1 w1
        else after_delegate deleted_at image_view put_image_status h r1 w1) h r w"
proof -
  have after: "(case arm_of (deleted_at r1) (image_view r1) of
      ArmPending \<Rightarrow> ensure_block_storage_ready h r1 w1
    | ArmAccepted \<Rightarrow> settle_state image_view put_image_status h StatePending False r1 w1
    | ArmCreating \<Rightarrow> settle_state image_view put_image_status h StateActive False r1 w1
    | ArmWantDelete \<Rightarrow> settle_state image_view put_image_status h StateDeleting True r1 w1
    | ArmDeleting \<Rightarrow> (Reconciled False None, r1, w1)
    | ArmRetry \<Rightarrow> settle_state image_view put_image_status h StateCreating True r1 w1
    | _ \<Rightarrow> (ProcessExit, r1, w1)) =
    (if arm_of (deleted_at r1) (image_view r1) = ArmPending then ensure_block_storage_ready h r1 w1
     else after_delegate deleted_at image_view put_image_status h r1 w1)" for r1 w1
    by (simp add: after_delegate_def split: arm.split)
  show ?thesis
    unfolding image_handle_reconcile_def image_switch image_set_state_eq image_set_error_eq
      is_image_active_arm after pass_shape_def settle_failure_def
    by (cases "arm_of (deleted_at r) (image_view r)")
       (simp_all only: arm.case arm.distinct option.case refl simp_thms Let_def if_True if_False delegate_of_def)
qed

lemma image_reconcile_shared:
  assumes "image_tame h" and "arm_of (deleted_at r) (image_view r) \<noteq> ArmPending"
  shows "image_handle_reconcile h r w = lifecycle deleted_at image_view put_image_status h r w"
  unfolding image_reconcile_shape lifecycle_shape
  using assms by (intro pass_shape_agree) (simp_all add: image_tame_def)

lemma image_pending_pass:
  assumes "arm_of (deleted_at r) (image_view r) = ArmPending"
  shows "image_handle_reconcile h r w = ensure_block_storage_ready h r w"
  unfolding image_handle_reconcile_def image_switch is_image_active_arm
  by (simp add: assms bypass_delegated_def)

lemma ensure_ready_pass_ok:
  assumes a: "arm_of (deleted_at r) (image_view r) = ArmPending" and ok: "view_ok (image_view r)"
    and s: "ensure_block_storage_ready h r w = (res, r', w')"
  shows "pass_ok deleted_at image_view r res r'"
proof -
  have p: "lc_move (deleted_at r) (phase_of (image_view r)) (Phase s)"
    if "s \<in> {StatePending, StateCreating, StateError}" for s
    using a that by (cases "image_view r") (auto simp: arm_of_iff)
  obtain c b w1 where "settle image_view put_image_status h c b r w1 = (res, r', w')"
    and "c_state c \<in> {StatePending, StateCreating, StateError}"
    using s
    by (auto simp: ensure_block_storage_ready_def image_set_state_eq image_set_error_eq
        image_set_condition_eq settle_state_def split: prod.splits sum.splits if_splits)
  with p show ?thesis by (intro image_status.settle_pass_ok [OF _ ok]) auto
qed

interpretation image: shared_arms deleted_at image_view put_image_status image_tame
    image_handle_reconcile "\<lambda>a. a = ArmPending"
proof unfold_locales
  fix h :: "(image, 'w, 'm) dependent_handler_scheme" and r :: image and w res r' w'
  show "image_tame h \<Longrightarrow> quiet_plugin deleted_at image_view h" by (simp add: image_tame_def)
  show "image_tame h \<Longrightarrow> \<not> arm_of (deleted_at r) (image_view r) = ArmPending \<Longrightarrow>
    image_handle_reconcile h r w = lifecycle deleted_at image_view put_image_status h r w"
    by (rule image_reconcile_shared)
  show "arm_of (deleted_at r) (image_view r) = ArmPending \<Longrightarrow> view_ok (image_view r) \<Longrightarrow>
    image_handle_reconcile h r w = (res, r', w') \<Longrightarrow> pass_ok deleted_at image_view r res r'"
    by (rule ensure_ready_pass_ok) (simp_all add: image_pending_pass)
qed

end
