(* ===== verification/Namespaces.thy ===== *)
theory Namespaces
  imports Ports
begin

section \<open>Namespaces: the scope rules of the Kubernetes adapter\<close>

text \<open>
  The namespace computations of \<^verbatim>\<open>framework/backend/kubernetes/adapter.go\<close>. Every scope of the
  tenant, workspace, network chain is hashed into a namespace name; \<open>sha3\<close> stands for
  \<^verbatim>\<open>fmt.Sprintf("%x", sha3.Sum224(s))\<close>, and all that is relied on is that it does not collide on the
  scopes at hand.
\<close>

definition compute_namespace :: "(string \<Rightarrow> string) \<Rightarrow> 'm scope_scheme \<Rightarrow> string" where
  "compute_namespace sha3 obj =
    (if sc_tenant obj = [] \<and> sc_workspace obj = [] then []
     else if sc_tenant obj \<noteq> [] \<and> sc_workspace obj = [] then sha3 (sc_tenant obj)
     else sha3 (sc_tenant obj @ ''/'' @ sc_workspace obj))"

record network_scope = scope +
  sc_network :: string

definition compute_network_namespace :: "(string \<Rightarrow> string) \<Rightarrow> network_scope \<Rightarrow> string" where
  "compute_network_namespace sha3 obj =
     sha3 (sc_tenant obj @ ''/'' @ sc_workspace obj @ ''/'' @ sc_network obj)"

text \<open>
  What a resource shows the adapter of its scope: a network-scoped resource also has a network.
\<close>

datatype scoped = PlainScope scope | NetworkScoped network_scope

definition resolve_namespace :: "(string \<Rightarrow> string) \<Rightarrow> scoped \<Rightarrow> go_error + string" where
  "resolve_namespace sha3 obj =
    (case obj of
       NetworkScoped s \<Rightarrow>
         if sc_network s = []
         then Inl (new_error KindValidation (GoError ''network-scoped resource has empty network''))
         else Inr (compute_network_namespace sha3 s)
     | PlainScope s \<Rightarrow> Inr (compute_namespace sha3 s))"

datatype child_namespace_kind = NoChildNamespace | WorkspaceChildren | NetworkChildren

definition internal_tenant_label :: string where
  "internal_tenant_label = ''secapi.cloud/tenant''"

definition internal_workspace_label :: string where
  "internal_workspace_label = ''secapi.cloud/workspace''"

definition internal_network_label :: string where
  "internal_network_label = ''secapi.cloud/network''"

definition child_namespace_labels ::
  "(string \<Rightarrow> string) \<Rightarrow> string \<Rightarrow> string \<Rightarrow> string \<Rightarrow> string \<times> strmap" where
  "child_namespace_labels sha3 tenant workspace network =
    (let owner0 = [];
         owner1 = (if tenant \<noteq> [] then map_put internal_tenant_label tenant owner0 else owner0);
         owner2 = (if workspace \<noteq> [] then map_put internal_workspace_label workspace owner1 else owner1) in
     if network \<noteq> [] then
       (compute_network_namespace sha3
          \<lparr>sc_tenant = tenant, sc_workspace = workspace, sc_network = network\<rparr>,
        map_put internal_network_label network owner2)
     else (compute_namespace sha3 \<lparr>sc_tenant = tenant, sc_workspace = workspace\<rparr>, owner2))"

definition child_namespace_for ::
  "(string \<Rightarrow> string) \<Rightarrow> child_namespace_kind \<Rightarrow> string \<Rightarrow> string \<Rightarrow> string \<Rightarrow> string \<times> strmap" where
  "child_namespace_for sha3 kind tenant workspace name =
    (case kind of
       WorkspaceChildren \<Rightarrow> child_namespace_labels sha3 tenant name []
     | NetworkChildren \<Rightarrow> child_namespace_labels sha3 tenant workspace name
     | NoChildNamespace \<Rightarrow> ([], []))"

subsection \<open>Isolation\<close>

text \<open>The scope a namespace stands for, as the list of its names.\<close>

definition scope_names :: "scoped \<Rightarrow> string list" where
  "scope_names obj = (case obj of
      PlainScope s \<Rightarrow> if sc_workspace s = [] then [sc_tenant s] else [sc_tenant s, sc_workspace s]
    | NetworkScoped s \<Rightarrow> [sc_tenant s, sc_workspace s, sc_network s])"

definition slash_free :: "string \<Rightarrow> bool" where
  "slash_free s \<longleftrightarrow> CHR ''/'' \<notin> set s"

lemma join_slash_inj:
  assumes "\<forall>s \<in> set ss. slash_free s" and "\<forall>t \<in> set ts. slash_free t"
    and "ss \<noteq> []" and "ts \<noteq> []" and "join ''/'' ss = join ''/'' ts"
  shows "ss = ts"
proof -
  have split: "split_on CHR ''/'' (join ''/'' us) = us"
    if "\<forall>u \<in> set us. slash_free u" "us \<noteq> []" for us
    using that split_on_join [of us "CHR ''/''"] by (simp add: slash_free_def)
  have "ss = split_on CHR ''/'' (join ''/'' ss)" by (rule split [OF assms(1,3), symmetric])
  also have "\<dots> = ts" unfolding assms(5) by (rule split [OF assms(2,4)])
  finally show ?thesis .
qed

lemma namespace_hash_input:
  assumes "resolve_namespace sha3 obj = Inr ns" and "ns \<noteq> []"
    and "sc_tenant (case obj of PlainScope s \<Rightarrow> s | NetworkScoped s \<Rightarrow> scope.truncate s) \<noteq> []"
  shows "ns = sha3 (join ''/'' (scope_names obj))"
  using assms
  by (auto simp: resolve_namespace_def compute_namespace_def compute_network_namespace_def
      scope_names_def scope.truncate_def split: scoped.splits if_splits)

definition scope_tenant :: "scoped \<Rightarrow> string" where
  "scope_tenant obj = (case obj of PlainScope s \<Rightarrow> sc_tenant s | NetworkScoped s \<Rightarrow> sc_tenant s)"

lemma resolve_namespace_hash:
  assumes "resolve_namespace sha3 obj = Inr ns" and "scope_tenant obj \<noteq> []"
  shows "ns = sha3 (join ''/'' (scope_names obj))"
  using assms
  by (auto simp: resolve_namespace_def compute_namespace_def compute_network_namespace_def
      scope_names_def scope_tenant_def split: scoped.splits if_splits)

subsection \<open>Correctness\<close>

text \<open>
  C34. Isolation. Two resources of named tenants, whose names have no slash, end up in the same
  Kubernetes namespace exactly when tenant, workspace and network agree, level by level: a
  workspace-scoped and a network-scoped resource never share one, nor do two tenants. The hash is
  only assumed not to collide on the two inputs at hand.
\<close>

theorem namespace_isolation:
  assumes "resolve_namespace sha3 s = Inr ns_s" and "resolve_namespace sha3 t = Inr ns_t"
    and "scope_tenant s \<noteq> []" and "scope_tenant t \<noteq> []"
    and "\<forall>n \<in> set (scope_names s) \<union> set (scope_names t). slash_free n"
    and "inj_on sha3 {join ''/'' (scope_names s), join ''/'' (scope_names t)}"
  shows "ns_s = ns_t \<longleftrightarrow> scope_names s = scope_names t"
proof
  assume "ns_s = ns_t"
  then have "sha3 (join ''/'' (scope_names s)) = sha3 (join ''/'' (scope_names t))"
    using resolve_namespace_hash [OF assms(1,3)] resolve_namespace_hash [OF assms(2,4)] by simp
  then have "join ''/'' (scope_names s) = join ''/'' (scope_names t)"
    using assms(6) by (auto dest: inj_onD)
  moreover have "scope_names s \<noteq> []" "scope_names t \<noteq> []"
    by (auto simp: scope_names_def split: scoped.splits)
  ultimately show "scope_names s = scope_names t"
    using assms(5) by (intro join_slash_inj) auto
next
  assume "scope_names s = scope_names t"
  then show "ns_s = ns_t"
    using resolve_namespace_hash [OF assms(1,3)] resolve_namespace_hash [OF assms(2,4)] by simp
qed

lemma namespace_isolation_witness:
  "compute_namespace (\<lambda>x. ''n'' @ x) \<lparr>sc_tenant = ''a'', sc_workspace = ''b''\<rparr>
     \<noteq> compute_network_namespace (\<lambda>x. ''n'' @ x)
         \<lparr>sc_tenant = ''a'', sc_workspace = [], sc_network = ''b''\<rparr>"
proof -
  let ?s = "PlainScope \<lparr>sc_tenant = ''a'', sc_workspace = ''b''\<rparr>"
  let ?t = "NetworkScoped \<lparr>sc_tenant = ''a'', sc_workspace = [], sc_network = ''b''\<rparr>"
  have "compute_namespace (\<lambda>x. ''n'' @ x) \<lparr>sc_tenant = ''a'', sc_workspace = ''b''\<rparr>
      = compute_network_namespace (\<lambda>x. ''n'' @ x)
          \<lparr>sc_tenant = ''a'', sc_workspace = [], sc_network = ''b''\<rparr>
    \<longleftrightarrow> scope_names ?s = scope_names ?t"
    by (rule namespace_isolation [where ?sha3.0 = "\<lambda>x. ''n'' @ x"])
      (simp_all add: resolve_namespace_def scope_tenant_def scope_names_def slash_free_def)
  then show ?thesis by (simp add: scope_names_def)
qed

text \<open>
  A child namespace is where the children are: the namespace a workspace provisions is the one
  its workspace-scoped children resolve to, and the namespace a network provisions is the one its
  network-scoped children resolve to.
\<close>

theorem children_live_in_the_child_namespace:
  assumes "tenant \<noteq> []" and "name \<noteq> []"
  shows "resolve_namespace sha3 (PlainScope \<lparr>sc_tenant = tenant, sc_workspace = name\<rparr>)
      = Inr (fst (child_namespace_for sha3 WorkspaceChildren tenant workspace name))
    \<and> resolve_namespace sha3
        (NetworkScoped \<lparr>sc_tenant = tenant, sc_workspace = workspace, sc_network = name\<rparr>)
      = Inr (fst (child_namespace_for sha3 NetworkChildren tenant workspace name))"
  using assms
  by (simp add: resolve_namespace_def child_namespace_for_def child_namespace_labels_def Let_def
      compute_namespace_def)

lemma children_live_in_the_child_namespace_witness:
  "resolve_namespace (\<lambda>x. x) (PlainScope \<lparr>sc_tenant = ''t'', sc_workspace = ''w''\<rparr>) = Inr ''t/w''"
  using children_live_in_the_child_namespace [of "''t''" "''w''" "\<lambda>x. x" "[]"]
  by (simp add: child_namespace_for_def child_namespace_labels_def compute_namespace_def Let_def)

end
