(* ===== verification/Block_Storage_Handler.thy ===== *)
theory Block_Storage_Handler
  imports Image_Handler Namespaces
begin

section \<open>The plugin handler of block storages\<close>

text \<open>
  \<^verbatim>\<open>resource/storage/v1/block-storage/backend/kubernetes/plugin_handler.go\<close>: the volume lifecycle with
  growing (\<^verbatim>\<open>updating\<close> and its retry), the wait for an optional source image, the refusal to delete a
  volume images are stored on, and the admission rule against shrinking. Only the accepted,
  deleting and retry arms are shared with the reference pass.
\<close>

text \<open>The handler's fields: \<^verbatim>\<open>plugin.IncreaseSize\<close> and \<^verbatim>\<open>deps.Referrers\<close> beside those of an image's.\<close>

record ('r, 'w) volume_handler = "('r, 'w) dependent_handler" +
  h_increase_size :: "('r, 'w) delegated"
  h_dep_referrers :: "gvr \<Rightarrow> string \<Rightarrow> string list \<Rightarrow> reference_target \<Rightarrow> string \<Rightarrow> 'w
    \<Rightarrow> (go_error + string list) \<times> 'w"
  h_sha3 :: "string \<Rightarrow> string"

definition image_gvr :: gvr where
  "image_gvr = \<lparr>gvr_group = ''storage.v1.secapi.cloud'', gvr_version = ''v1'', gvr_resource = ''images''\<rparr>"

definition zero_block_storage_status :: block_storage_status where
  "zero_block_storage_status = \<lparr>bsst_attached_to = None, bsst_size_gb = 0, bsst_status = empty_status\<rparr>"

definition block_storage_view :: "block_storage \<Rightarrow> status option" where
  "block_storage_view r = map_option bsst_status (bs_status r)"

definition put_block_storage_status :: "status \<Rightarrow> block_storage \<Rightarrow> block_storage" where
  "put_block_storage_status st r = r\<lparr>bs_status :=
     Some ((case bs_status r of None \<Rightarrow> zero_block_storage_status | Some s \<Rightarrow> s)\<lparr>bsst_status := st\<rparr>)\<rparr>"

interpretation block_storage_status: status_view deleted_at block_storage_view put_block_storage_status
  by unfold_locales (simp_all add: block_storage_view_def put_block_storage_status_def deleted_at_def)

definition is_block_storage_active :: "block_storage \<Rightarrow> bool" where [handler_defs]:
  "is_block_storage_active r \<longleftrightarrow> md_deleted r = None \<and>
     (case bs_status r of None \<Rightarrow> False | Some st \<Rightarrow> st_state (bsst_status st) = StateActive)"

definition is_block_storage_accepted :: "block_storage \<Rightarrow> bool" where [handler_defs]:
  "is_block_storage_accepted r \<longleftrightarrow> bs_status r = None"

definition is_block_storage_pending :: "block_storage \<Rightarrow> bool" where [handler_defs]:
  "is_block_storage_pending r \<longleftrightarrow> md_deleted r = None \<and>
     (case bs_status r of None \<Rightarrow> True | Some st \<Rightarrow> st_state (bsst_status st) = StatePending)"

definition is_block_storage_creating :: "block_storage \<Rightarrow> bool" where [handler_defs]:
  "is_block_storage_creating r \<longleftrightarrow> md_deleted r = None \<and>
     (case bs_status r of None \<Rightarrow> False | Some st \<Rightarrow> st_state (bsst_status st) = StateCreating)"

definition block_storage_is_not_deleting :: "block_storage \<Rightarrow> bool" where [handler_defs]:
  "block_storage_is_not_deleting r \<longleftrightarrow> (case bs_status r of None \<Rightarrow> True | Some st \<Rightarrow> st_state (bsst_status st) \<noteq> StateDeleting)"

definition want_block_storage_delete :: "block_storage \<Rightarrow> bool" where [handler_defs]:
  "want_block_storage_delete r \<longleftrightarrow> md_deleted r \<noteq> None \<and> block_storage_is_not_deleting r"

definition is_block_storage_deleting :: "block_storage \<Rightarrow> bool" where [handler_defs]:
  "is_block_storage_deleting r \<longleftrightarrow> md_deleted r \<noteq> None \<and>
     (case bs_status r of None \<Rightarrow> False | Some st \<Rightarrow> st_state (bsst_status st) = StateDeleting)"

definition want_block_storage_retry_create :: "block_storage \<Rightarrow> bool" where [handler_defs]:
  "want_block_storage_retry_create r \<longleftrightarrow> md_deleted r = None \<and>
     (case bs_status r of None \<Rightarrow> False
      | Some st \<Rightarrow> st_state (bsst_status st) = StateError \<and> 1 < length (st_conditions (bsst_status st)) \<and>
          c_state (st_conditions (bsst_status st) ! 1) = StateCreating)"

text \<open>\<^verbatim>\<open>detectIncreaseSizeCondition\<close> is only asked of a resource that has a status.\<close>

definition detect_increase_size_condition :: "block_storage \<Rightarrow> bool" where [handler_defs]:
  "detect_increase_size_condition r \<longleftrightarrow>
     (case bs_status r of None \<Rightarrow> False | Some st \<Rightarrow> bss_size_gb (bs_spec r) > bsst_size_gb st)"

definition want_block_storage_increase_size :: "block_storage \<Rightarrow> bool" where [handler_defs]:
  "want_block_storage_increase_size r \<longleftrightarrow> md_deleted r = None \<and>
     (case bs_status r of None \<Rightarrow> False | Some st \<Rightarrow> st_state (bsst_status st) = StateActive) \<and>
     detect_increase_size_condition r"

definition is_block_storage_increasing_size :: "block_storage \<Rightarrow> bool" where [handler_defs]:
  "is_block_storage_increasing_size r \<longleftrightarrow> md_deleted r = None \<and>
     (case bs_status r of None \<Rightarrow> False | Some st \<Rightarrow> st_state (bsst_status st) = StateUpdating) \<and>
     detect_increase_size_condition r"

definition want_block_storage_retry_increase_size :: "block_storage \<Rightarrow> bool" where [handler_defs]:
  "want_block_storage_retry_increase_size r \<longleftrightarrow> md_deleted r = None \<and>
     (case bs_status r of None \<Rightarrow> False
      | Some st \<Rightarrow> st_state (bsst_status st) = StateError \<and> 1 < length (st_conditions (bsst_status st)) \<and>
          c_state (st_conditions (bsst_status st) ! 1) = StateUpdating \<and>
          bss_size_gb (bs_spec r) > bsst_size_gb st)"

definition block_decrease_size :: "block_storage \<Rightarrow> go_error option" where
  "block_decrease_size r =
    (case bs_status r of
       None \<Rightarrow> None
     | Some st \<Rightarrow>
         if st_state (bsst_status st) \<noteq> StateCreating \<and> bss_size_gb (bs_spec r) < bsst_size_gb st
         then Some (GoError ''decrease storage size is not allowed'') else None)"

text \<open>\<^verbatim>\<open>NewBlockStoragePluginHandler\<close> registers the one rejection condition.\<close>

definition block_storage_rejections :: "block_storage rejection_condition list" where
  "block_storage_rejections = [block_decrease_size]"

definition block_storage_set_resource_state ::
  "(block_storage, 'w, 'm) plugin_handler_scheme \<Rightarrow> block_storage \<Rightarrow> resource_state \<Rightarrow> bool \<Rightarrow> 'w
   \<Rightarrow> reconcile_result \<times> block_storage \<times> 'w" where
  "block_storage_set_resource_state h r state rq w =
    (let st = (case bs_status r of None \<Rightarrow> zero_block_storage_status | Some st \<Rightarrow> st);
         st' = pushed (h_now h w) (condition_from_state (h_now h w) state) (bsst_status st);
         r' = r\<lparr>bs_status := Some (st\<lparr>bsst_status := trim_conditions (h_max_conditions h) st'\<rparr>)\<rparr> in
     case rp_update_status (h_repo h) r' w of
       (Inl err, w') \<Rightarrow>
         if errors_is err err_not_found then (Reconciled False None, r', w')
         else (Reconciled rq (Some err), r', w')
     | (Inr stored, w') \<Rightarrow> (Reconciled rq None, r', w'))"

definition block_storage_set_resource_error_state ::
  "(block_storage, 'w, 'm) plugin_handler_scheme \<Rightarrow> block_storage \<Rightarrow> go_error \<Rightarrow> bool \<Rightarrow> 'w
   \<Rightarrow> reconcile_result \<times> block_storage \<times> 'w" where
  "block_storage_set_resource_error_state h r cause rq w =
    (let st = (case bs_status r of None \<Rightarrow> zero_block_storage_status | Some st \<Rightarrow> st);
         st' = pushed (h_now h w) (condition_from_error (h_now h w) cause) (bsst_status st);
         r' = r\<lparr>bs_status := Some (st\<lparr>bsst_status := trim_conditions (h_max_conditions h) st'\<rparr>)\<rparr> in
     case rp_update_status (h_repo h) r' w of
       (Inl err, w') \<Rightarrow>
         if errors_is err err_not_found then (Reconciled False None, r', w')
         else (Reconciled rq (Some err), r', w')
     | (Inr stored, w') \<Rightarrow> (Reconciled rq None, r', w'))"

definition block_storage_set_resource_condition ::
  "(block_storage, 'w, 'm) plugin_handler_scheme \<Rightarrow> block_storage \<Rightarrow> status_condition \<Rightarrow> bool \<Rightarrow> 'w
   \<Rightarrow> reconcile_result \<times> block_storage \<times> 'w" where
  "block_storage_set_resource_condition h r c rq w =
    (let st = (case bs_status r of None \<Rightarrow> zero_block_storage_status | Some st \<Rightarrow> st);
         st' = pushed (h_now h w) c (bsst_status st);
         r' = r\<lparr>bs_status := Some (st\<lparr>bsst_status := trim_conditions (h_max_conditions h) st'\<rparr>)\<rparr> in
     case rp_update_status (h_repo h) r' w of
       (Inl err, w') \<Rightarrow>
         if errors_is err err_not_found then (Reconciled False None, r', w')
         else (Reconciled rq (Some err), r', w')
     | (Inr stored, w') \<Rightarrow> (Reconciled rq None, r', w'))"

definition ensure_source_image_ready ::
  "(block_storage, 'w, 'm) volume_handler_scheme \<Rightarrow> block_storage \<Rightarrow> 'w
   \<Rightarrow> reconcile_result \<times> block_storage \<times> 'w" where
  "ensure_source_image_ready h r w =
    (case bss_source_image_ref (bs_spec r) of
       None \<Rightarrow> block_storage_set_resource_state h r StateCreating True w
     | Some ref \<Rightarrow>
         (case h_dep_state h image_gvr ref (md_tenant r) w of
            (Inl err, w1) \<Rightarrow> block_storage_set_resource_error_state h r err True w1
          | (Inr (exists, state), w1) \<Rightarrow>
              if \<not> exists \<or> state \<noteq> StateActive then
                block_storage_set_resource_condition h r
                  (dependency_pending_condition (h_now h w1) StatePending
                    (''waiting for source image '' @ fmt_q (ref_resource ref) @ '' to be active'')) True w1
              else block_storage_set_resource_state h r StateCreating True w1))"

definition ensure_no_image_referrers ::
  "(block_storage, 'w, 'm) volume_handler_scheme \<Rightarrow> block_storage \<Rightarrow> 'w
   \<Rightarrow> reconcile_result \<times> block_storage \<times> 'w" where
  "ensure_no_image_referrers h r w =
    (let namespace = compute_namespace (h_sha3 h) \<lparr>sc_tenant = md_tenant r, sc_workspace = []\<rparr>;
         target = \<lparr>rt_tenant = md_tenant r, rt_workspace = md_workspace r, rt_name = md_name r\<rparr> in
     case h_dep_referrers h image_gvr namespace [''spec'', ''blockStorageRef''] target (md_tenant r) w of
       (Inl err, w1) \<Rightarrow> block_storage_set_resource_error_state h r err True w1
     | (Inr referrers, w1) \<Rightarrow>
         if referrers \<noteq> [] then
           block_storage_set_resource_condition h r
             (deletion_blocked_condition (h_now h w1) (st_state (the_status block_storage_view r))
               (''deletion blocked: still referenced by images '' @ fmt_v_strings referrers)) True w1
         else block_storage_set_resource_state h r StateDeleting True w1)"

text \<open>\<^verbatim>\<open>resource.Status.SizeGB = resource.Spec.SizeGB\<close>.\<close>

definition record_size :: "block_storage \<Rightarrow> block_storage" where
  "record_size r = r\<lparr>bs_status := map_option (\<lambda>st. st\<lparr>bsst_size_gb := bss_size_gb (bs_spec r)\<rparr>) (bs_status r)\<rparr>"

definition block_storage_handle_reconcile ::
  "(block_storage, 'w, 'm) volume_handler_scheme \<Rightarrow> block_storage \<Rightarrow> 'w
   \<Rightarrow> reconcile_result \<times> block_storage \<times> 'w" where
  "block_storage_handle_reconcile h r w =
    (if is_block_storage_active r \<and> \<not> want_block_storage_increase_size r
     then handle_update (the_status block_storage_view) put_block_storage_status h r w
     else let delegate =
        (if is_block_storage_accepted r then Some bypass_delegated
         else if is_block_storage_pending r then Some bypass_delegated
         else if is_block_storage_creating r then Some (h_create h)
         else if want_block_storage_delete r then Some bypass_delegated
         else if is_block_storage_deleting r then Some (h_delete h)
         else if want_block_storage_increase_size r then Some bypass_delegated
         else if is_block_storage_increasing_size r then Some (h_increase_size h)
         else if want_block_storage_retry_create r \<or> want_block_storage_retry_increase_size r
           then Some bypass_delegated
         else None) in
     case delegate of
       None \<Rightarrow> (Reconciled False None, r, w)
     | Some op \<Rightarrow> (case op r w of
         (Some err, r1, w1) \<Rightarrow>
           if errors_is err (Sentinel ErrStillProcessing) then (Reconciled True None, r1, w1)
           else (case block_storage_set_resource_error_state h r1 err False w1 of
               (Reconciled rq (Some e), r2, w2) \<Rightarrow> (Reconciled rq (Some e), r2, w2)
             | (_, r2, w2) \<Rightarrow> (Reconciled True None, r2, w2))
       | (None, r1, w1) \<Rightarrow>
           if is_block_storage_accepted r1 then block_storage_set_resource_state h r1 StatePending False w1
           else if is_block_storage_pending r1 then ensure_source_image_ready h r1 w1
           else if is_block_storage_creating r1
             then block_storage_set_resource_state h (record_size r1) StateActive False w1
           else if want_block_storage_delete r1 then ensure_no_image_referrers h r1 w1
           else if is_block_storage_deleting r1 then (Reconciled False None, r1, w1)
           else if want_block_storage_increase_size r1
             then block_storage_set_resource_state h r1 StateUpdating True w1
           else if is_block_storage_increasing_size r1
             then block_storage_set_resource_state h (record_size r1) StateActive False w1
           else if want_block_storage_retry_create r1
             then block_storage_set_resource_state h r1 StateCreating True w1
           else if want_block_storage_retry_increase_size r1
             then block_storage_set_resource_state h r1 StateUpdating True w1
           else (ProcessExit, r1, w1)))"

subsection \<open>The handler on the arms of the switch\<close>

lemma block_storage_switch:
  "(if is_block_storage_accepted r then a else if is_block_storage_pending r then b
    else if is_block_storage_creating r then c else if want_block_storage_delete r then d
    else if is_block_storage_deleting r then e else if want_block_storage_increase_size r then i
    else if is_block_storage_increasing_size r then j else if want_block_storage_retry_create r then f
    else if want_block_storage_retry_increase_size r then k else g) =
   (case arm_of (deleted_at r) (block_storage_view r) of
      ArmAccepted \<Rightarrow> a | ArmPending \<Rightarrow> b | ArmCreating \<Rightarrow> c | ArmWantDelete \<Rightarrow> d
    | ArmDeleting \<Rightarrow> e | ArmRetry \<Rightarrow> f
    | _ \<Rightarrow> if want_block_storage_increase_size r then i
        else if is_block_storage_increasing_size r then j
        else if want_block_storage_retry_increase_size r then k else g)"
  by (cases "bs_status r"; cases "md_deleted r")
     (auto simp: handler_defs block_storage_view_def deleted_at_def arm_of_def failed_while_def
       split: resource_state.splits)

lemma is_block_storage_active_arm:
  "is_block_storage_active r \<longleftrightarrow> arm_of (deleted_at r) (block_storage_view r) = ArmActive"
  by (cases "bs_status r") (auto simp: is_block_storage_active_def block_storage_view_def deleted_at_def arm_of_iff)

lemma if_or: "(if P \<or> Q then x else y) = (if P then x else if Q then x else y)"
  by simp

lemma block_storage_set_state_eq:
  "block_storage_set_resource_state h r s rq w = settle_state block_storage_view put_block_storage_status h s rq r w"
  by (cases "bs_status r")
     (simp_all add: block_storage_set_resource_state_def settle_state_def settle_def Let_def
       put_block_storage_status_def block_storage_view_def the_status_def zero_block_storage_status_def
       split: prod.split sum.split)

lemma block_storage_set_error_eq:
  "block_storage_set_resource_error_state h r err rq w =
     settle block_storage_view put_block_storage_status h (condition_from_error (h_now h w) err) rq r w"
  by (cases "bs_status r")
     (simp_all add: block_storage_set_resource_error_state_def settle_def Let_def
       put_block_storage_status_def block_storage_view_def the_status_def zero_block_storage_status_def
       split: prod.split sum.split)

lemma block_storage_set_condition_eq:
  "block_storage_set_resource_condition h r c rq w =
     settle block_storage_view put_block_storage_status h c rq r w"
  by (cases "bs_status r")
     (simp_all add: block_storage_set_resource_condition_def settle_def Let_def
       put_block_storage_status_def block_storage_view_def the_status_def zero_block_storage_status_def
       split: prod.split sum.split)

lemma record_size_view [simp]:
  "block_storage_view (record_size r) = block_storage_view r" "deleted_at (record_size r) = deleted_at r"
  by (cases "bs_status r"; simp add: record_size_def block_storage_view_def deleted_at_def)+

text \<open>The second switch.\<close>

definition volume_after where
  "volume_after h r w =
    (case arm_of (deleted_at r) (block_storage_view r) of
       ArmAccepted \<Rightarrow> settle_state block_storage_view put_block_storage_status h StatePending False r w
     | ArmPending \<Rightarrow> ensure_source_image_ready h r w
     | ArmCreating \<Rightarrow> settle_state block_storage_view put_block_storage_status h StateActive False (record_size r) w
     | ArmWantDelete \<Rightarrow> ensure_no_image_referrers h r w
     | ArmDeleting \<Rightarrow> (Reconciled False None, r, w)
     | ArmRetry \<Rightarrow> settle_state block_storage_view put_block_storage_status h StateCreating True r w
     | _ \<Rightarrow> if want_block_storage_increase_size r
         then settle_state block_storage_view put_block_storage_status h StateUpdating True r w
         else if is_block_storage_increasing_size r
         then settle_state block_storage_view put_block_storage_status h StateActive False (record_size r) w
         else if want_block_storage_retry_increase_size r
         then settle_state block_storage_view put_block_storage_status h StateUpdating True r w
         else (ProcessExit, r, w))"

definition volume_delegate where
  "volume_delegate h r =
    (case arm_of (deleted_at r) (block_storage_view r) of
       ArmCreating \<Rightarrow> Some (h_create h)
     | ArmDeleting \<Rightarrow> Some (h_delete h)
     | ArmAccepted \<Rightarrow> Some bypass_delegated | ArmPending \<Rightarrow> Some bypass_delegated
     | ArmWantDelete \<Rightarrow> Some bypass_delegated | ArmRetry \<Rightarrow> Some bypass_delegated
     | _ \<Rightarrow> if want_block_storage_increase_size r then Some bypass_delegated
         else if is_block_storage_increasing_size r then Some (h_increase_size h)
         else if want_block_storage_retry_increase_size r then Some bypass_delegated
         else None)"

lemma block_storage_reconcile_shape:
  "block_storage_handle_reconcile h r w =
    (if arm_of (deleted_at r) (block_storage_view r) = ArmActive \<and> \<not> want_block_storage_increase_size r
     then handle_update (the_status block_storage_view) put_block_storage_status h r w
     else case volume_delegate h r of
       None \<Rightarrow> (Reconciled False None, r, w)
     | Some op \<Rightarrow> (case op r w of
         (Some err, r1, w1) \<Rightarrow> settle_failure block_storage_view put_block_storage_status h err r1 w1
       | (None, r1, w1) \<Rightarrow> volume_after h r1 w1))"
  unfolding block_storage_handle_reconcile_def if_or block_storage_switch block_storage_set_state_eq
    block_storage_set_error_eq is_block_storage_active_arm volume_delegate_def volume_after_def
    settle_failure_def
  by (simp only: Let_def)

text \<open>
  A tame provider: its operations leave the lifecycle alone, and neither size of the volume is
  changed behind the handler's back (the second switch compares them again).
\<close>

definition volume_sizes :: "block_storage \<Rightarrow> int \<times> int option" where
  "volume_sizes r = (bss_size_gb (bs_spec r), map_option bsst_size_gb (bs_status r))"

definition block_storage_tame :: "(block_storage, 'w, 'm) volume_handler_scheme \<Rightarrow> bool" where
  "block_storage_tame h \<longleftrightarrow> quiet_plugin deleted_at block_storage_view h \<and>
     quiet deleted_at block_storage_view (h_increase_size h) \<and>
     (\<forall>r w. volume_sizes (fst (snd (h_increase_size h r w))) = volume_sizes r)"

lemma detect_sizes:
  "detect_increase_size_condition r \<longleftrightarrow>
     (case volume_sizes r of (spec, Some stored) \<Rightarrow> spec > stored | _ \<Rightarrow> False)"
  by (simp add: detect_increase_size_condition_def volume_sizes_def split: option.split)

lemma increasing_view:
  "want_block_storage_increase_size r \<longleftrightarrow> \<not> deleted_at r \<and>
     phase_of (block_storage_view r) = Phase StateActive \<and> detect_increase_size_condition r"
  "is_block_storage_increasing_size r \<longleftrightarrow> \<not> deleted_at r \<and>
     phase_of (block_storage_view r) = Phase StateUpdating \<and> detect_increase_size_condition r"
  "want_block_storage_retry_increase_size r \<longleftrightarrow> \<not> deleted_at r \<and>
     phase_of (block_storage_view r) = Phase StateError \<and> detect_increase_size_condition r \<and>
     failed_while StateUpdating (the_status block_storage_view r)"
  by (cases "bs_status r"; auto simp: handler_defs deleted_at_def block_storage_view_def failed_while_def
      the_status_def)+

lemma ensure_source_pass_ok:
  assumes a: "arm_of (deleted_at r) (block_storage_view r) = ArmPending" and ok: "view_ok (block_storage_view r)"
    and s: "ensure_source_image_ready h r w = (res, r', w')"
  shows "pass_ok deleted_at block_storage_view r res r'"
proof -
  have p: "lc_move (deleted_at r) (phase_of (block_storage_view r)) (Phase s)"
    if "s \<in> {StatePending, StateCreating, StateError}" for s
    using a that by (cases "block_storage_view r") (auto simp: arm_of_iff)
  obtain c b w1 where "settle block_storage_view put_block_storage_status h c b r w1 = (res, r', w')"
    and "c_state c \<in> {StatePending, StateCreating, StateError}"
    using s
    by (auto simp: ensure_source_image_ready_def block_storage_set_state_eq block_storage_set_error_eq
        block_storage_set_condition_eq settle_state_def split: prod.splits sum.splits if_splits option.splits)
  with p show ?thesis by (intro block_storage_status.settle_pass_ok [OF _ ok]) auto
qed

lemma ensure_no_referrers_pass_ok:
  assumes a: "arm_of (deleted_at r) (block_storage_view r) = ArmWantDelete" and ok: "view_ok (block_storage_view r)"
    and s: "ensure_no_image_referrers h r w = (res, r', w')"
  shows "pass_ok deleted_at block_storage_view r res r'"
proof -
  from a obtain st where st: "block_storage_view r = Some st" "deleted_at r" "st_state st \<noteq> StateDeleting"
    by (cases "block_storage_view r") (auto simp: arm_of_iff)
  then have p: "lc_move (deleted_at r) (phase_of (block_storage_view r)) (Phase s)"
    if "s \<in> {st_state st, StateDeleting, StateError}" for s
    using that by auto
  obtain c b w1 where "settle block_storage_view put_block_storage_status h c b r w1 = (res, r', w')"
    and "c_state c \<in> {st_state st, StateDeleting, StateError}"
    using s st
    by (auto simp: ensure_no_image_referrers_def block_storage_set_state_eq block_storage_set_error_eq
        block_storage_set_condition_eq settle_state_def the_status_def Let_def
        split: prod.splits sum.splits if_splits)
  with p show ?thesis by (intro block_storage_status.settle_pass_ok [OF _ ok]) auto
qed

lemma volume_after_pass_ok:
  assumes ok: "view_ok (block_storage_view r)" and s: "volume_after h r w = (res, r', w')"
    and a: "arm_of (deleted_at r) (block_storage_view r) \<notin> {ArmActive, ArmIdle} \<or>
      want_block_storage_increase_size r \<or> is_block_storage_increasing_size r \<or>
      want_block_storage_retry_increase_size r"
  shows "pass_ok deleted_at block_storage_view r res r'"
proof -
  have settled: "pass_ok deleted_at block_storage_view r res r'"
    if "settle_state block_storage_view put_block_storage_status h s b rx w = (res, r', w')"
      "block_storage_view rx = block_storage_view r" "deleted_at rx = deleted_at r"
      "lc_move (deleted_at r) (phase_of (block_storage_view r)) (Phase s)" for s b rx
    using that(1) unfolding settle_state_def
    by (rule block_storage_status.settle_pass_ok) (simp_all add: that(2-4) ok)
  let ?a = "arm_of (deleted_at r) (block_storage_view r)"
  consider "?a = ArmAccepted" | "?a = ArmPending" | "?a = ArmCreating" | "?a = ArmWantDelete"
    | "?a = ArmDeleting" | "?a = ArmRetry" | "?a \<in> {ArmActive, ArmIdle}" by (cases ?a) auto
  then show ?thesis
  proof cases
    case 1
    with s show ?thesis by (intro settled [where s = StatePending]) (auto simp: volume_after_def arm_of_iff)
  next
    case 2
    with s ensure_source_pass_ok [OF 2 ok] show ?thesis by (simp add: volume_after_def)
  next
    case 3
    with s show ?thesis
      by (intro settled [where s = StateActive and rx = "record_size r"])
        (auto simp: volume_after_def, cases "block_storage_view r", auto simp: arm_of_iff)
  next
    case 4
    with s ensure_no_referrers_pass_ok [OF 4 ok] show ?thesis by (simp add: volume_after_def)
  next
    case 5
    with s ok show ?thesis by (auto simp: volume_after_def pass_ok_def)
  next
    case 6
    with s show ?thesis
      by (intro settled [where s = StateCreating])
        (auto simp: volume_after_def, cases "block_storage_view r", auto simp: arm_of_iff)
  next
    case 7
    then have v: "volume_after h r w =
        (if want_block_storage_increase_size r
         then settle_state block_storage_view put_block_storage_status h StateUpdating True r w
         else if is_block_storage_increasing_size r
         then settle_state block_storage_view put_block_storage_status h StateActive False (record_size r) w
         else if want_block_storage_retry_increase_size r
         then settle_state block_storage_view put_block_storage_status h StateUpdating True r w
         else (ProcessExit, r, w))"
      by (auto simp: volume_after_def)
    have live: "\<not> deleted_at r" using 7 a by (auto simp: increasing_view)
    show ?thesis
    proof (cases "is_block_storage_increasing_size r")
      case True
      with v s have "settle_state block_storage_view put_block_storage_status h StateActive False (record_size r) w
          = (res, r', w')" by (simp add: increasing_view)
      then show ?thesis by (rule settled) (use True in \<open>auto simp: increasing_view\<close>)
    next
      case False
      with v s 7 a have "settle_state block_storage_view put_block_storage_status h StateUpdating True r w
          = (res, r', w')" by (auto split: if_splits)
      then show ?thesis by (rule settled) (use False 7 a in \<open>auto simp: increasing_view\<close>)
    qed
  qed
qed


lemma volume_pass_ok:
  assumes t: "block_storage_tame h" and ok: "view_ok (block_storage_view r)"
    and s: "block_storage_handle_reconcile h r w = (res, r', w')"
    and own: "arm_of (deleted_at r) (block_storage_view r) \<notin> {ArmAccepted, ArmDeleting, ArmRetry}"
  shows "pass_ok deleted_at block_storage_view r res r'"
proof (cases "arm_of (deleted_at r) (block_storage_view r) = ArmActive \<and> \<not> want_block_storage_increase_size r")
  case True
  then have u: "handle_update (the_status block_storage_view) put_block_storage_status h r w = (res, r', w')"
    using s by (simp add: block_storage_reconcile_shape)
  obtain st where st: "block_storage_view r = Some st" "\<not> deleted_at r" "st_state st = StateActive"
    using True by (cases "block_storage_view r") (auto simp: arm_of_iff)
  obtain e r1 w1 where h: "h_update h r w = (e, r1, w1)" by (metis prod_cases3)
  with t have r1: "deleted_at r1 = deleted_at r" "block_storage_view r1 = block_storage_view r"
    by (auto simp: block_storage_tame_def quiet_plugin_def dest: quietD)
  from block_storage_status.handle_update_view [OF h u] st r1 ok show ?thesis by (simp add: pass_ok_def)
next
  case upd: False
  show ?thesis
  proof (cases "volume_delegate h r")
    case None
    with upd s ok show ?thesis by (auto simp: block_storage_reconcile_shape pass_ok_def)
  next
    case (Some op)
    obtain e r1 w1 where d: "op r w = (e, r1, w1)" by (metis prod_cases3)
    have q: "quiet deleted_at block_storage_view op"
      using Some t by (auto simp: volume_delegate_def block_storage_tame_def quiet_plugin_def
          split: arm.splits if_splits)
    note r1 = quietD [OF q d]
    show ?thesis
    proof (cases e)
      case None
      have sizes: "volume_sizes r1 = volume_sizes r"
        if "arm_of (deleted_at r) (block_storage_view r) \<in> {ArmActive, ArmIdle}"
        using that Some d t
        by (auto simp: volume_delegate_def block_storage_tame_def bypass_delegated_def
            split: if_splits) (metis fst_conv snd_conv)+
      have "volume_after h r1 w1 = (res, r', w')"
        using upd Some d None s by (auto simp: block_storage_reconcile_shape)
      then have "pass_ok deleted_at block_storage_view r1 res r'"
      proof (rule volume_after_pass_ok [rotated])
        show "arm_of (deleted_at r1) (block_storage_view r1) \<notin> {ArmActive, ArmIdle} \<or>
            want_block_storage_increase_size r1 \<or> is_block_storage_increasing_size r1 \<or>
            want_block_storage_retry_increase_size r1"
          using Some sizes r1
          by (auto simp: volume_delegate_def increasing_view detect_sizes the_status_def
              split: arm.splits if_splits)
      qed (simp add: r1 ok)
      then show ?thesis by (simp only: block_storage_status.pass_ok_cong [OF r1])
    next
      case (Some err)
      with d \<open>volume_delegate h r = Some op\<close> own
      have "lc_move (deleted_at r) (phase_of (block_storage_view r)) (Phase StateError)"
        by (cases "block_storage_view r")
          (auto simp: volume_delegate_def bypass_delegated_def arm_of_iff increasing_view
            split: arm.splits if_splits)
      moreover have "settle_failure block_storage_view put_block_storage_status h err r1 w1 = (res, r', w')"
        using upd \<open>volume_delegate h r = Some op\<close> d Some s by (auto simp: block_storage_reconcile_shape)
      ultimately show ?thesis using block_storage_status.settle_failure_pass_ok r1 ok by metis
    qed
  qed
qed

lemma volume_shared:
  assumes t: "block_storage_tame h"
    and a: "arm_of (deleted_at r) (block_storage_view r) \<in> {ArmAccepted, ArmDeleting, ArmRetry}"
  shows "block_storage_handle_reconcile h r w =
    lifecycle deleted_at block_storage_view put_block_storage_status h r w"
proof -
  let ?a = "arm_of (deleted_at r) (block_storage_view r)"
  have op: "volume_delegate h r = Some (delegate_of ?a h)" "?a \<noteq> ArmActive"
    using a by (auto simp: volume_delegate_def delegate_of_def)
  obtain e r1 w1 where d: "delegate_of ?a h r w = (e, r1, w1)" by (metis prod_cases3)
  have "quiet deleted_at block_storage_view (delegate_of ?a h)"
    using t by (intro quiet_delegate_of) (simp add: block_storage_tame_def)
  note r1 = quietD [OF this d]
  have "volume_after h r1 w1 = after_delegate deleted_at block_storage_view put_block_storage_status h r1 w1"
    using a r1 by (auto simp: volume_after_def after_delegate_def)
  with a op d show ?thesis
    by (cases e) (auto simp: block_storage_reconcile_shape lifecycle_def)
qed

interpretation block_storage: shared_arms deleted_at block_storage_view put_block_storage_status
    block_storage_tame block_storage_handle_reconcile "\<lambda>a. a \<notin> {ArmAccepted, ArmDeleting, ArmRetry}"
proof unfold_locales
  fix h :: "(block_storage, 'w, 'm) volume_handler_scheme" and r :: block_storage and w res r' w'
  show "block_storage_tame h \<Longrightarrow> quiet_plugin deleted_at block_storage_view h"
    by (simp add: block_storage_tame_def)
  show "block_storage_tame h \<Longrightarrow>
      \<not> arm_of (deleted_at r) (block_storage_view r) \<notin> {ArmAccepted, ArmDeleting, ArmRetry} \<Longrightarrow>
      block_storage_handle_reconcile h r w =
      lifecycle deleted_at block_storage_view put_block_storage_status h r w"
    by (rule volume_shared) simp_all
  show "block_storage_tame h \<Longrightarrow>
      arm_of (deleted_at r) (block_storage_view r) \<notin> {ArmAccepted, ArmDeleting, ArmRetry} \<Longrightarrow>
      view_ok (block_storage_view r) \<Longrightarrow> block_storage_handle_reconcile h r w = (res, r', w') \<Longrightarrow>
      pass_ok deleted_at block_storage_view r res r'"
    by (rule volume_pass_ok)
qed

end
