(* ===== verification/Instance_Handler.thy ===== *)
theory Instance_Handler
  imports Reconcilers
begin

section \<open>The plugin handler of instances\<close>

text \<open>
  \<^verbatim>\<open>resource/compute/v1/instance/backend/kubernetes/plugin_handler.go\<close>: an active instance has power
  management before its updates, with the restart protocol whose phase is kept on the stored
  resource. The active arm is the handler's own, the others are shared with the reference pass.
\<close>

text \<open>The handler's fields: the plugin's power operations beside those every handler has.\<close>

record ('r, 'w) power_handler = "('r, 'w) plugin_handler" +
  h_power_on :: "('r, 'w) delegated"
  h_power_off :: "('r, 'w) delegated"

definition zero_instance_status :: instance_status where
  "zero_instance_status = \<lparr>inst_status = empty_status, inst_power_state = PowerUnset, inst_power_state_since = None\<rparr>"

definition instance_view :: "instance_res \<Rightarrow> status option" where
  "instance_view r = map_option inst_status (in_status r)"

definition put_instance_status :: "status \<Rightarrow> instance_res \<Rightarrow> instance_res" where
  "put_instance_status st r = r\<lparr>in_status :=
     Some ((case in_status r of None \<Rightarrow> zero_instance_status | Some s \<Rightarrow> s)\<lparr>inst_status := st\<rparr>)\<rparr>"

interpretation instance_status: status_view deleted_at instance_view put_instance_status
  by unfold_locales (simp_all add: instance_view_def put_instance_status_def deleted_at_def)

definition is_instance_active :: "instance_res \<Rightarrow> bool" where [handler_defs]:
  "is_instance_active r \<longleftrightarrow> md_deleted r = None \<and>
     (case in_status r of None \<Rightarrow> False | Some st \<Rightarrow> st_state (inst_status st) = StateActive)"

definition is_instance_accepted :: "instance_res \<Rightarrow> bool" where [handler_defs]:
  "is_instance_accepted r \<longleftrightarrow> in_status r = None"

definition is_instance_pending :: "instance_res \<Rightarrow> bool" where [handler_defs]:
  "is_instance_pending r \<longleftrightarrow> md_deleted r = None \<and>
     (case in_status r of None \<Rightarrow> True | Some st \<Rightarrow> st_state (inst_status st) = StatePending)"

definition is_instance_creating :: "instance_res \<Rightarrow> bool" where [handler_defs]:
  "is_instance_creating r \<longleftrightarrow> md_deleted r = None \<and>
     (case in_status r of None \<Rightarrow> False | Some st \<Rightarrow> st_state (inst_status st) = StateCreating)"

definition instance_is_not_deleting :: "instance_res \<Rightarrow> bool" where [handler_defs]:
  "instance_is_not_deleting r \<longleftrightarrow> (case in_status r of None \<Rightarrow> True | Some st \<Rightarrow> st_state (inst_status st) \<noteq> StateDeleting)"

definition want_instance_delete :: "instance_res \<Rightarrow> bool" where [handler_defs]:
  "want_instance_delete r \<longleftrightarrow> md_deleted r \<noteq> None \<and> instance_is_not_deleting r"

definition is_instance_deleting :: "instance_res \<Rightarrow> bool" where [handler_defs]:
  "is_instance_deleting r \<longleftrightarrow> md_deleted r \<noteq> None \<and>
     (case in_status r of None \<Rightarrow> False | Some st \<Rightarrow> st_state (inst_status st) = StateDeleting)"

definition want_instance_retry_create :: "instance_res \<Rightarrow> bool" where [handler_defs]:
  "want_instance_retry_create r \<longleftrightarrow> md_deleted r = None \<and>
     (case in_status r of None \<Rightarrow> False
      | Some st \<Rightarrow> st_state (inst_status st) = StateError \<and> 1 < length (st_conditions (inst_status st)) \<and>
          c_state (st_conditions (inst_status st) ! 1) = StateCreating)"

definition instance_set_resource_state ::
  "(instance_res, 'w, 'm) plugin_handler_scheme \<Rightarrow> instance_res \<Rightarrow> resource_state \<Rightarrow> bool \<Rightarrow> 'w
   \<Rightarrow> reconcile_result \<times> instance_res \<times> 'w" where
  "instance_set_resource_state h r state rq w =
    (let st = (case in_status r of None \<Rightarrow> zero_instance_status | Some st \<Rightarrow> st);
         st' = pushed (h_now h w) (condition_from_state (h_now h w) state) (inst_status st);
         r' = r\<lparr>in_status := Some (st\<lparr>inst_status := trim_conditions (h_max_conditions h) st'\<rparr>)\<rparr> in
     case rp_update_status (h_repo h) r' w of
       (Inl err, w') \<Rightarrow>
         if errors_is err err_not_found then (Reconciled False None, r', w')
         else (Reconciled rq (Some err), r', w')
     | (Inr stored, w') \<Rightarrow> (Reconciled rq None, r', w'))"

definition instance_set_resource_error_state ::
  "(instance_res, 'w, 'm) plugin_handler_scheme \<Rightarrow> instance_res \<Rightarrow> go_error \<Rightarrow> bool \<Rightarrow> 'w
   \<Rightarrow> reconcile_result \<times> instance_res \<times> 'w" where
  "instance_set_resource_error_state h r cause rq w =
    (let st = (case in_status r of None \<Rightarrow> zero_instance_status | Some st \<Rightarrow> st);
         st' = pushed (h_now h w) (condition_from_error (h_now h w) cause) (inst_status st);
         r' = r\<lparr>in_status := Some (st\<lparr>inst_status := trim_conditions (h_max_conditions h) st'\<rparr>)\<rparr> in
     case rp_update_status (h_repo h) r' w of
       (Inl err, w') \<Rightarrow>
         if errors_is err err_not_found then (Reconciled False None, r', w')
         else (Reconciled rq (Some err), r', w')
     | (Inr stored, w') \<Rightarrow> (Reconciled rq None, r', w'))"

subsection \<open>Power management\<close>

text \<open>\<^verbatim>\<open>validatePowerIntent\<close>: the message of what is malformed, or the empty string.\<close>

fun power_state_string :: "power_state \<Rightarrow> string" where
  "power_state_string PowerUnset = []"
| "power_state_string PowerOn = ''on''"
| "power_state_string PowerOff = ''off''"
| "power_state_string (PowerOther s) = s"

fun restart_phase_string :: "restart_phase \<Rightarrow> string" where
  "restart_phase_string PhaseUnset = []"
| "restart_phase_string PhasePowerOff = ''power-off''"
| "restart_phase_string PhasePowerOn = ''power-on''"
| "restart_phase_string (PhaseOther s) = s"

definition validate_power_intent :: "instance_res \<Rightarrow> string" where
  "validate_power_intent r =
    (if in_restart_id r \<noteq> [] \<and> in_restart_phase r = PhaseUnset
       then ''restart-id is set without restart-phase''
     else if in_restart_phase r \<noteq> PhaseUnset \<and> in_restart_id r = []
       then ''restart-phase is set without restart-id''
     else if in_restart_phase r \<noteq> PhaseUnset \<and> in_restart_phase r \<noteq> PhasePowerOff \<and>
         in_restart_phase r \<noteq> PhasePowerOn
       then ''unknown restart-phase value: '' @ restart_phase_string (in_restart_phase r)
     else if in_desired_power_state r \<noteq> PowerUnset \<and> in_desired_power_state r \<noteq> PowerOn \<and>
         in_desired_power_state r \<noteq> PowerOff
       then ''invalid desired-power-state value: '' @ power_state_string (in_desired_power_state r)
     else [])"

definition record_power_condition ::
  "(instance_res, 'w, 'm) power_handler_scheme \<Rightarrow> instance_res \<Rightarrow> string \<Rightarrow> string \<Rightarrow> 'w
   \<Rightarrow> go_error option \<times> instance_res \<times> 'w" where
  "record_power_condition h r reason msg w =
    (let st = (case in_status r of None \<Rightarrow> zero_instance_status | Some st \<Rightarrow> st);
         c = \<lparr>c_last = 0, c_message = msg, c_reason = reason, c_state = st_state (inst_status st),
              c_type = ''PowerManagementError'', c_occurrences = 0\<rparr>;
         st' = pushed (h_now h w) c (inst_status st);
         r' = r\<lparr>in_status := Some (st\<lparr>inst_status := trim_conditions (h_max_conditions h) st'\<rparr>)\<rparr> in
     case rp_update_status (h_repo h) r' w of
       (Inl err, w') \<Rightarrow> if errors_is err err_not_found then (None, r', w') else (Some err, r', w')
     | (Inr stored, w') \<Rightarrow> (None, r', w'))"

definition record_power_error ::
  "(instance_res, 'w, 'm) power_handler_scheme \<Rightarrow> instance_res \<Rightarrow> go_error \<Rightarrow> 'w
   \<Rightarrow> go_error option \<times> instance_res \<times> 'w" where
  "record_power_error h r op_err w =
    (case record_power_condition h r ''PowerOperationFailed'' (error_text op_err) w of
       (Some err, r', w') \<Rightarrow> (Some err, r', w')
     | (None, r', w') \<Rightarrow> (Some op_err, r', w'))"

definition persist_power_state ::
  "(instance_res, 'w, 'm) power_handler_scheme \<Rightarrow> instance_res \<Rightarrow> power_state \<Rightarrow> 'w
   \<Rightarrow> go_error option \<times> instance_res \<times> 'w" where
  "persist_power_state h r ps w =
    (let st = (case in_status r of None \<Rightarrow> zero_instance_status | Some st \<Rightarrow> st);
         st1 = (if inst_power_state st \<noteq> ps \<or> inst_power_state_since st = None
                then st\<lparr>inst_power_state_since := Some (h_now h w)\<rparr> else st);
         r' = r\<lparr>in_status := Some (st1\<lparr>inst_power_state := ps\<rparr>)\<rparr> in
     case rp_update_status (h_repo h) r' w of
       (Inl err, w') \<Rightarrow> if errors_is err err_not_found then (None, r', w') else (Some err, r', w')
     | (Inr stored, w') \<Rightarrow> (None, r', w'))"

text \<open>\<^verbatim>\<open>&instancedom.Instance{}\<close> with the identity set.\<close>

definition zero_reference :: reference where
  "zero_reference = \<lparr>ref_provider = [], ref_region = [], ref_resource = [], ref_tenant = [], ref_workspace = []\<rparr>"

definition zero_instance_spec :: instance_spec where
  "zero_instance_spec = \<lparr>ins_additional_nic_refs = [], ins_anti_affinity_group = [],
     ins_boot_volume = \<lparr>vol_device_ref = zero_reference, vol_type = []\<rparr>, ins_data_volumes = [],
     ins_primary_nic_ref = None, ins_security_group_ref = None, ins_sku_ref = zero_reference,
     ins_ssh_keys = [], ins_user_data = [], ins_zone = []\<rparr>"

definition instance_named :: "string \<Rightarrow> string \<Rightarrow> string \<Rightarrow> instance_res" where
  "instance_named name tenant workspace =
    \<lparr>md_name = name, md_provider = [], md_version = [], md_created = 0, md_updated = 0, md_deleted = None,
     md_tenant = tenant, md_workspace = workspace, md_labels = [], md_annotations = [], md_extensions = [],
     md_region = [], in_spec = zero_instance_spec, in_status = None, in_desired_power_state = PowerUnset,
     in_restart_id = [], in_restart_phase = PhaseUnset\<rparr>"

definition update_restart_if_current ::
  "(instance_res, 'w, 'm) power_handler_scheme \<Rightarrow> instance_res \<Rightarrow> (instance_res \<Rightarrow> instance_res) \<Rightarrow> 'w
   \<Rightarrow> go_error option \<times> 'w" where
  "update_restart_if_current h r mutate w =
    (case rp_load (h_repo h) (instance_named (md_name r) (md_tenant r) (md_workspace r)) w of
       (Inl err, w1) \<Rightarrow> if errors_is err err_not_found then (None, w1) else (Some err, w1)
     | (Inr current, w1) \<Rightarrow>
         if in_restart_id current \<noteq> in_restart_id r then (None, w1)
         else (case rp_update (h_repo h) (mutate current) w1 of
             (Inl err, w2) \<Rightarrow> if errors_is err err_not_found then (None, w2) else (Some err, w2)
           | (Inr stored, w2) \<Rightarrow> (None, w2)))"

definition run_power_op ::
  "(instance_res, 'w, 'm) power_handler_scheme \<Rightarrow> instance_res \<Rightarrow> (instance_res, 'w) delegated
   \<Rightarrow> power_state \<Rightarrow> 'w \<Rightarrow> bool \<times> go_error option \<times> instance_res \<times> 'w" where
  "run_power_op h r op target w =
    (case op r w of
       (Some op_err, r1, w1) \<Rightarrow>
         if errors_is op_err (Sentinel ErrStillProcessing) then (False, None, r1, w1)
         else (False, record_power_error h r1 op_err w1)
     | (None, r1, w1) \<Rightarrow>
         (case persist_power_state h r1 target w1 of
            (Some err, r2, w2) \<Rightarrow> (False, Some err, r2, w2)
          | (None, r2, w2) \<Rightarrow> (True, None, r2, w2)))"

definition run_restart_power_off ::
  "(instance_res, 'w, 'm) power_handler_scheme \<Rightarrow> instance_res \<Rightarrow> 'w
   \<Rightarrow> go_error option \<times> instance_res \<times> 'w" where
  "run_restart_power_off h r w =
    (case run_power_op h r (h_power_off h) PowerOff w of
       (False, err, r1, w1) \<Rightarrow> (err, r1, w1)
     | (True, _, r1, w1) \<Rightarrow>
         (case update_restart_if_current h r1 (\<lambda>i. i\<lparr>in_restart_phase := PhasePowerOn\<rparr>) w1 of
            (err, w2) \<Rightarrow> (err, r1, w2)))"

definition run_restart_power_on ::
  "(instance_res, 'w, 'm) power_handler_scheme \<Rightarrow> instance_res \<Rightarrow> 'w
   \<Rightarrow> bool \<times> go_error option \<times> instance_res \<times> 'w" where
  "run_restart_power_on h r w =
    (case run_power_op h r (h_power_on h) PowerOn w of
       (False, err, r1, w1) \<Rightarrow> (True, err, r1, w1)
     | (True, _, r1, w1) \<Rightarrow>
         (case update_restart_if_current h r1
             (\<lambda>i. i\<lparr>in_restart_id := [], in_restart_phase := PhaseUnset\<rparr>) w1 of
            (Some err, w2) \<Rightarrow> (True, Some err, r1, w2)
          | (None, w2) \<Rightarrow> (False, None, r1, w2)))"

text \<open>The results are \<^verbatim>\<open>handled\<close>, \<^verbatim>\<open>requeue\<close> and \<^verbatim>\<open>err\<close>.\<close>

definition handle_power_reconcile ::
  "(instance_res, 'w, 'm) power_handler_scheme \<Rightarrow> instance_res \<Rightarrow> 'w
   \<Rightarrow> bool \<times> bool \<times> go_error option \<times> instance_res \<times> 'w" where
  "handle_power_reconcile h r w =
    (if validate_power_intent r \<noteq> [] then
       (True, True, record_power_condition h r ''InvalidPowerIntent'' (validate_power_intent r) w)
     else let power_state =
         (case in_status r of
            Some st \<Rightarrow> if inst_power_state st \<noteq> PowerUnset then inst_power_state st else PowerOff
          | None \<Rightarrow> PowerOff) in
     if in_restart_phase r = PhasePowerOff then (True, True, run_restart_power_off h r w)
     else if in_restart_phase r = PhasePowerOn then
       (case run_restart_power_on h r w of (rq, err, r1, w1) \<Rightarrow> (True, rq, err, r1, w1))
     else if in_desired_power_state r = PowerOn \<and> power_state = PowerOff then
       (case run_power_op h r (h_power_on h) PowerOn w of
          (finished, err, r1, w1) \<Rightarrow> (True, \<not> finished, err, r1, w1))
     else if in_desired_power_state r = PowerOff \<and> power_state = PowerOn then
       (case run_power_op h r (h_power_off h) PowerOff w of
          (finished, err, r1, w1) \<Rightarrow> (True, \<not> finished, err, r1, w1))
     else (False, False, None, r, w))"

definition instance_handle_reconcile ::
  "(instance_res, 'w, 'm) power_handler_scheme \<Rightarrow> instance_res \<Rightarrow> 'w \<Rightarrow> reconcile_result \<times> instance_res \<times> 'w" where
  "instance_handle_reconcile h r w =
    (if is_instance_active r then
       (case handle_power_reconcile h r w of
          (True, rq, err, r1, w1) \<Rightarrow> (Reconciled rq err, r1, w1)
        | (False, _, _, r1, w1) \<Rightarrow>
            handle_update (the_status instance_view) put_instance_status h r1 w1)
     else let delegate =
        (if is_instance_accepted r then Some bypass_delegated
         else if is_instance_pending r then Some bypass_delegated
         else if is_instance_creating r then Some (h_create h)
         else if want_instance_delete r then Some bypass_delegated
         else if is_instance_deleting r then Some (h_delete h)
         else if want_instance_retry_create r then Some bypass_delegated
         else None) in
     case delegate of
       None \<Rightarrow> (Reconciled False None, r, w)
     | Some op \<Rightarrow> (case op r w of
         (Some err, r1, w1) \<Rightarrow>
           if errors_is err (Sentinel ErrStillProcessing) then (Reconciled True None, r1, w1)
           else (case instance_set_resource_error_state h r1 err False w1 of
               (Reconciled rq (Some e), r2, w2) \<Rightarrow> (Reconciled rq (Some e), r2, w2)
             | (_, r2, w2) \<Rightarrow> (Reconciled True None, r2, w2))
       | (None, r1, w1) \<Rightarrow>
           if is_instance_accepted r1 then instance_set_resource_state h r1 StatePending False w1
           else if is_instance_pending r1 then instance_set_resource_state h r1 StateCreating True w1
           else if is_instance_creating r1 then instance_set_resource_state h r1 StateActive False w1
           else if want_instance_delete r1 then instance_set_resource_state h r1 StateDeleting True w1
           else if is_instance_deleting r1 then (Reconciled False None, r1, w1)
           else if want_instance_retry_create r1 then instance_set_resource_state h r1 StateCreating True w1
           else (ProcessExit, r1, w1)))"

lemma instance_switch:
  "(if is_instance_accepted r then a else if is_instance_pending r then b
    else if is_instance_creating r then c else if want_instance_delete r then d
    else if is_instance_deleting r then e else if want_instance_retry_create r then f else g) =
   (case arm_of (deleted_at r) (instance_view r) of
      ArmAccepted \<Rightarrow> a | ArmPending \<Rightarrow> b | ArmCreating \<Rightarrow> c | ArmWantDelete \<Rightarrow> d
    | ArmDeleting \<Rightarrow> e | ArmRetry \<Rightarrow> f | _ \<Rightarrow> g)"
  by (cases "in_status r"; cases "md_deleted r")
     (auto simp: handler_defs instance_view_def deleted_at_def arm_of_def failed_while_def
       split: resource_state.splits)

lemma is_instance_active_arm:
  "is_instance_active r \<longleftrightarrow> arm_of (deleted_at r) (instance_view r) = ArmActive"
  by (cases "in_status r") (auto simp: is_instance_active_def instance_view_def deleted_at_def arm_of_iff)

lemma instance_set_state_eq:
  "instance_set_resource_state h r s rq w = settle_state instance_view put_instance_status h s rq r w"
  by (cases "in_status r")
     (simp_all add: instance_set_resource_state_def settle_state_def settle_def Let_def put_instance_status_def
       instance_view_def the_status_def zero_instance_status_def split: prod.split sum.split)

lemma instance_set_error_eq:
  "instance_set_resource_error_state h r err rq w =
     settle instance_view put_instance_status h (condition_from_error (h_now h w) err) rq r w"
  by (cases "in_status r")
     (simp_all add: instance_set_resource_error_state_def settle_def Let_def put_instance_status_def
       instance_view_def the_status_def zero_instance_status_def split: prod.split sum.split)

subsection \<open>The handler on the arms of the switch\<close>

definition active_instance where
  "active_instance h r w =
    (case handle_power_reconcile h r w of
       (True, rq, err, r1, w1) \<Rightarrow> (Reconciled rq err, r1, w1)
     | (False, _, _, r1, w1) \<Rightarrow> handle_update (the_status instance_view) put_instance_status h r1 w1)"

lemma instance_reconcile_shape:
  "instance_handle_reconcile h r w =
   pass_shape deleted_at instance_view put_instance_status (active_instance h)
     (after_delegate deleted_at instance_view put_instance_status h) h r w"
  unfolding instance_handle_reconcile_def instance_switch instance_set_state_eq instance_set_error_eq
    is_instance_active_arm pass_shape_def settle_failure_def after_delegate_def active_instance_def
  by (cases "arm_of (deleted_at r) (instance_view r)")
     (simp_all only: arm.case arm.distinct option.case refl simp_thms Let_def if_True if_False delegate_of_def)

definition instance_tame :: "(instance_res, 'w, 'm) power_handler_scheme \<Rightarrow> bool" where
  "instance_tame h \<longleftrightarrow> quiet_plugin deleted_at instance_view h \<and>
     quiet deleted_at instance_view (h_power_on h) \<and> quiet deleted_at instance_view (h_power_off h)"

lemma instance_reconcile_shared:
  assumes "instance_tame h" and "arm_of (deleted_at r) (instance_view r) \<noteq> ArmActive"
  shows "instance_handle_reconcile h r w = lifecycle deleted_at instance_view put_instance_status h r w"
  unfolding instance_reconcile_shape lifecycle_shape
  using assms by (intro pass_shape_agree) (simp_all add: instance_tame_def)

text \<open>Power management leaves an active instance active: what a resource keeps through it.\<close>

definition stays_active :: "instance_res \<Rightarrow> instance_res \<Rightarrow> bool" where
  "stays_active r r' \<longleftrightarrow> deleted_at r' = deleted_at r \<and>
     (\<exists>st st'. instance_view r = Some st \<and> instance_view r' = Some st' \<and>
        st_state st' = st_state st \<and> (status_ok st \<longrightarrow> status_ok st'))"

lemma stays_active_quiet:
  "instance_view r = Some st \<Longrightarrow> quiet deleted_at instance_view op \<Longrightarrow> op r w = (e, r1, w1) \<Longrightarrow>
   stays_active r r1"
  by (auto simp: stays_active_def dest: quietD)

lemma stays_active_trans: "stays_active r r1 \<Longrightarrow> stays_active r1 r2 \<Longrightarrow> stays_active r r2"
  by (auto simp: stays_active_def)

lemma persist_power_stays:
  "persist_power_state h r ps w = (e, r', w') \<Longrightarrow> instance_view r = Some st \<Longrightarrow>
   instance_view r' = Some st \<and> deleted_at r' = deleted_at r"
  by (cases "in_status r")
     (auto simp: persist_power_state_def Let_def instance_view_def deleted_at_def
       split: prod.splits sum.splits if_splits)

lemma record_power_stays:
  assumes "record_power_condition h r reason msg w = (e, r', w')" and "instance_view r = Some st"
  shows "stays_active r r'"
proof -
  obtain s where s: "in_status r = Some s" "st = inst_status s"
    using assms(2) by (auto simp: instance_view_def)
  let ?c = "\<lparr>c_last = 0, c_message = msg, c_reason = reason, c_state = st_state st,
    c_type = ''PowerManagementError'', c_occurrences = 0\<rparr>"
  let ?st = "trim_conditions (h_max_conditions h) (pushed (h_now h w) ?c st)"
  have "instance_view r' = Some ?st \<and> deleted_at r' = deleted_at r"
    using assms(1) s
    by (auto simp: record_power_condition_def Let_def instance_view_def deleted_at_def
        split: prod.splits sum.splits if_splits)
  moreover have "st_state ?st = st_state st" by (simp add: st_state_pushed_same)
  moreover have "status_ok ?st" by (simp add: status_ok_trim status_ok_pushed_same)
  ultimately show ?thesis using assms(2) by (auto simp: stays_active_def)
qed

lemma run_power_op_stays:
  assumes "run_power_op h r op target w = (fin, e, r', w')" and v: "instance_view r = Some st"
    and q: "quiet deleted_at instance_view op"
  shows "stays_active r r'"
proof -
  obtain e1 r1 w1 where op: "op r w = (e1, r1, w1)" by (metis prod_cases3)
  have s1: "stays_active r r1" by (rule stays_active_quiet [OF v q op])
  have v1: "instance_view r1 = Some st" using quietD(2) [OF q op] v by simp
  show ?thesis
  proof (cases e1)
    case (Some err)
    with assms(1) op have "r' = r1 \<or> (\<exists>e2 w2. record_power_condition h r1 ''PowerOperationFailed''
        (error_text err) w1 = (e2, r', w2))"
      by (auto simp: run_power_op_def record_power_error_def split: if_splits prod.splits option.splits)
    then show ?thesis
    proof (elim disjE exE)
      fix e2 w2
      assume "record_power_condition h r1 ''PowerOperationFailed'' (error_text err) w1 = (e2, r', w2)"
      from stays_active_trans [OF s1 record_power_stays [OF this v1]] show ?thesis .
    qed (simp add: s1)
  next
    case None
    with assms(1) op obtain e2 w2 where "persist_power_state h r1 target w1 = (e2, r', w2)"
      by (auto simp: run_power_op_def split: prod.splits option.splits)
    from persist_power_stays [OF this v1] v quietD(1) [OF q op] show ?thesis
      by (auto simp: stays_active_def)
  qed
qed

lemma power_stays:
  assumes p: "handle_power_reconcile h r w = (hnd, rq, e, r', w')" and v: "instance_view r = Some st"
    and t: "instance_tame h"
  shows "stays_active r r'"
proof -
  have refl: "stays_active r r" using v by (simp add: stays_active_def)
  have on: "stays_active r r1"
    if "run_power_op h r (h_power_on h) PowerOn w = (fin, e1, r1, w1)" for fin e1 r1 w1
    by (rule run_power_op_stays [OF that v]) (use t in \<open>simp add: instance_tame_def\<close>)
  have off: "stays_active r r1"
    if "run_power_op h r (h_power_off h) PowerOff w = (fin, e1, r1, w1)" for fin e1 r1 w1
    by (rule run_power_op_stays [OF that v]) (use t in \<open>simp add: instance_tame_def\<close>)
  consider (invalid) "record_power_condition h r ''InvalidPowerIntent'' (validate_power_intent r) w = (e, r', w')"
    | (off) e1 w1 where "run_restart_power_off h r w = (e1, r', w1)"
    | (on) rq1 e1 w1 where "run_restart_power_on h r w = (rq1, e1, r', w1)"
    | (op_on) fin e1 w1 where "run_power_op h r (h_power_on h) PowerOn w = (fin, e1, r', w1)"
    | (op_off) fin e1 w1 where "run_power_op h r (h_power_off h) PowerOff w = (fin, e1, r', w1)"
    | (none) "r' = r"
    using p by (auto simp: handle_power_reconcile_def Let_def split: if_splits prod.splits)
  then show ?thesis
  proof cases
    case invalid
    then show ?thesis by (rule record_power_stays [OF _ v])
  next
    case off
    then obtain fin e1 w1 where "run_power_op h r (h_power_off h) PowerOff w = (fin, e1, r', w1)"
      by (auto simp: run_restart_power_off_def split: prod.splits bool.splits)
    then show ?thesis by (rule \<open>\<And>fin e1 r1 w1. run_power_op h r (h_power_off h) PowerOff w = (fin, e1, r1, w1) \<Longrightarrow> stays_active r r1\<close>)
  next
    case on
    then obtain fin e1 w1 where "run_power_op h r (h_power_on h) PowerOn w = (fin, e1, r', w1)"
      by (auto simp: run_restart_power_on_def split: prod.splits bool.splits option.splits)
    then show ?thesis by (rule \<open>\<And>fin e1 r1 w1. run_power_op h r (h_power_on h) PowerOn w = (fin, e1, r1, w1) \<Longrightarrow> stays_active r r1\<close>)
  qed (use refl \<open>\<And>fin e1 r1 w1. run_power_op h r (h_power_off h) PowerOff w = (fin, e1, r1, w1) \<Longrightarrow> stays_active r r1\<close>
      \<open>\<And>fin e1 r1 w1. run_power_op h r (h_power_on h) PowerOn w = (fin, e1, r1, w1) \<Longrightarrow> stays_active r r1\<close> in auto)
qed

lemma active_instance_pass_ok:
  assumes t: "instance_tame h" and a: "arm_of (deleted_at r) (instance_view r) = ArmActive"
    and ok: "view_ok (instance_view r)" and s: "active_instance h r w = (res, r', w')"
  shows "pass_ok deleted_at instance_view r res r'"
proof -
  obtain st where st: "instance_view r = Some st" "\<not> deleted_at r" "st_state st = StateActive"
    using a by (cases "instance_view r") (auto simp: arm_of_iff)
  obtain hnd rq e r1 w1 where p: "handle_power_reconcile h r w = (hnd, rq, e, r1, w1)"
    by (metis prod_cases5)
  from power_stays [OF p st(1) t] st ok obtain st1 where
    st1: "instance_view r1 = Some st1" "st_state st1 = StateActive" "status_ok st1" "\<not> deleted_at r1"
    by (auto simp: stays_active_def)
  show ?thesis
  proof (cases hnd)
    case True
    with s p st st1 show ?thesis by (auto simp: active_instance_def pass_ok_def)
  next
    case False
    with s p have u: "handle_update (the_status instance_view) put_instance_status h r1 w1 = (res, r', w')"
      by (simp add: active_instance_def)
    obtain e2 r2 w2 where h: "h_update h r1 w1 = (e2, r2, w2)" by (metis prod_cases3)
    with t have "deleted_at r2 = deleted_at r1" "instance_view r2 = instance_view r1"
      by (auto simp: instance_tame_def quiet_plugin_def dest: quietD)
    with instance_status.handle_update_view [OF h u] st st1 show ?thesis by (simp add: pass_ok_def)
  qed
qed

interpretation vm: shared_arms deleted_at instance_view put_instance_status instance_tame
    instance_handle_reconcile "\<lambda>a. a = ArmActive"
proof unfold_locales
  fix h :: "(instance_res, 'w, 'm) power_handler_scheme" and r :: instance_res and w res r' w'
  show "instance_tame h \<Longrightarrow> quiet_plugin deleted_at instance_view h" by (simp add: instance_tame_def)
  show "instance_tame h \<Longrightarrow> \<not> arm_of (deleted_at r) (instance_view r) = ArmActive \<Longrightarrow>
    instance_handle_reconcile h r w = lifecycle deleted_at instance_view put_instance_status h r w"
    by (rule instance_reconcile_shared)
  show "instance_tame h \<Longrightarrow> arm_of (deleted_at r) (instance_view r) = ArmActive \<Longrightarrow>
    view_ok (instance_view r) \<Longrightarrow> instance_handle_reconcile h r w = (res, r', w') \<Longrightarrow>
    pass_ok deleted_at instance_view r res r'"
    by (rule active_instance_pass_ok) (simp_all add: instance_reconcile_shape pass_shape_def)
qed

end
