(* ===== verification/Handler_Properties.thy ===== *)
theory Handler_Properties
  imports Workspace_Handler Network_Handlers Network_Edge_Handlers Authorization_Handlers
    Block_Storage_Handler Instance_Handler
begin

section \<open>Correctness of the plugin handlers\<close>

text \<open>
  The properties of the fourteen plugin handlers, from the interfaces they interpret. Each states
  one promise for every handler that makes it. The promises are the definitions below, over a
  handler's view of its resource; a witness runs a handler on a small world, in which the plugin
  has some work left to do and every status write succeeds.
\<close>

definition runs_lifecycle ::
  "('r \<Rightarrow> bool) \<Rightarrow> ('r \<Rightarrow> status option) \<Rightarrow> (status \<Rightarrow> 'r \<Rightarrow> 'r)
   \<Rightarrow> (('r, 'w) plugin_handler \<Rightarrow> 'r \<Rightarrow> 'w \<Rightarrow> reconcile_result \<times> 'r \<times> 'w) \<Rightarrow> bool" where
  "runs_lifecycle deleted status_of put reconcile \<longleftrightarrow>
     (\<forall>h r w. reconcile h r w = lifecycle deleted status_of put h r w)"

definition refines_machine ::
  "(('r, 'w, 'm) plugin_handler_scheme \<Rightarrow> bool) \<Rightarrow> ('r \<Rightarrow> bool) \<Rightarrow> ('r \<Rightarrow> status option)
   \<Rightarrow> (('r, 'w, 'm) plugin_handler_scheme \<Rightarrow> 'r \<Rightarrow> 'w \<Rightarrow> reconcile_result \<times> 'r \<times> 'w) \<Rightarrow> bool" where
  "refines_machine tame deleted status_of reconcile \<longleftrightarrow>
     (\<forall>h r w res r' w'. tame h \<longrightarrow> view_ok (status_of r) \<longrightarrow> reconcile h r w = (res, r', w') \<longrightarrow>
        res \<noteq> ProcessExit \<and> deleted r' = deleted r \<and> view_ok (status_of r')
        \<and> lc_move (deleted r) (phase_of (status_of r)) (phase_of (status_of r')))"

definition stays_dead ::
  "(('r, 'w, 'm) plugin_handler_scheme \<Rightarrow> bool) \<Rightarrow> ('r \<Rightarrow> bool) \<Rightarrow> ('r \<Rightarrow> status option)
   \<Rightarrow> (('r, 'w, 'm) plugin_handler_scheme \<Rightarrow> 'r \<Rightarrow> 'w \<Rightarrow> reconcile_result \<times> 'r \<times> 'w) \<Rightarrow> bool" where
  "stays_dead tame deleted status_of reconcile \<longleftrightarrow>
     (\<forall>h r w n r' w'. tame h \<longrightarrow> view_ok (status_of r) \<longrightarrow> deleted r \<longrightarrow> \<not> alive (phase_of (status_of r)) \<longrightarrow>
        passes (reconcile h) n r w = (r', w') \<longrightarrow> deleted r' \<and> \<not> alive (phase_of
      (status_of r')))"

definition active_by_creation ::
  "(('r, 'w, 'm) plugin_handler_scheme \<Rightarrow> bool) \<Rightarrow> ('r \<Rightarrow> status option)
   \<Rightarrow> (('r, 'w, 'm) plugin_handler_scheme \<Rightarrow> 'r \<Rightarrow> 'w \<Rightarrow> reconcile_result \<times> 'r \<times> 'w) \<Rightarrow> bool" where
  "active_by_creation tame status_of reconcile \<longleftrightarrow>
     (\<forall>h r w res r' w'. tame h \<longrightarrow> view_ok (status_of r) \<longrightarrow> reconcile h r w = (res, r', w') \<longrightarrow>
        phase_of (status_of r') = Phase StateActive \<longrightarrow> phase_of (status_of r) \<noteq> Phase
      StateActive \<longrightarrow>
        phase_of (status_of r) = Phase StateCreating \<and> (\<exists>r1 w1. h_create h r w = (None, r1, w1)))"

definition provisions ::
  "('r \<Rightarrow> bool) \<Rightarrow> ('r \<Rightarrow> status option)
   \<Rightarrow> (('r, 'w) plugin_handler \<Rightarrow> 'r \<Rightarrow> 'w \<Rightarrow> reconcile_result \<times> 'r \<times> 'w) \<Rightarrow> bool" where
  "provisions deleted status_of reconcile \<longleftrightarrow>
     (\<forall>h m r w. quiet_plugin deleted status_of h \<longrightarrow> roomy h \<longrightarrow> stores m (h_repo h) \<longrightarrow> progresses m (h_create h) \<longrightarrow>
        \<not> deleted r \<longrightarrow> provisioning (status_of r) \<longrightarrow>
        (\<exists>n \<le> 4 * m w + 4. phase_of (status_of (fst (passes (reconcile h) n r w))) = Phase StateActive))"

definition deprovisions ::
  "('r \<Rightarrow> bool) \<Rightarrow> ('r \<Rightarrow> status option)
   \<Rightarrow> (('r, 'w) plugin_handler \<Rightarrow> 'r \<Rightarrow> 'w \<Rightarrow> reconcile_result \<times> 'r \<times> 'w) \<Rightarrow> bool" where
  "deprovisions deleted status_of reconcile \<longleftrightarrow>
     (\<forall>h m r w. quiet_plugin deleted status_of h \<longrightarrow> stores m (h_repo h) \<longrightarrow> progresses m (h_delete h) \<longrightarrow>
        deleted r \<longrightarrow> view_ok (status_of r) \<longrightarrow>
        (\<exists>n \<le> 4 * m w + 4. \<exists>r' w'. passes (reconcile h) n r w = (r', w')
           \<and> phase_of (status_of r') = Phase StateDeleting \<and> fst (h_delete h r' w') = None
           \<and> fst (reconcile h r' w') = Reconciled False None))"

definition bounds_conditions ::
  "('r \<Rightarrow> bool) \<Rightarrow> ('r \<Rightarrow> status option)
   \<Rightarrow> (('r, 'w) plugin_handler \<Rightarrow> 'r \<Rightarrow> 'w \<Rightarrow> reconcile_result \<times> 'r \<times> 'w) \<Rightarrow> bool" where
  "bounds_conditions deleted status_of reconcile \<longleftrightarrow>
     (\<forall>h r w res r' w'. quiet_plugin deleted status_of h \<longrightarrow> 0 < h_max_conditions h \<longrightarrow>
        int (length (st_conditions (the_status status_of r))) \<le> h_max_conditions h \<longrightarrow>
        reconcile h r w = (res, r', w') \<longrightarrow>
        int (length (st_conditions (the_status status_of r'))) \<le> h_max_conditions h)"

text \<open>
  What an update of an active resource may come to, from the status \<open>st\<close> it found, the update's error
  and the resource and world the update left: a success retracts every update failure and writes only
  if there is one to retract; an update in progress writes nothing and comes again; a failure is the
  newest condition and is written only when it was not the newest already, and comes again unless
  the provider does not support it.
\<close>

definition untyped :: "string \<Rightarrow> status \<Rightarrow> bool" where
  "untyped t st \<longleftrightarrow> (\<forall>c \<in> set (st_conditions st). c_type c \<noteq> t)"

definition updated where
  "updated st (h :: ('r, 'w, 'm) plugin_handler_scheme) e (r1 :: 'r) (w1 :: 'w) res st' r' w' \<longleftrightarrow>
    (case e of
       None \<Rightarrow> untyped update_failed_condition_type st'
         \<and> (untyped update_failed_condition_type st \<longrightarrow> res = Reconciled False None \<and>
      r' = r1 \<and> w' = w1)
     | Some err \<Rightarrow>
         if errors_is err (Sentinel ErrStillProcessing) then res = Reconciled True None \<and> r' = r1 \<and> w' = w1
         else (\<exists>e'. res = Reconciled (\<not> errors_is err (Sentinel ErrNotSupported)) e')
           \<and> (\<exists>c cs. st_conditions st' = c # cs
                \<and> equal_status_conditions c (update_failed_condition 0 StateActive (error_text err)))
           \<and> (\<forall>c cs. st_conditions st = c # cs \<longrightarrow>
                equal_status_conditions c (update_failed_condition 0 StateActive (error_text err)) \<longrightarrow>
                r' = r1 \<and> w' = w1))"

definition updates_in_place ::
  "('r \<Rightarrow> bool) \<Rightarrow> ('r \<Rightarrow> status option)
   \<Rightarrow> (('r, 'w, 'm) plugin_handler_scheme \<Rightarrow> 'r \<Rightarrow> 'w \<Rightarrow> reconcile_result \<times> 'r \<times> 'w) \<Rightarrow> bool" where
  "updates_in_place deleted status_of reconcile \<longleftrightarrow>
     (\<forall>h r w st e r1 w1 res r' w'. quiet_plugin deleted status_of h \<longrightarrow> \<not> deleted r \<longrightarrow>
        status_of r = Some st \<longrightarrow> st_state st = StateActive \<longrightarrow> h_update h r w =
      (e, r1, w1) \<longrightarrow>
        reconcile h r w = (res, r', w') \<longrightarrow>
        phase_of (status_of r') = Phase StateActive \<and> updated st h e r1 w1 res (the_status status_of r') r' w')"

subsection \<open>The promises follow from the interfaces\<close>

context reconciler begin

lemma machine: "refines_machine tame deleted status_of reconcile"
  unfolding refines_machine_def using never_exits refines_lifecycle by (metis fst_conv)

lemma dead: "stays_dead tame deleted status_of reconcile"
  unfolding stays_dead_def using marked_never_revives by blast

end

context shared_arms begin

lemma creation:
  assumes "\<not> own ArmCreating" and "\<not> own ArmIdle"
  shows "active_by_creation tame status_of reconcile"
  unfolding active_by_creation_def using active_by_create [OF _ assms] by blast

end

context plain_reconciler begin

lemma active_updates:
  assumes q: "quiet_plugin deleted status_of h" and nd: "\<not> deleted r"
    and st: "status_of r = Some st" "st_state st = StateActive"
    and u: "h_update h r w = (e, r1, w1)" and f: "reconcile h r w = (res, r', w')"
  shows "phase_of (status_of r') = Phase StateActive \<and> updated st h e r1 w1 res (the_status status_of r') r' w'"
proof -
  have run: "handle_update (the_status status_of) put_status h r w = (res, r', w')"
    using f nd st by (simp add: reconcile_eq lifecycle_def arm_of_def)
  have same: "status_of r1 = Some st"
    using q u st(1) by (metis quiet_plugin_def quietD(2))
  then have get: "the_status status_of r1 = st" by (simp add: the_status_def)
  have kept: "status_of r' \<noteq> None"
    using run u same
    by (auto simp: handle_update_def clear_update_failure_def record_update_failure_def Let_def
        split: option.splits if_splits prod.splits)
  have "st_state (the_status status_of r') = StateActive"
    using pointer.update_keeps_active [OF u _ run] get st(2) by simp
  then have "phase_of (status_of r') = Phase StateActive"
    using kept by (auto simp: the_status_def)
  moreover have "updated st h e r1 w1 res (the_status status_of r') r' w'"
  proof (cases e)
    case None
    then show ?thesis
      using pointer.success_retracts [OF u [unfolded None] run]
        pointer.clean_success_silent [OF u [unfolded None]] run get
      by (auto simp: updated_def untyped_def)
  next
    case (Some err)
    show ?thesis
    proof (cases "errors_is err (Sentinel ErrStillProcessing)")
      case True
      with run u Some show ?thesis by (simp add: updated_def handle_update_def)
    next
      case False
      obtain c cs where head: "st_conditions (the_status status_of r') = c # cs"
        "equal_status_conditions c (update_failed_condition 0 StateActive (error_text err))"
        using pointer.recorded_failure_at_head [OF u [unfolded Some] False run] by blast
      have "r' = r1 \<and> w' = w1"
        if "st_conditions st = c # cs"
          "equal_status_conditions c (update_failed_condition 0 StateActive (error_text err))" for c cs
        using pointer.stable_failure_silent [OF u [unfolded Some] False _ that(2)] get that(1) run by simp
      moreover have "\<exists>e. res = Reconciled (\<not> errors_is err (Sentinel ErrNotSupported)) e"
        using run u Some False by (auto simp: handle_update_def split: prod.splits)
      ultimately show ?thesis
        using head Some False by (auto simp: updated_def)
    qed
  qed
  ultimately show ?thesis ..
qed

lemma updating: "updates_in_place deleted status_of reconcile"
  unfolding updates_in_place_def using active_updates by blast

end

subsection \<open>The properties\<close>

text \<open>A plugin with \<open>w\<close> failures to come, and a repository that stores every status.\<close>

definition demo_op :: "('r, nat) delegated" where
  "demo_op r w = (if w = 0 then (None, r, 0)
     else (Some (if even w then Sentinel ErrStillProcessing else GoError ''boom''), r, w - 1))"

definition demo_handler :: "('r, nat) plugin_handler" where
  "demo_handler = \<lparr>
     h_repo = \<lparr>rp_create = (\<lambda>r w. (Inr r, w)), rp_update = (\<lambda>r w. (Inr r, w)),
       rp_update_status = (\<lambda>r w. (Inr r, w)), rp_delete = (\<lambda>r w. (None, w)), rp_load =
      (\<lambda>r w. (Inr r, w)),
       rp_list = (\<lambda>params w. (Inr ([], None), w))\<rparr>,
     h_create = demo_op, h_update = demo_op, h_delete = demo_op, h_max_conditions = 3, h_now = (\<lambda>w. 0)\<rparr>"

definition demo_workspace :: "time option \<Rightarrow> workspace" where
  "demo_workspace deleted = \<lparr>md_name = ''ws'', md_provider = ''p'', md_version = [], md_created = 0,
     md_updated = 0, md_deleted = deleted, md_tenant = ''t'', md_workspace = [], md_labels = [],
     md_annotations = [], md_extensions = [], md_region = ''eu'', ws_spec = [], ws_status = None\<rparr>"

lemma demo_tame: "quiet_plugin deleted status_of demo_handler"
  by (simp add: quiet_plugin_def quiet_def demo_handler_def demo_op_def)

lemma demo_stores: "stores (\<lambda>w. w) (h_repo demo_handler)"
  by (simp add: stores_def demo_handler_def)

lemma demo_progresses:
  "progresses (\<lambda>w. w) (h_create demo_handler)" "progresses (\<lambda>w. w) (h_delete demo_handler)"
  by (auto simp: progresses_def demo_handler_def demo_op_def split: if_splits)

lemma demo_workspace_view [simp]:
  "workspace_view (demo_workspace d) = None" "deleted_at (demo_workspace d) \<longleftrightarrow> d \<noteq> None"
  by (simp_all add: demo_workspace_def workspace_view_def deleted_at_def)

text \<open>
  C1. Eleven handlers run the reference lifecycle. The reconcile pass of the workspace, network,
  internet gateway, subnet, route table, nic, public IP, security group, security group rule, role and
  role assignment handlers is, on every input, the pass of the reference definition: the first
  switch picks the delegated operation, its failure is recorded, and the second switch makes the
  transition.
\<close>

theorem plain_handlers_run_the_lifecycle:
  "runs_lifecycle deleted_at workspace_view put_workspace_status workspace_handle_reconcile \<and>
     runs_lifecycle deleted_at network_view put_network_status network_handle_reconcile \<and>
     runs_lifecycle deleted_at internet_gateway_view put_internet_gateway_status internet_gateway_handle_reconcile \<and>
     runs_lifecycle deleted_at subnet_view put_subnet_status subnet_handle_reconcile \<and>
     runs_lifecycle deleted_at route_table_view put_route_table_status route_table_handle_reconcile \<and>
     runs_lifecycle deleted_at nic_view put_nic_status nic_handle_reconcile \<and>
     runs_lifecycle deleted_at public_ip_view put_public_ip_status public_ip_handle_reconcile \<and>
     runs_lifecycle deleted_at security_group_view put_security_group_status security_group_handle_reconcile \<and>
     runs_lifecycle deleted_at security_group_rule_view put_security_group_rule_status security_group_rule_handle_reconcile \<and>
     runs_lifecycle deleted_at role_view put_role_status role_handle_reconcile \<and>
     runs_lifecycle deleted_at role_assignment_view put_role_assignment_status role_assignment_handle_reconcile"
  unfolding runs_lifecycle_def
  by (simp add: workspace_reconcile_eq network_reconcile_eq internet_gateway_reconcile_eq subnet_reconcile_eq route_table_reconcile_eq
      nic_reconcile_eq
      public_ip_reconcile_eq security_group_reconcile_eq security_group_rule_reconcile_eq role_reconcile_eq
      role_assignment_reconcile_eq)

text \<open>
  C2. Every handler refines the lifecycle machine. A pass of any of the fourteen handlers, whose
  plugin leaves mark and status to it, returns (it never ends the process), keeps the deletion mark
  and a status whose state is that of its newest condition, and makes no step or one step of the
  machine.
\<close>

theorem handlers_refine_the_machine:
  "refines_machine (quiet_plugin deleted_at workspace_view) deleted_at workspace_view workspace_handle_reconcile \<and>
     refines_machine (quiet_plugin deleted_at network_view) deleted_at network_view network_handle_reconcile \<and>
     refines_machine (quiet_plugin deleted_at internet_gateway_view) deleted_at internet_gateway_view internet_gateway_handle_reconcile \<and>
     refines_machine (quiet_plugin deleted_at subnet_view) deleted_at subnet_view subnet_handle_reconcile \<and>
     refines_machine (quiet_plugin deleted_at route_table_view) deleted_at route_table_view route_table_handle_reconcile \<and>
     refines_machine (quiet_plugin deleted_at nic_view) deleted_at nic_view nic_handle_reconcile \<and>
     refines_machine (quiet_plugin deleted_at public_ip_view) deleted_at public_ip_view public_ip_handle_reconcile \<and>
     refines_machine (quiet_plugin deleted_at security_group_view) deleted_at security_group_view security_group_handle_reconcile \<and>
     refines_machine (quiet_plugin deleted_at security_group_rule_view) deleted_at security_group_rule_view security_group_rule_handle_reconcile \<and>
     refines_machine (quiet_plugin deleted_at role_view) deleted_at role_view role_handle_reconcile \<and>
     refines_machine (quiet_plugin deleted_at role_assignment_view) deleted_at role_assignment_view role_assignment_handle_reconcile \<and>
     refines_machine image_tame deleted_at image_view image_handle_reconcile \<and>
     refines_machine block_storage_tame deleted_at block_storage_view block_storage_handle_reconcile \<and>
     refines_machine instance_tame deleted_at instance_view instance_handle_reconcile"
  by (intro conjI) (rule workspace.machine network.machine internet_gateway.machine subnet.machine
      route_table.machine nic.machine public_ip.machine security_group.machine security_group_rule.machine
      role.machine role_assignment.machine image.machine block_storage.machine vm.machine)+

lemma handlers_refine_the_machine_witness:
  "fst (workspace_handle_reconcile demo_handler (demo_workspace None) 3) \<noteq> ProcessExit"
proof -
  have "refines_machine (quiet_plugin deleted_at workspace_view) deleted_at workspace_view
      (workspace_handle_reconcile :: (workspace, nat) plugin_handler \<Rightarrow> _)"
    using handlers_refine_the_machine by blast
  then show ?thesis
    using demo_tame unfolding refines_machine_def by (metis demo_workspace_view(1) prod.collapse view_ok_simps(1))
qed

text \<open>
  C3. Deletion is final. Once a resource is marked for deletion and not in creating, active or
  updating, no number of passes of its handler brings it to one of those states or takes the mark
  away.
\<close>

theorem deletion_is_final:
  "stays_dead (quiet_plugin deleted_at workspace_view) deleted_at workspace_view workspace_handle_reconcile \<and>
     stays_dead (quiet_plugin deleted_at network_view) deleted_at network_view network_handle_reconcile \<and>
     stays_dead (quiet_plugin deleted_at internet_gateway_view) deleted_at internet_gateway_view internet_gateway_handle_reconcile \<and>
     stays_dead (quiet_plugin deleted_at subnet_view) deleted_at subnet_view subnet_handle_reconcile \<and>
     stays_dead (quiet_plugin deleted_at route_table_view) deleted_at route_table_view route_table_handle_reconcile \<and>
     stays_dead (quiet_plugin deleted_at nic_view) deleted_at nic_view nic_handle_reconcile \<and>
     stays_dead (quiet_plugin deleted_at public_ip_view) deleted_at public_ip_view public_ip_handle_reconcile \<and>
     stays_dead (quiet_plugin deleted_at security_group_view) deleted_at security_group_view security_group_handle_reconcile \<and>
     stays_dead (quiet_plugin deleted_at security_group_rule_view) deleted_at security_group_rule_view security_group_rule_handle_reconcile \<and>
     stays_dead (quiet_plugin deleted_at role_view) deleted_at role_view role_handle_reconcile \<and>
     stays_dead (quiet_plugin deleted_at role_assignment_view) deleted_at role_assignment_view role_assignment_handle_reconcile \<and>
     stays_dead image_tame deleted_at image_view image_handle_reconcile \<and>
     stays_dead block_storage_tame deleted_at block_storage_view block_storage_handle_reconcile \<and>
     stays_dead instance_tame deleted_at instance_view instance_handle_reconcile"
  by (intro conjI) (rule workspace.dead network.dead internet_gateway.dead subnet.dead route_table.dead
      nic.dead public_ip.dead security_group.dead security_group_rule.dead role.dead role_assignment.dead
      image.dead block_storage.dead vm.dead)+

lemma deletion_is_final_witness:
  "\<not> alive (phase_of (workspace_view
     (fst (passes (workspace_handle_reconcile demo_handler) 7 (demo_workspace (Some 1)) 3))))"
proof -
  have "stays_dead (quiet_plugin deleted_at workspace_view) deleted_at workspace_view
      (workspace_handle_reconcile :: (workspace, nat) plugin_handler \<Rightarrow> _)"
    using deletion_is_final by blast
  moreover have "\<not> alive Accepted" by (simp add: alive_def)
  ultimately show ?thesis
    using demo_tame unfolding stays_dead_def
    by (metis demo_workspace_view option.distinct(1) phase_of_simps(1) prod.collapse view_ok_simps(1))
qed

text \<open>
  C4. Nothing becomes active without being created. A pass that takes a resource to active found it
  creating and the plugin's Create had just returned without error; true of every handler but the
  one of block storages, which also reaches active at the end of a resize.
\<close>

theorem active_only_after_create:
  "active_by_creation (quiet_plugin deleted_at workspace_view) workspace_view workspace_handle_reconcile \<and>
     active_by_creation (quiet_plugin deleted_at network_view) network_view network_handle_reconcile \<and>
     active_by_creation (quiet_plugin deleted_at internet_gateway_view) internet_gateway_view internet_gateway_handle_reconcile \<and>
     active_by_creation (quiet_plugin deleted_at subnet_view) subnet_view subnet_handle_reconcile \<and>
     active_by_creation (quiet_plugin deleted_at route_table_view) route_table_view route_table_handle_reconcile \<and>
     active_by_creation (quiet_plugin deleted_at nic_view) nic_view nic_handle_reconcile \<and>
     active_by_creation (quiet_plugin deleted_at public_ip_view) public_ip_view public_ip_handle_reconcile \<and>
     active_by_creation (quiet_plugin deleted_at security_group_view) security_group_view security_group_handle_reconcile \<and>
     active_by_creation (quiet_plugin deleted_at security_group_rule_view) security_group_rule_view security_group_rule_handle_reconcile \<and>
     active_by_creation (quiet_plugin deleted_at role_view) role_view role_handle_reconcile \<and>
     active_by_creation (quiet_plugin deleted_at role_assignment_view) role_assignment_view role_assignment_handle_reconcile \<and>
     active_by_creation image_tame image_view image_handle_reconcile \<and>
     active_by_creation instance_tame instance_view instance_handle_reconcile"
  by (intro conjI) (rule workspace.creation network.creation internet_gateway.creation subnet.creation
      route_table.creation nic.creation public_ip.creation security_group.creation security_group_rule.creation
      role.creation role_assignment.creation image.creation vm.creation; simp)+

text \<open>
  C5. Provisioning ends. When every failed or unfinished Create brings the provider closer to success,
  status writes succeed and the limit keeps two conditions, a new, pending, creating or retried
  resource is active after at most 4 m + 4 passes, m the work left; this bound covers the error and
  retry passes in between.
\<close>

theorem provisioning_ends:
  "provisions deleted_at workspace_view workspace_handle_reconcile \<and>
     provisions deleted_at network_view network_handle_reconcile \<and>
     provisions deleted_at internet_gateway_view internet_gateway_handle_reconcile \<and>
     provisions deleted_at subnet_view subnet_handle_reconcile \<and>
     provisions deleted_at route_table_view route_table_handle_reconcile \<and>
     provisions deleted_at nic_view nic_handle_reconcile \<and>
     provisions deleted_at public_ip_view public_ip_handle_reconcile \<and>
     provisions deleted_at security_group_view security_group_handle_reconcile \<and>
     provisions deleted_at security_group_rule_view security_group_rule_handle_reconcile \<and>
     provisions deleted_at role_view role_handle_reconcile \<and>
     provisions deleted_at role_assignment_view role_assignment_handle_reconcile"
  unfolding provisions_def
  by (intro conjI allI impI)
    (erule (5) workspace.eventually_active network.eventually_active internet_gateway.eventually_active
      subnet.eventually_active route_table.eventually_active nic.eventually_active public_ip.eventually_active
      security_group.eventually_active security_group_rule.eventually_active role.eventually_active
      role_assignment.eventually_active)+

lemma provisioning_ends_witness:
  "\<exists>n \<le> 16. phase_of (workspace_view
     (fst (passes (workspace_handle_reconcile demo_handler) n (demo_workspace None) 3))) = Phase StateActive"
proof -
  have "provisions deleted_at workspace_view (workspace_handle_reconcile :: (workspace, nat) plugin_handler \<Rightarrow> _)"
    using provisioning_ends by blast
  moreover have "roomy demo_handler" by (simp add: roomy_def demo_handler_def)
  moreover have "provisioning (workspace_view (demo_workspace None))" by (simp add: provisioning_def)
  moreover have "\<not> deleted_at (demo_workspace None)" by simp
  ultimately have "\<exists>n \<le> 4 * 3 + 4. phase_of (workspace_view
      (fst (passes (workspace_handle_reconcile demo_handler) n (demo_workspace None) 3))) = Phase StateActive"
    using demo_tame demo_stores demo_progresses(1) unfolding provisions_def by blast
  then show ?thesis by simp
qed

text \<open>
  Deletion ends. Under the same assumptions on Delete, a resource marked for deletion reaches,
  after at most 4 m + 4 passes, the state deleting with a Delete that succeeds, and the pass that sees
  it returns without error and without a requeue, so that the controller may release it.
\<close>

theorem deprovisioning_ends:
  "deprovisions deleted_at workspace_view workspace_handle_reconcile \<and>
     deprovisions deleted_at network_view network_handle_reconcile \<and>
     deprovisions deleted_at internet_gateway_view internet_gateway_handle_reconcile \<and>
     deprovisions deleted_at subnet_view subnet_handle_reconcile \<and>
     deprovisions deleted_at route_table_view route_table_handle_reconcile \<and>
     deprovisions deleted_at nic_view nic_handle_reconcile \<and>
     deprovisions deleted_at public_ip_view public_ip_handle_reconcile \<and>
     deprovisions deleted_at security_group_view security_group_handle_reconcile \<and>
     deprovisions deleted_at security_group_rule_view security_group_rule_handle_reconcile \<and>
     deprovisions deleted_at role_view role_handle_reconcile \<and>
     deprovisions deleted_at role_assignment_view role_assignment_handle_reconcile"
  unfolding deprovisions_def
  by (intro conjI allI impI)
    (erule (4) workspace.eventually_deleted network.eventually_deleted internet_gateway.eventually_deleted
      subnet.eventually_deleted route_table.eventually_deleted nic.eventually_deleted
      public_ip.eventually_deleted security_group.eventually_deleted security_group_rule.eventually_deleted
      role.eventually_deleted role_assignment.eventually_deleted)+

lemma deprovisioning_ends_witness:
  "\<exists>n \<le> 16. phase_of (workspace_view
     (fst (passes (workspace_handle_reconcile demo_handler) n (demo_workspace (Some 1)) 3))) = Phase StateDeleting"
proof -
  have "deprovisions deleted_at workspace_view (workspace_handle_reconcile :: (workspace, nat) plugin_handler \<Rightarrow> _)"
    using deprovisioning_ends by blast
  moreover have "deleted_at (demo_workspace (Some 1))" "view_ok (workspace_view (demo_workspace (Some 1)))"
    by simp_all
  ultimately have "\<exists>n \<le> 4 * 3 + 4. \<exists>r' w'.
      passes (workspace_handle_reconcile demo_handler) n (demo_workspace (Some 1)) 3 = (r', w')
      \<and> phase_of (workspace_view r') = Phase StateDeleting \<and> fst (h_delete demo_handler r' w') = None
      \<and> fst (workspace_handle_reconcile demo_handler r' w') = Reconciled False None"
    using demo_tame demo_stores demo_progresses(2) unfolding deprovisions_def by blast
  then obtain n r' w' where "n \<le> 4 * 3 + 4" and
    "passes (workspace_handle_reconcile demo_handler) n (demo_workspace (Some 1)) 3 = (r', w')" and
    "phase_of (workspace_view r') = Phase StateDeleting" by blast
  then show ?thesis by (intro exI [of _ n]) simp
qed

text \<open>
  C6. Conditions stay bounded. With a positive limit, no pass leaves a resource with more conditions
  than the limit when it had no more before.
\<close>

theorem conditions_stay_bounded:
  "bounds_conditions deleted_at workspace_view workspace_handle_reconcile \<and>
     bounds_conditions deleted_at network_view network_handle_reconcile \<and>
     bounds_conditions deleted_at internet_gateway_view internet_gateway_handle_reconcile \<and>
     bounds_conditions deleted_at subnet_view subnet_handle_reconcile \<and>
     bounds_conditions deleted_at route_table_view route_table_handle_reconcile \<and>
     bounds_conditions deleted_at nic_view nic_handle_reconcile \<and>
     bounds_conditions deleted_at public_ip_view public_ip_handle_reconcile \<and>
     bounds_conditions deleted_at security_group_view security_group_handle_reconcile \<and>
     bounds_conditions deleted_at security_group_rule_view security_group_rule_handle_reconcile \<and>
     bounds_conditions deleted_at role_view role_handle_reconcile \<and>
     bounds_conditions deleted_at role_assignment_view role_assignment_handle_reconcile"
  unfolding bounds_conditions_def
  by (intro conjI allI impI)
    (erule (3) workspace.conditions_bounded network.conditions_bounded internet_gateway.conditions_bounded
      subnet.conditions_bounded route_table.conditions_bounded nic.conditions_bounded
      public_ip.conditions_bounded security_group.conditions_bounded security_group_rule.conditions_bounded
      role.conditions_bounded role_assignment.conditions_bounded)+

text \<open>
  C7. Updates never take an active resource down. Reconciling an active resource leaves it active
  whatever the plugin's Update returns; failures are recorded as the newest condition once, not on
  every pass, successes retract them, and a pass with nothing new to say writes nothing.
\<close>

theorem updates_stay_in_place:
  "updates_in_place deleted_at workspace_view workspace_handle_reconcile \<and>
     updates_in_place deleted_at network_view network_handle_reconcile \<and>
     updates_in_place deleted_at internet_gateway_view internet_gateway_handle_reconcile \<and>
     updates_in_place deleted_at subnet_view subnet_handle_reconcile \<and>
     updates_in_place deleted_at route_table_view route_table_handle_reconcile \<and>
     updates_in_place deleted_at nic_view nic_handle_reconcile \<and>
     updates_in_place deleted_at public_ip_view public_ip_handle_reconcile \<and>
     updates_in_place deleted_at security_group_view security_group_handle_reconcile \<and>
     updates_in_place deleted_at security_group_rule_view security_group_rule_handle_reconcile \<and>
     updates_in_place deleted_at role_view role_handle_reconcile \<and>
     updates_in_place deleted_at role_assignment_view role_assignment_handle_reconcile"
  by (intro conjI) (rule workspace.updating network.updating internet_gateway.updating subnet.updating
      route_table.updating nic.updating public_ip.updating security_group.updating security_group_rule.updating
      role.updating role_assignment.updating)+

end
