(* ===== verification/Controller.thy ===== *)
theory Controller
  imports Reconcilers
begin

section \<open>The generic controller: \<^verbatim>\<open>framework/backend/kubernetes/controller/generic.go\<close>\<close>

text \<open>
  One call of \<^verbatim>\<open>Reconcile\<close>: fetch the object, add the cleanup finalizer to a live one, convert it,
  hand it to the plugin handler, and take the finalizer off once the object is marked for deletion
  and its stored state says that it is being deleted. The API client, the conversion and the
  handler are arguments. A stored object is what the controller reads of it; \<open>'x\<close> is the rest.
\<close>

record kube_object =
  ko_deletion :: "time option"
  ko_finalizers :: "string list"
  ko_status :: "status option"

record ('o, 'w) kube_client =
  kc_get :: "string \<Rightarrow> 'w \<Rightarrow> (go_error + 'o) \<times> 'w"
  kc_update :: "'o \<Rightarrow> 'w \<Rightarrow> go_error option \<times> 'w"
  kc_status_update :: "'o \<Rightarrow> 'w \<Rightarrow> go_error option \<times> 'w"

text \<open>A \<^verbatim>\<open>ctrl.Result\<close> with the error beside it; \<^verbatim>\<open>log.Fatal\<close> in the handler ends the process.\<close>

datatype controller_result =
    Done (requeue_after: nat) (controller_error: "go_error option")
  | ControllerExit

definition finalizer_name :: string where
  "finalizer_name = ''secapi.cloud.foundation/cleanup''"

definition ignore_not_found :: "go_error \<Rightarrow> go_error option" where
  "ignore_not_found err = (if kube_is IsNotFound err then None else Some err)"

definition get_state_from_object :: "'x kube_object_scheme \<Rightarrow> string" where
  "get_state_from_object obj =
    (case ko_status obj of None \<Rightarrow> [] | Some st \<Rightarrow> state_string (st_state st))"

text \<open>
  \<^verbatim>\<open>PushCondition\<close> and \<^verbatim>\<open>PopCondition\<close> of the stored type, as \<^verbatim>\<open>conditioned-gen\<close> writes them for every
  resource.
\<close>

definition cr_push_condition ::
  "time \<Rightarrow> status_condition \<Rightarrow> 'x kube_object_scheme \<Rightarrow> 'x kube_object_scheme" where
  "cr_push_condition now condition x =
    (let st = (case ko_status x of None \<Rightarrow> empty_status | Some st \<Rightarrow> st);
         cond = (if c_last condition = 0 then condition\<lparr>c_last := now\<rparr> else condition) in
     case st_conditions st of
       [] \<Rightarrow> x\<lparr>ko_status := Some (st\<lparr>st_conditions := [cond\<lparr>c_occurrences := 1\<rparr>],
                st_state := c_state cond\<rparr>)\<rparr>
     | prev # rest \<Rightarrow>
         if equal_status_conditions prev cond then
           x\<lparr>ko_status := Some (st\<lparr>st_conditions :=
             prev\<lparr>c_last := c_last cond, c_occurrences := c_occurrences prev + 1\<rparr> # rest\<rparr>)\<rparr>
         else x\<lparr>ko_status := Some (st\<lparr>st_conditions := cond\<lparr>c_occurrences := 1\<rparr> # prev # rest,
                st_state := c_state cond\<rparr>)\<rparr>)"

definition cr_len_conditions :: "'x kube_object_scheme \<Rightarrow> nat" where
  "cr_len_conditions x = (case ko_status x of None \<Rightarrow> 0 | Some st \<Rightarrow> length (st_conditions st))"

definition cr_pop_condition :: "'x kube_object_scheme \<Rightarrow> 'x kube_object_scheme" where
  "cr_pop_condition x =
    (case ko_status x of
       None \<Rightarrow> x
     | Some st \<Rightarrow> if st_conditions st = [] then x
         else x\<lparr>ko_status := Some (st\<lparr>st_conditions := butlast (st_conditions st)\<rparr>)\<rparr>)"

text \<open>The loop that trims the conditions of the stored object.\<close>

function cr_trim :: "int \<Rightarrow> 'x kube_object_scheme \<Rightarrow> 'x kube_object_scheme" where
  "cr_trim max_conditions x =
    (if 0 < max_conditions \<and> max_conditions < int (cr_len_conditions x)
     then cr_trim max_conditions (cr_pop_condition x) else x)"
  by pat_completeness auto
termination
  by (relation "measure (\<lambda>(m, x). cr_len_conditions x)")
     (auto simp: cr_len_conditions_def cr_pop_condition_def split: option.splits)

declare cr_trim.simps [simp del]

definition conversion_failed_condition :: "time \<Rightarrow> go_error \<Rightarrow> status_condition" where
  "conversion_failed_condition now err =
    \<lparr>c_last = now, c_message = error_text err, c_reason = ''DomainConversionFailed'',
     c_state = StateError, c_type = ''ConversionFailed'', c_occurrences = 0\<rparr>"

definition controller_reconcile ::
  "('x kube_object_scheme, 'w) kube_client \<Rightarrow> ('x kube_object_scheme \<Rightarrow> go_error + 'r)
   \<Rightarrow> ('r \<Rightarrow> 'w \<Rightarrow> reconcile_result \<times> 'r \<times> 'w) \<Rightarrow> nat \<Rightarrow> int \<Rightarrow> ('w \<Rightarrow> time) \<Rightarrow> string \<Rightarrow> 'w
   \<Rightarrow> controller_result \<times> 'w" where
  "controller_reconcile client k8s_to_domain handle after max_conditions now name w =
    (case kc_get client name w of
       (Inl err, w1) \<Rightarrow> (Done 0 (ignore_not_found err), w1)
     | (Inr obj, w1) \<Rightarrow>
       if ko_deletion obj = None \<and> finalizer_name \<notin> set (ko_finalizers obj) then
         (case kc_update client (obj\<lparr>ko_finalizers := ko_finalizers obj @ [finalizer_name]\<rparr>) w1 of
            (Some err, w2) \<Rightarrow> (Done 0 (Some err), w2)
          | (None, w2) \<Rightarrow> (Done after None, w2))
       else (case k8s_to_domain obj of
           Inl err \<Rightarrow>
             (let obj' = cr_trim max_conditions
                  (cr_push_condition (now w1) (conversion_failed_condition (now w1) err) obj) in
              case kc_status_update client obj' w1 of (_, w2) \<Rightarrow> (Done 0 None, w2))
         | Inr domain_resource \<Rightarrow>
           (case handle domain_resource w1 of
              (ProcessExit, _, w2) \<Rightarrow> (ControllerExit, w2)
            | (Reconciled rq (Some err), _, w2) \<Rightarrow>
                if errors_is err (Sentinel ErrStillProcessing) then (Done after None, w2)
                else (Done after (Some err), w2)
            | (Reconciled True None, _, w2) \<Rightarrow> (Done after None, w2)
            | (Reconciled False None, _, w2) \<Rightarrow>
                (case kc_get client name w2 of
                   (Inl err, w3) \<Rightarrow> (Done 0 (ignore_not_found err), w3)
                 | (Inr obj2, w3) \<Rightarrow>
                   if ko_deletion obj2 \<noteq> None \<and> get_state_from_object obj2 = ''deleting'' \<and>
                      finalizer_name \<in> set (ko_finalizers obj2) then
                     (case kc_update client (obj2\<lparr>ko_finalizers :=
                          filter (\<lambda>v. \<not> equal_fold v finalizer_name) (ko_finalizers obj2)\<rparr>) w3 of
                        (Some err, w4) \<Rightarrow> (Done 0 (Some err), w4)
                      | (None, w4) \<Rightarrow> (Done 0 None, w4))
                   else (Done 0 None, w3)))))"

subsection \<open>Facts\<close>

lemma equal_fold_refl [simp]: "equal_fold s s"
  by (simp add: equal_fold_def)

lemma finalizer_filtered: "finalizer_name \<notin> set (filter (\<lambda>v. \<not> equal_fold v finalizer_name) fs)"
  by simp

lemma cr_push_is_push:
  "ko_status (cr_push_condition now c x) =
     Some (pushed now c (case ko_status x of None \<Rightarrow> empty_status | Some st \<Rightarrow> st))"
  by (cases "case ko_status x of None \<Rightarrow> empty_status | Some st \<Rightarrow> st" rule: status.cases)
     (auto simp: cr_push_condition_def pushed_def push_condition_def peek_conditions_def Let_def
       split: list.splits)

text \<open>
  A client that remembers the objects it was asked to update: the controller is the same for every
  client, so what it asks of this one is what it asks of any.
\<close>

definition logging :: "('o, 'w) kube_client \<Rightarrow> ('o, 'o list \<times> 'w) kube_client" where
  "logging c =
    \<lparr>kc_get = (\<lambda>name (log, w). case kc_get c name w of (x, w') \<Rightarrow> (x, (log, w'))),
     kc_update = (\<lambda>obj (log, w). case kc_update c obj w of (x, w') \<Rightarrow> (x, (log @ [obj], w'))),
     kc_status_update = (\<lambda>obj (log, w). case kc_status_update c obj w of (x, w') \<Rightarrow> (x, (log, w')))\<rparr>"

definition lifted where
  "lifted handle r lw = (case handle r (snd lw) of (res, r', w') \<Rightarrow> (res, r', (fst lw, w')))"

lemma logging_simps [simp]:
  "kc_get (logging c) name (log, w) = (case kc_get c name w of (x, w') \<Rightarrow> (x, (log, w')))"
  "kc_update (logging c) obj (log, w) = (case kc_update c obj w of (x, w') \<Rightarrow> (x, (log @ [obj], w')))"
  "kc_status_update (logging c) obj (log, w) =
     (case kc_status_update c obj w of (x, w') \<Rightarrow> (x, (log, w')))"
  "lifted handle r (log, w) = (case handle r w of (res, r', w') \<Rightarrow> (res, r', (log, w')))"
  by (simp_all add: logging_def lifted_def split: prod.splits)

text \<open>The three shapes of what one call writes to metadata.\<close>

lemma controller_updates:
  assumes "controller_reconcile (logging c) conv (lifted handle) after m (\<lambda>lw. now (snd lw)) name ([], w)
    = (res, (log, w'))"
  obtains (none) "log = []"
  | (adopt) obj w1 where "kc_get c name w = (Inr obj, w1)" and "ko_deletion obj = None"
      and "finalizer_name \<notin> set (ko_finalizers obj)"
      and "log = [obj\<lparr>ko_finalizers := ko_finalizers obj @ [finalizer_name]\<rparr>]"
  | (release) obj w1 r r' w2 obj2 w3 where "kc_get c name w = (Inr obj, w1)" and "conv obj = Inr r"
      and "handle r w1 = (Reconciled False None, r', w2)" and "kc_get c name w2 = (Inr obj2, w3)"
      and "ko_deletion obj2 \<noteq> None" and "get_state_from_object obj2 = ''deleting''"
      and "finalizer_name \<in> set (ko_finalizers obj2)"
      and "log = [obj2\<lparr>ko_finalizers := filter (\<lambda>v. \<not> equal_fold v finalizer_name) (ko_finalizers obj2)\<rparr>]"
proof (cases "kc_get c name w")
  case (Pair x w1)
  show thesis
  proof (cases x)
    case (Inl err)
    with Pair assms none show thesis by (simp add: controller_reconcile_def)
  next
    case (Inr obj)
    show thesis
    proof (cases "ko_deletion obj = None \<and> finalizer_name \<notin> set (ko_finalizers obj)")
      case True
      with Pair Inr assms show thesis
        by (intro adopt [of obj w1]) (auto simp: controller_reconcile_def split: prod.splits option.splits)
    next
      case held: False
      show thesis
      proof (cases "conv obj")
        case (Inl err)
        with Pair \<open>x = Inr obj\<close> assms none show thesis
          by (simp add: controller_reconcile_def if_not_P [OF held] Let_def split: prod.splits)
      next
        case (Inr r)
        note conv = Inr
        obtain rr r' w2 where h: "handle r w1 = (rr, r', w2)" by (metis prod_cases3)
        show thesis
        proof (cases "rr = Reconciled False None")
          case False
          with Pair \<open>x = Inr obj\<close> conv h assms none show thesis
            by (cases rr; cases "requeue rr"; cases "reconcile_error rr")
              (auto simp: controller_reconcile_def if_not_P [OF held] split: if_splits)
        next
          case True
          obtain y w3 where g: "kc_get c name w2 = (y, w3)" by (cases "kc_get c name w2")
          show thesis
          proof (cases y)
            case (Inl err)
            with Pair \<open>x = Inr obj\<close> conv h True g assms none show thesis
              by (simp add: controller_reconcile_def if_not_P [OF held])
          next
            case (Inr obj2)
            show thesis
            proof (cases "ko_deletion obj2 \<noteq> None \<and> get_state_from_object obj2 = ''deleting'' \<and>
                finalizer_name \<in> set (ko_finalizers obj2)")
              case False
              with Pair \<open>x = Inr obj\<close> conv h True g Inr assms none show thesis
                by (auto simp: controller_reconcile_def if_not_P [OF held] split: if_splits)
            next
              case rel: True
              have "log = [obj2\<lparr>ko_finalizers :=
                  filter (\<lambda>v. \<not> equal_fold v finalizer_name) (ko_finalizers obj2)\<rparr>]"
                using Pair \<open>x = Inr obj\<close> conv h True g Inr rel assms
                by (auto simp: controller_reconcile_def if_not_P [OF held] split: prod.splits option.splits)
              with release Pair \<open>x = Inr obj\<close> conv h True g Inr rel show thesis by blast
            qed
          qed
        qed
      qed
    qed
  qed
qed

end
