(* ===== verification/Adapter.thy ===== *)
theory Adapter
  imports Namespaces
begin

section \<open>The Kubernetes repository adapter: \<^verbatim>\<open>framework/backend/kubernetes/adapter.go\<close>\<close>

text \<open>
  \<^verbatim>\<open>Load\<close>, \<^verbatim>\<open>Create\<close>, \<^verbatim>\<open>Update\<close>, \<^verbatim>\<open>UpdateStatus\<close> and \<^verbatim>\<open>Delete\<close> of the adapter, and the variant that manages
  the namespace a resource's children live in. The API server's clients are records of operations on
  the world; \<^verbatim>\<open>retry.RetryOnConflict\<close> is one of them, and \<open>attempts\<close> states what it is documented to do.
  An unstructured object is its metadata and its top-level fields; a JSON object is kept with its
  keys in order, as are labels and annotations, so that equal maps are equal values
  (\<^verbatim>\<open>cmp.Equal\<close>).
\<close>

record uobject =
  uo_name :: string
  uo_labels :: strmap
  uo_annotations :: strmap
  uo_finalizers :: "string list"
  uo_deletion :: "time option"
  uo_version :: string
  uo_fields :: "(string \<times> json) list"

type_synonym json_map = "(string \<times> json) list"

text \<open>The fields of \<^verbatim>\<open>metav1.ListOptions\<close> that are set; a listing returns its items and the continue token.\<close>

record list_options =
  lo_limit :: int
  lo_continue :: string
  lo_selector :: string

definition no_options :: list_options where
  "no_options = \<lparr>lo_limit = 0, lo_continue = [], lo_selector = []\<rparr>"

record 'w dyn_client =
  dc_get :: "gvr \<Rightarrow> string \<Rightarrow> string \<Rightarrow> 'w \<Rightarrow> (go_error + uobject) \<times> 'w"
  dc_list :: "list_options \<Rightarrow> gvr \<Rightarrow> string \<Rightarrow> 'w \<Rightarrow> (go_error + uobject list \<times> string) \<times> 'w"
  dc_create :: "gvr \<Rightarrow> string \<Rightarrow> uobject \<Rightarrow> 'w \<Rightarrow> (go_error + uobject) \<times> 'w"
  dc_update :: "gvr \<Rightarrow> string \<Rightarrow> uobject \<Rightarrow> 'w \<Rightarrow> (go_error + uobject) \<times> 'w"
  dc_update_status :: "gvr \<Rightarrow> string \<Rightarrow> uobject \<Rightarrow> 'w \<Rightarrow> (go_error + uobject) \<times> 'w"
  dc_delete :: "gvr \<Rightarrow> string \<Rightarrow> string \<Rightarrow> string option \<Rightarrow> 'w \<Rightarrow> go_error option \<times> 'w"
  dc_retry :: "('w \<Rightarrow> go_error option \<times> 'w) \<Rightarrow> 'w \<Rightarrow> go_error option \<times> 'w"

record 'w clientset =
  cs_ns_create :: "string \<Rightarrow> strmap \<Rightarrow> 'w \<Rightarrow> go_error option \<times> 'w"
  cs_ns_delete :: "string \<Rightarrow> 'w \<Rightarrow> go_error option \<times> 'w"
  cs_ns_get :: "string \<Rightarrow> 'w \<Rightarrow> (go_error + strmap) \<times> 'w"

text \<open>
  The adapter of one resource: its client and kind, the two conversions (\<open>ad_to_k8s\<close> ends with the
  conversion to unstructured), and what \<^verbatim>\<open>GetName\<close>, \<^verbatim>\<open>GetVersion\<close> and the scope methods return.
\<close>

record ('r, 'w) adapter =
  ad_client :: "'w dyn_client"
  ad_gvr :: gvr
  ad_to_k8s :: "'r \<Rightarrow> go_error + uobject"
  ad_from_k8s :: "uobject \<Rightarrow> go_error + 'r"
  ad_name :: "'r \<Rightarrow> string"
  ad_version :: "'r \<Rightarrow> string"
  ad_scope :: "'r \<Rightarrow> scoped"
  ad_sha3 :: "string \<Rightarrow> string"

subsection \<open>Top-level fields of an unstructured object\<close>

text \<open>\<^verbatim>\<open>unstructured.NestedMap\<close> with one field: found, not found, or not a map.\<close>

definition nested_map :: "uobject \<Rightarrow> string \<Rightarrow> go_error + json_map option" where
  "nested_map obj name =
    (case map_of (uo_fields obj) name of
       None \<Rightarrow> Inr None
     | Some (JObject m) \<Rightarrow> Inr (Some m)
     | Some v \<Rightarrow> Inl (GoError (''.'' @ name @ '' accessor error'')))"

fun field_put :: "string \<Rightarrow> json \<Rightarrow> json_map \<Rightarrow> json_map" where
  "field_put k v [] = [(k, v)]"
| "field_put k v ((k', v') # m) = (if k' = k then (k, v) # m else (k', v') # field_put k v m)"

definition set_nested_map :: "uobject \<Rightarrow> json_map \<Rightarrow> string \<Rightarrow> uobject" where
  "set_nested_map obj value name = obj\<lparr>uo_fields := field_put name (JObject value) (uo_fields obj)\<rparr>"

definition sync_nested_map ::
  "uobject \<Rightarrow> json_map option \<Rightarrow> string \<Rightarrow> go_error + bool \<times> uobject" where
  "sync_nested_map current desired name =
    (case desired of
       None \<Rightarrow> Inr (False, current)
     | Some value \<Rightarrow>
         (case nested_map current name of
            Inl err \<Rightarrow> Inl err
          | Inr curr_value \<Rightarrow>
              if curr_value = Some value then Inr (False, current)
              else Inr (True, set_nested_map current value name)))"

text \<open>A name between single quotes, as the messages have it.\<close>

definition quoted :: "string \<Rightarrow> string" where
  "quoted s = [char_of (39 :: nat)] @ s @ [char_of (39 :: nat)]"

subsection \<open>Reading\<close>

definition adapter_load :: "('r, 'w) adapter \<Rightarrow> 'r \<Rightarrow> 'w \<Rightarrow> (go_error + 'r) \<times> 'w" where
  "adapter_load a v w =
    (case resolve_namespace (ad_sha3 a) (ad_scope a v) of
       Inl err \<Rightarrow> (Inl err, w)
     | Inr namespace \<Rightarrow>
         (case dc_get (ad_client a) (ad_gvr a) namespace (ad_name a v) w of
            (Inl err, w1) \<Rightarrow>
              (Inl (kube_to_domain_error (wrapf (''failed to retrieve '' @ gvr_resource (ad_gvr a)
                 @ '' '' @ quoted (ad_name a v)) err)), w1)
          | (Inr uobj, w1) \<Rightarrow>
              (case ad_from_k8s a uobj of
                 Inl err \<Rightarrow> (Inl (new_error KindValidation
                     (wrapf (''failed to convert '' @ gvr_resource (ad_gvr a)) err)), w1)
               | Inr converted \<Rightarrow> (Inr converted, w1))))"

subsection \<open>Writing\<close>

definition adapter_create :: "('r, 'w) adapter \<Rightarrow> 'r \<Rightarrow> 'w \<Rightarrow> (go_error + 'r) \<times> 'w" where
  "adapter_create a m w =
    (case resolve_namespace (ad_sha3 a) (ad_scope a m) of
       Inl err \<Rightarrow> (Inl err, w)
     | Inr namespace \<Rightarrow>
         (case ad_to_k8s a m of
            Inl err \<Rightarrow> (Inl (new_error KindValidation
                (wrapf (''failed to convert '' @ gvr_resource (ad_gvr a) @ '' to k8s object'') err)), w)
          | Inr uobj \<Rightarrow>
              (case dc_create (ad_client a) (ad_gvr a) namespace uobj w of
                 (Inl err, w1) \<Rightarrow>
                   (Inl (kube_to_domain_error (wrapf (''failed to create resource '' @ gvr_resource (ad_gvr a)
                      @ '' '' @ quoted (ad_name a m)) err)), w1)
               | (Inr ures, w1) \<Rightarrow>
                   (case ad_from_k8s a ures of
                      Inl err \<Rightarrow> (Inl (new_error KindValidation
                          (wrapf (''failed to convert '' @ gvr_resource (ad_gvr a) @ '' from k8s object'') err)), w1)
                    | Inr res \<Rightarrow> (Inr res, w1)))))"

text \<open>The closure handed to \<^verbatim>\<open>RetryOnConflict\<close>: one attempt to bring metadata and spec up to date.\<close>

definition sync_attempt ::
  "'w dyn_client \<Rightarrow> gvr \<Rightarrow> string \<Rightarrow> string \<Rightarrow> uobject \<Rightarrow> json_map option \<Rightarrow> json_map option
   \<Rightarrow> 'w \<Rightarrow> go_error option \<times> 'w" where
  "sync_attempt client kind namespace name desired desired_spec desired_common w =
    (case dc_get client kind namespace name w of
       (Inl err, w1) \<Rightarrow> (Some err, w1)
     | (Inr current, w1) \<Rightarrow>
         if uo_deletion current \<noteq> None then (None, w1)
         else (case sync_nested_map current desired_spec ''spec'' of
             Inl err \<Rightarrow> (Some err, w1)
           | Inr (spec_changed, c1) \<Rightarrow>
               (case sync_nested_map c1 desired_common ''commonData'' of
                  Inl err \<Rightarrow> (Some err, w1)
                | Inr (common_changed, c2) \<Rightarrow>
                    (let labels_changed = uo_labels c2 \<noteq> uo_labels desired;
                         c3 = (if labels_changed then c2\<lparr>uo_labels := uo_labels desired\<rparr> else c2);
                         annotations_changed = uo_annotations c3 \<noteq> uo_annotations desired;
                         c4 = (if annotations_changed
                               then c3\<lparr>uo_annotations := uo_annotations desired\<rparr> else c3) in
                     if \<not> spec_changed \<and> \<not> common_changed \<and> \<not> labels_changed \<and> \<not> annotations_changed
                     then (None, w1)
                     else (case dc_update client kind namespace c4 w1 of
                         (Inl err, w2) \<Rightarrow> (Some err, w2)
                       | (Inr stored, w2) \<Rightarrow> (None, w2))))))"

definition update_metadata_and_spec_retry ::
  "'w dyn_client \<Rightarrow> gvr \<Rightarrow> string \<Rightarrow> string \<Rightarrow> uobject \<Rightarrow> 'w \<Rightarrow> go_error option \<times> 'w" where
  "update_metadata_and_spec_retry client kind namespace name desired w =
    (case nested_map desired ''spec'' of
       Inl err \<Rightarrow> (Some err, w)
     | Inr desired_spec \<Rightarrow>
         (case nested_map desired ''commonData'' of
            Inl err \<Rightarrow> (Some err, w)
          | Inr desired_common \<Rightarrow>
              dc_retry client (sync_attempt client kind namespace name desired desired_spec desired_common) w))"

definition adapter_update :: "('r, 'w) adapter \<Rightarrow> 'r \<Rightarrow> 'w \<Rightarrow> (go_error + 'r) \<times> 'w" where
  "adapter_update a m w =
    (case ad_to_k8s a m of
       Inl err \<Rightarrow> (Inl (new_error KindValidation
           (wrapf (''failed to convert '' @ gvr_resource (ad_gvr a) @ '' to unstructured'') err)), w)
     | Inr uobj \<Rightarrow>
         (case resolve_namespace (ad_sha3 a) (ad_scope a m) of
            Inl err \<Rightarrow> (Inl err, w)
          | Inr namespace \<Rightarrow>
              (let written =
                 (if ad_version a m = [] then
                    (case update_metadata_and_spec_retry (ad_client a) (ad_gvr a) namespace (ad_name a m) uobj w of
                       (Some err, w1) \<Rightarrow>
                         (Some (kube_to_domain_error (wrapf (''failed to update metadata and spec ''
                            @ gvr_resource (ad_gvr a) @ '' '' @ quoted (ad_name a m)) err)), w1)
                     | (None, w1) \<Rightarrow> (None, w1))
                  else (case dc_update (ad_client a) (ad_gvr a) namespace uobj w of
                       (Inl err, w1) \<Rightarrow>
                         (Some (kube_to_domain_error (wrapf (''failed to update metadata and spec with version ''
                            @ ad_version a m @ '' '' @ gvr_resource (ad_gvr a) @ '' ''
                            @ quoted (ad_name a m)) err)), w1)
                     | (Inr stored, w1) \<Rightarrow> (None, w1))) in
               case written of
                 (Some err, w1) \<Rightarrow> (Inl err, w1)
               | (None, w1) \<Rightarrow>
                   (case dc_get (ad_client a) (ad_gvr a) namespace (ad_name a m) w1 of
                      (Inl err, w2) \<Rightarrow>
                        (Inl (kube_to_domain_error (wrapf (''failed to get '' @ gvr_resource (ad_gvr a)
                           @ '' '' @ quoted (ad_name a m) @ '' after update'') err)), w2)
                    | (Inr current, w2) \<Rightarrow>
                        (case ad_from_k8s a current of
                           Inl err \<Rightarrow> (Inl (new_error KindValidation (wrapf (''failed to convert ''
                               @ gvr_resource (ad_gvr a) @ '' '' @ quoted (ad_name a m)
                               @ '' from k8s object'') err)), w2)
                         | Inr res \<Rightarrow> (Inr res, w2))))))"

text \<open>One attempt of \<^verbatim>\<open>updateStatusRetry\<close>.\<close>

definition status_attempt ::
  "'w dyn_client \<Rightarrow> gvr \<Rightarrow> string \<Rightarrow> string \<Rightarrow> json_map \<Rightarrow> 'w \<Rightarrow> go_error option \<times> 'w" where
  "status_attempt client kind namespace name desired_status w =
    (case dc_get client kind namespace name w of
       (Inl err, w1) \<Rightarrow> (Some err, w1)
     | (Inr current, w1) \<Rightarrow>
         (case nested_map current ''status'' of
            Inl err \<Rightarrow> (Some err, w1)
          | Inr curr_status \<Rightarrow>
              if curr_status = Some desired_status then (None, w1)
              else (case dc_update_status client kind namespace
                        (set_nested_map current desired_status ''status'') w1 of
                  (Inl err, w2) \<Rightarrow> (Some err, w2)
                | (Inr stored, w2) \<Rightarrow> (None, w2))))"

definition adapter_update_status :: "('r, 'w) adapter \<Rightarrow> 'r \<Rightarrow> 'w \<Rightarrow> (go_error + 'r) \<times> 'w" where
  "adapter_update_status a m w =
    (case ad_to_k8s a m of
       Inl err \<Rightarrow> (Inl (new_error KindValidation
           (wrapf (''failed to convert '' @ gvr_resource (ad_gvr a) @ '' to unstructured'') err)), w)
     | Inr uobj \<Rightarrow>
         (case nested_map uobj ''status'' of
            Inl err \<Rightarrow> (Inl (new_error KindValidation
                (wrapf (''failed to extract status from unstructured '' @ gvr_resource (ad_gvr a)) err)), w)
          | Inr None \<Rightarrow> (Inl (new_error KindValidation (GoError (''no status data provided for ''
                @ gvr_resource (ad_gvr a) @ '' '' @ quoted (ad_name a m)))), w)
          | Inr (Some desired_status) \<Rightarrow>
              (case resolve_namespace (ad_sha3 a) (ad_scope a m) of
                 Inl err \<Rightarrow> (Inl err, w)
               | Inr namespace \<Rightarrow>
                   (case dc_retry (ad_client a) (status_attempt (ad_client a) (ad_gvr a) namespace
                        (ad_name a m) desired_status) w of
                      (Some err, w1) \<Rightarrow>
                        (Inl (kube_to_domain_error (wrapf (''failed to update status with retry ''
                           @ gvr_resource (ad_gvr a) @ '' '' @ quoted (ad_name a m)) err)), w1)
                    | (None, w1) \<Rightarrow>
                        (case dc_get (ad_client a) (ad_gvr a) namespace (ad_name a m) w1 of
                           (Inl err, w2) \<Rightarrow>
                             (Inl (kube_to_domain_error (wrapf (''failed to get '' @ gvr_resource (ad_gvr a)
                                @ '' '' @ quoted (ad_name a m) @ '' after status update'') err)), w2)
                         | (Inr current, w2) \<Rightarrow>
                             (case ad_from_k8s a current of
                                Inl err \<Rightarrow> (Inl (new_error KindValidation (wrapf (''failed to convert ''
                                    @ gvr_resource (ad_gvr a) @ '' '' @ quoted (ad_name a m)
                                    @ '' from k8s object after status update'') err)), w2)
                              | Inr res \<Rightarrow> (Inr res, w2)))))))"

definition adapter_delete :: "('r, 'w) adapter \<Rightarrow> 'r \<Rightarrow> 'w \<Rightarrow> go_error option \<times> 'w" where
  "adapter_delete a m w =
    (case resolve_namespace (ad_sha3 a) (ad_scope a m) of
       Inl err \<Rightarrow> (Some err, w)
     | Inr namespace \<Rightarrow>
         (case dc_delete (ad_client a) (ad_gvr a) namespace (ad_name a m)
              (if ad_version a m \<noteq> [] then Some (ad_version a m) else None) w of
            (Some err, w1) \<Rightarrow>
              (Some (kube_to_domain_error (wrapf (''failed to delete '' @ gvr_resource (ad_gvr a)
                 @ '' '' @ quoted (ad_name a m)) err)), w1)
          | (None, w1) \<Rightarrow> (None, w1)))"

subsection \<open>The adapter that manages the namespace of a resource's children\<close>

record ('r, 'w) managing_adapter = "('r, 'w) adapter" +
  ma_clientset :: "'w clientset option"
  ma_child_namespace :: child_namespace_kind
  ma_child_gvrs :: "gvr list"
  ma_tenant :: "'r \<Rightarrow> string"
  ma_workspace :: "'r \<Rightarrow> string"

definition create_namespace ::
  "'w clientset option \<Rightarrow> string \<Rightarrow> strmap \<Rightarrow> 'w \<Rightarrow> (go_error + bool) \<times> 'w" where
  "create_namespace cs name owner_labels w =
    (if name = [] then
       (Inl (new_error KindValidation (GoError ''cannot create namespace with empty name'')), w)
     else case cs of
       None \<Rightarrow> (Inl (new_error KindUnavailable
           (GoError (''cannot create namespace '' @ fmt_q name @ '': clientSet is nil''))), w)
     | Some c \<Rightarrow>
         (case cs_ns_create c name owner_labels w of
            (Some err, w1) \<Rightarrow>
              if kube_is IsAlreadyExists err then (Inr False, w1)
              else (Inl (kube_to_domain_error (wrapf (''failed to create namespace '' @ name) err)), w1)
          | (None, w1) \<Rightarrow> (Inr True, w1)))"

definition delete_namespace :: "'w clientset option \<Rightarrow> string \<Rightarrow> 'w \<Rightarrow> go_error option \<times> 'w" where
  "delete_namespace cs name w =
    (if name = [] then (None, w)
     else case cs of
       None \<Rightarrow> (Some (new_error KindUnavailable
           (GoError (''cannot delete namespace '' @ fmt_q name @ '': clientSet is nil''))), w)
     | Some c \<Rightarrow>
         (case cs_ns_delete c name w of
            (Some err, w1) \<Rightarrow>
              if kube_is IsNotFound err then (None, w1)
              else (Some (kube_to_domain_error (wrapf (''failed to delete namespace '' @ name) err)), w1)
          | (None, w1) \<Rightarrow> (None, w1)))"

definition namespace_owned_by ::
  "'w clientset option \<Rightarrow> string \<Rightarrow> strmap \<Rightarrow> 'w \<Rightarrow> (go_error + bool) \<times> 'w" where
  "namespace_owned_by cs name expected w =
    (case cs of
       None \<Rightarrow> (Inl (GoError ''clientset is nil''), w)
     | Some c \<Rightarrow>
         (case cs_ns_get c name w of
            (Inl err, w1) \<Rightarrow> if kube_is IsNotFound err then (Inr False, w1) else (Inl err, w1)
          | (Inr labels, w1) \<Rightarrow>
              (Inr (list_all (\<lambda>(k, v). map_get labels k = Some v) expected), w1)))"

fun namespace_has_child_resources ::
  "'w dyn_client \<Rightarrow> string \<Rightarrow> gvr list \<Rightarrow> 'w \<Rightarrow> (go_error + bool) \<times> 'w" where
  "namespace_has_child_resources dyn namespace [] w = (Inr False, w)"
| "namespace_has_child_resources dyn namespace (kind # kinds) w =
    (if namespace = [] then (Inr False, w)
     else case dc_list dyn (no_options\<lparr>lo_limit := 1\<rparr>) kind namespace w of
       (Inl err, w1) \<Rightarrow>
         if kube_is IsNotFound err then namespace_has_child_resources dyn namespace kinds w1
         else (Inl (kube_to_domain_error (wrapf (''failed to list '' @ gvr_resource kind
            @ '' in namespace '' @ fmt_q namespace) err)), w1)
     | (Inr (items, next), w1) \<Rightarrow>
         if items \<noteq> [] then (Inr True, w1)
         else namespace_has_child_resources dyn namespace kinds w1)"

definition child_namespace_of :: "('r, 'w) managing_adapter \<Rightarrow> 'r \<Rightarrow> string \<times> strmap" where
  "child_namespace_of a m =
     child_namespace_for (ad_sha3 a) (ma_child_namespace a) (ma_tenant a m) (ma_workspace a m) (ad_name a m)"

definition managing_create :: "('r, 'w) managing_adapter \<Rightarrow> 'r \<Rightarrow> 'w \<Rightarrow> (go_error + 'r) \<times> 'w" where
  "managing_create a m w =
    (case child_namespace_of a m of (namespace, owner_labels) \<Rightarrow>
       if namespace = [] then adapter_create (adapter.truncate a) m w
       else (case create_namespace (ma_clientset a) namespace owner_labels w of
           (Inl err, w1) \<Rightarrow> (Inl err, w1)
         | (Inr created, w1) \<Rightarrow>
             (case adapter_create (adapter.truncate a) m w1 of
                (Inl err, w2) \<Rightarrow>
                  (Inl err,
                   if created then
                     (case namespace_owned_by (ma_clientset a) namespace owner_labels w2 of
                        (Inr True, w3) \<Rightarrow> snd (delete_namespace (ma_clientset a) namespace w3)
                      | (_, w3) \<Rightarrow> w3)
                   else w2)
              | (Inr res, w2) \<Rightarrow> (Inr res, w2))))"

definition managing_delete :: "('r, 'w) managing_adapter \<Rightarrow> 'r \<Rightarrow> 'w \<Rightarrow> go_error option \<times> 'w" where
  "managing_delete a m w =
    (case child_namespace_of a m of (child, owner_labels) \<Rightarrow>
       (let remove = (\<lambda>w1.
              case adapter_delete (adapter.truncate a) m w1 of
                (Some err, w2) \<Rightarrow> (Some err, w2)
              | (None, w2) \<Rightarrow>
                  if child = [] then (None, w2)
                  else (case namespace_owned_by (ma_clientset a) child owner_labels w2 of
                      (Inl err, w3) \<Rightarrow> (Some (kube_to_domain_error
                          (wrapf (''failed to verify ownership of namespace '' @ fmt_q child) err)), w3)
                    | (Inr owned, w3) \<Rightarrow>
                        if \<not> owned then (None, w3)
                        else (case delete_namespace (ma_clientset a) child w3 of
                            (Some err, w4) \<Rightarrow> (Some err, w4)
                          | (None, w4) \<Rightarrow> (None, w4)))) in
        if child \<noteq> [] then
          (case namespace_has_child_resources (ad_client a) child (ma_child_gvrs a) w of
             (Inl err, w1) \<Rightarrow> (Some err, w1)
           | (Inr True, w1) \<Rightarrow>
               (Some (new_error KindConflict (GoError (''cannot delete '' @ gvr_resource (ad_gvr a) @ '' ''
                  @ fmt_q (ad_name a m) @ '': namespace '' @ fmt_q child @ '' is not empty''))), w1)
           | (Inr False, w1) \<Rightarrow> remove w1)
        else remove w))"

subsection \<open>What the API server promises\<close>

text \<open>
  \<^verbatim>\<open>retry.RetryOnConflict\<close> as documented: the closure runs again only after a conflict, and what its
  last run returned is the answer.
\<close>

inductive attempts ::
  "('w \<Rightarrow> go_error option \<times> 'w) \<Rightarrow> 'w \<Rightarrow> go_error option \<times> 'w \<Rightarrow> bool"
  for f :: "'w \<Rightarrow> go_error option \<times> 'w" where
  last: "f w = res \<Longrightarrow> attempts f w res"
| again: "f w = (Some err, w') \<Longrightarrow> kube_is IsConflict err \<Longrightarrow> attempts f w' res \<Longrightarrow> attempts f w res"

text \<open>
  One object as the server stores it, with no other writer: a read returns it, a refused write
  leaves it, \<^verbatim>\<open>Update\<close> stores everything but the status and \<^verbatim>\<open>UpdateStatus\<close> nothing but the status,
  the split the status subresource makes. No write takes a deletion mark back, and an \<^verbatim>\<open>Update\<close> that
  leaves a marked object without finalizers completes its deletion: the object is gone.
\<close>

definition same_but_status :: "uobject \<Rightarrow> uobject \<Rightarrow> bool" where
  "same_but_status x y \<longleftrightarrow> uo_labels x = uo_labels y \<and> uo_annotations x = uo_annotations y
     \<and> uo_finalizers x = uo_finalizers y \<and> uo_deletion x = uo_deletion y
     \<and> (\<forall>k. k \<noteq> ''status'' \<longrightarrow> map_of (uo_fields x) k = map_of (uo_fields y) k)"

definition same_status :: "uobject \<Rightarrow> uobject \<Rightarrow> bool" where
  "same_status x y \<longleftrightarrow> map_of (uo_fields x) ''status'' = map_of (uo_fields y) ''status''"

text \<open>What an \<^verbatim>\<open>Update\<close> with the object \<open>obj\<close> makes of the stored one.\<close>

definition put_stored :: "uobject \<Rightarrow> uobject \<Rightarrow> uobject \<Rightarrow> bool" where
  "put_stored obj old new \<longleftrightarrow> same_but_status new (obj\<lparr>uo_deletion := uo_deletion old\<rparr>) \<and> same_status new old"

definition put_effect :: "uobject \<Rightarrow> uobject \<Rightarrow> uobject option \<Rightarrow> bool" where
  "put_effect obj old after \<longleftrightarrow>
     (if uo_deletion old \<noteq> None \<and> uo_finalizers obj = [] then after = None
      else \<exists>new. after = Some new \<and> put_stored obj old new)"

definition api_object ::
  "'w dyn_client \<Rightarrow> gvr \<Rightarrow> string \<Rightarrow> string \<Rightarrow> ('w \<Rightarrow> uobject option) \<Rightarrow> bool" where
  "api_object client kind namespace name stored \<longleftrightarrow>
     (\<forall>w obj w'. dc_get client kind namespace name w = (Inr obj, w') \<longrightarrow>
        stored w = Some obj \<and> stored w' = Some obj \<and> uo_name obj = name) \<and>
     (\<forall>w err w'. dc_get client kind namespace name w = (Inl err, w') \<longrightarrow> stored w' = stored w) \<and>
     (\<forall>obj w res w'. dc_update client kind namespace obj w = (Inr res, w') \<longrightarrow> uo_name obj = name \<longrightarrow>
        (\<exists>old. stored w = Some old \<and> put_effect obj old (stored w'))) \<and>
     (\<forall>obj w err w'. dc_update client kind namespace obj w = (Inl err, w') \<longrightarrow> stored w' = stored w) \<and>
     (\<forall>obj w res w'. dc_update_status client kind namespace obj w = (Inr res, w') \<longrightarrow> uo_name obj = name \<longrightarrow>
        (\<exists>old new. stored w = Some old \<and> stored w' = Some new
           \<and> same_but_status new old \<and> same_status new obj)) \<and>
     (\<forall>obj w err w'. dc_update_status client kind namespace obj w = (Inl err, w') \<longrightarrow> stored w' = stored w) \<and>
     (\<forall>f w. attempts f w (dc_retry client f w))"

text \<open>
  A closure that leaves the object when it fails and establishes \<open>P\<close> when it succeeds does so
  under \<^verbatim>\<open>RetryOnConflict\<close> too.
\<close>

lemma attempts_effect:
  assumes "attempts f w (r, w')" and "stored w = s"
    and "\<And>w e w'. stored w = s \<Longrightarrow> f w = (Some e, w') \<Longrightarrow> stored w' = s"
    and "\<And>w w'. stored w = s \<Longrightarrow> f w = (None, w') \<Longrightarrow> P (stored w')"
  shows "(r = None \<longrightarrow> P (stored w')) \<and> (r \<noteq> None \<longrightarrow> stored w' = s)"
  using assms(1,2)
proof (induction w "(r, w')" rule: attempts.induct)
  case (last w)
  with assms(3,4) show ?case by (cases r) auto
next
  case (again w err w1)
  from assms(3) [OF again.prems again.hyps(1)] show ?case by (rule again.hyps(4))
qed

lemma field_put_get [simp]: "map_of (field_put k v m) = (map_of m)(k \<mapsto> v)"
  by (induction k v m rule: field_put.induct) auto

lemma nested_map_set [simp]: "nested_map (set_nested_map obj v k) k = Inr (Some v)"
  by (simp add: nested_map_def set_nested_map_def)

lemma nested_map_other [simp]: "k' \<noteq> k \<Longrightarrow> nested_map (set_nested_map obj v k) k' = nested_map obj k'"
  by (simp add: nested_map_def set_nested_map_def)

lemma set_nested_map_keeps [simp]:
  "uo_name (set_nested_map obj v k) = uo_name obj"
  "uo_labels (set_nested_map obj v k) = uo_labels obj"
  "uo_annotations (set_nested_map obj v k) = uo_annotations obj"
  "uo_finalizers (set_nested_map obj v k) = uo_finalizers obj"
  "uo_deletion (set_nested_map obj v k) = uo_deletion obj"
  by (simp_all add: set_nested_map_def)

lemma same_status_refl [simp]: "same_status x x"
  by (simp add: same_status_def)

lemma same_but_status_refl [simp]: "same_but_status x x"
  by (simp add: same_but_status_def)

text \<open>What one attempt to write the status does to the stored object.\<close>

definition status_written :: "json_map \<Rightarrow> uobject \<Rightarrow> uobject \<Rightarrow> bool" where
  "status_written desired old new \<longleftrightarrow>
     same_but_status new old \<and> nested_map new ''status'' = Inr (Some desired)"

lemma status_attempt_fails:
  assumes "api_object client kind namespace name stored" and "stored w = s"
    and "status_attempt client kind namespace name desired w = (Some e, w')"
  shows "stored w' = s"
  using assms unfolding status_attempt_def api_object_def
  by (force split: prod.splits sum.splits option.splits if_splits)

lemma status_attempt_succeeds:
  assumes "api_object client kind namespace name stored" and "stored w = Some old"
    and "status_attempt client kind namespace name desired w = (None, w')"
  shows "\<exists>new. stored w' = Some new \<and> status_written desired old new"
proof -
  obtain w1 where get: "dc_get client kind namespace name w = (Inr old, w1)"
    and s1: "stored w1 = Some old" and name: "uo_name old = name"
    using assms unfolding status_attempt_def api_object_def
    by (fastforce split: prod.splits sum.splits)
  show ?thesis
  proof (cases "nested_map old ''status'' = Inr (Some desired)")
    case True
    with assms(3) get s1 show ?thesis
      by (auto simp: status_attempt_def status_written_def)
  next
    case False
    let ?obj = "set_nested_map old desired ''status''"
    from False assms(3) get obtain res where
      put: "dc_update_status client kind namespace ?obj w1 = (Inr res, w')"
      by (auto simp: status_attempt_def split: prod.splits sum.splits if_splits)
    from assms(1) put name obtain old' new where "stored w1 = Some old'" "stored w' = Some new"
      "same_but_status new old'" "same_status new ?obj"
      unfolding api_object_def by (metis set_nested_map_keeps(1))
    with s1 show ?thesis
      by (auto simp: status_written_def same_status_def nested_map_def set_nested_map_def)
  qed
qed

text \<open>
  What \<^verbatim>\<open>syncNestedMap\<close> leaves in the named field: the desired value if there is one, else what was
  there; nothing else moves.
\<close>

definition field_synced :: "json_map option \<Rightarrow> uobject \<Rightarrow> uobject \<Rightarrow> string \<Rightarrow> bool" where
  "field_synced desired old new name \<longleftrightarrow>
     map_of (uo_fields new) name =
       (case desired of None \<Rightarrow> map_of (uo_fields old) name | Some v \<Rightarrow> Some (JObject v))"

lemma nested_map_Some: "nested_map obj name = Inr (Some v) \<longleftrightarrow> map_of (uo_fields obj) name = Some (JObject v)"
  by (auto simp: nested_map_def split: option.splits json.splits)

lemma sync_nested_map_effect:
  assumes "sync_nested_map old desired name = Inr (changed, new)"
  shows "field_synced desired old new name" and "\<not> changed \<Longrightarrow> new = old"
    and "k \<noteq> name \<Longrightarrow> map_of (uo_fields new) k = map_of (uo_fields old) k"
    and "uo_name new = uo_name old" and "uo_labels new = uo_labels old"
    and "uo_annotations new = uo_annotations old" and "uo_deletion new = uo_deletion old"
    and "uo_finalizers new = uo_finalizers old"
  using assms
  by (auto simp: sync_nested_map_def field_synced_def set_nested_map_def nested_map_Some
      split: option.splits sum.splits if_splits)

text \<open>What one attempt to write metadata and spec does to the stored object.\<close>

definition metadata_written ::
  "uobject \<Rightarrow> json_map option \<Rightarrow> json_map option \<Rightarrow> uobject \<Rightarrow> uobject \<Rightarrow> bool" where
  "metadata_written desired spec common old new \<longleftrightarrow>
     (if uo_deletion old \<noteq> None then new = old
      else same_status new old \<and> uo_deletion new = uo_deletion old \<and> uo_finalizers new = uo_finalizers old
        \<and> uo_labels new = uo_labels desired \<and> uo_annotations new = uo_annotations desired
        \<and> field_synced spec old new ''spec'' \<and> field_synced common old new ''commonData'')"

text \<open>Setting labels or annotations only when they differ is setting them.\<close>

lemma set_when_different:
  "(if uo_labels obj \<noteq> l then obj\<lparr>uo_labels := l\<rparr> else obj) = obj\<lparr>uo_labels := l\<rparr>"
  "(if uo_annotations obj \<noteq> l then obj\<lparr>uo_annotations := l\<rparr> else obj) = obj\<lparr>uo_annotations := l\<rparr>"
  "uo_labels obj = l \<Longrightarrow> obj\<lparr>uo_labels := l\<rparr> = obj"
  "uo_annotations obj = l \<Longrightarrow> obj\<lparr>uo_annotations := l\<rparr> = obj"
  by (cases obj; simp)+

lemma sync_attempt_fails:
  assumes "api_object client kind namespace name stored" and "stored w = s"
    and "sync_attempt client kind namespace name desired spec common w = (Some e, w')"
  shows "stored w' = s"
proof (cases "dc_get client kind namespace name w")
  case (Pair r w1)
  have s1: "stored w1 = s"
    using assms(1,2) Pair unfolding api_object_def by (cases r) auto
  have keep: "stored w2 = stored w1" if "dc_update client kind namespace obj w1 = (Inl err, w2)" for obj err w2
    using assms(1) that unfolding api_object_def by auto
  show ?thesis
    using assms(3) s1 keep unfolding sync_attempt_def Pair Let_def
    by (auto split: sum.splits prod.splits if_splits)
qed

lemma sync_attempt_succeeds:
  assumes api: "api_object client kind namespace name stored" and "stored w = Some old"
    and run: "sync_attempt client kind namespace name desired spec common w = (None, w')"
  shows "\<exists>new. stored w' = Some new \<and> metadata_written desired spec common old new"
proof -
  obtain w1 where get: "dc_get client kind namespace name w = (Inr old, w1)"
    and s1: "stored w1 = Some old" and name: "uo_name old = name"
    using assms unfolding sync_attempt_def api_object_def
    by (fastforce split: prod.splits sum.splits)
  show ?thesis
  proof (cases "uo_deletion old")
    case (Some t)
    with run get s1 show ?thesis by (auto simp: sync_attempt_def metadata_written_def)
  next
    case None
    from run get None obtain b1 c1 b2 c2 where
      spec: "sync_nested_map old spec ''spec'' = Inr (b1, c1)" and
      common: "sync_nested_map c1 common ''commonData'' = Inr (b2, c2)"
      by (auto simp: sync_attempt_def split: sum.splits prod.splits)
    note e1 = sync_nested_map_effect [OF spec] and e2 = sync_nested_map_effect [OF common]
    define c4 where "c4 = c2\<lparr>uo_labels := uo_labels desired, uo_annotations := uo_annotations desired\<rparr>"
    have fields: "field_synced spec old c4 ''spec''" "field_synced common old c4 ''commonData''"
      "map_of (uo_fields c4) ''status'' = map_of (uo_fields old) ''status''"
      "uo_deletion c4 = uo_deletion old" "uo_finalizers c4 = uo_finalizers old" "uo_name c4 = name"
      using e1(1) e1(3) e2(1) e2(3) e1(4,7,8) e2(4,7,8) name
      by (simp_all add: c4_def field_synced_def split: option.splits)
    have "w' = w1 \<and> c4 = old \<or> (\<exists>res. dc_update client kind namespace c4 w1 = (Inr res, w'))"
      using run e1(2) e2(2) unfolding sync_attempt_def get
      by (simp add: None spec common c4_def Let_def set_when_different split: prod.splits sum.splits if_splits)
    then show ?thesis
    proof
      assume "w' = w1 \<and> c4 = old"
      with s1 None fields(1,2) show ?thesis
        by (auto simp: metadata_written_def c4_def)
    next
      assume "\<exists>res. dc_update client kind namespace c4 w1 = (Inr res, w')"
      with api fields(6) obtain old' where "stored w1 = Some old'" "put_effect c4 old' (stored w')"
        unfolding api_object_def by metis
      with s1 None obtain new where "stored w' = Some new" "put_stored c4 old new"
        by (auto simp: put_effect_def)
      with None fields show ?thesis
        by (auto simp: metadata_written_def c4_def put_stored_def same_but_status_def field_synced_def)
    qed
  qed
qed

subsection \<open>What the two writes do to the stored object\<close>

lemma reread_keeps:
  assumes "api_object client kind namespace name stored"
    and "dc_get client kind namespace name w = (r, w')"
  shows "stored w' = stored w"
  using assms unfolding api_object_def by (cases r) auto

lemma reread_found:
  assumes "api_object client kind namespace name stored"
    and "dc_get client kind namespace name w = (Inr obj, w')"
  shows "stored w' = Some obj"
  using assms unfolding api_object_def by auto

lemma status_retry_effect:
  assumes api: "api_object client kind namespace name stored" and "stored w = Some old"
    and "dc_retry client (status_attempt client kind namespace name desired) w = (r, w')"
  shows "(r = None \<longrightarrow> (\<exists>new. stored w' = Some new \<and> status_written desired old new))
       \<and> (r \<noteq> None \<longrightarrow> stored w' = Some old)"
proof -
  have att: "attempts (status_attempt client kind namespace name desired) w (r, w')"
    using api assms(3) unfolding api_object_def by metis
  show ?thesis
    by (rule attempts_effect [where stored = stored and s = "Some old"
          and P = "\<lambda>s. \<exists>new. s = Some new \<and> status_written desired old new", OF att assms(2)])
      (use status_attempt_fails [OF api] status_attempt_succeeds [OF api] in blast)+
qed

lemma sync_retry_effect:
  assumes api: "api_object client kind namespace name stored" and "stored w = Some old"
    and "dc_retry client (sync_attempt client kind namespace name desired spec common) w = (r, w')"
  shows "(r = None \<longrightarrow> (\<exists>new. stored w' = Some new \<and> metadata_written desired spec common old new))
       \<and> (r \<noteq> None \<longrightarrow> stored w' = Some old)"
proof -
  have att: "attempts (sync_attempt client kind namespace name desired spec common) w (r, w')"
    using api assms(3) unfolding api_object_def by metis
  show ?thesis
    by (rule attempts_effect [where stored = stored and s = "Some old"
          and P = "\<lambda>s. \<exists>new. s = Some new \<and> metadata_written desired spec common old new", OF att assms(2)])
      (use sync_attempt_fails [OF api] sync_attempt_succeeds [OF api] in blast)+
qed

subsection \<open>Namespaces the adapter manages\<close>

text \<open>
  Deletion on the server is not immediate: an accepted delete may only mark what is stored (a namespace
  becomes \<^verbatim>\<open>Terminating\<close> until its contents are gone, an object waits for its finalizers), and what is marked
  goes away at some later moment, by nobody's call. \<open>fades\<close> is what may happen to a stored thing while nobody
  writes it, \<open>departing\<close> says that it is marked or gone.
\<close>

definition fades :: "('a \<Rightarrow> bool) \<Rightarrow> 'a option \<Rightarrow> 'a option \<Rightarrow> bool" where
  "fades marked s t \<longleftrightarrow> t = s \<or> (t = None \<and> (\<exists>x. s = Some x \<and> marked x))"

definition departing :: "('a \<Rightarrow> bool) \<Rightarrow> 'a option \<Rightarrow> bool" where
  "departing marked s \<longleftrightarrow> (\<forall>x. s = Some x \<longrightarrow> marked x)"

lemma fades_refl [simp]: "fades marked s s"
  by (simp add: fades_def)

lemma fades_trans: "fades marked s t \<Longrightarrow> fades marked t u \<Longrightarrow> fades marked s u"
  by (auto simp: fades_def)

lemma fades_live [simp]: "\<not> marked x \<Longrightarrow> fades marked (Some x) t \<longleftrightarrow> t = Some x"
  by (auto simp: fades_def)

lemma fades_departing: "fades marked s t \<Longrightarrow> departing marked t \<longleftrightarrow> departing marked s"
  by (auto simp: fades_def departing_def)

text \<open>
  One namespace as the server keeps it, with no other writer: its labels, and whether it is terminating. It
  can be created where there is none (any more), a read or a refused write leaves it, and an accepted delete
  removes it or marks it as terminating, when reads still find it and \<^verbatim>\<open>Create\<close> still says \<^verbatim>\<open>AlreadyExists\<close>.
\<close>

type_synonym stored_namespace = "(strmap \<times> bool) option"

definition namespace_server :: "'w clientset \<Rightarrow> string \<Rightarrow> ('w \<Rightarrow> stored_namespace) \<Rightarrow> bool" where
  "namespace_server c name ns \<longleftrightarrow>
     (\<forall>labels w w'. cs_ns_create c name labels w = (None, w') \<longrightarrow>
        fades snd (ns w) None \<and> ns w' = Some (labels, False)) \<and>
     (\<forall>labels w err w'. cs_ns_create c name labels w = (Some err, w') \<longrightarrow>
        fades snd (ns w) (ns w') \<and> (kube_is IsAlreadyExists err \<longrightarrow> ns w \<noteq> None)) \<and>
     (\<forall>w w'. cs_ns_delete c name w = (None, w') \<longrightarrow>
        (\<exists>l t. ns w = Some (l, t) \<and> (ns w' = None \<or> ns w' = Some (l, True)))) \<and>
     (\<forall>w err w'. cs_ns_delete c name w = (Some err, w') \<longrightarrow>
        fades snd (ns w) (ns w') \<and> (kube_is IsNotFound err \<longrightarrow> ns w' = None)) \<and>
     (\<forall>w l w'. cs_ns_get c name w = (Inr l, w') \<longrightarrow>
        fades snd (ns w) (ns w') \<and> (\<exists>t. ns w = Some (l, t))) \<and>
     (\<forall>w err w'. cs_ns_get c name w = (Inl err, w') \<longrightarrow>
        fades snd (ns w) (ns w') \<and> (kube_is IsNotFound err \<longrightarrow> ns w' = None))"

text \<open>The objects a client writes are not namespaces.\<close>

definition writes_elsewhere :: "'w dyn_client \<Rightarrow> ('w \<Rightarrow> stored_namespace) \<Rightarrow> bool" where
  "writes_elsewhere client ns \<longleftrightarrow>
     (\<forall>kind namespace obj w. fades snd (ns w) (ns (snd (dc_create client kind namespace obj w)))) \<and>
     (\<forall>kind namespace name version w.
        fades snd (ns w) (ns (snd (dc_delete client kind namespace name version w)))) \<and>
     (\<forall>options kind namespace w. fades snd (ns w) (ns (snd (dc_list client options kind namespace w))))"

lemma create_writes_elsewhere:
  assumes "writes_elsewhere (ad_client a) ns" and "adapter_create a m w = (r, w')"
  shows "fades snd (ns w) (ns w')"
proof -
  have "fades snd (ns w) (ns w1)" if "dc_create (ad_client a) kind namespace obj w = (x, w1)"
    for kind namespace obj x w1
    using assms(1) that unfolding writes_elsewhere_def by (metis snd_conv)
  with assms(2) show ?thesis
    unfolding adapter_create_def by (auto split: sum.splits prod.splits)
qed

lemma delete_writes_elsewhere:
  assumes "writes_elsewhere (ad_client a) ns" and "adapter_delete a m w = (r, w')"
  shows "fades snd (ns w) (ns w')"
proof -
  have "fades snd (ns w) (ns w1)"
    if "dc_delete (ad_client a) kind namespace name version w = (x, w1)" for kind namespace name version x w1
    using assms(1) that unfolding writes_elsewhere_def by (metis snd_conv)
  with assms(2) show ?thesis
    unfolding adapter_delete_def by (auto split: sum.splits prod.splits option.splits)
qed

text \<open>Listing for children leaves whatever a single listing leaves.\<close>

lemma child_list_keeps:
  assumes "\<And>kind w. fades marked (s w) (s (snd (dc_list client (no_options\<lparr>lo_limit := 1\<rparr>) kind namespace w)))"
  shows "namespace_has_child_resources client namespace kinds w = (r, w') \<Longrightarrow> fades marked (s w) (s w')"
proof (induction kinds arbitrary: w)
  case (Cons kind kinds)
  obtain x w1 where list: "dc_list client (no_options\<lparr>lo_limit := 1\<rparr>) kind namespace w = (x, w1)" by fastforce
  with assms [of w kind] have "fades marked (s w) (s w1)" by simp
  with Cons list fades_trans [OF this] show ?case by (auto split: sum.splits if_splits prod.splits)
qed simp

text \<open>The labels a child namespace is created with are the ones its ownership is judged by.\<close>

lemma child_labels_owned:
  assumes "child_namespace_for sha3 kind tenant workspace name = (ns, labels)"
  shows "list_all (\<lambda>(k, v). map_get labels k = Some v) labels"
  using assms
  by (auto simp: child_namespace_for_def child_namespace_labels_def Let_def internal_tenant_label_def
      internal_workspace_label_def internal_network_label_def
      split: child_namespace_kind.splits if_splits)

lemma create_namespace_effect:
  assumes "namespace_server c name ns" and "create_namespace (Some c) name labels w = (r, w')"
  shows "r = Inr True \<Longrightarrow> fades snd (ns w) None \<and> ns w' = Some (labels, False)"
    and "r = Inr False \<Longrightarrow> ns w \<noteq> None \<and> fades snd (ns w) (ns w')"
    and "r = Inl err \<Longrightarrow> fades snd (ns w) (ns w')"
  using assms unfolding create_namespace_def namespace_server_def
  by (auto split: prod.splits option.splits if_splits)

lemma namespace_server_delete:
  assumes "namespace_server c name ns" and "cs_ns_delete c name w = (r, w')"
  shows "if r = None then ns w \<noteq> None \<and> departing snd (ns w')
    else fades snd (ns w) (ns w') \<and> (kube_is IsNotFound (the r) \<longrightarrow> ns w' = None)"
proof (cases r)
  case None
  with assms obtain l t where "ns w = Some (l, t)" "ns w' = None \<or> ns w' = Some (l, True)"
    unfolding namespace_server_def by blast
  with None show ?thesis by (auto simp: departing_def)
qed (use assms in \<open>auto simp: namespace_server_def\<close>)

lemma delete_namespace_effect:
  assumes "namespace_server c name ns" and "delete_namespace (Some c) name w = (r, w')" and "name \<noteq> []"
  shows "departing snd (ns w') \<or> fades snd (ns w) (ns w')" and "r = None \<Longrightarrow> departing snd (ns w')"
proof -
  obtain x v where del: "cs_ns_delete c name w = (x, v)" by fastforce
  note effect = namespace_server_delete [OF assms(1) del]
  show "departing snd (ns w') \<or> fades snd (ns w) (ns w')" and "r = None \<Longrightarrow> departing snd (ns w')"
    using assms(2,3) effect
    by (auto simp: delete_namespace_def del departing_def split: option.splits if_splits)
qed

lemma namespace_server_read:
  assumes "namespace_server c name ns" and "cs_ns_get c name w = (Inr l, w')"
  shows "\<exists>t. ns w = Some (l, t)"
  using assms unfolding namespace_server_def by blast

lemma owned_by_effect:
  assumes "namespace_server c name ns" and "namespace_owned_by (Some c) name labels w = (r, w')"
  shows "fades snd (ns w) (ns w')"
    and "r = Inr owned \<Longrightarrow> (\<exists>l t. ns w = Some (l, t) \<and> owned = list_all (\<lambda>(k, v). map_get l k = Some v) labels)
      \<or> (\<not> owned \<and> ns w' = None)"
proof -
  obtain x v where get: "cs_ns_get c name w = (x, v)" by fastforce
  with assms(2) have "w' = v" by (auto simp: namespace_owned_by_def split: sum.splits if_splits)
  moreover have "fades snd (ns w) (ns v)" using assms(1) get unfolding namespace_server_def by (cases x) blast+
  ultimately show "fades snd (ns w) (ns w')" by simp
  assume "r = Inr owned"
  then show "(\<exists>l t. ns w = Some (l, t) \<and> owned = list_all (\<lambda>(k, v). map_get l k = Some v) labels)
      \<or> (\<not> owned \<and> ns w' = None)"
  proof (cases x)
    case (Inl err)
    with \<open>r = Inr owned\<close> get assms(2) \<open>w' = v\<close> have "kube_is IsNotFound err" "\<not> owned"
      by (auto simp: namespace_owned_by_def split: if_splits)
    with assms(1) get Inl \<open>w' = v\<close> show ?thesis by (simp add: namespace_server_def)
  next
    case (Inr l)
    with \<open>r = Inr owned\<close> get assms(2) have "owned = list_all (\<lambda>(k, v). map_get l k = Some v) labels"
      by (auto simp: namespace_owned_by_def)
    with namespace_server_read [OF assms(1)] get Inr show ?thesis by blast
  qed
qed

subsection \<open>Correctness of the adapter\<close>

text \<open>
  A server that keeps one object: the world of the first witnesses.
\<close>

definition restore_status :: "uobject \<Rightarrow> uobject \<Rightarrow> uobject" where
  "restore_status old obj = obj\<lparr>uo_fields := (case map_of (uo_fields old) ''status'' of
      None \<Rightarrow> filter (\<lambda>(k, v). k \<noteq> ''status'') (uo_fields obj)
    | Some v \<Rightarrow> field_put ''status'' v (uo_fields obj))\<rparr>"

definition one_object_client :: "uobject option dyn_client" where
  "one_object_client =
    \<lparr>dc_get = (\<lambda>kind namespace name w. case w of
        Some obj \<Rightarrow> if uo_name obj = name then (Inr obj, w)
                    else (Inl (KubeError [IsNotFound] True None ''not found''), w)
      | None \<Rightarrow> (Inl (KubeError [IsNotFound] True None ''not found''), w)),
     dc_list = (\<lambda>options kind namespace w. (Inr (case w of None \<Rightarrow> [] | Some obj \<Rightarrow> [obj], []), w)),
     dc_create = (\<lambda>kind namespace obj w. (Inl (KubeError [IsForbidden] True None ''forbidden''), w)),
     dc_update = (\<lambda>kind namespace obj w. case w of
        None \<Rightarrow> (Inl (KubeError [IsNotFound] True None ''not found''), w)
      | Some old \<Rightarrow>
          if uo_deletion old \<noteq> None \<and> uo_finalizers obj = [] then (Inr obj, None)
          else (Inr (restore_status old (obj\<lparr>uo_deletion := uo_deletion old\<rparr>)),
                Some (restore_status old (obj\<lparr>uo_deletion := uo_deletion old\<rparr>)))),
     dc_update_status = (\<lambda>kind namespace obj w. case w of
        None \<Rightarrow> (Inl (KubeError [IsNotFound] True None ''not found''), w)
      | Some old \<Rightarrow> (Inr (restore_status obj old), Some (restore_status obj old))),
     dc_delete = (\<lambda>kind namespace name version w. (None, w)),
     dc_retry = (\<lambda>f w. f w)\<rparr>"

lemma map_of_drop_key: "map_of (filter (\<lambda>(k, v). k \<noteq> x) m) k = (if k = x then None else map_of m k)"
  by (induction m) auto

lemma restore_status_same:
  "same_but_status (restore_status old obj) obj" "same_status (restore_status old obj) old"
  "uo_name (restore_status old obj) = uo_name obj"
  by (auto simp: restore_status_def same_but_status_def same_status_def map_of_drop_key
      split: option.splits)

lemma one_object_put:
  "put_effect obj old (if uo_deletion old \<noteq> None \<and> uo_finalizers obj = [] then None
     else Some (restore_status old (obj\<lparr>uo_deletion := uo_deletion old\<rparr>)))"
  by (simp add: put_effect_def put_stored_def restore_status_same)

lemma one_object_update:
  assumes "dc_update one_object_client kind namespace obj w = (Inr res, w')"
  shows "\<exists>old. w = Some old \<and> put_effect obj old w'"
proof (cases w)
  case (Some old)
  with one_object_put [of obj old] assms show ?thesis
    by (auto simp: one_object_client_def split: if_splits)
qed (use assms in \<open>simp add: one_object_client_def\<close>)

lemma one_object_client_serves: "api_object one_object_client kind namespace name (\<lambda>w. w)"
  unfolding api_object_def using one_object_update
  by (auto simp: one_object_client_def restore_status_same intro: attempts.last split: option.splits if_splits)

text \<open>
  C29. \<^verbatim>\<open>UpdateStatus\<close> writes the status and nothing else. Whatever the object's other fields, labels,
  annotations and finalizers are, they are what they were; when it reports success the stored status is the
  one asked for and the result is the stored object read back; when it reports an error the object
  is untouched, unless the write went through and only reading it back failed.
\<close>

theorem update_status_writes_status_only:
  assumes api: "api_object (ad_client a) (ad_gvr a) namespace (ad_name a m) stored"
    and conv: "ad_to_k8s a m = Inr uobj" "nested_map uobj ''status'' = Inr (Some desired)"
    and ns: "resolve_namespace (ad_sha3 a) (ad_scope a m) = Inr namespace"
    and old: "stored w = Some old"
    and run: "adapter_update_status a m w = (res, w')"
  shows "case res of
      Inr r \<Rightarrow> \<exists>new. stored w' = Some new \<and> status_written desired old new \<and> ad_from_k8s a new = Inr r
    | Inl err \<Rightarrow> stored w' = Some old
        \<or> (\<exists>new. stored w' = Some new \<and> status_written desired old new)"
proof -
  let ?f = "status_attempt (ad_client a) (ad_gvr a) namespace (ad_name a m) desired"
  obtain r1 w1 where retry: "dc_retry (ad_client a) ?f w = (r1, w1)" by fastforce
  obtain r2 w2 where get: "dc_get (ad_client a) (ad_gvr a) namespace (ad_name a m) w1 = (r2, w2)"
    by fastforce
  note effect = status_retry_effect [OF api old retry]
  from run show ?thesis
    using effect reread_keeps [OF api get] reread_found [OF api] get
    unfolding adapter_update_status_def
    by (cases r1; cases r2) (auto simp: conv ns retry split: sum.splits)
qed

definition volume_uobject :: "string \<Rightarrow> uobject" where
  "volume_uobject state = \<lparr>uo_name = ''v'', uo_labels = [(''a'', ''1'')], uo_annotations = [], uo_finalizers = [],
     uo_deletion = None, uo_version = ''7'',
     uo_fields = [(''spec'', JObject [(''sizeGB'', JInt 10)]), (''status'', JObject [(''state'', JString state)])]\<rparr>"

definition text_adapter :: "(string, uobject option) adapter" where
  "text_adapter = \<lparr>ad_client = one_object_client,
     ad_gvr = \<lparr>gvr_group = ''g'', gvr_version = ''v1'', gvr_resource = ''block-storages''\<rparr>,
     ad_to_k8s = (\<lambda>state. Inr (volume_uobject state)),
     ad_from_k8s = (\<lambda>obj. case nested_map obj ''status'' of
         Inr (Some m) \<Rightarrow> (case map_of m ''state'' of Some (JString s) \<Rightarrow> Inr s | _ \<Rightarrow> Inl (GoError ''state''))
       | _ \<Rightarrow> Inl (GoError ''status'')),
     ad_name = (\<lambda>state. ''v''), ad_version = (\<lambda>state. []),
     ad_scope = (\<lambda>state. PlainScope \<lparr>sc_tenant = ''t'', sc_workspace = ''w''\<rparr>),
     ad_sha3 = (\<lambda>s. s)\<rparr>"

lemma text_adapter_serves:
  "api_object (ad_client text_adapter) (ad_gvr text_adapter) namespace (ad_name text_adapter m) (\<lambda>w. w)"
  by (simp add: text_adapter_def one_object_client_serves)

lemma update_status_writes_status_only_witness:
  "case adapter_update_status text_adapter ''active'' (Some (volume_uobject ''creating'')) of (res, w') \<Rightarrow>
     res = Inr ''active'' \<and> (\<exists>new. w' = Some new
        \<and> status_written [(''state'', JString ''active'')] (volume_uobject ''creating'') new)"
proof -
  let ?w = "Some (volume_uobject ''creating'')"
  obtain res w' where run: "adapter_update_status text_adapter ''active'' ?w = (res, w')" by fastforce
  have "res = Inr ''active''"
    using run by (simp add: adapter_update_status_def text_adapter_def volume_uobject_def nested_map_def
        resolve_namespace_def one_object_client_def status_attempt_def restore_status_def set_nested_map_def)
  moreover have "case res of
      Inr r \<Rightarrow> \<exists>new. w' = Some new
        \<and> status_written [(''state'', JString ''active'')] (volume_uobject ''creating'') new
        \<and> ad_from_k8s text_adapter new = Inr r
    | Inl err \<Rightarrow> w' = ?w
        \<or> (\<exists>new. w' = Some new
            \<and> status_written [(''state'', JString ''active'')] (volume_uobject ''creating'') new)"
    by (rule update_status_writes_status_only [where uobj = "volume_uobject ''active''", OF text_adapter_serves _ _ _ refl run])
      (simp_all add: text_adapter_def volume_uobject_def nested_map_def resolve_namespace_def)
  ultimately show ?thesis using run by auto
qed

text \<open>
  What a successful \<^verbatim>\<open>Update\<close> leaves of the stored object. With a version in the resource's metadata
  it is one PUT of the converted object.
\<close>

definition update_effect ::
  "string \<Rightarrow> uobject \<Rightarrow> json_map option \<Rightarrow> json_map option \<Rightarrow> uobject \<Rightarrow> uobject option \<Rightarrow> bool" where
  "update_effect version uobj spec common old after \<longleftrightarrow>
     (if version = [] then \<exists>new. after = Some new \<and> metadata_written uobj spec common old new
      else put_effect uobj old after)"

text \<open>
  C30. \<^verbatim>\<open>Update\<close> never writes the status. Without a version, labels and annotations become the desired
  ones, \<^verbatim>\<open>spec\<close> and \<^verbatim>\<open>commonData\<close> become the desired ones where the desired object has them and stay
  otherwise, finalizers and status stay, and an object that is being deleted is not written at all,
  though the call still succeeds. With a version the object is replaced whatever state it is in: labels,
  annotations, finalizers and all fields but the status become those of the converted resource, so that an
  object being deleted disappears when the converted resource has no finalizers. A success returns the
  stored object read back. On an error the object is untouched, unless only reading it back failed, as it
  does when the write made it disappear.
\<close>

theorem update_writes_metadata_and_spec:
  assumes api: "api_object (ad_client a) (ad_gvr a) namespace (ad_name a m) stored"
    and conv: "ad_to_k8s a m = Inr uobj" "uo_name uobj = ad_name a m" "nested_map uobj ''spec'' = Inr spec"
      "nested_map uobj ''commonData'' = Inr common"
    and ns: "resolve_namespace (ad_sha3 a) (ad_scope a m) = Inr namespace"
    and old: "stored w = Some old"
    and run: "adapter_update a m w = (res, w')"
  shows "case res of
      Inr r \<Rightarrow> update_effect (ad_version a m) uobj spec common old (stored w')
                  \<and> (\<exists>new. stored w' = Some new \<and> ad_from_k8s a new = Inr r)
    | Inl err \<Rightarrow> stored w' = Some old
        \<or> update_effect (ad_version a m) uobj spec common old (stored w')"
proof -
  define putting where "putting = (if ad_version a m = []
    then dc_retry (ad_client a) (sync_attempt (ad_client a) (ad_gvr a) namespace (ad_name a m) uobj spec common) w
    else (case dc_update (ad_client a) (ad_gvr a) namespace uobj w of (Inl e, v) \<Rightarrow> (Some e, v) | (Inr u, v) \<Rightarrow> (None, v)))"
  obtain r1 w1 where written: "putting = (r1, w1)" by fastforce
  have effect: "if r1 = None then update_effect (ad_version a m) uobj spec common old (stored w1)
      else stored w1 = Some old"
  proof (cases "ad_version a m = []")
    case True
    with written have "dc_retry (ad_client a)
        (sync_attempt (ad_client a) (ad_gvr a) namespace (ad_name a m) uobj spec common) w = (r1, w1)"
      by (simp add: putting_def)
    from sync_retry_effect [OF api old this] True show ?thesis by (simp add: update_effect_def)
  next
    case False
    with written api old conv(2) show ?thesis unfolding putting_def update_effect_def api_object_def
      by (fastforce split: prod.splits sum.splits)
  qed
  obtain r2 w2 where get: "dc_get (ad_client a) (ad_gvr a) namespace (ad_name a m) w1 = (r2, w2)"
    by fastforce
  have "res = (case r1 of Some e \<Rightarrow> res | None \<Rightarrow> (case r2 of Inl e \<Rightarrow> res | Inr u \<Rightarrow>
        (case ad_from_k8s a u of Inl e \<Rightarrow> res | Inr r \<Rightarrow> Inr r))) \<and> w' = (if r1 = None then w2 else w1)
      \<and> (\<forall>r. res = Inr r \<longrightarrow> r1 = None \<and> (\<exists>u. r2 = Inr u \<and> ad_from_k8s a u = Inr r))"
    using run written get unfolding adapter_update_def update_metadata_and_spec_retry_def putting_def
    by (auto simp: conv ns split: prod.splits sum.splits option.splits if_splits)
  moreover have "stored w2 = stored w1" by (rule reread_keeps [OF api get])
  moreover have "stored w2 = Some u" if "r2 = Inr u" for u
    using reread_found [OF api] get that by simp
  ultimately show ?thesis using effect by (cases r1; cases res) fastforce+
qed

text \<open>An unversioned write, and a versioned one of a marked object.\<close>

lemma update_writes_metadata_and_spec_witness:
  "(case adapter_update text_adapter ''active'' (Some ((volume_uobject ''creating'')\<lparr>uo_labels := []\<rparr>)) of
     (res, w') \<Rightarrow> res = Inr ''creating'' \<and> (\<exists>new. w' = Some new \<and> metadata_written (volume_uobject ''active'')
       (Some [(''sizeGB'', JInt 10)]) None ((volume_uobject ''creating'')\<lparr>uo_labels := []\<rparr>) new)) \<and>
   (case adapter_update (text_adapter\<lparr>ad_version := \<lambda>s. ''7''\<rparr>) ''active''
        (Some ((volume_uobject ''creating'')\<lparr>uo_deletion := Some 1, uo_finalizers := [''f'']\<rparr>)) of
     (res, w') \<Rightarrow> w' = None)"
proof
  let ?old = "(volume_uobject ''creating'')\<lparr>uo_labels := []\<rparr>"
  obtain res w' where run: "adapter_update text_adapter ''active'' (Some ?old) = (res, w')" by fastforce
  have "res = Inr ''creating''"
    using run by (simp add: adapter_update_def update_metadata_and_spec_retry_def text_adapter_def
        volume_uobject_def nested_map_def resolve_namespace_def one_object_client_def sync_attempt_def
        sync_nested_map_def restore_status_def Let_def)
  moreover have "case res of
      Inr r \<Rightarrow> update_effect (ad_version text_adapter ''active'') (volume_uobject ''active'')
         (Some [(''sizeGB'', JInt 10)]) None ?old w' \<and> (\<exists>new. w' = Some new \<and> ad_from_k8s text_adapter new = Inr r)
    | Inl err \<Rightarrow> w' = Some ?old \<or> update_effect (ad_version text_adapter ''active'') (volume_uobject ''active'')
         (Some [(''sizeGB'', JInt 10)]) None ?old w'"
    by (rule update_writes_metadata_and_spec [OF text_adapter_serves _ _ _ _ _ refl run])
      (simp_all add: text_adapter_def volume_uobject_def nested_map_def resolve_namespace_def)
  ultimately show "case adapter_update text_adapter ''active'' (Some ?old) of
     (res, w') \<Rightarrow> res = Inr ''creating'' \<and> (\<exists>new. w' = Some new \<and> metadata_written (volume_uobject ''active'')
       (Some [(''sizeGB'', JInt 10)]) None ?old new)"
    using run by (auto simp: update_effect_def text_adapter_def)
next
  let ?a = "text_adapter\<lparr>ad_version := \<lambda>s. ''7''\<rparr>"
  let ?old = "(volume_uobject ''creating'')\<lparr>uo_deletion := Some 1, uo_finalizers := [''f'']\<rparr>"
  obtain res w' where run: "adapter_update ?a ''active'' (Some ?old) = (res, w')" by fastforce
  have "w' \<noteq> Some ?old"
    using run by (auto simp: adapter_update_def text_adapter_def volume_uobject_def resolve_namespace_def
        one_object_client_def Let_def)
  moreover have "case res of
      Inr r \<Rightarrow> update_effect (ad_version ?a ''active'') (volume_uobject ''active'')
         (Some [(''sizeGB'', JInt 10)]) None ?old w' \<and> (\<exists>new. w' = Some new \<and> ad_from_k8s ?a new = Inr r)
    | Inl err \<Rightarrow> w' = Some ?old \<or> update_effect (ad_version ?a ''active'') (volume_uobject ''active'')
         (Some [(''sizeGB'', JInt 10)]) None ?old w'"
    by (rule update_writes_metadata_and_spec [where stored = "\<lambda>w. w" and namespace = "compute_namespace (\<lambda>s. s) \<lparr>sc_tenant = ''t'', sc_workspace = ''w''\<rparr>", OF _ _ _ _ _ _ refl run])
      (simp_all add: text_adapter_def one_object_client_serves volume_uobject_def nested_map_def resolve_namespace_def)
  ultimately have "update_effect ''7'' (volume_uobject ''active'') (Some [(''sizeGB'', JInt 10)]) None ?old w'"
    by (auto simp: text_adapter_def split: sum.splits)
  then have "w' = None"
    by (simp add: update_effect_def put_effect_def) (simp add: volume_uobject_def)
  with run show "case adapter_update ?a ''active'' (Some ?old) of (res, w') \<Rightarrow> w' = None" by simp
qed

text \<open>A client whose listings are given and that stores nothing.\<close>

definition forbidding_client :: "(gvr \<Rightarrow> uobject list) \<Rightarrow> 'w dyn_client" where
  "forbidding_client children =
    \<lparr>dc_get = (\<lambda>kind namespace name w. (Inl (KubeError [IsNotFound] True None ''not found''), w)),
     dc_list = (\<lambda>options kind namespace w. (Inr (if lo_limit options > 0 then take (nat (lo_limit options)) (children kind)
        else children kind, []), w)),
     dc_create = (\<lambda>kind namespace obj w. (Inl (KubeError [IsForbidden] True None ''forbidden''), w)),
     dc_update = (\<lambda>kind namespace obj w. (Inl (KubeError [IsForbidden] True None ''forbidden''), w)),
     dc_update_status = (\<lambda>kind namespace obj w. (Inl (KubeError [IsForbidden] True None ''forbidden''), w)),
     dc_delete = (\<lambda>kind namespace name version w. (None, w)),
     dc_retry = (\<lambda>f w. f w)\<rparr>"

text \<open>A small cluster for the witnesses: the owner, the namespace and the networks in it. Deleting marks.\<close>

record workspace_cluster =
  ca_owner :: "uobject option"
  ca_namespace :: stored_namespace
  ca_networks :: "uobject list"

definition marking_clientset :: "workspace_cluster clientset" where
  "marking_clientset =
    \<lparr>cs_ns_create = (\<lambda>name labels w. case ca_namespace w of
        None \<Rightarrow> (None, w\<lparr>ca_namespace := Some (labels, False)\<rparr>)
      | Some s \<Rightarrow> (Some (KubeError [IsAlreadyExists] True None ''already exists''), w)),
     cs_ns_delete = (\<lambda>name w. case ca_namespace w of
        None \<Rightarrow> (Some (KubeError [IsNotFound] True None ''not found''), w)
      | Some (l, t) \<Rightarrow> (None, w\<lparr>ca_namespace := Some (l, True)\<rparr>)),
     cs_ns_get = (\<lambda>name w. case ca_namespace w of
        None \<Rightarrow> (Inl (KubeError [IsNotFound] True None ''not found''), w)
      | Some (l, t) \<Rightarrow> (Inr l, w))\<rparr>"

definition cluster_client :: "(go_error + uobject) \<Rightarrow> workspace_cluster dyn_client" where
  "cluster_client created =
    \<lparr>dc_get = (\<lambda>kind namespace name w. (case ca_owner w of
        None \<Rightarrow> Inl (KubeError [IsNotFound] True None ''not found'') | Some u \<Rightarrow> Inr u, w)),
     dc_list = (\<lambda>options kind namespace w. (Inr (ca_networks w, []), w)),
     dc_create = (\<lambda>kind namespace obj w. (created, w)),
     dc_update = (\<lambda>kind namespace obj w. (Inl (KubeError [IsForbidden] True None ''forbidden''), w)),
     dc_update_status = (\<lambda>kind namespace obj w. (Inl (KubeError [IsForbidden] True None ''forbidden''), w)),
     dc_delete = (\<lambda>kind namespace name version w. case ca_owner w of
        None \<Rightarrow> (Some (KubeError [IsNotFound] True None ''not found''), w)
      | Some u \<Rightarrow> (None, w\<lparr>ca_owner := Some (u\<lparr>uo_deletion := Some 1\<rparr>)\<rparr>)),
     dc_retry = (\<lambda>f w. f w)\<rparr>"

definition text_manager :: "(go_error + uobject) \<Rightarrow> (string, workspace_cluster) managing_adapter" where
  "text_manager created =
    \<lparr>ad_client = cluster_client created,
     ad_gvr = \<lparr>gvr_group = ''g'', gvr_version = ''v1'', gvr_resource = ''workspaces''\<rparr>,
     ad_to_k8s = (\<lambda>state. Inr (volume_uobject state)), ad_from_k8s = (\<lambda>obj. Inr (uo_name obj)),
     ad_name = (\<lambda>name. name), ad_version = (\<lambda>name. []),
     ad_scope = (\<lambda>name. PlainScope \<lparr>sc_tenant = ''t'', sc_workspace = []\<rparr>),
     ad_sha3 = (\<lambda>s. s), ma_clientset = Some marking_clientset,
     ma_child_namespace = WorkspaceChildren,
     ma_child_gvrs = [\<lparr>gvr_group = ''g'', gvr_version = ''v1'', gvr_resource = ''networks''\<rparr>],
     ma_tenant = (\<lambda>name. ''t''), ma_workspace = (\<lambda>name. [])\<rparr>"

definition text_labels :: strmap where
  "text_labels = [(internal_tenant_label, ''t''), (internal_workspace_label, ''ws'')]"

lemma marking_clientset_serves: "namespace_server marking_clientset name ca_namespace"
  unfolding namespace_server_def marking_clientset_def by (auto split: option.splits)

lemma cluster_client_elsewhere: "writes_elsewhere (cluster_client created) ca_namespace"
  by (simp add: writes_elsewhere_def cluster_client_def split: option.split)

lemma text_manager_child: "child_namespace_of (text_manager created) ''ws'' = (''t/ws'', text_labels)"
  by (simp add: child_namespace_of_def text_manager_def child_namespace_for_def child_namespace_labels_def
      compute_namespace_def internal_tenant_label_def internal_workspace_label_def text_labels_def Let_def)

text \<open>
  C31. Creating a workspace or a network with its children's namespace. A live namespace that existed
  before is untouched whatever happens. A success leaves a live namespace in place, unless the one of an
  earlier resource of that name was still terminating, which the server answers with \<^verbatim>\<open>AlreadyExists\<close>:
  then that one counts as the new resource's and keeps fading. When the call fails and there was no live
  namespace before, there is none afterwards, gone or on its way out, provided the server answers the
  ownership check and accepts the delete.
\<close>

theorem managing_create_rolls_back:
  assumes server: "namespace_server c child ns"
    and client: "writes_elsewhere (ad_client a) ns"
    and cs: "ma_clientset a = Some c"
    and child: "child_namespace_of a m = (child, owner_labels)" "child \<noteq> []"
    and run: "managing_create a m w = (res, w')"
  shows "(\<forall>l. ns w = Some (l, False) \<longrightarrow> ns w' = ns w)
    \<and> (\<forall>r. res = Inr r \<longrightarrow> \<not> departing snd (ns w')
         \<or> (\<exists>l. ns w = Some (l, True)) \<and> fades snd (ns w) (ns w'))
    \<and> (\<forall>err. departing snd (ns w) \<longrightarrow> res = Inl err \<longrightarrow>
         (\<forall>v l. ns v = Some (l, False) \<longrightarrow>
            fst (cs_ns_get c child v) = Inr l \<and> fst (cs_ns_delete c child v) = None) \<longrightarrow>
         departing snd (ns w'))"
proof -
  obtain r1 w1 where made: "create_namespace (Some c) child owner_labels w = (r1, w1)" by fastforce
  note made_effect = create_namespace_effect [OF server made]
  obtain r2 w2 where create: "adapter_create (adapter.truncate a) m w1 = (r2, w2)" by fastforce
  have "writes_elsewhere (ad_client (adapter.truncate a)) ns"
    using client by (simp add: adapter.truncate_def)
  then have w2: "fades snd (ns w1) (ns w2)" using create by (rule create_writes_elsewhere)
  obtain r3 w3 where owned: "namespace_owned_by (Some c) child owner_labels w2 = (r3, w3)" by fastforce
  note w3 = owned_by_effect(1) [OF server owned]
  obtain r4 w4 where gone: "delete_namespace (Some c) child w3 = (r4, w4)" by fastforce
  have labels: "list_all (\<lambda>(k, v). map_get owner_labels k = Some v) owner_labels"
    using child(1) child_labels_owned unfolding child_namespace_of_def by metis
  have w': "w' = (case r1 of Inl err \<Rightarrow> w1 | Inr made \<Rightarrow> (case r2 of Inr r \<Rightarrow> w2
      | Inl err \<Rightarrow> if made then (case r3 of Inr True \<Rightarrow> w4 | _ \<Rightarrow> w3) else w2))"
    and res: "res = (case r1 of Inl err \<Rightarrow> Inl err | Inr made \<Rightarrow> r2)"
    using run child(2) gone
    by (auto simp: managing_create_def child(1) cs made create owned
        split: sum.splits bool.splits if_splits)
  consider (refused) err where "r1 = Inl err" | (there) "r1 = Inr False" | (made) "r1 = Inr True"
    by (cases r1) auto
  then show ?thesis
  proof cases
    case refused
    with made_effect(3) w' res show ?thesis
      by (auto simp: fades_departing)
  next
    case there
    have fade: "fades snd (ns w) (ns w2)" using made_effect(2) [OF there] w2 fades_trans by metis
    have "ns w \<noteq> None" using made_effect(2) [OF there] by simp
    with fade there w' res show ?thesis
      by (auto simp: fades_departing [OF fade] split: sum.splits) (auto simp: departing_def)
  next
    case made
    have live: "fades snd (ns w) None" "ns w1 = Some (owner_labels, False)"
      using made_effect(1) [OF made] by simp_all
    with w2 have ns2: "ns w2 = Some (owner_labels, False)" by simp
    with w3 have ns3: "ns w3 = Some (owner_labels, False)" by simp
    have undone: "r3 = Inr True \<and> departing snd (ns w4)"
      if answers: "\<forall>v l. ns v = Some (l, False) \<longrightarrow>
        fst (cs_ns_get c child v) = Inr l \<and> fst (cs_ns_delete c child v) = None"
    proof -
      from answers ns2 have "fst (cs_ns_get c child w2) = Inr owner_labels" by blast
      with owned labels have "r3 = Inr True" by (auto simp: namespace_owned_by_def split: prod.splits)
      moreover from answers ns3 have "fst (cs_ns_delete c child w3) = None" by blast
      with gone child(2) have "r4 = None" by (auto simp: delete_namespace_def split: prod.splits)
      then have "departing snd (ns w4)" using delete_namespace_effect(2) [OF server gone child(2)] by simp
      ultimately show ?thesis ..
    qed
    with made w' res live(1) ns2 show ?thesis
      by (auto simp: departing_def fades_def split: sum.splits)
  qed
qed


text \<open>A refused creation without and with a namespace of that name, and one that meets a terminating one.\<close>

lemma managing_create_rolls_back_witness:
  "departing snd (ca_namespace (snd (managing_create (text_manager (Inl (KubeError [IsForbidden] True None ''forbidden'')))
       ''ws'' \<lparr>ca_owner = None, ca_namespace = None, ca_networks = []\<rparr>)))
   \<and> ca_namespace (snd (managing_create (text_manager (Inl (KubeError [IsForbidden] True None ''forbidden'')))
       ''ws'' \<lparr>ca_owner = None, ca_namespace = Some ([], False), ca_networks = []\<rparr>)) = Some ([], False)
   \<and> fades snd (Some (text_labels, True)) (ca_namespace (snd (managing_create (text_manager (Inr (volume_uobject ''s'')))
       ''ws'' \<lparr>ca_owner = None, ca_namespace = Some (text_labels, True), ca_networks = []\<rparr>)))"
proof -
  let ?e = "KubeError [IsForbidden] True None ''forbidden''"
  let ?w = "\<lambda>n. \<lparr>ca_owner = None, ca_namespace = n, ca_networks = []\<rparr>"
  have client: "writes_elsewhere (ad_client (text_manager x)) ca_namespace" for x
    by (simp add: text_manager_def cluster_client_elsewhere)
  have cs: "ma_clientset (text_manager x) = Some marking_clientset" for x by (simp add: text_manager_def)
  note facts = managing_create_rolls_back
    [OF marking_clientset_serves client [of "Inl ?e"] cs text_manager_child _ surjective_pairing]
  note adopts = managing_create_rolls_back
    [OF marking_clientset_serves client [of "Inr (volume_uobject ''s'')"] cs text_manager_child _ surjective_pairing]
  have answers: "\<forall>v l. ca_namespace v = Some (l, False) \<longrightarrow>
      fst (cs_ns_get marking_clientset ''t/ws'' v) = Inr l \<and> fst (cs_ns_delete marking_clientset ''t/ws'' v) = None"
    by (auto simp: marking_clientset_def)
  have "\<exists>err. fst (managing_create (text_manager (Inl ?e)) ''ws'' (?w None)) = Inl err"
    unfolding managing_create_def text_manager_child
    by (simp add: text_manager_def create_namespace_def marking_clientset_def
        adapter_create_def adapter.truncate_def resolve_namespace_def cluster_client_def)
  moreover have "\<exists>r. fst (managing_create (text_manager (Inr (volume_uobject ''s''))) ''ws'' (?w (Some (text_labels, True)))) = Inr r
      \<and> departing snd (ca_namespace (snd (managing_create (text_manager (Inr (volume_uobject ''s''))) ''ws''
          (?w (Some (text_labels, True))))))"
    unfolding managing_create_def text_manager_child
    by (simp add: text_manager_def create_namespace_def marking_clientset_def kube_is_def departing_def
        adapter_create_def adapter.truncate_def resolve_namespace_def cluster_client_def)
  ultimately show ?thesis
    using answers facts [where w = "?w None"] facts [where w = "?w (Some ([], False))"]
      adopts [where w = "?w (Some (text_labels, True))"]
    by (auto simp: departing_def)
qed

text \<open>
  What the exception of C31 is about: a workspace created again while the namespace of its predecessor is
  terminating succeeds and has no namespace that lasts.
\<close>

lemma create_adopts_terminating_namespace:
  "fst (managing_create (text_manager (Inr (volume_uobject ''s''))) ''ws''
       \<lparr>ca_owner = None, ca_namespace = Some (text_labels, True), ca_networks = []\<rparr>) = Inr ''v''
   \<and> ca_namespace (snd (managing_create (text_manager (Inr (volume_uobject ''s''))) ''ws''
       \<lparr>ca_owner = None, ca_namespace = Some (text_labels, True), ca_networks = []\<rparr>)) = Some (text_labels, True)"
  unfolding managing_create_def text_manager_child
  by (simp add: text_manager_def create_namespace_def marking_clientset_def kube_is_def volume_uobject_def
      adapter_create_def adapter.truncate_def resolve_namespace_def cluster_client_def)

abbreviation being_deleted :: "uobject \<Rightarrow> bool" where
  "being_deleted u \<equiv> uo_deletion u \<noteq> None"

text \<open>
  The children in a namespace and the owner, the stored workspace or network. A listing with a limit of one
  and no selector is empty exactly when there is no object of the kind; \<^verbatim>\<open>IsNotFound\<close> means that there
  is no such kind. \<open>kids\<close> may change between the calls: other clients create and delete children. An
  accepted delete of the owner removes it or marks it; nothing else the adapter does here touches it.
\<close>

definition lists_children ::
  "'w dyn_client \<Rightarrow> string \<Rightarrow> ('w \<Rightarrow> gvr \<Rightarrow> uobject list) \<Rightarrow> bool" where
  "lists_children client namespace kids \<longleftrightarrow>
     (\<forall>kind w items token w'.
        dc_list client (no_options\<lparr>lo_limit := 1\<rparr>) kind namespace w = (Inr (items, token), w') \<longrightarrow>
        (items = [] \<longleftrightarrow> kids w kind = [])) \<and>
     (\<forall>kind w err w'. dc_list client (no_options\<lparr>lo_limit := 1\<rparr>) kind namespace w = (Inl err, w') \<longrightarrow>
        kube_is IsNotFound err \<longrightarrow> kids w kind = [])"

definition keeps_owner ::
  "'w dyn_client \<Rightarrow> 'w clientset \<Rightarrow> gvr \<Rightarrow> string \<Rightarrow> string \<Rightarrow> ('w \<Rightarrow> uobject option) \<Rightarrow> bool" where
  "keeps_owner client c kind namespace name owner \<longleftrightarrow>
     (\<forall>version w r w'. dc_delete client kind namespace name version w = (r, w') \<longrightarrow>
        (if r = None then departing being_deleted (owner w')
         else fades being_deleted (owner w) (owner w'))) \<and>
     (\<forall>options kind namespace w.
        fades being_deleted (owner w) (owner (snd (dc_list client options kind namespace w)))) \<and>
     (\<forall>child w. fades being_deleted (owner w) (owner (snd (cs_ns_get c child w)))) \<and>
     (\<forall>child w. fades being_deleted (owner w) (owner (snd (cs_ns_delete c child w))))"

text \<open>Every kind has no object at the moment it is listed.\<close>

fun empty_when_listed ::
  "'w dyn_client \<Rightarrow> string \<Rightarrow> ('w \<Rightarrow> gvr \<Rightarrow> uobject list) \<Rightarrow> gvr list \<Rightarrow> 'w \<Rightarrow> bool" where
  "empty_when_listed client namespace kids [] w = True"
| "empty_when_listed client namespace kids (kind # kinds) w =
    (kids w kind = [] \<and> empty_when_listed client namespace kids kinds
       (snd (dc_list client (no_options\<lparr>lo_limit := 1\<rparr>) kind namespace w)))"

lemma child_resources_listed:
  assumes lists: "lists_children client namespace kids" and "namespace \<noteq> []"
  shows "namespace_has_child_resources client namespace kinds w = (r, w') \<Longrightarrow>
    (r = Inr False \<longrightarrow> empty_when_listed client namespace kids kinds w)
    \<and> (r = Inr True \<longrightarrow> \<not> empty_when_listed client namespace kids kinds w)"
proof (induction kinds arbitrary: w)
  case (Cons kind kinds)
  obtain x w1 where list: "dc_list client (no_options\<lparr>lo_limit := 1\<rparr>) kind namespace w = (x, w1)" by fastforce
  show ?case
  proof (cases x)
    case (Inl err)
    with lists list have "kube_is IsNotFound err \<Longrightarrow> kids w kind = []"
      unfolding lists_children_def by blast
    with Cons list Inl assms(2) show ?thesis by (auto split: if_splits)
  next
    case (Inr res)
    then obtain items token where res: "x = Inr (items, token)" by (cases res) simp
    with lists list have "items = [] \<longleftrightarrow> kids w kind = []" unfolding lists_children_def by blast
    with Cons list res assms(2) show ?thesis by (auto split: if_splits)
  qed
qed auto

lemma child_listing_answers:
  assumes "\<And>kind w. \<not> isl (fst (dc_list client (no_options\<lparr>lo_limit := 1\<rparr>) kind namespace w))"
  shows "\<not> isl (fst (namespace_has_child_resources client namespace kinds w))"
proof (induction kinds arbitrary: w)
  case (Cons kind kinds)
  obtain x w1 where list: "dc_list client (no_options\<lparr>lo_limit := 1\<rparr>) kind namespace w = (x, w1)" by fastforce
  with assms [of kind w] obtain items token where "x = Inr (items, token)" by (cases x) auto
  with Cons list show ?case by simp
qed simp

text \<open>What the calls of a deletion do to the owner.\<close>

lemma deletion_and_owner:
  assumes keeps: "keeps_owner client c kind namespace name owner"
  shows "namespace_has_child_resources client child kinds w = (r1, w') \<Longrightarrow> fades being_deleted (owner w) (owner w')"
    and "namespace_owned_by (Some c) child labels w = (r3, w') \<Longrightarrow> fades being_deleted (owner w) (owner w')"
    and "delete_namespace (Some c) child w = (r4, w') \<Longrightarrow> fades being_deleted (owner w) (owner w')"
proof -
  have read: "fades being_deleted (owner w) (owner v)" if "cs_ns_get c child w = (x, v)" for x v
    using keeps that unfolding keeps_owner_def by (metis snd_conv)
  then show "namespace_owned_by (Some c) child labels w = (r3, w') \<Longrightarrow> fades being_deleted (owner w) (owner w')"
    by (auto simp: namespace_owned_by_def split: prod.splits sum.splits if_splits)
  have removed: "fades being_deleted (owner w) (owner v)" if "cs_ns_delete c child w = (x, v)" for x v
    using keeps that unfolding keeps_owner_def by (metis snd_conv)
  then show "delete_namespace (Some c) child w = (r4, w') \<Longrightarrow> fades being_deleted (owner w) (owner w')"
    by (auto simp: delete_namespace_def split: prod.splits option.splits if_splits)
  show "namespace_has_child_resources client child kinds w = (r1, w') \<Longrightarrow> fades being_deleted (owner w) (owner w')"
    by (rule child_list_keeps) (use keeps in \<open>simp_all add: keeps_owner_def\<close>)
qed

lemma adapter_delete_and_owner:
  assumes "keeps_owner (ad_client a) c (ad_gvr a) namespace (ad_name a m) owner"
    and "resolve_namespace (ad_sha3 a) (ad_scope a m) = Inr namespace"
    and "adapter_delete a m w = (r, w')"
  shows "if r = None then departing being_deleted (owner w') else fades being_deleted (owner w) (owner w')"
proof -
  obtain x v where "dc_delete (ad_client a) (ad_gvr a) namespace (ad_name a m)
      (if ad_version a m \<noteq> [] then Some (ad_version a m) else None) w = (x, v)" by fastforce
  moreover from this have "if x = None then departing being_deleted (owner v)
      else fades being_deleted (owner w) (owner v)"
    using assms(1) unfolding keeps_owner_def by metis
  ultimately show ?thesis
    using assms(2,3) unfolding adapter_delete_def by (auto split: option.splits)
qed

text \<open>
  C28. Deleting a workspace or a network. While some kind has an object in the namespace of the children
  when it is listed, nothing is deleted, neither the owner nor the namespace, and the call fails, with a
  conflict when no listing fails. A live namespace is given up only when every kind was found empty, the
  namespace carries the labels of this very resource, and the resource itself is gone or marked for deletion;
  otherwise it stays, with its labels. A success means that the resource is gone or marked, and so is a
  namespace with its labels.
\<close>

theorem managing_delete_spares_children:
  assumes server: "namespace_server c child ns"
    and client: "writes_elsewhere (ad_client a) ns"
    and lists: "lists_children (ad_client a) child kids"
    and keeps: "keeps_owner (ad_client a) c (ad_gvr a) namespace (ad_name a m) owner"
    and place: "resolve_namespace (ad_sha3 a) (ad_scope a m) = Inr namespace"
    and cs: "ma_clientset a = Some c"
    and child: "child_namespace_of a m = (child, owner_labels)" "child \<noteq> []"
    and run: "managing_delete a m w = (res, w')"
  shows "(\<not> empty_when_listed (ad_client a) child kids (ma_child_gvrs a) w \<longrightarrow>
           fades snd (ns w) (ns w') \<and> fades being_deleted (owner w) (owner w') \<and> res \<noteq> None
           \<and> ((\<forall>kind v. \<not> isl (fst (dc_list (ad_client a) (no_options\<lparr>lo_limit := 1\<rparr>) kind child v))) \<longrightarrow>
               (\<exists>err. res = Some err \<and> has_kind KindConflict err)))
       \<and> (\<forall>l. ns w = Some (l, False) \<longrightarrow> departing snd (ns w') \<longrightarrow>
           empty_when_listed (ad_client a) child kids (ma_child_gvrs a) w
           \<and> list_all (\<lambda>(k, v). map_get l k = Some v) owner_labels \<and> departing being_deleted (owner w'))
       \<and> (res = None \<longrightarrow> departing being_deleted (owner w') \<and>
           (\<forall>l. ns w = Some (l, False) \<longrightarrow> list_all (\<lambda>(k, v). map_get l k = Some v) owner_labels \<longrightarrow>
              departing snd (ns w')))"
proof -
  obtain r1 w1 where listed: "namespace_has_child_resources (ad_client a) child (ma_child_gvrs a) w = (r1, w1)"
    by fastforce
  obtain r2 w2 where del: "adapter_delete (adapter.truncate a) m w1 = (r2, w2)" by fastforce
  obtain r3 w3 where owned: "namespace_owned_by (Some c) child owner_labels w2 = (r3, w3)" by fastforce
  obtain r4 w4 where gone: "delete_namespace (Some c) child w3 = (r4, w4)" by fastforce
  have t: "ad_client (adapter.truncate a) = ad_client a" "ad_gvr (adapter.truncate a) = ad_gvr a"
    "ad_name (adapter.truncate a) = ad_name a" "ad_scope (adapter.truncate a) = ad_scope a"
    "ad_sha3 (adapter.truncate a) = ad_sha3 a"
    by (simp_all add: adapter.truncate_def)
  have n1: "fades snd (ns w) (ns w1)"
    by (rule child_list_keeps [OF _ listed]) (use client in \<open>simp add: writes_elsewhere_def\<close>)
  have n2: "fades snd (ns w1) (ns w2)" using delete_writes_elsewhere [OF _ del] client t by simp
  note n3 = owned_by_effect [OF server owned] and n4 = delete_namespace_effect [OF server gone child(2)]
  note o1 = deletion_and_owner(1) [OF keeps listed] and o3 = deletion_and_owner(2) [OF keeps owned]
    and o4 = deletion_and_owner(3) [OF keeps gone]
  have o2: "if r2 = None then departing being_deleted (owner w2) else fades being_deleted (owner w1) (owner w2)"
    by (rule adapter_delete_and_owner [OF _ _ del]) (use keeps place t in simp_all)
  note found = child_resources_listed [OF lists child(2) listed]
  have outcome: "(res, w') = (case r1 of Inl err \<Rightarrow> (Some err, w1)
      | Inr True \<Rightarrow> (Some (new_error KindConflict (GoError (''cannot delete '' @ gvr_resource (ad_gvr a) @ '' ''
          @ fmt_q (ad_name a m) @ '': namespace '' @ fmt_q child @ '' is not empty''))), w1)
      | Inr False \<Rightarrow> (case r2 of Some err \<Rightarrow> (Some err, w2)
          | None \<Rightarrow> (case r3 of Inl err \<Rightarrow> (Some (kube_to_domain_error
                (wrapf (''failed to verify ownership of namespace '' @ fmt_q child) err)), w3)
              | Inr owned \<Rightarrow> if \<not> owned then (None, w3) else (r4, w4))))"
    using run by (auto simp: managing_delete_def child cs listed del owned gone split: sum.splits option.splits bool.splits)
  consider (fails) err where "r1 = Inl err" | (occupied) "r1 = Inr True" | (free) "r1 = Inr False"
    by (cases r1) auto
  then show ?thesis
  proof cases
    case fails
    then have out: "res = Some err" "w' = w1" using outcome by simp_all
    have "\<exists>kind v. isl (fst (dc_list (ad_client a) (no_options\<lparr>lo_limit := 1\<rparr>) kind child v))"
      using child_listing_answers [of "ad_client a" child "ma_child_gvrs a" w] listed fails by auto
    with out n1 o1 show ?thesis by (auto simp: departing_def)
  next
    case occupied
    then have out: "\<exists>err. res = Some err \<and> has_kind KindConflict err" "w' = w1"
      using outcome by (simp_all add: errs)
    with n1 o1 show ?thesis by (auto simp: departing_def)
  next
    case free
    have n12: "fades snd (ns w) (ns w2)" by (rule fades_trans [OF n1 n2])
    show ?thesis
    proof (cases r2)
      case (Some err)
      with free outcome have "res = Some err" "w' = w2" by simp_all
      with found free n12 show ?thesis by (auto simp: departing_def)
    next
      case None
      have "departing being_deleted (owner w2)" using o2 None by simp
      then have o: "departing being_deleted (owner w3)" "departing being_deleted (owner w4)"
        using fades_departing [OF o3] fades_departing [OF o4] by simp_all
      have live: "ns w2 = Some (l, False) \<and> ns w3 = Some (l, False)" if "ns w = Some (l, False)" for l
        using n12 n3(1) that by simp
      from free None outcome have out: "(res, w') = (case r3 of
          Inl err \<Rightarrow> (Some (kube_to_domain_error
            (wrapf (''failed to verify ownership of namespace '' @ fmt_q child) err)), w3)
        | Inr owned \<Rightarrow> if \<not> owned then (None, w3) else (r4, w4))" by simp
      have "w' = w3 \<and> (\<forall>l. res = None \<longrightarrow> ns w = Some (l, False)
            \<longrightarrow> \<not> list_all (\<lambda>(k, v). map_get l k = Some v) owner_labels)
        \<or> w' = w4 \<and> (\<forall>l. ns w = Some (l, False) \<longrightarrow> list_all (\<lambda>(k, v). map_get l k = Some v) owner_labels)
            \<and> (res = None \<longrightarrow> departing snd (ns w4))"
        using out n3(2) n4(2) live by (auto split: sum.splits if_splits)
      with found free o live show ?thesis by (auto simp: departing_def)
    qed
  qed
qed

text \<open>A workspace with a network in it, and the same one without.\<close>

lemma managing_delete_spares_children_witness:
  "(let w = \<lparr>ca_owner = Some (volume_uobject ''s''), ca_namespace = Some (text_labels, False),
        ca_networks = [volume_uobject ''s'']\<rparr>;
        after = managing_delete (text_manager (Inl (GoError []))) ''ws'' w in
      ca_namespace (snd after) = ca_namespace w \<and> ca_owner (snd after) = ca_owner w
      \<and> (\<exists>err. fst after = Some err \<and> has_kind KindConflict err)) \<and>
   (let w = \<lparr>ca_owner = Some (volume_uobject ''s''), ca_namespace = Some (text_labels, False), ca_networks = []\<rparr>;
        after = managing_delete (text_manager (Inl (GoError []))) ''ws'' w in
      departing snd (ca_namespace (snd after)) \<and> departing being_deleted (ca_owner (snd after)))"
proof -
  let ?a = "text_manager (Inl (GoError []))"
  let ?w = "\<lambda>items. \<lparr>ca_owner = Some (volume_uobject ''s''), ca_namespace = Some (text_labels, False), ca_networks = items\<rparr>"
  have client: "writes_elsewhere (ad_client ?a) ca_namespace"
    by (simp add: text_manager_def cluster_client_elsewhere)
  have lists: "lists_children (ad_client ?a) ''t/ws'' (\<lambda>w kind. ca_networks w)"
    by (simp add: lists_children_def text_manager_def cluster_client_def)
  have keeps: "keeps_owner (ad_client ?a) marking_clientset (ad_gvr ?a) namespace (ad_name ?a ''ws'') ca_owner" for namespace
    by (auto simp: keeps_owner_def text_manager_def cluster_client_def marking_clientset_def departing_def
        split: option.splits)
  have place: "resolve_namespace (ad_sha3 ?a) (ad_scope ?a ''ws'')
      = Inr (compute_namespace (\<lambda>s. s) \<lparr>sc_tenant = ''t'', sc_workspace = []\<rparr>)"
    by (simp add: text_manager_def resolve_namespace_def)
  have cs: "ma_clientset ?a = Some marking_clientset" by (simp add: text_manager_def)
  have answers: "\<forall>kind v. \<not> isl (fst (dc_list (ad_client ?a) (no_options\<lparr>lo_limit := 1\<rparr>) kind ''t/ws'' v))"
    by (simp add: text_manager_def cluster_client_def)
  have kinds: "\<not> empty_when_listed (ad_client ?a) ''t/ws'' (\<lambda>w kind. ca_networks w) (ma_child_gvrs ?a) (?w [volume_uobject ''s''])"
    by (simp add: text_manager_def)
  have deletes: "fst (managing_delete ?a ''ws'' (?w [])) = None"
    unfolding managing_delete_def text_manager_child
    by (simp add: text_manager_def cluster_client_def marking_clientset_def namespace_owned_by_def delete_namespace_def
        adapter_delete_def adapter.truncate_def resolve_namespace_def text_labels_def Let_def)
  have labels: "list_all (\<lambda>(k, v). map_get text_labels k = Some v) text_labels"
    by (simp add: text_labels_def internal_tenant_label_def internal_workspace_label_def)
  note facts = managing_delete_spares_children
    [OF marking_clientset_serves client lists keeps place cs text_manager_child _ surjective_pairing]
  have "let after = managing_delete ?a ''ws'' (?w [volume_uobject ''s'']) in
      fades snd (Some (text_labels, False)) (ca_namespace (snd after))
      \<and> fades being_deleted (Some (volume_uobject ''s'')) (ca_owner (snd after))
      \<and> (\<exists>err. fst after = Some err \<and> has_kind KindConflict err)"
    using facts [where w = "?w [volume_uobject ''s'']"] kinds answers by (simp add: Let_def)
  moreover have "let after = managing_delete ?a ''ws'' (?w []) in
      departing snd (ca_namespace (snd after)) \<and> departing being_deleted (ca_owner (snd after))"
    using facts [where w = "?w []"] deletes labels by (simp add: Let_def)
  ultimately show ?thesis by (simp add: Let_def volume_uobject_def)
qed

end
