(* ===== verification/Dependencies.thy ===== *)
theory Dependencies
  imports Adapter References
begin

section \<open>Dependencies between resources: \<^verbatim>\<open>resource/common/backend/dependency.go\<close>\<close>

text \<open>
  \<^verbatim>\<open>ReferenceResolver\<close>: the state of the resource a reference names, and the resources of one kind in
  one namespace whose reference at a field path names a given target. It reads unstructured objects
  with the dynamic client; decoding a JSON map into a stored reference is
  \<^verbatim>\<open>runtime.DefaultUnstructuredConverter\<close>, the parameter \<open>decode\<close>.
\<close>

subsection \<open>Nested fields of an unstructured object\<close>

text \<open>\<^verbatim>\<open>NestedFieldNoCopy\<close>: the value a path leads to; not found where a key is absent or the map to
  step into is a JSON null; an error at a step into anything else that is no map.\<close>

fun nested_field :: "json_map \<Rightarrow> string list \<Rightarrow> go_error + json option" where
  "nested_field m [] = Inr (Some (JObject m))"
| "nested_field m [f] = Inr (map_of m f)"
| "nested_field m (f # g # fs) =
    (case map_of m f of
       None \<Rightarrow> Inr None
     | Some JNull \<Rightarrow> Inr None
     | Some (JObject m') \<Rightarrow> nested_field m' (g # fs)
     | Some v \<Rightarrow> Inl (GoError (''.'' @ f @ '' accessor error'')))"

definition nested_map_at :: "uobject \<Rightarrow> string list \<Rightarrow> go_error + json_map option" where
  "nested_map_at obj steps =
    (case nested_field (uo_fields obj) steps of
       Inl err \<Rightarrow> Inl err
     | Inr None \<Rightarrow> Inr None
     | Inr (Some (JObject m)) \<Rightarrow> Inr (Some m)
     | Inr (Some v) \<Rightarrow> Inl (GoError (''.'' @ join ''.'' steps @ '' accessor error'')))"

definition nested_string_at :: "uobject \<Rightarrow> string list \<Rightarrow> go_error + string option" where
  "nested_string_at obj steps =
    (case nested_field (uo_fields obj) steps of
       Inl err \<Rightarrow> Inl err
     | Inr None \<Rightarrow> Inr None
     | Inr (Some (JString s)) \<Rightarrow> Inr (Some s)
     | Inr (Some v) \<Rightarrow> Inl (GoError (''.'' @ join ''.'' steps @ '' accessor error'')))"

text \<open>The conversion of a string to the string type \<^verbatim>\<open>ResourceState\<close>.\<close>

definition state_of_string :: "string \<Rightarrow> resource_state" where
  "state_of_string s =
    (if s = [] then StateUnset
     else if s = ''pending'' then StatePending
     else if s = ''creating'' then StateCreating
     else if s = ''active'' then StateActive
     else if s = ''updating'' then StateUpdating
     else if s = ''deleting'' then StateDeleting
     else if s = ''error'' then StateError
     else StateOther s)"

subsection \<open>The resolver\<close>

definition resolver_state ::
  "'w dyn_client \<Rightarrow> (string \<Rightarrow> string) \<Rightarrow> gvr \<Rightarrow> reference \<Rightarrow> string \<Rightarrow> 'w
   \<Rightarrow> (go_error + bool \<times> resource_state) \<times> 'w" where
  "resolver_state client sha3 kind ref default_tenant w =
    (let target = parse_reference ref default_tenant;
         namespace = compute_namespace sha3
           \<lparr>sc_tenant = rt_tenant target, sc_workspace = rt_workspace target\<rparr> in
     case dc_get client kind namespace (rt_name target) w of
       (Inl err, w1) \<Rightarrow>
         if kube_is IsNotFound err then (Inr (False, StateUnset), w1)
         else (Inl (wrapf (gvr_resource kind @ '' '' @ rt_name target
            @ '': failed to resolve reference'') err), w1)
     | (Inr obj, w1) \<Rightarrow>
         (case nested_string_at obj [''status'', ''state''] of
            Inl err \<Rightarrow> (Inl (wrapf (gvr_resource kind @ '' '' @ rt_name target
               @ '': failed to read status state'') err), w1)
          | Inr raw \<Rightarrow>
              (Inr (True, resource_state_from_cr
                 (state_of_string (case raw of None \<Rightarrow> [] | Some s \<Rightarrow> s))), w1)))"

text \<open>The loop over the listed items, with the names found so far.\<close>

fun referrer_names ::
  "(json_map \<Rightarrow> go_error + reference) \<Rightarrow> gvr \<Rightarrow> string list \<Rightarrow> reference_target \<Rightarrow> string
   \<Rightarrow> uobject list \<Rightarrow> go_error + string list" where
  "referrer_names decode kind field_path target default_tenant [] = Inr []"
| "referrer_names decode kind field_path target default_tenant (item # items) =
    (case nested_map_at item field_path of
       Inl err \<Rightarrow> Inl (wrapf (gvr_resource kind @ '' '' @ uo_name item @ '': failed to read reference'') err)
     | Inr None \<Rightarrow> referrer_names decode kind field_path target default_tenant items
     | Inr (Some ref_map) \<Rightarrow>
         (case decode ref_map of
            Inl err \<Rightarrow> Inl (wrapf (gvr_resource kind @ '' '' @ uo_name item
               @ '': failed to convert reference'') err)
          | Inr cr_ref \<Rightarrow>
              (let got = parse_reference (reference_from_cr cr_ref) default_tenant;
                   rest = referrer_names decode kind field_path target default_tenant items in
               if rt_tenant got = rt_tenant target \<and> rt_workspace got = rt_workspace target
                  \<and> rt_name got = rt_name target
               then map_sum (\<lambda>err. err) ((#) (uo_name item)) rest
               else rest)))"

definition resolver_referrers ::
  "'w dyn_client \<Rightarrow> (json_map \<Rightarrow> go_error + reference) \<Rightarrow> gvr \<Rightarrow> string \<Rightarrow> string list
   \<Rightarrow> reference_target \<Rightarrow> string \<Rightarrow> 'w \<Rightarrow> (go_error + string list) \<times> 'w" where
  "resolver_referrers client decode kind namespace field_path target default_tenant w =
    (case dc_list client no_options kind namespace w of
       (Inl err, w1) \<Rightarrow> (Inl (wrapf (gvr_resource kind @ '': failed to list referrers'') err), w1)
     | (Inr (items, next), w1) \<Rightarrow>
         (referrer_names decode kind field_path target default_tenant items, w1))"

subsection \<open>What the loop finds\<close>

text \<open>An item refers to the target when its field holds a reference that names it.\<close>

definition refers_to ::
  "(json_map \<Rightarrow> go_error + reference) \<Rightarrow> string list \<Rightarrow> reference_target \<Rightarrow> string \<Rightarrow> uobject \<Rightarrow> bool" where
  "refers_to decode field_path target default_tenant item \<longleftrightarrow>
    (case nested_map_at item field_path of
       Inr (Some ref_map) \<Rightarrow>
         (case decode ref_map of
            Inr cr_ref \<Rightarrow> parse_reference (reference_from_cr cr_ref) default_tenant = target
          | Inl err \<Rightarrow> False)
     | _ \<Rightarrow> False)"

definition readable :: "(json_map \<Rightarrow> go_error + reference) \<Rightarrow> string list \<Rightarrow> uobject \<Rightarrow> bool" where
  "readable decode field_path item \<longleftrightarrow>
    (case nested_map_at item field_path of
       Inl err \<Rightarrow> False
     | Inr None \<Rightarrow> True
     | Inr (Some ref_map) \<Rightarrow> (case decode ref_map of Inl err \<Rightarrow> False | Inr ref \<Rightarrow> True))"

lemma referrer_names_spec:
  "referrer_names decode kind field_path target default_tenant items =
     Inr (map uo_name (filter (refers_to decode field_path target default_tenant) items))"
  if "list_all (readable decode field_path) items"
  using that
  by (induction items) (auto simp: readable_def refers_to_def Let_def split: sum.splits option.splits)

lemma referrer_names_fails:
  "\<not> list_all (readable decode field_path) items \<Longrightarrow>
   \<exists>err. referrer_names decode kind field_path target default_tenant items = Inl err"
  by (induction items) (auto simp: readable_def Let_def split: sum.splits option.splits)

subsection \<open>Correctness\<close>

text \<open>
  C35. \<^verbatim>\<open>Referrers\<close> is exact. When it answers, the names are those of the listed resources whose
  reference at the field path reads as naming the target, each once per resource and in listing
  order, nothing skipped; one listed resource whose reference cannot be read is enough for an error,
  never a shorter answer.
\<close>

theorem referrers_are_exact:
  assumes "dc_list client no_options kind namespace w = (Inr (items, token), w1)"
  shows "if list_all (readable decode field_path) items
    then resolver_referrers client decode kind namespace field_path target default_tenant w =
      (Inr (map uo_name (filter (refers_to decode field_path target default_tenant) items)), w1)
    else \<exists>err. resolver_referrers client decode kind namespace field_path target default_tenant w =
      (Inl err, w1)"
  using referrer_names_fails [of decode field_path items kind target default_tenant]
  by (auto simp: resolver_referrers_def assms referrer_names_spec)

definition decode_resource :: "json_map \<Rightarrow> go_error + reference" where
  "decode_resource m = (case map_of m ''resource'' of
      Some (JString s) \<Rightarrow> Inr \<lparr>ref_provider = [], ref_region = [], ref_resource = s,
                              ref_tenant = [], ref_workspace = ''w''\<rparr>
    | _ \<Rightarrow> Inl (GoError ''resource''))"

definition image_uobject :: "string \<Rightarrow> string \<Rightarrow> uobject" where
  "image_uobject name volume = (volume_uobject ''active'')\<lparr>uo_name := name,
     uo_fields := [(''spec'', JObject [(''blockStorageRef'',
        JObject [(''resource'', JString (''block-storages/'' @ volume))])])]\<rparr>"

definition two_images :: "uobject list" where
  "two_images = [image_uobject ''i1'' ''v'', image_uobject ''i2'' ''u'']"

lemma two_images_refs:
  "list_all (readable decode_resource [''spec'', ''blockStorageRef'']) two_images"
  "map uo_name (filter (refers_to decode_resource [''spec'', ''blockStorageRef'']
     \<lparr>rt_tenant = ''t'', rt_workspace = ''w'', rt_name = ''v''\<rparr> ''t'') two_images) = [''i1'']"
  by (simp_all add: two_images_def image_uobject_def readable_def refers_to_def
      nested_map_at_def decode_resource_def reference_from_cr_def embed_scope_in_resource_def
      parse_reference_def reference_to_cr_def take_segment_def extract_and_strip_segment_def)

lemma referrers_are_exact_witness:
  "resolver_referrers (forbidding_client (\<lambda>k. two_images) :: unit dyn_client) decode_resource
      \<lparr>gvr_group = ''g'', gvr_version = ''v1'', gvr_resource = ''images''\<rparr> ''ns''
      [''spec'', ''blockStorageRef'']
      \<lparr>rt_tenant = ''t'', rt_workspace = ''w'', rt_name = ''v''\<rparr> ''t'' ()
   = (Inr [''i1''], ())"
proof -
  have "dc_list (forbidding_client (\<lambda>k. two_images) :: unit dyn_client) no_options
      \<lparr>gvr_group = ''g'', gvr_version = ''v1'', gvr_resource = ''images''\<rparr> ''ns'' () = (Inr (two_images, []), ())"
    by (simp add: forbidding_client_def no_options_def)
  from referrers_are_exact [OF this, of decode_resource "[''spec'', ''blockStorageRef'']"
      "\<lparr>rt_tenant = ''t'', rt_workspace = ''w'', rt_name = ''v''\<rparr>" "''t''"]
  show ?thesis by (simp add: two_images_refs)
qed

end
