(* ===== verification/Rest.thy ===== *)
theory Rest
  imports Ports
begin

section \<open>The REST layer: \<^verbatim>\<open>framework/frontend/rest\<close>\<close>

text \<open>
  Requests and responses with what the code reads and writes of them, the mapping of errors to
  RFC 7807 responses, the adapters from a repository to the operations of a controller, and the
  generic GET, LIST, DELETE and PUT helpers, which take any type of identity and of list parameters.
  The JSON codec of \<^verbatim>\<open>encoding/json\<close> on the SDK's types
  is a parameter, as are the SDK's error type constants (their own datatype here).
\<close>

record token_identity =
  tid_subject :: string
  tid_scope :: token_scope

text \<open>
  A request: method and route pattern as the mux matched them, path, path values, headers
  (\<^verbatim>\<open>Header.Get\<close>: the empty string when absent), body with the error that ends it early, and the
  identity the context carries.
\<close>

record http_request =
  rq_pattern :: string
  rq_url_path :: string
  rq_path_value :: "string \<Rightarrow> string"
  rq_header :: "string \<Rightarrow> string"
  rq_body :: string
  rq_body_error :: "go_error option"
  rq_identity :: "token_identity option"

datatype api_error_type =
    ErrorTypeUnauthorized | ErrorTypeForbidden | ErrorTypeResourceNotFound | ErrorTypeResourceConflict
  | ErrorTypePreconditionFailed | ErrorTypeValidationError | ErrorTypeInternalServerError
  | ErrorTypeInvalidRequest

record api_source =
  as_pointer :: string
  as_parameter :: string

record api_error =
  ae_type :: api_error_type
  ae_title :: string
  ae_status :: nat
  ae_instance :: string
  ae_detail :: string
  ae_sources :: "api_source list"

datatype 'out body = NoBody | Encoded 'out | Problem api_error

record 'out http_response =
  rs_status :: nat
  rs_body :: "'out body"

type_synonym ('out, 'w) handler = "http_request \<Rightarrow> 'w \<Rightarrow> 'out http_response \<times> 'w"

subsection \<open>Errors: \<^verbatim>\<open>errors.go\<close>\<close>

definition map_kind_to_http :: "err_kind \<Rightarrow> nat \<times> string \<times> api_error_type" where
  "map_kind_to_http kind = (case kind of
      KindUnauthorized \<Rightarrow> (401, kind_string KindUnauthorized, ErrorTypeUnauthorized)
    | KindForbidden \<Rightarrow> (403, kind_string KindForbidden, ErrorTypeForbidden)
    | KindNotFound \<Rightarrow> (404, kind_string KindNotFound, ErrorTypeResourceNotFound)
    | KindConflict \<Rightarrow> (409, kind_string KindConflict, ErrorTypeResourceConflict)
    | KindAlreadyExists \<Rightarrow> (409, kind_string KindConflict, ErrorTypeResourceConflict)
    | KindPreconditionFailed \<Rightarrow>
        (412, kind_string KindPreconditionFailed, ErrorTypePreconditionFailed)
    | KindValidation \<Rightarrow> (422, kind_string KindValidation, ErrorTypeValidationError)
    | KindUnavailable \<Rightarrow> (500, kind_string KindUnavailable, ErrorTypeInternalServerError)
    | KindInternal \<Rightarrow> (500, kind_string KindInternal, ErrorTypeInternalServerError)
    | KindOther n \<Rightarrow> (500, ''Internal Server Error'', ErrorTypeInternalServerError))"

definition map_error_to_http :: "go_error \<Rightarrow> nat \<times> string \<times> api_error_type" where
  "map_error_to_http err =
    (if errors_is err (Sentinel ErrRequestEntityTooLarge)
       then (413, ''Request Entity Too Large'', ErrorTypeInvalidRequest)
     else if errors_is err (Sentinel ErrBadRequest)
       then (400, ''Bad Request'', ErrorTypeInvalidRequest)
     else (500, ''Internal Server Error'', ErrorTypeInternalServerError))"

definition convert_domain_error :: "go_error \<Rightarrow> string \<Rightarrow> api_error" where
  "convert_domain_error domain_err request_path =
    (let (status, title, error_type) = map_kind_to_http (dom_kind domain_err) in
     \<lparr>ae_type = error_type, ae_title = title, ae_status = status, ae_instance = request_path,
      ae_detail = error_text domain_err,
      ae_sources = map (\<lambda>s. \<lparr>as_pointer = src_name s, as_parameter = src_value s\<rparr>)
        (dom_sources domain_err)\<rparr>)"

definition domain_to_api_error :: "go_error \<Rightarrow> string \<Rightarrow> api_error" where
  "domain_to_api_error err request_path =
    (case as_error err of
       Some domain_err \<Rightarrow> convert_domain_error domain_err request_path
     | None \<Rightarrow>
         (let (status, title, error_type) = map_error_to_http err in
          \<lparr>ae_type = error_type, ae_title = title, ae_status = status, ae_instance = request_path,
           ae_detail = error_text err, ae_sources = []\<rparr>))"

definition write_error_response :: "http_request \<Rightarrow> go_error \<Rightarrow> 'out http_response" where
  "write_error_response r err =
    (let sdk_error = domain_to_api_error err (rq_url_path r) in
     \<lparr>rs_status = ae_status sdk_error, rs_body = Problem sdk_error\<rparr>)"

subsection \<open>Repositories as controller operations: \<^verbatim>\<open>adapter.go\<close>\<close>

definition getter_from_repo ::
  "('r, 'w) repo \<Rightarrow> ('i \<Rightarrow> 'r) \<Rightarrow> 'i \<Rightarrow> 'w \<Rightarrow> (go_error + 'r) \<times> 'w" where
  "getter_from_repo repo new_with_identity ir w =
    (case rp_load repo (new_with_identity ir) w of
       (Inl err, w') \<Rightarrow> (Inl err, w')
     | (Inr d, w') \<Rightarrow> (Inr d, w'))"

definition lister_from_repo ::
  "('r, 'w) repo \<Rightarrow> list_params \<Rightarrow> 'w \<Rightarrow> (go_error + 'r list \<times> string option) \<times> 'w" where
  "lister_from_repo repo params w =
    (case rp_list repo params w of
       (Inl err, w') \<Rightarrow> (Inl err, w')
     | (Inr (items, next_token), w') \<Rightarrow> (Inr (items, next_token), w'))"

definition creator_from_repo :: "('r, 'w) repo \<Rightarrow> 'r \<Rightarrow> 'w \<Rightarrow> (go_error + 'r) \<times> 'w" where
  "creator_from_repo repo m w =
    (case rp_create repo m w of
       (Inl err, w') \<Rightarrow> (Inl err, w')
     | (Inr p, w') \<Rightarrow> (Inr p, w'))"

definition updater_from_repo :: "('r, 'w) repo \<Rightarrow> 'r \<Rightarrow> 'w \<Rightarrow> (go_error + 'r) \<times> 'w" where
  "updater_from_repo repo m w =
    (case rp_update repo m w of
       (Inl err, w') \<Rightarrow> (Inl err, w')
     | (Inr p, w') \<Rightarrow> (Inr p, w'))"

definition deleter_from_repo ::
  "('r, 'w) repo \<Rightarrow> ('i \<Rightarrow> 'r) \<Rightarrow> 'i \<Rightarrow> 'w \<Rightarrow> go_error option \<times> 'w" where
  "deleter_from_repo repo new_with_identity ir w = rp_delete repo (new_with_identity ir) w"

subsection \<open>The generic helpers: \<^verbatim>\<open>get.go\<close>, \<^verbatim>\<open>list.go\<close>, \<^verbatim>\<open>delete.go\<close>, \<^verbatim>\<open>upsert.go\<close>\<close>

text \<open>The end of a successful request: encode, or report that it cannot be encoded.\<close>

definition write_encoded ::
  "('out \<Rightarrow> go_error option) \<Rightarrow> http_request \<Rightarrow> 'out \<Rightarrow> 'out http_response" where
  "write_encoded encode r out =
    (case encode out of
       Some err \<Rightarrow> write_error_response r err
     | None \<Rightarrow> \<lparr>rs_status = 200, rs_body = Encoded out\<rparr>)"

definition handle_get ::
  "('out \<Rightarrow> go_error option) \<Rightarrow> 'i \<Rightarrow> ('i \<Rightarrow> 'w \<Rightarrow> (go_error + 'r) \<times> 'w)
   \<Rightarrow> ('r \<Rightarrow> 'out) \<Rightarrow> ('out, 'w) handler" where
  "handle_get encode ir getter mapper r w =
    (case getter ir w of
       (Inl err, w') \<Rightarrow> (write_error_response r err, w')
     | (Inr domain_obj, w') \<Rightarrow> (write_encoded encode r (mapper domain_obj), w'))"

definition handle_list ::
  "('out \<Rightarrow> go_error option) \<Rightarrow> 'p
   \<Rightarrow> ('p \<Rightarrow> 'w \<Rightarrow> (go_error + 'r list \<times> string option) \<times> 'w)
   \<Rightarrow> ('r list \<Rightarrow> string option \<Rightarrow> 'out) \<Rightarrow> ('out, 'w) handler" where
  "handle_list encode params lister mapper r w =
    (case lister params w of
       (Inl err, w') \<Rightarrow> (write_error_response r err, w')
     | (Inr (objs, next_token), w') \<Rightarrow> (write_encoded encode r (mapper objs next_token), w'))"

definition handle_delete ::
  "'i \<Rightarrow> ('i \<Rightarrow> 'w \<Rightarrow> go_error option \<times> 'w) \<Rightarrow> ('out, 'w) handler" where
  "handle_delete ir deleter r w =
    (case deleter ir w of
       (Some err, w') \<Rightarrow> (write_error_response r err, w')
     | (None, w') \<Rightarrow> (\<lparr>rs_status = 202, rs_body = NoBody\<rparr>, w'))"

definition max_request_body_bytes :: nat where
  "max_request_body_bytes = 2 ^ 20"

definition max_bytes_error :: go_error where
  "max_bytes_error = GoError ''http: request body too large''"

text \<open>
  \<^verbatim>\<open>io.ReadAll\<close> through \<^verbatim>\<open>http.MaxBytesReader\<close>: the limit, then the error that ends the body.
\<close>

definition read_all :: "http_request \<Rightarrow> go_error + string" where
  "read_all r =
    (if max_request_body_bytes < length (rq_body r) then Inl max_bytes_error
     else case rq_body_error r of Some err \<Rightarrow> Inl err | None \<Rightarrow> Inr (rq_body r))"

record ('api, 'i, 'r, 'out, 'w) upsert_options =
  uo_params :: "'i identity_scheme"
  uo_creator :: "'r \<Rightarrow> 'w \<Rightarrow> (go_error + 'r) \<times> 'w"
  uo_updater :: "'r \<Rightarrow> 'w \<Rightarrow> (go_error + 'r) \<times> 'w"
  uo_api_to_domain :: "'api \<Rightarrow> 'i identity_scheme \<Rightarrow> 'r"
  uo_domain_to_api :: "'r \<Rightarrow> 'out"
  uo_decode :: "string \<Rightarrow> go_error + 'api"
  uo_encode :: "'out \<Rightarrow> go_error option"

definition update_or_fail where
  "update_or_fail options r domain_obj w =
    (case uo_updater options domain_obj w of
       (Inl err, w') \<Rightarrow> (write_error_response r err, w')
     | (Inr result, w') \<Rightarrow>
         (write_encoded (uo_encode options) r (uo_domain_to_api options result), w'))"

definition handle_upsert :: "('api, 'i, 'r, 'out, 'w) upsert_options \<Rightarrow> ('out, 'w) handler" where
  "handle_upsert options r w =
    (case read_all r of
       Inl err \<Rightarrow>
         if err = max_bytes_error then
           (write_error_response r (wrap_first (Sentinel ErrRequestEntityTooLarge)
              (''request body too large (limit 1048576 bytes): '' @ error_text err) [err]), w)
         else
           (write_error_response r (wrap_first (Sentinel ErrBadRequest)
              (''failed to read request body: '' @ error_text err) [err]), w)
     | Inr body \<Rightarrow>
         (case uo_decode options body of
            Inl err \<Rightarrow>
              (write_error_response r (wrap_first (Sentinel ErrBadRequest)
                 (''invalid JSON in request body: '' @ error_text err) [err]), w)
          | Inr api_obj \<Rightarrow>
              (let domain_obj = uo_api_to_domain options api_obj (uo_params options) in
               if id_version (uo_params options) \<noteq> [] then update_or_fail options r domain_obj w
               else (case uo_creator options domain_obj w of
                   (Inl err, w') \<Rightarrow>
                     if \<not> errors_is err err_already_exists then (write_error_response r err, w')
                     else update_or_fail options r domain_obj w'
                 | (Inr result, w') \<Rightarrow>
                     (write_encoded (uo_encode options) r (uo_domain_to_api options result), w')))))"

subsection \<open>Facts\<close>

lemma error_status [simp]:
  "rs_status (write_error_response r err) = ae_status (domain_to_api_error err (rq_url_path r))"
  by (simp add: write_error_response_def Let_def)

lemma domain_error_status:
  "as_error err = Some e \<Longrightarrow> ae_status (domain_to_api_error err p) = fst (map_kind_to_http (dom_kind e))"
  by (simp add: domain_to_api_error_def convert_domain_error_def split: prod.splits)

lemma kind_status_cases:
  "fst (map_kind_to_http k) \<in> {401, 403, 404, 409, 412, 422, 500}"
  by (cases k) (simp_all add: map_kind_to_http_def)

lemma error_status_cases:
  "ae_status (domain_to_api_error err p) \<in> {400, 401, 403, 404, 409, 412, 413, 422, 500}"
proof (cases "as_error err")
  case None
  then show ?thesis by (simp add: domain_to_api_error_def map_error_to_http_def)
next
  case (Some e)
  with kind_status_cases [of "dom_kind e"] show ?thesis by (auto simp: domain_error_status)
qed

text \<open>An error response is never taken for a success.\<close>

lemma error_never_success: "400 \<le> rs_status (write_error_response r err)"
  using error_status_cases [of err "rq_url_path r"] by auto

lemma sentinel_status [simp]:
  "ae_status (domain_to_api_error (kernel_sentinel k) p) = fst (map_kind_to_http k)"
  by (simp add: domain_error_status)

lemma wrap_sentinel_status:
  "as_error e = None \<Longrightarrow> ae_status (domain_to_api_error (wrap_first (Sentinel s) m [e]) p) =
     fst (map_error_to_http (wrap_first (Sentinel s) m [e]))"
  by (auto simp: domain_to_api_error_def as_error_def wrap_first_def split: prod.splits)

end
