(* ===== verification/Authz.thy ===== *)
theory Authz
  imports Ports
begin

section \<open>Authorization: claims, the policy evaluator, the checkers\<close>

text \<open>
  Models \<^verbatim>\<open>framework/kernel/port/authz\<close> and \<^verbatim>\<open>gateway/internal/authz/seca\<close>. The glob library is a
  parameter: \<open>glob pattern\<close> is \<^verbatim>\<open>glob.Compile\<close>, a matcher or nothing when the pattern is invalid.
  The loops are recursive functions with the code's \<^verbatim>\<open>continue\<close> and early \<^verbatim>\<open>return\<close>; the lemmas read
  them as the formula of the evaluator's comment.
\<close>

record authorization_claim =
  cl_subject :: string
  cl_token_scope :: token_scope
  cl_provider :: string
  cl_resource :: string
  cl_name :: string
  cl_verb :: string
  cl_tenant :: string
  cl_region :: string
  cl_workspace :: string

datatype decision = DecisionAllowed | DecisionDenied | DecisionError | DecisionOther int

type_synonym 'w authorize = "authorization_claim \<Rightarrow> 'w \<Rightarrow> (decision \<times> go_error option) \<times> 'w"

type_synonym globber = "string \<Rightarrow> (string \<Rightarrow> bool) option"

subsection \<open>The evaluator: \<^verbatim>\<open>evaluator.go\<close>\<close>

definition token_scope_covers :: "string list \<Rightarrow> string \<Rightarrow> bool" where
  "token_scope_covers list value = (if list = [] \<or> value = [] then True else value \<in> set list)"

definition slice_covers :: "string list \<Rightarrow> string \<Rightarrow> bool" where
  "slice_covers list value = (if list = [] then True else value \<in> set list)"

fun assignment_covers_scope :: "role_assignment_scope list \<Rightarrow> string \<Rightarrow> string \<Rightarrow> string \<Rightarrow> bool" where
  "assignment_covers_scope [] tenant region workspace = False"
| "assignment_covers_scope (scope # scopes) tenant region workspace =
    (if slice_covers (ras_tenants scope) tenant \<and> slice_covers (ras_regions scope) region \<and>
        slice_covers (ras_workspaces scope) workspace
     then True else assignment_covers_scope scopes tenant region workspace)"

fun subs_grant :: "string list \<Rightarrow> string \<Rightarrow> bool" where
  "subs_grant [] subject = False"
| "subs_grant (s # subs) subject = (if s = ''*'' \<or> s = subject then True else subs_grant subs subject)"

fun match_patterns :: "globber \<Rightarrow> string list \<Rightarrow> string \<Rightarrow> bool" where
  "match_patterns glob [] target = False"
| "match_patterns glob (pattern # patterns) target =
    (case glob pattern of
       None \<Rightarrow> match_patterns glob patterns target
     | Some g \<Rightarrow> if g target then True else match_patterns glob patterns target)"

definition match_resource :: "globber \<Rightarrow> string list \<Rightarrow> string \<Rightarrow> string \<Rightarrow> bool" where
  "match_resource glob patterns resource name =
     match_patterns glob patterns (if name \<noteq> [] then resource @ ''/'' @ name else resource)"

fun match_verb :: "string list \<Rightarrow> string \<Rightarrow> bool" where
  "match_verb [] verb = False"
| "match_verb (p # ps) verb =
    (if p = ''*'' \<or> p = verb then True
     else if CHR ''.'' \<notin> set p \<and> has_prefix (p @ ''.'') verb then True
     else match_verb ps verb)"

fun evaluate_permissions :: "globber \<Rightarrow> authorization_claim \<Rightarrow> permission list \<Rightarrow> bool" where
  "evaluate_permissions glob claim [] = False"
| "evaluate_permissions glob claim (p # ps) =
    (if perm_provider p = cl_provider claim \<and>
        match_resource glob (perm_resources p) (cl_resource claim) (cl_name claim) \<and>
        match_verb (perm_verb p) (cl_verb claim)
     then True else evaluate_permissions glob claim ps)"

fun evaluate_roles ::
  "globber \<Rightarrow> authorization_claim \<Rightarrow> (string \<Rightarrow> role option) \<Rightarrow> string list \<Rightarrow> bool" where
  "evaluate_roles glob claim roles_by_name [] = False"
| "evaluate_roles glob claim roles_by_name (role_name # names) =
    (case roles_by_name role_name of
       None \<Rightarrow> evaluate_roles glob claim roles_by_name names
     | Some role \<Rightarrow>
         if evaluate_permissions glob claim (ro_permissions role) then True
         else evaluate_roles glob claim roles_by_name names)"

fun evaluate_assignments ::
  "globber \<Rightarrow> authorization_claim \<Rightarrow> (string \<Rightarrow> role option) \<Rightarrow> role_assignment list \<Rightarrow> bool" where
  "evaluate_assignments glob claim roles_by_name [] = False"
| "evaluate_assignments glob claim roles_by_name (ra # ras) =
    (if \<not> assignment_covers_scope (ra_scopes ra) (cl_tenant claim) (cl_region claim) (cl_workspace claim)
       then evaluate_assignments glob claim roles_by_name ras
     else if \<not> subs_grant (ra_subs ra) (cl_subject claim)
       then evaluate_assignments glob claim roles_by_name ras
     else if evaluate_roles glob claim roles_by_name (ra_roles ra) then True
     else evaluate_assignments glob claim roles_by_name ras)"

definition evaluate ::
  "globber \<Rightarrow> authorization_claim \<Rightarrow> (string \<Rightarrow> role option) \<Rightarrow> role_assignment list \<Rightarrow> bool" where
  "evaluate glob claim roles_by_name assignments =
    (if \<not> token_scope_covers (ts_tenants (cl_token_scope claim)) (cl_tenant claim) \<or>
        \<not> token_scope_covers (ts_regions (cl_token_scope claim)) (cl_region claim) \<or>
        \<not> token_scope_covers (ts_workspaces (cl_token_scope claim)) (cl_workspace claim)
     then False else evaluate_assignments glob claim roles_by_name assignments)"

subsection \<open>The reader-backed checker: \<^verbatim>\<open>checker.go\<close>\<close>

definition tenant_params :: "string \<Rightarrow> list_params" where
  "tenant_params tenant = \<lparr>sc_tenant = tenant, sc_workspace = [], lp_limit = 0, lp_skip_token = [],
     lp_selector = []\<rparr>"

text \<open>\<^verbatim>\<open>rolesByName[r.GetName()] = r\<close> over the list: the last role of a name counts.\<close>

definition roles_by_name :: "role list \<Rightarrow> string \<Rightarrow> role option" where
  "roles_by_name role_list = foldl (\<lambda>m r. m(md_name r \<mapsto> r)) Map.empty role_list"

definition load_policy ::
  "(role, 'w) repo \<Rightarrow> (role_assignment, 'w) repo \<Rightarrow> string \<Rightarrow> 'w
   \<Rightarrow> (go_error + (string \<Rightarrow> role option) \<times> role_assignment list) \<times> 'w" where
  "load_policy role_reader assignment_reader tenant w =
    (case rp_list role_reader (tenant_params tenant) w of
       (Inl err, w1) \<Rightarrow> (Inl (wrapf ''list roles'' err), w1)
     | (Inr (role_list, _), w1) \<Rightarrow>
         (case rp_list assignment_reader (tenant_params tenant) w1 of
            (Inl err, w2) \<Rightarrow> (Inl (wrapf ''list role assignments'' err), w2)
          | (Inr (assignment_list, _), w2) \<Rightarrow>
              (Inr (roles_by_name role_list, assignment_list), w2)))"

definition checker_authorize ::
  "globber \<Rightarrow> (role, 'w) repo \<Rightarrow> (role_assignment, 'w) repo \<Rightarrow> 'w authorize" where
  "checker_authorize glob role_reader assignment_reader claim w =
    (case load_policy role_reader assignment_reader (cl_tenant claim) w of
       (Inl err, w') \<Rightarrow>
         ((DecisionError, Some (new_error KindInternal (wrapf ''load policy data'' err))), w')
     | (Inr (roles, assignments), w') \<Rightarrow>
         if evaluate glob claim roles assignments then ((DecisionAllowed, None), w')
         else ((DecisionDenied, Some err_forbidden), w'))"

subsection \<open>The informer-backed checker: \<^verbatim>\<open>cache.go\<close>\<close>

text \<open>
  The informer cache as the code sees it: what its listers return for a namespace. A cached object
  is unstructured or something else (\<open>to_unstructured\<close>), and converts to its domain type or not.
\<close>

record ('o, 'u, 'w) policy_cache =
  pc_roles :: "string \<Rightarrow> 'w \<Rightarrow> go_error + 'o list"
  pc_assignments :: "string \<Rightarrow> 'w \<Rightarrow> go_error + 'o list"
  pc_unstructured :: "'o \<Rightarrow> 'u option"
  pc_type_name :: "'o \<Rightarrow> string"
  pc_role :: "'u \<Rightarrow> go_error + role"
  pc_assignment :: "'u \<Rightarrow> go_error + role_assignment"
  pc_namespace :: "string \<Rightarrow> string"

definition to_unstructured :: "('o, 'u, 'w) policy_cache \<Rightarrow> 'o \<Rightarrow> go_error + 'u" where
  "to_unstructured cache obj =
    (case pc_unstructured cache obj of
       None \<Rightarrow> Inl (GoError (''unexpected object type in informer cache: '' @ pc_type_name cache obj))
     | Some u \<Rightarrow> Inr u)"

text \<open>The two loops: an object that is malformed or does not convert is skipped with a warning.\<close>

fun cached_roles ::
  "('o, 'u, 'w) policy_cache \<Rightarrow> 'o list \<Rightarrow> (string \<Rightarrow> role option) \<Rightarrow> string \<Rightarrow> role option" where
  "cached_roles cache [] m = m"
| "cached_roles cache (obj # objs) m =
    (case to_unstructured cache obj of
       Inl err \<Rightarrow> cached_roles cache objs m
     | Inr u \<Rightarrow> (case pc_role cache u of
         Inl err \<Rightarrow> cached_roles cache objs m
       | Inr r \<Rightarrow> cached_roles cache objs (m(md_name r \<mapsto> r))))"

fun cached_assignments ::
  "('o, 'u, 'w) policy_cache \<Rightarrow> 'o list \<Rightarrow> role_assignment list \<Rightarrow> role_assignment list" where
  "cached_assignments cache [] acc = acc"
| "cached_assignments cache (obj # objs) acc =
    (case to_unstructured cache obj of
       Inl err \<Rightarrow> cached_assignments cache objs acc
     | Inr u \<Rightarrow> (case pc_assignment cache u of
         Inl err \<Rightarrow> cached_assignments cache objs acc
       | Inr ra \<Rightarrow> cached_assignments cache objs (acc @ [ra])))"

definition load_from_cache ::
  "('o, 'u, 'w) policy_cache \<Rightarrow> string \<Rightarrow> 'w
   \<Rightarrow> go_error + (string \<Rightarrow> role option) \<times> role_assignment list" where
  "load_from_cache cache tenant w =
    (let ns = pc_namespace cache tenant in
     case pc_roles cache ns w of
       Inl err \<Rightarrow> Inl (wrapf (''list roles from cache (ns='' @ ns @ '')'') err)
     | Inr raw_roles \<Rightarrow>
         (case pc_assignments cache ns w of
            Inl err \<Rightarrow> Inl (wrapf (''list assignments from cache (ns='' @ ns @ '')'') err)
          | Inr raw_assignments \<Rightarrow>
              Inr (cached_roles cache raw_roles Map.empty, cached_assignments cache raw_assignments [])))"

definition cached_authorize :: "globber \<Rightarrow> ('o, 'u, 'w) policy_cache \<Rightarrow> 'w authorize" where
  "cached_authorize glob cache claim w =
    (case load_from_cache cache (cl_tenant claim) w of
       Inl err \<Rightarrow>
         ((DecisionError, Some (new_error KindInternal (wrapf ''load policy data from cache'' err))), w)
     | Inr (roles, assignments) \<Rightarrow>
         if evaluate glob claim roles assignments then ((DecisionAllowed, None), w)
         else ((DecisionDenied, Some err_forbidden), w))"

text \<open>\<^verbatim>\<open>metrics.InstrumentedChecker\<close>: the observation is a change of the world (\<open>observe\<close>).\<close>

definition instrumented_authorize :: "('w \<Rightarrow> 'w) \<Rightarrow> 'w authorize \<Rightarrow> 'w authorize" where
  "instrumented_authorize observe inner claim w =
    (case inner claim w of ((dec, err), w') \<Rightarrow> ((dec, err), observe w'))"

subsection \<open>The loops as formulas\<close>

lemma assignment_covers_scope_iff:
  "assignment_covers_scope scopes t r ws \<longleftrightarrow> (\<exists>s \<in> set scopes.
     slice_covers (ras_tenants s) t \<and> slice_covers (ras_regions s) r \<and> slice_covers (ras_workspaces s) ws)"
  by (induction scopes) auto

lemma subs_grant_iff: "subs_grant subs subject \<longleftrightarrow> ''*'' \<in> set subs \<or> subject \<in> set subs"
  by (induction subs) auto

lemma match_patterns_iff:
  "match_patterns glob ps target \<longleftrightarrow> (\<exists>p \<in> set ps. \<exists>g. glob p = Some g \<and> g target)"
  by (induction ps) (auto split: option.splits)

lemma evaluate_permissions_iff:
  "evaluate_permissions glob claim ps \<longleftrightarrow> (\<exists>p \<in> set ps. perm_provider p = cl_provider claim \<and>
     match_resource glob (perm_resources p) (cl_resource claim) (cl_name claim) \<and>
     match_verb (perm_verb p) (cl_verb claim))"
  by (induction ps) auto

lemma evaluate_roles_iff:
  "evaluate_roles glob claim roles names \<longleftrightarrow> (\<exists>n \<in> set names. \<exists>role. roles n = Some role \<and>
     evaluate_permissions glob claim (ro_permissions role))"
  by (induction names) (auto split: option.splits)

lemma evaluate_assignments_iff:
  "evaluate_assignments glob claim roles ras \<longleftrightarrow> (\<exists>ra \<in> set ras.
     assignment_covers_scope (ra_scopes ra) (cl_tenant claim) (cl_region claim) (cl_workspace claim) \<and>
     subs_grant (ra_subs ra) (cl_subject claim) \<and> evaluate_roles glob claim roles (ra_roles ra))"
  by (induction ras) auto

lemmas evaluate_iffs = evaluate_def evaluate_assignments_iff evaluate_roles_iff evaluate_permissions_iff
  assignment_covers_scope_iff subs_grant_iff

text \<open>The verb up to its first dot, when it has one.\<close>

definition bare_verb :: "string \<Rightarrow> string option" where
  "bare_verb verb = (if CHR ''.'' \<in> set verb then Some (takeWhile (\<lambda>c. c \<noteq> CHR ''.'') verb) else None)"

lemma takeWhile_before:
  "c \<notin> set p \<Longrightarrow> takeWhile (\<lambda>x. x \<noteq> c) (p @ c # r) = p"
  by (induction p) auto

lemma has_prefix_dot:
  assumes "CHR ''.'' \<notin> set p"
  shows "has_prefix (p @ ''.'') verb \<longleftrightarrow> bare_verb verb = Some p"
proof
  assume "has_prefix (p @ ''.'') verb"
  then obtain r where "verb = p @ CHR ''.'' # r" by (auto simp: has_prefix_iff)
  with assms show "bare_verb verb = Some p"
    by (simp add: bare_verb_def takeWhile_before)
next
  assume b: "bare_verb verb = Some p"
  then have p: "p = takeWhile (\<lambda>c. c \<noteq> CHR ''.'') verb" "CHR ''.'' \<in> set verb"
    by (auto simp: bare_verb_def split: if_splits)
  from split_list_first [OF p(2)] obtain ys zs where "verb = ys @ CHR ''.'' # zs" "CHR ''.'' \<notin> set ys"
    by blast
  with p(1) show "has_prefix (p @ ''.'') verb" by (simp add: takeWhile_before has_prefix_iff)
qed

lemma match_verb_iff:
  "match_verb ps verb \<longleftrightarrow> ''*'' \<in> set ps \<or> verb \<in> set ps \<or> (\<exists>b. bare_verb verb = Some b \<and> b \<in> set ps)"
proof (induction ps)
  case (Cons p ps)
  have "bare_verb verb = Some p \<Longrightarrow> CHR ''.'' \<notin> set p"
    by (auto simp: bare_verb_def dest: set_takeWhileD split: if_splits)
  with Cons has_prefix_dot [of p verb] show ?case by auto
qed simp

lemma roles_by_name_append:
  "roles_by_name (rs @ [r]) = (roles_by_name rs)(md_name r \<mapsto> r)"
  by (simp add: roles_by_name_def)

lemma roles_by_name_Some:
  "roles_by_name rs n = Some r \<Longrightarrow> r \<in> set rs \<and> md_name r = n"
  by (induction rs rule: rev_induct) (auto simp: roles_by_name_append roles_by_name_def split: if_splits)

lemma cached_roles_all:
  assumes "\<And>o'. o' \<in> set objs \<Longrightarrow> \<exists>u. pc_unstructured cache o' = Some u \<and> pc_role cache u = Inr (f o')"
  shows "cached_roles cache objs m = foldl (\<lambda>m r. m(md_name r \<mapsto> r)) m (map f objs)"
  using assms
proof (induction objs arbitrary: m)
  case (Cons o' objs)
  from Cons.prems [of o'] obtain u where "pc_unstructured cache o' = Some u" "pc_role cache u = Inr (f o')"
    by auto
  with Cons show ?case by (simp add: to_unstructured_def del: fun_upd_apply)
qed simp

lemma cached_assignments_all:
  assumes "\<And>o'. o' \<in> set objs \<Longrightarrow> \<exists>u. pc_unstructured cache o' = Some u \<and> pc_assignment cache u = Inr (f o')"
  shows "cached_assignments cache objs acc = acc @ map f objs"
  using assms
proof (induction objs arbitrary: acc)
  case (Cons o' objs)
  from Cons.prems [of o'] obtain u where "pc_unstructured cache o' = Some u" "pc_assignment cache u = Inr (f o')"
    by auto
  with Cons show ?case by (simp add: to_unstructured_def)
qed simp

subsection \<open>The contract of a checker\<close>

text \<open>
  \<^verbatim>\<open>authzport.Checker\<close>: a decision of three, and the error that goes with it. \<open>policy\<close> is what the
  checker decides by: the roles and assignments it could load, if it could.
\<close>

locale policy_checker =
  fixes authorize :: "'w authorize"
    and policy :: "authorization_claim \<Rightarrow> 'w \<Rightarrow> ((string \<Rightarrow> role option) \<times> role_assignment list) option"
    and glob :: globber
  assumes decided: "policy claim w = Some (roles, assignments) \<Longrightarrow> fst (authorize claim w) =
      (if evaluate glob claim roles assignments then (DecisionAllowed, None)
       else (DecisionDenied, Some err_forbidden))"
    and undecided: "policy claim w = None \<Longrightarrow>
      \<exists>e. fst (authorize claim w) = (DecisionError, Some (new_error KindInternal e))"
begin

lemma allowed_iff:
  "fst (fst (authorize claim w)) = DecisionAllowed \<longleftrightarrow>
    (\<exists>roles assignments. policy claim w = Some (roles, assignments) \<and> evaluate glob claim roles assignments)"
proof (cases "policy claim w")
  case None
  with undecided [OF None] show ?thesis by auto
next
  case (Some p)
  then show ?thesis using decided [of claim w "fst p" "snd p"] by (cases p) auto
qed

lemma error_kinds:
  "fst (authorize claim w) = (DecisionAllowed, None) \<or>
   fst (authorize claim w) = (DecisionDenied, Some err_forbidden) \<or>
   (\<exists>e. fst (authorize claim w) = (DecisionError, Some e) \<and> has_kind KindInternal e)"
proof (cases "policy claim w")
  case None
  with undecided [OF None] show ?thesis by (auto simp: errs)
next
  case (Some p)
  then show ?thesis using decided [of claim w "fst p" "snd p"] by auto
qed

lemma three_decisions:
  "fst (fst (authorize claim w)) \<in> {DecisionAllowed, DecisionDenied, DecisionError}"
  using error_kinds [of claim w] by auto

text \<open>The decisions of a checker are those of the instrumented one.\<close>

lemma instrumented: "policy_checker (instrumented_authorize observe authorize) policy glob"
proof -
  have same: "fst (instrumented_authorize observe authorize claim w) = fst (authorize claim w)" for claim w
    by (simp add: instrumented_authorize_def split: prod.splits)
  show ?thesis by unfold_locales (use decided undecided in \<open>simp_all add: same\<close>)
qed

end

definition direct_policy where
  "direct_policy role_reader assignment_reader claim w =
    (case fst (load_policy role_reader assignment_reader (cl_tenant claim) w) of
       Inl err \<Rightarrow> None | Inr p \<Rightarrow> Some p)"

definition cached_policy where
  "cached_policy cache claim w =
    (case load_from_cache cache (cl_tenant claim) w of Inl err \<Rightarrow> None | Inr p \<Rightarrow> Some p)"

interpretation direct: policy_checker "checker_authorize glob role_reader assignment_reader"
    "direct_policy role_reader assignment_reader" glob
  for glob :: globber and role_reader :: "(role, 'w) repo" and assignment_reader :: "(role_assignment, 'w) repo"
  by unfold_locales
    (auto simp: checker_authorize_def direct_policy_def split: prod.splits sum.splits)

interpretation cached: policy_checker "cached_authorize glob cache" "cached_policy cache" glob
  for glob :: globber and cache :: "('o, 'u, 'w) policy_cache"
  by unfold_locales (auto simp: cached_authorize_def cached_policy_def split: sum.splits)

interpretation instrumented: policy_checker "instrumented_authorize observe (checker_authorize glob role_reader assignment_reader)"
    "direct_policy role_reader assignment_reader" glob
  for observe :: "'w \<Rightarrow> 'w" and glob :: globber and role_reader :: "(role, 'w) repo"
    and assignment_reader :: "(role_assignment, 'w) repo"
  by (rule direct.instrumented)

interpretation instrumented_cached: policy_checker "instrumented_authorize observe (cached_authorize glob cache)"
    "cached_policy cache" glob
  for observe :: "'w \<Rightarrow> 'w" and glob :: globber and cache :: "('o, 'u, 'w) policy_cache"
  by (rule cached.instrumented)

subsection \<open>Correctness\<close>

text \<open>
  The formula of the evaluator's comment, over sets: the token scope admits the claim, and some
  assignment covers its scope, names its subject and carries a role with a permission for it.
\<close>

definition permission_grants :: "globber \<Rightarrow> authorization_claim \<Rightarrow> permission \<Rightarrow> bool" where
  "permission_grants glob claim p \<longleftrightarrow> perm_provider p = cl_provider claim
     \<and> (\<exists>pattern \<in> set (perm_resources p). \<exists>g. glob pattern = Some g
          \<and> g (if cl_name claim = [] then cl_resource claim else cl_resource claim @ ''/'' @ cl_name claim))
     \<and> (''*'' \<in> set (perm_verb p) \<or> cl_verb claim \<in> set (perm_verb p)
          \<or> (\<exists>b \<in> set (perm_verb p). bare_verb (cl_verb claim) = Some b))"

definition scope_admits :: "string list \<Rightarrow> string list \<Rightarrow> string list \<Rightarrow> authorization_claim \<Rightarrow> bool" where
  "scope_admits tenants regions workspaces claim \<longleftrightarrow>
     (tenants = [] \<or> cl_tenant claim \<in> set tenants) \<and> (regions = [] \<or> cl_region claim \<in> set regions)
     \<and> (workspaces = [] \<or> cl_workspace claim \<in> set workspaces)"

definition assignment_grants ::
  "globber \<Rightarrow> authorization_claim \<Rightarrow> (string \<Rightarrow> role option) \<Rightarrow> role_assignment \<Rightarrow> bool" where
  "assignment_grants glob claim roles ra \<longleftrightarrow>
     (\<exists>s \<in> set (ra_scopes ra). scope_admits (ras_tenants s) (ras_regions s) (ras_workspaces s) claim)
     \<and> (''*'' \<in> set (ra_subs ra) \<or> cl_subject claim \<in> set (ra_subs ra))
     \<and> (\<exists>name \<in> set (ra_roles ra). \<exists>role. roles name = Some role
          \<and> (\<exists>p \<in> set (ro_permissions role). permission_grants glob claim p))"

definition token_admits :: "authorization_claim \<Rightarrow> bool" where
  "token_admits claim \<longleftrightarrow>
     (ts_tenants (cl_token_scope claim) = [] \<or> cl_tenant claim = []
        \<or> cl_tenant claim \<in> set (ts_tenants (cl_token_scope claim)))
     \<and> (ts_regions (cl_token_scope claim) = [] \<or> cl_region claim = []
        \<or> cl_region claim \<in> set (ts_regions (cl_token_scope claim)))
     \<and> (ts_workspaces (cl_token_scope claim) = [] \<or> cl_workspace claim = []
        \<or> cl_workspace claim \<in> set (ts_workspaces (cl_token_scope claim)))"

lemma evaluate_permissions_grants:
  "evaluate_permissions glob claim ps \<longleftrightarrow> (\<exists>p \<in> set ps. permission_grants glob claim p)"
  by (auto simp: evaluate_permissions_iff permission_grants_def match_resource_def match_patterns_iff
      match_verb_iff)

lemma slice_covers_iff: "slice_covers l v \<longleftrightarrow> l = [] \<or> v \<in> set l"
  by (simp add: slice_covers_def)

lemma evaluate_assignments_grants:
  "evaluate_assignments glob claim roles ras \<longleftrightarrow> (\<exists>ra \<in> set ras. assignment_grants glob claim roles ra)"
  unfolding evaluate_assignments_iff evaluate_roles_iff assignment_covers_scope_iff subs_grant_iff
    assignment_grants_def evaluate_permissions_grants scope_admits_def slice_covers_iff
  by (rule refl)

lemma token_scope_covers_iff:
  "(\<not> token_scope_covers (ts_tenants (cl_token_scope claim)) (cl_tenant claim) \<or>
    \<not> token_scope_covers (ts_regions (cl_token_scope claim)) (cl_region claim) \<or>
    \<not> token_scope_covers (ts_workspaces (cl_token_scope claim)) (cl_workspace claim)) \<longleftrightarrow> \<not> token_admits claim"
  by (auto simp: token_scope_covers_def token_admits_def)

lemma evaluate_spec:
  "evaluate glob claim roles assignments \<longleftrightarrow>
     token_admits claim \<and> (\<exists>ra \<in> set assignments. assignment_grants glob claim roles ra)"
  unfolding evaluate_def token_scope_covers_iff evaluate_assignments_grants by simp

text \<open>
  C25. The policy evaluator decides exactly its documented formula: the bearer token's scope admits
  the claim, and one assignment covers the claim's tenant, region and workspace, names its subject
  (or everybody), and carries a known role one of whose permissions has the claim's provider, a
  valid pattern that matches its resource and a verb that is the wildcard, the claim's verb, or the
  claim's verb up to the first dot.
\<close>

theorem evaluate_decides_the_formula:
  "evaluate glob claim roles assignments \<longleftrightarrow>
     token_admits claim \<and> (\<exists>ra \<in> set assignments. assignment_grants glob claim roles ra)"
  by (rule evaluate_spec)

text \<open>
  No escalation. An assignment more, whatever it says, never takes an authorization away, so
  nothing can be denied by adding policy; and the scope of a token only ever narrows: what is
  allowed under some token scope is allowed without one.
\<close>

theorem evaluate_is_monotone:
  assumes "evaluate glob claim roles assignments" and "set assignments \<subseteq> set extended"
  shows "evaluate glob claim roles extended \<and>
    evaluate glob (claim\<lparr>cl_token_scope := \<lparr>ts_tenants = [], ts_regions = [], ts_workspaces = []\<rparr>\<rparr>)
      roles assignments"
proof -
  let ?claim = "claim\<lparr>cl_token_scope := \<lparr>ts_tenants = [], ts_regions = [], ts_workspaces = []\<rparr>\<rparr>"
  have "permission_grants glob ?claim p \<longleftrightarrow> permission_grants glob claim p" for p
    by (simp add: permission_grants_def)
  then have "assignment_grants glob ?claim roles ra \<longleftrightarrow> assignment_grants glob claim roles ra" for ra
    by (simp add: assignment_grants_def scope_admits_def)
  moreover have "token_admits ?claim" by (simp add: token_admits_def)
  ultimately show ?thesis using assms unfolding evaluate_spec by auto
qed

definition exact_glob :: globber where
  "exact_glob pattern = Some (\<lambda>s. s = pattern \<or> pattern = ''*'')"

text \<open>A policy for the witnesses: everybody may read the networks of tenant \<^verbatim>\<open>t\<close>.\<close>

definition reader_role :: role where
  "reader_role = \<lparr>md_name = ''reader'', md_provider = ''p'', md_version = [], md_created = 0,
     md_updated = 0, md_deleted = None, md_tenant = ''t'', md_workspace = [], md_labels = [],
     md_annotations = [], md_extensions = [],
     ro_permissions = [\<lparr>perm_provider = ''network'', perm_resources = [''networks''], perm_verb = [''get'']\<rparr>],
     ro_status = None\<rparr>"

definition readers :: role_assignment where
  "readers = \<lparr>md_name = ''readers'', md_provider = ''p'', md_version = [], md_created = 0,
     md_updated = 0, md_deleted = None, md_tenant = ''t'', md_workspace = [], md_labels = [],
     md_annotations = [], md_extensions = [], ra_subs = [''*''],
     ra_scopes = [\<lparr>ras_tenants = [''t''], ras_regions = [], ras_workspaces = []\<rparr>],
     ra_roles = [''reader''], ra_status = None\<rparr>"

definition read_claim :: authorization_claim where
  "read_claim = \<lparr>cl_subject = ''alice'',
     cl_token_scope = \<lparr>ts_tenants = [''t''], ts_regions = [], ts_workspaces = []\<rparr>,
     cl_provider = ''network'', cl_resource = ''networks'', cl_name = [], cl_verb = ''get'',
     cl_tenant = ''t'', cl_region = [], cl_workspace = ''w''\<rparr>"

lemma readers_read: "evaluate exact_glob read_claim (roles_by_name [reader_role]) [readers]"
  by (simp add: evaluate_def read_claim_def readers_def reader_role_def roles_by_name_def exact_glob_def
      token_scope_covers_def slice_covers_def match_resource_def)

lemma evaluate_is_monotone_witness:
  "evaluate exact_glob read_claim (roles_by_name [reader_role]) [readers\<lparr>ra_subs := []\<rparr>, readers]"
  using evaluate_is_monotone [OF readers_read, of "[readers\<lparr>ra_subs := []\<rparr>, readers]"] by simp

text \<open>
  What a checker has to decide by: the roles and assignments as they were listed. Where several listed
  roles have one name, the last one counts.
\<close>

definition counting_role :: "role list \<Rightarrow> string \<Rightarrow> role \<Rightarrow> bool" where
  "counting_role roles name r \<longleftrightarrow> md_name r = name
     \<and> (\<exists>before after. roles = before @ r # after \<and> (\<forall>later \<in> set after. md_name later \<noteq> name))"

definition listed_grants :: "globber \<Rightarrow> authorization_claim \<Rightarrow> role list \<Rightarrow> role_assignment list \<Rightarrow> bool" where
  "listed_grants glob claim roles assignments \<longleftrightarrow> token_admits claim \<and> (\<exists>ra \<in> set assignments.
     (\<exists>s \<in> set (ra_scopes ra). scope_admits (ras_tenants s) (ras_regions s) (ras_workspaces s) claim)
     \<and> (''*'' \<in> set (ra_subs ra) \<or> cl_subject claim \<in> set (ra_subs ra))
     \<and> (\<exists>name \<in> set (ra_roles ra). \<exists>r. counting_role roles name r
          \<and> (\<exists>p \<in> set (ro_permissions r). permission_grants glob claim p)))"

text \<open>Fail closed: no listing that failed ever counts as an empty one, and nothing is allowed without a grant.\<close>

definition fails_closed ::
  "globber \<Rightarrow> authorization_claim \<Rightarrow> go_error + role list \<Rightarrow> go_error + role_assignment list
   \<Rightarrow> decision \<times> go_error option \<Rightarrow> bool" where
  "fails_closed glob claim roles assignments outcome \<longleftrightarrow>
     (case (roles, assignments) of
        (Inr rs, Inr ras) \<Rightarrow> outcome =
          (if listed_grants glob claim rs ras then (DecisionAllowed, None) else (DecisionDenied, Some err_forbidden))
      | _ \<Rightarrow> \<exists>e. outcome = (DecisionError, Some e) \<and> has_kind KindInternal e)"

text \<open>The objects of the informer cache that convert.\<close>

definition convertible :: "('o, 'u, 'w) policy_cache \<Rightarrow> ('u \<Rightarrow> go_error + 'r) \<Rightarrow> 'o list \<Rightarrow> 'r list" where
  "convertible cache convert = List.map_filter (\<lambda>obj. case pc_unstructured cache obj of
       None \<Rightarrow> None
     | Some u \<Rightarrow> (case convert u of Inl e \<Rightarrow> None | Inr r \<Rightarrow> Some r))"

lemma counting_role_snoc:
  "counting_role (roles @ [r']) name r \<longleftrightarrow>
     (if md_name r' = name then r = r' else counting_role roles name r)"
proof
  assume "counting_role (roles @ [r']) name r"
  then obtain before after where parts: "roles @ [r'] = before @ r # after" and name: "md_name r = name"
    and later: "\<forall>later \<in> set after. md_name later \<noteq> name" by (auto simp: counting_role_def)
  show "if md_name r' = name then r = r' else counting_role roles name r"
  proof (cases after rule: rev_cases)
    case Nil
    with parts name show ?thesis by simp
  next
    case (snoc ys y)
    with parts have "roles = before @ r # ys" "y = r'"
      by (simp_all flip: append_Cons append_assoc)
    with snoc name later show ?thesis by (auto simp: counting_role_def)
  qed
next
  assume "if md_name r' = name then r = r' else counting_role roles name r"
  then show "counting_role (roles @ [r']) name r"
  proof (cases "md_name r' = name")
    case False
    with \<open>if md_name r' = name then r = r' else counting_role roles name r\<close> obtain before after where
      "roles = before @ r # after" "md_name r = name" "\<forall>later \<in> set after. md_name later \<noteq> name"
      by (auto simp: counting_role_def)
    with False have "roles @ [r'] = before @ r # (after @ [r'])" "\<forall>later \<in> set (after @ [r']). md_name later \<noteq> name"
      by auto
    with \<open>md_name r = name\<close> show ?thesis unfolding counting_role_def by blast
  qed (use append_Cons in \<open>fastforce simp: counting_role_def\<close>)
qed

lemma roles_by_name_counting: "roles_by_name roles name = Some r \<longleftrightarrow> counting_role roles name r"
proof (induction roles rule: rev_induct)
  case Nil
  show ?case by (simp add: roles_by_name_def counting_role_def)
next
  case (snoc r' roles)
  then show ?case by (auto simp: roles_by_name_append counting_role_snoc)
qed

lemma evaluate_listed:
  "evaluate glob claim (roles_by_name roles) assignments \<longleftrightarrow> listed_grants glob claim roles assignments"
  unfolding evaluate_spec listed_grants_def assignment_grants_def roles_by_name_counting by (rule refl)

lemma cached_roles_convertible:
  "cached_roles cache objs m = foldl (\<lambda>m r. m(md_name r \<mapsto> r)) m (convertible cache (pc_role cache) objs)"
  by (induction objs arbitrary: m)
    (simp_all add: convertible_def map_filter_simps to_unstructured_def split: option.split sum.split)

lemma cached_assignments_convertible:
  "cached_assignments cache objs acc = acc @ convertible cache (pc_assignment cache) objs"
  by (induction objs arbitrary: acc)
    (simp_all add: convertible_def map_filter_simps to_unstructured_def split: option.split sum.split)

lemma load_policy_listed:
  assumes "rp_list role_reader (tenant_params tenant) w = (x, w1)"
    and "rp_list assignment_reader (tenant_params tenant) w1 = (y, w2)"
  shows "case fst (load_policy role_reader assignment_reader tenant w) of
      Inl e \<Rightarrow> isl x \<or> isl y
    | Inr p \<Rightarrow> \<exists>rs t ras t'. x = Inr (rs, t) \<and> y = Inr (ras, t') \<and> p = (roles_by_name rs, ras)"
  using assms by (auto simp: load_policy_def split: sum.splits)

lemma load_from_cache_listed:
  "case load_from_cache cache tenant w of
      Inl e \<Rightarrow> isl (pc_roles cache (pc_namespace cache tenant) w) \<or> isl (pc_assignments cache (pc_namespace cache tenant) w)
    | Inr p \<Rightarrow> \<exists>rs ras. pc_roles cache (pc_namespace cache tenant) w = Inr rs
        \<and> pc_assignments cache (pc_namespace cache tenant) w = Inr ras
        \<and> p = (roles_by_name (convertible cache (pc_role cache) rs), convertible cache (pc_assignment cache) ras)"
  by (auto simp: load_from_cache_def Let_def cached_roles_convertible cached_assignments_convertible
      roles_by_name_def split: sum.splits)

lemma instrumented_same: "fst (instrumented_authorize observe inner claim w) = fst (inner claim w)"
  by (simp add: instrumented_authorize_def split: prod.splits)

text \<open>
  C32. The checkers fail closed. The reader-backed checker lists the tenant's roles and then its
  assignments, the informer-backed one takes both from its cache, without the objects that do not
  convert. Each of them, instrumented or not, answers with an error of the internal kind when either
  listing fails; otherwise it allows the claim exactly when the token admits it and a listed assignment
  that covers it and names its subject carries the name of a listed role with a permission for it,
  and denies it with a forbidden error in every other case.
\<close>

theorem checkers_fail_closed:
  "fails_closed glob claim
     (map_sum id fst (fst (rp_list role_reader (tenant_params (cl_tenant claim)) w)))
     (map_sum id fst (fst (rp_list assignment_reader (tenant_params (cl_tenant claim))
        (snd (rp_list role_reader (tenant_params (cl_tenant claim)) w)))))
     (fst (checker_authorize glob role_reader assignment_reader claim w))
   \<and> fails_closed glob claim
     (map_sum id (convertible cache (pc_role cache)) (pc_roles cache (pc_namespace cache (cl_tenant claim)) w))
     (map_sum id (convertible cache (pc_assignment cache)) (pc_assignments cache (pc_namespace cache (cl_tenant claim)) w))
     (fst (cached_authorize glob cache claim w))
   \<and> fst (instrumented_authorize observe (checker_authorize glob role_reader assignment_reader) claim w)
       = fst (checker_authorize glob role_reader assignment_reader claim w)
   \<and> fst (instrumented_authorize observe (cached_authorize glob cache) claim w)
       = fst (cached_authorize glob cache claim w)"
proof (intro conjI instrumented_same)
  let ?t = "tenant_params (cl_tenant claim)"
  obtain x w1 where roles: "rp_list role_reader ?t w = (x, w1)" by fastforce
  obtain y w2 where assignments: "rp_list assignment_reader ?t w1 = (y, w2)" by fastforce
  note loaded = load_policy_listed [OF roles assignments]
  show "fails_closed glob claim (map_sum id fst (fst (rp_list role_reader ?t w)))
     (map_sum id fst (fst (rp_list assignment_reader ?t (snd (rp_list role_reader ?t w)))))
     (fst (checker_authorize glob role_reader assignment_reader claim w))"
  proof (cases "fst (load_policy role_reader assignment_reader (cl_tenant claim) w)")
    case (Inl e)
    then have "direct_policy role_reader assignment_reader claim w = None" by (simp add: direct_policy_def)
    from direct.undecided [OF this, of glob] loaded Inl show ?thesis
      by (cases x; cases y) (auto simp: fails_closed_def roles assignments errs)
  next
    case (Inr p)
    then have "direct_policy role_reader assignment_reader claim w = Some p" by (simp add: direct_policy_def)
    with direct.decided [of role_reader assignment_reader claim w "fst p" "snd p" glob] loaded Inr show ?thesis
      by (auto simp: fails_closed_def roles assignments evaluate_listed)
  qed
next
  note loaded = load_from_cache_listed [of cache "cl_tenant claim" w]
  show "fails_closed glob claim
     (map_sum id (convertible cache (pc_role cache)) (pc_roles cache (pc_namespace cache (cl_tenant claim)) w))
     (map_sum id (convertible cache (pc_assignment cache)) (pc_assignments cache (pc_namespace cache (cl_tenant claim)) w))
     (fst (cached_authorize glob cache claim w))"
  proof (cases "load_from_cache cache (cl_tenant claim) w")
    case (Inl e)
    then have "cached_policy cache claim w = None" by (simp add: cached_policy_def)
    from cached.undecided [OF this, of glob] loaded Inl show ?thesis
      by (cases "pc_roles cache (pc_namespace cache (cl_tenant claim)) w";
          cases "pc_assignments cache (pc_namespace cache (cl_tenant claim)) w") (auto simp: fails_closed_def errs)
  next
    case (Inr p)
    then have "cached_policy cache claim w = Some p" by (simp add: cached_policy_def)
    with cached.decided [of cache claim w "fst p" "snd p" glob] loaded Inr show ?thesis
      by (auto simp: fails_closed_def evaluate_listed)
  qed
qed


definition listing_repo :: "'r list \<Rightarrow> ('r, unit) repo" where
  "listing_repo items = \<lparr>rp_create = (\<lambda>r w. (Inr r, w)), rp_update = (\<lambda>r w. (Inr r, w)),
     rp_update_status = (\<lambda>r w. (Inr r, w)), rp_delete = (\<lambda>r w. (None, w)), rp_load = (\<lambda>r w. (Inr r, w)),
     rp_list = (\<lambda>params w. (Inr (items, None), w))\<rparr>"

definition small_cache :: "(string, string, unit) policy_cache" where
  "small_cache = \<lparr>pc_roles = (\<lambda>ns w. Inr [''reader'']), pc_assignments = (\<lambda>ns w. Inr [''readers'']),
     pc_unstructured = Some, pc_type_name = (\<lambda>x. ''string''),
     pc_role = (\<lambda>u. Inr (reader_role\<lparr>md_name := u\<rparr>)),
     pc_assignment = (\<lambda>u. Inr (readers\<lparr>md_name := u\<rparr>)), pc_namespace = (\<lambda>t. t)\<rparr>"


end
