(* ===== verification/Middleware.thy ===== *)
theory Middleware
  imports Rest Authz
begin

section \<open>Authentication and authorization of requests\<close>

text \<open>
  Models \<^verbatim>\<open>framework/frontend/middleware\<close>, \<^verbatim>\<open>gateway/internal/authn\<close> and the wiring of
  \<^verbatim>\<open>gateway/internal/auth/config.go\<close>. A middleware turns the next handler into a handler. The codecs
  of the standard library (base64, JSON) and the JWT library are parameters: what they make of a
  token.
\<close>

type_synonym 'w authenticate = "string \<Rightarrow> 'w \<Rightarrow> (go_error + token_identity) \<times> 'w"

type_synonym ('out, 'w) middleware = "('out, 'w) handler \<Rightarrow> ('out, 'w) handler"

definition empty_token_scope :: token_scope where
  "empty_token_scope = \<lparr>ts_tenants = [], ts_regions = [], ts_workspaces = []\<rparr>"

subsection \<open>Authenticators: \<^verbatim>\<open>dummy.go\<close>, \<^verbatim>\<open>jwtstd.go\<close>\<close>

record token_payload =
  tp_username :: string
  tp_password :: string
  tp_scope :: "token_scope option"

record token_codec =
  tk_base64_std :: "string \<Rightarrow> string option"
  tk_base64_url :: "string \<Rightarrow> string option"
  tk_json :: "string \<Rightarrow> token_payload option"

definition dummy_authenticate :: "token_codec \<Rightarrow> strmap \<Rightarrow> 'w authenticate" where
  "dummy_authenticate codec users token w =
    (let raw = (case tk_base64_std codec token of
         Some raw \<Rightarrow> Some raw
       | None \<Rightarrow> tk_base64_url codec token) in
     case raw of
       None \<Rightarrow> (Inl (wrap_first err_unauthorized ''token is not valid base64'' []), w)
     | Some raw \<Rightarrow>
         (case tk_json codec raw of
            None \<Rightarrow> (Inl (wrap_first err_unauthorized ''token payload is not valid JSON'' []), w)
          | Some payload \<Rightarrow>
              if tp_username payload = [] then
                (Inl (wrap_first err_unauthorized ''token missing username'' []), w)
              else (case map_get users (tp_username payload) of
                  None \<Rightarrow> (Inl (wrap_first err_unauthorized ''invalid credentials'' []), w)
                | Some expected \<Rightarrow>
                    if expected \<noteq> tp_password payload then
                      (Inl (wrap_first err_unauthorized ''invalid credentials'' []), w)
                    else (Inr \<lparr>tid_subject = tp_username payload,
                        tid_scope = (case tp_scope payload of
                            Some scope \<Rightarrow> scope | None \<Rightarrow> empty_token_scope)\<rparr>, w))))"

text \<open>The claims of a JWT and \<^verbatim>\<open>jwt.ParseWithClaims\<close> with the one valid method and expiry required.\<close>

record jwt_claims =
  jc_subject :: string
  jc_scope :: "token_scope option"

definition jwt_authenticate :: "(string \<Rightarrow> 'w \<Rightarrow> go_error + jwt_claims) \<Rightarrow> 'w authenticate" where
  "jwt_authenticate parse token w =
    (case parse token w of
       Inl err \<Rightarrow> (Inl (wrap_first err_unauthorized
           (''token is not valid JWT: '' @ error_text err) [err]), w)
     | Inr claims \<Rightarrow>
         if jc_subject claims = [] then
           (Inl (wrap_first err_unauthorized ''token subject is missing'' []), w)
         else (Inr \<lparr>tid_subject = jc_subject claims,
             tid_scope = (case jc_scope claims of Some scope \<Rightarrow> scope | None \<Rightarrow> empty_token_scope)\<rparr>, w))"

subsection \<open>The middlewares: \<^verbatim>\<open>authentication.go\<close>, \<^verbatim>\<open>authorization.go\<close>, \<^verbatim>\<open>chain.go\<close>\<close>

definition bearer_token :: "http_request \<Rightarrow> string option" where
  "bearer_token r =
    (let v = rq_header r ''Authorization'' in
     if v = [] then None
     else (case split_two CHR '' '' v of
         [scheme, token] \<Rightarrow> if \<not> equal_fold scheme ''Bearer'' \<or> token = [] then None else Some token
       | _ \<Rightarrow> None))"

definition new_authentication :: "'w authenticate \<Rightarrow> ('out, 'w) middleware" where
  "new_authentication authenticate next_handler r w =
    (case bearer_token r of
       None \<Rightarrow> (write_error_response r err_unauthorized, w)
     | Some token \<Rightarrow>
         (case authenticate token w of
            (Inl err, w') \<Rightarrow>
              if errors_is err err_internal \<or> errors_is err err_unavailable
              then (write_error_response r err_internal, w')
              else (write_error_response r err_unauthorized, w')
          | (Inr ident, w') \<Rightarrow> next_handler (r\<lparr>rq_identity := Some ident\<rparr>) w'))"

definition new_authorization ::
  "'w authorize \<Rightarrow> (http_request \<Rightarrow> go_error + authorization_claim) \<Rightarrow> ('out, 'w) middleware" where
  "new_authorization authorize extractor next_handler r w =
    (case rq_identity r of
       None \<Rightarrow> (write_error_response r err_unauthorized, w)
     | Some ident \<Rightarrow>
         (case extractor r of
            Inl err \<Rightarrow> (write_error_response r err_internal, w)
          | Inr claim0 \<Rightarrow>
              (let claim = claim0\<lparr>cl_subject := tid_subject ident, cl_token_scope := tid_scope ident\<rparr> in
               case authorize claim w of
                 ((DecisionAllowed, _), w') \<Rightarrow> next_handler r w'
               | ((DecisionDenied, _), w') \<Rightarrow> (write_error_response r err_forbidden, w')
               | ((DecisionError, _), w') \<Rightarrow> (write_error_response r err_internal, w')
               | ((DecisionOther n, _), w') \<Rightarrow> (write_error_response r err_internal, w'))))"

text \<open>\<^verbatim>\<open>Chain\<close>: \<^verbatim>\<open>result[n-1-i] = mws[i]\<close>.\<close>

definition chain_middlewares :: "('out, 'w) middleware list \<Rightarrow> ('out, 'w) middleware list" where
  "chain_middlewares mws = map (\<lambda>j. mws ! (length mws - 1 - j)) [0..<length mws]"

text \<open>What the generated router does with the slice: every entry wraps what is there already.\<close>

definition wrap_handler :: "('out, 'w) middleware list \<Rightarrow> ('out, 'w) handler \<Rightarrow> ('out, 'w) handler" where
  "wrap_handler mws base = foldl (\<lambda>h mw. mw h) base mws"

subsection \<open>Claims: \<^verbatim>\<open>claim.go\<close>\<close>

definition is_wildcard :: "string \<Rightarrow> bool" where
  "is_wildcard s \<longleftrightarrow> length s > 2 \<and> hd s = CHR ''{'' \<and> last s = CHR ''}''"

definition path_segments :: "string \<Rightarrow> string list" where
  "path_segments p = (let trimmed = trim_byte CHR ''/'' p in
     if trimmed = [] then [] else split_on CHR ''/'' trimmed)"

definition strip_v1_tenants_anchor :: "string \<Rightarrow> string" where
  "strip_v1_tenants_anchor p =
    (if \<not> has_prefix ''/v1/tenants/'' p then p
     else let rest = drop (length ''/v1/tenants/'') p in
       case index_byte CHR ''/'' rest of None \<Rightarrow> [] | Some i \<Rightarrow> drop i rest)"

definition strip_workspace_anchor :: "string \<Rightarrow> string" where
  "strip_workspace_anchor p =
    (if \<not> has_prefix ''/workspaces/'' p then p
     else let rest = drop (length ''/workspaces/'') p in
       case index_byte CHR ''/'' rest of None \<Rightarrow> [] | Some i \<Rightarrow> drop i rest)"

definition drop_last_wildcard :: "string list \<Rightarrow> string list" where
  "drop_last_wildcard segs = (if segs \<noteq> [] \<and> is_wildcard (last segs) then butlast segs else segs)"

definition verb_and_segments :: "string \<Rightarrow> string \<Rightarrow> string list \<Rightarrow> string \<times> string list" where
  "verb_and_segments method name segs =
    (if method = ''POST'' then
       (if length segs \<ge> 2 \<and> \<not> is_wildcard (segs ! (length segs - 1)) \<and> is_wildcard (segs ! (length segs - 2))
        then (''post.'' @ segs ! (length segs - 1), take (length segs - 2) segs)
        else (''post'', drop_last_wildcard segs))
     else if method = ''GET'' then
       (if name = [] then (''list'', segs) else (''get'', drop_last_wildcard segs))
     else if method = ''PUT'' then (''put'', drop_last_wildcard segs)
     else if method = ''DELETE'' then (''delete'', drop_last_wildcard segs)
     else (to_lower method, drop_last_wildcard segs))"

definition resource_and_verb :: "string \<Rightarrow> string \<Rightarrow> string \<Rightarrow> go_error + string \<times> string" where
  "resource_and_verb pattern base_url name =
    (case split_two CHR '' '' pattern of
       [method, path_pat] \<Rightarrow>
         (let rest = strip_workspace_anchor (strip_v1_tenants_anchor (trim_prefix base_url path_pat));
              (verb, segs) = verb_and_segments method name (path_segments rest) in
          Inr (join ''/'' (filter (\<lambda>s. \<not> is_wildcard s) segs), verb))
     | _ \<Rightarrow> Inl (GoError (''unexpected request pattern '' @ fmt_q pattern)))"

definition seca_claim_extractor ::
  "string \<Rightarrow> string \<Rightarrow> string \<Rightarrow> http_request \<Rightarrow> go_error + authorization_claim" where
  "seca_claim_extractor region provider base_url r =
    (let tenant = rq_path_value r ''tenant''; workspace = rq_path_value r ''workspace'';
         name = rq_path_value r ''name'' in
     case resource_and_verb (rq_pattern r) base_url name of
       Inl err \<Rightarrow> Inl (wrapf ''extract authorization claim'' err)
     | Inr (resource, verb) \<Rightarrow>
         Inr \<lparr>cl_subject = [], cl_token_scope = empty_token_scope, cl_provider = provider,
              cl_resource = resource, cl_name = name, cl_verb = verb, cl_tenant = tenant,
              cl_region = region, cl_workspace = workspace\<rparr>)"

subsection \<open>Wiring: \<^verbatim>\<open>gateway/internal/auth/config.go\<close>\<close>

record auth_flags =
  fl_enabled :: bool
  fl_auth_plugin :: string
  fl_jwt_signing_method :: string
  fl_jwt_secret_file :: string
  fl_dummy_users_file :: string
  fl_authz_cache :: bool
  fl_authz_enabled :: bool
  fl_authz_skip_providers :: "string list"

definition authz_skipped :: "auth_flags option \<Rightarrow> string \<Rightarrow> bool" where
  "authz_skipped flags provider =
    (case flags of None \<Rightarrow> False | Some f \<Rightarrow> provider \<in> set (fl_authz_skip_providers f))"

text \<open>
  What starting the authenticators needs from outside: reading a file, decoding the users file,
  the libraries that know signing methods,
  PEM and PKIX, and the JWT parser of a key and method.
\<close>

datatype 'key verify_key = HmacSecret string | PublicKey 'key

record ('key, 'w) auth_env =
  en_read_file :: "string \<Rightarrow> go_error + string"
  en_parse_users :: "string \<Rightarrow> go_error + strmap"
  en_signing_method :: "string \<Rightarrow> bool"
  en_pem_decode :: "string \<Rightarrow> string option"
  en_parse_pkix :: "string \<Rightarrow> go_error + 'key"
  en_codec :: token_codec
  en_jwt :: "'key verify_key \<Rightarrow> string \<Rightarrow> string \<Rightarrow> 'w \<Rightarrow> go_error + jwt_claims"

definition parse_verify_key ::
  "('key, 'w) auth_env \<Rightarrow> string \<Rightarrow> string \<Rightarrow> go_error + 'key verify_key" where
  "parse_verify_key env signing data =
    (if \<not> en_signing_method env signing
       then Inl (GoError (''unknown JWT signing method '' @ fmt_q signing))
     else if has_prefix ''HS'' signing then Inr (HmacSecret data)
     else case en_pem_decode env data of
         None \<Rightarrow> Inl (GoError ''JWT key is not PEM-encoded'')
       | Some block \<Rightarrow> map_sum (\<lambda>err. err) PublicKey (en_parse_pkix env block))"

definition build_authenticator :: "auth_flags \<Rightarrow> ('key, 'w) auth_env \<Rightarrow> go_error + 'w authenticate" where
  "build_authenticator flags env =
    (if fl_auth_plugin flags = ''dummy'' then
       (if fl_dummy_users_file flags = [] then
          Inl (GoError ''--dummy-auth-users must be set when --auth-enabled is true'')
        else case en_read_file env (fl_dummy_users_file flags) of
            Inl err \<Rightarrow> Inl (wrapf (''read dummy users file '' @ fmt_q (fl_dummy_users_file flags)) err)
          | Inr data \<Rightarrow>
              (case en_parse_users env data of
                 Inl err \<Rightarrow> Inl (wrapf (''parse dummy users file '' @ fmt_q (fl_dummy_users_file flags)) err)
               | Inr users \<Rightarrow> Inr (dummy_authenticate (en_codec env) users)))
     else if fl_auth_plugin flags = ''jwt'' then
       (if fl_jwt_secret_file flags = [] \<or> fl_jwt_signing_method flags = [] then
          Inl (GoError (''--jwt-secret and --jwt-signing-method must be set when --auth-plugin is ''
            @ [char_of (39 :: nat)] @ ''jwt'' @ [char_of (39 :: nat)]))
        else case en_read_file env (fl_jwt_secret_file flags) of
            Inl err \<Rightarrow> Inl (wrapf (''read JWT secret file '' @ fmt_q (fl_jwt_secret_file flags)) err)
          | Inr data \<Rightarrow>
              (case parse_verify_key env (fl_jwt_signing_method flags) data of
                 Inl err \<Rightarrow> Inl (wrapf (''parse JWT key from '' @ fmt_q (fl_jwt_secret_file flags)) err)
               | Inr key \<Rightarrow> Inr (jwt_authenticate (en_jwt env key (fl_jwt_signing_method flags)))))
     else Inl (GoError (''unknown auth plugin '' @ fmt_q (fl_auth_plugin flags))))"

text \<open>
  \<^verbatim>\<open>Build\<close>: the authenticator and the instrumented checker the flags select. \<open>has_client\<close>: the dynamic
  client is not nil.
\<close>

definition build_auth ::
  "auth_flags \<Rightarrow> ('key, 'w) auth_env \<Rightarrow> bool \<Rightarrow> ('w \<Rightarrow> 'w) \<Rightarrow> 'w authorize \<Rightarrow> 'w authorize
   \<Rightarrow> go_error + 'w authenticate option \<times> 'w authorize option" where
  "build_auth flags env has_client observe cached_checker direct_checker =
    (if \<not> fl_enabled flags then Inr (None, None)
     else case build_authenticator flags env of
         Inl err \<Rightarrow> Inl (wrapf ''build authenticator'' err)
       | Inr authenticator \<Rightarrow>
           if \<not> fl_authz_enabled flags then Inr (Some authenticator, None)
           else if fl_authz_cache flags then
             (if \<not> has_client then Inl (GoError ''--authz-cache requires a dynamic Kubernetes client'')
              else Inr (Some authenticator, Some (instrumented_authorize observe cached_checker)))
           else Inr (Some authenticator, Some (instrumented_authorize observe direct_checker)))"

text \<open>\<^verbatim>\<open>metrics.Middleware\<close>: the observation is a change of the world.\<close>

definition metrics_middleware :: "('w \<Rightarrow> 'w) \<Rightarrow> ('out, 'w) middleware" where
  "metrics_middleware observe next_handler r w =
    (case next_handler r w of (response, w') \<Rightarrow> (response, observe w'))"

definition provider_mws ::
  "auth_flags option \<Rightarrow> 'w authenticate option \<Rightarrow> 'w authorize option \<Rightarrow> string \<Rightarrow> string \<Rightarrow> string
   \<Rightarrow> ('w \<Rightarrow> 'w) \<Rightarrow> ('out, 'w) middleware list" where
  "provider_mws flags authenticator checker region provider base_url observe =
    (case authenticator of
       None \<Rightarrow> []
     | Some authenticate \<Rightarrow>
         (case checker of
            None \<Rightarrow> chain_middlewares [metrics_middleware observe, new_authentication authenticate]
          | Some authorize \<Rightarrow>
              if authz_skipped flags provider
              then chain_middlewares [metrics_middleware observe, new_authentication authenticate]
              else chain_middlewares [metrics_middleware observe, new_authentication authenticate,
                new_authorization authorize (seca_claim_extractor region provider base_url)]))"

subsection \<open>Facts about requests that pass\<close>

lemma chain_middlewares_rev: "chain_middlewares mws = rev mws"
  by (rule nth_equalityI) (simp_all add: chain_middlewares_def rev_nth)

text \<open>Composed with the router, the middlewares run in the order they were given.\<close>

lemma chain_order: "wrap_handler (chain_middlewares mws) base = foldr (\<lambda>mw h. mw h) mws base"
  by (simp add: chain_middlewares_rev wrap_handler_def foldl_conv_fold rev_swap foldr_conv_fold)

lemma authentication_passes_or_refuses:
  "(\<exists>token ident w'. bearer_token r = Some token \<and> authenticate token w = (Inr ident, w') \<and>
      new_authentication authenticate next_handler r w = next_handler (r\<lparr>rq_identity := Some ident\<rparr>) w') \<or>
   (\<exists>e w'. e \<in> {err_unauthorized, err_internal} \<and>
      new_authentication authenticate next_handler r w = (write_error_response r e, w'))"
proof (cases "bearer_token r")
  case None
  then show ?thesis by (auto simp: new_authentication_def)
next
  case (Some token)
  then show ?thesis
    by (cases "authenticate token w"; cases "fst (authenticate token w)")
       (auto simp: new_authentication_def)
qed

lemma authorization_passes_or_refuses:
  "(\<exists>ident claim0 err w'. rq_identity r = Some ident \<and> extractor r = Inr claim0 \<and>
      authorize (claim0\<lparr>cl_subject := tid_subject ident, cl_token_scope := tid_scope ident\<rparr>) w
        = ((DecisionAllowed, err), w') \<and>
      new_authorization authorize extractor next_handler r w = next_handler r w') \<or>
   (\<exists>e w'. e \<in> {err_unauthorized, err_forbidden, err_internal} \<and>
      new_authorization authorize extractor next_handler r w = (write_error_response r e, w'))"
proof (cases "rq_identity r")
  case None
  then show ?thesis by (auto simp: new_authorization_def)
next
  case (Some ident)
  show ?thesis
  proof (cases "extractor r")
    case (Inl err)
    with Some show ?thesis by (auto simp: new_authorization_def)
  next
    case (Inr claim0)
    let ?claim = "claim0\<lparr>cl_subject := tid_subject ident, cl_token_scope := tid_scope ident\<rparr>"
    obtain d err w' where a: "authorize ?claim w = ((d, err), w')" by (metis prod.collapse)
    show ?thesis
      by (cases d) (use Some Inr a in \<open>auto simp: new_authorization_def Let_def\<close>)
  qed
qed

subsection \<open>Correctness of the gate\<close>

text \<open>What a request must bring to get past both middlewares.\<close>

definition admitted ::
  "'w authenticate \<Rightarrow> 'w authorize \<Rightarrow> (http_request \<Rightarrow> go_error + authorization_claim)
   \<Rightarrow> http_request \<Rightarrow> 'w \<Rightarrow> http_request \<Rightarrow> 'w \<Rightarrow> bool" where
  "admitted authenticate authorize extractor r w r' w' \<longleftrightarrow>
    (\<exists>token ident w1 claim err. bearer_token r = Some token \<and> authenticate token w = (Inr ident, w1)
       \<and> r' = r\<lparr>rq_identity := Some ident\<rparr> \<and> extractor r' = Inr claim
       \<and> authorize (claim\<lparr>cl_subject := tid_subject ident, cl_token_scope := tid_scope ident\<rparr>) w1
           = ((DecisionAllowed, err), w'))"

definition refused :: "'out http_response \<Rightarrow> bool" where
  "refused response \<longleftrightarrow> rs_status response \<in> {401, 403, 500} \<and> (\<exists>problem. rs_body response = Problem problem)"

lemma refusal: "e \<in> {err_unauthorized, err_forbidden, err_internal} \<Longrightarrow> refused (write_error_response r e)"
  by (auto simp: refused_def map_kind_to_http_def) (auto simp: write_error_response_def Let_def)

lemma gate_admits_or_refuses:
  "(\<exists>r' w'. admitted authenticate authorize extractor r w r' w' \<and>
      new_authentication authenticate (new_authorization authorize extractor base) r w = base r' w') \<or>
   refused (fst (new_authentication authenticate (new_authorization authorize extractor base) r w))"
proof -
  from authentication_passes_or_refuses [of r authenticate w "new_authorization authorize extractor base"]
  show ?thesis
  proof
    assume "\<exists>e w'. e \<in> {err_unauthorized, err_internal} \<and>
      new_authentication authenticate (new_authorization authorize extractor base) r w
        = (write_error_response r e, w')"
    then show ?thesis using refusal by fastforce
  next
    assume "\<exists>token ident w'. bearer_token r = Some token \<and> authenticate token w = (Inr ident, w') \<and>
      new_authentication authenticate (new_authorization authorize extractor base) r w
        = new_authorization authorize extractor base (r\<lparr>rq_identity := Some ident\<rparr>) w'"
    then obtain token ident w1 where token: "bearer_token r = Some token"
      "authenticate token w = (Inr ident, w1)" and
      step: "new_authentication authenticate (new_authorization authorize extractor base) r w
        = new_authorization authorize extractor base (r\<lparr>rq_identity := Some ident\<rparr>) w1" by blast
    from authorization_passes_or_refuses
      [of "r\<lparr>rq_identity := Some ident\<rparr>" "extractor" authorize w1 base]
    show ?thesis
    proof
      assume "\<exists>ident' claim0 err w'. rq_identity (r\<lparr>rq_identity := Some ident\<rparr>) = Some ident' \<and>
          extractor (r\<lparr>rq_identity := Some ident\<rparr>) = Inr claim0 \<and>
          authorize (claim0\<lparr>cl_subject := tid_subject ident', cl_token_scope := tid_scope ident'\<rparr>) w1
            = ((DecisionAllowed, err), w') \<and>
          new_authorization authorize extractor base (r\<lparr>rq_identity := Some ident\<rparr>) w1
            = base (r\<lparr>rq_identity := Some ident\<rparr>) w'"
      then show ?thesis using token step unfolding admitted_def by fastforce
    next
      assume "\<exists>e w'. e \<in> {err_unauthorized, err_forbidden, err_internal} \<and>
          new_authorization authorize extractor base (r\<lparr>rq_identity := Some ident\<rparr>) w1
            = (write_error_response (r\<lparr>rq_identity := Some ident\<rparr>) e, w')"
      then show ?thesis using step refusal by fastforce
    qed
  qed
qed

lemma provider_chain:
  assumes "\<not> authz_skipped flags provider"
  shows "wrap_handler (provider_mws flags (Some authenticate) (Some authorize) region provider base_url observe) base
    = metrics_middleware observe (new_authentication authenticate
        (new_authorization authorize (seca_claim_extractor region provider base_url) base))"
  using assms by (simp add: provider_mws_def chain_order)

text \<open>
  Nothing gets past the gate without authentication and authorization. With both enabled and
  the provider not exempted, a request reaches the provider's handler only with a bearer token the
  authenticator accepts, a claim that could be extracted, and the checker's decision "allowed" for
  that claim with the token's subject and scope put in; every other request is answered with 401,
  403 or 500 and a problem body, and the handler is not run.
\<close>

theorem gate_is_closed:
  assumes "\<not> authz_skipped flags provider"
  shows "(\<exists>r' w' w''. admitted authenticate authorize (seca_claim_extractor region provider base_url) r w r' w'
            \<and> (let (response, w3) = base r' w' in
               wrap_handler (provider_mws flags (Some authenticate) (Some authorize) region provider base_url
                 observe) base r w = (response, w'') \<and> w'' = observe w3))
       \<or> refused (fst (wrap_handler (provider_mws flags (Some authenticate) (Some authorize) region provider
            base_url observe) base r w))"
proof -
  let ?gate = "new_authentication authenticate
    (new_authorization authorize (seca_claim_extractor region provider base_url) base)"
  have wrapped: "metrics_middleware observe ?gate r w = (fst (?gate r w), observe (snd (?gate r w)))"
    by (simp add: metrics_middleware_def split: prod.splits)
  from gate_admits_or_refuses
    [of authenticate authorize "seca_claim_extractor region provider base_url" r w base]
  show ?thesis
    unfolding provider_chain [OF assms] wrapped
    by (elim disjE exE conjE) (auto simp: Let_def case_prod_beta)
qed

text \<open>
  A request that policy grants: it brings a token the authenticator accepts, its claim with the token's
  subject and scope is admitted by the scope and granted by an assignment the checker could load.
\<close>

definition granted_by where
  "granted_by policy glob authenticate extractor r w \<longleftrightarrow>
    (\<exists>token ident w1 claim0 claim roles assignments ra.
       bearer_token r = Some token \<and> authenticate token w = (Inr ident, w1)
       \<and> extractor (r\<lparr>rq_identity := Some ident\<rparr>) = Inr claim0
       \<and> claim = claim0\<lparr>cl_subject := tid_subject ident, cl_token_scope := tid_scope ident\<rparr>
       \<and> policy claim w1 = Some (roles, assignments)
       \<and> token_admits claim \<and> ra \<in> set assignments \<and> assignment_grants glob claim roles ra)"

context policy_checker begin

lemma gate_grants:
  assumes "\<not> authz_skipped flags provider"
    and "wrap_handler (provider_mws flags (Some authenticate) (Some authorize) region provider base_url observe) base r w
      = (response, w')"
    and "\<not> refused response"
  shows "granted_by policy glob authenticate (seca_claim_extractor region provider base_url) r w"
proof -
  let ?extractor = "seca_claim_extractor region provider base_url"
  have "\<exists>r' w'. admitted authenticate authorize ?extractor r w r' w'"
    using gate_admits_or_refuses [of authenticate authorize ?extractor r w base] assms(2,3)
    unfolding provider_chain [OF assms(1)]
    by (auto simp: metrics_middleware_def split: prod.splits)
  then obtain token ident w1 claim0 err w2 where
    token: "bearer_token r = Some token" "authenticate token w = (Inr ident, w1)" and
    claimed: "?extractor (r\<lparr>rq_identity := Some ident\<rparr>) = Inr claim0" and
    allowed: "authorize (claim0\<lparr>cl_subject := tid_subject ident, cl_token_scope := tid_scope ident\<rparr>) w1
        = ((DecisionAllowed, err), w2)"
    by (auto simp: admitted_def)
  let ?claim = "claim0\<lparr>cl_subject := tid_subject ident, cl_token_scope := tid_scope ident\<rparr>"
  have "fst (fst (authorize ?claim w1)) = DecisionAllowed" using allowed by simp
  then obtain roles assignments where
    policy: "policy ?claim w1 = Some (roles, assignments)" and granted: "evaluate glob ?claim roles assignments"
    unfolding allowed_iff by blast
  obtain ra where "token_admits ?claim" "ra \<in> set assignments" "assignment_grants glob ?claim roles ra"
    using granted unfolding evaluate_spec by blast
  with token claimed policy show ?thesis unfolding granted_by_def by blast
qed

end

text \<open>A request of a network's collection, and an authenticator that accepts one token.\<close>

definition list_request :: "string \<Rightarrow> http_request" where
  "list_request header = \<lparr>
     rq_pattern = ''GET /providers/seca.network/v1/tenants/{tenant}/workspaces/{workspace}/networks'',
     rq_url_path = ''/providers/seca.network/v1/tenants/t/workspaces/w/networks'',
     rq_path_value = (\<lambda>k. if k = ''tenant'' then ''t'' else if k = ''workspace'' then ''w'' else []),
     rq_header = (\<lambda>k. if k = ''Authorization'' then header else []),
     rq_body = [], rq_body_error = None, rq_identity = None\<rparr>"

definition alice_only :: "'w authenticate" where
  "alice_only token w = (if token = ''alice'' then (Inr \<lparr>tid_subject = ''alice'', tid_scope = empty_token_scope\<rparr>, w)
     else (Inl err_unauthorized, w))"

definition count_handler :: "(string, nat) handler" where
  "count_handler r w = (\<lparr>rs_status = 200, rs_body = Encoded ''ok''\<rparr>, w + 1)"

lemma gate_is_closed_witness:
  "refused (fst (wrap_handler (provider_mws None (Some alice_only)
     (Some (\<lambda>claim w. ((DecisionAllowed, None), w))) ''eu'' ''seca.network'' ''/providers/seca.network'' id)
     count_handler (list_request ''Bearer mallory'') 0))"
proof -
  have "\<not> admitted alice_only authorize e (list_request ''Bearer mallory'') (0 :: nat) r' w'"
    for authorize e r' w'
    by (simp add: admitted_def bearer_token_def list_request_def split_two_def equal_fold_def to_lower_def
        lower_char_def alice_only_def)
  moreover have "\<not> authz_skipped None ''seca.network''" by (simp add: authz_skipped_def)
  ultimately show ?thesis
    using gate_is_closed [where flags = None and provider = "''seca.network''" and region = "''eu''"
        and base_url = "''/providers/seca.network''" and r = "list_request ''Bearer mallory''"
        and w = "0 :: nat" and authenticate = alice_only and base = count_handler and observe = id
        and authorize = "\<lambda>claim w. ((DecisionAllowed, None), w)"]
    by auto
qed

text \<open>
  Every request a provider serves is granted by policy. With the reader-backed checker behind
  the gate, a response that is not a refusal means: the roles and assignments of the claim's tenant
  could be loaded, the token's scope admits the claim, and some assignment of the tenant grants it to
  the subject the token authenticated.
\<close>

theorem served_means_granted:
  assumes "\<not> authz_skipped flags provider"
    and "wrap_handler (provider_mws flags (Some authenticate)
           (Some (instrumented_authorize observe (checker_authorize glob role_reader assignment_reader)))
           region provider base_url observe') base r w = (response, w')"
    and "\<not> refused response"
  shows "\<exists>token ident w1 claim0 claim roles assignments ra.
    bearer_token r = Some token \<and> authenticate token w = (Inr ident, w1)
    \<and> seca_claim_extractor region provider base_url (r\<lparr>rq_identity := Some ident\<rparr>) = Inr claim0
    \<and> claim = claim0\<lparr>cl_subject := tid_subject ident, cl_token_scope := tid_scope ident\<rparr>
    \<and> fst (load_policy role_reader assignment_reader (cl_tenant claim) w1) = Inr (roles, assignments)
    \<and> token_admits claim \<and> ra \<in> set assignments \<and> assignment_grants glob claim roles ra"
proof -
  from instrumented.gate_grants [OF assms] obtain token ident w1 claim0 claim roles assignments ra where
    policy: "direct_policy role_reader assignment_reader claim w1 = Some (roles, assignments)"
    and rest: "bearer_token r = Some token" "authenticate token w = (Inr ident, w1)"
      "seca_claim_extractor region provider base_url (r\<lparr>rq_identity := Some ident\<rparr>) = Inr claim0"
      "claim = claim0\<lparr>cl_subject := tid_subject ident, cl_token_scope := tid_scope ident\<rparr>"
      "token_admits claim" "ra \<in> set assignments" "assignment_grants glob claim roles ra"
    unfolding granted_by_def by blast
  from policy have "fst (load_policy role_reader assignment_reader (cl_tenant claim) w1) = Inr (roles, assignments)"
    by (simp add: direct_policy_def split: sum.splits)
  with rest show ?thesis by blast
qed

text \<open>A gateway with one role and one assignment, in front of a handler that answers 200.\<close>

definition network_role :: role where
  "network_role = reader_role\<lparr>ro_permissions := [\<lparr>perm_provider = ''seca.network'',
     perm_resources = [''networks''], perm_verb = [''list'']\<rparr>]\<rparr>"

definition small_checker :: "unit authorize" where
  "small_checker = instrumented_authorize id
     (checker_authorize exact_glob (listing_repo [network_role]) (listing_repo [readers]))"

definition small_gateway :: "(string, unit) handler" where
  "small_gateway = wrap_handler (provider_mws None (Some alice_only) (Some small_checker) ''eu'' ''seca.network''
     ''/providers/seca.network'' id) (\<lambda>r w. (\<lparr>rs_status = 200, rs_body = Encoded ''ok''\<rparr>, w))"

lemma list_request_claim:
  "seca_claim_extractor ''eu'' ''seca.network'' ''/providers/seca.network'' ((list_request h)\<lparr>rq_identity := i\<rparr>)
   = Inr \<lparr>cl_subject = [], cl_token_scope = empty_token_scope, cl_provider = ''seca.network'',
      cl_resource = ''networks'', cl_name = [], cl_verb = ''list'', cl_tenant = ''t'', cl_region = ''eu'',
      cl_workspace = ''w''\<rparr>"
  by (simp add: seca_claim_extractor_def list_request_def resource_and_verb_def split_two_def
      strip_v1_tenants_anchor_def strip_workspace_anchor_def path_segments_def trim_byte_def
      trim_prefix_def verb_and_segments_def is_wildcard_def Let_def)

lemma small_gateway_serves:
  "small_gateway (list_request ''Bearer alice'') () = (\<lparr>rs_status = 200, rs_body = Encoded ''ok''\<rparr>, ())"
proof -
  have bearer: "bearer_token (list_request ''Bearer alice'') = Some ''alice''"
    by (simp add: bearer_token_def list_request_def split_two_def equal_fold_def to_lower_def lower_char_def)
  have skip: "\<not> authz_skipped None ''seca.network''" by (simp add: authz_skipped_def)
  show ?thesis
    unfolding small_gateway_def provider_chain [OF skip]
    by (simp add: metrics_middleware_def new_authentication_def bearer alice_only_def new_authorization_def
        list_request_claim small_checker_def instrumented_authorize_def checker_authorize_def
        load_policy_def listing_repo_def evaluate_def token_scope_covers_def empty_token_scope_def
        readers_def slice_covers_def roles_by_name_def network_role_def reader_role_def match_resource_def
        exact_glob_def)
qed

lemma served_means_granted_witness:
  "\<exists>token claim roles ra. bearer_token (list_request ''Bearer alice'') = Some token
     \<and> token_admits claim \<and> assignment_grants exact_glob claim roles ra"
proof -
  have skip: "\<not> authz_skipped None ''seca.network''" by (simp add: authz_skipped_def)
  have ok: "\<not> refused \<lparr>rs_status = 200, rs_body = Encoded ''ok''\<rparr>" by (simp add: refused_def)
  from served_means_granted [OF skip small_gateway_serves [unfolded small_gateway_def small_checker_def] ok]
  show ?thesis by blast
qed

subsection \<open>Correctness of the claims\<close>

definition plain_segments :: "string list \<Rightarrow> bool" where
  "plain_segments ss \<longleftrightarrow> ss \<noteq> [] \<and> (\<forall>s \<in> set ss. s \<noteq> [] \<and> CHR ''/'' \<notin> set s)"

lemma join_ends:
  assumes "plain_segments ss"
  shows "join ''/'' ss \<noteq> [] \<and> hd (join ''/'' ss) \<noteq> CHR ''/'' \<and> last (join ''/'' ss) \<noteq> CHR ''/''"
  using assms
proof (induction ss)
  case (Cons s ss)
  have free: "s \<noteq> []" "CHR ''/'' \<notin> set s" using Cons.prems by (auto simp: plain_segments_def)
  then have s: "s \<noteq> []" "hd s \<noteq> CHR ''/''" "last s \<noteq> CHR ''/''"
    by (metis hd_in_set last_in_set)+
  show ?case
  proof (cases ss)
    case Nil
    with s show ?thesis by simp
  next
    case (Cons t ts)
    then have "join ''/'' (s # ss) = s @ CHR ''/'' # join ''/'' ss" by simp
    moreover have "plain_segments ss" using Cons.prems Cons by (auto simp: plain_segments_def)
    ultimately show ?thesis using Cons.IH s by simp
  qed
qed (simp add: plain_segments_def)

lemma trim_byte_leading:
  "xs \<noteq> [] \<Longrightarrow> hd xs \<noteq> c \<Longrightarrow> last xs \<noteq> c \<Longrightarrow> trim_byte c (c # xs) = xs"
proof -
  assume xs: "xs \<noteq> []" "hd xs \<noteq> c" "last xs \<noteq> c"
  have "dropWhile (\<lambda>x. x = c) (c # xs) = xs" using xs(1,2) by (cases xs) simp_all
  moreover have "dropWhile (\<lambda>x. x = c) (rev xs) = rev xs" using xs(1,3) by (cases xs rule: rev_cases) simp_all
  ultimately show ?thesis by (simp add: trim_byte_def)
qed

lemma path_segments_path:
  assumes "plain_segments ss"
  shows "path_segments (CHR ''/'' # join ''/'' ss) = ss"
  using join_ends [OF assms] trim_byte_leading [of "join ''/'' ss" "CHR ''/''"]
    split_on_join [of ss "CHR ''/''"] assms
  by (simp add: path_segments_def plain_segments_def)

text \<open>The two anchors a route of the specification starts with.\<close>

definition tenant_anchor :: string where
  "tenant_anchor = ''/v1/tenants/{tenant}''"

definition workspace_anchor :: string where
  "workspace_anchor = ''/v1/tenants/{tenant}/workspaces/{workspace}''"

lemma strip_workspace_route:
  "strip_workspace_anchor (strip_v1_tenants_anchor (trim_prefix base (base @ workspace_anchor @ CHR ''/'' # rest)))
    = CHR ''/'' # rest"
  by (simp add: workspace_anchor_def strip_v1_tenants_anchor_def strip_workspace_anchor_def Let_def)

lemma strip_tenant_route:
  "\<not> has_prefix ''workspaces/'' rest \<Longrightarrow>
   strip_workspace_anchor (strip_v1_tenants_anchor (trim_prefix base (base @ tenant_anchor @ CHR ''/'' # rest)))
    = CHR ''/'' # rest"
  by (simp add: tenant_anchor_def strip_v1_tenants_anchor_def strip_workspace_anchor_def Let_def)

lemma split_two_first: "c \<notin> set s \<Longrightarrow> split_two c (s @ c # t) = [s, t]"
  by (simp add: split_two_def)

definition on_route :: "string \<Rightarrow> string list \<Rightarrow> bool" where
  "on_route anchor ss \<longleftrightarrow>
     anchor = workspace_anchor \<or> anchor = tenant_anchor \<and> \<not> has_prefix ''workspaces/'' (join ''/'' ss)"

lemma resource_and_verb_route:
  assumes "plain_segments ss" and "CHR '' '' \<notin> set m" and "on_route anchor ss"
  shows "resource_and_verb (m @ CHR '' '' # base @ anchor @ CHR ''/'' # join ''/'' ss) base name =
    (let (verb, segs) = verb_and_segments m name ss in
     Inr (join ''/'' (filter (\<lambda>s. \<not> is_wildcard s) segs), verb))"
proof -
  have "strip_workspace_anchor (strip_v1_tenants_anchor
      (trim_prefix base (base @ anchor @ CHR ''/'' # join ''/'' ss))) = CHR ''/'' # join ''/'' ss"
    using assms(3) strip_workspace_route strip_tenant_route unfolding on_route_def by blast
  then show ?thesis
    using split_two_first [OF assms(2)] path_segments_path [OF assms(1)]
    by (simp add: resource_and_verb_def Let_def)
qed

lemma name_wildcard [simp]: "is_wildcard ''{name}''"
  by (simp add: is_wildcard_def)

text \<open>The pattern of a route as the router reports it, and the collections it names.\<close>

definition route_pattern :: "string \<Rightarrow> string \<Rightarrow> string \<Rightarrow> string list \<Rightarrow> string" where
  "route_pattern m base anchor ss = m @ CHR '' '' # base @ anchor @ CHR ''/'' # join ''/'' ss"

definition collections :: "string list \<Rightarrow> string" where
  "collections ss = join ''/'' (filter (\<lambda>s. \<not> is_wildcard s) ss)"

text \<open>
  The anchor of a workspace swallows the workspace itself. The claim of every item route of the
  workspaces collection has the empty resource, so the resource a permission's patterns are matched
  against is \<^verbatim>\<open>/<name>\<close>: a pattern such as \<^verbatim>\<open>workspaces/*\<close> can only match it if the pattern library lets it
  match a string that begins with a slash, while the collection route has the resource
  \<^verbatim>\<open>workspaces\<close>.
\<close>

theorem workspace_item_claim_is_empty:
  assumes "name \<noteq> []"
  shows "resource_and_verb (''GET '' @ base @ ''/v1/tenants/{tenant}/workspaces/{name}'') base name = Inr ([], ''get'')
    \<and> resource_and_verb (''PUT '' @ base @ ''/v1/tenants/{tenant}/workspaces/{name}'') base name = Inr ([], ''put'')
    \<and> resource_and_verb (''DELETE '' @ base @ ''/v1/tenants/{tenant}/workspaces/{name}'') base name
        = Inr ([], ''delete'')
    \<and> match_resource glob patterns [] name = match_patterns glob patterns (''/'' @ name)
    \<and> resource_and_verb (''GET '' @ base @ ''/v1/tenants/{tenant}/workspaces'') base [] = Inr (''workspaces'', ''list'')"
proof -
  have rv: "resource_and_verb (k @ CHR '' '' # base @ p) base n =
      (let (verb, segs) = verb_and_segments k n
         (path_segments (strip_workspace_anchor (strip_v1_tenants_anchor p))) in
       Inr (collections segs, verb))" if "CHR '' '' \<notin> set k" for k p n
    using split_two_first [OF that] by (simp add: resource_and_verb_def collections_def Let_def)
  have item: "path_segments (strip_workspace_anchor (strip_v1_tenants_anchor ''/v1/tenants/{tenant}/workspaces/{name}''))
      = []"
    by (simp add: strip_v1_tenants_anchor_def strip_workspace_anchor_def path_segments_def trim_byte_def Let_def)
  have coll: "path_segments (strip_workspace_anchor (strip_v1_tenants_anchor ''/v1/tenants/{tenant}/workspaces''))
      = [''workspaces'']"
    by (simp add: strip_v1_tenants_anchor_def strip_workspace_anchor_def path_segments_def trim_byte_def Let_def)
  note claims = verb_and_segments_def drop_last_wildcard_def collections_def is_wildcard_def
  show ?thesis
    using rv [of "''GET''" "''/v1/tenants/{tenant}/workspaces/{name}''" name]
      rv [of "''PUT''" "''/v1/tenants/{tenant}/workspaces/{name}''" name]
      rv [of "''DELETE''" "''/v1/tenants/{tenant}/workspaces/{name}''" name]
      rv [of "''GET''" "''/v1/tenants/{tenant}/workspaces''" "[]"] assms
    unfolding item coll by (simp add: claims match_resource_def)
qed

text \<open>
  C36. The claims of routes. For every route below a workspace, or below a tenant and not below its
  workspaces collection, whose segments are collections and the names of parents: reading a collection is
  the verb list, reading, writing and deleting one resource are get, put and delete, and posting an action
  is post.<action>; the resource is the collections of the route in order, parents' names left out. The
  workspaces themselves are different: the collection's claim has the resource workspaces, but the claim of
  a single workspace has the right verb and no resource at all, so that the patterns of a permission are
  matched against the name after a slash.
\<close>

theorem claims_of_routes:
  assumes "plain_segments ss" and "\<not> is_wildcard (last ss)" and "name \<noteq> []"
    and "action \<noteq> []" and "CHR ''/'' \<notin> set action" and "\<not> is_wildcard action"
    and "\<forall>tail \<in> {[], [''{name}''], [''{name}'', action]}. on_route anchor (ss @ tail)"
  shows "resource_and_verb (route_pattern ''GET'' base anchor ss) base [] = Inr (collections ss, ''list'')
    \<and> resource_and_verb (route_pattern ''GET'' base anchor (ss @ [''{name}''])) base name
        = Inr (collections ss, ''get'')
    \<and> resource_and_verb (route_pattern ''PUT'' base anchor (ss @ [''{name}''])) base name
        = Inr (collections ss, ''put'')
    \<and> resource_and_verb (route_pattern ''DELETE'' base anchor (ss @ [''{name}''])) base name
        = Inr (collections ss, ''delete'')
    \<and> resource_and_verb (route_pattern ''POST'' base anchor (ss @ [''{name}'', action])) base name
        = Inr (collections ss, ''post.'' @ action)
    \<and> resource_and_verb (route_pattern ''GET'' base tenant_anchor [''workspaces'']) base [] = Inr (''workspaces'', ''list'')
    \<and> (\<forall>(method, verb) \<in> {(''GET'', ''get''), (''PUT'', ''put''), (''DELETE'', ''delete'')}.
         resource_and_verb (route_pattern method base tenant_anchor [''workspaces'', ''{name}'']) base name = Inr ([], verb))
    \<and> match_resource glob patterns [] name = match_patterns glob patterns (''/'' @ name)"
proof -
  have plain: "plain_segments (ss @ tail)" if "tail \<in> {[], [''{name}''], [''{name}'', action]}" for tail
    using that assms(1,4,5) by (auto simp: plain_segments_def)
  have rv: "resource_and_verb (route_pattern m base anchor (ss @ tail)) base n =
      (let (verb, segs) = verb_and_segments m n (ss @ tail) in Inr (collections segs, verb))"
    if "tail \<in> {[], [''{name}''], [''{name}'', action]}" "CHR '' '' \<notin> set m" for m tail n
    unfolding route_pattern_def collections_def
    using resource_and_verb_route [OF plain [OF that(1)] that(2)] assms(7) that(1) by blast
  have "resource_and_verb (route_pattern ''GET'' base anchor ss) base [] = Inr (collections ss, ''list'')"
    using rv [of "[]" "''GET''" "[]"] by (simp add: verb_and_segments_def)
  moreover have "\<forall>(method, verb) \<in> {(''GET'', ''get''), (''PUT'', ''put''), (''DELETE'', ''delete'')}.
      resource_and_verb (route_pattern method base tenant_anchor [''workspaces'', ''{name}'']) base name = Inr ([], verb)"
    "resource_and_verb (route_pattern ''GET'' base tenant_anchor [''workspaces'']) base [] = Inr (''workspaces'', ''list'')"
    "match_resource glob patterns [] name = match_patterns glob patterns (''/'' @ name)"
    using workspace_item_claim_is_empty [OF assms(3), of base glob patterns]
    by (simp_all add: route_pattern_def tenant_anchor_def)
  ultimately show ?thesis
    using assms(3,6) by (simp add: rv verb_and_segments_def drop_last_wildcard_def nth_append)
qed

lemma claims_of_routes_witness:
  "resource_and_verb ''GET /p/v1/tenants/{tenant}/workspaces/{workspace}/networks/{network}/subnets/{name}'' ''/p'' ''s1''
   = Inr (''networks/subnets'', ''get'')
   \<and> resource_and_verb ''GET /p/v1/tenants/{tenant}/workspaces/{name}'' ''/p'' ''s1'' = Inr ([], ''get'')"
proof -
  have "plain_segments [''networks'', ''{network}'', ''subnets'']" by (simp add: plain_segments_def)
  from claims_of_routes [OF this, of "''s1''" "''up''" workspace_anchor "''/p''"]
  show ?thesis
    by (simp add: is_wildcard_def on_route_def workspace_anchor_def route_pattern_def collections_def tenant_anchor_def)
qed

lemma workspace_item_claim_is_empty_witness:
  "resource_and_verb ''GET /p/v1/tenants/{tenant}/workspaces/{name}'' ''/p'' ''ws'' = Inr ([], ''get'')"
  using workspace_item_claim_is_empty [of "''ws''" "''/p''"] by simp

end
