(* ===== verification/Storage_Properties.thy ===== *)
theory Storage_Properties
  imports Block_Storage_Handler Dependencies
begin

section \<open>Correctness of the storage handlers and their dependencies\<close>

text \<open>
  Volumes and images refer to each other: an image is stored on a volume, a volume may be made from
  an image. The properties of this theory are about the two handlers together with the resolver of
  \<^verbatim>\<open>resource/common/backend/dependency.go\<close>: what a volume waits for before it is deleted, what an image
  waits for before it is created, and the protocol of growing a volume.
\<close>

lemma settle_head:
  assumes "settle status_of put h c b r w = (res, r', w')"
    and put: "\<And>st. status_of (put st r) = Some st"
  obtains h0 cs where "st_conditions (the_status status_of r') = h0 # cs" and "equal_status_conditions h0 c"
proof -
  let ?st = "pushed (h_now h w) c (the_status status_of r)"
  have r': "r' = put (trim_conditions (h_max_conditions h) ?st) r"
    using assms(1) by (auto simp: settle_def Let_def split: prod.splits sum.splits if_splits)
  obtain h0 cs where "st_conditions ?st = h0 # cs" "equal_status_conditions h0 c"
    by (rule pushed_head_equal)
  then have "\<exists>cs'. st_conditions (trim_conditions (h_max_conditions h) ?st) = h0 # cs'"
    by (cases "nat (h_max_conditions h)") (auto simp: status_simps)
  with that \<open>equal_status_conditions h0 c\<close> show thesis
    by (auto simp: r' the_status_def put)
qed

subsection \<open>A volume is deleted only when no image refers to it\<close>

definition images_namespace :: "(string \<Rightarrow> string) \<Rightarrow> block_storage \<Rightarrow> string" where
  "images_namespace sha3 r = compute_namespace sha3 \<lparr>sc_tenant = md_tenant r, sc_workspace = []\<rparr>"

definition image_field :: "string list" where
  "image_field = [''spec'', ''blockStorageRef'']"

text \<open>The listed images that refer to the volume.\<close>

definition stored_on ::
  "(json_map \<Rightarrow> go_error + reference) \<Rightarrow> block_storage \<Rightarrow> uobject \<Rightarrow> bool" where
  "stored_on decode r = refers_to decode image_field
     \<lparr>rt_tenant = md_tenant r, rt_workspace = md_workspace r, rt_name = md_name r\<rparr> (md_tenant r)"

text \<open>The marked arm in the terms of \<open>settle\<close>, with the answer of the resolver.\<close>

lemma marked_volume_pass:
  assumes "deleted_at r" and "block_storage_view r = Some st" and "st_state st \<noteq> StateDeleting"
  shows "block_storage_handle_reconcile h r w = ensure_no_image_referrers h r w"
proof -
  have a: "arm_of (deleted_at r) (block_storage_view r) = ArmWantDelete"
    using assms by (simp add: arm_of_iff)
  then show ?thesis
    by (simp add: block_storage_reconcile_shape volume_delegate_def volume_after_def bypass_delegated_def)
qed

lemma marked_volume_cases:
  assumes dep: "h_dep_referrers h = resolver_referrers client decode"
    and m: "deleted_at r" "block_storage_view r = Some st" "st_state st \<noteq> StateDeleting"
    and l: "dc_list client no_options image_gvr (images_namespace (h_sha3 h) r) w = (Inr (images, token), w1)"
    and s: "block_storage_handle_reconcile h r w = (res, r', w')"
  obtains (unreadable) err where "\<not> list_all (readable decode image_field) images"
      "settle block_storage_view put_block_storage_status h (condition_from_error (h_now h w1) err) True r w1 = (res, r', w')"
  | (blocked) "list_all (readable decode image_field) images" "filter (stored_on decode r) images \<noteq> []"
      "settle block_storage_view put_block_storage_status h
         (deletion_blocked_condition (h_now h w1) (st_state st)
            (''deletion blocked: still referenced by images ''
             @ fmt_v_strings (map uo_name (filter (stored_on decode r) images)))) True r w1 = (res, r', w')"
  | (free) "list_all (readable decode image_field) images" "filter (stored_on decode r) images = []"
      "settle block_storage_view put_block_storage_status h
         (condition_from_state (h_now h w1) StateDeleting) True r w1 = (res, r', w')"
proof -
  have run: "ensure_no_image_referrers h r w = (res, r', w')"
    using s by (simp add: marked_volume_pass [OF m])
  show thesis
  proof (cases "list_all (readable decode image_field) images")
    case True
    with l have "resolver_referrers client decode image_gvr (images_namespace (h_sha3 h) r) image_field
        \<lparr>rt_tenant = md_tenant r, rt_workspace = md_workspace r, rt_name = md_name r\<rparr> (md_tenant r) w =
        (Inr (map uo_name (filter (stored_on decode r) images)), w1)"
      by (simp add: resolver_referrers_def referrer_names_spec stored_on_def)
    with run True that(2,3) m(2) show thesis
      by (auto simp: ensure_no_image_referrers_def dep images_namespace_def image_field_def Let_def
          block_storage_set_state_eq block_storage_set_condition_eq settle_state_def the_status_def
          split: if_splits)
  next
    case False
    then obtain err where "referrer_names decode image_gvr image_field
        \<lparr>rt_tenant = md_tenant r, rt_workspace = md_workspace r, rt_name = md_name r\<rparr> (md_tenant r) images = Inl err"
      using referrer_names_fails by metis
    with l have "resolver_referrers client decode image_gvr (images_namespace (h_sha3 h) r) image_field
        \<lparr>rt_tenant = md_tenant r, rt_workspace = md_workspace r, rt_name = md_name r\<rparr> (md_tenant r) w =
        (Inl err, w1)"
      by (simp add: resolver_referrers_def)
    with run False that(1) show thesis
      by (auto simp: ensure_no_image_referrers_def dep images_namespace_def image_field_def Let_def
          block_storage_set_error_eq)
  qed
qed

text \<open>
  C10. Images hold their volume. When a volume is marked for deletion and not yet deleting, and the
  images of its tenant are listed, the pass starts the deletion exactly when every listed reference
  can be read and none names the volume. If one names it, the volume keeps its state and its newest
  condition is the blocked deletion with the names of exactly those images; if one cannot be read, it
  goes to error. The pass always asks to be repeated, unless the write of the status said the
  volume is gone.
\<close>

theorem images_hold_their_volume:
  assumes "h_dep_referrers h = resolver_referrers client decode"
    and "deleted_at r" and "block_storage_view r = Some st" and "st_state st \<noteq> StateDeleting" and "status_ok st"
    and "dc_list client no_options image_gvr (images_namespace (h_sha3 h) r) w = (Inr (images, token), w1)"
    and "block_storage_handle_reconcile h r w = (res, r', w')"
  shows "(phase_of (block_storage_view r') = Phase StateDeleting \<longleftrightarrow>
       list_all (readable decode image_field) images \<and> filter (stored_on decode r) images = [])
    \<and> (list_all (readable decode image_field) images \<longrightarrow> filter (stored_on decode r) images \<noteq> [] \<longrightarrow>
       phase_of (block_storage_view r') = Phase (st_state st)
       \<and> (\<exists>c cs. st_conditions (the_status block_storage_view r') = c # cs \<and> c_type c = ''DeletionBlocked''
            \<and> c_message c = ''deletion blocked: still referenced by images ''
               @ fmt_v_strings (map uo_name (filter (stored_on decode r) images))))
    \<and> (\<not> list_all (readable decode image_field) images \<longrightarrow> phase_of (block_storage_view r') = Phase StateError)
    \<and> deleted_at r' \<and> (\<exists>e. res = Reconciled True e \<or> res = Reconciled False None)"
  using assms(1-4,6,7)
proof (cases rule: marked_volume_cases)
  case (unreadable err)
  note v = block_storage_status.settle_view [OF unreadable(2)] assms(2,3,5)
  have "\<exists>e. res = Reconciled True e \<or> res = Reconciled False None"
    using unreadable(2) by (auto simp: settle_def Let_def split: prod.splits sum.splits if_splits)
  with unreadable(1) v show ?thesis by simp
next
  case blocked
  note v = block_storage_status.settle_view [OF blocked(3)] assms(2,3,5)
  obtain c cs where "st_conditions (the_status block_storage_view r') = c # cs"
    and "equal_status_conditions c (deletion_blocked_condition (h_now h w1) (st_state st)
            (''deletion blocked: still referenced by images ''
             @ fmt_v_strings (map uo_name (filter (stored_on decode r) images))))"
    using settle_head [OF blocked(3)] by auto
  moreover have "\<exists>e. res = Reconciled True e \<or> res = Reconciled False None"
    using blocked(3) by (auto simp: settle_def Let_def split: prod.splits sum.splits if_splits)
  ultimately show ?thesis
    using blocked(1,2) v assms(4)
    by (auto simp: deletion_blocked_condition_def equal_status_conditions_iff)
next
  case free
  note v = block_storage_status.settle_view [OF free(3)] assms(2,3,5)
  have "\<exists>e. res = Reconciled True e \<or> res = Reconciled False None"
    using free(3) by (auto simp: settle_def Let_def split: prod.splits sum.splits if_splits)
  with free(1,2) v show ?thesis by simp
qed
subsection \<open>The recorded size is what the provider has made\<close>

text \<open>A provider that leaves both sizes of the volume to the handler, in every operation.\<close>

definition keeps_sizes :: "(block_storage, 'w) delegated \<Rightarrow> bool" where
  "keeps_sizes op \<longleftrightarrow> (\<forall>r w. volume_sizes (fst (snd (op r w))) = volume_sizes r)"

definition sized_plugin :: "(block_storage, 'w, 'm) volume_handler_scheme \<Rightarrow> bool" where
  "sized_plugin h \<longleftrightarrow> block_storage_tame h \<and> keeps_sizes (h_create h) \<and> keeps_sizes (h_update h)
     \<and> keeps_sizes (h_delete h)"

lemma keeps_sizesD: "keeps_sizes op \<Longrightarrow> op r w = (e, r1, w1) \<Longrightarrow> volume_sizes r1 = volume_sizes r"
  unfolding keeps_sizes_def by (metis fst_conv snd_conv)

text \<open>What a volume has recorded: zero before it has a status.\<close>

definition recorded_size :: "block_storage \<Rightarrow> int" where
  "recorded_size r = (case snd (volume_sizes r) of None \<Rightarrow> 0 | Some n \<Rightarrow> n)"

definition wanted_size :: "block_storage \<Rightarrow> int" where
  "wanted_size r = fst (volume_sizes r)"

lemma put_status_sizes [simp]:
  "recorded_size (put_block_storage_status st r) = recorded_size r"
  "wanted_size (put_block_storage_status st r) = wanted_size r"
  by (simp_all add: recorded_size_def wanted_size_def volume_sizes_def put_block_storage_status_def
      zero_block_storage_status_def split: option.split)

lemma record_size_sizes [simp]:
  "wanted_size (record_size r) = wanted_size r"
  "block_storage_view r \<noteq> None \<Longrightarrow> recorded_size (record_size r) = wanted_size r"
  by (auto simp: recorded_size_def wanted_size_def volume_sizes_def record_size_def block_storage_view_def
      split: option.split)

lemma settle_sizes:
  assumes "settle block_storage_view put_block_storage_status h c b r w = (res, r', w')"
  shows "recorded_size r' = recorded_size r" and "wanted_size r' = wanted_size r"
  using assms by (auto simp: settle_def Let_def split: prod.splits sum.splits if_splits)

lemma settle_failure_sizes:
  assumes "settle_failure block_storage_view put_block_storage_status h err r w = (res, r', w')"
  shows "recorded_size r' = recorded_size r \<and> wanted_size r' = wanted_size r"
  using assms by (cases rule: block_storage_status.settle_failure_cases) (auto dest: settle_sizes)

lemma handle_update_sizes:
  assumes "keeps_sizes (h_update h)"
    and "handle_update (the_status block_storage_view) put_block_storage_status h r w = (res, r', w')"
  shows "recorded_size r' = recorded_size r \<and> wanted_size r' = wanted_size r"
proof -
  obtain e r1 w1 where u: "h_update h r w = (e, r1, w1)" by (metis prod_cases3)
  have r1: "recorded_size r1 = recorded_size r" "wanted_size r1 = wanted_size r"
    using keeps_sizesD [OF assms(1) u] by (simp_all add: recorded_size_def wanted_size_def)
  show ?thesis
    using assms(2) u r1
    by (auto simp: handle_update_def clear_update_failure_def record_update_failure_def Let_def
        split: option.splits if_splits prod.splits)
qed

text \<open>The second switch, by the arm it takes.\<close>

lemma volume_after_sizes:
  assumes s: "volume_after h r w = (res, r', w')"
  shows "wanted_size r' = wanted_size r \<and>
    (recorded_size r' = recorded_size r \<or>
     (arm_of (deleted_at r) (block_storage_view r) = ArmCreating \<or> is_block_storage_increasing_size r) \<and>
     recorded_size r' = wanted_size r)"
proof -
  have plain: "wanted_size r' = wanted_size r \<and> recorded_size r' = recorded_size r"
    if "settle block_storage_view put_block_storage_status h c b r w1 = (res, r', w')" for c b w1
    using settle_sizes [OF that] by simp
  have resized: "wanted_size r' = wanted_size r \<and> recorded_size r' = wanted_size r"
    if "settle_state block_storage_view put_block_storage_status h t b (record_size r) w = (res, r', w')"
      "block_storage_view r \<noteq> None" for t b
    using settle_sizes [OF that(1) [unfolded settle_state_def]] that(2) by simp
  have source: "wanted_size r' = wanted_size r \<and> recorded_size r' = recorded_size r"
    if "ensure_source_image_ready h r w = (res, r', w')"
    using that plain
    by (auto simp: ensure_source_image_ready_def block_storage_set_state_eq block_storage_set_error_eq
        block_storage_set_condition_eq settle_state_def split: prod.splits sum.splits if_splits option.splits)
  have referrers: "wanted_size r' = wanted_size r \<and> recorded_size r' = recorded_size r"
    if "ensure_no_image_referrers h r w = (res, r', w')"
    using that plain
    by (auto simp: ensure_no_image_referrers_def block_storage_set_state_eq block_storage_set_error_eq
        block_storage_set_condition_eq settle_state_def Let_def split: prod.splits sum.splits if_splits)
  have view: "is_block_storage_increasing_size r \<Longrightarrow> block_storage_view r \<noteq> None"
    "arm_of (deleted_at r) (block_storage_view r) = ArmCreating \<Longrightarrow> block_storage_view r \<noteq> None"
    by (cases "block_storage_view r"; simp add: increasing_view arm_of_iff)+
  show ?thesis
    using s source referrers resized plain view
    by (auto simp: volume_after_def settle_state_def split: arm.splits if_splits)
qed


text \<open>The states in which the plugin is asked for a volume of the wanted size.\<close>

lemma volume_pass_sizes:
  assumes t: "sized_plugin h" and s: "block_storage_handle_reconcile h r w = (res, r', w')"
  shows "wanted_size r' = wanted_size r \<and>
    (recorded_size r' = recorded_size r \<or>
     recorded_size r' = wanted_size r \<and>
     (arm_of (deleted_at r) (block_storage_view r) = ArmCreating \<and> fst (h_create h r w) = None \<or>
      is_block_storage_increasing_size r \<and> fst (h_increase_size h r w) = None))"
proof (cases "arm_of (deleted_at r) (block_storage_view r) = ArmActive \<and> \<not> want_block_storage_increase_size r")
  case True
  with s have "handle_update (the_status block_storage_view) put_block_storage_status h r w = (res, r', w')"
    by (simp add: block_storage_reconcile_shape)
  with handle_update_sizes [of h r w] t show ?thesis by (simp add: sized_plugin_def)
next
  case upd: False
  show ?thesis
  proof (cases "volume_delegate h r")
    case None
    with upd s show ?thesis by (auto simp: block_storage_reconcile_shape)
  next
    case (Some op)
    obtain e r1 w1 where d: "op r w = (e, r1, w1)" by (metis prod_cases3)
    have "quiet deleted_at block_storage_view op" "keeps_sizes op"
      using Some t by (auto simp: volume_delegate_def sized_plugin_def block_storage_tame_def
          quiet_plugin_def keeps_sizes_def bypass_delegated_def quiet_def split: arm.splits if_splits)
    note r1 = quietD [OF this(1) d] keeps_sizesD [OF this(2) d]
    then have sizes: "recorded_size r1 = recorded_size r" "wanted_size r1 = wanted_size r"
      by (simp_all add: recorded_size_def wanted_size_def)
    show ?thesis
    proof (cases e)
      case None
      have inc: "is_block_storage_increasing_size r1 \<longleftrightarrow> is_block_storage_increasing_size r"
        using r1 by (simp add: increasing_view detect_sizes)
      have "volume_after h r1 w1 = (res, r', w')"
        using upd Some d None s by (auto simp: block_storage_reconcile_shape)
      note after = volume_after_sizes [OF this]
      moreover have "op = h_create h" if "arm_of (deleted_at r) (block_storage_view r) = ArmCreating"
        using that Some by (simp add: volume_delegate_def)
      moreover have "op = h_increase_size h" if "is_block_storage_increasing_size r"
        using that Some by (cases "block_storage_view r")
          (auto simp: volume_delegate_def arm_of_def increasing_view)
      ultimately show ?thesis
        using d None r1 inc sizes by auto
    next
      case (Some err)
      with upd \<open>volume_delegate h r = Some op\<close> d s
      have "settle_failure block_storage_view put_block_storage_status h err r1 w1 = (res, r', w')"
        by (auto simp: block_storage_reconcile_shape)
      with sizes settle_failure_sizes show ?thesis by metis
    qed
  qed
qed

text \<open>
  C11. The recorded size is what the provider has made. No pass changes the wanted size; a pass changes
  the recorded size of a volume only to the wanted one, and only when the plugin's Create of a volume
  in creating, or its IncreaseSize of one in updating that is still too small, has just succeeded.
\<close>

theorem recorded_size_is_provisioned:
  assumes "sized_plugin h" and "block_storage_handle_reconcile h r w = (res, r', w')"
  shows "bss_size_gb (bs_spec r') = bss_size_gb (bs_spec r) \<and>
    (recorded_size r' = recorded_size r \<or>
     recorded_size r' = bss_size_gb (bs_spec r) \<and> \<not> deleted_at r \<and>
     (phase_of (block_storage_view r) = Phase StateCreating \<and> fst (h_create h r w) = None \<or>
      phase_of (block_storage_view r) = Phase StateUpdating \<and> recorded_size r < bss_size_gb (bs_spec r)
      \<and> fst (h_increase_size h r w) = None))"
proof -
  have "arm_of (deleted_at r) (block_storage_view r) = ArmCreating \<Longrightarrow>
      \<not> deleted_at r \<and> phase_of (block_storage_view r) = Phase StateCreating"
    by (cases "block_storage_view r") (simp_all add: arm_of_iff)
  moreover have "is_block_storage_increasing_size r \<Longrightarrow> \<not> deleted_at r \<and>
      phase_of (block_storage_view r) = Phase StateUpdating \<and> recorded_size r < bss_size_gb (bs_spec r)"
    by (auto simp: increasing_view detect_sizes recorded_size_def volume_sizes_def split: option.splits)
  ultimately show ?thesis
    using volume_pass_sizes [OF assms] by (auto simp: wanted_size_def volume_sizes_def)
qed


subsection \<open>Growing ends\<close>

definition growing :: "int \<Rightarrow> block_storage \<Rightarrow> bool" where
  "growing n r \<longleftrightarrow> \<not> deleted_at r \<and> wanted_size r = n \<and> recorded_size r < n \<and>
     (\<exists>st. block_storage_view r = Some st \<and> well_formed st \<and>
       (st_state st = StateActive \<or> st_state st = StateUpdating \<or>
        st_state st = StateError \<and> failed_while StateUpdating st))"

definition grow_left :: "block_storage \<Rightarrow> nat" where
  "grow_left r = (if phase_of (block_storage_view r) = Phase StateUpdating then 0 else 1)"

lemma detect_recorded:
  "block_storage_view r \<noteq> None \<Longrightarrow> detect_increase_size_condition r \<longleftrightarrow> recorded_size r < wanted_size r"
  by (auto simp: detect_sizes recorded_size_def wanted_size_def volume_sizes_def block_storage_view_def
      split: option.splits)

lemma settled_growing:
  assumes s: "settle block_storage_view put_block_storage_status h c b r w = (res, r', w')"
    and g: "growing n r" and room: "roomy h" and st: "stores m (h_repo h)"
    and c: "c_state c = StateUpdating \<or> c_state c = StateError \<and> phase_of (block_storage_view r) = Phase StateUpdating"
  shows "growing n r' \<and> m w' \<le> m w \<and> phase_of (block_storage_view r') = Phase (c_state c)"
proof -
  obtain st0 where st0: "block_storage_view r = Some st0" "well_formed st0"
    using g by (auto simp: growing_def)
  then have ok: "view_ok (block_storage_view r)" by (simp add: well_formed_def)
  from s ok room stores_lands [OF st] obtain st' where st': "block_storage_view r' = Some st'" "well_formed st'"
    "st_state st' = c_state c" "deleted_at r' = deleted_at r" "m w' \<le> m w"
    "c_state c \<noteq> st_state st0 \<Longrightarrow> failed_while (st_state st0) st'"
    by (rule block_storage_status.settle_stored) (use st0 c in \<open>auto simp: settled_states_def\<close>)
  with g c st0 settle_sizes [OF s] show ?thesis by (auto simp: growing_def)
qed

lemma growing_step:
  assumes t: "block_storage_tame h" and room: "roomy h" and st: "stores m (h_repo h)"
    and pr: "progresses m (h_increase_size h)"
    and g: "growing n r" and f: "block_storage_handle_reconcile h r w = (res, r', w')"
  shows "(phase_of (block_storage_view r') = Phase StateActive \<and> recorded_size r' = n) \<or>
    growing n r' \<and> 3 * m w' + grow_left r' < 3 * m w + grow_left r"
proof -
  obtain st0 where st0: "block_storage_view r = Some st0" "well_formed st0" "\<not> deleted_at r"
    and detect: "detect_increase_size_condition r" and sizes: "wanted_size r = n"
    and state: "st_state st0 \<in> {StateActive, StateUpdating, StateError}"
      "st_state st0 = StateError \<Longrightarrow> failed_while StateUpdating st0"
    using g by (auto simp: growing_def detect_recorded)
  have ok: "view_ok (block_storage_view r)" using st0 by (simp add: well_formed_def)
  have retry: "\<not> failed_while StateCreating st0" if "st_state st0 = StateError"
    using state(2) [OF that] by (auto simp: failed_while_def)
  show ?thesis
  proof (cases "st_state st0 = StateUpdating")
    case False
    then have "settle_state block_storage_view put_block_storage_status h StateUpdating True r w = (res, r', w')"
      using f st0 state detect retry
      by (auto simp: block_storage_reconcile_shape volume_delegate_def volume_after_def bypass_delegated_def
          arm_of_def increasing_view the_status_def)
    from settled_growing [OF this [unfolded settle_state_def] g room st]
    have "growing n r'" "m w' \<le> m w" "phase_of (block_storage_view r') = Phase StateUpdating" by simp_all
    moreover have "grow_left r = 1" using False st0 by (simp add: grow_left_def)
    ultimately show ?thesis by (simp add: grow_left_def)
  next
    case upd: True
    obtain e r1 w1 where d: "h_increase_size h r w = (e, r1, w1)" by (metis prod_cases3)
    have "quiet deleted_at block_storage_view (h_increase_size h)" using t by (simp add: block_storage_tame_def)
    note r1 = quietD [OF this d]
    have vs: "volume_sizes r1 = volume_sizes r"
      using t d unfolding block_storage_tame_def by (metis fst_conv snd_conv)
    then have s1: "wanted_size r1 = wanted_size r" "recorded_size r1 = recorded_size r"
      "detect_increase_size_condition r1"
      using detect by (simp_all add: wanted_size_def recorded_size_def detect_sizes)
    show ?thesis
    proof (cases e)
      case None
      then have s: "settle_state block_storage_view put_block_storage_status h StateActive False (record_size r1) w1
          = (res, r', w')"
        using f st0 upd detect d r1 s1
        by (simp add: block_storage_reconcile_shape volume_delegate_def volume_after_def arm_of_def increasing_view)
      have "view_ok (block_storage_view (record_size r1))" using ok r1 by simp
      from block_storage_status.settle_view(4) [OF s [unfolded settle_state_def] this]
        settle_sizes [OF s [unfolded settle_state_def]]
      show ?thesis using s1 sizes r1 st0 by simp
    next
      case (Some err)
      with d pr have less: "m w1 < m w" by (auto simp: progresses_def dest!: spec [of _ r] spec [of _ w])
      have g1: "growing n r1" using g r1 s1 by (simp add: growing_def)
      have "settle_failure block_storage_view put_block_storage_status h err r1 w1 = (res, r', w')"
        using f st0 upd detect d Some
        by (simp add: block_storage_reconcile_shape volume_delegate_def arm_of_def increasing_view)
      then show ?thesis
      proof (cases rule: block_storage_status.settle_failure_cases)
        case busy
        with g1 less r1 show ?thesis by (simp add: grow_left_def)
      next
        case (failed res1)
        have up: "phase_of (block_storage_view r1) = Phase StateUpdating" using upd r1 st0 by simp
        from settled_growing [OF failed(2) g1 room st] up
        have "growing n r'" "m w' \<le> m w1" by simp_all
        moreover have "grow_left r' \<le> 1" by (simp add: grow_left_def)
        ultimately show ?thesis using less by linarith
      qed
    qed
  qed
qed

text \<open>
  Growing ends. When every failed or unfinished IncreaseSize brings the provider closer to success
  and status writes succeed, an active volume that is smaller than wanted is active with the wanted
  size recorded after at most 3 m + 2 passes, m the work left; the errors and retries in between
  are covered, as is a volume that is already updating.
\<close>

theorem growing_ends:
  assumes "block_storage_tame h" and "roomy h" and "stores m (h_repo h)"
    and "progresses m (h_increase_size h)" and "growing (bss_size_gb (bs_spec r)) r"
  shows "\<exists>n \<le> 3 * m w + 2. \<exists>r' w'. passes (block_storage_handle_reconcile h) n r w = (r', w')
    \<and> phase_of (block_storage_view r') = Phase StateActive \<and> recorded_size r' = bss_size_gb (bs_spec r)"
proof -
  let ?n = "bss_size_gb (bs_spec r)"
  let ?D = "\<lambda>r w. phase_of (block_storage_view r) = Phase StateActive \<and> recorded_size r = ?n"
  have "\<exists>n \<le> Suc (3 * m w + grow_left r). \<exists>r' w'. passes (block_storage_handle_reconcile h) n r w = (r', w') \<and> ?D r' w'"
  proof (rule passes_reach [where G = "growing ?n" and \<mu> = "\<lambda>r w. 3 * m w + grow_left r"])
    fix r w res r' w'
    assume "growing ?n r" and "block_storage_handle_reconcile h r w = (res, r', w')"
    from growing_step [OF assms(1-4) this]
    show "?D r' w' \<or> growing ?n r' \<and> 3 * m w' + grow_left r' < 3 * m w + grow_left r" .
  qed (rule assms(5))
  moreover have "grow_left r \<le> 1" by (simp add: grow_left_def)
  ultimately obtain n r' w' where "n \<le> Suc (3 * m w + grow_left r)"
    "passes (block_storage_handle_reconcile h) n r w = (r', w')" "?D r' w'" by blast
  with \<open>grow_left r \<le> 1\<close> show ?thesis by (intro exI [of _ n]) simp
qed

subsection \<open>An image waits for its volume\<close>

text \<open>Where an image finds the volume it is stored on.\<close>

definition volume_target :: "image \<Rightarrow> reference_target" where
  "volume_target r = parse_reference (imgs_block_storage_ref (img_spec r)) (md_tenant r)"

definition volume_namespace :: "(string \<Rightarrow> string) \<Rightarrow> image \<Rightarrow> string" where
  "volume_namespace sha3 r = compute_namespace sha3
     \<lparr>sc_tenant = rt_tenant (volume_target r), sc_workspace = rt_workspace (volume_target r)\<rparr>"

definition volume_active :: "uobject \<Rightarrow> bool" where
  "volume_active obj \<longleftrightarrow> nested_string_at obj [''status'', ''state''] = Inr (Some ''active'')"

lemma state_of_active: "resource_state_from_cr (state_of_string s) = StateActive \<longleftrightarrow> s = ''active''"
  by (simp add: state_of_string_def resource_state_from_cr_def)

lemma pending_image_pass:
  assumes "\<not> deleted_at r" and "image_view r = Some st" and "st_state st = StatePending"
  shows "image_handle_reconcile h r w = ensure_block_storage_ready h r w"
  by (rule image_pending_pass) (use assms in \<open>simp add: arm_of_iff\<close>)

text \<open>
  An image waits for its volume. The pass of a pending image takes it to creating exactly when
  the volume its reference names, in the namespace of the reference's tenant and workspace, exists
  and reports the state active; without the volume the image stays pending with the wait as its
  newest condition, and no operation of the plugin runs in either case.
\<close>

theorem images_wait_for_their_volume:
  assumes "h_dep_state h = resolver_state client sha3"
    and "\<not> deleted_at r" and "image_view r = Some st" and "st_state st = StatePending" and "status_ok st"
    and "dc_get client block_storage_gvr (volume_namespace sha3 r) (rt_name (volume_target r)) w = (found, w1)"
    and "image_handle_reconcile h r w = (res, r', w')"
  shows "(phase_of (image_view r') = Phase StateCreating \<longleftrightarrow> (\<exists>obj. found = Inr obj \<and> volume_active obj))
    \<and> ((\<exists>err. found = Inl err \<and> kube_is IsNotFound err) \<longrightarrow> phase_of (image_view r') = Phase StatePending
        \<and> (\<exists>c cs. st_conditions (the_status image_view r') = c # cs \<and> c_type c = ''DependencyPending''))
    \<and> w' = snd (rp_update_status (h_repo h) r' w1)"
proof -
  have run: "ensure_block_storage_ready h r w = (res, r', w')"
    using assms(7) by (simp add: pending_image_pass [OF assms(2-4)])
  have "\<exists>x. resolver_state client sha3 block_storage_gvr (imgs_block_storage_ref (img_spec r)) (md_tenant r) w = (x, w1) \<and>
      ((\<exists>obj. found = Inr obj \<and> volume_active obj) \<longleftrightarrow> x = Inr (True, StateActive)) \<and>
      ((\<exists>err. found = Inl err \<and> kube_is IsNotFound err) \<longrightarrow> x = Inr (False, StateUnset))"
    using assms(6)
    by (cases found) (auto simp: resolver_state_def volume_namespace_def volume_target_def Let_def
        volume_active_def state_of_active split: sum.splits option.splits if_splits)
  then obtain x where state: "h_dep_state h block_storage_gvr (imgs_block_storage_ref (img_spec r)) (md_tenant r) w = (x, w1)"
    and x: "(\<exists>obj. found = Inr obj \<and> volume_active obj) \<longleftrightarrow> x = Inr (True, StateActive)"
      "(\<exists>err. found = Inl err \<and> kube_is IsNotFound err) \<Longrightarrow> x = Inr (False, StateUnset)"
    by (auto simp: assms(1))
  have "\<exists>c. ensure_block_storage_ready h r w = settle image_view put_image_status h c True r w1 \<and>
      (c_state c = StateCreating \<longleftrightarrow> x = Inr (True, StateActive)) \<and>
      (x = Inr (False, StateUnset) \<longrightarrow> c_state c = StatePending \<and> c_type c = ''DependencyPending'')"
  proof (cases "x = Inr (True, StateActive)")
    case True
    with state show ?thesis
      by (auto simp: ensure_block_storage_ready_def image_set_state_eq settle_state_def condition_from_state_def)
  next
    case False
    let ?c = "case x of Inl err \<Rightarrow> condition_from_error (h_now h w1) err
      | Inr _ \<Rightarrow> dependency_pending_condition (h_now h w1) StatePending
          (''waiting for block storage '' @ fmt_q (ref_resource (imgs_block_storage_ref (img_spec r)))
           @ '' to be active'')"
    from False state show ?thesis
      by (intro exI [of _ ?c]) (auto simp: ensure_block_storage_ready_def image_set_error_eq
          image_set_condition_eq dependency_pending_condition_def split: sum.split)
  qed
  then obtain c where c: "settle image_view put_image_status h c True r w1 = (res, r', w')"
    and sc: "c_state c = StateCreating \<longleftrightarrow> x = Inr (True, StateActive)"
      "x = Inr (False, StateUnset) \<Longrightarrow> c_state c = StatePending \<and> c_type c = ''DependencyPending''"
    using run by metis
  have ok: "view_ok (image_view r)" using assms(3,5) by simp
  note v = image_status.settle_view(4) [OF c ok]
  obtain h0 cs where "st_conditions (the_status image_view r') = h0 # cs" "equal_status_conditions h0 c"
    using settle_head [OF c] by auto
  then have "\<exists>c1 cs. st_conditions (the_status image_view r') = c1 # cs \<and> c_type c1 = c_type c"
    by (auto simp: equal_status_conditions_iff)
  moreover have "w' = snd (rp_update_status (h_repo h) r' w1)"
    using c by (auto elim: image_status.settle_cases)
  ultimately show ?thesis using v sc x by auto
qed

text \<open>
  C12. A dependency that cannot be read strands the image. When the volume of a pending image cannot
  be fetched for another reason than being absent, the image goes to error; its history says that it
  failed in pending, for which the handler has no retry, so no later pass changes it or calls the
  plugin, whatever has become of the volume.
\<close>

theorem dependency_error_strands:
  assumes "h_dep_state h = resolver_state client sha3"
    and "\<not> deleted_at r" and "image_view r = Some st" and "st_state st = StatePending" and "status_ok st"
    and "dc_get client block_storage_gvr (volume_namespace sha3 r) (rt_name (volume_target r)) w = (Inl err, w1)"
    and "\<not> kube_is IsNotFound err"
    and "image_handle_reconcile h r w = (res, r', w')"
  shows "phase_of (image_view r') = Phase StateError
    \<and> (\<forall>w2. image_handle_reconcile h r' w2 = (Reconciled False None, r', w2))"
proof -
  have "ensure_block_storage_ready h r w = (res, r', w')"
    using assms(8) by (simp add: pending_image_pass [OF assms(2-4)])
  then obtain e where c: "settle image_view put_image_status h (condition_from_error (h_now h w1) e) True r w1
      = (res, r', w')"
    using assms(6,7)
    by (auto simp: ensure_block_storage_ready_def image_set_error_eq assms(1) resolver_state_def
        volume_namespace_def volume_target_def Let_def)
  have ok: "view_ok (image_view r)" using assms(3,5) by simp
  note v = image_status.settle_view [OF c ok]
  let ?c = "condition_from_error (h_now h w1) e"
  have r': "image_view r' = Some (trim_conditions (h_max_conditions h) (pushed (h_now h w1) ?c st))"
    using c by (rule image_status.settle_cases) (simp add: the_status_def assms(3))
  have fresh: "\<And>p cs. st_conditions st = p # cs \<Longrightarrow> c_state p \<noteq> c_state ?c"
    using assms(4,5) by (auto simp: status_ok_def condition_from_error_def)
  have "\<exists>c0. st_conditions (pushed (h_now h w1) ?c st) = c0 # st_conditions st"
    using pushed_fresh(2) [of st ?c "h_now h w1"] fresh by metis
  then have "\<not> failed_while StateCreating (trim_conditions (h_max_conditions h) (pushed (h_now h w1) ?c st))"
    using assms(4,5)
    by (cases "st_conditions st")
      (auto simp: failed_while_def st_conditions_trim status_ok_def take_Cons' nth_Cons' split: if_splits)
  then have "arm_of (deleted_at r') (image_view r') = ArmIdle"
    using v r' assms(2) by (simp add: arm_of_def condition_from_error_def)
  then have "image_handle_reconcile h r' w2 = (Reconciled False None, r', w2)" for w2
    by (simp add: image_reconcile_shape pass_shape_def)
  with v show ?thesis by (simp add: condition_from_error_def)
qed


subsection \<open>The properties on a small world\<close>

text \<open>
  The world counts the plugin's failures to come; every status is stored, the objects are those of the
  client given.
\<close>

definition demo_operation :: "('r, nat) delegated" where
  "demo_operation r w = (if w = 0 then (None, r, 0) else (Some (GoError ''boom''), r, w - 1))"

definition demo_repo :: "('r, nat) repo" where
  "demo_repo = \<lparr>rp_create = (\<lambda>r w. (Inr r, w)), rp_update = (\<lambda>r w. (Inr r, w)),
     rp_update_status = (\<lambda>r w. (Inr r, w)), rp_delete = (\<lambda>r w. (None, w)), rp_load = (\<lambda>r w. (Inr r, w)),
     rp_list = (\<lambda>params w. (Inr ([], None), w))\<rparr>"

definition demo_volume_handler :: "nat dyn_client \<Rightarrow> (block_storage, nat) volume_handler" where
  "demo_volume_handler client = \<lparr>h_repo = demo_repo, h_create = demo_operation, h_update = demo_operation,
     h_delete = demo_operation, h_max_conditions = 3, h_now = (\<lambda>w. 0),
     h_dep_state = resolver_state client (\<lambda>s. s), h_increase_size = demo_operation,
     h_dep_referrers = resolver_referrers client decode_resource, h_sha3 = (\<lambda>s. s)\<rparr>"

definition demo_image_handler :: "nat dyn_client \<Rightarrow> (image, nat) dependent_handler" where
  "demo_image_handler client = \<lparr>h_repo = demo_repo, h_create = demo_operation, h_update = demo_operation,
     h_delete = demo_operation, h_max_conditions = 3, h_now = (\<lambda>w. 0),
     h_dep_state = resolver_state client (\<lambda>s. s)\<rparr>"

definition demo_status :: "resource_state \<Rightarrow> status" where
  "demo_status state = \<lparr>st_state = state,
     st_conditions = [default_pending_condition\<lparr>c_state := state\<rparr>]\<rparr>"

definition demo_reference :: "string \<Rightarrow> reference" where
  "demo_reference p = \<lparr>ref_provider = [], ref_region = [], ref_resource = p, ref_tenant = [],
     ref_workspace = ''w''\<rparr>"

definition demo_volume :: "time option \<Rightarrow> resource_state \<Rightarrow> int \<Rightarrow> int \<Rightarrow> block_storage" where
  "demo_volume d state n k = \<lparr>md_name = ''v'', md_provider = ''p'', md_version = [],
     md_created = 0, md_updated = 0, md_deleted = d, md_tenant = ''t'', md_workspace = ''w'',
     md_labels = [], md_annotations = [], md_extensions = [], md_region = ''eu'',
     bs_spec = \<lparr>bss_size_gb = n, bss_sku_ref = demo_reference ''skus/s'', bss_source_image_ref = None\<rparr>,
     bs_status = Some \<lparr>bsst_attached_to = None, bsst_size_gb = k, bsst_status = demo_status state\<rparr>\<rparr>"

definition demo_image :: image where
  "demo_image = \<lparr>md_name = ''i'', md_provider = ''p'', md_version = [],
     md_created = 0, md_updated = 0, md_deleted = None, md_tenant = ''t'', md_workspace = [],
     md_labels = [], md_annotations = [], md_extensions = [], md_region = ''eu'',
     img_spec = \<lparr>imgs_block_storage_ref = demo_reference ''block-storages/v'', imgs_cpu_architecture = [],
       imgs_boot = [], imgs_initializer = []\<rparr>,
     img_status = Some \<lparr>imgst_size_mb = None, imgst_status = demo_status StatePending\<rparr>\<rparr>"

definition demo_client :: "(go_error + uobject) \<Rightarrow> uobject list \<Rightarrow> nat dyn_client" where
  "demo_client found listed = (forbidding_client (\<lambda>k. listed))\<lparr>dc_get := \<lambda>kind namespace name w. (found, w)\<rparr>"

lemma demo_views [simp]:
  "block_storage_view (demo_volume d s n k) = Some (demo_status s)" "deleted_at (demo_volume d s n k) \<longleftrightarrow> d \<noteq> None"
  "bss_size_gb (bs_spec (demo_volume d s n k)) = n" "recorded_size (demo_volume d s n k) = k"
  "wanted_size (demo_volume d s n k) = n"
  "image_view demo_image = Some (demo_status StatePending)" "\<not> deleted_at demo_image"
  by (simp_all add: demo_volume_def demo_image_def block_storage_view_def image_view_def deleted_at_def
      recorded_size_def wanted_size_def volume_sizes_def)

lemma demo_status_simps [simp]:
  "st_state (demo_status s) = s" "status_ok (demo_status s)" "well_formed (demo_status s)"
  by (simp_all add: demo_status_def status_ok_def well_formed_def)

lemma demo_operation_keeps: "quiet d v demo_operation" "keeps_sizes demo_operation"
  by (simp_all add: quiet_def keeps_sizes_def demo_operation_def)

lemma demo_volume_handler_sized: "sized_plugin (demo_volume_handler client)"
  using demo_operation_keeps
  by (simp add: sized_plugin_def block_storage_tame_def quiet_plugin_def demo_volume_handler_def keeps_sizes_def)

lemma images_hold_their_volume_witness:
  "phase_of (block_storage_view (fst (snd (block_storage_handle_reconcile
      (demo_volume_handler (demo_client (Inl (GoError ''x'')) two_images))
      (demo_volume (Some 2) StateActive 10 10) 0)))) = Phase StateActive"
proof -
  let ?c = "demo_client (Inl (GoError ''x'')) two_images"
  let ?h = "demo_volume_handler ?c" and ?r = "demo_volume (Some 2) StateActive 10 10"
  obtain res r' w' where run: "block_storage_handle_reconcile ?h ?r 0 = (res, r', w')" by (metis prod_cases3)
  have dep: "h_dep_referrers ?h = resolver_referrers ?c decode_resource" by (simp add: demo_volume_handler_def)
  have l: "dc_list ?c no_options image_gvr (images_namespace (h_sha3 ?h) ?r) 0 = (Inr (two_images, []), 0)"
    by (simp add: demo_client_def forbidding_client_def no_options_def)
  have "map uo_name (filter (stored_on decode_resource ?r) two_images) = [''i1'']"
    using two_images_refs(2) by (simp add: stored_on_def image_field_def demo_volume_def)
  then have "filter (stored_on decode_resource ?r) two_images \<noteq> []" by auto
  moreover note two_images_refs(1) [folded image_field_def]
  ultimately show ?thesis
    using images_hold_their_volume [OF dep _ demo_views(1) _ _ l run] by (simp add: run)
qed

lemma recorded_size_is_provisioned_witness:
  "recorded_size (fst (snd (block_storage_handle_reconcile
      (demo_volume_handler (demo_client (Inl (GoError ''x'')) []))
      (demo_volume None StateUpdating 20 10) 3))) = 10"
proof -
  let ?h = "demo_volume_handler (demo_client (Inl (GoError ''x'')) [])"
  let ?r = "demo_volume None StateUpdating 20 10"
  obtain res r' w' where run: "block_storage_handle_reconcile ?h ?r 3 = (res, r', w')" by (metis prod_cases3)
  have "fst (h_increase_size ?h ?r 3) \<noteq> None" by (simp add: demo_volume_handler_def demo_operation_def)
  with recorded_size_is_provisioned [OF demo_volume_handler_sized run] show ?thesis by (simp add: run)
qed

lemma growing_ends_witness:
  "\<exists>n \<le> 11. recorded_size (fst (passes (block_storage_handle_reconcile
      (demo_volume_handler (demo_client (Inl (GoError ''x'')) [])))
      n (demo_volume None StateActive 20 10) 3)) = 20"
proof -
  let ?h = "demo_volume_handler (demo_client (Inl (GoError ''x'')) [])"
  let ?r = "demo_volume None StateActive 20 10"
  have "block_storage_tame ?h" using demo_volume_handler_sized by (simp add: sized_plugin_def)
  moreover have "roomy ?h" by (simp add: roomy_def demo_volume_handler_def)
  moreover have "stores (\<lambda>w. w) (h_repo ?h)" by (simp add: stores_def demo_volume_handler_def demo_repo_def)
  moreover have "progresses (\<lambda>w. w) (h_increase_size ?h)"
    by (simp add: progresses_def demo_volume_handler_def demo_operation_def)
  moreover have "growing (bss_size_gb (bs_spec ?r)) ?r" by (simp add: growing_def)
  ultimately obtain n r' w' where "n \<le> 3 * 3 + 2"
    and "passes (block_storage_handle_reconcile ?h) n ?r 3 = (r', w')" "recorded_size r' = bss_size_gb (bs_spec ?r)"
    using growing_ends [where h = ?h and m = "\<lambda>w. w" and r = ?r and w = 3] by blast
  then show ?thesis by (intro exI [of _ n]) simp
qed

lemma demo_target:
  "volume_target demo_image = \<lparr>rt_tenant = ''t'', rt_workspace = ''w'', rt_name = ''v''\<rparr>"
  by (simp add: volume_target_def demo_image_def demo_reference_def parse_reference_def reference_to_cr_def
      take_segment_def extract_and_strip_segment_def)

lemma images_wait_for_their_volume_witness:
  "phase_of (image_view (fst (snd (image_handle_reconcile
      (demo_image_handler (demo_client (Inr (volume_uobject ''active'')) [])) demo_image 0)))) = Phase StateCreating"
proof -
  let ?c = "demo_client (Inr (volume_uobject ''active'')) []"
  let ?h = "demo_image_handler ?c"
  obtain res r' w' where run: "image_handle_reconcile ?h demo_image 0 = (res, r', w')" by (metis prod_cases3)
  have dep: "h_dep_state ?h = resolver_state ?c (\<lambda>s. s)" by (simp add: demo_image_handler_def)
  have g: "dc_get ?c block_storage_gvr (volume_namespace (\<lambda>s. s) demo_image) (rt_name (volume_target demo_image)) 0
      = (Inr (volume_uobject ''active''), 0)"
    by (simp add: demo_client_def)
  have "volume_active (volume_uobject ''active'')"
    by (simp add: volume_active_def volume_uobject_def nested_string_at_def)
  with images_wait_for_their_volume [OF dep demo_views(7) demo_views(6) _ _ g run] show ?thesis
    by (simp add: run)
qed

lemma dependency_error_strands_witness:
  "phase_of (image_view (fst (snd (image_handle_reconcile
      (demo_image_handler (demo_client (Inl (KubeError [IsForbidden] True None ''forbidden'')) [])) demo_image 0)))) = Phase StateError"
proof -
  let ?e = "KubeError [IsForbidden] True None ''forbidden''"
  let ?c = "demo_client (Inl ?e) []"
  let ?h = "demo_image_handler ?c"
  obtain res r' w' where run: "image_handle_reconcile ?h demo_image 0 = (res, r', w')" by (metis prod_cases3)
  have dep: "h_dep_state ?h = resolver_state ?c (\<lambda>s. s)" by (simp add: demo_image_handler_def)
  have g: "dc_get ?c block_storage_gvr (volume_namespace (\<lambda>s. s) demo_image) (rt_name (volume_target demo_image)) 0
      = (Inl ?e, 0)"
    by (simp add: demo_client_def)
  have "\<not> kube_is IsNotFound ?e" by (simp add: kube_is_def)
  with dependency_error_strands [OF dep demo_views(7) demo_views(6) _ _ g _ run] show ?thesis
    by (simp add: run)
qed

end
