(* ===== verification/Labels.thy ===== *)
theory Labels
  imports Namespaces "HOL-Library.List_Lexorder" "HOL-Library.Char_ord"
begin

section \<open>Labels of stored objects: \<^verbatim>\<open>framework/backend/kubernetes/labels\<close>\<close>

text \<open>
  A stored object carries three kinds of labels: internal ones under \<^verbatim>\<open>secapi.cloud/\<close>, the user's
  under a key hashed with SHA3-224 behind \<^verbatim>\<open>kl/\<close> (the hex digest is the parameter \<open>sha3\<close>), and those
  a provider adds. Maps are kept in the order of their keys, so that equal maps are equal lists.
\<close>

definition internal_label_prefix :: string where "internal_label_prefix = ''secapi.cloud/''"
definition keyed_labels_prefix :: string where "keyed_labels_prefix = ''kl/''"
definition internal_provider_label :: string where "internal_provider_label = internal_label_prefix @ ''provider''"
definition internal_region_label :: string where "internal_region_label = internal_label_prefix @ ''region''"

lemmas label_defs = internal_label_prefix_def keyed_labels_prefix_def internal_provider_label_def
  internal_region_label_def internal_tenant_label_def internal_workspace_label_def internal_network_label_def

subsection \<open>Maps in key order\<close>

fun map_insert :: "string \<Rightarrow> 'a \<Rightarrow> (string \<times> 'a) list \<Rightarrow> (string \<times> 'a) list" where
  "map_insert k v [] = [(k, v)]"
| "map_insert k v ((k', v') # m) =
    (if k = k' then (k, v) # m
     else if k < k' then (k, v) # (k', v') # m
     else (k', v') # map_insert k v m)"

definition key_sorted :: "(string \<times> 'a) list \<Rightarrow> bool" where
  "key_sorted m \<longleftrightarrow> sorted_wrt (<) (map fst m)"

lemma map_of_map_insert [simp]: "map_of (map_insert k v m) = (map_of m)(k \<mapsto> v)"
  by (induction k v m rule: map_insert.induct) auto

lemma map_insert_keys: "fst ` set (map_insert k v m) = insert k (fst ` set m)"
  by (induction k v m rule: map_insert.induct) auto

lemma key_sorted_simps [simp]:
  "key_sorted []" "key_sorted ((k, v) # m) \<longleftrightarrow> (\<forall>k' \<in> fst ` set m. k < k') \<and> key_sorted m"
  by (auto simp: key_sorted_def)

lemma key_sorted_insert: "key_sorted m \<Longrightarrow> key_sorted (map_insert k v m)"
  by (induction k v m rule: map_insert.induct) (auto simp: map_insert_keys)

lemma map_insert_front: "\<forall>k' \<in> fst ` set m. k < k' \<Longrightarrow> map_insert k v m = (k, v) # m"
  by (cases m) auto

lemma key_sorted_ext:
  "key_sorted m \<Longrightarrow> key_sorted m' \<Longrightarrow> map_of m = map_of m' \<Longrightarrow> m = m'"
proof -
  assume m: "key_sorted m" "key_sorted m'" and eq: "map_of m = map_of m'"
  then have d: "sorted (map fst m)" "distinct (map fst m)" "sorted (map fst m')" "distinct (map fst m')"
    by (simp_all add: key_sorted_def strict_sorted_iff)
  with eq have "set m = set m'" by (simp add: map_of_inject_set)
  with d show ?thesis
    using map_sorted_distinct_set_unique [of fst m m'] by (simp add: distinct_map)
qed

lemma key_sorted_filter [simp]: "key_sorted m \<Longrightarrow> key_sorted (filter P m)"
  by (induction m) (auto simp: key_sorted_def)

subsection \<open>\<^verbatim>\<open>filter.go\<close>\<close>

definition filter_internal_labels :: "strmap \<Rightarrow> strmap" where
  "filter_internal_labels labels = filter (\<lambda>(k, v). \<not> has_prefix internal_label_prefix k) labels"

definition filter_keyed_labels :: "strmap \<Rightarrow> strmap" where
  "filter_keyed_labels labels = filter (\<lambda>(k, v). \<not> has_prefix keyed_labels_prefix k) labels"

definition get_internal_labels :: "strmap \<Rightarrow> strmap" where
  "get_internal_labels labels = filter (\<lambda>(k, v). has_prefix internal_label_prefix k) labels"

definition get_keyed_labels :: "strmap \<Rightarrow> strmap" where
  "get_keyed_labels labels = filter (\<lambda>(k, v). has_prefix keyed_labels_prefix k) labels"

definition get_csp_labels :: "strmap \<Rightarrow> strmap" where
  "get_csp_labels labels = filter_keyed_labels (filter_internal_labels labels)"

subsection \<open>\<^verbatim>\<open>labels.go\<close>\<close>

definition compute_keyed_label_key :: "(string \<Rightarrow> string) \<Rightarrow> string \<Rightarrow> string" where
  "compute_keyed_label_key sha3 key = keyed_labels_prefix @ sha3 key"

fun keyed_to_original :: "(string \<Rightarrow> string) \<Rightarrow> strmap \<Rightarrow> string list \<Rightarrow> strmap" where
  "keyed_to_original sha3 keyed [] = []"
| "keyed_to_original sha3 keyed (key # keys) =
    (case map_of keyed (compute_keyed_label_key sha3 key) of
       None \<Rightarrow> keyed_to_original sha3 keyed keys
     | Some v \<Rightarrow> map_insert key v (keyed_to_original sha3 keyed keys))"

fun original_to_keyed :: "(string \<Rightarrow> string) \<Rightarrow> strmap \<Rightarrow> strmap" where
  "original_to_keyed sha3 [] = []"
| "original_to_keyed sha3 ((k, v) # labels) =
    map_insert (compute_keyed_label_key sha3 k) v (original_to_keyed sha3 labels)"

subsection \<open>Facts\<close>

lemma map_of_filter_key: "map_of (filter (\<lambda>(k, v). P k) m) k = (if P k then map_of m k else None)"
  by (induction m) auto

lemma get_keyed_lookup:
  "map_of (get_keyed_labels m) (compute_keyed_label_key sha3 k) = map_of m (compute_keyed_label_key sha3 k)"
  by (simp add: get_keyed_labels_def map_of_filter_key compute_keyed_label_key_def)

lemma get_internal_lookup:
  "has_prefix internal_label_prefix k \<Longrightarrow> map_index (get_internal_labels m) k = map_index m k"
  by (simp add: get_internal_labels_def map_of_filter_key map_index_def)

lemma key_sorted_keyed [simp]:
  "key_sorted (original_to_keyed sha3 labels)" "key_sorted (keyed_to_original sha3 keyed keys)"
proof -
  show "key_sorted (original_to_keyed sha3 labels)" by (induction labels) (auto simp: key_sorted_insert)
  show "key_sorted (keyed_to_original sha3 keyed keys)"
    by (induction keys) (auto simp: key_sorted_insert split: option.split)
qed

lemma original_to_keyed_lookup:
  assumes "inj_on sha3 (insert k (fst ` set labels))"
  shows "map_of (original_to_keyed sha3 labels) (compute_keyed_label_key sha3 k) = map_of labels k"
  using assms
  by (induction labels) (auto simp: compute_keyed_label_key_def inj_on_def split: if_splits)

lemma original_to_keyed_keys:
  "fst ` set (original_to_keyed sha3 labels) = (\<lambda>k. compute_keyed_label_key sha3 k) ` fst ` set labels"
proof (induction labels)
  case (Cons x labels)
  then show ?case by (cases x) (simp add: map_insert_keys)
qed simp

lemma keyed_to_original_lookup:
  "map_of (keyed_to_original sha3 keyed keys) k =
     (if k \<in> set keys then map_of keyed (compute_keyed_label_key sha3 k) else None)"
  by (induction keys) (auto split: option.split)

text \<open>What the user wrote comes back, whatever other labels the object carries.\<close>

lemma labels_come_back:
  assumes "key_sorted labels" and "inj_on sha3 (fst ` set labels)" and "set keys = fst ` set labels"
    and others: "\<And>k. k \<in> fst ` set labels \<Longrightarrow>
      map_of stored (compute_keyed_label_key sha3 k) =
      map_of (original_to_keyed sha3 labels) (compute_keyed_label_key sha3 k)"
  shows "keyed_to_original sha3 (get_keyed_labels stored) keys = labels"
proof (rule key_sorted_ext)
  show "map_of (keyed_to_original sha3 (get_keyed_labels stored) keys) = map_of labels"
  proof
    fix k
    show "map_of (keyed_to_original sha3 (get_keyed_labels stored) keys) k = map_of labels k"
    proof (cases "k \<in> fst ` set labels")
      case True
      then have "insert k (fst ` set labels) = fst ` set labels" by auto
      with original_to_keyed_lookup [of sha3 k labels] assms(2,3) others [OF True] True show ?thesis
        by (simp add: keyed_to_original_lookup get_keyed_lookup)
    next
      case False
      then have "map_of labels k = None" by (simp add: map_of_eq_None_iff)
      with False show ?thesis by (simp add: keyed_to_original_lookup assms(3))
    qed
  qed
qed (simp_all add: assms(1))

end
