(* ===== verification/Label_Filter.thy ===== *)
theory Label_Filter
  imports Labels Adapter
begin

section \<open>Label selectors and listing\<close>

text \<open>
  \<^verbatim>\<open>framework/kernel/validation/filter/labels.go\<close>, \<^verbatim>\<open>framework/kernel/validation/pagination.go\<close> and
  \<^verbatim>\<open>ReaderAdapter.List\<close> of \<^verbatim>\<open>framework/backend/kubernetes/adapter.go\<close>. A selector is split at its commas;
  the parts one regular expression accepts go to the API server, the others are compiled to filters
  that the adapter applies to what the server returned. The regular expressions are written out as
  recognisers: every character class of theirs is disjoint from what may follow it, so the longest
  run is the only candidate. Floating-point numbers (\<^verbatim>\<open>strconv.ParseFloat\<close> and the comparisons) and the
  glob compiler of \<^verbatim>\<open>github.com/gobwas/glob\<close> are parameters; white space is that of ASCII.
\<close>

subsection \<open>The regular expressions\<close>

definition char_between :: "nat \<Rightarrow> nat \<Rightarrow> char \<Rightarrow> bool" where
  "char_between a b c \<longleftrightarrow> a \<le> (of_char c :: nat) \<and> (of_char c :: nat) \<le> b"

definition is_alnum :: "char \<Rightarrow> bool" where
  "is_alnum c \<longleftrightarrow> char_between 97 122 c \<or> char_between 65 90 c \<or> char_between 48 57 c"

text \<open>The class \<^verbatim>\<open>\s\<close> of a regular expression, and the spaces \<^verbatim>\<open>strings.TrimSpace\<close> removes.\<close>

definition is_ws :: "char \<Rightarrow> bool" where
  "is_ws c \<longleftrightarrow> (of_char c :: nat) \<in> {9, 10, 12, 13, 32}"

definition is_space :: "char \<Rightarrow> bool" where
  "is_space c \<longleftrightarrow> (of_char c :: nat) \<in> {9, 10, 11, 12, 13, 32}"

definition trim_space :: "string \<Rightarrow> string" where
  "trim_space s = rev (dropWhile is_space (rev (dropWhile is_space s)))"

text \<open>\<^verbatim>\<open>[a-zA-Z0-9_.-/]\<close>: the dash is the range from dot to slash, not a member.\<close>

definition k8s_class :: "char \<Rightarrow> bool" where
  "k8s_class c \<longleftrightarrow> is_alnum c \<or> c = CHR ''_'' \<or> char_between 46 47 c"

text \<open>\<^verbatim>\<open>[a-zA-Z0-9_.*/-]\<close>.\<close>

definition label_class :: "char \<Rightarrow> bool" where
  "label_class c \<longleftrightarrow> is_alnum c \<or> c \<in> {CHR ''_'', CHR ''.'', CHR ''*'', CHR ''/'', CHR ''-''}"

definition blank :: "string \<Rightarrow> bool" where
  "blank s \<longleftrightarrow> list_all is_ws s"

text \<open>\<^verbatim>\<open>\s+(in|notin)\s+\([^)]*\)\s*$\<close>\<close>

definition set_clause :: "string \<Rightarrow> bool" where
  "set_clause s =
    (let a = dropWhile is_ws s;
         b = (if has_prefix ''in'' a then Some (drop 2 a)
              else if has_prefix ''notin'' a then Some (drop 5 a) else None) in
     a \<noteq> s \<and>
     (case b of None \<Rightarrow> False
      | Some r \<Rightarrow>
          (let c = dropWhile is_ws r in
           c \<noteq> r \<and> has_prefix ''('' c \<and>
           (case dropWhile (\<lambda>x. x \<noteq> CHR '')'') (tl c) of [] \<Rightarrow> False | _ # t \<Rightarrow> blank t))))"

text \<open>\<^verbatim>\<open>\s*(==|=|!=)\s*[a-zA-Z0-9_.-/]+\s*$\<close>\<close>

definition value_clause :: "string \<Rightarrow> bool" where
  "value_clause s =
    (let a = dropWhile is_ws s;
         b = (if has_prefix ''=='' a \<or> has_prefix ''!='' a then Some (drop 2 a)
              else if has_prefix ''='' a then Some (drop 1 a) else None) in
     case b of None \<Rightarrow> False
     | Some r \<Rightarrow>
         (let c = dropWhile is_ws r in takeWhile k8s_class c \<noteq> [] \<and> blank (dropWhile k8s_class c)))"

definition k8s_selector :: "string \<Rightarrow> bool" where
  "k8s_selector s =
    (let a = dropWhile is_ws s;
         b = (if has_prefix ''!'' a then tl a else a);
         r = dropWhile k8s_class b in
     takeWhile k8s_class b \<noteq> [] \<and> (blank r \<or> set_clause r \<or> value_clause r))"

text \<open>The value of \<^verbatim>\<open>labelExpr\<close>: the rest of the part, after white space, with no comma in it.\<close>

definition expr_value :: "string \<Rightarrow> string option" where
  "expr_value s =
    (if s = [] \<or> CHR '','' \<in> set s then None
     else if blank s then Some [last s] else Some (dropWhile is_ws s))"

fun first_op :: "string list \<Rightarrow> string \<Rightarrow> (string \<times> string) option" where
  "first_op [] s = None"
| "first_op (op # ops) s =
    (case (if has_prefix op s then expr_value (drop (length op) s) else None) of
       Some v \<Rightarrow> Some (op, v)
     | None \<Rightarrow> first_op ops s)"

definition label_expr :: "string \<Rightarrow> (string \<times> string \<times> string) option" where
  "label_expr s =
    (let a = dropWhile is_ws s; key = takeWhile label_class a in
     if key = [] then None
     else map_option (\<lambda>(op, v). (key, op, v))
       (first_op [''=='', ''!='', ''>='', ''<='', ''='', ''>'', ''<''] (dropWhile is_ws (dropWhile label_class a))))"

subsection \<open>Selectors\<close>

definition k8s_selector_for_api :: "string \<Rightarrow> string" where
  "k8s_selector_for_api raw =
    (if raw = [] then []
     else join '','' (filter k8s_selector (map trim_space (split_on (CHR '','') raw))))"

text \<open>The numbers of \<^verbatim>\<open>float64\<close>.\<close>

record 'f floats =
  fl_parse :: "string \<Rightarrow> 'f option"
  fl_less :: "'f \<Rightarrow> 'f \<Rightarrow> bool"
  fl_le :: "'f \<Rightarrow> 'f \<Rightarrow> bool"

text \<open>\<^verbatim>\<open>glob.MustCompile\<close> panics on a pattern that does not compile.\<close>

type_synonym globs = "string \<Rightarrow> (string \<Rightarrow> bool) option"

datatype filter_error = InvalidSegment string | GlobPanic

record 'f compiled_filter =
  cf_key :: string
  cf_value :: string
  cf_op :: string
  cf_num :: "'f option"
  cf_key_glob :: "(string \<Rightarrow> bool) option"
  cf_value_glob :: "(string \<Rightarrow> bool) option"

definition must_compile :: "globs \<Rightarrow> bool \<Rightarrow> string \<Rightarrow> filter_error + (string \<Rightarrow> bool) option" where
  "must_compile glob wanted pattern =
    (if \<not> wanted then Inr None
     else case glob pattern of None \<Rightarrow> Inl GlobPanic | Some g \<Rightarrow> Inr (Some g))"

definition compile_part :: "'f floats \<Rightarrow> globs \<Rightarrow> string \<Rightarrow> filter_error + 'f compiled_filter" where
  "compile_part fl glob part =
    (case label_expr part of
       None \<Rightarrow> Inl (InvalidSegment part)
     | Some (k, op, v) \<Rightarrow>
         (let key = trim_space k; value = trim_space v;
              num = (if op \<in> {''>'', ''<'', ''>='', ''<=''} then fl_parse fl value else None) in
          case must_compile glob (CHR ''*'' \<in> set key) key of
            Inl e \<Rightarrow> Inl e
          | Inr kg \<Rightarrow>
              (case must_compile glob (num = None \<and> op = ''='' \<and> CHR ''*'' \<in> set value) value of
                 Inl e \<Rightarrow> Inl e
               | Inr vg \<Rightarrow> Inr \<lparr>cf_key = key, cf_value = value, cf_op = op, cf_num = num,
                                cf_key_glob = kg, cf_value_glob = vg\<rparr>)))"

fun compile_parts :: "'f floats \<Rightarrow> globs \<Rightarrow> string list \<Rightarrow> filter_error + 'f compiled_filter list" where
  "compile_parts fl glob [] = Inr []"
| "compile_parts fl glob (p # ps) =
    (let part = trim_space p in
     if part = [] \<or> k8s_selector part then compile_parts fl glob ps
     else (case compile_part fl glob part of
         Inl e \<Rightarrow> Inl e
       | Inr cf \<Rightarrow> (case compile_parts fl glob ps of Inl e \<Rightarrow> Inl e | Inr cfs \<Rightarrow> Inr (cf # cfs))))"

definition compile_selector :: "'f floats \<Rightarrow> globs \<Rightarrow> string \<Rightarrow> filter_error + 'f compiled_filter list" where
  "compile_selector fl glob sel = compile_parts fl glob (split_on (CHR '','') sel)"

definition evaluate_numeric_comparison :: "'f floats \<Rightarrow> string \<Rightarrow> 'f \<Rightarrow> 'f \<Rightarrow> bool" where
  "evaluate_numeric_comparison fl op n v =
    (if op = ''>'' then fl_less fl n v
     else if op = ''<'' then fl_less fl v n
     else if op = ''>='' then fl_le fl n v
     else if op = ''<='' then fl_le fl v n
     else False)"

text \<open>One label against one filter, and the loop over the labels (in whatever order: one match is enough).\<close>

definition label_matches :: "'f floats \<Rightarrow> 'f compiled_filter \<Rightarrow> string \<times> string \<Rightarrow> bool" where
  "label_matches fl cf = (\<lambda>(k, v).
    (case cf_key_glob cf of Some g \<Rightarrow> g k | None \<Rightarrow> cf_key cf = k) \<and>
    (case cf_num cf of
       Some n \<Rightarrow> (case fl_parse fl v of None \<Rightarrow> False | Some x \<Rightarrow> evaluate_numeric_comparison fl (cf_op cf) n x)
     | None \<Rightarrow> cf_op cf = ''='' \<and>
         (case cf_value_glob cf of Some g \<Rightarrow> g v | None \<Rightarrow> cf_value cf = v)))"

definition match_filter :: "'f floats \<Rightarrow> strmap \<Rightarrow> 'f compiled_filter \<Rightarrow> bool" where
  "match_filter fl labels cf = list_ex (label_matches fl cf) labels"

text \<open>The results are \<^verbatim>\<open>matched\<close> and \<^verbatim>\<open>k8sHandled\<close>.\<close>

definition match_labels :: "'f floats \<Rightarrow> globs \<Rightarrow> strmap \<Rightarrow> string \<Rightarrow> filter_error + bool \<times> bool" where
  "match_labels fl glob labels raw =
    (if raw = [] then Inr (True, False)
     else case compile_selector fl glob raw of
       Inl e \<Rightarrow> Inl e
     | Inr filters \<Rightarrow>
         if filters = [] then Inr (False, True)
         else Inr (list_all (match_filter fl labels) filters, False))"

subsection \<open>Limits: \<^verbatim>\<open>pagination.go\<close>\<close>

definition get_limit :: "int option \<Rightarrow> int" where
  "get_limit limit = (case limit of
      None \<Rightarrow> 1000
    | Some n \<Rightarrow> if n < 1 then 1 else if n > 10000 then 10000 else n)"

subsection \<open>\<^verbatim>\<open>List\<close>\<close>

text \<open>The loop over the listed items; the first one decides whether there is anything to filter.\<close>

fun filter_items ::
  "'f floats \<Rightarrow> globs \<Rightarrow> string \<Rightarrow> uobject list \<Rightarrow> uobject list \<Rightarrow> filter_error + uobject list" where
  "filter_items fl glob selector all [] = Inr []"
| "filter_items fl glob selector all (item # items) =
    (case match_labels fl glob (uo_labels item) selector of
       Inl e \<Rightarrow> Inl e
     | Inr (matched, k8s_handled) \<Rightarrow>
         if k8s_handled then Inr all
         else (case filter_items fl glob selector all items of
             Inl e \<Rightarrow> Inl e
           | Inr kept \<Rightarrow> Inr (if matched then item # kept else kept)))"

fun convert_items :: "(uobject \<Rightarrow> go_error + 'r) \<Rightarrow> uobject list \<Rightarrow> go_error + 'r list" where
  "convert_items from_k8s [] = Inr []"
| "convert_items from_k8s (item # items) =
    (case from_k8s item of
       Inl err \<Rightarrow> Inl err
     | Inr x \<Rightarrow> (case convert_items from_k8s items of Inl err \<Rightarrow> Inl err | Inr xs \<Rightarrow> Inr (x # xs)))"

datatype 'r listing = Listed "'r list" "string option" | ListFailed go_error | ListPanics

definition list_options_of :: "list_params \<Rightarrow> list_options" where
  "list_options_of params =
    \<lparr>lo_limit = (if lp_limit params > 0 then lp_limit params else 0),
     lo_continue = lp_skip_token params,
     lo_selector = (if lp_selector params = [] then [] else k8s_selector_for_api (lp_selector params))\<rparr>"

text \<open>The scope of the parameters is resolved as a resource's is: \<open>params_scope\<close> is the view the
  interface assertions of \<^verbatim>\<open>resolveNamespace\<close> give of it.\<close>

definition adapter_list ::
  "'f floats \<Rightarrow> globs \<Rightarrow> ('r, 'w) adapter \<Rightarrow> scoped \<Rightarrow> list_params \<Rightarrow> 'w \<Rightarrow> 'r listing \<times> 'w" where
  "adapter_list fl glob a params_scope params w =
    (let selector = lp_selector params in
     case resolve_namespace (ad_sha3 a) params_scope of
       Inl err \<Rightarrow> (ListFailed err, w)
     | Inr namespace \<Rightarrow>
         (case dc_list (ad_client a) (list_options_of params) (ad_gvr a) namespace w of
            (Inl err, w1) \<Rightarrow>
              (ListFailed (kube_to_domain_error
                 (wrapf (''failed to list resources for '' @ gvr_resource (ad_gvr a)) err)), w1)
          | (Inr (items, next), w1) \<Rightarrow>
              (case (if selector \<noteq> [] then filter_items fl glob selector items items else Inr items) of
                 Inl (InvalidSegment part) \<Rightarrow>
                   (ListFailed (new_error KindValidation
                      (wrapf (''label filter for '' @ gvr_resource (ad_gvr a) @ '' failed'')
                         (GoError (''invalid label filter segment: '' @ fmt_q part)))), w1)
               | Inl GlobPanic \<Rightarrow> (ListPanics, w1)
               | Inr kept \<Rightarrow>
                   (case convert_items (ad_from_k8s a) kept of
                      Inl err \<Rightarrow>
                        (ListFailed (new_error KindValidation
                           (wrapf (''failed to convert '' @ gvr_resource (ad_gvr a)) err)), w1)
                    | Inr xs \<Rightarrow> (Listed xs (if next = [] then None else Some next), w1)))))"

subsection \<open>The split between server and adapter is exact\<close>

text \<open>
  What a part of a selector says of an object's labels: the parts for the server in the server's
  semantics \<open>server\<close>, the others as compiled.
\<close>

definition adapter_part :: "'f floats \<Rightarrow> globs \<Rightarrow> strmap \<Rightarrow> string \<Rightarrow> bool" where
  "adapter_part fl glob labels part \<longleftrightarrow>
    (case compile_part fl glob part of Inl e \<Rightarrow> False | Inr cf \<Rightarrow> match_filter fl labels cf)"

definition part_selects ::
  "'f floats \<Rightarrow> globs \<Rightarrow> (string \<Rightarrow> strmap \<Rightarrow> bool) \<Rightarrow> strmap \<Rightarrow> string \<Rightarrow> bool" where
  "part_selects fl glob server labels part \<longleftrightarrow>
    part = [] \<or> (if k8s_selector part then server part labels else adapter_part fl glob labels part)"

definition selector_parts :: "string \<Rightarrow> string list" where
  "selector_parts selector = map trim_space (split_on (CHR '','') selector)"

text \<open>
  The documented behaviour of the API server for one page: \<open>objs\<close> is the stretch of the namespace's objects it
  walks for the page, from where the continuation token of the request points until the limit is reached
  or the collection ends; of these it returns those its selector accepts, with the token of the next
  page. Without a limit, \<open>objs\<close> are all objects of the namespace.
\<close>

definition serves_selector ::
  "'w dyn_client \<Rightarrow> (string \<Rightarrow> strmap \<Rightarrow> bool) \<Rightarrow> list_options \<Rightarrow> gvr \<Rightarrow> string \<Rightarrow> uobject list \<Rightarrow> 'w \<Rightarrow> string \<Rightarrow> bool"
where
  "serves_selector client server options kind namespace objs w token \<longleftrightarrow>
     dc_list client options kind namespace w = (Inr (filter (\<lambda>obj. list_all (\<lambda>part. server part (uo_labels obj))
       (if lo_selector options = [] then [] else split_on (CHR '','') (lo_selector options))) objs, token), w)"

lemma adapter_part_compiled:
  "compile_part fl glob part = Inr cf \<Longrightarrow> adapter_part fl glob labels part = match_filter fl labels cf"
  by (simp add: adapter_part_def)

lemma compile_parts_adapter:
  "compile_parts fl glob ps = Inr cfs \<Longrightarrow>
   list_all (match_filter fl labels) cfs \<longleftrightarrow>
   list_all (\<lambda>p. trim_space p = [] \<or> k8s_selector (trim_space p) \<or> adapter_part fl glob labels (trim_space p)) ps"
  by (induction ps arbitrary: cfs)
    (auto simp: Let_def adapter_part_compiled split: if_splits sum.splits)

lemma filter_items_all:
  assumes "compile_selector fl glob selector = Inr filters" and "selector \<noteq> []"
  shows "filter_items fl glob selector all items =
    Inr (if filters = [] then (if items = [] then [] else all)
         else filter (\<lambda>item. list_all (match_filter fl (uo_labels item)) filters) items)"
  using assms by (induction items) (auto simp: match_labels_def)

lemma filter_items_spec:
  assumes "compile_selector fl glob selector = Inr filters" and "selector \<noteq> []"
  shows "filter_items fl glob selector items items =
    Inr (filter (\<lambda>item. list_all (\<lambda>part. part = [] \<or> k8s_selector part \<or>
      adapter_part fl glob (uo_labels item) part) (selector_parts selector)) items)"
proof -
  have c: "compile_parts fl glob (split_on (CHR '','') selector) = Inr filters"
    using assms(1) by (simp add: compile_selector_def)
  have "list_all (match_filter fl labels) filters \<longleftrightarrow>
      list_all (\<lambda>part. part = [] \<or> k8s_selector part \<or> adapter_part fl glob labels part) (selector_parts selector)"
    for labels
    unfolding compile_parts_adapter [OF c] by (simp add: selector_parts_def list_all_iff)
  moreover have "filter_items fl glob selector items items =
      Inr (filter (\<lambda>item. list_all (match_filter fl (uo_labels item)) filters) items)"
    unfolding filter_items_all [OF assms] by (simp add: list_all_iff)
  ultimately show ?thesis by simp
qed

lemma filter_items_error:
  "compile_selector fl glob selector = Inl e \<Longrightarrow> selector \<noteq> [] \<Longrightarrow>
   filter_items fl glob selector all items = (if items = [] then Inr [] else Inl e)"
  by (cases items) (auto simp: match_labels_def)

lemma trim_space_no_comma: "CHR '','' \<notin> set s \<Longrightarrow> CHR '','' \<notin> set (trim_space s)"
  unfolding trim_space_def by (auto dest!: set_dropWhileD)

lemma split_on_parts: "p \<in> set (split_on c s) \<Longrightarrow> c \<notin> set p"
  by (induction s arbitrary: p) (auto split: if_splits list.splits)

lemma k8s_selector_nonempty: "k8s_selector s \<Longrightarrow> s \<noteq> []"
  by (auto simp: k8s_selector_def)

lemma server_parts:
  "(if k8s_selector_for_api selector = [] then [] else split_on (CHR '','') (k8s_selector_for_api selector)) =
   filter k8s_selector (selector_parts selector)"
proof (cases "selector = []")
  case True
  then show ?thesis
    by (simp add: k8s_selector_for_api_def selector_parts_def trim_space_def k8s_selector_def)
next
  case False
  let ?safe = "filter k8s_selector (selector_parts selector)"
  have api: "k8s_selector_for_api selector = join '','' ?safe"
    using False by (simp add: k8s_selector_for_api_def selector_parts_def)
  have "\<forall>u \<in> set ?safe. CHR '','' \<notin> set u \<and> u \<noteq> []"
    by (auto simp: selector_parts_def dest: split_on_parts trim_space_no_comma k8s_selector_nonempty)
  then have "?safe \<noteq> [] \<Longrightarrow> join '','' ?safe \<noteq> [] \<and> split_on (CHR '','') (join '','' ?safe) = ?safe"
    by (cases ?safe; cases "tl ?safe") (auto simp: split_on_join)
  with api show ?thesis by (cases "?safe = []") simp_all
qed

lemma convert_items_map:
  "list_all (\<lambda>item. from_k8s item = Inr (conv item)) items \<Longrightarrow> convert_items from_k8s items = Inr (map conv items)"
  by (induction items) auto

text \<open>What the server returns, and what the adapter keeps of it.\<close>

lemma served_and_filtered:
  assumes "lp_selector params \<noteq> []"
    and "serves_selector client server (list_options_of params) kind namespace objs w token"
    and "compile_selector fl glob (lp_selector params) = Inr filters"
  obtains served where "dc_list client (list_options_of params) kind namespace w = (Inr (served, token), w)"
    and "filter_items fl glob (lp_selector params) served served =
      Inr (filter (\<lambda>item. list_all (part_selects fl glob server (uo_labels item))
        (selector_parts (lp_selector params))) objs)"
proof -
  let ?sel = "lp_selector params"
  let ?served = "filter (\<lambda>obj. list_all (\<lambda>part. server part (uo_labels obj))
    (filter k8s_selector (selector_parts ?sel))) objs"
  have sel: "lo_selector (list_options_of params) = k8s_selector_for_api ?sel"
    using assms(1) by (simp add: list_options_of_def)
  have l: "dc_list client (list_options_of params) kind namespace w = (Inr (?served, token), w)"
    using assms(2) server_parts [of ?sel] sel by (simp only: serves_selector_def)
  have "filter (\<lambda>item. list_all (\<lambda>part. part = [] \<or> k8s_selector part \<or> adapter_part fl glob (uo_labels item) part)
        (selector_parts ?sel)) ?served =
      filter (\<lambda>item. list_all (part_selects fl glob server (uo_labels item)) (selector_parts ?sel)) objs"
    by (auto simp: list_all_iff part_selects_def intro!: filter_cong dest: k8s_selector_nonempty)
  with filter_items_spec [OF assms(3,1), of ?served] l that show thesis by simp
qed

text \<open>
  C37. Listing answers the selector. When the server accepts objects by the parts it is given and every
  part compiles, the resources of a page are exactly those of the objects the page ranges over whose labels
  satisfy all parts of the selector, whichever side evaluates a part, in the server's order and with its
  continuation token.
\<close>

theorem listing_answers_the_selector:
  assumes "resolve_namespace (ad_sha3 a) sc = Inr namespace" and "lp_selector params \<noteq> []"
    and "serves_selector (ad_client a) server (list_options_of params) (ad_gvr a) namespace objs w token"
    and "compile_selector fl glob (lp_selector params) = Inr filters"
    and "\<forall>item \<in> set objs. ad_from_k8s a item = Inr (conv item)"
  shows "adapter_list fl glob a sc params w =
    (Listed (map conv (filter (\<lambda>item. list_all (part_selects fl glob server (uo_labels item))
        (selector_parts (lp_selector params))) objs)) (if token = [] then None else Some token), w)"
proof -
  let ?kept = "filter (\<lambda>item. list_all (part_selects fl glob server (uo_labels item))
    (selector_parts (lp_selector params))) objs"
  obtain served where "dc_list (ad_client a) (list_options_of params) (ad_gvr a) namespace w = (Inr (served, token), w)"
    and "filter_items fl glob (lp_selector params) served served = Inr ?kept"
    by (rule served_and_filtered [OF assms(2-4)])
  moreover have "convert_items (ad_from_k8s a) ?kept = Inr (map conv ?kept)"
    using assms(5) by (intro convert_items_map) (simp add: list_all_iff)
  ultimately show ?thesis using assms(1,2) by (simp add: adapter_list_def Let_def)
qed

definition listing_client :: "(string \<Rightarrow> strmap \<Rightarrow> bool) \<Rightarrow> uobject list \<Rightarrow> unit dyn_client" where
  "listing_client server objs = (forbidding_client (\<lambda>k. []))\<lparr>dc_list := \<lambda>options kind namespace w.
     (Inr (filter (\<lambda>obj. list_all (\<lambda>part. server part (uo_labels obj))
       (if lo_selector options = [] then [] else split_on (CHR '','') (lo_selector options))) objs, []), w)\<rparr>"

definition name_adapter :: "unit dyn_client \<Rightarrow> (string, unit) adapter" where
  "name_adapter client = \<lparr>ad_client = client,
     ad_gvr = \<lparr>gvr_group = ''g'', gvr_version = ''v1'', gvr_resource = ''regions''\<rparr>,
     ad_to_k8s = (\<lambda>state. Inr (volume_uobject state)), ad_from_k8s = (\<lambda>obj. Inr (uo_name obj)),
     ad_name = (\<lambda>name. name), ad_version = (\<lambda>name. []),
     ad_scope = (\<lambda>name. PlainScope \<lparr>sc_tenant = ''t'', sc_workspace = []\<rparr>), ad_sha3 = (\<lambda>s. s)\<rparr>"

definition labelled :: "string \<Rightarrow> strmap \<Rightarrow> uobject" where
  "labelled name labels = \<lparr>uo_name = name, uo_labels = labels, uo_annotations = [], uo_finalizers = [],
     uo_deletion = None, uo_version = ''1'', uo_fields = []\<rparr>"

text \<open>A server that understands equality, a glob that understands a star at the end, no numbers.\<close>

definition equality_server :: "string \<Rightarrow> strmap \<Rightarrow> bool" where
  "equality_server part labels = (case split_two (CHR ''='') part of
      [k, v] \<Rightarrow> map_of labels k = Some v | _ \<Rightarrow> False)"

definition star_glob :: globs where
  "star_glob pattern = Some (\<lambda>s. has_prefix (butlast pattern) s)"

definition no_floats :: "unit floats" where
  "no_floats = \<lparr>fl_parse = (\<lambda>s. None), fl_less = (\<lambda>a b. False), fl_le = (\<lambda>a b. True)\<rparr>"

definition demo_objects :: "uobject list" where
  "demo_objects = [labelled ''a'' [(''env'', ''prod''), (''tier'', ''gold'')],
     labelled ''b'' [(''env'', ''prod''), (''tier'', ''basic'')], labelled ''c'' [(''env'', ''dev''), (''tier'', ''gold'')]]"

definition demo_params :: "string \<Rightarrow> list_params" where
  "demo_params selector = \<lparr>sc_tenant = ''t'', sc_workspace = [], lp_limit = get_limit None,
     lp_skip_token = [], lp_selector = selector\<rparr>"

lemmas demo_listing_defs = label_expr_def expr_value_def compile_part_def must_compile_def k8s_selector_def
  set_clause_def value_clause_def blank_def k8s_class_def label_class_def is_alnum_def char_between_def is_ws_def
  is_space_def trim_space_def star_glob_def no_floats_def

lemma listing_answers_the_selector_witness:
  "adapter_list no_floats star_glob (name_adapter (listing_client equality_server demo_objects))
     (PlainScope \<lparr>sc_tenant = ''t'', sc_workspace = []\<rparr>) (demo_params ''env=prod,tier=go*'') () =
   (Listed [''a''] None, ())"
proof -
  let ?a = "name_adapter (listing_client equality_server demo_objects)"
  let ?p = "demo_params ''env=prod,tier=go*''"
  have parts: "selector_parts (lp_selector ?p) = [''env=prod'', ''tier=go*'']"
    by (simp add: demo_params_def selector_parts_def trim_space_def is_space_def)
  have n: "resolve_namespace (ad_sha3 ?a) (PlainScope \<lparr>sc_tenant = ''t'', sc_workspace = []\<rparr>) =
      Inr (compute_namespace (\<lambda>s. s) \<lparr>sc_tenant = ''t'', sc_workspace = []\<rparr>)"
    by (simp add: name_adapter_def resolve_namespace_def)
  have s: "serves_selector (ad_client ?a) equality_server (list_options_of ?p) (ad_gvr ?a)
      (compute_namespace (\<lambda>s. s) \<lparr>sc_tenant = ''t'', sc_workspace = []\<rparr>) demo_objects () []"
    by (simp add: serves_selector_def name_adapter_def listing_client_def)
  obtain filters where c: "compile_selector no_floats star_glob (lp_selector ?p) = Inr filters"
    by (simp add: compile_selector_def demo_params_def Let_def demo_listing_defs)
  have nonempty: "lp_selector ?p \<noteq> []" by (simp add: demo_params_def)
  have conv: "\<forall>item \<in> set demo_objects. ad_from_k8s ?a item = Inr (uo_name item)" by (simp add: name_adapter_def)
  have p1: "part_selects no_floats star_glob equality_server labels ''env=prod'' \<longleftrightarrow> map_of labels ''env'' = Some ''prod''"
    for labels by (simp add: part_selects_def equality_server_def split_two_def demo_listing_defs)
  have p2: "part_selects no_floats star_glob equality_server labels ''tier=go*'' \<longleftrightarrow>
      list_ex (\<lambda>(k, v). k = ''tier'' \<and> has_prefix ''go'' v) labels"
    for labels
    by (simp add: part_selects_def adapter_part_def match_filter_def label_matches_def demo_listing_defs
        eq_commute [of "''tier''"])
  show ?thesis
    using listing_answers_the_selector [OF n nonempty s c conv]
    by (simp add: parts p1 p2) (simp add: demo_objects_def labelled_def)
qed

subsection \<open>Labels of users cannot be selected\<close>

text \<open>Every label of an object the platform stored is an internal or a hashed one.\<close>

definition stored_labels :: "strmap \<Rightarrow> bool" where
  "stored_labels labels \<longleftrightarrow> (\<forall>k \<in> fst ` set labels. has_prefix internal_label_prefix k \<or> has_prefix keyed_labels_prefix k)"

definition plain_key :: "string \<Rightarrow> bool" where
  "plain_key k \<longleftrightarrow> k \<noteq> [] \<and> list_all label_class k \<and> CHR ''*'' \<notin> set k \<and>
     \<not> has_prefix internal_label_prefix k \<and> \<not> has_prefix keyed_labels_prefix k"

definition plain_value :: "string \<Rightarrow> bool" where
  "plain_value v \<longleftrightarrow> v \<noteq> [] \<and> list_all k8s_class v"

lemma classes_not_ws: "label_class c \<Longrightarrow> \<not> is_ws c" "k8s_class c \<Longrightarrow> \<not> is_ws c"
  "label_class c \<Longrightarrow> \<not> is_space c" "k8s_class c \<Longrightarrow> \<not> is_space c"
  "label_class c \<Longrightarrow> c \<noteq> CHR '',''" "k8s_class c \<Longrightarrow> c \<noteq> CHR '',''"
  "label_class c \<Longrightarrow> c \<noteq> CHR ''=''" "k8s_class c \<Longrightarrow> c \<noteq> CHR ''=''" "k8s_class c \<Longrightarrow> c \<noteq> CHR ''*''"
  "label_class c \<Longrightarrow> c \<noteq> CHR ''!''"
  by (auto simp: label_class_def k8s_class_def is_alnum_def char_between_def is_ws_def is_space_def)

lemma takeWhile_append_stop:
  "list_all P xs \<Longrightarrow> \<not> P y \<Longrightarrow> takeWhile P (xs @ y # ys) = xs \<and> dropWhile P (xs @ y # ys) = y # ys"
  by (induction xs) auto

lemma equality_part:
  assumes k: "plain_key k" and v: "plain_value v"
  shows "trim_space (k @ ''='' @ v) = k @ ''='' @ v"
    and "split_on (CHR '','') (k @ ''='' @ v) = [k @ ''='' @ v]"
    and "label_expr (k @ ''='' @ v) = Some (k, ''='', v)"
    and "k8s_selector (k @ ''='' @ v) \<longleftrightarrow> list_all k8s_class k"
    and "trim_space k = k" and "trim_space v = v"
proof -
  obtain a k' where ka: "k = a # k'" "label_class a" using k by (cases k) (auto simp: plain_key_def)
  obtain b v' where vb: "v = b # v'" "k8s_class b" using v by (cases v) (auto simp: plain_value_def)
  have lk: "list_all label_class k" and lv: "list_all k8s_class v"
    using k v by (auto simp: plain_key_def plain_value_def)
  obtain z u where vz: "v = u @ [z]" "k8s_class z"
    using v by (cases v rule: rev_cases) (auto simp: plain_value_def)
  obtain y t where ky: "k = t @ [y]" "label_class y"
    using k by (cases k rule: rev_cases) (auto simp: plain_key_def)
  have nt: "trim_space s = s" if "s = c # r" "s = q @ [d]" "\<not> is_space c" "\<not> is_space d" for s c r q d
  proof -
    have "dropWhile is_space s = s" using that(1,3) by simp
    moreover have "dropWhile is_space (rev s) = rev s" using that(2,4) by simp
    ultimately show ?thesis by (simp add: trim_space_def)
  qed
  show "trim_space (k @ ''='' @ v) = k @ ''='' @ v"
    by (rule nt [of _ a "k' @ ''='' @ v" "k @ ''='' @ u" z])
      (use ka vz classes_not_ws in auto)
  show "trim_space k = k" by (rule nt [of _ a k' t y]) (use ka ky classes_not_ws in auto)
  show "trim_space v = v" by (rule nt [of _ b v' u z]) (use vb vz classes_not_ws in auto)
  have "CHR '','' \<notin> set (k @ ''='' @ v)"
    using lk lv classes_not_ws(5,6) unfolding list_all_iff by fastforce
  then show "split_on (CHR '','') (k @ ''='' @ v) = [k @ ''='' @ v]" by (rule split_on_no_sep)
  have "\<not> label_class CHR ''=''" using classes_not_ws by blast
  note tk = takeWhile_append_stop [OF lk this, of v]
  have b: "\<not> is_ws b" "b \<noteq> CHR ''=''" using vb(2) classes_not_ws(2,8) by blast+
  have nc: "CHR '','' \<notin> set v" using lv classes_not_ws(6) unfolding list_all_iff by fastforce
  have ws: "\<not> is_ws CHR ''=''" by (simp add: is_ws_def)
  have dw: "dropWhile is_ws v = v" "\<not> has_prefix ''='' v" "\<not> blank v" "v \<noteq> []"
    unfolding vb(1) using b by (simp_all add: blank_def)
  then have dv: "dropWhile is_ws v = v" "\<not> is_ws CHR ''=''" "expr_value v = Some v" "\<not> has_prefix ''='' v"
    using nc ws by (simp_all add: expr_value_def)
  have d: "dropWhile is_ws (k @ CHR ''='' # v) = k @ CHR ''='' # v" "k \<noteq> []"
    "\<not> has_prefix ''!'' (k @ CHR ''='' # v)"
    using ka classes_not_ws(1,10) by auto
  show "label_expr (k @ ''='' @ v) = Some (k, ''='', v)"
    using d tk dv by (simp add: label_expr_def)
  show "k8s_selector (k @ ''='' @ v) \<longleftrightarrow> list_all k8s_class k"
  proof (cases "list_all k8s_class k")
    case True
    have "\<not> k8s_class CHR ''=''" using classes_not_ws by blast
    note tw = takeWhile_append_stop [OF True this, of v]
    have tv: "takeWhile k8s_class v = v" "dropWhile k8s_class v = []"
      using lv by (simp_all add: list_all_iff)
    have "value_clause (''='' @ v)"
      using dv dw by (simp add: value_clause_def blank_def tv)
    then show ?thesis
      using True tw d by (simp add: k8s_selector_def)
  next
    case False
    then have "dropWhile k8s_class k \<noteq> []" by (auto simp: list_all_iff)
    then obtain c q where cq: "dropWhile k8s_class k = c # q" by (cases "dropWhile k8s_class k") auto
    define p where "p = takeWhile k8s_class k"
    have pq: "k = p @ c # q" "list_all k8s_class p" "\<not> k8s_class c"
      using cq takeWhile_dropWhile_id [of k8s_class k] dropWhile_eq_Cons_conv [of k8s_class k c q]
      by (auto simp: p_def list_all_iff dest: set_takeWhileD)
    note tw = takeWhile_append_stop [OF pq(2,3), of "q @ ''='' @ v"]
    have "label_class c" using lk pq(1) by simp
    then have c: "\<not> is_ws c" "c \<noteq> CHR ''!''" "c \<noteq> CHR ''=''"
      using classes_not_ws(1,7,10) by blast+
    then have "\<not> blank (c # r)" "\<not> set_clause (c # r)" "\<not> value_clause (c # r)" for r
      by (simp_all add: blank_def set_clause_def value_clause_def)
    then show ?thesis
      using False tw d by (simp add: k8s_selector_def pq(1))
  qed
qed

text \<open>
  Labels of users cannot be selected. The objects the platform stores carry user labels under
  hashed keys only; a selector \<open>k=v\<close> on a user's key is nevertheless evaluated on the stored keys, by the
  server or, when the key has a dash, by the adapter, so the list is empty however many resources
  were given the label.
\<close>

theorem user_labels_cannot_be_selected:
  assumes "resolve_namespace (ad_sha3 a) sc = Inr namespace"
    and "plain_key k" and "plain_value v" and "lp_selector params = k @ ''='' @ v"
    and "serves_selector (ad_client a) server (list_options_of params) (ad_gvr a) namespace objs w token"
    and "\<forall>labels. server (k @ ''='' @ v) labels \<longleftrightarrow> map_of labels k = Some v"
    and "\<forall>item \<in> set objs. stored_labels (uo_labels item)"
  shows "adapter_list fl glob a sc params w = (Listed [] (if token = [] then None else Some token), w)"
proof -
  note eq = equality_part [OF assms(2,3)]
  have ne: "lp_selector params \<noteq> []" using assms(4) by simp
  have star: "CHR ''*'' \<notin> set k" "CHR ''*'' \<notin> set v"
    using assms(2,3) classes_not_ws(9) by (auto simp: plain_key_def plain_value_def list_all_iff)
  let ?cf = "\<lparr>cf_key = k, cf_value = v, cf_op = ''='', cf_num = None, cf_key_glob = None, cf_value_glob = None\<rparr>"
  have comp: "compile_part fl glob (k @ ''='' @ v) = Inr ?cf"
    using eq star by (simp add: compile_part_def must_compile_def)
  have c: "\<exists>filters. compile_selector fl glob (lp_selector params) = Inr filters"
    using eq comp by (simp add: compile_selector_def assms(4) Let_def)
  then obtain filters where c: "compile_selector fl glob (lp_selector params) = Inr filters" ..
  have absent: "k \<notin> fst ` set (uo_labels item)" if "item \<in> set objs" for item
    using assms(2,7) that by (auto simp: stored_labels_def plain_key_def)
  have none: "\<not> list_all (part_selects fl glob server (uo_labels item)) (selector_parts (lp_selector params))"
    if "item \<in> set objs" for item
  proof -
    have "map_of (uo_labels item) k = None" using absent [OF that] by (simp add: map_of_eq_None_iff)
    moreover have "\<not> match_filter fl (uo_labels item) ?cf"
      using absent [OF that] by (force simp: match_filter_def label_matches_def list_ex_iff)
    ultimately show ?thesis
      using eq assms(6) comp
      by (simp add: selector_parts_def assms(4) part_selects_def adapter_part_def)
  qed
  obtain served where "dc_list (ad_client a) (list_options_of params) (ad_gvr a) namespace w = (Inr (served, token), w)"
    and "filter_items fl glob (lp_selector params) served served = Inr (filter (\<lambda>item.
      list_all (part_selects fl glob server (uo_labels item)) (selector_parts (lp_selector params))) objs)"
    by (rule served_and_filtered [OF ne assms(5) c])
  moreover have "filter (\<lambda>item. list_all (part_selects fl glob server (uo_labels item))
      (selector_parts (lp_selector params))) objs = []"
    using none by (simp add: filter_empty_conv)
  ultimately show ?thesis using assms(1) ne by (simp add: adapter_list_def Let_def)
qed

definition user_object :: uobject where
  "user_object = labelled ''x'' (original_to_keyed (\<lambda>s. s) [(''team-name'', ''blue'')] @ [(internal_tenant_label, ''t'')])"

lemma user_labels_cannot_be_selected_witness:
  "adapter_list no_floats star_glob (name_adapter (listing_client equality_server [user_object]))
     (PlainScope \<lparr>sc_tenant = ''t'', sc_workspace = []\<rparr>) (demo_params ''team-name=blue'') () = (Listed [] None, ())"
proof -
  let ?a = "name_adapter (listing_client equality_server [user_object])"
  let ?p = "demo_params ''team-name=blue''"
  have n: "resolve_namespace (ad_sha3 ?a) (PlainScope \<lparr>sc_tenant = ''t'', sc_workspace = []\<rparr>) =
      Inr (compute_namespace (\<lambda>s. s) \<lparr>sc_tenant = ''t'', sc_workspace = []\<rparr>)"
    by (simp add: name_adapter_def resolve_namespace_def)
  have s: "serves_selector (ad_client ?a) equality_server (list_options_of ?p) (ad_gvr ?a)
      (compute_namespace (\<lambda>s. s) \<lparr>sc_tenant = ''t'', sc_workspace = []\<rparr>) [user_object] () []"
    by (simp add: serves_selector_def name_adapter_def listing_client_def)
  have k: "plain_key ''team-name''" "plain_value ''blue''"
    by (simp_all add: plain_key_def plain_value_def label_class_def k8s_class_def is_alnum_def char_between_def
        label_defs)
  have e: "\<forall>labels. equality_server (''team-name'' @ ''='' @ ''blue'') labels \<longleftrightarrow> map_of labels ''team-name'' = Some ''blue''"
    by (simp add: equality_server_def split_two_def)
  have st: "\<forall>item \<in> set [user_object]. stored_labels (uo_labels item)"
    by (simp add: user_object_def labelled_def stored_labels_def compute_keyed_label_key_def label_defs)
  have sel: "lp_selector ?p = ''team-name'' @ ''='' @ ''blue''" by (simp add: demo_params_def)
  show ?thesis
    using user_labels_cannot_be_selected [OF n k sel s e st] by simp
qed

end
