(* ===== verification/Instance_Api.thy ===== *)
theory Instance_Api
  imports Instance_Handler Rest Decimal
begin

section \<open>The instance endpoints: \<^verbatim>\<open>resource/compute/v1/frontend/rest/instance_handler.go\<close>\<close>

text \<open>
  Beside the generic operations, the frontend of instances has the power actions start, stop and
  restart, which stamp an intent on the stored instance for the plugin handler to act on, and an update that carries
  this intent over. \<^verbatim>\<open>InstanceReader\<close> and \<^verbatim>\<open>InstanceWriter\<close> are one repository here. The converters of the
  SDK's types, the JSON codec and \<^verbatim>\<open>crypto/rand\<close> are parameters.
\<close>

record ('api, 'out, 'w) instance_frontend =
  if_repo :: "(instance_res, 'w) repo"
  if_from_api :: "'api \<Rightarrow> identity \<Rightarrow> string \<Rightarrow> instance_res"
  if_to_api :: "string \<Rightarrow> instance_res \<Rightarrow> 'out" \<comment> \<open>with the verb of the request\<close>
  if_list_to_api :: "instance_res list \<Rightarrow> string option \<Rightarrow> 'out"
  if_decode :: "string \<Rightarrow> go_error + 'api"
  if_encode :: "'out \<Rightarrow> go_error option"
  if_rand :: "'w \<Rightarrow> (go_error + nat list) \<times> 'w"
  if_region :: string

definition identity_of :: "string \<Rightarrow> string \<Rightarrow> string \<Rightarrow> string \<Rightarrow> identity" where
  "identity_of tenant ws name version =
    \<lparr>sc_tenant = tenant, sc_workspace = ws, id_name = name, id_version = version\<rparr>"

definition new_instance_with_identity :: "identity \<Rightarrow> instance_res" where
  "new_instance_with_identity ir =
    (instance_named (id_name ir) (sc_tenant ir) (sc_workspace ir))\<lparr>md_version := id_version ir\<rparr>"

text \<open>An instance as an identity, the view \<^verbatim>\<open>newInstanceWithIdentity(inst)\<close> takes of it.\<close>

definition instance_identity :: "instance_res \<Rightarrow> identity" where
  "instance_identity inst = identity_of (md_tenant inst) (md_workspace inst) (md_name inst) (md_version inst)"

definition if_unmodified_since_version :: "int option \<Rightarrow> string" where
  "if_unmodified_since_version v = (case v of None \<Rightarrow> [] | Some n \<Rightarrow> itoa n)"

definition list_instances ::
  "('api, 'out, 'w) instance_frontend \<Rightarrow> list_params \<Rightarrow> ('out, 'w) handler" where
  "list_instances f params r w =
    handle_list (if_encode f) params (lister_from_repo (if_repo f)) (if_list_to_api f) r w"

definition get_instance ::
  "('api, 'out, 'w) instance_frontend \<Rightarrow> string \<Rightarrow> string \<Rightarrow> string \<Rightarrow> ('out, 'w) handler" where
  "get_instance f tenant ws name r w =
    handle_get (if_encode f) (identity_of tenant ws name [])
      (getter_from_repo (if_repo f) new_instance_with_identity) (if_to_api f ''GET'') r w"

definition delete_instance ::
  "('api, 'out, 'w) instance_frontend \<Rightarrow> string \<Rightarrow> string \<Rightarrow> string \<Rightarrow> int option \<Rightarrow> ('out, 'w) handler" where
  "delete_instance f tenant ws name unmodified r w =
    handle_delete (identity_of tenant ws name (if_unmodified_since_version unmodified))
      (deleter_from_repo (if_repo f) new_instance_with_identity) r w"

subsection \<open>An update keeps the power intent\<close>

definition load_for_preserve ::
  "(instance_res, 'w) repo \<Rightarrow> instance_res \<Rightarrow> 'w \<Rightarrow> (go_error + instance_res option) \<times> 'w" where
  "load_for_preserve repo existing w =
    (case rp_load repo existing w of
       (Inl err, w1) \<Rightarrow>
         (case as_error err of
            Some domain_err \<Rightarrow>
              if dom_kind domain_err = KindNotFound then (Inr None, w1) else (Inl err, w1)
          | None \<Rightarrow> (Inl err, w1))
     | (Inr found, w1) \<Rightarrow> (Inr (Some found), w1))"

definition with_intent :: "instance_res \<Rightarrow> instance_res \<Rightarrow> instance_res" where
  "with_intent source inst = inst\<lparr>in_desired_power_state := in_desired_power_state source,
     in_restart_id := in_restart_id source, in_restart_phase := in_restart_phase source\<rparr>"

definition create_or_update_instance ::
  "('api, 'out, 'w) instance_frontend \<Rightarrow> string \<Rightarrow> string \<Rightarrow> string \<Rightarrow> int option \<Rightarrow> ('out, 'w) handler" where
  "create_or_update_instance f tenant ws name unmodified r w =
    (let ident = identity_of tenant ws name (if_unmodified_since_version unmodified) in
     case load_for_preserve (if_repo f) (new_instance_with_identity ident) w of
       (Inl err, w1) \<Rightarrow> (write_error_response r err, w1)
     | (Inr preserve, w1) \<Rightarrow>
         handle_upsert
           \<lparr>uo_params = ident, uo_creator = creator_from_repo (if_repo f),
            uo_updater = updater_from_repo (if_repo f),
            uo_api_to_domain = (\<lambda>sdk p.
              (let dom = if_from_api f sdk p (if_region f) in
               case preserve of None \<Rightarrow> dom | Some old \<Rightarrow> with_intent old dom)),
            uo_domain_to_api = if_to_api f ''PUT'', uo_decode = if_decode f, uo_encode = if_encode f\<rparr> r w1)"

subsection \<open>Power actions\<close>

definition current_power_state :: "instance_res \<Rightarrow> power_state" where
  "current_power_state inst =
    (case in_status inst of
       None \<Rightarrow> PowerOff
     | Some st \<Rightarrow> if inst_power_state st = PowerUnset then PowerOff else inst_power_state st)"

text \<open>The preconditions answer with the refusal, if they refuse.\<close>

definition require_active :: "http_request \<Rightarrow> instance_res \<Rightarrow> 'out http_response option" where
  "require_active r inst =
    (let refuse = Some (write_error_response r (new_error KindConflict
         (GoError (''instance '' @ fmt_q (md_name inst) @ '' is not active'')))) in
     case in_status inst of
       None \<Rightarrow> refuse
     | Some st \<Rightarrow> if st_state (inst_status st) \<noteq> StateActive then refuse else None)"

definition require_power_state ::
  "http_request \<Rightarrow> instance_res \<Rightarrow> power_state \<Rightarrow> 'out http_response option" where
  "require_power_state r inst want =
    (let got = current_power_state inst in
     if got \<noteq> want then Some (write_error_response r (new_error KindConflict
         (GoError (''instance '' @ fmt_q (md_name inst) @ '' power state is '' @ fmt_q (power_state_string got)
            @ '', action requires '' @ fmt_q (power_state_string want)))))
     else None)"

definition load_active_instance ::
  "(instance_res, 'w) repo \<Rightarrow> http_request \<Rightarrow> string \<Rightarrow> string \<Rightarrow> string \<Rightarrow> 'w
   \<Rightarrow> ('out http_response + instance_res) \<times> 'w" where
  "load_active_instance repo r tenant ws name w =
    (case rp_load repo (new_instance_with_identity (identity_of tenant ws name [])) w of
       (Inl err, w1) \<Rightarrow> (Inl (write_error_response r err), w1)
     | (Inr inst, w1) \<Rightarrow>
         (case require_active r inst of Some resp \<Rightarrow> (Inl resp, w1) | None \<Rightarrow> (Inr inst, w1)))"

definition is_version_conflict :: "go_error \<Rightarrow> bool" where
  "is_version_conflict err =
    (case as_error err of
       Some domain_err \<Rightarrow> dom_kind domain_err = KindPreconditionFailed \<or> dom_kind domain_err = KindConflict
     | None \<Rightarrow> False)"

definition accepted :: "'out http_response" where
  "accepted = \<lparr>rs_status = 202, rs_body = NoBody\<rparr>"

definition max_power_intent_attempts :: nat where
  "max_power_intent_attempts = 5"

text \<open>The loop of \<^verbatim>\<open>applyPowerIntent\<close>, by the attempts left.\<close>

fun intent_attempts ::
  "(instance_res, 'w) repo \<Rightarrow> http_request \<Rightarrow> instance_res \<Rightarrow> power_state \<Rightarrow> nat \<Rightarrow> go_error option \<Rightarrow> 'w
   \<Rightarrow> 'out http_response \<times> 'w" where
  "intent_attempts repo r inst required 0 last_err w =
    (write_error_response r (case last_err of
       Some err \<Rightarrow> err
     | None \<Rightarrow> new_error KindConflict (GoError (''instance '' @ fmt_q (md_name inst)
          @ '' could not be updated after 5 attempts''))), w)"
| "intent_attempts repo r inst required (Suc n) last_err w =
    (case rp_load repo (new_instance_with_identity (instance_identity inst)) w of
       (Inl err, w1) \<Rightarrow> (write_error_response r err, w1)
     | (Inr latest, w1) \<Rightarrow>
         (case require_active r latest of
            Some resp \<Rightarrow> (resp, w1)
          | None \<Rightarrow>
              (case require_power_state r latest required of
                 Some resp \<Rightarrow> (resp, w1)
               | None \<Rightarrow>
                   (case rp_update repo (with_intent inst latest) w1 of
                      (Inl err, w2) \<Rightarrow>
                        if is_version_conflict err
                        then intent_attempts repo r inst required n (Some err) w2
                        else (write_error_response r err, w2)
                    | (Inr stored, w2) \<Rightarrow> (accepted, w2)))))"

definition apply_power_intent ::
  "(instance_res, 'w) repo \<Rightarrow> http_request \<Rightarrow> instance_res \<Rightarrow> power_state \<Rightarrow> string \<Rightarrow> 'w
   \<Rightarrow> 'out http_response \<times> 'w" where
  "apply_power_intent repo r inst required version w =
    (if version \<noteq> [] then
       (case rp_update repo (inst\<lparr>md_version := version\<rparr>) w of
          (Inl err, w1) \<Rightarrow> (write_error_response r err, w1)
        | (Inr stored, w1) \<Rightarrow> (accepted, w1))
     else intent_attempts repo r inst required max_power_intent_attempts None w)"

text \<open>\<^verbatim>\<open>hex.EncodeToString\<close> of the random bytes.\<close>

definition hex_encode :: "nat list \<Rightarrow> string" where
  "hex_encode bs = concat (map (\<lambda>b. [hex_digit (b div 16), hex_digit (b mod 16)]) bs)"

definition new_restart_id :: "('w \<Rightarrow> (go_error + nat list) \<times> 'w) \<Rightarrow> 'w \<Rightarrow> (go_error + string) \<times> 'w" where
  "new_restart_id rand w =
    (case rand w of
       (Inl err, w1) \<Rightarrow> (Inl (wrapf ''failed to generate restart id'' err), w1)
     | (Inr bs, w1) \<Rightarrow> (Inr (hex_encode bs), w1))"

definition start_instance ::
  "('api, 'out, 'w) instance_frontend \<Rightarrow> string \<Rightarrow> string \<Rightarrow> string \<Rightarrow> int option \<Rightarrow> ('out, 'w) handler" where
  "start_instance f tenant ws name unmodified r w =
    (case load_active_instance (if_repo f) r tenant ws name w of
       (Inl resp, w1) \<Rightarrow> (resp, w1)
     | (Inr inst, w1) \<Rightarrow>
         (case require_power_state r inst PowerOff of
            Some resp \<Rightarrow> (resp, w1)
          | None \<Rightarrow> apply_power_intent (if_repo f) r (inst\<lparr>in_desired_power_state := PowerOn\<rparr>) PowerOff
              (if_unmodified_since_version unmodified) w1))"

definition stop_instance ::
  "('api, 'out, 'w) instance_frontend \<Rightarrow> string \<Rightarrow> string \<Rightarrow> string \<Rightarrow> int option \<Rightarrow> ('out, 'w) handler" where
  "stop_instance f tenant ws name unmodified r w =
    (case load_active_instance (if_repo f) r tenant ws name w of
       (Inl resp, w1) \<Rightarrow> (resp, w1)
     | (Inr inst, w1) \<Rightarrow>
         (case require_power_state r inst PowerOn of
            Some resp \<Rightarrow> (resp, w1)
          | None \<Rightarrow> apply_power_intent (if_repo f) r (inst\<lparr>in_desired_power_state := PowerOff\<rparr>) PowerOn
              (if_unmodified_since_version unmodified) w1))"

definition restart_instance ::
  "('api, 'out, 'w) instance_frontend \<Rightarrow> string \<Rightarrow> string \<Rightarrow> string \<Rightarrow> int option \<Rightarrow> ('out, 'w) handler" where
  "restart_instance f tenant ws name unmodified r w =
    (case load_active_instance (if_repo f) r tenant ws name w of
       (Inl resp, w1) \<Rightarrow> (resp, w1)
     | (Inr inst, w1) \<Rightarrow>
         (case require_power_state r inst PowerOn of
            Some resp \<Rightarrow> (resp, w1)
          | None \<Rightarrow>
              (case new_restart_id (if_rand f) w1 of
                 (Inl err, w2) \<Rightarrow> (write_error_response r err, w2)
               | (Inr restart_id, w2) \<Rightarrow>
                   apply_power_intent (if_repo f) r
                     (inst\<lparr>in_restart_id := restart_id, in_restart_phase := PhasePowerOff\<rparr>) PowerOn
                     (if_unmodified_since_version unmodified) w2)))"

subsection \<open>What a power action writes\<close>

text \<open>
  A store with optimistic concurrency, as the adapter provides it over the API server (other writers
  may step in at every call): a resource version identifies the content it was given to, a write that
  names a version replaces exactly that content, and a write that fails changes nothing. \<open>own\<close> is
  the log of the writes of this request, the content replaced and the one written, newest first.
\<close>

definition logs_writes ::
  "(instance_res, 'w) repo \<Rightarrow> (string \<Rightarrow> instance_res) \<Rightarrow> ('w \<Rightarrow> (instance_res \<times> instance_res) list) \<Rightarrow> bool" where
  "logs_writes repo content own \<longleftrightarrow>
    (\<forall>m w x w'. rp_load repo m w = (x, w') \<longrightarrow> own w' = own w \<and>
       (\<forall>inst. x = Inr inst \<longrightarrow> md_version inst \<noteq> [] \<and> content (md_version inst) = inst)) \<and>
    (\<forall>m w x w'. rp_update repo m w = (Inr x, w') \<longrightarrow> md_version m \<noteq> [] \<longrightarrow>
       own w' = (content (md_version m), m) # own w) \<and>
    (\<forall>m w err w'. rp_update repo m w = (Inl err, w') \<longrightarrow> own w' = own w)"

lemma logs_writesD:
  assumes "logs_writes repo content own"
  shows "rp_load repo m w = (Inr inst, w') \<Longrightarrow> md_version inst \<noteq> [] \<and> content (md_version inst) = inst \<and> own w' = own w"
    and "rp_load repo m w = (Inl err, w') \<Longrightarrow> own w' = own w"
    and "rp_update repo m w = (Inr x, w') \<Longrightarrow> md_version m \<noteq> [] \<Longrightarrow> own w' = (content (md_version m), m) # own w"
    and "rp_update repo m w = (Inl err, w') \<Longrightarrow> own w' = own w"
  using assms unfolding logs_writes_def by blast+

definition instance_is_active :: "instance_res \<Rightarrow> bool" where
  "instance_is_active inst \<longleftrightarrow> (\<exists>st. in_status inst = Some st \<and> st_state (inst_status st) = StateActive)"

lemma require_active_None: "require_active r inst = None \<longleftrightarrow> instance_is_active inst"
  by (auto simp: require_active_def instance_is_active_def Let_def split: option.splits)

lemma require_power_None: "require_power_state r inst want = None \<longleftrightarrow> current_power_state inst = want"
  by (simp add: require_power_state_def Let_def)

lemma conflict_status: "rs_status (write_error_response r (new_error KindConflict e)) = 409"
  using domain_error_status [OF as_error_new_error, of KindConflict e "rq_url_path r"]
  by (simp add: new_error_def map_kind_to_http_def)

lemma require_refuses:
  "require_active r inst = Some resp \<Longrightarrow> rs_status resp = 409"
  "require_power_state r inst want = Some resp \<Longrightarrow> rs_status resp = 409"
  by (auto simp: require_active_def require_power_state_def Let_def conflict_status simp del: error_status
      split: option.splits if_splits)

text \<open>
  The outcome of a power action: accepted with one write, which found the instance active and in the
  required power state and changed nothing but its intent, or refused without a write.
\<close>

definition acted where
  "acted own required intent (w :: 'w) resp w' \<longleftrightarrow>
    rs_status resp = 202 \<and> (\<exists>old. own w' = (old, with_intent intent old) # own w
       \<and> instance_is_active old \<and> current_power_state old = required)
    \<or> 400 \<le> rs_status resp \<and> own w' = own w"

lemma with_intent_version [simp]: "md_version (with_intent a b) = md_version b"
  by (simp add: with_intent_def)

lemma intent_attempts_acted:
  assumes "logs_writes repo content own"
    and "intent_attempts repo r inst required n last_err w = (resp, w')"
  shows "acted own required inst w resp w'"
  using assms(2)
proof (induction n arbitrary: last_err w)
  case 0
  then show ?case using error_never_success by (auto simp: acted_def)
next
  case (Suc n)
  obtain x w1 where l: "rp_load repo (new_instance_with_identity (instance_identity inst)) w = (x, w1)" by fastforce
  show ?case
  proof (cases x)
    case (Inl err)
    with Suc.prems l logs_writesD(2) [OF assms(1)] error_never_success show ?thesis by (auto simp: acted_def)
  next
    case (Inr latest)
    note v = logs_writesD(1) [OF assms(1) l [unfolded Inr]]
    show ?thesis
    proof (cases "instance_is_active latest \<and> current_power_state latest = required")
      case False
      with Suc.prems l Inr v show ?thesis
        by (auto simp: acted_def require_active_None require_power_None dest!: require_refuses
            split: option.splits)
    next
      case pre: True
      obtain y w2 where u: "rp_update repo (with_intent inst latest) w1 = (y, w2)" by fastforce
      show ?thesis
      proof (cases y)
        case (Inl err)
        note same = logs_writesD(4) [OF assms(1) u [unfolded Inl]] v
        show ?thesis
        proof (cases "is_version_conflict err")
          case True
          with Suc.prems l \<open>x = Inr latest\<close> pre u Inl
          have "intent_attempts repo r inst required n (Some err) w2 = (resp, w')"
            by (simp add: require_active_None [THEN iffD2] require_power_None [THEN iffD2])
          from Suc.IH [OF this] same show ?thesis by (simp add: acted_def)
        next
          case False
          with Suc.prems l \<open>x = Inr latest\<close> pre u Inl same error_never_success [of r err]
          show ?thesis
            by (auto simp: acted_def require_active_None [THEN iffD2] require_power_None [THEN iffD2])
        qed
      next
        case (Inr stored)
        with logs_writesD(3) [OF assms(1) u [unfolded Inr]] v
        have "own w2 = (latest, with_intent inst latest) # own w" by simp
        with Suc.prems l \<open>x = Inr latest\<close> u Inr pre show ?thesis
          by (auto simp: acted_def accepted_def require_active_None [THEN iffD2] require_power_None [THEN iffD2])
      qed
    qed
  qed
qed

text \<open>The steps before the write: load, check, refuse or go on.\<close>

lemma checked_action:
  assumes law: "logs_writes repo content own"
    and run: "(case load_active_instance repo r tenant ws name w of
        (Inl e, w1) \<Rightarrow> (e, w1)
      | (Inr inst, w1) \<Rightarrow> (case require_power_state r inst required of
          Some e \<Rightarrow> (e, w1) | None \<Rightarrow> act inst w1)) = (resp, w')"
  obtains (refused) "400 \<le> rs_status resp" and "own w' = own w"
  | (acting) inst w1 where "act inst w1 = (resp, w')" and "own w1 = own w"
proof -
  obtain y w1 where l: "rp_load repo (new_instance_with_identity (identity_of tenant ws name [])) w = (y, w1)"
    by fastforce
  show thesis
  proof (cases y)
    case (Inl err)
    with run l logs_writesD(2) [OF law] error_never_success [of r err] that(1) show thesis
      by (auto simp: load_active_instance_def)
  next
    case (Inr inst)
    with l logs_writesD(1) [OF law] have own: "own w1 = own w" by blast
    show thesis
    proof (cases "require_active r inst :: 'b http_response option")
      case (Some e)
      with run l Inr own require_refuses(1) [OF Some] that(1) show thesis by (auto simp: load_active_instance_def)
    next
      case act: None
      show thesis
      proof (cases "require_power_state r inst required :: 'b http_response option")
        case (Some e)
        with run l Inr act own require_refuses(2) [OF Some] that(1) show thesis
          by (auto simp: load_active_instance_def)
      next
        case None
        with run l Inr act own that(2) show thesis by (auto simp: load_active_instance_def)
      qed
    qed
  qed
qed

lemma refused_acted: "400 \<le> rs_status resp \<Longrightarrow> own w' = own w \<Longrightarrow> acted own required intent w resp w'"
  by (simp add: acted_def)

lemma apply_power_intent_acted:
  assumes "logs_writes repo content own"
    and "apply_power_intent repo r inst required [] w = (resp, w')"
  shows "acted own required inst w resp w'"
  using intent_attempts_acted [OF assms(1)] assms(2) by (simp add: apply_power_intent_def)


subsection \<open>Preconditions, updates and restarts\<close>

lemma itoa_nonempty [simp]: "itoa n \<noteq> []"
  by (simp add: itoa_def)

lemma apply_versioned_acted:
  assumes "logs_writes repo content own" and "version \<noteq> []"
    and "apply_power_intent repo r inst required version w = (resp, w')"
  shows "rs_status resp = 202 \<and> own w' = (content version, inst\<lparr>md_version := version\<rparr>) # own w
    \<or> 400 \<le> rs_status resp \<and> own w' = own w"
proof -
  obtain x w1 where u: "rp_update repo (inst\<lparr>md_version := version\<rparr>) w = (x, w1)" by fastforce
  show ?thesis
  proof (cases x)
    case (Inl err)
    with u assms(2,3) logs_writesD(4) [OF assms(1)] error_never_success [of r err] show ?thesis
      by (auto simp: apply_power_intent_def)
  next
    case (Inr stored)
    with u assms(2,3) logs_writesD(3) [OF assms(1) u [unfolded Inr]] show ?thesis
      by (auto simp: apply_power_intent_def accepted_def)
  qed
qed

definition replaced_exactly where
  "replaced_exactly own old (w :: 'w) (resp :: 'out http_response) w' \<longleftrightarrow>
    (rs_status resp = 202 \<and> (\<exists>new. own w' = (old, new) # own w)) \<or> (400 \<le> rs_status resp \<and> own w' = own w)"

lemma apply_versioned_replaced:
  "logs_writes repo content own \<Longrightarrow> version \<noteq> [] \<Longrightarrow>
   apply_power_intent repo r inst required version w1 = (resp, w') \<Longrightarrow> own w1 = own w \<Longrightarrow>
   replaced_exactly own (content version) w resp w'"
  by (drule (2) apply_versioned_acted) (auto simp: replaced_exactly_def)

text \<open>
  If-Unmodified-Since is enforced. A power action that names a version either answers 202 after one
  write that replaced exactly the content of that version, or answers with an error and has written
  nothing; it never retries on a newer version.
\<close>

theorem unmodified_since_is_enforced:
  assumes "logs_writes (if_repo f) content own"
    and "\<forall>w. own (snd (if_rand f w)) = own w"
  shows "(start_instance f tenant ws name (Some n) r w = (resp, w') \<longrightarrow> replaced_exactly own (content (itoa n)) w resp w')
    \<and> (stop_instance f tenant ws name (Some n) r w = (resp, w') \<longrightarrow> replaced_exactly own (content (itoa n)) w resp w')
    \<and> (restart_instance f tenant ws name (Some n) r w = (resp, w') \<longrightarrow> replaced_exactly own (content (itoa n)) w resp w')"
proof (intro conjI impI)
  assume s: "start_instance f tenant ws name (Some n) r w = (resp, w')"
  from assms(1) s [unfolded start_instance_def if_unmodified_since_version_def option.case]
  show "replaced_exactly own (content (itoa n)) w resp w'"
    by (cases rule: checked_action)
      (auto simp: replaced_exactly_def dest!: apply_versioned_replaced [OF assms(1) itoa_nonempty])
next
  assume s: "stop_instance f tenant ws name (Some n) r w = (resp, w')"
  from assms(1) s [unfolded stop_instance_def if_unmodified_since_version_def option.case]
  show "replaced_exactly own (content (itoa n)) w resp w'"
    by (cases rule: checked_action)
      (auto simp: replaced_exactly_def dest!: apply_versioned_replaced [OF assms(1) itoa_nonempty])
next
  assume s: "restart_instance f tenant ws name (Some n) r w = (resp, w')"
  from assms(1) s [unfolded restart_instance_def if_unmodified_since_version_def option.case]
  show "replaced_exactly own (content (itoa n)) w resp w'"
  proof (cases rule: checked_action)
    case refused
    then show ?thesis by (simp add: replaced_exactly_def)
  next
    case (acting inst w1)
    obtain y w2 where r: "new_restart_id (if_rand f) w1 = (y, w2)" by fastforce
    have "w2 = snd (if_rand f w1)"
      using r by (auto simp: new_restart_id_def split: prod.splits sum.splits)
    then have w2: "own w2 = own w" using assms(2) acting(2) by simp
    with acting(1) r error_never_success show ?thesis
      by (cases y) (auto simp: replaced_exactly_def dest!: apply_versioned_replaced [OF assms(1) itoa_nonempty])
  qed
qed

text \<open>The writes of an upsert, by their content.\<close>

definition logs_content :: "(instance_res, 'w) repo \<Rightarrow> ('w \<Rightarrow> instance_res list) \<Rightarrow> bool" where
  "logs_content repo written \<longleftrightarrow>
    (\<forall>m w x w'. rp_load repo m w = (x, w') \<longrightarrow> written w' = written w) \<and>
    (\<forall>m w x w'. rp_create repo m w = (x, w') \<longrightarrow> written w' = (if isl x then written w else m # written w)) \<and>
    (\<forall>m w x w'. rp_update repo m w = (x, w') \<longrightarrow> written w' = (if isl x then written w else m # written w))"

definition same_intent :: "instance_res \<Rightarrow> instance_res \<Rightarrow> bool" where
  "same_intent a b \<longleftrightarrow> in_desired_power_state a = in_desired_power_state b \<and>
     in_restart_id a = in_restart_id b \<and> in_restart_phase a = in_restart_phase b"

lemma same_with_intent [simp]: "same_intent (with_intent a b) a"
  by (simp add: same_intent_def with_intent_def)

lemma upsert_writes:
  assumes "\<forall>m w x w'. uo_creator opts m w = (x, w') \<longrightarrow> written w' = (if isl x then written w else m # written w)"
    and "\<forall>m w x w'. uo_updater opts m w = (x, w') \<longrightarrow> written w' = (if isl x then written w else m # written w)"
    and "handle_upsert opts r w = (resp, w')"
  shows "written w' = written w \<or>
    (\<exists>api. written w' = uo_api_to_domain opts api (uo_params opts) # written w)"
  using assms(3) assms(1,2)
  by (fastforce simp: handle_upsert_def update_or_fail_def Let_def
      split: sum.splits option.splits prod.splits if_splits)

text \<open>
  An update keeps the power intent. Creating or updating an instance first loads it: when it
  exists, whatever is written has its power intent, never the empty one of the request; when it cannot
  be loaded for another reason than being absent, nothing is written and the request fails.
\<close>

theorem updates_keep_intent:
  assumes "logs_content (if_repo f) written"
    and "rp_load (if_repo f) (new_instance_with_identity
          (identity_of tenant ws name (if_unmodified_since_version unmodified))) w = (found, w1)"
    and "create_or_update_instance f tenant ws name unmodified r w = (resp, w')"
  shows "case found of
      Inr old \<Rightarrow> written w' = written w \<or> (\<exists>inst. written w' = inst # written w \<and> same_intent inst old)
    | Inl err \<Rightarrow> as_error err = None \<or> dom_kind (the (as_error err)) \<noteq> KindNotFound \<longrightarrow>
        written w' = written w \<and> 400 \<le> rs_status resp"
proof (cases found)
  case (Inl err)
  have "written w1 = written w" using assms(1,2) by (auto simp: logs_content_def)
  with Inl assms(2,3) error_never_success [of r err] show ?thesis
    by (auto simp: create_or_update_instance_def load_for_preserve_def Let_def split: option.splits)
next
  case (Inr old)
  let ?o = "\<lparr>uo_params = identity_of tenant ws name (if_unmodified_since_version unmodified),
      uo_creator = creator_from_repo (if_repo f), uo_updater = updater_from_repo (if_repo f),
      uo_api_to_domain = (\<lambda>sdk p. with_intent old (if_from_api f sdk p (if_region f))),
      uo_domain_to_api = if_to_api f ''PUT'', uo_decode = if_decode f, uo_encode = if_encode f\<rparr>"
  have run: "handle_upsert ?o r w1 = (resp, w')"
    using assms(2,3) Inr by (simp add: create_or_update_instance_def load_for_preserve_def Let_def)
  have "written w1 = written w" using assms(1,2) by (auto simp: logs_content_def)
  moreover have "written w' = written w1 \<or> (\<exists>api. written w' = uo_api_to_domain ?o api (uo_params ?o) # written w1)"
    using assms(1)
    by (intro upsert_writes [OF _ _ run])
      (auto simp: creator_from_repo_def updater_from_repo_def logs_content_def split: prod.splits sum.splits)
  ultimately show ?thesis using Inr by auto
qed

text \<open>
  A stop can bring a finished restart back. The stamp of a power action is taken from the instance
  as first loaded, its restart request included, while the write goes on top of the instance as loaded
  again: if a restart was completed and cleared in between, the accepted write puts its request back
  in the phase it had.
\<close>

theorem stop_revives_restart:
  assumes "logs_writes (if_repo f) content own"
    and "rp_load (if_repo f) (new_instance_with_identity (identity_of tenant ws name [])) w = (Inr inst, w1)"
    and "instance_is_active inst" and "current_power_state inst = PowerOn"
    and "rp_load (if_repo f) (new_instance_with_identity (instance_identity inst)) w1 = (Inr latest, w2)"
    and "instance_is_active latest" and "current_power_state latest = PowerOn"
    and "rp_update (if_repo f) (with_intent (inst\<lparr>in_desired_power_state := PowerOff\<rparr>) latest) w2 = (Inr stored, w3)"
  shows "\<exists>new. stop_instance f tenant ws name None r w = (accepted, w3) \<and> own w3 = (latest, new) # own w
    \<and> in_restart_id new = in_restart_id inst \<and> in_restart_phase new = in_restart_phase inst"
proof -
  let ?stamp = "inst\<lparr>in_desired_power_state := PowerOff\<rparr>"
  have id: "instance_identity ?stamp = instance_identity inst" by (simp add: instance_identity_def)
  have ok: "require_active r inst = None" "require_power_state r inst PowerOn = None"
    "require_active r latest = None" "require_power_state r latest PowerOn = None"
    using assms(3,4,6,7) by (simp_all add: require_active_None require_power_None)
  have "stop_instance f tenant ws name None r w = (accepted, w3)"
    using assms(2,5,8) assms(3,4,6,7)
    by (simp add: stop_instance_def load_active_instance_def apply_power_intent_def if_unmodified_since_version_def
        max_power_intent_attempts_def eval_nat_numeral id require_active_None [THEN iffD2]
        require_power_None [THEN iffD2])
  moreover have "own w3 = (latest, with_intent ?stamp latest) # own w"
    using logs_writesD(1) [OF assms(1) assms(2)] logs_writesD(1) [OF assms(1) assms(5)]
      logs_writesD(3) [OF assms(1) assms(8)] by simp
  ultimately show ?thesis by (intro exI [of _ "with_intent ?stamp latest"]) (simp add: with_intent_def)
qed

subsection \<open>The properties on a small store\<close>

text \<open>
  Instances in power state \<open>ps\<close> with a restart request, and a store that counts the calls it has
  answered: it serves \<open>old\<close>, then \<open>latest\<close>, and takes the write of \<open>new\<close> only.
\<close>

definition demo_vm :: "power_state \<Rightarrow> string \<Rightarrow> restart_phase \<Rightarrow> string \<Rightarrow> instance_res" where
  "demo_vm ps rid ph v = (instance_named ''i'' ''t'' ''w'')\<lparr>md_version := v,
     in_status := Some \<lparr>inst_status = \<lparr>st_state = StateActive, st_conditions = []\<rparr>,
       inst_power_state = ps, inst_power_state_since = None\<rparr>,
     in_restart_id := rid, in_restart_phase := ph\<rparr>"

definition demo_vm_repo :: "instance_res \<Rightarrow> instance_res \<Rightarrow> instance_res \<Rightarrow> (instance_res, nat) repo" where
  "demo_vm_repo old latest new = \<lparr>
     rp_create = (\<lambda>m w. (Inl err_already_exists, w)),
     rp_update = (\<lambda>m w. if w = 2 \<and> m = new then (Inr m, 3) else (Inl err_forbidden, w)),
     rp_update_status = (\<lambda>m w. (Inl err_forbidden, w)), rp_delete = (\<lambda>m w. (Some err_forbidden, w)),
     rp_load = (\<lambda>m w. if w = 0 then (Inr old, 1) else if w = 1 then (Inr latest, 2) else (Inl err_forbidden, w)),
     rp_list = (\<lambda>params w. (Inl err_forbidden, w))\<rparr>"

definition demo_own :: "instance_res \<Rightarrow> instance_res \<Rightarrow> nat \<Rightarrow> (instance_res \<times> instance_res) list" where
  "demo_own latest new w = (if w = 3 then [(latest, new)] else [])"

definition demo_frontend :: "(instance_res, nat) repo \<Rightarrow> (unit, unit, nat) instance_frontend" where
  "demo_frontend repo = \<lparr>if_repo = repo, if_from_api = (\<lambda>api ir region. new_instance_with_identity ir),
     if_to_api = (\<lambda>verb i. ()), if_list_to_api = (\<lambda>items token. ()), if_decode = (\<lambda>s. Inr ()), if_encode = (\<lambda>x. None),
     if_rand = (\<lambda>w. (Inr [], w)), if_region = ''eu''\<rparr>"

definition demo_request :: http_request where
  "demo_request = \<lparr>rq_pattern = [], rq_url_path = [], rq_path_value = (\<lambda>s. []), rq_header = (\<lambda>s. []),
     rq_body = [], rq_body_error = None, rq_identity = None\<rparr>"

lemma demo_vm_repo_logs:
  assumes "md_version old = ''1''" and "md_version latest = ''2''" and "md_version new = ''2''"
  shows "logs_writes (demo_vm_repo old latest new) (\<lambda>v. if v = ''1'' then old else latest) (demo_own latest new)"
  unfolding logs_writes_def using assms by (auto simp: demo_vm_repo_def demo_own_def split: if_splits)

lemma demo_vm_simps [simp]:
  "instance_is_active (demo_vm ps rid ph v)" "current_power_state (demo_vm PowerOn rid ph v) = PowerOn"
  "current_power_state (demo_vm PowerOff rid ph v) = PowerOff" "md_version (demo_vm ps rid ph v) = v"
  "in_restart_id (demo_vm ps rid ph v) = rid" "in_restart_phase (demo_vm ps rid ph v) = ph"
  by (simp_all add: demo_vm_def instance_is_active_def current_power_state_def instance_named_def)

lemma demo_rand [simp]: "snd (if_rand (demo_frontend repo) w) = w" "if_repo (demo_frontend repo) = repo"
  by (simp_all add: demo_frontend_def)


lemma unmodified_since_is_enforced_witness:
  "\<exists>resp w'. stop_instance (demo_frontend (demo_vm_repo (demo_vm PowerOn [] PhaseUnset ''1'')
      (demo_vm PowerOn [] PhaseUnset ''2'') (demo_vm PowerOn [] PhaseUnset ''2'')))
      ''t'' ''w'' ''i'' (Some 1) demo_request 0 = (resp, w')
    \<and> replaced_exactly (demo_own (demo_vm PowerOn [] PhaseUnset ''2'') (demo_vm PowerOn [] PhaseUnset ''2''))
        (if itoa 1 = ''1'' then demo_vm PowerOn [] PhaseUnset ''1'' else demo_vm PowerOn [] PhaseUnset ''2'') 0 resp w'"
proof -
  let ?old = "demo_vm PowerOn [] PhaseUnset ''1''" and ?new = "demo_vm PowerOn [] PhaseUnset ''2''"
  let ?f = "demo_frontend (demo_vm_repo ?old ?new ?new)"
  obtain resp w' where run: "stop_instance ?f ''t'' ''w'' ''i'' (Some 1) demo_request 0 = (resp, w')" by fastforce
  have law: "logs_writes (if_repo ?f) (\<lambda>v. if v = ''1'' then ?old else ?new) (demo_own ?new ?new)"
    by (simp add: demo_vm_repo_logs)
  show ?thesis
    using unmodified_since_is_enforced [OF law, where n = 1 and tenant = "''t''" and ws = "''w''"
        and name = "''i''" and r = demo_request and w = 0 and resp = resp and w' = w'] run by auto
qed

lemma updates_keep_intent_witness:
  "\<exists>resp w'. create_or_update_instance (demo_frontend (demo_vm_repo (demo_vm PowerOn ''x'' PhasePowerOff ''1'')
      (demo_vm PowerOn [] PhaseUnset ''2'') (demo_vm PowerOn [] PhaseUnset ''2'')))
      ''t'' ''w'' ''i'' None demo_request 0 = (resp, w')
    \<and> (\<forall>inst. (if w' = 3 then [demo_vm PowerOn [] PhaseUnset ''2''] else []) = [inst] \<longrightarrow>
         same_intent inst (demo_vm PowerOn ''x'' PhasePowerOff ''1''))"
proof -
  let ?old = "demo_vm PowerOn ''x'' PhasePowerOff ''1''" and ?new = "demo_vm PowerOn [] PhaseUnset ''2''"
  let ?f = "demo_frontend (demo_vm_repo ?old ?new ?new)"
  let ?written = "\<lambda>w. if w = 3 then [?new] else []"
  obtain resp w' where run: "create_or_update_instance ?f ''t'' ''w'' ''i'' None demo_request 0 = (resp, w')"
    by fastforce
  have law: "logs_content (if_repo ?f) ?written"
    by (auto simp: logs_content_def demo_vm_repo_def split: if_splits)
  have load: "rp_load (if_repo ?f) (new_instance_with_identity (identity_of ''t'' ''w'' ''i''
      (if_unmodified_since_version None))) 0 = (Inr ?old, 1)"
    by (simp add: demo_vm_repo_def)
  from updates_keep_intent [OF law load run] have "?written w' = [] \<or> (\<exists>inst. ?written w' = [inst] \<and> same_intent inst ?old)"
    by auto
  with run show ?thesis by (intro exI [of _ resp] exI [of _ w']) auto
qed

lemma stop_revives_restart_witness:
  "\<exists>new. stop_instance (demo_frontend (demo_vm_repo (demo_vm PowerOn ''x'' PhasePowerOff ''1'')
      (demo_vm PowerOn [] PhaseUnset ''2'')
      (with_intent (demo_vm PowerOn ''x'' PhasePowerOff ''1''\<lparr>in_desired_power_state := PowerOff\<rparr>)
        (demo_vm PowerOn [] PhaseUnset ''2'')))) ''t'' ''w'' ''i'' None demo_request 0 = (accepted, 3)
    \<and> in_restart_id new = ''x'' \<and> in_restart_phase new = PhasePowerOff
    \<and> demo_own (demo_vm PowerOn [] PhaseUnset ''2'') (with_intent (demo_vm PowerOn ''x'' PhasePowerOff ''1''
        \<lparr>in_desired_power_state := PowerOff\<rparr>) (demo_vm PowerOn [] PhaseUnset ''2'')) 3
      = [(demo_vm PowerOn [] PhaseUnset ''2'', new)]"
proof -
  let ?old = "demo_vm PowerOn ''x'' PhasePowerOff ''1''" and ?latest = "demo_vm PowerOn [] PhaseUnset ''2''"
  let ?new = "with_intent (?old\<lparr>in_desired_power_state := PowerOff\<rparr>) ?latest"
  let ?f = "demo_frontend (demo_vm_repo ?old ?latest ?new)"
  have law: "logs_writes (if_repo ?f) (\<lambda>v. if v = ''1'' then ?old else ?latest) (demo_own ?latest ?new)"
    by (simp add: demo_vm_repo_logs)
  have l1: "rp_load (if_repo ?f) (new_instance_with_identity (identity_of ''t'' ''w'' ''i'' [])) 0 = (Inr ?old, 1)"
    and l2: "rp_load (if_repo ?f) (new_instance_with_identity (instance_identity ?old)) 1 = (Inr ?latest, 2)"
    and u: "rp_update (if_repo ?f) ?new 2 = (Inr ?new, 3)"
    by (simp_all add: demo_vm_repo_def)
  have zero: "demo_own ?latest ?new 0 = []" by (simp add: demo_own_def)
  show ?thesis
    using stop_revives_restart [OF law l1 demo_vm_simps(1,2) l2 demo_vm_simps(1,2) u, of demo_request]
    by (auto simp: zero)
qed

end
