(* ===== verification/Cr_Conversion.thy ===== *)
theory Cr_Conversion
  imports Labels References Namespaces Resource_Model
begin

section \<open>Custom resources and what their converters share\<close>

text \<open>
  The converters of \<^verbatim>\<open>resource/*/backend/kubernetes/conversion.go\<close> move a resource between its
  domain type and the custom resource the API server stores. All custom resources have the
  shape of \<open>custom_resource\<close> (\<^verbatim>\<open>TypeMeta\<close>, \<^verbatim>\<open>ObjectMeta\<close>, \<^verbatim>\<open>CommonData\<close>, a spec and an optional status)
  and differ in the types of spec and status. The blocks the converters repeat are definitions
  here: reading the metadata, building the labels and the object, converting the status. Turning an
  unstructured object into a typed one is apimachinery's and an argument.
\<close>

record gvk =
  gvk_group :: string
  gvk_version :: string
  gvk_kind :: string

record ('spec, 'status) custom_resource =
  cr_gvk :: gvk
  cr_name :: string
  cr_namespace :: string
  cr_labels :: strmap
  cr_annotations :: strmap
  cr_finalizers :: "string list"
  cr_version :: string
  cr_created :: time
  cr_deleted :: "time option"
  cr_common_annotations :: strmap
  cr_common_extensions :: strmap
  cr_common_labels :: "string list"
  cr_spec :: 'spec
  cr_status :: "'status option"

text \<open>A \<^verbatim>\<open>client.Object\<close>, as the type switch tells them apart.\<close>

datatype ('u, 's, 't) client_object =
    Typed "('s, 't) custom_resource"
  | Unstructured 'u
  | OtherObject string \<comment> \<open>the name of its Go type\<close>

type_synonym ('u, 's, 't) decoder = "'u \<Rightarrow> go_error + ('s, 't) custom_resource"

definition read_cr ::
  "('u, 's, 't) decoder \<Rightarrow> string \<Rightarrow> ('u, 's, 't) client_object \<Rightarrow> go_error + ('s, 't) custom_resource" where
  "read_cr decode kind obj =
    (case obj of
       Typed cr \<Rightarrow> Inr cr
     | Unstructured u \<Rightarrow>
         (case decode u of
            Inl err \<Rightarrow> Inl (wrapf (''failed to convert unstructured to '' @ kind) err)
          | Inr cr \<Rightarrow> Inr cr)
     | OtherObject ty \<Rightarrow> Inl (GoError (''unsupported object type '' @ ty)))"

subsection \<open>Metadata from the object\<close>

definition slashes_to_underscores :: "string \<Rightarrow> string" where
  "slashes_to_underscores s = map (\<lambda>c. if c = CHR ''/'' then CHR ''_'' else c) s"

definition underscores_to_slashes :: "string \<Rightarrow> string" where
  "underscores_to_slashes s = map (\<lambda>c. if c = CHR ''_'' then CHR ''/'' else c) s"

text \<open>The block every converter has for the name, the versions, the times and the user's data.\<close>

definition tenant_metadata ::
  "(string \<Rightarrow> string) \<Rightarrow> ('s, 't) custom_resource \<Rightarrow> global_tenant_metadata" where
  "tenant_metadata sha3 cr =
    (let internal_labels = get_internal_labels (cr_labels cr);
         keyed_labels = get_keyed_labels (cr_labels cr) in
     \<lparr>md_name = cr_name cr,
      md_provider = underscores_to_slashes (map_index internal_labels internal_provider_label),
      md_version = cr_version cr, md_created = cr_created cr, md_updated = cr_created cr,
      md_deleted = cr_deleted cr,
      md_tenant = map_index internal_labels internal_tenant_label, md_workspace = [],
      md_labels = keyed_to_original sha3 keyed_labels (cr_common_labels cr),
      md_annotations = cr_common_annotations cr, md_extensions = cr_common_extensions cr\<rparr>)"

text \<open>A regional resource of a tenant, of a workspace, and of a network.\<close>

definition tenant_regional_metadata ::
  "(string \<Rightarrow> string) \<Rightarrow> ('s, 't) custom_resource \<Rightarrow> regional_metadata" where
  "tenant_regional_metadata sha3 cr =
     global_tenant_metadata.extend (tenant_metadata sha3 cr)
       (regional_metadata.fields (map_index (get_internal_labels (cr_labels cr)) internal_region_label))"

definition workspace_regional_metadata ::
  "(string \<Rightarrow> string) \<Rightarrow> ('s, 't) custom_resource \<Rightarrow> regional_metadata" where
  "workspace_regional_metadata sha3 cr =
     (tenant_regional_metadata sha3 cr)
       \<lparr>md_workspace := map_index (get_internal_labels (cr_labels cr)) internal_workspace_label\<rparr>"

definition network_regional_metadata ::
  "(string \<Rightarrow> string) \<Rightarrow> ('s, 't) custom_resource \<Rightarrow> regional_network_metadata" where
  "network_regional_metadata sha3 cr =
     regional_metadata.extend (workspace_regional_metadata sha3 cr)
       (regional_network_metadata.fields
          (map_index (get_internal_labels (cr_labels cr)) internal_network_label))"

subsection \<open>The object from the resource\<close>

text \<open>The user's labels in keyed form, and the assignments of the internal ones in their order.\<close>

definition object_labels :: "(string \<Rightarrow> string) \<Rightarrow> strmap \<Rightarrow> (string \<times> string) list \<Rightarrow> strmap" where
  "object_labels sha3 labels internal =
     fold (\<lambda>(k, v) m. map_insert k v m) internal (original_to_keyed sha3 labels)"

text \<open>The internal labels of a resource of a tenant, a regional one, one of a workspace, one of a network.\<close>

definition tenant_labels :: "'m global_tenant_metadata_scheme \<Rightarrow> (string \<times> string) list" where
  "tenant_labels r =
    [(internal_tenant_label, md_tenant r), (internal_provider_label, slashes_to_underscores (md_provider r))]"

definition tenant_regional_labels :: "'m regional_metadata_scheme \<Rightarrow> (string \<times> string) list" where
  "tenant_regional_labels r =
    [(internal_tenant_label, md_tenant r), (internal_provider_label, slashes_to_underscores (md_provider r)),
     (internal_region_label, md_region r)]"

definition workspace_labels :: "'m regional_metadata_scheme \<Rightarrow> (string \<times> string) list" where
  "workspace_labels r =
    [(internal_tenant_label, md_tenant r), (internal_workspace_label, md_workspace r),
     (internal_provider_label, slashes_to_underscores (md_provider r)),
     (internal_region_label, md_region r)]"

definition network_labels :: "'m regional_network_metadata_scheme \<Rightarrow> (string \<times> string) list" where
  "network_labels r =
    [(internal_tenant_label, md_tenant r), (internal_workspace_label, md_workspace r),
     (internal_network_label, md_network r),
     (internal_provider_label, slashes_to_underscores (md_provider r)),
     (internal_region_label, md_region r)]"

text \<open>The labels are given for their sorted keys: a map is kept in the order of its keys.\<close>

definition new_object ::
  "gvk \<Rightarrow> string \<Rightarrow> strmap \<Rightarrow> strmap \<Rightarrow> 'm global_tenant_metadata_scheme \<Rightarrow> 's \<Rightarrow> 't option
   \<Rightarrow> ('s, 't) custom_resource" where
  "new_object kind namespace labels annotations r spec st =
     \<lparr>cr_gvk = kind, cr_name = md_name r, cr_namespace = namespace, cr_labels = labels,
      cr_annotations = annotations, cr_finalizers = [], cr_version = md_version r, cr_created = 0, cr_deleted = None,
      cr_common_annotations = md_annotations r, cr_common_extensions = md_extensions r,
      cr_common_labels = map fst (md_labels r), cr_spec = spec, cr_status = st\<rparr>"

definition own_scope :: "'m global_tenant_metadata_scheme \<Rightarrow> scope" where
  "own_scope r = \<lparr>sc_tenant = md_tenant r, sc_workspace = md_workspace r\<rparr>"

definition tenant_only_scope :: "string \<Rightarrow> scope" where
  "tenant_only_scope tenant = \<lparr>sc_tenant = tenant, sc_workspace = []\<rparr>"

definition own_network_scope :: "'m regional_network_metadata_scheme \<Rightarrow> network_scope" where
  "own_network_scope r =
     \<lparr>sc_tenant = md_tenant r, sc_workspace = md_workspace r, sc_network = md_network r\<rparr>"

subsection \<open>Status\<close>

definition status_to_cr :: "string \<Rightarrow> status \<Rightarrow> go_error + status" where
  "status_to_cr message st =
    (case resource_state_to_cr (st_state st) of
       None \<Rightarrow> Inl (GoError message)
     | Some state \<Rightarrow> Inr \<lparr>st_state = state, st_conditions = conditions_to_cr (st_conditions st)\<rparr>)"

definition status_from_cr :: "status \<Rightarrow> status" where
  "status_from_cr st =
     \<lparr>st_state = resource_state_from_cr (st_state st), st_conditions = conditions_from_cr (st_conditions st)\<rparr>"

text \<open>
  A status is written when it exists and has something to say, conditions for all resources but the
  workspace; \<open>build\<close> adds what else the resource records.
\<close>

definition has_conditions :: "('s \<Rightarrow> status) \<Rightarrow> 's \<Rightarrow> bool" where
  "has_conditions get s \<longleftrightarrow> st_conditions (get s) \<noteq> []"

definition optional_status_to_cr ::
  "string \<Rightarrow> ('s \<Rightarrow> status) \<Rightarrow> ('s \<Rightarrow> bool) \<Rightarrow> ('s \<Rightarrow> status \<Rightarrow> go_error + 't) \<Rightarrow> 's option
   \<Rightarrow> go_error + 't option" where
  "optional_status_to_cr message get written build st =
    (case st of
       None \<Rightarrow> Inr None
     | Some s \<Rightarrow>
         if \<not> written s then Inr None
         else (case status_to_cr message (get s) of
             Inl err \<Rightarrow> Inl err
           | Inr converted \<Rightarrow> (case build s converted of Inl err \<Rightarrow> Inl err | Inr t \<Rightarrow> Inr (Some t))))"

text \<open>Without one, the resource is pending.\<close>

definition pending_status :: "time \<Rightarrow> status" where
  "pending_status now = the (push_condition now default_pending_condition (Some empty_status))"

definition optional_status_from_cr :: "('t \<Rightarrow> 's) \<Rightarrow> (status \<Rightarrow> 's) \<Rightarrow> time \<Rightarrow> 't option \<Rightarrow> 's" where
  "optional_status_from_cr read fresh now st =
    (case st of Some t \<Rightarrow> read t | None \<Rightarrow> fresh (pending_status now))"

definition ip_version_to_cr :: "ip_version \<Rightarrow> ip_version" where
  "ip_version_to_cr v = (case v of IPVersionIPv4 \<Rightarrow> IPVersionIPv4 | IPVersionIPv6 \<Rightarrow> IPVersionIPv6 | _ \<Rightarrow> IPVersionUnset)"

definition ip_version_from_cr :: "ip_version \<Rightarrow> ip_version" where
  "ip_version_from_cr v = (case v of IPVersionIPv4 \<Rightarrow> IPVersionIPv4 | IPVersionIPv6 \<Rightarrow> IPVersionIPv6 | _ \<Rightarrow> IPVersionUnset)"

subsection \<open>What the store adds\<close>

text \<open>
  The API server keeps the object and sets its version, its creation time and its deletion mark, the
  controller adds a finalizer; a reader gets it typed or unstructured.
\<close>

definition stored ::
  "string \<Rightarrow> time \<Rightarrow> time option \<Rightarrow> string list \<Rightarrow> ('s, 't) custom_resource \<Rightarrow> ('s, 't) custom_resource" where
  "stored v created del fs cr =
     cr\<lparr>cr_version := v, cr_created := created, cr_deleted := del, cr_finalizers := fs\<rparr>"

definition presents ::
  "('u, 's, 't) decoder \<Rightarrow> ('u, 's, 't) client_object \<Rightarrow> ('s, 't) custom_resource \<Rightarrow> bool" where
  "presents decode obj cr \<longleftrightarrow> obj = Typed cr \<or> (\<exists>u. obj = Unstructured u \<and> decode u = Inr cr)"

lemma read_cr_presents: "presents decode obj cr \<Longrightarrow> read_cr decode kind obj = Inr cr"
  by (auto simp: presents_def read_cr_def)

definition stamped ::
  "string \<Rightarrow> time \<Rightarrow> time option \<Rightarrow> 'm common_metadata_scheme \<Rightarrow> 'm common_metadata_scheme" where
  "stamped v created del r =
     r\<lparr>md_version := v, md_created := created, md_updated := created, md_deleted := del\<rparr>"

subsection \<open>Metadata comes back\<close>

definition storable_metadata :: "(string \<Rightarrow> string) \<Rightarrow> 'm global_tenant_metadata_scheme \<Rightarrow> bool" where
  "storable_metadata sha3 r \<longleftrightarrow>
     key_sorted (md_labels r) \<and> inj_on sha3 (fst ` set (md_labels r)) \<and> CHR ''_'' \<notin> set (md_provider r)"

lemma provider_comes_back:
  "CHR ''_'' \<notin> set p \<Longrightarrow> underscores_to_slashes (slashes_to_underscores p) = p"
  by (induction p) (auto simp: underscores_to_slashes_def slashes_to_underscores_def)

lemma object_labels_lookup:
  "map_of (object_labels sha3 labels internal) k =
     (case map_of (rev internal) k of Some v \<Rightarrow> Some v | None \<Rightarrow> map_of (original_to_keyed sha3 labels) k)"
proof -
  have "map_of (fold (\<lambda>(k, v) m. map_insert k v m) xs m) k =
    (case map_of (rev xs) k of Some v \<Rightarrow> Some v | None \<Rightarrow> map_of m k)" for xs m
    by (induction xs arbitrary: m) (auto split: option.splits simp: map_add_def)
  then show ?thesis by (simp add: object_labels_def)
qed

definition internal_keys :: "(string \<times> string) list \<Rightarrow> bool" where
  "internal_keys internal \<longleftrightarrow> (\<forall>k \<in> fst ` set internal. has_prefix internal_label_prefix k)"

lemma keyed_is_not_internal: "\<not> has_prefix internal_label_prefix (compute_keyed_label_key sha3 k)"
  by (simp add: compute_keyed_label_key_def label_defs)

lemma user_labels_come_back:
  assumes "storable_metadata sha3 r" and "internal_keys internal"
  shows "keyed_to_original sha3 (get_keyed_labels (object_labels sha3 (md_labels r) internal))
           (map fst (md_labels r)) = md_labels r"
proof (rule labels_come_back)
  fix k
  have "compute_keyed_label_key sha3 k \<notin> fst ` set internal"
    using assms(2) keyed_is_not_internal [of sha3 k] by (force simp: internal_keys_def)
  then have "map_of (rev internal) (compute_keyed_label_key sha3 k) = None"
    by (simp add: map_of_eq_None_iff)
  then show "map_of (object_labels sha3 (md_labels r) internal) (compute_keyed_label_key sha3 k) =
      map_of (original_to_keyed sha3 (md_labels r)) (compute_keyed_label_key sha3 k)"
    by (simp add: object_labels_lookup)
qed (use assms(1) in \<open>simp_all add: storable_metadata_def\<close>)

lemma internal_label_comes_back:
  assumes "has_prefix internal_label_prefix k" and "map_of (rev internal) k = Some v"
  shows "map_index (get_internal_labels (object_labels sha3 labels internal)) k = v"
  using assms by (simp add: get_internal_lookup) (simp add: object_labels_lookup map_index_def)

lemma label_keys [simp]:
  "has_prefix internal_label_prefix internal_provider_label"
  "has_prefix internal_label_prefix internal_region_label"
  "has_prefix internal_label_prefix internal_tenant_label"
  "has_prefix internal_label_prefix internal_workspace_label"
  "has_prefix internal_label_prefix internal_network_label"
  by (simp_all add: label_defs)

subsection \<open>References and statuses come back\<close>

text \<open>A reference in the form the domain has after reading: empty, or with its scope in the path.\<close>

definition domain_reference :: "reference \<Rightarrow> bool" where
  "domain_reference r \<longleftrightarrow>
     r = \<lparr>ref_provider = [], ref_region = [], ref_resource = [], ref_tenant = [], ref_workspace = []\<rparr> \<or>
     (\<exists>as c n ref. (\<forall>s \<in> set as. segment s \<and> s \<notin> reserved) \<and> segment c \<and> c \<notin> reserved \<and> segment n \<and>
        ref_resource ref = path (as @ [c, n]) \<and> plain_field (ref_tenant ref) \<and>
        plain_field (ref_workspace ref) \<and> r = reference_from_cr ref)"

lemma reference_comes_back [simp]: "domain_reference r \<Longrightarrow> reference_from_cr (reference_to_cr r) = r"
proof -
  let ?empty = "\<lparr>ref_provider = [], ref_region = [], ref_resource = [], ref_tenant = [], ref_workspace = []\<rparr>"
  have "reference_from_cr (reference_to_cr ?empty) = ?empty" by code_simp
  moreover assume "domain_reference r"
  ultimately show ?thesis unfolding domain_reference_def by (metis embedded_roundtrip)
qed

lemma references_come_back [simp]:
  "list_all domain_reference rs \<Longrightarrow> map (reference_from_cr \<circ> reference_to_cr) rs = rs"
  by (induction rs) auto

lemma optional_reference_comes_back [simp]:
  "pred_option domain_reference p \<Longrightarrow> map_option (reference_from_cr \<circ> reference_to_cr) p = p"
  by (cases p) auto

definition lifecycle_states :: "resource_state set" where
  "lifecycle_states = {StatePending, StateCreating, StateActive, StateUpdating, StateDeleting, StateError}"

definition storable_status :: "status \<Rightarrow> bool" where
  "storable_status st \<longleftrightarrow> st_state st \<in> lifecycle_states \<and>
     (\<forall>c \<in> set (st_conditions st). c_state c \<in> insert StateUnset lifecycle_states)"

lemma conditions_come_back:
  "\<forall>c \<in> set cs. c_state c \<in> insert StateUnset lifecycle_states \<Longrightarrow>
     conditions_from_cr (conditions_to_cr cs) = cs"
  by (induction cs)
     (auto simp: conditions_from_cr_def conditions_to_cr_def status_condition_roundtrip
        lifecycle_states_def resource_state_from_cr_def)

lemma status_comes_back:
  assumes "storable_status st"
  obtains st' where "status_to_cr message st = Inr st'" and "status_from_cr st' = st"
proof -
  from assms have "resource_state_to_cr (st_state st) = Some (st_state st)"
    by (auto simp: storable_status_def lifecycle_states_def resource_state_to_cr_def)
  moreover have "resource_state_from_cr (st_state st) = st_state st"
    using resource_state_roundtrip [OF calculation] .
  ultimately show thesis
    using assms that [of "\<lparr>st_state = st_state st, st_conditions = conditions_to_cr (st_conditions st)\<rparr>"]
    by (simp add: status_to_cr_def status_from_cr_def storable_status_def conditions_come_back)
qed

text \<open>The status a reader sees: the one that was written, with the defaults \<open>norm\<close> of its type, or pending when
  there was nothing to write.\<close>

definition status_back ::
  "time \<Rightarrow> ('s \<Rightarrow> bool) \<Rightarrow> ('s \<Rightarrow> 's) \<Rightarrow> (status \<Rightarrow> 's) \<Rightarrow> 's option \<Rightarrow> 's" where
  "status_back now written norm fresh st =
    (case st of
       None \<Rightarrow> fresh (pending_status now)
     | Some s \<Rightarrow> if written s then norm s else fresh (pending_status now))"

definition storable_optional_status :: "('s \<Rightarrow> status) \<Rightarrow> ('s \<Rightarrow> bool) \<Rightarrow> ('s \<Rightarrow> bool) \<Rightarrow> 's option \<Rightarrow> bool" where
  "storable_optional_status get written extra st =
     pred_option (\<lambda>s. written s \<longrightarrow> storable_status (get s) \<and> extra s) st"

text \<open>
  What a resource gives for its status: how to read and write what it records beside the state
  and the conditions, such that a status with storable extras is read as it was written.
\<close>

locale status_conversion =
  fixes get :: "'s \<Rightarrow> status" and written :: "'s \<Rightarrow> bool" and extra :: "'s \<Rightarrow> bool"
    and norm :: "'s \<Rightarrow> 's"
    and build :: "'s \<Rightarrow> status \<Rightarrow> go_error + 't" and read :: "'t \<Rightarrow> 's" and fresh :: "status \<Rightarrow> 's"
  assumes build_read: "extra s \<Longrightarrow> status_from_cr converted = get s \<Longrightarrow>
      \<exists>t. build s converted = Inr t \<and> read t = norm s"
begin

lemma comes_back:
  assumes "storable_optional_status get written extra st"
  obtains out where "optional_status_to_cr message get written build st = Inr out"
    and "\<And>now. optional_status_from_cr read fresh now out = status_back now written norm fresh st"
proof (cases "\<exists>s. st = Some s \<and> written s")
  case False
  then show thesis
    by (intro that [of None])
      (auto simp: optional_status_to_cr_def optional_status_from_cr_def status_back_def split: option.split)
next
  case True
  then obtain s where s: "st = Some s" "written s" by blast
  with assms(1) have "storable_status (get s)" "extra s" by (simp_all add: storable_optional_status_def)
  then obtain converted where c: "status_to_cr message (get s) = Inr converted" "status_from_cr converted = get s"
    by (rule_tac status_comes_back)
  from build_read [OF \<open>extra s\<close> c(2)] obtain t where "build s converted = Inr t" "read t = norm s" by blast
  with s c show thesis
    by (intro that [of "Some t"])
      (simp_all add: optional_status_to_cr_def optional_status_from_cr_def status_back_def)
qed

end

subsection \<open>Metadata of every scope\<close>

text \<open>The metadata of a stored resource.\<close>

definition tenant_back ::
  "string \<Rightarrow> time \<Rightarrow> time option \<Rightarrow> 'm global_tenant_metadata_scheme \<Rightarrow> global_tenant_metadata" where
  "tenant_back v c d r =
    \<lparr>md_name = md_name r, md_provider = md_provider r, md_version = v, md_created = c, md_updated = c,
     md_deleted = d, md_tenant = md_tenant r, md_workspace = md_workspace r, md_labels = md_labels r,
     md_annotations = md_annotations r, md_extensions = md_extensions r\<rparr>"

definition regional_back ::
  "string \<Rightarrow> time \<Rightarrow> time option \<Rightarrow> 'm regional_metadata_scheme \<Rightarrow> regional_metadata" where
  "regional_back v c d r =
     global_tenant_metadata.extend (tenant_back v c d r) (regional_metadata.fields (md_region r))"

definition network_regional_back ::
  "string \<Rightarrow> time \<Rightarrow> time option \<Rightarrow> 'm regional_network_metadata_scheme \<Rightarrow> regional_network_metadata" where
  "network_regional_back v c d r =
     regional_metadata.extend (regional_back v c d r) (regional_network_metadata.fields (md_network r))"

lemmas metadata_back_defs = tenant_back_def regional_back_def network_regional_back_def stamped_def
  global_tenant_metadata.defs regional_metadata.defs regional_network_metadata.defs

lemma internal_label_lists [simp]:
  "internal_keys (tenant_labels r0)" "internal_keys (tenant_regional_labels r)"
  "internal_keys (workspace_labels r)" "internal_keys (network_labels r')"
  by (simp_all add: internal_keys_def tenant_labels_def tenant_regional_labels_def workspace_labels_def
      network_labels_def)

lemma tenant_metadata_read:
  assumes "storable_metadata sha3 r" and "internal_keys internal"
    and "map_of (rev internal) internal_tenant_label = Some (md_tenant r)"
    and "map_of (rev internal) internal_provider_label = Some (slashes_to_underscores (md_provider r))"
  shows "tenant_metadata sha3 (stored v c d fs
      (new_object kind ns (object_labels sha3 (md_labels r) internal) annotations r spec st)) =
    \<lparr>md_name = md_name r, md_provider = md_provider r, md_version = v, md_created = c, md_updated = c,
     md_deleted = d, md_tenant = md_tenant r, md_workspace = [], md_labels = md_labels r,
     md_annotations = md_annotations r, md_extensions = md_extensions r\<rparr>"
  using assms user_labels_come_back [OF assms(1,2)]
  by (simp add: tenant_metadata_def stored_def new_object_def internal_label_comes_back
      provider_comes_back storable_metadata_def)

lemma label_list_lookups [simp]:
  "map_of (rev (tenant_labels r0)) internal_tenant_label = Some (md_tenant r0)"
  "map_of (rev (tenant_labels r0)) internal_provider_label = Some (slashes_to_underscores (md_provider r0))"
  "map_of (rev (tenant_regional_labels r)) internal_tenant_label = Some (md_tenant r)"
  "map_of (rev (tenant_regional_labels r)) internal_provider_label = Some (slashes_to_underscores (md_provider r))"
  "map_of (rev (tenant_regional_labels r)) internal_region_label = Some (md_region r)"
  "map_of (rev (workspace_labels r)) internal_tenant_label = Some (md_tenant r)"
  "map_of (rev (workspace_labels r)) internal_workspace_label = Some (md_workspace r)"
  "map_of (rev (workspace_labels r)) internal_provider_label = Some (slashes_to_underscores (md_provider r))"
  "map_of (rev (workspace_labels r)) internal_region_label = Some (md_region r)"
  "map_of (rev (network_labels r')) internal_tenant_label = Some (md_tenant r')"
  "map_of (rev (network_labels r')) internal_workspace_label = Some (md_workspace r')"
  "map_of (rev (network_labels r')) internal_network_label = Some (md_network r')"
  "map_of (rev (network_labels r')) internal_provider_label = Some (slashes_to_underscores (md_provider r'))"
  "map_of (rev (network_labels r')) internal_region_label = Some (md_region r')"
  by (simp_all add: tenant_labels_def tenant_regional_labels_def workspace_labels_def network_labels_def label_defs)

lemma stored_new_object [simp]:
  "cr_spec (stored v c d fs (new_object kind ns labels annotations r spec st)) = spec"
  "cr_status (stored v c d fs (new_object kind ns labels annotations r spec st)) = st"
  "cr_annotations (stored v c d fs (new_object kind ns labels annotations r spec st)) = annotations"
  "cr_labels (stored v c d fs (new_object kind ns labels annotations r spec st)) = labels"
  "cr_name (stored v c d fs (new_object kind ns labels annotations r spec st)) = md_name r"
  by (simp_all add: stored_def new_object_def)

lemma tenant_metadata_back:
  assumes "storable_metadata sha3 r" and "md_workspace r = []"
  shows "tenant_metadata sha3 (stored v c d fs
      (new_object kind ns (object_labels sha3 (md_labels r) (tenant_labels r)) annotations r spec st)) =
    tenant_back v c d r"
  by (simp add: tenant_metadata_read [OF assms(1)] tenant_back_def assms(2))

lemma tenant_regional_metadata_back:
  assumes "storable_metadata sha3 r" and "md_workspace r = []"
  shows "tenant_regional_metadata sha3 (stored v c d fs
      (new_object kind ns (object_labels sha3 (md_labels r) (tenant_regional_labels r)) annotations r spec st)) =
    regional_back v c d r"
  by (simp add: tenant_metadata_read [OF assms(1)] internal_label_comes_back tenant_regional_metadata_def
      metadata_back_defs assms(2))

lemma workspace_regional_metadata_back:
  assumes "storable_metadata sha3 r"
  shows "workspace_regional_metadata sha3 (stored v c d fs
      (new_object kind ns (object_labels sha3 (md_labels r) (workspace_labels r)) annotations r spec st)) =
    regional_back v c d r"
  by (simp add: tenant_metadata_read [OF assms] internal_label_comes_back workspace_regional_metadata_def
      tenant_regional_metadata_def metadata_back_defs)

lemma network_regional_metadata_back:
  assumes "storable_metadata sha3 r"
  shows "network_regional_metadata sha3 (stored v c d fs
      (new_object kind ns (object_labels sha3 (md_labels r) (network_labels r)) annotations r spec st)) =
    network_regional_back v c d r"
  by (simp add: tenant_metadata_read [OF assms] internal_label_comes_back network_regional_metadata_def
      workspace_regional_metadata_def tenant_regional_metadata_def metadata_back_defs)

subsection \<open>A resource in the store\<close>

text \<open>
  What the store promises of a resource: it converts, its object lives in the namespace the adapter
  looks in, and whoever reads it, typed or unstructured, gets the resource back.
\<close>

definition survives ::
  "(string \<Rightarrow> string) \<Rightarrow> ('r option \<Rightarrow> go_error + ('s, 't) custom_resource)
   \<Rightarrow> (('u, 's, 't) decoder \<Rightarrow> time \<Rightarrow> ('u, 's, 't) client_object \<Rightarrow> go_error + 'r)
   \<Rightarrow> (time \<Rightarrow> string \<Rightarrow> time \<Rightarrow> time option \<Rightarrow> 'r \<Rightarrow> 'r) \<Rightarrow> ('r \<Rightarrow> scoped) \<Rightarrow> 'r \<Rightarrow> bool" where
  "survives sha3 to_cr from_cr seen view r \<longleftrightarrow>
    (\<exists>cr. to_cr (Some r) = Inr cr \<and> resolve_namespace sha3 (view r) = Inr (cr_namespace cr) \<and>
      (\<forall>decode now obj v c d fs. presents decode obj (stored v c d fs cr) \<longrightarrow>
         from_cr decode now obj = Inr (seen now v c d r)))"

locale stored_resource =
  fixes sha3 :: "string \<Rightarrow> string"
    and to_cr :: "'r option \<Rightarrow> go_error + ('s, 't) custom_resource"
    and from_cr :: "('u, 's, 't) decoder \<Rightarrow> time \<Rightarrow> ('u, 's, 't) client_object \<Rightarrow> go_error + 'r"
    and storable :: "'r \<Rightarrow> bool"
    and seen :: "time \<Rightarrow> string \<Rightarrow> time \<Rightarrow> time option \<Rightarrow> 'r \<Rightarrow> 'r"
    and view :: "'r \<Rightarrow> scoped"
  assumes comes_back: "storable r \<Longrightarrow> survives sha3 to_cr from_cr seen view r"
begin

text \<open>Nothing but what the store sets can tell two resources with the same object apart.\<close>

lemma same_object:
  assumes "storable r" "storable r'" and "to_cr (Some r) = to_cr (Some r')"
  shows "seen now v c d r = seen now v c d r'"
proof -
  from comes_back [OF assms(1)] obtain cr where cr: "to_cr (Some r) = Inr cr"
    "from_cr (\<lambda>u. Inl (GoError [])) now (Typed (stored v c d fs cr)) = Inr (seen now v c d r)"
    by (auto simp: survives_def presents_def)
  from comes_back [OF assms(2)] assms(3) cr(1)
  have "from_cr (\<lambda>u. Inl (GoError [])) now (Typed (stored v c d fs cr)) = Inr (seen now v c d r')"
    by (auto simp: survives_def presents_def)
  with cr(2) show ?thesis by simp
qed

end

subsection \<open>Facts the converters share\<close>

lemma resolve_simps:
  "cr_namespace (new_object kind ns labels annotations r0 spec st) = ns"
  "resolve_namespace sha3 (PlainScope (own_scope r)) = Inr (compute_namespace sha3 (own_scope r))"
  "md_workspace r = [] \<Longrightarrow> tenant_only_scope (md_tenant r) = own_scope r"
  "md_network r' \<noteq> [] \<Longrightarrow> resolve_namespace sha3 (NetworkScoped (own_network_scope r')) =
     Inr (compute_network_namespace sha3 (own_network_scope r'))"
  by (simp_all add: new_object_def resolve_namespace_def tenant_only_scope_def own_scope_def own_network_scope_def)

definition known_ip_version :: "ip_version \<Rightarrow> bool" where
  "known_ip_version v \<longleftrightarrow> v \<in> {IPVersionUnset, IPVersionIPv4, IPVersionIPv6}"

lemma ip_version_comes_back [simp]: "known_ip_version v \<Longrightarrow> ip_version_from_cr (ip_version_to_cr v) = v"
  by (auto simp: known_ip_version_def ip_version_from_cr_def ip_version_to_cr_def)

text \<open>The statuses of parts, converted in turn until one fails.\<close>

fun statuses_to_cr :: "string \<Rightarrow> status list \<Rightarrow> go_error + status list" where
  "statuses_to_cr message [] = Inr []"
| "statuses_to_cr message (st # sts) =
    (case status_to_cr message st of
       Inl err \<Rightarrow> Inl err
     | Inr converted \<Rightarrow>
         (case statuses_to_cr message sts of Inl err \<Rightarrow> Inl err | Inr rest \<Rightarrow> Inr (converted # rest)))"

lemma statuses_back:
  "list_all storable_status sts \<Longrightarrow> \<exists>out. statuses_to_cr message sts = Inr out \<and> map status_from_cr out = sts"
proof (induction sts)
  case (Cons st sts)
  then have "storable_status st" by simp
  then obtain st' where st': "status_to_cr message st = Inr st'" "status_from_cr st' = st"
    by (rule status_comes_back)
  from Cons obtain out where "statuses_to_cr message sts = Inr out" "map status_from_cr out = sts" by auto
  with st' show ?case by simp
qed simp

lemma statuses_come_back:
  assumes "list_all storable_status sts"
  obtains out where "statuses_to_cr message sts = Inr out" and "map status_from_cr out = sts"
  using statuses_back [OF assms] by blast

end
