(* ===== verification/Network_Conversion.thy ===== *)
theory Network_Conversion
  imports Cr_Conversion
begin

section \<open>The converters of the network resources\<close>

text \<open>
  The files \<^verbatim>\<open>resource/network/v1/*/backend/kubernetes/conversion.go\<close>. For each resource: the types of
  the object where they differ from the domain's, the two converters of spec, status and
  resource, what can be stored, and the proof that it comes back.
\<close>

subsection \<open>\<^verbatim>\<open>network/v1/network/backend/kubernetes\<close>\<close>

record network_cr_status =
  ncs_additional_cidrs :: "cidr list"
  ncs_cidr :: cidr
  ncs_status :: status

definition cidr_from_cr :: "cidr \<Rightarrow> cidr" where
  "cidr_from_cr c = \<lparr>cidr_ipv4 = cidr_ipv4 c, cidr_ipv6 = cidr_ipv6 c\<rparr>"

definition cidr_to_cr :: "cidr \<Rightarrow> cidr" where
  "cidr_to_cr c = \<lparr>cidr_ipv4 = cidr_ipv4 c, cidr_ipv6 = cidr_ipv6 c\<rparr>"

lemma cidr_comes_back [simp]: "cidr_from_cr (cidr_to_cr c) = c" "cidr_from_cr \<circ> cidr_to_cr = id"
  by (simp_all add: cidr_from_cr_def cidr_to_cr_def fun_eq_iff)

definition network_gvk :: gvk where
  "network_gvk = \<lparr>gvk_group = ''network.v1.secapi.cloud'', gvk_version = ''v1'', gvk_kind = ''Network''\<rparr>"

definition network_spec_from_cr :: "network_spec \<Rightarrow> network_spec" where
  "network_spec_from_cr s =
    \<lparr>nws_additional_cidrs = map cidr_from_cr (nws_additional_cidrs s), nws_cidr = cidr_from_cr (nws_cidr s),
     nws_sku_ref = reference_from_cr (nws_sku_ref s)\<rparr>"

definition network_spec_to_cr :: "network_spec \<Rightarrow> network_spec" where
  "network_spec_to_cr s =
    \<lparr>nws_additional_cidrs = map cidr_to_cr (nws_additional_cidrs s), nws_cidr = cidr_to_cr (nws_cidr s),
     nws_sku_ref = reference_to_cr (nws_sku_ref s)\<rparr>"

text \<open>The status of the object also has the two CIDRs, which the converter does not set.\<close>

definition network_status_from_cr :: "network_cr_status \<Rightarrow> network_status" where
  "network_status_from_cr s = \<lparr>nwst_status = status_from_cr (ncs_status s)\<rparr>"

definition network_status_to_cr :: "network_status \<Rightarrow> status \<Rightarrow> go_error + network_cr_status" where
  "network_status_to_cr s converted =
     Inr \<lparr>ncs_additional_cidrs = [], ncs_cidr = \<lparr>cidr_ipv4 = [], cidr_ipv6 = []\<rparr>, ncs_status = converted\<rparr>"

definition network_from_cr ::
  "('u, network_spec, network_cr_status) decoder \<Rightarrow> (string \<Rightarrow> string) \<Rightarrow> time
   \<Rightarrow> ('u, network_spec, network_cr_status) client_object \<Rightarrow> go_error + network" where
  "network_from_cr decode sha3 now obj =
    (case read_cr decode ''Network'' obj of
       Inl err \<Rightarrow> Inl err
     | Inr cr \<Rightarrow>
         (let st = optional_status_from_cr network_status_from_cr (\<lambda>st. \<lparr>nwst_status = st\<rparr>) now (cr_status cr) in
          Inr (regional_metadata.extend (workspace_regional_metadata sha3 cr)
                 (network.fields (network_spec_from_cr (cr_spec cr)) (Some st)))))"

definition network_to_cr ::
  "(string \<Rightarrow> string) \<Rightarrow> network option \<Rightarrow> go_error + (network_spec, network_cr_status) custom_resource" where
  "network_to_cr sha3 p =
    (case p of
       None \<Rightarrow> Inl (GoError ''network is nil'')
     | Some n \<Rightarrow>
         (let labels = object_labels sha3 (md_labels n) (workspace_labels n);
              spec = network_spec_to_cr (nw_spec n) in
          case optional_status_to_cr (''failed to convert resource state to CR'') nwst_status
                 (has_conditions nwst_status) network_status_to_cr (nw_status n) of
            Inl err \<Rightarrow> Inl err
          | Inr st \<Rightarrow>
              Inr (new_object network_gvk (compute_namespace sha3 (own_scope n)) labels [] n spec st)))"

text \<open>What can be stored, and what a reader gets.\<close>

definition storable_network :: "(string \<Rightarrow> string) \<Rightarrow> network \<Rightarrow> bool" where
  "storable_network sha3 n \<longleftrightarrow>
     storable_metadata sha3 n \<and>
     domain_reference (nws_sku_ref (nw_spec n)) \<and>
     storable_optional_status nwst_status (has_conditions nwst_status) (\<lambda>s. True) (nw_status n)"

definition network_back :: "time \<Rightarrow> string \<Rightarrow> time \<Rightarrow> time option \<Rightarrow> network \<Rightarrow> network" where
  "network_back now v c d n = (stamped v c d n)\<lparr>nw_status := Some (status_back now (has_conditions nwst_status)
     (\<lambda>s. s) (\<lambda>st. \<lparr>nwst_status = st\<rparr>) (nw_status n))\<rparr>"

lemma network_spec_comes_back:
  "domain_reference (nws_sku_ref s) \<Longrightarrow> network_spec_from_cr (network_spec_to_cr s) = s"
  by (simp add: network_spec_from_cr_def network_spec_to_cr_def)

interpretation network_conditions: status_conversion nwst_status "has_conditions nwst_status" "\<lambda>s. True"
    "\<lambda>s. s" network_status_to_cr network_status_from_cr "\<lambda>st. \<lparr>nwst_status = st\<rparr>"
  by unfold_locales (simp add: network_status_to_cr_def network_status_from_cr_def)

lemma network_read:
  "regional_metadata.extend (regional_back v c d n) (network.fields (nw_spec n) st) =
     (stamped v c d n)\<lparr>nw_status := st\<rparr>"
  by (cases n) (simp add: metadata_back_defs network.defs)

lemma network_comes_back:
  assumes "storable_network sha3 n"
  shows "survives sha3 (network_to_cr sha3) (\<lambda>decode. network_from_cr decode sha3) network_back
    (\<lambda>n. PlainScope (own_scope n)) n"
proof -
  note storable = assms [unfolded storable_network_def]
  from storable have meta: "storable_metadata sha3 n"
    and st: "storable_optional_status nwst_status (has_conditions nwst_status) (\<lambda>s. True) (nw_status n)"
    by simp_all
  show ?thesis
    by (rule network_conditions.comes_back [OF st, where message = "''failed to convert resource state to CR''"])
      (use storable in \<open>simp add: survives_def network_to_cr_def network_from_cr_def read_cr_presents Let_def
        workspace_regional_metadata_back [OF meta] network_back_def network_read resolve_simps network_spec_comes_back\<close>)
qed

interpretation network_store: stored_resource sha3 "network_to_cr sha3" "\<lambda>decode. network_from_cr decode sha3"
    "storable_network sha3" network_back "\<lambda>n. PlainScope (own_scope n)" for sha3
  by unfold_locales (rule network_comes_back)

subsection \<open>\<^verbatim>\<open>network/v1/internet-gateway/backend/kubernetes\<close>\<close>

record internet_gateway_cr_spec =
  igcs_egress_only :: bool

definition internet_gateway_gvk :: gvk where
  "internet_gateway_gvk = \<lparr>gvk_group = ''network.v1.secapi.cloud'', gvk_version = ''v1'', gvk_kind = ''InternetGateway''\<rparr>"

definition internet_gateway_status_from_cr :: "status \<Rightarrow> internet_gateway_status" where
  "internet_gateway_status_from_cr st = \<lparr>igst_status = status_from_cr st\<rparr>"

definition internet_gateway_status_to_cr :: "internet_gateway_status \<Rightarrow> status \<Rightarrow> go_error + status" where
  "internet_gateway_status_to_cr s converted = Inr converted"

definition internet_gateway_from_cr ::
  "('u, internet_gateway_cr_spec, status) decoder \<Rightarrow> (string \<Rightarrow> string) \<Rightarrow> time
   \<Rightarrow> ('u, internet_gateway_cr_spec, status) client_object \<Rightarrow> go_error + internet_gateway" where
  "internet_gateway_from_cr decode sha3 now obj =
    (case read_cr decode ''InternetGateway'' obj of
       Inl err \<Rightarrow> Inl err
     | Inr cr \<Rightarrow>
         (let st = optional_status_from_cr internet_gateway_status_from_cr (\<lambda>st. \<lparr>igst_status = st\<rparr>) now (cr_status cr) in
          Inr (regional_metadata.extend (workspace_regional_metadata sha3 cr)
                 (internet_gateway.fields (igcs_egress_only (cr_spec cr)) (Some st)))))"

definition internet_gateway_to_cr ::
  "(string \<Rightarrow> string) \<Rightarrow> internet_gateway option \<Rightarrow> go_error + (internet_gateway_cr_spec, status) custom_resource" where
  "internet_gateway_to_cr sha3 p =
    (case p of
       None \<Rightarrow> Inl (GoError ''internet gateway is nil'')
     | Some ig \<Rightarrow>
         (let labels = object_labels sha3 (md_labels ig) (workspace_labels ig);
              spec = \<lparr>igcs_egress_only = ig_egress_only ig\<rparr> in
          case optional_status_to_cr (''failed to convert resource state to CR'') igst_status
                 (has_conditions igst_status) internet_gateway_status_to_cr (ig_status ig) of
            Inl err \<Rightarrow> Inl err
          | Inr st \<Rightarrow>
              Inr (new_object internet_gateway_gvk (compute_namespace sha3 (own_scope ig)) labels [] ig spec st)))"

text \<open>What can be stored, and what a reader gets.\<close>

definition storable_internet_gateway :: "(string \<Rightarrow> string) \<Rightarrow> internet_gateway \<Rightarrow> bool" where
  "storable_internet_gateway sha3 ig \<longleftrightarrow>
     storable_metadata sha3 ig \<and>
     storable_optional_status igst_status (has_conditions igst_status) (\<lambda>s. True) (ig_status ig)"

definition internet_gateway_back :: "time \<Rightarrow> string \<Rightarrow> time \<Rightarrow> time option \<Rightarrow> internet_gateway \<Rightarrow> internet_gateway" where
  "internet_gateway_back now v c d ig = (stamped v c d ig)\<lparr>ig_status := Some (status_back now (has_conditions igst_status)
     (\<lambda>s. s) (\<lambda>st. \<lparr>igst_status = st\<rparr>) (ig_status ig))\<rparr>"

interpretation internet_gateway_conditions: status_conversion igst_status "has_conditions igst_status" "\<lambda>s. True"
    "\<lambda>s. s" internet_gateway_status_to_cr internet_gateway_status_from_cr "\<lambda>st. \<lparr>igst_status = st\<rparr>"
  by unfold_locales (simp add: internet_gateway_status_to_cr_def internet_gateway_status_from_cr_def)

lemma internet_gateway_read:
  "regional_metadata.extend (regional_back v c d ig) (internet_gateway.fields (ig_egress_only ig) st) =
     (stamped v c d ig)\<lparr>ig_status := st\<rparr>"
  by (cases ig) (simp add: metadata_back_defs internet_gateway.defs)

lemma internet_gateway_comes_back:
  assumes "storable_internet_gateway sha3 ig"
  shows "survives sha3 (internet_gateway_to_cr sha3) (\<lambda>decode. internet_gateway_from_cr decode sha3) internet_gateway_back
    (\<lambda>ig. PlainScope (own_scope ig)) ig"
proof -
  note storable = assms [unfolded storable_internet_gateway_def]
  from storable have meta: "storable_metadata sha3 ig"
    and st: "storable_optional_status igst_status (has_conditions igst_status) (\<lambda>s. True) (ig_status ig)"
    by simp_all
  show ?thesis
    by (rule internet_gateway_conditions.comes_back [OF st, where message = "''failed to convert resource state to CR''"])
      (use storable in \<open>simp add: survives_def internet_gateway_to_cr_def internet_gateway_from_cr_def read_cr_presents Let_def
        workspace_regional_metadata_back [OF meta] internet_gateway_back_def internet_gateway_read resolve_simps \<close>)
qed

interpretation internet_gateway_store: stored_resource sha3 "internet_gateway_to_cr sha3" "\<lambda>decode. internet_gateway_from_cr decode sha3"
    "storable_internet_gateway sha3" internet_gateway_back "\<lambda>ig. PlainScope (own_scope ig)" for sha3
  by unfold_locales (rule internet_gateway_comes_back)

subsection \<open>\<^verbatim>\<open>network/v1/nic/backend/kubernetes\<close>\<close>

text \<open>A reference that the object may lack is the empty one in the domain.\<close>

record nic_cr_spec =
  nccs_addresses :: "string list"
  nccs_public_ip_refs :: "reference list"
  nccs_security_group_refs :: "reference list"
  nccs_sku_ref :: "reference option"
  nccs_subnet_ref :: reference

definition unset_reference :: reference where
  "unset_reference = \<lparr>ref_provider = [], ref_region = [], ref_resource = [], ref_tenant = [], ref_workspace = []\<rparr>"

definition optional_ref_from_cr :: "reference option \<Rightarrow> reference" where
  "optional_ref_from_cr p = (case p of Some ref \<Rightarrow> reference_from_cr ref | None \<Rightarrow> unset_reference)"

definition optional_ref_to_cr :: "reference \<Rightarrow> reference option" where
  "optional_ref_to_cr ref = (if ref \<noteq> unset_reference then Some (reference_to_cr ref) else None)"

lemma optional_ref_comes_back [simp]:
  "domain_reference ref \<Longrightarrow> optional_ref_from_cr (optional_ref_to_cr ref) = ref"
  by (simp add: optional_ref_from_cr_def optional_ref_to_cr_def)

definition nic_gvk :: gvk where
  "nic_gvk = \<lparr>gvk_group = ''network.v1.secapi.cloud'', gvk_version = ''v1'', gvk_kind = ''NIC''\<rparr>"

definition nic_spec_from_cr :: "nic_cr_spec \<Rightarrow> nic_spec" where
  "nic_spec_from_cr s =
    \<lparr>nics_addresses = nccs_addresses s,
     nics_public_ip_refs = map reference_from_cr (nccs_public_ip_refs s),
     nics_security_group_refs = map reference_from_cr (nccs_security_group_refs s),
     nics_sku_ref = optional_ref_from_cr (nccs_sku_ref s),
     nics_subnet_ref = reference_from_cr (nccs_subnet_ref s)\<rparr>"

definition nic_spec_to_cr :: "nic_spec \<Rightarrow> nic_cr_spec" where
  "nic_spec_to_cr s =
    \<lparr>nccs_addresses = nics_addresses s,
     nccs_public_ip_refs = map reference_to_cr (nics_public_ip_refs s),
     nccs_security_group_refs = map reference_to_cr (nics_security_group_refs s),
     nccs_sku_ref = optional_ref_to_cr (nics_sku_ref s),
     nccs_subnet_ref = reference_to_cr (nics_subnet_ref s)\<rparr>"

definition nic_status_from_cr :: "nic_status \<Rightarrow> nic_status" where
  "nic_status_from_cr s =
    \<lparr>nicst_status = status_from_cr (nicst_status s), nicst_addresses = nicst_addresses s,
     nicst_mac_address = nicst_mac_address s,
     nicst_public_ip_refs = map reference_from_cr (nicst_public_ip_refs s)\<rparr>"

definition nic_status_to_cr :: "nic_status \<Rightarrow> status \<Rightarrow> go_error + nic_status" where
  "nic_status_to_cr s converted =
    Inr \<lparr>nicst_status = converted, nicst_addresses = nicst_addresses s,
         nicst_mac_address = nicst_mac_address s,
         nicst_public_ip_refs = map reference_to_cr (nicst_public_ip_refs s)\<rparr>"

definition nic_from_cr ::
  "('u, nic_cr_spec, nic_status) decoder \<Rightarrow> (string \<Rightarrow> string) \<Rightarrow> time
   \<Rightarrow> ('u, nic_cr_spec, nic_status) client_object \<Rightarrow> go_error + nic" where
  "nic_from_cr decode sha3 now obj =
    (case read_cr decode ''NIC'' obj of
       Inl err \<Rightarrow> Inl err
     | Inr cr \<Rightarrow>
         (let st = optional_status_from_cr nic_status_from_cr (\<lambda>st. \<lparr>nicst_status = st, nicst_addresses = [], nicst_mac_address = [], nicst_public_ip_refs = []\<rparr>) now (cr_status cr) in
          Inr (regional_metadata.extend (workspace_regional_metadata sha3 cr)
                 (nic.fields (nic_spec_from_cr (cr_spec cr)) (Some st)))))"

definition nic_to_cr ::
  "(string \<Rightarrow> string) \<Rightarrow> nic option \<Rightarrow> go_error + (nic_cr_spec, nic_status) custom_resource" where
  "nic_to_cr sha3 p =
    (case p of
       None \<Rightarrow> Inl (GoError ''nic is nil'')
     | Some n \<Rightarrow>
         (let labels = object_labels sha3 (md_labels n) (workspace_labels n);
              spec = nic_spec_to_cr (nic_spec n) in
          case optional_status_to_cr (''failed to convert resource state to CR'') nicst_status
                 (has_conditions nicst_status) nic_status_to_cr (nic_status n) of
            Inl err \<Rightarrow> Inl err
          | Inr st \<Rightarrow>
              Inr (new_object nic_gvk (compute_namespace sha3 (own_scope n)) labels [] n spec st)))"

text \<open>What can be stored, and what a reader gets.\<close>

definition storable_nic :: "(string \<Rightarrow> string) \<Rightarrow> nic \<Rightarrow> bool" where
  "storable_nic sha3 n \<longleftrightarrow>
     storable_metadata sha3 n \<and>
     list_all domain_reference (nics_public_ip_refs (nic_spec n)) \<and>
     list_all domain_reference (nics_security_group_refs (nic_spec n)) \<and>
     domain_reference (nics_sku_ref (nic_spec n)) \<and>
     domain_reference (nics_subnet_ref (nic_spec n)) \<and>
     storable_optional_status nicst_status (has_conditions nicst_status) (\<lambda>s. list_all domain_reference (nicst_public_ip_refs s)) (nic_status n)"

definition nic_back :: "time \<Rightarrow> string \<Rightarrow> time \<Rightarrow> time option \<Rightarrow> nic \<Rightarrow> nic" where
  "nic_back now v c d n = (stamped v c d n)\<lparr>nic_status := Some (status_back now (has_conditions nicst_status)
     (\<lambda>s. s) (\<lambda>st. \<lparr>nicst_status = st, nicst_addresses = [], nicst_mac_address = [], nicst_public_ip_refs = []\<rparr>) (nic_status n))\<rparr>"

lemma nic_spec_comes_back:
  "list_all domain_reference (nics_public_ip_refs s) \<Longrightarrow> list_all domain_reference (nics_security_group_refs s) \<Longrightarrow>
   domain_reference (nics_sku_ref s) \<Longrightarrow> domain_reference (nics_subnet_ref s) \<Longrightarrow>
   nic_spec_from_cr (nic_spec_to_cr s) = s"
  by (simp add: nic_spec_from_cr_def nic_spec_to_cr_def)

interpretation nic_conditions: status_conversion nicst_status "has_conditions nicst_status" "\<lambda>s. list_all domain_reference (nicst_public_ip_refs s)"
    "\<lambda>s. s" nic_status_to_cr nic_status_from_cr "\<lambda>st. \<lparr>nicst_status = st, nicst_addresses = [], nicst_mac_address = [], nicst_public_ip_refs = []\<rparr>"
  by unfold_locales (simp add: nic_status_to_cr_def nic_status_from_cr_def)

lemma nic_read:
  "regional_metadata.extend (regional_back v c d n) (nic.fields (nic_spec n) st) =
     (stamped v c d n)\<lparr>nic_status := st\<rparr>"
  by (cases n) (simp add: metadata_back_defs nic.defs)

lemma nic_comes_back:
  assumes "storable_nic sha3 n"
  shows "survives sha3 (nic_to_cr sha3) (\<lambda>decode. nic_from_cr decode sha3) nic_back
    (\<lambda>n. PlainScope (own_scope n)) n"
proof -
  note storable = assms [unfolded storable_nic_def]
  from storable have meta: "storable_metadata sha3 n"
    and st: "storable_optional_status nicst_status (has_conditions nicst_status) (\<lambda>s. list_all domain_reference (nicst_public_ip_refs s)) (nic_status n)"
    by simp_all
  show ?thesis
    by (rule nic_conditions.comes_back [OF st, where message = "''failed to convert resource state to CR''"])
      (use storable in \<open>simp add: survives_def nic_to_cr_def nic_from_cr_def read_cr_presents Let_def
        workspace_regional_metadata_back [OF meta] nic_back_def nic_read resolve_simps nic_spec_comes_back\<close>)
qed

interpretation nic_store: stored_resource sha3 "nic_to_cr sha3" "\<lambda>decode. nic_from_cr decode sha3"
    "storable_nic sha3" nic_back "\<lambda>n. PlainScope (own_scope n)" for sha3
  by unfold_locales (rule nic_comes_back)

subsection \<open>\<^verbatim>\<open>network/v1/public-ip/backend/kubernetes\<close>\<close>

record public_ip_cr_spec =
  pics_address :: string
  pics_version :: ip_version

definition public_ip_gvk :: gvk where
  "public_ip_gvk = \<lparr>gvk_group = ''network.v1.secapi.cloud'', gvk_version = ''v1'', gvk_kind = ''PublicIP''\<rparr>"

definition public_ip_status_from_cr :: "public_ip_status \<Rightarrow> public_ip_status" where
  "public_ip_status_from_cr s =
    \<lparr>pist_status = status_from_cr (pist_status s),
     pist_attached_to = map_option reference_from_cr (pist_attached_to s),
     pist_ip_address = pist_ip_address s\<rparr>"

definition public_ip_status_to_cr :: "public_ip_status \<Rightarrow> status \<Rightarrow> go_error + public_ip_status" where
  "public_ip_status_to_cr s converted =
    Inr \<lparr>pist_status = converted, pist_attached_to = map_option reference_to_cr (pist_attached_to s),
         pist_ip_address = pist_ip_address s\<rparr>"

definition public_ip_from_cr ::
  "('u, public_ip_cr_spec, public_ip_status) decoder \<Rightarrow> (string \<Rightarrow> string) \<Rightarrow> time
   \<Rightarrow> ('u, public_ip_cr_spec, public_ip_status) client_object \<Rightarrow> go_error + public_ip" where
  "public_ip_from_cr decode sha3 now obj =
    (case read_cr decode ''PublicIP'' obj of
       Inl err \<Rightarrow> Inl err
     | Inr cr \<Rightarrow>
         (let st = optional_status_from_cr public_ip_status_from_cr (\<lambda>st. \<lparr>pist_status = st, pist_attached_to = None, pist_ip_address = []\<rparr>) now (cr_status cr) in
          Inr (regional_metadata.extend (workspace_regional_metadata sha3 cr)
                 (public_ip.fields (pics_address (cr_spec cr)) (ip_version_from_cr (pics_version (cr_spec cr))) (Some st)))))"

definition public_ip_to_cr ::
  "(string \<Rightarrow> string) \<Rightarrow> public_ip option \<Rightarrow> go_error + (public_ip_cr_spec, public_ip_status) custom_resource" where
  "public_ip_to_cr sha3 p =
    (case p of
       None \<Rightarrow> Inl (GoError ''public ip is nil'')
     | Some p \<Rightarrow>
         (let labels = object_labels sha3 (md_labels p) (workspace_labels p);
              spec = \<lparr>pics_address = pi_address p, pics_version = ip_version_to_cr (pi_ip_version p)\<rparr> in
          case optional_status_to_cr (''failed to convert resource state to CR'') pist_status
                 (has_conditions pist_status) public_ip_status_to_cr (pi_status p) of
            Inl err \<Rightarrow> Inl err
          | Inr st \<Rightarrow>
              Inr (new_object public_ip_gvk (compute_namespace sha3 (own_scope p)) labels [] p spec st)))"

text \<open>What can be stored, and what a reader gets.\<close>

definition storable_public_ip :: "(string \<Rightarrow> string) \<Rightarrow> public_ip \<Rightarrow> bool" where
  "storable_public_ip sha3 p \<longleftrightarrow>
     storable_metadata sha3 p \<and>
     known_ip_version (pi_ip_version p) \<and>
     storable_optional_status pist_status (has_conditions pist_status) (\<lambda>s. pred_option domain_reference (pist_attached_to s)) (pi_status p)"

definition public_ip_back :: "time \<Rightarrow> string \<Rightarrow> time \<Rightarrow> time option \<Rightarrow> public_ip \<Rightarrow> public_ip" where
  "public_ip_back now v c d p = (stamped v c d p)\<lparr>pi_status := Some (status_back now (has_conditions pist_status)
     (\<lambda>s. s) (\<lambda>st. \<lparr>pist_status = st, pist_attached_to = None, pist_ip_address = []\<rparr>) (pi_status p))\<rparr>"

interpretation public_ip_conditions: status_conversion pist_status "has_conditions pist_status" "\<lambda>s. pred_option domain_reference (pist_attached_to s)"
    "\<lambda>s. s" public_ip_status_to_cr public_ip_status_from_cr "\<lambda>st. \<lparr>pist_status = st, pist_attached_to = None, pist_ip_address = []\<rparr>"
  by unfold_locales (simp add: public_ip_status_to_cr_def public_ip_status_from_cr_def option.map_comp)

lemma public_ip_read:
  "regional_metadata.extend (regional_back v c d p) (public_ip.fields (pi_address p) (pi_ip_version p) st) =
     (stamped v c d p)\<lparr>pi_status := st\<rparr>"
  by (cases p) (simp add: metadata_back_defs public_ip.defs)

lemma public_ip_comes_back:
  assumes "storable_public_ip sha3 p"
  shows "survives sha3 (public_ip_to_cr sha3) (\<lambda>decode. public_ip_from_cr decode sha3) public_ip_back
    (\<lambda>p. PlainScope (own_scope p)) p"
proof -
  note storable = assms [unfolded storable_public_ip_def]
  from storable have meta: "storable_metadata sha3 p"
    and st: "storable_optional_status pist_status (has_conditions pist_status) (\<lambda>s. pred_option domain_reference (pist_attached_to s)) (pi_status p)"
    by simp_all
  show ?thesis
    by (rule public_ip_conditions.comes_back [OF st, where message = "''failed to convert resource state to CR''"])
      (use storable in \<open>simp add: survives_def public_ip_to_cr_def public_ip_from_cr_def read_cr_presents Let_def
        workspace_regional_metadata_back [OF meta] public_ip_back_def public_ip_read resolve_simps \<close>)
qed

interpretation public_ip_store: stored_resource sha3 "public_ip_to_cr sha3" "\<lambda>decode. public_ip_from_cr decode sha3"
    "storable_public_ip sha3" public_ip_back "\<lambda>p. PlainScope (own_scope p)" for sha3
  by unfold_locales (rule public_ip_comes_back)

subsection \<open>\<^verbatim>\<open>network/v1/route-table/backend/kubernetes\<close>\<close>

record route_table_cr_spec =
  rtcs_routes :: "route_spec list"

definition route_from_cr :: "route_spec \<Rightarrow> route_spec" where
  "route_from_cr s = \<lparr>rs_destination = rs_destination s, rs_target_ref = reference_from_cr (rs_target_ref s)\<rparr>"

definition route_to_cr :: "route_spec \<Rightarrow> route_spec" where
  "route_to_cr s = \<lparr>rs_destination = rs_destination s, rs_target_ref = reference_to_cr (rs_target_ref s)\<rparr>"

lemma routes_come_back:
  "list_all (\<lambda>s. domain_reference (rs_target_ref s)) rs \<Longrightarrow> map (route_from_cr \<circ> route_to_cr) rs = rs"
  by (induction rs) (simp_all add: route_from_cr_def route_to_cr_def)

definition route_table_gvk :: gvk where
  "route_table_gvk = \<lparr>gvk_group = ''network.v1.secapi.cloud'', gvk_version = ''v1'', gvk_kind = ''RouteTable''\<rparr>"

definition route_table_status_from_cr :: "route_table_status \<Rightarrow> route_table_status" where
  "route_table_status_from_cr s =
    \<lparr>rtst_status = status_from_cr (rtst_status s), rtst_routes = map status_from_cr (rtst_routes s)\<rparr>"

definition route_table_status_to_cr :: "route_table_status \<Rightarrow> status \<Rightarrow> go_error + route_table_status" where
  "route_table_status_to_cr s converted =
    (case statuses_to_cr ''failed to convert route status state to CR'' (rtst_routes s) of
       Inl err \<Rightarrow> Inl err
     | Inr routes \<Rightarrow> Inr \<lparr>rtst_status = converted, rtst_routes = routes\<rparr>)"

definition route_table_from_cr ::
  "('u, route_table_cr_spec, route_table_status) decoder \<Rightarrow> (string \<Rightarrow> string) \<Rightarrow> time
   \<Rightarrow> ('u, route_table_cr_spec, route_table_status) client_object \<Rightarrow> go_error + route_table" where
  "route_table_from_cr decode sha3 now obj =
    (case read_cr decode ''RouteTable'' obj of
       Inl err \<Rightarrow> Inl err
     | Inr cr \<Rightarrow>
         (let st = optional_status_from_cr route_table_status_from_cr (\<lambda>st. \<lparr>rtst_status = st, rtst_routes = []\<rparr>) now (cr_status cr) in
          Inr (regional_network_metadata.extend (network_regional_metadata sha3 cr)
                 (route_table.fields (map route_from_cr (rtcs_routes (cr_spec cr))) (Some st)))))"

definition route_table_to_cr ::
  "(string \<Rightarrow> string) \<Rightarrow> route_table option \<Rightarrow> go_error + (route_table_cr_spec, route_table_status) custom_resource" where
  "route_table_to_cr sha3 p =
    (case p of
       None \<Rightarrow> Inl (GoError ''route table is nil'')
     | Some rt \<Rightarrow>
         (let labels = object_labels sha3 (md_labels rt) (network_labels rt);
              spec = \<lparr>rtcs_routes = map route_to_cr (rt_routes rt)\<rparr> in
          case optional_status_to_cr (''failed to convert resource state to CR'') rtst_status
                 (has_conditions rtst_status) route_table_status_to_cr (rt_status rt) of
            Inl err \<Rightarrow> Inl err
          | Inr st \<Rightarrow>
              Inr (new_object route_table_gvk (compute_network_namespace sha3 (own_network_scope rt)) labels [] rt spec st)))"

text \<open>What can be stored, and what a reader gets.\<close>

definition storable_route_table :: "(string \<Rightarrow> string) \<Rightarrow> route_table \<Rightarrow> bool" where
  "storable_route_table sha3 rt \<longleftrightarrow>
     storable_metadata sha3 rt \<and>
     md_network rt \<noteq> [] \<and>
     list_all (\<lambda>s. domain_reference (rs_target_ref s)) (rt_routes rt) \<and>
     storable_optional_status rtst_status (has_conditions rtst_status) (\<lambda>s. list_all storable_status (rtst_routes s)) (rt_status rt)"

definition route_table_back :: "time \<Rightarrow> string \<Rightarrow> time \<Rightarrow> time option \<Rightarrow> route_table \<Rightarrow> route_table" where
  "route_table_back now v c d rt = (stamped v c d rt)\<lparr>rt_status := Some (status_back now (has_conditions rtst_status)
     (\<lambda>s. s) (\<lambda>st. \<lparr>rtst_status = st, rtst_routes = []\<rparr>) (rt_status rt))\<rparr>"

interpretation route_table_conditions: status_conversion rtst_status "has_conditions rtst_status" "\<lambda>s. list_all storable_status (rtst_routes s)"
    "\<lambda>s. s" route_table_status_to_cr route_table_status_from_cr "\<lambda>st. \<lparr>rtst_status = st, rtst_routes = []\<rparr>"
  by unfold_locales (force simp: route_table_status_to_cr_def route_table_status_from_cr_def
      dest: statuses_back [where message = "''failed to convert route status state to CR''"])

lemma route_table_read:
  "regional_network_metadata.extend (network_regional_back v c d rt) (route_table.fields (rt_routes rt) st) =
     (stamped v c d rt)\<lparr>rt_status := st\<rparr>"
  by (cases rt) (simp add: metadata_back_defs route_table.defs)

lemma route_table_comes_back:
  assumes "storable_route_table sha3 rt"
  shows "survives sha3 (route_table_to_cr sha3) (\<lambda>decode. route_table_from_cr decode sha3) route_table_back
    (\<lambda>rt. NetworkScoped (own_network_scope rt)) rt"
proof -
  note storable = assms [unfolded storable_route_table_def]
  from storable have meta: "storable_metadata sha3 rt" and home: "md_network rt \<noteq> []"
    and st: "storable_optional_status rtst_status (has_conditions rtst_status) (\<lambda>s. list_all storable_status (rtst_routes s)) (rt_status rt)"
    by simp_all
  show ?thesis
    by (rule route_table_conditions.comes_back [OF st, where message = "''failed to convert resource state to CR''"])
      (use storable in \<open>simp add: survives_def route_table_to_cr_def route_table_from_cr_def read_cr_presents Let_def
        network_regional_metadata_back [OF meta] route_table_back_def route_table_read resolve_simps routes_come_back\<close>)
qed

interpretation route_table_store: stored_resource sha3 "route_table_to_cr sha3" "\<lambda>decode. route_table_from_cr decode sha3"
    "storable_route_table sha3" route_table_back "\<lambda>rt. NetworkScoped (own_network_scope rt)" for sha3
  by unfold_locales (rule route_table_comes_back)

subsection \<open>\<^verbatim>\<open>network/v1/security-group-rule/backend/kubernetes\<close>\<close>

text \<open>The rule of the object also has annotations, which the converter does not set.\<close>

record security_group_rule_cr_spec =
  rcs_annotations :: strmap
  rcs_direction :: string
  rcs_icmp :: "icmp_config option"
  rcs_ports :: "ports option"
  rcs_protocol :: string
  rcs_source_ref :: "reference list"
  rcs_version :: ip_version

definition security_group_rule_gvk :: gvk where
  "security_group_rule_gvk = \<lparr>gvk_group = ''network.v1.secapi.cloud'', gvk_version = ''v1'', gvk_kind = ''SecurityGroupRule''\<rparr>"

definition security_group_rule_spec_from_cr :: "security_group_rule_cr_spec \<Rightarrow> security_group_rule_spec" where
  "security_group_rule_spec_from_cr s =
    \<lparr>sgrs_direction = rcs_direction s,
     sgrs_icmp = map_option (\<lambda>c. \<lparr>icmp_code = icmp_code c, icmp_type = icmp_type c\<rparr>) (rcs_icmp s),
     sgrs_ports = map_option (\<lambda>p. \<lparr>ports_from = ports_from p, ports_list = ports_list p, ports_to = ports_to p\<rparr>)
       (rcs_ports s),
     sgrs_protocol = rcs_protocol s, sgrs_source_ref = map reference_from_cr (rcs_source_ref s),
     sgrs_version = ip_version_from_cr (rcs_version s)\<rparr>"

definition security_group_rule_spec_to_cr :: "security_group_rule_spec \<Rightarrow> security_group_rule_cr_spec" where
  "security_group_rule_spec_to_cr s =
    \<lparr>rcs_annotations = [], rcs_direction = sgrs_direction s,
     rcs_icmp = map_option (\<lambda>c. \<lparr>icmp_code = icmp_code c, icmp_type = icmp_type c\<rparr>) (sgrs_icmp s),
     rcs_ports = map_option (\<lambda>p. \<lparr>ports_from = ports_from p, ports_list = ports_list p, ports_to = ports_to p\<rparr>)
       (sgrs_ports s),
     rcs_protocol = sgrs_protocol s, rcs_source_ref = map reference_to_cr (sgrs_source_ref s),
     rcs_version = ip_version_to_cr (sgrs_version s)\<rparr>"

definition storable_rule :: "security_group_rule_spec \<Rightarrow> bool" where
  "storable_rule s \<longleftrightarrow> known_ip_version (sgrs_version s) \<and> list_all domain_reference (sgrs_source_ref s)"

lemma rule_comes_back:
  "storable_rule s \<Longrightarrow> security_group_rule_spec_from_cr (security_group_rule_spec_to_cr s) = s"
  by (cases "sgrs_icmp s"; cases "sgrs_ports s")
    (simp_all add: storable_rule_def security_group_rule_spec_from_cr_def security_group_rule_spec_to_cr_def)

lemma rules_come_back:
  "list_all storable_rule ss \<Longrightarrow> map (security_group_rule_spec_from_cr \<circ> security_group_rule_spec_to_cr) ss = ss"
  by (induction ss) (simp_all add: rule_comes_back)

definition security_group_rule_status_from_cr :: "status \<Rightarrow> security_group_rule_status" where
  "security_group_rule_status_from_cr st = \<lparr>sgrst_status = status_from_cr st\<rparr>"

definition security_group_rule_status_to_cr :: "security_group_rule_status \<Rightarrow> status \<Rightarrow> go_error + status" where
  "security_group_rule_status_to_cr s converted = Inr converted"

definition security_group_rule_from_cr ::
  "('u, security_group_rule_cr_spec, status) decoder \<Rightarrow> (string \<Rightarrow> string) \<Rightarrow> time
   \<Rightarrow> ('u, security_group_rule_cr_spec, status) client_object \<Rightarrow> go_error + security_group_rule" where
  "security_group_rule_from_cr decode sha3 now obj =
    (case read_cr decode ''SecurityGroupRule'' obj of
       Inl err \<Rightarrow> Inl err
     | Inr cr \<Rightarrow>
         (let st = optional_status_from_cr security_group_rule_status_from_cr (\<lambda>st. \<lparr>sgrst_status = st\<rparr>) now (cr_status cr) in
          Inr (regional_metadata.extend (workspace_regional_metadata sha3 cr)
                 (security_group_rule.fields (security_group_rule_spec_from_cr (cr_spec cr)) (Some st)))))"

definition security_group_rule_to_cr ::
  "(string \<Rightarrow> string) \<Rightarrow> security_group_rule option \<Rightarrow> go_error + (security_group_rule_cr_spec, status) custom_resource" where
  "security_group_rule_to_cr sha3 p =
    (case p of
       None \<Rightarrow> Inl (GoError ''security group rule is nil'')
     | Some r \<Rightarrow>
         (let labels = object_labels sha3 (md_labels r) (workspace_labels r);
              spec = security_group_rule_spec_to_cr (sgr_spec r) in
          case optional_status_to_cr (''failed to convert resource state to CR'') sgrst_status
                 (has_conditions sgrst_status) security_group_rule_status_to_cr (sgr_status r) of
            Inl err \<Rightarrow> Inl err
          | Inr st \<Rightarrow>
              Inr (new_object security_group_rule_gvk (compute_namespace sha3 (own_scope r)) labels [] r spec st)))"

text \<open>What can be stored, and what a reader gets.\<close>

definition storable_security_group_rule :: "(string \<Rightarrow> string) \<Rightarrow> security_group_rule \<Rightarrow> bool" where
  "storable_security_group_rule sha3 r \<longleftrightarrow>
     storable_metadata sha3 r \<and>
     storable_rule (sgr_spec r) \<and>
     storable_optional_status sgrst_status (has_conditions sgrst_status) (\<lambda>s. True) (sgr_status r)"

definition security_group_rule_back :: "time \<Rightarrow> string \<Rightarrow> time \<Rightarrow> time option \<Rightarrow> security_group_rule \<Rightarrow> security_group_rule" where
  "security_group_rule_back now v c d r = (stamped v c d r)\<lparr>sgr_status := Some (status_back now (has_conditions sgrst_status)
     (\<lambda>s. s) (\<lambda>st. \<lparr>sgrst_status = st\<rparr>) (sgr_status r))\<rparr>"

interpretation security_group_rule_conditions: status_conversion sgrst_status "has_conditions sgrst_status" "\<lambda>s. True"
    "\<lambda>s. s" security_group_rule_status_to_cr security_group_rule_status_from_cr "\<lambda>st. \<lparr>sgrst_status = st\<rparr>"
  by unfold_locales (simp add: security_group_rule_status_to_cr_def security_group_rule_status_from_cr_def)

lemma security_group_rule_read:
  "regional_metadata.extend (regional_back v c d r) (security_group_rule.fields (sgr_spec r) st) =
     (stamped v c d r)\<lparr>sgr_status := st\<rparr>"
  by (cases r) (simp add: metadata_back_defs security_group_rule.defs)

lemma security_group_rule_comes_back:
  assumes "storable_security_group_rule sha3 r"
  shows "survives sha3 (security_group_rule_to_cr sha3) (\<lambda>decode. security_group_rule_from_cr decode sha3) security_group_rule_back
    (\<lambda>r. PlainScope (own_scope r)) r"
proof -
  note storable = assms [unfolded storable_security_group_rule_def]
  from storable have meta: "storable_metadata sha3 r"
    and st: "storable_optional_status sgrst_status (has_conditions sgrst_status) (\<lambda>s. True) (sgr_status r)"
    by simp_all
  show ?thesis
    by (rule security_group_rule_conditions.comes_back [OF st, where message = "''failed to convert resource state to CR''"])
      (use storable in \<open>simp add: survives_def security_group_rule_to_cr_def security_group_rule_from_cr_def read_cr_presents Let_def
        workspace_regional_metadata_back [OF meta] security_group_rule_back_def security_group_rule_read resolve_simps rule_comes_back\<close>)
qed

interpretation security_group_rule_store: stored_resource sha3 "security_group_rule_to_cr sha3" "\<lambda>decode. security_group_rule_from_cr decode sha3"
    "storable_security_group_rule sha3" security_group_rule_back "\<lambda>r. PlainScope (own_scope r)" for sha3
  by unfold_locales (rule security_group_rule_comes_back)

subsection \<open>\<^verbatim>\<open>network/v1/security-group/backend/kubernetes\<close>\<close>

text \<open>The package has its own copy of the two converters of a rule.\<close>

record security_group_cr_spec =
  sgcs_rule_refs :: "reference list"
  sgcs_rules :: "security_group_rule_cr_spec list"

definition security_group_gvk :: gvk where
  "security_group_gvk = \<lparr>gvk_group = ''network.v1.secapi.cloud'', gvk_version = ''v1'', gvk_kind = ''SecurityGroup''\<rparr>"

definition security_group_status_from_cr :: "security_group_status \<Rightarrow> security_group_status" where
  "security_group_status_from_cr s =
    \<lparr>sgst_status = status_from_cr (sgst_status s), sgst_rules = map status_from_cr (sgst_rules s)\<rparr>"

definition security_group_status_to_cr :: "security_group_status \<Rightarrow> status \<Rightarrow> go_error + security_group_status" where
  "security_group_status_to_cr s converted =
    (case statuses_to_cr ''failed to convert rule status state to CR'' (sgst_rules s) of
       Inl err \<Rightarrow> Inl err
     | Inr rules \<Rightarrow> Inr \<lparr>sgst_status = converted, sgst_rules = rules\<rparr>)"

definition security_group_from_cr ::
  "('u, security_group_cr_spec, security_group_status) decoder \<Rightarrow> (string \<Rightarrow> string) \<Rightarrow> time
   \<Rightarrow> ('u, security_group_cr_spec, security_group_status) client_object \<Rightarrow> go_error + security_group" where
  "security_group_from_cr decode sha3 now obj =
    (case read_cr decode ''SecurityGroup'' obj of
       Inl err \<Rightarrow> Inl err
     | Inr cr \<Rightarrow>
         (let st = optional_status_from_cr security_group_status_from_cr (\<lambda>st. \<lparr>sgst_status = st, sgst_rules = []\<rparr>) now (cr_status cr) in
          Inr (regional_metadata.extend (workspace_regional_metadata sha3 cr)
                 (security_group.fields (map reference_from_cr (sgcs_rule_refs (cr_spec cr)))
                    (map security_group_rule_spec_from_cr (sgcs_rules (cr_spec cr))) (Some st)))))"

definition security_group_to_cr ::
  "(string \<Rightarrow> string) \<Rightarrow> security_group option \<Rightarrow> go_error + (security_group_cr_spec, security_group_status) custom_resource" where
  "security_group_to_cr sha3 p =
    (case p of
       None \<Rightarrow> Inl (GoError ''security group is nil'')
     | Some sg \<Rightarrow>
         (let labels = object_labels sha3 (md_labels sg) (workspace_labels sg);
              spec = \<lparr>sgcs_rule_refs = map reference_to_cr (sg_rule_refs sg),
                      sgcs_rules = map security_group_rule_spec_to_cr (sg_rules sg)\<rparr> in
          case optional_status_to_cr (''failed to convert resource state to CR'') sgst_status
                 (has_conditions sgst_status) security_group_status_to_cr (sg_status sg) of
            Inl err \<Rightarrow> Inl err
          | Inr st \<Rightarrow>
              Inr (new_object security_group_gvk (compute_namespace sha3 (own_scope sg)) labels [] sg spec st)))"

text \<open>What can be stored, and what a reader gets.\<close>

definition storable_security_group :: "(string \<Rightarrow> string) \<Rightarrow> security_group \<Rightarrow> bool" where
  "storable_security_group sha3 sg \<longleftrightarrow>
     storable_metadata sha3 sg \<and>
     list_all domain_reference (sg_rule_refs sg) \<and>
     list_all storable_rule (sg_rules sg) \<and>
     storable_optional_status sgst_status (has_conditions sgst_status) (\<lambda>s. list_all storable_status (sgst_rules s)) (sg_status sg)"

definition security_group_back :: "time \<Rightarrow> string \<Rightarrow> time \<Rightarrow> time option \<Rightarrow> security_group \<Rightarrow> security_group" where
  "security_group_back now v c d sg = (stamped v c d sg)\<lparr>sg_status := Some (status_back now (has_conditions sgst_status)
     (\<lambda>s. s) (\<lambda>st. \<lparr>sgst_status = st, sgst_rules = []\<rparr>) (sg_status sg))\<rparr>"

interpretation security_group_conditions: status_conversion sgst_status "has_conditions sgst_status" "\<lambda>s. list_all storable_status (sgst_rules s)"
    "\<lambda>s. s" security_group_status_to_cr security_group_status_from_cr "\<lambda>st. \<lparr>sgst_status = st, sgst_rules = []\<rparr>"
  by unfold_locales (force simp: security_group_status_to_cr_def security_group_status_from_cr_def
      dest: statuses_back [where message = "''failed to convert rule status state to CR''"])

lemma security_group_read:
  "regional_metadata.extend (regional_back v c d sg) (security_group.fields (sg_rule_refs sg) (sg_rules sg) st) =
     (stamped v c d sg)\<lparr>sg_status := st\<rparr>"
  by (cases sg) (simp add: metadata_back_defs security_group.defs)

lemma security_group_comes_back:
  assumes "storable_security_group sha3 sg"
  shows "survives sha3 (security_group_to_cr sha3) (\<lambda>decode. security_group_from_cr decode sha3) security_group_back
    (\<lambda>sg. PlainScope (own_scope sg)) sg"
proof -
  note storable = assms [unfolded storable_security_group_def]
  from storable have meta: "storable_metadata sha3 sg"
    and st: "storable_optional_status sgst_status (has_conditions sgst_status) (\<lambda>s. list_all storable_status (sgst_rules s)) (sg_status sg)"
    by simp_all
  show ?thesis
    by (rule security_group_conditions.comes_back [OF st, where message = "''failed to convert resource state to CR''"])
      (use storable in \<open>simp add: survives_def security_group_to_cr_def security_group_from_cr_def read_cr_presents Let_def
        workspace_regional_metadata_back [OF meta] security_group_back_def security_group_read resolve_simps rules_come_back\<close>)
qed

interpretation security_group_store: stored_resource sha3 "security_group_to_cr sha3" "\<lambda>decode. security_group_from_cr decode sha3"
    "storable_security_group sha3" security_group_back "\<lambda>sg. PlainScope (own_scope sg)" for sha3
  by unfold_locales (rule security_group_comes_back)

subsection \<open>\<^verbatim>\<open>network/v1/subnet/backend/kubernetes\<close>\<close>

record subnet_cr_spec =
  sncs_cidr :: cidr
  sncs_route_table_ref :: reference
  sncs_sku_ref :: "reference option"
  sncs_zone :: string

definition subnet_gvk :: gvk where
  "subnet_gvk = \<lparr>gvk_group = ''network.v1.secapi.cloud'', gvk_version = ''v1'', gvk_kind = ''Subnet''\<rparr>"

definition subnet_spec_from_cr :: "subnet_cr_spec \<Rightarrow> subnet_spec" where
  "subnet_spec_from_cr s =
    \<lparr>sns_cidr = cidr_from_cr (sncs_cidr s), sns_route_table_ref = reference_from_cr (sncs_route_table_ref s),
     sns_sku_ref = optional_ref_from_cr (sncs_sku_ref s), sns_zone = sncs_zone s\<rparr>"

definition subnet_spec_to_cr :: "subnet_spec \<Rightarrow> subnet_cr_spec" where
  "subnet_spec_to_cr s =
    \<lparr>sncs_cidr = cidr_to_cr (sns_cidr s), sncs_route_table_ref = reference_to_cr (sns_route_table_ref s),
     sncs_sku_ref = optional_ref_to_cr (sns_sku_ref s), sncs_zone = sns_zone s\<rparr>"

definition subnet_status_from_cr :: "subnet_status \<Rightarrow> subnet_status" where
  "subnet_status_from_cr s =
    \<lparr>snst_status = status_from_cr (snst_status s), snst_cidr = map_option cidr_from_cr (snst_cidr s),
     snst_route_table_ref = map_option reference_from_cr (snst_route_table_ref s)\<rparr>"

definition subnet_status_to_cr :: "subnet_status \<Rightarrow> status \<Rightarrow> go_error + subnet_status" where
  "subnet_status_to_cr s converted =
    Inr \<lparr>snst_status = converted, snst_cidr = map_option cidr_to_cr (snst_cidr s),
         snst_route_table_ref = map_option reference_to_cr (snst_route_table_ref s)\<rparr>"

definition subnet_from_cr ::
  "('u, subnet_cr_spec, subnet_status) decoder \<Rightarrow> (string \<Rightarrow> string) \<Rightarrow> time
   \<Rightarrow> ('u, subnet_cr_spec, subnet_status) client_object \<Rightarrow> go_error + subnet" where
  "subnet_from_cr decode sha3 now obj =
    (case read_cr decode ''Subnet'' obj of
       Inl err \<Rightarrow> Inl err
     | Inr cr \<Rightarrow>
         (let st = optional_status_from_cr subnet_status_from_cr (\<lambda>st. \<lparr>snst_status = st, snst_cidr = None, snst_route_table_ref = None\<rparr>) now (cr_status cr) in
          Inr (regional_network_metadata.extend (network_regional_metadata sha3 cr)
                 (subnet.fields (subnet_spec_from_cr (cr_spec cr)) (Some st)))))"

definition subnet_to_cr ::
  "(string \<Rightarrow> string) \<Rightarrow> subnet option \<Rightarrow> go_error + (subnet_cr_spec, subnet_status) custom_resource" where
  "subnet_to_cr sha3 p =
    (case p of
       None \<Rightarrow> Inl (GoError ''subnet is nil'')
     | Some s \<Rightarrow>
         (let labels = object_labels sha3 (md_labels s) (network_labels s);
              spec = subnet_spec_to_cr (sn_spec s) in
          case optional_status_to_cr (''failed to convert resource state to CR'') snst_status
                 (has_conditions snst_status) subnet_status_to_cr (sn_status s) of
            Inl err \<Rightarrow> Inl err
          | Inr st \<Rightarrow>
              Inr (new_object subnet_gvk (compute_network_namespace sha3 (own_network_scope s)) labels [] s spec st)))"

text \<open>What can be stored, and what a reader gets.\<close>

definition storable_subnet :: "(string \<Rightarrow> string) \<Rightarrow> subnet \<Rightarrow> bool" where
  "storable_subnet sha3 s \<longleftrightarrow>
     storable_metadata sha3 s \<and>
     md_network s \<noteq> [] \<and>
     domain_reference (sns_route_table_ref (sn_spec s)) \<and>
     domain_reference (sns_sku_ref (sn_spec s)) \<and>
     storable_optional_status snst_status (has_conditions snst_status) (\<lambda>s. pred_option domain_reference (snst_route_table_ref s)) (sn_status s)"

definition subnet_back :: "time \<Rightarrow> string \<Rightarrow> time \<Rightarrow> time option \<Rightarrow> subnet \<Rightarrow> subnet" where
  "subnet_back now v c d s = (stamped v c d s)\<lparr>sn_status := Some (status_back now (has_conditions snst_status)
     (\<lambda>s. s) (\<lambda>st. \<lparr>snst_status = st, snst_cidr = None, snst_route_table_ref = None\<rparr>) (sn_status s))\<rparr>"

lemma subnet_spec_comes_back:
  "domain_reference (sns_route_table_ref s) \<Longrightarrow> domain_reference (sns_sku_ref s) \<Longrightarrow>
   subnet_spec_from_cr (subnet_spec_to_cr s) = s"
  by (simp add: subnet_spec_from_cr_def subnet_spec_to_cr_def)

interpretation subnet_conditions: status_conversion snst_status "has_conditions snst_status" "\<lambda>s. pred_option domain_reference (snst_route_table_ref s)"
    "\<lambda>s. s" subnet_status_to_cr subnet_status_from_cr "\<lambda>st. \<lparr>snst_status = st, snst_cidr = None, snst_route_table_ref = None\<rparr>"
  by unfold_locales (simp add: subnet_status_to_cr_def subnet_status_from_cr_def option.map_comp option.map_id)

lemma subnet_read:
  "regional_network_metadata.extend (network_regional_back v c d s) (subnet.fields (sn_spec s) st) =
     (stamped v c d s)\<lparr>sn_status := st\<rparr>"
  by (cases s) (simp add: metadata_back_defs subnet.defs)

lemma subnet_comes_back:
  assumes "storable_subnet sha3 s"
  shows "survives sha3 (subnet_to_cr sha3) (\<lambda>decode. subnet_from_cr decode sha3) subnet_back
    (\<lambda>s. NetworkScoped (own_network_scope s)) s"
proof -
  note storable = assms [unfolded storable_subnet_def]
  from storable have meta: "storable_metadata sha3 s" and home: "md_network s \<noteq> []"
    and st: "storable_optional_status snst_status (has_conditions snst_status) (\<lambda>s. pred_option domain_reference (snst_route_table_ref s)) (sn_status s)"
    by simp_all
  show ?thesis
    by (rule subnet_conditions.comes_back [OF st, where message = "''failed to convert resource state to CR''"])
      (use storable in \<open>simp add: survives_def subnet_to_cr_def subnet_from_cr_def read_cr_presents Let_def
        network_regional_metadata_back [OF meta] subnet_back_def subnet_read resolve_simps subnet_spec_comes_back\<close>)
qed

interpretation subnet_store: stored_resource sha3 "subnet_to_cr sha3" "\<lambda>decode. subnet_from_cr decode sha3"
    "storable_subnet sha3" subnet_back "\<lambda>s. NetworkScoped (own_network_scope s)" for sha3
  by unfold_locales (rule subnet_comes_back)

end
