(* ===== verification/Json_Text.thy ===== *)
theory Json_Text
  imports Resource_Model
begin

section \<open>Values as text: \<^verbatim>\<open>framework/backend/kubernetes/convert/convert.go\<close>\<close>

text \<open>
  The spec of a workspace maps keys to arbitrary JSON values in the domain and to strings in the
  stored object. A string is its bytes. Valid UTF-8 and \<^verbatim>\<open>strings.ToValidUTF8\<close> are written out after the
  standard library's \<^verbatim>\<open>unicode/utf8\<close>; the JSON codec of apimachinery is a parameter.
\<close>

subsection \<open>UTF-8\<close>

definition byte :: "char \<Rightarrow> nat" where
  "byte c = of_char c"

definition continuation :: "nat \<Rightarrow> nat \<Rightarrow> string \<Rightarrow> bool" where
  "continuation lo hi s = (case s of [] \<Rightarrow> False | c # cs \<Rightarrow> lo \<le> byte c \<and> byte c \<le> hi)"

text \<open>The number of bytes of the rune at the start, 0 when there is none or it is not well formed.\<close>

definition rune_width :: "string \<Rightarrow> nat" where
  "rune_width s =
    (case s of
       [] \<Rightarrow> 0
     | c # cs \<Rightarrow>
         (let b = byte c;
              tail = (\<lambda>n. continuation 128 191 (drop n s));
              second = (\<lambda>lo hi. continuation lo hi cs) in
          if b < 128 then 1
          else if b < 194 then 0
          else if b < 224 then (if second 128 191 then 2 else 0)
          else if b < 240 then
            (if (if b = 224 then second 160 191 else if b = 237 then second 128 159 else second 128 191) \<and> tail 2
             then 3 else 0)
          else if b < 245 then
            (if (if b = 240 then second 144 191 else if b = 244 then second 128 143 else second 128 191)
                \<and> tail 2 \<and> tail 3
             then 4 else 0)
          else 0))"

lemma rune_width_le: "rune_width s \<le> length s"
proof (cases s)
  case (Cons c cs)
  have "continuation lo hi t \<Longrightarrow> t \<noteq> []" for lo hi t by (cases t) (simp_all add: continuation_def)
  then have "continuation lo hi (drop n s) \<Longrightarrow> n < length s" for lo hi n
    by (metis drop_all leI)
  from this [of _ _ 1] this [of 128 191 2] this [of 128 191 3] show ?thesis
    unfolding rune_width_def Let_def using Cons by (simp add: Suc_le_eq) auto
qed (simp add: rune_width_def)

function valid_utf8 :: "string \<Rightarrow> bool" where
  "valid_utf8 s =
    (if s = [] then True
     else if rune_width s = 0 then False
     else valid_utf8 (drop (rune_width s) s))"
  by pat_completeness auto
termination by (relation "measure length") auto

declare valid_utf8.simps [simp del]

definition replacement_rune :: string where
  "replacement_rune = [char_of (239 :: nat), char_of (191 :: nat), char_of (189 :: nat)]"

text \<open>\<^verbatim>\<open>strings.ToValidUTF8\<close>: one replacement for every run of invalid bytes; \<open>invalid\<close> says that one has begun.\<close>

function to_valid_utf8 :: "bool \<Rightarrow> string \<Rightarrow> string" where
  "to_valid_utf8 invalid s =
    (if s = [] then []
     else if rune_width s = 0 then
       (if invalid then [] else replacement_rune) @ to_valid_utf8 True (tl s)
     else take (rune_width s) s @ to_valid_utf8 False (drop (rune_width s) s))"
  by pat_completeness auto
termination
  by (relation "measure (\<lambda>(i, s). length s)") (auto simp: neq_Nil_conv)

declare to_valid_utf8.simps [simp del]

subsection \<open>The two conversions\<close>

record json_codec =
  jc_marshal :: "json \<Rightarrow> string option"
  jc_unmarshal :: "string \<Rightarrow> json option"
  jc_sprint :: "json \<Rightarrow> string" \<comment> \<open>the format verb \<^verbatim>\<open>%v\<close>\<close>

definition interface_to_string :: "json_codec \<Rightarrow> json \<Rightarrow> string" where
  "interface_to_string codec input =
    (let input = (case input of JFloat t \<Rightarrow> if t = ''-0'' then JFloat ''0'' else input | _ \<Rightarrow> input);
         input = (case input of JString s \<Rightarrow> if \<not> valid_utf8 s then JString (to_valid_utf8 False s) else input
                    | _ \<Rightarrow> input) in
     case jc_marshal codec input of Some s \<Rightarrow> s | None \<Rightarrow> jc_sprint codec input)"

definition string_to_interface :: "json_codec \<Rightarrow> string \<Rightarrow> json" where
  "string_to_interface codec input =
    (case jc_unmarshal codec input of
       Some res \<Rightarrow> res
     | None \<Rightarrow> if \<not> valid_utf8 input then JString (to_valid_utf8 False input) else JString input)"

subsection \<open>Facts\<close>

lemma valid_utf8_unchanged: "valid_utf8 s \<Longrightarrow> to_valid_utf8 i s = s"
proof (induction s arbitrary: i rule: valid_utf8.induct)
  case (1 s)
  show ?case
  proof (cases "s = []")
    case False
    with 1 have "rune_width s \<noteq> 0" "valid_utf8 (drop (rune_width s) s)"
      by (metis valid_utf8.simps)+
    with False show ?thesis by (simp add: to_valid_utf8.simps [of i s] 1)
  qed (simp add: to_valid_utf8.simps)
qed

text \<open>The width of a rune depends on its own bytes only, so what \<^verbatim>\<open>ToValidUTF8\<close> returns is valid.\<close>

lemma continuation_take:
  "n < w \<Longrightarrow> w \<le> length s \<Longrightarrow> continuation lo hi (drop n (take w s @ t)) = continuation lo hi (drop n s)"
proof -
  assume "n < w" "w \<le> length s"
  then obtain c cs where "drop n s = c # cs" by (metis Cons_nth_drop_Suc order_less_le_trans)
  with \<open>n < w\<close> \<open>w \<le> length s\<close> show ?thesis
    by (simp add: continuation_def drop_take take_Cons' split: list.split)
qed

definition width_of :: "nat \<Rightarrow> (nat \<Rightarrow> nat \<Rightarrow> bool) \<Rightarrow> bool \<Rightarrow> bool \<Rightarrow> nat" where
  "width_of b second third fourth =
    (if b < 128 then 1
     else if b < 194 then 0
     else if b < 224 then (if second 128 191 then 2 else 0)
     else if b < 240 then
       (if (if b = 224 then second 160 191 else if b = 237 then second 128 159 else second 128 191) \<and> third
        then 3 else 0)
     else if b < 245 then
       (if (if b = 240 then second 144 191 else if b = 244 then second 128 143 else second 128 191)
           \<and> third \<and> fourth
        then 4 else 0)
     else 0)"

lemma rune_width_Cons:
  "rune_width (c # cs) = width_of (byte c) (\<lambda>lo hi. continuation lo hi (drop 1 (c # cs)))
     (continuation 128 191 (drop 2 (c # cs))) (continuation 128 191 (drop 3 (c # cs)))"
  unfolding rune_width_def width_of_def Let_def by simp

lemma width_of_stable:
  assumes "width_of b second third fourth = w" and "w \<noteq> 0"
    and "1 < w \<Longrightarrow> second' = second" and "2 < w \<Longrightarrow> third' = third" and "3 < w \<Longrightarrow> fourth' = fourth"
  shows "width_of b second' third' fourth' = w"
  using assms unfolding width_of_def by (cases "b < 128"; cases "b < 224"; cases "b < 240") (auto split: if_splits)

lemma rune_width_take:
  assumes "rune_width s \<noteq> 0"
  shows "rune_width (take (rune_width s) s @ t) = rune_width s"
proof -
  from assms obtain c cs where s: "s = c # cs" by (cases s) (auto simp: rune_width_def)
  define w where "w = rune_width s"
  have w: "w \<noteq> 0" "w \<le> length s" using assms rune_width_le by (simp_all add: w_def)
  define us where "us = take (w - 1) cs @ t"
  have split: "take w s @ t = c # us" using s w(1) by (cases w) (simp_all add: us_def)
  have at: "continuation lo hi (drop n (c # us)) = continuation lo hi (drop n (c # cs))" if "n < w" for lo hi n
    using continuation_take [OF that w(2), of lo hi t] unfolding split unfolding s .
  have "rune_width (c # us) = w"
    unfolding rune_width_Cons
    by (rule width_of_stable [OF w_def [unfolded s rune_width_Cons, symmetric] w(1)]) (simp_all only: at)
  then show ?thesis by (simp only: split w_def [symmetric])
qed

lemma valid_utf8_take: "rune_width s \<noteq> 0 \<Longrightarrow> valid_utf8 (take (rune_width s) s @ t) = valid_utf8 t"
proof -
  assume w: "rune_width s \<noteq> 0"
  then have "s \<noteq> []" by (auto simp: rune_width_def)
  with w rune_width_le [of s] rune_width_take [OF w, of t] show ?thesis
    by (subst valid_utf8.simps) simp
qed

lemma valid_utf8_replacement: "valid_utf8 (replacement_rune @ t) = valid_utf8 t"
proof -
  have "rune_width replacement_rune = 3" by code_simp
  then show ?thesis using valid_utf8_take [of replacement_rune t] by (simp add: replacement_rune_def)
qed

lemma to_valid_utf8_valid: "valid_utf8 (to_valid_utf8 i s)"
proof (induction i s rule: to_valid_utf8.induct)
  case (1 i s)
  show ?case
  proof (cases "s = [] \<or> rune_width s = 0")
    case True
    with 1 show ?thesis
      by (subst to_valid_utf8.simps) (auto simp: valid_utf8_replacement valid_utf8.simps [of "[]"])
  next
    case False
    with 1 show ?thesis by (subst to_valid_utf8.simps) (simp add: valid_utf8_take)
  qed
qed

text \<open>What the codec keeps: it writes the value and reads its own text as that value.\<close>

definition plain_value :: "json_codec \<Rightarrow> json \<Rightarrow> bool" where
  "plain_value codec v \<longleftrightarrow> v \<noteq> JFloat ''-0'' \<and> (case v of JString s \<Rightarrow> valid_utf8 s | _ \<Rightarrow> True) \<and>
     (case jc_marshal codec v of None \<Rightarrow> False | Some s \<Rightarrow> jc_unmarshal codec s = Some v)"

lemma plain_value_comes_back:
  "plain_value codec v \<Longrightarrow> string_to_interface codec (interface_to_string codec v) = v"
  by (cases v) (auto simp: plain_value_def interface_to_string_def string_to_interface_def split: option.splits)

end
