(* ===== verification/Resource_Conversion.thy ===== *)
theory Resource_Conversion
  imports Cr_Conversion Json_Text Instance_Handler
begin

section \<open>The converters of the other resources with a status\<close>

text \<open>
  The files \<^verbatim>\<open>conversion.go\<close> of workspace, block storage, image, instance, role and role assignment,
  on the plan of the network resources.
\<close>

subsection \<open>\<^verbatim>\<open>storage/v1/block-storage/backend/kubernetes\<close>\<close>

definition block_storage_gvk :: gvk where
  "block_storage_gvk = \<lparr>gvk_group = ''storage.v1.secapi.cloud'', gvk_version = ''v1'', gvk_kind = ''BlockStorage''\<rparr>"

definition block_storage_spec_from_cr :: "block_storage_spec \<Rightarrow> block_storage_spec" where
  "block_storage_spec_from_cr s =
    \<lparr>bss_size_gb = bss_size_gb s, bss_sku_ref = reference_from_cr (bss_sku_ref s),
     bss_source_image_ref = map_option reference_from_cr (bss_source_image_ref s)\<rparr>"

definition block_storage_spec_to_cr :: "block_storage_spec \<Rightarrow> block_storage_spec" where
  "block_storage_spec_to_cr s =
    \<lparr>bss_size_gb = bss_size_gb s, bss_sku_ref = reference_to_cr (bss_sku_ref s),
     bss_source_image_ref = map_option reference_to_cr (bss_source_image_ref s)\<rparr>"

definition block_storage_status_from_cr :: "block_storage_status \<Rightarrow> block_storage_status" where
  "block_storage_status_from_cr s =
    \<lparr>bsst_attached_to = map_option reference_from_cr (bsst_attached_to s), bsst_size_gb = bsst_size_gb s,
     bsst_status = status_from_cr (bsst_status s)\<rparr>"

definition block_storage_status_to_cr :: "block_storage_status \<Rightarrow> status \<Rightarrow> go_error + block_storage_status" where
  "block_storage_status_to_cr s converted =
    Inr \<lparr>bsst_attached_to = map_option reference_to_cr (bsst_attached_to s), bsst_size_gb = bsst_size_gb s,
         bsst_status = converted\<rparr>"

definition block_storage_from_cr ::
  "('u, block_storage_spec, block_storage_status) decoder \<Rightarrow> (string \<Rightarrow> string) \<Rightarrow> time
   \<Rightarrow> ('u, block_storage_spec, block_storage_status) client_object \<Rightarrow> go_error + block_storage" where
  "block_storage_from_cr decode sha3 now obj =
    (case read_cr decode ''BlockStorage'' obj of
       Inl err \<Rightarrow> Inl err
     | Inr cr \<Rightarrow>
         (let st = optional_status_from_cr block_storage_status_from_cr (\<lambda>st. \<lparr>bsst_attached_to = None, bsst_size_gb = 0, bsst_status = st\<rparr>) now (cr_status cr) in
          Inr (regional_metadata.extend (workspace_regional_metadata sha3 cr)
                 (block_storage.fields (block_storage_spec_from_cr (cr_spec cr)) (Some st)))))"

definition block_storage_to_cr ::
  "(string \<Rightarrow> string) \<Rightarrow> block_storage option \<Rightarrow> go_error + (block_storage_spec, block_storage_status) custom_resource" where
  "block_storage_to_cr sha3 p =
    (case p of
       None \<Rightarrow> Inl (GoError ''block storage is nil'')
     | Some b \<Rightarrow>
         (let labels = object_labels sha3 (md_labels b) (workspace_labels b);
              spec = block_storage_spec_to_cr (bs_spec b) in
          case optional_status_to_cr (''failed to convert resource state to CR'') bsst_status
                 (has_conditions bsst_status) block_storage_status_to_cr (bs_status b) of
            Inl err \<Rightarrow> Inl err
          | Inr st \<Rightarrow>
              Inr (new_object block_storage_gvk (compute_namespace sha3 (own_scope b)) labels [] b spec st)))"

text \<open>What can be stored, and what a reader gets.\<close>

definition storable_block_storage :: "(string \<Rightarrow> string) \<Rightarrow> block_storage \<Rightarrow> bool" where
  "storable_block_storage sha3 b \<longleftrightarrow>
     storable_metadata sha3 b \<and>
     domain_reference (bss_sku_ref (bs_spec b)) \<and>
     pred_option domain_reference (bss_source_image_ref (bs_spec b)) \<and>
     storable_optional_status bsst_status (has_conditions bsst_status) (\<lambda>s. pred_option domain_reference (bsst_attached_to s)) (bs_status b)"

definition block_storage_back :: "time \<Rightarrow> string \<Rightarrow> time \<Rightarrow> time option \<Rightarrow> block_storage \<Rightarrow> block_storage" where
  "block_storage_back now v c d b = (stamped v c d b)\<lparr>bs_status := Some (status_back now (has_conditions bsst_status)
     (\<lambda>s. s) (\<lambda>st. \<lparr>bsst_attached_to = None, bsst_size_gb = 0, bsst_status = st\<rparr>) (bs_status b))\<rparr>"

lemma block_storage_spec_comes_back:
  "domain_reference (bss_sku_ref s) \<Longrightarrow> pred_option domain_reference (bss_source_image_ref s) \<Longrightarrow>
   block_storage_spec_from_cr (block_storage_spec_to_cr s) = s"
  by (simp add: block_storage_spec_from_cr_def block_storage_spec_to_cr_def option.map_comp)

interpretation block_storage_conditions: status_conversion bsst_status "has_conditions bsst_status" "\<lambda>s. pred_option domain_reference (bsst_attached_to s)"
    "\<lambda>s. s" block_storage_status_to_cr block_storage_status_from_cr "\<lambda>st. \<lparr>bsst_attached_to = None, bsst_size_gb = 0, bsst_status = st\<rparr>"
  by unfold_locales (simp add: block_storage_status_to_cr_def block_storage_status_from_cr_def option.map_comp)

lemma block_storage_read:
  "regional_metadata.extend (regional_back v c d b) (block_storage.fields (bs_spec b) st) =
     (stamped v c d b)\<lparr>bs_status := st\<rparr>"
  by (cases b) (simp add: metadata_back_defs block_storage.defs)

lemma block_storage_comes_back:
  assumes "storable_block_storage sha3 b"
  shows "survives sha3 (block_storage_to_cr sha3) (\<lambda>decode. block_storage_from_cr decode sha3) block_storage_back
    (\<lambda>b. PlainScope (own_scope b)) b"
proof -
  note storable = assms [unfolded storable_block_storage_def]
  from storable have meta: "storable_metadata sha3 b"
    and st: "storable_optional_status bsst_status (has_conditions bsst_status) (\<lambda>s. pred_option domain_reference (bsst_attached_to s)) (bs_status b)"
    by simp_all
  show ?thesis
    by (rule block_storage_conditions.comes_back [OF st, where message = "''failed to convert resource state to CR''"])
      (use storable in \<open>simp add: survives_def block_storage_to_cr_def block_storage_from_cr_def read_cr_presents Let_def
        workspace_regional_metadata_back [OF meta] block_storage_back_def block_storage_read resolve_simps block_storage_spec_comes_back\<close>)
qed

interpretation block_storage_store: stored_resource sha3 "block_storage_to_cr sha3" "\<lambda>decode. block_storage_from_cr decode sha3"
    "storable_block_storage sha3" block_storage_back "\<lambda>b. PlainScope (own_scope b)" for sha3
  by unfold_locales (rule block_storage_comes_back)

subsection \<open>\<^verbatim>\<open>storage/v1/image/backend/kubernetes\<close>\<close>

definition image_gvk :: gvk where
  "image_gvk = \<lparr>gvk_group = ''storage.v1.secapi.cloud'', gvk_version = ''v1'', gvk_kind = ''Image''\<rparr>"

definition image_spec_from_cr :: "image_spec \<Rightarrow> image_spec" where
  "image_spec_from_cr s =
    \<lparr>imgs_block_storage_ref = reference_from_cr (imgs_block_storage_ref s),
     imgs_cpu_architecture = imgs_cpu_architecture s, imgs_boot = imgs_boot s,
     imgs_initializer = imgs_initializer s\<rparr>"

definition image_spec_to_cr :: "image_spec \<Rightarrow> image_spec" where
  "image_spec_to_cr s =
    \<lparr>imgs_block_storage_ref = reference_to_cr (imgs_block_storage_ref s),
     imgs_cpu_architecture = imgs_cpu_architecture s, imgs_boot = imgs_boot s,
     imgs_initializer = imgs_initializer s\<rparr>"

definition image_status_from_cr :: "image_status \<Rightarrow> image_status" where
  "image_status_from_cr s = \<lparr>imgst_size_mb = imgst_size_mb s, imgst_status = status_from_cr (imgst_status s)\<rparr>"

definition image_status_to_cr :: "image_status \<Rightarrow> status \<Rightarrow> go_error + image_status" where
  "image_status_to_cr s converted = Inr \<lparr>imgst_size_mb = imgst_size_mb s, imgst_status = converted\<rparr>"

definition image_from_cr ::
  "('u, image_spec, image_status) decoder \<Rightarrow> (string \<Rightarrow> string) \<Rightarrow> time
   \<Rightarrow> ('u, image_spec, image_status) client_object \<Rightarrow> go_error + image" where
  "image_from_cr decode sha3 now obj =
    (case read_cr decode ''Image'' obj of
       Inl err \<Rightarrow> Inl err
     | Inr cr \<Rightarrow>
         (let st = optional_status_from_cr image_status_from_cr (\<lambda>st. \<lparr>imgst_size_mb = None, imgst_status = st\<rparr>) now (cr_status cr) in
          Inr (regional_metadata.extend (tenant_regional_metadata sha3 cr)
                 (image.fields (image_spec_from_cr (cr_spec cr)) (Some st)))))"

definition image_to_cr ::
  "(string \<Rightarrow> string) \<Rightarrow> image option \<Rightarrow> go_error + (image_spec, image_status) custom_resource" where
  "image_to_cr sha3 p =
    (case p of
       None \<Rightarrow> Inl (GoError ''image is nil'')
     | Some i \<Rightarrow>
         (let labels = object_labels sha3 (md_labels i) (tenant_regional_labels i);
              spec = image_spec_to_cr (img_spec i) in
          case optional_status_to_cr (''failed to convert resource state to CR'') imgst_status
                 (has_conditions imgst_status) image_status_to_cr (img_status i) of
            Inl err \<Rightarrow> Inl err
          | Inr st \<Rightarrow>
              Inr (new_object image_gvk (compute_namespace sha3 (tenant_only_scope (md_tenant i))) labels [] i spec st)))"

text \<open>What can be stored, and what a reader gets.\<close>

definition storable_image :: "(string \<Rightarrow> string) \<Rightarrow> image \<Rightarrow> bool" where
  "storable_image sha3 i \<longleftrightarrow>
     storable_metadata sha3 i \<and>
     md_workspace i = [] \<and>
     domain_reference (imgs_block_storage_ref (img_spec i)) \<and>
     storable_optional_status imgst_status (has_conditions imgst_status) (\<lambda>s. True) (img_status i)"

definition image_back :: "time \<Rightarrow> string \<Rightarrow> time \<Rightarrow> time option \<Rightarrow> image \<Rightarrow> image" where
  "image_back now v c d i = (stamped v c d i)\<lparr>img_status := Some (status_back now (has_conditions imgst_status)
     (\<lambda>s. s) (\<lambda>st. \<lparr>imgst_size_mb = None, imgst_status = st\<rparr>) (img_status i))\<rparr>"

lemma image_spec_comes_back:
  "domain_reference (imgs_block_storage_ref s) \<Longrightarrow> image_spec_from_cr (image_spec_to_cr s) = s"
  by (simp add: image_spec_from_cr_def image_spec_to_cr_def)

interpretation image_conditions: status_conversion imgst_status "has_conditions imgst_status" "\<lambda>s. True"
    "\<lambda>s. s" image_status_to_cr image_status_from_cr "\<lambda>st. \<lparr>imgst_size_mb = None, imgst_status = st\<rparr>"
  by unfold_locales (simp add: image_status_to_cr_def image_status_from_cr_def)

lemma image_read:
  "regional_metadata.extend (regional_back v c d i) (image.fields (img_spec i) st) =
     (stamped v c d i)\<lparr>img_status := st\<rparr>"
  by (cases i) (simp add: metadata_back_defs image.defs)

lemma image_comes_back:
  assumes "storable_image sha3 i"
  shows "survives sha3 (image_to_cr sha3) (\<lambda>decode. image_from_cr decode sha3) image_back
    (\<lambda>i. PlainScope (own_scope i)) i"
proof -
  note storable = assms [unfolded storable_image_def]
  from storable have meta: "storable_metadata sha3 i" and home: "md_workspace i = []"
    and st: "storable_optional_status imgst_status (has_conditions imgst_status) (\<lambda>s. True) (img_status i)"
    by simp_all
  show ?thesis
    by (rule image_conditions.comes_back [OF st, where message = "''failed to convert resource state to CR''"])
      (use storable in \<open>simp add: survives_def image_to_cr_def image_from_cr_def read_cr_presents Let_def
        tenant_regional_metadata_back [OF meta home] image_back_def image_read resolve_simps image_spec_comes_back\<close>)
qed

interpretation image_store: stored_resource sha3 "image_to_cr sha3" "\<lambda>decode. image_from_cr decode sha3"
    "storable_image sha3" image_back "\<lambda>i. PlainScope (own_scope i)" for sha3
  by unfold_locales (rule image_comes_back)

subsection \<open>\<^verbatim>\<open>compute/v1/instance/backend/kubernetes\<close>\<close>

text \<open>The power intent travels in annotations of the object, in the order of their keys.\<close>

definition desired_power_state_annotation :: string where
  "desired_power_state_annotation = internal_label_prefix @ ''desired-power-state''"

definition restart_id_annotation :: string where
  "restart_id_annotation = internal_label_prefix @ ''restart-id''"

definition restart_phase_annotation :: string where
  "restart_phase_annotation = internal_label_prefix @ ''restart-phase''"

definition power_state_of :: "string \<Rightarrow> power_state" where
  "power_state_of s =
    (if s = [] then PowerUnset else if s = ''on'' then PowerOn else if s = ''off'' then PowerOff else PowerOther s)"

definition restart_phase_of :: "string \<Rightarrow> restart_phase" where
  "restart_phase_of s =
    (if s = [] then PhaseUnset else if s = ''power-off'' then PhasePowerOff
     else if s = ''power-on'' then PhasePowerOn else PhaseOther s)"

definition set_annotation :: "string \<Rightarrow> string \<Rightarrow> strmap \<Rightarrow> strmap" where
  "set_annotation key v m = (if v = [] then m else map_insert key v m)"

definition intent_annotations :: "instance_res \<Rightarrow> strmap" where
  "intent_annotations i =
    set_annotation restart_phase_annotation (restart_phase_string (in_restart_phase i))
      (set_annotation restart_id_annotation (in_restart_id i)
        (set_annotation desired_power_state_annotation (power_state_string (in_desired_power_state i)) []))"

lemma annotation_comes_back:
  "map_index (set_annotation k v m) k' = (if k' = k \<and> v \<noteq> [] then v else map_index m k')"
  by (simp add: set_annotation_def map_index_def)

lemma intent_comes_back:
  "map_index (intent_annotations i) desired_power_state_annotation = power_state_string (in_desired_power_state i)"
  "map_index (intent_annotations i) restart_id_annotation = in_restart_id i"
  "map_index (intent_annotations i) restart_phase_annotation = restart_phase_string (in_restart_phase i)"
  unfolding intent_annotations_def
  by (simp_all add: annotation_comes_back desired_power_state_annotation_def restart_id_annotation_def
      restart_phase_annotation_def) (simp_all add: map_index_def)

text \<open>A value of the enumerations that is not one of the named ones in disguise.\<close>

definition proper_power_state :: "power_state \<Rightarrow> bool" where
  "proper_power_state p = (case p of PowerOther s \<Rightarrow> s \<notin> {[], ''on'', ''off''} | _ \<Rightarrow> True)"

definition proper_restart_phase :: "restart_phase \<Rightarrow> bool" where
  "proper_restart_phase p = (case p of PhaseOther s \<Rightarrow> s \<notin> {[], ''power-off'', ''power-on''} | _ \<Rightarrow> True)"

lemma power_state_comes_back: "proper_power_state p \<Longrightarrow> power_state_of (power_state_string p) = p"
  by (cases p) (simp_all add: proper_power_state_def power_state_of_def)

lemma restart_phase_comes_back: "proper_restart_phase p \<Longrightarrow> restart_phase_of (restart_phase_string p) = p"
  by (cases p) (simp_all add: proper_restart_phase_def restart_phase_of_def)

definition instance_gvk :: gvk where
  "instance_gvk = \<lparr>gvk_group = ''compute.v1.secapi.cloud'', gvk_version = ''v1'', gvk_kind = ''Instance''\<rparr>"

definition volume_reference_from_cr :: "volume_reference \<Rightarrow> volume_reference" where
  "volume_reference_from_cr v = \<lparr>vol_device_ref = reference_from_cr (vol_device_ref v), vol_type = vol_type v\<rparr>"

definition volume_reference_to_cr :: "volume_reference \<Rightarrow> volume_reference" where
  "volume_reference_to_cr v = \<lparr>vol_device_ref = reference_to_cr (vol_device_ref v), vol_type = vol_type v\<rparr>"

definition instance_spec_from_cr :: "instance_spec \<Rightarrow> instance_spec" where
  "instance_spec_from_cr s =
    \<lparr>ins_additional_nic_refs = map reference_from_cr (ins_additional_nic_refs s),
     ins_anti_affinity_group = ins_anti_affinity_group s,
     ins_boot_volume = volume_reference_from_cr (ins_boot_volume s),
     ins_data_volumes = map volume_reference_from_cr (ins_data_volumes s),
     ins_primary_nic_ref = map_option reference_from_cr (ins_primary_nic_ref s),
     ins_security_group_ref = map_option reference_from_cr (ins_security_group_ref s),
     ins_sku_ref = reference_from_cr (ins_sku_ref s), ins_ssh_keys = ins_ssh_keys s,
     ins_user_data = ins_user_data s, ins_zone = ins_zone s\<rparr>"

definition instance_spec_to_cr :: "instance_spec \<Rightarrow> instance_spec" where
  "instance_spec_to_cr s =
    \<lparr>ins_additional_nic_refs = map reference_to_cr (ins_additional_nic_refs s),
     ins_anti_affinity_group = ins_anti_affinity_group s,
     ins_boot_volume = volume_reference_to_cr (ins_boot_volume s),
     ins_data_volumes = map volume_reference_to_cr (ins_data_volumes s),
     ins_primary_nic_ref = map_option reference_to_cr (ins_primary_nic_ref s),
     ins_security_group_ref = map_option reference_to_cr (ins_security_group_ref s),
     ins_sku_ref = reference_to_cr (ins_sku_ref s), ins_ssh_keys = ins_ssh_keys s,
     ins_user_data = ins_user_data s, ins_zone = ins_zone s\<rparr>"

definition instance_status_from_cr :: "instance_status \<Rightarrow> instance_status" where
  "instance_status_from_cr s =
    \<lparr>inst_status = status_from_cr (inst_status s),
     inst_power_state = power_state_of (power_state_string (inst_power_state s)),
     inst_power_state_since = inst_power_state_since s\<rparr>"

definition default_power :: "instance_status \<Rightarrow> instance_status" where
  "default_power s = (if inst_power_state s = PowerUnset then s\<lparr>inst_power_state := PowerOff\<rparr> else s)"

definition instance_status_to_cr :: "instance_status \<Rightarrow> status \<Rightarrow> go_error + instance_status" where
  "instance_status_to_cr s converted =
    Inr \<lparr>inst_status = converted,
         inst_power_state = (if inst_power_state s = PowerUnset then PowerOff else inst_power_state s),
         inst_power_state_since = inst_power_state_since s\<rparr>"

definition instance_from_cr ::
  "('u, instance_spec, instance_status) decoder \<Rightarrow> (string \<Rightarrow> string) \<Rightarrow> time
   \<Rightarrow> ('u, instance_spec, instance_status) client_object \<Rightarrow> go_error + instance_res" where
  "instance_from_cr decode sha3 now obj =
    (case read_cr decode ''Instance'' obj of
       Inl err \<Rightarrow> Inl err
     | Inr cr \<Rightarrow>
         (let st = optional_status_from_cr instance_status_from_cr (\<lambda>st. \<lparr>inst_status = st, inst_power_state = PowerUnset, inst_power_state_since = None\<rparr>) now (cr_status cr) in
          Inr (regional_metadata.extend (workspace_regional_metadata sha3 cr)
                 (instance_res.fields (instance_spec_from_cr (cr_spec cr)) (Some st)
                    (power_state_of (map_index (cr_annotations cr) desired_power_state_annotation))
                    (map_index (cr_annotations cr) restart_id_annotation)
                    (restart_phase_of (map_index (cr_annotations cr) restart_phase_annotation))))))"

definition instance_to_cr ::
  "(string \<Rightarrow> string) \<Rightarrow> instance_res option \<Rightarrow> go_error + (instance_spec, instance_status) custom_resource" where
  "instance_to_cr sha3 p =
    (case p of
       None \<Rightarrow> Inl (GoError ''instance is nil'')
     | Some i \<Rightarrow>
         (let labels = object_labels sha3 (md_labels i) (workspace_labels i);
              spec = instance_spec_to_cr (in_spec i) in
          case optional_status_to_cr (''failed to convert resource state to CR'') inst_status
                 (has_conditions inst_status) instance_status_to_cr (in_status i) of
            Inl err \<Rightarrow> Inl err
          | Inr st \<Rightarrow>
              Inr (new_object instance_gvk (compute_namespace sha3 (own_scope i)) labels (intent_annotations i) i spec st)))"

text \<open>What can be stored, and what a reader gets.\<close>

definition storable_instance_spec :: "instance_spec \<Rightarrow> bool" where
  "storable_instance_spec s \<longleftrightarrow>
     list_all domain_reference (ins_additional_nic_refs s) \<and> domain_reference (vol_device_ref (ins_boot_volume s)) \<and>
     list_all (\<lambda>v. domain_reference (vol_device_ref v)) (ins_data_volumes s) \<and>
     pred_option domain_reference (ins_primary_nic_ref s) \<and>
     pred_option domain_reference (ins_security_group_ref s) \<and> domain_reference (ins_sku_ref s)"

definition storable_instance :: "(string \<Rightarrow> string) \<Rightarrow> instance_res \<Rightarrow> bool" where
  "storable_instance sha3 i \<longleftrightarrow>
     storable_metadata sha3 i \<and>
     storable_instance_spec (in_spec i) \<and>
     proper_power_state (in_desired_power_state i) \<and>
     proper_restart_phase (in_restart_phase i) \<and>
     storable_optional_status inst_status (has_conditions inst_status) (\<lambda>s. proper_power_state (inst_power_state s)) (in_status i)"

definition instance_back :: "time \<Rightarrow> string \<Rightarrow> time \<Rightarrow> time option \<Rightarrow> instance_res \<Rightarrow> instance_res" where
  "instance_back now v c d i = (stamped v c d i)\<lparr>in_status := Some (status_back now (has_conditions inst_status)
     (default_power) (\<lambda>st. \<lparr>inst_status = st, inst_power_state = PowerUnset, inst_power_state_since = None\<rparr>) (in_status i))\<rparr>"

lemma volumes_come_back:
  "list_all (\<lambda>v. domain_reference (vol_device_ref v)) vs \<Longrightarrow>
     map (volume_reference_from_cr \<circ> volume_reference_to_cr) vs = vs"
  by (induction vs) (simp_all add: volume_reference_from_cr_def volume_reference_to_cr_def)

lemma instance_spec_comes_back: "storable_instance_spec s \<Longrightarrow> instance_spec_from_cr (instance_spec_to_cr s) = s"
  by (simp add: storable_instance_spec_def instance_spec_from_cr_def instance_spec_to_cr_def option.map_comp
      volumes_come_back) (simp add: volume_reference_from_cr_def volume_reference_to_cr_def)

interpretation instance_conditions: status_conversion inst_status "has_conditions inst_status" "\<lambda>s. proper_power_state (inst_power_state s)"
    "default_power" instance_status_to_cr instance_status_from_cr "\<lambda>st. \<lparr>inst_status = st, inst_power_state = PowerUnset, inst_power_state_since = None\<rparr>"
  by unfold_locales (auto simp: instance_status_to_cr_def instance_status_from_cr_def default_power_def
      power_state_comes_back, simp add: power_state_of_def)

lemma instance_read:
  "regional_metadata.extend (regional_back v c d i) (instance_res.fields (in_spec i) st (in_desired_power_state i) (in_restart_id i) (in_restart_phase i)) =
     (stamped v c d i)\<lparr>in_status := st\<rparr>"
  by (cases i) (simp add: metadata_back_defs instance_res.defs)

lemma instance_comes_back:
  assumes "storable_instance sha3 i"
  shows "survives sha3 (instance_to_cr sha3) (\<lambda>decode. instance_from_cr decode sha3) instance_back
    (\<lambda>i. PlainScope (own_scope i)) i"
proof -
  note storable = assms [unfolded storable_instance_def]
  from storable have meta: "storable_metadata sha3 i"
    and st: "storable_optional_status inst_status (has_conditions inst_status) (\<lambda>s. proper_power_state (inst_power_state s)) (in_status i)"
    by simp_all
  show ?thesis
    by (rule instance_conditions.comes_back [OF st, where message = "''failed to convert resource state to CR''"])
      (use storable in \<open>simp add: survives_def instance_to_cr_def instance_from_cr_def read_cr_presents Let_def
        workspace_regional_metadata_back [OF meta] instance_back_def instance_read resolve_simps instance_spec_comes_back
        intent_comes_back power_state_comes_back restart_phase_comes_back\<close>)
qed

interpretation instance_store: stored_resource sha3 "instance_to_cr sha3" "\<lambda>decode. instance_from_cr decode sha3"
    "storable_instance sha3" instance_back "\<lambda>i. PlainScope (own_scope i)" for sha3
  by unfold_locales (rule instance_comes_back)

subsection \<open>\<^verbatim>\<open>authorization/v1/role/backend/kubernetes\<close>\<close>

record role_cr_spec =
  rocs_permissions :: "permission list"

text \<open>Both directions copy the slices of every permission.\<close>

definition copy_permission :: "permission \<Rightarrow> permission" where
  "copy_permission p =
    \<lparr>perm_provider = perm_provider p, perm_resources = map (\<lambda>x. x) (perm_resources p),
     perm_verb = map (\<lambda>x. x) (perm_verb p)\<rparr>"

lemma copy_permission_id: "copy_permission = id"
  by (simp add: copy_permission_def fun_eq_iff)

definition role_gvk :: gvk where
  "role_gvk = \<lparr>gvk_group = ''authorization.v1.secapi.cloud'', gvk_version = ''v1'', gvk_kind = ''Role''\<rparr>"

definition role_status_from_cr :: "status \<Rightarrow> role_status" where
  "role_status_from_cr st = \<lparr>rost_status = status_from_cr st\<rparr>"

definition role_status_to_cr :: "role_status \<Rightarrow> status \<Rightarrow> go_error + status" where
  "role_status_to_cr s converted = Inr converted"

definition role_from_cr ::
  "('u, role_cr_spec, status) decoder \<Rightarrow> (string \<Rightarrow> string) \<Rightarrow> time
   \<Rightarrow> ('u, role_cr_spec, status) client_object \<Rightarrow> go_error + role" where
  "role_from_cr decode sha3 now obj =
    (case read_cr decode ''Role'' obj of
       Inl err \<Rightarrow> Inl err
     | Inr cr \<Rightarrow>
         (let st = optional_status_from_cr role_status_from_cr (\<lambda>st. \<lparr>rost_status = st\<rparr>) now (cr_status cr) in
          Inr (global_tenant_metadata.extend (tenant_metadata sha3 cr)
                 (role.fields (map copy_permission (rocs_permissions (cr_spec cr))) (Some st)))))"

definition role_to_cr ::
  "(string \<Rightarrow> string) \<Rightarrow> role option \<Rightarrow> go_error + (role_cr_spec, status) custom_resource" where
  "role_to_cr sha3 p =
    (case p of
       None \<Rightarrow> Inl (GoError ''role is nil'')
     | Some r \<Rightarrow>
         (let labels = object_labels sha3 (md_labels r) (tenant_labels r);
              spec = \<lparr>rocs_permissions = map copy_permission (ro_permissions r)\<rparr> in
          case optional_status_to_cr (''role '' @ md_name r @ '': failed to map resource state domain to CR'') rost_status
                 (has_conditions rost_status) role_status_to_cr (ro_status r) of
            Inl err \<Rightarrow> Inl err
          | Inr st \<Rightarrow>
              Inr (new_object role_gvk (compute_namespace sha3 (tenant_only_scope (md_tenant r))) labels [] r spec st)))"

text \<open>What can be stored, and what a reader gets.\<close>

definition storable_role :: "(string \<Rightarrow> string) \<Rightarrow> role \<Rightarrow> bool" where
  "storable_role sha3 r \<longleftrightarrow>
     storable_metadata sha3 r \<and>
     md_workspace r = [] \<and>
     storable_optional_status rost_status (has_conditions rost_status) (\<lambda>s. True) (ro_status r)"

definition role_back :: "time \<Rightarrow> string \<Rightarrow> time \<Rightarrow> time option \<Rightarrow> role \<Rightarrow> role" where
  "role_back now v c d r = (stamped v c d r)\<lparr>ro_status := Some (status_back now (has_conditions rost_status)
     (\<lambda>s. s) (\<lambda>st. \<lparr>rost_status = st\<rparr>) (ro_status r))\<rparr>"

interpretation role_conditions: status_conversion rost_status "has_conditions rost_status" "\<lambda>s. True"
    "\<lambda>s. s" role_status_to_cr role_status_from_cr "\<lambda>st. \<lparr>rost_status = st\<rparr>"
  by unfold_locales (simp add: role_status_to_cr_def role_status_from_cr_def)

lemma role_read:
  "global_tenant_metadata.extend (tenant_back v c d r) (role.fields (ro_permissions r) st) =
     (stamped v c d r)\<lparr>ro_status := st\<rparr>"
  by (cases r) (simp add: metadata_back_defs role.defs)

lemma role_comes_back:
  assumes "storable_role sha3 r"
  shows "survives sha3 (role_to_cr sha3) (\<lambda>decode. role_from_cr decode sha3) role_back
    (\<lambda>r. PlainScope (own_scope r)) r"
proof -
  note storable = assms [unfolded storable_role_def]
  from storable have meta: "storable_metadata sha3 r" and home: "md_workspace r = []"
    and st: "storable_optional_status rost_status (has_conditions rost_status) (\<lambda>s. True) (ro_status r)"
    by simp_all
  show ?thesis
    by (rule role_conditions.comes_back [OF st, where message = "''role '' @ md_name r @ '': failed to map resource state domain to CR''"])
      (use storable in \<open>simp add: survives_def role_to_cr_def role_from_cr_def read_cr_presents Let_def
        tenant_metadata_back [OF meta home] role_back_def role_read resolve_simps copy_permission_id\<close>)
qed

interpretation role_store: stored_resource sha3 "role_to_cr sha3" "\<lambda>decode. role_from_cr decode sha3"
    "storable_role sha3" role_back "\<lambda>r. PlainScope (own_scope r)" for sha3
  by unfold_locales (rule role_comes_back)

subsection \<open>\<^verbatim>\<open>authorization/v1/role-assignment/backend/kubernetes\<close>\<close>

record role_assignment_cr_spec =
  racs_subs :: "string list"
  racs_scopes :: "role_assignment_scope list"
  racs_roles :: "string list"

definition copy_scope :: "role_assignment_scope \<Rightarrow> role_assignment_scope" where
  "copy_scope s = \<lparr>ras_tenants = ras_tenants s, ras_regions = ras_regions s, ras_workspaces = ras_workspaces s\<rparr>"

lemma copy_scope_id: "copy_scope = id"
  by (simp add: copy_scope_def fun_eq_iff)

definition role_assignment_gvk :: gvk where
  "role_assignment_gvk = \<lparr>gvk_group = ''authorization.v1.secapi.cloud'', gvk_version = ''v1'', gvk_kind = ''RoleAssignment''\<rparr>"

definition role_assignment_status_from_cr :: "status \<Rightarrow> role_assignment_status" where
  "role_assignment_status_from_cr st = \<lparr>rast_status = status_from_cr st\<rparr>"

definition role_assignment_status_to_cr :: "role_assignment_status \<Rightarrow> status \<Rightarrow> go_error + status" where
  "role_assignment_status_to_cr s converted = Inr converted"

definition role_assignment_from_cr ::
  "('u, role_assignment_cr_spec, status) decoder \<Rightarrow> (string \<Rightarrow> string) \<Rightarrow> time
   \<Rightarrow> ('u, role_assignment_cr_spec, status) client_object \<Rightarrow> go_error + role_assignment" where
  "role_assignment_from_cr decode sha3 now obj =
    (case read_cr decode ''RoleAssignment'' obj of
       Inl err \<Rightarrow> Inl err
     | Inr cr \<Rightarrow>
         (let st = optional_status_from_cr role_assignment_status_from_cr (\<lambda>st. \<lparr>rast_status = st\<rparr>) now (cr_status cr) in
          Inr (global_tenant_metadata.extend (tenant_metadata sha3 cr)
                 (role_assignment.fields (racs_subs (cr_spec cr)) (map copy_scope (racs_scopes (cr_spec cr)))
                    (racs_roles (cr_spec cr)) (Some st)))))"

definition role_assignment_to_cr ::
  "(string \<Rightarrow> string) \<Rightarrow> role_assignment option \<Rightarrow> go_error + (role_assignment_cr_spec, status) custom_resource" where
  "role_assignment_to_cr sha3 p =
    (case p of
       None \<Rightarrow> Inl (GoError ''role assignment is nil'')
     | Some r \<Rightarrow>
         (let labels = object_labels sha3 (md_labels r) (tenant_labels r);
              spec = \<lparr>racs_subs = ra_subs r, racs_scopes = map copy_scope (ra_scopes r), racs_roles = ra_roles r\<rparr> in
          case optional_status_to_cr (''failed to convert resource state to CR'') rast_status
                 (has_conditions rast_status) role_assignment_status_to_cr (ra_status r) of
            Inl err \<Rightarrow> Inl err
          | Inr st \<Rightarrow>
              Inr (new_object role_assignment_gvk (compute_namespace sha3 (tenant_only_scope (md_tenant r))) labels [] r spec st)))"

text \<open>What can be stored, and what a reader gets.\<close>

definition storable_role_assignment :: "(string \<Rightarrow> string) \<Rightarrow> role_assignment \<Rightarrow> bool" where
  "storable_role_assignment sha3 r \<longleftrightarrow>
     storable_metadata sha3 r \<and>
     md_workspace r = [] \<and>
     storable_optional_status rast_status (has_conditions rast_status) (\<lambda>s. True) (ra_status r)"

definition role_assignment_back :: "time \<Rightarrow> string \<Rightarrow> time \<Rightarrow> time option \<Rightarrow> role_assignment \<Rightarrow> role_assignment" where
  "role_assignment_back now v c d r = (stamped v c d r)\<lparr>ra_status := Some (status_back now (has_conditions rast_status)
     (\<lambda>s. s) (\<lambda>st. \<lparr>rast_status = st\<rparr>) (ra_status r))\<rparr>"

interpretation role_assignment_conditions: status_conversion rast_status "has_conditions rast_status" "\<lambda>s. True"
    "\<lambda>s. s" role_assignment_status_to_cr role_assignment_status_from_cr "\<lambda>st. \<lparr>rast_status = st\<rparr>"
  by unfold_locales (simp add: role_assignment_status_to_cr_def role_assignment_status_from_cr_def)

lemma role_assignment_read:
  "global_tenant_metadata.extend (tenant_back v c d r) (role_assignment.fields (ra_subs r) (ra_scopes r) (ra_roles r) st) =
     (stamped v c d r)\<lparr>ra_status := st\<rparr>"
  by (cases r) (simp add: metadata_back_defs role_assignment.defs)

lemma role_assignment_comes_back:
  assumes "storable_role_assignment sha3 r"
  shows "survives sha3 (role_assignment_to_cr sha3) (\<lambda>decode. role_assignment_from_cr decode sha3) role_assignment_back
    (\<lambda>r. PlainScope (own_scope r)) r"
proof -
  note storable = assms [unfolded storable_role_assignment_def]
  from storable have meta: "storable_metadata sha3 r" and home: "md_workspace r = []"
    and st: "storable_optional_status rast_status (has_conditions rast_status) (\<lambda>s. True) (ra_status r)"
    by simp_all
  show ?thesis
    by (rule role_assignment_conditions.comes_back [OF st, where message = "''failed to convert resource state to CR''"])
      (use storable in \<open>simp add: survives_def role_assignment_to_cr_def role_assignment_from_cr_def read_cr_presents Let_def
        tenant_metadata_back [OF meta home] role_assignment_back_def role_assignment_read resolve_simps copy_scope_id\<close>)
qed

interpretation role_assignment_store: stored_resource sha3 "role_assignment_to_cr sha3" "\<lambda>decode. role_assignment_from_cr decode sha3"
    "storable_role_assignment sha3" role_assignment_back "\<lambda>r. PlainScope (own_scope r)" for sha3
  by unfold_locales (rule role_assignment_comes_back)

subsection \<open>\<^verbatim>\<open>workspace/v1/backend/kubernetes\<close>\<close>

definition workspace_gvk :: gvk where
  "workspace_gvk = \<lparr>gvk_group = ''workspace.v1.secapi.cloud'', gvk_version = ''v1'', gvk_kind = ''Workspace''\<rparr>"

text \<open>The count of resources is written even without conditions, and then the state must be a known one.\<close>

definition workspace_status_written :: "workspace_status \<Rightarrow> bool" where
  "workspace_status_written s \<longleftrightarrow> st_conditions (wss_status s) \<noteq> [] \<or> wss_resource_count s \<noteq> None"

definition workspace_status_from_cr :: "workspace_status \<Rightarrow> workspace_status" where
  "workspace_status_from_cr s =
    \<lparr>wss_status = status_from_cr (wss_status s), wss_resource_count = wss_resource_count s\<rparr>"

definition workspace_status_to_cr :: "workspace_status \<Rightarrow> status \<Rightarrow> go_error + workspace_status" where
  "workspace_status_to_cr s converted =
    Inr \<lparr>wss_status = converted, wss_resource_count = wss_resource_count s\<rparr>"

definition workspace_from_cr ::
  "json_codec \<Rightarrow> ('u, strmap, workspace_status) decoder \<Rightarrow> (string \<Rightarrow> string) \<Rightarrow> time
   \<Rightarrow> ('u, strmap, workspace_status) client_object \<Rightarrow> go_error + workspace" where
  "workspace_from_cr codec decode sha3 now obj =
    (case read_cr decode ''Workspace'' obj of
       Inl err \<Rightarrow> Inl err
     | Inr cr \<Rightarrow>
         (let st = optional_status_from_cr workspace_status_from_cr (\<lambda>st. \<lparr>wss_status = st, wss_resource_count = None\<rparr>) now (cr_status cr) in
          Inr (regional_metadata.extend (tenant_regional_metadata sha3 cr)
                 (workspace.fields (map (\<lambda>(k, v). (k, string_to_interface codec v)) (cr_spec cr)) (Some st)))))"

definition workspace_to_cr ::
  "json_codec \<Rightarrow> (string \<Rightarrow> string) \<Rightarrow> workspace option \<Rightarrow> go_error + (strmap, workspace_status) custom_resource" where
  "workspace_to_cr codec sha3 p =
    (case p of
       None \<Rightarrow> Inl (GoError ''workspace is nil'')
     | Some w \<Rightarrow>
         (let labels = object_labels sha3 (md_labels w) (tenant_regional_labels w);
              spec = map (\<lambda>(k, v). (k, interface_to_string codec v)) (ws_spec w) in
          case optional_status_to_cr (''failed to map resource state domain to CR'') wss_status
                 workspace_status_written workspace_status_to_cr (ws_status w) of
            Inl err \<Rightarrow> Inl err
          | Inr st \<Rightarrow>
              Inr (new_object workspace_gvk (compute_namespace sha3 (tenant_only_scope (md_tenant w))) labels [] w spec st)))"

text \<open>What can be stored, and what a reader gets.\<close>

definition storable_workspace :: "json_codec \<Rightarrow> (string \<Rightarrow> string) \<Rightarrow> workspace \<Rightarrow> bool" where
  "storable_workspace codec sha3 w \<longleftrightarrow>
     storable_metadata sha3 w \<and>
     md_workspace w = [] \<and>
     list_all (\<lambda>(k, v). plain_value codec v) (ws_spec w) \<and>
     storable_optional_status wss_status workspace_status_written (\<lambda>s. True) (ws_status w)"

definition workspace_back :: "time \<Rightarrow> string \<Rightarrow> time \<Rightarrow> time option \<Rightarrow> workspace \<Rightarrow> workspace" where
  "workspace_back now v c d w = (stamped v c d w)\<lparr>ws_status := Some (status_back now workspace_status_written
     (\<lambda>s. s) (\<lambda>st. \<lparr>wss_status = st, wss_resource_count = None\<rparr>) (ws_status w))\<rparr>"

lemma workspace_spec_comes_back:
  "list_all (\<lambda>(k, v). plain_value codec v) spec \<Longrightarrow>
     map ((\<lambda>(k, v). (k, string_to_interface codec v)) \<circ> (\<lambda>(k, v). (k, interface_to_string codec v))) spec = spec"
  by (induction spec) (auto simp: plain_value_comes_back)

interpretation workspace_conditions: status_conversion wss_status "workspace_status_written" "\<lambda>s. True"
    "\<lambda>s. s" workspace_status_to_cr workspace_status_from_cr "\<lambda>st. \<lparr>wss_status = st, wss_resource_count = None\<rparr>"
  by unfold_locales (simp add: workspace_status_to_cr_def workspace_status_from_cr_def)

lemma workspace_read:
  "regional_metadata.extend (regional_back v c d w) (workspace.fields (ws_spec w) st) =
     (stamped v c d w)\<lparr>ws_status := st\<rparr>"
  by (cases w) (simp add: metadata_back_defs workspace.defs)

lemma workspace_comes_back:
  assumes "storable_workspace codec sha3 w"
  shows "survives sha3 (workspace_to_cr codec sha3) (\<lambda>decode. workspace_from_cr codec decode sha3) workspace_back
    (\<lambda>w. PlainScope (own_scope w)) w"
proof -
  note storable = assms [unfolded storable_workspace_def]
  from storable have meta: "storable_metadata sha3 w" and home: "md_workspace w = []"
    and st: "storable_optional_status wss_status workspace_status_written (\<lambda>s. True) (ws_status w)"
    by simp_all
  show ?thesis
    by (rule workspace_conditions.comes_back [OF st, where message = "''failed to map resource state domain to CR''"])
      (use storable in \<open>simp add: survives_def workspace_to_cr_def workspace_from_cr_def read_cr_presents Let_def
        tenant_regional_metadata_back [OF meta home] workspace_back_def workspace_read resolve_simps workspace_spec_comes_back\<close>)
qed

interpretation workspace_store: stored_resource sha3 "workspace_to_cr codec sha3" "\<lambda>decode. workspace_from_cr codec decode sha3"
    "storable_workspace codec sha3" workspace_back "\<lambda>w. PlainScope (own_scope w)" for codec sha3
  by unfold_locales (rule workspace_comes_back)

end
