(* ===== verification/Stored_Resources.thy ===== *)
theory Stored_Resources
  imports Network_Conversion Resource_Conversion Adapter Label_Filter
begin

section \<open>Resources through the adapter\<close>

text \<open>
  The converters of all fourteen resources meet the adapter, as \<^verbatim>\<open>regionalapiserver.go\<close> and
  \<^verbatim>\<open>globalapiserver.go\<close> wire them: what was stored is what is loaded and listed, and what an update
  with a version sends is the object the converter builds, without the finalizers the stored one
  carries.
\<close>

subsection \<open>The adapter of a resource\<close>

text \<open>
  A codec is apimachinery's conversion between the typed form of a kind and the unstructured one,
  with the clock that reading a pending status takes.
\<close>

record ('s, 't) cr_codec =
  cc_encode :: "('s, 't) custom_resource \<Rightarrow> go_error + uobject"
  cc_decode :: "(uobject, 's, 't) decoder"
  cc_now :: time

text \<open>
  \<^verbatim>\<open>NewReaderAdapter\<close> and \<^verbatim>\<open>NewWriterAdapter\<close> for a resource: \<open>encode\<close> and \<open>decode\<close> are apimachinery's
  conversions between typed and unstructured objects, \<open>now\<close> is the clock the pending status reads.
\<close>

definition resource_adapter ::
  "'w dyn_client \<Rightarrow> gvr \<Rightarrow> (string \<Rightarrow> string)
   \<Rightarrow> ('m common_metadata_scheme option \<Rightarrow> go_error + ('s, 't) custom_resource)
   \<Rightarrow> ((uobject, 's, 't) decoder \<Rightarrow> time \<Rightarrow> (uobject, 's, 't) client_object \<Rightarrow> go_error + 'm common_metadata_scheme)
   \<Rightarrow> ('m common_metadata_scheme \<Rightarrow> scoped) \<Rightarrow> (('s, 't) custom_resource \<Rightarrow> go_error + uobject)
   \<Rightarrow> (uobject, 's, 't) decoder \<Rightarrow> time \<Rightarrow> ('m common_metadata_scheme, 'w) adapter" where
  "resource_adapter client kind sha3 to_cr from_cr view encode decode now =
     \<lparr>ad_client = client, ad_gvr = kind,
      ad_to_k8s = (\<lambda>r. case to_cr (Some r) of Inl err \<Rightarrow> Inl err | Inr cr \<Rightarrow> encode cr),
      ad_from_k8s = (\<lambda>u. from_cr decode now (Unstructured u)),
      ad_name = md_name, ad_version = md_version, ad_scope = view, ad_sha3 = sha3\<rparr>"

definition workspace_adapter ::
  "'w dyn_client \<Rightarrow> json_codec \<Rightarrow> (string \<Rightarrow> string) \<Rightarrow> ((strmap, workspace_status) custom_resource \<Rightarrow> go_error + uobject)
   \<Rightarrow> (uobject, strmap, workspace_status) decoder \<Rightarrow> time \<Rightarrow> (workspace, 'w) adapter" where
  "workspace_adapter client codec sha3 =
     resource_adapter client
       \<lparr>gvr_group = ''workspace.v1.secapi.cloud'', gvr_version = ''v1'', gvr_resource = ''workspaces''\<rparr>
       sha3 (workspace_to_cr codec sha3) (\<lambda>decode. workspace_from_cr codec decode sha3) (\<lambda>r. PlainScope (own_scope r))"

definition network_adapter ::
  "'w dyn_client \<Rightarrow> (string \<Rightarrow> string) \<Rightarrow> ((network_spec, network_cr_status) custom_resource \<Rightarrow> go_error + uobject)
   \<Rightarrow> (uobject, network_spec, network_cr_status) decoder \<Rightarrow> time \<Rightarrow> (network, 'w) adapter" where
  "network_adapter client sha3 =
     resource_adapter client
       \<lparr>gvr_group = ''network.v1.secapi.cloud'', gvr_version = ''v1'', gvr_resource = ''networks''\<rparr>
       sha3 (network_to_cr sha3) (\<lambda>decode. network_from_cr decode sha3) (\<lambda>r. PlainScope (own_scope r))"

definition internet_gateway_adapter ::
  "'w dyn_client \<Rightarrow> (string \<Rightarrow> string) \<Rightarrow> ((internet_gateway_cr_spec, status) custom_resource \<Rightarrow> go_error + uobject)
   \<Rightarrow> (uobject, internet_gateway_cr_spec, status) decoder \<Rightarrow> time \<Rightarrow> (internet_gateway, 'w) adapter" where
  "internet_gateway_adapter client sha3 =
     resource_adapter client
       \<lparr>gvr_group = ''network.v1.secapi.cloud'', gvr_version = ''v1'', gvr_resource = ''internet-gateways''\<rparr>
       sha3 (internet_gateway_to_cr sha3) (\<lambda>decode. internet_gateway_from_cr decode sha3) (\<lambda>r. PlainScope (own_scope r))"

definition nic_adapter ::
  "'w dyn_client \<Rightarrow> (string \<Rightarrow> string) \<Rightarrow> ((nic_cr_spec, nic_status) custom_resource \<Rightarrow> go_error + uobject)
   \<Rightarrow> (uobject, nic_cr_spec, nic_status) decoder \<Rightarrow> time \<Rightarrow> (nic, 'w) adapter" where
  "nic_adapter client sha3 =
     resource_adapter client
       \<lparr>gvr_group = ''network.v1.secapi.cloud'', gvr_version = ''v1'', gvr_resource = ''nics''\<rparr>
       sha3 (nic_to_cr sha3) (\<lambda>decode. nic_from_cr decode sha3) (\<lambda>r. PlainScope (own_scope r))"

definition public_ip_adapter ::
  "'w dyn_client \<Rightarrow> (string \<Rightarrow> string) \<Rightarrow> ((public_ip_cr_spec, public_ip_status) custom_resource \<Rightarrow> go_error + uobject)
   \<Rightarrow> (uobject, public_ip_cr_spec, public_ip_status) decoder \<Rightarrow> time \<Rightarrow> (public_ip, 'w) adapter" where
  "public_ip_adapter client sha3 =
     resource_adapter client
       \<lparr>gvr_group = ''network.v1.secapi.cloud'', gvr_version = ''v1'', gvr_resource = ''public-ips''\<rparr>
       sha3 (public_ip_to_cr sha3) (\<lambda>decode. public_ip_from_cr decode sha3) (\<lambda>r. PlainScope (own_scope r))"

definition route_table_adapter ::
  "'w dyn_client \<Rightarrow> (string \<Rightarrow> string) \<Rightarrow> ((route_table_cr_spec, route_table_status) custom_resource \<Rightarrow> go_error + uobject)
   \<Rightarrow> (uobject, route_table_cr_spec, route_table_status) decoder \<Rightarrow> time \<Rightarrow> (route_table, 'w) adapter" where
  "route_table_adapter client sha3 =
     resource_adapter client
       \<lparr>gvr_group = ''network.v1.secapi.cloud'', gvr_version = ''v1'', gvr_resource = ''route-tables''\<rparr>
       sha3 (route_table_to_cr sha3) (\<lambda>decode. route_table_from_cr decode sha3) (\<lambda>r. NetworkScoped (own_network_scope r))"

definition subnet_adapter ::
  "'w dyn_client \<Rightarrow> (string \<Rightarrow> string) \<Rightarrow> ((subnet_cr_spec, subnet_status) custom_resource \<Rightarrow> go_error + uobject)
   \<Rightarrow> (uobject, subnet_cr_spec, subnet_status) decoder \<Rightarrow> time \<Rightarrow> (subnet, 'w) adapter" where
  "subnet_adapter client sha3 =
     resource_adapter client
       \<lparr>gvr_group = ''network.v1.secapi.cloud'', gvr_version = ''v1'', gvr_resource = ''subnets''\<rparr>
       sha3 (subnet_to_cr sha3) (\<lambda>decode. subnet_from_cr decode sha3) (\<lambda>r. NetworkScoped (own_network_scope r))"

definition security_group_adapter ::
  "'w dyn_client \<Rightarrow> (string \<Rightarrow> string) \<Rightarrow> ((security_group_cr_spec, security_group_status) custom_resource \<Rightarrow> go_error + uobject)
   \<Rightarrow> (uobject, security_group_cr_spec, security_group_status) decoder \<Rightarrow> time \<Rightarrow> (security_group, 'w) adapter" where
  "security_group_adapter client sha3 =
     resource_adapter client
       \<lparr>gvr_group = ''network.v1.secapi.cloud'', gvr_version = ''v1'', gvr_resource = ''security-groups''\<rparr>
       sha3 (security_group_to_cr sha3) (\<lambda>decode. security_group_from_cr decode sha3) (\<lambda>r. PlainScope (own_scope r))"

definition security_group_rule_adapter ::
  "'w dyn_client \<Rightarrow> (string \<Rightarrow> string) \<Rightarrow> ((security_group_rule_cr_spec, status) custom_resource \<Rightarrow> go_error + uobject)
   \<Rightarrow> (uobject, security_group_rule_cr_spec, status) decoder \<Rightarrow> time \<Rightarrow> (security_group_rule, 'w) adapter" where
  "security_group_rule_adapter client sha3 =
     resource_adapter client
       \<lparr>gvr_group = ''network.v1.secapi.cloud'', gvr_version = ''v1'', gvr_resource = ''security-group-rules''\<rparr>
       sha3 (security_group_rule_to_cr sha3) (\<lambda>decode. security_group_rule_from_cr decode sha3) (\<lambda>r. PlainScope (own_scope r))"

definition block_storage_adapter ::
  "'w dyn_client \<Rightarrow> (string \<Rightarrow> string) \<Rightarrow> ((block_storage_spec, block_storage_status) custom_resource \<Rightarrow> go_error + uobject)
   \<Rightarrow> (uobject, block_storage_spec, block_storage_status) decoder \<Rightarrow> time \<Rightarrow> (block_storage, 'w) adapter" where
  "block_storage_adapter client sha3 =
     resource_adapter client
       \<lparr>gvr_group = ''storage.v1.secapi.cloud'', gvr_version = ''v1'', gvr_resource = ''block-storages''\<rparr>
       sha3 (block_storage_to_cr sha3) (\<lambda>decode. block_storage_from_cr decode sha3) (\<lambda>r. PlainScope (own_scope r))"

definition image_adapter ::
  "'w dyn_client \<Rightarrow> (string \<Rightarrow> string) \<Rightarrow> ((image_spec, image_status) custom_resource \<Rightarrow> go_error + uobject)
   \<Rightarrow> (uobject, image_spec, image_status) decoder \<Rightarrow> time \<Rightarrow> (image, 'w) adapter" where
  "image_adapter client sha3 =
     resource_adapter client
       \<lparr>gvr_group = ''storage.v1.secapi.cloud'', gvr_version = ''v1'', gvr_resource = ''images''\<rparr>
       sha3 (image_to_cr sha3) (\<lambda>decode. image_from_cr decode sha3) (\<lambda>r. PlainScope (own_scope r))"

definition instance_adapter ::
  "'w dyn_client \<Rightarrow> (string \<Rightarrow> string) \<Rightarrow> ((instance_spec, instance_status) custom_resource \<Rightarrow> go_error + uobject)
   \<Rightarrow> (uobject, instance_spec, instance_status) decoder \<Rightarrow> time \<Rightarrow> (instance_res, 'w) adapter" where
  "instance_adapter client sha3 =
     resource_adapter client
       \<lparr>gvr_group = ''compute.v1.secapi.cloud'', gvr_version = ''v1'', gvr_resource = ''instances''\<rparr>
       sha3 (instance_to_cr sha3) (\<lambda>decode. instance_from_cr decode sha3) (\<lambda>r. PlainScope (own_scope r))"

definition role_adapter ::
  "'w dyn_client \<Rightarrow> (string \<Rightarrow> string) \<Rightarrow> ((role_cr_spec, status) custom_resource \<Rightarrow> go_error + uobject)
   \<Rightarrow> (uobject, role_cr_spec, status) decoder \<Rightarrow> time \<Rightarrow> (role, 'w) adapter" where
  "role_adapter client sha3 =
     resource_adapter client
       \<lparr>gvr_group = ''authorization.v1.secapi.cloud'', gvr_version = ''v1'', gvr_resource = ''roles''\<rparr>
       sha3 (role_to_cr sha3) (\<lambda>decode. role_from_cr decode sha3) (\<lambda>r. PlainScope (own_scope r))"

definition role_assignment_adapter ::
  "'w dyn_client \<Rightarrow> (string \<Rightarrow> string) \<Rightarrow> ((role_assignment_cr_spec, status) custom_resource \<Rightarrow> go_error + uobject)
   \<Rightarrow> (uobject, role_assignment_cr_spec, status) decoder \<Rightarrow> time \<Rightarrow> (role_assignment, 'w) adapter" where
  "role_assignment_adapter client sha3 =
     resource_adapter client
       \<lparr>gvr_group = ''authorization.v1.secapi.cloud'', gvr_version = ''v1'', gvr_resource = ''role-assignments''\<rparr>
       sha3 (role_assignment_to_cr sha3) (\<lambda>decode. role_assignment_from_cr decode sha3) (\<lambda>r. PlainScope (own_scope r))"

subsection \<open>What holds of every one of them\<close>

text \<open>
  A server that answers for one object, by what it is documented to do with an object that is marked
  for deletion: an update that leaves it no finalizer takes it away, and then it is not found.
\<close>

definition removes_unfinalized ::
  "'w dyn_client \<Rightarrow> gvr \<Rightarrow> string \<Rightarrow> string \<Rightarrow> ('w \<Rightarrow> uobject option) \<Rightarrow> bool" where
  "removes_unfinalized client kind namespace name current \<longleftrightarrow>
    (\<forall>u w old. current w = Some old \<and> uo_name u = name \<and> uo_version u = uo_version old \<and>
       uo_deletion old \<noteq> None \<and> uo_finalizers u = [] \<longrightarrow>
       (\<exists>res w'. dc_update client kind namespace u w = (Inr res, w') \<and> current w' = None)) \<and>
    (\<forall>w. current w = None \<longrightarrow>
       (\<exists>err w'. dc_get client kind namespace name w = (Inl err, w') \<and> current w' = None))"

lemma removes_unfinalizedD:
  assumes "removes_unfinalized client kind namespace name current"
  shows "current w = Some old \<Longrightarrow> uo_name u = name \<Longrightarrow> uo_version u = uo_version old \<Longrightarrow>
      uo_deletion old \<noteq> None \<Longrightarrow> uo_finalizers u = [] \<Longrightarrow>
      \<exists>res w'. dc_update client kind namespace u w = (Inr res, w') \<and> current w' = None"
    and "current w = None \<Longrightarrow> \<exists>err w'. dc_get client kind namespace name w = (Inl err, w') \<and> current w' = None"
  using assms unfolding removes_unfinalized_def by blast+

definition encodes_metadata :: "(('s, 't) custom_resource \<Rightarrow> go_error + uobject) \<Rightarrow> bool" where
  "encodes_metadata encode \<longleftrightarrow>
    (\<forall>cr. \<exists>u. encode cr = Inr u \<and> uo_name u = cr_name cr \<and> uo_version u = cr_version cr \<and>
       uo_finalizers u = cr_finalizers cr)"

locale adapted_resource = stored_resource sha3 to_cr from_cr storable seen view
  for sha3 :: "string \<Rightarrow> string"
    and to_cr :: "'m common_metadata_scheme option \<Rightarrow> go_error + ('s, 't) custom_resource"
    and from_cr :: "(uobject, 's, 't) decoder \<Rightarrow> time \<Rightarrow> (uobject, 's, 't) client_object
      \<Rightarrow> go_error + 'm common_metadata_scheme"
    and storable :: "'m common_metadata_scheme \<Rightarrow> bool"
    and seen :: "time \<Rightarrow> string \<Rightarrow> time \<Rightarrow> time option \<Rightarrow> 'm common_metadata_scheme \<Rightarrow> 'm common_metadata_scheme"
    and view :: "'m common_metadata_scheme \<Rightarrow> scoped" +
  fixes client :: "'w dyn_client" and kind :: gvr
    and encode :: "('s, 't) custom_resource \<Rightarrow> go_error + uobject"
    and decode :: "(uobject, 's, 't) decoder" and now :: time
    and a :: "('m common_metadata_scheme, 'w) adapter"
  assumes adapter: "a = resource_adapter client kind sha3 to_cr from_cr view encode decode now"
    and object: "to_cr (Some r) = Inr cr \<Longrightarrow>
      cr_name cr = md_name r \<and> cr_version cr = md_version r \<and> cr_finalizers cr = []"
begin

lemma load_returns_stored:
  assumes "storable r" and "to_cr (Some r) = Inr cr" and "decode u = Inr (stored v c d fs cr)"
    and "dc_get client kind (cr_namespace cr) (md_name r) w = (Inr u, w1)"
  shows "adapter_load a r w = (Inr (seen now v c d r), w1)"
  using comes_back [OF assms(1)] assms
  by (auto simp: adapter_load_def adapter resource_adapter_def survives_def presents_def)

lemma list_converts_stored:
  assumes "list_all2 (\<lambda>u (r, v, c, d, fs). storable r \<and> (\<exists>cr. to_cr (Some r) = Inr cr \<and>
       decode u = Inr (stored v c d fs cr))) us rs"
  shows "convert_items (ad_from_k8s a) us = Inr (map (\<lambda>(r, v, c, d, fs). seen now v c d r) rs)"
  using assms
proof (induction us rs rule: list_all2_induct)
  case (Cons u us x rs)
  obtain r v c d fs where x: "x = (r, v, c, d, fs)" by (cases x)
  with Cons(1) have "ad_from_k8s a u = Inr (seen now v c d r)"
    using comes_back [of r] by (auto simp: adapter resource_adapter_def survives_def presents_def)
  with Cons x show ?case by simp
qed simp

lemma versioned_update_removes:
  assumes "storable m" and "md_version m \<noteq> []" and "encodes_metadata encode"
    and server: "\<And>cr. to_cr (Some m) = Inr cr \<Longrightarrow>
      removes_unfinalized client kind (cr_namespace cr) (md_name m) current"
    and old: "current w = Some old" "uo_version old = md_version m" "uo_deletion old \<noteq> None"
  shows "\<exists>err w'. adapter_update a m w = (Inl err, w') \<and> current w' = None"
proof -
  from comes_back [OF assms(1)] obtain cr where cr: "to_cr (Some m) = Inr cr"
    "resolve_namespace sha3 (view m) = Inr (cr_namespace cr)"
    by (auto simp: survives_def)
  from assms(3) object [OF cr(1)] obtain u where u: "encode cr = Inr u" "uo_name u = md_name m"
    "uo_version u = md_version m" "uo_finalizers u = []"
    by (metis encodes_metadata_def)
  with removes_unfinalizedD(1) [OF server [OF cr(1)] old(1), of u] old obtain res w1 where upd:
    "dc_update client kind (cr_namespace cr) u w = (Inr res, w1)" "current w1 = None"
    by auto
  from removes_unfinalizedD(2) [OF server [OF cr(1)] upd(2)] obtain err w2 where
    "dc_get client kind (cr_namespace cr) (md_name m) w1 = (Inl err, w2)" "current w2 = None"
    by blast
  with cr u upd assms(2) show ?thesis
    by (simp add: adapter_update_def adapter resource_adapter_def)
qed

end

interpretation workspace_adapted: adapted_resource sha3 "workspace_to_cr codec sha3" "\<lambda>decode. workspace_from_cr codec decode sha3"
    "storable_workspace codec sha3" workspace_back "\<lambda>r. PlainScope (own_scope r)" client
    "\<lparr>gvr_group = ''workspace.v1.secapi.cloud'', gvr_version = ''v1'', gvr_resource = ''workspaces''\<rparr>"
    encode decode now "workspace_adapter client codec sha3 encode decode now" for sha3 codec client encode decode now
  by unfold_locales
    (auto simp: workspace_adapter_def workspace_to_cr_def new_object_def Let_def split: sum.splits)

interpretation network_adapted: adapted_resource sha3 "network_to_cr sha3" "\<lambda>decode. network_from_cr decode sha3"
    "storable_network sha3" network_back "\<lambda>r. PlainScope (own_scope r)" client
    "\<lparr>gvr_group = ''network.v1.secapi.cloud'', gvr_version = ''v1'', gvr_resource = ''networks''\<rparr>"
    encode decode now "network_adapter client sha3 encode decode now" for sha3 client encode decode now
  by unfold_locales
    (auto simp: network_adapter_def network_to_cr_def new_object_def Let_def split: sum.splits)

interpretation internet_gateway_adapted: adapted_resource sha3 "internet_gateway_to_cr sha3" "\<lambda>decode. internet_gateway_from_cr decode sha3"
    "storable_internet_gateway sha3" internet_gateway_back "\<lambda>r. PlainScope (own_scope r)" client
    "\<lparr>gvr_group = ''network.v1.secapi.cloud'', gvr_version = ''v1'', gvr_resource = ''internet-gateways''\<rparr>"
    encode decode now "internet_gateway_adapter client sha3 encode decode now" for sha3 client encode decode now
  by unfold_locales
    (auto simp: internet_gateway_adapter_def internet_gateway_to_cr_def new_object_def Let_def split: sum.splits)

interpretation nic_adapted: adapted_resource sha3 "nic_to_cr sha3" "\<lambda>decode. nic_from_cr decode sha3"
    "storable_nic sha3" nic_back "\<lambda>r. PlainScope (own_scope r)" client
    "\<lparr>gvr_group = ''network.v1.secapi.cloud'', gvr_version = ''v1'', gvr_resource = ''nics''\<rparr>"
    encode decode now "nic_adapter client sha3 encode decode now" for sha3 client encode decode now
  by unfold_locales
    (auto simp: nic_adapter_def nic_to_cr_def new_object_def Let_def split: sum.splits)

interpretation public_ip_adapted: adapted_resource sha3 "public_ip_to_cr sha3" "\<lambda>decode. public_ip_from_cr decode sha3"
    "storable_public_ip sha3" public_ip_back "\<lambda>r. PlainScope (own_scope r)" client
    "\<lparr>gvr_group = ''network.v1.secapi.cloud'', gvr_version = ''v1'', gvr_resource = ''public-ips''\<rparr>"
    encode decode now "public_ip_adapter client sha3 encode decode now" for sha3 client encode decode now
  by unfold_locales
    (auto simp: public_ip_adapter_def public_ip_to_cr_def new_object_def Let_def split: sum.splits)

interpretation route_table_adapted: adapted_resource sha3 "route_table_to_cr sha3" "\<lambda>decode. route_table_from_cr decode sha3"
    "storable_route_table sha3" route_table_back "\<lambda>r. NetworkScoped (own_network_scope r)" client
    "\<lparr>gvr_group = ''network.v1.secapi.cloud'', gvr_version = ''v1'', gvr_resource = ''route-tables''\<rparr>"
    encode decode now "route_table_adapter client sha3 encode decode now" for sha3 client encode decode now
  by unfold_locales
    (auto simp: route_table_adapter_def route_table_to_cr_def new_object_def Let_def split: sum.splits)

interpretation subnet_adapted: adapted_resource sha3 "subnet_to_cr sha3" "\<lambda>decode. subnet_from_cr decode sha3"
    "storable_subnet sha3" subnet_back "\<lambda>r. NetworkScoped (own_network_scope r)" client
    "\<lparr>gvr_group = ''network.v1.secapi.cloud'', gvr_version = ''v1'', gvr_resource = ''subnets''\<rparr>"
    encode decode now "subnet_adapter client sha3 encode decode now" for sha3 client encode decode now
  by unfold_locales
    (auto simp: subnet_adapter_def subnet_to_cr_def new_object_def Let_def split: sum.splits)

interpretation security_group_adapted: adapted_resource sha3 "security_group_to_cr sha3" "\<lambda>decode. security_group_from_cr decode sha3"
    "storable_security_group sha3" security_group_back "\<lambda>r. PlainScope (own_scope r)" client
    "\<lparr>gvr_group = ''network.v1.secapi.cloud'', gvr_version = ''v1'', gvr_resource = ''security-groups''\<rparr>"
    encode decode now "security_group_adapter client sha3 encode decode now" for sha3 client encode decode now
  by unfold_locales
    (auto simp: security_group_adapter_def security_group_to_cr_def new_object_def Let_def split: sum.splits)

interpretation security_group_rule_adapted: adapted_resource sha3 "security_group_rule_to_cr sha3" "\<lambda>decode. security_group_rule_from_cr decode sha3"
    "storable_security_group_rule sha3" security_group_rule_back "\<lambda>r. PlainScope (own_scope r)" client
    "\<lparr>gvr_group = ''network.v1.secapi.cloud'', gvr_version = ''v1'', gvr_resource = ''security-group-rules''\<rparr>"
    encode decode now "security_group_rule_adapter client sha3 encode decode now" for sha3 client encode decode now
  by unfold_locales
    (auto simp: security_group_rule_adapter_def security_group_rule_to_cr_def new_object_def Let_def split: sum.splits)

interpretation block_storage_adapted: adapted_resource sha3 "block_storage_to_cr sha3" "\<lambda>decode. block_storage_from_cr decode sha3"
    "storable_block_storage sha3" block_storage_back "\<lambda>r. PlainScope (own_scope r)" client
    "\<lparr>gvr_group = ''storage.v1.secapi.cloud'', gvr_version = ''v1'', gvr_resource = ''block-storages''\<rparr>"
    encode decode now "block_storage_adapter client sha3 encode decode now" for sha3 client encode decode now
  by unfold_locales
    (auto simp: block_storage_adapter_def block_storage_to_cr_def new_object_def Let_def split: sum.splits)

interpretation image_adapted: adapted_resource sha3 "image_to_cr sha3" "\<lambda>decode. image_from_cr decode sha3"
    "storable_image sha3" image_back "\<lambda>r. PlainScope (own_scope r)" client
    "\<lparr>gvr_group = ''storage.v1.secapi.cloud'', gvr_version = ''v1'', gvr_resource = ''images''\<rparr>"
    encode decode now "image_adapter client sha3 encode decode now" for sha3 client encode decode now
  by unfold_locales
    (auto simp: image_adapter_def image_to_cr_def new_object_def Let_def split: sum.splits)

interpretation instance_adapted: adapted_resource sha3 "instance_to_cr sha3" "\<lambda>decode. instance_from_cr decode sha3"
    "storable_instance sha3" instance_back "\<lambda>r. PlainScope (own_scope r)" client
    "\<lparr>gvr_group = ''compute.v1.secapi.cloud'', gvr_version = ''v1'', gvr_resource = ''instances''\<rparr>"
    encode decode now "instance_adapter client sha3 encode decode now" for sha3 client encode decode now
  by unfold_locales
    (auto simp: instance_adapter_def instance_to_cr_def new_object_def Let_def split: sum.splits)

interpretation role_adapted: adapted_resource sha3 "role_to_cr sha3" "\<lambda>decode. role_from_cr decode sha3"
    "storable_role sha3" role_back "\<lambda>r. PlainScope (own_scope r)" client
    "\<lparr>gvr_group = ''authorization.v1.secapi.cloud'', gvr_version = ''v1'', gvr_resource = ''roles''\<rparr>"
    encode decode now "role_adapter client sha3 encode decode now" for sha3 client encode decode now
  by unfold_locales
    (auto simp: role_adapter_def role_to_cr_def new_object_def Let_def split: sum.splits)

interpretation role_assignment_adapted: adapted_resource sha3 "role_assignment_to_cr sha3" "\<lambda>decode. role_assignment_from_cr decode sha3"
    "storable_role_assignment sha3" role_assignment_back "\<lambda>r. PlainScope (own_scope r)" client
    "\<lparr>gvr_group = ''authorization.v1.secapi.cloud'', gvr_version = ''v1'', gvr_resource = ''role-assignments''\<rparr>"
    encode decode now "role_assignment_adapter client sha3 encode decode now" for sha3 client encode decode now
  by unfold_locales
    (auto simp: role_assignment_adapter_def role_assignment_to_cr_def new_object_def Let_def split: sum.splits)

subsection \<open>Every resource survives the store\<close>

text \<open>
  C39. Every resource survives the store. For each of the fourteen kinds, a resource whose references
  are in the form the domain has, whose labels have distinct hashes and whose state is one of the
  lifecycle states converts to an object in the namespace the adapter looks in, and whoever reads that
  object back, typed or unstructured, gets the resource, with the version and times the store set
  and the pending status when it had none.
\<close>

theorem every_resource_survives:
  "(storable_workspace codec sha3 ws \<longrightarrow>
      survives sha3 (workspace_to_cr codec sha3) (\<lambda>decode. workspace_from_cr codec decode sha3) workspace_back
        (\<lambda>r. PlainScope (own_scope r)) ws) \<and>
    (storable_network sha3 nw \<longrightarrow>
      survives sha3 (network_to_cr sha3) (\<lambda>decode. network_from_cr decode sha3) network_back
        (\<lambda>r. PlainScope (own_scope r)) nw) \<and>
    (storable_internet_gateway sha3 ig \<longrightarrow>
      survives sha3 (internet_gateway_to_cr sha3) (\<lambda>decode. internet_gateway_from_cr decode sha3) internet_gateway_back
        (\<lambda>r. PlainScope (own_scope r)) ig) \<and>
    (storable_nic sha3 ni \<longrightarrow>
      survives sha3 (nic_to_cr sha3) (\<lambda>decode. nic_from_cr decode sha3) nic_back
        (\<lambda>r. PlainScope (own_scope r)) ni) \<and>
    (storable_public_ip sha3 pi \<longrightarrow>
      survives sha3 (public_ip_to_cr sha3) (\<lambda>decode. public_ip_from_cr decode sha3) public_ip_back
        (\<lambda>r. PlainScope (own_scope r)) pi) \<and>
    (storable_route_table sha3 rt \<longrightarrow>
      survives sha3 (route_table_to_cr sha3) (\<lambda>decode. route_table_from_cr decode sha3) route_table_back
        (\<lambda>r. NetworkScoped (own_network_scope r)) rt) \<and>
    (storable_subnet sha3 sn \<longrightarrow>
      survives sha3 (subnet_to_cr sha3) (\<lambda>decode. subnet_from_cr decode sha3) subnet_back
        (\<lambda>r. NetworkScoped (own_network_scope r)) sn) \<and>
    (storable_security_group sha3 sg \<longrightarrow>
      survives sha3 (security_group_to_cr sha3) (\<lambda>decode. security_group_from_cr decode sha3) security_group_back
        (\<lambda>r. PlainScope (own_scope r)) sg) \<and>
    (storable_security_group_rule sha3 sr \<longrightarrow>
      survives sha3 (security_group_rule_to_cr sha3) (\<lambda>decode. security_group_rule_from_cr decode sha3) security_group_rule_back
        (\<lambda>r. PlainScope (own_scope r)) sr) \<and>
    (storable_block_storage sha3 bs \<longrightarrow>
      survives sha3 (block_storage_to_cr sha3) (\<lambda>decode. block_storage_from_cr decode sha3) block_storage_back
        (\<lambda>r. PlainScope (own_scope r)) bs) \<and>
    (storable_image sha3 im \<longrightarrow>
      survives sha3 (image_to_cr sha3) (\<lambda>decode. image_from_cr decode sha3) image_back
        (\<lambda>r. PlainScope (own_scope r)) im) \<and>
    (storable_instance sha3 vm \<longrightarrow>
      survives sha3 (instance_to_cr sha3) (\<lambda>decode. instance_from_cr decode sha3) instance_back
        (\<lambda>r. PlainScope (own_scope r)) vm) \<and>
    (storable_role sha3 ro \<longrightarrow>
      survives sha3 (role_to_cr sha3) (\<lambda>decode. role_from_cr decode sha3) role_back
        (\<lambda>r. PlainScope (own_scope r)) ro) \<and>
    (storable_role_assignment sha3 ra \<longrightarrow>
      survives sha3 (role_assignment_to_cr sha3) (\<lambda>decode. role_assignment_from_cr decode sha3) role_assignment_back
        (\<lambda>r. PlainScope (own_scope r)) ra)"
  by (simp add: workspace_comes_back network_comes_back internet_gateway_comes_back nic_comes_back
      public_ip_comes_back route_table_comes_back subnet_comes_back security_group_comes_back
      security_group_rule_comes_back block_storage_comes_back image_comes_back
      instance_comes_back role_comes_back role_assignment_comes_back)

text \<open>
  An update with a version releases what is being deleted. The object the converters build has no
  finalizers, so an update that names the version of a stored volume marked for deletion, where the
  update without one would leave it alone, takes its finalizers away: the server removes it, although
  the provider was never asked to delete the volume.
\<close>

theorem versioned_update_releases_volume:
  assumes "storable_block_storage sha3 m" and "md_version m \<noteq> []" and "encodes_metadata encode"
    and "removes_unfinalized client (ad_gvr (block_storage_adapter client sha3 encode decode now))
      (compute_namespace sha3 (own_scope m)) (md_name m) current"
    and "current w = Some old" and "uo_version old = md_version m" and "uo_deletion old \<noteq> None"
  shows "\<exists>err w'. adapter_update (block_storage_adapter client sha3 encode decode now) m w = (Inl err, w')
    \<and> current w' = None"
  using assms
  by (intro block_storage_adapted.versioned_update_removes [where old = old])
     (auto simp: block_storage_adapter_def resource_adapter_def block_storage_to_cr_def new_object_def Let_def
       split: sum.splits)

subsection \<open>The properties on small stores\<close>

definition sku_reference :: reference where
  "sku_reference = reference_from_cr \<lparr>ref_provider = ''seca.network/v1'', ref_region = [],
     ref_resource = ''skus/fast'', ref_tenant = ''t'', ref_workspace = []\<rparr>"

definition active_status :: status where
  "active_status = \<lparr>st_state = StateActive, st_conditions = [default_pending_condition\<lparr>c_state := StateActive\<rparr>]\<rparr>"

definition demo_network :: network where
  "demo_network = \<lparr>md_name = ''n'', md_provider = ''seca.network/v1'', md_version = ''3'', md_created = 5, md_updated = 5,
     md_deleted = None, md_tenant = ''t'', md_workspace = ''w'', md_labels = [(''env'', ''prod''), (''tier'', ''gold'')],
     md_annotations = [(''a'', ''1'')], md_extensions = [], md_region = ''eu'',
     nw_spec = \<lparr>nws_additional_cidrs = [\<lparr>cidr_ipv4 = ''10.1.0.0/16'', cidr_ipv6 = []\<rparr>],
       nws_cidr = \<lparr>cidr_ipv4 = ''10.0.0.0/16'', cidr_ipv6 = []\<rparr>, nws_sku_ref = sku_reference\<rparr>,
     nw_status = Some \<lparr>nwst_status = active_status\<rparr>\<rparr>"

definition demo_route_table :: route_table where
  "demo_route_table = \<lparr>md_name = ''r'', md_provider = ''seca.network/v1'', md_version = [], md_created = 0, md_updated = 0,
     md_deleted = None, md_tenant = ''t'', md_workspace = ''w'', md_labels = [], md_annotations = [],
     md_extensions = [], md_region = ''eu'', md_network = ''n'',
     rt_routes = [\<lparr>rs_destination = ''0.0.0.0/0'', rs_target_ref = sku_reference\<rparr>], rt_status = None\<rparr>"

definition demo_volume :: block_storage where
  "demo_volume = \<lparr>md_name = ''v'', md_provider = ''seca.storage/v1'', md_version = ''7'', md_created = 0, md_updated = 0,
     md_deleted = None, md_tenant = ''t'', md_workspace = ''w'', md_labels = [], md_annotations = [],
     md_extensions = [], md_region = ''eu'',
     bs_spec = \<lparr>bss_size_gb = 10, bss_sku_ref = sku_reference, bss_source_image_ref = None\<rparr>, bs_status = None\<rparr>"

lemma sku_reference_domain [simp]: "domain_reference sku_reference"
proof -
  let ?ref = "\<lparr>ref_provider = ''seca.network/v1'', ref_region = [], ref_resource = ''skus/fast'',
     ref_tenant = ''t'', ref_workspace = []\<rparr>"
  have "segment ''skus'' \<and> ''skus'' \<notin> reserved \<and> segment ''fast'' \<and> ref_resource ?ref = path ([] @ [''skus'', ''fast'']) \<and>
      plain_field (ref_tenant ?ref) \<and> plain_field (ref_workspace ?ref)"
    by (simp add: segment_def reserved_def plain_field_def)
  then show ?thesis unfolding domain_reference_def sku_reference_def
    by (intro disjI2 exI [of _ "[]"] exI [of _ "''skus''"] exI [of _ "''fast''"] exI [of _ ?ref]) auto
qed

lemma demo_storable:
  "storable_network (\<lambda>s. s) demo_network" "storable_route_table (\<lambda>s. s) demo_route_table"
  "storable_block_storage (\<lambda>s. s) demo_volume"
  by (simp_all add: storable_network_def storable_route_table_def storable_block_storage_def demo_network_def
      demo_route_table_def demo_volume_def storable_metadata_def storable_optional_status_def
      storable_status_def active_status_def lifecycle_states_def key_sorted_def default_pending_condition_def)

lemma every_resource_survives_witness:
  "survives (\<lambda>s. s) (network_to_cr (\<lambda>s. s))
     (\<lambda>decode :: (uobject, network_spec, network_cr_status) decoder. network_from_cr decode (\<lambda>s. s)) network_back
     (\<lambda>r. PlainScope (own_scope r)) demo_network \<and>
   survives (\<lambda>s. s) (route_table_to_cr (\<lambda>s. s))
     (\<lambda>decode :: (uobject, route_table_cr_spec, route_table_status) decoder. route_table_from_cr decode (\<lambda>s. s))
     route_table_back (\<lambda>r. NetworkScoped (own_network_scope r)) demo_route_table"
  using every_resource_survives [of _ "\<lambda>s. s" _ demo_network _ _ _ demo_route_table] demo_storable by blast

text \<open>A store of one object that does what the API server does with updates.\<close>

definition finalizing_client :: "(uobject option) dyn_client" where
  "finalizing_client = one_object_client
     \<lparr>dc_update := (\<lambda>kind namespace u w.
        case w of
          None \<Rightarrow> (Inl (KubeError [IsNotFound] True None ''not found''), w)
        | Some old \<Rightarrow>
            if uo_version u \<noteq> uo_version old then (Inl (KubeError [IsConflict] True None ''conflict''), w)
            else if uo_deletion old \<noteq> None \<and> uo_finalizers u = [] then (Inr u, None)
            else (Inr u, Some (u\<lparr>uo_deletion := uo_deletion old\<rparr>)))\<rparr>"

definition plain_encode :: "(block_storage_spec, block_storage_status) custom_resource \<Rightarrow> go_error + uobject" where
  "plain_encode cr = Inr \<lparr>uo_name = cr_name cr, uo_labels = cr_labels cr, uo_annotations = cr_annotations cr,
     uo_finalizers = cr_finalizers cr, uo_deletion = cr_deleted cr, uo_version = cr_version cr, uo_fields = []\<rparr>"

definition no_decode :: "(uobject, block_storage_spec, block_storage_status) decoder" where
  "no_decode u = Inl (GoError ''undecodable'')"

definition deleting_volume :: uobject where
  "deleting_volume = \<lparr>uo_name = ''v'', uo_labels = [], uo_annotations = [],
     uo_finalizers = [''secapi.cloud.foundation/cleanup''], uo_deletion = Some 9, uo_version = ''7'', uo_fields = []\<rparr>"

lemma finalizing_client_removes:
  "removes_unfinalized finalizing_client kind namespace name (\<lambda>w. w)"
  by (auto simp: removes_unfinalized_def finalizing_client_def one_object_client_def)

lemma versioned_update_releases_volume_witness:
  "\<exists>err w'. adapter_update (block_storage_adapter finalizing_client (\<lambda>s. s) plain_encode no_decode 0) demo_volume
      (Some deleting_volume) = (Inl err, w') \<and> w' = None"
proof (rule versioned_update_releases_volume [where current = "\<lambda>w. w" and old = deleting_volume])
  show "encodes_metadata plain_encode" by (simp add: encodes_metadata_def plain_encode_def)
  show "storable_block_storage (\<lambda>s. s) demo_volume" by (rule demo_storable)
qed (simp_all add: finalizing_client_removes demo_volume_def deleting_volume_def)

end
