(* ===== verification/Catalog_Conversion.thy ===== *)
theory Catalog_Conversion
  imports Cr_Conversion
begin

section \<open>The read-only resources: regions and SKUs\<close>

text \<open>
  Models the domain types and converters of \<^verbatim>\<open>resource/region/v1\<close> and of the SKUs of compute, network and
  storage. They have no status and no reconcile loop: the platform writes their objects and the
  gateways read them.
\<close>

subsection \<open>Types\<close>

record region_provider =
  rp_name :: string
  rp_url :: string
  rp_version :: string

record region = common_metadata +
  rg_providers :: "region_provider list"
  rg_zones :: "string list"

record region_cr_spec =
  rgcs_available_zones :: "string list"
  rgcs_providers :: "region_provider list"

record instance_sku_spec =
  isks_vcpu :: int
  isks_ram :: int

record instance_sku = regional_metadata +
  isk_spec :: instance_sku_spec

record network_sku_spec =
  nsks_bandwidth :: int
  nsks_packets :: int

record network_sku = regional_metadata +
  nsk_spec :: network_sku_spec

record storage_sku_spec =
  ssks_iops :: int
  ssks_min_volume_size :: int
  ssks_type :: string

record storage_sku = regional_metadata +
  ssk_spec :: storage_sku_spec

text \<open>An object without namespace, labels and common data: only its kind, name and version are set.\<close>

definition bare_object :: "gvk \<Rightarrow> 'm common_metadata_scheme \<Rightarrow> 's \<Rightarrow> ('s, unit) custom_resource" where
  "bare_object kind r spec =
     \<lparr>cr_gvk = kind, cr_name = md_name r, cr_namespace = [], cr_labels = [], cr_annotations = [],
      cr_finalizers = [], cr_version = md_version r, cr_created = 0, cr_deleted = None,
      cr_common_annotations = [], cr_common_extensions = [], cr_common_labels = [], cr_spec = spec,
      cr_status = None\<rparr>"

subsection \<open>Regions\<close>

definition validate_region_spec :: "(region_cr_spec, unit) custom_resource \<Rightarrow> go_error option" where
  "validate_region_spec cr =
    (if rgcs_providers (cr_spec cr) = []
     then Some (GoError (''region '' @ cr_name cr @ '' has no providers''))
     else if rgcs_available_zones (cr_spec cr) = []
     then Some (GoError (''region '' @ cr_name cr @ '' has no available zones''))
     else if list_ex (\<lambda>p. rp_name p = []) (rgcs_providers (cr_spec cr))
     then Some (GoError (''region '' @ cr_name cr @ '' has provider with empty name''))
     else if [] \<in> set (rgcs_available_zones (cr_spec cr))
     then Some (GoError (''region '' @ cr_name cr @ '' has empty zone entry''))
     else None)"

definition map_providers :: "(region_cr_spec, unit) custom_resource \<Rightarrow> region_provider list" where
  "map_providers cr =
     map (\<lambda>p. \<lparr>rp_name = rp_name p, rp_url = rp_url p, rp_version = rp_version p\<rparr>) (rgcs_providers (cr_spec cr))"

definition map_zones :: "(region_cr_spec, unit) custom_resource \<Rightarrow> string list" where
  "map_zones cr = map (\<lambda>z. z) (rgcs_available_zones (cr_spec cr))"

text \<open>The provider is the label as it stands; the other resources read slashes for its underscores.\<close>

definition region_from_cr ::
  "('u, region_cr_spec, unit) decoder \<Rightarrow> ('u, region_cr_spec, unit) client_object \<Rightarrow> go_error + region" where
  "region_from_cr decode obj =
    (case obj of
       OtherObject ty \<Rightarrow>
         Inl (GoError (''unsupported object type '' @ ty @ '' (expected *Region or *unstructured.Unstructured)''))
     | _ \<Rightarrow>
         (case read_cr decode ''Region'' obj of
            Inl err \<Rightarrow> Inl err
          | Inr cr \<Rightarrow>
              (case validate_region_spec cr of
                 Some err \<Rightarrow> Inl err
               | None \<Rightarrow>
                   Inr \<lparr>md_name = cr_name cr,
                        md_provider = map_index (get_internal_labels (cr_labels cr)) internal_provider_label,
                        md_version = cr_version cr, md_created = cr_created cr, md_updated = cr_created cr,
                        md_deleted = cr_deleted cr, rg_providers = map_providers cr, rg_zones = map_zones cr\<rparr>)))"

definition region_gvk :: gvk where
  "region_gvk = \<lparr>gvk_group = ''v1.secapi.cloud'', gvk_version = ''v1'', gvk_kind = ''Region''\<rparr>"

definition region_to_cr :: "region option \<Rightarrow> go_error + (region_cr_spec, unit) custom_resource" where
  "region_to_cr p =
    (case p of
       None \<Rightarrow> Inl (GoError ''region is nil'')
     | Some r \<Rightarrow>
         Inr (bare_object region_gvk r
           \<lparr>rgcs_available_zones = map (\<lambda>z. z) (rg_zones r),
            rgcs_providers = map (\<lambda>p. \<lparr>rp_name = rp_name p, rp_url = rp_url p, rp_version = rp_version p\<rparr>)
              (rg_providers r)\<rparr>))"

subsection \<open>SKUs\<close>

text \<open>The metadata all three read: no labels and no user data.\<close>

definition sku_metadata :: "('s, unit) custom_resource \<Rightarrow> regional_metadata" where
  "sku_metadata cr =
    (let internal_labels = get_internal_labels (cr_labels cr) in
     \<lparr>md_name = cr_name cr,
      md_provider = underscores_to_slashes (map_index internal_labels internal_provider_label),
      md_version = cr_version cr, md_created = cr_created cr, md_updated = cr_created cr,
      md_deleted = cr_deleted cr, md_tenant = map_index internal_labels internal_tenant_label,
      md_workspace = [], md_labels = [], md_annotations = [], md_extensions = [],
      md_region = map_index internal_labels internal_region_label\<rparr>)"

definition instance_sku_from_cr ::
  "('u, instance_sku_spec, unit) decoder \<Rightarrow> ('u, instance_sku_spec, unit) client_object
   \<Rightarrow> go_error + instance_sku" where
  "instance_sku_from_cr decode obj =
    (case read_cr decode ''InstanceSKU'' obj of
       Inl err \<Rightarrow> Inl err
     | Inr cr \<Rightarrow>
         Inr (regional_metadata.extend (sku_metadata cr)
           (instance_sku.fields \<lparr>isks_vcpu = isks_vcpu (cr_spec cr), isks_ram = isks_ram (cr_spec cr)\<rparr>)))"

definition instance_sku_to_cr :: "instance_sku option \<Rightarrow> go_error + (instance_sku_spec, unit) custom_resource" where
  "instance_sku_to_cr p =
    (case p of
       None \<Rightarrow> Inl (GoError ''instance SKU is nil'')
     | Some s \<Rightarrow>
         Inr (bare_object
           \<lparr>gvk_group = ''compute.v1.secapi.cloud'', gvk_version = ''v1'', gvk_kind = ''InstanceSKU''\<rparr> s
           \<lparr>isks_vcpu = isks_vcpu (isk_spec s), isks_ram = isks_ram (isk_spec s)\<rparr>))"

definition network_sku_from_cr ::
  "('u, network_sku_spec, unit) decoder \<Rightarrow> ('u, network_sku_spec, unit) client_object
   \<Rightarrow> go_error + network_sku" where
  "network_sku_from_cr decode obj =
    (case read_cr decode ''NetworkSKU'' obj of
       Inl err \<Rightarrow> Inl err
     | Inr cr \<Rightarrow>
         Inr (regional_metadata.extend (sku_metadata cr)
           (network_sku.fields
              \<lparr>nsks_bandwidth = nsks_bandwidth (cr_spec cr), nsks_packets = nsks_packets (cr_spec cr)\<rparr>)))"

definition network_sku_to_cr :: "network_sku option \<Rightarrow> go_error + (network_sku_spec, unit) custom_resource" where
  "network_sku_to_cr p =
    (case p of
       None \<Rightarrow> Inl (GoError ''network SKU is nil'')
     | Some s \<Rightarrow>
         Inr (bare_object
           \<lparr>gvk_group = ''network.v1.secapi.cloud'', gvk_version = ''v1'', gvk_kind = ''NetworkSKU''\<rparr> s
           \<lparr>nsks_bandwidth = nsks_bandwidth (nsk_spec s), nsks_packets = nsks_packets (nsk_spec s)\<rparr>))"

text \<open>The sizes are 64-bit integers on both sides.\<close>

definition storage_sku_from_cr ::
  "('u, storage_sku_spec, unit) decoder \<Rightarrow> ('u, storage_sku_spec, unit) client_object
   \<Rightarrow> go_error + storage_sku" where
  "storage_sku_from_cr decode obj =
    (case read_cr decode ''StorageSKU'' obj of
       Inl err \<Rightarrow> Inl err
     | Inr cr \<Rightarrow>
         Inr (regional_metadata.extend (sku_metadata cr)
           (storage_sku.fields
              \<lparr>ssks_iops = ssks_iops (cr_spec cr), ssks_min_volume_size = ssks_min_volume_size (cr_spec cr),
               ssks_type = ssks_type (cr_spec cr)\<rparr>)))"

definition storage_sku_to_cr :: "storage_sku option \<Rightarrow> go_error + (storage_sku_spec, unit) custom_resource" where
  "storage_sku_to_cr p =
    (case p of
       None \<Rightarrow> Inl (GoError ''storage SKU is nil'')
     | Some s \<Rightarrow>
         Inr (bare_object
           \<lparr>gvk_group = ''storage.v1.secapi.cloud'', gvk_version = ''v1'', gvk_kind = ''StorageSKU''\<rparr> s
           \<lparr>ssks_iops = ssks_iops (ssk_spec s), ssks_min_volume_size = ssks_min_volume_size (ssk_spec s),
            ssks_type = ssks_type (ssk_spec s)\<rparr>))"

subsection \<open>Facts\<close>

text \<open>A region a reader gets has providers and zones, all of them named.\<close>

lemma region_is_valid:
  assumes "region_from_cr decode obj = Inr r"
  shows "rg_providers r \<noteq> [] \<and> rg_zones r \<noteq> [] \<and> list_all (\<lambda>p. rp_name p \<noteq> []) (rg_providers r) \<and>
    [] \<notin> set (rg_zones r)"
  using assms
  by (auto simp: region_from_cr_def validate_region_spec_def map_providers_def map_zones_def list_ex_iff
      list_all_iff split: client_object.splits sum.splits option.splits if_splits)

text \<open>Writing a region back keeps its providers and zones.\<close>

lemma region_comes_back:
  assumes "region_from_cr decode obj = Inr r"
  shows "\<exists>cr. region_to_cr (Some r) = Inr cr \<and>
    region_from_cr decode (Typed (stored v c d fs cr)) =
      Inr (r\<lparr>md_provider := [], md_version := v, md_created := c, md_updated := c, md_deleted := d\<rparr>)"
proof -
  have "map (\<lambda>p. \<lparr>rp_name = rp_name p, rp_url = rp_url p, rp_version = rp_version p\<rparr>) ps = ps" for ps
    by (induction ps) auto
  with region_is_valid [OF assms] show ?thesis
    by (cases r) (auto simp: region_to_cr_def bare_object_def region_from_cr_def read_cr_def stored_def
      validate_region_spec_def map_providers_def map_zones_def list_ex_iff list_all_iff
      get_internal_labels_def map_index_def)
qed

end
