(* ===== verification/Api_Conversion.thy ===== *)
theory Api_Conversion
  imports Network_Conversion Label_Filter Rest Decimal
begin

section \<open>Resources of the API and what their endpoints share\<close>

text \<open>
  Models \<^verbatim>\<open>resource/common/frontend\<close> and the blocks that the converters and handlers of
  \<^verbatim>\<open>resource/*/frontend/rest\<close> repeat. The SDK's types are records with the fields the code reads and
  writes; its metadata types differ in the scopes they have, and the fields a type lacks are empty here.
  A label map that is absent and one that is empty are the same association list, so the code that
  makes an absent one empty has nothing to do.
\<close>

record api_metadata =
  am_api_version :: string
  am_created :: time
  am_modified :: time
  am_deleted :: "time option"
  am_kind :: string
  am_name :: string
  am_tenant :: string
  am_workspace :: string
  am_network :: string
  am_provider :: string
  am_region :: string
  am_resource :: string
  am_ref :: string
  am_version :: int
  am_verb :: string

record api_condition =
  ac_type :: string
  ac_state :: resource_state
  ac_last :: time
  ac_reason :: string
  ac_message :: string

record api_status =
  apst_state :: resource_state
  apst_conditions :: "api_condition list"

record ('s, 't) api_object =
  ao_metadata :: api_metadata
  ao_labels :: strmap
  ao_annotations :: strmap
  ao_extensions :: strmap
  ao_spec :: 's
  ao_status :: "'t option"

record 'o api_iterator =
  it_items :: "'o list"
  it_provider :: string
  it_resource :: string
  it_verb :: string
  it_skip_token :: "string option"

datatype 'o api_answer = Single 'o | Page "'o api_iterator"

subsection \<open>\<^verbatim>\<open>reference.go\<close> and \<^verbatim>\<open>status.go\<close>\<close>

definition reference_to_api :: "reference \<Rightarrow> reference" where
  "reference_to_api ref =
    \<lparr>ref_provider = ref_provider ref, ref_region = ref_region ref, ref_resource = ref_resource ref,
     ref_tenant = ref_tenant ref, ref_workspace = ref_workspace ref\<rparr>"

definition reference_ptr_to_api :: "reference option \<Rightarrow> reference option" where
  "reference_ptr_to_api p = (case p of None \<Rightarrow> None | Some ref \<Rightarrow> Some (reference_to_api ref))"

definition reference_from_api :: "reference \<Rightarrow> reference" where
  "reference_from_api ref =
    \<lparr>ref_provider = ref_provider ref, ref_region = ref_region ref, ref_resource = ref_resource ref,
     ref_tenant = ref_tenant ref, ref_workspace = ref_workspace ref\<rparr>"

definition resource_state_to_api :: "resource_state \<Rightarrow> resource_state" where
  "resource_state_to_api state =
    (case state of
       StatePending \<Rightarrow> StatePending
     | StateCreating \<Rightarrow> StateCreating
     | StateActive \<Rightarrow> StateActive
     | StateUpdating \<Rightarrow> StateUpdating
     | StateDeleting \<Rightarrow> StateDeleting
     | StateError \<Rightarrow> StateError
     | _ \<Rightarrow> StateUnset)"

definition ip_version_to_api :: "ip_version \<Rightarrow> ip_version" where
  "ip_version_to_api v = (case v of IPVersionIPv4 \<Rightarrow> IPVersionIPv4 | IPVersionIPv6 \<Rightarrow> IPVersionIPv6 | _ \<Rightarrow> IPVersionUnset)"

definition ip_version_from_api :: "ip_version \<Rightarrow> ip_version" where
  "ip_version_from_api v = (case v of IPVersionIPv4 \<Rightarrow> IPVersionIPv4 | IPVersionIPv6 \<Rightarrow> IPVersionIPv6 | _ \<Rightarrow> IPVersionUnset)"

text \<open>The message carries the number of occurrences.\<close>

definition condition_to_api :: "status_condition \<Rightarrow> api_condition" where
  "condition_to_api c =
    \<lparr>ac_type = c_type c, ac_state = resource_state_to_api (c_state c), ac_last = c_last c,
     ac_reason = c_reason c, ac_message = c_message c @ '' (x'' @ itoa (c_occurrences c) @ '')''\<rparr>"

definition conditions_to_api :: "status_condition list \<Rightarrow> api_condition list" where
  "conditions_to_api conds = map condition_to_api conds"

definition status_to_api :: "status \<Rightarrow> api_status" where
  "status_to_api st =
    \<lparr>apst_state = resource_state_to_api (st_state st), apst_conditions = conditions_to_api (st_conditions st)\<rparr>"

text \<open>A reference the API may lack is the empty one in the domain.\<close>

definition optional_ref_to_api :: "reference \<Rightarrow> reference option" where
  "optional_ref_to_api ref = (if ref \<noteq> unset_reference then Some (reference_to_api ref) else None)"

definition optional_ref_from_api :: "reference option \<Rightarrow> reference" where
  "optional_ref_from_api p = (case p of Some ref \<Rightarrow> reference_from_api ref | None \<Rightarrow> unset_reference)"

lemma reference_api_id [simp]:
  "reference_to_api ref = ref" "reference_from_api ref = ref" "reference_ptr_to_api p = p"
  by (simp_all add: reference_to_api_def reference_from_api_def reference_ptr_to_api_def split: option.splits)

lemma reference_maps_id [simp]: "reference_to_api = id" "reference_from_api = id"
  by (simp_all add: fun_eq_iff)

lemma optional_ref_api [simp]: "optional_ref_from_api (optional_ref_to_api ref) = ref"
  by (simp add: optional_ref_from_api_def optional_ref_to_api_def)

lemma ip_version_api: "known_ip_version v \<Longrightarrow> ip_version_from_api (ip_version_to_api v) = v"
  by (cases v) (auto simp: known_ip_version_def ip_version_from_api_def ip_version_to_api_def)

subsection \<open>Metadata\<close>

text \<open>\<^verbatim>\<open>strconv.ParseInt(version, 10, 64)\<close>, 0 when it fails.\<close>

definition api_resource_version :: "string \<Rightarrow> int" where
  "api_resource_version version = (case parse_int64 version of Some n \<Rightarrow> n | None \<Rightarrow> 0)"

lemma api_version_comes_back: "in_int64 n \<Longrightarrow> api_resource_version (itoa n) = n"
  by (simp add: api_resource_version_def parse_itoa)

definition tenant_api_metadata :: "string \<Rightarrow> 'm global_tenant_metadata_scheme \<Rightarrow> api_metadata" where
  "tenant_api_metadata kind r =
    \<lparr>am_api_version = ''v1'', am_created = md_created r, am_modified = md_updated r, am_deleted = md_deleted r,
     am_kind = kind, am_name = md_name r, am_tenant = md_tenant r, am_workspace = [], am_network = [],
     am_provider = md_provider r, am_region = [], am_resource = format_resource kind (md_name r),
     am_ref = format_tenant_scoped_ref (md_provider r) (md_tenant r) kind (md_name r),
     am_version = api_resource_version (md_version r), am_verb = []\<rparr>"

definition tenant_regional_api_metadata :: "string \<Rightarrow> 'm regional_metadata_scheme \<Rightarrow> api_metadata" where
  "tenant_regional_api_metadata kind r =
    \<lparr>am_api_version = ''v1'', am_created = md_created r, am_modified = md_updated r, am_deleted = md_deleted r,
     am_kind = kind, am_name = md_name r, am_tenant = md_tenant r, am_workspace = [], am_network = [],
     am_provider = md_provider r, am_region = md_region r,
     am_resource = format_regional_resource kind (md_name r),
     am_ref = format_regional_tenant_scoped_ref (md_provider r) (md_tenant r) kind (md_name r),
     am_version = api_resource_version (md_version r), am_verb = []\<rparr>"

definition workspace_api_metadata :: "string \<Rightarrow> 'm regional_metadata_scheme \<Rightarrow> api_metadata" where
  "workspace_api_metadata kind r =
    \<lparr>am_api_version = ''v1'', am_created = md_created r, am_modified = md_updated r, am_deleted = md_deleted r,
     am_kind = kind, am_name = md_name r, am_tenant = md_tenant r, am_workspace = md_workspace r,
     am_network = [], am_provider = md_provider r, am_region = md_region r,
     am_resource = format_regional_resource kind (md_name r),
     am_ref = format_regional_workspace_scoped_ref (md_provider r) (md_tenant r) (md_workspace r) kind (md_name r),
     am_version = api_resource_version (md_version r), am_verb = []\<rparr>"

definition network_api_metadata :: "string \<Rightarrow> 'm regional_network_metadata_scheme \<Rightarrow> api_metadata" where
  "network_api_metadata kind r =
    \<lparr>am_api_version = ''v1'', am_created = md_created r, am_modified = md_updated r, am_deleted = md_deleted r,
     am_kind = kind, am_name = md_name r, am_tenant = md_tenant r, am_workspace = md_workspace r,
     am_network = md_network r, am_provider = md_provider r, am_region = md_region r,
     am_resource = format_regional_network_scoped_resource (md_network r) kind (md_name r),
     am_ref = format_regional_network_scoped_ref (md_provider r) (md_tenant r) (md_workspace r) (md_network r)
       kind (md_name r),
     am_version = api_resource_version (md_version r), am_verb = []\<rparr>"

text \<open>The object around a spec and a status, and the verb the endpoints set afterwards.\<close>

definition api_object_of ::
  "api_metadata \<Rightarrow> 'm global_tenant_metadata_scheme \<Rightarrow> 's \<Rightarrow> 't option \<Rightarrow> ('s, 't) api_object" where
  "api_object_of meta r spec st =
    \<lparr>ao_metadata = meta, ao_labels = md_labels r, ao_annotations = md_annotations r,
     ao_extensions = md_extensions r, ao_spec = spec, ao_status = st\<rparr>"

definition with_verb :: "string \<Rightarrow> ('s, 't) api_object \<Rightarrow> ('s, 't) api_object" where
  "with_verb verb sdk = sdk\<lparr>ao_metadata := (ao_metadata sdk)\<lparr>am_verb := verb\<rparr>\<rparr>"

lemma with_verb_simps [simp]:
  "ao_labels (with_verb v sdk) = ao_labels sdk" "ao_annotations (with_verb v sdk) = ao_annotations sdk"
  "ao_extensions (with_verb v sdk) = ao_extensions sdk" "ao_spec (with_verb v sdk) = ao_spec sdk"
  "ao_status (with_verb v sdk) = ao_status sdk"
  "am_version (ao_metadata (with_verb v sdk)) = am_version (ao_metadata sdk)"
  by (simp_all add: with_verb_def)

subsection \<open>Requests\<close>

text \<open>The query of a list request, and identities and list parameters below a network.\<close>

record list_query =
  lq_limit :: "int option"
  lq_skip_token :: "string option"
  lq_labels :: "string option"

record network_identity = identity +
  id_network :: string

record network_list_params = list_params +
  lp_network :: string

definition scoped_list_params :: "list_query \<Rightarrow> string \<Rightarrow> string \<Rightarrow> list_params" where
  "scoped_list_params query tenant ws =
    \<lparr>sc_tenant = tenant, sc_workspace = ws, lp_limit = get_limit (lq_limit query),
     lp_skip_token = (case lq_skip_token query of Some t \<Rightarrow> t | None \<Rightarrow> []),
     lp_selector = (case lq_labels query of Some l \<Rightarrow> l | None \<Rightarrow> [])\<rparr>"

definition network_scoped_list_params :: "list_query \<Rightarrow> string \<Rightarrow> string \<Rightarrow> string \<Rightarrow> network_list_params" where
  "network_scoped_list_params query tenant ws nw =
     list_params.extend (scoped_list_params query tenant ws) (network_list_params.fields nw)"

text \<open>\<^verbatim>\<open>If-Unmodified-Since\<close> names the version; without it the identity has none.\<close>

definition version_of_param :: "int option \<Rightarrow> string" where
  "version_of_param unmodified = (case unmodified of Some n \<Rightarrow> itoa n | None \<Rightarrow> [])"

definition request_identity :: "string \<Rightarrow> string \<Rightarrow> string \<Rightarrow> string \<Rightarrow> identity" where
  "request_identity tenant ws name version =
    \<lparr>sc_tenant = tenant, sc_workspace = ws, id_name = name, id_version = version\<rparr>"

definition request_network_identity ::
  "string \<Rightarrow> string \<Rightarrow> string \<Rightarrow> string \<Rightarrow> string \<Rightarrow> network_identity" where
  "request_network_identity tenant ws nw name version =
    \<lparr>sc_tenant = tenant, sc_workspace = ws, id_name = name, id_version = version, id_network = nw\<rparr>"

text \<open>The metadata of a resource in a request body: the address is the route's, not the body's.\<close>

definition request_tenant_metadata ::
  "string \<Rightarrow> ('s, 't) api_object \<Rightarrow> 'i identity_scheme \<Rightarrow> global_tenant_metadata" where
  "request_tenant_metadata provider sdk ident =
    \<lparr>md_name = id_name ident, md_provider = provider, md_version = id_version ident, md_created = 0,
     md_updated = 0, md_deleted = None, md_tenant = sc_tenant ident, md_workspace = [],
     md_labels = ao_labels sdk, md_annotations = ao_annotations sdk, md_extensions = ao_extensions sdk\<rparr>"

definition request_tenant_regional_metadata ::
  "string \<Rightarrow> ('s, 't) api_object \<Rightarrow> 'i identity_scheme \<Rightarrow> string \<Rightarrow> regional_metadata" where
  "request_tenant_regional_metadata provider sdk ident region =
     global_tenant_metadata.extend (request_tenant_metadata provider sdk ident) (regional_metadata.fields region)"

definition request_workspace_metadata ::
  "string \<Rightarrow> ('s, 't) api_object \<Rightarrow> 'i identity_scheme \<Rightarrow> string \<Rightarrow> regional_metadata" where
  "request_workspace_metadata provider sdk ident region =
     (request_tenant_regional_metadata provider sdk ident region)\<lparr>md_workspace := sc_workspace ident\<rparr>"

definition request_network_metadata ::
  "string \<Rightarrow> ('s, 't) api_object \<Rightarrow> network_identity \<Rightarrow> string \<Rightarrow> regional_network_metadata" where
  "request_network_metadata provider sdk ident region =
     regional_metadata.extend (request_workspace_metadata provider sdk ident region)
       (regional_network_metadata.fields (id_network ident))"

text \<open>The metadata of a resource that only has its identity.\<close>

definition identity_tenant_metadata :: "'i identity_scheme \<Rightarrow> global_tenant_metadata" where
  "identity_tenant_metadata ir =
    \<lparr>md_name = id_name ir, md_provider = [], md_version = id_version ir, md_created = 0, md_updated = 0,
     md_deleted = None, md_tenant = sc_tenant ir, md_workspace = [], md_labels = [], md_annotations = [],
     md_extensions = []\<rparr>"

definition identity_tenant_regional_metadata :: "'i identity_scheme \<Rightarrow> regional_metadata" where
  "identity_tenant_regional_metadata ir =
     global_tenant_metadata.extend (identity_tenant_metadata ir) (regional_metadata.fields [])"

definition identity_workspace_metadata :: "'i identity_scheme \<Rightarrow> regional_metadata" where
  "identity_workspace_metadata ir = (identity_tenant_regional_metadata ir)\<lparr>md_workspace := sc_workspace ir\<rparr>"

definition identity_network_metadata :: "network_identity \<Rightarrow> regional_network_metadata" where
  "identity_network_metadata ir =
     regional_metadata.extend (identity_workspace_metadata ir) (regional_network_metadata.fields (id_network ir))"

subsection \<open>Endpoints\<close>

text \<open>
  The handler of a resource: reader and writer as one repository, the JSON codec on the SDK's types,
  and the region the process is configured with. Below a network, the reader also lists with network
  parameters.
\<close>

record ('r, 'o, 'w) resource_frontend =
  rf_repo :: "('r, 'w) repo"
  rf_decode :: "string \<Rightarrow> go_error + 'o"
  rf_encode :: "'o api_answer \<Rightarrow> go_error option"
  rf_region :: string

record ('r, 'o, 'w) network_frontend = "('r, 'o, 'w) resource_frontend" +
  nf_list :: "network_list_params \<Rightarrow> 'w \<Rightarrow> (go_error + 'r list \<times> string option) \<times> 'w"

text \<open>The options every \<^verbatim>\<open>CreateOrUpdate\<close> endpoint hands to \<^verbatim>\<open>HandleUpsert\<close>.\<close>

definition put_options ::
  "('r, ('s, 't) api_object, 'w, 'f) resource_frontend_scheme \<Rightarrow> 'i identity_scheme
   \<Rightarrow> ('r \<Rightarrow> 'w \<Rightarrow> (go_error + 'r) \<times> 'w) \<Rightarrow> ('r \<Rightarrow> 'w \<Rightarrow> (go_error + 'r) \<times> 'w)
   \<Rightarrow> (('s, 't) api_object \<Rightarrow> 'i identity_scheme \<Rightarrow> 'r) \<Rightarrow> ('r \<Rightarrow> ('s, 't) api_object)
   \<Rightarrow> (('s, 't) api_object, 'i, 'r, ('s, 't) api_object api_answer, 'w) upsert_options" where
  "put_options fe ident create update from_api to_api =
    \<lparr>uo_params = ident, uo_creator = create, uo_updater = update, uo_api_to_domain = from_api,
     uo_domain_to_api = (\<lambda>d. Single (to_api d)), uo_decode = rf_decode fe, uo_encode = rf_encode fe\<rparr>"

subsection \<open>What a client got can be put back\<close>

text \<open>
  The contract of a resource's converters and its PUT endpoint: what \<open>to_api\<close> makes of a resource,
  sent to the resource's own address under any verb and version, is that resource again, as \<open>resent\<close>
  writes it down (the status, the times and the deletion mark are not the client's).
\<close>

locale api_resource =
  fixes to_api :: "'m common_metadata_scheme \<Rightarrow> ('s, 't) api_object"
    and from_api :: "('s, 't) api_object \<Rightarrow> 'i identity_scheme \<Rightarrow> string \<Rightarrow> 'm common_metadata_scheme"
    and ident :: "'m common_metadata_scheme \<Rightarrow> string \<Rightarrow> 'i identity_scheme"
    and region :: "'m common_metadata_scheme \<Rightarrow> string"
    and sendable :: "'m common_metadata_scheme \<Rightarrow> bool"
    and resent :: "string \<Rightarrow> 'm common_metadata_scheme \<Rightarrow> 'm common_metadata_scheme"
    and creator :: "('m common_metadata_scheme, ('s, 't) api_object, 'w, 'f) resource_frontend_scheme
      \<Rightarrow> 'm common_metadata_scheme \<Rightarrow> 'w \<Rightarrow> (go_error + 'm common_metadata_scheme) \<times> 'w"
    and updater :: "('m common_metadata_scheme, ('s, 't) api_object, 'w, 'f) resource_frontend_scheme
      \<Rightarrow> 'm common_metadata_scheme \<Rightarrow> 'w \<Rightarrow> (go_error + 'm common_metadata_scheme) \<times> 'w"
    and put :: "('m common_metadata_scheme, ('s, 't) api_object, 'w, 'f) resource_frontend_scheme
      \<Rightarrow> 'm common_metadata_scheme \<Rightarrow> int option \<Rightarrow> (('s, 't) api_object api_answer, 'w) handler"
  assumes converts_back:
      "sendable r \<Longrightarrow> from_api (with_verb verb (to_api r)) (ident r version) (region r) = resent version r"
    and states_version: "am_version (ao_metadata (to_api r)) = api_resource_version (md_version r)"
    and named_version: "id_version (ident r version) = version"
    and put_upserts: "put fe r unmodified =
      handle_upsert (put_options fe (ident r (version_of_param unmodified)) (creator fe) (updater fe)
        (\<lambda>sdk p. from_api sdk p (rf_region fe)) (\<lambda>d. with_verb ''PUT'' (to_api d)))"
begin

text \<open>
  Put back under the version it was read with, a resource is updated once, with what was read, and the
  endpoint answers with the outcome.
\<close>

lemma put_back_updates:
  assumes "sendable r" and "md_version r = itoa n" and "in_int64 n" and "rf_region fe = region r"
    and "read_all req = Inr text" and "rf_decode fe text = Inr (with_verb verb (to_api r))"
  shows "put fe r (Some (am_version (ao_metadata (to_api r)))) req w =
    (case updater fe (resent (md_version r) r) w of
       (Inl err, w') \<Rightarrow> (write_error_response req err, w')
     | (Inr saved, w') \<Rightarrow>
         (write_encoded (rf_encode fe) req (Single (with_verb ''PUT'' (to_api saved))), w'))"
proof -
  have v: "version_of_param (Some (am_version (ao_metadata (to_api r)))) = md_version r"
    using assms(2,3) by (simp add: states_version api_version_comes_back version_of_param_def)
  have "md_version r \<noteq> []" using assms(2) by (simp add: itoa_def nat_digits_nonempty)
  with assms(4-6) converts_back [OF assms(1)] show ?thesis
    unfolding put_upserts v
    by (simp add: handle_upsert_def put_options_def update_or_fail_def Let_def named_version
        split: prod.splits sum.splits)
qed

text \<open>Put back without a version, it is created, and updated when it turns out to exist.\<close>

lemma put_back_creates_or_updates:
  assumes "sendable r" and "rf_region fe = region r"
    and "read_all req = Inr text" and "rf_decode fe text = Inr (with_verb verb (to_api r))"
  shows "put fe r None req w =
    (case creator fe (resent [] r) w of
       (Inr saved, w') \<Rightarrow> (write_encoded (rf_encode fe) req (Single (with_verb ''PUT'' (to_api saved))), w')
     | (Inl err, w') \<Rightarrow>
         if \<not> errors_is err err_already_exists then (write_error_response req err, w')
         else (case updater fe (resent [] r) w' of
             (Inl err, w2) \<Rightarrow> (write_error_response req err, w2)
           | (Inr saved, w2) \<Rightarrow>
               (write_encoded (rf_encode fe) req (Single (with_verb ''PUT'' (to_api saved))), w2)))"
  using assms converts_back [OF assms(1)]
  by (simp add: put_upserts handle_upsert_def put_options_def update_or_fail_def Let_def named_version
      version_of_param_def split: prod.splits sum.splits)

end

text \<open>What the client cannot set, and the laws of the metadata blocks.\<close>

definition resent_metadata :: "string \<Rightarrow> string \<Rightarrow> 'm common_metadata_scheme \<Rightarrow> 'm common_metadata_scheme" where
  "resent_metadata provider version r =
     r\<lparr>md_provider := provider, md_version := version, md_created := 0, md_updated := 0, md_deleted := None\<rparr>"

lemmas request_metadata_defs = request_tenant_metadata_def request_tenant_regional_metadata_def
  request_workspace_metadata_def request_network_metadata_def request_identity_def request_network_identity_def
  global_tenant_metadata.defs regional_metadata.defs regional_network_metadata.defs

lemmas api_metadata_defs = tenant_api_metadata_def tenant_regional_api_metadata_def workspace_api_metadata_def
  network_api_metadata_def

end
