(* ===== verification/Network_Api.thy ===== *)
theory Network_Api
  imports Api_Conversion
begin

section \<open>The network endpoints: \<^verbatim>\<open>resource/network/v1/frontend/rest\<close>\<close>

text \<open>
  For each of the eight resources: the converters between domain and API, the list parameters, the
  iterator, the resource with only an identity, and the four endpoints. The SDK's specs have the
  fields of the stored ones, rules without the annotations the converters do not touch.
\<close>

subsection \<open>\<^verbatim>\<open>network_converter.go\<close> and \<^verbatim>\<open>network_handler.go\<close>\<close>

definition cidr_to_api :: "cidr \<Rightarrow> cidr" where
  "cidr_to_api c = \<lparr>cidr_ipv4 = cidr_ipv4 c, cidr_ipv6 = cidr_ipv6 c\<rparr>"

definition cidr_from_api :: "cidr \<Rightarrow> cidr" where
  "cidr_from_api c = \<lparr>cidr_ipv4 = cidr_ipv4 c, cidr_ipv6 = cidr_ipv6 c\<rparr>"

lemma cidr_api_id [simp]: "cidr_to_api = id" "cidr_from_api = id"
  by (simp_all add: cidr_to_api_def cidr_from_api_def fun_eq_iff)

definition network_spec_to_api :: "network_spec \<Rightarrow> network_spec" where
  "network_spec_to_api s =
    \<lparr>nws_additional_cidrs = map cidr_to_api (nws_additional_cidrs s), nws_cidr = cidr_to_api (nws_cidr s),
     nws_sku_ref = reference_to_api (nws_sku_ref s)\<rparr>"

definition network_spec_from_api :: "network_spec \<Rightarrow> network_spec" where
  "network_spec_from_api s =
    \<lparr>nws_additional_cidrs = map cidr_from_api (nws_additional_cidrs s), nws_cidr = cidr_from_api (nws_cidr s),
     nws_sku_ref = reference_from_api (nws_sku_ref s)\<rparr>"

definition network_status_to_api :: "network_status \<Rightarrow> api_status" where
  "network_status_to_api s = status_to_api (nwst_status s)"

definition network_to_api :: "network \<Rightarrow> (network_spec, api_status) api_object" where
  "network_to_api n =
     api_object_of (workspace_api_metadata ''network'' n) n (network_spec_to_api (nw_spec n)) (map_option network_status_to_api (nw_status n))"

definition network_to_api_with_verb :: "string \<Rightarrow> network \<Rightarrow> (network_spec, api_status) api_object" where
  "network_to_api_with_verb verb n = with_verb verb (network_to_api n)"

definition network_iterator_to_api :: "network list \<Rightarrow> string option \<Rightarrow> (network_spec, api_status) api_object api_iterator" where
  "network_iterator_to_api items skip_token =
    \<lparr>it_items = map network_to_api items, it_provider = ''seca.network/v1'', it_resource = ''networks'',
     it_verb = ''list'', it_skip_token = skip_token\<rparr>"

definition network_from_api :: "(network_spec, api_status) api_object \<Rightarrow> 'i identity_scheme \<Rightarrow> string \<Rightarrow> network" where
  "network_from_api sdk ident region =
     regional_metadata.extend (request_workspace_metadata ''seca.network/v1'' sdk ident region)
       (network.fields (network_spec_from_api (ao_spec sdk)) None)"

definition network_list_params_from_api :: "list_query \<Rightarrow> string \<Rightarrow> string \<Rightarrow> list_params" where
  "network_list_params_from_api query tenant ws = scoped_list_params query tenant ws"

definition new_network_with_identity :: "'i identity_scheme \<Rightarrow> network" where
  "new_network_with_identity ir =
     regional_metadata.extend (identity_workspace_metadata ir) (network.fields \<lparr>nws_additional_cidrs = [], nws_cidr = \<lparr>cidr_ipv4 = [], cidr_ipv6 = []\<rparr>, nws_sku_ref = unset_reference\<rparr> None)"

definition list_networks ::
  "(network, (network_spec, api_status) api_object, 'w, 'f) resource_frontend_scheme \<Rightarrow> list_query \<Rightarrow> string \<Rightarrow> string
   \<Rightarrow> ((network_spec, api_status) api_object api_answer, 'w) handler" where
  "list_networks fe query tenant ws =
     handle_list (rf_encode fe) (network_list_params_from_api query tenant ws) (lister_from_repo (rf_repo fe))
       (\<lambda>items token. Page (network_iterator_to_api items token))"

definition get_network ::
  "(network, (network_spec, api_status) api_object, 'w, 'f) resource_frontend_scheme \<Rightarrow> string \<Rightarrow> string \<Rightarrow> string
   \<Rightarrow> ((network_spec, api_status) api_object api_answer, 'w) handler" where
  "get_network fe tenant ws name =
     handle_get (rf_encode fe) (request_identity tenant ws name [])
       (getter_from_repo (rf_repo fe) new_network_with_identity)
       (\<lambda>d. Single (network_to_api_with_verb ''GET'' d))"

definition delete_network ::
  "(network, (network_spec, api_status) api_object, 'w, 'f) resource_frontend_scheme \<Rightarrow> string \<Rightarrow> string \<Rightarrow> string \<Rightarrow> int option
   \<Rightarrow> ((network_spec, api_status) api_object api_answer, 'w) handler" where
  "delete_network fe tenant ws name unmodified =
     handle_delete (request_identity tenant ws name (version_of_param unmodified))
       (deleter_from_repo (rf_repo fe) new_network_with_identity)"

definition create_or_update_network ::
  "(network, (network_spec, api_status) api_object, 'w, 'f) resource_frontend_scheme \<Rightarrow> string \<Rightarrow> string \<Rightarrow> string \<Rightarrow> int option
   \<Rightarrow> ((network_spec, api_status) api_object api_answer, 'w) handler" where
  "create_or_update_network fe tenant ws name unmodified =
     handle_upsert (put_options fe (request_identity tenant ws name (version_of_param unmodified))
       (creator_from_repo (rf_repo fe)) (updater_from_repo (rf_repo fe))
       (\<lambda>sdk ident. network_from_api sdk ident (rf_region fe)) (network_to_api_with_verb ''PUT''))"

definition network_resent :: "string \<Rightarrow> network \<Rightarrow> network" where
  "network_resent version n = (resent_metadata ''seca.network/v1'' version n)\<lparr>nw_status := None\<rparr>"

lemma network_converts_back:
  "network_from_api (with_verb verb (network_to_api n)) (request_identity (md_tenant n) (md_workspace n) (md_name n) version) (md_region n) =
     network_resent version n"
  by (cases n) (simp add: network_from_api_def network_to_api_def api_object_of_def request_metadata_defs network_resent_def
    resent_metadata_def network.defs network_spec_to_api_def network_spec_from_api_def)

interpretation network_api: api_resource network_to_api "network_from_api"
    "\<lambda>n. request_identity (md_tenant n) (md_workspace n) (md_name n)" "md_region"
    "\<lambda>n. True" network_resent "\<lambda>fe. creator_from_repo (rf_repo fe)" "\<lambda>fe. updater_from_repo (rf_repo fe)"
    "\<lambda>fe n. create_or_update_network fe (md_tenant n) (md_workspace n) (md_name n)"
  by unfold_locales
    (rule network_converts_back | assumption | simp add: network_to_api_def api_object_of_def api_metadata_defs request_identity_def
      request_network_identity_def create_or_update_network_def network_to_api_with_verb_def [abs_def])+

subsection \<open>\<^verbatim>\<open>internet_gateway_converter.go\<close> and \<^verbatim>\<open>internet_gateway_handler.go\<close>\<close>

definition internet_gateway_status_to_api :: "internet_gateway_status \<Rightarrow> api_status" where
  "internet_gateway_status_to_api s = status_to_api (igst_status s)"

definition internet_gateway_to_api :: "internet_gateway \<Rightarrow> (internet_gateway_cr_spec, api_status) api_object" where
  "internet_gateway_to_api ig =
     api_object_of (workspace_api_metadata ''internet-gateway'' ig) ig (\<lparr>igcs_egress_only = ig_egress_only ig\<rparr>) (map_option internet_gateway_status_to_api (ig_status ig))"

definition internet_gateway_to_api_with_verb :: "string \<Rightarrow> internet_gateway \<Rightarrow> (internet_gateway_cr_spec, api_status) api_object" where
  "internet_gateway_to_api_with_verb verb ig = with_verb verb (internet_gateway_to_api ig)"

definition internet_gateway_iterator_to_api :: "internet_gateway list \<Rightarrow> string option \<Rightarrow> (internet_gateway_cr_spec, api_status) api_object api_iterator" where
  "internet_gateway_iterator_to_api items skip_token =
    \<lparr>it_items = map internet_gateway_to_api items, it_provider = ''seca.network/v1'', it_resource = ''internet-gateways'',
     it_verb = ''list'', it_skip_token = skip_token\<rparr>"

definition internet_gateway_from_api :: "(internet_gateway_cr_spec, api_status) api_object \<Rightarrow> 'i identity_scheme \<Rightarrow> string \<Rightarrow> internet_gateway" where
  "internet_gateway_from_api sdk ident region =
     regional_metadata.extend (request_workspace_metadata ''seca.network/v1'' sdk ident region)
       (internet_gateway.fields (igcs_egress_only (ao_spec sdk)) None)"

definition internet_gateway_list_params_from_api :: "list_query \<Rightarrow> string \<Rightarrow> string \<Rightarrow> list_params" where
  "internet_gateway_list_params_from_api query tenant ws = scoped_list_params query tenant ws"

definition new_internet_gateway_with_identity :: "'i identity_scheme \<Rightarrow> internet_gateway" where
  "new_internet_gateway_with_identity ir =
     regional_metadata.extend (identity_workspace_metadata ir) (internet_gateway.fields False None)"

definition list_internet_gateways ::
  "(internet_gateway, (internet_gateway_cr_spec, api_status) api_object, 'w, 'f) resource_frontend_scheme \<Rightarrow> list_query \<Rightarrow> string \<Rightarrow> string
   \<Rightarrow> ((internet_gateway_cr_spec, api_status) api_object api_answer, 'w) handler" where
  "list_internet_gateways fe query tenant ws =
     handle_list (rf_encode fe) (internet_gateway_list_params_from_api query tenant ws) (lister_from_repo (rf_repo fe))
       (\<lambda>items token. Page (internet_gateway_iterator_to_api items token))"

definition get_internet_gateway ::
  "(internet_gateway, (internet_gateway_cr_spec, api_status) api_object, 'w, 'f) resource_frontend_scheme \<Rightarrow> string \<Rightarrow> string \<Rightarrow> string
   \<Rightarrow> ((internet_gateway_cr_spec, api_status) api_object api_answer, 'w) handler" where
  "get_internet_gateway fe tenant ws name =
     handle_get (rf_encode fe) (request_identity tenant ws name [])
       (getter_from_repo (rf_repo fe) new_internet_gateway_with_identity)
       (\<lambda>d. Single (internet_gateway_to_api_with_verb ''GET'' d))"

definition delete_internet_gateway ::
  "(internet_gateway, (internet_gateway_cr_spec, api_status) api_object, 'w, 'f) resource_frontend_scheme \<Rightarrow> string \<Rightarrow> string \<Rightarrow> string \<Rightarrow> int option
   \<Rightarrow> ((internet_gateway_cr_spec, api_status) api_object api_answer, 'w) handler" where
  "delete_internet_gateway fe tenant ws name unmodified =
     handle_delete (request_identity tenant ws name (version_of_param unmodified))
       (deleter_from_repo (rf_repo fe) new_internet_gateway_with_identity)"

definition create_or_update_internet_gateway ::
  "(internet_gateway, (internet_gateway_cr_spec, api_status) api_object, 'w, 'f) resource_frontend_scheme \<Rightarrow> string \<Rightarrow> string \<Rightarrow> string \<Rightarrow> int option
   \<Rightarrow> ((internet_gateway_cr_spec, api_status) api_object api_answer, 'w) handler" where
  "create_or_update_internet_gateway fe tenant ws name unmodified =
     handle_upsert (put_options fe (request_identity tenant ws name (version_of_param unmodified))
       (creator_from_repo (rf_repo fe)) (updater_from_repo (rf_repo fe))
       (\<lambda>sdk ident. internet_gateway_from_api sdk ident (rf_region fe)) (internet_gateway_to_api_with_verb ''PUT''))"

definition internet_gateway_resent :: "string \<Rightarrow> internet_gateway \<Rightarrow> internet_gateway" where
  "internet_gateway_resent version ig = (resent_metadata ''seca.network/v1'' version ig)\<lparr>ig_status := None\<rparr>"

lemma internet_gateway_converts_back:
  "internet_gateway_from_api (with_verb verb (internet_gateway_to_api ig)) (request_identity (md_tenant ig) (md_workspace ig) (md_name ig) version) (md_region ig) =
     internet_gateway_resent version ig"
  by (cases ig) (simp add: internet_gateway_from_api_def internet_gateway_to_api_def api_object_of_def request_metadata_defs internet_gateway_resent_def
    resent_metadata_def internet_gateway.defs )

interpretation internet_gateway_api: api_resource internet_gateway_to_api "internet_gateway_from_api"
    "\<lambda>ig. request_identity (md_tenant ig) (md_workspace ig) (md_name ig)" "md_region"
    "\<lambda>ig. True" internet_gateway_resent "\<lambda>fe. creator_from_repo (rf_repo fe)" "\<lambda>fe. updater_from_repo (rf_repo fe)"
    "\<lambda>fe ig. create_or_update_internet_gateway fe (md_tenant ig) (md_workspace ig) (md_name ig)"
  by unfold_locales
    (rule internet_gateway_converts_back | assumption | simp add: internet_gateway_to_api_def api_object_of_def api_metadata_defs request_identity_def
      request_network_identity_def create_or_update_internet_gateway_def internet_gateway_to_api_with_verb_def [abs_def])+

subsection \<open>\<^verbatim>\<open>nic_converter.go\<close> and \<^verbatim>\<open>nic_handler.go\<close>\<close>

record nic_api_status = api_status +
  nas_mac_address :: string
  nas_addresses :: "string list"
  nas_public_ip_refs :: "reference list"

definition nic_spec_to_api :: "nic_spec \<Rightarrow> nic_cr_spec" where
  "nic_spec_to_api s =
    \<lparr>nccs_addresses = nics_addresses s,
     nccs_public_ip_refs = map reference_to_api (nics_public_ip_refs s),
     nccs_security_group_refs = map reference_to_api (nics_security_group_refs s),
     nccs_sku_ref = optional_ref_to_api (nics_sku_ref s),
     nccs_subnet_ref = reference_to_api (nics_subnet_ref s)\<rparr>"

definition nic_spec_from_api :: "nic_cr_spec \<Rightarrow> nic_spec" where
  "nic_spec_from_api s =
    \<lparr>nics_addresses = nccs_addresses s,
     nics_public_ip_refs = map reference_from_api (nccs_public_ip_refs s),
     nics_security_group_refs = map reference_from_api (nccs_security_group_refs s),
     nics_sku_ref = optional_ref_from_api (nccs_sku_ref s),
     nics_subnet_ref = reference_from_api (nccs_subnet_ref s)\<rparr>"

definition nic_status_to_api :: "nic_status \<Rightarrow> nic_api_status" where
  "nic_status_to_api s = api_status.extend (status_to_api (nicst_status s))
     (nic_api_status.fields (nicst_mac_address s) (nicst_addresses s)
        (map reference_to_api (nicst_public_ip_refs s)))"

definition nic_to_api :: "nic \<Rightarrow> (nic_cr_spec, nic_api_status) api_object" where
  "nic_to_api n =
     api_object_of (workspace_api_metadata ''nic'' n) n (nic_spec_to_api (nic_spec n)) (map_option nic_status_to_api (nic_status n))"

definition nic_to_api_with_verb :: "string \<Rightarrow> nic \<Rightarrow> (nic_cr_spec, nic_api_status) api_object" where
  "nic_to_api_with_verb verb n = with_verb verb (nic_to_api n)"

definition nic_iterator_to_api :: "nic list \<Rightarrow> string option \<Rightarrow> (nic_cr_spec, nic_api_status) api_object api_iterator" where
  "nic_iterator_to_api items skip_token =
    \<lparr>it_items = map nic_to_api items, it_provider = ''seca.network/v1'', it_resource = ''nics'',
     it_verb = ''list'', it_skip_token = skip_token\<rparr>"

definition nic_from_api :: "(nic_cr_spec, nic_api_status) api_object \<Rightarrow> 'i identity_scheme \<Rightarrow> string \<Rightarrow> nic" where
  "nic_from_api sdk ident region =
     regional_metadata.extend (request_workspace_metadata ''seca.network/v1'' sdk ident region)
       (nic.fields (nic_spec_from_api (ao_spec sdk)) None)"

definition nic_list_params_from_api :: "list_query \<Rightarrow> string \<Rightarrow> string \<Rightarrow> list_params" where
  "nic_list_params_from_api query tenant ws = scoped_list_params query tenant ws"

definition new_nic_with_identity :: "'i identity_scheme \<Rightarrow> nic" where
  "new_nic_with_identity ir =
     regional_metadata.extend (identity_workspace_metadata ir) (nic.fields \<lparr>nics_addresses = [], nics_public_ip_refs = [], nics_security_group_refs = [], nics_sku_ref = unset_reference, nics_subnet_ref = unset_reference\<rparr> None)"

definition list_nics ::
  "(nic, (nic_cr_spec, nic_api_status) api_object, 'w, 'f) resource_frontend_scheme \<Rightarrow> list_query \<Rightarrow> string \<Rightarrow> string
   \<Rightarrow> ((nic_cr_spec, nic_api_status) api_object api_answer, 'w) handler" where
  "list_nics fe query tenant ws =
     handle_list (rf_encode fe) (nic_list_params_from_api query tenant ws) (lister_from_repo (rf_repo fe))
       (\<lambda>items token. Page (nic_iterator_to_api items token))"

definition get_nic ::
  "(nic, (nic_cr_spec, nic_api_status) api_object, 'w, 'f) resource_frontend_scheme \<Rightarrow> string \<Rightarrow> string \<Rightarrow> string
   \<Rightarrow> ((nic_cr_spec, nic_api_status) api_object api_answer, 'w) handler" where
  "get_nic fe tenant ws name =
     handle_get (rf_encode fe) (request_identity tenant ws name [])
       (getter_from_repo (rf_repo fe) new_nic_with_identity)
       (\<lambda>d. Single (nic_to_api_with_verb ''GET'' d))"

definition delete_nic ::
  "(nic, (nic_cr_spec, nic_api_status) api_object, 'w, 'f) resource_frontend_scheme \<Rightarrow> string \<Rightarrow> string \<Rightarrow> string \<Rightarrow> int option
   \<Rightarrow> ((nic_cr_spec, nic_api_status) api_object api_answer, 'w) handler" where
  "delete_nic fe tenant ws name unmodified =
     handle_delete (request_identity tenant ws name (version_of_param unmodified))
       (deleter_from_repo (rf_repo fe) new_nic_with_identity)"

definition create_or_update_nic ::
  "(nic, (nic_cr_spec, nic_api_status) api_object, 'w, 'f) resource_frontend_scheme \<Rightarrow> string \<Rightarrow> string \<Rightarrow> string \<Rightarrow> int option
   \<Rightarrow> ((nic_cr_spec, nic_api_status) api_object api_answer, 'w) handler" where
  "create_or_update_nic fe tenant ws name unmodified =
     handle_upsert (put_options fe (request_identity tenant ws name (version_of_param unmodified))
       (creator_from_repo (rf_repo fe)) (updater_from_repo (rf_repo fe))
       (\<lambda>sdk ident. nic_from_api sdk ident (rf_region fe)) (nic_to_api_with_verb ''PUT''))"

definition nic_resent :: "string \<Rightarrow> nic \<Rightarrow> nic" where
  "nic_resent version n = (resent_metadata ''seca.network/v1'' version n)\<lparr>nic_status := None\<rparr>"

lemma nic_converts_back:
  "nic_from_api (with_verb verb (nic_to_api n)) (request_identity (md_tenant n) (md_workspace n) (md_name n) version) (md_region n) =
     nic_resent version n"
  by (cases n) (simp add: nic_from_api_def nic_to_api_def api_object_of_def request_metadata_defs nic_resent_def
    resent_metadata_def nic.defs nic_spec_to_api_def nic_spec_from_api_def)

interpretation nic_api: api_resource nic_to_api "nic_from_api"
    "\<lambda>n. request_identity (md_tenant n) (md_workspace n) (md_name n)" "md_region"
    "\<lambda>n. True" nic_resent "\<lambda>fe. creator_from_repo (rf_repo fe)" "\<lambda>fe. updater_from_repo (rf_repo fe)"
    "\<lambda>fe n. create_or_update_nic fe (md_tenant n) (md_workspace n) (md_name n)"
  by unfold_locales
    (rule nic_converts_back | assumption | simp add: nic_to_api_def api_object_of_def api_metadata_defs request_identity_def
      request_network_identity_def create_or_update_nic_def nic_to_api_with_verb_def [abs_def])+

subsection \<open>\<^verbatim>\<open>public_ip_converter.go\<close> and \<^verbatim>\<open>public_ip_handler.go\<close>\<close>

record public_ip_api_status = api_status +
  pas_ip_address :: string
  pas_attached_to :: "reference option"

definition public_ip_status_to_api :: "public_ip_status \<Rightarrow> public_ip_api_status" where
  "public_ip_status_to_api s = api_status.extend (status_to_api (pist_status s))
     (public_ip_api_status.fields (pist_ip_address s) (reference_ptr_to_api (pist_attached_to s)))"

definition public_ip_to_api :: "public_ip \<Rightarrow> (public_ip_cr_spec, public_ip_api_status) api_object" where
  "public_ip_to_api p =
     api_object_of (workspace_api_metadata ''public-ip'' p) p (\<lparr>pics_address = pi_address p, pics_version = ip_version_to_api (pi_ip_version p)\<rparr>) (map_option public_ip_status_to_api (pi_status p))"

definition public_ip_to_api_with_verb :: "string \<Rightarrow> public_ip \<Rightarrow> (public_ip_cr_spec, public_ip_api_status) api_object" where
  "public_ip_to_api_with_verb verb p = with_verb verb (public_ip_to_api p)"

definition public_ip_iterator_to_api :: "public_ip list \<Rightarrow> string option \<Rightarrow> (public_ip_cr_spec, public_ip_api_status) api_object api_iterator" where
  "public_ip_iterator_to_api items skip_token =
    \<lparr>it_items = map public_ip_to_api items, it_provider = ''seca.network/v1'', it_resource = ''public-ips'',
     it_verb = ''list'', it_skip_token = skip_token\<rparr>"

definition public_ip_from_api :: "(public_ip_cr_spec, public_ip_api_status) api_object \<Rightarrow> 'i identity_scheme \<Rightarrow> string \<Rightarrow> public_ip" where
  "public_ip_from_api sdk ident region =
     regional_metadata.extend (request_workspace_metadata ''seca.network/v1'' sdk ident region)
       (public_ip.fields (pics_address (ao_spec sdk)) (ip_version_from_api (pics_version (ao_spec sdk))) None)"

definition public_ip_list_params_from_api :: "list_query \<Rightarrow> string \<Rightarrow> string \<Rightarrow> list_params" where
  "public_ip_list_params_from_api query tenant ws = scoped_list_params query tenant ws"

definition new_public_ip_with_identity :: "'i identity_scheme \<Rightarrow> public_ip" where
  "new_public_ip_with_identity ir =
     regional_metadata.extend (identity_workspace_metadata ir) (public_ip.fields [] IPVersionUnset None)"

definition list_public_ips ::
  "(public_ip, (public_ip_cr_spec, public_ip_api_status) api_object, 'w, 'f) resource_frontend_scheme \<Rightarrow> list_query \<Rightarrow> string \<Rightarrow> string
   \<Rightarrow> ((public_ip_cr_spec, public_ip_api_status) api_object api_answer, 'w) handler" where
  "list_public_ips fe query tenant ws =
     handle_list (rf_encode fe) (public_ip_list_params_from_api query tenant ws) (lister_from_repo (rf_repo fe))
       (\<lambda>items token. Page (public_ip_iterator_to_api items token))"

definition get_public_ip ::
  "(public_ip, (public_ip_cr_spec, public_ip_api_status) api_object, 'w, 'f) resource_frontend_scheme \<Rightarrow> string \<Rightarrow> string \<Rightarrow> string
   \<Rightarrow> ((public_ip_cr_spec, public_ip_api_status) api_object api_answer, 'w) handler" where
  "get_public_ip fe tenant ws name =
     handle_get (rf_encode fe) (request_identity tenant ws name [])
       (getter_from_repo (rf_repo fe) new_public_ip_with_identity)
       (\<lambda>d. Single (public_ip_to_api_with_verb ''GET'' d))"

definition delete_public_ip ::
  "(public_ip, (public_ip_cr_spec, public_ip_api_status) api_object, 'w, 'f) resource_frontend_scheme \<Rightarrow> string \<Rightarrow> string \<Rightarrow> string \<Rightarrow> int option
   \<Rightarrow> ((public_ip_cr_spec, public_ip_api_status) api_object api_answer, 'w) handler" where
  "delete_public_ip fe tenant ws name unmodified =
     handle_delete (request_identity tenant ws name (version_of_param unmodified))
       (deleter_from_repo (rf_repo fe) new_public_ip_with_identity)"

definition create_or_update_public_ip ::
  "(public_ip, (public_ip_cr_spec, public_ip_api_status) api_object, 'w, 'f) resource_frontend_scheme \<Rightarrow> string \<Rightarrow> string \<Rightarrow> string \<Rightarrow> int option
   \<Rightarrow> ((public_ip_cr_spec, public_ip_api_status) api_object api_answer, 'w) handler" where
  "create_or_update_public_ip fe tenant ws name unmodified =
     handle_upsert (put_options fe (request_identity tenant ws name (version_of_param unmodified))
       (creator_from_repo (rf_repo fe)) (updater_from_repo (rf_repo fe))
       (\<lambda>sdk ident. public_ip_from_api sdk ident (rf_region fe)) (public_ip_to_api_with_verb ''PUT''))"

definition public_ip_resent :: "string \<Rightarrow> public_ip \<Rightarrow> public_ip" where
  "public_ip_resent version p = (resent_metadata ''seca.network/v1'' version p)\<lparr>pi_status := None\<rparr>"

lemma public_ip_converts_back:
  "known_ip_version (pi_ip_version p) \<Longrightarrow>
   public_ip_from_api (with_verb verb (public_ip_to_api p)) (request_identity (md_tenant p) (md_workspace p) (md_name p) version) (md_region p) =
     public_ip_resent version p"
  by (cases p) (simp add: public_ip_from_api_def public_ip_to_api_def api_object_of_def request_metadata_defs public_ip_resent_def
    resent_metadata_def public_ip.defs ip_version_api)

interpretation public_ip_api: api_resource public_ip_to_api "public_ip_from_api"
    "\<lambda>p. request_identity (md_tenant p) (md_workspace p) (md_name p)" "md_region"
    "\<lambda>p. known_ip_version (pi_ip_version p)" public_ip_resent "\<lambda>fe. creator_from_repo (rf_repo fe)" "\<lambda>fe. updater_from_repo (rf_repo fe)"
    "\<lambda>fe p. create_or_update_public_ip fe (md_tenant p) (md_workspace p) (md_name p)"
  by unfold_locales
    (rule public_ip_converts_back | assumption | simp add: public_ip_to_api_def api_object_of_def api_metadata_defs request_identity_def
      request_network_identity_def create_or_update_public_ip_def public_ip_to_api_with_verb_def [abs_def])+

subsection \<open>\<^verbatim>\<open>route_table_converter.go\<close> and \<^verbatim>\<open>route_table_handler.go\<close>\<close>

record route_table_api_status = api_status +
  rtas_routes :: "api_status list"

definition route_to_api :: "route_spec \<Rightarrow> route_spec" where
  "route_to_api s = \<lparr>rs_destination = rs_destination s, rs_target_ref = reference_to_api (rs_target_ref s)\<rparr>"

definition route_from_api :: "route_spec \<Rightarrow> route_spec" where
  "route_from_api s = \<lparr>rs_destination = rs_destination s, rs_target_ref = reference_from_api (rs_target_ref s)\<rparr>"

lemma route_api_id [simp]: "route_to_api = id" "route_from_api = id"
  by (simp_all add: route_to_api_def route_from_api_def fun_eq_iff)

definition route_table_status_to_api :: "route_table_status \<Rightarrow> route_table_api_status" where
  "route_table_status_to_api s = api_status.extend (status_to_api (rtst_status s))
     (route_table_api_status.fields (map status_to_api (rtst_routes s)))"

definition route_table_to_api :: "route_table \<Rightarrow> (route_table_cr_spec, route_table_api_status) api_object" where
  "route_table_to_api rt =
     api_object_of (network_api_metadata ''routing-table'' rt) rt (\<lparr>rtcs_routes = map route_to_api (rt_routes rt)\<rparr>) (map_option route_table_status_to_api (rt_status rt))"

definition route_table_to_api_with_verb :: "string \<Rightarrow> route_table \<Rightarrow> (route_table_cr_spec, route_table_api_status) api_object" where
  "route_table_to_api_with_verb verb rt = with_verb verb (route_table_to_api rt)"

definition route_table_iterator_to_api :: "route_table list \<Rightarrow> string option \<Rightarrow> (route_table_cr_spec, route_table_api_status) api_object api_iterator" where
  "route_table_iterator_to_api items skip_token =
    \<lparr>it_items = map route_table_to_api items, it_provider = ''seca.network/v1'', it_resource = ''route-tables'',
     it_verb = ''list'', it_skip_token = skip_token\<rparr>"

definition route_table_from_api :: "(route_table_cr_spec, route_table_api_status) api_object \<Rightarrow> network_identity \<Rightarrow> string \<Rightarrow> route_table" where
  "route_table_from_api sdk ident region =
     regional_network_metadata.extend (request_network_metadata ''seca.network/v1'' sdk ident region)
       (route_table.fields (map route_from_api (rtcs_routes (ao_spec sdk))) None)"

definition route_table_list_params_from_api :: "list_query \<Rightarrow> string \<Rightarrow> string \<Rightarrow> string \<Rightarrow> network_list_params" where
  "route_table_list_params_from_api query tenant ws nw = network_scoped_list_params query tenant ws nw"

definition new_route_table_with_identity :: "network_identity \<Rightarrow> route_table" where
  "new_route_table_with_identity ir =
     regional_network_metadata.extend (identity_network_metadata ir) (route_table.fields [] None)"

definition list_route_tables ::
  "(route_table, (route_table_cr_spec, route_table_api_status) api_object, 'w, 'f) network_frontend_scheme \<Rightarrow> list_query \<Rightarrow> string \<Rightarrow> string \<Rightarrow> string
   \<Rightarrow> ((route_table_cr_spec, route_table_api_status) api_object api_answer, 'w) handler" where
  "list_route_tables fe query tenant ws nw =
     handle_list (rf_encode fe) (route_table_list_params_from_api query tenant ws nw) (nf_list fe)
       (\<lambda>items token. Page (route_table_iterator_to_api items token))"

definition get_route_table ::
  "(route_table, (route_table_cr_spec, route_table_api_status) api_object, 'w, 'f) resource_frontend_scheme \<Rightarrow> string \<Rightarrow> string \<Rightarrow> string \<Rightarrow> string
   \<Rightarrow> ((route_table_cr_spec, route_table_api_status) api_object api_answer, 'w) handler" where
  "get_route_table fe tenant ws nw name =
     handle_get (rf_encode fe) (request_network_identity tenant ws nw name [])
       (getter_from_repo (rf_repo fe) new_route_table_with_identity)
       (\<lambda>d. Single (route_table_to_api_with_verb ''GET'' d))"

definition delete_route_table ::
  "(route_table, (route_table_cr_spec, route_table_api_status) api_object, 'w, 'f) resource_frontend_scheme \<Rightarrow> string \<Rightarrow> string \<Rightarrow> string \<Rightarrow> string \<Rightarrow> int option
   \<Rightarrow> ((route_table_cr_spec, route_table_api_status) api_object api_answer, 'w) handler" where
  "delete_route_table fe tenant ws nw name unmodified =
     handle_delete (request_network_identity tenant ws nw name (version_of_param unmodified))
       (deleter_from_repo (rf_repo fe) new_route_table_with_identity)"

definition create_or_update_route_table ::
  "(route_table, (route_table_cr_spec, route_table_api_status) api_object, 'w, 'f) resource_frontend_scheme \<Rightarrow> string \<Rightarrow> string \<Rightarrow> string \<Rightarrow> string \<Rightarrow> int option
   \<Rightarrow> ((route_table_cr_spec, route_table_api_status) api_object api_answer, 'w) handler" where
  "create_or_update_route_table fe tenant ws nw name unmodified =
     handle_upsert (put_options fe (request_network_identity tenant ws nw name (version_of_param unmodified))
       (creator_from_repo (rf_repo fe)) (updater_from_repo (rf_repo fe))
       (\<lambda>sdk ident. route_table_from_api sdk ident (rf_region fe)) (route_table_to_api_with_verb ''PUT''))"

definition route_table_resent :: "string \<Rightarrow> route_table \<Rightarrow> route_table" where
  "route_table_resent version rt = (resent_metadata ''seca.network/v1'' version rt)\<lparr>rt_status := None\<rparr>"

lemma route_table_converts_back:
  "route_table_from_api (with_verb verb (route_table_to_api rt)) (request_network_identity (md_tenant rt) (md_workspace rt) (md_network rt) (md_name rt) version) (md_region rt) =
     route_table_resent version rt"
  by (cases rt) (simp add: route_table_from_api_def route_table_to_api_def api_object_of_def request_metadata_defs route_table_resent_def
    resent_metadata_def route_table.defs )

interpretation route_table_api: api_resource route_table_to_api "route_table_from_api"
    "\<lambda>rt. request_network_identity (md_tenant rt) (md_workspace rt) (md_network rt) (md_name rt)" "md_region"
    "\<lambda>rt. True" route_table_resent "\<lambda>fe. creator_from_repo (rf_repo fe)" "\<lambda>fe. updater_from_repo (rf_repo fe)"
    "\<lambda>fe rt. create_or_update_route_table fe (md_tenant rt) (md_workspace rt) (md_network rt) (md_name rt)"
  by unfold_locales
    (rule route_table_converts_back | assumption | simp add: route_table_to_api_def api_object_of_def api_metadata_defs request_identity_def
      request_network_identity_def create_or_update_route_table_def route_table_to_api_with_verb_def [abs_def])+

subsection \<open>\<^verbatim>\<open>subnet_converter.go\<close> and \<^verbatim>\<open>subnet_handler.go\<close>\<close>

record subnet_api_status = api_status +
  sas_cidr :: "cidr option"
  sas_route_table_ref :: "reference option"

definition subnet_spec_to_api :: "subnet_spec \<Rightarrow> subnet_cr_spec" where
  "subnet_spec_to_api s =
    \<lparr>sncs_cidr = cidr_to_api (sns_cidr s), sncs_route_table_ref = reference_to_api (sns_route_table_ref s),
     sncs_sku_ref = optional_ref_to_api (sns_sku_ref s), sncs_zone = sns_zone s\<rparr>"

definition subnet_spec_from_api :: "subnet_cr_spec \<Rightarrow> subnet_spec" where
  "subnet_spec_from_api s =
    \<lparr>sns_cidr = cidr_from_api (sncs_cidr s), sns_route_table_ref = reference_from_api (sncs_route_table_ref s),
     sns_sku_ref = optional_ref_from_api (sncs_sku_ref s), sns_zone = sncs_zone s\<rparr>"

definition subnet_status_to_api :: "subnet_status \<Rightarrow> subnet_api_status" where
  "subnet_status_to_api s = api_status.extend (status_to_api (snst_status s))
     (subnet_api_status.fields (map_option cidr_to_api (snst_cidr s))
        (map_option reference_to_api (snst_route_table_ref s)))"

definition subnet_to_api :: "subnet \<Rightarrow> (subnet_cr_spec, subnet_api_status) api_object" where
  "subnet_to_api s =
     api_object_of (network_api_metadata ''subnet'' s) s (subnet_spec_to_api (sn_spec s)) (map_option subnet_status_to_api (sn_status s))"

definition subnet_to_api_with_verb :: "string \<Rightarrow> subnet \<Rightarrow> (subnet_cr_spec, subnet_api_status) api_object" where
  "subnet_to_api_with_verb verb s = with_verb verb (subnet_to_api s)"

definition subnet_iterator_to_api :: "subnet list \<Rightarrow> string option \<Rightarrow> (subnet_cr_spec, subnet_api_status) api_object api_iterator" where
  "subnet_iterator_to_api items skip_token =
    \<lparr>it_items = map subnet_to_api items, it_provider = ''seca.network/v1'', it_resource = ''subnets'',
     it_verb = ''list'', it_skip_token = skip_token\<rparr>"

definition subnet_from_api :: "(subnet_cr_spec, subnet_api_status) api_object \<Rightarrow> network_identity \<Rightarrow> string \<Rightarrow> subnet" where
  "subnet_from_api sdk ident region =
     regional_network_metadata.extend (request_network_metadata ''seca.network/v1'' sdk ident region)
       (subnet.fields (subnet_spec_from_api (ao_spec sdk)) None)"

definition subnet_list_params_from_api :: "list_query \<Rightarrow> string \<Rightarrow> string \<Rightarrow> string \<Rightarrow> network_list_params" where
  "subnet_list_params_from_api query tenant ws nw = network_scoped_list_params query tenant ws nw"

definition new_subnet_with_identity :: "network_identity \<Rightarrow> subnet" where
  "new_subnet_with_identity ir =
     regional_network_metadata.extend (identity_network_metadata ir) (subnet.fields \<lparr>sns_cidr = \<lparr>cidr_ipv4 = [], cidr_ipv6 = []\<rparr>, sns_route_table_ref = unset_reference, sns_sku_ref = unset_reference, sns_zone = []\<rparr> None)"

definition list_subnets ::
  "(subnet, (subnet_cr_spec, subnet_api_status) api_object, 'w, 'f) network_frontend_scheme \<Rightarrow> list_query \<Rightarrow> string \<Rightarrow> string \<Rightarrow> string
   \<Rightarrow> ((subnet_cr_spec, subnet_api_status) api_object api_answer, 'w) handler" where
  "list_subnets fe query tenant ws nw =
     handle_list (rf_encode fe) (subnet_list_params_from_api query tenant ws nw) (nf_list fe)
       (\<lambda>items token. Page (subnet_iterator_to_api items token))"

definition get_subnet ::
  "(subnet, (subnet_cr_spec, subnet_api_status) api_object, 'w, 'f) resource_frontend_scheme \<Rightarrow> string \<Rightarrow> string \<Rightarrow> string \<Rightarrow> string
   \<Rightarrow> ((subnet_cr_spec, subnet_api_status) api_object api_answer, 'w) handler" where
  "get_subnet fe tenant ws nw name =
     handle_get (rf_encode fe) (request_network_identity tenant ws nw name [])
       (getter_from_repo (rf_repo fe) new_subnet_with_identity)
       (\<lambda>d. Single (subnet_to_api_with_verb ''GET'' d))"

definition delete_subnet ::
  "(subnet, (subnet_cr_spec, subnet_api_status) api_object, 'w, 'f) resource_frontend_scheme \<Rightarrow> string \<Rightarrow> string \<Rightarrow> string \<Rightarrow> string \<Rightarrow> int option
   \<Rightarrow> ((subnet_cr_spec, subnet_api_status) api_object api_answer, 'w) handler" where
  "delete_subnet fe tenant ws nw name unmodified =
     handle_delete (request_network_identity tenant ws nw name (version_of_param unmodified))
       (deleter_from_repo (rf_repo fe) new_subnet_with_identity)"

definition create_or_update_subnet ::
  "(subnet, (subnet_cr_spec, subnet_api_status) api_object, 'w, 'f) resource_frontend_scheme \<Rightarrow> string \<Rightarrow> string \<Rightarrow> string \<Rightarrow> string \<Rightarrow> int option
   \<Rightarrow> ((subnet_cr_spec, subnet_api_status) api_object api_answer, 'w) handler" where
  "create_or_update_subnet fe tenant ws nw name unmodified =
     handle_upsert (put_options fe (request_network_identity tenant ws nw name (version_of_param unmodified))
       (creator_from_repo (rf_repo fe)) (updater_from_repo (rf_repo fe))
       (\<lambda>sdk ident. subnet_from_api sdk ident (rf_region fe)) (subnet_to_api_with_verb ''PUT''))"

definition subnet_resent :: "string \<Rightarrow> subnet \<Rightarrow> subnet" where
  "subnet_resent version s = (resent_metadata ''seca.network/v1'' version s)\<lparr>sn_status := None\<rparr>"

lemma subnet_converts_back:
  "subnet_from_api (with_verb verb (subnet_to_api s)) (request_network_identity (md_tenant s) (md_workspace s) (md_network s) (md_name s) version) (md_region s) =
     subnet_resent version s"
  by (cases s) (simp add: subnet_from_api_def subnet_to_api_def api_object_of_def request_metadata_defs subnet_resent_def
    resent_metadata_def subnet.defs subnet_spec_to_api_def subnet_spec_from_api_def)

interpretation subnet_api: api_resource subnet_to_api "subnet_from_api"
    "\<lambda>s. request_network_identity (md_tenant s) (md_workspace s) (md_network s) (md_name s)" "md_region"
    "\<lambda>s. True" subnet_resent "\<lambda>fe. creator_from_repo (rf_repo fe)" "\<lambda>fe. updater_from_repo (rf_repo fe)"
    "\<lambda>fe s. create_or_update_subnet fe (md_tenant s) (md_workspace s) (md_network s) (md_name s)"
  by unfold_locales
    (rule subnet_converts_back | assumption | simp add: subnet_to_api_def api_object_of_def api_metadata_defs request_identity_def
      request_network_identity_def create_or_update_subnet_def subnet_to_api_with_verb_def [abs_def])+

subsection \<open>\<^verbatim>\<open>security_group_rule_converter.go\<close> and \<^verbatim>\<open>security_group_rule_handler.go\<close>\<close>

lemma rule_copies [simp]:
  "map_option (\<lambda>i. \<lparr>icmp_code = icmp_code i, icmp_type = icmp_type i\<rparr>) p = p"
  "map_option (\<lambda>q. \<lparr>ports_from = ports_from q, ports_list = ports_list q, ports_to = ports_to q\<rparr>) ps = ps"
  by (cases p; cases ps; simp)+

definition security_group_rule_spec_to_api :: "security_group_rule_spec \<Rightarrow> security_group_rule_spec" where
  "security_group_rule_spec_to_api spec =
    \<lparr>sgrs_direction = sgrs_direction spec,
     sgrs_icmp = map_option (\<lambda>i. \<lparr>icmp_code = icmp_code i, icmp_type = icmp_type i\<rparr>) (sgrs_icmp spec),
     sgrs_ports = map_option (\<lambda>p. \<lparr>ports_from = ports_from p, ports_list = ports_list p, ports_to = ports_to p\<rparr>)
       (sgrs_ports spec),
     sgrs_protocol = sgrs_protocol spec, sgrs_source_ref = map reference_to_api (sgrs_source_ref spec),
     sgrs_version = ip_version_to_api (sgrs_version spec)\<rparr>"

definition security_group_rule_spec_from_api :: "security_group_rule_spec \<Rightarrow> security_group_rule_spec" where
  "security_group_rule_spec_from_api sdk =
    \<lparr>sgrs_direction = sgrs_direction sdk,
     sgrs_icmp = map_option (\<lambda>i. \<lparr>icmp_code = icmp_code i, icmp_type = icmp_type i\<rparr>) (sgrs_icmp sdk),
     sgrs_ports = map_option (\<lambda>p. \<lparr>ports_from = ports_from p, ports_list = ports_list p, ports_to = ports_to p\<rparr>)
       (sgrs_ports sdk),
     sgrs_protocol = sgrs_protocol sdk, sgrs_source_ref = map reference_from_api (sgrs_source_ref sdk),
     sgrs_version = ip_version_from_api (sgrs_version sdk)\<rparr>"

lemma security_group_rule_spec_converts_back:
  "known_ip_version (sgrs_version s) \<Longrightarrow> security_group_rule_spec_from_api (security_group_rule_spec_to_api s) = s"
  by (cases s) (simp add: security_group_rule_spec_to_api_def security_group_rule_spec_from_api_def ip_version_api option.map_comp comp_def option.map_ident)

definition security_group_rule_status_to_api :: "security_group_rule_status \<Rightarrow> api_status" where
  "security_group_rule_status_to_api s = status_to_api (sgrst_status s)"

definition security_group_rule_to_api :: "security_group_rule \<Rightarrow> (security_group_rule_spec, api_status) api_object" where
  "security_group_rule_to_api sgr =
     api_object_of (workspace_api_metadata ''security-group-rule'' sgr) sgr (security_group_rule_spec_to_api (sgr_spec sgr)) (map_option security_group_rule_status_to_api (sgr_status sgr))"

definition security_group_rule_to_api_with_verb :: "string \<Rightarrow> security_group_rule \<Rightarrow> (security_group_rule_spec, api_status) api_object" where
  "security_group_rule_to_api_with_verb verb sgr = with_verb verb (security_group_rule_to_api sgr)"

definition security_group_rule_iterator_to_api :: "security_group_rule list \<Rightarrow> string option \<Rightarrow> (security_group_rule_spec, api_status) api_object api_iterator" where
  "security_group_rule_iterator_to_api items skip_token =
    \<lparr>it_items = map security_group_rule_to_api items, it_provider = ''seca.network/v1'', it_resource = ''security-group-rules'',
     it_verb = ''list'', it_skip_token = skip_token\<rparr>"

definition security_group_rule_from_api :: "(security_group_rule_spec, api_status) api_object \<Rightarrow> 'i identity_scheme \<Rightarrow> string \<Rightarrow> security_group_rule" where
  "security_group_rule_from_api sdk ident region =
     regional_metadata.extend (request_workspace_metadata ''seca.network/v1'' sdk ident region)
       (security_group_rule.fields (security_group_rule_spec_from_api (ao_spec sdk)) None)"

definition security_group_rule_list_params_from_api :: "list_query \<Rightarrow> string \<Rightarrow> string \<Rightarrow> list_params" where
  "security_group_rule_list_params_from_api query tenant ws = scoped_list_params query tenant ws"

definition new_security_group_rule_with_identity :: "'i identity_scheme \<Rightarrow> security_group_rule" where
  "new_security_group_rule_with_identity ir =
     regional_metadata.extend (identity_workspace_metadata ir) (security_group_rule.fields \<lparr>sgrs_direction = [], sgrs_icmp = None, sgrs_ports = None, sgrs_protocol = [], sgrs_source_ref = [], sgrs_version = IPVersionUnset\<rparr> None)"

definition list_security_group_rules ::
  "(security_group_rule, (security_group_rule_spec, api_status) api_object, 'w, 'f) resource_frontend_scheme \<Rightarrow> list_query \<Rightarrow> string \<Rightarrow> string
   \<Rightarrow> ((security_group_rule_spec, api_status) api_object api_answer, 'w) handler" where
  "list_security_group_rules fe query tenant ws =
     handle_list (rf_encode fe) (security_group_rule_list_params_from_api query tenant ws) (lister_from_repo (rf_repo fe))
       (\<lambda>items token. Page (security_group_rule_iterator_to_api items token))"

definition get_security_group_rule ::
  "(security_group_rule, (security_group_rule_spec, api_status) api_object, 'w, 'f) resource_frontend_scheme \<Rightarrow> string \<Rightarrow> string \<Rightarrow> string
   \<Rightarrow> ((security_group_rule_spec, api_status) api_object api_answer, 'w) handler" where
  "get_security_group_rule fe tenant ws name =
     handle_get (rf_encode fe) (request_identity tenant ws name [])
       (getter_from_repo (rf_repo fe) new_security_group_rule_with_identity)
       (\<lambda>d. Single (security_group_rule_to_api_with_verb ''GET'' d))"

definition delete_security_group_rule ::
  "(security_group_rule, (security_group_rule_spec, api_status) api_object, 'w, 'f) resource_frontend_scheme \<Rightarrow> string \<Rightarrow> string \<Rightarrow> string \<Rightarrow> int option
   \<Rightarrow> ((security_group_rule_spec, api_status) api_object api_answer, 'w) handler" where
  "delete_security_group_rule fe tenant ws name unmodified =
     handle_delete (request_identity tenant ws name (version_of_param unmodified))
       (deleter_from_repo (rf_repo fe) new_security_group_rule_with_identity)"

definition create_or_update_security_group_rule ::
  "(security_group_rule, (security_group_rule_spec, api_status) api_object, 'w, 'f) resource_frontend_scheme \<Rightarrow> string \<Rightarrow> string \<Rightarrow> string \<Rightarrow> int option
   \<Rightarrow> ((security_group_rule_spec, api_status) api_object api_answer, 'w) handler" where
  "create_or_update_security_group_rule fe tenant ws name unmodified =
     handle_upsert (put_options fe (request_identity tenant ws name (version_of_param unmodified))
       (creator_from_repo (rf_repo fe)) (updater_from_repo (rf_repo fe))
       (\<lambda>sdk ident. security_group_rule_from_api sdk ident (rf_region fe)) (security_group_rule_to_api_with_verb ''PUT''))"

definition security_group_rule_resent :: "string \<Rightarrow> security_group_rule \<Rightarrow> security_group_rule" where
  "security_group_rule_resent version sgr = (resent_metadata ''seca.network/v1'' version sgr)\<lparr>sgr_status := None\<rparr>"

lemma security_group_rule_converts_back:
  "known_ip_version (sgrs_version (sgr_spec sgr)) \<Longrightarrow>
   security_group_rule_from_api (with_verb verb (security_group_rule_to_api sgr)) (request_identity (md_tenant sgr) (md_workspace sgr) (md_name sgr) version) (md_region sgr) =
     security_group_rule_resent version sgr"
  by (cases sgr) (simp add: security_group_rule_from_api_def security_group_rule_to_api_def api_object_of_def request_metadata_defs security_group_rule_resent_def
    resent_metadata_def security_group_rule.defs security_group_rule_spec_converts_back)

interpretation security_group_rule_api: api_resource security_group_rule_to_api "security_group_rule_from_api"
    "\<lambda>sgr. request_identity (md_tenant sgr) (md_workspace sgr) (md_name sgr)" "md_region"
    "\<lambda>sgr. known_ip_version (sgrs_version (sgr_spec sgr))" security_group_rule_resent "\<lambda>fe. creator_from_repo (rf_repo fe)" "\<lambda>fe. updater_from_repo (rf_repo fe)"
    "\<lambda>fe sgr. create_or_update_security_group_rule fe (md_tenant sgr) (md_workspace sgr) (md_name sgr)"
  by unfold_locales
    (rule security_group_rule_converts_back | assumption | simp add: security_group_rule_to_api_def api_object_of_def api_metadata_defs request_identity_def
      request_network_identity_def create_or_update_security_group_rule_def security_group_rule_to_api_with_verb_def [abs_def])+

subsection \<open>\<^verbatim>\<open>security_group_converter.go\<close> and \<^verbatim>\<open>security_group_handler.go\<close>\<close>

definition inline_rule_spec_to_api :: "security_group_rule_spec \<Rightarrow> security_group_rule_spec" where
  "inline_rule_spec_to_api spec =
    \<lparr>sgrs_direction = sgrs_direction spec,
     sgrs_icmp = map_option (\<lambda>i. \<lparr>icmp_code = icmp_code i, icmp_type = icmp_type i\<rparr>) (sgrs_icmp spec),
     sgrs_ports = map_option (\<lambda>p. \<lparr>ports_from = ports_from p, ports_list = ports_list p, ports_to = ports_to p\<rparr>)
       (sgrs_ports spec),
     sgrs_protocol = sgrs_protocol spec, sgrs_source_ref = map reference_to_api (sgrs_source_ref spec),
     sgrs_version = ip_version_to_api (sgrs_version spec)\<rparr>"

definition inline_rule_spec_from_api :: "security_group_rule_spec \<Rightarrow> security_group_rule_spec" where
  "inline_rule_spec_from_api sdk =
    \<lparr>sgrs_direction = sgrs_direction sdk,
     sgrs_icmp = map_option (\<lambda>i. \<lparr>icmp_code = icmp_code i, icmp_type = icmp_type i\<rparr>) (sgrs_icmp sdk),
     sgrs_ports = map_option (\<lambda>p. \<lparr>ports_from = ports_from p, ports_list = ports_list p, ports_to = ports_to p\<rparr>)
       (sgrs_ports sdk),
     sgrs_protocol = sgrs_protocol sdk, sgrs_source_ref = map reference_from_api (sgrs_source_ref sdk),
     sgrs_version = ip_version_from_api (sgrs_version sdk)\<rparr>"

lemma inline_rule_spec_converts_back:
  "known_ip_version (sgrs_version s) \<Longrightarrow> inline_rule_spec_from_api (inline_rule_spec_to_api s) = s"
  by (cases s) (simp add: inline_rule_spec_to_api_def inline_rule_spec_from_api_def ip_version_api option.map_comp comp_def option.map_ident)

record security_group_api_spec =
  sgas_rule_refs :: "reference list"
  sgas_rules :: "security_group_rule_spec list"

record security_group_api_status = api_status +
  sgast_rules :: "api_status list"

definition security_group_spec_to_api ::
  "reference list \<Rightarrow> security_group_rule_spec list \<Rightarrow> security_group_api_spec" where
  "security_group_spec_to_api rule_refs rules =
    \<lparr>sgas_rule_refs = map reference_to_api rule_refs, sgas_rules = map inline_rule_spec_to_api rules\<rparr>"

definition security_group_spec_from_api ::
  "security_group_api_spec \<Rightarrow> reference list \<times> security_group_rule_spec list" where
  "security_group_spec_from_api sdk =
    (map reference_from_api (sgas_rule_refs sdk), map inline_rule_spec_from_api (sgas_rules sdk))"

definition security_group_status_to_api :: "security_group_status \<Rightarrow> security_group_api_status" where
  "security_group_status_to_api s = api_status.extend (status_to_api (sgst_status s))
     (security_group_api_status.fields (map status_to_api (sgst_rules s)))"

lemma inline_rules_convert_back:
  "list_all (\<lambda>s. known_ip_version (sgrs_version s)) rules \<Longrightarrow>
     map (inline_rule_spec_from_api \<circ> inline_rule_spec_to_api) rules = rules"
  by (induction rules) (simp_all add: inline_rule_spec_converts_back)

definition security_group_to_api :: "security_group \<Rightarrow> (security_group_api_spec, security_group_api_status) api_object" where
  "security_group_to_api sg =
     api_object_of (workspace_api_metadata ''security-group'' sg) sg (security_group_spec_to_api (sg_rule_refs sg) (sg_rules sg)) (map_option security_group_status_to_api (sg_status sg))"

definition security_group_to_api_with_verb :: "string \<Rightarrow> security_group \<Rightarrow> (security_group_api_spec, security_group_api_status) api_object" where
  "security_group_to_api_with_verb verb sg = with_verb verb (security_group_to_api sg)"

definition security_group_iterator_to_api :: "security_group list \<Rightarrow> string option \<Rightarrow> (security_group_api_spec, security_group_api_status) api_object api_iterator" where
  "security_group_iterator_to_api items skip_token =
    \<lparr>it_items = map security_group_to_api items, it_provider = ''seca.network/v1'', it_resource = ''security-groups'',
     it_verb = ''list'', it_skip_token = skip_token\<rparr>"

definition security_group_from_api :: "(security_group_api_spec, security_group_api_status) api_object \<Rightarrow> 'i identity_scheme \<Rightarrow> string \<Rightarrow> security_group" where
  "security_group_from_api sdk ident region =
     regional_metadata.extend (request_workspace_metadata ''seca.network/v1'' sdk ident region)
       (security_group.fields (fst (security_group_spec_from_api (ao_spec sdk)))
          (snd (security_group_spec_from_api (ao_spec sdk))) None)"

definition security_group_list_params_from_api :: "list_query \<Rightarrow> string \<Rightarrow> string \<Rightarrow> list_params" where
  "security_group_list_params_from_api query tenant ws = scoped_list_params query tenant ws"

definition new_security_group_with_identity :: "'i identity_scheme \<Rightarrow> security_group" where
  "new_security_group_with_identity ir =
     regional_metadata.extend (identity_workspace_metadata ir) (security_group.fields [] [] None)"

definition list_security_groups ::
  "(security_group, (security_group_api_spec, security_group_api_status) api_object, 'w, 'f) resource_frontend_scheme \<Rightarrow> list_query \<Rightarrow> string \<Rightarrow> string
   \<Rightarrow> ((security_group_api_spec, security_group_api_status) api_object api_answer, 'w) handler" where
  "list_security_groups fe query tenant ws =
     handle_list (rf_encode fe) (security_group_list_params_from_api query tenant ws) (lister_from_repo (rf_repo fe))
       (\<lambda>items token. Page (security_group_iterator_to_api items token))"

definition get_security_group ::
  "(security_group, (security_group_api_spec, security_group_api_status) api_object, 'w, 'f) resource_frontend_scheme \<Rightarrow> string \<Rightarrow> string \<Rightarrow> string
   \<Rightarrow> ((security_group_api_spec, security_group_api_status) api_object api_answer, 'w) handler" where
  "get_security_group fe tenant ws name =
     handle_get (rf_encode fe) (request_identity tenant ws name [])
       (getter_from_repo (rf_repo fe) new_security_group_with_identity)
       (\<lambda>d. Single (security_group_to_api_with_verb ''GET'' d))"

definition delete_security_group ::
  "(security_group, (security_group_api_spec, security_group_api_status) api_object, 'w, 'f) resource_frontend_scheme \<Rightarrow> string \<Rightarrow> string \<Rightarrow> string \<Rightarrow> int option
   \<Rightarrow> ((security_group_api_spec, security_group_api_status) api_object api_answer, 'w) handler" where
  "delete_security_group fe tenant ws name unmodified =
     handle_delete (request_identity tenant ws name (version_of_param unmodified))
       (deleter_from_repo (rf_repo fe) new_security_group_with_identity)"

definition create_or_update_security_group ::
  "(security_group, (security_group_api_spec, security_group_api_status) api_object, 'w, 'f) resource_frontend_scheme \<Rightarrow> string \<Rightarrow> string \<Rightarrow> string \<Rightarrow> int option
   \<Rightarrow> ((security_group_api_spec, security_group_api_status) api_object api_answer, 'w) handler" where
  "create_or_update_security_group fe tenant ws name unmodified =
     handle_upsert (put_options fe (request_identity tenant ws name (version_of_param unmodified))
       (creator_from_repo (rf_repo fe)) (updater_from_repo (rf_repo fe))
       (\<lambda>sdk ident. security_group_from_api sdk ident (rf_region fe)) (security_group_to_api_with_verb ''PUT''))"

definition security_group_resent :: "string \<Rightarrow> security_group \<Rightarrow> security_group" where
  "security_group_resent version sg = (resent_metadata ''seca.network/v1'' version sg)\<lparr>sg_status := None\<rparr>"

lemma security_group_converts_back:
  "list_all (\<lambda>s. known_ip_version (sgrs_version s)) (sg_rules sg) \<Longrightarrow>
   security_group_from_api (with_verb verb (security_group_to_api sg)) (request_identity (md_tenant sg) (md_workspace sg) (md_name sg) version) (md_region sg) =
     security_group_resent version sg"
  by (cases sg) (simp add: security_group_from_api_def security_group_to_api_def api_object_of_def request_metadata_defs security_group_resent_def
    resent_metadata_def security_group.defs security_group_spec_to_api_def security_group_spec_from_api_def inline_rules_convert_back)

interpretation security_group_api: api_resource security_group_to_api "security_group_from_api"
    "\<lambda>sg. request_identity (md_tenant sg) (md_workspace sg) (md_name sg)" "md_region"
    "\<lambda>sg. list_all (\<lambda>s. known_ip_version (sgrs_version s)) (sg_rules sg)" security_group_resent "\<lambda>fe. creator_from_repo (rf_repo fe)" "\<lambda>fe. updater_from_repo (rf_repo fe)"
    "\<lambda>fe sg. create_or_update_security_group fe (md_tenant sg) (md_workspace sg) (md_name sg)"
  by unfold_locales
    (rule security_group_converts_back | assumption | simp add: security_group_to_api_def api_object_of_def api_metadata_defs request_identity_def
      request_network_identity_def create_or_update_security_group_def security_group_to_api_with_verb_def [abs_def])+

end
