(* ===== verification/Resource_Api.thy ===== *)
theory Resource_Api
  imports Network_Api Resource_Conversion Instance_Api
begin

section \<open>The other endpoints: storage, workspaces, authorization, instances\<close>

text \<open>
  As \<open>Network_Api\<close>, for block storages, images, workspaces, roles and role assignments; of instances
  only the converters, which complete the endpoints of \<open>Instance_Api\<close>. Roles and role assignments are
  made active by the write itself.
\<close>

subsection \<open>\<^verbatim>\<open>block_storage_converter.go\<close> and \<^verbatim>\<open>block_storage_handler.go\<close>\<close>

record block_storage_api_status = api_status +
  bas_size_gb :: int
  bas_attached_to :: "reference option"

definition block_storage_spec_to_api :: "block_storage_spec \<Rightarrow> block_storage_spec" where
  "block_storage_spec_to_api s =
    \<lparr>bss_size_gb = bss_size_gb s, bss_sku_ref = reference_to_api (bss_sku_ref s),
     bss_source_image_ref = reference_ptr_to_api (bss_source_image_ref s)\<rparr>"

definition block_storage_spec_from_api :: "block_storage_spec \<Rightarrow> block_storage_spec" where
  "block_storage_spec_from_api s =
    \<lparr>bss_size_gb = bss_size_gb s, bss_sku_ref = reference_from_api (bss_sku_ref s),
     bss_source_image_ref = map_option reference_from_api (bss_source_image_ref s)\<rparr>"

definition block_storage_status_to_api :: "block_storage_status \<Rightarrow> block_storage_api_status" where
  "block_storage_status_to_api s = api_status.extend (status_to_api (bsst_status s))
     (block_storage_api_status.fields (bsst_size_gb s) (reference_ptr_to_api (bsst_attached_to s)))"

definition block_storage_to_api :: "block_storage \<Rightarrow> (block_storage_spec, block_storage_api_status) api_object" where
  "block_storage_to_api bs =
     api_object_of (workspace_api_metadata ''block-storage'' bs) bs (block_storage_spec_to_api (bs_spec bs)) (map_option block_storage_status_to_api (bs_status bs))"

definition block_storage_to_api_with_verb :: "string \<Rightarrow> block_storage \<Rightarrow> (block_storage_spec, block_storage_api_status) api_object" where
  "block_storage_to_api_with_verb verb bs = with_verb verb (block_storage_to_api bs)"

definition block_storage_iterator_to_api :: "block_storage list \<Rightarrow> string option \<Rightarrow> (block_storage_spec, block_storage_api_status) api_object api_iterator" where
  "block_storage_iterator_to_api items skip_token =
    \<lparr>it_items = map block_storage_to_api items, it_provider = ''seca.storage/v1'', it_resource = ''block-storages'',
     it_verb = ''list'', it_skip_token = skip_token\<rparr>"

definition block_storage_from_api :: "(block_storage_spec, block_storage_api_status) api_object \<Rightarrow> 'i identity_scheme \<Rightarrow> string \<Rightarrow> block_storage" where
  "block_storage_from_api sdk ident region =
     regional_metadata.extend (request_workspace_metadata ''seca.storage/v1'' sdk ident region)
       (block_storage.fields (block_storage_spec_from_api (ao_spec sdk)) None)"

definition block_storage_list_params_from_api :: "list_query \<Rightarrow> string \<Rightarrow> string \<Rightarrow> list_params" where
  "block_storage_list_params_from_api query tenant ws = scoped_list_params query tenant ws"

definition new_block_storage_with_identity :: "'i identity_scheme \<Rightarrow> block_storage" where
  "new_block_storage_with_identity ir =
     regional_metadata.extend (identity_workspace_metadata ir) (block_storage.fields \<lparr>bss_size_gb = 0, bss_sku_ref = unset_reference, bss_source_image_ref = None\<rparr> None)"

definition list_block_storages ::
  "(block_storage, (block_storage_spec, block_storage_api_status) api_object, 'w, 'f) resource_frontend_scheme \<Rightarrow> list_query \<Rightarrow> string \<Rightarrow> string
   \<Rightarrow> ((block_storage_spec, block_storage_api_status) api_object api_answer, 'w) handler" where
  "list_block_storages fe query tenant ws =
     handle_list (rf_encode fe) (block_storage_list_params_from_api query tenant ws) (lister_from_repo (rf_repo fe))
       (\<lambda>items token. Page (block_storage_iterator_to_api items token))"

definition get_block_storage ::
  "(block_storage, (block_storage_spec, block_storage_api_status) api_object, 'w, 'f) resource_frontend_scheme \<Rightarrow> string \<Rightarrow> string \<Rightarrow> string
   \<Rightarrow> ((block_storage_spec, block_storage_api_status) api_object api_answer, 'w) handler" where
  "get_block_storage fe tenant ws name =
     handle_get (rf_encode fe) (request_identity tenant ws name [])
       (getter_from_repo (rf_repo fe) new_block_storage_with_identity)
       (\<lambda>d. Single (block_storage_to_api_with_verb ''GET'' d))"

definition delete_block_storage ::
  "(block_storage, (block_storage_spec, block_storage_api_status) api_object, 'w, 'f) resource_frontend_scheme \<Rightarrow> string \<Rightarrow> string \<Rightarrow> string \<Rightarrow> int option
   \<Rightarrow> ((block_storage_spec, block_storage_api_status) api_object api_answer, 'w) handler" where
  "delete_block_storage fe tenant ws name unmodified =
     handle_delete (request_identity tenant ws name (version_of_param unmodified))
       (deleter_from_repo (rf_repo fe) new_block_storage_with_identity)"

definition create_or_update_block_storage ::
  "(block_storage, (block_storage_spec, block_storage_api_status) api_object, 'w, 'f) resource_frontend_scheme \<Rightarrow> string \<Rightarrow> string \<Rightarrow> string \<Rightarrow> int option
   \<Rightarrow> ((block_storage_spec, block_storage_api_status) api_object api_answer, 'w) handler" where
  "create_or_update_block_storage fe tenant ws name unmodified =
     handle_upsert (put_options fe (request_identity tenant ws name (version_of_param unmodified))
       (creator_from_repo (rf_repo fe)) (updater_from_repo (rf_repo fe))
       (\<lambda>sdk ident. block_storage_from_api sdk ident (rf_region fe)) (block_storage_to_api_with_verb ''PUT''))"

definition block_storage_resent :: "string \<Rightarrow> block_storage \<Rightarrow> block_storage" where
  "block_storage_resent version bs = (resent_metadata ''seca.storage/v1'' version bs)\<lparr>bs_status := None\<rparr>"

lemma block_storage_converts_back:
  "block_storage_from_api (with_verb verb (block_storage_to_api bs)) (request_identity (md_tenant bs) (md_workspace bs) (md_name bs) version) (md_region bs) =
     block_storage_resent version bs"
  by (cases bs) (simp add: block_storage_from_api_def block_storage_to_api_def api_object_of_def request_metadata_defs block_storage_resent_def
    resent_metadata_def block_storage.defs block_storage_spec_to_api_def block_storage_spec_from_api_def option.map_id)

interpretation block_storage_api: api_resource block_storage_to_api "block_storage_from_api"
    "\<lambda>bs. request_identity (md_tenant bs) (md_workspace bs) (md_name bs)" "md_region"
    "\<lambda>bs. True" block_storage_resent "\<lambda>fe. creator_from_repo (rf_repo fe)" "\<lambda>fe. updater_from_repo (rf_repo fe)"
    "\<lambda>fe bs. create_or_update_block_storage fe (md_tenant bs) (md_workspace bs) (md_name bs)"
  by unfold_locales
    (rule block_storage_converts_back | assumption | simp add: block_storage_to_api_def api_object_of_def api_metadata_defs request_identity_def
      request_network_identity_def create_or_update_block_storage_def block_storage_to_api_with_verb_def [abs_def])+

subsection \<open>\<^verbatim>\<open>image_converter.go\<close> and \<^verbatim>\<open>image_handler.go\<close>\<close>

record image_api_status = api_status +
  ias_size_mb :: "int option"

definition image_spec_to_api :: "image_spec \<Rightarrow> image_spec" where
  "image_spec_to_api s =
    \<lparr>imgs_block_storage_ref = reference_to_api (imgs_block_storage_ref s),
     imgs_cpu_architecture = imgs_cpu_architecture s, imgs_boot = imgs_boot s, imgs_initializer = imgs_initializer s\<rparr>"

definition image_spec_from_api :: "image_spec \<Rightarrow> image_spec" where
  "image_spec_from_api s =
    \<lparr>imgs_block_storage_ref = reference_from_api (imgs_block_storage_ref s),
     imgs_cpu_architecture = imgs_cpu_architecture s, imgs_boot = imgs_boot s, imgs_initializer = imgs_initializer s\<rparr>"

definition image_status_to_api :: "image_status \<Rightarrow> image_api_status" where
  "image_status_to_api s = api_status.extend (status_to_api (imgst_status s))
     (image_api_status.fields (imgst_size_mb s))"

definition image_to_api :: "image \<Rightarrow> (image_spec, image_api_status) api_object" where
  "image_to_api img =
     api_object_of (tenant_regional_api_metadata ''image'' img) img (image_spec_to_api (img_spec img)) (map_option image_status_to_api (img_status img))"

definition image_to_api_with_verb :: "string \<Rightarrow> image \<Rightarrow> (image_spec, image_api_status) api_object" where
  "image_to_api_with_verb verb img = with_verb verb (image_to_api img)"

definition image_iterator_to_api :: "image list \<Rightarrow> string option \<Rightarrow> (image_spec, image_api_status) api_object api_iterator" where
  "image_iterator_to_api items skip_token =
    \<lparr>it_items = map image_to_api items, it_provider = ''seca.storage/v1'', it_resource = ''images'',
     it_verb = ''list'', it_skip_token = skip_token\<rparr>"

definition image_from_api :: "(image_spec, image_api_status) api_object \<Rightarrow> 'i identity_scheme \<Rightarrow> string \<Rightarrow> image" where
  "image_from_api sdk ident region =
     regional_metadata.extend (request_tenant_regional_metadata ''seca.storage/v1'' sdk ident region)
       (image.fields (image_spec_from_api (ao_spec sdk)) None)"

definition image_list_params_from_api :: "list_query \<Rightarrow> string \<Rightarrow> list_params" where
  "image_list_params_from_api query tenant = scoped_list_params query tenant []"

definition new_image_with_identity :: "'i identity_scheme \<Rightarrow> image" where
  "new_image_with_identity ir =
     regional_metadata.extend (identity_tenant_regional_metadata ir) (image.fields \<lparr>imgs_block_storage_ref = unset_reference, imgs_cpu_architecture = [], imgs_boot = [], imgs_initializer = []\<rparr> None)"

definition list_images ::
  "(image, (image_spec, image_api_status) api_object, 'w, 'f) resource_frontend_scheme \<Rightarrow> list_query \<Rightarrow> string
   \<Rightarrow> ((image_spec, image_api_status) api_object api_answer, 'w) handler" where
  "list_images fe query tenant =
     handle_list (rf_encode fe) (image_list_params_from_api query tenant) (lister_from_repo (rf_repo fe))
       (\<lambda>items token. Page (image_iterator_to_api items token))"

definition get_image ::
  "(image, (image_spec, image_api_status) api_object, 'w, 'f) resource_frontend_scheme \<Rightarrow> string \<Rightarrow> string
   \<Rightarrow> ((image_spec, image_api_status) api_object api_answer, 'w) handler" where
  "get_image fe tenant name =
     handle_get (rf_encode fe) (request_identity tenant [] name [])
       (getter_from_repo (rf_repo fe) new_image_with_identity)
       (\<lambda>d. Single (image_to_api_with_verb ''GET'' d))"

definition delete_image ::
  "(image, (image_spec, image_api_status) api_object, 'w, 'f) resource_frontend_scheme \<Rightarrow> string \<Rightarrow> string \<Rightarrow> int option
   \<Rightarrow> ((image_spec, image_api_status) api_object api_answer, 'w) handler" where
  "delete_image fe tenant name unmodified =
     handle_delete (request_identity tenant [] name (version_of_param unmodified))
       (deleter_from_repo (rf_repo fe) new_image_with_identity)"

definition create_or_update_image ::
  "(image, (image_spec, image_api_status) api_object, 'w, 'f) resource_frontend_scheme \<Rightarrow> string \<Rightarrow> string \<Rightarrow> int option
   \<Rightarrow> ((image_spec, image_api_status) api_object api_answer, 'w) handler" where
  "create_or_update_image fe tenant name unmodified =
     handle_upsert (put_options fe (request_identity tenant [] name (version_of_param unmodified))
       (creator_from_repo (rf_repo fe)) (updater_from_repo (rf_repo fe))
       (\<lambda>sdk ident. image_from_api sdk ident (rf_region fe)) (image_to_api_with_verb ''PUT''))"

definition image_resent :: "string \<Rightarrow> image \<Rightarrow> image" where
  "image_resent version img = (resent_metadata ''seca.storage/v1'' version img)\<lparr>img_status := None\<rparr>"

lemma image_converts_back:
  "md_workspace img = [] \<Longrightarrow>
   image_from_api (with_verb verb (image_to_api img)) (request_identity (md_tenant img) [] (md_name img) version) (md_region img) =
     image_resent version img"
  by (cases img) (simp add: image_from_api_def image_to_api_def api_object_of_def request_metadata_defs image_resent_def
    resent_metadata_def image.defs image_spec_to_api_def image_spec_from_api_def)

interpretation image_api: api_resource image_to_api "image_from_api"
    "\<lambda>img. request_identity (md_tenant img) [] (md_name img)" "md_region"
    "\<lambda>img. md_workspace img = []" image_resent "\<lambda>fe. creator_from_repo (rf_repo fe)" "\<lambda>fe. updater_from_repo (rf_repo fe)"
    "\<lambda>fe img. create_or_update_image fe (md_tenant img) (md_name img)"
  by unfold_locales
    (rule image_converts_back | assumption | simp add: image_to_api_def api_object_of_def api_metadata_defs request_identity_def
      request_network_identity_def create_or_update_image_def image_to_api_with_verb_def [abs_def])+

subsection \<open>\<^verbatim>\<open>workspace/v1/frontend/rest\<close>\<close>

record workspace_api_status = api_status +
  was_resource_count :: "int option"

definition workspace_status_to_api :: "workspace_status \<Rightarrow> workspace_api_status" where
  "workspace_status_to_api s = api_status.extend (status_to_api (wss_status s))
     (workspace_api_status.fields (wss_resource_count s))"

definition workspace_to_api :: "workspace \<Rightarrow> ((string \<times> json) list, workspace_api_status) api_object" where
  "workspace_to_api ws =
     api_object_of (tenant_regional_api_metadata ''workspace'' ws) ws (ws_spec ws) (map_option workspace_status_to_api (ws_status ws))"

definition workspace_to_api_with_verb :: "string \<Rightarrow> workspace \<Rightarrow> ((string \<times> json) list, workspace_api_status) api_object" where
  "workspace_to_api_with_verb verb ws = with_verb verb (workspace_to_api ws)"

definition workspace_iterator_to_api :: "workspace list \<Rightarrow> string option \<Rightarrow> ((string \<times> json) list, workspace_api_status) api_object api_iterator" where
  "workspace_iterator_to_api items skip_token =
    \<lparr>it_items = map (workspace_to_api_with_verb ''GET'') items, it_provider = ''seca.workspace/v1'', it_resource = ''workspaces'',
     it_verb = ''GET'', it_skip_token = skip_token\<rparr>"

definition workspace_from_api :: "((string \<times> json) list, workspace_api_status) api_object \<Rightarrow> 'i identity_scheme \<Rightarrow> string \<Rightarrow> workspace" where
  "workspace_from_api sdk ident region =
     regional_metadata.extend (request_tenant_regional_metadata ''seca.workspace/v1'' sdk ident region)
       (workspace.fields (ao_spec sdk) None)"

definition workspace_list_params_from_api :: "list_query \<Rightarrow> string \<Rightarrow> list_params" where
  "workspace_list_params_from_api query tenant = scoped_list_params query tenant []"

definition new_workspace_with_identity :: "'i identity_scheme \<Rightarrow> workspace" where
  "new_workspace_with_identity ir =
     regional_metadata.extend (identity_tenant_regional_metadata ir) (workspace.fields [] None)"

definition list_workspaces ::
  "(workspace, ((string \<times> json) list, workspace_api_status) api_object, 'w, 'f) resource_frontend_scheme \<Rightarrow> list_query \<Rightarrow> string
   \<Rightarrow> (((string \<times> json) list, workspace_api_status) api_object api_answer, 'w) handler" where
  "list_workspaces fe query tenant =
     handle_list (rf_encode fe) (workspace_list_params_from_api query tenant) (lister_from_repo (rf_repo fe))
       (\<lambda>items token. Page (workspace_iterator_to_api items token))"

definition get_workspace ::
  "(workspace, ((string \<times> json) list, workspace_api_status) api_object, 'w, 'f) resource_frontend_scheme \<Rightarrow> string \<Rightarrow> string
   \<Rightarrow> (((string \<times> json) list, workspace_api_status) api_object api_answer, 'w) handler" where
  "get_workspace fe tenant name =
     handle_get (rf_encode fe) (request_identity tenant [] name [])
       (getter_from_repo (rf_repo fe) new_workspace_with_identity)
       (\<lambda>d. Single (workspace_to_api_with_verb ''GET'' d))"

definition delete_workspace ::
  "(workspace, ((string \<times> json) list, workspace_api_status) api_object, 'w, 'f) resource_frontend_scheme \<Rightarrow> string \<Rightarrow> string \<Rightarrow> int option
   \<Rightarrow> (((string \<times> json) list, workspace_api_status) api_object api_answer, 'w) handler" where
  "delete_workspace fe tenant name unmodified =
     handle_delete (request_identity tenant [] name (version_of_param unmodified))
       (deleter_from_repo (rf_repo fe) new_workspace_with_identity)"

definition create_or_update_workspace ::
  "(workspace, ((string \<times> json) list, workspace_api_status) api_object, 'w, 'f) resource_frontend_scheme \<Rightarrow> string \<Rightarrow> string \<Rightarrow> int option
   \<Rightarrow> (((string \<times> json) list, workspace_api_status) api_object api_answer, 'w) handler" where
  "create_or_update_workspace fe tenant name unmodified =
     handle_upsert (put_options fe (request_identity tenant [] name (version_of_param unmodified))
       (creator_from_repo (rf_repo fe)) (updater_from_repo (rf_repo fe))
       (\<lambda>sdk ident. workspace_from_api sdk ident (rf_region fe)) (workspace_to_api_with_verb ''PUT''))"

definition workspace_resent :: "string \<Rightarrow> workspace \<Rightarrow> workspace" where
  "workspace_resent version ws = (resent_metadata ''seca.workspace/v1'' version ws)\<lparr>ws_status := None\<rparr>"

lemma workspace_converts_back:
  "md_workspace ws = [] \<Longrightarrow>
   workspace_from_api (with_verb verb (workspace_to_api ws)) (request_identity (md_tenant ws) [] (md_name ws) version) (md_region ws) =
     workspace_resent version ws"
  by (cases ws) (simp add: workspace_from_api_def workspace_to_api_def api_object_of_def request_metadata_defs workspace_resent_def
    resent_metadata_def workspace.defs )

interpretation workspace_api: api_resource workspace_to_api "workspace_from_api"
    "\<lambda>ws. request_identity (md_tenant ws) [] (md_name ws)" "md_region"
    "\<lambda>ws. md_workspace ws = []" workspace_resent "\<lambda>fe. creator_from_repo (rf_repo fe)" "\<lambda>fe. updater_from_repo (rf_repo fe)"
    "\<lambda>fe ws. create_or_update_workspace fe (md_tenant ws) (md_name ws)"
  by unfold_locales
    (rule workspace_converts_back | assumption | simp add: workspace_to_api_def api_object_of_def api_metadata_defs request_identity_def
      request_network_identity_def create_or_update_workspace_def workspace_to_api_with_verb_def [abs_def])+

subsection \<open>\<^verbatim>\<open>active_writer.go\<close>\<close>

text \<open>
  Roles and role assignments have no plugin: a write of the spec is followed by a write of the status
  that makes them active.
\<close>

definition active_on_write ::
  "('r \<Rightarrow> 'w \<Rightarrow> (go_error + 'r) \<times> 'w) \<Rightarrow> ('r \<Rightarrow> 'w \<Rightarrow> (go_error + 'r) \<times> 'w) \<Rightarrow> (time \<Rightarrow> 'r \<Rightarrow> 'r) \<Rightarrow> ('w \<Rightarrow> time)
   \<Rightarrow> 'r \<Rightarrow> 'w \<Rightarrow> (go_error + 'r) \<times> 'w" where
  "active_on_write persist update_status mark_active now m w =
    (case persist m w of
       (Inl err, w1) \<Rightarrow> (Inl err, w1)
     | (Inr saved, w1) \<Rightarrow>
         (case update_status (mark_active (now w1) saved) w1 of
            (Inl err, w2) \<Rightarrow> (Inl err, w2)
          | (Inr with_status, w2) \<Rightarrow> (Inr with_status, w2)))"

definition active_creator :: "('r, 'w) repo \<Rightarrow> (time \<Rightarrow> 'r \<Rightarrow> 'r) \<Rightarrow> ('w \<Rightarrow> time) \<Rightarrow> 'r \<Rightarrow> 'w \<Rightarrow> (go_error + 'r) \<times> 'w" where
  "active_creator repo = active_on_write (rp_create repo) (rp_update_status repo)"

definition active_updater :: "('r, 'w) repo \<Rightarrow> (time \<Rightarrow> 'r \<Rightarrow> 'r) \<Rightarrow> ('w \<Rightarrow> time) \<Rightarrow> 'r \<Rightarrow> 'w \<Rightarrow> (go_error + 'r) \<times> 'w" where
  "active_updater repo = active_on_write (rp_update repo) (rp_update_status repo)"

definition active_status_at :: "time \<Rightarrow> status" where
  "active_status_at now = the (push_condition now (condition_from_state now StateActive) (Some empty_status))"

definition mark_role_active :: "time \<Rightarrow> role \<Rightarrow> role" where
  "mark_role_active now r = r\<lparr>ro_status := Some \<lparr>rost_status = active_status_at now\<rparr>\<rparr>"

definition mark_role_assignment_active :: "time \<Rightarrow> role_assignment \<Rightarrow> role_assignment" where
  "mark_role_assignment_active now ra = ra\<lparr>ra_status := Some \<lparr>rast_status = active_status_at now\<rparr>\<rparr>"

text \<open>The handler of the two also has the clock their condition reads.\<close>

record ('r, 'o, 'w) active_frontend = "('r, 'o, 'w) resource_frontend" +
  af_now :: "'w \<Rightarrow> time"

subsection \<open>\<^verbatim>\<open>role_converter.go\<close> and \<^verbatim>\<open>role_handler.go\<close>\<close>

definition role_spec_to_api :: "permission list \<Rightarrow> role_cr_spec" where
  "role_spec_to_api permissions = \<lparr>rocs_permissions = map copy_permission permissions\<rparr>"

definition role_spec_from_api :: "role_cr_spec \<Rightarrow> permission list" where
  "role_spec_from_api spec = map copy_permission (rocs_permissions spec)"

definition role_status_to_api :: "role_status \<Rightarrow> api_status" where
  "role_status_to_api s = status_to_api (rost_status s)"

definition role_to_api :: "role \<Rightarrow> (role_cr_spec, api_status) api_object" where
  "role_to_api r =
     api_object_of (tenant_api_metadata ''role'' r) r (role_spec_to_api (ro_permissions r)) (map_option role_status_to_api (ro_status r))"

definition role_to_api_with_verb :: "string \<Rightarrow> role \<Rightarrow> (role_cr_spec, api_status) api_object" where
  "role_to_api_with_verb verb r = with_verb verb (role_to_api r)"

definition role_iterator_to_api :: "role list \<Rightarrow> string option \<Rightarrow> (role_cr_spec, api_status) api_object api_iterator" where
  "role_iterator_to_api items skip_token =
    \<lparr>it_items = map (role_to_api_with_verb ''GET'') items, it_provider = ''seca.authorization/v1'', it_resource = ''roles'',
     it_verb = ''GET'', it_skip_token = skip_token\<rparr>"

definition role_from_api :: "(role_cr_spec, api_status) api_object \<Rightarrow> 'i identity_scheme \<Rightarrow> role" where
  "role_from_api sdk ident =
     global_tenant_metadata.extend (request_tenant_metadata ''seca.authorization/v1'' sdk ident)
       (role.fields (role_spec_from_api (ao_spec sdk)) None)"

definition role_list_params_from_api :: "list_query \<Rightarrow> string \<Rightarrow> list_params" where
  "role_list_params_from_api query tenant = scoped_list_params query tenant []"

definition new_role_with_identity :: "'i identity_scheme \<Rightarrow> role" where
  "new_role_with_identity ir =
     global_tenant_metadata.extend (identity_tenant_metadata ir) (role.fields [] None)"

definition list_roles ::
  "(role, (role_cr_spec, api_status) api_object, 'w, 'f) active_frontend_scheme \<Rightarrow> list_query \<Rightarrow> string
   \<Rightarrow> ((role_cr_spec, api_status) api_object api_answer, 'w) handler" where
  "list_roles fe query tenant =
     handle_list (rf_encode fe) (role_list_params_from_api query tenant) (lister_from_repo (rf_repo fe))
       (\<lambda>items token. Page (role_iterator_to_api items token))"

definition get_role ::
  "(role, (role_cr_spec, api_status) api_object, 'w, 'f) active_frontend_scheme \<Rightarrow> string \<Rightarrow> string
   \<Rightarrow> ((role_cr_spec, api_status) api_object api_answer, 'w) handler" where
  "get_role fe tenant name =
     handle_get (rf_encode fe) (request_identity tenant [] name [])
       (getter_from_repo (rf_repo fe) new_role_with_identity)
       (\<lambda>d. Single (role_to_api_with_verb ''GET'' d))"

definition delete_role ::
  "(role, (role_cr_spec, api_status) api_object, 'w, 'f) active_frontend_scheme \<Rightarrow> string \<Rightarrow> string \<Rightarrow> int option
   \<Rightarrow> ((role_cr_spec, api_status) api_object api_answer, 'w) handler" where
  "delete_role fe tenant name unmodified =
     handle_delete (request_identity tenant [] name (version_of_param unmodified))
       (deleter_from_repo (rf_repo fe) new_role_with_identity)"

definition create_or_update_role ::
  "(role, (role_cr_spec, api_status) api_object, 'w, 'f) active_frontend_scheme \<Rightarrow> string \<Rightarrow> string \<Rightarrow> int option
   \<Rightarrow> ((role_cr_spec, api_status) api_object api_answer, 'w) handler" where
  "create_or_update_role fe tenant name unmodified =
     handle_upsert (put_options fe (request_identity tenant [] name (version_of_param unmodified))
       (active_creator (rf_repo fe) mark_role_active (af_now fe)) (active_updater (rf_repo fe) mark_role_active (af_now fe))
       role_from_api (role_to_api_with_verb ''PUT''))"

definition role_resent :: "string \<Rightarrow> role \<Rightarrow> role" where
  "role_resent version r = (resent_metadata ''seca.authorization/v1'' version r)\<lparr>ro_status := None\<rparr>"

lemma role_converts_back:
  "md_workspace r = [] \<Longrightarrow>
   role_from_api (with_verb verb (role_to_api r)) (request_identity (md_tenant r) [] (md_name r) version) =
     role_resent version r"
  by (cases r) (simp add: role_from_api_def role_to_api_def api_object_of_def request_metadata_defs role_resent_def
    resent_metadata_def role.defs role_spec_to_api_def role_spec_from_api_def copy_permission_id)

interpretation role_api: api_resource role_to_api "\<lambda>sdk ident region. role_from_api sdk ident"
    "\<lambda>r. request_identity (md_tenant r) [] (md_name r)" "\<lambda>r. []"
    "\<lambda>r. md_workspace r = []" role_resent "\<lambda>fe. active_creator (rf_repo fe) mark_role_active (af_now fe)" "\<lambda>fe. active_updater (rf_repo fe) mark_role_active (af_now fe)"
    "\<lambda>fe r. create_or_update_role fe (md_tenant r) (md_name r)"
  by unfold_locales
    (rule role_converts_back | assumption | simp add: role_to_api_def api_object_of_def api_metadata_defs request_identity_def
      request_network_identity_def create_or_update_role_def role_to_api_with_verb_def [abs_def])+

subsection \<open>\<^verbatim>\<open>role_assignment_converter.go\<close> and \<^verbatim>\<open>role_assignment_handler.go\<close>\<close>

definition scopes_to_api :: "role_assignment_scope list \<Rightarrow> role_assignment_scope list" where
  "scopes_to_api scopes =
     map (\<lambda>s. \<lparr>ras_tenants = ras_tenants s, ras_regions = ras_regions s, ras_workspaces = ras_workspaces s\<rparr>) scopes"

definition scopes_from_api :: "role_assignment_scope list \<Rightarrow> role_assignment_scope list" where
  "scopes_from_api scopes =
     map (\<lambda>s. \<lparr>ras_tenants = ras_tenants s, ras_regions = ras_regions s, ras_workspaces = ras_workspaces s\<rparr>) scopes"

lemma scopes_api_id [simp]: "scopes_to_api scopes = scopes" "scopes_from_api scopes = scopes"
  unfolding scopes_to_api_def scopes_from_api_def by (induction scopes) simp_all

definition role_assignment_status_to_api :: "role_assignment_status \<Rightarrow> api_status" where
  "role_assignment_status_to_api s = status_to_api (rast_status s)"

definition role_assignment_to_api :: "role_assignment \<Rightarrow> (role_assignment_cr_spec, api_status) api_object" where
  "role_assignment_to_api ra =
     api_object_of (tenant_api_metadata ''role-assignment'' ra) ra (\<lparr>racs_subs = ra_subs ra, racs_scopes = scopes_to_api (ra_scopes ra), racs_roles = ra_roles ra\<rparr>) (map_option role_assignment_status_to_api (ra_status ra))"

definition role_assignment_to_api_with_verb :: "string \<Rightarrow> role_assignment \<Rightarrow> (role_assignment_cr_spec, api_status) api_object" where
  "role_assignment_to_api_with_verb verb ra = with_verb verb (role_assignment_to_api ra)"

definition role_assignment_iterator_to_api :: "role_assignment list \<Rightarrow> string option \<Rightarrow> (role_assignment_cr_spec, api_status) api_object api_iterator" where
  "role_assignment_iterator_to_api items skip_token =
    \<lparr>it_items = map role_assignment_to_api items, it_provider = ''seca.authorization/v1'', it_resource = ''role-assignments'',
     it_verb = ''list'', it_skip_token = skip_token\<rparr>"

definition role_assignment_from_api :: "(role_assignment_cr_spec, api_status) api_object \<Rightarrow> 'i identity_scheme \<Rightarrow> role_assignment" where
  "role_assignment_from_api sdk ident =
     global_tenant_metadata.extend (request_tenant_metadata ''seca.authorization/v1'' sdk ident)
       (role_assignment.fields (racs_subs (ao_spec sdk)) (scopes_from_api (racs_scopes (ao_spec sdk))) (racs_roles (ao_spec sdk)) None)"

definition role_assignment_list_params_from_api :: "list_query \<Rightarrow> string \<Rightarrow> list_params" where
  "role_assignment_list_params_from_api query tenant = scoped_list_params query tenant []"

definition new_role_assignment_with_identity :: "'i identity_scheme \<Rightarrow> role_assignment" where
  "new_role_assignment_with_identity ir =
     global_tenant_metadata.extend (identity_tenant_metadata ir) (role_assignment.fields [] [] [] None)"

definition list_role_assignments ::
  "(role_assignment, (role_assignment_cr_spec, api_status) api_object, 'w, 'f) active_frontend_scheme \<Rightarrow> list_query \<Rightarrow> string
   \<Rightarrow> ((role_assignment_cr_spec, api_status) api_object api_answer, 'w) handler" where
  "list_role_assignments fe query tenant =
     handle_list (rf_encode fe) (role_assignment_list_params_from_api query tenant) (lister_from_repo (rf_repo fe))
       (\<lambda>items token. Page (role_assignment_iterator_to_api items token))"

definition get_role_assignment ::
  "(role_assignment, (role_assignment_cr_spec, api_status) api_object, 'w, 'f) active_frontend_scheme \<Rightarrow> string \<Rightarrow> string
   \<Rightarrow> ((role_assignment_cr_spec, api_status) api_object api_answer, 'w) handler" where
  "get_role_assignment fe tenant name =
     handle_get (rf_encode fe) (request_identity tenant [] name [])
       (getter_from_repo (rf_repo fe) new_role_assignment_with_identity)
       (\<lambda>d. Single (role_assignment_to_api_with_verb ''GET'' d))"

definition delete_role_assignment ::
  "(role_assignment, (role_assignment_cr_spec, api_status) api_object, 'w, 'f) active_frontend_scheme \<Rightarrow> string \<Rightarrow> string \<Rightarrow> int option
   \<Rightarrow> ((role_assignment_cr_spec, api_status) api_object api_answer, 'w) handler" where
  "delete_role_assignment fe tenant name unmodified =
     handle_delete (request_identity tenant [] name (version_of_param unmodified))
       (deleter_from_repo (rf_repo fe) new_role_assignment_with_identity)"

definition create_or_update_role_assignment ::
  "(role_assignment, (role_assignment_cr_spec, api_status) api_object, 'w, 'f) active_frontend_scheme \<Rightarrow> string \<Rightarrow> string \<Rightarrow> int option
   \<Rightarrow> ((role_assignment_cr_spec, api_status) api_object api_answer, 'w) handler" where
  "create_or_update_role_assignment fe tenant name unmodified =
     handle_upsert (put_options fe (request_identity tenant [] name (version_of_param unmodified))
       (active_creator (rf_repo fe) mark_role_assignment_active (af_now fe)) (active_updater (rf_repo fe) mark_role_assignment_active (af_now fe))
       role_assignment_from_api (role_assignment_to_api_with_verb ''PUT''))"

definition role_assignment_resent :: "string \<Rightarrow> role_assignment \<Rightarrow> role_assignment" where
  "role_assignment_resent version ra = (resent_metadata ''seca.authorization/v1'' version ra)\<lparr>ra_status := None\<rparr>"

lemma role_assignment_converts_back:
  "md_workspace ra = [] \<Longrightarrow>
   role_assignment_from_api (with_verb verb (role_assignment_to_api ra)) (request_identity (md_tenant ra) [] (md_name ra) version) =
     role_assignment_resent version ra"
  by (cases ra) (simp add: role_assignment_from_api_def role_assignment_to_api_def api_object_of_def request_metadata_defs role_assignment_resent_def
    resent_metadata_def role_assignment.defs )

interpretation role_assignment_api: api_resource role_assignment_to_api "\<lambda>sdk ident region. role_assignment_from_api sdk ident"
    "\<lambda>ra. request_identity (md_tenant ra) [] (md_name ra)" "\<lambda>ra. []"
    "\<lambda>ra. md_workspace ra = []" role_assignment_resent "\<lambda>fe. active_creator (rf_repo fe) mark_role_assignment_active (af_now fe)" "\<lambda>fe. active_updater (rf_repo fe) mark_role_assignment_active (af_now fe)"
    "\<lambda>fe ra. create_or_update_role_assignment fe (md_tenant ra) (md_name ra)"
  by unfold_locales
    (rule role_assignment_converts_back | assumption | simp add: role_assignment_to_api_def api_object_of_def api_metadata_defs request_identity_def
      request_network_identity_def create_or_update_role_assignment_def role_assignment_to_api_with_verb_def [abs_def])+

subsection \<open>\<^verbatim>\<open>instance_converter.go\<close>\<close>

record instance_api_status = api_status +
  inas_power_state :: power_state
  inas_power_state_since :: "time option"

definition volume_reference_to_api :: "volume_reference \<Rightarrow> volume_reference" where
  "volume_reference_to_api v = \<lparr>vol_device_ref = reference_to_api (vol_device_ref v), vol_type = vol_type v\<rparr>"

definition volume_reference_from_api :: "volume_reference \<Rightarrow> volume_reference" where
  "volume_reference_from_api v = \<lparr>vol_device_ref = reference_from_api (vol_device_ref v), vol_type = vol_type v\<rparr>"

lemma volume_reference_api_id [simp]: "volume_reference_to_api = id" "volume_reference_from_api = id"
  by (simp_all add: volume_reference_to_api_def volume_reference_from_api_def fun_eq_iff)

definition instance_spec_to_api :: "instance_spec \<Rightarrow> instance_spec" where
  "instance_spec_to_api s =
    \<lparr>ins_additional_nic_refs = map reference_to_api (ins_additional_nic_refs s),
     ins_anti_affinity_group = ins_anti_affinity_group s,
     ins_boot_volume = volume_reference_to_api (ins_boot_volume s),
     ins_data_volumes = map volume_reference_to_api (ins_data_volumes s),
     ins_primary_nic_ref = reference_ptr_to_api (ins_primary_nic_ref s),
     ins_security_group_ref = reference_ptr_to_api (ins_security_group_ref s),
     ins_sku_ref = reference_to_api (ins_sku_ref s), ins_ssh_keys = ins_ssh_keys s,
     ins_user_data = ins_user_data s, ins_zone = ins_zone s\<rparr>"

definition instance_spec_from_api :: "instance_spec \<Rightarrow> instance_spec" where
  "instance_spec_from_api s =
    \<lparr>ins_additional_nic_refs = map reference_from_api (ins_additional_nic_refs s),
     ins_anti_affinity_group = ins_anti_affinity_group s,
     ins_boot_volume = volume_reference_from_api (ins_boot_volume s),
     ins_data_volumes = map volume_reference_from_api (ins_data_volumes s),
     ins_primary_nic_ref = map_option reference_from_api (ins_primary_nic_ref s),
     ins_security_group_ref = map_option reference_from_api (ins_security_group_ref s),
     ins_sku_ref = reference_from_api (ins_sku_ref s), ins_ssh_keys = ins_ssh_keys s,
     ins_user_data = ins_user_data s, ins_zone = ins_zone s\<rparr>"

definition instance_status_to_api :: "instance_status \<Rightarrow> instance_api_status" where
  "instance_status_to_api s = api_status.extend (status_to_api (inst_status s))
     (instance_api_status.fields (inst_power_state s) (inst_power_state_since s))"

definition instance_to_api :: "instance_res \<Rightarrow> (instance_spec, instance_api_status) api_object" where
  "instance_to_api inst =
     api_object_of (workspace_api_metadata ''instance'' inst) inst (instance_spec_to_api (in_spec inst)) (map_option instance_status_to_api (in_status inst))"

definition instance_to_api_with_verb :: "string \<Rightarrow> instance_res \<Rightarrow> (instance_spec, instance_api_status) api_object" where
  "instance_to_api_with_verb verb inst = with_verb verb (instance_to_api inst)"

definition instance_iterator_to_api :: "instance_res list \<Rightarrow> string option \<Rightarrow> (instance_spec, instance_api_status) api_object api_iterator" where
  "instance_iterator_to_api items skip_token =
    \<lparr>it_items = map instance_to_api items, it_provider = ''seca.compute/v1'', it_resource = ''instances'',
     it_verb = ''list'', it_skip_token = skip_token\<rparr>"

definition instance_from_api :: "(instance_spec, instance_api_status) api_object \<Rightarrow> 'i identity_scheme \<Rightarrow> string \<Rightarrow> instance_res" where
  "instance_from_api sdk ident region =
     regional_metadata.extend (request_workspace_metadata ''seca.compute/v1'' sdk ident region)
       (instance_res.fields (instance_spec_from_api (ao_spec sdk)) None PowerUnset [] PhaseUnset)"

definition instance_resent :: "string \<Rightarrow> instance_res \<Rightarrow> instance_res" where
  "instance_resent version inst = (resent_metadata ''seca.compute/v1'' version inst)\<lparr>in_status := None,
     in_desired_power_state := PowerUnset, in_restart_id := [], in_restart_phase := PhaseUnset\<rparr>"

lemma instance_converts_back:
  "instance_from_api (with_verb verb (instance_to_api inst)) (request_identity (md_tenant inst) (md_workspace inst) (md_name inst) version) (md_region inst) =
     instance_resent version inst"
  by (cases inst) (simp add: instance_from_api_def instance_to_api_def api_object_of_def request_metadata_defs instance_resent_def
    resent_metadata_def instance_res.defs instance_spec_to_api_def instance_spec_from_api_def option.map_id)

text \<open>The handler of instances with these converters.\<close>

definition instance_list_params_from_api :: "list_query \<Rightarrow> string \<Rightarrow> string \<Rightarrow> list_params" where
  "instance_list_params_from_api query tenant ws = scoped_list_params query tenant ws"

definition compute_handler ::
  "(instance_res, 'w) repo \<Rightarrow> (string \<Rightarrow> go_error + (instance_spec, instance_api_status) api_object)
   \<Rightarrow> ((instance_spec, instance_api_status) api_object api_answer \<Rightarrow> go_error option)
   \<Rightarrow> ('w \<Rightarrow> (go_error + nat list) \<times> 'w) \<Rightarrow> string
   \<Rightarrow> ((instance_spec, instance_api_status) api_object, (instance_spec, instance_api_status) api_object api_answer, 'w)
        instance_frontend" where
  "compute_handler repo decode encode rand region =
    \<lparr>if_repo = repo, if_from_api = instance_from_api,
     if_to_api = (\<lambda>verb inst. Single (instance_to_api_with_verb verb inst)),
     if_list_to_api = (\<lambda>items token. Page (instance_iterator_to_api items token)),
     if_decode = decode, if_encode = encode, if_rand = rand, if_region = region\<rparr>"

subsection \<open>Writes of roles take effect at once\<close>

text \<open>
  A write that succeeds was a write of the spec followed by a write of the active status on what the
  first one saved; one that fails has at most written the spec.
\<close>

lemma active_on_write_cases:
  assumes "active_on_write persist update_status mark_active now m w = (x, w')"
  obtains (not_persisted) err where "persist m w = (Inl err, w')" and "x = Inl err"
  | (not_active) saved w1 err where "persist m w = (Inr saved, w1)"
      and "update_status (mark_active (now w1) saved) w1 = (Inl err, w')" and "x = Inl err"
  | (active) saved w1 final where "persist m w = (Inr saved, w1)"
      and "update_status (mark_active (now w1) saved) w1 = (Inr final, w')" and "x = Inr final"
  using assms by (auto simp: active_on_write_def split: prod.splits sum.splits)

lemma active_status_at_state [simp]:
  "st_state (active_status_at now) = StateActive" "length (st_conditions (active_status_at now)) = 1"
  by (simp_all add: active_status_at_def push_condition_def condition_from_state_def empty_status_def
      peek_conditions_def Let_def)

end
