(* ===== verification/Api_Properties.thy ===== *)
theory Api_Properties
  imports Resource_Api Stored_Resources
begin

section \<open>From a GET to a PUT\<close>

text \<open>
  The API converters meet those of the store: what a client read, changed nothing of and put back
  under the version it read is one update with the custom resource the read resource converts to, without
  a status. What no converter carries is not sent: the update has no finalizers, whatever the stored object has.
\<close>

lemmas rewrite_defs = resent_metadata_def optional_status_to_cr_def new_object_def tenant_labels_def
  tenant_regional_labels_def workspace_labels_def network_labels_def own_scope_def own_network_scope_def

text \<open>
  \<open>r\<close> is what was read and \<open>text\<close> the body that decodes to its API form; the endpoint comes to an
  update with some \<open>m\<close>, whose custom resource is that of \<open>r\<close> without its status, and has no finalizers.
\<close>

definition put_rewrites ::
  "('m common_metadata_scheme option \<Rightarrow> go_error + ('cs, 'ct) custom_resource) \<Rightarrow> string
   \<Rightarrow> ('m common_metadata_scheme \<Rightarrow> bool) \<Rightarrow> ('m common_metadata_scheme \<Rightarrow> ('s, 't) api_object)
   \<Rightarrow> ('m common_metadata_scheme \<Rightarrow> string)
   \<Rightarrow> (('m common_metadata_scheme, ('s, 't) api_object, 'w, 'f) resource_frontend_scheme
        \<Rightarrow> 'm common_metadata_scheme \<Rightarrow> 'w \<Rightarrow> (go_error + 'm common_metadata_scheme) \<times> 'w)
   \<Rightarrow> (('m common_metadata_scheme, ('s, 't) api_object, 'w, 'f) resource_frontend_scheme
        \<Rightarrow> 'm common_metadata_scheme \<Rightarrow> int option \<Rightarrow> (('s, 't) api_object api_answer, 'w) handler) \<Rightarrow> bool" where
  "put_rewrites to_cr provider sendable to_api region updater put \<longleftrightarrow>
    (\<forall>fe r cr n req text verb w.
       sendable r \<and> md_provider r = provider \<and> to_cr (Some r) = Inr cr \<and>
       md_version r = itoa n \<and> in_int64 n \<and> rf_region fe = region r \<and>
       read_all req = Inr text \<and> rf_decode fe text = Inr (with_verb verb (to_api r)) \<longrightarrow>
       cr_finalizers cr = [] \<and>
       (\<exists>m. to_cr (Some m) = Inr (cr\<lparr>cr_status := None\<rparr>) \<and>
          put fe r (Some (am_version (ao_metadata (to_api r)))) req w =
            (case updater fe m w of
               (Inl err, w') \<Rightarrow> (write_error_response req err, w')
             | (Inr saved, w') \<Rightarrow>
                 (write_encoded (rf_encode fe) req (Single (with_verb ''PUT'' (to_api saved))), w'))))"

locale rewritten_resource = api_resource +
  fixes to_cr :: "_ \<Rightarrow> go_error + ('cs, 'ct) custom_resource" and provider
  assumes rewritten: "md_provider r = provider \<Longrightarrow> to_cr (Some r) = Inr cr \<Longrightarrow>
    to_cr (Some (resent (md_version r) r)) = Inr (cr\<lparr>cr_status := None\<rparr>)"
    and unfinalized: "to_cr (Some r) = Inr cr \<Longrightarrow> cr_finalizers cr = []"
begin

lemma put_back_rewrites: "put_rewrites to_cr provider sendable to_api region updater put"
  unfolding put_rewrites_def using rewritten unfinalized put_back_updates by blast

end

subsection \<open>The resources\<close>

text \<open>No converter writes finalizers.\<close>

lemma unfinalized_objects:
  "network_to_cr sha3 (Some r0) = Inr cr1 \<Longrightarrow> cr_finalizers cr1 = []"
  "internet_gateway_to_cr sha3 (Some r1) = Inr cr2 \<Longrightarrow> cr_finalizers cr2 = []"
  "nic_to_cr sha3 (Some r2) = Inr cr3 \<Longrightarrow> cr_finalizers cr3 = []"
  "public_ip_to_cr sha3 (Some r3) = Inr cr4 \<Longrightarrow> cr_finalizers cr4 = []"
  "route_table_to_cr sha3 (Some r4) = Inr cr5 \<Longrightarrow> cr_finalizers cr5 = []"
  "subnet_to_cr sha3 (Some r5) = Inr cr6 \<Longrightarrow> cr_finalizers cr6 = []"
  "security_group_rule_to_cr sha3 (Some r6) = Inr cr7 \<Longrightarrow> cr_finalizers cr7 = []"
  "security_group_to_cr sha3 (Some r7) = Inr cr8 \<Longrightarrow> cr_finalizers cr8 = []"
  "block_storage_to_cr sha3 (Some r8) = Inr cr9 \<Longrightarrow> cr_finalizers cr9 = []"
  "image_to_cr sha3 (Some r9) = Inr cr10 \<Longrightarrow> cr_finalizers cr10 = []"
  "workspace_to_cr codec sha3 (Some r10) = Inr cr11 \<Longrightarrow> cr_finalizers cr11 = []"
  "role_to_cr sha3 (Some r11) = Inr cr12 \<Longrightarrow> cr_finalizers cr12 = []"
  "role_assignment_to_cr sha3 (Some r12) = Inr cr13 \<Longrightarrow> cr_finalizers cr13 = []"
  by (auto simp: network_to_cr_def internet_gateway_to_cr_def nic_to_cr_def public_ip_to_cr_def route_table_to_cr_def subnet_to_cr_def security_group_rule_to_cr_def security_group_to_cr_def block_storage_to_cr_def image_to_cr_def workspace_to_cr_def role_to_cr_def role_assignment_to_cr_def new_object_def Let_def
      split: sum.splits)

lemma network_rewrites:
  "md_provider n = ''seca.network/v1'' \<Longrightarrow> network_to_cr sha3 (Some n) = Inr cr \<Longrightarrow>
   network_to_cr sha3 (Some (network_resent (md_version n) n)) = Inr (cr\<lparr>cr_status := None\<rparr>)"
  by (cases n) (auto simp: network_to_cr_def network_resent_def rewrite_defs Let_def split: sum.splits)

interpretation network_rewritten: rewritten_resource network_to_api "network_from_api"
    "\<lambda>n. request_identity (md_tenant n) (md_workspace n) (md_name n)" "md_region"
    "\<lambda>n. True" network_resent "\<lambda>fe. creator_from_repo (rf_repo fe)" "\<lambda>fe. updater_from_repo (rf_repo fe)"
    "\<lambda>fe n. create_or_update_network fe (md_tenant n) (md_workspace n) (md_name n)"
    "network_to_cr sha3" "''seca.network/v1''" for sha3
  by unfold_locales (erule (1) network_rewrites, erule unfinalized_objects)

lemma internet_gateway_rewrites:
  "md_provider ig = ''seca.network/v1'' \<Longrightarrow> internet_gateway_to_cr sha3 (Some ig) = Inr cr \<Longrightarrow>
   internet_gateway_to_cr sha3 (Some (internet_gateway_resent (md_version ig) ig)) = Inr (cr\<lparr>cr_status := None\<rparr>)"
  by (cases ig) (auto simp: internet_gateway_to_cr_def internet_gateway_resent_def rewrite_defs Let_def split: sum.splits)

interpretation internet_gateway_rewritten: rewritten_resource internet_gateway_to_api "internet_gateway_from_api"
    "\<lambda>ig. request_identity (md_tenant ig) (md_workspace ig) (md_name ig)" "md_region"
    "\<lambda>ig. True" internet_gateway_resent "\<lambda>fe. creator_from_repo (rf_repo fe)" "\<lambda>fe. updater_from_repo (rf_repo fe)"
    "\<lambda>fe ig. create_or_update_internet_gateway fe (md_tenant ig) (md_workspace ig) (md_name ig)"
    "internet_gateway_to_cr sha3" "''seca.network/v1''" for sha3
  by unfold_locales (erule (1) internet_gateway_rewrites, erule unfinalized_objects)

lemma nic_rewrites:
  "md_provider n = ''seca.network/v1'' \<Longrightarrow> nic_to_cr sha3 (Some n) = Inr cr \<Longrightarrow>
   nic_to_cr sha3 (Some (nic_resent (md_version n) n)) = Inr (cr\<lparr>cr_status := None\<rparr>)"
  by (cases n) (auto simp: nic_to_cr_def nic_resent_def rewrite_defs Let_def split: sum.splits)

interpretation nic_rewritten: rewritten_resource nic_to_api "nic_from_api"
    "\<lambda>n. request_identity (md_tenant n) (md_workspace n) (md_name n)" "md_region"
    "\<lambda>n. True" nic_resent "\<lambda>fe. creator_from_repo (rf_repo fe)" "\<lambda>fe. updater_from_repo (rf_repo fe)"
    "\<lambda>fe n. create_or_update_nic fe (md_tenant n) (md_workspace n) (md_name n)"
    "nic_to_cr sha3" "''seca.network/v1''" for sha3
  by unfold_locales (erule (1) nic_rewrites, erule unfinalized_objects)

lemma public_ip_rewrites:
  "md_provider p = ''seca.network/v1'' \<Longrightarrow> public_ip_to_cr sha3 (Some p) = Inr cr \<Longrightarrow>
   public_ip_to_cr sha3 (Some (public_ip_resent (md_version p) p)) = Inr (cr\<lparr>cr_status := None\<rparr>)"
  by (cases p) (auto simp: public_ip_to_cr_def public_ip_resent_def rewrite_defs Let_def split: sum.splits)

interpretation public_ip_rewritten: rewritten_resource public_ip_to_api "public_ip_from_api"
    "\<lambda>p. request_identity (md_tenant p) (md_workspace p) (md_name p)" "md_region"
    "\<lambda>p. known_ip_version (pi_ip_version p)" public_ip_resent "\<lambda>fe. creator_from_repo (rf_repo fe)" "\<lambda>fe. updater_from_repo (rf_repo fe)"
    "\<lambda>fe p. create_or_update_public_ip fe (md_tenant p) (md_workspace p) (md_name p)"
    "public_ip_to_cr sha3" "''seca.network/v1''" for sha3
  by unfold_locales (erule (1) public_ip_rewrites, erule unfinalized_objects)

lemma route_table_rewrites:
  "md_provider rt = ''seca.network/v1'' \<Longrightarrow> route_table_to_cr sha3 (Some rt) = Inr cr \<Longrightarrow>
   route_table_to_cr sha3 (Some (route_table_resent (md_version rt) rt)) = Inr (cr\<lparr>cr_status := None\<rparr>)"
  by (cases rt) (auto simp: route_table_to_cr_def route_table_resent_def rewrite_defs Let_def split: sum.splits)

interpretation route_table_rewritten: rewritten_resource route_table_to_api "route_table_from_api"
    "\<lambda>rt. request_network_identity (md_tenant rt) (md_workspace rt) (md_network rt) (md_name rt)" "md_region"
    "\<lambda>rt. True" route_table_resent "\<lambda>fe. creator_from_repo (rf_repo fe)" "\<lambda>fe. updater_from_repo (rf_repo fe)"
    "\<lambda>fe rt. create_or_update_route_table fe (md_tenant rt) (md_workspace rt) (md_network rt) (md_name rt)"
    "route_table_to_cr sha3" "''seca.network/v1''" for sha3
  by unfold_locales (erule (1) route_table_rewrites, erule unfinalized_objects)

lemma subnet_rewrites:
  "md_provider s = ''seca.network/v1'' \<Longrightarrow> subnet_to_cr sha3 (Some s) = Inr cr \<Longrightarrow>
   subnet_to_cr sha3 (Some (subnet_resent (md_version s) s)) = Inr (cr\<lparr>cr_status := None\<rparr>)"
  by (cases s) (auto simp: subnet_to_cr_def subnet_resent_def rewrite_defs Let_def split: sum.splits)

interpretation subnet_rewritten: rewritten_resource subnet_to_api "subnet_from_api"
    "\<lambda>s. request_network_identity (md_tenant s) (md_workspace s) (md_network s) (md_name s)" "md_region"
    "\<lambda>s. True" subnet_resent "\<lambda>fe. creator_from_repo (rf_repo fe)" "\<lambda>fe. updater_from_repo (rf_repo fe)"
    "\<lambda>fe s. create_or_update_subnet fe (md_tenant s) (md_workspace s) (md_network s) (md_name s)"
    "subnet_to_cr sha3" "''seca.network/v1''" for sha3
  by unfold_locales (erule (1) subnet_rewrites, erule unfinalized_objects)

lemma security_group_rule_rewrites:
  "md_provider sgr = ''seca.network/v1'' \<Longrightarrow> security_group_rule_to_cr sha3 (Some sgr) = Inr cr \<Longrightarrow>
   security_group_rule_to_cr sha3 (Some (security_group_rule_resent (md_version sgr) sgr)) = Inr (cr\<lparr>cr_status := None\<rparr>)"
  by (cases sgr) (auto simp: security_group_rule_to_cr_def security_group_rule_resent_def rewrite_defs Let_def split: sum.splits)

interpretation security_group_rule_rewritten: rewritten_resource security_group_rule_to_api "security_group_rule_from_api"
    "\<lambda>sgr. request_identity (md_tenant sgr) (md_workspace sgr) (md_name sgr)" "md_region"
    "\<lambda>sgr. known_ip_version (sgrs_version (sgr_spec sgr))" security_group_rule_resent "\<lambda>fe. creator_from_repo (rf_repo fe)" "\<lambda>fe. updater_from_repo (rf_repo fe)"
    "\<lambda>fe sgr. create_or_update_security_group_rule fe (md_tenant sgr) (md_workspace sgr) (md_name sgr)"
    "security_group_rule_to_cr sha3" "''seca.network/v1''" for sha3
  by unfold_locales (erule (1) security_group_rule_rewrites, erule unfinalized_objects)

lemma security_group_rewrites:
  "md_provider sg = ''seca.network/v1'' \<Longrightarrow> security_group_to_cr sha3 (Some sg) = Inr cr \<Longrightarrow>
   security_group_to_cr sha3 (Some (security_group_resent (md_version sg) sg)) = Inr (cr\<lparr>cr_status := None\<rparr>)"
  by (cases sg) (auto simp: security_group_to_cr_def security_group_resent_def rewrite_defs Let_def split: sum.splits)

interpretation security_group_rewritten: rewritten_resource security_group_to_api "security_group_from_api"
    "\<lambda>sg. request_identity (md_tenant sg) (md_workspace sg) (md_name sg)" "md_region"
    "\<lambda>sg. list_all (\<lambda>s. known_ip_version (sgrs_version s)) (sg_rules sg)" security_group_resent "\<lambda>fe. creator_from_repo (rf_repo fe)" "\<lambda>fe. updater_from_repo (rf_repo fe)"
    "\<lambda>fe sg. create_or_update_security_group fe (md_tenant sg) (md_workspace sg) (md_name sg)"
    "security_group_to_cr sha3" "''seca.network/v1''" for sha3
  by unfold_locales (erule (1) security_group_rewrites, erule unfinalized_objects)

lemma block_storage_rewrites:
  "md_provider bs = ''seca.storage/v1'' \<Longrightarrow> block_storage_to_cr sha3 (Some bs) = Inr cr \<Longrightarrow>
   block_storage_to_cr sha3 (Some (block_storage_resent (md_version bs) bs)) = Inr (cr\<lparr>cr_status := None\<rparr>)"
  by (cases bs) (auto simp: block_storage_to_cr_def block_storage_resent_def rewrite_defs Let_def split: sum.splits)

interpretation block_storage_rewritten: rewritten_resource block_storage_to_api "block_storage_from_api"
    "\<lambda>bs. request_identity (md_tenant bs) (md_workspace bs) (md_name bs)" "md_region"
    "\<lambda>bs. True" block_storage_resent "\<lambda>fe. creator_from_repo (rf_repo fe)" "\<lambda>fe. updater_from_repo (rf_repo fe)"
    "\<lambda>fe bs. create_or_update_block_storage fe (md_tenant bs) (md_workspace bs) (md_name bs)"
    "block_storage_to_cr sha3" "''seca.storage/v1''" for sha3
  by unfold_locales (erule (1) block_storage_rewrites, erule unfinalized_objects)

lemma image_rewrites:
  "md_provider img = ''seca.storage/v1'' \<Longrightarrow> image_to_cr sha3 (Some img) = Inr cr \<Longrightarrow>
   image_to_cr sha3 (Some (image_resent (md_version img) img)) = Inr (cr\<lparr>cr_status := None\<rparr>)"
  by (cases img) (auto simp: image_to_cr_def image_resent_def rewrite_defs Let_def split: sum.splits)

interpretation image_rewritten: rewritten_resource image_to_api "image_from_api"
    "\<lambda>img. request_identity (md_tenant img) [] (md_name img)" "md_region"
    "\<lambda>img. md_workspace img = []" image_resent "\<lambda>fe. creator_from_repo (rf_repo fe)" "\<lambda>fe. updater_from_repo (rf_repo fe)"
    "\<lambda>fe img. create_or_update_image fe (md_tenant img) (md_name img)"
    "image_to_cr sha3" "''seca.storage/v1''" for sha3
  by unfold_locales (erule (1) image_rewrites, erule unfinalized_objects)

lemma workspace_rewrites:
  "md_provider ws = ''seca.workspace/v1'' \<Longrightarrow> workspace_to_cr codec sha3 (Some ws) = Inr cr \<Longrightarrow>
   workspace_to_cr codec sha3 (Some (workspace_resent (md_version ws) ws)) = Inr (cr\<lparr>cr_status := None\<rparr>)"
  by (cases ws) (auto simp: workspace_to_cr_def workspace_resent_def rewrite_defs Let_def split: sum.splits)

interpretation workspace_rewritten: rewritten_resource workspace_to_api "workspace_from_api"
    "\<lambda>ws. request_identity (md_tenant ws) [] (md_name ws)" "md_region"
    "\<lambda>ws. md_workspace ws = []" workspace_resent "\<lambda>fe. creator_from_repo (rf_repo fe)" "\<lambda>fe. updater_from_repo (rf_repo fe)"
    "\<lambda>fe ws. create_or_update_workspace fe (md_tenant ws) (md_name ws)"
    "workspace_to_cr codec sha3" "''seca.workspace/v1''" for codec sha3
  by unfold_locales (erule (1) workspace_rewrites, erule unfinalized_objects)

lemma role_rewrites:
  "md_provider r = ''seca.authorization/v1'' \<Longrightarrow> role_to_cr sha3 (Some r) = Inr cr \<Longrightarrow>
   role_to_cr sha3 (Some (role_resent (md_version r) r)) = Inr (cr\<lparr>cr_status := None\<rparr>)"
  by (cases r) (auto simp: role_to_cr_def role_resent_def rewrite_defs Let_def split: sum.splits)

interpretation role_rewritten: rewritten_resource role_to_api "\<lambda>sdk ident region. role_from_api sdk ident"
    "\<lambda>r. request_identity (md_tenant r) [] (md_name r)" "\<lambda>r. []"
    "\<lambda>r. md_workspace r = []" role_resent "\<lambda>fe. active_creator (rf_repo fe) mark_role_active (af_now fe)" "\<lambda>fe. active_updater (rf_repo fe) mark_role_active (af_now fe)"
    "\<lambda>fe r. create_or_update_role fe (md_tenant r) (md_name r)"
    "role_to_cr sha3" "''seca.authorization/v1''" for sha3
  by unfold_locales (erule (1) role_rewrites, erule unfinalized_objects)

lemma role_assignment_rewrites:
  "md_provider ra = ''seca.authorization/v1'' \<Longrightarrow> role_assignment_to_cr sha3 (Some ra) = Inr cr \<Longrightarrow>
   role_assignment_to_cr sha3 (Some (role_assignment_resent (md_version ra) ra)) = Inr (cr\<lparr>cr_status := None\<rparr>)"
  by (cases ra) (auto simp: role_assignment_to_cr_def role_assignment_resent_def rewrite_defs Let_def split: sum.splits)

interpretation role_assignment_rewritten: rewritten_resource role_assignment_to_api "\<lambda>sdk ident region. role_assignment_from_api sdk ident"
    "\<lambda>ra. request_identity (md_tenant ra) [] (md_name ra)" "\<lambda>ra. []"
    "\<lambda>ra. md_workspace ra = []" role_assignment_resent "\<lambda>fe. active_creator (rf_repo fe) mark_role_assignment_active (af_now fe)" "\<lambda>fe. active_updater (rf_repo fe) mark_role_assignment_active (af_now fe)"
    "\<lambda>fe ra. create_or_update_role_assignment fe (md_tenant ra) (md_name ra)"
    "role_assignment_to_cr sha3" "''seca.authorization/v1''" for sha3
  by unfold_locales (erule (1) role_assignment_rewrites, erule unfinalized_objects)

subsection \<open>Putting back what was read\<close>

text \<open>
  C40. Put back what was read. For each resource with the generic endpoints: the API form of a
  resource of this provider and region, sent back to the resource's address with If-Unmodified-Since
  set to the version it states, is answered with the outcome of one update, and the custom resource
  of that update is the one the resource converts to, status aside: no label, annotation, extension
  or part of the spec that the resource has is lost on the way to the API and back. It never has finalizers,
  so those of the stored object, which no resource carries, are not sent back.
\<close>

theorem unmodified_put_rewrites_the_object:
  "put_rewrites (network_to_cr sha3) ''seca.network/v1'' (\<lambda>n. True) network_to_api (md_region)
      (\<lambda>fe. updater_from_repo (rf_repo fe)) (\<lambda>fe n. create_or_update_network fe (md_tenant n) (md_workspace n) (md_name n)) \<and>
    put_rewrites (internet_gateway_to_cr sha3) ''seca.network/v1'' (\<lambda>ig. True) internet_gateway_to_api (md_region)
      (\<lambda>fe. updater_from_repo (rf_repo fe)) (\<lambda>fe ig. create_or_update_internet_gateway fe (md_tenant ig) (md_workspace ig) (md_name ig)) \<and>
    put_rewrites (nic_to_cr sha3) ''seca.network/v1'' (\<lambda>n. True) nic_to_api (md_region)
      (\<lambda>fe. updater_from_repo (rf_repo fe)) (\<lambda>fe n. create_or_update_nic fe (md_tenant n) (md_workspace n) (md_name n)) \<and>
    put_rewrites (public_ip_to_cr sha3) ''seca.network/v1'' (\<lambda>p. known_ip_version (pi_ip_version p)) public_ip_to_api (md_region)
      (\<lambda>fe. updater_from_repo (rf_repo fe)) (\<lambda>fe p. create_or_update_public_ip fe (md_tenant p) (md_workspace p) (md_name p)) \<and>
    put_rewrites (route_table_to_cr sha3) ''seca.network/v1'' (\<lambda>rt. True) route_table_to_api (md_region)
      (\<lambda>fe. updater_from_repo (rf_repo fe)) (\<lambda>fe rt. create_or_update_route_table fe (md_tenant rt) (md_workspace rt) (md_network rt) (md_name rt)) \<and>
    put_rewrites (subnet_to_cr sha3) ''seca.network/v1'' (\<lambda>s. True) subnet_to_api (md_region)
      (\<lambda>fe. updater_from_repo (rf_repo fe)) (\<lambda>fe s. create_or_update_subnet fe (md_tenant s) (md_workspace s) (md_network s) (md_name s)) \<and>
    put_rewrites (security_group_rule_to_cr sha3) ''seca.network/v1'' (\<lambda>sgr. known_ip_version (sgrs_version (sgr_spec sgr))) security_group_rule_to_api (md_region)
      (\<lambda>fe. updater_from_repo (rf_repo fe)) (\<lambda>fe sgr. create_or_update_security_group_rule fe (md_tenant sgr) (md_workspace sgr) (md_name sgr)) \<and>
    put_rewrites (security_group_to_cr sha3) ''seca.network/v1'' (\<lambda>sg. list_all (\<lambda>s. known_ip_version (sgrs_version s)) (sg_rules sg)) security_group_to_api (md_region)
      (\<lambda>fe. updater_from_repo (rf_repo fe)) (\<lambda>fe sg. create_or_update_security_group fe (md_tenant sg) (md_workspace sg) (md_name sg)) \<and>
    put_rewrites (block_storage_to_cr sha3) ''seca.storage/v1'' (\<lambda>bs. True) block_storage_to_api (md_region)
      (\<lambda>fe. updater_from_repo (rf_repo fe)) (\<lambda>fe bs. create_or_update_block_storage fe (md_tenant bs) (md_workspace bs) (md_name bs)) \<and>
    put_rewrites (image_to_cr sha3) ''seca.storage/v1'' (\<lambda>img. md_workspace img = []) image_to_api (md_region)
      (\<lambda>fe. updater_from_repo (rf_repo fe)) (\<lambda>fe img. create_or_update_image fe (md_tenant img) (md_name img)) \<and>
    put_rewrites (workspace_to_cr codec sha3) ''seca.workspace/v1'' (\<lambda>ws. md_workspace ws = []) workspace_to_api (md_region)
      (\<lambda>fe. updater_from_repo (rf_repo fe)) (\<lambda>fe ws. create_or_update_workspace fe (md_tenant ws) (md_name ws)) \<and>
    put_rewrites (role_to_cr sha3) ''seca.authorization/v1'' (\<lambda>r. md_workspace r = []) role_to_api (\<lambda>r. [])
      (\<lambda>fe. active_updater (rf_repo fe) mark_role_active (af_now fe)) (\<lambda>fe r. create_or_update_role fe (md_tenant r) (md_name r)) \<and>
    put_rewrites (role_assignment_to_cr sha3) ''seca.authorization/v1'' (\<lambda>ra. md_workspace ra = []) role_assignment_to_api (\<lambda>ra. [])
      (\<lambda>fe. active_updater (rf_repo fe) mark_role_assignment_active (af_now fe)) (\<lambda>fe ra. create_or_update_role_assignment fe (md_tenant ra) (md_name ra))"
  by (intro conjI 
      network_rewritten.put_back_rewrites 
      internet_gateway_rewritten.put_back_rewrites 
      nic_rewritten.put_back_rewrites 
      public_ip_rewritten.put_back_rewrites 
      route_table_rewritten.put_back_rewrites 
      subnet_rewritten.put_back_rewrites 
      security_group_rule_rewritten.put_back_rewrites 
      security_group_rewritten.put_back_rewrites 
      block_storage_rewritten.put_back_rewrites 
      image_rewritten.put_back_rewrites 
      workspace_rewritten.put_back_rewrites 
      role_rewritten.put_back_rewrites 
      role_assignment_rewritten.put_back_rewrites)

definition plain_frontend :: "(network, (network_spec, api_status) api_object, nat) resource_frontend" where
  "plain_frontend = \<lparr>
     rf_repo = \<lparr>rp_create = (\<lambda>m w. (Inl err_already_exists, w)), rp_update = (\<lambda>m w. (Inr m, w + 1)),
       rp_update_status = (\<lambda>m w. (Inr m, w)), rp_delete = (\<lambda>m w. (None, w)), rp_load = (\<lambda>m w. (Inr m, w)),
       rp_list = (\<lambda>params w. (Inr ([], None), w))\<rparr>,
     rf_decode = (\<lambda>text. Inr (with_verb ''GET'' (network_to_api demo_network))), rf_encode = (\<lambda>x. None),
     rf_region = ''eu''\<rparr>"

definition empty_request :: http_request where
  "empty_request = \<lparr>rq_pattern = [], rq_url_path = [], rq_path_value = (\<lambda>s. []), rq_header = (\<lambda>s. []),
     rq_body = [], rq_body_error = None, rq_identity = None\<rparr>"

lemma unmodified_put_rewrites_the_object_witness:
  "\<exists>m cr. network_to_cr (\<lambda>s. s) (Some demo_network) = Inr cr \<and>
     network_to_cr (\<lambda>s. s) (Some m) = Inr (cr\<lparr>cr_status := None\<rparr>) \<and>
     create_or_update_network plain_frontend ''t'' ''w'' ''n'' (Some 3) empty_request 0 =
       (write_encoded (\<lambda>x. None) empty_request (Single (with_verb ''PUT'' (network_to_api m))), 1)"
proof -
  obtain cr where cr: "network_to_cr (\<lambda>s. s) (Some demo_network) = Inr cr"
    using network_comes_back [OF demo_storable(1)] by (auto simp: survives_def)
  have v: "md_version demo_network = itoa 3" "am_version (ao_metadata (network_to_api demo_network)) = 3"
    by (code_simp, code_simp)
  have int: "in_int64 3" by code_simp
  have body: "read_all empty_request = Inr []" by (simp add: read_all_def empty_request_def)
  have "\<exists>m. network_to_cr (\<lambda>s. s) (Some m) = Inr (cr\<lparr>cr_status := None\<rparr>) \<and>
      create_or_update_network plain_frontend ''t'' ''w'' ''n'' (Some 3) empty_request 0 =
        (case updater_from_repo (rf_repo plain_frontend) m 0 of
           (Inl err, w') \<Rightarrow> (write_error_response empty_request err, w')
         | (Inr saved, w') \<Rightarrow> (write_encoded (rf_encode plain_frontend) empty_request
             (Single (with_verb ''PUT'' (network_to_api saved))), w'))"
    using unmodified_put_rewrites_the_object [where ?sha3.0 = "\<lambda>s. s", THEN conjunct1, unfolded put_rewrites_def,
        rule_format, of demo_network cr 3 plain_frontend empty_request "[]" "''GET''" 0] cr v int body
    by (simp add: demo_network_def plain_frontend_def)
  with cr show ?thesis by (auto simp: updater_from_repo_def plain_frontend_def)
qed

end
