(* ===== verification/Catalog_Api.thy ===== *)
theory Catalog_Api
  imports Catalog_Conversion Api_Conversion
begin

section \<open>The endpoints of regions and SKUs\<close>

text \<open>
  Models \<^verbatim>\<open>resource/region/v1/frontend/rest\<close> and the SKU endpoints of compute, network and storage: the
  read-only resources of the API. The network SKUs are the only ones whose GET leaves the verb empty.
\<close>

subsection \<open>SKUs\<close>

definition sku_api_metadata :: "string \<Rightarrow> 'm regional_metadata_scheme \<Rightarrow> api_metadata" where
  "sku_api_metadata kind sku =
    \<lparr>am_api_version = ''v1'', am_created = 0, am_modified = 0, am_deleted = None, am_kind = kind,
     am_name = md_name sku, am_tenant = md_tenant sku, am_workspace = [], am_network = [],
     am_provider = md_provider sku, am_region = md_region sku,
     am_resource = format_regional_resource kind (md_name sku),
     am_ref = format_regional_tenant_scoped_ref (md_provider sku) (md_tenant sku) kind (md_name sku),
     am_version = 0, am_verb = []\<rparr>"

definition sku_object :: "string \<Rightarrow> 'm regional_metadata_scheme \<Rightarrow> 's \<Rightarrow> ('s, unit) api_object" where
  "sku_object kind sku spec =
    \<lparr>ao_metadata = sku_api_metadata kind sku, ao_labels = [], ao_annotations = [], ao_extensions = [],
     ao_spec = spec, ao_status = None\<rparr>"

definition identity_sku_metadata :: "'i identity_scheme \<Rightarrow> regional_metadata" where
  "identity_sku_metadata ir = (identity_tenant_regional_metadata ir)\<lparr>md_version := []\<rparr>"

subsection \<open>Instance SKUs\<close>

definition instance_sku_to_api :: "instance_sku \<Rightarrow> (instance_sku_spec, unit) api_object" where
  "instance_sku_to_api s =
     sku_object ''instance-sku'' s \<lparr>isks_vcpu = isks_vcpu (isk_spec s), isks_ram = isks_ram (isk_spec s)\<rparr>"

definition instance_sku_to_api_with_verb :: "string \<Rightarrow> instance_sku \<Rightarrow> (instance_sku_spec, unit) api_object" where
  "instance_sku_to_api_with_verb verb s = with_verb verb (instance_sku_to_api s)"

definition instance_sku_iterator_to_api :: "instance_sku list \<Rightarrow> string option \<Rightarrow> (instance_sku_spec, unit) api_object api_iterator" where
  "instance_sku_iterator_to_api items skip_token =
    \<lparr>it_items = map instance_sku_to_api items, it_provider = ''seca.compute/v1'', it_resource = ''skus'', it_verb = ''list'',
     it_skip_token = skip_token\<rparr>"

definition instance_sku_list_params_from_api :: "list_query \<Rightarrow> string \<Rightarrow> list_params" where
  "instance_sku_list_params_from_api query tenant = scoped_list_params query tenant []"

definition new_instance_sku_with_identity :: "'i identity_scheme \<Rightarrow> instance_sku" where
  "new_instance_sku_with_identity ir =
     regional_metadata.extend (identity_sku_metadata ir) (instance_sku.fields \<lparr>isks_vcpu = 0, isks_ram = 0\<rparr>)"

definition list_instance_skus ::
  "(instance_sku, (instance_sku_spec, unit) api_object, 'w, 'f) resource_frontend_scheme \<Rightarrow> list_query \<Rightarrow> string
   \<Rightarrow> ((instance_sku_spec, unit) api_object api_answer, 'w) handler" where
  "list_instance_skus fe query tenant =
     handle_list (rf_encode fe) (instance_sku_list_params_from_api query tenant) (lister_from_repo (rf_repo fe))
       (\<lambda>items token. Page (instance_sku_iterator_to_api items token))"

definition get_instance_sku ::
  "(instance_sku, (instance_sku_spec, unit) api_object, 'w, 'f) resource_frontend_scheme \<Rightarrow> string \<Rightarrow> string
   \<Rightarrow> ((instance_sku_spec, unit) api_object api_answer, 'w) handler" where
  "get_instance_sku fe tenant name =
     handle_get (rf_encode fe) (request_identity tenant [] name [])
       (getter_from_repo (rf_repo fe) new_instance_sku_with_identity) (\<lambda>d. Single (instance_sku_to_api_with_verb ''GET'' d))"

subsection \<open>Network SKUs\<close>

definition network_sku_to_api :: "network_sku \<Rightarrow> (network_sku_spec, unit) api_object" where
  "network_sku_to_api s =
     sku_object ''network-sku'' s \<lparr>nsks_bandwidth = nsks_bandwidth (nsk_spec s), nsks_packets = nsks_packets (nsk_spec s)\<rparr>"

definition network_sku_iterator_to_api :: "network_sku list \<Rightarrow> string option \<Rightarrow> (network_sku_spec, unit) api_object api_iterator" where
  "network_sku_iterator_to_api items skip_token =
    \<lparr>it_items = map network_sku_to_api items, it_provider = ''seca.network/v1'', it_resource = ''skus'', it_verb = ''list'',
     it_skip_token = skip_token\<rparr>"

definition network_sku_list_params_from_api :: "list_query \<Rightarrow> string \<Rightarrow> list_params" where
  "network_sku_list_params_from_api query tenant = scoped_list_params query tenant []"

definition new_network_sku_with_identity :: "'i identity_scheme \<Rightarrow> network_sku" where
  "new_network_sku_with_identity ir =
     regional_metadata.extend (identity_sku_metadata ir) (network_sku.fields \<lparr>nsks_bandwidth = 0, nsks_packets = 0\<rparr>)"

definition list_network_skus ::
  "(network_sku, (network_sku_spec, unit) api_object, 'w, 'f) resource_frontend_scheme \<Rightarrow> list_query \<Rightarrow> string
   \<Rightarrow> ((network_sku_spec, unit) api_object api_answer, 'w) handler" where
  "list_network_skus fe query tenant =
     handle_list (rf_encode fe) (network_sku_list_params_from_api query tenant) (lister_from_repo (rf_repo fe))
       (\<lambda>items token. Page (network_sku_iterator_to_api items token))"

definition get_network_sku ::
  "(network_sku, (network_sku_spec, unit) api_object, 'w, 'f) resource_frontend_scheme \<Rightarrow> string \<Rightarrow> string
   \<Rightarrow> ((network_sku_spec, unit) api_object api_answer, 'w) handler" where
  "get_network_sku fe tenant name =
     handle_get (rf_encode fe) (request_identity tenant [] name [])
       (getter_from_repo (rf_repo fe) new_network_sku_with_identity) (\<lambda>d. Single (network_sku_to_api d))"

subsection \<open>Storage SKUs\<close>

definition storage_sku_to_api :: "storage_sku \<Rightarrow> (storage_sku_spec, unit) api_object" where
  "storage_sku_to_api s =
     sku_object ''storage-sku'' s \<lparr>ssks_iops = ssks_iops (ssk_spec s), ssks_min_volume_size = ssks_min_volume_size (ssk_spec s), ssks_type = ssks_type (ssk_spec s)\<rparr>"

definition storage_sku_to_api_with_verb :: "string \<Rightarrow> storage_sku \<Rightarrow> (storage_sku_spec, unit) api_object" where
  "storage_sku_to_api_with_verb verb s = with_verb verb (storage_sku_to_api s)"

definition storage_sku_iterator_to_api :: "storage_sku list \<Rightarrow> string option \<Rightarrow> (storage_sku_spec, unit) api_object api_iterator" where
  "storage_sku_iterator_to_api items skip_token =
    \<lparr>it_items = map storage_sku_to_api items, it_provider = ''seca.storage/v1'', it_resource = ''skus'', it_verb = ''list'',
     it_skip_token = skip_token\<rparr>"

definition storage_sku_list_params_from_api :: "list_query \<Rightarrow> string \<Rightarrow> list_params" where
  "storage_sku_list_params_from_api query tenant = scoped_list_params query tenant []"

definition new_storage_sku_with_identity :: "'i identity_scheme \<Rightarrow> storage_sku" where
  "new_storage_sku_with_identity ir =
     regional_metadata.extend (identity_sku_metadata ir) (storage_sku.fields \<lparr>ssks_iops = 0, ssks_min_volume_size = 0, ssks_type = []\<rparr>)"

definition list_storage_skus ::
  "(storage_sku, (storage_sku_spec, unit) api_object, 'w, 'f) resource_frontend_scheme \<Rightarrow> list_query \<Rightarrow> string
   \<Rightarrow> ((storage_sku_spec, unit) api_object api_answer, 'w) handler" where
  "list_storage_skus fe query tenant =
     handle_list (rf_encode fe) (storage_sku_list_params_from_api query tenant) (lister_from_repo (rf_repo fe))
       (\<lambda>items token. Page (storage_sku_iterator_to_api items token))"

definition get_storage_sku ::
  "(storage_sku, (storage_sku_spec, unit) api_object, 'w, 'f) resource_frontend_scheme \<Rightarrow> string \<Rightarrow> string
   \<Rightarrow> ((storage_sku_spec, unit) api_object api_answer, 'w) handler" where
  "get_storage_sku fe tenant name =
     handle_get (rf_encode fe) (request_identity tenant [] name [])
       (getter_from_repo (rf_repo fe) new_storage_sku_with_identity) (\<lambda>d. Single (storage_sku_to_api_with_verb ''GET'' d))"

subsection \<open>Regions\<close>

definition region_list_params_from_api :: "list_query \<Rightarrow> list_params" where
  "region_list_params_from_api query = scoped_list_params query [] []"

definition region_to_api :: "region \<Rightarrow> string \<Rightarrow> (region_cr_spec, unit) api_object" where
  "region_to_api r verb =
    \<lparr>ao_metadata =
       \<lparr>am_api_version = ''v1'', am_created = md_created r, am_modified = md_updated r,
        am_deleted = md_deleted r, am_kind = ''region'', am_name = md_name r, am_tenant = [], am_workspace = [],
        am_network = [], am_provider = ''secapi.cloud/v1'', am_region = [],
        am_resource = format_resource ''region'' (md_name r),
        am_ref = format_resource_ref ''secapi.cloud/v1'' ''region'' (md_name r),
        am_version = api_resource_version (md_version r), am_verb = verb\<rparr>,
     ao_labels = [], ao_annotations = [], ao_extensions = [],
     ao_spec =
       \<lparr>rgcs_available_zones = map (\<lambda>z. z) (rg_zones r),
        rgcs_providers = map (\<lambda>p. \<lparr>rp_name = rp_name p, rp_url = rp_url p, rp_version = rp_version p\<rparr>)
          (rg_providers r)\<rparr>,
     ao_status = None\<rparr>"

definition region_to_api_for_get :: "region \<Rightarrow> (region_cr_spec, unit) api_object" where
  "region_to_api_for_get r = region_to_api r ''get''"

definition region_iterator_to_api ::
  "region list \<Rightarrow> string option \<Rightarrow> (region_cr_spec, unit) api_object api_iterator" where
  "region_iterator_to_api items skip_token =
    \<lparr>it_items = map (\<lambda>r. region_to_api r ''list'') items, it_provider = ''secapi.cloud/v1'',
     it_resource = ''regions'', it_verb = ''list'', it_skip_token = skip_token\<rparr>"

definition new_region_with_identity :: "'i identity_scheme \<Rightarrow> region" where
  "new_region_with_identity ir =
    \<lparr>md_name = id_name ir, md_provider = [], md_version = [], md_created = 0, md_updated = 0,
     md_deleted = None, rg_providers = [], rg_zones = []\<rparr>"

definition list_regions ::
  "(region, (region_cr_spec, unit) api_object, 'w, 'f) resource_frontend_scheme \<Rightarrow> list_query
   \<Rightarrow> ((region_cr_spec, unit) api_object api_answer, 'w) handler" where
  "list_regions fe query =
     handle_list (rf_encode fe) (region_list_params_from_api query) (lister_from_repo (rf_repo fe))
       (\<lambda>items token. Page (region_iterator_to_api items token))"

definition get_region ::
  "(region, (region_cr_spec, unit) api_object, 'w, 'f) resource_frontend_scheme \<Rightarrow> string
   \<Rightarrow> ((region_cr_spec, unit) api_object api_answer, 'w) handler" where
  "get_region fe name =
     handle_get (rf_encode fe) (request_identity [] [] name [])
       (getter_from_repo (rf_repo fe) new_region_with_identity) (\<lambda>d. Single (region_to_api_for_get d))"

text \<open>A region the API answers with has the providers and zones of a valid stored one.\<close>

lemma answered_region_is_valid:
  assumes "region_from_cr decode obj = Inr r"
  shows "rgcs_providers (ao_spec (region_to_api r verb)) \<noteq> [] \<and>
    rgcs_available_zones (ao_spec (region_to_api r verb)) \<noteq> []"
  using region_is_valid [OF assms] by (simp add: region_to_api_def)

end
