(* ===== verification/Aruba_Conversion.thy ===== *)
theory Aruba_Conversion
  imports Network_Conversion Catalog_Conversion Decimal
begin

section \<open>The Aruba provider: its objects and the converters to them\<close>

text \<open>
  Models \<^verbatim>\<open>csp/aruba/pkg/adapter/converter\<close> and \<^verbatim>\<open>csp/aruba/pkg/adapter/skumap\<close>. The provider's own
  objects are custom resources of the Aruba operator, a third-party package: a record has the fields of
  a spec the plugin sets or reads, an object has its name, namespace, labels, the version and the phase
  the operator reports, of which the plugin only asks whether it is active. The type meta of a
  \<^verbatim>\<open>Project\<close>, which the typed client sets itself, is left out. Slices that are nil or empty are \<open>[]\<close>.
\<close>

datatype resource_phase = PhaseNone | ResourcePhaseActive | PhaseReported string

record aruba_reference =
  aref_name :: string
  aref_namespace :: string

record 's aruba_object =
  ar_name :: string
  ar_namespace :: string
  ar_labels :: strmap
  ar_version :: string
  ar_phase :: resource_phase
  ar_spec :: 's

definition new_aruba_object :: "string \<Rightarrow> string \<Rightarrow> strmap \<Rightarrow> 's \<Rightarrow> 's aruba_object" where
  "new_aruba_object name namespace labels spec =
    \<lparr>ar_name = name, ar_namespace = namespace, ar_labels = labels, ar_version = [],
     ar_phase = PhaseNone, ar_spec = spec\<rparr>"

record project_spec =
  prj_description :: string
  prj_tags :: "string list"
  prj_tenant :: string

record vpc_spec =
  vpc_tenant :: string
  vpc_region :: string
  vpc_tags :: "string list"
  vpc_project :: aruba_reference

record aruba_subnet_spec =
  asn_tenant :: string
  asn_region :: string
  asn_tags :: "string list"
  asn_type :: string
  asn_cidr :: string
  asn_dhcp :: bool
  asn_vpc :: aruba_reference
  asn_project :: aruba_reference

record elastic_ip_spec =
  eip_tenant :: string
  eip_region :: string
  eip_tags :: "string list"
  eip_billing_period :: string
  eip_project :: aruba_reference

record volume_spec =
  vol_size_gb :: int
  vol_tenant :: string
  vol_region :: string
  vol_tags :: "string list"
  vol_project :: aruba_reference
  vol_zone :: string
  vol_billing_period :: string
  vol_tier :: string
  vol_image :: string
  vol_bootable :: bool

record key_pair_spec =
  kp_tenant :: string
  kp_region :: string
  kp_tags :: "string list"
  kp_value :: string
  kp_project :: aruba_reference

record aruba_group_spec =
  asg_tenant :: string
  asg_region :: string
  asg_tags :: "string list"
  asg_vpc :: aruba_reference
  asg_project :: aruba_reference

record rule_target =
  rt_type :: string
  rt_value :: string

record aruba_rule_spec =
  asr_tenant :: string
  asr_region :: string
  asr_tags :: "string list"
  asr_protocol :: string
  asr_port :: string
  asr_direction :: string
  asr_target :: rule_target
  asr_group :: aruba_reference
  asr_vpc :: aruba_reference
  asr_project :: aruba_reference

record cloud_server_spec =
  csv_tenant :: string
  csv_region :: string
  csv_tags :: "string list"
  csv_zone :: string
  csv_flavor :: string
  csv_vpc :: aruba_reference
  csv_subnets :: "aruba_reference list"
  csv_groups :: "aruba_reference list"
  csv_key_pair :: aruba_reference
  csv_boot_volume :: aruba_reference
  csv_data_volumes :: "aruba_reference list"
  csv_elastic_ip :: "aruba_reference option"
  csv_project :: aruba_reference

subsection \<open>\<^verbatim>\<open>skumap.go\<close>\<close>

record aruba_flavor =
  fl_name :: string
  fl_vcpu :: int
  fl_ram_gb :: int

definition compute_flavors :: "aruba_flavor list" where
  "compute_flavors =
    [\<lparr>fl_name = ''CSO1A2'', fl_vcpu = 1, fl_ram_gb = 2\<rparr>, \<lparr>fl_name = ''CSO1A4'', fl_vcpu = 1, fl_ram_gb = 4\<rparr>,
     \<lparr>fl_name = ''CSO2A4'', fl_vcpu = 2, fl_ram_gb = 4\<rparr>, \<lparr>fl_name = ''CSO2A8'', fl_vcpu = 2, fl_ram_gb = 8\<rparr>,
     \<lparr>fl_name = ''CSO4A8'', fl_vcpu = 4, fl_ram_gb = 8\<rparr>, \<lparr>fl_name = ''CSO4A16'', fl_vcpu = 4, fl_ram_gb = 16\<rparr>,
     \<lparr>fl_name = ''CSO8A16'', fl_vcpu = 8, fl_ram_gb = 16\<rparr>, \<lparr>fl_name = ''CSO8A32'', fl_vcpu = 8, fl_ram_gb = 32\<rparr>,
     \<lparr>fl_name = ''CSO12A24'', fl_vcpu = 12, fl_ram_gb = 24\<rparr>, \<lparr>fl_name = ''CSO16A32'', fl_vcpu = 16, fl_ram_gb = 32\<rparr>,
     \<lparr>fl_name = ''CSO16A64'', fl_vcpu = 16, fl_ram_gb = 64\<rparr>, \<lparr>fl_name = ''CSO24A48'', fl_vcpu = 24, fl_ram_gb = 48\<rparr>,
     \<lparr>fl_name = ''CSO32A64'', fl_vcpu = 32, fl_ram_gb = 64\<rparr>]"

definition compute_flavor :: "int \<Rightarrow> int \<Rightarrow> go_error + string" where
  "compute_flavor vcpu ram_gb =
    (case find (\<lambda>f. fl_vcpu f = vcpu \<and> fl_ram_gb f = ram_gb) compute_flavors of
       Some f \<Rightarrow> Inr (fl_name f)
     | None \<Rightarrow> Inl (GoError (''no Aruba CloudServer flavor provides '' @ itoa vcpu @ '' vCPU / '' @ itoa ram_gb @ '' GB RAM'')))"

definition performance_iops_floor :: int where
  "performance_iops_floor = 10000"

definition storage_type :: "int \<Rightarrow> string" where
  "storage_type iops = (if performance_iops_floor \<le> iops then ''Performance'' else ''Standard'')"

definition aruba_images :: strmap where
  "aruba_images =
    [(''alma-8'', ''alma8''), (''alma-9'', ''alma9''), (''debian-12'', ''DE12-001''),
     (''ubuntu-22-04'', ''LU22-001''), (''ubuntu-24-04'', ''LU24-001''),
     (''windows-2019'', ''WS19-001_W2K19_1_0''), (''windows-2022'', ''WS22-001_W2K22_1_0'')]"

definition image_template :: "string \<Rightarrow> go_error + string" where
  "image_template seca_image =
    (case map_get aruba_images seca_image of
       Some code \<Rightarrow> Inr code
     | None \<Rightarrow> Inl (GoError (''no Aruba OS template for SECA image '' @ fmt_q seca_image)))"

text \<open>A flavor is chosen for a capacity exactly when the catalog has one, and it has that capacity.\<close>

lemma compute_flavors_distinct: "distinct (map (\<lambda>f. (fl_vcpu f, fl_ram_gb f)) compute_flavors)"
  by (simp add: compute_flavors_def)

lemma find_unique:
  "distinct (map key xs) \<Longrightarrow> find (\<lambda>x. key x = k) xs = Some x \<longleftrightarrow> x \<in> set xs \<and> key x = k"
  by (induction xs) (auto simp: image_iff)

lemma compute_flavor_Inr:
  "compute_flavor vcpu ram = Inr name \<longleftrightarrow>
     (\<exists>f \<in> set compute_flavors. fl_vcpu f = vcpu \<and> fl_ram_gb f = ram \<and> fl_name f = name)"
proof -
  have "find (\<lambda>f. fl_vcpu f = vcpu \<and> fl_ram_gb f = ram) compute_flavors = Some f \<longleftrightarrow>
      f \<in> set compute_flavors \<and> fl_vcpu f = vcpu \<and> fl_ram_gb f = ram" for f
    using find_unique [OF compute_flavors_distinct, of "(vcpu, ram)" f] by simp
  moreover have "compute_flavor vcpu ram = Inr name \<longleftrightarrow>
      (\<exists>f. find (\<lambda>f. fl_vcpu f = vcpu \<and> fl_ram_gb f = ram) compute_flavors = Some f \<and> fl_name f = name)"
    by (simp add: compute_flavor_def split: option.splits)
  ultimately show ?thesis by auto
qed

subsection \<open>\<^verbatim>\<open>tags.go\<close>\<close>

text \<open>The characters a tag may have beside the dash; bytes of other characters are none of them.\<close>

definition tag_char :: "char \<Rightarrow> bool" where
  "tag_char c = (let n = (of_char c :: nat) in
     97 \<le> n \<and> n \<le> 122 \<or> 65 \<le> n \<and> n \<le> 90 \<or> 48 \<le> n \<and> n \<le> 57)"

text \<open>The loop of \<^verbatim>\<open>sanitizeTag\<close>: what the builder holds, whether a dash is pending.\<close>

fun sanitize_loop :: "string \<Rightarrow> bool \<Rightarrow> string \<Rightarrow> string" where
  "sanitize_loop b pending [] = b"
| "sanitize_loop b pending (c # s) =
    (if tag_char c
     then sanitize_loop ((if pending \<and> b \<noteq> [] then b @ ''-'' else b) @ [c]) False s
     else sanitize_loop b True s)"

definition sanitize_tag :: "string \<Rightarrow> string" where
  "sanitize_tag s = sanitize_loop [] False s"

definition aruba_tags :: "strmap \<Rightarrow> string list" where
  "aruba_tags labels =
    (if labels = [] then []
     else let tags = filter (\<lambda>tag. tag \<noteq> []) (map (\<lambda>(key, v). sanitize_tag (key @ ''-'' @ v)) labels) in
       if tags = [] then [] else remdups_adj (sort tags))"

text \<open>What Aruba accepts as a tag: words of letters and digits with single dashes between them.\<close>

fun tag_tail :: "string \<Rightarrow> bool" where
  "tag_tail [] = True"
| "tag_tail (c # s) =
    (if c = CHR ''-'' then (case s of [] \<Rightarrow> False | d # t \<Rightarrow> tag_char d \<and> tag_tail t)
     else tag_char c \<and> tag_tail s)"

definition valid_tag :: "string \<Rightarrow> bool" where
  "valid_tag s \<longleftrightarrow> (case s of [] \<Rightarrow> False | c # t \<Rightarrow> tag_char c \<and> tag_tail t)"

lemma dash_no_tag_char [simp]: "\<not> tag_char CHR ''-''"
  by (simp add: tag_char_def)

lemma tag_tail_append: "tag_tail s \<Longrightarrow> tag_tail t \<Longrightarrow> tag_tail (s @ t)"
  by (induction s rule: tag_tail.induct) (auto split: list.splits if_splits)

lemma valid_tag_append: "valid_tag s \<Longrightarrow> tag_tail t \<Longrightarrow> valid_tag (s @ t)"
  by (auto simp: valid_tag_def tag_tail_append split: list.splits)

lemma sanitize_loop_valid: "b = [] \<or> valid_tag b \<Longrightarrow> sanitize_loop b p s = [] \<or> valid_tag (sanitize_loop b p s)"
proof (induction b p s rule: sanitize_loop.induct)
  case (2 b p c s)
  show ?case
  proof (cases "tag_char c")
    case True
    then have "c \<noteq> CHR ''-''" by auto
    with True 2(3) have "valid_tag ((if p \<and> b \<noteq> [] then b @ ''-'' else b) @ [c])"
      using valid_tag_append [of b "[c]"] valid_tag_append [of b "[CHR ''-'', c]"]
      by (auto simp: valid_tag_def)
    with True 2(1) show ?thesis by simp
  qed (use 2 in simp)
qed simp

lemma sanitize_tag_valid: "sanitize_tag s = [] \<or> valid_tag (sanitize_tag s)"
  by (simp add: sanitize_tag_def sanitize_loop_valid)

lemma sanitize_loop_tail: "tag_tail t \<Longrightarrow> b \<noteq> [] \<Longrightarrow> sanitize_loop b False t = b @ t"
  by (induction t arbitrary: b rule: tag_tail.induct) (auto split: if_splits list.splits)

text \<open>A tag Aruba accepts is left as it is.\<close>

lemma sanitize_valid_tag: "valid_tag s \<Longrightarrow> sanitize_tag s = s"
  by (cases s) (auto simp: valid_tag_def sanitize_tag_def sanitize_loop_tail)

lemma sanitize_tag_idem [simp]: "sanitize_tag (sanitize_tag s) = sanitize_tag s"
  using sanitize_tag_valid [of s] sanitize_valid_tag by (auto simp: sanitize_tag_def)

text \<open>No label with a letter or digit is lost.\<close>

lemma sanitize_loop_keeps: "set b \<subseteq> set (sanitize_loop b p s)"
  by (induction b p s rule: sanitize_loop.induct) auto

lemma sanitize_loop_empty: "sanitize_loop b p s = [] \<longleftrightarrow> b = [] \<and> (\<forall>c \<in> set s. \<not> tag_char c)"
proof (induction b p s rule: sanitize_loop.induct)
  case (2 b p c s)
  show ?case
  proof (cases "tag_char c")
    case True
    have "c \<in> set (sanitize_loop ((if p \<and> b \<noteq> [] then b @ ''-'' else b) @ [c]) False s)"
      using sanitize_loop_keeps [of "(if p \<and> b \<noteq> [] then b @ ''-'' else b) @ [c]"] by auto
    with True show ?thesis by auto
  qed (use 2 in simp)
qed simp

lemma sanitize_tag_empty: "sanitize_tag s = [] \<longleftrightarrow> (\<forall>c \<in> set s. \<not> tag_char c)"
  by (simp add: sanitize_tag_def sanitize_loop_empty)

lemma aruba_tags_eq:
  "aruba_tags labels =
     remdups_adj (sort (filter (\<lambda>tag. tag \<noteq> []) (map (\<lambda>(key, v). sanitize_tag (key @ ''-'' @ v)) labels)))"
  by (simp add: aruba_tags_def Let_def)

lemma aruba_tags_set: "set (aruba_tags labels) = {t. t \<noteq> [] \<and> (\<exists>(k, v) \<in> set labels. t = sanitize_tag (k @ ''-'' @ v))}"
  by (force simp: aruba_tags_eq)

lemma sorted_wrt_remdups_adj:
  fixes xs :: "'a :: linorder list"
  shows "sorted xs \<Longrightarrow> sorted_wrt (<) (remdups_adj xs)"
  by (induction xs rule: remdups_adj.induct) (auto simp: less_le)

lemma aruba_tags_sorted: "sorted_wrt (<) (aruba_tags labels)"
  by (simp add: aruba_tags_eq sorted_wrt_remdups_adj)

text \<open>The order in which the map is walked does not matter, and equal sets of tags are equal lists.\<close>

lemma aruba_tags_cong:
  assumes "set labels = set labels'"
  shows "aruba_tags labels = aruba_tags labels'"
  by (rule strict_sorted_equal) (simp_all add: aruba_tags_sorted aruba_tags_set assms)

subsection \<open>What the converters share\<close>

definition default_region :: string where "default_region = ''ITBG-Bergamo''"
definition default_datacenter :: string where "default_datacenter = ''ITBG-1''"
definition default_billing_period :: string where "default_billing_period = ''Hour''"

definition region_or_default :: "string \<Rightarrow> string" where
  "region_or_default region = (if region = [] then default_region else region)"

text \<open>A metadata struct with a name and a scope only.\<close>

definition named_metadata :: "string \<Rightarrow> string \<Rightarrow> string \<Rightarrow> string \<Rightarrow> regional_metadata" where
  "named_metadata name tenant workspace region =
    \<lparr>md_name = name, md_provider = [], md_version = [], md_created = 0, md_updated = 0, md_deleted = None,
     md_tenant = tenant, md_workspace = workspace, md_labels = [], md_annotations = [], md_extensions = [],
     md_region = region\<rparr>"

definition spec_or_label :: "string \<Rightarrow> strmap \<Rightarrow> string \<Rightarrow> string" where
  "spec_or_label spec_value labels label = (if spec_value = [] then map_index labels label else spec_value)"

subsection \<open>\<^verbatim>\<open>workspace.go\<close>\<close>

definition workspace_to_project ::
  "(string \<Rightarrow> string) \<Rightarrow> workspace \<Rightarrow> go_error + project_spec aruba_object" where
  "workspace_to_project sha3 w =
    (let description = (case map_of (ws_spec w) ''description'' of Some (JString v) \<Rightarrow> v | _ \<Rightarrow> []);
         namespace = compute_namespace sha3 (tenant_only_scope (md_tenant w)) in
     Inr (new_aruba_object (md_name w) namespace
       [(''seca.workspace/namespace'', namespace), (''seca.workspace/tenant'', md_tenant w),
        (''seca.workspace/workspace'', md_workspace w)]
       \<lparr>prj_description = description, prj_tags = aruba_tags (md_labels w), prj_tenant = md_tenant w\<rparr>))"

definition workspace_from_project :: "project_spec aruba_object \<Rightarrow> go_error + workspace" where
  "workspace_from_project p =
    (let spec = [(''description'', JString (prj_description (ar_spec p))),
                 (''tags'', JArray (map JString (prj_tags (ar_spec p)))),
                 (''tenant'', JString (prj_tenant (ar_spec p)))];
         label = map_index (ar_labels p) ''seca.workspace/tenant'';
         tenant = (if label = [] then prj_tenant (ar_spec p) else label) in
     Inr (regional_metadata.extend (named_metadata (ar_name p) tenant [] [])
            (workspace.fields spec (Some \<lparr>wss_status = empty_status, wss_resource_count = None\<rparr>))))"

subsection \<open>\<^verbatim>\<open>network.go\<close>\<close>

definition network_to_vpc :: "(string \<Rightarrow> string) \<Rightarrow> network \<Rightarrow> go_error + vpc_spec aruba_object" where
  "network_to_vpc sha3 n =
    (let tenant = md_tenant n; workspace = md_workspace n;
         namespace = compute_namespace sha3 (own_scope n);
         namespace_workspace = compute_namespace sha3 (tenant_only_scope tenant) in
     Inr (new_aruba_object (md_name n) namespace
       [(''seca.network/namespace'', namespace), (''seca.network/tenant'', tenant),
        (''seca.network/workspace'', workspace), (''seca.workspace/namespace'', namespace_workspace)]
       \<lparr>vpc_tenant = tenant, vpc_region = region_or_default (md_region n), vpc_tags = aruba_tags (md_labels n),
        vpc_project = \<lparr>aref_name = workspace, aref_namespace = namespace_workspace\<rparr>\<rparr>))"

definition network_from_vpc :: "vpc_spec aruba_object \<Rightarrow> go_error + network" where
  "network_from_vpc v =
    (let tenant = spec_or_label (vpc_tenant (ar_spec v)) (ar_labels v) ''seca.network/tenant'' in
     if tenant = [] then Inl (GoError ''tenant is missing'')
     else let workspace = spec_or_label (aref_name (vpc_project (ar_spec v))) (ar_labels v) ''seca.network/workspace'' in
     if workspace = [] then Inl (GoError ''workspace is missing'')
     else Inr (regional_metadata.extend (named_metadata (ar_name v) tenant workspace (vpc_region (ar_spec v)))
       (network.fields \<lparr>nws_additional_cidrs = [], nws_cidr = \<lparr>cidr_ipv4 = [], cidr_ipv6 = []\<rparr>,
          nws_sku_ref = unset_reference\<rparr> None)))"

subsection \<open>\<^verbatim>\<open>subnet.go\<close>\<close>

definition label_subnet_tenant :: string where "label_subnet_tenant = ''seca.subnet/tenant''"
definition label_subnet_workspace :: string where "label_subnet_workspace = ''seca.subnet/workspace''"
definition label_subnet_network :: string where "label_subnet_network = ''seca.subnet/network''"

definition subnet_to_aruba :: "(string \<Rightarrow> string) \<Rightarrow> subnet \<Rightarrow> go_error + aruba_subnet_spec aruba_object" where
  "subnet_to_aruba sha3 s =
    (if cidr_ipv4 (sns_cidr (sn_spec s)) = []
     then Inl (GoError ''subnet requires an IPv4 CIDR: Aruba does not support IPv6-only subnets'')
     else let tenant = md_tenant s; workspace = md_workspace s; network = md_network s;
         namespace = compute_network_namespace sha3 (own_network_scope s);
         namespace_workspace = compute_namespace sha3 (tenant_only_scope tenant);
         namespace_vpc = compute_namespace sha3 \<lparr>sc_tenant = tenant, sc_workspace = workspace\<rparr> in
     Inr (new_aruba_object (md_name s) namespace
       [(''seca.subnet/namespace'', namespace), (label_subnet_network, network),
        (label_subnet_tenant, tenant), (label_subnet_workspace, workspace),
        (''seca.workspace/namespace'', namespace_workspace)]
       \<lparr>asn_tenant = tenant, asn_region = region_or_default (md_region s), asn_tags = aruba_tags (md_labels s),
        asn_type = ''Advanced'', asn_cidr = cidr_ipv4 (sns_cidr (sn_spec s)), asn_dhcp = True,
        asn_vpc = \<lparr>aref_name = network, aref_namespace = namespace_vpc\<rparr>,
        asn_project = \<lparr>aref_name = workspace, aref_namespace = namespace_workspace\<rparr>\<rparr>))"

definition subnet_from_aruba :: "aruba_subnet_spec aruba_object \<Rightarrow> go_error + subnet" where
  "subnet_from_aruba s =
    (let tenant = spec_or_label (asn_tenant (ar_spec s)) (ar_labels s) ''seca.subnet/tenant'' in
     if tenant = [] then Inl (GoError ''tenant is missing'')
     else let workspace = spec_or_label (aref_name (asn_project (ar_spec s))) (ar_labels s) ''seca.subnet/workspace'' in
     if workspace = [] then Inl (GoError ''workspace is missing'')
     else let network = spec_or_label (aref_name (asn_vpc (ar_spec s))) (ar_labels s) ''seca.subnet/network'' in
     if network = [] then Inl (GoError ''network is missing'')
     else Inr (regional_network_metadata.extend
         (regional_metadata.extend (named_metadata (ar_name s) tenant workspace (asn_region (ar_spec s)))
            (regional_network_metadata.fields network))
         (subnet.fields \<lparr>sns_cidr = \<lparr>cidr_ipv4 = asn_cidr (ar_spec s), cidr_ipv6 = []\<rparr>,
            sns_route_table_ref = unset_reference, sns_sku_ref = unset_reference, sns_zone = []\<rparr> None)))"

subsection \<open>\<^verbatim>\<open>public_ip.go\<close>\<close>

definition public_ip_to_elastic_ip :: "(string \<Rightarrow> string) \<Rightarrow> public_ip \<Rightarrow> go_error + elastic_ip_spec aruba_object" where
  "public_ip_to_elastic_ip sha3 p =
    (if pi_address p \<noteq> []
     then Inl (GoError ''public ip address cannot be requested: Aruba does not support bring-your-own-IP'')
     else if pi_ip_version p = IPVersionIPv6
     then Inl (GoError ''IPv6 public ip is not supported by Aruba'')
     else let tenant = md_tenant p; workspace = md_workspace p;
         namespace = compute_namespace sha3 (own_scope p);
         namespace_workspace = compute_namespace sha3 (tenant_only_scope tenant) in
     Inr (new_aruba_object (md_name p) namespace
       [(''seca.publicip/namespace'', namespace), (''seca.publicip/tenant'', tenant),
        (''seca.publicip/workspace'', workspace), (''seca.workspace/namespace'', namespace_workspace)]
       \<lparr>eip_tenant = tenant, eip_region = region_or_default (md_region p), eip_tags = aruba_tags (md_labels p),
        eip_billing_period = default_billing_period,
        eip_project = \<lparr>aref_name = workspace, aref_namespace = namespace_workspace\<rparr>\<rparr>))"

definition public_ip_from_elastic_ip :: "elastic_ip_spec aruba_object \<Rightarrow> go_error + public_ip" where
  "public_ip_from_elastic_ip e =
    (let tenant = spec_or_label (eip_tenant (ar_spec e)) (ar_labels e) ''seca.publicip/tenant'' in
     if tenant = [] then Inl (GoError ''tenant is missing'')
     else let workspace = spec_or_label (aref_name (eip_project (ar_spec e))) (ar_labels e) ''seca.publicip/workspace'' in
     if workspace = [] then Inl (GoError ''workspace is missing'')
     else Inr (regional_metadata.extend (named_metadata (ar_name e) tenant workspace (eip_region (ar_spec e)))
       (public_ip.fields [] IPVersionIPv4 None)))"

subsection \<open>\<^verbatim>\<open>block_storage.go\<close>\<close>

text \<open>A Go \<^verbatim>\<open>int\<close> as an \<^verbatim>\<open>int32\<close>, with the check of its bounds.\<close>

definition seca_to_aruba_size :: "int \<Rightarrow> go_error + int" where
  "seca_to_aruba_size n =
    (if 2 ^ 31 - 1 < n \<or> n < - (2 ^ 31) then Inl (GoError ''storage size out of range'') else Inr n)"

definition region_from_spec_or_default :: "block_storage \<Rightarrow> string" where
  "region_from_spec_or_default b =
    (case bss_source_image_ref (bs_spec b) of
       Some ref \<Rightarrow>
         if ref_region ref \<noteq> [] then ref_region ref
         else if ref_region (bss_sku_ref (bs_spec b)) \<noteq> [] then ref_region (bss_sku_ref (bs_spec b))
         else default_region
     | None \<Rightarrow>
         if ref_region (bss_sku_ref (bs_spec b)) \<noteq> [] then ref_region (bss_sku_ref (bs_spec b))
         else default_region)"

definition volume_to_aruba :: "(string \<Rightarrow> string) \<Rightarrow> block_storage \<Rightarrow> go_error + volume_spec aruba_object" where
  "volume_to_aruba sha3 b =
    (let tenant = md_tenant b; workspace = md_workspace b;
         namespace = compute_namespace sha3 (own_scope b);
         namespace_workspace = compute_namespace sha3 (tenant_only_scope tenant) in
     case seca_to_aruba_size (bss_size_gb (bs_spec b)) of
       Inl err \<Rightarrow> Inl err
     | Inr size_gb \<Rightarrow>
         Inr (new_aruba_object (md_name b) namespace
           [(''seca.blockstorage/namespace'', namespace), (''seca.blockstorage/tenant'', tenant),
            (''seca.blockstorage/workspace'', workspace), (''seca.workspace/namespace'', namespace_workspace)]
           \<lparr>vol_size_gb = size_gb, vol_tenant = tenant, vol_region = region_from_spec_or_default b,
            vol_tags = aruba_tags (md_labels b),
            vol_project = \<lparr>aref_name = workspace, aref_namespace = namespace_workspace\<rparr>,
            vol_zone = default_datacenter, vol_billing_period = default_billing_period,
            vol_tier = [], vol_image = [], vol_bootable = False\<rparr>))"

definition tenant_from_spec_or_error :: "volume_spec aruba_object \<Rightarrow> go_error + string" where
  "tenant_from_spec_or_error v =
    (if vol_tenant (ar_spec v) \<noteq> [] then Inr (vol_tenant (ar_spec v))
     else if map_index (ar_labels v) ''seca.blockstorage/tenant'' \<noteq> []
     then Inr (map_index (ar_labels v) ''seca.blockstorage/tenant'')
     else Inl (GoError ''tenant is missing''))"

definition workspace_from_spec_or_error :: "volume_spec aruba_object \<Rightarrow> go_error + string" where
  "workspace_from_spec_or_error v =
    (if aref_name (vol_project (ar_spec v)) \<noteq> [] then Inr (aref_name (vol_project (ar_spec v)))
     else if map_index (ar_labels v) ''seca.blockstorage/workspace'' \<noteq> []
     then Inr (map_index (ar_labels v) ''seca.blockstorage/workspace'')
     else Inl (GoError ''workspace is missing''))"

definition volume_from_aruba :: "volume_spec aruba_object \<Rightarrow> go_error + block_storage" where
  "volume_from_aruba v =
    (case tenant_from_spec_or_error v of
       Inl err \<Rightarrow> Inl err
     | Inr tenant \<Rightarrow>
       (case workspace_from_spec_or_error v of
          Inl err \<Rightarrow> Inl err
        | Inr workspace \<Rightarrow>
            Inr (regional_metadata.extend (named_metadata (ar_name v) tenant workspace [])
              (block_storage.fields
                 \<lparr>bss_size_gb = vol_size_gb (ar_spec v), bss_sku_ref = unset_reference,
                  bss_source_image_ref = Some \<lparr>ref_provider = [], ref_region = vol_region (ar_spec v),
                    ref_resource = [], ref_tenant = vol_tenant (ar_spec v),
                    ref_workspace = aref_name (vol_project (ar_spec v))\<rparr>\<rparr> None))))"

subsection \<open>\<^verbatim>\<open>keypair.go\<close> and \<^verbatim>\<open>cloudserver.go\<close>\<close>

definition key_pair_suffix :: string where "key_pair_suffix = ''-key''"

definition build_key_pair :: "(string \<Rightarrow> string) \<Rightarrow> instance_res \<Rightarrow> string \<Rightarrow> key_pair_spec aruba_object" where
  "build_key_pair sha3 vm ssh_key =
    (let tenant = md_tenant vm; workspace = md_workspace vm;
         namespace = compute_namespace sha3 (own_scope vm);
         namespace_workspace = compute_namespace sha3 (tenant_only_scope tenant) in
     new_aruba_object (md_name vm @ key_pair_suffix) namespace
       [(''seca.instance/instance'', md_name vm), (''seca.instance/namespace'', namespace),
        (''seca.instance/tenant'', tenant), (''seca.instance/workspace'', workspace),
        (''seca.workspace/namespace'', namespace_workspace)]
       \<lparr>kp_tenant = tenant, kp_region = region_or_default (md_region vm), kp_tags = aruba_tags (md_labels vm),
        kp_value = ssh_key,
        kp_project = \<lparr>aref_name = workspace, aref_namespace = namespace_workspace\<rparr>\<rparr>)"

record cloud_server_refs =
  csr_flavor :: string
  csr_zone :: string
  csr_vpc :: aruba_reference
  csr_subnets :: "aruba_reference list"
  csr_groups :: "aruba_reference list"
  csr_key_pair :: aruba_reference
  csr_boot_volume :: aruba_reference
  csr_data_volumes :: "aruba_reference list"
  csr_elastic_ip :: "aruba_reference option"
  csr_project :: aruba_reference

definition build_cloud_server ::
  "(string \<Rightarrow> string) \<Rightarrow> instance_res \<Rightarrow> cloud_server_refs \<Rightarrow> cloud_server_spec aruba_object" where
  "build_cloud_server sha3 vm refs =
    (let tenant = md_tenant vm; workspace = md_workspace vm;
         namespace = compute_namespace sha3 (own_scope vm);
         zone = (if csr_zone refs = [] then default_datacenter else csr_zone refs) in
     new_aruba_object (md_name vm) namespace
       [(''seca.instance/namespace'', namespace), (''seca.instance/tenant'', tenant),
        (''seca.instance/workspace'', workspace)]
       \<lparr>csv_tenant = tenant, csv_region = region_or_default (md_region vm), csv_tags = aruba_tags (md_labels vm),
        csv_zone = zone, csv_flavor = csr_flavor refs, csv_vpc = csr_vpc refs, csv_subnets = csr_subnets refs,
        csv_groups = csr_groups refs, csv_key_pair = csr_key_pair refs, csv_boot_volume = csr_boot_volume refs,
        csv_data_volumes = csr_data_volumes refs, csv_elastic_ip = csr_elastic_ip refs,
        csv_project = csr_project refs\<rparr>)"

subsection \<open>\<^verbatim>\<open>security_group.go\<close>\<close>

definition label_tenant :: string where "label_tenant = ''seca.securitygroup/tenant''"
definition label_network :: string where "label_network = ''seca.securitygroup/network''"
definition label_security_group :: string where "label_security_group = ''seca.securitygroup/securitygroup''"

definition materialized_security_group_name :: "string \<Rightarrow> string \<Rightarrow> string" where
  "materialized_security_group_name seca_name network = seca_name @ ''-'' @ network"

definition build_security_group ::
  "string \<Rightarrow> string \<Rightarrow> string \<Rightarrow> string \<Rightarrow> string \<Rightarrow> strmap \<Rightarrow> aruba_reference \<Rightarrow> aruba_reference
   \<Rightarrow> aruba_group_spec aruba_object" where
  "build_security_group seca_name network region tenant namespace labels vpc_ref project_ref =
     new_aruba_object (materialized_security_group_name seca_name network) namespace
       [(label_network, network), (label_security_group, seca_name), (label_tenant, tenant)]
       \<lparr>asg_tenant = tenant, asg_region = region_or_default region, asg_tags = aruba_tags labels,
        asg_vpc = vpc_ref, asg_project = project_ref\<rparr>"

record rule_spec =
  rl_direction :: string
  rl_protocol :: string
  rl_port_from :: int
  rl_port_to :: int
  rl_port_list :: "int list"
  rl_has_icmp :: bool
  rl_source_ref :: "reference list"
  rl_labels :: strmap

text \<open>\<^verbatim>\<open>NormalizeStandaloneRule\<close>; the body of the loop of \<^verbatim>\<open>NormalizeInlineRules\<close> is the same.\<close>

definition normalize_standalone_rule :: "security_group_rule_spec \<Rightarrow> strmap \<Rightarrow> rule_spec" where
  "normalize_standalone_rule r labels =
    \<lparr>rl_direction = sgrs_direction r, rl_protocol = sgrs_protocol r,
     rl_port_from = (case sgrs_ports r of None \<Rightarrow> 0 | Some p \<Rightarrow> ports_from p),
     rl_port_to = (case sgrs_ports r of None \<Rightarrow> 0 | Some p \<Rightarrow> ports_to p),
     rl_port_list = (case sgrs_ports r of None \<Rightarrow> [] | Some p \<Rightarrow> ports_list p),
     rl_has_icmp = (sgrs_icmp r \<noteq> None), rl_source_ref = sgrs_source_ref r, rl_labels = labels\<rparr>"

definition normalize_inline_rules :: "security_group_rule_spec list \<Rightarrow> strmap \<Rightarrow> rule_spec list" where
  "normalize_inline_rules rules labels = map (\<lambda>r. normalize_standalone_rule r labels) rules"

definition aruba_direction :: "string \<Rightarrow> string" where
  "aruba_direction direction = (if equal_fold direction ''egress'' then ''Egress'' else ''Ingress'')"

text \<open>\<^verbatim>\<open>strings.ToUpper\<close> on ASCII.\<close>

definition upper_char :: "char \<Rightarrow> char" where
  "upper_char c = (if 97 \<le> (of_char c :: nat) \<and> (of_char c :: nat) \<le> 122
     then char_of ((of_char c :: nat) - 32) else c)"

definition aruba_protocols :: "string \<Rightarrow> bool \<Rightarrow> string list" where
  "aruba_protocols protocol has_icmp =
    (let p = to_lower protocol in
     if p = ''tcp'' then [''TCP'']
     else if p = ''udp'' then [''UDP'']
     else if p = ''tcp+udp'' then [''TCP'', ''UDP'']
     else if p = ''icmp'' then [''ICMP'']
     else if p = [] then (if has_icmp then [''ICMP''] else [''ALL''])
     else [map upper_char protocol])"

definition aruba_ports :: "rule_spec \<Rightarrow> string \<Rightarrow> string list" where
  "aruba_ports r protocol =
    (if protocol = ''ICMP'' then [''ALL'']
     else if rl_port_list r \<noteq> [] then map itoa (rl_port_list r)
     else if 0 < rl_port_from r \<or> 0 < rl_port_to r then
       (if rl_port_to r = 0 \<or> rl_port_from r = rl_port_to r then [itoa (rl_port_from r)]
        else [itoa (rl_port_from r) @ ''-'' @ itoa (rl_port_to r)])
     else [''ALL''])"

definition aruba_targets :: "reference list \<Rightarrow> rule_target list" where
  "aruba_targets sources =
    (if sources = [] then [\<lparr>rt_type = ''Ip'', rt_value = ''0.0.0.0/0''\<rparr>]
     else map (\<lambda>s. if has_prefix ''security-groups/'' (ref_resource s)
         then \<lparr>rt_type = ''SecurityGroup'', rt_value = trim_prefix ''security-groups/'' (ref_resource s)\<rparr>
         else \<lparr>rt_type = ''Ip'', rt_value = ref_resource s\<rparr>) sources)"

text \<open>
  \<^verbatim>\<open>BuildSecurityRules\<close>: the four nested loops list what the rules fan out to, \<open>idx\<close> numbers it.
\<close>

definition fan_out :: "rule_spec \<Rightarrow> (rule_spec \<times> string \<times> string \<times> rule_target) list" where
  "fan_out r = concat (map (\<lambda>protocol. concat (map (\<lambda>port.
      map (\<lambda>target. (r, protocol, port, target)) (aruba_targets (rl_source_ref r)))
    (aruba_ports r protocol))) (aruba_protocols (rl_protocol r) (rl_has_icmp r)))"

definition build_security_rules ::
  "rule_spec list \<Rightarrow> string \<Rightarrow> string \<Rightarrow> string \<Rightarrow> string \<Rightarrow> aruba_reference \<Rightarrow> aruba_reference
   \<Rightarrow> aruba_rule_spec aruba_object list" where
  "build_security_rules rules sg_name region tenant namespace vpc_ref project_ref =
     map (\<lambda>(idx, r, protocol, port, target).
        new_aruba_object (sg_name @ ''-r'' @ itoa (int idx)) namespace
          [(label_security_group, sg_name), (label_tenant, tenant)]
          \<lparr>asr_tenant = tenant, asr_region = region_or_default region, asr_tags = aruba_tags (rl_labels r),
           asr_protocol = protocol, asr_port = port, asr_direction = aruba_direction (rl_direction r),
           asr_target = target, asr_group = \<lparr>aref_name = sg_name, aref_namespace = namespace\<rparr>,
           asr_vpc = vpc_ref, asr_project = project_ref\<rparr>)
       (enumerate 0 (concat (map fan_out rules)))"

text \<open>Rules have different names, and those of the first rules do not depend on the rest.\<close>

lemma itoa_nat_inj [simp]: "itoa (int i) = itoa (int j) \<longleftrightarrow> i = j"
proof
  assume "itoa (int i) = itoa (int j)"
  then have "nat_digits i = nat_digits j" by (simp add: itoa_def)
  then show "i = j" by (metis parse_nat_digits option.inject)
qed simp

definition rule_count :: "rule_spec list \<Rightarrow> nat" where
  "rule_count rules = length (concat (map fan_out rules))"

definition rule_name :: "string \<Rightarrow> nat \<Rightarrow> string" where
  "rule_name sg_name idx = sg_name @ ''-r'' @ itoa (int idx)"

lemma rule_name_inj [simp]: "rule_name sg i = rule_name sg j \<longleftrightarrow> i = j"
  by (simp add: rule_name_def)

lemma rule_names:
  "map ar_name (build_security_rules rules sg region tenant ns vpc prj) = map (rule_name sg) [0..<rule_count rules]"
  by (rule nth_equalityI)
     (auto simp: build_security_rules_def rule_count_def rule_name_def new_aruba_object_def nth_enumerate_eq
       split: prod.splits)

lemma rule_names_distinct: "distinct (map ar_name (build_security_rules rules sg region tenant ns vpc prj))"
  by (simp add: rule_names distinct_map inj_on_def)

lemma build_security_rules_append:
  "take (rule_count rs) (build_security_rules (rs @ rs') sg region tenant ns vpc prj) =
     build_security_rules rs sg region tenant ns vpc prj"
  by (rule nth_equalityI)
     (auto simp: build_security_rules_def rule_count_def nth_enumerate_eq nth_append)

lemma build_security_rules_labels:
  "r \<in> set (build_security_rules rules sg region tenant ns vpc prj) \<Longrightarrow>
     ar_labels r = [(label_security_group, sg), (label_tenant, tenant)] \<and> ar_namespace r = ns"
  by (auto simp: build_security_rules_def new_aruba_object_def)

end
