(* ===== verification/Aruba_Plugin.thy ===== *)
theory Aruba_Plugin
  imports Aruba_Conversion Ports
begin

section \<open>The Aruba provider: repositories, delegated operations, handlers\<close>

text \<open>
  Models \<^verbatim>\<open>csp/aruba/pkg/adapter/generic\<close> and the handlers of \<^verbatim>\<open>csp/aruba/pkg/adapter/handler\<close> that keep one
  Aruba object per resource: workspaces, networks, subnets, public IPs and volumes, and those that keep
  none. A handler's operation is the chain of steps of a \<^verbatim>\<open>GenericDelegated\<close>: look up what the resource
  needs, convert, look up what the Aruba object needs, check whether the wanted state is reached, and
  otherwise ask for it and say that it is still in progress. Then the contract of these operations with
  the operator's objects, as a locale every such handler interprets.
\<close>

subsection \<open>Repositories\<close>

text \<open>The client of controller-runtime, typed to one kind: what the repository calls of it.\<close>

record ('s, 'w) runtime_client =
  rc_create :: "'s aruba_object \<Rightarrow> 'w \<Rightarrow> go_error option \<times> 'w"
  rc_get :: "string \<Rightarrow> string \<Rightarrow> 'w \<Rightarrow> (go_error + 's aruba_object) \<times> 'w"
  rc_list :: "string option \<Rightarrow> strmap \<Rightarrow> 'w \<Rightarrow> (go_error + 's aruba_object list) \<times> 'w"
  rc_update :: "'s aruba_object \<Rightarrow> 'w \<Rightarrow> go_error option \<times> 'w"
  rc_delete :: "'s aruba_object \<Rightarrow> 'w \<Rightarrow> go_error option \<times> 'w"

text \<open>
  The interfaces \<^verbatim>\<open>Reader\<close> and \<^verbatim>\<open>Writer\<close>. \<^verbatim>\<open>Load\<close> overwrites the object it is handed; here it returns
  it. \<^verbatim>\<open>List\<close> has two options, a namespace and labels to match.
\<close>

record ('s, 'w) aruba_repo =
  arp_create :: "'s aruba_object \<Rightarrow> 'w \<Rightarrow> go_error option \<times> 'w"
  arp_load :: "'s aruba_object \<Rightarrow> 'w \<Rightarrow> (go_error + 's aruba_object) \<times> 'w"
  arp_list :: "string option \<Rightarrow> strmap \<Rightarrow> 'w \<Rightarrow> (go_error + 's aruba_object list) \<times> 'w"
  arp_update :: "'s aruba_object \<Rightarrow> 'w \<Rightarrow> go_error option \<times> 'w"
  arp_delete :: "'s aruba_object \<Rightarrow> 'w \<Rightarrow> go_error option \<times> 'w"

definition object_key :: "'s aruba_object \<Rightarrow> string \<times> string" where
  "object_key obj = (ar_namespace obj, ar_name obj)"

definition generic_repository :: "('s, 'w) runtime_client \<Rightarrow> ('s, 'w) aruba_repo" where
  "generic_repository client =
    \<lparr>arp_create = rc_create client,
     arp_load = (\<lambda>obj. case object_key obj of (namespace, name) \<Rightarrow> rc_get client namespace name),
     arp_list = rc_list client, arp_update = rc_update client, arp_delete = rc_delete client\<rparr>"

text \<open>The filter of a watch.\<close>

definition watch_matches :: "'s aruba_object \<Rightarrow> 't aruba_object \<Rightarrow> bool" where
  "watch_matches obj wanted =
    (if ar_name wanted \<noteq> [] \<and> ar_name obj \<noteq> ar_name wanted then False
     else if ar_namespace wanted \<noteq> [] \<and> ar_namespace obj \<noteq> ar_namespace wanted then False
     else True)"

subsection \<open>\<^verbatim>\<open>generic/delegated\<close>\<close>

record ('r, 'sb, 'ab, 'w) generic_delegated =
  gd_resolve_seca :: "'r \<Rightarrow> 'w \<Rightarrow> (go_error + 'sb) \<times> 'w"
  gd_convert :: "'sb \<Rightarrow> go_error + 'ab"
  gd_resolve_aruba :: "'ab \<Rightarrow> 'w \<Rightarrow> (go_error + 'ab) \<times> 'w"
  gd_mutate :: "'ab \<Rightarrow> 'sb \<Rightarrow> go_error + 'ab"
  gd_propagate :: "'ab \<Rightarrow> 'w \<Rightarrow> go_error option \<times> 'w"
  gd_check :: "'sb \<Rightarrow> 'ab \<Rightarrow> 'w \<Rightarrow> (go_error + bool) \<times> 'w"

definition bypass_resolve :: "'a \<Rightarrow> 'w \<Rightarrow> (go_error + 'a) \<times> 'w" where
  "bypass_resolve main w = (Inr main, w)"

definition bypass_mutate :: "'ab \<Rightarrow> 'sb \<Rightarrow> go_error + 'ab" where
  "bypass_mutate mutable params = Inr mutable"

definition new_straight_delegated ::
  "('r \<Rightarrow> go_error + 'a) \<Rightarrow> ('a \<Rightarrow> 'r \<Rightarrow> go_error + 'a) \<Rightarrow> ('a \<Rightarrow> 'w \<Rightarrow> go_error option \<times> 'w)
   \<Rightarrow> ('r \<Rightarrow> 'a \<Rightarrow> 'w \<Rightarrow> (go_error + bool) \<times> 'w) \<Rightarrow> ('r, 'r, 'a, 'w) generic_delegated" where
  "new_straight_delegated convert mutate propagate check =
    \<lparr>gd_resolve_seca = bypass_resolve, gd_convert = convert, gd_resolve_aruba = bypass_resolve,
     gd_mutate = mutate, gd_propagate = propagate, gd_check = check\<rparr>"

definition delegated_do :: "('r, 'sb, 'ab, 'w) generic_delegated \<Rightarrow> 'r \<Rightarrow> 'w \<Rightarrow> go_error option \<times> 'w" where
  "delegated_do d r w =
    (case gd_resolve_seca d r w of
       (Inl err, w1) \<Rightarrow> (Some err, w1)
     | (Inr seca, w1) \<Rightarrow>
       (case gd_convert d seca of
          Inl err \<Rightarrow> (Some err, w1)
        | Inr aruba0 \<Rightarrow>
          (case gd_resolve_aruba d aruba0 w1 of
             (Inl err, w2) \<Rightarrow> (Some err, w2)
           | (Inr aruba, w2) \<Rightarrow>
             (case gd_check d seca aruba w2 of
                (Inl err, w3) \<Rightarrow> (Some err, w3)
              | (Inr True, w3) \<Rightarrow> (None, w3)
              | (Inr False, w3) \<Rightarrow>
                (case gd_mutate d aruba seca of
                   Inl err \<Rightarrow> (Some err, w3)
                 | Inr aruba' \<Rightarrow>
                   (case gd_propagate d aruba' w3 of
                      (Some err, w4) \<Rightarrow> (Some err, w4)
                    | (None, w4) \<Rightarrow> (Some (Sentinel ErrStillProcessing), w4)))))))"

text \<open>A plugin operation of a handler leaves the resource it is handed alone.\<close>

definition plugin_op :: "('r \<Rightarrow> 'w \<Rightarrow> go_error option \<times> 'w) \<Rightarrow> ('r, 'w) delegated" where
  "plugin_op f r w = (case f r w of (err, w') \<Rightarrow> (err, r, w'))"

text \<open>
  What \<^verbatim>\<open>cmd/main.go\<close> hands to the handlers: readers of the platform's resources, repositories of the
  operator's objects, the hash of namespaces.
\<close>

record 'w aruba_env =
  ae_sha3 :: "string \<Rightarrow> string"
  ae_workspaces :: "(workspace, 'w) repo"
  ae_storage_skus :: "(storage_sku, 'w) repo"
  ae_gateways :: "(internet_gateway, 'w) repo"
  ae_nics :: "(nic, 'w) repo"
  ae_security_groups :: "(security_group, 'w) repo"
  ae_security_group_rules :: "(security_group_rule, 'w) repo"
  ae_instance_skus :: "(instance_sku, 'w) repo"
  ae_projects :: "(project_spec, 'w) aruba_repo"
  ae_volumes :: "(volume_spec, 'w) aruba_repo"
  ae_vpcs :: "(vpc_spec, 'w) aruba_repo"
  ae_subnets :: "(aruba_subnet_spec, 'w) aruba_repo"
  ae_elastic_ips :: "(elastic_ip_spec, 'w) aruba_repo"
  ae_groups :: "(aruba_group_spec, 'w) aruba_repo"
  ae_group_rules :: "(aruba_rule_spec, 'w) aruba_repo"
  ae_key_pairs :: "(key_pair_spec, 'w) aruba_repo"
  ae_servers :: "(cloud_server_spec, 'w) aruba_repo"

record 'r seca_bundle =
  sb_main :: 'r
  sb_workspace :: "workspace option"

record 's aruba_bundle =
  ab_main :: "'s aruba_object"
  ab_project :: "project_spec aruba_object option"

text \<open>A nil pointer that is dereferenced: no chain gets there, since each resolves its workspace first.\<close>

definition nil_dereference :: go_error where
  "nil_dereference = GoError ''runtime error: invalid memory address or nil pointer dereference''"

subsection \<open>\<^verbatim>\<open>dependency.go\<close>\<close>

definition load_active_workspace ::
  "(workspace, 'w) repo \<Rightarrow> scope \<Rightarrow> 'w \<Rightarrow> (go_error + workspace) \<times> 'w" where
  "load_active_workspace repo scope w =
    (let ws = regional_metadata.extend (named_metadata (sc_workspace scope) (sc_tenant scope) [] [])
           (workspace.fields [] None) in
     case rp_load repo ws w of
       (Inl err, w1) \<Rightarrow> (Inl (Sentinel ErrStillProcessing), w1)
     | (Inr ws, w1) \<Rightarrow>
         (case ws_status ws of
            None \<Rightarrow> (Inl (Sentinel ErrStillProcessing), w1)
          | Some st \<Rightarrow>
              if st_state (wss_status st) \<noteq> StateActive then (Inl (Sentinel ErrStillProcessing), w1)
              else (Inr ws, w1)))"

definition load_active_project ::
  "(project_spec, 'w) aruba_repo \<Rightarrow> project_spec aruba_object \<Rightarrow> 'w
   \<Rightarrow> (go_error + project_spec aruba_object) \<times> 'w" where
  "load_active_project repo prj w =
    (case arp_load repo prj w of
       (Inl err, w1) \<Rightarrow>
         if kube_is IsNotFound err then (Inl (Sentinel ErrStillProcessing), w1) else (Inl err, w1)
     | (Inr live, w1) \<Rightarrow>
         if ar_phase live \<noteq> ResourcePhaseActive then (Inl (Sentinel ErrStillProcessing), w1)
         else (Inr live, w1))"

definition load_active_aruba ::
  "('s, 'w) aruba_repo \<Rightarrow> 's aruba_object \<Rightarrow> 'w \<Rightarrow> (go_error + 's aruba_object) \<times> 'w" where
  "load_active_aruba repo obj w =
    (case arp_load repo obj w of
       (Inl err, w1) \<Rightarrow>
         if kube_is IsNotFound err then (Inl (Sentinel ErrStillProcessing), w1) else (Inl err, w1)
     | (Inr live, w1) \<Rightarrow>
         if ar_phase live \<noteq> ResourcePhaseActive then (Inl (Sentinel ErrStillProcessing), w1)
         else (Inr live, w1))"

subsection \<open>\<^verbatim>\<open>update.go\<close>\<close>

text \<open>The closure \<open>apply\<close> returns the object it changed, or nothing when it changed nothing.\<close>

definition sync_spec ::
  "('s, 'w) aruba_repo \<Rightarrow> 's aruba_object \<Rightarrow> ('s \<Rightarrow> 's option) \<Rightarrow> 'w \<Rightarrow> go_error option \<times> 'w" where
  "sync_spec repo obj apply w =
    (case arp_load repo obj w of
       (Inl err, w1) \<Rightarrow> (Some err, w1)
     | (Inr live, w1) \<Rightarrow>
         (case apply (ar_spec live) of
            None \<Rightarrow> (None, w1)
          | Some spec \<Rightarrow> arp_update repo (live\<lparr>ar_spec := spec\<rparr>) w1))"

definition sync_tags ::
  "('s, 'w) aruba_repo \<Rightarrow> 's aruba_object \<Rightarrow> string list \<Rightarrow> ('s \<Rightarrow> string list)
   \<Rightarrow> (string list \<Rightarrow> 's \<Rightarrow> 's) \<Rightarrow> 'w \<Rightarrow> go_error option \<times> 'w" where
  "sync_tags repo obj desired tags_of put_tags w =
     sync_spec repo obj (\<lambda>spec. if tags_of spec = desired then None else Some (put_tags desired spec)) w"

subsection \<open>\<^verbatim>\<open>workspace.go\<close>\<close>

definition check_ws_created ::
  "'w aruba_env \<Rightarrow> workspace \<Rightarrow> project_spec aruba_object \<Rightarrow> 'w \<Rightarrow> (go_error + bool) \<times> 'w" where
  "check_ws_created h ws project w =
    (case arp_load (ae_projects h) project w of
       (Inl err, w1) \<Rightarrow> if kube_is IsNotFound err then (Inr False, w1) else (Inl err, w1)
     | (Inr observed, w1) \<Rightarrow> (Inr (ar_phase observed = ResourcePhaseActive), w1))"

definition check_ws_deleted ::
  "'w aruba_env \<Rightarrow> workspace \<Rightarrow> project_spec aruba_object \<Rightarrow> 'w \<Rightarrow> (go_error + bool) \<times> 'w" where
  "check_ws_deleted h ws project w =
    (case arp_load (ae_projects h) project w of
       (Inl err, w1) \<Rightarrow> if kube_is IsNotFound err then (Inr True, w1) else (Inl err, w1)
     | (Inr observed, w1) \<Rightarrow> (Inr False, w1))"

definition ws_propagate_create :: "'w aruba_env \<Rightarrow> project_spec aruba_object \<Rightarrow> 'w \<Rightarrow> go_error option \<times> 'w" where
  "ws_propagate_create h project w =
    (case arp_create (ae_projects h) project w of
       (Some err, w1) \<Rightarrow> if kube_is IsAlreadyExists err then (None, w1) else (Some err, w1)
     | (None, w1) \<Rightarrow> (None, w1))"

definition ws_propagate_delete :: "'w aruba_env \<Rightarrow> project_spec aruba_object \<Rightarrow> 'w \<Rightarrow> go_error option \<times> 'w" where
  "ws_propagate_delete h project w =
    (case arp_delete (ae_projects h) project w of
       (Some err, w1) \<Rightarrow> if kube_is IsNotFound err then (None, w1) else (Some err, w1)
     | (None, w1) \<Rightarrow> (None, w1))"

definition workspace_create_delegated :: "'w aruba_env \<Rightarrow> (workspace, workspace, project_spec aruba_object, 'w) generic_delegated" where
  "workspace_create_delegated h =
     new_straight_delegated (workspace_to_project (ae_sha3 h)) bypass_mutate (ws_propagate_create h) (check_ws_created h)"

definition workspace_delete_delegated :: "'w aruba_env \<Rightarrow> (workspace, workspace, project_spec aruba_object, 'w) generic_delegated" where
  "workspace_delete_delegated h =
     new_straight_delegated (workspace_to_project (ae_sha3 h)) bypass_mutate (ws_propagate_delete h) (check_ws_deleted h)"

definition aruba_workspace_create :: "'w aruba_env \<Rightarrow> (workspace, 'w) delegated" where
  "aruba_workspace_create h = plugin_op (delegated_do (workspace_create_delegated h))"

definition aruba_workspace_delete :: "'w aruba_env \<Rightarrow> (workspace, 'w) delegated" where
  "aruba_workspace_delete h = plugin_op (delegated_do (workspace_delete_delegated h))"

definition aruba_workspace_update :: "'w aruba_env \<Rightarrow> (workspace, 'w) delegated" where
  "aruba_workspace_update h = plugin_op (\<lambda>ws w.
    case workspace_to_project (ae_sha3 h) ws of
      Inl err \<Rightarrow> (Some err, w)
    | Inr prj \<Rightarrow>
        (let tags = prj_tags (ar_spec prj); description = prj_description (ar_spec prj) in
         sync_spec (ae_projects h) prj (\<lambda>live.
           if prj_tags live = tags \<and> prj_description live = description then None
           else Some (live\<lparr>prj_tags := tags, prj_description := description\<rparr>)) w))"

subsection \<open>\<^verbatim>\<open>network.go\<close>\<close>

definition check_vpc_created ::
  "'w aruba_env \<Rightarrow> 'sb \<Rightarrow> vpc_spec aruba_bundle \<Rightarrow> 'w \<Rightarrow> (go_error + bool) \<times> 'w" where
  "check_vpc_created h seca bundle w =
    (case arp_load (ae_vpcs h) (ab_main bundle) w of
       (Inl err, w1) \<Rightarrow> if kube_is IsNotFound err then (Inr False, w1) else (Inl err, w1)
     | (Inr observed, w1) \<Rightarrow> (Inr (ar_phase observed = ResourcePhaseActive), w1))"

definition check_vpc_deleted ::
  "'w aruba_env \<Rightarrow> 'sb \<Rightarrow> vpc_spec aruba_bundle \<Rightarrow> 'w \<Rightarrow> (go_error + bool) \<times> 'w" where
  "check_vpc_deleted h seca bundle w =
    (case arp_load (ae_vpcs h) (ab_main bundle) w of
       (Inl err, w1) \<Rightarrow> if kube_is IsNotFound err then (Inr True, w1) else (Inl err, w1)
     | (Inr observed, w1) \<Rightarrow> (Inr False, w1))"

definition vpc_propagate_create :: "'w aruba_env \<Rightarrow> vpc_spec aruba_bundle \<Rightarrow> 'w \<Rightarrow> go_error option \<times> 'w" where
  "vpc_propagate_create h source w =
    (case arp_create (ae_vpcs h) (ab_main source) w of
       (Some err, w1) \<Rightarrow> if kube_is IsAlreadyExists err then (None, w1) else (Some err, w1)
     | (None, w1) \<Rightarrow> (None, w1))"

definition vpc_propagate_delete :: "'w aruba_env \<Rightarrow> vpc_spec aruba_bundle \<Rightarrow> 'w \<Rightarrow> go_error option \<times> 'w" where
  "vpc_propagate_delete h source w =
    (case arp_delete (ae_vpcs h) (ab_main source) w of
       (Some err, w1) \<Rightarrow> if kube_is IsNotFound err then (None, w1) else (Some err, w1)
     | (None, w1) \<Rightarrow> (None, w1))"

definition network_bypass_resolver :: "network \<Rightarrow> 'w \<Rightarrow> (go_error + network seca_bundle) \<times> 'w" where
  "network_bypass_resolver domain w = (Inr \<lparr>sb_main = domain, sb_workspace = None\<rparr>, w)"

definition resolve_seca_network_dependencies ::
  "'w aruba_env \<Rightarrow> network \<Rightarrow> 'w \<Rightarrow> (go_error + network seca_bundle) \<times> 'w" where
  "resolve_seca_network_dependencies h domain w =
    (case load_active_workspace (ae_workspaces h) (own_scope domain) w of
       (Inl err, w1) \<Rightarrow> (Inl err, w1)
     | (Inr ws, w1) \<Rightarrow>
       (case rp_list (ae_gateways h) \<lparr>sc_tenant = md_tenant domain, sc_workspace = md_workspace domain,
            lp_limit = 0, lp_skip_token = [], lp_selector = []\<rparr> w1 of
          (Inl err, w2) \<Rightarrow> (Inl err, w2)
        | (Inr (igws, token), w2) \<Rightarrow>
            if igws = [] then (Inl (Sentinel ErrStillProcessing), w2)
            else (Inr \<lparr>sb_main = domain, sb_workspace = Some ws\<rparr>, w2)))"

definition resolve_aruba_network_dependencies ::
  "'w aruba_env \<Rightarrow> vpc_spec aruba_bundle \<Rightarrow> 'w \<Rightarrow> (go_error + vpc_spec aruba_bundle) \<times> 'w" where
  "resolve_aruba_network_dependencies h bundle w =
    (case ab_project bundle of
       None \<Rightarrow> (Inl nil_dereference, w)
     | Some prj \<Rightarrow>
       (case load_active_project (ae_projects h) prj w of
          (Inl err, w1) \<Rightarrow> (Inl err, w1)
        | (Inr live, w1) \<Rightarrow> (Inr (bundle\<lparr>ab_project := Some live\<rparr>), w1)))"

definition network_bundle_to_aruba :: "'w aruba_env \<Rightarrow> network seca_bundle \<Rightarrow> go_error + vpc_spec aruba_bundle" where
  "network_bundle_to_aruba h source =
    (case (case sb_workspace source of
             None \<Rightarrow> Inr None
           | Some ws \<Rightarrow> (case workspace_to_project (ae_sha3 h) ws of Inl err \<Rightarrow> Inl err | Inr prj \<Rightarrow> Inr (Some prj))) of
       Inl err \<Rightarrow> Inl err
     | Inr prj \<Rightarrow>
       (case network_to_vpc (ae_sha3 h) (sb_main source) of
          Inl err \<Rightarrow> Inl err
        | Inr obj \<Rightarrow> Inr \<lparr>ab_main = obj, ab_project = prj\<rparr>))"

definition network_create_delegated :: "'w aruba_env \<Rightarrow> (network, network seca_bundle, vpc_spec aruba_bundle, 'w) generic_delegated" where
  "network_create_delegated h =
    \<lparr>gd_resolve_seca = resolve_seca_network_dependencies h, gd_convert = network_bundle_to_aruba h,
     gd_resolve_aruba = resolve_aruba_network_dependencies h, gd_mutate = bypass_mutate,
     gd_propagate = vpc_propagate_create h, gd_check = check_vpc_created h\<rparr>"

definition network_delete_delegated :: "'w aruba_env \<Rightarrow> (network, network seca_bundle, vpc_spec aruba_bundle, 'w) generic_delegated" where
  "network_delete_delegated h =
    \<lparr>gd_resolve_seca = network_bypass_resolver, gd_convert = network_bundle_to_aruba h,
     gd_resolve_aruba = bypass_resolve, gd_mutate = bypass_mutate,
     gd_propagate = vpc_propagate_delete h, gd_check = check_vpc_deleted h\<rparr>"

definition aruba_network_create :: "'w aruba_env \<Rightarrow> (network, 'w) delegated" where
  "aruba_network_create h = plugin_op (delegated_do (network_create_delegated h))"

definition aruba_network_delete :: "'w aruba_env \<Rightarrow> (network, 'w) delegated" where
  "aruba_network_delete h = plugin_op (delegated_do (network_delete_delegated h))"

definition aruba_network_update :: "'w aruba_env \<Rightarrow> (network, 'w) delegated" where
  "aruba_network_update h = plugin_op (\<lambda>r w.
    case network_to_vpc (ae_sha3 h) r of
      Inl err \<Rightarrow> (Some err, w)
    | Inr obj \<Rightarrow> sync_tags (ae_vpcs h) obj (vpc_tags (ar_spec obj)) vpc_tags (\<lambda>ts. vpc_tags_update (\<lambda>_. ts)) w)"

subsection \<open>\<^verbatim>\<open>subnet.go\<close>\<close>

definition check_subnet_created ::
  "'w aruba_env \<Rightarrow> 'sb \<Rightarrow> aruba_subnet_spec aruba_bundle \<Rightarrow> 'w \<Rightarrow> (go_error + bool) \<times> 'w" where
  "check_subnet_created h seca bundle w =
    (case arp_load (ae_subnets h) (ab_main bundle) w of
       (Inl err, w1) \<Rightarrow> if kube_is IsNotFound err then (Inr False, w1) else (Inl err, w1)
     | (Inr observed, w1) \<Rightarrow> (Inr (ar_phase observed = ResourcePhaseActive), w1))"

definition check_subnet_deleted ::
  "'w aruba_env \<Rightarrow> 'sb \<Rightarrow> aruba_subnet_spec aruba_bundle \<Rightarrow> 'w \<Rightarrow> (go_error + bool) \<times> 'w" where
  "check_subnet_deleted h seca bundle w =
    (case arp_load (ae_subnets h) (ab_main bundle) w of
       (Inl err, w1) \<Rightarrow> if kube_is IsNotFound err then (Inr True, w1) else (Inl err, w1)
     | (Inr observed, w1) \<Rightarrow> (Inr False, w1))"

definition subnet_propagate_create :: "'w aruba_env \<Rightarrow> aruba_subnet_spec aruba_bundle \<Rightarrow> 'w \<Rightarrow> go_error option \<times> 'w" where
  "subnet_propagate_create h source w =
    (case arp_create (ae_subnets h) (ab_main source) w of
       (Some err, w1) \<Rightarrow> if kube_is IsAlreadyExists err then (None, w1) else (Some err, w1)
     | (None, w1) \<Rightarrow> (None, w1))"

definition subnet_propagate_delete :: "'w aruba_env \<Rightarrow> aruba_subnet_spec aruba_bundle \<Rightarrow> 'w \<Rightarrow> go_error option \<times> 'w" where
  "subnet_propagate_delete h source w =
    (case arp_delete (ae_subnets h) (ab_main source) w of
       (Some err, w1) \<Rightarrow> if kube_is IsNotFound err then (None, w1) else (Some err, w1)
     | (None, w1) \<Rightarrow> (None, w1))"

definition subnet_bypass_resolver :: "subnet \<Rightarrow> 'w \<Rightarrow> (go_error + subnet seca_bundle) \<times> 'w" where
  "subnet_bypass_resolver domain w = (Inr \<lparr>sb_main = domain, sb_workspace = None\<rparr>, w)"

definition resolve_seca_subnet_dependencies ::
  "'w aruba_env \<Rightarrow> subnet \<Rightarrow> 'w \<Rightarrow> (go_error + subnet seca_bundle) \<times> 'w" where
  "resolve_seca_subnet_dependencies h domain w =
    (case load_active_workspace (ae_workspaces h) (own_scope domain) w of
       (Inl err, w1) \<Rightarrow> (Inl err, w1)
     | (Inr ws, w1) \<Rightarrow> (Inr \<lparr>sb_main = domain, sb_workspace = Some ws\<rparr>, w1))"

text \<open>An object that is only a key, to be loaded.\<close>

definition key_object :: "string \<Rightarrow> string \<Rightarrow> 's \<Rightarrow> 's aruba_object" where
  "key_object name namespace zero = new_aruba_object name namespace [] zero"

definition no_aruba_reference :: aruba_reference where
  "no_aruba_reference = \<lparr>aref_name = [], aref_namespace = []\<rparr>"

definition zero_vpc_spec :: vpc_spec where
  "zero_vpc_spec = \<lparr>vpc_tenant = [], vpc_region = [], vpc_tags = [], vpc_project = no_aruba_reference\<rparr>"

definition resolve_aruba_subnet_dependencies ::
  "'w aruba_env \<Rightarrow> aruba_subnet_spec aruba_bundle \<Rightarrow> 'w
   \<Rightarrow> (go_error + aruba_subnet_spec aruba_bundle) \<times> 'w" where
  "resolve_aruba_subnet_dependencies h bundle w =
    (case ab_project bundle of
       None \<Rightarrow> (Inl nil_dereference, w)
     | Some prj \<Rightarrow>
       (case load_active_project (ae_projects h) prj w of
          (Inl err, w1) \<Rightarrow> (Inl err, w1)
        | (Inr live, w1) \<Rightarrow>
          (let vpc_ref = asn_vpc (ar_spec (ab_main bundle)) in
           case arp_load (ae_vpcs h) (key_object (aref_name vpc_ref) (aref_namespace vpc_ref) zero_vpc_spec) w1 of
             (Inl err, w2) \<Rightarrow>
               if kube_is IsNotFound err then (Inl (Sentinel ErrStillProcessing), w2) else (Inl err, w2)
           | (Inr vpc, w2) \<Rightarrow>
               if ar_phase vpc \<noteq> ResourcePhaseActive then (Inl (Sentinel ErrStillProcessing), w2)
               else (Inr (bundle\<lparr>ab_project := Some live\<rparr>), w2))))"

definition subnet_bundle_to_aruba :: "'w aruba_env \<Rightarrow> subnet seca_bundle \<Rightarrow> go_error + aruba_subnet_spec aruba_bundle" where
  "subnet_bundle_to_aruba h source =
    (case (case sb_workspace source of
             None \<Rightarrow> Inr None
           | Some ws \<Rightarrow> (case workspace_to_project (ae_sha3 h) ws of Inl err \<Rightarrow> Inl err | Inr prj \<Rightarrow> Inr (Some prj))) of
       Inl err \<Rightarrow> Inl err
     | Inr prj \<Rightarrow>
       (case subnet_to_aruba (ae_sha3 h) (sb_main source) of
          Inl err \<Rightarrow> Inl err
        | Inr obj \<Rightarrow> Inr \<lparr>ab_main = obj, ab_project = prj\<rparr>))"

definition subnet_create_delegated :: "'w aruba_env \<Rightarrow> (subnet, subnet seca_bundle, aruba_subnet_spec aruba_bundle, 'w) generic_delegated" where
  "subnet_create_delegated h =
    \<lparr>gd_resolve_seca = resolve_seca_subnet_dependencies h, gd_convert = subnet_bundle_to_aruba h,
     gd_resolve_aruba = resolve_aruba_subnet_dependencies h, gd_mutate = bypass_mutate,
     gd_propagate = subnet_propagate_create h, gd_check = check_subnet_created h\<rparr>"

definition subnet_delete_delegated :: "'w aruba_env \<Rightarrow> (subnet, subnet seca_bundle, aruba_subnet_spec aruba_bundle, 'w) generic_delegated" where
  "subnet_delete_delegated h =
    \<lparr>gd_resolve_seca = subnet_bypass_resolver, gd_convert = subnet_bundle_to_aruba h,
     gd_resolve_aruba = bypass_resolve, gd_mutate = bypass_mutate,
     gd_propagate = subnet_propagate_delete h, gd_check = check_subnet_deleted h\<rparr>"

definition aruba_subnet_create :: "'w aruba_env \<Rightarrow> (subnet, 'w) delegated" where
  "aruba_subnet_create h = plugin_op (delegated_do (subnet_create_delegated h))"

definition aruba_subnet_delete :: "'w aruba_env \<Rightarrow> (subnet, 'w) delegated" where
  "aruba_subnet_delete h = plugin_op (delegated_do (subnet_delete_delegated h))"

definition aruba_subnet_update :: "'w aruba_env \<Rightarrow> (subnet, 'w) delegated" where
  "aruba_subnet_update h = plugin_op (\<lambda>r w.
    case subnet_to_aruba (ae_sha3 h) r of
      Inl err \<Rightarrow> (Some err, w)
    | Inr obj \<Rightarrow> sync_tags (ae_subnets h) obj (asn_tags (ar_spec obj)) asn_tags (\<lambda>ts. asn_tags_update (\<lambda>_. ts)) w)"

subsection \<open>\<^verbatim>\<open>public-ip.go\<close>\<close>

definition check_eip_created ::
  "'w aruba_env \<Rightarrow> 'sb \<Rightarrow> elastic_ip_spec aruba_bundle \<Rightarrow> 'w \<Rightarrow> (go_error + bool) \<times> 'w" where
  "check_eip_created h seca bundle w =
    (case arp_load (ae_elastic_ips h) (ab_main bundle) w of
       (Inl err, w1) \<Rightarrow> if kube_is IsNotFound err then (Inr False, w1) else (Inl err, w1)
     | (Inr observed, w1) \<Rightarrow> (Inr (ar_phase observed = ResourcePhaseActive), w1))"

definition check_eip_deleted ::
  "'w aruba_env \<Rightarrow> 'sb \<Rightarrow> elastic_ip_spec aruba_bundle \<Rightarrow> 'w \<Rightarrow> (go_error + bool) \<times> 'w" where
  "check_eip_deleted h seca bundle w =
    (case arp_load (ae_elastic_ips h) (ab_main bundle) w of
       (Inl err, w1) \<Rightarrow> if kube_is IsNotFound err then (Inr True, w1) else (Inl err, w1)
     | (Inr observed, w1) \<Rightarrow> (Inr False, w1))"

definition eip_propagate_create :: "'w aruba_env \<Rightarrow> elastic_ip_spec aruba_bundle \<Rightarrow> 'w \<Rightarrow> go_error option \<times> 'w" where
  "eip_propagate_create h source w =
    (case arp_create (ae_elastic_ips h) (ab_main source) w of
       (Some err, w1) \<Rightarrow> if kube_is IsAlreadyExists err then (None, w1) else (Some err, w1)
     | (None, w1) \<Rightarrow> (None, w1))"

definition eip_propagate_delete :: "'w aruba_env \<Rightarrow> elastic_ip_spec aruba_bundle \<Rightarrow> 'w \<Rightarrow> go_error option \<times> 'w" where
  "eip_propagate_delete h source w =
    (case arp_delete (ae_elastic_ips h) (ab_main source) w of
       (Some err, w1) \<Rightarrow> if kube_is IsNotFound err then (None, w1) else (Some err, w1)
     | (None, w1) \<Rightarrow> (None, w1))"

definition public_ip_bypass_resolver :: "public_ip \<Rightarrow> 'w \<Rightarrow> (go_error + public_ip seca_bundle) \<times> 'w" where
  "public_ip_bypass_resolver domain w = (Inr \<lparr>sb_main = domain, sb_workspace = None\<rparr>, w)"

definition resolve_seca_public_ip_dependencies ::
  "'w aruba_env \<Rightarrow> public_ip \<Rightarrow> 'w \<Rightarrow> (go_error + public_ip seca_bundle) \<times> 'w" where
  "resolve_seca_public_ip_dependencies h domain w =
    (case load_active_workspace (ae_workspaces h) (own_scope domain) w of
       (Inl err, w1) \<Rightarrow> (Inl err, w1)
     | (Inr ws, w1) \<Rightarrow> (Inr \<lparr>sb_main = domain, sb_workspace = Some ws\<rparr>, w1))"

definition resolve_aruba_public_ip_dependencies ::
  "'w aruba_env \<Rightarrow> elastic_ip_spec aruba_bundle \<Rightarrow> 'w \<Rightarrow> (go_error + elastic_ip_spec aruba_bundle) \<times> 'w" where
  "resolve_aruba_public_ip_dependencies h bundle w =
    (case ab_project bundle of
       None \<Rightarrow> (Inl nil_dereference, w)
     | Some prj \<Rightarrow>
       (case load_active_project (ae_projects h) prj w of
          (Inl err, w1) \<Rightarrow> (Inl err, w1)
        | (Inr live, w1) \<Rightarrow> (Inr (bundle\<lparr>ab_project := Some live\<rparr>), w1)))"

definition public_ip_bundle_to_aruba :: "'w aruba_env \<Rightarrow> public_ip seca_bundle \<Rightarrow> go_error + elastic_ip_spec aruba_bundle" where
  "public_ip_bundle_to_aruba h source =
    (case (case sb_workspace source of
             None \<Rightarrow> Inr None
           | Some ws \<Rightarrow> (case workspace_to_project (ae_sha3 h) ws of Inl err \<Rightarrow> Inl err | Inr prj \<Rightarrow> Inr (Some prj))) of
       Inl err \<Rightarrow> Inl err
     | Inr prj \<Rightarrow>
       (case public_ip_to_elastic_ip (ae_sha3 h) (sb_main source) of
          Inl err \<Rightarrow> Inl err
        | Inr obj \<Rightarrow> Inr \<lparr>ab_main = obj, ab_project = prj\<rparr>))"

definition public_ip_create_delegated :: "'w aruba_env \<Rightarrow> (public_ip, public_ip seca_bundle, elastic_ip_spec aruba_bundle, 'w) generic_delegated" where
  "public_ip_create_delegated h =
    \<lparr>gd_resolve_seca = resolve_seca_public_ip_dependencies h, gd_convert = public_ip_bundle_to_aruba h,
     gd_resolve_aruba = resolve_aruba_public_ip_dependencies h, gd_mutate = bypass_mutate,
     gd_propagate = eip_propagate_create h, gd_check = check_eip_created h\<rparr>"

definition public_ip_delete_delegated :: "'w aruba_env \<Rightarrow> (public_ip, public_ip seca_bundle, elastic_ip_spec aruba_bundle, 'w) generic_delegated" where
  "public_ip_delete_delegated h =
    \<lparr>gd_resolve_seca = public_ip_bypass_resolver, gd_convert = public_ip_bundle_to_aruba h,
     gd_resolve_aruba = bypass_resolve, gd_mutate = bypass_mutate,
     gd_propagate = eip_propagate_delete h, gd_check = check_eip_deleted h\<rparr>"

definition aruba_public_ip_create :: "'w aruba_env \<Rightarrow> (public_ip, 'w) delegated" where
  "aruba_public_ip_create h = plugin_op (delegated_do (public_ip_create_delegated h))"

definition aruba_public_ip_delete :: "'w aruba_env \<Rightarrow> (public_ip, 'w) delegated" where
  "aruba_public_ip_delete h = plugin_op (delegated_do (public_ip_delete_delegated h))"

definition aruba_public_ip_update :: "'w aruba_env \<Rightarrow> (public_ip, 'w) delegated" where
  "aruba_public_ip_update h = plugin_op (\<lambda>r w.
    case public_ip_to_elastic_ip (ae_sha3 h) r of
      Inl err \<Rightarrow> (Some err, w)
    | Inr obj \<Rightarrow> sync_tags (ae_elastic_ips h) obj (eip_tags (ar_spec obj)) eip_tags (\<lambda>ts. eip_tags_update (\<lambda>_. ts)) w)"

subsection \<open>\<^verbatim>\<open>block-storage.go\<close>\<close>

definition last_segment :: "string \<Rightarrow> string" where
  "last_segment resource =
    (case last_index CHR ''/'' resource of Some i \<Rightarrow> drop (Suc i) resource | None \<Rightarrow> resource)"

record volume_seca_bundle = "block_storage seca_bundle" +
  sb_storage_sku :: "storage_sku option"

definition check_bs_created ::
  "'w aruba_env \<Rightarrow> 'sb \<Rightarrow> volume_spec aruba_bundle \<Rightarrow> 'w \<Rightarrow> (go_error + bool) \<times> 'w" where
  "check_bs_created h seca bundle w =
    (case arp_load (ae_volumes h) (ab_main bundle) w of
       (Inl err, w1) \<Rightarrow> if kube_is IsNotFound err then (Inr False, w1) else (Inl err, w1)
     | (Inr observed, w1) \<Rightarrow> (Inr (ar_phase observed = ResourcePhaseActive), w1))"

definition check_bs_deleted ::
  "'w aruba_env \<Rightarrow> 'sb \<Rightarrow> volume_spec aruba_bundle \<Rightarrow> 'w \<Rightarrow> (go_error + bool) \<times> 'w" where
  "check_bs_deleted h seca bundle w =
    (case arp_load (ae_volumes h) (ab_main bundle) w of
       (Inl err, w1) \<Rightarrow> if kube_is IsNotFound err then (Inr True, w1) else (Inl err, w1)
     | (Inr observed, w1) \<Rightarrow> (Inr False, w1))"

definition bs_propagate_create :: "'w aruba_env \<Rightarrow> volume_spec aruba_bundle \<Rightarrow> 'w \<Rightarrow> go_error option \<times> 'w" where
  "bs_propagate_create h source w =
    (case arp_create (ae_volumes h) (ab_main source) w of
       (Some err, w1) \<Rightarrow> if kube_is IsAlreadyExists err then (None, w1) else (Some err, w1)
     | (None, w1) \<Rightarrow> (None, w1))"

definition bs_propagate_delete :: "'w aruba_env \<Rightarrow> volume_spec aruba_bundle \<Rightarrow> 'w \<Rightarrow> go_error option \<times> 'w" where
  "bs_propagate_delete h source w =
    (case arp_delete (ae_volumes h) (ab_main source) w of
       (Some err, w1) \<Rightarrow> if kube_is IsNotFound err then (None, w1) else (Some err, w1)
     | (None, w1) \<Rightarrow> (None, w1))"

definition check_bs_resized ::
  "'w aruba_env \<Rightarrow> volume_seca_bundle \<Rightarrow> volume_spec aruba_bundle \<Rightarrow> 'w \<Rightarrow> (go_error + bool) \<times> 'w" where
  "check_bs_resized h seca bundle w =
    (case seca_to_aruba_size (bss_size_gb (bs_spec (sb_main seca))) of
       Inl err \<Rightarrow> (Inl err, w)
     | Inr desired \<Rightarrow>
       (case arp_load (ae_volumes h) (ab_main bundle) w of
          (Inl err, w1) \<Rightarrow> (Inl err, w1)
        | (Inr observed, w1) \<Rightarrow>
            (Inr (vol_size_gb (ar_spec observed) = desired \<and> ar_phase observed = ResourcePhaseActive), w1)))"

definition volume_mutate_size ::
  "volume_spec aruba_bundle \<Rightarrow> volume_seca_bundle \<Rightarrow> go_error + volume_spec aruba_bundle" where
  "volume_mutate_size mutable params =
    (case seca_to_aruba_size (bss_size_gb (bs_spec (sb_main params))) of
       Inl err \<Rightarrow> Inl err
     | Inr size_gb \<Rightarrow>
         Inr (mutable\<lparr>ab_main := (ab_main mutable)\<lparr>ar_spec := (ar_spec (ab_main mutable))\<lparr>vol_size_gb := size_gb\<rparr>\<rparr>\<rparr>))"

definition volume_bypass_resolver :: "block_storage \<Rightarrow> 'w \<Rightarrow> (go_error + volume_seca_bundle) \<times> 'w" where
  "volume_bypass_resolver domain w =
    (Inr \<lparr>sb_main = domain, sb_workspace = None, sb_storage_sku = None\<rparr>, w)"

definition resolve_seca_volume_dependencies ::
  "'w aruba_env \<Rightarrow> block_storage \<Rightarrow> 'w \<Rightarrow> (go_error + volume_seca_bundle) \<times> 'w" where
  "resolve_seca_volume_dependencies h domain w =
    (let ws = regional_metadata.extend (named_metadata (md_workspace domain) (md_tenant domain) [] [])
           (workspace.fields [] None) in
     case rp_load (ae_workspaces h) ws w of
       (Inl err, w1) \<Rightarrow> (Inl (Sentinel ErrStillProcessing), w1)
     | (Inr ws, w1) \<Rightarrow>
       if (case ws_status ws of None \<Rightarrow> True | Some st \<Rightarrow> st_state (wss_status st) \<noteq> StateActive)
       then (Inl (Sentinel ErrStillProcessing), w1)
       else let sku_name = last_segment (ref_resource (bss_sku_ref (bs_spec domain))) in
         if sku_name = [] then (Inl (GoError ''invalid SKU reference''), w1)
         else (case rp_load (ae_storage_skus h)
                 (regional_metadata.extend (named_metadata sku_name (md_tenant domain) [] [])
                   (storage_sku.fields \<lparr>ssks_iops = 0, ssks_min_volume_size = 0, ssks_type = []\<rparr>)) w1 of
             (Inl err, w2) \<Rightarrow> (Inl err, w2)
           | (Inr sku, w2) \<Rightarrow>
               (Inr \<lparr>sb_main = domain, sb_workspace = Some ws, sb_storage_sku = Some sku\<rparr>, w2)))"

definition resolve_aruba_volume_dependencies ::
  "'w aruba_env \<Rightarrow> volume_spec aruba_bundle \<Rightarrow> 'w \<Rightarrow> (go_error + volume_spec aruba_bundle) \<times> 'w" where
  "resolve_aruba_volume_dependencies h bundle w =
    (case ab_project bundle of
       None \<Rightarrow> (Inl nil_dereference, w)
     | Some prj \<Rightarrow>
       (case load_active_project (ae_projects h) prj w of
          (Inl err, w1) \<Rightarrow> (Inl err, w1)
        | (Inr live, w1) \<Rightarrow> (Inr (bundle\<lparr>ab_project := Some live\<rparr>), w1)))"

text \<open>What the object gets from the SKU and the source image, on creation only.\<close>

definition with_storage_sku :: "block_storage \<Rightarrow> storage_sku \<Rightarrow> volume_spec \<Rightarrow> go_error + volume_spec" where
  "with_storage_sku b sku spec =
    (let typed = spec\<lparr>vol_tier := storage_type (ssks_iops (ssk_spec sku))\<rparr> in
     case bss_source_image_ref (bs_spec b) of
       None \<Rightarrow> Inr typed
     | Some ref \<Rightarrow>
         (case image_template (last_segment (ref_resource ref)) of
            Inl err \<Rightarrow> Inl err
          | Inr code \<Rightarrow> Inr (typed\<lparr>vol_image := code, vol_bootable := True\<rparr>)))"

definition volume_bundle_to_aruba ::
  "'w aruba_env \<Rightarrow> volume_seca_bundle \<Rightarrow> go_error + volume_spec aruba_bundle" where
  "volume_bundle_to_aruba h source =
    (case (case sb_workspace source of
             None \<Rightarrow> Inr None
           | Some ws \<Rightarrow> (case workspace_to_project (ae_sha3 h) ws of Inl err \<Rightarrow> Inl err | Inr prj \<Rightarrow> Inr (Some prj))) of
       Inl err \<Rightarrow> Inl err
     | Inr prj \<Rightarrow>
       (case volume_to_aruba (ae_sha3 h) (sb_main source) of
          Inl err \<Rightarrow> Inl err
        | Inr obj \<Rightarrow>
          (case (case sb_storage_sku source of
                   None \<Rightarrow> Inr (ar_spec obj)
                 | Some sku \<Rightarrow> with_storage_sku (sb_main source) sku (ar_spec obj)) of
             Inl err \<Rightarrow> Inl err
           | Inr spec \<Rightarrow> Inr \<lparr>ab_main = obj\<lparr>ar_spec := spec\<rparr>, ab_project = prj\<rparr>)))"

definition volume_propagate_update :: "'w aruba_env \<Rightarrow> volume_spec aruba_bundle \<Rightarrow> 'w \<Rightarrow> go_error option \<times> 'w" where
  "volume_propagate_update h source w = arp_update (ae_volumes h) (ab_main source) w"

definition resolve_live_volume ::
  "'w aruba_env \<Rightarrow> volume_spec aruba_bundle \<Rightarrow> 'w \<Rightarrow> (go_error + volume_spec aruba_bundle) \<times> 'w" where
  "resolve_live_volume h main w =
    (case arp_load (ae_volumes h) (ab_main main) w of
       (Inl err, w1) \<Rightarrow> (Inl err, w1)
     | (Inr live, w1) \<Rightarrow> (Inr \<lparr>ab_main = live, ab_project = None\<rparr>, w1))"

definition volume_create_delegated :: "'w aruba_env \<Rightarrow> (block_storage, volume_seca_bundle, volume_spec aruba_bundle, 'w) generic_delegated" where
  "volume_create_delegated h =
    \<lparr>gd_resolve_seca = resolve_seca_volume_dependencies h, gd_convert = volume_bundle_to_aruba h,
     gd_resolve_aruba = resolve_aruba_volume_dependencies h, gd_mutate = bypass_mutate,
     gd_propagate = bs_propagate_create h, gd_check = check_bs_created h\<rparr>"

definition volume_delete_delegated :: "'w aruba_env \<Rightarrow> (block_storage, volume_seca_bundle, volume_spec aruba_bundle, 'w) generic_delegated" where
  "volume_delete_delegated h =
    \<lparr>gd_resolve_seca = volume_bypass_resolver, gd_convert = volume_bundle_to_aruba h,
     gd_resolve_aruba = bypass_resolve, gd_mutate = bypass_mutate,
     gd_propagate = bs_propagate_delete h, gd_check = check_bs_deleted h\<rparr>"

definition aruba_volume_create :: "'w aruba_env \<Rightarrow> (block_storage, 'w) delegated" where
  "aruba_volume_create h = plugin_op (delegated_do (volume_create_delegated h))"

definition aruba_volume_delete :: "'w aruba_env \<Rightarrow> (block_storage, 'w) delegated" where
  "aruba_volume_delete h = plugin_op (delegated_do (volume_delete_delegated h))"

definition aruba_volume_update :: "'w aruba_env \<Rightarrow> (block_storage, 'w) delegated" where
  "aruba_volume_update h = plugin_op (\<lambda>r w.
    case volume_to_aruba (ae_sha3 h) r of
      Inl err \<Rightarrow> (Some err, w)
    | Inr obj \<Rightarrow> sync_tags (ae_volumes h) obj (vol_tags (ar_spec obj)) vol_tags (\<lambda>ts. vol_tags_update (\<lambda>_. ts)) w)"

definition volume_increase_size_delegated ::
  "'w aruba_env \<Rightarrow> (block_storage, volume_seca_bundle, volume_spec aruba_bundle, 'w) generic_delegated" where
  "volume_increase_size_delegated h =
    \<lparr>gd_resolve_seca = volume_bypass_resolver, gd_convert = volume_bundle_to_aruba h,
     gd_resolve_aruba = resolve_live_volume h, gd_mutate = volume_mutate_size,
     gd_propagate = volume_propagate_update h, gd_check = check_bs_resized h\<rparr>"

definition aruba_volume_increase_size :: "'w aruba_env \<Rightarrow> (block_storage, 'w) delegated" where
  "aruba_volume_increase_size h = plugin_op (delegated_do (volume_increase_size_delegated h))"

subsection \<open>\<^verbatim>\<open>noop.go\<close>\<close>

text \<open>
  Images, internet gateways, route tables, security group rules and NICs have no Aruba object: Create,
  Delete and Update of their handlers succeed and do nothing.
\<close>

definition aruba_image_noop :: "(image, 'w) delegated" where
  "aruba_image_noop = plugin_op (\<lambda>r w. (None, w))"

definition aruba_internet_gateway_noop :: "(internet_gateway, 'w) delegated" where
  "aruba_internet_gateway_noop = plugin_op (\<lambda>r w. (None, w))"

definition aruba_route_table_noop :: "(route_table, 'w) delegated" where
  "aruba_route_table_noop = plugin_op (\<lambda>r w. (None, w))"

definition aruba_security_group_rule_noop :: "(security_group_rule, 'w) delegated" where
  "aruba_security_group_rule_noop = plugin_op (\<lambda>r w. (None, w))"

definition aruba_nic_noop :: "(nic, 'w) delegated" where
  "aruba_nic_noop = plugin_op (\<lambda>r w. (None, w))"

end
