(* ===== verification/Plugin_Contract.thy ===== *)
theory Plugin_Contract
  imports Handler_Properties Controller
begin

section \<open>What the platform does with a plugin's answers\<close>

text \<open>
  The step from a plugin to its resources, for any plugin whose operations leave the resource as it
  is: a pass that makes a resource active ran a Create that succeeded, and the controller releases a
  resource only after a Delete that succeeded. What a plugin keeps elsewhere is an observation of the
  world that the platform's own writes do not touch.
\<close>

text \<open>Status writes of the platform touch none of the operator's objects and do not miss the resource.\<close>

definition steady :: "('w \<Rightarrow> 'k) \<Rightarrow> ('r, 'w) repo \<Rightarrow> bool" where
  "steady kept repo \<longleftrightarrow> (\<forall>r w. kept (snd (rp_update_status repo r w)) = kept w \<and>
     (\<forall>err. fst (rp_update_status repo r w) = Inl err \<longrightarrow> \<not> errors_is err err_not_found))"

text \<open>The controller's client of the platform's objects touches none of the operator's.\<close>

definition apart :: "('w \<Rightarrow> 'k) \<Rightarrow> ('o, 'w) kube_client \<Rightarrow> bool" where
  "apart kept c \<longleftrightarrow> (\<forall>name w. kept (snd (kc_get c name w)) = kept w) \<and>
     (\<forall>obj w. kept (snd (kc_update c obj w)) = kept w)"

lemma controller_worlds:
  assumes "apart kept c" and "kc_get c name w = (Inr obj, w1)" and "ko_deletion obj \<noteq> None" and "conv obj = Inr r"
    and "handle r w1 = (res1, r', w2)"
    and "controller_reconcile (logging c) conv (lifted handle) after m (\<lambda>lw. now (snd lw)) name ([], w) = (res, (log, w'))"
  shows "kept w1 = kept w" and "kept w' = kept w2"
proof -
  show "kept w1 = kept w" using assms(1,2) by (metis apart_def snd_conv)
  have g: "kept w4 = kept w3" if "kc_get c nm w3 = (x, w4)" for nm x w3 w4
    using assms(1) that by (metis apart_def snd_conv)
  have u: "kept w4 = kept w3" if "kc_update c ob w3 = (x, w4)" for ob x w3 w4
    using assms(1) that by (metis apart_def snd_conv)
  show "kept w' = kept w2"
    using assms(2-) by (auto simp: controller_reconcile_def
        split: prod.splits sum.splits option.splits if_splits reconcile_result.splits bool.splits dest!: g u)
qed

context plain_reconciler begin

text \<open>A pass that makes a resource active ran a Create that succeeded.\<close>

lemma active_ran_create:
  assumes q: "quiet_plugin deleted status_of h" and ok: "view_ok (status_of r)"
    and st: "steady kept (h_repo h)" and f: "reconcile h r w = (res, r', w')"
    and a: "phase_of (status_of r') = Phase StateActive" "phase_of (status_of r) \<noteq> Phase StateActive"
    and leaves: "fst (snd (h_create h r w)) = r"
  shows "\<exists>w1. h_create h r w = (None, r, w1) \<and> kept w' = kept w1"
proof -
  from active_by_create [OF q _ _ ok f a] have "phase_of (status_of r) = Phase StateCreating" by simp
  moreover have "lc_move (deleted r) (phase_of (status_of r)) (Phase StateActive)"
    using pass_okD(4) [OF reconcile_pass_ok [OF q ok f]] a by simp
  with active_only_from a have "\<not> deleted r" by blast
  ultimately have arm: "arm_of (deleted r) (status_of r) = ArmCreating"
    by (cases "status_of r") (auto simp: arm_of_iff)
  obtain e r1 w1 where c: "h_create h r w = (e, r1, w1)" by (metis prod_cases3)
  with leaves have r1: "r1 = r" by simp
  have l: "lifecycle deleted status_of put_status h r w = (res, r', w')" using f by (simp add: reconcile_eq)
  show ?thesis
  proof (cases e)
    case None
    with l arm c r1 have "settle status_of put_status h (condition_from_state (h_now h w1) StateActive) False r w1 = (res, r', w')"
      by (simp add: lifecycle_def delegate_of_def after_delegate_def settle_state_def)
    then have "kept w' = kept w1" using st by (auto simp: steady_def elim: settle_cases)
    with c None r1 show ?thesis by blast
  next
    case (Some err)
    with l arm c r1 have "settle_failure status_of put_status h err r w1 = (res, r', w')"
      by (simp add: lifecycle_def delegate_of_def)
    then have False
    proof (cases rule: settle_failure_cases)
      case busy
      with a show False by simp
    next
      case (failed res1)
      from settle_view(4) [OF failed(2) ok] a show False by simp
    qed
    then show ?thesis ..
  qed
qed

text \<open>A pass over a marked resource that asks for nothing more ran a Delete that succeeded.\<close>

lemma released_ran_delete:
  assumes d: "deleted r" "status_of r \<noteq> None" and st: "steady kept (h_repo h)"
    and f: "reconcile h r w = (Reconciled False None, r', w')"
    and leaves: "fst (snd (h_delete h r w)) = r"
  shows "h_delete h r w = (None, r, w')"
proof -
  have l: "lifecycle deleted status_of put_status h r w = (Reconciled False None, r', w')" using f by (simp add: reconcile_eq)
  obtain st0 where st0: "status_of r = Some st0" using d(2) by auto
  show ?thesis
  proof (cases "st_state st0 = StateDeleting")
    case False
    with st0 d(1) have "arm_of (deleted r) (status_of r) = ArmWantDelete" by (simp add: arm_of_def)
    with l have "settle status_of put_status h (condition_from_state (h_now h w) StateDeleting) True r w
        = (Reconciled False None, r', w')"
      by (simp add: lifecycle_def delegate_of_def bypass_delegated_def after_delegate_def settle_state_def)
    with st show ?thesis
      by (auto simp: settle_def Let_def steady_def split: prod.splits sum.splits if_splits) (metis fst_conv)
  next
    case True
    with st0 d(1) have arm: "arm_of (deleted r) (status_of r) = ArmDeleting" by (simp add: arm_of_def)
    obtain e r1 w1 where c: "h_delete h r w = (e, r1, w1)" by (metis prod_cases3)
    with leaves have r1: "r1 = r" by simp
    show ?thesis
    proof (cases e)
      case None
      with l arm c r1 show ?thesis by (simp add: lifecycle_def delegate_of_def after_delegate_def)
    next
      case (Some err)
      with l arm c r1 have "settle_failure status_of put_status h err r w1 = (Reconciled False None, r', w')"
        by (simp add: lifecycle_def delegate_of_def)
      then have False
        by (auto simp: settle_failure_def split: if_splits prod.splits reconcile_result.splits option.splits)
      then show ?thesis ..
    qed
  qed
qed

text \<open>The controller writes a marked resource, to release it, only after a Delete that succeeded.\<close>

lemma release_ran_delete:
  assumes st: "steady kept (h_repo h)" and ap: "apart kept c"
    and obj: "kc_get c name w = (Inr obj, w1)" "ko_deletion obj \<noteq> None" "conv obj = Inr r"
    and d: "deleted r" "status_of r \<noteq> None"
    and f: "controller_reconcile (logging c) conv (lifted (reconcile h)) after m (\<lambda>lw. now (snd lw)) name ([], w)
      = (res, (log, w'))"
    and wrote: "log \<noteq> []" and leaves: "\<And>w. fst (snd (h_delete h r w)) = r"
  shows "\<exists>w2. h_delete h r w1 = (None, r, w2) \<and> kept w1 = kept w \<and> kept w' = kept w2"
  using f
proof (cases rule: controller_updates)
  case (release obj' w1' r0 r' w2 obj2 w3)
  with obj have r0: "reconcile h r w1 = (Reconciled False None, r', w2)" by simp
  from released_ran_delete [OF d st r0 leaves] controller_worlds [OF ap obj r0 f] show ?thesis by blast
qed (use obj wrote in simp_all)

end

subsection \<open>A platform of no consequence\<close>

text \<open>A platform whose status writes succeed and change nothing of the provider.\<close>

definition silent_handler :: "('r, 'w) delegated \<Rightarrow> ('r, 'w) delegated \<Rightarrow> ('r, 'w) plugin_handler" where
  "silent_handler create delete = \<lparr>
     h_repo = \<lparr>rp_create = (\<lambda>r w. (Inr r, w)), rp_update = (\<lambda>r w. (Inr r, w)), rp_update_status = (\<lambda>r w. (Inr r, w)),
       rp_delete = (\<lambda>r w. (None, w)), rp_load = (\<lambda>r w. (Inr r, w)), rp_list = (\<lambda>p w. (Inr ([], None), w))\<rparr>,
     h_create = create, h_update = bypass_delegated, h_delete = delete, h_max_conditions = 3, h_now = (\<lambda>w. 0)\<rparr>"

definition silent_client :: "'o \<Rightarrow> ('o, 'w) kube_client" where
  "silent_client obj = \<lparr>kc_get = (\<lambda>name w. (Inr obj, w)), kc_update = (\<lambda>obj w. (None, w)),
     kc_status_update = (\<lambda>obj w. (None, w))\<rparr>"

lemma silent_handler_simps [simp]:
  "h_create (silent_handler c d) = c" "h_delete (silent_handler c d) = d"
  "h_update (silent_handler c d) = bypass_delegated"
  "h_max_conditions (silent_handler c d) = 3" "h_now (silent_handler c d) = (\<lambda>w. 0)"
  "rp_update_status (h_repo (silent_handler c d)) r w = (Inr r, w)"
  "steady kept (h_repo (silent_handler c d))"
  by (simp_all add: silent_handler_def steady_def)

lemma silent_client_simps [simp]:
  "kc_get (silent_client obj) name w = (Inr obj, w)" "kc_update (silent_client obj) o1 w = (None, w)"
  "apart kept (silent_client obj)"
  by (simp_all add: silent_client_def apart_def)

lemma silent_quiet:
  assumes "\<And>r w. fst (snd (create r w)) = r" and "\<And>r w. fst (snd (delete r w)) = r"
  shows "quiet_plugin deleted status_of (silent_handler create delete)"
  using assms by (auto simp: quiet_plugin_def quiet_def bypass_delegated_def)

end
