(* ===== verification/Aruba_Contract.thy ===== *)
theory Aruba_Contract
  imports Aruba_Plugin Plugin_Contract
begin

section \<open>What the Aruba handlers promise\<close>

text \<open>
  The five handlers with an Aruba object share their steps. \<open>create_pass\<close> and \<open>delete_pass\<close> are these
  steps once; the locale \<open>aruba_kind\<close> says that a handler's Create and Delete come to them, and has what
  follows on a server that keeps the operator's objects: Create reports success only for an object that
  is there and active, Delete only for one that is gone, and neither changes anything but the object of
  its resource. With the plugin handler of the kind on top: a resource is active only with an active
  Aruba object, and is released only without one.
\<close>

subsection \<open>The server\<close>

text \<open>
  The documented behaviour of the API server, for one kind, over \<open>kept\<close>, the objects it keeps. Any
  operation may also fail for another reason, with nothing changed. A deleted object may stay for a
  while.
\<close>

definition serves :: "('s, 'w) aruba_repo \<Rightarrow> ('w \<Rightarrow> string \<times> string \<Rightarrow> 's aruba_object option) \<Rightarrow> bool" where
  "serves repo kept \<longleftrightarrow>
     (\<forall>obj w r w'. arp_load repo obj w = (r, w') \<longrightarrow> kept w' = kept w \<and>
        (case r of Inr live \<Rightarrow> kept w (object_key obj) = Some live
         | Inl err \<Rightarrow> kube_is IsNotFound err \<longrightarrow> kept w (object_key obj) = None)) \<and>
     (\<forall>obj w r w'. arp_create repo obj w = (r, w') \<longrightarrow>
        (case r of None \<Rightarrow> kept w (object_key obj) = None \<and> (\<exists>stored. kept w' = (kept w)(object_key obj \<mapsto> stored)
             \<and> ar_spec stored = ar_spec obj \<and> ar_labels stored = ar_labels obj)
         | Some err \<Rightarrow> kept w' = kept w \<and> (kube_is IsAlreadyExists err \<longrightarrow> kept w (object_key obj) \<noteq> None))) \<and>
     (\<forall>obj w r w'. arp_delete repo obj w = (r, w') \<longrightarrow>
        (case r of None \<Rightarrow> kept w (object_key obj) \<noteq> None \<and>
             (\<exists>left. kept w' = (kept w)(object_key obj := left))
         | Some err \<Rightarrow> kept w' = kept w \<and> (kube_is IsNotFound err \<longrightarrow> kept w (object_key obj) = None))) \<and>
     (\<forall>obj w r w'. arp_update repo obj w = (r, w') \<longrightarrow>
        (case r of None \<Rightarrow> \<exists>stored. kept w' = (kept w)(object_key obj \<mapsto> stored)
             \<and> ar_spec stored = ar_spec obj \<and> ar_labels stored = ar_labels obj
         | Some err \<Rightarrow> kept w' = kept w))"

lemma serves_load:
  "serves repo kept \<Longrightarrow> arp_load repo obj w = (Inr live, w') \<Longrightarrow> kept w' = kept w \<and> kept w (object_key obj) = Some live"
  "serves repo kept \<Longrightarrow> arp_load repo obj w = (Inl err, w') \<Longrightarrow>
     kept w' = kept w \<and> (kube_is IsNotFound err \<longrightarrow> kept w (object_key obj) = None)"
  unfolding serves_def by fastforce+

lemma serves_create:
  "serves repo kept \<Longrightarrow> arp_create repo obj w = (None, w') \<Longrightarrow> kept w (object_key obj) = None \<and>
     (\<exists>stored. kept w' = (kept w)(object_key obj \<mapsto> stored) \<and> ar_spec stored = ar_spec obj \<and> ar_labels stored = ar_labels obj)"
  "serves repo kept \<Longrightarrow> arp_create repo obj w = (Some err, w') \<Longrightarrow> kept w' = kept w \<and>
     (kube_is IsAlreadyExists err \<longrightarrow> kept w (object_key obj) \<noteq> None)"
  unfolding serves_def by fastforce+

lemma serves_delete:
  "serves repo kept \<Longrightarrow> arp_delete repo obj w = (None, w') \<Longrightarrow>
     kept w (object_key obj) \<noteq> None \<and> (\<exists>left. kept w' = (kept w)(object_key obj := left))"
  "serves repo kept \<Longrightarrow> arp_delete repo obj w = (Some err, w') \<Longrightarrow> kept w' = kept w \<and>
     (kube_is IsNotFound err \<longrightarrow> kept w (object_key obj) = None)"
  unfolding serves_def by fastforce+

lemma serves_update:
  "serves repo kept \<Longrightarrow> arp_update repo obj w = (None, w') \<Longrightarrow>
     \<exists>stored. kept w' = (kept w)(object_key obj \<mapsto> stored) \<and> ar_spec stored = ar_spec obj \<and> ar_labels stored = ar_labels obj"
  "serves repo kept \<Longrightarrow> arp_update repo obj w = (Some err, w') \<Longrightarrow> kept w' = kept w"
  unfolding serves_def by fastforce+

subsection \<open>The shared steps\<close>

definition create_pass :: "('s, 'w) aruba_repo \<Rightarrow> 's aruba_object \<Rightarrow> 'w \<Rightarrow> go_error option \<times> 'w" where
  "create_pass repo obj w =
    (let ask = (\<lambda>w1. case arp_create repo obj w1 of
         (Some err, w2) \<Rightarrow> if kube_is IsAlreadyExists err then (Some (Sentinel ErrStillProcessing), w2) else (Some err, w2)
       | (None, w2) \<Rightarrow> (Some (Sentinel ErrStillProcessing), w2)) in
     case arp_load repo obj w of
       (Inl err, w1) \<Rightarrow> if kube_is IsNotFound err then ask w1 else (Some err, w1)
     | (Inr observed, w1) \<Rightarrow> if ar_phase observed = ResourcePhaseActive then (None, w1) else ask w1)"

definition delete_pass :: "('s, 'w) aruba_repo \<Rightarrow> 's aruba_object \<Rightarrow> 'w \<Rightarrow> go_error option \<times> 'w" where
  "delete_pass repo obj w =
    (case arp_load repo obj w of
       (Inl err, w1) \<Rightarrow> if kube_is IsNotFound err then (None, w1) else (Some err, w1)
     | (Inr observed, w1) \<Rightarrow>
         (case arp_delete repo obj w1 of
            (Some err, w2) \<Rightarrow> if kube_is IsNotFound err then (Some (Sentinel ErrStillProcessing), w2) else (Some err, w2)
          | (None, w2) \<Rightarrow> (Some (Sentinel ErrStillProcessing), w2)))"

lemma create_pass_done:
  assumes s: "serves repo kept" and "create_pass repo obj w = (None, w')"
  shows "kept w' = kept w \<and> (\<exists>live. kept w (object_key obj) = Some live \<and> ar_phase live = ResourcePhaseActive)"
  using assms(2) by (auto simp: create_pass_def Let_def split: prod.splits sum.splits option.splits if_splits
      dest!: serves_load [OF s])

lemma create_pass_writes:
  assumes s: "serves repo kept" and "create_pass repo obj w = (r, w')"
  shows "kept w' = kept w \<or> kept w (object_key obj) = None \<and> (\<exists>stored. kept w' = (kept w)(object_key obj \<mapsto> stored)
    \<and> ar_spec stored = ar_spec obj \<and> ar_labels stored = ar_labels obj)"
  using assms(2) by (auto simp: create_pass_def Let_def split: prod.splits sum.splits option.splits if_splits
      dest!: serves_load [OF s] serves_create [OF s])

lemma delete_pass_done:
  assumes s: "serves repo kept" and "delete_pass repo obj w = (None, w')"
  shows "kept w' = kept w \<and> kept w (object_key obj) = None"
  using assms(2) by (auto simp: delete_pass_def split: prod.splits sum.splits option.splits if_splits
      dest!: serves_load [OF s])

lemma delete_pass_writes:
  assumes s: "serves repo kept" and "delete_pass repo obj w = (r, w')"
  shows "kept w' = kept w \<or> (\<exists>left. kept w' = (kept w)(object_key obj := left))"
  using assms(2) by (auto simp: delete_pass_def split: prod.splits sum.splits option.splits if_splits
      dest!: serves_load [OF s] serves_delete [OF s])

subsection \<open>Handlers that keep one object per resource\<close>

locale aruba_kind =
  fixes repo :: "('s, 'w) aruba_repo" and create delete :: "('r, 'w) delegated"
    and gate :: "'r \<Rightarrow> 'w \<Rightarrow> (go_error + 's aruba_object) \<times> 'w"
    and object_of :: "'r \<Rightarrow> go_error + 's aruba_object"
  assumes create_eq: "create r w = (case gate r w of (Inl err, w1) \<Rightarrow> (Some err, r, w1)
      | (Inr obj, w1) \<Rightarrow> (case create_pass repo obj w1 of (err, w2) \<Rightarrow> (err, r, w2)))"
    and delete_eq: "delete r w = (case object_of r of Inl err \<Rightarrow> (Some err, r, w)
      | Inr obj \<Rightarrow> (case delete_pass repo obj w of (err, w1) \<Rightarrow> (err, r, w1)))"
    and gate_object: "gate r w = (Inr obj, w1) \<Longrightarrow>
      \<exists>obj'. object_of r = Inr obj' \<and> object_key obj' = object_key obj"
begin

lemma leaves_resource: "fst (snd (create r w)) = r" "fst (snd (delete r w)) = r"
  by (auto simp: create_eq delete_eq split: prod.splits sum.splits)

lemma create_done:
  assumes "serves repo kept" and "create r w = (None, r', w')"
  shows "\<exists>obj live. object_of r = Inr obj \<and> kept w' (object_key obj) = Some live \<and> ar_phase live = ResourcePhaseActive"
  using assms by (fastforce simp: create_eq split: prod.splits sum.splits
      dest!: create_pass_done [OF assms(1)] gate_object)

lemma create_writes_own:
  assumes "serves repo kept" and "\<And>r w. kept (snd (gate r w)) = kept w" and "create r w = (e, r', w')"
  shows "kept w' = kept w \<or> (\<exists>obj stored. object_of r = Inr obj \<and> kept w (object_key obj) = None \<and>
    kept w' = (kept w)(object_key obj \<mapsto> stored))"
proof -
  obtain g w1 where g: "gate r w = (g, w1)" by fastforce
  with assms(2) [of r w] have w1: "kept w1 = kept w" by simp
  show ?thesis
  proof (cases g)
    case (Inl err)
    with assms(3) g w1 show ?thesis by (simp add: create_eq)
  next
    case (Inr obj)
    with gate_object g obtain obj' where obj': "object_of r = Inr obj'" "object_key obj' = object_key obj" by blast
    obtain e' w2 where c: "create_pass repo obj w1 = (e', w2)" by fastforce
    with assms(3) g Inr have "w' = w2" by (simp add: create_eq)
    with create_pass_writes [OF assms(1) c] w1 obj' show ?thesis by auto
  qed
qed

lemma delete_done:
  assumes "serves repo kept" and "delete r w = (None, r', w')"
  shows "\<exists>obj. object_of r = Inr obj \<and> kept w' (object_key obj) = None \<and> kept w' = kept w"
  using assms by (auto simp: delete_eq split: prod.splits sum.splits dest!: delete_pass_done [OF assms(1)])

lemma delete_writes_own:
  assumes "serves repo kept" and "delete r w = (e, r', w')"
  shows "kept w' = kept w \<or> (\<exists>obj left. object_of r = Inr obj \<and> kept w' = (kept w)(object_key obj := left))"
  using assms by (auto simp: delete_eq split: prod.splits sum.splits dest!: delete_pass_writes [OF assms(1)])

lemma delete_unconvertible: "object_of r = Inl err \<Longrightarrow> delete r w = (Some err, r, w)"
  by (simp add: delete_eq)

end

subsection \<open>The five handlers\<close>

text \<open>The steps before the check: the object an operation is about, or why there is none yet.\<close>

definition gate_of ::
  "('r, 'sb, 'ab, 'w) generic_delegated \<Rightarrow> ('ab \<Rightarrow> 's aruba_object) \<Rightarrow> 'r \<Rightarrow> 'w \<Rightarrow> (go_error + 's aruba_object) \<times> 'w" where
  "gate_of d main r w =
    (case gd_resolve_seca d r w of
       (Inl err, w1) \<Rightarrow> (Inl err, w1)
     | (Inr seca, w1) \<Rightarrow>
       (case gd_convert d seca of
          Inl err \<Rightarrow> (Inl err, w1)
        | Inr aruba0 \<Rightarrow>
          (case gd_resolve_aruba d aruba0 w1 of
             (Inl err, w2) \<Rightarrow> (Inl err, w2)
           | (Inr aruba, w2) \<Rightarrow> (Inr (main aruba), w2))))"

definition creates :: "('s, 'w) aruba_repo \<Rightarrow> ('ab \<Rightarrow> 's aruba_object) \<Rightarrow> ('r, 'sb, 'ab, 'w) generic_delegated \<Rightarrow> bool" where
  "creates repo main d \<longleftrightarrow> gd_mutate d = bypass_mutate \<and>
     (\<forall>sb ab w. gd_check d sb ab w = (case arp_load repo (main ab) w of
        (Inl err, w1) \<Rightarrow> if kube_is IsNotFound err then (Inr False, w1) else (Inl err, w1)
      | (Inr observed, w1) \<Rightarrow> (Inr (ar_phase observed = ResourcePhaseActive), w1))) \<and>
     (\<forall>ab w. gd_propagate d ab w = (case arp_create repo (main ab) w of
        (Some err, w1) \<Rightarrow> if kube_is IsAlreadyExists err then (None, w1) else (Some err, w1)
      | (None, w1) \<Rightarrow> (None, w1)))"

definition deletes :: "('s, 'w) aruba_repo \<Rightarrow> ('ab \<Rightarrow> 's aruba_object) \<Rightarrow> ('r, 'sb, 'ab, 'w) generic_delegated \<Rightarrow> bool" where
  "deletes repo main d \<longleftrightarrow> gd_mutate d = bypass_mutate \<and>
     (\<forall>sb ab w. gd_check d sb ab w = (case arp_load repo (main ab) w of
        (Inl err, w1) \<Rightarrow> if kube_is IsNotFound err then (Inr True, w1) else (Inl err, w1)
      | (Inr observed, w1) \<Rightarrow> (Inr False, w1))) \<and>
     (\<forall>ab w. gd_propagate d ab w = (case arp_delete repo (main ab) w of
        (Some err, w1) \<Rightarrow> if kube_is IsNotFound err then (None, w1) else (Some err, w1)
      | (None, w1) \<Rightarrow> (None, w1)))"

lemma creates_do:
  assumes "creates repo main d"
  shows "plugin_op (delegated_do d) r w = (case gate_of d main r w of (Inl err, w1) \<Rightarrow> (Some err, r, w1)
      | (Inr obj, w1) \<Rightarrow> (case create_pass repo obj w1 of (err, w2) \<Rightarrow> (err, r, w2)))"
  using assms
  by (auto simp: creates_def plugin_op_def delegated_do_def gate_of_def create_pass_def bypass_mutate_def Let_def
      split: prod.splits sum.splits option.splits)

lemma deletes_do:
  assumes "deletes repo main d"
  shows "plugin_op (delegated_do d) r w = (case gate_of d main r w of (Inl err, w1) \<Rightarrow> (Some err, r, w1)
      | (Inr obj, w1) \<Rightarrow> (case delete_pass repo obj w1 of (err, w2) \<Rightarrow> (err, r, w2)))"
  using assms
  by (auto simp: deletes_def plugin_op_def delegated_do_def gate_of_def delete_pass_def bypass_mutate_def
      split: prod.splits sum.splits option.splits)

lemmas aruba_steps = gate_of_def bypass_resolve_def new_straight_delegated_def

lemma workspace_gate: "gate_of (workspace_create_delegated h) (\<lambda>p. p) ws w =
    (workspace_to_project (ae_sha3 h) ws, w)"
  by (auto simp: workspace_create_delegated_def aruba_steps split: sum.splits)

interpretation aruba_workspace: aruba_kind "ae_projects h" "aruba_workspace_create h" "aruba_workspace_delete h"
    "gate_of (workspace_create_delegated h) (\<lambda>p. p)" "workspace_to_project (ae_sha3 h)" for h
proof
  have c: "creates (ae_projects h) (\<lambda>p. p) (workspace_create_delegated h)"
    by (simp add: creates_def workspace_create_delegated_def new_straight_delegated_def check_ws_created_def
        ws_propagate_create_def)
  have d: "deletes (ae_projects h) (\<lambda>p. p) (workspace_delete_delegated h)"
    by (simp add: deletes_def workspace_delete_delegated_def new_straight_delegated_def check_ws_deleted_def
        ws_propagate_delete_def)
  show "aruba_workspace_create h r w = (case gate_of (workspace_create_delegated h) (\<lambda>p. p) r w of (Inl err, w1) \<Rightarrow> (Some err, r, w1)
      | (Inr obj, w1) \<Rightarrow> (case create_pass (ae_projects h) obj w1 of (err, w2) \<Rightarrow> (err, r, w2)))" for r w
    by (simp add: aruba_workspace_create_def creates_do [OF c])
  show "aruba_workspace_delete h r w = (case workspace_to_project (ae_sha3 h) r of Inl err \<Rightarrow> (Some err, r, w)
      | Inr obj \<Rightarrow> (case delete_pass (ae_projects h) obj w of (err, w1) \<Rightarrow> (err, r, w1)))" for r w
    by (simp add: aruba_workspace_delete_def deletes_do [OF d])
       (simp add: workspace_delete_delegated_def aruba_steps split: sum.splits)
qed (simp add: workspace_gate)


lemma network_convert:
  "network_bundle_to_aruba h seca = Inr ab \<Longrightarrow>
     (\<exists>obj. network_to_vpc (ae_sha3 h) (sb_main seca) = Inr obj \<and> object_key (ab_main ab) = object_key obj)
     \<and> (ab_project ab = None \<longleftrightarrow> sb_workspace seca = None)"
  by (auto simp: network_bundle_to_aruba_def object_key_def split: sum.splits option.splits)

lemma network_gate:
  assumes "gate_of (network_create_delegated h) ab_main r w = (Inr obj, w1)"
  shows "\<exists>obj'. network_to_vpc (ae_sha3 h) r = Inr obj' \<and> object_key obj' = object_key obj"
proof -
  from assms obtain seca w2 ab0 ab where
    "resolve_seca_network_dependencies h r w = (Inr seca, w2)" and c: "network_bundle_to_aruba h seca = Inr ab0"
    "resolve_aruba_network_dependencies h ab0 w2 = (Inr ab, w1)" "obj = ab_main ab"
    by (auto simp: gate_of_def network_create_delegated_def split: prod.splits sum.splits)
  then have "sb_main seca = r"
    by (auto simp: resolve_seca_network_dependencies_def Let_def split: prod.splits sum.splits if_splits option.splits)
  moreover have "ab_main ab = ab_main ab0"
    using c by (auto simp: resolve_aruba_network_dependencies_def Let_def split: option.splits prod.splits sum.splits if_splits)
  ultimately show ?thesis using network_convert [OF c(1)] c(3) by metis
qed

interpretation aruba_network: aruba_kind "ae_vpcs h" "aruba_network_create h" "aruba_network_delete h"
    "gate_of (network_create_delegated h) ab_main" "network_to_vpc (ae_sha3 h)" for h
proof
  have c: "creates (ae_vpcs h) ab_main (network_create_delegated h)"
    by (simp add: creates_def network_create_delegated_def check_vpc_created_def vpc_propagate_create_def)
  have d: "deletes (ae_vpcs h) ab_main (network_delete_delegated h)"
    by (simp add: deletes_def network_delete_delegated_def check_vpc_deleted_def vpc_propagate_delete_def)
  show "aruba_network_create h r w = (case gate_of (network_create_delegated h) ab_main r w of (Inl err, w1) \<Rightarrow> (Some err, r, w1)
      | (Inr obj, w1) \<Rightarrow> (case create_pass (ae_vpcs h) obj w1 of (err, w2) \<Rightarrow> (err, r, w2)))" for r w
    by (simp add: aruba_network_create_def creates_do [OF c])
  show "aruba_network_delete h r w = (case network_to_vpc (ae_sha3 h) r of Inl err \<Rightarrow> (Some err, r, w)
      | Inr obj \<Rightarrow> (case delete_pass (ae_vpcs h) obj w of (err, w1) \<Rightarrow> (err, r, w1)))" for r w
    by (simp add: aruba_network_delete_def deletes_do [OF d])
       (simp add: network_delete_delegated_def network_bundle_to_aruba_def network_bypass_resolver_def aruba_steps split: sum.splits)
qed (rule network_gate)

lemma subnet_convert:
  "subnet_bundle_to_aruba h seca = Inr ab \<Longrightarrow>
     (\<exists>obj. subnet_to_aruba (ae_sha3 h) (sb_main seca) = Inr obj \<and> object_key (ab_main ab) = object_key obj)
     \<and> (ab_project ab = None \<longleftrightarrow> sb_workspace seca = None)"
  by (auto simp: subnet_bundle_to_aruba_def object_key_def split: sum.splits option.splits)

lemma subnet_gate:
  assumes "gate_of (subnet_create_delegated h) ab_main r w = (Inr obj, w1)"
  shows "\<exists>obj'. subnet_to_aruba (ae_sha3 h) r = Inr obj' \<and> object_key obj' = object_key obj"
proof -
  from assms obtain seca w2 ab0 ab where
    "resolve_seca_subnet_dependencies h r w = (Inr seca, w2)" and c: "subnet_bundle_to_aruba h seca = Inr ab0"
    "resolve_aruba_subnet_dependencies h ab0 w2 = (Inr ab, w1)" "obj = ab_main ab"
    by (auto simp: gate_of_def subnet_create_delegated_def split: prod.splits sum.splits)
  then have "sb_main seca = r"
    by (auto simp: resolve_seca_subnet_dependencies_def Let_def split: prod.splits sum.splits if_splits option.splits)
  moreover have "ab_main ab = ab_main ab0"
    using c by (auto simp: resolve_aruba_subnet_dependencies_def Let_def split: option.splits prod.splits sum.splits if_splits)
  ultimately show ?thesis using subnet_convert [OF c(1)] c(3) by metis
qed

interpretation aruba_subnet: aruba_kind "ae_subnets h" "aruba_subnet_create h" "aruba_subnet_delete h"
    "gate_of (subnet_create_delegated h) ab_main" "subnet_to_aruba (ae_sha3 h)" for h
proof
  have c: "creates (ae_subnets h) ab_main (subnet_create_delegated h)"
    by (simp add: creates_def subnet_create_delegated_def check_subnet_created_def subnet_propagate_create_def)
  have d: "deletes (ae_subnets h) ab_main (subnet_delete_delegated h)"
    by (simp add: deletes_def subnet_delete_delegated_def check_subnet_deleted_def subnet_propagate_delete_def)
  show "aruba_subnet_create h r w = (case gate_of (subnet_create_delegated h) ab_main r w of (Inl err, w1) \<Rightarrow> (Some err, r, w1)
      | (Inr obj, w1) \<Rightarrow> (case create_pass (ae_subnets h) obj w1 of (err, w2) \<Rightarrow> (err, r, w2)))" for r w
    by (simp add: aruba_subnet_create_def creates_do [OF c])
  show "aruba_subnet_delete h r w = (case subnet_to_aruba (ae_sha3 h) r of Inl err \<Rightarrow> (Some err, r, w)
      | Inr obj \<Rightarrow> (case delete_pass (ae_subnets h) obj w of (err, w1) \<Rightarrow> (err, r, w1)))" for r w
    by (simp add: aruba_subnet_delete_def deletes_do [OF d])
       (simp add: subnet_delete_delegated_def subnet_bundle_to_aruba_def subnet_bypass_resolver_def aruba_steps split: sum.splits)
qed (rule subnet_gate)

lemma public_ip_convert:
  "public_ip_bundle_to_aruba h seca = Inr ab \<Longrightarrow>
     (\<exists>obj. public_ip_to_elastic_ip (ae_sha3 h) (sb_main seca) = Inr obj \<and> object_key (ab_main ab) = object_key obj)
     \<and> (ab_project ab = None \<longleftrightarrow> sb_workspace seca = None)"
  by (auto simp: public_ip_bundle_to_aruba_def object_key_def split: sum.splits option.splits)

lemma public_ip_gate:
  assumes "gate_of (public_ip_create_delegated h) ab_main r w = (Inr obj, w1)"
  shows "\<exists>obj'. public_ip_to_elastic_ip (ae_sha3 h) r = Inr obj' \<and> object_key obj' = object_key obj"
proof -
  from assms obtain seca w2 ab0 ab where
    "resolve_seca_public_ip_dependencies h r w = (Inr seca, w2)" and c: "public_ip_bundle_to_aruba h seca = Inr ab0"
    "resolve_aruba_public_ip_dependencies h ab0 w2 = (Inr ab, w1)" "obj = ab_main ab"
    by (auto simp: gate_of_def public_ip_create_delegated_def split: prod.splits sum.splits)
  then have "sb_main seca = r"
    by (auto simp: resolve_seca_public_ip_dependencies_def Let_def split: prod.splits sum.splits if_splits option.splits)
  moreover have "ab_main ab = ab_main ab0"
    using c by (auto simp: resolve_aruba_public_ip_dependencies_def Let_def split: option.splits prod.splits sum.splits if_splits)
  ultimately show ?thesis using public_ip_convert [OF c(1)] c(3) by metis
qed

interpretation aruba_public_ip: aruba_kind "ae_elastic_ips h" "aruba_public_ip_create h" "aruba_public_ip_delete h"
    "gate_of (public_ip_create_delegated h) ab_main" "public_ip_to_elastic_ip (ae_sha3 h)" for h
proof
  have c: "creates (ae_elastic_ips h) ab_main (public_ip_create_delegated h)"
    by (simp add: creates_def public_ip_create_delegated_def check_eip_created_def eip_propagate_create_def)
  have d: "deletes (ae_elastic_ips h) ab_main (public_ip_delete_delegated h)"
    by (simp add: deletes_def public_ip_delete_delegated_def check_eip_deleted_def eip_propagate_delete_def)
  show "aruba_public_ip_create h r w = (case gate_of (public_ip_create_delegated h) ab_main r w of (Inl err, w1) \<Rightarrow> (Some err, r, w1)
      | (Inr obj, w1) \<Rightarrow> (case create_pass (ae_elastic_ips h) obj w1 of (err, w2) \<Rightarrow> (err, r, w2)))" for r w
    by (simp add: aruba_public_ip_create_def creates_do [OF c])
  show "aruba_public_ip_delete h r w = (case public_ip_to_elastic_ip (ae_sha3 h) r of Inl err \<Rightarrow> (Some err, r, w)
      | Inr obj \<Rightarrow> (case delete_pass (ae_elastic_ips h) obj w of (err, w1) \<Rightarrow> (err, r, w1)))" for r w
    by (simp add: aruba_public_ip_delete_def deletes_do [OF d])
       (simp add: public_ip_delete_delegated_def public_ip_bundle_to_aruba_def public_ip_bypass_resolver_def aruba_steps split: sum.splits)
qed (rule public_ip_gate)

lemma volume_convert:
  "volume_bundle_to_aruba h seca = Inr ab \<Longrightarrow>
     (\<exists>obj. volume_to_aruba (ae_sha3 h) (sb_main seca) = Inr obj \<and> object_key (ab_main ab) = object_key obj)
     \<and> (ab_project ab = None \<longleftrightarrow> sb_workspace seca = None)"
  by (auto simp: volume_bundle_to_aruba_def object_key_def split: sum.splits option.splits)

lemma volume_gate:
  assumes "gate_of (volume_create_delegated h) ab_main r w = (Inr obj, w1)"
  shows "\<exists>obj'. volume_to_aruba (ae_sha3 h) r = Inr obj' \<and> object_key obj' = object_key obj"
proof -
  from assms obtain seca w2 ab0 ab where
    "resolve_seca_volume_dependencies h r w = (Inr seca, w2)" and c: "volume_bundle_to_aruba h seca = Inr ab0"
    "resolve_aruba_volume_dependencies h ab0 w2 = (Inr ab, w1)" "obj = ab_main ab"
    by (auto simp: gate_of_def volume_create_delegated_def split: prod.splits sum.splits)
  then have "sb_main seca = r"
    by (auto simp: resolve_seca_volume_dependencies_def Let_def split: prod.splits sum.splits if_splits option.splits)
  moreover have "ab_main ab = ab_main ab0"
    using c by (auto simp: resolve_aruba_volume_dependencies_def Let_def split: option.splits prod.splits sum.splits if_splits)
  ultimately show ?thesis using volume_convert [OF c(1)] c(3) by metis
qed

interpretation aruba_volume: aruba_kind "ae_volumes h" "aruba_volume_create h" "aruba_volume_delete h"
    "gate_of (volume_create_delegated h) ab_main" "volume_to_aruba (ae_sha3 h)" for h
proof
  have c: "creates (ae_volumes h) ab_main (volume_create_delegated h)"
    by (simp add: creates_def volume_create_delegated_def check_bs_created_def bs_propagate_create_def)
  have d: "deletes (ae_volumes h) ab_main (volume_delete_delegated h)"
    by (simp add: deletes_def volume_delete_delegated_def check_bs_deleted_def bs_propagate_delete_def)
  show "aruba_volume_create h r w = (case gate_of (volume_create_delegated h) ab_main r w of (Inl err, w1) \<Rightarrow> (Some err, r, w1)
      | (Inr obj, w1) \<Rightarrow> (case create_pass (ae_volumes h) obj w1 of (err, w2) \<Rightarrow> (err, r, w2)))" for r w
    by (simp add: aruba_volume_create_def creates_do [OF c])
  show "aruba_volume_delete h r w = (case volume_to_aruba (ae_sha3 h) r of Inl err \<Rightarrow> (Some err, r, w)
      | Inr obj \<Rightarrow> (case delete_pass (ae_volumes h) obj w of (err, w1) \<Rightarrow> (err, r, w1)))" for r w
    by (simp add: aruba_volume_delete_def deletes_do [OF d])
       (simp add: volume_delete_delegated_def volume_bundle_to_aruba_def volume_bypass_resolver_def aruba_steps split: sum.splits)
qed (rule volume_gate)

subsection \<open>With the plugin handler and the controller on top\<close>

locale aruba_managed =
  plain_reconciler deleted status_of put_status reconcile + aruba_kind repo create delete gate object_of
  for deleted :: "'r \<Rightarrow> bool" and status_of :: "'r \<Rightarrow> status option" and put_status :: "status \<Rightarrow> 'r \<Rightarrow> 'r"
    and reconcile :: "('r, 'w, 'm) plugin_handler_scheme \<Rightarrow> 'r \<Rightarrow> 'w \<Rightarrow> reconcile_result \<times> 'r \<times> 'w"
    and repo :: "('s, 'w) aruba_repo" and create delete :: "('r, 'w) delegated"
    and gate :: "'r \<Rightarrow> 'w \<Rightarrow> (go_error + 's aruba_object) \<times> 'w" and object_of :: "'r \<Rightarrow> go_error + 's aruba_object"
begin

lemma active_has_object:
  assumes h: "h_create h = create" and q: "quiet_plugin deleted status_of h" and ok: "view_ok (status_of r)"
    and s: "serves repo kept" and st: "steady kept (h_repo h)" and f: "reconcile h r w = (res, r', w')"
    and a: "phase_of (status_of r') = Phase StateActive" "phase_of (status_of r) \<noteq> Phase StateActive"
  shows "\<exists>obj live. object_of r = Inr obj \<and> kept w' (object_key obj) = Some live \<and> ar_phase live = ResourcePhaseActive"
proof -
  from active_ran_create [OF q ok st f a] h leaves_resource(1) obtain w1
    where "create r w = (None, r, w1)" "kept w' = kept w1" by metis
  with create_done [OF s this(1)] show ?thesis by simp
qed

lemma release_needs_absence:
  assumes h: "h_delete h = delete" and s: "serves repo kept" and st: "steady kept (h_repo h)" and ap: "apart kept c"
    and obj: "kc_get c name w = (Inr obj, w1)" "ko_deletion obj \<noteq> None" "conv obj = Inr r"
    and d: "deleted r" "status_of r \<noteq> None"
    and f: "controller_reconcile (logging c) conv (lifted (reconcile h)) after m (\<lambda>lw. now (snd lw)) name ([], w)
      = (res, (log, w'))"
    and wrote: "log \<noteq> []"
  shows "\<exists>o1. object_of r = Inr o1 \<and> kept w' (object_key o1) = None"
  using f
proof (cases rule: controller_updates)
  case none
  with wrote show ?thesis by simp
next
  case (adopt obj' w1')
  with obj show ?thesis by simp
next
  case (release obj' w1' r0 r' w2 obj2 w3)
  with obj have r0: "reconcile h r w1 = (Reconciled False None, r', w2)" by simp
  from released_ran_delete [OF d st r0] h leaves_resource(2) have "delete r w1 = (None, r, w2)" by simp
  from delete_done [OF s this] controller_worlds(2) [OF ap obj r0 f] show ?thesis by auto
qed

lemma unconvertible_is_stuck:
  assumes h: "h_delete h = delete" and st: "steady kept (h_repo h)"
    and obj: "kc_get c name w = (Inr obj, w1)" "ko_deletion obj \<noteq> None" "conv obj = Inr r"
    and d: "deleted r" "status_of r \<noteq> None" and o1: "object_of r = Inl err"
    and f: "controller_reconcile (logging c) conv (lifted (reconcile h)) after m (\<lambda>lw. now (snd lw)) name ([], w)
      = (res, (log, w'))"
  shows "log = []"
  using f
proof (cases rule: controller_updates)
  case (release obj' w1' r0 r' w2 obj2 w3)
  with obj have r0: "reconcile h r w1 = (Reconciled False None, r', w2)" by simp
  from released_ran_delete [OF d st r0] h leaves_resource(2) delete_unconvertible [OF o1] show ?thesis by simp
qed (use obj in simp_all)

end

interpretation workspace_managed: aruba_managed deleted_at workspace_view put_workspace_status workspace_handle_reconcile
    "ae_projects h" "aruba_workspace_create h" "aruba_workspace_delete h"
    "gate_of (workspace_create_delegated h) (\<lambda>p. p)" "workspace_to_project (ae_sha3 h)" for h ..

interpretation network_managed: aruba_managed deleted_at network_view put_network_status network_handle_reconcile
    "ae_vpcs h" "aruba_network_create h" "aruba_network_delete h"
    "gate_of (network_create_delegated h) ab_main" "network_to_vpc (ae_sha3 h)" for h ..

interpretation subnet_managed: aruba_managed deleted_at subnet_view put_subnet_status subnet_handle_reconcile
    "ae_subnets h" "aruba_subnet_create h" "aruba_subnet_delete h"
    "gate_of (subnet_create_delegated h) ab_main" "subnet_to_aruba (ae_sha3 h)" for h ..

interpretation public_ip_managed: aruba_managed deleted_at public_ip_view put_public_ip_status public_ip_handle_reconcile
    "ae_elastic_ips h" "aruba_public_ip_create h" "aruba_public_ip_delete h"
    "gate_of (public_ip_create_delegated h) ab_main" "public_ip_to_elastic_ip (ae_sha3 h)" for h ..

end
