(* ===== verification/Aruba_Compute.thy ===== *)
theory Aruba_Compute
  imports Aruba_Plugin
begin

section \<open>The Aruba provider: security groups and instances\<close>

text \<open>
  Models \<^verbatim>\<open>security-group.go\<close> and \<^verbatim>\<open>instance.go\<close> of \<^verbatim>\<open>csp/aruba/pkg/adapter/handler\<close>. An instance becomes a
  cloud server, for which its NICs, volumes, key and SKU are looked up, and its security groups are
  materialised in the network of its first subnet. The groups outlive the instance: the handler of
  security groups reaps them by their labels.
\<close>

subsection \<open>\<^verbatim>\<open>security-group.go\<close>\<close>

text \<open>Create is a no-op.\<close>

definition aruba_security_group_create :: "(security_group, 'w) delegated" where
  "aruba_security_group_create = plugin_op (\<lambda>r w. (None, w))"

fun reap_rules ::
  "(aruba_rule_spec, 'w) aruba_repo \<Rightarrow> aruba_rule_spec aruba_object list \<Rightarrow> 'w \<Rightarrow> go_error option \<times> 'w" where
  "reap_rules repo [] w = (None, w)"
| "reap_rules repo (rule # rules) w =
    (case arp_delete repo rule w of
       (Some err, w1) \<Rightarrow> if kube_is IsNotFound err then reap_rules repo rules w1 else (Some err, w1)
     | (None, w1) \<Rightarrow> reap_rules repo rules w1)"

fun reap_groups :: "'w aruba_env \<Rightarrow> aruba_group_spec aruba_object list \<Rightarrow> 'w \<Rightarrow> go_error option \<times> 'w" where
  "reap_groups h [] w = (None, w)"
| "reap_groups h (sg # groups) w =
    (case arp_list (ae_group_rules h) (Some (ar_namespace sg)) [(label_security_group, ar_name sg)] w of
       (Inl err, w1) \<Rightarrow> (Some err, w1)
     | (Inr rules, w1) \<Rightarrow>
       (case reap_rules (ae_group_rules h) rules w1 of
          (Some err, w2) \<Rightarrow> (Some err, w2)
        | (None, w2) \<Rightarrow>
          (case arp_delete (ae_groups h) sg w2 of
             (Some err, w3) \<Rightarrow> if kube_is IsNotFound err then reap_groups h groups w3 else (Some err, w3)
           | (None, w3) \<Rightarrow> reap_groups h groups w3)))"

text \<open>The labels by which the groups of a security group are listed.\<close>

definition group_selector :: "security_group \<Rightarrow> strmap" where
  "group_selector sg = [(label_security_group, md_name sg), (label_tenant, md_tenant sg)]"

definition security_group_delete :: "'w aruba_env \<Rightarrow> security_group \<Rightarrow> 'w \<Rightarrow> go_error option \<times> 'w" where
  "security_group_delete h domain w =
    (case arp_list (ae_groups h) (Some (compute_namespace (ae_sha3 h) (own_scope domain))) (group_selector domain) w of
       (Inl err, w1) \<Rightarrow> (Some err, w1)
     | (Inr groups, w1) \<Rightarrow> reap_groups h groups w1)"

definition aruba_security_group_delete :: "'w aruba_env \<Rightarrow> (security_group, 'w) delegated" where
  "aruba_security_group_delete h = plugin_op (security_group_delete h)"

text \<open>The loop of \<^verbatim>\<open>updateInlineRuleTags\<close>, then the function, then the loop of \<^verbatim>\<open>Update\<close>.\<close>

fun retag_rules ::
  "(aruba_rule_spec, 'w) aruba_repo \<Rightarrow> string list \<Rightarrow> string list \<Rightarrow> aruba_rule_spec aruba_object list \<Rightarrow> 'w
   \<Rightarrow> go_error option \<times> 'w" where
  "retag_rules repo inline_names tags [] w = (None, w)"
| "retag_rules repo inline_names tags (rule # rules) w =
    (if ar_name rule \<notin> set inline_names then retag_rules repo inline_names tags rules w
     else if asr_tags (ar_spec rule) = tags then retag_rules repo inline_names tags rules w
     else (case arp_update repo (rule\<lparr>ar_spec := (ar_spec rule)\<lparr>asr_tags := tags\<rparr>\<rparr>) w of
         (Some err, w1) \<Rightarrow> if kube_is IsNotFound err then retag_rules repo inline_names tags rules w1 else (Some err, w1)
       | (None, w1) \<Rightarrow> retag_rules repo inline_names tags rules w1))"

definition inline_rules :: "aruba_group_spec aruba_object \<Rightarrow> security_group \<Rightarrow> aruba_rule_spec aruba_object list" where
  "inline_rules sg domain =
     build_security_rules (normalize_inline_rules (sg_rules domain) (md_labels domain))
       (ar_name sg) (asg_region (ar_spec sg)) (md_tenant domain) (ar_namespace sg)
       (asg_vpc (ar_spec sg)) (asg_project (ar_spec sg))"

definition update_inline_rule_tags ::
  "'w aruba_env \<Rightarrow> aruba_group_spec aruba_object \<Rightarrow> security_group \<Rightarrow> string list \<Rightarrow> 'w \<Rightarrow> go_error option \<times> 'w" where
  "update_inline_rule_tags h sg domain tags w =
    (let inline = inline_rules sg domain in
     if inline = [] then (None, w)
     else (case arp_list (ae_group_rules h) (Some (ar_namespace sg)) [(label_security_group, ar_name sg)] w of
         (Inl err, w1) \<Rightarrow> (Some err, w1)
       | (Inr rules, w1) \<Rightarrow> retag_rules (ae_group_rules h) (map ar_name inline) tags rules w1))"

fun retag_groups ::
  "'w aruba_env \<Rightarrow> security_group \<Rightarrow> string list \<Rightarrow> aruba_group_spec aruba_object list \<Rightarrow> 'w \<Rightarrow> go_error option \<times> 'w" where
  "retag_groups h domain tags [] w = (None, w)"
| "retag_groups h domain tags (sg # groups) w =
    (case update_inline_rule_tags h sg domain tags w of
       (Some err, w1) \<Rightarrow> (Some err, w1)
     | (None, w1) \<Rightarrow>
       if asg_tags (ar_spec sg) = tags then retag_groups h domain tags groups w1
       else (case arp_update (ae_groups h) (sg\<lparr>ar_spec := (ar_spec sg)\<lparr>asg_tags := tags\<rparr>\<rparr>) w1 of
           (Some err, w2) \<Rightarrow> if kube_is IsNotFound err then retag_groups h domain tags groups w2 else (Some err, w2)
         | (None, w2) \<Rightarrow> retag_groups h domain tags groups w2))"

definition aruba_security_group_update :: "'w aruba_env \<Rightarrow> (security_group, 'w) delegated" where
  "aruba_security_group_update h = plugin_op (\<lambda>domain w.
    case arp_list (ae_groups h) (Some (compute_namespace (ae_sha3 h) (own_scope domain))) (group_selector domain) w of
      (Inl err, w1) \<Rightarrow> (Some err, w1)
    | (Inr groups, w1) \<Rightarrow> retag_groups h domain (aruba_tags (md_labels domain)) groups w1)"

subsection \<open>\<^verbatim>\<open>instance.go\<close>: the lookups\<close>

definition append_unique :: "string list \<Rightarrow> string \<Rightarrow> string list" where
  "append_unique s v = (if v = [] then s else if v \<in> set s then s else s @ [v])"

text \<open>The objects a lookup by name starts from.\<close>

definition named_nic :: "string \<Rightarrow> scope \<Rightarrow> nic" where
  "named_nic name scope = regional_metadata.extend (named_metadata name (sc_tenant scope) (sc_workspace scope) [])
     (nic.fields \<lparr>nics_addresses = [], nics_public_ip_refs = [], nics_security_group_refs = [],
        nics_sku_ref = unset_reference, nics_subnet_ref = unset_reference\<rparr> None)"

definition named_security_group :: "string \<Rightarrow> scope \<Rightarrow> security_group" where
  "named_security_group name scope =
     regional_metadata.extend (named_metadata name (sc_tenant scope) (sc_workspace scope) [])
       (security_group.fields [] [] None)"

definition named_security_group_rule :: "string \<Rightarrow> scope \<Rightarrow> security_group_rule" where
  "named_security_group_rule name scope =
     regional_metadata.extend (named_metadata name (sc_tenant scope) (sc_workspace scope) [])
       (security_group_rule.fields \<lparr>sgrs_direction = [], sgrs_icmp = None, sgrs_ports = None, sgrs_protocol = [],
          sgrs_source_ref = [], sgrs_version = IPVersionUnset\<rparr> None)"

definition named_instance_sku :: "string \<Rightarrow> string \<Rightarrow> instance_sku" where
  "named_instance_sku name tenant = regional_metadata.extend (named_metadata name tenant [] [])
     (instance_sku.fields \<lparr>isks_vcpu = 0, isks_ram = 0\<rparr>)"

definition zero_volume_spec :: volume_spec where
  "zero_volume_spec = \<lparr>vol_size_gb = 0, vol_tenant = [], vol_region = [], vol_tags = [],
     vol_project = no_aruba_reference, vol_zone = [], vol_billing_period = [], vol_tier = [], vol_image = [],
     vol_bootable = False\<rparr>"

definition zero_elastic_ip_spec :: elastic_ip_spec where
  "zero_elastic_ip_spec = \<lparr>eip_tenant = [], eip_region = [], eip_tags = [], eip_billing_period = [],
     eip_project = no_aruba_reference\<rparr>"

definition zero_project_spec :: project_spec where
  "zero_project_spec = \<lparr>prj_description = [], prj_tags = [], prj_tenant = []\<rparr>"

text \<open>The loop of \<^verbatim>\<open>resolveNics\<close>: subnet references, names of groups and of public IPs, in order.\<close>

fun gather_nics ::
  "(nic, 'w) repo \<Rightarrow> scope \<Rightarrow> reference list \<Rightarrow> string list \<times> string list \<times> string list \<Rightarrow> 'w
   \<Rightarrow> (go_error + string list \<times> string list \<times> string list) \<times> 'w" where
  "gather_nics repo scope [] found w = (Inr found, w)"
| "gather_nics repo scope (ref # refs) (subnets, sec_groups, public_ips) w =
    (case rp_load repo (named_nic (last_segment (ref_resource ref)) scope) w of
       (Inl err, w1) \<Rightarrow> (Inl (Sentinel ErrStillProcessing), w1)
     | (Inr nic, w1) \<Rightarrow>
         gather_nics repo scope refs
           (append_unique subnets (ref_resource (nics_subnet_ref (nic_spec nic))),
            foldl (\<lambda>gs sg. append_unique gs (last_segment (ref_resource sg))) sec_groups (nics_security_group_refs (nic_spec nic)),
            foldl (\<lambda>ps pip. append_unique ps (last_segment (ref_resource pip))) public_ips (nics_public_ip_refs (nic_spec nic)))
           w1)"

definition resolve_nics ::
  "'w aruba_env \<Rightarrow> instance_res \<Rightarrow> 'w \<Rightarrow> (go_error + string list \<times> string list \<times> string list) \<times> 'w" where
  "resolve_nics h domain w =
    (let refs = (case ins_primary_nic_ref (in_spec domain) of
         None \<Rightarrow> ins_additional_nic_refs (in_spec domain)
       | Some primary \<Rightarrow> primary # ins_additional_nic_refs (in_spec domain)) in
     gather_nics (ae_nics h) (own_scope domain) refs ([], [], []) w)"

text \<open>\<^verbatim>\<open>referenceNetwork\<close>: the segment after the first segment \<^verbatim>\<open>networks\<close>.\<close>

fun segment_after_networks :: "string list \<Rightarrow> string" where
  "segment_after_networks (a # b # parts) = (if a = ''networks'' then b else segment_after_networks (b # parts))"
| "segment_after_networks parts = []"

definition reference_network :: "string \<Rightarrow> string" where
  "reference_network resource = segment_after_networks (split_on CHR ''/'' resource)"

definition subnet_network :: "aruba_subnet_spec aruba_object \<Rightarrow> string" where
  "subnet_network s = map_index (ar_labels s) label_subnet_network"

definition ambiguous_subnet :: "string \<Rightarrow> string \<Rightarrow> string \<Rightarrow> go_error" where
  "ambiguous_subnet name a b = GoError (''subnet '' @ fmt_q name @ '' exists in more than one network ('' @ fmt_q a @
     '' and '' @ fmt_q b @ ''): reference it as networks/<network>/subnets/'' @ name)"

fun pick_subnet ::
  "string \<Rightarrow> string \<Rightarrow> aruba_subnet_spec aruba_object option \<Rightarrow> aruba_subnet_spec aruba_object list
   \<Rightarrow> go_error + aruba_subnet_spec aruba_object" where
  "pick_subnet name want found [] =
    (case found of None \<Rightarrow> Inl (Sentinel ErrStillProcessing) | Some s \<Rightarrow> Inr s)"
| "pick_subnet name want found (s # subnets) =
    (if ar_name s \<noteq> name \<or> ar_phase s \<noteq> ResourcePhaseActive then pick_subnet name want found subnets
     else if want \<noteq> [] then
       (if subnet_network s = want then Inr s else pick_subnet name want found subnets)
     else (case found of
         Some m \<Rightarrow> if subnet_network m \<noteq> subnet_network s
           then Inl (ambiguous_subnet name (subnet_network m) (subnet_network s))
           else pick_subnet name want (Some s) subnets
       | None \<Rightarrow> pick_subnet name want (Some s) subnets))"

definition resolve_subnet ::
  "'w aruba_env \<Rightarrow> string \<Rightarrow> string \<Rightarrow> string \<Rightarrow> 'w \<Rightarrow> (go_error + aruba_subnet_spec aruba_object) \<times> 'w" where
  "resolve_subnet h tenant workspace resource w =
    (case arp_list (ae_subnets h) None [(label_subnet_tenant, tenant), (label_subnet_workspace, workspace)] w of
       (Inl err, w1) \<Rightarrow> (Inl err, w1)
     | (Inr subnets, w1) \<Rightarrow>
         (pick_subnet (last_segment resource) (reference_network resource) None subnets, w1))"

text \<open>The loop over the subnets of an instance; the first fixes the VPC and the network.\<close>

fun resolve_subnets ::
  "'w aruba_env \<Rightarrow> string \<Rightarrow> string \<Rightarrow> string list \<Rightarrow> 'w
   \<Rightarrow> (go_error + aruba_subnet_spec aruba_object list) \<times> 'w" where
  "resolve_subnets h tenant workspace [] w = (Inr [], w)"
| "resolve_subnets h tenant workspace (resource # resources) w =
    (case resolve_subnet h tenant workspace resource w of
       (Inl err, w1) \<Rightarrow> (Inl err, w1)
     | (Inr s, w1) \<Rightarrow>
       (case resolve_subnets h tenant workspace resources w1 of
          (Inl err, w2) \<Rightarrow> (Inl err, w2)
        | (Inr ss, w2) \<Rightarrow> (Inr (s # ss), w2)))"

definition ref_of :: "'s aruba_object \<Rightarrow> aruba_reference" where
  "ref_of obj = \<lparr>aref_name = ar_name obj, aref_namespace = ar_namespace obj\<rparr>"

subsection \<open>\<^verbatim>\<open>instance.go\<close>: security groups at attach time\<close>

fun gather_rules ::
  "(security_group_rule, 'w) repo \<Rightarrow> scope \<Rightarrow> reference list \<Rightarrow> rule_spec list \<Rightarrow> 'w
   \<Rightarrow> (go_error + rule_spec list) \<times> 'w" where
  "gather_rules repo scope [] rules w = (Inr rules, w)"
| "gather_rules repo scope (rr # refs) rules w =
    (case rp_load repo (named_security_group_rule (last_segment (ref_resource rr)) scope) w of
       (Inl err, w1) \<Rightarrow> (Inl (Sentinel ErrStillProcessing), w1)
     | (Inr standalone, w1) \<Rightarrow>
         gather_rules repo scope refs
           (rules @ [normalize_standalone_rule (sgr_spec standalone) (md_labels standalone)]) w1)"

fun create_rules ::
  "(aruba_rule_spec, 'w) aruba_repo \<Rightarrow> aruba_rule_spec aruba_object list \<Rightarrow> 'w \<Rightarrow> go_error option \<times> 'w" where
  "create_rules repo [] w = (None, w)"
| "create_rules repo (rule # rules) w =
    (case arp_create repo rule w of
       (Some err, w1) \<Rightarrow> if kube_is IsAlreadyExists err then create_rules repo rules w1 else (Some err, w1)
     | (None, w1) \<Rightarrow> create_rules repo rules w1)"

text \<open>\<^verbatim>\<open>Create\<close> of an object that may be there already, as the code writes it in many places.\<close>

definition create_if_absent :: "('s, 'w) aruba_repo \<Rightarrow> 's aruba_object \<Rightarrow> 'w \<Rightarrow> go_error option \<times> 'w" where
  "create_if_absent repo obj w =
    (case arp_create repo obj w of
       (Some err, w1) \<Rightarrow> if kube_is IsAlreadyExists err then (None, w1) else (Some err, w1)
     | (None, w1) \<Rightarrow> (None, w1))"

definition materialize_security_group ::
  "'w aruba_env \<Rightarrow> scope \<Rightarrow> string \<Rightarrow> string \<Rightarrow> string \<Rightarrow> string \<Rightarrow> aruba_reference \<Rightarrow> aruba_reference \<Rightarrow> 'w
   \<Rightarrow> (go_error + aruba_reference) \<times> 'w" where
  "materialize_security_group h scope network seca_name namespace region vpc_ref project_ref w =
    (case rp_load (ae_security_groups h) (named_security_group seca_name scope) w of
       (Inl err, w1) \<Rightarrow> (Inl (Sentinel ErrStillProcessing), w1)
     | (Inr seca, w1) \<Rightarrow>
       (let sg = build_security_group seca_name network region (sc_tenant scope) namespace (md_labels seca) vpc_ref project_ref in
        case create_if_absent (ae_groups h) sg w1 of
          (Some err, w2) \<Rightarrow> (Inl err, w2)
        | (None, w2) \<Rightarrow>
          (case gather_rules (ae_security_group_rules h) scope (sg_rule_refs seca)
                  (normalize_inline_rules (sg_rules seca) (md_labels seca)) w2 of
             (Inl err, w3) \<Rightarrow> (Inl err, w3)
           | (Inr rules, w3) \<Rightarrow>
             (case create_rules (ae_group_rules h)
                     (build_security_rules rules (ar_name sg) region (sc_tenant scope) namespace vpc_ref project_ref) w3 of
                (Some err, w4) \<Rightarrow> (Inl err, w4)
              | (None, w4) \<Rightarrow>
                (case load_active_aruba (ae_groups h) sg w4 of
                   (Inl err, w5) \<Rightarrow> (Inl err, w5)
                 | (Inr observed, w5) \<Rightarrow> (Inr \<lparr>aref_name = ar_name sg, aref_namespace = namespace\<rparr>, w5))))))"

fun materialize_security_groups ::
  "'w aruba_env \<Rightarrow> scope \<Rightarrow> string \<Rightarrow> string \<Rightarrow> string \<Rightarrow> aruba_reference \<Rightarrow> aruba_reference \<Rightarrow> string list \<Rightarrow> 'w
   \<Rightarrow> (go_error + aruba_reference list) \<times> 'w" where
  "materialize_security_groups h scope network namespace region vpc_ref project_ref [] w = (Inr [], w)"
| "materialize_security_groups h scope network namespace region vpc_ref project_ref (name # names) w =
    (case materialize_security_group h scope network name namespace region vpc_ref project_ref w of
       (Inl err, w1) \<Rightarrow> (Inl err, w1)
     | (Inr ref, w1) \<Rightarrow>
       (case materialize_security_groups h scope network namespace region vpc_ref project_ref names w1 of
          (Inl err, w2) \<Rightarrow> (Inl err, w2)
        | (Inr refs, w2) \<Rightarrow> (Inr (ref # refs), w2)))"

definition resolve_networking ::
  "'w aruba_env \<Rightarrow> instance_res \<Rightarrow> cloud_server_refs \<Rightarrow> 'w \<Rightarrow> (go_error + cloud_server_refs) \<times> 'w" where
  "resolve_networking h domain refs w =
    (let ws_namespace = compute_namespace (ae_sha3 h) (own_scope domain) in
     case resolve_nics h domain w of
       (Inl err, w1) \<Rightarrow> (Inl err, w1)
     | (Inr (subnet_names, nic_groups, pip_names), w1) \<Rightarrow>
       (let sg_names = (case ins_security_group_ref (in_spec domain) of
              None \<Rightarrow> nic_groups
            | Some ref \<Rightarrow> append_unique nic_groups (last_segment (ref_resource ref))) in
        if subnet_names = [] then (Inl (Sentinel ErrStillProcessing), w1)
        else (case resolve_subnets h (md_tenant domain) (md_workspace domain) subnet_names w1 of
          (Inl err, w2) \<Rightarrow> (Inl err, w2)
        | (Inr subnets, w2) \<Rightarrow>
          (let vpc_ref = asn_vpc (ar_spec (hd subnets)); network = subnet_network (hd subnets) in
           if sg_names = [] then (Inl (Sentinel ErrStillProcessing), w2)
           else (case materialize_security_groups h (own_scope domain) network ws_namespace (md_region domain)
                        vpc_ref (csr_project refs) sg_names w2 of
             (Inl err, w3) \<Rightarrow> (Inl err, w3)
           | (Inr groups, w3) \<Rightarrow>
             (let refs' = refs\<lparr>csr_subnets := map ref_of subnets, csr_vpc := vpc_ref, csr_groups := groups\<rparr> in
              if pip_names = [] then (Inr refs', w3)
              else (case load_active_aruba (ae_elastic_ips h) (key_object (hd pip_names) ws_namespace zero_elastic_ip_spec) w3 of
                (Inl err, w4) \<Rightarrow> (Inl err, w4)
              | (Inr eip, w4) \<Rightarrow>
                  (Inr (refs'\<lparr>csr_elastic_ip := Some \<lparr>aref_name = hd pip_names, aref_namespace = ws_namespace\<rparr>\<rparr>), w4))))))))"

subsection \<open>\<^verbatim>\<open>instance.go\<close>: volumes\<close>

fun resolve_data_volumes ::
  "(volume_spec, 'w) aruba_repo \<Rightarrow> string \<Rightarrow> volume_reference list \<Rightarrow> 'w \<Rightarrow> (go_error + aruba_reference list) \<times> 'w" where
  "resolve_data_volumes repo namespace [] w = (Inr [], w)"
| "resolve_data_volumes repo namespace (dv # dvs) w =
    (let name = last_segment (ref_resource (vol_device_ref dv)) in
     if name = [] then resolve_data_volumes repo namespace dvs w
     else (case load_active_aruba repo (key_object name namespace zero_volume_spec) w of
         (Inl err, w1) \<Rightarrow> (Inl err, w1)
       | (Inr live, w1) \<Rightarrow>
         (case resolve_data_volumes repo namespace dvs w1 of
            (Inl err, w2) \<Rightarrow> (Inl err, w2)
          | (Inr refs, w2) \<Rightarrow> (Inr (\<lparr>aref_name = name, aref_namespace = namespace\<rparr> # refs), w2))))"

definition zone_conflict :: "string \<Rightarrow> string \<Rightarrow> string \<Rightarrow> go_error" where
  "zone_conflict zone boot_name boot_zone = GoError (''instance zone '' @ fmt_q zone @ '' conflicts with boot volume '' @
     fmt_q boot_name @ '' in zone '' @ fmt_q boot_zone @ '': an Aruba CloudServer must share a zone with its boot volume'')"

definition resolve_volumes ::
  "'w aruba_env \<Rightarrow> instance_res \<Rightarrow> cloud_server_refs \<Rightarrow> 'w \<Rightarrow> (go_error + cloud_server_refs) \<times> 'w" where
  "resolve_volumes h domain refs w =
    (let ws_namespace = compute_namespace (ae_sha3 h) (own_scope domain);
         boot_name = last_segment (ref_resource (vol_device_ref (ins_boot_volume (in_spec domain)))) in
     if boot_name = [] then (Inl (Sentinel ErrStillProcessing), w)
     else (case load_active_aruba (ae_volumes h) (key_object boot_name ws_namespace zero_volume_spec) w of
       (Inl err, w1) \<Rightarrow> (Inl err, w1)
     | (Inr boot, w1) \<Rightarrow>
       (let zone = ins_zone (in_spec domain); boot_zone = vol_zone (ar_spec boot) in
        if zone \<noteq> [] \<and> zone \<noteq> boot_zone then (Inl (zone_conflict zone boot_name boot_zone), w1)
        else (case resolve_data_volumes (ae_volumes h) ws_namespace (ins_data_volumes (in_spec domain)) w1 of
          (Inl err, w2) \<Rightarrow> (Inl err, w2)
        | (Inr data, w2) \<Rightarrow>
            (Inr (refs\<lparr>csr_zone := boot_zone,
               csr_boot_volume := \<lparr>aref_name = boot_name, aref_namespace = ws_namespace\<rparr>,
               csr_data_volumes := data\<rparr>), w2)))))"

subsection \<open>\<^verbatim>\<open>instance.go\<close>: the operations\<close>

definition empty_cloud_server_refs :: "aruba_reference \<Rightarrow> cloud_server_refs" where
  "empty_cloud_server_refs project =
    \<lparr>csr_flavor = [], csr_zone = [], csr_vpc = no_aruba_reference, csr_subnets = [], csr_groups = [],
     csr_key_pair = no_aruba_reference, csr_boot_volume = no_aruba_reference, csr_data_volumes = [],
     csr_elastic_ip = None, csr_project = project\<rparr>"

definition instance_resolve ::
  "'w aruba_env \<Rightarrow> instance_res \<Rightarrow> 'w \<Rightarrow> (go_error + cloud_server_refs) \<times> 'w" where
  "instance_resolve h domain w =
    (let tenant = md_tenant domain; workspace = md_workspace domain;
         prj_namespace = compute_namespace (ae_sha3 h) (tenant_only_scope tenant);
         refs = empty_cloud_server_refs \<lparr>aref_name = workspace, aref_namespace = prj_namespace\<rparr> in
     case load_active_workspace (ae_workspaces h) (own_scope domain) w of
       (Inl err, w1) \<Rightarrow> (Inl err, w1)
     | (Inr ws, w1) \<Rightarrow>
       (case load_active_project (ae_projects h) (key_object workspace prj_namespace zero_project_spec) w1 of
          (Inl err, w2) \<Rightarrow> (Inl err, w2)
        | (Inr prj, w2) \<Rightarrow>
          (case resolve_networking h domain refs w2 of
             (Inl err, w3) \<Rightarrow> (Inl err, w3)
           | (Inr refs1, w3) \<Rightarrow>
             (case ins_ssh_keys (in_spec domain) of
                [] \<Rightarrow> (Inl (Sentinel ErrStillProcessing), w3)
              | ssh_key # _ \<Rightarrow>
                (let key_pair = build_key_pair (ae_sha3 h) domain ssh_key in
                 case create_if_absent (ae_key_pairs h) key_pair w3 of
                   (Some err, w4) \<Rightarrow> (Inl err, w4)
                 | (None, w4) \<Rightarrow>
                   (case load_active_aruba (ae_key_pairs h) key_pair w4 of
                      (Inl err, w5) \<Rightarrow> (Inl err, w5)
                    | (Inr live, w5) \<Rightarrow>
                      (case resolve_volumes h domain (refs1\<lparr>csr_key_pair := ref_of key_pair\<rparr>) w5 of
                         (Inl err, w6) \<Rightarrow> (Inl err, w6)
                       | (Inr refs2, w6) \<Rightarrow>
                         (let sku_name = last_segment (ref_resource (ins_sku_ref (in_spec domain))) in
                          if sku_name = [] then (Inl (Sentinel ErrStillProcessing), w6)
                          else (case rp_load (ae_instance_skus h) (named_instance_sku sku_name tenant) w6 of
                            (Inl err, w7) \<Rightarrow> (Inl (Sentinel ErrStillProcessing), w7)
                          | (Inr sku, w7) \<Rightarrow>
                            (case compute_flavor (isks_vcpu (isk_spec sku)) (isks_ram (isk_spec sku)) of
                               Inl err \<Rightarrow> (Inl err, w7)
                             | Inr flavor \<Rightarrow> (Inr (refs2\<lparr>csr_flavor := flavor\<rparr>), w7)))))))))))"

definition zero_cloud_server_spec :: cloud_server_spec where
  "zero_cloud_server_spec =
    \<lparr>csv_tenant = [], csv_region = [], csv_tags = [], csv_zone = [], csv_flavor = [], csv_vpc = no_aruba_reference,
     csv_subnets = [], csv_groups = [], csv_key_pair = no_aruba_reference, csv_boot_volume = no_aruba_reference,
     csv_data_volumes = [], csv_elastic_ip = None, csv_project = no_aruba_reference\<rparr>"

definition zero_key_pair_spec :: key_pair_spec where
  "zero_key_pair_spec = \<lparr>kp_tenant = [], kp_region = [], kp_tags = [], kp_value = [], kp_project = no_aruba_reference\<rparr>"

definition instance_create :: "'w aruba_env \<Rightarrow> instance_res \<Rightarrow> 'w \<Rightarrow> go_error option \<times> 'w" where
  "instance_create h domain w =
    (case instance_resolve h domain w of
       (Inl err, w1) \<Rightarrow> (Some err, w1)
     | (Inr refs, w1) \<Rightarrow>
       (let server = build_cloud_server (ae_sha3 h) domain refs in
        case create_if_absent (ae_servers h) server w1 of
          (Some err, w2) \<Rightarrow> (Some err, w2)
        | (None, w2) \<Rightarrow>
          (case arp_load (ae_servers h) server w2 of
             (Inl err, w3) \<Rightarrow>
               if kube_is IsNotFound err then (Some (Sentinel ErrStillProcessing), w3) else (Some err, w3)
           | (Inr observed, w3) \<Rightarrow>
               if ar_phase observed \<noteq> ResourcePhaseActive then (Some (Sentinel ErrStillProcessing), w3)
               else (None, w3))))"

definition aruba_instance_create :: "'w aruba_env \<Rightarrow> (instance_res, 'w) delegated" where
  "aruba_instance_create h = plugin_op (instance_create h)"

definition aruba_instance_delete :: "'w aruba_env \<Rightarrow> (instance_res, 'w) delegated" where
  "aruba_instance_delete h = plugin_op (\<lambda>domain w.
    let namespace = compute_namespace (ae_sha3 h) (own_scope domain);
        server = key_object (md_name domain) namespace zero_cloud_server_spec;
        remove_key = (\<lambda>w2. case arp_delete (ae_key_pairs h)
            (key_object (md_name domain @ key_pair_suffix) namespace zero_key_pair_spec) w2 of
          (Some err, w3) \<Rightarrow> if kube_is IsNotFound err then (None, w3) else (Some err, w3)
        | (None, w3) \<Rightarrow> (None, w3));
        confirm = (\<lambda>w1. case arp_load (ae_servers h) server w1 of
          (Inr live, w2) \<Rightarrow> (Some (Sentinel ErrStillProcessing), w2)
        | (Inl err, w2) \<Rightarrow> if \<not> kube_is IsNotFound err then (Some err, w2) else remove_key w2) in
    case arp_delete (ae_servers h) server w of
      (Some err, w1) \<Rightarrow> if kube_is IsNotFound err then confirm w1 else (Some err, w1)
    | (None, w1) \<Rightarrow> confirm w1)"

text \<open>\<^verbatim>\<open>PowerOn\<close> and \<^verbatim>\<open>PowerOff\<close> do nothing.\<close>

definition aruba_instance_power :: "(instance_res, 'w) delegated" where
  "aruba_instance_power = plugin_op (\<lambda>r w. (None, w))"

definition aruba_instance_update :: "'w aruba_env \<Rightarrow> (instance_res, 'w) delegated" where
  "aruba_instance_update h = plugin_op (\<lambda>domain w.
    let namespace = compute_namespace (ae_sha3 h) (own_scope domain); tags = aruba_tags (md_labels domain) in
    case sync_tags (ae_servers h) (key_object (md_name domain) namespace zero_cloud_server_spec) tags
           csv_tags (\<lambda>ts. csv_tags_update (\<lambda>_. ts)) w of
      (Some err, w1) \<Rightarrow> (Some err, w1)
    | (None, w1) \<Rightarrow>
        sync_tags (ae_key_pairs h) (key_object (md_name domain @ key_pair_suffix) namespace zero_key_pair_spec) tags
          kp_tags (\<lambda>ts. kp_tags_update (\<lambda>_. ts)) w1)"

end
