(* ===== verification/Aruba_Memory.thy ===== *)
theory Aruba_Memory
  imports Aruba_Contract Aruba_Compute
begin

section \<open>A server of the operator's objects in memory\<close>

text \<open>
  A world that is nothing but the operator's objects, on which the witnesses of the Aruba properties
  run: one list per kind, repositories that behave as documented, a created object active at once. That
  such repositories serve their lists shows that what the properties ask of a server can hold.
\<close>

definition stored_at :: "string \<times> string \<Rightarrow> 's aruba_object list \<Rightarrow> 's aruba_object option" where
  "stored_at key objs = find (\<lambda>obj. object_key obj = key) objs"

definition labels_match :: "strmap \<Rightarrow> 's aruba_object \<Rightarrow> bool" where
  "labels_match selector obj \<longleftrightarrow> (\<forall>(k, v) \<in> set selector. map_of (ar_labels obj) k = Some v)"

definition missing :: go_error where "missing = KubeError [IsNotFound] True None ''not found''"
definition present :: go_error where "present = KubeError [IsAlreadyExists] True None ''already exists''"

definition memory_repo ::
  "('w \<Rightarrow> 's aruba_object list) \<Rightarrow> ('s aruba_object list \<Rightarrow> 'w \<Rightarrow> 'w) \<Rightarrow> ('s, 'w) aruba_repo" where
  "memory_repo get put =
    \<lparr>arp_create = (\<lambda>obj w. case stored_at (object_key obj) (get w) of
         Some live \<Rightarrow> (Some present, w)
       | None \<Rightarrow> (None, put (obj\<lparr>ar_phase := ResourcePhaseActive\<rparr> # get w) w)),
     arp_load = (\<lambda>obj w. case stored_at (object_key obj) (get w) of
         Some live \<Rightarrow> (Inr live, w) | None \<Rightarrow> (Inl missing, w)),
     arp_list = (\<lambda>namespace selector w. (Inr (filter (\<lambda>obj. labels_match selector obj \<and>
         stored_at (object_key obj) (get w) = Some obj \<and>
         (case namespace of None \<Rightarrow> True | Some n \<Rightarrow> ar_namespace obj = n)) (get w)), w)),
     arp_update = (\<lambda>obj w. case stored_at (object_key obj) (get w) of
         Some live \<Rightarrow> (None, put (obj # filter (\<lambda>o1. object_key o1 \<noteq> object_key obj) (get w)) w)
       | None \<Rightarrow> (Some missing, w)),
     arp_delete = (\<lambda>obj w. case stored_at (object_key obj) (get w) of
         Some live \<Rightarrow> (None, put (filter (\<lambda>o1. object_key o1 \<noteq> object_key obj) (get w)) w)
       | None \<Rightarrow> (Some missing, w))\<rparr>"

definition kept_in :: "('w \<Rightarrow> 's aruba_object list) \<Rightarrow> 'w \<Rightarrow> string \<times> string \<Rightarrow> 's aruba_object option" where
  "kept_in get w key = stored_at key (get w)"

lemma stored_at_simps [simp]:
  "stored_at key [] = None"
  "stored_at key (obj # objs) = (if object_key obj = key then Some obj else stored_at key objs)"
  by (simp_all add: stored_at_def)

lemma stored_at_filter: "stored_at key (filter (\<lambda>o1. object_key o1 \<noteq> k) objs) = (if key = k then None else stored_at key objs)"
  by (induction objs) auto

lemma stored_at_key: "stored_at key objs = Some obj \<Longrightarrow> obj \<in> set objs \<and> object_key obj = key"
  by (induction objs) (auto split: if_splits)

lemma stored_at_member: "stored_at (object_key obj) objs = Some obj \<Longrightarrow> obj \<in> set objs"
  using stored_at_key by blast

lemma missing_simps [simp]:
  "kube_is IsNotFound missing" "\<not> kube_is IsAlreadyExists missing"
  "kube_is IsAlreadyExists present" "\<not> kube_is IsNotFound present"
  by (simp_all add: missing_def present_def kube_is_def)

lemma object_key_phase [simp]: "object_key (obj\<lparr>ar_phase := p\<rparr>) = object_key obj"
  by (simp add: object_key_def)

lemma memory_serves:
  assumes "\<And>xs w. get (put xs w) = xs"
  shows "serves (memory_repo get put) (kept_in get)"
  unfolding serves_def
  by (intro conjI allI impI)
     (auto simp: memory_repo_def kept_in_def assms fun_eq_iff stored_at_filter split: option.splits if_splits)

text \<open>The lists, and the handlers' environment over them; the platform's resources are looked up by name.\<close>

record memory =
  me_projects :: "project_spec aruba_object list"
  me_vpcs :: "vpc_spec aruba_object list"
  me_subnets :: "aruba_subnet_spec aruba_object list"
  me_elastic_ips :: "elastic_ip_spec aruba_object list"
  me_volumes :: "volume_spec aruba_object list"
  me_groups :: "aruba_group_spec aruba_object list"
  me_rules :: "aruba_rule_spec aruba_object list"
  me_key_pairs :: "key_pair_spec aruba_object list"
  me_servers :: "cloud_server_spec aruba_object list"

definition empty_memory :: memory where
  "empty_memory = \<lparr>me_projects = [], me_vpcs = [], me_subnets = [], me_elastic_ips = [], me_volumes = [],
     me_groups = [], me_rules = [], me_key_pairs = [], me_servers = []\<rparr>"

definition reading :: "'m regional_metadata_scheme list \<Rightarrow> ('m regional_metadata_scheme, 'w) repo" where
  "reading rs = \<lparr>rp_create = (\<lambda>r w. (Inl missing, w)), rp_update = (\<lambda>r w. (Inl missing, w)),
     rp_update_status = (\<lambda>r w. (Inl missing, w)), rp_delete = (\<lambda>r w. (Some missing, w)),
     rp_load = (\<lambda>r w. case find (\<lambda>x. md_name x = md_name r) rs of Some x \<Rightarrow> (Inr x, w) | None \<Rightarrow> (Inl missing, w)),
     rp_list = (\<lambda>p w. (Inr (rs, None), w))\<rparr>"

definition memory_env :: "memory aruba_env" where
  "memory_env = \<lparr>ae_sha3 = (\<lambda>s. s), ae_workspaces = reading [], ae_storage_skus = reading [], ae_gateways = reading [],
     ae_nics = reading [], ae_security_groups = reading [], ae_security_group_rules = reading [],
     ae_instance_skus = reading [],
     ae_projects = memory_repo me_projects (\<lambda>xs. me_projects_update (\<lambda>_. xs)),
     ae_volumes = memory_repo me_volumes (\<lambda>xs. me_volumes_update (\<lambda>_. xs)),
     ae_vpcs = memory_repo me_vpcs (\<lambda>xs. me_vpcs_update (\<lambda>_. xs)),
     ae_subnets = memory_repo me_subnets (\<lambda>xs. me_subnets_update (\<lambda>_. xs)),
     ae_elastic_ips = memory_repo me_elastic_ips (\<lambda>xs. me_elastic_ips_update (\<lambda>_. xs)),
     ae_groups = memory_repo me_groups (\<lambda>xs. me_groups_update (\<lambda>_. xs)),
     ae_group_rules = memory_repo me_rules (\<lambda>xs. me_rules_update (\<lambda>_. xs)),
     ae_key_pairs = memory_repo me_key_pairs (\<lambda>xs. me_key_pairs_update (\<lambda>_. xs)),
     ae_servers = memory_repo me_servers (\<lambda>xs. me_servers_update (\<lambda>_. xs))\<rparr>"

lemma memory_env_serves:
  "serves (ae_projects memory_env) (kept_in me_projects)"
  "serves (ae_volumes memory_env) (kept_in me_volumes)"
  "serves (ae_vpcs memory_env) (kept_in me_vpcs)"
  "serves (ae_subnets memory_env) (kept_in me_subnets)"
  "serves (ae_elastic_ips memory_env) (kept_in me_elastic_ips)"
  "serves (ae_groups memory_env) (kept_in me_groups)"
  "serves (ae_group_rules memory_env) (kept_in me_rules)"
  "serves (ae_key_pairs memory_env) (kept_in me_key_pairs)"
  "serves (ae_servers memory_env) (kept_in me_servers)"
  unfolding memory_env_def by (simp_all add: memory_serves)

end
