(* ===== verification/Aruba_Groups.thy ===== *)
theory Aruba_Groups
  imports Aruba_Memory
begin

section \<open>The Aruba provider: reaping security groups\<close>

text \<open>
  What deleting a security group takes away. The effect of a pass on a kind is a set of keys: outside
  it nothing changes, and inside it an object stays as it was, vanishes, or is marked for deletion. The
  lemmas follow the loops of \<^verbatim>\<open>SecurityGroupHandler.Delete\<close>, with the lists they are given by a server
  that lists and deletes as documented.
\<close>

subsection \<open>The server\<close>

text \<open>
  The documented behaviour of listing and deleting, for one kind: a list by namespace and labels has
  exactly the objects that match, a deleted object is gone or, where it has finalizers, marked;
  \<open>doomed\<close> says that it is marked.
\<close>

definition reapable ::
  "('s, 'w) aruba_repo \<Rightarrow> ('w \<Rightarrow> string \<times> string \<Rightarrow> 's aruba_object option) \<Rightarrow> ('s aruba_object \<Rightarrow> bool) \<Rightarrow> bool" where
  "reapable repo kept doomed \<longleftrightarrow>
     (\<forall>w key obj. kept w key = Some obj \<longrightarrow> object_key obj = key) \<and>
     (\<forall>ns selector w r w'. arp_list repo (Some ns) selector w = (r, w') \<longrightarrow> kept w' = kept w \<and>
        (\<forall>objs. r = Inr objs \<longrightarrow> set objs = {obj. kept w (object_key obj) = Some obj \<and> ar_namespace obj = ns \<and>
           labels_match selector obj})) \<and>
     (\<forall>obj w r w'. arp_delete repo obj w = (r, w') \<longrightarrow>
        (case r of None \<Rightarrow> \<exists>left. kept w' = (kept w)(object_key obj := left) \<and> (\<forall>o1. left = Some o1 \<longrightarrow> doomed o1)
         | Some err \<Rightarrow> kept w' = kept w \<and> (kube_is IsNotFound err \<longrightarrow> kept w (object_key obj) = None)))"

text \<open>Listing and deleting one kind leaves another alone.\<close>

definition spares :: "('s, 'w) aruba_repo \<Rightarrow> ('w \<Rightarrow> 'k) \<Rightarrow> bool" where
  "spares repo kept \<longleftrightarrow> (\<forall>ns selector w. kept (snd (arp_list repo ns selector w)) = kept w) \<and>
     (\<forall>obj w. kept (snd (arp_delete repo obj w)) = kept w)"

lemma reapable_key: "reapable repo kept doomed \<Longrightarrow> kept w key = Some obj \<Longrightarrow> object_key obj = key"
  unfolding reapable_def by metis

lemma reapable_list:
  "reapable repo kept doomed \<Longrightarrow> arp_list repo (Some ns) selector w = (r, w') \<Longrightarrow> kept w' = kept w"
  "reapable repo kept doomed \<Longrightarrow> arp_list repo (Some ns) selector w = (Inr objs, w') \<Longrightarrow>
     set objs = {obj. kept w (object_key obj) = Some obj \<and> ar_namespace obj = ns \<and> labels_match selector obj}"
  unfolding reapable_def by blast+

lemma reapable_delete_result:
  "reapable repo kept doomed \<Longrightarrow> arp_delete repo obj w = (r, w') \<Longrightarrow>
     (case r of None \<Rightarrow> \<exists>left. kept w' = (kept w)(object_key obj := left) \<and> (\<forall>o1. left = Some o1 \<longrightarrow> doomed o1)
      | Some err \<Rightarrow> kept w' = kept w \<and> (kube_is IsNotFound err \<longrightarrow> kept w (object_key obj) = None))"
  unfolding reapable_def by blast

lemma reapable_delete:
  "reapable repo kept doomed \<Longrightarrow> arp_delete repo obj w = (None, w') \<Longrightarrow>
     \<exists>left. kept w' = (kept w)(object_key obj := left) \<and> (\<forall>o1. left = Some o1 \<longrightarrow> doomed o1)"
  "reapable repo kept doomed \<Longrightarrow> arp_delete repo obj w = (Some err, w') \<Longrightarrow>
     kept w' = kept w \<and> (kube_is IsNotFound err \<longrightarrow> kept w (object_key obj) = None)"
  using reapable_delete_result [of repo kept doomed obj w None w']
    reapable_delete_result [of repo kept doomed obj w "Some err" w'] by simp_all

lemma sparesD:
  "spares repo kept \<Longrightarrow> arp_list repo ns selector w = (r, w') \<Longrightarrow> kept w' = kept w"
  "spares repo kept \<Longrightarrow> arp_delete repo obj w = (e, w') \<Longrightarrow> kept w' = kept w"
  unfolding spares_def by (metis snd_conv)+

subsection \<open>Effects\<close>

definition gone :: "('s \<Rightarrow> bool) \<Rightarrow> ('k \<Rightarrow> 's option) \<Rightarrow> 'k \<Rightarrow> bool" where
  "gone doomed s key \<longleftrightarrow> (\<forall>obj. s key = Some obj \<longrightarrow> doomed obj)"

definition wanes :: "('s \<Rightarrow> bool) \<Rightarrow> 'k set \<Rightarrow> ('k \<Rightarrow> 's option) \<Rightarrow> ('k \<Rightarrow> 's option) \<Rightarrow> bool" where
  "wanes doomed K s s' \<longleftrightarrow> (\<forall>key. s' key = s key \<or> key \<in> K \<and> gone doomed s' key)"

lemma wanes_refl [simp, intro]: "wanes doomed K s s"
  by (simp add: wanes_def)

lemma wanes_trans: "wanes doomed K s s' \<Longrightarrow> wanes doomed K s' s'' \<Longrightarrow> wanes doomed K s s''"
  by (simp add: wanes_def gone_def) metis

lemma wanes_mono: "wanes doomed K s s' \<Longrightarrow> K \<subseteq> L \<Longrightarrow> wanes doomed L s s'"
  by (auto simp: wanes_def)

lemma wanes_then: "wanes doomed K s s' \<Longrightarrow> wanes doomed L s' s'' \<Longrightarrow> K \<union> L \<subseteq> M \<Longrightarrow> wanes doomed M s s''"
  by (rule wanes_trans [of doomed M s s']) (auto elim: wanes_mono)

lemma gone_wanes: "gone doomed s key \<Longrightarrow> wanes doomed K s s' \<Longrightarrow> gone doomed s' key"
  by (simp add: wanes_def gone_def) metis

lemma delete_wanes:
  assumes "reapable repo kept doomed" and "arp_delete repo obj w = (r, w')"
  shows "wanes doomed {object_key obj} (kept w) (kept w')"
    and "(case r of None \<Rightarrow> True | Some err \<Rightarrow> kube_is IsNotFound err) \<Longrightarrow> gone doomed (kept w') (object_key obj)"
proof -
  have "wanes doomed {object_key obj} (kept w) (kept w') \<and>
    ((case r of None \<Rightarrow> True | Some err \<Rightarrow> kube_is IsNotFound err) \<longrightarrow> gone doomed (kept w') (object_key obj))"
  proof (cases r)
    case None
    with assms reapable_delete(1) obtain left where "kept w' = (kept w)(object_key obj := left)"
      "\<forall>o1. left = Some o1 \<longrightarrow> doomed o1" by metis
    then show ?thesis by (simp add: wanes_def gone_def)
  next
    case (Some err)
    with assms have "kept w' = kept w \<and> (kube_is IsNotFound err \<longrightarrow> kept w (object_key obj) = None)"
      using reapable_delete(2) by metis
    with Some show ?thesis by (auto simp: wanes_def gone_def)
  qed
  then show "wanes doomed {object_key obj} (kept w) (kept w')"
    and "(case r of None \<Rightarrow> True | Some err \<Rightarrow> kube_is IsNotFound err) \<Longrightarrow> gone doomed (kept w') (object_key obj)"
    by blast+
qed

lemma reap_rules_effect:
  assumes r: "reapable repo kept doomed"
  shows "reap_rules repo rules w = (e, w') \<Longrightarrow> wanes doomed (object_key ` set rules) (kept w) (kept w')
    \<and> (e = None \<longrightarrow> (\<forall>rule \<in> set rules. gone doomed (kept w') (object_key rule)))"
proof (induction rules arbitrary: w)
  case (Cons rule rules)
  obtain x w1 where d: "arp_delete repo rule w = (x, w1)" by fastforce
  note step = delete_wanes [OF r d]
  show ?case
  proof (cases "case x of None \<Rightarrow> True | Some err \<Rightarrow> kube_is IsNotFound err")
    case True
    with Cons.prems d have "reap_rules repo rules w1 = (e, w')" by (auto split: option.splits if_splits)
    note rest = Cons.IH [OF this]
    have "wanes doomed (object_key ` set (rule # rules)) (kept w) (kept w')"
      by (rule wanes_then [OF step(1) conjunct1 [OF rest]]) simp
    moreover have "gone doomed (kept w') (object_key rule)" by (rule gone_wanes [OF step(2) [OF True] conjunct1 [OF rest]])
    ultimately show ?thesis using rest by auto
  next
    case False
    with Cons.prems d have "w' = w1" "e \<noteq> None" by (auto split: option.splits if_splits)
    with step(1) show ?thesis by (auto elim: wanes_mono)
  qed
qed simp

lemma reap_rules_spares: "spares repo kept \<Longrightarrow> reap_rules repo rules w = (e, w') \<Longrightarrow> kept w' = kept w"
proof (induction rules arbitrary: w)
  case (Cons rule rules)
  then show ?case
    by (auto split: prod.splits option.splits if_splits dest!: sparesD(2) [OF Cons.prems(1)] Cons.IH [OF Cons.prems(1)])
qed simp

subsection \<open>The groups and their rules\<close>

text \<open>The keys of the rules that belong to some groups: in their namespace, labelled with their name.\<close>

definition rule_keys ::
  "aruba_group_spec aruba_object set \<Rightarrow> ('k \<Rightarrow> aruba_rule_spec aruba_object option) \<Rightarrow> 'k set" where
  "rule_keys groups s = {key. \<exists>rule sg. s key = Some rule \<and> sg \<in> groups \<and> ar_namespace rule = ar_namespace sg \<and>
     labels_match [(label_security_group, ar_name sg)] rule}"

lemma rule_keys_insert: "rule_keys (insert sg groups) s = rule_keys {sg} s \<union> rule_keys groups s"
  by (auto simp: rule_keys_def)

lemma rule_keys_wanes:
  assumes "wanes doomed K s s'" and "key \<in> rule_keys groups s'" shows "key \<in> K \<union> rule_keys groups s"
proof (cases "s' key = s key")
  case True
  with assms(2) show ?thesis by (simp add: rule_keys_def)
next
  case False
  with assms(1) show ?thesis by (auto simp: wanes_def)
qed

lemma rule_keys_listed:
  assumes "reapable repo kept doomed"
    and "arp_list repo (Some (ar_namespace sg)) [(label_security_group, ar_name sg)] w = (Inr rules, w')"
  shows "object_key ` set rules = rule_keys {sg} (kept w)"
  using reapable_key [OF assms(1)] unfolding reapable_list(2) [OF assms] rule_keys_def by force

lemma reap_groups_effect:
  assumes g: "reapable (ae_groups h) kept_g doomed_g" and r: "reapable (ae_group_rules h) kept_r doomed_r"
    and spg: "spares (ae_groups h) kept_r" and sr: "spares (ae_group_rules h) kept_g"
  shows "reap_groups h groups w = (e, w') \<Longrightarrow>
    wanes doomed_g (object_key ` set groups) (kept_g w) (kept_g w') \<and>
    wanes doomed_r (rule_keys (set groups) (kept_r w)) (kept_r w) (kept_r w') \<and>
    (e = None \<longrightarrow> (\<forall>sg \<in> set groups. gone doomed_g (kept_g w') (object_key sg)) \<and>
      (\<forall>key \<in> rule_keys (set groups) (kept_r w). gone doomed_r (kept_r w') key))"
proof (induction groups arbitrary: w)
  case (Cons sg groups)
  obtain x w1 where l: "arp_list (ae_group_rules h) (Some (ar_namespace sg)) [(label_security_group, ar_name sg)] w = (x, w1)"
    by fastforce
  have w1: "kept_g w1 = kept_g w" "kept_r w1 = kept_r w"
    using sparesD(1) [OF sr l] reapable_list(1) [OF r l] .
  show ?case
  proof (cases x)
    case (Inl err)
    with Cons.prems l w1 show ?thesis by auto
  next
    case (Inr rules)
    with l have keys: "object_key ` set rules = rule_keys {sg} (kept_r w)" using rule_keys_listed [OF r] by metis
    obtain y w2 where rr: "reap_rules (ae_group_rules h) rules w1 = (y, w2)" by fastforce
    note rules = reap_rules_effect [OF r rr, unfolded keys w1]
    have w2: "kept_g w2 = kept_g w" using reap_rules_spares [OF sr rr] w1 by simp
    show ?thesis
    proof (cases y)
      case (Some err)
      with Cons.prems l Inr rr have "w' = w2" "e = Some err" by auto
      with rules w2 show ?thesis by (auto simp: rule_keys_insert [of sg "set groups"] elim: wanes_mono)
    next
      case None
      obtain z w3 where d: "arp_delete (ae_groups h) sg w2 = (z, w3)" by fastforce
      have w3: "kept_r w3 = kept_r w2" using sparesD(2) [OF spg d] .
      note del = delete_wanes [OF g d, unfolded w2]
      show ?thesis
      proof (cases "case z of None \<Rightarrow> True | Some err \<Rightarrow> kube_is IsNotFound err")
        case False
        with Cons.prems l Inr rr None d have "w' = w3" "e \<noteq> None" by (auto split: option.splits if_splits)
        with rules del(1) w3 show ?thesis by (auto simp: rule_keys_insert [of sg "set groups"] elim: wanes_mono)
      next
        case True
        with Cons.prems l Inr rr None d have "reap_groups h groups w3 = (e, w')" by (auto split: option.splits if_splits)
        note rest = Cons.IH [OF this, unfolded w3]
        have sub: "rule_keys (set groups) (kept_r w2) \<subseteq> rule_keys (set (sg # groups)) (kept_r w)"
          using rule_keys_wanes [of doomed_r _ "kept_r w" "kept_r w2"] rules
          by (auto simp: rule_keys_insert [of sg "set groups"])
        have g1: "wanes doomed_g (object_key ` set (sg # groups)) (kept_g w) (kept_g w')"
          by (rule wanes_then [OF del(1) conjunct1 [OF rest]]) simp
        have r1: "wanes doomed_r (rule_keys (set (sg # groups)) (kept_r w)) (kept_r w) (kept_r w')"
          using wanes_then [OF conjunct1 [OF rules] conjunct1 [OF conjunct2 [OF rest]]] sub by (simp add: rule_keys_insert [of sg "set groups"])
        have "gone doomed_r (kept_r w') key" if "e = None" "key \<in> rule_keys (set (sg # groups)) (kept_r w)" for key
        proof (cases "kept_r w2 key = kept_r w key \<and> key \<in> rule_keys (set groups) (kept_r w)")
          case True
          then have "key \<in> rule_keys (set groups) (kept_r w2)" by (simp add: rule_keys_def)
          with rest that(1) show ?thesis by blast
        next
          case False
          have "gone doomed_r (kept_r w2) key"
          proof (cases "kept_r w2 key = kept_r w key")
            case True
            with False that(2) have "key \<in> object_key ` set rules"
              unfolding keys by (simp add: rule_keys_insert [of sg "set groups"])
            with rules None show ?thesis by auto
          next
            case False
            with conjunct1 [OF rules] show ?thesis unfolding wanes_def by metis
          qed
          then show ?thesis by (rule gone_wanes [OF _ conjunct1 [OF conjunct2 [OF rest]]])
        qed
        moreover have "gone doomed_g (kept_g w') (object_key s1)" if "e = None" "s1 \<in> set (sg # groups)" for s1
          using that rest gone_wanes [OF del(2) [OF True] conjunct1 [OF rest]] by auto
        ultimately show ?thesis using g1 r1 by blast
      qed
    qed
  qed
qed (simp add: rule_keys_def)

text \<open>The groups on the server that are made for a security group, and their keys.\<close>

definition own_groups ::
  "'w aruba_env \<Rightarrow> security_group \<Rightarrow> ('k \<Rightarrow> aruba_group_spec aruba_object option) \<Rightarrow> aruba_group_spec aruba_object set" where
  "own_groups h domain s = {sg. (\<exists>key. s key = Some sg) \<and>
     ar_namespace sg = compute_namespace (ae_sha3 h) (own_scope domain) \<and> labels_match (group_selector domain) sg}"

lemma security_group_delete_effect:
  assumes g: "reapable (ae_groups h) kept_g doomed_g" and r: "reapable (ae_group_rules h) kept_r doomed_r"
    and spg: "spares (ae_groups h) kept_r" and sr: "spares (ae_group_rules h) kept_g"
    and d: "security_group_delete h domain w = (e, w')"
  shows "wanes doomed_g (object_key ` own_groups h domain (kept_g w)) (kept_g w) (kept_g w') \<and>
    wanes doomed_r (rule_keys (own_groups h domain (kept_g w)) (kept_r w)) (kept_r w) (kept_r w') \<and>
    (e = None \<longrightarrow> (\<forall>sg \<in> own_groups h domain (kept_g w). gone doomed_g (kept_g w') (object_key sg)) \<and>
      (\<forall>key \<in> rule_keys (own_groups h domain (kept_g w)) (kept_r w). gone doomed_r (kept_r w') key))"
proof -
  obtain x w1 where l: "arp_list (ae_groups h) (Some (compute_namespace (ae_sha3 h) (own_scope domain)))
      (group_selector domain) w = (x, w1)" by fastforce
  have w1: "kept_g w1 = kept_g w" "kept_r w1 = kept_r w"
    using reapable_list(1) [OF g l] sparesD(1) [OF spg l] .
  show ?thesis
  proof (cases x)
    case (Inl err)
    with d l w1 show ?thesis by (auto simp: security_group_delete_def)
  next
    case (Inr groups)
    have own: "own_groups h domain (kept_g w) = {obj. kept_g w (object_key obj) = Some obj \<and>
        ar_namespace obj = compute_namespace (ae_sha3 h) (own_scope domain) \<and> labels_match (group_selector domain) obj}"
      unfolding own_groups_def using reapable_key [OF g, of w] by (intro Collect_cong) metis
    have "set groups = own_groups h domain (kept_g w)"
      unfolding own by (rule reapable_list(2) [OF g l [unfolded Inr]])
    moreover have "reap_groups h groups w1 = (e, w')" using d l Inr by (simp add: security_group_delete_def)
    ultimately show ?thesis using reap_groups_effect [OF g r spg sr, of groups w1 e w'] w1 by simp
  qed
qed

text \<open>What attaching an instance makes in the group's workspace is such a group.\<close>

lemma materialized_group_is_own:
  "labels_match (group_selector domain) (build_security_group (md_name domain) network region (md_tenant domain)
     (compute_namespace (ae_sha3 h) (own_scope domain)) labels vpc_ref project_ref)"
  "ar_namespace (build_security_group (md_name domain) network region (md_tenant domain)
     (compute_namespace (ae_sha3 h) (own_scope domain)) labels vpc_ref project_ref) = compute_namespace (ae_sha3 h) (own_scope domain)"
  by (simp_all add: labels_match_def group_selector_def build_security_group_def new_aruba_object_def
      label_security_group_def label_tenant_def label_network_def)

text \<open>The server in memory lists and deletes as documented.\<close>

lemma memory_reapable:
  assumes "\<And>xs w. get (put xs w) = xs"
  shows "reapable (memory_repo get put) (kept_in get) (\<lambda>obj. False)"
  unfolding reapable_def
proof (intro conjI allI impI)
  show "object_key obj = key" if "kept_in get w key = Some obj" for w key obj
    using that stored_at_key [of key "get w" obj] by (simp add: kept_in_def)
  show "kept_in get w' = kept_in get w" if "arp_list (memory_repo get put) (Some ns) selector w = (r, w')" for ns selector w r w'
    using that by (auto simp: memory_repo_def)
  show "set objs = {obj. kept_in get w (object_key obj) = Some obj \<and> ar_namespace obj = ns \<and> labels_match selector obj}"
    if "arp_list (memory_repo get put) (Some ns) selector w = (r, w')" "r = Inr objs" for ns selector w r w' objs
    using that by (auto simp: memory_repo_def kept_in_def dest: stored_at_member)
  show "case r of None \<Rightarrow> \<exists>left. kept_in get w' = (kept_in get w)(object_key obj := left) \<and> (\<forall>o1. left = Some o1 \<longrightarrow> False)
      | Some err \<Rightarrow> kept_in get w' = kept_in get w \<and> (kube_is IsNotFound err \<longrightarrow> kept_in get w (object_key obj) = None)"
    if "arp_delete (memory_repo get put) obj w = (r, w')" for obj w r w'
    using that by (auto simp: memory_repo_def kept_in_def fun_eq_iff assms stored_at_filter split: option.splits)
qed

lemma memory_spares: "(\<And>xs w. kept (put xs w) = kept w) \<Longrightarrow> spares (memory_repo get put) kept"
  by (auto simp: spares_def memory_repo_def split: option.splits)

lemma memory_env_reapable:
  "reapable (ae_groups memory_env) (kept_in me_groups) (\<lambda>obj. False)"
  "reapable (ae_group_rules memory_env) (kept_in me_rules) (\<lambda>obj. False)"
  "spares (ae_groups memory_env) (kept_in me_rules)" "spares (ae_group_rules memory_env) (kept_in me_groups)"
  unfolding memory_env_def by (simp_all add: memory_reapable memory_spares kept_in_def fun_eq_iff)

end
