(* ===== verification/Aruba_Instances.thy ===== *)
theory Aruba_Instances
  imports Aruba_Memory
begin

section \<open>The Aruba provider: what an instance is built from\<close>

text \<open>
  Which subnet a reference picks from the listed ones, and what holds of the references a pass of Create
  has collected when it asks for the server: as long as no call of the pass takes an object away,
  every one of them names an object that is on the server and active.
\<close>

subsection \<open>The choice of a subnet\<close>

text \<open>The listed subnets a reference may mean.\<close>

definition meant :: "string \<Rightarrow> string \<Rightarrow> aruba_subnet_spec aruba_object list \<Rightarrow> aruba_subnet_spec aruba_object set" where
  "meant name want subnets = {s \<in> set subnets. ar_name s = name \<and> ar_phase s = ResourcePhaseActive \<and>
     (want \<noteq> [] \<longrightarrow> subnet_network s = want)}"

lemma meant_simps [simp]:
  "meant name want [] = {}"
  "meant name want (s # subnets) =
    (if ar_name s = name \<and> ar_phase s = ResourcePhaseActive \<and> (want \<noteq> [] \<longrightarrow> subnet_network s = want)
     then insert s (meant name want subnets) else meant name want subnets)"
  by (auto simp: meant_def)


lemma pick_bare:
  "case pick_subnet name [] found subnets of
     Inr s \<Rightarrow> s \<in> set_option found \<union> meant name [] subnets \<and>
       (\<forall>t \<in> set_option found \<union> meant name [] subnets. subnet_network t = subnet_network s)
   | Inl err \<Rightarrow> set_option found \<union> meant name [] subnets = {} \<and> err = Sentinel ErrStillProcessing \<or>
       (\<exists>a \<in> set_option found \<union> meant name [] subnets. \<exists>b \<in> meant name [] subnets.
          subnet_network a \<noteq> subnet_network b \<and> err = ambiguous_subnet name (subnet_network a) (subnet_network b))"
proof (induction subnets arbitrary: found)
  case Nil
  then show ?case by (cases found) auto
next
  case (Cons s subnets)
  show ?case
  proof (cases "ar_name s = name \<and> ar_phase s = ResourcePhaseActive")
    case False
    then have "pick_subnet name [] found (s # subnets) = pick_subnet name [] found subnets"
      "meant name [] (s # subnets) = meant name [] subnets" by auto
    with Cons.IH [of found] show ?thesis by (simp only:)
  next
    case True
    note IH = Cons.IH [of "Some s"]
    show ?thesis
    proof (cases found)
      case None
      show ?thesis
      proof (cases "pick_subnet name [] (Some s) subnets")
        case (Inl err)
        with IH obtain a b where "a \<in> insert s (meant name [] subnets)" "b \<in> meant name [] subnets"
          "subnet_network a \<noteq> subnet_network b" "err = ambiguous_subnet name (subnet_network a) (subnet_network b)"
          by auto
        with Inl True None show ?thesis by (simp, blast)
      qed (use IH True None in simp)
    next
      case (Some m)
      show ?thesis
      proof (cases "subnet_network m = subnet_network s")
        case False
        with True Some show ?thesis by auto
      next
        case same: True
        show ?thesis
        proof (cases "pick_subnet name [] (Some s) subnets")
          case (Inl err)
          with IH obtain a b where ab: "a \<in> insert s (meant name [] subnets)" "b \<in> meant name [] subnets"
            "subnet_network a \<noteq> subnet_network b" "err = ambiguous_subnet name (subnet_network a) (subnet_network b)"
            by auto
          with Inl True Some same show ?thesis by (simp, blast)
        qed (use IH True Some same in \<open>simp; blast\<close>)
      qed
    qed
  qed
qed

lemma pick_network:
  assumes "want \<noteq> []"
  shows "case pick_subnet name want found subnets of
     Inr s \<Rightarrow> s \<in> meant name want subnets \<or> meant name want subnets = {} \<and> found = Some s
   | Inl err \<Rightarrow> meant name want subnets = {} \<and> found = None \<and> err = Sentinel ErrStillProcessing"
  by (induction subnets) (use assms in \<open>auto split: option.splits sum.splits\<close>)

text \<open>The whole choice: one meant network, or none yet, or two that are named.\<close>

lemma resolve_subnet_choice:
  assumes "arp_list (ae_subnets h) None [(label_subnet_tenant, tenant), (label_subnet_workspace, workspace)] w = (Inr subnets, w1)"
    and "resolve_subnet h tenant workspace resource w = (r, w')"
  defines "name \<equiv> last_segment resource" and "want \<equiv> reference_network resource"
  shows "case r of
     Inr s \<Rightarrow> s \<in> meant name want subnets \<and> subnet_network ` meant name want subnets = {subnet_network s}
   | Inl err \<Rightarrow> meant name want subnets = {} \<and> err = Sentinel ErrStillProcessing \<or>
       want = [] \<and> (\<exists>a \<in> subnet_network ` meant name want subnets. \<exists>b \<in> subnet_network ` meant name want subnets.
         a \<noteq> b \<and> err = ambiguous_subnet name a b)"
proof (cases "want = []")
  case True
  have r: "pick_subnet name want None subnets = r" using assms by (simp add: resolve_subnet_def)
  show ?thesis
  proof (cases r)
    case (Inl err)
    with pick_bare [where name = name and found = None and subnets = subnets] r True show ?thesis by auto
  next
    case (Inr s)
    with r True have "pick_subnet name [] None subnets = Inr s" by simp
    from pick_bare [where name = name and found = None and subnets = subnets, unfolded this sum.case option.set Un_empty_left]
    have "s \<in> meant name want subnets" "\<forall>t \<in> meant name want subnets. subnet_network t = subnet_network s"
      unfolding True by blast+
    then have "s \<in> meant name want subnets \<and> subnet_network ` meant name want subnets = {subnet_network s}" by blast
    with Inr show ?thesis by (simp only: sum.case)
  qed
next
  case False
  have r: "pick_subnet name want None subnets = r" using assms by (simp add: resolve_subnet_def)
  show ?thesis
  proof (cases r)
    case (Inl err)
    with pick_network [OF False, where name = name and found = None and subnets = subnets] r False show ?thesis by simp
  next
    case (Inr s)
    with pick_network [OF False, where name = name and found = None and subnets = subnets] r False have "s \<in> meant name want subnets" by simp
    moreover have "subnet_network ` meant name want subnets \<subseteq> {want}" using False by (auto simp: meant_def)
    ultimately show ?thesis using Inr by auto
  qed
qed

subsection \<open>Stores that grow\<close>

text \<open>
  What the server keeps of each kind the pass looks up or makes; while references are collected, no
  cloud server comes or goes.
\<close>

record aruba_store =
  st_projects :: "string \<times> string \<Rightarrow> project_spec aruba_object option"
  st_subnets :: "string \<times> string \<Rightarrow> aruba_subnet_spec aruba_object option"
  st_elastic_ips :: "string \<times> string \<Rightarrow> elastic_ip_spec aruba_object option"
  st_volumes :: "string \<times> string \<Rightarrow> volume_spec aruba_object option"
  st_groups :: "string \<times> string \<Rightarrow> aruba_group_spec aruba_object option"
  st_key_pairs :: "string \<times> string \<Rightarrow> key_pair_spec aruba_object option"
  st_servers :: "string \<times> string \<Rightarrow> cloud_server_spec aruba_object option"

definition store_le :: "aruba_store \<Rightarrow> aruba_store \<Rightarrow> bool" where
  "store_le s t \<longleftrightarrow> st_projects s \<subseteq>\<^sub>m st_projects t \<and> st_subnets s \<subseteq>\<^sub>m st_subnets t \<and>
     st_elastic_ips s \<subseteq>\<^sub>m st_elastic_ips t \<and> st_volumes s \<subseteq>\<^sub>m st_volumes t \<and>
     st_groups s \<subseteq>\<^sub>m st_groups t \<and> st_key_pairs s \<subseteq>\<^sub>m st_key_pairs t \<and> st_servers s = st_servers t"

lemma store_le_refl [simp, intro]: "store_le s s"
  by (simp add: store_le_def)

lemma store_le_trans [trans]: "store_le s t \<Longrightarrow> store_le t u \<Longrightarrow> store_le s u"
  unfolding store_le_def by (metis map_le_trans)

text \<open>
  A kind whose calls in the pass, \<^verbatim>\<open>Load\<close>, \<^verbatim>\<open>List\<close> and \<^verbatim>\<open>Create\<close>, take nothing away and answer with what is
  there; a reader of the platform takes nothing away.
\<close>

definition additive :: "('w \<Rightarrow> aruba_store) \<Rightarrow> (aruba_store \<Rightarrow> string \<times> string \<Rightarrow> 's aruba_object option) \<Rightarrow> ('s, 'w) aruba_repo \<Rightarrow> bool" where
  "additive store kind repo \<longleftrightarrow>
     (\<forall>obj w r w'. arp_load repo obj w = (r, w') \<longrightarrow> store_le (store w) (store w') \<and>
        (\<forall>live. r = Inr live \<longrightarrow> kind (store w') (object_key obj) = Some live)) \<and>
     (\<forall>ns selector w r w'. arp_list repo ns selector w = (r, w') \<longrightarrow> store_le (store w) (store w') \<and>
        (\<forall>objs. r = Inr objs \<longrightarrow> (\<forall>obj \<in> set objs. kind (store w') (object_key obj) = Some obj))) \<and>
     (\<forall>obj w e w'. arp_create repo obj w = (e, w') \<longrightarrow> store_le (store w) (store w'))"

definition reads_only :: "('w \<Rightarrow> aruba_store) \<Rightarrow> ('r, 'w) repo \<Rightarrow> bool" where
  "reads_only store repo \<longleftrightarrow> (\<forall>r w. store_le (store w) (store (snd (rp_load repo r w))))"

lemma additiveD:
  "additive store kind repo \<Longrightarrow> arp_load repo obj w = (r, w') \<Longrightarrow> store_le (store w) (store w')"
  "additive store kind repo \<Longrightarrow> arp_load repo obj w = (Inr live, w') \<Longrightarrow> kind (store w') (object_key obj) = Some live"
  "additive store kind repo \<Longrightarrow> arp_list repo ns selector w = (x, w') \<Longrightarrow> store_le (store w) (store w')"
  "additive store kind repo \<Longrightarrow> arp_list repo ns selector w = (Inr objs, w') \<Longrightarrow> o1 \<in> set objs \<Longrightarrow>
     kind (store w') (object_key o1) = Some o1"
  "additive store kind repo \<Longrightarrow> arp_create repo obj w = (e, w') \<Longrightarrow> store_le (store w) (store w')"
  unfolding additive_def by metis+

lemma reads_onlyD: "reads_only store repo \<Longrightarrow> rp_load repo r w = (x, w') \<Longrightarrow> store_le (store w) (store w')"
  unfolding reads_only_def by (metis snd_conv)

definition adding :: "'w aruba_env \<Rightarrow> ('w \<Rightarrow> aruba_store) \<Rightarrow> bool" where
  "adding h store \<longleftrightarrow> additive store st_projects (ae_projects h) \<and> additive store st_subnets (ae_subnets h) \<and>
     additive store st_elastic_ips (ae_elastic_ips h) \<and> additive store st_volumes (ae_volumes h) \<and>
     additive store st_groups (ae_groups h) \<and> additive store st_key_pairs (ae_key_pairs h) \<and>
     (\<forall>rule w e w'. arp_create (ae_group_rules h) rule w = (e, w') \<longrightarrow> store_le (store w) (store w')) \<and>
     reads_only store (ae_workspaces h) \<and> reads_only store (ae_nics h) \<and> reads_only store (ae_security_groups h) \<and>
     reads_only store (ae_security_group_rules h) \<and> reads_only store (ae_instance_skus h)"

lemma addingD:
  assumes "adding h store"
  shows "additive store st_projects (ae_projects h)" "additive store st_subnets (ae_subnets h)"
    "additive store st_elastic_ips (ae_elastic_ips h)" "additive store st_volumes (ae_volumes h)"
    "additive store st_groups (ae_groups h)" "additive store st_key_pairs (ae_key_pairs h)"
    "arp_create (ae_group_rules h) rule w = (e, w') \<Longrightarrow> store_le (store w) (store w')"
    "reads_only store (ae_workspaces h)" "reads_only store (ae_nics h)" "reads_only store (ae_security_groups h)"
    "reads_only store (ae_security_group_rules h)" "reads_only store (ae_instance_skus h)"
  using assms unfolding adding_def by blast+

subsection \<open>What the steps of a pass find\<close>

definition ready :: "(string \<times> string \<Rightarrow> 's aruba_object option) \<Rightarrow> aruba_reference \<Rightarrow> bool" where
  "ready s ref \<longleftrightarrow> (\<exists>live. s (aref_namespace ref, aref_name ref) = Some live \<and> ar_phase live = ResourcePhaseActive)"

lemma ready_mono: "ready s ref \<Longrightarrow> s \<subseteq>\<^sub>m t \<Longrightarrow> ready t ref"
  by (auto simp: ready_def map_le_def dom_def)

lemma ready_le:
  assumes "store_le s t"
  shows "ready (st_projects s) ref \<Longrightarrow> ready (st_projects t) ref" "ready (st_subnets s) ref \<Longrightarrow> ready (st_subnets t) ref"
    "ready (st_elastic_ips s) ref \<Longrightarrow> ready (st_elastic_ips t) ref" "ready (st_volumes s) ref \<Longrightarrow> ready (st_volumes t) ref"
    "ready (st_groups s) ref \<Longrightarrow> ready (st_groups t) ref" "ready (st_key_pairs s) ref \<Longrightarrow> ready (st_key_pairs t) ref"
  using assms ready_mono unfolding store_le_def by blast+

text \<open>The store has this very object, and it is active.\<close>

definition kept_active :: "(string \<times> string \<Rightarrow> 's aruba_object option) \<Rightarrow> 's aruba_object \<Rightarrow> bool" where
  "kept_active s obj \<longleftrightarrow> s (object_key obj) = Some obj \<and> ar_phase obj = ResourcePhaseActive"

lemma kept_active_ready: "kept_active s obj \<Longrightarrow> ready s (ref_of obj)"
  by (simp add: kept_active_def ready_def ref_of_def object_key_def)

lemma kept_active_le: "store_le s t \<Longrightarrow> kept_active (st_subnets s) obj \<Longrightarrow> kept_active (st_subnets t) obj"
  unfolding kept_active_def store_le_def map_le_def by (metis domI)

lemma load_active_le:
  "additive store kind repo \<Longrightarrow> load_active_aruba repo obj w = (r, w') \<Longrightarrow> store_le (store w) (store w')"
  by (auto simp: load_active_aruba_def split: prod.splits sum.splits if_splits dest: additiveD(1))

lemma load_active_ready:
  assumes "additive store kind repo" and "load_active_aruba repo obj w = (Inr live, w')"
  shows "kind (store w') (object_key obj) = Some live \<and> ar_phase live = ResourcePhaseActive"
  using assms(2) by (auto simp: load_active_aruba_def split: prod.splits sum.splits if_splits dest: additiveD(2) [OF assms(1)])

lemma create_if_absent_le:
  "additive store kind repo \<Longrightarrow> create_if_absent repo obj w = (r, w') \<Longrightarrow> store_le (store w) (store w')"
  by (auto simp: create_if_absent_def split: prod.splits option.splits if_splits dest: additiveD(5))

lemma gather_nics_le:
  assumes "reads_only store repo"
  shows "gather_nics repo scope refs found w = (r, w') \<Longrightarrow> store_le (store w) (store w')"
proof (induction refs arbitrary: found w)
  case (Cons ref refs)
  obtain subnets groups ips where found: "found = (subnets, groups, ips)" by (metis prod_cases3)
  obtain x w1 where l: "rp_load repo (named_nic (last_segment (ref_resource ref)) scope) w = (x, w1)" by fastforce
  with assms have le: "store_le (store w) (store w1)" by (rule reads_onlyD)
  show ?case
  proof (cases x)
    case (Inl err)
    with Cons.prems found l le show ?thesis by auto
  next
    case (Inr n)
    with Cons.prems found l have "store_le (store w1) (store w')" by (auto intro: Cons.IH)
    with le show ?thesis by (rule store_le_trans)
  qed
qed (cases found; simp)

lemma resolve_subnet_ready:
  assumes "additive store st_subnets (ae_subnets h)" and "resolve_subnet h tenant workspace resource w = (r, w')"
  shows "store_le (store w) (store w')" and "r = Inr s \<Longrightarrow> kept_active (st_subnets (store w')) s"
proof -
  obtain x w1 where l: "arp_list (ae_subnets h) None [(label_subnet_tenant, tenant), (label_subnet_workspace, workspace)] w = (x, w1)"
    by fastforce
  with assms(2) have w1: "w1 = w'" by (auto simp: resolve_subnet_def split: sum.splits)
  show "store_le (store w) (store w')" using additiveD(3) [OF assms(1) l] w1 by simp
  show "kept_active (st_subnets (store w')) s" if r: "r = Inr s"
  proof -
    from assms(2) l r obtain subnets where x: "x = Inr subnets" by (auto simp: resolve_subnet_def split: sum.splits)
    from resolve_subnet_choice [OF l [unfolded x] assms(2)] r have "s \<in> set subnets" "ar_phase s = ResourcePhaseActive"
      by (auto simp: meant_def)
    with additiveD(4) [OF assms(1) l [unfolded x]] w1 show ?thesis by (simp add: kept_active_def)
  qed
qed

lemma resolve_subnets_ready:
  assumes "additive store st_subnets (ae_subnets h)"
  shows "resolve_subnets h tenant workspace resources w = (r, w') \<Longrightarrow> store_le (store w) (store w') \<and>
    (\<forall>ss. r = Inr ss \<longrightarrow> length ss = length resources \<and> (\<forall>s \<in> set ss. kept_active (st_subnets (store w')) s))"
proof (induction resources arbitrary: w w' r)
  case (Cons resource resources)
  obtain x w1 where x: "resolve_subnet h tenant workspace resource w = (x, w1)" by fastforce
  obtain y w2 where y: "resolve_subnets h tenant workspace resources w1 = (y, w2)" by fastforce
  note first = resolve_subnet_ready [OF assms x]
  note rest = Cons.IH [OF y]
  show ?case
  proof (cases x)
    case (Inl err)
    with Cons.prems x first show ?thesis by auto
  next
    case (Inr s)
    with Cons.prems x y have "w' = w2" by (auto split: sum.splits)
    moreover have "store_le (store w) (store w2)" using first(1) rest store_le_trans by blast
    moreover have "kept_active (st_subnets (store w2)) s" using first(2) [OF Inr] rest kept_active_le by blast
    ultimately show ?thesis using Cons.prems x y Inr rest by (auto split: sum.splits)
  qed
qed simp

lemma gather_rules_le:
  assumes "reads_only store repo"
  shows "gather_rules repo scope refs rules w = (r, w') \<Longrightarrow> store_le (store w) (store w')"
proof (induction refs arbitrary: rules w)
  case (Cons rr refs)
  obtain x w1 where l: "rp_load repo (named_security_group_rule (last_segment (ref_resource rr)) scope) w = (x, w1)" by fastforce
  with assms have le: "store_le (store w) (store w1)" by (rule reads_onlyD)
  show ?case
  proof (cases x)
    case (Inl err)
    with Cons.prems l le show ?thesis by auto
  next
    case (Inr n)
    with Cons.prems l have "store_le (store w1) (store w')" by (auto intro: Cons.IH)
    with le show ?thesis by (rule store_le_trans)
  qed
qed simp

lemma create_rules_le:
  assumes "\<And>rule w e w'. arp_create repo rule w = (e, w') \<Longrightarrow> store_le (store w) (store w')"
  shows "create_rules repo rules w = (e, w') \<Longrightarrow> store_le (store w) (store w')"
proof (induction rules arbitrary: w)
  case (Cons rule rules)
  obtain x w1 where c: "arp_create repo rule w = (x, w1)" by fastforce
  with assms have le: "store_le (store w) (store w1)" by blast
  show ?case
  proof (cases "w' = w1")
    case False
    with Cons.prems c have "create_rules repo rules w1 = (e, w')" by (auto split: option.splits if_splits)
    with le Cons.IH show ?thesis using store_le_trans by blast
  qed (use le in simp)
qed simp

subsection \<open>Steps in sequence\<close>

text \<open>
  A step of the pass takes nothing away and, when it succeeds from a store with \<open>P\<close>, leaves one with \<open>Q\<close>
  of its result. The rules follow the ways in which the code goes on after a call.
\<close>

definition step_ok where
  "step_ok store P m Q \<longleftrightarrow> (\<forall>w r w'. m w = (r, w') \<longrightarrow> store_le (store w) (store w') \<and>
     (P (store w) \<longrightarrow> (\<forall>x. r = Inr x \<longrightarrow> Q x (store w'))))"

definition lasting :: "(aruba_store \<Rightarrow> bool) \<Rightarrow> bool" where
  "lasting P \<longleftrightarrow> (\<forall>s t. P s \<longrightarrow> store_le s t \<longrightarrow> P t)"

lemma step_okI:
  "(\<And>w r w'. m w = (r, w') \<Longrightarrow> store_le (store w) (store w')) \<Longrightarrow>
     (\<And>w x w'. m w = (Inr x, w') \<Longrightarrow> P (store w) \<Longrightarrow> Q x (store w')) \<Longrightarrow> step_ok store P m Q"
  unfolding step_ok_def by blast

lemma step_okD:
  "step_ok store P m Q \<Longrightarrow> m w = (r, w') \<Longrightarrow> store_le (store w) (store w')"
  "step_ok store P m Q \<Longrightarrow> m w = (Inr x, w') \<Longrightarrow> P (store w) \<Longrightarrow> Q x (store w')"
  unfolding step_ok_def by blast+

lemma step_fail [intro]: "step_ok store P (\<lambda>w. (Inl err, w)) Q"
  by (simp add: step_ok_def)

lemma step_done: "(\<And>s. P s \<Longrightarrow> Q x s) \<Longrightarrow> step_ok store P (\<lambda>w. (Inr x, w)) Q"
  by (simp add: step_ok_def)

lemma step_if: "(b \<Longrightarrow> step_ok store P m Q) \<Longrightarrow> (\<not> b \<Longrightarrow> step_ok store P m' Q) \<Longrightarrow>
    step_ok store P (\<lambda>w. if b then m w else m' w) Q"
  by (cases b) simp_all

lemma step_then:
  assumes "step_ok store P m Q" and "\<And>x. step_ok store (Q x) (f x) R"
  shows "step_ok store P (\<lambda>w. case m w of (r, w1) \<Rightarrow> (case r of Inl err \<Rightarrow> (Inl (g err), w1) | Inr x \<Rightarrow> f x w1)) R"
proof (rule step_okI)
  fix w r w'
  assume run: "(case m w of (r, w1) \<Rightarrow> (case r of Inl err \<Rightarrow> (Inl (g err), w1) | Inr x \<Rightarrow> f x w1)) = (r, w')"
  obtain r1 w1 where m: "m w = (r1, w1)" by fastforce
  note le = step_okD(1) [OF assms(1) m]
  show "store_le (store w) (store w')"
  proof (cases r1)
    case (Inl err)
    with run m le show ?thesis by simp
  next
    case (Inr x)
    with run m have "f x w1 = (r, w')" by simp
    from le step_okD(1) [OF assms(2) this] show ?thesis by (rule store_le_trans)
  qed
next
  fix w y w'
  assume "(case m w of (r, w1) \<Rightarrow> (case r of Inl err \<Rightarrow> (Inl (g err), w1) | Inr x \<Rightarrow> f x w1)) = (Inr y, w')" and P: "P (store w)"
  then obtain x w1 where "m w = (Inr x, w1)" "f x w1 = (Inr y, w')" by (auto split: prod.splits sum.splits)
  then show "R y (store w')" using step_okD(2) [OF assms(1)] step_okD(2) [OF assms(2)] P by blast
qed

lemma step_also:
  assumes "\<And>w e w'. m w = (e, w') \<Longrightarrow> store_le (store w) (store w')" and "lasting P" and "step_ok store P f R"
  shows "step_ok store P (\<lambda>w. case m w of (e, w1) \<Rightarrow> (case e of None \<Rightarrow> f w1 | Some err \<Rightarrow> (Inl err, w1))) R"
proof (rule step_okI)
  fix w r w'
  assume run: "(case m w of (e, w1) \<Rightarrow> (case e of None \<Rightarrow> f w1 | Some err \<Rightarrow> (Inl err, w1))) = (r, w')"
  obtain e w1 where m: "m w = (e, w1)" by fastforce
  from run m step_okD(1) [OF assms(3)] assms(1) [OF m] show "store_le (store w) (store w')"
    by (cases e) (auto intro: store_le_trans)
next
  fix w y w'
  assume "(case m w of (e, w1) \<Rightarrow> (case e of None \<Rightarrow> f w1 | Some err \<Rightarrow> (Inl err, w1))) = (Inr y, w')" and P: "P (store w)"
  then obtain w1 where m: "m w = (None, w1)" and f: "f w1 = (Inr y, w')" by (auto split: prod.splits option.splits)
  from assms(1) [OF m] assms(2) P have "P (store w1)" unfolding lasting_def by blast
  with step_okD(2) [OF assms(3) f] show "R y (store w')" by blast
qed

lemma step_frame: "step_ok store P m Q \<Longrightarrow> lasting F \<Longrightarrow> step_ok store (\<lambda>s. P s \<and> F s) m (\<lambda>x s. Q x s \<and> F s)"
  unfolding step_ok_def lasting_def by blast

lemma step_pre: "step_ok store P m Q \<Longrightarrow> (\<And>s. P' s \<Longrightarrow> P s) \<Longrightarrow> step_ok store P' m Q"
  unfolding step_ok_def by blast

lemma step_post: "step_ok store P m Q \<Longrightarrow> (\<And>x s. Q x s \<Longrightarrow> Q' x s) \<Longrightarrow> step_ok store P m Q'"
  unfolding step_ok_def by blast

lemma step_then_keep:
  assumes "step_ok store (\<lambda>s. True) m Q" and "lasting P" and "\<And>x. step_ok store (\<lambda>s. Q x s \<and> P s) (f x) R"
  shows "step_ok store P (\<lambda>w. case m w of (r, w1) \<Rightarrow> (case r of Inl err \<Rightarrow> (Inl (g err), w1) | Inr x \<Rightarrow> f x w1)) R"
  by (rule step_then [OF step_pre [OF step_frame [OF assms(1,2)]] assms(3)]) simp

lemma lasting_simps [simp]:
  "lasting (\<lambda>s. b)" "lasting P \<Longrightarrow> lasting Q \<Longrightarrow> lasting (\<lambda>s. P s \<and> Q s)"
  "(\<And>x. lasting (F x)) \<Longrightarrow> lasting (\<lambda>s. \<forall>x \<in> A. F x s)"
  "lasting (\<lambda>s. ready (st_projects s) ref)" "lasting (\<lambda>s. ready (st_subnets s) ref)" "lasting (\<lambda>s. ready (st_elastic_ips s) ref)"
  "lasting (\<lambda>s. ready (st_volumes s) ref)" "lasting (\<lambda>s. ready (st_groups s) ref)" "lasting (\<lambda>s. ready (st_key_pairs s) ref)"
  "lasting (\<lambda>s. kept_active (st_subnets s) obj)"
  unfolding lasting_def by (blast intro: ready_le kept_active_le)+

lemma step_active:
  assumes "additive store kind repo"
  shows "step_ok store (\<lambda>s. True) (load_active_aruba repo obj)
    (\<lambda>live s. kind s (object_key obj) = Some live \<and> ar_phase live = ResourcePhaseActive)"
  using load_active_le [OF assms] load_active_ready [OF assms] by (intro step_okI) blast+

lemma step_active_key:
  assumes "additive store kind repo"
  shows "step_ok store (\<lambda>s. True) (load_active_aruba repo (key_object name namespace zero))
    (\<lambda>live s. kind s (namespace, name) = Some live \<and> ar_phase live = ResourcePhaseActive)"
  using step_active [OF assms, of "key_object name namespace zero"]
  by (simp add: key_object_def new_aruba_object_def object_key_def)

lemma step_read: "reads_only store repo \<Longrightarrow> step_ok store (\<lambda>s. True) (rp_load repo r) (\<lambda>x s. True)"
  by (auto intro!: step_okI dest: reads_onlyD)

lemma build_group_key:
  "object_key (build_security_group name network region tenant namespace labels vpc prj) =
     (namespace, ar_name (build_security_group name network region tenant namespace labels vpc prj))"
  by (simp add: build_security_group_def new_aruba_object_def object_key_def)

lemma step_group:
  assumes "adding h store"
  shows "step_ok store (\<lambda>s. True)
    (materialize_security_group h scope network name namespace region vpc_ref project_ref) (\<lambda>ref s. ready (st_groups s) ref)"
proof -
  note a = addingD [OF assms]
  have last: "step_ok store (\<lambda>s. True) (\<lambda>w. case load_active_aruba (ae_groups h) sg w of (r, w1) \<Rightarrow> (case r of
      Inl err \<Rightarrow> (Inl err, w1) | Inr observed \<Rightarrow> (Inr \<lparr>aref_name = ar_name sg, aref_namespace = namespace\<rparr>, w1)))
      (\<lambda>ref s. ready (st_groups s) ref)" if "object_key sg = (namespace, ar_name sg)" for sg
    by (rule step_then [OF step_active [OF a(5)]], rule step_done) (simp add: ready_def that)
  show ?thesis
    unfolding materialize_security_group_def Let_def
    by (rule step_then [OF step_read [OF a(10)]], rule step_also, erule create_if_absent_le [OF a(5)], simp,
        rule step_then, rule step_okI [where Q = "\<lambda>x s. True"], erule gather_rules_le [OF a(11)], simp,
        rule step_also, rule create_rules_le, erule a(7), assumption, simp, rule last, rule build_group_key)
qed

lemma step_groups:
  assumes "adding h store"
  shows "step_ok store (\<lambda>s. True)
    (materialize_security_groups h scope network namespace region vpc_ref project_ref names)
    (\<lambda>refs s. length refs = length names \<and> (\<forall>ref \<in> set refs. ready (st_groups s) ref))"
proof (induction names)
  case (Cons name names)
  show ?case
    unfolding materialize_security_groups.simps
    by (rule step_then [OF step_group [OF assms]], rule step_then_keep [OF Cons.IH], simp, rule step_done) auto
qed (simp add: step_ok_def)

lemma step_data_volumes:
  assumes "additive store st_volumes repo"
  shows "step_ok store (\<lambda>s. True) (resolve_data_volumes repo namespace dvs) (\<lambda>refs s. \<forall>ref \<in> set refs. ready (st_volumes s) ref)"
proof (induction dvs)
  case (Cons dv dvs)
  let ?name = "last_segment (ref_resource (vol_device_ref dv))"
  have found: "step_ok store (\<lambda>s. True) (load_active_aruba repo (key_object ?name namespace zero_volume_spec))
      (\<lambda>live s. ready (st_volumes s) \<lparr>aref_name = ?name, aref_namespace = namespace\<rparr>)"
    by (rule step_post [OF step_active_key [OF assms]]) (simp add: ready_def)
  show ?case
    unfolding resolve_data_volumes.simps Let_def
    by (rule step_if, rule Cons.IH, rule step_then [OF found], rule step_then_keep [OF Cons.IH], simp, rule step_done) auto
qed (simp add: step_ok_def)

text \<open>What the volumes, the networking and the whole resolution put into the references.\<close>

definition volumes_ready :: "instance_res \<Rightarrow> cloud_server_refs \<Rightarrow> aruba_store \<Rightarrow> bool" where
  "volumes_ready domain refs s \<longleftrightarrow>
     (\<exists>boot. st_volumes s (aref_namespace (csr_boot_volume refs), aref_name (csr_boot_volume refs)) = Some boot \<and>
        ar_phase boot = ResourcePhaseActive \<and> vol_zone (ar_spec boot) = csr_zone refs) \<and>
     (ins_zone (in_spec domain) = [] \<or> ins_zone (in_spec domain) = csr_zone refs) \<and>
     (\<forall>ref \<in> set (csr_data_volumes refs). ready (st_volumes s) ref)"

text \<open>
  The VPC is not looked up: it is the one the first subnet of the list is in, by that subnet's spec.
\<close>

definition vpc_of_first_subnet :: "cloud_server_refs \<Rightarrow> aruba_store \<Rightarrow> bool" where
  "vpc_of_first_subnet refs s \<longleftrightarrow>
     (\<exists>live. st_subnets s (aref_namespace (hd (csr_subnets refs)), aref_name (hd (csr_subnets refs))) = Some live
        \<and> csr_vpc refs = asn_vpc (ar_spec live))"

lemma vpc_lasting [simp]: "lasting (vpc_of_first_subnet refs)"
  unfolding lasting_def vpc_of_first_subnet_def store_le_def map_le_def by (metis domI)

definition network_ready :: "cloud_server_refs \<Rightarrow> aruba_store \<Rightarrow> bool" where
  "network_ready refs s \<longleftrightarrow> csr_subnets refs \<noteq> [] \<and> vpc_of_first_subnet refs s \<and> (\<forall>ref \<in> set (csr_subnets refs). ready (st_subnets s) ref) \<and>
     csr_groups refs \<noteq> [] \<and> (\<forall>ref \<in> set (csr_groups refs). ready (st_groups s) ref) \<and>
     (\<forall>ref \<in> set_option (csr_elastic_ip refs). ready (st_elastic_ips s) ref)"

lemma volumes_lasting: "lasting (volumes_ready domain refs)"
proof -
  have "lasting (\<lambda>s. \<exists>boot. st_volumes s key = Some boot \<and> P boot)" for key and P :: "volume_spec aruba_object \<Rightarrow> bool"
    unfolding lasting_def store_le_def map_le_def by (metis domI)
  then show ?thesis unfolding volumes_ready_def [abs_def] by simp
qed

lemma network_lasting: "lasting (network_ready refs)"
  unfolding network_ready_def [abs_def] by simp

lemma step_volumes:
  assumes "additive store st_volumes (ae_volumes h)"
  shows "step_ok store (\<lambda>s. True) (resolve_volumes h domain refs)
    (\<lambda>refs' s. volumes_ready domain refs' s \<and> csr_project refs' = csr_project refs \<and> csr_key_pair refs' = csr_key_pair refs \<and>
      csr_vpc refs' = csr_vpc refs \<and> csr_subnets refs' = csr_subnets refs \<and> csr_groups refs' = csr_groups refs \<and> csr_elastic_ip refs' = csr_elastic_ip refs)"
proof -
  let ?boot = "last_segment (ref_resource (vol_device_ref (ins_boot_volume (in_spec domain))))"
  let ?ns = "compute_namespace (ae_sha3 h) (own_scope domain)"
  have stays: "lasting (\<lambda>s. st_volumes s (?ns, ?boot) = Some boot \<and> ar_phase boot = ResourcePhaseActive)" for boot
    unfolding lasting_def store_le_def map_le_def by (metis domI)
  show ?thesis
    unfolding resolve_volumes_def Let_def
    by (rule step_if, rule step_fail, rule step_then [OF step_active_key [OF assms]], rule step_if, rule step_fail,
        rule step_then_keep [OF step_data_volumes [OF assms] stays], rule step_done) (auto simp: volumes_ready_def)
qed

lemma step_nics:
  assumes "reads_only store (ae_nics h)"
  shows "step_ok store (\<lambda>s. True) (resolve_nics h domain) (\<lambda>x s. True)"
  unfolding resolve_nics_def Let_def by (rule step_okI) (erule gather_nics_le [OF assms], simp)

lemma step_subnets:
  assumes "additive store st_subnets (ae_subnets h)"
  shows "step_ok store (\<lambda>s. True) (resolve_subnets h tenant workspace resources)
    (\<lambda>ss s. length ss = length resources \<and> (\<forall>obj \<in> set ss. kept_active (st_subnets s) obj))"
  by (rule step_okI) (use resolve_subnets_ready [OF assms] in auto)

lemma first_subnet_names_vpc:
  assumes "\<forall>obj \<in> set ss. kept_active (st_subnets s) obj" and "ss \<noteq> []"
    and "csr_subnets refs = map ref_of ss" and "csr_vpc refs = asn_vpc (ar_spec (hd ss))"
  shows "vpc_of_first_subnet refs s"
proof -
  have "kept_active (st_subnets s) (hd ss)" using assms(1,2) by simp
  with assms(2-4) show ?thesis
    by (auto simp: vpc_of_first_subnet_def kept_active_def ref_of_def object_key_def hd_map)
qed

lemma step_networking:
  assumes "adding h store" and none: "csr_elastic_ip refs = None"
  shows "step_ok store (\<lambda>s. True) (resolve_networking h domain refs)
    (\<lambda>refs' s. network_ready refs' s \<and> csr_project refs' = csr_project refs)"
proof -
  note a = addingD [OF assms(1)]
  show ?thesis
    unfolding resolve_networking_def Let_def
    apply (rule step_then [OF step_nics [OF a(9)]])
    apply (rename_tac x, case_tac x rule: prod_cases3, simp only: prod.case)
    apply (rule step_if, rule step_fail)
    apply (rule step_then [OF step_subnets [OF a(2)]])
    apply (rule step_if, rule step_fail)
    apply (rule step_then_keep [OF step_groups [OF assms(1)]], simp)
    apply (rule step_if)
     apply (rule step_done, auto simp: network_ready_def none intro: kept_active_ready first_subnet_names_vpc) [1]
    apply (rule step_then_keep [OF step_active_key [OF a(3)]], simp)
    apply (rule step_done, auto simp: network_ready_def ready_def [of "st_elastic_ips _"] intro: kept_active_ready first_subnet_names_vpc)
    done
qed

lemma step_workspace:
  "reads_only store (ae_workspaces h) \<Longrightarrow>
    step_ok store (\<lambda>s. True) (load_active_workspace (ae_workspaces h) scope) (\<lambda>ws s. True)"
  by (rule step_okI) (auto simp: load_active_workspace_def Let_def split: prod.splits sum.splits option.splits if_splits
      dest: reads_onlyD)

lemma step_project:
  assumes "additive store st_projects (ae_projects h)"
  shows "step_ok store (\<lambda>s. True) (load_active_project (ae_projects h) (key_object name namespace zero))
    (\<lambda>prj s. ready (st_projects s) \<lparr>aref_name = name, aref_namespace = namespace\<rparr>)"
proof -
  have "load_active_project (ae_projects h) = load_active_aruba (ae_projects h)"
    by (simp add: fun_eq_iff load_active_project_def load_active_aruba_def)
  then show ?thesis using step_post [OF step_active_key [OF assms]] by (simp add: ready_def)
qed

definition refs_ready :: "instance_res \<Rightarrow> cloud_server_refs \<Rightarrow> aruba_store \<Rightarrow> bool" where
  "refs_ready domain refs s \<longleftrightarrow> ready (st_projects s) (csr_project refs) \<and> ready (st_key_pairs s) (csr_key_pair refs) \<and>
     network_ready refs s \<and> volumes_ready domain refs s"

lemma step_resolve:
  assumes "adding h store"
  shows "step_ok store (\<lambda>s. True) (instance_resolve h domain) (refs_ready domain)"
proof -
  note a = addingD [OF assms]
  have key: "step_ok store (\<lambda>s. True) (load_active_aruba (ae_key_pairs h) kp) (\<lambda>live s. ready (st_key_pairs s) (ref_of kp))" for kp
    by (rule step_post [OF step_active [OF a(6)]]) (simp add: ready_def ref_of_def object_key_def)
  show ?thesis
    unfolding instance_resolve_def Let_def
    apply (rule step_then [OF step_workspace [OF a(8)]])
    apply (rule step_then [OF step_project [OF a(1)]])
    apply (rule step_then_keep [OF step_networking [OF assms]])
      apply (simp add: empty_cloud_server_refs_def)
     apply simp
    apply (cases "ins_ssh_keys (in_spec domain)")
     apply (simp add: step_fail)
    apply (simp only: list.case)
    apply (rule step_also, erule create_if_absent_le [OF a(6)])
     apply (simp add: network_lasting)
    apply (rule step_then_keep [OF key])
     apply (simp add: network_lasting)
    apply (rule step_then_keep [OF step_volumes [OF a(4)]])
     apply (simp add: network_lasting)
    apply (rule step_if, rule step_fail)
    apply (rule step_then_keep [OF step_read [OF a(12)]])
     apply (simp add: network_lasting volumes_lasting)
    apply (rule step_okI)
     apply (auto split: sum.splits simp: refs_ready_def network_ready_def volumes_ready_def vpc_of_first_subnet_def empty_cloud_server_refs_def)
    done
qed

subsection \<open>Creating the server\<close>

text \<open>Calls for cloud servers leave the other kinds alone.\<close>

definition aside :: "('w \<Rightarrow> aruba_store) \<Rightarrow> (cloud_server_spec, 'w) aruba_repo \<Rightarrow> bool" where
  "aside store repo \<longleftrightarrow>
     (\<forall>obj w. (store (snd (arp_create repo obj w)))\<lparr>st_servers := st_servers (store w)\<rparr> = store w) \<and>
     (\<forall>obj w. (store (snd (arp_load repo obj w)))\<lparr>st_servers := st_servers (store w)\<rparr> = store w)"

lemma refs_ready_servers [simp]: "refs_ready domain refs (s\<lparr>st_servers := x\<rparr>) = refs_ready domain refs s"
  by (simp add: refs_ready_def network_ready_def volumes_ready_def vpc_of_first_subnet_def)

lemma aside_refs:
  assumes "aside store repo"
  shows "arp_create repo obj w = (e, w') \<Longrightarrow> refs_ready domain refs (store w') = refs_ready domain refs (store w)"
    and "arp_load repo obj w = (r, w') \<Longrightarrow> refs_ready domain refs (store w') = refs_ready domain refs (store w)"
  using assms refs_ready_servers unfolding aside_def by (metis snd_conv)+

lemma server_key: "object_key (build_cloud_server sha3 domain refs) = (compute_namespace sha3 (own_scope domain), md_name domain)"
  by (simp add: build_cloud_server_def new_aruba_object_def object_key_def Let_def)

lemma instance_create_effect:
  assumes a: "adding h store" and s: "serves (ae_servers h) (\<lambda>w. st_servers (store w))" and aside: "aside store (ae_servers h)"
    and c: "instance_create h domain w = (e, w')"
  defines "key \<equiv> (compute_namespace (ae_sha3 h) (own_scope domain), md_name domain)"
  shows "(st_servers (store w') = st_servers (store w) \<or>
      (\<exists>refs stored. refs_ready domain refs (store w') \<and> st_servers (store w) key = None \<and>
        st_servers (store w') = (st_servers (store w))(key \<mapsto> stored) \<and>
        ar_spec stored = ar_spec (build_cloud_server (ae_sha3 h) domain refs))) \<and>
    (e = None \<longrightarrow> (\<exists>live refs. st_servers (store w') key = Some live \<and> ar_phase live = ResourcePhaseActive \<and>
      refs_ready domain refs (store w')))"
proof -
  obtain x w1 where res: "instance_resolve h domain w = (x, w1)" by fastforce
  have same: "st_servers (store w1) = st_servers (store w)"
    using step_okD(1) [OF step_resolve [OF a] res] by (simp add: store_le_def)
  show ?thesis
  proof (cases x)
    case (Inl err)
    with c res same show ?thesis by (auto simp: instance_create_def)
  next
    case (Inr refs)
    let ?server = "build_cloud_server (ae_sha3 h) domain refs"
    have ready: "refs_ready domain refs (store w1)" using step_okD(2) [OF step_resolve [OF a] res [unfolded Inr]] by simp
    have k: "object_key ?server = key" by (simp add: server_key key_def)
    obtain y w2 where cr: "arp_create (ae_servers h) ?server w1 = (y, w2)" by fastforce
    have ready2: "refs_ready domain refs (store w2)" using aside_refs(1) [OF aside cr] ready by simp
    have change: "st_servers (store w2) = st_servers (store w) \<or> st_servers (store w) key = None \<and>
        (\<exists>stored. st_servers (store w2) = (st_servers (store w))(key \<mapsto> stored) \<and> ar_spec stored = ar_spec ?server)"
      using cr same k by (cases y) (auto dest!: serves_create [OF s])
    obtain l w3 where ld: "arp_load (ae_servers h) ?server w2 = (l, w3)" by fastforce
    have ready3: "refs_ready domain refs (store w3)" using aside_refs(2) [OF aside ld] ready2 by simp
    have same3: "st_servers (store w3) = st_servers (store w2)"
      using ld by (cases l) (auto dest!: serves_load [OF s])
    show ?thesis
    proof (cases "case y of None \<Rightarrow> True | Some err \<Rightarrow> kube_is IsAlreadyExists err")
      case False
      then obtain err where "y = Some err" "\<not> kube_is IsAlreadyExists err" by (auto split: option.splits)
      with c res Inr cr have "w' = w2" "e = Some err" by (auto simp: instance_create_def create_if_absent_def)
      with change ready2 show ?thesis by auto
    next
      case True
      then have "create_if_absent (ae_servers h) ?server w1 = (None, w2)"
        using cr by (auto simp: create_if_absent_def split: option.splits)
      with c res Inr ld have w': "w' = w3" and e: "e = None \<Longrightarrow> \<exists>live. l = Inr live \<and> ar_phase live = ResourcePhaseActive"
        by (auto simp: instance_create_def Let_def split: sum.splits if_splits)
      have "st_servers (store w3) key = Some live" if "l = Inr live" for live
        using serves_load(1) [OF s ld [unfolded that]] k same3 by simp
      with e ready3 change same3 w' show ?thesis by (metis (no_types, lifting))
    qed
  qed
qed

subsection \<open>The server in memory adds\<close>

definition store_of :: "memory \<Rightarrow> aruba_store" where
  "store_of m = \<lparr>st_projects = kept_in me_projects m, st_subnets = kept_in me_subnets m,
     st_elastic_ips = kept_in me_elastic_ips m, st_volumes = kept_in me_volumes m, st_groups = kept_in me_groups m,
     st_key_pairs = kept_in me_key_pairs m, st_servers = kept_in me_servers m\<rparr>"

lemma memory_additive:
  assumes "\<And>w. kind (store w) = kept_in get w"
    and "\<And>obj w. stored_at (object_key obj) (get w) = None \<Longrightarrow> store_le (store w) (store (put (obj # get w) w))"
  shows "additive store kind (memory_repo get put)"
  using assms unfolding additive_def by (auto simp: memory_repo_def kept_in_def split: option.splits)

lemma memory_reads: "reads_only store (reading rs)"
  by (auto simp: reads_only_def reading_def split: option.splits)

definition instance_env :: "workspace list \<Rightarrow> nic list \<Rightarrow> security_group list \<Rightarrow> instance_sku list \<Rightarrow> memory aruba_env" where
  "instance_env ws nics groups skus = memory_env\<lparr>ae_workspaces := reading ws, ae_nics := reading nics,
     ae_security_groups := reading groups, ae_instance_skus := reading skus\<rparr>"

lemma kept_in_fun: "kept_in get w = (\<lambda>key. stored_at key (get w))"
  by (simp add: kept_in_def fun_eq_iff)

lemma stored_more: "stored_at (object_key obj) objs = None \<Longrightarrow>
    (\<lambda>key. stored_at key objs) \<subseteq>\<^sub>m (\<lambda>key. if object_key obj = key then Some obj else stored_at key objs)"
  by (auto simp: map_le_def dom_def)

lemmas memory_simps = store_of_def store_le_def kept_in_fun stored_more

lemma instance_env_adding: "adding (instance_env ws nics groups skus) store_of"
proof -
  have "additive store_of st_projects (ae_projects memory_env)" "additive store_of st_subnets (ae_subnets memory_env)"
    "additive store_of st_elastic_ips (ae_elastic_ips memory_env)" "additive store_of st_volumes (ae_volumes memory_env)"
    "additive store_of st_groups (ae_groups memory_env)" "additive store_of st_key_pairs (ae_key_pairs memory_env)"
    unfolding memory_env_def aruba_env.simps
    by ((rule memory_additive; simp add: memory_simps), (rule memory_additive; simp add: memory_simps),
        (rule memory_additive; simp add: memory_simps), (rule memory_additive; simp add: memory_simps),
        (rule memory_additive; simp add: memory_simps), (rule memory_additive; simp add: memory_simps))
  moreover have "arp_create (ae_group_rules memory_env) rule w = (e, w') \<Longrightarrow> store_le (store_of w) (store_of w')" for rule w e w'
    by (auto simp: memory_env_def memory_repo_def memory_simps split: option.splits)
  moreover have "reads_only store_of (ae_security_group_rules memory_env)" by (simp add: memory_env_def memory_reads)
  ultimately show ?thesis by (simp add: adding_def instance_env_def memory_reads)
qed

lemma instance_env_servers:
  "serves (ae_servers (instance_env ws nics groups skus)) (\<lambda>w. st_servers (store_of w))"
  "aside store_of (ae_servers (instance_env ws nics groups skus))"
proof -
  show "serves (ae_servers (instance_env ws nics groups skus)) (\<lambda>w. st_servers (store_of w))"
    using memory_env_serves(9) by (simp add: instance_env_def store_of_def)
  show "aside store_of (ae_servers (instance_env ws nics groups skus))"
    by (auto simp: instance_env_def aside_def memory_env_def memory_repo_def store_of_def kept_in_fun split: option.splits)
qed

end
