(* ===== verification/Aruba_Watch.thy ===== *)
theory Aruba_Watch
  imports Aruba_Plugin
begin

section \<open>The Aruba provider: watching\<close>

text \<open>
  Models \<^verbatim>\<open>Watch\<close>, \<^verbatim>\<open>handle\<close> and \<^verbatim>\<open>WaitUntil\<close> of \<^verbatim>\<open>generic/repository/repository.go\<close>. Three threads share
  a watch: the informer, which calls the handler event by event; the goroutine that waits for the
  cancellation, then for the handlers in flight, then removes the handler and closes the channel; the
  caller, which receives from the channel and cancels. Their steps interleave in any order. The lemmas
  say what is delivered, and that the wait group does not protect the channel: a handler that looked at
  the context before the cancellation may count itself after the goroutine stopped waiting, and then
  sends on a closed channel.
\<close>

subsection \<open>The threads\<close>

text \<open>Where the handler is with its event, and where the closing goroutine is.\<close>

datatype 't handler_at =
    Idle
  | Called 't
  | Matched 't
  | Sending 't

datatype closer_at = AwaitingCancel | AwaitingHandlers | RemovingHandler | ClosingChannel | ClosedChannel

text \<open>
  \<open>wt_ctx_done\<close> is the derived context, \<open>wt_group\<close> the wait group, \<open>wt_received\<close> what the caller got;
  \<open>wt_panicked\<close> that a send met a closed channel.
\<close>

record 't watch_state =
  wt_handler :: "'t handler_at"
  wt_closer :: closer_at
  wt_ctx_done :: bool
  wt_group :: nat
  wt_received :: "'t list"
  wt_panicked :: bool

definition watch_started :: "'t watch_state" where
  "watch_started = \<lparr>wt_handler = Idle, wt_closer = AwaitingCancel, wt_ctx_done = False, wt_group = 0,
     wt_received = [], wt_panicked = False\<rparr>"

definition handler_registered :: "'t watch_state \<Rightarrow> bool" where
  "handler_registered s \<longleftrightarrow> wt_closer s \<in> {AwaitingCancel, AwaitingHandlers, RemovingHandler}"

text \<open>
  An informer calls a registered handler with one event at a time; removing the handler does not wait
  for a call that is under way. An update whose resource version did not change is no event. The send
  waits for a receiver, for the cancellation, or panics on a closed channel; where several are possible,
  \<^verbatim>\<open>select\<close> takes any.
\<close>

inductive watch_step :: "('t \<Rightarrow> bool) \<Rightarrow> 't watch_state \<Rightarrow> 't watch_state \<Rightarrow> bool" for wanted where
  cancel: "watch_step wanted s (s\<lparr>wt_ctx_done := True\<rparr>)"
| event: "handler_registered s \<Longrightarrow> wt_handler s = Idle \<Longrightarrow> watch_step wanted s (s\<lparr>wt_handler := Called obj\<rparr>)"
| late: "wt_handler s = Called obj \<Longrightarrow> wt_ctx_done s \<Longrightarrow> watch_step wanted s (s\<lparr>wt_handler := Idle\<rparr>)"
| other: "wt_handler s = Called obj \<Longrightarrow> \<not> wt_ctx_done s \<Longrightarrow> \<not> wanted obj \<Longrightarrow>
    watch_step wanted s (s\<lparr>wt_handler := Idle\<rparr>)"
| match: "wt_handler s = Called obj \<Longrightarrow> \<not> wt_ctx_done s \<Longrightarrow> wanted obj \<Longrightarrow>
    watch_step wanted s (s\<lparr>wt_handler := Matched obj\<rparr>)"
| add: "wt_handler s = Matched obj \<Longrightarrow>
    watch_step wanted s (s\<lparr>wt_handler := Sending obj, wt_group := Suc (wt_group s)\<rparr>)"
| send: "wt_handler s = Sending obj \<Longrightarrow> wt_closer s \<noteq> ClosedChannel \<Longrightarrow>
    watch_step wanted s (s\<lparr>wt_handler := Idle, wt_group := wt_group s - 1, wt_received := wt_received s @ [obj]\<rparr>)"
| abort: "wt_handler s = Sending obj \<Longrightarrow> wt_ctx_done s \<Longrightarrow>
    watch_step wanted s (s\<lparr>wt_handler := Idle, wt_group := wt_group s - 1\<rparr>)"
| send_closed: "wt_handler s = Sending obj \<Longrightarrow> wt_closer s = ClosedChannel \<Longrightarrow>
    watch_step wanted s (s\<lparr>wt_panicked := True\<rparr>)"
| woken: "wt_closer s = AwaitingCancel \<Longrightarrow> wt_ctx_done s \<Longrightarrow> watch_step wanted s (s\<lparr>wt_closer := AwaitingHandlers\<rparr>)"
| joined: "wt_closer s = AwaitingHandlers \<Longrightarrow> wt_group s = 0 \<Longrightarrow> watch_step wanted s (s\<lparr>wt_closer := RemovingHandler\<rparr>)"
| removed: "wt_closer s = RemovingHandler \<Longrightarrow> watch_step wanted s (s\<lparr>wt_closer := ClosingChannel\<rparr>)"
| closed: "wt_closer s = ClosingChannel \<Longrightarrow> watch_step wanted s (s\<lparr>wt_closer := ClosedChannel\<rparr>)"

inductive_cases watch_stepE: "watch_step wanted s t"

definition watch_run :: "('t \<Rightarrow> bool) \<Rightarrow> 't watch_state \<Rightarrow> bool" where
  "watch_run wanted s \<longleftrightarrow> (watch_step wanted)\<^sup>*\<^sup>* watch_started s"

lemma watch_run_step: "watch_run wanted s \<Longrightarrow> watch_step wanted s t \<Longrightarrow> watch_run wanted t"
  unfolding watch_run_def by (rule rtranclp.rtrancl_into_rtrancl)

lemma watch_run_induct [consumes 1, case_names start step]:
  assumes "watch_run wanted s" and "P watch_started"
    and "\<And>s t. watch_run wanted s \<Longrightarrow> P s \<Longrightarrow> watch_step wanted s t \<Longrightarrow> P t"
  shows "P s"
  using assms(1) unfolding watch_run_def
  by (induction rule: rtranclp_induct) (use assms(2,3) in \<open>auto simp: watch_run_def\<close>)

subsection \<open>What holds whatever the order\<close>

text \<open>The wait group counts the sending handler, and the goroutine moves only after the cancellation.\<close>

fun counted :: "'t handler_at \<Rightarrow> nat" where
  "counted (Sending obj) = 1"
| "counted _ = 0"

fun carries :: "('t \<Rightarrow> bool) \<Rightarrow> 't handler_at \<Rightarrow> bool" where
  "carries wanted (Matched obj) = wanted obj"
| "carries wanted (Sending obj) = wanted obj"
| "carries wanted _ = True"

definition watch_ok :: "('t \<Rightarrow> bool) \<Rightarrow> 't watch_state \<Rightarrow> bool" where
  "watch_ok wanted s \<longleftrightarrow>
     wt_group s = counted (wt_handler s) \<and> carries wanted (wt_handler s) \<and>
     (\<forall>obj \<in> set (wt_received s). wanted obj) \<and>
     (wt_closer s \<noteq> AwaitingCancel \<longrightarrow> wt_ctx_done s) \<and>
     (wt_panicked s \<longrightarrow> wt_closer s = ClosedChannel)"

lemma watch_ok_run: "watch_run wanted s \<Longrightarrow> watch_ok wanted s"
proof (induction rule: watch_run_induct)
  case start
  then show ?case by (simp add: watch_ok_def watch_started_def)
next
  case (step s t)
  then show ?case
    by (auto simp: watch_ok_def elim!: watch_stepE)
qed

text \<open>Nothing is received once the channel is closed, and the channel stays closed.\<close>

lemma closed_is_final:
  assumes "watch_step wanted s t" and "wt_closer s = ClosedChannel"
  shows "wt_closer t = ClosedChannel \<and> wt_received t = wt_received s"
  using assms by (auto elim!: watch_stepE)

text \<open>The run in which a handler counts itself after the goroutine stopped waiting.\<close>

definition late_sender :: "'t \<Rightarrow> 't watch_state" where
  "late_sender obj = \<lparr>wt_handler = Sending obj, wt_closer = ClosedChannel, wt_ctx_done = True, wt_group = 1,
     wt_received = [], wt_panicked = True\<rparr>"

lemma late_sender_run:
  assumes "wanted obj"
  shows "watch_run wanted (late_sender obj)"
proof -
  let ?s1 = "watch_started\<lparr>wt_handler := Called obj\<rparr>"
  let ?s2 = "?s1\<lparr>wt_handler := Matched obj\<rparr>"
  let ?s3 = "?s2\<lparr>wt_ctx_done := True\<rparr>"
  let ?s4 = "?s3\<lparr>wt_closer := AwaitingHandlers\<rparr>"
  let ?s5 = "?s4\<lparr>wt_closer := RemovingHandler\<rparr>"
  let ?s6 = "?s5\<lparr>wt_closer := ClosingChannel\<rparr>"
  let ?s7 = "?s6\<lparr>wt_closer := ClosedChannel\<rparr>"
  let ?s8 = "?s7\<lparr>wt_handler := Sending obj, wt_group := Suc (wt_group ?s7)\<rparr>"
  note simps = watch_started_def handler_registered_def assms
  have "watch_run wanted watch_started" by (simp add: watch_run_def)
  then have "watch_run wanted ?s1" by (rule watch_run_step) (rule watch_step.event; simp add: simps)
  then have "watch_run wanted ?s2" by (rule watch_run_step) (rule watch_step.match; simp add: simps)
  then have "watch_run wanted ?s3" by (rule watch_run_step) (rule watch_step.cancel)
  then have "watch_run wanted ?s4" by (rule watch_run_step) (rule watch_step.woken; simp add: simps)
  then have "watch_run wanted ?s5" by (rule watch_run_step) (rule watch_step.joined; simp add: simps)
  then have "watch_run wanted ?s6" by (rule watch_run_step) (rule watch_step.removed; simp add: simps)
  then have "watch_run wanted ?s7" by (rule watch_run_step) (rule watch_step.closed; simp add: simps)
  then have "watch_run wanted ?s8" by (rule watch_run_step) (rule watch_step.add; simp add: simps)
  then have "watch_run wanted (?s8\<lparr>wt_panicked := True\<rparr>)"
    by (rule watch_run_step) (rule watch_step.send_closed; simp add: simps)
  then show ?thesis by (simp add: late_sender_def watch_started_def)
qed

subsection \<open>\<^verbatim>\<open>WaitUntil\<close>\<close>

text \<open>What the \<^verbatim>\<open>select\<close> of the loop takes, in order.\<close>

datatype 't watch_event = Received 't | ChannelClosed | ContextDone

datatype 'a go_outcome = Returns 'a | Panics string

fun wait_loop :: "go_error \<Rightarrow> ('t \<Rightarrow> bool) \<Rightarrow> 't watch_event list \<Rightarrow> (go_error + 't) option" where
  "wait_loop ctx_err condition [] = None"
| "wait_loop ctx_err condition (Received res # events) =
    (if condition res then Some (Inr res) else wait_loop ctx_err condition events)"
| "wait_loop ctx_err condition (ChannelClosed # events) = Some (Inl (GoError ''watch channel closed''))"
| "wait_loop ctx_err condition (ContextDone # events) = Some (Inl ctx_err)"

text \<open>
  \<^verbatim>\<open>Watch\<close> returns no cancel function with an error, and \<^verbatim>\<open>WaitUntil\<close> defers the call of it before it looks
  at the error.
\<close>

definition wait_until ::
  "go_error option \<Rightarrow> go_error \<Rightarrow> ('t \<Rightarrow> bool) \<Rightarrow> 't watch_event list \<Rightarrow> (go_error + 't) go_outcome option" where
  "wait_until watch_err ctx_err condition events =
    (case watch_err of
       Some err \<Rightarrow> Some (Panics ''runtime error: invalid memory address or nil pointer dereference'')
     | None \<Rightarrow> map_option Returns (wait_loop ctx_err condition events))"

lemma wait_loop_Received: "wait_loop ctx_err condition (map Received objs @ events) =
    (case dropWhile (Not \<circ> condition) objs of [] \<Rightarrow> wait_loop ctx_err condition events | res # _ \<Rightarrow> Some (Inr res))"
  by (induction objs) auto

text \<open>The error of a watch that cannot be set up is lost in a panic.\<close>

lemma wait_until_panics:
  "wait_until (Some err) ctx_err condition events = Some (Panics ''runtime error: invalid memory address or nil pointer dereference'')"
  by (simp add: wait_until_def)

text \<open>A wait on a watch with an end returns.\<close>

lemma wait_until_returns:
  "ChannelClosed \<in> set events \<or> ContextDone \<in> set events \<Longrightarrow> \<exists>r. wait_until None ctx_err condition events = Some (Returns r)"
  unfolding wait_until_def by (induction ctx_err condition events rule: wait_loop.induct) auto

end
