(* ===== verification/Aruba_Properties.thy ===== *)
theory Aruba_Properties
  imports Aruba_Groups Aruba_Instances Aruba_Watch
begin

section \<open>Properties of the Aruba provider\<close>

text \<open>
  What the plugin promises the platform, stated over its handlers with the plugin handler of the kind
  and the generic controller around them. A property of several kinds is a predicate over the handler
  and a conjunction over the kinds; a witness runs it on the server in memory.
\<close>

subsection \<open>Objects and resources come and go together\<close>

text \<open>
  The controller takes a marked resource with a status off its finalizer, the only update it makes of
  such an object, only while the server has no object of the resource.
\<close>

definition releases_only_absent where
  "releases_only_absent c conv deleted status_of reconcile delete repo object_of \<longleftrightarrow>
     (\<forall>ph kept after m now name w obj w1 r log res w'.
        h_delete ph = delete \<longrightarrow> serves repo kept \<longrightarrow> steady kept (h_repo ph) \<longrightarrow> apart kept c \<longrightarrow>
        kc_get c name w = (Inr obj, w1) \<longrightarrow> ko_deletion obj \<noteq> None \<longrightarrow> conv obj = Inr r \<longrightarrow>
        deleted r \<longrightarrow> status_of r \<noteq> None \<longrightarrow>
        controller_reconcile (logging c) conv (lifted (reconcile ph)) after m (\<lambda>lw. now (snd lw)) name ([], w)
          = (res, (log, w')) \<longrightarrow> log \<noteq> [] \<longrightarrow>
        (\<exists>o1. object_of r = Inr o1 \<and> kept w' (object_key o1) = None))"

lemma releases_only_absentD:
  assumes "releases_only_absent c conv deleted status_of reconcile delete repo object_of"
    and "h_delete ph = delete" "serves repo kept" "steady kept (h_repo ph)" "apart kept c"
    and "kc_get c name w = (Inr obj, w1)" "ko_deletion obj \<noteq> None" "conv obj = Inr r" "deleted r" "status_of r \<noteq> None"
    and "controller_reconcile (logging c) conv (lifted (reconcile ph)) after m (\<lambda>lw. now (snd lw)) name ([], w)
      = (res, (log, w'))" "log \<noteq> []"
  shows "\<exists>o1. object_of r = Inr o1 \<and> kept w' (object_key o1) = None"
  using assms unfolding releases_only_absent_def by blast

text \<open>
  C13. A resource of the Aruba plugin is released only when its Aruba object is gone. Whatever the server
  answers, when the controller takes the finalizer off a marked workspace, network, subnet or public IP,
  the project, VPC, subnet or elastic IP that stands for it is not on the server.
\<close>

theorem aruba_released_only_without_object:
  "releases_only_absent c conv_ws deleted_at workspace_view workspace_handle_reconcile (aruba_workspace_delete h)
       (ae_projects h) (workspace_to_project (ae_sha3 h)) \<and>
     releases_only_absent c conv_net deleted_at network_view network_handle_reconcile (aruba_network_delete h)
       (ae_vpcs h) (network_to_vpc (ae_sha3 h)) \<and>
     releases_only_absent c conv_sub deleted_at subnet_view subnet_handle_reconcile (aruba_subnet_delete h)
       (ae_subnets h) (subnet_to_aruba (ae_sha3 h)) \<and>
     releases_only_absent c conv_pip deleted_at public_ip_view public_ip_handle_reconcile (aruba_public_ip_delete h)
       (ae_elastic_ips h) (public_ip_to_elastic_ip (ae_sha3 h))"
  unfolding releases_only_absent_def
  by (intro conjI allI impI;
      rule workspace_managed.release_needs_absence network_managed.release_needs_absence
        subnet_managed.release_needs_absence public_ip_managed.release_needs_absence; assumption)

text \<open>A public IP on its way out, as the controller and the handler see it.\<close>

definition leaving_status :: status where
  "leaving_status = \<lparr>st_state = StateDeleting,
     st_conditions = [\<lparr>c_last = 1, c_message = [], c_reason = [], c_state = StateDeleting, c_type = [], c_occurrences = 1\<rparr>]\<rparr>"

definition leaving_ip :: "string \<Rightarrow> public_ip" where
  "leaving_ip address = regional_metadata.extend ((named_metadata ''ip'' ''t'' ''w'' [])\<lparr>md_deleted := Some 1\<rparr>)
     (public_ip.fields address IPVersionIPv4
       (Some \<lparr>pist_status = leaving_status, pist_attached_to = None, pist_ip_address = []\<rparr>))"

definition leaving_object :: kube_object where
  "leaving_object = \<lparr>ko_deletion = Some 1, ko_finalizers = [finalizer_name], ko_status = Some leaving_status\<rparr>"

definition leaving_pass :: "string \<Rightarrow> memory \<Rightarrow> controller_result \<times> kube_object list \<times> memory" where
  "leaving_pass address m = controller_reconcile (logging (silent_client leaving_object)) (\<lambda>obj. Inr (leaving_ip address))
     (lifted (public_ip_handle_reconcile (silent_handler (aruba_public_ip_create memory_env) (aruba_public_ip_delete memory_env))))
     5 3 (\<lambda>lw. 0) ''ip'' ([], m)"

lemma leaving_pass_releases: "fst (snd (leaving_pass [] empty_memory)) \<noteq> []"
  by code_simp

lemma leaving_ip_facts [simp]:
  "deleted_at (leaving_ip a)" "public_ip_view (leaving_ip a) = Some leaving_status" "pi_address (leaving_ip a) = a"
  by (simp_all add: leaving_ip_def deleted_at_def public_ip_view_def named_metadata_def regional_metadata.defs public_ip.defs)

lemma leaving_ip_object:
  "public_ip_to_elastic_ip (\<lambda>s. s) (leaving_ip []) = Inr o1 \<Longrightarrow> object_key o1 = (''t/w'', ''ip'')"
  by (auto simp: public_ip_to_elastic_ip_def leaving_ip_def named_metadata_def regional_metadata.defs public_ip.defs
      new_aruba_object_def object_key_def own_scope_def Let_def compute_namespace_def split: if_splits)

lemma aruba_released_only_without_object_witness:
  "stored_at (''t/w'', ''ip'') (me_elastic_ips (snd (snd (leaving_pass [] empty_memory)))) = None"
proof -
  obtain res log m where run: "leaving_pass [] empty_memory = (res, (log, m))" by (metis prod_cases3)
  have "releases_only_absent (silent_client leaving_object) (\<lambda>obj. Inr (leaving_ip [])) deleted_at public_ip_view
      public_ip_handle_reconcile (aruba_public_ip_delete memory_env) (ae_elastic_ips memory_env)
      (public_ip_to_elastic_ip (ae_sha3 memory_env))"
    using aruba_released_only_without_object [of "silent_client leaving_object" _ memory_env] by blast
  from releases_only_absentD [OF this _ memory_env_serves(5), where ph = "silent_handler (aruba_public_ip_create memory_env)
      (aruba_public_ip_delete memory_env)" and now = "\<lambda>_. 0", OF _ _ _ _ _ _ _ _ run [unfolded leaving_pass_def]]
  have "\<exists>o1. public_ip_to_elastic_ip (ae_sha3 memory_env) (leaving_ip []) = Inr o1 \<and> kept_in me_elastic_ips m (object_key o1) = None"
    using leaving_pass_releases run by (simp add: leaving_object_def)
  then show ?thesis using run leaving_ip_object by (auto simp: memory_env_def kept_in_def)
qed

text \<open>A pass makes a resource active only while the server has its object, and it is active.\<close>

definition active_only_present where
  "active_only_present deleted status_of reconcile create repo object_of \<longleftrightarrow>
     (\<forall>ph kept r w res r' w'.
        h_create ph = create \<longrightarrow> quiet_plugin deleted status_of ph \<longrightarrow> view_ok (status_of r) \<longrightarrow>
        serves repo kept \<longrightarrow> steady kept (h_repo ph) \<longrightarrow> reconcile ph r w = (res, r', w') \<longrightarrow>
        phase_of (status_of r') = Phase StateActive \<longrightarrow> phase_of (status_of r) \<noteq> Phase StateActive \<longrightarrow>
        (\<exists>o1 live. object_of r = Inr o1 \<and> kept w' (object_key o1) = Some live \<and> ar_phase live = ResourcePhaseActive))"

lemma active_only_presentD:
  assumes "active_only_present deleted status_of reconcile create repo object_of"
    and "h_create ph = create" "quiet_plugin deleted status_of ph" "view_ok (status_of r)"
    and "serves repo kept" "steady kept (h_repo ph)" "reconcile ph r w = (res, r', w')"
    and "phase_of (status_of r') = Phase StateActive" "phase_of (status_of r) \<noteq> Phase StateActive"
  shows "\<exists>o1 live. object_of r = Inr o1 \<and> kept w' (object_key o1) = Some live \<and> ar_phase live = ResourcePhaseActive"
  using assms unfolding active_only_present_def by blast

text \<open>
  C14. A resource of the Aruba plugin becomes active only with an active Aruba object. A pass that takes
  a workspace, network, subnet or public IP to active ends with its project, VPC, subnet or elastic IP
  on the server, in phase active.
\<close>

theorem aruba_active_only_with_object:
  "active_only_present deleted_at workspace_view workspace_handle_reconcile (aruba_workspace_create h)
       (ae_projects h) (workspace_to_project (ae_sha3 h)) \<and>
     active_only_present deleted_at network_view network_handle_reconcile (aruba_network_create h)
       (ae_vpcs h) (network_to_vpc (ae_sha3 h)) \<and>
     active_only_present deleted_at subnet_view subnet_handle_reconcile (aruba_subnet_create h)
       (ae_subnets h) (subnet_to_aruba (ae_sha3 h)) \<and>
     active_only_present deleted_at public_ip_view public_ip_handle_reconcile (aruba_public_ip_create h)
       (ae_elastic_ips h) (public_ip_to_elastic_ip (ae_sha3 h))"
  unfolding active_only_present_def
  by (intro conjI allI impI;
      rule workspace_managed.active_has_object network_managed.active_has_object
        subnet_managed.active_has_object public_ip_managed.active_has_object; assumption)

text \<open>A workspace in creating whose project the server made.\<close>

definition arriving_workspace :: workspace where
  "arriving_workspace = regional_metadata.extend (named_metadata ''ws'' ''t'' [] [])
     (workspace.fields [] (Some \<lparr>wss_status = leaving_status\<lparr>st_state := StateCreating,
        st_conditions := [\<lparr>c_last = 1, c_message = [], c_reason = [], c_state = StateCreating, c_type = [],
          c_occurrences = 1\<rparr>]\<rparr>, wss_resource_count = None\<rparr>))"

definition arriving_memory :: memory where
  "arriving_memory = empty_memory\<lparr>me_projects :=
     [(new_aruba_object ''ws'' ''t'' [] zero_project_spec)\<lparr>ar_phase := ResourcePhaseActive\<rparr>]\<rparr>"

definition arriving_pass :: "reconcile_result \<times> workspace \<times> memory" where
  "arriving_pass = workspace_handle_reconcile
     (silent_handler (aruba_workspace_create memory_env) (aruba_workspace_delete memory_env)) arriving_workspace arriving_memory"

lemma arriving_pass_active: "phase_of (workspace_view (fst (snd arriving_pass))) = Phase StateActive"
  by code_simp

lemma arriving_workspace_view:
  "phase_of (workspace_view arriving_workspace) = Phase StateCreating" "view_ok (workspace_view arriving_workspace)"
  by code_simp+

lemma aruba_active_only_with_object_witness:
  "\<exists>live. stored_at (''t'', ''ws'') (me_projects (snd (snd arriving_pass))) = Some live \<and> ar_phase live = ResourcePhaseActive"
proof -
  obtain res r m where run: "arriving_pass = (res, r, m)" by (metis prod_cases3)
  have "phase_of (workspace_view r) = Phase StateActive" using arriving_pass_active unfolding run by simp
  note phases = this arriving_workspace_view(1)
  have name: "workspace_to_project (ae_sha3 memory_env) arriving_workspace = Inr o1 \<Longrightarrow> object_key o1 = (''t'', ''ws'')" for o1
    by (auto simp: workspace_to_project_def arriving_workspace_def named_metadata_def regional_metadata.defs workspace.defs
        new_aruba_object_def object_key_def tenant_only_scope_def compute_namespace_def memory_env_def Let_def)
  have "active_only_present deleted_at workspace_view workspace_handle_reconcile (aruba_workspace_create memory_env)
      (ae_projects memory_env) (workspace_to_project (ae_sha3 memory_env))"
    using aruba_active_only_with_object by blast
  from active_only_presentD [OF this _ silent_quiet arriving_workspace_view(2) memory_env_serves(1) _ run [unfolded arriving_pass_def]]
  have "\<exists>o1 live. workspace_to_project (ae_sha3 memory_env) arriving_workspace = Inr o1 \<and>
      kept_in me_projects m (object_key o1) = Some live \<and> ar_phase live = ResourcePhaseActive"
    using phases by (simp add: aruba_workspace.leaves_resource)
  then obtain o1 live where "workspace_to_project (ae_sha3 memory_env) arriving_workspace = Inr o1"
    and live: "kept_in me_projects m (object_key o1) = Some live" "ar_phase live = ResourcePhaseActive" by blast
  from name [OF this(1)] live show ?thesis by (simp add: run kept_in_def)
qed

text \<open>The controller never updates a marked object, so never releases it, when the resource is rejected.\<close>

definition never_releases where
  "never_releases c conv deleted status_of reconcile delete rejected \<longleftrightarrow>
     (\<forall>ph (kept :: 'w \<Rightarrow> unit) after m now name w obj w1 r log res w'.
        h_delete ph = delete \<longrightarrow> steady kept (h_repo ph) \<longrightarrow>
        kc_get c name w = (Inr obj, w1) \<longrightarrow> ko_deletion obj \<noteq> None \<longrightarrow> conv obj = Inr r \<longrightarrow>
        deleted r \<longrightarrow> status_of r \<noteq> None \<longrightarrow> rejected r \<longrightarrow>
        controller_reconcile (logging c) conv (lifted (reconcile ph)) after m (\<lambda>lw. now (snd lw)) name ([], w :: 'w)
          = (res, (log, w')) \<longrightarrow> log = [])"

lemma never_releasesD:
  assumes "never_releases c conv deleted status_of reconcile delete rejected"
    and "h_delete ph = delete" "steady (\<lambda>w. ()) (h_repo ph)"
    and "kc_get c name w = (Inr obj, w1)" "ko_deletion obj \<noteq> None" "conv obj = Inr r" "deleted r" "status_of r \<noteq> None"
    and "rejected r" "controller_reconcile (logging c) conv (lifted (reconcile ph)) after m (\<lambda>lw. now (snd lw)) name ([], w)
      = (res, (log, w'))"
  shows "log = []"
  using assms unfolding never_releases_def by blast

text \<open>
  C15. What the converters reject cannot be deleted. Delete converts the resource before it looks for the
  object, so the controller never releases a marked public IP with an address or of version 6, nor a
  marked subnet without an IPv4 range, in any pass, whether or not there is an Aruba object: the
  resource stays, and so does what contains it.
\<close>

theorem aruba_rejected_is_never_released:
  "never_releases c conv_pip deleted_at public_ip_view public_ip_handle_reconcile (aruba_public_ip_delete h)
       (\<lambda>p. pi_address p \<noteq> [] \<or> pi_ip_version p = IPVersionIPv6) \<and>
     never_releases c conv_sub deleted_at subnet_view subnet_handle_reconcile (aruba_subnet_delete h)
       (\<lambda>s. cidr_ipv4 (sns_cidr (sn_spec s)) = [])"
proof
  have rejects: "\<exists>err. public_ip_to_elastic_ip (ae_sha3 h) p = Inl err" if "pi_address p \<noteq> [] \<or> pi_ip_version p = IPVersionIPv6" for p
    using that by (auto simp: public_ip_to_elastic_ip_def)
  show "never_releases c conv_pip deleted_at public_ip_view public_ip_handle_reconcile (aruba_public_ip_delete h)
       (\<lambda>p. pi_address p \<noteq> [] \<or> pi_ip_version p = IPVersionIPv6)"
    unfolding never_releases_def
    by (intro allI impI, drule rejects, elim exE, rule public_ip_managed.unconvertible_is_stuck; assumption)
  have rejects: "\<exists>err. subnet_to_aruba (ae_sha3 h) s = Inl err" if "cidr_ipv4 (sns_cidr (sn_spec s)) = []" for s
    using that by (auto simp: subnet_to_aruba_def)
  show "never_releases c conv_sub deleted_at subnet_view subnet_handle_reconcile (aruba_subnet_delete h)
       (\<lambda>s. cidr_ipv4 (sns_cidr (sn_spec s)) = [])"
    unfolding never_releases_def
    by (intro allI impI, drule rejects, elim exE, rule subnet_managed.unconvertible_is_stuck; assumption)
qed

lemma aruba_rejected_is_never_released_witness: "fst (snd (leaving_pass ''192.0.2.1'' empty_memory)) = []"
proof -
  obtain res log m where run: "leaving_pass ''192.0.2.1'' empty_memory = (res, (log, m))" by (metis prod_cases3)
  have "never_releases (silent_client leaving_object) (\<lambda>obj. Inr (leaving_ip ''192.0.2.1'')) deleted_at public_ip_view
      public_ip_handle_reconcile (aruba_public_ip_delete memory_env) (\<lambda>p. pi_address p \<noteq> [] \<or> pi_ip_version p = IPVersionIPv6)"
    using aruba_rejected_is_never_released by blast
  from never_releasesD [OF this, where ph = "silent_handler (aruba_public_ip_create memory_env)
      (aruba_public_ip_delete memory_env)" and now = "\<lambda>_. 0", OF _ _ _ _ _ _ _ _ run [unfolded leaving_pass_def]]
  show ?thesis using run by (simp add: leaving_object_def)
qed

subsection \<open>Tags\<close>

text \<open>
  C18. The tags sent to Aruba are tags Aruba accepts. For all labels, every tag is a non-empty word of
  letters and digits with single dashes inside; the list is strictly ascending, so without duplicates;
  it depends on the set of the labels, not on the order in which the map is walked; each label with a
  letter or digit has its tag in it; and a valid tag is its own image.
\<close>

theorem aruba_tags_are_accepted:
  "(\<forall>tag \<in> set (aruba_tags labels). valid_tag tag \<and> sanitize_tag tag = tag) \<and>
     sorted_wrt (<) (aruba_tags labels) \<and>
     (\<forall>labels'. set labels' = set labels \<longrightarrow> aruba_tags labels' = aruba_tags labels) \<and>
     (\<forall>(k, v) \<in> set labels. (\<exists>c \<in> set (k @ v). tag_char c) \<longrightarrow> sanitize_tag (k @ ''-'' @ v) \<in> set (aruba_tags labels))"
proof (intro conjI allI impI ballI)
  show "valid_tag tag" "sanitize_tag tag = tag" if "tag \<in> set (aruba_tags labels)" for tag
    using that sanitize_tag_valid by (auto simp: aruba_tags_set)
  show "sorted_wrt (<) (aruba_tags labels)" by (rule aruba_tags_sorted)
  show "aruba_tags labels' = aruba_tags labels" if "set labels' = set labels" for labels'
    using that by (rule aruba_tags_cong)
  show "case l of (k, v) \<Rightarrow> (\<exists>c \<in> set (k @ v). tag_char c) \<longrightarrow> sanitize_tag (k @ ''-'' @ v) \<in> set (aruba_tags labels)"
    if "l \<in> set labels" for l
    using that by (auto simp: aruba_tags_set sanitize_tag_empty)
qed

lemma aruba_tags_are_accepted_witness:
  "''version-24-04'' \<in> set (aruba_tags [(''--'', ''!''), (''version'', ''24.04'')])"
proof -
  have "sanitize_tag (''version'' @ ''-'' @ ''24.04'') = ''version-24-04''" "tag_char CHR ''v''" by code_simp+
  moreover have "\<forall>(k, v) \<in> set [(''--'', ''!''), (''version'', ''24.04'')]. (\<exists>c \<in> set (k @ v). tag_char c) \<longrightarrow>
      sanitize_tag (k @ ''-'' @ v) \<in> set (aruba_tags [(''--'', ''!''), (''version'', ''24.04'')])"
    using aruba_tags_are_accepted by blast
  ultimately show ?thesis by auto
qed

subsection \<open>Security groups and subnets of instances\<close>

text \<open>
  C17. Deleting a security group reaps its Aruba groups, with their rules, and nothing else. On a server
  that lists and deletes as documented, a pass of Delete, whether it succeeds or fails halfway, changes
  no group but those labelled with the security group and its tenant in the namespace of its workspace,
  and no rule but those in that namespace labelled with one of these groups, and these only by deletion;
  when it succeeds, all of them are gone or marked. What an instance of the workspace attached for the
  security group, in any network, is among them.
\<close>

theorem security_group_is_reaped:
  assumes "reapable (ae_groups h) kept_g doomed_g" and "reapable (ae_group_rules h) kept_r doomed_r"
    and "spares (ae_groups h) kept_r" and "spares (ae_group_rules h) kept_g"
    and d: "aruba_security_group_delete h domain w = (e, domain', w')"
  shows "wanes doomed_g (object_key ` own_groups h domain (kept_g w)) (kept_g w) (kept_g w') \<and>
    wanes doomed_r (rule_keys (own_groups h domain (kept_g w)) (kept_r w)) (kept_r w) (kept_r w') \<and>
    (e = None \<longrightarrow> (\<forall>sg \<in> own_groups h domain (kept_g w). gone doomed_g (kept_g w') (object_key sg)) \<and>
      (\<forall>key \<in> rule_keys (own_groups h domain (kept_g w)) (kept_r w). gone doomed_r (kept_r w') key)) \<and>
    (\<forall>network region labels vpc_ref project_ref s key.
      s key = Some (build_security_group (md_name domain) network region (md_tenant domain)
        (compute_namespace (ae_sha3 h) (own_scope domain)) labels vpc_ref project_ref) \<longrightarrow>
      the (s key) \<in> own_groups h domain s)"
proof -
  have "security_group_delete h domain w = (e, w')"
    using d by (auto simp: aruba_security_group_delete_def plugin_op_def split: prod.splits)
  from security_group_delete_effect [OF assms(1-4) this] show ?thesis
    by (auto simp: own_groups_def materialized_group_is_own)
qed

text \<open>A group and a rule made for the security group, and a rule of another group.\<close>

definition attached_rules :: "string \<Rightarrow> aruba_rule_spec aruba_object list" where
  "attached_rules name = build_security_rules (normalize_inline_rules [\<lparr>sgrs_direction = ''ingress'', sgrs_icmp = None,
       sgrs_ports = None, sgrs_protocol = ''tcp'', sgrs_source_ref = [], sgrs_version = IPVersionUnset\<rparr>] [])
     name [] ''t'' ''t/w'' no_aruba_reference no_aruba_reference"

definition attached_memory :: memory where
  "attached_memory = empty_memory\<lparr>
     me_groups := [build_security_group ''g'' ''net'' [] ''t'' ''t/w'' [] no_aruba_reference no_aruba_reference],
     me_rules := attached_rules ''g-net'' @ attached_rules ''h-net''\<rparr>"

definition attached_group :: security_group where
  "attached_group = named_security_group ''g'' \<lparr>sc_tenant = ''t'', sc_workspace = ''w''\<rparr>"

lemma attached_delete_succeeds: "fst (aruba_security_group_delete memory_env attached_group attached_memory) = None"
  by code_simp

lemma attached_group_own:
  "\<exists>sg \<in> own_groups memory_env attached_group (kept_in me_groups attached_memory). object_key sg = (''t/w'', ''g-net'')"
proof
  let ?sg = "build_security_group ''g'' ''net'' [] ''t'' ''t/w'' [] no_aruba_reference no_aruba_reference"
  show "object_key ?sg = (''t/w'', ''g-net'')" by code_simp
  then have "kept_in me_groups attached_memory (''t/w'', ''g-net'') = Some ?sg"
    by (simp add: kept_in_def attached_memory_def)
  moreover have "labels_match (group_selector attached_group) ?sg" by code_simp
  moreover have "ar_namespace ?sg = compute_namespace (ae_sha3 memory_env) (own_scope attached_group)" by code_simp
  ultimately show "?sg \<in> own_groups memory_env attached_group (kept_in me_groups attached_memory)"
    unfolding own_groups_def by blast
qed

lemma security_group_is_reaped_witness:
  "kept_in me_groups (snd (snd (aruba_security_group_delete memory_env attached_group attached_memory)))
     (''t/w'', ''g-net'') = None"
proof -
  obtain e d w where run: "aruba_security_group_delete memory_env attached_group attached_memory = (e, d, w)"
    by (metis prod_cases3)
  with attached_delete_succeeds have "e = None" by simp
  with security_group_is_reaped [OF memory_env_reapable run] attached_group_own
  have "gone (\<lambda>obj. False) (kept_in me_groups w) (''t/w'', ''g-net'')" by metis
  then show ?thesis by (simp add: run gone_def)
qed

text \<open>
  A subnet reference picks one network or says why not. Whatever order the server lists the subnets
  of the workspace in, the lookup of a reference returns an active listed subnet of the name, in the
  network the reference names, if it names one, and otherwise in the only network that has such a
  subnet; it waits exactly when there is none, and refuses a bare name with two different networks,
  naming both.
\<close>

theorem subnet_choice_is_unambiguous:
  assumes "arp_list (ae_subnets h) None [(label_subnet_tenant, tenant), (label_subnet_workspace, workspace)] w = (Inr subnets, w1)"
    and "resolve_subnet h tenant workspace resource w = (r, w')"
  shows "case r of
     Inr s \<Rightarrow> s \<in> meant (last_segment resource) (reference_network resource) subnets \<and>
       subnet_network ` meant (last_segment resource) (reference_network resource) subnets = {subnet_network s}
   | Inl err \<Rightarrow> meant (last_segment resource) (reference_network resource) subnets = {} \<and> err = Sentinel ErrStillProcessing \<or>
       reference_network resource = [] \<and>
       (\<exists>a \<in> subnet_network ` meant (last_segment resource) (reference_network resource) subnets.
        \<exists>b \<in> subnet_network ` meant (last_segment resource) (reference_network resource) subnets.
         a \<noteq> b \<and> err = ambiguous_subnet (last_segment resource) a b)"
  by (rule resolve_subnet_choice [OF assms])

text \<open>A subnet of the name \<open>s\<close> in a network.\<close>

definition listed_subnet :: "string \<Rightarrow> aruba_subnet_spec aruba_object" where
  "listed_subnet network = (new_aruba_object ''s'' network
     [(label_subnet_network, network), (label_subnet_tenant, ''t''), (label_subnet_workspace, ''w'')]
     \<lparr>asn_tenant = ''t'', asn_region = [], asn_tags = [], asn_type = [], asn_cidr = [], asn_dhcp = True,
      asn_vpc = \<lparr>aref_name = network, aref_namespace = ''t/w''\<rparr>, asn_project = no_aruba_reference\<rparr>)
     \<lparr>ar_phase := ResourcePhaseActive\<rparr>"

lemma listed_subnets:
  "arp_list (ae_subnets memory_env) None [(label_subnet_tenant, ''t''), (label_subnet_workspace, ''w'')]
     (empty_memory\<lparr>me_subnets := [listed_subnet ''n1'', listed_subnet ''n2'']\<rparr>) =
   (Inr [listed_subnet ''n1'', listed_subnet ''n2''], empty_memory\<lparr>me_subnets := [listed_subnet ''n1'', listed_subnet ''n2'']\<rparr>)"
  by code_simp

lemma subnet_choice_is_unambiguous_witness:
  "\<exists>s. fst (resolve_subnet memory_env ''t'' ''w'' ''networks/n2/subnets/s''
     (empty_memory\<lparr>me_subnets := [listed_subnet ''n1'', listed_subnet ''n2'']\<rparr>)) = Inr s \<and> subnet_network s = ''n2''"
proof -
  let ?r = "''networks/n2/subnets/s''"
  obtain r w where run: "resolve_subnet memory_env ''t'' ''w'' ?r
     (empty_memory\<lparr>me_subnets := [listed_subnet ''n1'', listed_subnet ''n2'']\<rparr>) = (r, w)" by fastforce
  have "last_segment ?r = ''s''" "reference_network ?r = ''n2''" "ar_name (listed_subnet ''n2'') = ''s''"
    "ar_phase (listed_subnet ''n2'') = ResourcePhaseActive" "subnet_network (listed_subnet ''n2'') = ''n2''" by code_simp+
  then have "listed_subnet ''n2'' \<in> meant (last_segment ?r) (reference_network ?r) [listed_subnet ''n1'', listed_subnet ''n2'']"
    and want: "reference_network ?r = ''n2''" by (simp_all add: meant_def)
  with subnet_choice_is_unambiguous [OF listed_subnets run] obtain s where
    "r = Inr s" "s \<in> meant (last_segment ?r) (reference_network ?r) [listed_subnet ''n1'', listed_subnet ''n2'']"
    by (cases r) auto
  with run want show ?thesis by (auto simp: meant_def)
qed

text \<open>
  C16. A cloud server is asked for only when what it is built from is active. On a server where the
  calls of a pass take nothing away, a pass of Create changes the cloud servers in one way only: it adds
  the instance's own, with the spec the converter builds from references of which, at the end of the
  pass, each but the VPC names an object that is there and active: the project, at least one subnet and one
  security group, the key pair, the boot volume, whose zone the server takes (the default one when it has
  none) and the instance's zone does not conflict with, the data volumes, the elastic IP. The VPC is not
  looked up by the code: it is the one the stored first subnet names. The pass succeeds only with the server
  active.
\<close>

theorem instance_server_has_ready_refs:
  assumes "adding h store" and "serves (ae_servers h) (\<lambda>w. st_servers (store w))" and "aside store (ae_servers h)"
    and c: "aruba_instance_create h domain w = (e, domain', w')"
  shows "(st_servers (store w') = st_servers (store w) \<or>
      (\<exists>refs stored. refs_ready domain refs (store w') \<and>
        st_servers (store w) (compute_namespace (ae_sha3 h) (own_scope domain), md_name domain) = None \<and>
        st_servers (store w') = (st_servers (store w))
          ((compute_namespace (ae_sha3 h) (own_scope domain), md_name domain) \<mapsto> stored) \<and>
        ar_spec stored = ar_spec (build_cloud_server (ae_sha3 h) domain refs))) \<and>
    (e = None \<longrightarrow> (\<exists>live refs. st_servers (store w') (compute_namespace (ae_sha3 h) (own_scope domain), md_name domain) = Some live \<and>
      ar_phase live = ResourcePhaseActive \<and> refs_ready domain refs (store w')))"
proof -
  have "instance_create h domain w = (e, w')"
    using c by (auto simp: aruba_instance_create_def plugin_op_def split: prod.splits)
  then show ?thesis by (rule instance_create_effect [OF assms(1-3)])
qed

definition to_resource :: "string \<Rightarrow> reference" where
  "to_resource r = unset_reference\<lparr>ref_resource := r\<rparr>"

definition small_instance :: instance_res where
  "small_instance = regional_metadata.extend (named_metadata ''vm'' ''t'' ''w'' [])
     (instance_res.fields
       \<lparr>ins_additional_nic_refs = [], ins_anti_affinity_group = [],
        ins_boot_volume = \<lparr>vol_device_ref = to_resource ''block-storages/boot'', vol_type = []\<rparr>, ins_data_volumes = [],
        ins_primary_nic_ref = Some (to_resource ''nics/n''), ins_security_group_ref = Some (to_resource ''security-groups/g''),
        ins_sku_ref = to_resource ''skus/small'', ins_ssh_keys = [''key''], ins_user_data = [], ins_zone = ''ITBG-1''\<rparr>
       None PowerUnset [] PhaseUnset)"

definition small_nic :: nic where
  "small_nic = (named_nic ''n'' \<lparr>sc_tenant = ''t'', sc_workspace = ''w''\<rparr>)\<lparr>nic_spec :=
     \<lparr>nics_addresses = [], nics_public_ip_refs = [], nics_security_group_refs = [], nics_sku_ref = unset_reference,
      nics_subnet_ref = to_resource ''subnets/s''\<rparr>\<rparr>"

definition small_env :: "memory aruba_env" where
  "small_env = instance_env
     [(regional_metadata.extend (named_metadata ''w'' ''t'' [] []) (workspace.fields []
        (Some \<lparr>wss_status = leaving_status\<lparr>st_state := StateActive\<rparr>, wss_resource_count = None\<rparr>)))]
     [small_nic] [attached_group]
     [regional_metadata.extend (named_metadata ''small'' ''t'' [] []) (instance_sku.fields \<lparr>isks_vcpu = 2, isks_ram = 8\<rparr>)]"

definition small_memory :: memory where
  "small_memory = empty_memory\<lparr>
     me_projects := [(new_aruba_object ''w'' ''t'' [] zero_project_spec)\<lparr>ar_phase := ResourcePhaseActive\<rparr>],
     me_subnets := [listed_subnet ''net''],
     me_volumes := [(new_aruba_object ''boot'' ''t/w'' [] (zero_volume_spec\<lparr>vol_zone := ''ITBG-1''\<rparr>))
       \<lparr>ar_phase := ResourcePhaseActive\<rparr>]\<rparr>"

lemma small_instance_succeeds: "fst (aruba_instance_create small_env small_instance small_memory) = None"
  by code_simp

lemma small_env_laws:
  "adding small_env store_of" "serves (ae_servers small_env) (\<lambda>w. st_servers (store_of w))" "aside store_of (ae_servers small_env)"
  unfolding small_env_def by (rule instance_env_adding instance_env_servers)+

lemma instance_server_has_ready_refs_witness:
  "\<exists>live. stored_at (''t/w'', ''vm'') (me_servers (snd (snd (aruba_instance_create small_env small_instance small_memory)))) = Some live \<and>
     ar_phase live = ResourcePhaseActive"
proof -
  obtain e d w where run: "aruba_instance_create small_env small_instance small_memory = (e, d, w)" by (metis prod_cases3)
  with small_instance_succeeds have "e = None" by simp
  moreover have "(compute_namespace (ae_sha3 small_env) (own_scope small_instance), md_name small_instance) = (''t/w'', ''vm'')"
    by code_simp
  ultimately show ?thesis
    using instance_server_has_ready_refs [OF small_env_laws run]
    by (auto simp: run store_of_def kept_in_def)
qed

text \<open>
  The name of a materialised group joins the two names with a dash, so two groups may want one name: an
  instance that attaches \<open>a\<close> in the network \<open>b-c\<close> gets the group that was made for \<open>a-b\<close> in \<open>c\<close>, with its
  rules, and nothing is written.
\<close>

definition colliding_memory :: memory where
  "colliding_memory = empty_memory\<lparr>
     me_groups := [(build_security_group ''a-b'' ''c'' [] ''t'' ''t/w'' [] no_aruba_reference no_aruba_reference)
       \<lparr>ar_phase := ResourcePhaseActive\<rparr>],
     me_rules := attached_rules ''a-b-c''\<rparr>"

lemma colliding_group_is_reused:
  "materialize_security_group (memory_env\<lparr>ae_security_groups :=
       reading [named_security_group ''a'' \<lparr>sc_tenant = ''t'', sc_workspace = ''w''\<rparr>]\<rparr>)
     \<lparr>sc_tenant = ''t'', sc_workspace = ''w''\<rparr> ''b-c'' ''a'' ''t/w'' [] no_aruba_reference no_aruba_reference colliding_memory =
   (Inr \<lparr>aref_name = ''a-b-c'', aref_namespace = ''t/w''\<rparr>, colliding_memory)"
  by code_simp

subsection \<open>Watching\<close>

text \<open>
  C19. A watch delivers only objects that match its filter, and its channel may be sent on after it is
  closed. In every interleaving of the informer, the closing goroutine and the caller, what is received
  matches the name and namespace watched for, the channel is closed only after the cancellation, and a
  panic happens only on the closed channel; but there is an interleaving that panics, for every object
  that matches: the handler counts itself after the goroutine has stopped waiting. Waiting on a watch
  whose channel is closed or whose context ends returns, unless the watch could not be set up: then it
  panics instead of returning the error.
\<close>

theorem watch_delivers_matches_but_may_panic:
  fixes want :: "'s aruba_object"
  shows "(\<forall>s :: 's aruba_object watch_state. watch_run (\<lambda>obj. watch_matches obj want) s \<longrightarrow>
       (\<forall>obj \<in> set (wt_received s). watch_matches obj want) \<and>
       (wt_closer s = ClosedChannel \<longrightarrow> wt_ctx_done s) \<and> (wt_panicked s \<longrightarrow> wt_closer s = ClosedChannel)) \<and>
     (\<forall>obj :: 's aruba_object. watch_matches obj want \<longrightarrow> (\<exists>s :: 's aruba_object watch_state. watch_run (\<lambda>obj. watch_matches obj want) s \<and> wt_panicked s)) \<and>
     (\<forall>events. ChannelClosed \<in> set events \<or> ContextDone \<in> set events \<longrightarrow>
       (\<exists>r. wait_until None ctx_err condition events = Some (Returns r))) \<and>
     (\<forall>err events. \<exists>p. wait_until (Some err) ctx_err condition events = Some (Panics p))"
proof (intro conjI allI impI)
  fix s :: "'s aruba_object watch_state" assume run: "watch_run (\<lambda>obj. watch_matches obj want) s"
  from watch_ok_run [OF run] have ok: "watch_ok (\<lambda>obj. watch_matches obj want) s" .
  then show "\<forall>obj \<in> set (wt_received s). watch_matches obj want" by (simp add: watch_ok_def)
  show "wt_ctx_done s" if "wt_closer s = ClosedChannel" using ok that by (simp add: watch_ok_def)
  show "wt_closer s = ClosedChannel" if "wt_panicked s" using ok that by (simp add: watch_ok_def)
next
  fix obj :: "'s aruba_object" assume "watch_matches obj want"
  from late_sender_run [where wanted = "\<lambda>obj. watch_matches obj want", OF this]
  moreover have "wt_panicked (late_sender obj)" by (simp add: late_sender_def)
  ultimately show "\<exists>s :: 's aruba_object watch_state. watch_run (\<lambda>obj. watch_matches obj want) s \<and> wt_panicked s" by blast
next
  show "\<exists>r. wait_until None ctx_err condition events = Some (Returns r)"
    if "ChannelClosed \<in> set events \<or> ContextDone \<in> set events" for events
    using that by (rule wait_until_returns)
  show "\<exists>p. wait_until (Some err) ctx_err condition events = Some (Panics p)" for err events
    by (simp add: wait_until_def)
qed

lemma watch_delivers_matches_but_may_panic_witness:
  "\<exists>s. watch_run (\<lambda>obj. watch_matches obj (key_object ''s'' [] zero_vpc_spec)) s \<and> wt_panicked (s :: vpc_spec aruba_object watch_state)"
proof -
  have "watch_matches (key_object ''s'' ''t/w'' zero_vpc_spec) (key_object ''s'' [] zero_vpc_spec)" by code_simp
  with watch_delivers_matches_but_may_panic [of "key_object ''s'' [] zero_vpc_spec"] show ?thesis by blast
qed

end
