(* ===== verification/Go_Time.thy ===== *)
theory Go_Time
  imports Decimal
begin

section \<open>Instants as text: \<^verbatim>\<open>time.RFC3339\<close>\<close>

text \<open>
  What the plugins use of Go's \<^verbatim>\<open>time\<close> package: \<^verbatim>\<open>Format\<close> and \<^verbatim>\<open>Parse\<close> with the layout
  \<^verbatim>\<open>time.RFC3339\<close>. An instant is its distance in nanoseconds from the zero time, the first of
  January of the year 1 in UTC. The zone of the process is a function from instants to its offset
  in seconds. The text has no fraction of a second, so what comes back is the start of the second.
\<close>

type_synonym instant = int

definition second :: instant where
  "second = 1000000000"

subsection \<open>The calendar\<close>

definition is_leap :: "int \<Rightarrow> bool" where
  "is_leap y \<longleftrightarrow> y mod 4 = 0 \<and> (y mod 100 \<noteq> 0 \<or> y mod 400 = 0)"

definition month_lengths :: "bool \<Rightarrow> int list" where
  "month_lengths leap = [31, if leap then 29 else 28, 31, 30, 31, 30, 31, 31, 30, 31, 30, 31]"

definition days_before_year :: "int \<Rightarrow> int" where
  "days_before_year y = (let p = y - 1 in 365 * p + p div 4 - p div 100 + p div 400)"

text \<open>Year and day of the year of a day, counted by cycles of 400, 100, 4 and 1 years.\<close>

definition year_of_day :: "int \<Rightarrow> int \<times> int" where
  "year_of_day n =
    (let n400 = n div 146097; d400 = n mod 146097;
         n100 = d400 div 36524 - d400 div 36524 div 4; d100 = d400 - 36524 * n100;
         n4 = d100 div 1461; d4 = d100 - 1461 * n4;
         n1 = d4 div 365 - d4 div 365 div 4 in
     (400 * n400 + 100 * n100 + 4 * n4 + n1 + 1, d4 - 365 * n1))"

fun month_of_day :: "int list \<Rightarrow> int \<Rightarrow> int \<times> int" where
  "month_of_day [] d = (1, d + 1)"
| "month_of_day (l # ls) d =
    (if d < l then (1, d + 1) else (case month_of_day ls (d - l) of (m, k) \<Rightarrow> (m + 1, k)))"

fun days_before_month :: "int list \<Rightarrow> int \<Rightarrow> int" where
  "days_before_month [] m = 0"
| "days_before_month (l # ls) m = (if m \<le> 1 then 0 else l + days_before_month ls (m - 1))"

fun length_of_month :: "int list \<Rightarrow> int \<Rightarrow> int" where
  "length_of_month [] m = 0"
| "length_of_month (l # ls) m = (if m \<le> 1 then l else length_of_month ls (m - 1))"

definition day_of_date :: "int \<Rightarrow> int \<Rightarrow> int \<Rightarrow> int" where
  "day_of_date y m d = days_before_year y + days_before_month (month_lengths (is_leap y)) m + d - 1"

text \<open>Four shorter cycles and a day: the last day would start a fifth, and does not.\<close>

lemma cycle_split:
  fixes r c e :: int
  assumes "0 \<le> r" and "r < 4 * c + e" and "e = 1" and "1 < c"
  shows "0 \<le> r div c - r div c div 4 \<and> r div c - r div c div 4 \<le> 3 \<and>
    0 \<le> r - c * (r div c - r div c div 4) \<and> r - c * (r div c - r div c div 4) < c + 1 \<and>
    (r div c - r div c div 4 < 3 \<longrightarrow> r - c * (r div c - r div c div 4) < c)"
proof -
  define q where "q = r div c"
  define b where "b = r mod c"
  have r: "r = c * q + b" "0 \<le> b" "b < c" using assms by (simp_all add: q_def b_def)
  have "0 \<le> q" using assms by (simp add: q_def pos_imp_zdiv_nonneg_iff)
  have "q \<le> 4"
  proof (rule ccontr)
    assume "\<not> q \<le> 4"
    then have "c * 5 \<le> c * q" using assms by (intro mult_left_mono) auto
    with r assms show False by linarith
  qed
  with \<open>0 \<le> q\<close> consider "q = 0" | "q = 1" | "q = 2" | "q = 3" | "q = 4" by linarith
  then show ?thesis unfolding q_def [symmetric] using r(2-) assms by cases (auto simp: r(1))
qed

lemma year_of_day_sound:
  assumes "year_of_day n = (y, d)"
  shows "days_before_year y + d = n" and "0 \<le> d" and "d < (if is_leap y then 366 else 365)"
proof -
  define n400 r400 where "n400 = n div 146097" and "r400 = n mod 146097"
  define n100 where "n100 = r400 div 36524 - r400 div 36524 div 4"
  define r100 where "r100 = r400 - 36524 * n100"
  define n4 where "n4 = r100 div 1461"
  define r4 where "r4 = r100 - 1461 * n4"
  define n1 where "n1 = r4 div 365 - r4 div 365 div 4"
  note defs = n400_def r400_def n100_def r100_def n4_def r4_def n1_def
  from assms have y: "y = 400 * n400 + 100 * n100 + 4 * n4 + n1 + 1" and d: "d = r4 - 365 * n1"
    by (simp_all add: year_of_day_def Let_def defs)
  have n: "n = 146097 * n400 + r400" by (simp add: n400_def r400_def)
  have r400: "0 \<le> r400" "r400 < 146097" by (simp_all add: r400_def)
  have n100: "0 \<le> n100 \<and> n100 \<le> 3 \<and> 0 \<le> r100 \<and> r100 < 36525 \<and> (n100 < 3 \<longrightarrow> r100 < 36524)"
    using cycle_split [of r400 36524 1, folded n100_def] r400 unfolding r100_def by simp
  have n4: "0 \<le> n4 \<and> n4 \<le> 24 \<and> 0 \<le> r4 \<and> r4 < 1461 \<and> (n4 = 24 \<and> n100 < 3 \<longrightarrow> r4 < 1460)"
    using n100 div_mult_mod_eq [of r100 1461] pos_mod_bound [of 1461 r100] pos_mod_sign [of 1461 r100]
    unfolding r4_def n4_def [symmetric] by linarith
  have n1: "0 \<le> n1 \<and> n1 \<le> 3 \<and> 0 \<le> d \<and> d < 366 \<and> (n1 < 3 \<longrightarrow> d < 365)"
    using cycle_split [of r4 365 1, folded n1_def] n4 unfolding d by simp
  let ?p = "400 * n400 + 100 * n100 + 4 * n4 + n1"
  have divs: "?p div 4 = 100 * n400 + 25 * n100 + n4" "?p div 100 = 4 * n400 + n100" "?p div 400 = n400"
    using n100 n4 n1
    by (intro int_div_pos_eq [where r = n1] int_div_pos_eq [where r = "4 * n4 + n1"]
        int_div_pos_eq [where r = "100 * n100 + 4 * n4 + n1"]; simp)+
  show "days_before_year y + d = n"
    using divs by (simp add: days_before_year_def Let_def y d n r100_def r4_def)
  show "0 \<le> d" using n1 by simp
  have "is_leap y" if "d = 365"
  proof -
    from that n1 have n1': "n1 = 3" by linarith
    with that have "r4 = 1460" by (simp add: d)
    with n4 n100 have "n4 \<noteq> 24 \<or> n100 = 3" by linarith
    then consider "n4 < 24" | "n4 = 24" "n100 = 3" using n4 by linarith
    then show ?thesis
    proof cases
      case 1
      have y4: "y = 4 * (100 * n400 + 25 * n100 + n4 + 1)" and y100: "y = 100 * (4 * n400 + n100) + (4 * n4 + 4)"
        by (simp_all add: y n1')
      have "y mod 4 = 0" unfolding y4 by (rule mod_mult_self1_is_0)
      moreover have "y mod 100 = 4 * n4 + 4" using 1 n4 unfolding y100 mod_mult_self4 by simp
      ultimately show ?thesis using n4 by (simp add: is_leap_def)
    next
      case 2
      then have "y = 400 * (n400 + 1)" by (simp add: y n1')
      then show ?thesis by (simp add: is_leap_def)
    qed
  qed
  with n1 show "d < (if is_leap y then 366 else 365)" by (cases "d = 365") auto
qed

lemma month_of_day_sound:
  assumes "month_of_day ls d = (m, k)" and "0 \<le> d" and "d < sum_list ls"
  shows "days_before_month ls m + k = d + 1 \<and> 1 \<le> m \<and> m \<le> int (length ls) \<and> 1 \<le> k \<and> k \<le> length_of_month ls m"
  using assms
proof (induction ls d arbitrary: m k rule: month_of_day.induct)
  case (2 l ls d)
  show ?case
  proof (cases "d < l")
    case False
    obtain m' k' where rest: "month_of_day ls (d - l) = (m', k')" by fastforce
    with 2 False show ?thesis by auto
  qed (use 2 in auto)
qed simp

lemma sum_month_lengths: "sum_list (month_lengths leap) = (if leap then 366 else 365)"
  and length_month_lengths: "length (month_lengths leap) = 12"
  by (simp_all add: month_lengths_def)

subsection \<open>\<^verbatim>\<open>Format\<close>\<close>

text \<open>\<^verbatim>\<open>appendInt\<close>: padded with zeros to a width.\<close>

definition append_int :: "nat \<Rightarrow> int \<Rightarrow> string" where
  "append_int width n =
    (let ds = nat_digits (nat \<bar>n\<bar>) in
     (if n < 0 then ''-'' else []) @ replicate (width - length ds) (digit_char 0) @ ds)"

definition format_offset :: "int \<Rightarrow> string" where
  "format_offset offset =
    (if offset = 0 then ''Z''
     else let minutes = \<bar>offset\<bar> div 60 in
       (if offset < 0 then ''-'' else ''+'') @ append_int 2 (minutes div 60) @ '':'' @ append_int 2 (minutes mod 60))"

definition format_rfc3339 :: "(instant \<Rightarrow> int) \<Rightarrow> instant \<Rightarrow> string" where
  "format_rfc3339 zone t =
    (let local = t div second + zone t;
         (year, yday) = year_of_day (local div 86400);
         (month, day) = month_of_day (month_lengths (is_leap year)) yday;
         clock = local mod 86400 in
     append_int 4 year @ ''-'' @ append_int 2 month @ ''-'' @ append_int 2 day @ ''T'' @
     append_int 2 (clock div 3600) @ '':'' @ append_int 2 (clock mod 3600 div 60) @ '':'' @
     append_int 2 (clock mod 60) @ format_offset (zone t))"

subsection \<open>\<^verbatim>\<open>Parse\<close>\<close>

text \<open>
  \<^verbatim>\<open>getnum\<close>: two digits, or one where the layout does not insist. The parsers return what they read
  and the rest; any error of \<^verbatim>\<open>Parse\<close> is \<open>None\<close>, with which it returns the zero time.
\<close>

fun get_num :: "bool \<Rightarrow> string \<Rightarrow> (int \<times> string) option" where
  "get_num fixed [] = None"
| "get_num fixed (c # s) =
    (case digit_value c of
       None \<Rightarrow> None
     | Some a \<Rightarrow>
       (case s of
          [] \<Rightarrow> if fixed then None else Some (int a, s)
        | c' # s' \<Rightarrow>
          (case digit_value c' of
             None \<Rightarrow> if fixed then None else Some (int a, s)
           | Some b \<Rightarrow> Some (10 * int a + int b, s'))))"

definition get_within :: "bool \<Rightarrow> int \<Rightarrow> int \<Rightarrow> string \<Rightarrow> (int \<times> string) option" where
  "get_within fixed lo hi s =
    (case get_num fixed s of
       None \<Rightarrow> None
     | Some (n, r) \<Rightarrow> if lo \<le> n \<and> n \<le> hi then Some (n, r) else None)"

definition get_year :: "string \<Rightarrow> (int \<times> string) option" where
  "get_year s =
    (if length s < 4 then None
     else map_option (\<lambda>y. (int y, drop 4 s)) (parse_digits (take 4 s) 0))"

fun skip_byte :: "char \<Rightarrow> string \<Rightarrow> string option" where
  "skip_byte c [] = None"
| "skip_byte c (x # s) = (if x = c then Some s else None)"

text \<open>A fraction of a second, which the layout does not name and the parser reads all the same.\<close>

definition get_fraction :: "string \<Rightarrow> int \<times> string" where
  "get_fraction s =
    (case s of
       c # d # r \<Rightarrow>
         if (c = CHR ''.'' \<or> c = CHR '','') \<and> digit_value d \<noteq> None then
           (let ds = takeWhile (\<lambda>x. digit_value x \<noteq> None) (d # r); read = take 9 ds in
            (case parse_digits read 0 of
               None \<Rightarrow> (0, s)
             | Some n \<Rightarrow> (int n * 10 ^ (9 - length read), drop (length ds) (d # r))))
         else (0, s)
     | _ \<Rightarrow> (0, s))"

definition get_offset :: "string \<Rightarrow> (int \<times> string) option" where
  "get_offset s =
    (if has_prefix ''Z'' s then Some (0, drop 1 s)
     else if length s < 6 \<or> s ! 3 \<noteq> CHR '':'' then None
     else (case (get_within True 0 24 (take 2 (drop 1 s)), get_within True 0 60 (take 2 (drop 4 s))) of
        (Some (hr, _), Some (mm, _)) \<Rightarrow>
          if s ! 0 = CHR ''+'' then Some ((hr * 60 + mm) * 60, drop 6 s)
          else if s ! 0 = CHR ''-'' then Some (- ((hr * 60 + mm) * 60), drop 6 s)
          else None
      | _ \<Rightarrow> None))"

definition get_date :: "string \<Rightarrow> (int \<times> int \<times> int \<times> string) option" where
  "get_date s =
    Option.bind (get_year s) (\<lambda>(year, s).
    Option.bind (skip_byte (CHR ''-'') s) (\<lambda>s.
    Option.bind (get_within True 1 12 s) (\<lambda>(month, s).
    Option.bind (skip_byte (CHR ''-'') s) (\<lambda>s.
    Option.bind (get_num True s) (\<lambda>(day, s). Some (year, month, day, s))))))"

definition get_clock :: "string \<Rightarrow> (int \<times> string) option" where
  "get_clock s =
    Option.bind (get_within False 0 23 s) (\<lambda>(hr, s).
    Option.bind (skip_byte (CHR '':'') s) (\<lambda>s.
    Option.bind (get_within True 0 59 s) (\<lambda>(mm, s).
    Option.bind (skip_byte (CHR '':'') s) (\<lambda>s.
    Option.bind (get_within True 0 59 s) (\<lambda>(ss, s). Some (3600 * hr + 60 * mm + ss, s))))))"

definition parse_rfc3339 :: "string \<Rightarrow> instant option" where
  "parse_rfc3339 s =
    Option.bind (get_date s) (\<lambda>(year, month, day, s).
    Option.bind (skip_byte (CHR ''T'') s) (\<lambda>s.
    Option.bind (get_clock s) (\<lambda>(clock, s).
    (let (fraction, s) = get_fraction s in
    Option.bind (get_offset s) (\<lambda>(offset, s).
      if s \<noteq> [] \<or> day < 1 \<or> length_of_month (month_lengths (is_leap year)) month < day then None
      else Some ((86400 * day_of_date year month day + clock - offset) * second + fraction))))))"

subsection \<open>The round trip\<close>

lemma nat_digits_small: "n < 10 \<Longrightarrow> nat_digits n = [digit_char n]"
  by (subst nat_digits.simps) simp

lemma nat_digits_large: "\<not> n < 10 \<Longrightarrow> nat_digits n = nat_digits (n div 10) @ [digit_char (n mod 10)]"
  by (subst nat_digits.simps) simp

lemma parse_zeros: "parse_digits (replicate k (digit_char 0) @ s) 0 = parse_digits s 0"
  by (induction k) auto

lemma length_nat_digits: "n < 10 ^ k \<Longrightarrow> 0 < k \<Longrightarrow> length (nat_digits n) \<le> k"
proof (induction k arbitrary: n)
  case (Suc k)
  show ?case
  proof (cases "n < 10")
    case False
    with Suc.prems have "n div 10 < 10 ^ k" "0 < k" by (auto intro: Nat.gr0I)
    with Suc.IH [of "n div 10"] False show ?thesis by (simp add: nat_digits_large)
  qed (simp add: nat_digits_small)
qed simp

lemma append_int_two:
  assumes "0 \<le> n" and "n < 100"
  shows "append_int 2 n = [digit_char (nat n div 10), digit_char (nat n mod 10)]"
proof (cases "n < 10")
  case True
  with assms show ?thesis by (simp add: append_int_def Let_def nat_digits_small)
next
  case False
  then have "\<not> nat n < 10" "nat n div 10 < 10" using assms by auto
  then show ?thesis using assms by (simp add: append_int_def Let_def nat_digits_large nat_digits_small)
qed

lemma get_num_two:
  "0 \<le> n \<Longrightarrow> n < 100 \<Longrightarrow> get_num fixed (append_int 2 n @ s) = Some (n, s)"
  by (auto simp: append_int_two zdiv_int zmod_int split: option.splits)

lemma get_within_two:
  "0 \<le> n \<Longrightarrow> n < 100 \<Longrightarrow> lo \<le> n \<Longrightarrow> n \<le> hi \<Longrightarrow> get_within fixed lo hi (append_int 2 n @ s) = Some (n, s)"
  by (simp add: get_within_def get_num_two)

lemma get_year_four:
  assumes "0 \<le> y" and "y < 10000"
  shows "get_year (append_int 4 y @ s) = Some (y, s)"
proof -
  have "length (nat_digits (nat y)) \<le> 4" using assms by (intro length_nat_digits) auto
  then have "length (append_int 4 y) = 4" using assms by (simp add: append_int_def Let_def)
  moreover have "parse_digits (append_int 4 y) 0 = Some (nat y)"
    using assms by (simp add: append_int_def Let_def parse_zeros parse_nat_digits)
  ultimately show ?thesis using assms by (simp add: get_year_def)
qed

lemma digit_of_append_int: "0 \<le> n \<Longrightarrow> n < 100 \<Longrightarrow> length (append_int 2 n) = 2"
  by (simp add: append_int_two)

text \<open>An offset that text can carry: whole minutes, less than a day.\<close>

definition plain_offset :: "int \<Rightarrow> bool" where
  "plain_offset offset \<longleftrightarrow> offset mod 60 = 0 \<and> \<bar>offset\<bar> < 86400"

lemma get_offset_formatted:
  assumes "plain_offset offset"
  shows "get_offset (format_offset offset) = Some (offset, [])"
proof (cases "offset = 0")
  case False
  define minutes where "minutes = \<bar>offset\<bar> div 60"
  from assms have "60 dvd \<bar>offset\<bar>" "\<bar>offset\<bar> < 86400" by (auto simp: plain_offset_def)
  then have o: "\<bar>offset\<bar> = 60 * minutes" "minutes < 1440" "0 \<le> minutes" by (auto simp: minutes_def)
  have h: "0 \<le> minutes div 60" "minutes div 60 < 24" "0 \<le> minutes mod 60" "minutes mod 60 < 60"
    using o by auto
  have shape: "format_offset offset = (if offset < 0 then CHR ''-'' else CHR ''+'') #
      append_int 2 (minutes div 60) @ '':'' @ append_int 2 (minutes mod 60)"
    using False by (simp add: format_offset_def Let_def minutes_def)
  have "get_within True 0 24 (append_int 2 (minutes div 60)) = Some (minutes div 60, [])"
    "get_within True 0 60 (append_int 2 (minutes mod 60)) = Some (minutes mod 60, [])"
    using h get_within_two [of "minutes div 60" 0 24 True "[]"] get_within_two [of "minutes mod 60" 0 60 True "[]"]
    by auto
  moreover have "(minutes div 60 * 60 + minutes mod 60) * 60 = \<bar>offset\<bar>" using o by simp
  ultimately show ?thesis
    using h unfolding shape get_offset_def by (auto simp: append_int_two)
qed (simp add: format_offset_def get_offset_def)

lemma get_fraction_absent: "get_fraction (format_offset offset) = (0, format_offset offset)"
  by (auto simp: get_fraction_def format_offset_def Let_def split: list.splits)

text \<open>The instants of the years 0 to 9999, which four digits can write.\<close>

definition writable :: "(instant \<Rightarrow> int) \<Rightarrow> instant \<Rightarrow> bool" where
  "writable zone t \<longleftrightarrow> plain_offset (zone t) \<and>
    (let year = fst (year_of_day ((t div second + zone t) div 86400)) in 0 \<le> year \<and> year < 10000)"

theorem rfc3339_roundtrip:
  assumes "writable zone t"
  shows "parse_rfc3339 (format_rfc3339 zone t) = Some (t div second * second)"
proof -
  define local where "local = t div second + zone t"
  obtain year yday where y: "year_of_day (local div 86400) = (year, yday)" by fastforce
  obtain month day where m: "month_of_day (month_lengths (is_leap year)) yday = (month, day)" by fastforce
  from assms have year: "0 \<le> year" "year < 10000" and off: "plain_offset (zone t)"
    using y by (auto simp: writable_def local_def Let_def)
  note ys = year_of_day_sound [OF y]
  have md: "days_before_month (month_lengths (is_leap year)) month + day = yday + 1" "1 \<le> month" "month \<le> 12"
    "1 \<le> day" "day \<le> length_of_month (month_lengths (is_leap year)) month"
    using month_of_day_sound [OF m] ys by (auto simp: sum_month_lengths length_month_lengths)
  have "length_of_month (month_lengths leap) month \<le> 31" for leap
    by (simp add: month_lengths_def)
  with md(5) have d31: "day \<le> 31" by (meson order_trans)
  define clock where "clock = local mod 86400"
  have c: "0 \<le> clock" "clock < 86400" by (simp_all add: clock_def)
  have h: "0 \<le> clock div 3600" "clock div 3600 \<le> 23" "0 \<le> clock mod 3600 div 60" "clock mod 3600 div 60 \<le> 59"
    "0 \<le> clock mod 60" "clock mod 60 \<le> 59"
    using c div_mult_mod_eq [of clock 3600] div_mult_mod_eq [of "clock mod 3600" 60]
      pos_mod_bound [of 3600 clock] pos_mod_sign [of 3600 clock] pos_mod_bound [of 60 "clock mod 3600"]
      pos_mod_sign [of 60 "clock mod 3600"] pos_mod_bound [of 60 clock] pos_mod_sign [of 60 clock]
    by linarith+
  have "clock mod 3600 mod 60 = clock mod 60" by (simp add: mod_mod_cancel)
  then have whole: "3600 * (clock div 3600) + 60 * (clock mod 3600 div 60) + clock mod 60 = clock"
    using div_mult_mod_eq [of clock 3600] div_mult_mod_eq [of "clock mod 3600" 60] by linarith
  have date: "get_date (append_int 4 year @ ''-'' @ append_int 2 month @ ''-'' @ append_int 2 day @ s)
      = Some (year, month, day, s)" for s
    using year md d31 by (simp add: get_date_def get_year_four get_within_two get_num_two)
  have time: "get_clock (append_int 2 (clock div 3600) @ '':'' @ append_int 2 (clock mod 3600 div 60) @ '':'' @
      append_int 2 (clock mod 60) @ s) = Some (clock, s)" for s
    using h whole by (simp add: get_clock_def get_within_two)
  have "day_of_date year month day = local div 86400"
    using ys(1) md(1) by (simp add: day_of_date_def)
  then have "86400 * day_of_date year month day + clock - zone t = t div second"
    using div_mult_mod_eq [of local 86400] by (simp add: clock_def local_def)
  with date time md off show ?thesis
    by (simp add: parse_rfc3339_def format_rfc3339_def Let_def local_def [symmetric] y m clock_def [symmetric]
        get_fraction_absent get_offset_formatted)
qed

lemma second_pos [simp]: "0 < second" by (simp add: second_def)

lemma start_of_second: "t div second * second \<le> t" "t - second < t div second * second"
  using div_mult_mod_eq [of t second] pos_mod_bound [OF second_pos, of t] pos_mod_sign [OF second_pos, of t]
  by linarith+

end
