(* ===== verification/Dummy_Plugin.thy ===== *)
theory Dummy_Plugin
  imports Stored_Resources Go_Time
begin

section \<open>The dummy provider\<close>

text \<open>
  Models \<^verbatim>\<open>csp/dummy/pkg/plugin\<close>: the plugin without a cloud. An operation stamps the time at
  which it will be over into an annotation of its resource, named after the operation, and writes
  the resource; until that time every call says that the operation is still in progress. An update
  records the labels in an annotation. Both write through the repository adapter of the kind.
\<close>

subsection \<open>What the plugin runs in\<close>

text \<open>
  \<open>de_client\<close> is what \<^verbatim>\<open>sharedDynamicClient\<close> returns, the first time as every later one. \<open>de_now\<close>
  is \<^verbatim>\<open>time.Now\<close>, \<open>de_zone\<close> the zone of the process, \<open>de_rand\<close> is \<^verbatim>\<open>rand.IntN\<close> and \<open>de_labels\<close>
  apimachinery's \<^verbatim>\<open>labels.Set.String\<close>.
\<close>

record 'w dummy_env =
  de_client :: "go_error + 'w dyn_client"
  de_now :: "'w \<Rightarrow> instant \<times> 'w"
  de_zone :: "instant \<Rightarrow> int"
  de_rand :: "nat \<Rightarrow> 'w \<Rightarrow> nat \<times> 'w"
  de_labels :: "strmap \<Rightarrow> string"
  de_sha3 :: "string \<Rightarrow> string"

subsection \<open>Simulated operations\<close>

text \<open>The expiration an annotation holds; with an error \<^verbatim>\<open>Parse\<close> returns the zero time.\<close>

definition expiration_of :: "string \<Rightarrow> instant" where
  "expiration_of s = (case parse_rfc3339 s of None \<Rightarrow> 0 | Some t \<Rightarrow> t)"

definition stamp_expiration ::
  "'w dummy_env \<Rightarrow> string \<Rightarrow> int \<Rightarrow> ('m global_tenant_metadata_scheme \<Rightarrow> 'w \<Rightarrow> go_error option \<times> 'w)
   \<Rightarrow> ('m global_tenant_metadata_scheme, 'w) delegated" where
  "stamp_expiration env op delay persist r w =
    (if map_get (md_annotations r) op \<noteq> None then (None, r, w)
     else (case de_now env w of (now, w1) \<Rightarrow>
       let stamped = r\<lparr>md_annotations := map_insert op (format_rfc3339 (de_zone env) (now + delay)) (md_annotations r)\<rparr> in
       case persist stamped w1 of (err, w2) \<Rightarrow> (err, stamped, w2)))"

definition simulate ::
  "'w dummy_env \<Rightarrow> string \<Rightarrow> int \<Rightarrow> ('m global_tenant_metadata_scheme \<Rightarrow> 'w \<Rightarrow> go_error option \<times> 'w)
   \<Rightarrow> ('m global_tenant_metadata_scheme, 'w) delegated" where
  "simulate env op delay persist r w =
    (case stamp_expiration env op delay persist r w of
       (Some err, r1, w1) \<Rightarrow> (Some err, r1, w1)
     | (None, r1, w1) \<Rightarrow>
       (case de_now env w1 of (now, w2) \<Rightarrow>
          (if now < expiration_of (map_index (md_annotations r1) op) then Some (Sentinel ErrStillProcessing) else None,
           r1, w2)))"

text \<open>The closures that write: the client or its error, then \<^verbatim>\<open>Update\<close> of a new adapter.\<close>

definition persist_through ::
  "'w dummy_env \<Rightarrow> ('w dyn_client \<Rightarrow> ('r, 'w) adapter) \<Rightarrow> 'r \<Rightarrow> 'w \<Rightarrow> go_error option \<times> 'w" where
  "persist_through env adapter_of r w =
    (case de_client env of
       Inl err \<Rightarrow> (Some err, w)
     | Inr client \<Rightarrow>
       (case adapter_update (adapter_of client) r w of
          (Inl err, w1) \<Rightarrow> (Some err, w1)
        | (Inr updated, w1) \<Rightarrow> (None, w1)))"

definition dummy_block_storage_adapter ::
  "'w dummy_env \<Rightarrow> (block_storage_spec, block_storage_status) cr_codec \<Rightarrow> 'w dyn_client \<Rightarrow> (block_storage, 'w) adapter" where
  "dummy_block_storage_adapter env codec client =
     block_storage_adapter client (de_sha3 env) (cc_encode codec) (cc_decode codec) (cc_now codec)"

definition simulate_bs ::
  "'w dummy_env \<Rightarrow> (block_storage_spec, block_storage_status) cr_codec \<Rightarrow> string \<Rightarrow> int \<Rightarrow> (block_storage, 'w) delegated" where
  "simulate_bs env codec op delay = simulate env op delay (persist_through env (dummy_block_storage_adapter env codec))"

definition dummy_image_adapter ::
  "'w dummy_env \<Rightarrow> (image_spec, image_status) cr_codec \<Rightarrow> 'w dyn_client \<Rightarrow> (image, 'w) adapter" where
  "dummy_image_adapter env codec client =
     image_adapter client (de_sha3 env) (cc_encode codec) (cc_decode codec) (cc_now codec)"

definition simulate_image ::
  "'w dummy_env \<Rightarrow> (image_spec, image_status) cr_codec \<Rightarrow> string \<Rightarrow> int \<Rightarrow> (image, 'w) delegated" where
  "simulate_image env codec op delay = simulate env op delay (persist_through env (dummy_image_adapter env codec))"

definition dummy_workspace_adapter ::
  "'w dummy_env \<Rightarrow> json_codec \<Rightarrow> (strmap, workspace_status) cr_codec \<Rightarrow> 'w dyn_client \<Rightarrow> (workspace, 'w) adapter" where
  "dummy_workspace_adapter env json codec client =
     workspace_adapter client json (de_sha3 env) (cc_encode codec) (cc_decode codec) (cc_now codec)"

definition simulate_ws ::
  "'w dummy_env \<Rightarrow> json_codec \<Rightarrow> (strmap, workspace_status) cr_codec \<Rightarrow> string \<Rightarrow> int \<Rightarrow> (workspace, 'w) delegated" where
  "simulate_ws env json codec op delay = simulate env op delay (persist_through env (dummy_workspace_adapter env json codec))"

definition dummy_instance_adapter ::
  "'w dummy_env \<Rightarrow> (instance_spec, instance_status) cr_codec \<Rightarrow> 'w dyn_client \<Rightarrow> (instance_res, 'w) adapter" where
  "dummy_instance_adapter env codec client =
     instance_adapter client (de_sha3 env) (cc_encode codec) (cc_decode codec) (cc_now codec)"

definition simulate_instance ::
  "'w dummy_env \<Rightarrow> (instance_spec, instance_status) cr_codec \<Rightarrow> string \<Rightarrow> int \<Rightarrow> (instance_res, 'w) delegated" where
  "simulate_instance env codec op delay = simulate env op delay (persist_through env (dummy_instance_adapter env codec))"

definition dummy_nic_adapter ::
  "'w dummy_env \<Rightarrow> (nic_cr_spec, nic_status) cr_codec \<Rightarrow> 'w dyn_client \<Rightarrow> (nic, 'w) adapter" where
  "dummy_nic_adapter env codec client =
     nic_adapter client (de_sha3 env) (cc_encode codec) (cc_decode codec) (cc_now codec)"

definition simulate_nic ::
  "'w dummy_env \<Rightarrow> (nic_cr_spec, nic_status) cr_codec \<Rightarrow> string \<Rightarrow> int \<Rightarrow> (nic, 'w) delegated" where
  "simulate_nic env codec op delay = simulate env op delay (persist_through env (dummy_nic_adapter env codec))"

definition dummy_public_ip_adapter ::
  "'w dummy_env \<Rightarrow> (public_ip_cr_spec, public_ip_status) cr_codec \<Rightarrow> 'w dyn_client \<Rightarrow> (public_ip, 'w) adapter" where
  "dummy_public_ip_adapter env codec client =
     public_ip_adapter client (de_sha3 env) (cc_encode codec) (cc_decode codec) (cc_now codec)"

definition simulate_public_ip ::
  "'w dummy_env \<Rightarrow> (public_ip_cr_spec, public_ip_status) cr_codec \<Rightarrow> string \<Rightarrow> int \<Rightarrow> (public_ip, 'w) delegated" where
  "simulate_public_ip env codec op delay = simulate env op delay (persist_through env (dummy_public_ip_adapter env codec))"

definition dummy_internet_gateway_adapter ::
  "'w dummy_env \<Rightarrow> (internet_gateway_cr_spec, status) cr_codec \<Rightarrow> 'w dyn_client \<Rightarrow> (internet_gateway, 'w) adapter" where
  "dummy_internet_gateway_adapter env codec client =
     internet_gateway_adapter client (de_sha3 env) (cc_encode codec) (cc_decode codec) (cc_now codec)"

definition simulate_internet_gateway ::
  "'w dummy_env \<Rightarrow> (internet_gateway_cr_spec, status) cr_codec \<Rightarrow> string \<Rightarrow> int \<Rightarrow> (internet_gateway, 'w) delegated" where
  "simulate_internet_gateway env codec op delay = simulate env op delay (persist_through env (dummy_internet_gateway_adapter env codec))"

definition dummy_network_adapter ::
  "'w dummy_env \<Rightarrow> (network_spec, network_cr_status) cr_codec \<Rightarrow> 'w dyn_client \<Rightarrow> (network, 'w) adapter" where
  "dummy_network_adapter env codec client =
     network_adapter client (de_sha3 env) (cc_encode codec) (cc_decode codec) (cc_now codec)"

definition simulate_net ::
  "'w dummy_env \<Rightarrow> (network_spec, network_cr_status) cr_codec \<Rightarrow> string \<Rightarrow> int \<Rightarrow> (network, 'w) delegated" where
  "simulate_net env codec op delay = simulate env op delay (persist_through env (dummy_network_adapter env codec))"

definition dummy_route_table_adapter ::
  "'w dummy_env \<Rightarrow> (route_table_cr_spec, route_table_status) cr_codec \<Rightarrow> 'w dyn_client \<Rightarrow> (route_table, 'w) adapter" where
  "dummy_route_table_adapter env codec client =
     route_table_adapter client (de_sha3 env) (cc_encode codec) (cc_decode codec) (cc_now codec)"

definition simulate_route_table ::
  "'w dummy_env \<Rightarrow> (route_table_cr_spec, route_table_status) cr_codec \<Rightarrow> string \<Rightarrow> int \<Rightarrow> (route_table, 'w) delegated" where
  "simulate_route_table env codec op delay = simulate env op delay (persist_through env (dummy_route_table_adapter env codec))"

definition dummy_subnet_adapter ::
  "'w dummy_env \<Rightarrow> (subnet_cr_spec, subnet_status) cr_codec \<Rightarrow> 'w dyn_client \<Rightarrow> (subnet, 'w) adapter" where
  "dummy_subnet_adapter env codec client =
     subnet_adapter client (de_sha3 env) (cc_encode codec) (cc_decode codec) (cc_now codec)"

definition simulate_subnet ::
  "'w dummy_env \<Rightarrow> (subnet_cr_spec, subnet_status) cr_codec \<Rightarrow> string \<Rightarrow> int \<Rightarrow> (subnet, 'w) delegated" where
  "simulate_subnet env codec op delay = simulate env op delay (persist_through env (dummy_subnet_adapter env codec))"

definition dummy_security_group_adapter ::
  "'w dummy_env \<Rightarrow> (security_group_cr_spec, security_group_status) cr_codec \<Rightarrow> 'w dyn_client \<Rightarrow> (security_group, 'w) adapter" where
  "dummy_security_group_adapter env codec client =
     security_group_adapter client (de_sha3 env) (cc_encode codec) (cc_decode codec) (cc_now codec)"

definition simulate_security_group ::
  "'w dummy_env \<Rightarrow> (security_group_cr_spec, security_group_status) cr_codec \<Rightarrow> string \<Rightarrow> int \<Rightarrow> (security_group, 'w) delegated" where
  "simulate_security_group env codec op delay = simulate env op delay (persist_through env (dummy_security_group_adapter env codec))"

definition dummy_security_group_rule_adapter ::
  "'w dummy_env \<Rightarrow> (security_group_rule_cr_spec, status) cr_codec \<Rightarrow> 'w dyn_client \<Rightarrow> (security_group_rule, 'w) adapter" where
  "dummy_security_group_rule_adapter env codec client =
     security_group_rule_adapter client (de_sha3 env) (cc_encode codec) (cc_decode codec) (cc_now codec)"

definition simulate_security_group_rule ::
  "'w dummy_env \<Rightarrow> (security_group_rule_cr_spec, status) cr_codec \<Rightarrow> string \<Rightarrow> int \<Rightarrow> (security_group_rule, 'w) delegated" where
  "simulate_security_group_rule env codec op delay = simulate env op delay (persist_through env (dummy_security_group_rule_adapter env codec))"

subsection \<open>Delays\<close>

text \<open>A base and a variation, in seconds; the kinds of the network and the instances share theirs.\<close>

definition block_storage_delay :: "'w dummy_env \<Rightarrow> 'w \<Rightarrow> int \<times> 'w" where
  "block_storage_delay env w = (case de_rand env 4 w of (variation, w1) \<Rightarrow> ((3 + int variation) * second, w1))"

definition image_delay :: "'w dummy_env \<Rightarrow> 'w \<Rightarrow> int \<times> 'w" where
  "image_delay env w = (case de_rand env 4 w of (variation, w1) \<Rightarrow> ((3 + int variation) * second, w1))"

definition workspace_delay :: "'w dummy_env \<Rightarrow> 'w \<Rightarrow> int \<times> 'w" where
  "workspace_delay env w = (case de_rand env 3 w of (variation, w1) \<Rightarrow> ((2 + int variation) * second, w1))"

definition network_delay :: "'w dummy_env \<Rightarrow> 'w \<Rightarrow> int \<times> 'w" where
  "network_delay env w = (case de_rand env 4 w of (variation, w1) \<Rightarrow> ((3 + int variation) * second, w1))"

definition instance_delay :: "'w dummy_env \<Rightarrow> 'w \<Rightarrow> int \<times> 'w" where
  "instance_delay = network_delay"

definition nic_delay :: "'w dummy_env \<Rightarrow> 'w \<Rightarrow> int \<times> 'w" where
  "nic_delay = network_delay"

definition public_ip_delay :: "'w dummy_env \<Rightarrow> 'w \<Rightarrow> int \<times> 'w" where
  "public_ip_delay = network_delay"

definition internet_gateway_delay :: "'w dummy_env \<Rightarrow> 'w \<Rightarrow> int \<times> 'w" where
  "internet_gateway_delay = network_delay"

definition route_table_delay :: "'w dummy_env \<Rightarrow> 'w \<Rightarrow> int \<times> 'w" where
  "route_table_delay = network_delay"

definition subnet_delay :: "'w dummy_env \<Rightarrow> 'w \<Rightarrow> int \<times> 'w" where
  "subnet_delay = network_delay"

definition security_group_delay :: "'w dummy_env \<Rightarrow> 'w \<Rightarrow> int \<times> 'w" where
  "security_group_delay = network_delay"

definition security_group_rule_delay :: "'w dummy_env \<Rightarrow> 'w \<Rightarrow> int \<times> 'w" where
  "security_group_rule_delay = network_delay"

lemmas same_delays = instance_delay_def nic_delay_def public_ip_delay_def internet_gateway_delay_def
  route_table_delay_def subnet_delay_def security_group_delay_def security_group_rule_delay_def

subsection \<open>The operations of the kinds\<close>

definition dummy_block_storage_create ::
  "'w dummy_env \<Rightarrow> (block_storage_spec, block_storage_status) cr_codec \<Rightarrow> (block_storage, 'w) delegated" where
  "dummy_block_storage_create env codec r w =
    (case block_storage_delay env w of (delay, w1) \<Rightarrow> simulate_bs env codec ''create'' delay r w1)"

definition dummy_block_storage_delete ::
  "'w dummy_env \<Rightarrow> (block_storage_spec, block_storage_status) cr_codec \<Rightarrow> (block_storage, 'w) delegated" where
  "dummy_block_storage_delete env codec r w =
    (case block_storage_delay env w of (delay, w1) \<Rightarrow> simulate_bs env codec ''delete'' delay r w1)"

definition dummy_block_storage_increase_size ::
  "'w dummy_env \<Rightarrow> (block_storage_spec, block_storage_status) cr_codec \<Rightarrow> (block_storage, 'w) delegated" where
  "dummy_block_storage_increase_size env codec r w =
    (case block_storage_delay env w of (delay, w1) \<Rightarrow> simulate_bs env codec ''increase-size'' (2 * delay) r w1)"

definition dummy_image_create ::
  "'w dummy_env \<Rightarrow> (image_spec, image_status) cr_codec \<Rightarrow> (image, 'w) delegated" where
  "dummy_image_create env codec r w =
    (case image_delay env w of (delay, w1) \<Rightarrow> simulate_image env codec ''create'' delay r w1)"

definition dummy_image_delete ::
  "'w dummy_env \<Rightarrow> (image_spec, image_status) cr_codec \<Rightarrow> (image, 'w) delegated" where
  "dummy_image_delete env codec r w =
    (case image_delay env w of (delay, w1) \<Rightarrow> simulate_image env codec ''delete'' delay r w1)"

definition dummy_workspace_create ::
  "'w dummy_env \<Rightarrow> json_codec \<Rightarrow> (strmap, workspace_status) cr_codec \<Rightarrow> (workspace, 'w) delegated" where
  "dummy_workspace_create env json codec r w =
    (case workspace_delay env w of (delay, w1) \<Rightarrow> simulate_ws env json codec ''create'' delay r w1)"

definition dummy_workspace_delete ::
  "'w dummy_env \<Rightarrow> json_codec \<Rightarrow> (strmap, workspace_status) cr_codec \<Rightarrow> (workspace, 'w) delegated" where
  "dummy_workspace_delete env json codec r w =
    (case workspace_delay env w of (delay, w1) \<Rightarrow> simulate_ws env json codec ''delete'' delay r w1)"

definition dummy_instance_create ::
  "'w dummy_env \<Rightarrow> (instance_spec, instance_status) cr_codec \<Rightarrow> (instance_res, 'w) delegated" where
  "dummy_instance_create env codec r w =
    (case instance_delay env w of (delay, w1) \<Rightarrow> simulate_instance env codec ''create'' delay r w1)"

definition dummy_instance_delete ::
  "'w dummy_env \<Rightarrow> (instance_spec, instance_status) cr_codec \<Rightarrow> (instance_res, 'w) delegated" where
  "dummy_instance_delete env codec r w =
    (case instance_delay env w of (delay, w1) \<Rightarrow> simulate_instance env codec ''delete'' delay r w1)"

definition dummy_instance_power_on ::
  "'w dummy_env \<Rightarrow> (instance_spec, instance_status) cr_codec \<Rightarrow> (instance_res, 'w) delegated" where
  "dummy_instance_power_on env codec r w =
    (case instance_delay env w of (delay, w1) \<Rightarrow> simulate_instance env codec ''power-on'' delay r w1)"

definition dummy_instance_power_off ::
  "'w dummy_env \<Rightarrow> (instance_spec, instance_status) cr_codec \<Rightarrow> (instance_res, 'w) delegated" where
  "dummy_instance_power_off env codec r w =
    (case instance_delay env w of (delay, w1) \<Rightarrow> simulate_instance env codec ''power-off'' delay r w1)"

definition dummy_nic_create ::
  "'w dummy_env \<Rightarrow> (nic_cr_spec, nic_status) cr_codec \<Rightarrow> (nic, 'w) delegated" where
  "dummy_nic_create env codec r w =
    (case nic_delay env w of (delay, w1) \<Rightarrow> simulate_nic env codec ''create'' delay r w1)"

definition dummy_nic_delete ::
  "'w dummy_env \<Rightarrow> (nic_cr_spec, nic_status) cr_codec \<Rightarrow> (nic, 'w) delegated" where
  "dummy_nic_delete env codec r w =
    (case nic_delay env w of (delay, w1) \<Rightarrow> simulate_nic env codec ''delete'' delay r w1)"

definition dummy_public_ip_create ::
  "'w dummy_env \<Rightarrow> (public_ip_cr_spec, public_ip_status) cr_codec \<Rightarrow> (public_ip, 'w) delegated" where
  "dummy_public_ip_create env codec r w =
    (case public_ip_delay env w of (delay, w1) \<Rightarrow> simulate_public_ip env codec ''create'' delay r w1)"

definition dummy_public_ip_delete ::
  "'w dummy_env \<Rightarrow> (public_ip_cr_spec, public_ip_status) cr_codec \<Rightarrow> (public_ip, 'w) delegated" where
  "dummy_public_ip_delete env codec r w =
    (case public_ip_delay env w of (delay, w1) \<Rightarrow> simulate_public_ip env codec ''delete'' delay r w1)"

definition dummy_internet_gateway_create ::
  "'w dummy_env \<Rightarrow> (internet_gateway_cr_spec, status) cr_codec \<Rightarrow> (internet_gateway, 'w) delegated" where
  "dummy_internet_gateway_create env codec r w =
    (case internet_gateway_delay env w of (delay, w1) \<Rightarrow> simulate_internet_gateway env codec ''create'' delay r w1)"

definition dummy_internet_gateway_delete ::
  "'w dummy_env \<Rightarrow> (internet_gateway_cr_spec, status) cr_codec \<Rightarrow> (internet_gateway, 'w) delegated" where
  "dummy_internet_gateway_delete env codec r w =
    (case internet_gateway_delay env w of (delay, w1) \<Rightarrow> simulate_internet_gateway env codec ''delete'' delay r w1)"

definition dummy_network_create ::
  "'w dummy_env \<Rightarrow> (network_spec, network_cr_status) cr_codec \<Rightarrow> (network, 'w) delegated" where
  "dummy_network_create env codec r w =
    (case network_delay env w of (delay, w1) \<Rightarrow> simulate_net env codec ''create'' delay r w1)"

definition dummy_network_delete ::
  "'w dummy_env \<Rightarrow> (network_spec, network_cr_status) cr_codec \<Rightarrow> (network, 'w) delegated" where
  "dummy_network_delete env codec r w =
    (case network_delay env w of (delay, w1) \<Rightarrow> simulate_net env codec ''delete'' delay r w1)"

definition dummy_route_table_create ::
  "'w dummy_env \<Rightarrow> (route_table_cr_spec, route_table_status) cr_codec \<Rightarrow> (route_table, 'w) delegated" where
  "dummy_route_table_create env codec r w =
    (case route_table_delay env w of (delay, w1) \<Rightarrow> simulate_route_table env codec ''create'' delay r w1)"

definition dummy_route_table_delete ::
  "'w dummy_env \<Rightarrow> (route_table_cr_spec, route_table_status) cr_codec \<Rightarrow> (route_table, 'w) delegated" where
  "dummy_route_table_delete env codec r w =
    (case route_table_delay env w of (delay, w1) \<Rightarrow> simulate_route_table env codec ''delete'' delay r w1)"

definition dummy_subnet_create ::
  "'w dummy_env \<Rightarrow> (subnet_cr_spec, subnet_status) cr_codec \<Rightarrow> (subnet, 'w) delegated" where
  "dummy_subnet_create env codec r w =
    (case subnet_delay env w of (delay, w1) \<Rightarrow> simulate_subnet env codec ''create'' delay r w1)"

definition dummy_subnet_delete ::
  "'w dummy_env \<Rightarrow> (subnet_cr_spec, subnet_status) cr_codec \<Rightarrow> (subnet, 'w) delegated" where
  "dummy_subnet_delete env codec r w =
    (case subnet_delay env w of (delay, w1) \<Rightarrow> simulate_subnet env codec ''delete'' delay r w1)"

definition dummy_security_group_create ::
  "'w dummy_env \<Rightarrow> (security_group_cr_spec, security_group_status) cr_codec \<Rightarrow> (security_group, 'w) delegated" where
  "dummy_security_group_create env codec r w =
    (case security_group_delay env w of (delay, w1) \<Rightarrow> simulate_security_group env codec ''create'' delay r w1)"

definition dummy_security_group_delete ::
  "'w dummy_env \<Rightarrow> (security_group_cr_spec, security_group_status) cr_codec \<Rightarrow> (security_group, 'w) delegated" where
  "dummy_security_group_delete env codec r w =
    (case security_group_delay env w of (delay, w1) \<Rightarrow> simulate_security_group env codec ''delete'' delay r w1)"

definition dummy_security_group_rule_create ::
  "'w dummy_env \<Rightarrow> (security_group_rule_cr_spec, status) cr_codec \<Rightarrow> (security_group_rule, 'w) delegated" where
  "dummy_security_group_rule_create env codec r w =
    (case security_group_rule_delay env w of (delay, w1) \<Rightarrow> simulate_security_group_rule env codec ''create'' delay r w1)"

definition dummy_security_group_rule_delete ::
  "'w dummy_env \<Rightarrow> (security_group_rule_cr_spec, status) cr_codec \<Rightarrow> (security_group_rule, 'w) delegated" where
  "dummy_security_group_rule_delete env codec r w =
    (case security_group_rule_delay env w of (delay, w1) \<Rightarrow> simulate_security_group_rule env codec ''delete'' delay r w1)"

subsection \<open>Updates\<close>

definition applied_labels_annotation :: string where
  "applied_labels_annotation = ''dummy.csp/applied-labels''"

definition record_applied_labels ::
  "'w dummy_env \<Rightarrow> ('m global_tenant_metadata_scheme \<Rightarrow> 'w \<Rightarrow> go_error option \<times> 'w)
   \<Rightarrow> ('m global_tenant_metadata_scheme, 'w) delegated" where
  "record_applied_labels env persist r w =
    (let applied = de_labels env (md_labels r) in
     if map_index (md_annotations r) applied_labels_annotation = applied then (None, r, w)
     else let recorded = r\<lparr>md_annotations := map_insert applied_labels_annotation applied (md_annotations r)\<rparr> in
       case persist recorded w of (err, w1) \<Rightarrow> (err, recorded, w1))"

definition apply_update ::
  "'w dummy_env \<Rightarrow> ('w dyn_client \<Rightarrow> ('m global_tenant_metadata_scheme, 'w) adapter)
   \<Rightarrow> ('m global_tenant_metadata_scheme, 'w) delegated" where
  "apply_update env adapter_of = record_applied_labels env (persist_through env adapter_of)"

definition dummy_block_storage_update ::
  "'w dummy_env \<Rightarrow> (block_storage_spec, block_storage_status) cr_codec \<Rightarrow> (block_storage, 'w) delegated" where
  "dummy_block_storage_update env codec = apply_update env (dummy_block_storage_adapter env codec)"

definition dummy_image_update ::
  "'w dummy_env \<Rightarrow> (image_spec, image_status) cr_codec \<Rightarrow> (image, 'w) delegated" where
  "dummy_image_update env codec = apply_update env (dummy_image_adapter env codec)"

definition dummy_workspace_update ::
  "'w dummy_env \<Rightarrow> json_codec \<Rightarrow> (strmap, workspace_status) cr_codec \<Rightarrow> (workspace, 'w) delegated" where
  "dummy_workspace_update env json codec = apply_update env (dummy_workspace_adapter env json codec)"

definition dummy_instance_update ::
  "'w dummy_env \<Rightarrow> (instance_spec, instance_status) cr_codec \<Rightarrow> (instance_res, 'w) delegated" where
  "dummy_instance_update env codec = apply_update env (dummy_instance_adapter env codec)"

definition dummy_nic_update ::
  "'w dummy_env \<Rightarrow> (nic_cr_spec, nic_status) cr_codec \<Rightarrow> (nic, 'w) delegated" where
  "dummy_nic_update env codec = apply_update env (dummy_nic_adapter env codec)"

definition dummy_public_ip_update ::
  "'w dummy_env \<Rightarrow> (public_ip_cr_spec, public_ip_status) cr_codec \<Rightarrow> (public_ip, 'w) delegated" where
  "dummy_public_ip_update env codec = apply_update env (dummy_public_ip_adapter env codec)"

definition dummy_internet_gateway_update ::
  "'w dummy_env \<Rightarrow> (internet_gateway_cr_spec, status) cr_codec \<Rightarrow> (internet_gateway, 'w) delegated" where
  "dummy_internet_gateway_update env codec = apply_update env (dummy_internet_gateway_adapter env codec)"

definition dummy_network_update ::
  "'w dummy_env \<Rightarrow> (network_spec, network_cr_status) cr_codec \<Rightarrow> (network, 'w) delegated" where
  "dummy_network_update env codec = apply_update env (dummy_network_adapter env codec)"

definition dummy_route_table_update ::
  "'w dummy_env \<Rightarrow> (route_table_cr_spec, route_table_status) cr_codec \<Rightarrow> (route_table, 'w) delegated" where
  "dummy_route_table_update env codec = apply_update env (dummy_route_table_adapter env codec)"

definition dummy_subnet_update ::
  "'w dummy_env \<Rightarrow> (subnet_cr_spec, subnet_status) cr_codec \<Rightarrow> (subnet, 'w) delegated" where
  "dummy_subnet_update env codec = apply_update env (dummy_subnet_adapter env codec)"

definition dummy_security_group_update ::
  "'w dummy_env \<Rightarrow> (security_group_cr_spec, security_group_status) cr_codec \<Rightarrow> (security_group, 'w) delegated" where
  "dummy_security_group_update env codec = apply_update env (dummy_security_group_adapter env codec)"

definition dummy_security_group_rule_update ::
  "'w dummy_env \<Rightarrow> (security_group_rule_cr_spec, status) cr_codec \<Rightarrow> (security_group_rule, 'w) delegated" where
  "dummy_security_group_rule_update env codec = apply_update env (dummy_security_group_rule_adapter env codec)"

subsection \<open>The contract of a simulated operation\<close>

text \<open>
  What a clock, a source of random numbers and a client are documented to do: time does not run
  backwards, numbers stay below their bound, and reading either of them changes nothing stored. The
  instants the process meets can be written with four digits of the year.
\<close>

definition ticking :: "'w dummy_env \<Rightarrow> ('w \<Rightarrow> instant) \<Rightarrow> ('w \<Rightarrow> 's) \<Rightarrow> bool" where
  "ticking env clock store \<longleftrightarrow>
    (\<forall>w t w1. de_now env w = (t, w1) \<longrightarrow> clock w \<le> t \<and> clock w1 = t \<and> store w1 = store w) \<and>
    (\<forall>n w v w1. de_rand env n w = (v, w1) \<longrightarrow> (0 < n \<longrightarrow> v < n) \<and> clock w \<le> clock w1 \<and> store w1 = store w) \<and>
    (\<forall>w d. 0 \<le> d \<and> d \<le> 20 * second \<longrightarrow> writable (de_zone env) (clock w + d)) \<and>
    (\<forall>client. de_client env = Inr client \<longrightarrow>
       (\<forall>kind namespace name w. clock w \<le> clock (snd (dc_get client kind namespace name w))) \<and>
       (\<forall>kind namespace u w. clock w \<le> clock (snd (dc_update client kind namespace u w))) \<and>
       (\<forall>f w. (\<forall>v. clock v \<le> clock (snd (f v))) \<longrightarrow> clock w \<le> clock (snd (dc_retry client f w))))"

lemma tickingD:
  assumes "ticking env clock store"
  shows "de_now env w = (t, w1) \<Longrightarrow> clock w \<le> t \<and> clock w1 = t \<and> store w1 = store w"
    and "de_rand env n w = (v, w1) \<Longrightarrow> 0 < n \<Longrightarrow> v < n \<and> clock w \<le> clock w1 \<and> store w1 = store w"
    and "0 \<le> d \<Longrightarrow> d \<le> 20 * second \<Longrightarrow> writable (de_zone env) (clock w + d)"
    and "de_client env = Inr client \<Longrightarrow> clock w \<le> clock (snd (dc_get client kind namespace name w))"
    and "de_client env = Inr client \<Longrightarrow> clock w \<le> clock (snd (dc_update client kind namespace u w))"
    and "de_client env = Inr client \<Longrightarrow> (\<And>v. clock v \<le> clock (snd (f v))) \<Longrightarrow>
      clock w \<le> clock (snd (dc_retry client f w))"
  using assms unfolding ticking_def by blast+

text \<open>Writing through an adapter does not turn the clock back.\<close>

lemma sync_attempt_ticks:
  assumes "ticking env clock store" and "de_client env = Inr client"
  shows "clock w \<le> clock (snd (sync_attempt client kind namespace name desired dspec dcommon w))"
proof -
  obtain x w1 where get: "dc_get client kind namespace name w = (x, w1)" by fastforce
  have le: "clock w \<le> clock w1" using tickingD(4) [OF assms, of w kind namespace name] get by simp
  have upd: "clock w \<le> clock (snd (case dc_update client kind namespace u w1 of
      (Inl err, w2) \<Rightarrow> (Some err, w2) | (Inr kept, w2) \<Rightarrow> (None :: go_error option, w2)))" for u
  proof -
    obtain y w2 where "dc_update client kind namespace u w1 = (y, w2)" by fastforce
    with tickingD(5) [OF assms, of w1 kind namespace u] le show ?thesis by (cases y) auto
  qed
  show ?thesis
    unfolding sync_attempt_def get Let_def using le upd by (auto split: sum.split)
qed

lemma adapter_update_ticks:
  assumes "ticking env clock store" and "de_client env = Inr (ad_client a)"
  shows "clock w \<le> clock (snd (adapter_update a m w))"
proof (cases "ad_to_k8s a m")
  case u: (Inr u)
  show ?thesis
  proof (cases "resolve_namespace (ad_sha3 a) (ad_scope a m)")
    case ns: (Inr ns)
    note shape = adapter_update_def u ns Let_def
    show ?thesis
    proof (cases "ad_version a m = []")
      case True
      obtain e v where retry: "update_metadata_and_spec_retry (ad_client a) (ad_gvr a) ns (ad_name a m) u w = (e, v)"
        by fastforce
      have "clock w \<le> clock (snd (update_metadata_and_spec_retry (ad_client a) (ad_gvr a) ns (ad_name a m) u w))"
        unfolding update_metadata_and_spec_retry_def
        by (simp split: sum.split add: tickingD(6) [OF assms] sync_attempt_ticks [OF assms])
      with retry have v: "clock w \<le> clock v" by simp
      obtain y v2 where get: "dc_get (ad_client a) (ad_gvr a) ns (ad_name a m) v = (y, v2)" by fastforce
      with v tickingD(4) [OF assms, of v "ad_gvr a" ns "ad_name a m"] have "clock w \<le> clock v2" by simp
      with v show ?thesis by (cases e; cases y) (auto simp: shape True retry get split: sum.split)
    next
      case False
      obtain x v where upd: "dc_update (ad_client a) (ad_gvr a) ns u w = (x, v)" by fastforce
      with tickingD(5) [OF assms, of w "ad_gvr a" ns u] have v: "clock w \<le> clock v" by simp
      obtain y v2 where get: "dc_get (ad_client a) (ad_gvr a) ns (ad_name a m) v = (y, v2)" by fastforce
      with v tickingD(4) [OF assms, of v "ad_gvr a" ns "ad_name a m"] have "clock w \<le> clock v2" by simp
      with v show ?thesis by (cases x; cases y) (auto simp: shape False upd get split: sum.split)
    qed
  qed (simp add: adapter_update_def u)
qed (simp add: adapter_update_def)

lemma persist_ticks:
  assumes "ticking env clock store" and "\<And>client. ad_client (adapter_of client) = client"
    and "persist_through env adapter_of r w = (err, w1)"
  shows "clock w \<le> clock w1"
proof (cases "de_client env")
  case (Inr client)
  with adapter_update_ticks [OF assms(1), of "adapter_of client" w r] assms(2,3) show ?thesis
    by (auto simp: persist_through_def split: prod.splits sum.splits)
qed (use assms(3) in \<open>auto simp: persist_through_def\<close>)

text \<open>
  An operation of at least \<open>lo\<close> and at most \<open>hi\<close> seconds. Without a stamp it makes one: an instant
  at least \<open>lo\<close> seconds ahead, but for the fraction of a second the text drops, and at most \<open>hi\<close>;
  it is over in this call only if the clock has passed that instant already. With a stamp it writes
  nothing, leaves the resource as it is, and the clock alone decides.
\<close>

definition takes_time ::
  "'w dummy_env \<Rightarrow> ('w \<Rightarrow> instant) \<Rightarrow> ('w \<Rightarrow> 's) \<Rightarrow> string \<Rightarrow> int \<Rightarrow> int
   \<Rightarrow> ('m global_tenant_metadata_scheme, 'w) delegated \<Rightarrow> bool" where
  "takes_time env clock store op lo hi f \<longleftrightarrow>
    (\<forall>r w err r1 w1. map_get (md_annotations r) op = None \<and> f r w = (err, r1, w1) \<longrightarrow>
       (\<exists>stamp expiration. r1 = r\<lparr>md_annotations := map_insert op stamp (md_annotations r)\<rparr> \<and>
          parse_rfc3339 stamp = Some expiration \<and>
          clock w + (lo - 1) * second < expiration \<and> expiration \<le> clock w1 + hi * second \<and>
          (err = None \<longrightarrow> expiration \<le> clock w1))) \<and>
    (\<forall>r w stamp expiration err r1 w1. map_get (md_annotations r) op = Some stamp \<and>
       parse_rfc3339 stamp = Some expiration \<and> f r w = (err, r1, w1) \<longrightarrow>
       r1 = r \<and> store w1 = store w \<and> clock w \<le> clock w1 \<and>
       err = (if clock w1 < expiration then Some (Sentinel ErrStillProcessing) else None))"

lemma takes_timeD:
  assumes "takes_time env clock store op lo hi f" and "f r w = (err, r1, w1)"
  shows "map_get (md_annotations r) op = None \<Longrightarrow>
      \<exists>stamp expiration. r1 = r\<lparr>md_annotations := map_insert op stamp (md_annotations r)\<rparr> \<and>
        parse_rfc3339 stamp = Some expiration \<and>
        clock w + (lo - 1) * second < expiration \<and> expiration \<le> clock w1 + hi * second \<and>
        (err = None \<longrightarrow> expiration \<le> clock w1)"
    and "map_get (md_annotations r) op = Some stamp \<Longrightarrow> parse_rfc3339 stamp = Some expiration \<Longrightarrow>
      r1 = r \<and> store w1 = store w \<and> clock w \<le> clock w1 \<and>
      err = (if clock w1 < expiration then Some (Sentinel ErrStillProcessing) else None)"
  using assms unfolding takes_time_def by blast+

lemma simulate_first:
  assumes laws: "ticking env clock store"
    and persist: "\<And>r w err w1. persist r w = (err, w1) \<Longrightarrow> clock w \<le> clock w1"
    and delay: "lo * second \<le> delay" "delay \<le> hi * second" "0 \<le> lo" "hi \<le> 20"
    and fresh: "map_get (md_annotations r) op = None"
    and run: "simulate env op delay persist r w = (err, r1, w1)"
  shows "\<exists>stamp expiration. r1 = r\<lparr>md_annotations := map_insert op stamp (md_annotations r)\<rparr> \<and>
      parse_rfc3339 stamp = Some expiration \<and>
      clock w + (lo - 1) * second < expiration \<and> expiration \<le> clock w1 + hi * second \<and>
      (err = None \<longrightarrow> expiration \<le> clock w1)"
proof -
  obtain now v where now: "de_now env w = (now, v)" by fastforce
  note n = tickingD(1) [OF laws now]
  let ?stamp = "format_rfc3339 (de_zone env) (now + delay)"
  let ?r = "r\<lparr>md_annotations := map_insert op ?stamp (md_annotations r)\<rparr>"
  let ?expiration = "(now + delay) div second * second"
  have "0 \<le> lo * second" "hi * second \<le> 20 * second" using delay by (simp_all add: second_def)
  then have "0 \<le> delay" "delay \<le> 20 * second" using delay by linarith+
  with tickingD(3) [OF laws, of delay v] n have "parse_rfc3339 ?stamp = Some ?expiration"
    by (simp add: rfc3339_roundtrip)
  moreover obtain err' u where writing: "persist ?r v = (err', u)" by fastforce
  note p = persist [OF writing]
  have ahead: "clock w + (lo - 1) * second < ?expiration" "?expiration \<le> now + hi * second"
    using start_of_second [of "now + delay"] n delay by (simp_all add: left_diff_distrib)
  ultimately show ?thesis
  proof (cases err')
    case (Some e)
    with run fresh now writing have "r1 = ?r" "w1 = u" "err = Some e"
      by (auto simp: simulate_def stamp_expiration_def Let_def)
    with ahead p n \<open>parse_rfc3339 ?stamp = Some ?expiration\<close> show ?thesis
      by (intro exI [of _ ?stamp] exI [of _ ?expiration]) auto
  next
    case None
    obtain now' u' where now': "de_now env u = (now', u')" by fastforce
    note n' = tickingD(1) [OF laws now']
    from None run fresh now writing now' \<open>parse_rfc3339 ?stamp = Some ?expiration\<close>
    have "r1 = ?r" "w1 = u'" "err = (if now' < ?expiration then Some (Sentinel ErrStillProcessing) else None)"
      by (auto simp: simulate_def stamp_expiration_def Let_def expiration_of_def map_index_def)
    with ahead p n n' \<open>parse_rfc3339 ?stamp = Some ?expiration\<close> show ?thesis
      by (intro exI [of _ ?stamp] exI [of _ ?expiration]) (auto split: if_splits)
  qed
qed

lemma simulate_again:
  assumes "ticking env clock store" and "map_get (md_annotations r) op = Some stamp"
    and "parse_rfc3339 stamp = Some expiration" and "simulate env op delay persist r w = (err, r1, w1)"
  shows "r1 = r \<and> store w1 = store w \<and> clock w \<le> clock w1 \<and>
    err = (if clock w1 < expiration then Some (Sentinel ErrStillProcessing) else None)"
proof -
  obtain now v where now: "de_now env w = (now, v)" by fastforce
  from assms(2-4) now tickingD(1) [OF assms(1) now] show ?thesis
    by (auto simp: simulate_def stamp_expiration_def expiration_of_def map_index_def)
qed

locale simulated_operation =
  fixes env :: "'w dummy_env" and op :: string and bound base times :: nat
    and adapter_of :: "'w dyn_client \<Rightarrow> ('m global_tenant_metadata_scheme, 'w) adapter"
    and f :: "('m global_tenant_metadata_scheme, 'w) delegated"
  assumes run: "f r w = (case de_rand env bound w of (variation, w1) \<Rightarrow>
      simulate env op (int times * ((int base + int variation) * second)) (persist_through env adapter_of) r w1)"
    and client: "ad_client (adapter_of client) = client"
    and bounds: "0 < bound" "0 < times" "times * (base + bound) \<le> 20"
begin

lemma takes:
  assumes laws: "ticking env clock store"
  shows "takes_time env clock store op (int (times * base)) (int (times * (base + bound - 1))) f"
proof -
  have delay: "int (times * base) * second \<le> int times * ((int base + int v) * second)"
    "int times * ((int base + int v) * second) \<le> int (times * (base + bound - 1)) * second" if "v < bound" for v
  proof -
    have "base + v \<le> base + bound - 1" using that by simp
    then have "times * base \<le> times * (base + v)" "times * (base + v) \<le> times * (base + bound - 1)" by simp_all
    then have "int (times * base) \<le> int times * (int base + int v)"
      "int times * (int base + int v) \<le> int (times * (base + bound - 1))"
      by (metis of_nat_add of_nat_mono of_nat_mult)+
    then show "int (times * base) * second \<le> int times * ((int base + int v) * second)"
      "int times * ((int base + int v) * second) \<le> int (times * (base + bound - 1)) * second"
      by (simp_all only: mult.assoc [symmetric] mult_le_cancel_right_pos second_pos)
  qed
  have "times * (base + bound - 1) \<le> 20" using bounds by (meson diff_le_self le_trans mult_le_mono2)
  then have hi: "int (times * (base + bound - 1)) \<le> 20" by (metis of_nat_mono of_nat_numeral)
  show ?thesis
    unfolding takes_time_def
  proof (intro conjI allI impI; elim conjE)
    fix r w err r1 w1
    assume fresh: "map_get (md_annotations r) op = None" and "f r w = (err, r1, w1)"
    moreover obtain v u where rand: "de_rand env bound w = (v, u)" by fastforce
    ultimately have sim: "simulate env op (int times * ((int base + int v) * second))
        (persist_through env adapter_of) r u = (err, r1, w1)" by (simp add: run)
    note n = tickingD(2) [OF laws rand bounds(1)]
    show "\<exists>stamp expiration. r1 = r\<lparr>md_annotations := map_insert op stamp (md_annotations r)\<rparr> \<and>
        parse_rfc3339 stamp = Some expiration \<and>
        clock w + (int (times * base) - 1) * second < expiration \<and>
        expiration \<le> clock w1 + int (times * (base + bound - 1)) * second \<and> (err = None \<longrightarrow> expiration \<le> clock w1)"
      using simulate_first [OF laws persist_ticks [OF laws client] delay [of v] _ hi fresh sim] n by force
  next
    fix r w stamp expiration err r1 w1
    assume stamped: "map_get (md_annotations r) op = Some stamp" "parse_rfc3339 stamp = Some expiration"
      and "f r w = (err, r1, w1)"
    moreover obtain v u where rand: "de_rand env bound w = (v, u)" by fastforce
    ultimately have sim: "simulate env op (int times * ((int base + int v) * second))
        (persist_through env adapter_of) r u = (err, r1, w1)" by (simp add: run)
    from simulate_again [OF laws stamped sim] tickingD(2) [OF laws rand bounds(1)]
    show "r1 = r" "store w1 = store w" "clock w \<le> clock w1"
      "err = (if clock w1 < expiration then Some (Sentinel ErrStillProcessing) else None)"
      by simp_all
  qed
qed

end

subsection \<open>The contract of an update\<close>

text \<open>
  The record is the labels as they were applied last. Labels that are recorded are not written
  again; others are recorded and written once, whatever comes of the write.
\<close>

locale recorded_update =
  fixes env :: "'w dummy_env" and adapter_of :: "'w dyn_client \<Rightarrow> ('m global_tenant_metadata_scheme, 'w) adapter"
    and f :: "('m global_tenant_metadata_scheme, 'w) delegated"
  assumes run: "f r w = apply_update env adapter_of r w"
begin

lemma unchanged:
  "map_index (md_annotations r) applied_labels_annotation = de_labels env (md_labels r) \<Longrightarrow> f r w = (None, r, w)"
  by (simp add: run apply_update_def record_applied_labels_def)

lemma changed:
  assumes "map_index (md_annotations r) applied_labels_annotation \<noteq> de_labels env (md_labels r)"
  shows "\<exists>err w1. f r w = (err, r\<lparr>md_annotations := map_insert applied_labels_annotation (de_labels env (md_labels r))
      (md_annotations r)\<rparr>, w1) \<and>
    persist_through env adapter_of (r\<lparr>md_annotations := map_insert applied_labels_annotation
      (de_labels env (md_labels r)) (md_annotations r)\<rparr>) w = (err, w1)"
  using assms by (auto simp: run apply_update_def record_applied_labels_def Let_def split: prod.split)

lemma recorded:
  assumes "f r w = (err, r1, w1)"
  shows "map_index (md_annotations r1) applied_labels_annotation = de_labels env (md_labels r1)"
    and "md_labels r1 = md_labels r" and "f r1 w2 = (None, r1, w2)"
proof -
  from assms show r: "map_index (md_annotations r1) applied_labels_annotation = de_labels env (md_labels r1)"
    "md_labels r1 = md_labels r"
    by (auto simp: run apply_update_def record_applied_labels_def Let_def map_index_def
        split: if_splits prod.splits)
  from r(1) show "f r1 w2 = (None, r1, w2)" by (rule unchanged)
qed

end

definition settles ::
  "'w dummy_env \<Rightarrow> ('w dyn_client \<Rightarrow> ('m global_tenant_metadata_scheme, 'w) adapter)
   \<Rightarrow> ('m global_tenant_metadata_scheme, 'w) delegated \<Rightarrow> bool" where
  "settles env adapter_of f \<longleftrightarrow>
    (\<forall>r w. map_index (md_annotations r) applied_labels_annotation = de_labels env (md_labels r) \<longrightarrow>
       f r w = (None, r, w)) \<and>
    (\<forall>r w. map_index (md_annotations r) applied_labels_annotation \<noteq> de_labels env (md_labels r) \<longrightarrow>
       (let r1 = r\<lparr>md_annotations := map_insert applied_labels_annotation (de_labels env (md_labels r))
             (md_annotations r)\<rparr> in
        \<exists>err w1. f r w = (err, r1, w1) \<and> persist_through env adapter_of r1 w = (err, w1) \<and>
          (\<forall>w2. f r1 w2 = (None, r1, w2))))"

context recorded_update begin

lemma settles: "settles env adapter_of f"
  unfolding settles_def Let_def
proof (intro conjI allI impI)
  fix r :: "'m global_tenant_metadata_scheme" and w :: 'w
  assume "map_index (md_annotations r) applied_labels_annotation \<noteq> de_labels env (md_labels r)"
  from changed [OF this, of w] show "\<exists>err w1.
      f r w = (err, r\<lparr>md_annotations := map_insert applied_labels_annotation (de_labels env (md_labels r))
        (md_annotations r)\<rparr>, w1) \<and>
      persist_through env adapter_of (r\<lparr>md_annotations := map_insert applied_labels_annotation
        (de_labels env (md_labels r)) (md_annotations r)\<rparr>) w = (err, w1) \<and>
      (\<forall>w2. f (r\<lparr>md_annotations := map_insert applied_labels_annotation (de_labels env (md_labels r))
        (md_annotations r)\<rparr>) w2 = (None, r\<lparr>md_annotations := map_insert applied_labels_annotation
          (de_labels env (md_labels r)) (md_annotations r)\<rparr>, w2))"
    by (elim exE conjE) (intro exI conjI allI, assumption, assumption, rule recorded(3))
qed (rule unchanged)

end

subsection \<open>Every operation of every kind\<close>

lemmas adapter_clients = dummy_block_storage_adapter_def block_storage_adapter_def dummy_image_adapter_def
  image_adapter_def dummy_workspace_adapter_def workspace_adapter_def dummy_instance_adapter_def instance_adapter_def
  dummy_nic_adapter_def nic_adapter_def dummy_public_ip_adapter_def public_ip_adapter_def
  dummy_internet_gateway_adapter_def internet_gateway_adapter_def dummy_network_adapter_def network_adapter_def
  dummy_route_table_adapter_def route_table_adapter_def dummy_subnet_adapter_def subnet_adapter_def
  dummy_security_group_adapter_def security_group_adapter_def dummy_security_group_rule_adapter_def
  security_group_rule_adapter_def resource_adapter_def


interpretation block_storage_create: simulated_operation env "''create''" 4 3 1
    "dummy_block_storage_adapter env codec" "dummy_block_storage_create env codec" for env codec
  by unfold_locales (simp_all add: dummy_block_storage_create_def simulate_bs_def block_storage_delay_def adapter_clients
    split: prod.split)

interpretation block_storage_delete: simulated_operation env "''delete''" 4 3 1
    "dummy_block_storage_adapter env codec" "dummy_block_storage_delete env codec" for env codec
  by unfold_locales (simp_all add: dummy_block_storage_delete_def simulate_bs_def block_storage_delay_def adapter_clients
    split: prod.split)

interpretation block_storage_increase_size: simulated_operation env "''increase-size''" 4 3 2
    "dummy_block_storage_adapter env codec" "dummy_block_storage_increase_size env codec" for env codec
  by unfold_locales (simp_all add: dummy_block_storage_increase_size_def simulate_bs_def block_storage_delay_def adapter_clients
    split: prod.split)

interpretation image_create: simulated_operation env "''create''" 4 3 1
    "dummy_image_adapter env codec" "dummy_image_create env codec" for env codec
  by unfold_locales (simp_all add: dummy_image_create_def simulate_image_def image_delay_def adapter_clients
    split: prod.split)

interpretation image_delete: simulated_operation env "''delete''" 4 3 1
    "dummy_image_adapter env codec" "dummy_image_delete env codec" for env codec
  by unfold_locales (simp_all add: dummy_image_delete_def simulate_image_def image_delay_def adapter_clients
    split: prod.split)

interpretation workspace_create: simulated_operation env "''create''" 3 2 1
    "dummy_workspace_adapter env json codec" "dummy_workspace_create env json codec" for env json codec
  by unfold_locales (simp_all add: dummy_workspace_create_def simulate_ws_def workspace_delay_def adapter_clients
    split: prod.split)

interpretation workspace_delete: simulated_operation env "''delete''" 3 2 1
    "dummy_workspace_adapter env json codec" "dummy_workspace_delete env json codec" for env json codec
  by unfold_locales (simp_all add: dummy_workspace_delete_def simulate_ws_def workspace_delay_def adapter_clients
    split: prod.split)

interpretation instance_create: simulated_operation env "''create''" 4 3 1
    "dummy_instance_adapter env codec" "dummy_instance_create env codec" for env codec
  by unfold_locales (simp_all add: dummy_instance_create_def simulate_instance_def same_delays network_delay_def adapter_clients
    split: prod.split)

interpretation instance_delete: simulated_operation env "''delete''" 4 3 1
    "dummy_instance_adapter env codec" "dummy_instance_delete env codec" for env codec
  by unfold_locales (simp_all add: dummy_instance_delete_def simulate_instance_def same_delays network_delay_def adapter_clients
    split: prod.split)

interpretation instance_power_on: simulated_operation env "''power-on''" 4 3 1
    "dummy_instance_adapter env codec" "dummy_instance_power_on env codec" for env codec
  by unfold_locales (simp_all add: dummy_instance_power_on_def simulate_instance_def same_delays network_delay_def adapter_clients
    split: prod.split)

interpretation instance_power_off: simulated_operation env "''power-off''" 4 3 1
    "dummy_instance_adapter env codec" "dummy_instance_power_off env codec" for env codec
  by unfold_locales (simp_all add: dummy_instance_power_off_def simulate_instance_def same_delays network_delay_def adapter_clients
    split: prod.split)

interpretation nic_create: simulated_operation env "''create''" 4 3 1
    "dummy_nic_adapter env codec" "dummy_nic_create env codec" for env codec
  by unfold_locales (simp_all add: dummy_nic_create_def simulate_nic_def same_delays network_delay_def adapter_clients
    split: prod.split)

interpretation nic_delete: simulated_operation env "''delete''" 4 3 1
    "dummy_nic_adapter env codec" "dummy_nic_delete env codec" for env codec
  by unfold_locales (simp_all add: dummy_nic_delete_def simulate_nic_def same_delays network_delay_def adapter_clients
    split: prod.split)

interpretation public_ip_create: simulated_operation env "''create''" 4 3 1
    "dummy_public_ip_adapter env codec" "dummy_public_ip_create env codec" for env codec
  by unfold_locales (simp_all add: dummy_public_ip_create_def simulate_public_ip_def same_delays network_delay_def adapter_clients
    split: prod.split)

interpretation public_ip_delete: simulated_operation env "''delete''" 4 3 1
    "dummy_public_ip_adapter env codec" "dummy_public_ip_delete env codec" for env codec
  by unfold_locales (simp_all add: dummy_public_ip_delete_def simulate_public_ip_def same_delays network_delay_def adapter_clients
    split: prod.split)

interpretation internet_gateway_create: simulated_operation env "''create''" 4 3 1
    "dummy_internet_gateway_adapter env codec" "dummy_internet_gateway_create env codec" for env codec
  by unfold_locales (simp_all add: dummy_internet_gateway_create_def simulate_internet_gateway_def same_delays network_delay_def adapter_clients
    split: prod.split)

interpretation internet_gateway_delete: simulated_operation env "''delete''" 4 3 1
    "dummy_internet_gateway_adapter env codec" "dummy_internet_gateway_delete env codec" for env codec
  by unfold_locales (simp_all add: dummy_internet_gateway_delete_def simulate_internet_gateway_def same_delays network_delay_def adapter_clients
    split: prod.split)

interpretation network_create: simulated_operation env "''create''" 4 3 1
    "dummy_network_adapter env codec" "dummy_network_create env codec" for env codec
  by unfold_locales (simp_all add: dummy_network_create_def simulate_net_def network_delay_def adapter_clients
    split: prod.split)

interpretation network_delete: simulated_operation env "''delete''" 4 3 1
    "dummy_network_adapter env codec" "dummy_network_delete env codec" for env codec
  by unfold_locales (simp_all add: dummy_network_delete_def simulate_net_def network_delay_def adapter_clients
    split: prod.split)

interpretation route_table_create: simulated_operation env "''create''" 4 3 1
    "dummy_route_table_adapter env codec" "dummy_route_table_create env codec" for env codec
  by unfold_locales (simp_all add: dummy_route_table_create_def simulate_route_table_def same_delays network_delay_def adapter_clients
    split: prod.split)

interpretation route_table_delete: simulated_operation env "''delete''" 4 3 1
    "dummy_route_table_adapter env codec" "dummy_route_table_delete env codec" for env codec
  by unfold_locales (simp_all add: dummy_route_table_delete_def simulate_route_table_def same_delays network_delay_def adapter_clients
    split: prod.split)

interpretation subnet_create: simulated_operation env "''create''" 4 3 1
    "dummy_subnet_adapter env codec" "dummy_subnet_create env codec" for env codec
  by unfold_locales (simp_all add: dummy_subnet_create_def simulate_subnet_def same_delays network_delay_def adapter_clients
    split: prod.split)

interpretation subnet_delete: simulated_operation env "''delete''" 4 3 1
    "dummy_subnet_adapter env codec" "dummy_subnet_delete env codec" for env codec
  by unfold_locales (simp_all add: dummy_subnet_delete_def simulate_subnet_def same_delays network_delay_def adapter_clients
    split: prod.split)

interpretation security_group_create: simulated_operation env "''create''" 4 3 1
    "dummy_security_group_adapter env codec" "dummy_security_group_create env codec" for env codec
  by unfold_locales (simp_all add: dummy_security_group_create_def simulate_security_group_def same_delays network_delay_def adapter_clients
    split: prod.split)

interpretation security_group_delete: simulated_operation env "''delete''" 4 3 1
    "dummy_security_group_adapter env codec" "dummy_security_group_delete env codec" for env codec
  by unfold_locales (simp_all add: dummy_security_group_delete_def simulate_security_group_def same_delays network_delay_def adapter_clients
    split: prod.split)

interpretation security_group_rule_create: simulated_operation env "''create''" 4 3 1
    "dummy_security_group_rule_adapter env codec" "dummy_security_group_rule_create env codec" for env codec
  by unfold_locales (simp_all add: dummy_security_group_rule_create_def simulate_security_group_rule_def same_delays network_delay_def adapter_clients
    split: prod.split)

interpretation security_group_rule_delete: simulated_operation env "''delete''" 4 3 1
    "dummy_security_group_rule_adapter env codec" "dummy_security_group_rule_delete env codec" for env codec
  by unfold_locales (simp_all add: dummy_security_group_rule_delete_def simulate_security_group_rule_def same_delays network_delay_def adapter_clients
    split: prod.split)

interpretation block_storage_update: recorded_update env "dummy_block_storage_adapter env codec" "dummy_block_storage_update env codec" for env codec
  by unfold_locales (simp add: dummy_block_storage_update_def)

interpretation image_update: recorded_update env "dummy_image_adapter env codec" "dummy_image_update env codec" for env codec
  by unfold_locales (simp add: dummy_image_update_def)

interpretation workspace_update: recorded_update env "dummy_workspace_adapter env json codec" "dummy_workspace_update env json codec" for env json codec
  by unfold_locales (simp add: dummy_workspace_update_def)

interpretation instance_update: recorded_update env "dummy_instance_adapter env codec" "dummy_instance_update env codec" for env codec
  by unfold_locales (simp add: dummy_instance_update_def)

interpretation nic_update: recorded_update env "dummy_nic_adapter env codec" "dummy_nic_update env codec" for env codec
  by unfold_locales (simp add: dummy_nic_update_def)

interpretation public_ip_update: recorded_update env "dummy_public_ip_adapter env codec" "dummy_public_ip_update env codec" for env codec
  by unfold_locales (simp add: dummy_public_ip_update_def)

interpretation internet_gateway_update: recorded_update env "dummy_internet_gateway_adapter env codec" "dummy_internet_gateway_update env codec" for env codec
  by unfold_locales (simp add: dummy_internet_gateway_update_def)

interpretation network_update: recorded_update env "dummy_network_adapter env codec" "dummy_network_update env codec" for env codec
  by unfold_locales (simp add: dummy_network_update_def)

interpretation route_table_update: recorded_update env "dummy_route_table_adapter env codec" "dummy_route_table_update env codec" for env codec
  by unfold_locales (simp add: dummy_route_table_update_def)

interpretation subnet_update: recorded_update env "dummy_subnet_adapter env codec" "dummy_subnet_update env codec" for env codec
  by unfold_locales (simp add: dummy_subnet_update_def)

interpretation security_group_update: recorded_update env "dummy_security_group_adapter env codec" "dummy_security_group_update env codec" for env codec
  by unfold_locales (simp add: dummy_security_group_update_def)

interpretation security_group_rule_update: recorded_update env "dummy_security_group_rule_adapter env codec" "dummy_security_group_rule_update env codec" for env codec
  by unfold_locales (simp add: dummy_security_group_rule_update_def)


end
