(* ===== verification/Dummy_Properties.thy ===== *)
theory Dummy_Properties
  imports Dummy_Plugin
begin

section \<open>What the dummy provider does\<close>

text \<open>
  Operations take their simulated time, updates settle, and a simulated deletion is over at once,
  because the plugin's own write takes the finalizers off the object.
\<close>

subsection \<open>Writing a marked object releases it\<close>

definition update_removes :: "('m common_metadata_scheme, 'w) adapter \<Rightarrow> ('m common_metadata_scheme \<Rightarrow> bool) \<Rightarrow> bool" where
  "update_removes a storable \<longleftrightarrow>
    (\<forall>r w old current namespace. storable r \<and> md_version r \<noteq> [] \<and>
       resolve_namespace (ad_sha3 a) (ad_scope a r) = Inr namespace \<and>
       removes_unfinalized (ad_client a) (ad_gvr a) namespace (md_name r) current \<and>
       current w = Some old \<and> uo_version old = md_version r \<and> uo_deletion old \<noteq> None \<longrightarrow>
       (\<exists>err w1. adapter_update a r w = (Inl err, w1) \<and> current w1 = None))"

context adapted_resource begin

lemma update_removes:
  assumes "encodes_metadata encode"
  shows "update_removes a storable"
  unfolding update_removes_def
proof (intro allI impI, elim conjE)
  fix r w old current namespace
  assume r: "storable r" "md_version r \<noteq> []"
    and ns: "resolve_namespace (ad_sha3 a) (ad_scope a r) = Inr namespace"
    and server: "removes_unfinalized (ad_client a) (ad_gvr a) namespace (md_name r) current"
    and old: "current w = Some old" "uo_version old = md_version r" "uo_deletion old \<noteq> None"
  have "removes_unfinalized client kind (cr_namespace cr) (md_name r) current" if "to_cr (Some r) = Inr cr" for cr
    using comes_back [OF r(1)] that ns server by (auto simp: survives_def adapter resource_adapter_def)
  from versioned_update_removes [OF r assms this old]
  show "\<exists>err w1. adapter_update a r w = (Inl err, w1) \<and> current w1 = None" by blast
qed

end

text \<open>A source of random numbers and a clock that leave the object alone.\<close>

definition leaves_alone :: "'w dummy_env \<Rightarrow> ('w \<Rightarrow> 's) \<Rightarrow> bool" where
  "leaves_alone env current \<longleftrightarrow>
    (\<forall>w. current (snd (de_now env w)) = current w) \<and> (\<forall>n w. current (snd (de_rand env n w)) = current w)"

definition releases_at_once ::
  "'w dummy_env \<Rightarrow> ('w dyn_client \<Rightarrow> ('m global_tenant_metadata_scheme, 'w) adapter)
   \<Rightarrow> ('m global_tenant_metadata_scheme \<Rightarrow> bool) \<Rightarrow> ('m global_tenant_metadata_scheme, 'w) delegated \<Rightarrow> bool" where
  "releases_at_once env adapter_of storable f \<longleftrightarrow>
    (\<forall>client r w old current namespace. de_client env = Inr client \<and> leaves_alone env current \<and>
       storable r \<and> md_version r \<noteq> [] \<and> map_get (md_annotations r) ''delete'' = None \<and>
       resolve_namespace (de_sha3 env) (ad_scope (adapter_of client) r) = Inr namespace \<and>
       removes_unfinalized client (ad_gvr (adapter_of client)) namespace (md_name r) current \<and>
       current w = Some old \<and> uo_version old = md_version r \<and> uo_deletion old \<noteq> None \<longrightarrow>
       (\<exists>err r1 w1. f r w = (Some err, r1, w1) \<and> current w1 = None))"

lemma releases_at_onceD:
  assumes "releases_at_once env adapter_of storable f" and "de_client env = Inr client" and "leaves_alone env current"
    and "storable r" "md_version r \<noteq> []" "map_get (md_annotations r) ''delete'' = None"
    and "resolve_namespace (de_sha3 env) (ad_scope (adapter_of client) r) = Inr namespace"
    and "removes_unfinalized client (ad_gvr (adapter_of client)) namespace (md_name r) current"
    and "current w = Some old" "uo_version old = md_version r" "uo_deletion old \<noteq> None"
  shows "\<exists>err r1 w1. f r w = (Some err, r1, w1) \<and> current w1 = None"
  using assms unfolding releases_at_once_def by blast

context simulated_operation begin

lemma releases:
  assumes op: "op = ''delete''"
    and removes: "\<And>client. update_removes (adapter_of client) storable"
    and adapter: "\<And>client. ad_sha3 (adapter_of client) = de_sha3 env"
    and stable: "\<And>r m. storable (r\<lparr>md_annotations := m\<rparr>) = storable r"
      "\<And>client r m. ad_scope (adapter_of client) (r\<lparr>md_annotations := m\<rparr>) = ad_scope (adapter_of client) r"
  shows "releases_at_once env adapter_of storable f"
  unfolding releases_at_once_def
proof (intro allI impI, elim conjE)
  fix c r w old current namespace
  assume client: "de_client env = Inr c" and alone: "leaves_alone env current"
    and r: "storable r" "md_version r \<noteq> []" "map_get (md_annotations r) ''delete'' = None"
    and ns: "resolve_namespace (de_sha3 env) (ad_scope (adapter_of c) r) = Inr namespace"
    and server: "removes_unfinalized c (ad_gvr (adapter_of c)) namespace (md_name r) current"
    and old: "current w = Some old" "uo_version old = md_version r" "uo_deletion old \<noteq> None"
  obtain v u where rand: "de_rand env bound w = (v, u)" by fastforce
  obtain now u' where now: "de_now env u = (now, u')" by fastforce
  have u': "current u' = Some old"
    using alone rand now old(1) unfolding leaves_alone_def by (metis snd_conv)
  define stamped where "stamped = r\<lparr>md_annotations := map_insert ''delete''
    (format_rfc3339 (de_zone env) (now + int times * ((int base + int v) * second))) (md_annotations r)\<rparr>"
  have s: "storable stamped" "md_version stamped = md_version r" "md_name stamped = md_name r"
    "resolve_namespace (ad_sha3 (adapter_of c)) (ad_scope (adapter_of c) stamped) = Inr namespace"
    using r ns by (simp_all add: stamped_def stable adapter)
  have "\<exists>err w1. adapter_update (adapter_of c) stamped u' = (Inl err, w1) \<and> current w1 = None"
    using removes [of c] s r old u' server unfolding update_removes_def simulated_operation.client [OF simulated_operation_axioms] by metis
  then show "\<exists>err r1 w1. f r w = (Some err, r1, w1) \<and> current w1 = None"
    using r(3) client now
    by (auto simp: run rand simulate_def stamp_expiration_def op Let_def persist_through_def stamped_def [symmetric])
qed

end

lemmas storables = storable_block_storage_def storable_image_def storable_workspace_def storable_instance_def
  storable_nic_def storable_public_ip_def storable_internet_gateway_def storable_network_def storable_route_table_def
  storable_subnet_def storable_security_group_def storable_security_group_rule_def storable_metadata_def

lemma block_storage_released:
  assumes "encodes_metadata (cc_encode codec)"
  shows "releases_at_once env (dummy_block_storage_adapter env codec) (storable_block_storage (de_sha3 env)) (dummy_block_storage_delete env codec)"
  by (rule block_storage_delete.releases; (unfold dummy_block_storage_adapter_def, rule block_storage_adapted.update_removes [OF assms])?)
    (simp_all add: storables dummy_block_storage_adapter_def block_storage_adapter_def resource_adapter_def own_scope_def own_network_scope_def)

lemma image_released:
  assumes "encodes_metadata (cc_encode codec)"
  shows "releases_at_once env (dummy_image_adapter env codec) (storable_image (de_sha3 env)) (dummy_image_delete env codec)"
  by (rule image_delete.releases; (unfold dummy_image_adapter_def, rule image_adapted.update_removes [OF assms])?)
    (simp_all add: storables dummy_image_adapter_def image_adapter_def resource_adapter_def own_scope_def own_network_scope_def)

lemma workspace_released:
  assumes "encodes_metadata (cc_encode codec)"
  shows "releases_at_once env (dummy_workspace_adapter env json codec) (storable_workspace json (de_sha3 env)) (dummy_workspace_delete env json codec)"
  by (rule workspace_delete.releases; (unfold dummy_workspace_adapter_def, rule workspace_adapted.update_removes [OF assms])?)
    (simp_all add: storables dummy_workspace_adapter_def workspace_adapter_def resource_adapter_def own_scope_def own_network_scope_def)

lemma instance_released:
  assumes "encodes_metadata (cc_encode codec)"
  shows "releases_at_once env (dummy_instance_adapter env codec) (storable_instance (de_sha3 env)) (dummy_instance_delete env codec)"
  by (rule instance_delete.releases; (unfold dummy_instance_adapter_def, rule instance_adapted.update_removes [OF assms])?)
    (simp_all add: storables dummy_instance_adapter_def instance_adapter_def resource_adapter_def own_scope_def own_network_scope_def)

lemma nic_released:
  assumes "encodes_metadata (cc_encode codec)"
  shows "releases_at_once env (dummy_nic_adapter env codec) (storable_nic (de_sha3 env)) (dummy_nic_delete env codec)"
  by (rule nic_delete.releases; (unfold dummy_nic_adapter_def, rule nic_adapted.update_removes [OF assms])?)
    (simp_all add: storables dummy_nic_adapter_def nic_adapter_def resource_adapter_def own_scope_def own_network_scope_def)

lemma public_ip_released:
  assumes "encodes_metadata (cc_encode codec)"
  shows "releases_at_once env (dummy_public_ip_adapter env codec) (storable_public_ip (de_sha3 env)) (dummy_public_ip_delete env codec)"
  by (rule public_ip_delete.releases; (unfold dummy_public_ip_adapter_def, rule public_ip_adapted.update_removes [OF assms])?)
    (simp_all add: storables dummy_public_ip_adapter_def public_ip_adapter_def resource_adapter_def own_scope_def own_network_scope_def)

lemma internet_gateway_released:
  assumes "encodes_metadata (cc_encode codec)"
  shows "releases_at_once env (dummy_internet_gateway_adapter env codec) (storable_internet_gateway (de_sha3 env)) (dummy_internet_gateway_delete env codec)"
  by (rule internet_gateway_delete.releases; (unfold dummy_internet_gateway_adapter_def, rule internet_gateway_adapted.update_removes [OF assms])?)
    (simp_all add: storables dummy_internet_gateway_adapter_def internet_gateway_adapter_def resource_adapter_def own_scope_def own_network_scope_def)

lemma network_released:
  assumes "encodes_metadata (cc_encode codec)"
  shows "releases_at_once env (dummy_network_adapter env codec) (storable_network (de_sha3 env)) (dummy_network_delete env codec)"
  by (rule network_delete.releases; (unfold dummy_network_adapter_def, rule network_adapted.update_removes [OF assms])?)
    (simp_all add: storables dummy_network_adapter_def network_adapter_def resource_adapter_def own_scope_def own_network_scope_def)

lemma route_table_released:
  assumes "encodes_metadata (cc_encode codec)"
  shows "releases_at_once env (dummy_route_table_adapter env codec) (storable_route_table (de_sha3 env)) (dummy_route_table_delete env codec)"
  by (rule route_table_delete.releases; (unfold dummy_route_table_adapter_def, rule route_table_adapted.update_removes [OF assms])?)
    (simp_all add: storables dummy_route_table_adapter_def route_table_adapter_def resource_adapter_def own_scope_def own_network_scope_def)

lemma subnet_released:
  assumes "encodes_metadata (cc_encode codec)"
  shows "releases_at_once env (dummy_subnet_adapter env codec) (storable_subnet (de_sha3 env)) (dummy_subnet_delete env codec)"
  by (rule subnet_delete.releases; (unfold dummy_subnet_adapter_def, rule subnet_adapted.update_removes [OF assms])?)
    (simp_all add: storables dummy_subnet_adapter_def subnet_adapter_def resource_adapter_def own_scope_def own_network_scope_def)

lemma security_group_released:
  assumes "encodes_metadata (cc_encode codec)"
  shows "releases_at_once env (dummy_security_group_adapter env codec) (storable_security_group (de_sha3 env)) (dummy_security_group_delete env codec)"
  by (rule security_group_delete.releases; (unfold dummy_security_group_adapter_def, rule security_group_adapted.update_removes [OF assms])?)
    (simp_all add: storables dummy_security_group_adapter_def security_group_adapter_def resource_adapter_def own_scope_def own_network_scope_def)

lemma security_group_rule_released:
  assumes "encodes_metadata (cc_encode codec)"
  shows "releases_at_once env (dummy_security_group_rule_adapter env codec) (storable_security_group_rule (de_sha3 env)) (dummy_security_group_rule_delete env codec)"
  by (rule security_group_rule_delete.releases; (unfold dummy_security_group_rule_adapter_def, rule security_group_rule_adapted.update_removes [OF assms])?)
    (simp_all add: storables dummy_security_group_rule_adapter_def security_group_rule_adapter_def resource_adapter_def own_scope_def own_network_scope_def)

subsection \<open>The properties\<close>

text \<open>
  C20. A simulated operation takes its time. The first call stamps an expiration no more than a second
  short of the least delay of the operation and no more than the greatest, which the stamp's text gives
  back, and is over at once only when the clock has passed it. Every later call writes nothing and
  leaves the resource as it is: it answers that the operation is still in progress until the clock
  reaches the expiration and that it is done from then on, so an operation that was stamped once is
  done at once whenever it is asked for again.
\<close>

theorem dummy_operations_take_their_time:
  assumes "ticking env clock store"
  shows "takes_time env clock store ''create'' 3 6 (dummy_block_storage_create env c_block_storage) \<and>
    takes_time env clock store ''delete'' 3 6 (dummy_block_storage_delete env c_block_storage) \<and>
    takes_time env clock store ''increase-size'' 6 12 (dummy_block_storage_increase_size env c_block_storage) \<and>
    takes_time env clock store ''create'' 3 6 (dummy_image_create env c_image) \<and>
    takes_time env clock store ''delete'' 3 6 (dummy_image_delete env c_image) \<and>
    takes_time env clock store ''create'' 2 4 (dummy_workspace_create env json c_workspace) \<and>
    takes_time env clock store ''delete'' 2 4 (dummy_workspace_delete env json c_workspace) \<and>
    takes_time env clock store ''create'' 3 6 (dummy_instance_create env c_instance) \<and>
    takes_time env clock store ''delete'' 3 6 (dummy_instance_delete env c_instance) \<and>
    takes_time env clock store ''power-on'' 3 6 (dummy_instance_power_on env c_instance) \<and>
    takes_time env clock store ''power-off'' 3 6 (dummy_instance_power_off env c_instance) \<and>
    takes_time env clock store ''create'' 3 6 (dummy_nic_create env c_nic) \<and>
    takes_time env clock store ''delete'' 3 6 (dummy_nic_delete env c_nic) \<and>
    takes_time env clock store ''create'' 3 6 (dummy_public_ip_create env c_public_ip) \<and>
    takes_time env clock store ''delete'' 3 6 (dummy_public_ip_delete env c_public_ip) \<and>
    takes_time env clock store ''create'' 3 6 (dummy_internet_gateway_create env c_internet_gateway) \<and>
    takes_time env clock store ''delete'' 3 6 (dummy_internet_gateway_delete env c_internet_gateway) \<and>
    takes_time env clock store ''create'' 3 6 (dummy_network_create env c_network) \<and>
    takes_time env clock store ''delete'' 3 6 (dummy_network_delete env c_network) \<and>
    takes_time env clock store ''create'' 3 6 (dummy_route_table_create env c_route_table) \<and>
    takes_time env clock store ''delete'' 3 6 (dummy_route_table_delete env c_route_table) \<and>
    takes_time env clock store ''create'' 3 6 (dummy_subnet_create env c_subnet) \<and>
    takes_time env clock store ''delete'' 3 6 (dummy_subnet_delete env c_subnet) \<and>
    takes_time env clock store ''create'' 3 6 (dummy_security_group_create env c_security_group) \<and>
    takes_time env clock store ''delete'' 3 6 (dummy_security_group_delete env c_security_group) \<and>
    takes_time env clock store ''create'' 3 6 (dummy_security_group_rule_create env c_security_group_rule) \<and>
    takes_time env clock store ''delete'' 3 6 (dummy_security_group_rule_delete env c_security_group_rule)"
  by (intro conjI) (rule block_storage_create.takes [OF assms, simplified]
      block_storage_delete.takes [OF assms, simplified]
      block_storage_increase_size.takes [OF assms, simplified]
      image_create.takes [OF assms, simplified]
      image_delete.takes [OF assms, simplified]
      workspace_create.takes [OF assms, simplified]
      workspace_delete.takes [OF assms, simplified]
      instance_create.takes [OF assms, simplified]
      instance_delete.takes [OF assms, simplified]
      instance_power_on.takes [OF assms, simplified]
      instance_power_off.takes [OF assms, simplified]
      nic_create.takes [OF assms, simplified]
      nic_delete.takes [OF assms, simplified]
      public_ip_create.takes [OF assms, simplified]
      public_ip_delete.takes [OF assms, simplified]
      internet_gateway_create.takes [OF assms, simplified]
      internet_gateway_delete.takes [OF assms, simplified]
      network_create.takes [OF assms, simplified]
      network_delete.takes [OF assms, simplified]
      route_table_create.takes [OF assms, simplified]
      route_table_delete.takes [OF assms, simplified]
      subnet_create.takes [OF assms, simplified]
      subnet_delete.takes [OF assms, simplified]
      security_group_create.takes [OF assms, simplified]
      security_group_delete.takes [OF assms, simplified]
      security_group_rule_create.takes [OF assms, simplified]
      security_group_rule_delete.takes [OF assms, simplified])+

text \<open>
  C21. Updates settle. A resource whose record has its labels is not written; another is recorded and
  written exactly once, and whatever the write returned, the resource the update leaves is settled:
  an update of it does nothing.
\<close>

theorem dummy_updates_settle:
  "settles env (dummy_block_storage_adapter env c_block_storage) (dummy_block_storage_update env c_block_storage) \<and>
    settles env (dummy_image_adapter env c_image) (dummy_image_update env c_image) \<and>
    settles env (dummy_workspace_adapter env json c_workspace) (dummy_workspace_update env json c_workspace) \<and>
    settles env (dummy_instance_adapter env c_instance) (dummy_instance_update env c_instance) \<and>
    settles env (dummy_nic_adapter env c_nic) (dummy_nic_update env c_nic) \<and>
    settles env (dummy_public_ip_adapter env c_public_ip) (dummy_public_ip_update env c_public_ip) \<and>
    settles env (dummy_internet_gateway_adapter env c_internet_gateway) (dummy_internet_gateway_update env c_internet_gateway) \<and>
    settles env (dummy_network_adapter env c_network) (dummy_network_update env c_network) \<and>
    settles env (dummy_route_table_adapter env c_route_table) (dummy_route_table_update env c_route_table) \<and>
    settles env (dummy_subnet_adapter env c_subnet) (dummy_subnet_update env c_subnet) \<and>
    settles env (dummy_security_group_adapter env c_security_group) (dummy_security_group_update env c_security_group) \<and>
    settles env (dummy_security_group_rule_adapter env c_security_group_rule) (dummy_security_group_rule_update env c_security_group_rule)"
  by (intro conjI) (rule block_storage_update.settles
      image_update.settles
      workspace_update.settles
      instance_update.settles
      nic_update.settles
      public_ip_update.settles
      internet_gateway_update.settles
      network_update.settles
      route_table_update.settles
      subnet_update.settles
      security_group_update.settles
      security_group_rule_update.settles)+

text \<open>
  C22. A simulated deletion is over at once. The write that stamps the expiration carries the version the
  resource was read with and no finalizers, so the server takes the marked object away: the first
  call fails reading it back, and there is nothing left to wait for.
\<close>

theorem simulated_deletion_is_over_at_once:
  "(encodes_metadata (cc_encode c_block_storage) \<longrightarrow>
       releases_at_once env (dummy_block_storage_adapter env c_block_storage) (storable_block_storage (de_sha3 env)) (dummy_block_storage_delete env c_block_storage)) \<and>
    (encodes_metadata (cc_encode c_image) \<longrightarrow>
       releases_at_once env (dummy_image_adapter env c_image) (storable_image (de_sha3 env)) (dummy_image_delete env c_image)) \<and>
    (encodes_metadata (cc_encode c_workspace) \<longrightarrow>
       releases_at_once env (dummy_workspace_adapter env json c_workspace) (storable_workspace json (de_sha3 env)) (dummy_workspace_delete env json c_workspace)) \<and>
    (encodes_metadata (cc_encode c_instance) \<longrightarrow>
       releases_at_once env (dummy_instance_adapter env c_instance) (storable_instance (de_sha3 env)) (dummy_instance_delete env c_instance)) \<and>
    (encodes_metadata (cc_encode c_nic) \<longrightarrow>
       releases_at_once env (dummy_nic_adapter env c_nic) (storable_nic (de_sha3 env)) (dummy_nic_delete env c_nic)) \<and>
    (encodes_metadata (cc_encode c_public_ip) \<longrightarrow>
       releases_at_once env (dummy_public_ip_adapter env c_public_ip) (storable_public_ip (de_sha3 env)) (dummy_public_ip_delete env c_public_ip)) \<and>
    (encodes_metadata (cc_encode c_internet_gateway) \<longrightarrow>
       releases_at_once env (dummy_internet_gateway_adapter env c_internet_gateway) (storable_internet_gateway (de_sha3 env)) (dummy_internet_gateway_delete env c_internet_gateway)) \<and>
    (encodes_metadata (cc_encode c_network) \<longrightarrow>
       releases_at_once env (dummy_network_adapter env c_network) (storable_network (de_sha3 env)) (dummy_network_delete env c_network)) \<and>
    (encodes_metadata (cc_encode c_route_table) \<longrightarrow>
       releases_at_once env (dummy_route_table_adapter env c_route_table) (storable_route_table (de_sha3 env)) (dummy_route_table_delete env c_route_table)) \<and>
    (encodes_metadata (cc_encode c_subnet) \<longrightarrow>
       releases_at_once env (dummy_subnet_adapter env c_subnet) (storable_subnet (de_sha3 env)) (dummy_subnet_delete env c_subnet)) \<and>
    (encodes_metadata (cc_encode c_security_group) \<longrightarrow>
       releases_at_once env (dummy_security_group_adapter env c_security_group) (storable_security_group (de_sha3 env)) (dummy_security_group_delete env c_security_group)) \<and>
    (encodes_metadata (cc_encode c_security_group_rule) \<longrightarrow>
       releases_at_once env (dummy_security_group_rule_adapter env c_security_group_rule) (storable_security_group_rule (de_sha3 env)) (dummy_security_group_rule_delete env c_security_group_rule))"
  by (intro conjI impI) (erule block_storage_released
      image_released
      workspace_released
      instance_released
      nic_released
      public_ip_released
      internet_gateway_released
      network_released
      route_table_released
      subnet_released
      security_group_released
      security_group_rule_released)+

subsection \<open>The properties on a small store\<close>

text \<open>
  A world is the number of times the clock was read, and one stored object. The clock starts at noon
  and moves a second with every reading, for a minute.
\<close>

type_synonym demo_world = "nat \<times> uobject option"

definition noon :: instant where
  "noon = (86400 * day_of_date 2026 1 15 + 43200) * second"

definition demo_clock :: "demo_world \<Rightarrow> instant" where
  "demo_clock w = noon + int (min (fst w) 60) * second"

definition beside :: "'v dyn_client \<Rightarrow> ('t \<times> 'v) dyn_client" where
  "beside c =
    \<lparr>dc_get = (\<lambda>kind namespace name w. apsnd (Pair (fst w)) (dc_get c kind namespace name (snd w))),
     dc_list = (\<lambda>options kind namespace w. apsnd (Pair (fst w)) (dc_list c options kind namespace (snd w))),
     dc_create = (\<lambda>kind namespace u w. apsnd (Pair (fst w)) (dc_create c kind namespace u (snd w))),
     dc_update = (\<lambda>kind namespace u w. apsnd (Pair (fst w)) (dc_update c kind namespace u (snd w))),
     dc_update_status = (\<lambda>kind namespace u w. apsnd (Pair (fst w)) (dc_update_status c kind namespace u (snd w))),
     dc_delete = (\<lambda>kind namespace name version w. apsnd (Pair (fst w)) (dc_delete c kind namespace name version (snd w))),
     dc_retry = (\<lambda>f w. f w)\<rparr>"

definition demo_env :: "demo_world dummy_env" where
  "demo_env =
    \<lparr>de_client = Inr (beside finalizing_client),
     de_now = (\<lambda>w. let w1 = (Suc (fst w), snd w) in (demo_clock w1, w1)),
     de_zone = (\<lambda>t. 0), de_rand = (\<lambda>n w. (n - 1, w)),
     de_labels = (\<lambda>labels. join '','' (map (\<lambda>(k, v). k @ ''='' @ v) labels)), de_sha3 = (\<lambda>s. s)\<rparr>"

text \<open>A codec that reads back the demonstration volume with the annotations of the object.\<close>

definition demo_codec :: "(block_storage_spec, block_storage_status) cr_codec" where
  "demo_codec =
    \<lparr>cc_encode = plain_encode,
     cc_decode = (\<lambda>u. case block_storage_to_cr (\<lambda>s. s) (Some demo_volume) of
       Inl err \<Rightarrow> Inl err | Inr cr \<Rightarrow> Inr (cr\<lparr>cr_annotations := uo_annotations u\<rparr>)), cc_now = 0\<rparr>"

definition settled_object :: uobject where
  "settled_object = \<lparr>uo_name = ''v'', uo_labels = [], uo_annotations = [], uo_finalizers = [],
     uo_deletion = None, uo_version = ''7'', uo_fields = []\<rparr>"

lemma noon_day: "0 \<le> x \<Longrightarrow> x < 43200 * second \<Longrightarrow> (noon + x) div second div 86400 = day_of_date 2026 1 15"
proof -
  assume x: "0 \<le> x" "x < 43200 * second"
  have "(noon + x) div second = 86400 * day_of_date 2026 1 15 + 43200 + x div second"
    by (simp add: noon_def div_mult_self3 second_def)
  moreover have "0 \<le> x div second" using x by (simp add: pos_imp_zdiv_nonneg_iff)
  moreover have "x div second < 43200" using x(2) by (simp add: second_def)
  ultimately show ?thesis by simp
qed

lemma demo_ticking: "ticking demo_env demo_clock snd"
proof -
  have w: "writable (de_zone demo_env) (demo_clock w + d)" if d: "0 \<le> d" "d \<le> 20 * second" for w d
  proof -
    have "0 \<le> int (min (fst w) 60) * second + d" "int (min (fst w) 60) * second + d < 43200 * second"
      using d by (simp_all add: second_def)
    from noon_day [OF this] have "(demo_clock w + d) div second div 86400 = day_of_date 2026 1 15"
      by (simp add: demo_clock_def add.assoc)
    moreover have "fst (year_of_day (day_of_date 2026 1 15)) = 2026" by code_simp
    ultimately show ?thesis by (simp add: writable_def demo_env_def plain_offset_def)
  qed
  show ?thesis
    unfolding ticking_def using w
    by (auto simp: demo_env_def Let_def demo_clock_def beside_def second_def)
qed

lemma dummy_operations_take_their_time_witness:
  "takes_time demo_env demo_clock snd ''create'' 3 6 (dummy_block_storage_create demo_env demo_codec) \<and>
   (case dummy_block_storage_create demo_env demo_codec demo_volume (0, Some settled_object) of
      (err, r1, w1) \<Rightarrow> err = Some (Sentinel ErrStillProcessing) \<and>
        fst (dummy_block_storage_create demo_env demo_codec r1 (3, snd w1)) = Some (Sentinel ErrStillProcessing) \<and>
        fst (dummy_block_storage_create demo_env demo_codec r1 (9, snd w1)) = None)"
proof
  show "takes_time demo_env demo_clock snd ''create'' 3 6 (dummy_block_storage_create demo_env demo_codec)"
    by (rule dummy_operations_take_their_time [OF demo_ticking, THEN conjunct1])
qed code_simp

lemma simulated_deletion_is_over_at_once_witness:
  "\<exists>err r1 w1. dummy_block_storage_delete demo_env demo_codec demo_volume (0, Some deleting_volume) = (Some err, r1, w1)
     \<and> snd w1 = None"
proof -
  have e: "encodes_metadata (cc_encode demo_codec)"
    by (simp add: demo_codec_def encodes_metadata_def plain_encode_def)
  have "releases_at_once demo_env (dummy_block_storage_adapter demo_env demo_codec) (storable_block_storage (de_sha3 demo_env))
      (dummy_block_storage_delete demo_env demo_codec)"
    using simulated_deletion_is_over_at_once [THEN conjunct1, of demo_codec demo_env] e by blast
  then show ?thesis
  proof (rule releases_at_onceD [where client = "beside finalizing_client" and old = deleting_volume])
    show "removes_unfinalized (beside finalizing_client)
        (ad_gvr (dummy_block_storage_adapter demo_env demo_codec (beside finalizing_client)))
        (compute_namespace (\<lambda>s. s) (own_scope demo_volume)) (md_name demo_volume) snd"
      by (auto simp: removes_unfinalized_def beside_def finalizing_client_def one_object_client_def)
    show "storable_block_storage (de_sha3 demo_env) demo_volume" by (simp add: demo_env_def demo_storable)
  qed (simp_all add: demo_env_def leaves_alone_def Let_def demo_storable dummy_block_storage_adapter_def
      block_storage_adapter_def resource_adapter_def resolve_namespace_def demo_volume_def deleting_volume_def)
qed

end
