(* ===== verification/Ionos_Plugin.thy ===== *)
theory Ionos_Plugin
  imports Cr_Conversion Ports
begin

section \<open>The IONOS provider\<close>

text \<open>
  Models \<^verbatim>\<open>csp/ionos\<close>: the plugin that keeps a Crossplane managed resource for every workspace, network
  and volume. \<^verbatim>\<open>pkg/adapter/crossplane\<close> has the stores that write them, \<^verbatim>\<open>internal/service\<close> and
  \<^verbatim>\<open>internal/controller\<close> hand the operations of the plugin through to the stores, and \<^verbatim>\<open>pkg/plugin\<close> has
  an earlier network plugin that talks to the client itself.
\<close>

subsection \<open>Crossplane objects\<close>

text \<open>
  What \<^verbatim>\<open>GetCondition\<close> returns for a condition type, and an object with its two conditions of interest.
  An object has a specification of its kind; a pointer in it is an option.
\<close>

record crossplane_condition =
  xc_status :: string
  xc_reason :: string
  xc_message :: string
  xc_observed :: int

definition unknown_condition :: crossplane_condition where
  "unknown_condition = \<lparr>xc_status = ''Unknown'', xc_reason = [], xc_message = [], xc_observed = 0\<rparr>"

record 's crossplane_object =
  xo_kind :: string
  xo_namespace :: string
  xo_name :: string
  xo_generation :: int
  xo_deletion :: "time option"
  xo_ready :: crossplane_condition
  xo_synced :: crossplane_condition
  xo_spec :: 's

definition xo_key :: "('s, 'm) crossplane_object_scheme \<Rightarrow> string \<times> string" where
  "xo_key o1 = (xo_namespace o1, xo_name o1)"

definition new_crossplane_object :: "string \<Rightarrow> string \<Rightarrow> string \<Rightarrow> 's \<Rightarrow> 's crossplane_object" where
  "new_crossplane_object kind namespace name spec =
     \<lparr>xo_kind = kind, xo_namespace = namespace, xo_name = name, xo_generation = 0, xo_deletion = None,
      xo_ready = unknown_condition, xo_synced = unknown_condition, xo_spec = spec\<rparr>"

text \<open>\<^verbatim>\<open>ProviderConfigReference\<close> and \<^verbatim>\<open>NamespacedReference\<close>.\<close>

type_synonym provider_config = "string \<times> string"
type_synonym namespaced_reference = "string \<times> string"

definition cluster_provider_config :: provider_config where
  "cluster_provider_config = (''cluster-ionos-provider-config'', ''ClusterProviderConfig'')"

record datacenter_spec =
  dcs_provider_config :: "provider_config option"
  dcs_name :: "string option"
  dcs_description :: "string option"
  dcs_location :: "string option"

record lan_spec =
  las_provider_config :: "provider_config option"
  las_name :: "string option"
  las_datacenter :: "namespaced_reference option"
  las_public :: "bool option"
  las_ipv6 :: "string option"

text \<open>A \<^verbatim>\<open>float64\<close>: a whole number, or the text of another one.\<close>

datatype float64 = FWhole int | FOther string

record ionos_volume_spec =
  ivs_provider_config :: "provider_config option"
  ivs_datacenter :: "namespaced_reference option"
  ivs_name :: "string option"
  ivs_size :: "float64 option"
  ivs_disk_type :: "string option"
  ivs_availability_zone :: "string option"
  ivs_image_name :: "string option"
  ivs_image_password :: "string option"

text \<open>
  controller-runtime's client for one kind, and what the plugin runs in: the three clients, the
  random source, which fills a buffer, and the test of crossplane whether a condition is its
  \<^verbatim>\<open>ReconcileError\<close> with the condition's own message.
\<close>

record ('s, 'w) xp_client =
  xp_get :: "string \<times> string \<Rightarrow> 'w \<Rightarrow> (go_error + 's crossplane_object) \<times> 'w"
  xp_create :: "'s crossplane_object \<Rightarrow> 'w \<Rightarrow> go_error option \<times> 'w"
  xp_update :: "'s crossplane_object \<Rightarrow> 'w \<Rightarrow> go_error option \<times> 'w"
  xp_delete :: "string \<times> string \<Rightarrow> 'w \<Rightarrow> go_error option \<times> 'w"

record 'w ionos_env =
  ie_datacenters :: "(datacenter_spec, 'w) xp_client"
  ie_lans :: "(lan_spec, 'w) xp_client"
  ie_volumes :: "(ionos_volume_spec, 'w) xp_client"
  ie_rand :: "nat \<Rightarrow> 'w \<Rightarrow> nat list \<times> 'w"
  ie_reconcile_failed :: "crossplane_condition \<Rightarrow> bool"
  ie_sha3 :: "string \<Rightarrow> string"

subsection \<open>The steps every store shares\<close>

definition reconcile_error :: "'w ionos_env \<Rightarrow> 's crossplane_object \<Rightarrow> go_error option" where
  "reconcile_error env obj =
    (if ie_reconcile_failed env (xo_synced obj)
     then Some (GoError (''provider failed to reconcile '' @ xo_kind obj @ '': '' @ xc_message (xo_synced obj)))
     else None)"

definition ready_seen :: "'s crossplane_object \<Rightarrow> bool" where
  "ready_seen obj \<longleftrightarrow> xc_status (xo_ready obj) = ''True'' \<and>
     (xc_observed (xo_ready obj) = 0 \<or> xc_observed (xo_ready obj) = xo_generation obj)"

definition check_existing ::
  "'w ionos_env \<Rightarrow> ('s, 'w) xp_client \<Rightarrow> string \<times> string \<Rightarrow> 'w \<Rightarrow> go_error option \<times> 'w" where
  "check_existing env client key w =
    (case xp_get client key w of
       (Inl err, w1) \<Rightarrow> (Some err, w1)
     | (Inr obj, w1) \<Rightarrow>
       (case reconcile_error env obj of
          Some err \<Rightarrow> (Some err, w1)
        | None \<Rightarrow>
          if xo_deletion obj \<noteq> None then (Some (Sentinel ErrStillProcessing), w1)
          else if ready_seen obj then (None, w1)
          else (Some (Sentinel ErrStillProcessing), w1)))"

definition create_cr ::
  "'w ionos_env \<Rightarrow> ('s, 'w) xp_client \<Rightarrow> 's crossplane_object \<Rightarrow> 'w \<Rightarrow> go_error option \<times> 'w" where
  "create_cr env client obj w =
    (case xp_create client obj w of
       (Some err, w1) \<Rightarrow>
         if \<not> kube_is IsAlreadyExists err then (Some err, w1) else check_existing env client (xo_key obj) w1
     | (None, w1) \<Rightarrow> (Some (Sentinel ErrStillProcessing), w1))"

definition update_cr :: "('s, 'w) xp_client \<Rightarrow> 's crossplane_object \<Rightarrow> 'w \<Rightarrow> go_error option \<times> 'w" where
  "update_cr client obj w =
    (case xp_update client obj w of
       (Some err, w1) \<Rightarrow> (Some err, w1)
     | (None, w1) \<Rightarrow> (Some (Sentinel ErrStillProcessing), w1))"

definition delete_cr ::
  "'w ionos_env \<Rightarrow> ('s, 'w) xp_client \<Rightarrow> string \<times> string \<Rightarrow> 'w \<Rightarrow> go_error option \<times> 'w" where
  "delete_cr env client key w =
    (case xp_delete client key w of
       (Some err, w1) \<Rightarrow> if kube_is IsNotFound err then (None, w1) else (Some err, w1)
     | (None, w1) \<Rightarrow>
       (case xp_get client key w1 of
          (Inl err, w2) \<Rightarrow> if kube_is IsNotFound err then (None, w2) else (Some err, w2)
        | (Inr obj, w2) \<Rightarrow>
          (case reconcile_error env obj of
             Some err \<Rightarrow> (Some err, w2)
           | None \<Rightarrow> (Some (Sentinel ErrStillProcessing), w2))))"

subsection \<open>Workspaces: datacenters\<close>

definition tenant_namespace :: "'w ionos_env \<Rightarrow> 'm global_tenant_metadata_scheme \<Rightarrow> string" where
  "tenant_namespace env r = compute_namespace (ie_sha3 env) (tenant_only_scope (md_tenant r))"

definition new_datacenter :: "'w ionos_env \<Rightarrow> workspace \<Rightarrow> datacenter_spec crossplane_object" where
  "new_datacenter env domain = new_crossplane_object ''Datacenter'' (tenant_namespace env domain) (md_name domain)
     \<lparr>dcs_provider_config = Some cluster_provider_config, dcs_name = Some (md_name domain),
      dcs_description = Some (''Workspace: '' @ md_name domain), dcs_location = Some ''es/vit''\<rparr>"

definition workspace_store_create :: "'w ionos_env \<Rightarrow> workspace \<Rightarrow> 'w \<Rightarrow> go_error option \<times> 'w" where
  "workspace_store_create env domain = create_cr env (ie_datacenters env) (new_datacenter env domain)"

definition workspace_store_delete :: "'w ionos_env \<Rightarrow> workspace \<Rightarrow> 'w \<Rightarrow> go_error option \<times> 'w" where
  "workspace_store_delete env domain =
     delete_cr env (ie_datacenters env) (tenant_namespace env domain, md_name domain)"

subsection \<open>Networks: LANs\<close>

definition new_lan :: "'w ionos_env \<Rightarrow> network \<Rightarrow> lan_spec crossplane_object" where
  "new_lan env domain = new_crossplane_object ''Lan'' (tenant_namespace env domain) (md_name domain)
     \<lparr>las_provider_config = Some cluster_provider_config, las_name = Some (md_name domain),
      las_datacenter = Some (md_workspace domain, tenant_namespace env domain), las_public = Some False,
      las_ipv6 = (if cidr_ipv6 (nws_cidr (nw_spec domain)) \<noteq> [] then Some ''AUTO'' else None)\<rparr>"

text \<open>The message of a resource whose datacenter is not there or not ready; \<^verbatim>\<open>%q\<close> of a name.\<close>

definition requires_datacenter :: "string \<Rightarrow> string \<Rightarrow> string \<Rightarrow> go_error \<Rightarrow> go_error" where
  "requires_datacenter what name workspace err =
    (let q = (\<lambda>s. [char_of (34 :: nat)] @ s @ [char_of (34 :: nat)]) in
     wrapf (what @ '' '' @ q name @ '' requires workspace datacenter '' @ q workspace) err)"

definition network_store_create :: "'w ionos_env \<Rightarrow> network \<Rightarrow> 'w \<Rightarrow> go_error option \<times> 'w" where
  "network_store_create env domain w =
    (let desired = new_lan env domain in
     case xp_get (ie_lans env) (xo_key desired) w of
       (Inl err, w1) \<Rightarrow>
         if \<not> kube_is IsNotFound err then (Some err, w1)
         else (case check_existing env (ie_datacenters env) (tenant_namespace env domain, md_workspace domain) w1 of
             (Some err', w2) \<Rightarrow> (Some (requires_datacenter ''network'' (md_name domain) (md_workspace domain) err'), w2)
           | (None, w2) \<Rightarrow> create_cr env (ie_lans env) desired w2)
     | (Inr existing, w1) \<Rightarrow>
         if (las_ipv6 (xo_spec desired) = None) \<noteq> (las_ipv6 (xo_spec existing) = None)
         then update_cr (ie_lans env) (existing\<lparr>xo_spec := (xo_spec existing)\<lparr>las_ipv6 := las_ipv6 (xo_spec desired)\<rparr>\<rparr>) w1
         else check_existing env (ie_lans env) (xo_key existing) w1)"

definition network_store_delete :: "'w ionos_env \<Rightarrow> network \<Rightarrow> 'w \<Rightarrow> go_error option \<times> 'w" where
  "network_store_delete env domain = delete_cr env (ie_lans env) (tenant_namespace env domain, md_name domain)"

subsection \<open>Block storages: volumes\<close>

text \<open>
  The conversion of an integer to a \<^verbatim>\<open>float64\<close>: 53 bits are kept, the rest is rounded to even. An \<^verbatim>\<open>int\<close>
  has at most 64 bits, so there are at most eleven to drop.
\<close>

definition excess_bits :: "int \<Rightarrow> nat" where
  "excess_bits n = length (takeWhile (\<lambda>k. 2 ^ (53 + k) \<le> n) [0..<11])"

definition round_bits :: "int \<Rightarrow> int" where
  "round_bits n =
    (let k = excess_bits n; q = n div 2 ^ k; r = n mod 2 ^ k in
     (if 2 * r > 2 ^ k \<or> (2 * r = 2 ^ k \<and> odd q) then q + 1 else q) * 2 ^ k)"

definition float64_of_int :: "int \<Rightarrow> float64" where
  "float64_of_int n = FWhole (if n < 0 then - round_bits (- n) else round_bits n)"

lemma float64_of_small_int: "\<bar>n\<bar> < 2 ^ 53 \<Longrightarrow> float64_of_int n = FWhole n"
  by (auto simp: float64_of_int_def round_bits_def excess_bits_def upt_rec)

definition password_charset :: string where
  "password_charset = ''abcdefghijklmnopqrstuvwxyzABCDEFGHIJKLMNOPQRSTUVWXYZ0123456789''"

definition random_password :: "'w ionos_env \<Rightarrow> 'w \<Rightarrow> string \<times> 'w" where
  "random_password env w =
    (case ie_rand env 24 w of
       (bytes, w1) \<Rightarrow> (map (\<lambda>b. password_charset ! (b mod length password_charset)) bytes, w1))"

definition new_volume :: "'w ionos_env \<Rightarrow> block_storage \<Rightarrow> 'w \<Rightarrow> ionos_volume_spec crossplane_object \<times> 'w" where
  "new_volume env domain w =
    (case random_password env w of
       (password, w1) \<Rightarrow>
         (new_crossplane_object ''Volume'' (tenant_namespace env domain) (md_name domain)
            \<lparr>ivs_provider_config = Some cluster_provider_config,
             ivs_datacenter = Some (md_workspace domain, tenant_namespace env domain), ivs_name = Some (md_name domain),
             ivs_size = Some (float64_of_int (bss_size_gb (bs_spec domain))), ivs_disk_type = Some ''SSD'',
             ivs_availability_zone = Some ''AUTO'', ivs_image_name = Some ''ubuntu:22.04'',
             ivs_image_password = Some password\<rparr>, w1))"

definition block_storage_store_create :: "'w ionos_env \<Rightarrow> block_storage \<Rightarrow> 'w \<Rightarrow> go_error option \<times> 'w" where
  "block_storage_store_create env domain w =
    (case check_existing env (ie_datacenters env) (tenant_namespace env domain, md_workspace domain) w of
       (Some err, w1) \<Rightarrow> (Some (requires_datacenter ''block storage'' (md_name domain) (md_workspace domain) err), w1)
     | (None, w1) \<Rightarrow> (case new_volume env domain w1 of (vol, w2) \<Rightarrow> create_cr env (ie_volumes env) vol w2))"

definition block_storage_store_delete :: "'w ionos_env \<Rightarrow> block_storage \<Rightarrow> 'w \<Rightarrow> go_error option \<times> 'w" where
  "block_storage_store_delete env domain =
     delete_cr env (ie_volumes env) (tenant_namespace env domain, md_name domain)"

definition block_storage_store_increase :: "'w ionos_env \<Rightarrow> block_storage \<Rightarrow> 'w \<Rightarrow> go_error option \<times> 'w" where
  "block_storage_store_increase env domain w =
    (case xp_get (ie_volumes env) (tenant_namespace env domain, md_name domain) w of
       (Inl err, w1) \<Rightarrow> (Some err, w1)
     | (Inr vol, w1) \<Rightarrow>
       (let desired = float64_of_int (bss_size_gb (bs_spec domain)) in
        if ivs_size (xo_spec vol) = Some desired then check_existing env (ie_volumes env) (xo_key vol) w1
        else update_cr (ie_volumes env) (vol\<lparr>xo_spec := (xo_spec vol)\<lparr>ivs_size := Some desired\<rparr>\<rparr>) w1))"

subsection \<open>Controllers and services\<close>

text \<open>
  \<^verbatim>\<open>Do\<close> of the controllers calls the store; the services call the controllers, and their operations
  are those of the plugin. None of them changes the resource.
\<close>

definition create_workspace_do :: "'w ionos_env \<Rightarrow> workspace \<Rightarrow> 'w \<Rightarrow> go_error option \<times> 'w" where
  "create_workspace_do env domain = workspace_store_create env domain"

definition delete_workspace_do :: "'w ionos_env \<Rightarrow> workspace \<Rightarrow> 'w \<Rightarrow> go_error option \<times> 'w" where
  "delete_workspace_do env domain = workspace_store_delete env domain"

definition create_network_do :: "'w ionos_env \<Rightarrow> network \<Rightarrow> 'w \<Rightarrow> go_error option \<times> 'w" where
  "create_network_do env domain = network_store_create env domain"

definition delete_network_do :: "'w ionos_env \<Rightarrow> network \<Rightarrow> 'w \<Rightarrow> go_error option \<times> 'w" where
  "delete_network_do env domain = network_store_delete env domain"

definition create_block_storage_do :: "'w ionos_env \<Rightarrow> block_storage \<Rightarrow> 'w \<Rightarrow> go_error option \<times> 'w" where
  "create_block_storage_do env domain = block_storage_store_create env domain"

definition delete_block_storage_do :: "'w ionos_env \<Rightarrow> block_storage \<Rightarrow> 'w \<Rightarrow> go_error option \<times> 'w" where
  "delete_block_storage_do env domain = block_storage_store_delete env domain"

definition increase_size_block_storage_do :: "'w ionos_env \<Rightarrow> block_storage \<Rightarrow> 'w \<Rightarrow> go_error option \<times> 'w" where
  "increase_size_block_storage_do env domain = block_storage_store_increase env domain"

definition leaving :: "('r \<Rightarrow> 'w \<Rightarrow> go_error option \<times> 'w) \<Rightarrow> ('r, 'w) delegated" where
  "leaving f r w = (case f r w of (err, w1) \<Rightarrow> (err, r, w1))"

lemma leaving_resource [simp]: "fst (snd (leaving f r w)) = r"
  by (simp add: leaving_def split: prod.split)

lemma leaving_result: "leaving f r w = (err, r1, w1) \<longleftrightarrow> f r w = (err, w1) \<and> r1 = r"
  by (auto simp: leaving_def split: prod.splits)

definition ionos_workspace_create :: "'w ionos_env \<Rightarrow> (workspace, 'w) delegated" where
  "ionos_workspace_create env = leaving (create_workspace_do env)"

definition ionos_workspace_delete :: "'w ionos_env \<Rightarrow> (workspace, 'w) delegated" where
  "ionos_workspace_delete env = leaving (delete_workspace_do env)"

definition ionos_workspace_update :: "(workspace, 'w) delegated" where
  "ionos_workspace_update r w = (None, r, w)"

definition ionos_network_create :: "'w ionos_env \<Rightarrow> (network, 'w) delegated" where
  "ionos_network_create env = leaving (create_network_do env)"

definition ionos_network_delete :: "'w ionos_env \<Rightarrow> (network, 'w) delegated" where
  "ionos_network_delete env = leaving (delete_network_do env)"

definition ionos_network_update :: "(network, 'w) delegated" where
  "ionos_network_update r w = (None, r, w)"

definition ionos_block_storage_create :: "'w ionos_env \<Rightarrow> (block_storage, 'w) delegated" where
  "ionos_block_storage_create env = leaving (create_block_storage_do env)"

definition ionos_block_storage_delete :: "'w ionos_env \<Rightarrow> (block_storage, 'w) delegated" where
  "ionos_block_storage_delete env = leaving (delete_block_storage_do env)"

definition ionos_block_storage_increase_size :: "'w ionos_env \<Rightarrow> (block_storage, 'w) delegated" where
  "ionos_block_storage_increase_size env = leaving (increase_size_block_storage_do env)"

definition ionos_block_storage_update :: "(block_storage, 'w) delegated" where
  "ionos_block_storage_update r w = (None, r, w)"

lemmas ionos_ops = ionos_workspace_create_def ionos_workspace_delete_def ionos_network_create_def
  ionos_network_delete_def ionos_block_storage_create_def ionos_block_storage_delete_def
  ionos_block_storage_increase_size_def create_workspace_do_def delete_workspace_do_def create_network_do_def
  delete_network_do_def create_block_storage_do_def delete_block_storage_do_def increase_size_block_storage_do_def

subsection \<open>The earlier network plugin\<close>

definition earlier_lan :: "'w ionos_env \<Rightarrow> network \<Rightarrow> lan_spec crossplane_object" where
  "earlier_lan env resource = new_crossplane_object ''Lan'' (tenant_namespace env resource) (md_name resource)
     \<lparr>las_provider_config = Some cluster_provider_config, las_name = Some (md_name resource),
      las_datacenter = Some (md_workspace resource, tenant_namespace env resource), las_public = Some False,
      las_ipv6 = (if cidr_ipv6 (nws_cidr (nw_spec resource)) \<noteq> []
                  then Some (cidr_ipv6 (nws_cidr (nw_spec resource))) else None)\<rparr>"

definition earlier_network_create :: "'w ionos_env \<Rightarrow> (network, 'w) delegated" where
  "earlier_network_create env resource w =
    (case xp_get (ie_lans env) (tenant_namespace env resource, md_name resource) w of
       (Inr existing, w1) \<Rightarrow> (None, resource, w1)
     | (Inl err, w1) \<Rightarrow>
         if \<not> kube_is IsNotFound err then (Some err, resource, w1)
         else (case xp_create (ie_lans env) (earlier_lan env resource) w1 of
             (Some err', w2) \<Rightarrow> (Some err', resource, w2)
           | (None, w2) \<Rightarrow> (None, resource, w2)))"

definition earlier_network_delete :: "'w ionos_env \<Rightarrow> (network, 'w) delegated" where
  "earlier_network_delete env resource w =
    (case xp_get (ie_lans env) (tenant_namespace env resource, md_name resource) w of
       (Inl err, w1) \<Rightarrow> if kube_is IsNotFound err then (None, resource, w1) else (Some err, resource, w1)
     | (Inr lan, w1) \<Rightarrow>
         if xo_deletion lan = None then
           (case xp_delete (ie_lans env) (xo_key lan) w1 of
              (Some err, w2) \<Rightarrow>
                if \<not> kube_is IsNotFound err then (Some err, resource, w2)
                else (Some (Sentinel ErrStillProcessing), resource, w2)
            | (None, w2) \<Rightarrow> (Some (Sentinel ErrStillProcessing), resource, w2))
         else (Some (Sentinel ErrStillProcessing), resource, w1))"

end
