(* ===== verification/Ionos_Contract.thy ===== *)
theory Ionos_Contract
  imports Ionos_Plugin Plugin_Contract
begin

section \<open>What the IONOS plugin promises\<close>

text \<open>
  The stores' steps against a server that keeps Crossplane objects: Create succeeds only for an object
  that is there and usable, Delete only for one that is gone, and neither touches an object of another
  name. The locale \<open>ionos_kind\<close> is that contract; the plugin handler and the controller go on top of it.
\<close>

subsection \<open>The server\<close>

definition keeps ::
  "('s, 'w) xp_client \<Rightarrow> ('w \<Rightarrow> string \<times> string \<Rightarrow> 's crossplane_object option) \<Rightarrow> bool" where
  "keeps client kept \<longleftrightarrow>
    (\<forall>key w res w1. xp_get client key w = (res, w1) \<longrightarrow> kept w1 = kept w \<and>
       (case res of Inr obj \<Rightarrow> kept w key = Some obj \<and> xo_key obj = key
        | Inl err \<Rightarrow> kube_is IsNotFound err \<longrightarrow> kept w key = None)) \<and>
    (\<forall>obj w res w1. xp_create client obj w = (res, w1) \<longrightarrow>
       (case res of None \<Rightarrow> kept w (xo_key obj) = None \<and>
            (\<exists>made. kept w1 = (kept w)(xo_key obj \<mapsto> made) \<and> xo_spec made = xo_spec obj)
        | Some err \<Rightarrow> kept w1 = kept w \<and> (kube_is IsAlreadyExists err \<longrightarrow> kept w (xo_key obj) \<noteq> None))) \<and>
    (\<forall>obj w res w1. xp_update client obj w = (res, w1) \<longrightarrow>
       (case res of None \<Rightarrow> \<exists>made. kept w1 = (kept w)(xo_key obj \<mapsto> made) \<and> xo_spec made = xo_spec obj
        | Some err \<Rightarrow> kept w1 = kept w)) \<and>
    (\<forall>key w res w1. xp_delete client key w = (res, w1) \<longrightarrow>
       (case res of None \<Rightarrow> \<exists>left. kept w1 = (kept w)(key := left)
        | Some err \<Rightarrow> kept w1 = kept w \<and> (kube_is IsNotFound err \<longrightarrow> kept w key = None)))"

lemma keeps_get:
  assumes "keeps client kept"
  shows "xp_get client key w = (Inr obj, w1) \<Longrightarrow> kept w1 = kept w \<and> kept w key = Some obj \<and> xo_key obj = key"
    and "xp_get client key w = (Inl err, w1) \<Longrightarrow> kept w1 = kept w \<and> (kube_is IsNotFound err \<longrightarrow> kept w key = None)"
  using assms [unfolded keeps_def, THEN conjunct1, rule_format, of key w "Inr obj" w1]
    assms [unfolded keeps_def, THEN conjunct1, rule_format, of key w "Inl err" w1] by simp_all

lemma keeps_create:
  assumes "keeps client kept"
  shows "xp_create client obj w = (None, w1) \<Longrightarrow> kept w (xo_key obj) = None \<and>
      (\<exists>made. kept w1 = (kept w)(xo_key obj \<mapsto> made) \<and> xo_spec made = xo_spec obj)"
    and "xp_create client obj w = (Some err, w1) \<Longrightarrow> kept w1 = kept w \<and>
      (kube_is IsAlreadyExists err \<longrightarrow> kept w (xo_key obj) \<noteq> None)"
  using assms [unfolded keeps_def, THEN conjunct2, THEN conjunct1, rule_format, of obj w None w1]
    assms [unfolded keeps_def, THEN conjunct2, THEN conjunct1, rule_format, of obj w "Some err" w1] by simp_all

lemma keeps_update:
  assumes "keeps client kept"
  shows "xp_update client obj w = (None, w1) \<Longrightarrow>
      \<exists>made. kept w1 = (kept w)(xo_key obj \<mapsto> made) \<and> xo_spec made = xo_spec obj"
    and "xp_update client obj w = (Some err, w1) \<Longrightarrow> kept w1 = kept w"
  using assms [unfolded keeps_def, THEN conjunct2, THEN conjunct2, THEN conjunct1, rule_format, of obj w None w1]
    assms [unfolded keeps_def, THEN conjunct2, THEN conjunct2, THEN conjunct1, rule_format, of obj w "Some err" w1]
  by simp_all

lemma keeps_delete:
  assumes "keeps client kept"
  shows "xp_delete client key w = (None, w1) \<Longrightarrow> \<exists>left. kept w1 = (kept w)(key := left)"
    and "xp_delete client key w = (Some err, w1) \<Longrightarrow> kept w1 = kept w \<and>
      (kube_is IsNotFound err \<longrightarrow> kept w key = None)"
  using assms [unfolded keeps_def, THEN conjunct2, THEN conjunct2, THEN conjunct2, rule_format, of key w None w1]
    assms [unfolded keeps_def, THEN conjunct2, THEN conjunct2, THEN conjunct2, rule_format, of key w "Some err" w1]
  by simp_all

subsection \<open>The shared steps\<close>

text \<open>An object that serves: not failed, not leaving, and ready at the generation it has.\<close>

definition usable :: "'w ionos_env \<Rightarrow> 's crossplane_object \<Rightarrow> bool" where
  "usable env obj \<longleftrightarrow>
     \<not> ie_reconcile_failed env (xo_synced obj) \<and> xo_deletion obj = None \<and> ready_seen obj"

lemma check_existing_keeps:
  assumes "keeps client kept" and "check_existing env client key w = (err, w1)"
  shows "kept w1 = kept w"
  using assms(2) by (auto simp: check_existing_def split: prod.splits sum.splits option.splits if_splits
      dest!: keeps_get [OF assms(1)])

lemma check_existing_done:
  assumes "keeps client kept" and "check_existing env client key w = (None, w1)"
  shows "\<exists>live. kept w key = Some live \<and> usable env live"
  using assms(2) by (auto simp: check_existing_def usable_def reconcile_error_def
      split: prod.splits sum.splits option.splits if_splits dest!: keeps_get [OF assms(1)])

lemma create_cr_done:
  assumes "keeps client kept" and "create_cr env client obj w = (None, w1)"
  shows "kept w1 = kept w \<and> (\<exists>live. kept w (xo_key obj) = Some live \<and> usable env live)"
proof -
  from assms(2) obtain err w2 where "xp_create client obj w = (Some err, w2)"
    and c: "check_existing env client (xo_key obj) w2 = (None, w1)"
    by (auto simp: create_cr_def split: prod.splits option.splits if_splits)
  with keeps_create(2) [OF assms(1)] have "kept w2 = kept w" by blast
  with check_existing_keeps [OF assms(1) c] check_existing_done [OF assms(1) c] show ?thesis by simp
qed

lemma create_cr_present:
  assumes "keeps client kept" and "kept w (xo_key obj) \<noteq> None" and "create_cr env client obj w = (err, w1)"
  shows "kept w1 = kept w"
proof -
  obtain res w2 where c: "xp_create client obj w = (res, w2)" by fastforce
  with keeps_create(1) [OF assms(1)] assms(2) obtain e where res: "res = Some e" by (cases res) auto
  with keeps_create(2) [OF assms(1)] c have w2: "kept w2 = kept w" by blast
  with assms(3) c res show ?thesis
    by (auto simp: create_cr_def split: if_splits dest!: check_existing_keeps [OF assms(1)])
qed

lemma delete_cr_done:
  assumes "keeps client kept" and "delete_cr env client key w = (None, w1)"
  shows "kept w1 key = None"
  using assms(2) by (auto simp: delete_cr_def split: prod.splits sum.splits option.splits if_splits
      dest!: keeps_get [OF assms(1)] keeps_delete [OF assms(1)])

lemma delete_cr_writes:
  assumes "keeps client kept" and "delete_cr env client key w = (err, w1)" and "other \<noteq> key"
  shows "kept w1 other = kept w other"
  using assms(2,3) by (auto simp: delete_cr_def split: prod.splits sum.splits option.splits if_splits
      dest!: keeps_get [OF assms(1)] keeps_delete [OF assms(1)])

subsection \<open>A kind with a Crossplane object\<close>

locale ionos_kind =
  fixes env :: "'w ionos_env" and client :: "('s, 'w) xp_client" and create delete :: "('r, 'w) delegated"
    and key_of :: "'r \<Rightarrow> string \<times> string"
  assumes leaves: "fst (snd (create r w)) = r" "fst (snd (delete r w)) = r"
    and create_done: "keeps client kept \<Longrightarrow> create r w = (None, r1, w1) \<Longrightarrow>
      \<exists>live. kept w1 (key_of r) = Some live \<and> usable env live"
    and delete_done: "keeps client kept \<Longrightarrow> delete r w = (None, r1, w1) \<Longrightarrow> kept w1 (key_of r) = None"
    and delete_own: "keeps client kept \<Longrightarrow> delete r w = (err, r1, w1) \<Longrightarrow> other \<noteq> key_of r \<Longrightarrow>
      kept w1 other = kept w other"

definition ionos_key :: "'w ionos_env \<Rightarrow> 'm global_tenant_metadata_scheme \<Rightarrow> string \<times> string" where
  "ionos_key env r = (tenant_namespace env r, md_name r)"

interpretation ionos_workspace: ionos_kind env "ie_datacenters env" "ionos_workspace_create env"
    "ionos_workspace_delete env" "ionos_key env" for env
proof
  fix r :: workspace and w r1 w1 and kept :: "'a \<Rightarrow> string \<times> string \<Rightarrow> datacenter_spec crossplane_object option" and err other
  assume k: "keeps (ie_datacenters env) kept"
  have key: "xo_key (new_datacenter env r) = ionos_key env r"
    by (simp add: new_datacenter_def new_crossplane_object_def xo_key_def ionos_key_def)
  show "ionos_workspace_create env r w = (None, r1, w1) \<Longrightarrow>
      \<exists>live. kept w1 (ionos_key env r) = Some live \<and> usable env live"
    by (auto simp: ionos_ops leaving_result workspace_store_create_def key dest!: create_cr_done [OF k])
  show "ionos_workspace_delete env r w = (None, r1, w1) \<Longrightarrow> kept w1 (ionos_key env r) = None"
    by (auto simp: ionos_ops leaving_result workspace_store_delete_def ionos_key_def dest!: delete_cr_done [OF k])
  show "ionos_workspace_delete env r w = (err, r1, w1) \<Longrightarrow> other \<noteq> ionos_key env r \<Longrightarrow> kept w1 other = kept w other"
    by (auto simp: ionos_ops leaving_result workspace_store_delete_def ionos_key_def dest!: delete_cr_writes [OF k])
qed (simp_all add: ionos_ops)

lemma network_store_create_done:
  assumes k: "keeps (ie_lans env) kept" and "network_store_create env r w = (None, w1)"
  shows "\<exists>live. kept w1 (ionos_key env r) = Some live \<and> usable env live"
proof -
  have key: "xo_key (new_lan env r) = ionos_key env r"
    by (simp add: new_lan_def new_crossplane_object_def xo_key_def ionos_key_def)
  obtain res w2 where get: "xp_get (ie_lans env) (ionos_key env r) w = (res, w2)" by fastforce
  show ?thesis
  proof (cases res)
    case (Inl e)
    with assms(2) get obtain w3 where "create_cr env (ie_lans env) (new_lan env r) w3 = (None, w1)"
      by (auto simp: network_store_create_def Let_def key split: if_splits prod.splits option.splits)
    from create_cr_done [OF k this] key show ?thesis by simp
  next
    case (Inr found)
    with keeps_get(1) [OF k] get have found: "xo_key found = ionos_key env r" by blast
    have "\<not> (update_cr (ie_lans env) u w2 = (None, w1))" for u
      by (auto simp: update_cr_def split: prod.splits option.splits)
    with assms(2) get Inr found have c: "check_existing env (ie_lans env) (ionos_key env r) w2 = (None, w1)"
      by (auto simp: network_store_create_def Let_def key split: if_splits)
    from check_existing_done [OF k c] check_existing_keeps [OF k c] show ?thesis by simp
  qed
qed

interpretation ionos_network: ionos_kind env "ie_lans env" "ionos_network_create env"
    "ionos_network_delete env" "ionos_key env" for env
proof
  fix r :: network and w r1 w1 and kept :: "'a \<Rightarrow> string \<times> string \<Rightarrow> lan_spec crossplane_object option" and err other
  assume k: "keeps (ie_lans env) kept"
  show "ionos_network_create env r w = (None, r1, w1) \<Longrightarrow>
      \<exists>live. kept w1 (ionos_key env r) = Some live \<and> usable env live"
    by (auto simp: ionos_ops leaving_result dest!: network_store_create_done [OF k])
  show "ionos_network_delete env r w = (None, r1, w1) \<Longrightarrow> kept w1 (ionos_key env r) = None"
    by (auto simp: ionos_ops leaving_result network_store_delete_def ionos_key_def dest!: delete_cr_done [OF k])
  show "ionos_network_delete env r w = (err, r1, w1) \<Longrightarrow> other \<noteq> ionos_key env r \<Longrightarrow> kept w1 other = kept w other"
    by (auto simp: ionos_ops leaving_result network_store_delete_def ionos_key_def dest!: delete_cr_writes [OF k])
qed (simp_all add: ionos_ops)

lemma new_volume_key: "new_volume env r w = (vol, w1) \<Longrightarrow> xo_key vol = ionos_key env r"
  by (auto simp: new_volume_def new_crossplane_object_def xo_key_def ionos_key_def split: prod.splits)

interpretation ionos_volume: ionos_kind env "ie_volumes env" "ionos_block_storage_create env"
    "ionos_block_storage_delete env" "ionos_key env" for env
proof
  fix r :: block_storage and w r1 w1 and kept :: "'a \<Rightarrow> string \<times> string \<Rightarrow> ionos_volume_spec crossplane_object option"
    and err other
  assume k: "keeps (ie_volumes env) kept"
  show "ionos_block_storage_create env r w = (None, r1, w1) \<Longrightarrow>
      \<exists>live. kept w1 (ionos_key env r) = Some live \<and> usable env live"
    by (auto simp: ionos_ops leaving_result block_storage_store_create_def
        split: prod.splits option.splits dest!: create_cr_done [OF k] new_volume_key)
  show "ionos_block_storage_delete env r w = (None, r1, w1) \<Longrightarrow> kept w1 (ionos_key env r) = None"
    by (auto simp: ionos_ops leaving_result block_storage_store_delete_def ionos_key_def dest!: delete_cr_done [OF k])
  show "ionos_block_storage_delete env r w = (err, r1, w1) \<Longrightarrow> other \<noteq> ionos_key env r \<Longrightarrow> kept w1 other = kept w other"
    by (auto simp: ionos_ops leaving_result block_storage_store_delete_def ionos_key_def dest!: delete_cr_writes [OF k])
qed (simp_all add: ionos_ops)

text \<open>A volume has grown only when the kept one is usable and has the size asked for.\<close>

lemma increase_size_done:
  assumes k: "keeps (ie_volumes env) kept" and "ionos_block_storage_increase_size env r w = (None, r1, w1)"
  shows "\<exists>live. kept w1 (ionos_key env r) = Some live \<and> usable env live \<and>
    ivs_size (xo_spec live) = Some (float64_of_int (bss_size_gb (bs_spec r)))"
proof -
  obtain res w2 where get: "xp_get (ie_volumes env) (ionos_key env r) w = (res, w2)" by fastforce
  have no: "\<not> (update_cr (ie_volumes env) u w2 = (None, w1))" for u
    by (auto simp: update_cr_def split: prod.splits option.splits)
  from assms(2) get no obtain vol where vol: "res = Inr vol"
    and c: "check_existing env (ie_volumes env) (xo_key vol) w2 = (None, w1)"
    and size: "ivs_size (xo_spec vol) = Some (float64_of_int (bss_size_gb (bs_spec r)))"
    by (auto simp: ionos_ops leaving_result block_storage_store_increase_def ionos_key_def Let_def
        split: sum.splits if_splits)
  from keeps_get(1) [OF k] get vol have found: "kept w2 = kept w" "kept w (ionos_key env r) = Some vol"
    "xo_key vol = ionos_key env r" by blast+
  with check_existing_done [OF k c] check_existing_keeps [OF k c] size show ?thesis by simp
qed

subsection \<open>With the plugin handler and the controller on top\<close>

locale ionos_managed =
  plain_reconciler deleted status_of put_status reconcile + ionos_kind env client create delete key_of
  for deleted :: "'r \<Rightarrow> bool" and status_of :: "'r \<Rightarrow> status option" and put_status :: "status \<Rightarrow> 'r \<Rightarrow> 'r"
    and reconcile :: "('r, 'w, 'm) plugin_handler_scheme \<Rightarrow> 'r \<Rightarrow> 'w \<Rightarrow> reconcile_result \<times> 'r \<times> 'w"
    and env :: "'w ionos_env" and client :: "('s, 'w) xp_client" and create delete :: "('r, 'w) delegated"
    and key_of :: "'r \<Rightarrow> string \<times> string"
begin

lemma active_has_object:
  assumes h: "h_create h = create" and q: "quiet_plugin deleted status_of h" and ok: "view_ok (status_of r)"
    and s: "keeps client kept" and st: "steady kept (h_repo h)" and f: "reconcile h r w = (res, r', w')"
    and a: "phase_of (status_of r') = Phase StateActive" "phase_of (status_of r) \<noteq> Phase StateActive"
  shows "\<exists>live. kept w' (key_of r) = Some live \<and> usable env live"
proof -
  from active_ran_create [OF q ok st f a] h leaves(1) obtain w1
    where "create r w = (None, r, w1)" "kept w' = kept w1" by metis
  with create_done [OF s this(1)] show ?thesis by simp
qed

lemma release_needs_absence:
  assumes h: "h_delete h = delete" and s: "keeps client kept" and st: "steady kept (h_repo h)" and ap: "apart kept c"
    and obj: "kc_get c name w = (Inr obj, w1)" "ko_deletion obj \<noteq> None" "conv obj = Inr r"
    and d: "deleted r" "status_of r \<noteq> None"
    and f: "controller_reconcile (logging c) conv (lifted (reconcile h)) after m (\<lambda>lw. now (snd lw)) name ([], w)
      = (res, (log, w'))"
    and wrote: "log \<noteq> []"
  shows "kept w' (key_of r) = None"
proof -
  have l: "\<And>w. fst (snd (h_delete h r w)) = r" by (simp add: h leaves(2))
  from release_ran_delete [OF st ap obj d f wrote l] h obtain w2
    where "delete r w1 = (None, r, w2)" "kept w' = kept w2" by auto
  with delete_done [OF s this(1)] show ?thesis by simp
qed

end

interpretation ionos_workspace_managed: ionos_managed deleted_at workspace_view put_workspace_status
    workspace_handle_reconcile env "ie_datacenters env" "ionos_workspace_create env" "ionos_workspace_delete env"
    "ionos_key env" for env ..

interpretation ionos_network_managed: ionos_managed deleted_at network_view put_network_status
    network_handle_reconcile env "ie_lans env" "ionos_network_create env" "ionos_network_delete env"
    "ionos_key env" for env ..

end
