(* ===== verification/Ionos_Properties.thy ===== *)
theory Ionos_Properties
  imports Ionos_Contract Stored_Resources
begin

section \<open>The IONOS plugin under the platform\<close>

text \<open>
  A resource is active only with a usable Crossplane object and is released only without one. The
  names of those objects are the names of the resources, in one namespace per tenant: volumes of the
  same name in two workspaces share one.
\<close>

subsection \<open>An in-memory server\<close>

text \<open>A server that keeps three lists of objects; what it creates is ready at once.\<close>

record ionos_memory =
  im_datacenters :: "datacenter_spec crossplane_object list"
  im_lans :: "lan_spec crossplane_object list"
  im_volumes :: "ionos_volume_spec crossplane_object list"

definition ready_condition :: crossplane_condition where
  "ready_condition = \<lparr>xc_status = ''True'', xc_reason = ''Available'', xc_message = [], xc_observed = 0\<rparr>"

definition held :: "('w \<Rightarrow> 's crossplane_object list) \<Rightarrow> 'w \<Rightarrow> string \<times> string \<Rightarrow> 's crossplane_object option" where
  "held objects w key = find (\<lambda>obj. xo_key obj = key) (objects w)"

definition memory_client ::
  "('w \<Rightarrow> 's crossplane_object list) \<Rightarrow> ('s crossplane_object list \<Rightarrow> 'w \<Rightarrow> 'w) \<Rightarrow> ('s, 'w) xp_client" where
  "memory_client objects put =
    \<lparr>xp_get = (\<lambda>key w. (case held objects w key of
       None \<Rightarrow> Inl (KubeError [IsNotFound] True None ''not found'') | Some obj \<Rightarrow> Inr obj, w)),
     xp_create = (\<lambda>obj w. case held objects w (xo_key obj) of
       Some old \<Rightarrow> (Some (KubeError [IsAlreadyExists] True None ''already exists''), w)
     | None \<Rightarrow> (None, put (obj\<lparr>xo_ready := ready_condition\<rparr> # objects w) w)),
     xp_update = (\<lambda>obj w. (None, put (obj # objects w) w)),
     xp_delete = (\<lambda>key w. case held objects w key of
       None \<Rightarrow> (Some (KubeError [IsNotFound] True None ''not found''), w)
     | Some old \<Rightarrow> (None, put (filter (\<lambda>obj. xo_key obj \<noteq> key) (objects w)) w))\<rparr>"

definition memory_ionos :: "ionos_memory ionos_env" where
  "memory_ionos =
    \<lparr>ie_datacenters = memory_client im_datacenters (\<lambda>xs m. m\<lparr>im_datacenters := xs\<rparr>),
     ie_lans = memory_client im_lans (\<lambda>xs m. m\<lparr>im_lans := xs\<rparr>),
     ie_volumes = memory_client im_volumes (\<lambda>xs m. m\<lparr>im_volumes := xs\<rparr>),
     ie_rand = (\<lambda>n m. (replicate n 0, m)),
     ie_reconcile_failed = (\<lambda>c. xc_status c = ''False'' \<and> xc_reason c = ''ReconcileError''),
     ie_sha3 = (\<lambda>s. s)\<rparr>"

lemma held_key: "held objects w key = Some obj \<Longrightarrow> xo_key obj = key"
  by (auto simp: held_def find_Some_iff)

lemma held_put:
  fixes objects :: "'w \<Rightarrow> 's crossplane_object list"
  assumes "\<And>xs w. objects (put xs w) = xs"
  shows "held objects (put (obj # objects w) w) = (held objects w)(xo_key obj \<mapsto> obj)"
    and "held objects (put (filter (\<lambda>obj. xo_key obj \<noteq> key) (objects w)) w) = (held objects w)(key := None)"
proof -
  show "held objects (put (obj # objects w) w) = (held objects w)(xo_key obj \<mapsto> obj)"
    by (auto simp: held_def assms)
  have "find (\<lambda>obj. xo_key obj = k) (filter (\<lambda>obj. xo_key obj \<noteq> key) xs) =
      (if k = key then None else find (\<lambda>obj. xo_key obj = k) xs)" for k and xs :: "'s crossplane_object list"
    by (induction xs) auto
  then show "held objects (put (filter (\<lambda>obj. xo_key obj \<noteq> key) (objects w)) w) = (held objects w)(key := None)"
    by (simp add: held_def [abs_def] assms fun_eq_iff del: split_paired_All)
qed

lemma memory_client_keeps:
  assumes p: "\<And>xs w. objects (put xs w) = xs"
  shows "keeps (memory_client objects put) (held objects)"
proof -
  have "xo_key (obj\<lparr>xo_ready := c\<rparr>) = xo_key obj" for obj :: "'a crossplane_object" and c
    by (simp add: xo_key_def)
  then have c: "held objects (put (obj\<lparr>xo_ready := ready_condition\<rparr> # objects w) w) =
      (held objects w)(xo_key obj \<mapsto> obj\<lparr>xo_ready := ready_condition\<rparr>)" for obj w
    using held_put(1) [of objects put "obj\<lparr>xo_ready := ready_condition\<rparr>" w, OF p] by simp
  have "\<exists>made. (held objects w)(xo_key obj \<mapsto> obj\<lparr>xo_ready := ready_condition\<rparr>) = (held objects w)(xo_key obj \<mapsto> made)
      \<and> xo_spec made = xo_spec obj" for obj w
    by (rule exI [of _ "obj\<lparr>xo_ready := ready_condition\<rparr>"]) simp
  with c show ?thesis
    unfolding keeps_def memory_client_def
    by (auto simp: held_put [of objects put, OF p] held_key kube_is_KubeError split: option.splits)
qed

lemma memory_ionos_keeps:
  "keeps (ie_datacenters memory_ionos) (held im_datacenters)"
  "keeps (ie_lans memory_ionos) (held im_lans)"
  "keeps (ie_volumes memory_ionos) (held im_volumes)"
  by (simp_all add: memory_ionos_def memory_client_keeps)

subsection \<open>Passwords\<close>

lemma random_password_plain:
  assumes "random_password env w = (password, w1)" and "\<And>w. length (fst (ie_rand env 24 w)) = 24"
  shows "length password = 24 \<and> set password \<subseteq> set password_charset"
proof -
  obtain bytes w2 where r: "ie_rand env 24 w = (bytes, w2)" by fastforce
  have "password_charset ! (b mod length password_charset) \<in> set password_charset" for b
    by (rule nth_mem) (simp add: password_charset_def)
  with assms r show ?thesis by (auto simp: random_password_def) (metis fst_conv)
qed

subsection \<open>Objects and resources\<close>

definition active_only_usable where
  "active_only_usable env client deleted status_of reconcile create \<longleftrightarrow>
     (\<forall>ph kept r w res r' w'.
        h_create ph = create \<longrightarrow> quiet_plugin deleted status_of ph \<longrightarrow> view_ok (status_of r) \<longrightarrow>
        keeps client kept \<longrightarrow> steady kept (h_repo ph) \<longrightarrow> reconcile ph r w = (res, r', w') \<longrightarrow>
        phase_of (status_of r') = Phase StateActive \<longrightarrow> phase_of (status_of r) \<noteq> Phase StateActive \<longrightarrow>
        (\<exists>live. kept w' (ionos_key env r) = Some live \<and> usable env live))"

lemma active_only_usableD:
  assumes "active_only_usable env client deleted status_of reconcile create"
    and "h_create ph = create" "quiet_plugin deleted status_of ph" "view_ok (status_of r)"
    and "keeps client kept" "steady kept (h_repo ph)" "reconcile ph r w = (res, r', w')"
    and "phase_of (status_of r') = Phase StateActive" "phase_of (status_of r) \<noteq> Phase StateActive"
  shows "\<exists>live. kept w' (ionos_key env r) = Some live \<and> usable env live"
  using assms unfolding active_only_usable_def by blast

definition released_only_gone where
  "released_only_gone c conv env client deleted status_of reconcile delete \<longleftrightarrow>
     (\<forall>ph kept after m now name w obj w1 r log res w'.
        h_delete ph = delete \<longrightarrow> keeps client kept \<longrightarrow> steady kept (h_repo ph) \<longrightarrow> apart kept c \<longrightarrow>
        kc_get c name w = (Inr obj, w1) \<longrightarrow> ko_deletion obj \<noteq> None \<longrightarrow> conv obj = Inr r \<longrightarrow>
        deleted r \<longrightarrow> status_of r \<noteq> None \<longrightarrow>
        controller_reconcile (logging c) conv (lifted (reconcile ph)) after m (\<lambda>lw. now (snd lw)) name ([], w)
          = (res, (log, w')) \<longrightarrow> log \<noteq> [] \<longrightarrow>
        kept w' (ionos_key env r) = None)"

definition volumes_follow :: "'w ionos_env \<Rightarrow> bool" where
  "volumes_follow env \<longleftrightarrow>
     (\<forall>kept r w r1 w1. keeps (ie_volumes env) kept \<longrightarrow>
        (ionos_block_storage_create env r w = (None, r1, w1) \<longrightarrow>
           (\<exists>live. kept w1 (ionos_key env r) = Some live \<and> usable env live)) \<and>
        (ionos_block_storage_increase_size env r w = (None, r1, w1) \<longrightarrow>
           (\<exists>live. kept w1 (ionos_key env r) = Some live \<and> usable env live \<and>
              ivs_size (xo_spec live) = Some (float64_of_int (bss_size_gb (bs_spec r))))) \<and>
        (ionos_block_storage_delete env r w = (None, r1, w1) \<longrightarrow> kept w1 (ionos_key env r) = None))"

text \<open>
  C23. The IONOS plugin follows its objects. A pass that takes a workspace or a network to active ends with
  its datacenter or LAN on the server, without an error, not leaving, and ready at its generation; the
  controller releases one only when that object is gone. A volume is created, grown or deleted only
  when the server has it usable, has it usable in the size asked for, or has it no more.
\<close>

theorem ionos_follows_its_objects:
  "active_only_usable env (ie_datacenters env) deleted_at workspace_view workspace_handle_reconcile
     (ionos_workspace_create env) \<and>
   active_only_usable env (ie_lans env) deleted_at network_view network_handle_reconcile
     (ionos_network_create env) \<and>
   released_only_gone c conv1 env (ie_datacenters env) deleted_at workspace_view workspace_handle_reconcile
     (ionos_workspace_delete env) \<and>
   released_only_gone c conv2 env (ie_lans env) deleted_at network_view network_handle_reconcile
     (ionos_network_delete env) \<and>
   volumes_follow env"
  unfolding active_only_usable_def released_only_gone_def volumes_follow_def
  by (intro conjI allI impI;
      (rule ionos_workspace_managed.active_has_object ionos_network_managed.active_has_object
        ionos_workspace_managed.release_needs_absence ionos_network_managed.release_needs_absence
        ionos_volume.create_done ionos_volume.delete_done increase_size_done; assumption))

subsection \<open>One namespace per tenant\<close>

definition beside_volumes :: "'w ionos_env \<Rightarrow> ('w \<Rightarrow> 'k) \<Rightarrow> bool" where
  "beside_volumes env kept \<longleftrightarrow>
     (\<forall>key w. kept (snd (xp_get (ie_datacenters env) key w)) = kept w) \<and>
     (\<forall>n w. kept (snd (ie_rand env n w)) = kept w)"

lemma check_existing_world: "snd (check_existing env client key w) = snd (xp_get client key w)"
  by (simp add: check_existing_def split: prod.split sum.split option.split)

text \<open>
  C24. Volumes of one name share one cloud volume within a tenant. When the server has the volume of block
  storage a, then for a block storage b of the same tenant and name, in whatever workspace, Create makes
  no volume, whatever it answers, and when Delete of b succeeds, the volume of a is gone.
\<close>

theorem ionos_names_are_tenant_wide:
  fixes a b :: block_storage
  assumes k: "keeps (ie_volumes env) kept" and o1: "beside_volumes env kept"
    and same: "md_tenant b = md_tenant a" "md_name b = md_name a"
    and made: "kept w (ionos_key env a) = Some live"
  shows "(ionos_block_storage_create env b w = (err, r1, w1) \<longrightarrow> kept w1 = kept w) \<and>
    (ionos_block_storage_delete env b w = (None, r2, w2) \<longrightarrow> kept w2 (ionos_key env a) = None)"
proof (intro conjI impI)
  have key: "ionos_key env b = ionos_key env a"
    by (simp add: ionos_key_def tenant_namespace_def same)
  assume "ionos_block_storage_create env b w = (err, r1, w1)"
  then have c: "block_storage_store_create env b w = (err, w1)" by (simp add: ionos_ops leaving_result)
  obtain e v where dc: "check_existing env (ie_datacenters env) (tenant_namespace env b, md_workspace b) w = (e, v)"
    by fastforce
  then have v: "kept v = kept w"
    using o1 check_existing_world [of env "ie_datacenters env" _ w] unfolding beside_volumes_def by (metis snd_conv)
  obtain vol u where vol: "new_volume env b v = (vol, u)" by fastforce
  then have "u = snd (ie_rand env 24 v)" by (auto simp: new_volume_def random_password_def split: prod.splits)
  with o1 v have u: "kept u = kept w" unfolding beside_volumes_def by simp
  show "kept w1 = kept w"
  proof (cases e)
    case (Some err')
    with c dc v show ?thesis by (simp add: block_storage_store_create_def)
  next
    case None
    with c dc vol have "create_cr env (ie_volumes env) vol u = (err, w1)" by (simp add: block_storage_store_create_def)
    from create_cr_present [OF k _ this] u made key new_volume_key [OF vol] show ?thesis by simp
  qed
next
  assume "ionos_block_storage_delete env b w = (None, r2, w2)"
  from ionos_volume.delete_done [OF k this] same show "kept w2 (ionos_key env a) = None"
    by (simp add: ionos_key_def tenant_namespace_def)
qed

subsection \<open>The properties on the in-memory server\<close>

definition tenant_workspace :: workspace where
  "tenant_workspace =
     \<lparr>md_name = ''w'', md_provider = ''seca.workspace/v1'', md_version = ''1'', md_created = 0, md_updated = 0,
      md_deleted = None, md_tenant = ''t'', md_workspace = [], md_labels = [], md_annotations = [],
      md_extensions = [], md_region = ''eu'', ws_spec = [],
      ws_status = Some \<lparr>wss_status = \<lparr>st_state = StateCreating,
        st_conditions = [default_pending_condition\<lparr>c_state := StateCreating\<rparr>]\<rparr>, wss_resource_count = None\<rparr>\<rparr>"

definition served_memory :: ionos_memory where
  "served_memory = snd (snd (ionos_block_storage_create memory_ionos demo_volume
     \<lparr>im_datacenters = map (\<lambda>ws. (new_datacenter memory_ionos ws)\<lparr>xo_ready := ready_condition\<rparr>)
        [tenant_workspace, tenant_workspace\<lparr>md_name := ''w2''\<rparr>], im_lans = [], im_volumes = []\<rparr>))"

definition ionos_pass :: "reconcile_result \<times> workspace \<times> ionos_memory" where
  "ionos_pass = workspace_handle_reconcile
     (silent_handler (ionos_workspace_create memory_ionos) (ionos_workspace_delete memory_ionos))
     tenant_workspace served_memory"

lemma ionos_pass_active: "phase_of (workspace_view (fst (snd ionos_pass))) = Phase StateActive"
  by code_simp

lemma tenant_workspace_view:
  "phase_of (workspace_view tenant_workspace) = Phase StateCreating" "view_ok (workspace_view tenant_workspace)"
  by code_simp+

lemma ionos_follows_its_objects_witness:
  "\<exists>live. held im_datacenters (snd (snd ionos_pass)) (''t'', ''w'') = Some live \<and> usable memory_ionos live"
proof -
  obtain res r m where run: "ionos_pass = (res, r, m)" by (metis prod_cases3)
  have phases: "phase_of (workspace_view r) = Phase StateActive" "phase_of (workspace_view tenant_workspace) \<noteq> Phase StateActive"
    using ionos_pass_active tenant_workspace_view unfolding run by simp_all
  have key: "ionos_key memory_ionos tenant_workspace = (''t'', ''w'')" by code_simp
  have "active_only_usable memory_ionos (ie_datacenters memory_ionos) deleted_at workspace_view
      workspace_handle_reconcile (ionos_workspace_create memory_ionos)"
    by (rule ionos_follows_its_objects [THEN conjunct1])
  from active_only_usableD [OF this _ silent_quiet tenant_workspace_view(2) memory_ionos_keeps(1) _
      run [unfolded ionos_pass_def] phases]
  show ?thesis by (simp add: run key ionos_workspace.leaves)
qed

text \<open>Block storage \<open>v\<close> of workspace \<open>w2\<close> becomes done without a volume, and takes that of \<open>w\<close> with it.\<close>

lemma ionos_names_are_tenant_wide_witness:
  "(case ionos_block_storage_create memory_ionos (demo_volume\<lparr>md_workspace := ''w2''\<rparr>) served_memory of
      (err, r1, m1) \<Rightarrow> err = None \<and> held im_volumes m1 = held im_volumes served_memory) \<and>
   (case ionos_block_storage_delete memory_ionos (demo_volume\<lparr>md_workspace := ''w2''\<rparr>) served_memory of
      (err, r2, m2) \<Rightarrow> err = None \<and> held im_volumes m2 (ionos_key memory_ionos demo_volume) = None)"
proof -
  let ?b = "demo_volume\<lparr>md_workspace := ''w2''\<rparr>"
  obtain err r1 m1 where c: "ionos_block_storage_create memory_ionos ?b served_memory = (err, r1, m1)"
    by (metis prod_cases3)
  obtain e r2 m2 where d: "ionos_block_storage_delete memory_ionos ?b served_memory = (e, r2, m2)"
    by (metis prod_cases3)
  have finished: "fst (ionos_block_storage_create memory_ionos ?b served_memory) = None"
    "fst (ionos_block_storage_delete memory_ionos ?b served_memory) = None" by code_simp+
  have "held im_volumes served_memory (ionos_key memory_ionos demo_volume) \<noteq> None" by code_simp
  then obtain live where live: "held im_volumes served_memory (ionos_key memory_ionos demo_volume) = Some live" by blast
  have "beside_volumes memory_ionos (held im_volumes)"
    by (auto simp: beside_volumes_def memory_ionos_def memory_client_def)
  from ionos_names_are_tenant_wide [OF memory_ionos_keeps(3) this _ _ live, of ?b err r1 m1 r2 m2] c d finished
  show ?thesis by simp
qed

end
