(* ===== verification/Controllers.thy ===== *)
theory Controllers
  imports Handler_Properties Image_Handler Block_Storage_Handler Instance_Handler Controller Dependencies
    Stored_Resources
begin

section \<open>The controllers as they are built\<close>

text \<open>
  \<^verbatim>\<open>framework/backend/kubernetes/builder/controllerset.go\<close> and the \<^verbatim>\<open>NewController\<close> of every resource
  (\<^verbatim>\<open>resource/*/backend/kubernetes/controller.go\<close>): the repository over the dynamic client, the plugin
  handler over repository and plugin, and the generic controller over the client of the manager, the
  converter and the handler, with the options of the process. A logger is opaque (\<open>'l\<close>).
\<close>

subsection \<open>Options\<close>

text \<open>Durations are in nanoseconds.\<close>

definition default_requeue_time :: nat where
  "default_requeue_time = 5 * 60 * 10 ^ 9"

definition default_max_conditions :: int where
  "default_max_conditions = 5"

record 'l builder_options =
  bo_logger :: 'l
  bo_requeue_after :: nat
  bo_max_conditions :: int

type_synonym 'l builder_option = "'l builder_options \<Rightarrow> 'l builder_options"

definition with_logger :: "'l option \<Rightarrow> 'l builder_option" where
  "with_logger logger opts = (case logger of None \<Rightarrow> opts | Some l \<Rightarrow> opts\<lparr>bo_logger := l\<rparr>)"

definition with_requeue_after :: "nat \<Rightarrow> 'l builder_option" where
  "with_requeue_after after opts =
    (if after = 0 then opts else opts\<lparr>bo_requeue_after := after\<rparr>)"

definition with_max_conditions :: "int \<Rightarrow> 'l builder_option" where
  "with_max_conditions max_conditions opts = opts\<lparr>bo_max_conditions := max_conditions\<rparr>"

definition apply_options :: "'l \<Rightarrow> 'l builder_option option list \<Rightarrow> 'l builder_options" where
  "apply_options default_logger opts =
    fold (\<lambda>opt o1. case opt of None \<Rightarrow> o1 | Some f \<Rightarrow> f o1) opts
      \<lparr>bo_logger = default_logger, bo_requeue_after = default_requeue_time,
       bo_max_conditions = default_max_conditions\<rparr>"

subsection \<open>The set of controllers\<close>

text \<open>
  A controller that can be registered, by what its \<^verbatim>\<open>SetupWithManager\<close> does to the manager. The set may
  be a nil pointer when it is set up.
\<close>

type_synonym 'g reconciler_setup = "'g \<Rightarrow> go_error option \<times> 'g"

type_synonym 'g controller_set = "'g reconciler_setup list"

definition new_controller_set :: "'g controller_set" where
  "new_controller_set = []"

definition controller_set_add :: "'g controller_set \<Rightarrow> 'g reconciler_setup \<Rightarrow> 'g controller_set" where
  "controller_set_add cs r = cs @ [r]"

fun setup_each :: "'g reconciler_setup list \<Rightarrow> 'g \<Rightarrow> go_error option \<times> 'g" where
  "setup_each [] g = (None, g)"
| "setup_each (r # rs) g =
    (case r g of
       (Some err, g1) \<Rightarrow> (Some (wrapf ''failed to set up controller'' err), g1)
     | (None, g1) \<Rightarrow> setup_each rs g1)"

definition setup_with_manager :: "'g controller_set option \<Rightarrow> 'g \<Rightarrow> go_error option \<times> 'g" where
  "setup_with_manager cs g =
    (case cs of
       None \<Rightarrow> (Some (GoError ''controller set cannot be nil''), g)
     | Some [] \<Rightarrow> (Some (GoError ''controller set has no reconcilers registered''), g)
     | Some (r # rs) \<Rightarrow> setup_each (r # rs) g)"

subsection \<open>What the constructors are given\<close>

text \<open>
  The operations of a plugin (\<^verbatim>\<open>plugin.go\<close> of every resource), with those that only volumes and
  instances have.
\<close>

record ('r, 'w) plugin =
  pl_create :: "('r, 'w) delegated"
  pl_update :: "('r, 'w) delegated"
  pl_delete :: "('r, 'w) delegated"

record ('r, 'w) volume_plugin = "('r, 'w) plugin" +
  pl_increase_size :: "('r, 'w) delegated"

record ('r, 'w) power_plugin = "('r, 'w) plugin" +
  pl_power_on :: "('r, 'w) delegated"
  pl_power_off :: "('r, 'w) delegated"

text \<open>
  The world a process runs in: the dynamic client, the hash, the clock of the world, apimachinery's
  decoding of a stored reference and the JSON of a workspace's specification.
\<close>

record 'w controller_env =
  ce_client :: "'w dyn_client"
  ce_sha3 :: "string \<Rightarrow> string"
  ce_clock :: "'w \<Rightarrow> time"
  ce_decode_ref :: "json_map \<Rightarrow> go_error + reference"
  ce_json :: json_codec

text \<open>
  \<^verbatim>\<open>NewRepoAdapter\<close>: reader, writer and watcher of one kind over one client. Listing, which no plugin
  handler asks its repository for, is an argument: the adapter's may panic on a pattern
  (\<open>adapter_list\<close>), which the port has no value for.
\<close>

type_synonym ('r, 'w) lister = "list_params \<Rightarrow> 'w \<Rightarrow> (go_error + 'r list \<times> string option) \<times> 'w"

definition new_repo_adapter :: "('r, 'w) adapter \<Rightarrow> ('r, 'w) lister \<Rightarrow> ('r, 'w) repo" where
  "new_repo_adapter a listing =
    \<lparr>rp_create = adapter_create a, rp_update = adapter_update a, rp_update_status = adapter_update_status a,
     rp_delete = adapter_delete a, rp_load = adapter_load a, rp_list = listing\<rparr>"

text \<open>
  The typed object the manager's client reads and the controller works on: the fields \<open>kube_object\<close>
  has, over the rest of the struct. \<open>object_of\<close> is the object of a custom resource, \<open>typed_object\<close>
  the custom resource it is by now; \<open>get\<close> and \<open>put\<close> find state and conditions in its status.
\<close>

type_synonym ('s, 't) typed_kube_object = "('s, 't) custom_resource kube_object_scheme"

definition object_of :: "('t \<Rightarrow> status) \<Rightarrow> ('s, 't) custom_resource \<Rightarrow> ('s, 't) typed_kube_object" where
  "object_of get cr = kube_object.extend
     (kube_object.make (cr_deleted cr) (cr_finalizers cr) (map_option get (cr_status cr))) cr"

definition typed_object ::
  "(status \<Rightarrow> 't option \<Rightarrow> 't) \<Rightarrow> ('s, 't) typed_kube_object \<Rightarrow> ('s, 't) custom_resource" where
  "typed_object put obj = (kube_object.more obj)
     \<lparr>cr_deleted := ko_deletion obj, cr_finalizers := ko_finalizers obj,
      cr_status := map_option (\<lambda>st. put st (cr_status (kube_object.more obj))) (ko_status obj)\<rparr>"

definition zero_network_cr_status :: network_cr_status where
  "zero_network_cr_status = \<lparr>ncs_additional_cidrs = [], ncs_cidr = \<lparr>cidr_ipv4 = [], cidr_ipv6 = []\<rparr>, ncs_status = empty_status\<rparr>"

subsection \<open>The workspace controller\<close>

definition put_workspace_cr_status :: "status \<Rightarrow> workspace_status option \<Rightarrow> workspace_status" where
  "put_workspace_cr_status st s = (case s of None \<Rightarrow> zero_workspace_status | Some t \<Rightarrow> t)\<lparr>wss_status := st\<rparr>"

definition new_workspace_plugin_handler ::
  "(workspace, 'w) repo \<Rightarrow> (workspace, 'w, 'e) plugin_scheme \<Rightarrow> int \<Rightarrow> ('w \<Rightarrow> time) \<Rightarrow> (workspace, 'w) plugin_handler" where
  "new_workspace_plugin_handler repo plugin max_conditions now =
    \<lparr>h_repo = repo, h_create = pl_create plugin, h_update = pl_update plugin, h_delete = pl_delete plugin,
     h_max_conditions = max_conditions, h_now = now\<rparr>"

definition new_workspace_controller ::
  "'w controller_env \<Rightarrow> (strmap, workspace_status) cr_codec \<Rightarrow> (workspace, 'w) lister
   \<Rightarrow> ((strmap, workspace_status) typed_kube_object, 'w) kube_client \<Rightarrow> (workspace, 'w) plugin \<Rightarrow> 'l builder_option option list
   \<Rightarrow> 'l \<Rightarrow> string \<Rightarrow> 'w \<Rightarrow> controller_result \<times> 'w" where
  "new_workspace_controller env codec listing client plugin opts default_logger =
    (let options = apply_options default_logger opts;
         repo = new_repo_adapter (workspace_adapter (ce_client env) (ce_json env) (ce_sha3 env) (cc_encode codec) (cc_decode codec) (cc_now codec)) listing;
         handler = new_workspace_plugin_handler repo plugin (bo_max_conditions options) (ce_clock env)
     in controller_reconcile client
          (\<lambda>obj. workspace_from_cr (ce_json env) (cc_decode codec) (ce_sha3 env) (cc_now codec) (Typed (typed_object put_workspace_cr_status obj)))
          (workspace_handle_reconcile handler) (bo_requeue_after options) (bo_max_conditions options) (ce_clock env))"

subsection \<open>The network controller\<close>

definition put_network_cr_status :: "status \<Rightarrow> network_cr_status option \<Rightarrow> network_cr_status" where
  "put_network_cr_status st s = (case s of None \<Rightarrow> zero_network_cr_status | Some t \<Rightarrow> t)\<lparr>ncs_status := st\<rparr>"

definition new_network_plugin_handler ::
  "(network, 'w) repo \<Rightarrow> (network, 'w, 'e) plugin_scheme \<Rightarrow> int \<Rightarrow> ('w \<Rightarrow> time) \<Rightarrow> (network, 'w) plugin_handler" where
  "new_network_plugin_handler repo plugin max_conditions now =
    \<lparr>h_repo = repo, h_create = pl_create plugin, h_update = pl_update plugin, h_delete = pl_delete plugin,
     h_max_conditions = max_conditions, h_now = now\<rparr>"

definition new_network_controller ::
  "'w controller_env \<Rightarrow> (network_spec, network_cr_status) cr_codec \<Rightarrow> (network, 'w) lister
   \<Rightarrow> ((network_spec, network_cr_status) typed_kube_object, 'w) kube_client \<Rightarrow> (network, 'w) plugin \<Rightarrow> 'l builder_option option list
   \<Rightarrow> 'l \<Rightarrow> string \<Rightarrow> 'w \<Rightarrow> controller_result \<times> 'w" where
  "new_network_controller env codec listing client plugin opts default_logger =
    (let options = apply_options default_logger opts;
         repo = new_repo_adapter (network_adapter (ce_client env) (ce_sha3 env) (cc_encode codec) (cc_decode codec) (cc_now codec)) listing;
         handler = new_network_plugin_handler repo plugin (bo_max_conditions options) (ce_clock env)
     in controller_reconcile client
          (\<lambda>obj. network_from_cr (cc_decode codec) (ce_sha3 env) (cc_now codec) (Typed (typed_object put_network_cr_status obj)))
          (network_handle_reconcile handler) (bo_requeue_after options) (bo_max_conditions options) (ce_clock env))"

subsection \<open>The internet gateway controller\<close>

definition new_internet_gateway_plugin_handler ::
  "(internet_gateway, 'w) repo \<Rightarrow> (internet_gateway, 'w, 'e) plugin_scheme \<Rightarrow> int \<Rightarrow> ('w \<Rightarrow> time) \<Rightarrow> (internet_gateway, 'w) plugin_handler" where
  "new_internet_gateway_plugin_handler repo plugin max_conditions now =
    \<lparr>h_repo = repo, h_create = pl_create plugin, h_update = pl_update plugin, h_delete = pl_delete plugin,
     h_max_conditions = max_conditions, h_now = now\<rparr>"

definition new_internet_gateway_controller ::
  "'w controller_env \<Rightarrow> (internet_gateway_cr_spec, status) cr_codec \<Rightarrow> (internet_gateway, 'w) lister
   \<Rightarrow> ((internet_gateway_cr_spec, status) typed_kube_object, 'w) kube_client \<Rightarrow> (internet_gateway, 'w) plugin \<Rightarrow> 'l builder_option option list
   \<Rightarrow> 'l \<Rightarrow> string \<Rightarrow> 'w \<Rightarrow> controller_result \<times> 'w" where
  "new_internet_gateway_controller env codec listing client plugin opts default_logger =
    (let options = apply_options default_logger opts;
         repo = new_repo_adapter (internet_gateway_adapter (ce_client env) (ce_sha3 env) (cc_encode codec) (cc_decode codec) (cc_now codec)) listing;
         handler = new_internet_gateway_plugin_handler repo plugin (bo_max_conditions options) (ce_clock env)
     in controller_reconcile client
          (\<lambda>obj. internet_gateway_from_cr (cc_decode codec) (ce_sha3 env) (cc_now codec) (Typed (typed_object (\<lambda>st s. st) obj)))
          (internet_gateway_handle_reconcile handler) (bo_requeue_after options) (bo_max_conditions options) (ce_clock env))"

subsection \<open>The nic controller\<close>

definition put_nic_cr_status :: "status \<Rightarrow> nic_status option \<Rightarrow> nic_status" where
  "put_nic_cr_status st s = (case s of None \<Rightarrow> zero_nic_status | Some t \<Rightarrow> t)\<lparr>nicst_status := st\<rparr>"

definition new_nic_plugin_handler ::
  "(nic, 'w) repo \<Rightarrow> (nic, 'w, 'e) plugin_scheme \<Rightarrow> int \<Rightarrow> ('w \<Rightarrow> time) \<Rightarrow> (nic, 'w) plugin_handler" where
  "new_nic_plugin_handler repo plugin max_conditions now =
    \<lparr>h_repo = repo, h_create = pl_create plugin, h_update = pl_update plugin, h_delete = pl_delete plugin,
     h_max_conditions = max_conditions, h_now = now\<rparr>"

definition new_nic_controller ::
  "'w controller_env \<Rightarrow> (nic_cr_spec, nic_status) cr_codec \<Rightarrow> (nic, 'w) lister
   \<Rightarrow> ((nic_cr_spec, nic_status) typed_kube_object, 'w) kube_client \<Rightarrow> (nic, 'w) plugin \<Rightarrow> 'l builder_option option list
   \<Rightarrow> 'l \<Rightarrow> string \<Rightarrow> 'w \<Rightarrow> controller_result \<times> 'w" where
  "new_nic_controller env codec listing client plugin opts default_logger =
    (let options = apply_options default_logger opts;
         repo = new_repo_adapter (nic_adapter (ce_client env) (ce_sha3 env) (cc_encode codec) (cc_decode codec) (cc_now codec)) listing;
         handler = new_nic_plugin_handler repo plugin (bo_max_conditions options) (ce_clock env)
     in controller_reconcile client
          (\<lambda>obj. nic_from_cr (cc_decode codec) (ce_sha3 env) (cc_now codec) (Typed (typed_object put_nic_cr_status obj)))
          (nic_handle_reconcile handler) (bo_requeue_after options) (bo_max_conditions options) (ce_clock env))"

subsection \<open>The public ip controller\<close>

definition put_public_ip_cr_status :: "status \<Rightarrow> public_ip_status option \<Rightarrow> public_ip_status" where
  "put_public_ip_cr_status st s = (case s of None \<Rightarrow> zero_public_ip_status | Some t \<Rightarrow> t)\<lparr>pist_status := st\<rparr>"

definition new_public_ip_plugin_handler ::
  "(public_ip, 'w) repo \<Rightarrow> (public_ip, 'w, 'e) plugin_scheme \<Rightarrow> int \<Rightarrow> ('w \<Rightarrow> time) \<Rightarrow> (public_ip, 'w) plugin_handler" where
  "new_public_ip_plugin_handler repo plugin max_conditions now =
    \<lparr>h_repo = repo, h_create = pl_create plugin, h_update = pl_update plugin, h_delete = pl_delete plugin,
     h_max_conditions = max_conditions, h_now = now\<rparr>"

definition new_public_ip_controller ::
  "'w controller_env \<Rightarrow> (public_ip_cr_spec, public_ip_status) cr_codec \<Rightarrow> (public_ip, 'w) lister
   \<Rightarrow> ((public_ip_cr_spec, public_ip_status) typed_kube_object, 'w) kube_client \<Rightarrow> (public_ip, 'w) plugin \<Rightarrow> 'l builder_option option list
   \<Rightarrow> 'l \<Rightarrow> string \<Rightarrow> 'w \<Rightarrow> controller_result \<times> 'w" where
  "new_public_ip_controller env codec listing client plugin opts default_logger =
    (let options = apply_options default_logger opts;
         repo = new_repo_adapter (public_ip_adapter (ce_client env) (ce_sha3 env) (cc_encode codec) (cc_decode codec) (cc_now codec)) listing;
         handler = new_public_ip_plugin_handler repo plugin (bo_max_conditions options) (ce_clock env)
     in controller_reconcile client
          (\<lambda>obj. public_ip_from_cr (cc_decode codec) (ce_sha3 env) (cc_now codec) (Typed (typed_object put_public_ip_cr_status obj)))
          (public_ip_handle_reconcile handler) (bo_requeue_after options) (bo_max_conditions options) (ce_clock env))"

subsection \<open>The route table controller\<close>

definition put_route_table_cr_status :: "status \<Rightarrow> route_table_status option \<Rightarrow> route_table_status" where
  "put_route_table_cr_status st s = (case s of None \<Rightarrow> zero_route_table_status | Some t \<Rightarrow> t)\<lparr>rtst_status := st\<rparr>"

definition new_route_table_plugin_handler ::
  "(route_table, 'w) repo \<Rightarrow> (route_table, 'w, 'e) plugin_scheme \<Rightarrow> int \<Rightarrow> ('w \<Rightarrow> time) \<Rightarrow> (route_table, 'w) plugin_handler" where
  "new_route_table_plugin_handler repo plugin max_conditions now =
    \<lparr>h_repo = repo, h_create = pl_create plugin, h_update = pl_update plugin, h_delete = pl_delete plugin,
     h_max_conditions = max_conditions, h_now = now\<rparr>"

definition new_route_table_controller ::
  "'w controller_env \<Rightarrow> (route_table_cr_spec, route_table_status) cr_codec \<Rightarrow> (route_table, 'w) lister
   \<Rightarrow> ((route_table_cr_spec, route_table_status) typed_kube_object, 'w) kube_client \<Rightarrow> (route_table, 'w) plugin \<Rightarrow> 'l builder_option option list
   \<Rightarrow> 'l \<Rightarrow> string \<Rightarrow> 'w \<Rightarrow> controller_result \<times> 'w" where
  "new_route_table_controller env codec listing client plugin opts default_logger =
    (let options = apply_options default_logger opts;
         repo = new_repo_adapter (route_table_adapter (ce_client env) (ce_sha3 env) (cc_encode codec) (cc_decode codec) (cc_now codec)) listing;
         handler = new_route_table_plugin_handler repo plugin (bo_max_conditions options) (ce_clock env)
     in controller_reconcile client
          (\<lambda>obj. route_table_from_cr (cc_decode codec) (ce_sha3 env) (cc_now codec) (Typed (typed_object put_route_table_cr_status obj)))
          (route_table_handle_reconcile handler) (bo_requeue_after options) (bo_max_conditions options) (ce_clock env))"

subsection \<open>The subnet controller\<close>

definition put_subnet_cr_status :: "status \<Rightarrow> subnet_status option \<Rightarrow> subnet_status" where
  "put_subnet_cr_status st s = (case s of None \<Rightarrow> zero_subnet_status | Some t \<Rightarrow> t)\<lparr>snst_status := st\<rparr>"

definition new_subnet_plugin_handler ::
  "(subnet, 'w) repo \<Rightarrow> (subnet, 'w, 'e) plugin_scheme \<Rightarrow> int \<Rightarrow> ('w \<Rightarrow> time) \<Rightarrow> (subnet, 'w) plugin_handler" where
  "new_subnet_plugin_handler repo plugin max_conditions now =
    \<lparr>h_repo = repo, h_create = pl_create plugin, h_update = pl_update plugin, h_delete = pl_delete plugin,
     h_max_conditions = max_conditions, h_now = now\<rparr>"

definition new_subnet_controller ::
  "'w controller_env \<Rightarrow> (subnet_cr_spec, subnet_status) cr_codec \<Rightarrow> (subnet, 'w) lister
   \<Rightarrow> ((subnet_cr_spec, subnet_status) typed_kube_object, 'w) kube_client \<Rightarrow> (subnet, 'w) plugin \<Rightarrow> 'l builder_option option list
   \<Rightarrow> 'l \<Rightarrow> string \<Rightarrow> 'w \<Rightarrow> controller_result \<times> 'w" where
  "new_subnet_controller env codec listing client plugin opts default_logger =
    (let options = apply_options default_logger opts;
         repo = new_repo_adapter (subnet_adapter (ce_client env) (ce_sha3 env) (cc_encode codec) (cc_decode codec) (cc_now codec)) listing;
         handler = new_subnet_plugin_handler repo plugin (bo_max_conditions options) (ce_clock env)
     in controller_reconcile client
          (\<lambda>obj. subnet_from_cr (cc_decode codec) (ce_sha3 env) (cc_now codec) (Typed (typed_object put_subnet_cr_status obj)))
          (subnet_handle_reconcile handler) (bo_requeue_after options) (bo_max_conditions options) (ce_clock env))"

subsection \<open>The security group controller\<close>

definition put_security_group_cr_status :: "status \<Rightarrow> security_group_status option \<Rightarrow> security_group_status" where
  "put_security_group_cr_status st s = (case s of None \<Rightarrow> zero_security_group_status | Some t \<Rightarrow> t)\<lparr>sgst_status := st\<rparr>"

definition new_security_group_plugin_handler ::
  "(security_group, 'w) repo \<Rightarrow> (security_group, 'w, 'e) plugin_scheme \<Rightarrow> int \<Rightarrow> ('w \<Rightarrow> time) \<Rightarrow> (security_group, 'w) plugin_handler" where
  "new_security_group_plugin_handler repo plugin max_conditions now =
    \<lparr>h_repo = repo, h_create = pl_create plugin, h_update = pl_update plugin, h_delete = pl_delete plugin,
     h_max_conditions = max_conditions, h_now = now\<rparr>"

definition new_security_group_controller ::
  "'w controller_env \<Rightarrow> (security_group_cr_spec, security_group_status) cr_codec \<Rightarrow> (security_group, 'w) lister
   \<Rightarrow> ((security_group_cr_spec, security_group_status) typed_kube_object, 'w) kube_client \<Rightarrow> (security_group, 'w) plugin \<Rightarrow> 'l builder_option option list
   \<Rightarrow> 'l \<Rightarrow> string \<Rightarrow> 'w \<Rightarrow> controller_result \<times> 'w" where
  "new_security_group_controller env codec listing client plugin opts default_logger =
    (let options = apply_options default_logger opts;
         repo = new_repo_adapter (security_group_adapter (ce_client env) (ce_sha3 env) (cc_encode codec) (cc_decode codec) (cc_now codec)) listing;
         handler = new_security_group_plugin_handler repo plugin (bo_max_conditions options) (ce_clock env)
     in controller_reconcile client
          (\<lambda>obj. security_group_from_cr (cc_decode codec) (ce_sha3 env) (cc_now codec) (Typed (typed_object put_security_group_cr_status obj)))
          (security_group_handle_reconcile handler) (bo_requeue_after options) (bo_max_conditions options) (ce_clock env))"

subsection \<open>The security group rule controller\<close>

definition new_security_group_rule_plugin_handler ::
  "(security_group_rule, 'w) repo \<Rightarrow> (security_group_rule, 'w, 'e) plugin_scheme \<Rightarrow> int \<Rightarrow> ('w \<Rightarrow> time) \<Rightarrow> (security_group_rule, 'w) plugin_handler" where
  "new_security_group_rule_plugin_handler repo plugin max_conditions now =
    \<lparr>h_repo = repo, h_create = pl_create plugin, h_update = pl_update plugin, h_delete = pl_delete plugin,
     h_max_conditions = max_conditions, h_now = now\<rparr>"

definition new_security_group_rule_controller ::
  "'w controller_env \<Rightarrow> (security_group_rule_cr_spec, status) cr_codec \<Rightarrow> (security_group_rule, 'w) lister
   \<Rightarrow> ((security_group_rule_cr_spec, status) typed_kube_object, 'w) kube_client \<Rightarrow> (security_group_rule, 'w) plugin \<Rightarrow> 'l builder_option option list
   \<Rightarrow> 'l \<Rightarrow> string \<Rightarrow> 'w \<Rightarrow> controller_result \<times> 'w" where
  "new_security_group_rule_controller env codec listing client plugin opts default_logger =
    (let options = apply_options default_logger opts;
         repo = new_repo_adapter (security_group_rule_adapter (ce_client env) (ce_sha3 env) (cc_encode codec) (cc_decode codec) (cc_now codec)) listing;
         handler = new_security_group_rule_plugin_handler repo plugin (bo_max_conditions options) (ce_clock env)
     in controller_reconcile client
          (\<lambda>obj. security_group_rule_from_cr (cc_decode codec) (ce_sha3 env) (cc_now codec) (Typed (typed_object (\<lambda>st s. st) obj)))
          (security_group_rule_handle_reconcile handler) (bo_requeue_after options) (bo_max_conditions options) (ce_clock env))"

subsection \<open>The role controller\<close>

definition new_role_plugin_handler ::
  "(role, 'w) repo \<Rightarrow> (role, 'w, 'e) plugin_scheme \<Rightarrow> int \<Rightarrow> ('w \<Rightarrow> time) \<Rightarrow> (role, 'w) plugin_handler" where
  "new_role_plugin_handler repo plugin max_conditions now =
    \<lparr>h_repo = repo, h_create = pl_create plugin, h_update = pl_update plugin, h_delete = pl_delete plugin,
     h_max_conditions = max_conditions, h_now = now\<rparr>"

definition new_role_controller ::
  "'w controller_env \<Rightarrow> (role_cr_spec, status) cr_codec \<Rightarrow> (role, 'w) lister
   \<Rightarrow> ((role_cr_spec, status) typed_kube_object, 'w) kube_client \<Rightarrow> (role, 'w) plugin \<Rightarrow> 'l builder_option option list
   \<Rightarrow> 'l \<Rightarrow> string \<Rightarrow> 'w \<Rightarrow> controller_result \<times> 'w" where
  "new_role_controller env codec listing client plugin opts default_logger =
    (let options = apply_options default_logger opts;
         repo = new_repo_adapter (role_adapter (ce_client env) (ce_sha3 env) (cc_encode codec) (cc_decode codec) (cc_now codec)) listing;
         handler = new_role_plugin_handler repo plugin (bo_max_conditions options) (ce_clock env)
     in controller_reconcile client
          (\<lambda>obj. role_from_cr (cc_decode codec) (ce_sha3 env) (cc_now codec) (Typed (typed_object (\<lambda>st s. st) obj)))
          (role_handle_reconcile handler) (bo_requeue_after options) (bo_max_conditions options) (ce_clock env))"

subsection \<open>The role assignment controller\<close>

definition new_role_assignment_plugin_handler ::
  "(role_assignment, 'w) repo \<Rightarrow> (role_assignment, 'w, 'e) plugin_scheme \<Rightarrow> int \<Rightarrow> ('w \<Rightarrow> time) \<Rightarrow> (role_assignment, 'w) plugin_handler" where
  "new_role_assignment_plugin_handler repo plugin max_conditions now =
    \<lparr>h_repo = repo, h_create = pl_create plugin, h_update = pl_update plugin, h_delete = pl_delete plugin,
     h_max_conditions = max_conditions, h_now = now\<rparr>"

definition new_role_assignment_controller ::
  "'w controller_env \<Rightarrow> (role_assignment_cr_spec, status) cr_codec \<Rightarrow> (role_assignment, 'w) lister
   \<Rightarrow> ((role_assignment_cr_spec, status) typed_kube_object, 'w) kube_client \<Rightarrow> (role_assignment, 'w) plugin \<Rightarrow> 'l builder_option option list
   \<Rightarrow> 'l \<Rightarrow> string \<Rightarrow> 'w \<Rightarrow> controller_result \<times> 'w" where
  "new_role_assignment_controller env codec listing client plugin opts default_logger =
    (let options = apply_options default_logger opts;
         repo = new_repo_adapter (role_assignment_adapter (ce_client env) (ce_sha3 env) (cc_encode codec) (cc_decode codec) (cc_now codec)) listing;
         handler = new_role_assignment_plugin_handler repo plugin (bo_max_conditions options) (ce_clock env)
     in controller_reconcile client
          (\<lambda>obj. role_assignment_from_cr (cc_decode codec) (ce_sha3 env) (cc_now codec) (Typed (typed_object (\<lambda>st s. st) obj)))
          (role_assignment_handle_reconcile handler) (bo_requeue_after options) (bo_max_conditions options) (ce_clock env))"

subsection \<open>The image controller\<close>

definition put_image_cr_status :: "status \<Rightarrow> image_status option \<Rightarrow> image_status" where
  "put_image_cr_status st s = (case s of None \<Rightarrow> zero_image_status | Some t \<Rightarrow> t)\<lparr>imgst_status := st\<rparr>"

definition new_image_plugin_handler ::
  "(image, 'w) repo \<Rightarrow> (image, 'w) plugin \<Rightarrow> int \<Rightarrow> (gvr \<Rightarrow> reference \<Rightarrow> string \<Rightarrow> 'w \<Rightarrow> (go_error + bool \<times> resource_state) \<times> 'w)
   \<Rightarrow> ('w \<Rightarrow> time) \<Rightarrow> (image, 'w) dependent_handler" where
  "new_image_plugin_handler repo plugin max_conditions deps now =
    \<lparr>h_repo = repo, h_create = pl_create plugin, h_update = pl_update plugin, h_delete = pl_delete plugin,
     h_max_conditions = max_conditions, h_now = now,
     h_dep_state = deps\<rparr>"

definition new_image_controller ::
  "'w controller_env \<Rightarrow> (image_spec, image_status) cr_codec \<Rightarrow> (image, 'w) lister
   \<Rightarrow> ((image_spec, image_status) typed_kube_object, 'w) kube_client \<Rightarrow> (image, 'w) plugin \<Rightarrow> 'l builder_option option list
   \<Rightarrow> 'l \<Rightarrow> string \<Rightarrow> 'w \<Rightarrow> controller_result \<times> 'w" where
  "new_image_controller env codec listing client plugin opts default_logger =
    (let options = apply_options default_logger opts;
         repo = new_repo_adapter (image_adapter (ce_client env) (ce_sha3 env) (cc_encode codec) (cc_decode codec) (cc_now codec)) listing;
         handler = new_image_plugin_handler repo plugin (bo_max_conditions options)
           (resolver_state (ce_client env) (ce_sha3 env)) (ce_clock env)
     in controller_reconcile client
          (\<lambda>obj. image_from_cr (cc_decode codec) (ce_sha3 env) (cc_now codec) (Typed (typed_object put_image_cr_status obj)))
          (image_handle_reconcile handler) (bo_requeue_after options) (bo_max_conditions options) (ce_clock env))"

subsection \<open>The block storage controller\<close>

definition put_block_storage_cr_status :: "status \<Rightarrow> block_storage_status option \<Rightarrow> block_storage_status" where
  "put_block_storage_cr_status st s = (case s of None \<Rightarrow> zero_block_storage_status | Some t \<Rightarrow> t)\<lparr>bsst_status := st\<rparr>"

definition new_block_storage_plugin_handler ::
  "(block_storage, 'w) repo \<Rightarrow> (block_storage, 'w) volume_plugin \<Rightarrow> int
   \<Rightarrow> (gvr \<Rightarrow> reference \<Rightarrow> string \<Rightarrow> 'w \<Rightarrow> (go_error + bool \<times> resource_state) \<times> 'w)
   \<Rightarrow> (gvr \<Rightarrow> string \<Rightarrow> string list \<Rightarrow> reference_target \<Rightarrow> string \<Rightarrow> 'w \<Rightarrow> (go_error + string list) \<times> 'w)
   \<Rightarrow> (string \<Rightarrow> string) \<Rightarrow> ('w \<Rightarrow> time) \<Rightarrow> (block_storage, 'w) volume_handler" where
  "new_block_storage_plugin_handler repo plugin max_conditions deps_state deps_referrers sha3 now =
    \<lparr>h_repo = repo, h_create = pl_create plugin, h_update = pl_update plugin, h_delete = pl_delete plugin,
     h_max_conditions = max_conditions, h_now = now,
     h_dep_state = deps_state, h_increase_size = pl_increase_size plugin, h_dep_referrers = deps_referrers,
     h_sha3 = sha3\<rparr>"

definition new_block_storage_controller ::
  "'w controller_env \<Rightarrow> (block_storage_spec, block_storage_status) cr_codec \<Rightarrow> (block_storage, 'w) lister
   \<Rightarrow> ((block_storage_spec, block_storage_status) typed_kube_object, 'w) kube_client \<Rightarrow> (block_storage, 'w) volume_plugin \<Rightarrow> 'l builder_option option list
   \<Rightarrow> 'l \<Rightarrow> string \<Rightarrow> 'w \<Rightarrow> controller_result \<times> 'w" where
  "new_block_storage_controller env codec listing client plugin opts default_logger =
    (let options = apply_options default_logger opts;
         repo = new_repo_adapter (block_storage_adapter (ce_client env) (ce_sha3 env) (cc_encode codec) (cc_decode codec) (cc_now codec)) listing;
         handler = new_block_storage_plugin_handler repo plugin (bo_max_conditions options)
           (resolver_state (ce_client env) (ce_sha3 env)) (resolver_referrers (ce_client env) (ce_decode_ref env))
           (ce_sha3 env) (ce_clock env)
     in controller_reconcile client
          (\<lambda>obj. block_storage_from_cr (cc_decode codec) (ce_sha3 env) (cc_now codec) (Typed (typed_object put_block_storage_cr_status obj)))
          (block_storage_handle_reconcile handler) (bo_requeue_after options) (bo_max_conditions options) (ce_clock env))"

subsection \<open>The instance controller\<close>

definition put_instance_cr_status :: "status \<Rightarrow> instance_status option \<Rightarrow> instance_status" where
  "put_instance_cr_status st s = (case s of None \<Rightarrow> zero_instance_status | Some t \<Rightarrow> t)\<lparr>inst_status := st\<rparr>"

definition new_instance_plugin_handler ::
  "(instance_res, 'w) repo \<Rightarrow> (instance_res, 'w) power_plugin \<Rightarrow> int \<Rightarrow> ('w \<Rightarrow> time)
   \<Rightarrow> (instance_res, 'w) power_handler" where
  "new_instance_plugin_handler repo plugin max_conditions now =
    \<lparr>h_repo = repo, h_create = pl_create plugin, h_update = pl_update plugin, h_delete = pl_delete plugin,
     h_max_conditions = max_conditions, h_now = now,
     h_power_on = pl_power_on plugin, h_power_off = pl_power_off plugin\<rparr>"

definition new_instance_controller ::
  "'w controller_env \<Rightarrow> (instance_spec, instance_status) cr_codec \<Rightarrow> (instance_res, 'w) lister
   \<Rightarrow> ((instance_spec, instance_status) typed_kube_object, 'w) kube_client \<Rightarrow> (instance_res, 'w) power_plugin \<Rightarrow> 'l builder_option option list
   \<Rightarrow> 'l \<Rightarrow> string \<Rightarrow> 'w \<Rightarrow> controller_result \<times> 'w" where
  "new_instance_controller env codec listing client plugin opts default_logger =
    (let options = apply_options default_logger opts;
         repo = new_repo_adapter (instance_adapter (ce_client env) (ce_sha3 env) (cc_encode codec) (cc_decode codec) (cc_now codec)) listing;
         handler = new_instance_plugin_handler repo plugin (bo_max_conditions options) (ce_clock env)
     in controller_reconcile client
          (\<lambda>obj. instance_from_cr (cc_decode codec) (ce_sha3 env) (cc_now codec) (Typed (typed_object put_instance_cr_status obj)))
          (instance_handle_reconcile handler) (bo_requeue_after options) (bo_max_conditions options) (ce_clock env))"

subsection \<open>Facts\<close>

lemma object_of_simps [simp]:
  "ko_deletion (object_of get cr) = cr_deleted cr" "ko_finalizers (object_of get cr) = cr_finalizers cr"
  "ko_status (object_of get cr) = map_option get (cr_status cr)" "kube_object.more (object_of get cr) = cr"
  by (simp_all add: object_of_def kube_object.defs)

text \<open>An object as it was read is the custom resource it was read from.\<close>

lemma typed_object_of:
  assumes "\<And>t. put (get t) (Some t) = t"
  shows "typed_object put (object_of get cr) = cr"
  using assms by (cases "cr_status cr") (simp_all add: typed_object_def)

lemma apply_options_Nil:
  "apply_options l [] = \<lparr>bo_logger = l, bo_requeue_after = default_requeue_time, bo_max_conditions = default_max_conditions\<rparr>"
  by (simp add: apply_options_def)

end
