(* ===== verification/Cluster.thy ===== *)
theory Cluster
  imports Controllers
begin

section \<open>A controller and its cluster\<close>

text \<open>
  The generic controller, a plugin handler and the repository it writes to, over one cluster: what
  repeated reconciles come to. \<open>rounds\<close> is the work queue, which calls \<^verbatim>\<open>Reconcile\<close> for one object
  again and again; every round reads the object anew. \<open>hosting\<close> says what of the world the object is,
  and \<open>hosts\<close> what its API server does with it.
\<close>

fun rounds :: "('w \<Rightarrow> controller_result \<times> 'w) \<Rightarrow> nat \<Rightarrow> 'w \<Rightarrow> 'w" where
  "rounds f 0 w = w"
| "rounds f (Suc n) w = rounds f n (snd (f w))"

lemma rounds_reach:
  assumes step: "\<And>w. G w \<Longrightarrow> \<not> D w \<Longrightarrow> D (snd (f w)) \<or> G (snd (f w)) \<and> (\<mu> (snd (f w)) :: nat) < \<mu> w"
    and G: "G w"
  shows "\<exists>n \<le> Suc (\<mu> w). D (rounds f n w)"
  using G
proof (induction "\<mu> w" arbitrary: w rule: less_induct)
  case less
  consider "D w" | "\<not> D w" "D (snd (f w))" | "\<not> D w" "G (snd (f w))" "\<mu> (snd (f w)) < \<mu> w"
    using step [OF less.prems] by blast
  then show ?case
  proof cases
    case 1
    then show ?thesis by (intro exI [of _ 0]) simp
  next
    case 2
    then show ?thesis by (intro exI [of _ 1]) simp
  next
    case 3
    from less.hyps [OF 3(3,2)] obtain n where "n \<le> Suc (\<mu> (snd (f w)))" "D (rounds f n (snd (f w)))" by blast
    with 3 show ?thesis by (intro exI [of _ "Suc n"]) simp
  qed
qed

subsection \<open>What a cluster does with one object\<close>

text \<open>
  \<open>ho_seen\<close> is the object as the server has it: whether it is marked for deletion, its finalizers
  and the status a reader converts it to. \<open>ho_gone\<close> says that the server has it no more, \<open>ho_work\<close> is
  what the provider still has to do, and \<open>ho_fit\<close> holds of the resources that are written back to it.
\<close>

record ('r, 'w) hosting =
  ho_seen :: "'w \<Rightarrow> (bool \<times> string list \<times> status option) option"
  ho_gone :: "'w \<Rightarrow> bool"
  ho_work :: "'w \<Rightarrow> nat"
  ho_fit :: "'r \<Rightarrow> bool"

definition tidy :: "status option \<Rightarrow> bool" where
  "tidy s \<longleftrightarrow> pred_option (\<lambda>st. status_ok st \<and> storable_status st) s"

text \<open>
  A read returns the object; an update of its finalizers stores them, unless it is marked and they
  were the last, which takes it away; a status written for it is the status that is read from then on.
\<close>

definition hosts_reads ::
  "('r, 'w) hosting \<Rightarrow> ('x kube_object_scheme, 'w) kube_client \<Rightarrow> string \<Rightarrow> ('x kube_object_scheme \<Rightarrow> go_error + 'r)
   \<Rightarrow> ('r \<Rightarrow> bool) \<Rightarrow> ('r \<Rightarrow> status option) \<Rightarrow> bool" where
  "hosts_reads ho c name conv deleted status_of \<longleftrightarrow>
    (\<forall>w d fs s. ho_seen ho w = Some (d, fs, s) \<longrightarrow>
      (\<exists>obj w' r. kc_get c name w = (Inr obj, w') \<and> ho_seen ho w' = Some (d, fs, s) \<and> ho_work ho w' \<le> ho_work ho w
        \<and> (ko_deletion obj \<noteq> None \<longleftrightarrow> d) \<and> ko_finalizers obj = fs
        \<and> (get_state_from_object obj = ''deleting'' \<longleftrightarrow> phase_of s = Phase StateDeleting)
        \<and> conv obj = Inr r \<and> ho_fit ho r \<and> deleted r = d \<and> status_of r = s))"

definition hosts_updates :: "('r, 'w) hosting \<Rightarrow> ('x kube_object_scheme, 'w) kube_client \<Rightarrow> string \<Rightarrow> bool" where
  "hosts_updates ho c name \<longleftrightarrow>
    (\<forall>w d fs s obj w1 fs'. ho_seen ho w = Some (d, fs, s) \<longrightarrow> kc_get c name w = (Inr obj, w1) \<longrightarrow>
      (\<exists>w2. kc_update c (obj\<lparr>ko_finalizers := fs'\<rparr>) w1 = (None, w2) \<and> ho_work ho w2 \<le> ho_work ho w1
        \<and> (if d \<and> fs' = [] then ho_gone ho w2 else ho_seen ho w2 = Some (d, fs', s))))"

definition hosts_writes ::
  "('r, 'w) hosting \<Rightarrow> ('r, 'w) repo \<Rightarrow> ('r \<Rightarrow> bool) \<Rightarrow> ('r \<Rightarrow> status option) \<Rightarrow> bool" where
  "hosts_writes ho repo deleted status_of \<longleftrightarrow>
    (\<forall>w d fs s r st. ho_seen ho w = Some (d, fs, s) \<longrightarrow> ho_fit ho r \<longrightarrow> deleted r = d \<longrightarrow> status_of r = Some st \<longrightarrow>
      storable_status st \<longrightarrow> st_conditions st \<noteq> [] \<longrightarrow>
      (\<exists>x w'. rp_update_status repo r w = (Inr x, w') \<and> ho_work ho w' \<le> ho_work ho w
        \<and> ho_seen ho w' = Some (d, fs, Some st)))"

definition hosts where
  "hosts ho c name conv repo deleted status_of put \<longleftrightarrow>
     hosts_reads ho c name conv deleted status_of \<and> hosts_updates ho c name \<and>
     hosts_writes ho repo deleted status_of \<and> (\<forall>st r. ho_fit ho r \<longrightarrow> ho_fit ho (put st r))"

text \<open>
  An operation of the plugin that gets on with its work: it leaves the platform's object alone and
  the resource fit to be written, and when it is not done there is less to do.
\<close>

definition works :: "('r, 'w) hosting \<Rightarrow> ('r, 'w) delegated \<Rightarrow> bool" where
  "works ho op \<longleftrightarrow> (\<forall>r w e r1 w1. op r w = (e, r1, w1) \<longrightarrow>
     ho_seen ho w1 = ho_seen ho w \<and> (ho_fit ho r \<longrightarrow> ho_fit ho r1) \<and> (e \<noteq> None \<longrightarrow> ho_work ho w1 < ho_work ho w))"

lemma hosts_readsE:
  assumes "hosts ho c name conv repo deleted status_of put" and "ho_seen ho w = Some (d, fs, s)"
  obtains obj w' r where "kc_get c name w = (Inr obj, w')" and "ho_seen ho w' = Some (d, fs, s)"
    and "ho_work ho w' \<le> ho_work ho w" and "ko_deletion obj \<noteq> None \<longleftrightarrow> d" and "ko_finalizers obj = fs"
    and "get_state_from_object obj = ''deleting'' \<longleftrightarrow> phase_of s = Phase StateDeleting"
    and "conv obj = Inr r" and "ho_fit ho r" and "deleted r = d" and "status_of r = s"
  using assms unfolding hosts_def hosts_reads_def by blast

lemma hosts_updatesE:
  assumes "hosts ho c name conv repo deleted status_of put" and "ho_seen ho w = Some (d, fs, s)"
    and "kc_get c name w = (Inr obj, w1)"
  obtains w2 where "kc_update c (obj\<lparr>ko_finalizers := fs'\<rparr>) w1 = (None, w2)" and "ho_work ho w2 \<le> ho_work ho w1"
    and "if d \<and> fs' = [] then ho_gone ho w2 else ho_seen ho w2 = Some (d, fs', s)"
  using assms unfolding hosts_def hosts_updates_def by blast

lemma worksD:
  assumes "works ho op" and "op r w = (e, r1, w1)"
  shows "ho_seen ho w1 = ho_seen ho w" and "ho_fit ho r \<Longrightarrow> ho_fit ho r1"
    and "e \<noteq> None \<Longrightarrow> ho_work ho w1 < ho_work ho w"
  using assms unfolding works_def by blast+

subsection \<open>A pass over a hosted object\<close>

lemma settled_are_storable: "settled_states \<subseteq> lifecycle_states"
  by (auto simp: settled_states_def lifecycle_states_def)

lemma tidy_pushed:
  assumes "tidy (status_of r)" and "c_state c \<in> settled_states"
  shows "tidy (Some (trim_conditions m (pushed n c (the_status status_of r))))"
    and "st_conditions (trim_conditions m (pushed n c (the_status status_of r))) \<noteq> []"
proof -
  let ?st = "the_status status_of r"
  have ok: "status_ok ?st" and conds: "\<forall>x \<in> set (st_conditions ?st). c_state x \<in> insert StateUnset lifecycle_states"
    using assms(1) by (auto simp: tidy_def the_status_def storable_status_def empty_status_def status_ok_def split: option.splits)
  have "\<forall>x \<in> set (st_conditions (pushed n c ?st)). c_state x \<in> insert StateUnset lifecycle_states"
    by (rule pushed_cases [of ?st c n]) (use conds assms(2) settled_are_storable in \<open>auto split: if_splits\<close>)
  moreover have "st_state (pushed n c ?st) \<in> lifecycle_states"
    using st_state_pushed [OF ok] assms(2) settled_are_storable by auto
  ultimately show "tidy (Some (trim_conditions m (pushed n c ?st)))"
    using status_ok_trim [OF status_ok_pushed [OF ok]]
    by (auto simp: tidy_def storable_status_def st_conditions_trim dest: in_set_takeD)
  show "st_conditions (trim_conditions m (pushed n c ?st)) \<noteq> []"
    by (rule pushed_head [of n c ?st]) (auto simp: st_conditions_trim take_Cons')
qed

lemma tidy_view_ok: "tidy s \<Longrightarrow> view_ok s"
  by (cases s) (auto simp: tidy_def)

context status_view begin

text \<open>Whatever a pass writes of a hosted object is on the server when it returns.\<close>

lemma hosted_lands:
  assumes h: "hosts ho c name conv (h_repo h) deleted status_of put_status"
    and seen: "ho_seen ho w = Some (deleted r, fs, s)" and fit: "ho_fit ho r" and t: "tidy (status_of r)"
  shows "lands (\<lambda>r w. ho_seen ho w = Some (deleted r, fs, status_of r) \<and> tidy (status_of r))
    (ho_work ho) status_of put_status h r w"
  unfolding lands_def
proof (intro allI impI)
  fix n :: time and cond :: status_condition
  assume "c_state cond \<in> settled_states"
  note st = tidy_pushed [where status_of = status_of and r = r, OF t this, of "h_max_conditions h" n]
  let ?st = "trim_conditions (h_max_conditions h) (pushed n cond (the_status status_of r))"
  have "storable_status ?st" using st(1) by (simp add: tidy_def)
  moreover have "ho_fit ho (put_status ?st r)" using h fit by (simp add: hosts_def)
  moreover have "hosts_writes ho (h_repo h) deleted status_of" using h by (simp add: hosts_def)
  ultimately obtain x w' where "rp_update_status (h_repo h) (put_status ?st r) w = (Inr x, w')"
    "ho_work ho w' \<le> ho_work ho w" "ho_seen ho w' = Some (deleted r, fs, Some ?st)"
    using seen st(2) unfolding hosts_writes_def by (metis deleted_put status_put)
  then show "\<exists>x w'. rp_update_status (h_repo h) (put_status ?st r) w = (Inr x, w') \<and> ho_work ho w' \<le> ho_work ho w \<and>
      ho_seen ho w' = Some (deleted (put_status ?st r), fs, status_of (put_status ?st r)) \<and>
      tidy (status_of (put_status ?st r))"
    using st(1) by simp
qed

end

subsection \<open>Rounds\<close>

context plain_reconciler begin

text \<open>A round over a marked object releases it or leaves less to do.\<close>

lemma marked_round:
  assumes h: "hosts ho c name conv (h_repo h) deleted status_of put_status"
    and q: "quiet_plugin deleted status_of h" and wk: "works ho (h_delete h)"
    and fs: "finalizer_name \<in> set fs" "\<forall>f \<in> set fs. equal_fold f finalizer_name"
    and seen: "ho_seen ho w = Some (True, fs, s)" and t: "tidy s"
    and f: "controller_reconcile c conv (reconcile h) after m now name w = (res, w')"
  shows "ho_gone ho w' \<or> (\<exists>s'. ho_seen ho w' = Some (True, fs, s') \<and> tidy s' \<and>
    4 * ho_work ho w' + to_go_deleting s' < 4 * ho_work ho w + to_go_deleting s)"
proof -
  have none: "filter (\<lambda>v. \<not> equal_fold v finalizer_name) fs = []" using fs(2) by (simp add: filter_empty_conv)
  obtain obj w1 r where get: "kc_get c name w = (Inr obj, w1)" and seen1: "ho_seen ho w1 = Some (True, fs, s)"
    and less1: "ho_work ho w1 \<le> ho_work ho w" and obj: "ko_deletion obj \<noteq> None" and conv: "conv obj = Inr r"
    and fit: "ho_fit ho r" and d: "deleted r" and s: "status_of r = s"
    using hosts_readsE [OF h seen] by metis
  obtain rr r' w2 where pass: "reconcile h r w1 = (rr, r', w2)" by (metis prod_cases3)
  have freed: "ho_gone ho w'"
    if seen2: "ho_seen ho w2 = Some (True, fs, s2)" and p: "phase_of s2 = Phase StateDeleting"
      and rr: "rr = Reconciled False None" for s2
  proof -
    obtain obj2 w3 where get2: "kc_get c name w2 = (Inr obj2, w3)" and "ko_deletion obj2 \<noteq> None"
      "ko_finalizers obj2 = fs" "get_state_from_object obj2 = ''deleting''"
      using hosts_readsE [OF h seen2] p by metis
    moreover obtain w4 where "kc_update c (obj2\<lparr>ko_finalizers := []\<rparr>) w3 = (None, w4)" "ho_gone ho w4"
      using hosts_updatesE [OF h seen2 get2, of "[]"] by auto
    ultimately show ?thesis
      using f get obj conv pass rr fs none by (simp add: controller_reconcile_def)
  qed
  show ?thesis
  proof (cases "arm_of (deleted r) (status_of r) = ArmDeleting \<and> fst (h_delete h r w1) = None")
    case True
    then obtain r1 w1' where del: "h_delete h r w1 = (None, r1, w1')" by (metis fst_conv prod_cases3)
    with q have "deleted r1 = deleted r" "status_of r1 = status_of r"
      by (auto simp: quiet_plugin_def dest: quietD)
    with True del pass have "rr = Reconciled False None" "w2 = w1'"
      by (auto simp: reconcile_eq lifecycle_def delegate_of_def after_delegate_def)
    moreover have "ho_seen ho w1' = Some (True, fs, s)" using worksD(1) [OF wk del] seen1 by simp
    moreover have "phase_of s = Phase StateDeleting" using True s d by (cases s) (auto simp: arm_of_iff)
    ultimately show ?thesis using freed by blast
  next
    case False
    let ?Q = "\<lambda>r w. ho_seen ho w = Some (deleted r, fs, status_of r) \<and> tidy (status_of r)"
    have here: "lands ?Q (ho_work ho) status_of put_status h r w1"
      using hosted_lands [OF h _ fit] seen1 d s t by simp
    have there: "lands ?Q (ho_work ho) status_of put_status h r1 w1' \<and> ?Q r1 w1' \<and>
        (e \<noteq> None \<longrightarrow> ho_work ho w1' < ho_work ho w1)" if del: "h_delete h r w1 = (e, r1, w1')" for e r1 w1'
    proof -
      from del q have "deleted r1 = deleted r" "status_of r1 = status_of r"
        by (auto simp: quiet_plugin_def dest: quietD)
      with worksD [OF wk del] fit seen1 d s t hosted_lands [OF h, of w1' r1 fs s] show ?thesis by simp
    qed
    from deletion_step_lands [OF q here there d _ pass False] s t tidy_view_ok
    have step: "ho_seen ho w2 = Some (True, fs, status_of r')" "tidy (status_of r')" "rr \<noteq> ProcessExit"
      "4 * ho_work ho w2 + to_go_deleting (status_of r') < 4 * ho_work ho w1 + to_go_deleting s"
      using pass_okD(1) [OF reconcile_pass_ok [OF q _ pass]] by auto
    show ?thesis
    proof (cases "rr = Reconciled False None \<and> phase_of (status_of r') = Phase StateDeleting")
      case True
      with freed step(1) show ?thesis by blast
    next
      case waits: False
      have "ho_seen ho w' = ho_seen ho w2 \<and> ho_work ho w' \<le> ho_work ho w2"
      proof (cases "rr = Reconciled False None")
        case True
        obtain obj2 w3 where "kc_get c name w2 = (Inr obj2, w3)" "ho_seen ho w3 = Some (True, fs, status_of r')"
          "ho_work ho w3 \<le> ho_work ho w2" "get_state_from_object obj2 \<noteq> ''deleting''"
          using hosts_readsE [OF h step(1)] waits True by metis
        with f get obj conv pass True step(1) show ?thesis by (simp add: controller_reconcile_def)
      next
        case False
        with step(3) have "w' = w2"
          using f get obj conv pass by (cases rr; cases "requeue rr"; cases "reconcile_error rr")
            (auto simp: controller_reconcile_def split: if_splits)
        then show ?thesis by simp
      qed
      with step less1 show ?thesis by auto
    qed
  qed
qed

text \<open>A marked object is released.\<close>

lemma eventually_released:
  assumes h: "hosts ho c name conv (h_repo h) deleted status_of put_status"
    and q: "quiet_plugin deleted status_of h" and wk: "works ho (h_delete h)"
    and fs: "finalizer_name \<in> set fs" "\<forall>f \<in> set fs. equal_fold f finalizer_name"
    and seen: "ho_seen ho w = Some (True, fs, s)" and t: "tidy s"
  shows "\<exists>n \<le> 4 * ho_work ho w + 4.
    ho_gone ho (rounds (controller_reconcile c conv (reconcile h) after m now name) n w)"
proof -
  let ?f = "controller_reconcile c conv (reconcile h) after m now name"
  let ?\<mu> = "\<lambda>w. 4 * ho_work ho w + (case ho_seen ho w of Some (d, fs, s) \<Rightarrow> to_go_deleting s | None \<Rightarrow> 0)"
  have "\<exists>n \<le> Suc (?\<mu> w). ho_gone ho (rounds ?f n w)"
  proof (rule rounds_reach [where G = "\<lambda>w. \<exists>s. ho_seen ho w = Some (True, fs, s) \<and> tidy s"])
    fix w assume "\<exists>s. ho_seen ho w = Some (True, fs, s) \<and> tidy s"
    then obtain s where "ho_seen ho w = Some (True, fs, s)" "tidy s" by blast
    with marked_round [OF h q wk fs this] show "ho_gone ho (snd (?f w)) \<or>
        (\<exists>s. ho_seen ho (snd (?f w)) = Some (True, fs, s) \<and> tidy s) \<and> ?\<mu> (snd (?f w)) < ?\<mu> w"
      by (cases "?f w") fastforce
  qed (use seen t in blast)
  moreover have "to_go_deleting s \<le> 3" by (simp add: to_go_deleting_def split: option.splits)
  ultimately obtain n where "n \<le> Suc (?\<mu> w)" "ho_gone ho (rounds ?f n w)" by blast
  with seen \<open>to_go_deleting s \<le> 3\<close> show ?thesis by (intro exI [of _ n]) simp
qed

text \<open>A round over a live object that carries the finalizer makes it active or leaves less to do.\<close>

lemma live_round:
  assumes h: "hosts ho c name conv (h_repo h) deleted status_of put_status"
    and q: "quiet_plugin deleted status_of h" and room: "roomy h" and wk: "works ho (h_create h)"
    and fs: "finalizer_name \<in> set fs"
    and seen: "ho_seen ho w = Some (False, fs, s)" and t: "tidy s" and pr: "provisioning s"
    and f: "controller_reconcile c conv (reconcile h) after m now name w = (res, w')"
  shows "\<exists>s'. ho_seen ho w' = Some (False, fs, s') \<and> tidy s' \<and> (phase_of s' = Phase StateActive \<or>
    provisioning s' \<and> 4 * ho_work ho w' + to_go s' < 4 * ho_work ho w + to_go s)"
proof -
  obtain obj w1 r where get: "kc_get c name w = (Inr obj, w1)" and seen1: "ho_seen ho w1 = Some (False, fs, s)"
    and less1: "ho_work ho w1 \<le> ho_work ho w" and obj: "ko_deletion obj = None" "ko_finalizers obj = fs"
    and conv: "conv obj = Inr r" and fit: "ho_fit ho r" and d: "\<not> deleted r" and s: "status_of r = s"
    using hosts_readsE [OF h seen] by metis
  obtain rr r' w2 where pass: "reconcile h r w1 = (rr, r', w2)" by (metis prod_cases3)
  let ?Q = "\<lambda>r w. ho_seen ho w = Some (deleted r, fs, status_of r) \<and> tidy (status_of r)"
  have here: "lands ?Q (ho_work ho) status_of put_status h r w1"
    using hosted_lands [OF h _ fit] seen1 d s t by simp
  have there: "lands ?Q (ho_work ho) status_of put_status h r1 w1' \<and> ?Q r1 w1' \<and>
      (e \<noteq> None \<longrightarrow> ho_work ho w1' < ho_work ho w1)" if make: "h_create h r w1 = (e, r1, w1')" for e r1 w1'
  proof -
    from make q have "deleted r1 = deleted r" "status_of r1 = status_of r"
      by (auto simp: quiet_plugin_def dest: quietD)
    with worksD [OF wk make] fit seen1 d s t hosted_lands [OF h, of w1' r1 fs s] show ?thesis by simp
  qed
  note pass_ok = reconcile_pass_ok [OF q _ pass]
  have step: "ho_seen ho w2 = Some (False, fs, status_of r')" "tidy (status_of r')" "rr \<noteq> ProcessExit"
    "phase_of (status_of r') = Phase StateActive \<or> provisioning (status_of r') \<and>
      4 * ho_work ho w2 + to_go (status_of r') < 4 * ho_work ho w1 + to_go s"
    using provisioning_step_lands [OF q room here there d _ pass] s pr t tidy_view_ok d
      pass_okD(1,2) [OF pass_ok] by auto
  have "ho_seen ho w' = ho_seen ho w2 \<and> ho_work ho w' \<le> ho_work ho w2"
  proof (cases "rr = Reconciled False None")
    case True
    obtain obj2 w3 where "kc_get c name w2 = (Inr obj2, w3)" "ho_seen ho w3 = Some (False, fs, status_of r')"
      "ho_work ho w3 \<le> ho_work ho w2" "ko_deletion obj2 = None"
      using hosts_readsE [OF h step(1)] by metis
    with f get obj conv pass True step(1) fs show ?thesis by (simp add: controller_reconcile_def)
  next
    case False
    with step(3) have "w' = w2"
      using f get obj conv pass fs by (cases rr; cases "requeue rr"; cases "reconcile_error rr")
        (auto simp: controller_reconcile_def split: if_splits)
    then show ?thesis by simp
  qed
  with step less1 show ?thesis by auto
qed

text \<open>The first round over a live object adopts it: it adds the finalizer and touches nothing else.\<close>

lemma adopting_round:
  assumes h: "hosts ho c name conv repo deleted status_of put_status" and fs: "finalizer_name \<notin> set fs"
    and seen: "ho_seen ho w = Some (False, fs, s)"
    and f: "controller_reconcile c conv handle after m now name w = (res, w')"
  shows "res = Done after None" and "ho_seen ho w' = Some (False, fs @ [finalizer_name], s)"
    and "ho_work ho w' \<le> ho_work ho w"
proof -
  obtain obj w1 where get: "kc_get c name w = (Inr obj, w1)" "ho_work ho w1 \<le> ho_work ho w"
    "ko_deletion obj = None" "ko_finalizers obj = fs"
    using hosts_readsE [OF h seen] by metis
  moreover obtain w2 where "kc_update c (obj\<lparr>ko_finalizers := fs @ [finalizer_name]\<rparr>) w1 = (None, w2)"
    "ho_work ho w2 \<le> ho_work ho w1" "ho_seen ho w2 = Some (False, fs @ [finalizer_name], s)"
    using hosts_updatesE [OF h seen get(1), of "fs @ [finalizer_name]"] by auto
  ultimately show "res = Done after None" "ho_seen ho w' = Some (False, fs @ [finalizer_name], s)"
    "ho_work ho w' \<le> ho_work ho w"
    using f fs by (auto simp: controller_reconcile_def)
qed

text \<open>A live object is adopted and becomes active.\<close>

lemma eventually_adopted_active:
  assumes h: "hosts ho c name conv (h_repo h) deleted status_of put_status"
    and q: "quiet_plugin deleted status_of h" and room: "roomy h" and wk: "works ho (h_create h)"
    and seen: "ho_seen ho w = Some (False, fs, s)" and t: "tidy s" and pr: "provisioning s"
  shows "\<exists>n \<le> 4 * ho_work ho w + 5. \<exists>fs' s'. finalizer_name \<in> set fs' \<and> phase_of s' = Phase StateActive \<and>
    ho_seen ho (rounds (controller_reconcile c conv (reconcile h) after m now name) n w) = Some (False, fs', s')"
proof -
  let ?f = "controller_reconcile c conv (reconcile h) after m now name"
  let ?D = "\<lambda>fs w. \<exists>s'. ho_seen ho w = Some (False, fs, s') \<and> phase_of s' = Phase StateActive"
  have adopted: "\<exists>n \<le> 4 * ho_work ho w + 4. ?D fs (rounds ?f n w)"
    if fs: "finalizer_name \<in> set fs" and seen: "ho_seen ho w = Some (False, fs, s)" for fs w
  proof -
    let ?\<mu> = "\<lambda>w. 4 * ho_work ho w + (case ho_seen ho w of Some (d, fs, s) \<Rightarrow> to_go s | None \<Rightarrow> 0)"
    have "\<exists>n \<le> Suc (?\<mu> w). ?D fs (rounds ?f n w)"
    proof (rule rounds_reach [where G = "\<lambda>w. \<exists>s. ho_seen ho w = Some (False, fs, s) \<and> tidy s \<and> provisioning s"])
      fix w assume "\<exists>s. ho_seen ho w = Some (False, fs, s) \<and> tidy s \<and> provisioning s"
      then obtain s where "ho_seen ho w = Some (False, fs, s)" "tidy s" "provisioning s" by blast
      with live_round [OF h q room wk fs this] show "?D fs (snd (?f w)) \<or>
          (\<exists>s. ho_seen ho (snd (?f w)) = Some (False, fs, s) \<and> tidy s \<and> provisioning s) \<and> ?\<mu> (snd (?f w)) < ?\<mu> w"
        by (cases "?f w") fastforce
    qed (use seen t pr in blast)
    moreover have "to_go s \<le> 3" by (simp add: to_go_def split: option.splits)
    ultimately obtain n where "n \<le> Suc (?\<mu> w)" "?D fs (rounds ?f n w)" by blast
    with seen \<open>to_go s \<le> 3\<close> show ?thesis by (intro exI [of _ n]) simp
  qed
  show ?thesis
  proof (cases "finalizer_name \<in> set fs")
    case True
    from adopted [OF this seen] obtain n where "n \<le> 4 * ho_work ho w + 4" "?D fs (rounds ?f n w)" by blast
    with True show ?thesis by (intro exI [of _ n]) auto
  next
    case False
    obtain res w1 where f: "?f w = (res, w1)" by (cases "?f w")
    note one = adopting_round [OF h False seen f]
    from adopted [OF _ one(2)] obtain n where "n \<le> 4 * ho_work ho w1 + 4" "?D (fs @ [finalizer_name]) (rounds ?f n w1)"
      by auto
    with one(3) f show ?thesis by (intro exI [of _ "Suc n"]) auto
  qed
qed

end

end
