(* ===== verification/Hosting.thy ===== *)
theory Hosting
  imports Cluster
begin

section \<open>The API server behind a controller\<close>

text \<open>
  What a controller built by \<^verbatim>\<open>NewController\<close> relies on of the API server, and the proof that through
  the repository adapter and the converters of a kind that is all the contract \<open>hosts\<close> of \<open>Cluster\<close>
  asks for. The server is not part of the program: \<open>serves\<close> and \<open>codec_ok\<close> state its documented behaviour
  for one object that nobody else writes at the same time.
\<close>

text \<open>The object: where it is, what is stored of it, and the work its provider has left.\<close>

record 'w served =
  sv_namespace :: string
  sv_name :: string
  sv_current :: "'w \<Rightarrow> uobject option"
  sv_work :: "'w \<Rightarrow> nat"

text \<open>
  The dynamic client reads the object and replaces its status, the version moves on, and a closure
  that succeeds is not retried. The manager's client reads the same object in its typed form and
  stores the finalizers it is given, and a marked object that is left without any is gone.
\<close>

definition serves_dynamic :: "'w dyn_client \<Rightarrow> gvr \<Rightarrow> 'w served \<Rightarrow> bool" where
  "serves_dynamic client kind sv \<longleftrightarrow>
    (\<forall>w u. sv_current sv w = Some u \<longrightarrow>
      (\<exists>w'. dc_get client kind (sv_namespace sv) (sv_name sv) w = (Inr u, w')
        \<and> sv_current sv w' = Some u \<and> sv_work sv w' \<le> sv_work sv w)) \<and>
    (\<forall>w u m. sv_current sv w = Some u \<longrightarrow>
      (\<exists>v w'. dc_update_status client kind (sv_namespace sv) (set_nested_map u m ''status'') w
          = (Inr ((set_nested_map u m ''status'')\<lparr>uo_version := v\<rparr>), w')
        \<and> sv_current sv w' = Some ((set_nested_map u m ''status'')\<lparr>uo_version := v\<rparr>)
        \<and> sv_work sv w' \<le> sv_work sv w)) \<and>
    (\<forall>f w w'. f w = (None, w') \<longrightarrow> dc_retry client f w = (None, w'))"

definition serves_typed ::
  "(('s, 't) typed_kube_object, 'w) kube_client \<Rightarrow> ('t \<Rightarrow> status) \<Rightarrow> ('s, 't) cr_codec \<Rightarrow> string \<Rightarrow> 'w served \<Rightarrow> bool" where
  "serves_typed kc get codec req sv \<longleftrightarrow>
    (\<forall>w u cr. sv_current sv w = Some u \<longrightarrow> cc_decode codec u = Inr cr \<longrightarrow>
      (\<exists>w'. kc_get kc req w = (Inr (object_of get cr), w')
        \<and> sv_current sv w' = Some u \<and> sv_work sv w' \<le> sv_work sv w) \<and>
      (\<forall>fs. \<exists>w'. kc_update kc ((object_of get cr)\<lparr>ko_finalizers := fs\<rparr>) w = (None, w')
        \<and> sv_work sv w' \<le> sv_work sv w
        \<and> (if cr_deleted cr \<noteq> None \<and> fs = [] then sv_current sv w' = None
           else \<exists>u' v. sv_current sv w' = Some u' \<and>
             cc_decode codec u' = Inr (cr\<lparr>cr_finalizers := fs, cr_version := v\<rparr>))))"

text \<open>
  apimachinery's conversions, for the statuses whose states are read as the strings they are stored
  as (\<open>proper\<close>): such an object encodes, its status is the field \<^verbatim>\<open>status\<close>, and an object in which that
  field is replaced decodes to the custom resource with that status; only such statuses are decoded.
\<close>

definition proper_state :: "resource_state \<Rightarrow> bool" where
  "proper_state s \<longleftrightarrow> state_of_string (state_string s) = s"

definition proper_status :: "status \<Rightarrow> bool" where
  "proper_status st \<longleftrightarrow> proper_state (st_state st) \<and> list_all (\<lambda>c. proper_state (c_state c)) (st_conditions st)"

definition codec_ok :: "('t \<Rightarrow> bool) \<Rightarrow> ('s, 't) cr_codec \<Rightarrow> bool" where
  "codec_ok proper codec \<longleftrightarrow>
    (\<forall>cr t. cr_status cr = Some t \<longrightarrow> proper t \<longrightarrow>
      (\<exists>e m. cc_encode codec cr = Inr e \<and> nested_map e ''status'' = Inr (Some m)
      \<and> (\<forall>u cr0 v. cc_decode codec u = Inr cr0 \<longrightarrow>
          cc_decode codec ((set_nested_map u m ''status'')\<lparr>uo_version := v\<rparr>) = Inr (cr0\<lparr>cr_status := Some t, cr_version := v\<rparr>)))) \<and>
    (\<forall>u cr. cc_decode codec u = Inr cr \<longrightarrow> cr_version cr = uo_version u \<and>
      (\<exists>st. nested_map u ''status'' = Inr st) \<and> pred_option proper (cr_status cr))"

lemma codec_ok_encodes:
  assumes "codec_ok proper codec" and "cr_status cr = Some t" and "proper t"
  obtains e m where "cc_encode codec cr = Inr e" and "nested_map e ''status'' = Inr (Some m)"
    and "\<And>u cr0 v. cc_decode codec u = Inr cr0 \<Longrightarrow>
      cc_decode codec ((set_nested_map u m ''status'')\<lparr>uo_version := v\<rparr>) = Inr (cr0\<lparr>cr_status := Some t, cr_version := v\<rparr>)"
  using assms unfolding codec_ok_def by blast

lemma codec_okD:
  assumes "codec_ok proper codec" and "cc_decode codec u = Inr cr"
  shows "cr_version cr = uo_version u" and "\<exists>st. nested_map u ''status'' = Inr st"
    and "cr_status cr = Some t \<Longrightarrow> proper t"
  using assms unfolding codec_ok_def by force+

lemma lifecycle_proper [simp]: "s \<in> insert StateUnset lifecycle_states \<Longrightarrow> proper_state s"
  by (auto simp: lifecycle_states_def proper_state_def state_of_string_def)

lemma stored_state_proper:
  "resource_state_to_cr s = Some s' \<Longrightarrow> proper_state s'"
  "proper_state (case resource_state_to_cr s of Some s' \<Rightarrow> s' | None \<Rightarrow> StateUnset)"
  by (cases s; auto simp: resource_state_to_cr_def proper_state_def state_of_string_def)+

lemma status_to_cr_proper: "status_to_cr message st = Inr st' \<Longrightarrow> proper_status st'"
  using stored_state_proper
  by (auto simp: status_to_cr_def proper_status_def conditions_to_cr_def status_condition_to_cr_def list_all_iff
      split: option.splits)

lemma statuses_to_cr_proper: "statuses_to_cr message sts = Inr out \<Longrightarrow> list_all proper_status out"
  by (induction sts arbitrary: out) (auto dest: status_to_cr_proper split: sum.splits)

text \<open>What there is of an object for its controller.\<close>

definition kind_hosting ::
  "((uobject, 's, 't) decoder \<Rightarrow> time \<Rightarrow> (uobject, 's, 't) client_object \<Rightarrow> go_error + 'm common_metadata_scheme)
   \<Rightarrow> ('m common_metadata_scheme \<Rightarrow> scoped) \<Rightarrow> ('m common_metadata_scheme \<Rightarrow> status option)
   \<Rightarrow> ('m common_metadata_scheme \<Rightarrow> bool) \<Rightarrow> (string \<Rightarrow> string) \<Rightarrow> ('s, 't) cr_codec \<Rightarrow> 'w served
   \<Rightarrow> ('m common_metadata_scheme, 'w) hosting" where
  "kind_hosting from_cr view status_of parts sha3 codec sv =
    (let fit = (\<lambda>r. md_name r = sv_name sv \<and> resolve_namespace sha3 (view r) = Inr (sv_namespace sv) \<and> parts r) in
     \<lparr>ho_seen = (\<lambda>w. case sv_current sv w of
          None \<Rightarrow> None
        | Some u \<Rightarrow> (case cc_decode codec u of
            Inl err \<Rightarrow> None
          | Inr cr \<Rightarrow> (case from_cr (cc_decode codec) (cc_now codec) (Typed cr) of
              Inl err \<Rightarrow> None
            | Inr r \<Rightarrow> if fit r then Some (cr_deleted cr \<noteq> None, cr_finalizers cr, status_of r) else None))),
      ho_gone = (\<lambda>w. sv_current sv w = None), ho_work = sv_work sv, ho_fit = fit\<rparr>)"

lemma field_put_same: "map_of m k = Some v \<Longrightarrow> field_put k v m = m"
  by (induction m) (auto split: if_splits)

subsection \<open>A kind of resource\<close>

text \<open>
  What the converters of a kind promise its controller: reading finds name, deletion mark and status
  of the object, a storable status is written so that it is read again, and neither status nor
  finalizers have a say in where the object is. \<open>parts\<close> holds of the resources whose status can be
  written in full.
\<close>

locale hosted_kind = status_view deleted_at status_of put_status
  for status_of :: "'m common_metadata_scheme \<Rightarrow> status option"
    and put_status :: "status \<Rightarrow> 'm common_metadata_scheme \<Rightarrow> 'm common_metadata_scheme" +
  fixes to_cr :: "'m common_metadata_scheme option \<Rightarrow> go_error + ('s, 't) custom_resource"
    and from_cr :: "(uobject, 's, 't) decoder \<Rightarrow> time \<Rightarrow> (uobject, 's, 't) client_object
      \<Rightarrow> go_error + 'm common_metadata_scheme"
    and view :: "'m common_metadata_scheme \<Rightarrow> scoped"
    and get :: "'t \<Rightarrow> status" and put :: "status \<Rightarrow> 't option \<Rightarrow> 't" and proper :: "'t \<Rightarrow> bool"
    and parts :: "'m common_metadata_scheme \<Rightarrow> bool"
  assumes lens: "put (get t) (Some t) = t"
    and states: "proper t \<Longrightarrow> proper_state (st_state (get t))"
    and unstructured: "decode u = Inr cr \<Longrightarrow> from_cr decode now (Unstructured u) = from_cr decode now (Typed cr)"
    and reads: "from_cr decode now (Typed cr) = Inr r \<Longrightarrow> md_name r = cr_name cr \<and> md_deleted r = cr_deleted cr \<and>
      status_of r = Some (case cr_status cr of None \<Rightarrow> pending_status now | Some t \<Rightarrow> status_from_cr (get t))"
    and writes: "status_of r = Some st \<Longrightarrow> storable_status st \<Longrightarrow> st_conditions st \<noteq> [] \<Longrightarrow> parts r \<Longrightarrow>
      \<exists>cr t. to_cr (Some r) = Inr cr \<and> cr_status cr = Some t \<and> status_from_cr (get t) = st \<and> proper t \<and>
        (\<forall>decode now cr0 r0. from_cr decode now (Typed cr0) = Inr r0 \<longrightarrow> parts r0 \<longrightarrow>
          (\<forall>v. \<exists>r'. from_cr decode now (Typed (cr0\<lparr>cr_status := Some t, cr_version := v\<rparr>)) = Inr r' \<and>
            view r' = view r0 \<and> parts r'))"
    and finalizes: "from_cr decode now (Typed cr) = Inr r \<Longrightarrow>
      \<exists>r'. from_cr decode now (Typed (cr\<lparr>cr_finalizers := fs, cr_version := v\<rparr>)) = Inr r' \<and>
        view r' = view r \<and> (parts r \<longrightarrow> parts r')"
    and puts: "md_name (put_status st r) = md_name r \<and> view (put_status st r) = view r \<and> (parts r \<longrightarrow> parts (put_status st r))"
begin

lemma seenE:
  assumes "ho_seen (kind_hosting from_cr view status_of parts sha3 codec sv) w = Some (d, fs, s)"
  obtains u cr r where "sv_current sv w = Some u" and "cc_decode codec u = Inr cr"
    and "from_cr (cc_decode codec) (cc_now codec) (Typed cr) = Inr r"
    and "ho_fit (kind_hosting from_cr view status_of parts sha3 codec sv) r"
    and "d \<longleftrightarrow> cr_deleted cr \<noteq> None" and "fs = cr_finalizers cr" and "s = status_of r"
  using assms by (auto simp: kind_hosting_def Let_def split: option.splits sum.splits if_splits)

lemma seenI:
  assumes "sv_current sv w = Some u" and "cc_decode codec u = Inr cr"
    and "from_cr (cc_decode codec) (cc_now codec) (Typed cr) = Inr r"
    and "ho_fit (kind_hosting from_cr view status_of parts sha3 codec sv) r"
  shows "ho_seen (kind_hosting from_cr view status_of parts sha3 codec sv) w =
    Some (cr_deleted cr \<noteq> None, cr_finalizers cr, status_of r)"
  using assms by (auto simp: kind_hosting_def Let_def)

lemma hosting_simps:
  "ho_gone (kind_hosting from_cr view status_of parts sha3 codec sv) w \<longleftrightarrow> sv_current sv w = None"
  "ho_work (kind_hosting from_cr view status_of parts sha3 codec sv) w = sv_work sv w"
  "ho_fit (kind_hosting from_cr view status_of parts sha3 codec sv) r \<longleftrightarrow>
     md_name r = sv_name sv \<and> resolve_namespace sha3 (view r) = Inr (sv_namespace sv) \<and> parts r"
  by (simp_all add: kind_hosting_def Let_def)

lemma hosted_reads:
  assumes served: "serves_typed kc get codec req sv" and codec: "codec_ok proper codec"
  shows "hosts_reads (kind_hosting from_cr view status_of parts sha3 codec sv) kc req
    (\<lambda>obj. from_cr (cc_decode codec) (cc_now codec) (Typed (typed_object put obj))) deleted_at status_of"
  unfolding hosts_reads_def
proof (intro allI impI)
  let ?ho = "kind_hosting from_cr view status_of parts sha3 codec sv"
  fix w d fs s
  assume "ho_seen ?ho w = Some (d, fs, s)"
  then obtain u cr r where u: "sv_current sv w = Some u" "cc_decode codec u = Inr cr"
    and r: "from_cr (cc_decode codec) (cc_now codec) (Typed cr) = Inr r" and fit: "ho_fit ?ho r"
    and dfs: "d \<longleftrightarrow> cr_deleted cr \<noteq> None" "fs = cr_finalizers cr" "s = status_of r"
    by (rule seenE)
  from served u obtain w' where w': "kc_get kc req w = (Inr (object_of get cr), w')"
    "sv_current sv w' = Some u" "sv_work sv w' \<le> sv_work sv w"
    unfolding serves_typed_def by blast
  have "get_state_from_object (object_of get cr) = ''deleting'' \<longleftrightarrow> phase_of s = Phase StateDeleting"
  proof (cases "cr_status cr")
    case None
    with reads [OF r] dfs show ?thesis
      by (simp add: get_state_from_object_def pending_status_def push_condition_def default_pending_condition_def
          peek_conditions_def empty_status_def)
  next
    case (Some t)
    have "state_of_string (state_string (st_state (get t))) = st_state (get t)"
      using states [OF codec_okD(3) [OF codec u(2) Some]] by (simp add: proper_state_def)
    with Some reads [OF r] dfs show ?thesis
      by (cases "st_state (get t)")
        (auto simp: get_state_from_object_def status_from_cr_def resource_state_from_cr_def state_of_string_def split: if_splits)
  qed
  moreover have "typed_object put (object_of get cr) = cr" by (rule typed_object_of) (rule lens)
  ultimately show "\<exists>obj w' r. kc_get kc req w = (Inr obj, w') \<and> ho_seen ?ho w' = Some (d, fs, s) \<and>
      ho_work ?ho w' \<le> ho_work ?ho w \<and> (ko_deletion obj \<noteq> None \<longleftrightarrow> d) \<and> ko_finalizers obj = fs \<and>
      (get_state_from_object obj = ''deleting'' \<longleftrightarrow> phase_of s = Phase StateDeleting) \<and>
      from_cr (cc_decode codec) (cc_now codec) (Typed (typed_object put obj)) = Inr r \<and>
      ho_fit ?ho r \<and> deleted_at r = d \<and> status_of r = s"
    using w' seenI [OF w'(2) u(2) r fit] fit r reads [OF r] dfs
    by (intro exI [of _ "object_of get cr"] exI [of _ w'] exI [of _ r]) (simp add: hosting_simps(2) deleted_at_def)
qed

lemma hosted_updates:
  assumes served: "serves_typed kc get codec req sv" and codec: "codec_ok proper codec"
  shows "hosts_updates (kind_hosting from_cr view status_of parts sha3 codec sv) kc req"
  unfolding hosts_updates_def
proof (intro allI impI)
  let ?ho = "kind_hosting from_cr view status_of parts sha3 codec sv"
  fix w d fs s obj w1 fs'
  assume "ho_seen ?ho w = Some (d, fs, s)" and got: "kc_get kc req w = (Inr obj, w1)"
  then obtain u cr r where u: "sv_current sv w = Some u" "cc_decode codec u = Inr cr"
    and r: "from_cr (cc_decode codec) (cc_now codec) (Typed cr) = Inr r" and fit: "ho_fit ?ho r"
    and dfs: "d \<longleftrightarrow> cr_deleted cr \<noteq> None" "fs = cr_finalizers cr" "s = status_of r"
    by (blast elim: seenE)
  from served u got have obj: "obj = object_of get cr" and w1: "sv_current sv w1 = Some u"
    unfolding serves_typed_def by (metis Pair_inject sum.inject(2))+
  from served w1 u(2) obtain w2 where w2: "kc_update kc ((object_of get cr)\<lparr>ko_finalizers := fs'\<rparr>) w1 = (None, w2)"
    "sv_work sv w2 \<le> sv_work sv w1"
    and stored: "if cr_deleted cr \<noteq> None \<and> fs' = [] then sv_current sv w2 = None
      else \<exists>u' v. sv_current sv w2 = Some u' \<and> cc_decode codec u' = Inr (cr\<lparr>cr_finalizers := fs', cr_version := v\<rparr>)"
    unfolding serves_typed_def by blast
  have "ho_seen ?ho w2 = Some (d, fs', s)" if kept: "\<not> (cr_deleted cr \<noteq> None \<and> fs' = [])"
  proof -
    from stored kept obtain u' v where u': "sv_current sv w2 = Some u'"
      "cc_decode codec u' = Inr (cr\<lparr>cr_finalizers := fs', cr_version := v\<rparr>)" by auto
    from finalizes [OF r] obtain r' where
      r': "from_cr (cc_decode codec) (cc_now codec) (Typed (cr\<lparr>cr_finalizers := fs', cr_version := v\<rparr>)) = Inr r'"
      and same: "view r' = view r" "parts r \<longrightarrow> parts r'" by blast
    from reads [OF r] reads [OF r'] same fit have "ho_fit ?ho r'" "status_of r' = s"
      using dfs by (simp_all add: hosting_simps(3))
    with seenI [OF u' r'] dfs show ?thesis by simp
  qed
  with w2 stored dfs obj show "\<exists>w2. kc_update kc (obj\<lparr>ko_finalizers := fs'\<rparr>) w1 = (None, w2) \<and>
      ho_work ?ho w2 \<le> ho_work ?ho w1 \<and>
      (if d \<and> fs' = [] then ho_gone ?ho w2 else ho_seen ?ho w2 = Some (d, fs', s))"
    by (auto simp: hosting_simps(1,2))
qed

lemma status_lands_in_store:
  assumes served: "serves_dynamic client kind sv" and u: "sv_current sv w = Some u"
    and decoded: "cc_decode codec u = Inr cr0" and codec: "codec_ok proper codec"
    and m: "\<And>u cr0 v. cc_decode codec u = Inr cr0 \<Longrightarrow>
      cc_decode codec ((set_nested_map u m ''status'')\<lparr>uo_version := v\<rparr>) = Inr (cr0\<lparr>cr_status := Some t, cr_version := v\<rparr>)"
  shows "\<exists>w' u' v. dc_retry client (status_attempt client kind (sv_namespace sv) (sv_name sv) m) w = (None, w') \<and>
    sv_current sv w' = Some u' \<and> cc_decode codec u' = Inr (cr0\<lparr>cr_status := Some t, cr_version := v\<rparr>) \<and>
    sv_work sv w' \<le> sv_work sv w"
proof -
  obtain w1 where get: "dc_get client kind (sv_namespace sv) (sv_name sv) w = (Inr u, w1)"
    "sv_current sv w1 = Some u" "sv_work sv w1 \<le> sv_work sv w"
    using served u unfolding serves_dynamic_def by blast
  obtain st where st: "nested_map u ''status'' = Inr st" using codec_okD(2) [OF codec decoded] by blast
  have retry: "dc_retry client f w = (None, w')" if "f w = (None, w')" for f w'
    using served that unfolding serves_dynamic_def by blast
  show ?thesis
  proof (cases "st = Some m")
    case True
    with st have "map_of (uo_fields u) ''status'' = Some (JObject m)" by (simp add: nested_map_Some)
    then have "set_nested_map u m ''status'' = u" by (simp add: set_nested_map_def field_put_same)
    with m [OF decoded, of "uo_version u"]
    have "cc_decode codec u = Inr (cr0\<lparr>cr_status := Some t, cr_version := uo_version u\<rparr>)" by simp
    moreover have "status_attempt client kind (sv_namespace sv) (sv_name sv) m w = (None, w1)"
      using get st True by (simp add: status_attempt_def)
    ultimately show ?thesis using get retry by blast
  next
    case False
    obtain v w2 where "dc_update_status client kind (sv_namespace sv) (set_nested_map u m ''status'') w1
        = (Inr ((set_nested_map u m ''status'')\<lparr>uo_version := v\<rparr>), w2)"
      and w2: "sv_current sv w2 = Some ((set_nested_map u m ''status'')\<lparr>uo_version := v\<rparr>)" "sv_work sv w2 \<le> sv_work sv w1"
      using served get(2) unfolding serves_dynamic_def by blast
    with get st False have "status_attempt client kind (sv_namespace sv) (sv_name sv) m w = (None, w2)"
      by (simp add: status_attempt_def)
    with retry w2 m [OF decoded, of v] get(3) show ?thesis by fastforce
  qed
qed

lemma hosted_writes:
  assumes served: "serves_dynamic client kind sv" and codec: "codec_ok proper codec"
  shows "hosts_writes (kind_hosting from_cr view status_of parts sha3 codec sv)
    (new_repo_adapter (resource_adapter client kind sha3 to_cr from_cr view (cc_encode codec) (cc_decode codec)
      (cc_now codec)) listing) deleted_at status_of"
  unfolding hosts_writes_def
proof (intro allI impI)
  let ?ho = "kind_hosting from_cr view status_of parts sha3 codec sv"
  let ?a = "resource_adapter client kind sha3 to_cr from_cr view (cc_encode codec) (cc_decode codec) (cc_now codec)"
  fix w d fs s r st
  assume "ho_seen ?ho w = Some (d, fs, s)" and fit: "ho_fit ?ho r" and "deleted_at r = d" and st: "status_of r = Some st"
    and storable: "storable_status st" "st_conditions st \<noteq> []"
  then obtain u cr0 r0 where u: "sv_current sv w = Some u" "cc_decode codec u = Inr cr0"
    and r0: "from_cr (cc_decode codec) (cc_now codec) (Typed cr0) = Inr r0" and fit0: "ho_fit ?ho r0"
    and dfs: "d \<longleftrightarrow> cr_deleted cr0 \<noteq> None" "fs = cr_finalizers cr0" "s = status_of r0"
    by (blast elim: seenE)
  from writes [OF st storable] fit obtain cr t where cr: "to_cr (Some r) = Inr cr" "cr_status cr = Some t"
    and t: "status_from_cr (get t) = st" "proper t"
    and again: "\<And>decode now cr0 r0 v. from_cr decode now (Typed cr0) = Inr r0 \<Longrightarrow> parts r0 \<Longrightarrow>
      \<exists>r'. from_cr decode now (Typed (cr0\<lparr>cr_status := Some t, cr_version := v\<rparr>)) = Inr r' \<and> view r' = view r0 \<and> parts r'"
    by (simp add: hosting_simps(3)) blast
  obtain e m where e: "cc_encode codec cr = Inr e" "nested_map e ''status'' = Inr (Some m)"
    and m: "\<And>u cr0 v. cc_decode codec u = Inr cr0 \<Longrightarrow>
      cc_decode codec ((set_nested_map u m ''status'')\<lparr>uo_version := v\<rparr>) = Inr (cr0\<lparr>cr_status := Some t, cr_version := v\<rparr>)"
    using codec_ok_encodes [OF codec cr(2) t(2)] by metis
  obtain w1 u1 v where retry: "dc_retry client (status_attempt client kind (sv_namespace sv) (sv_name sv) m) w = (None, w1)"
    and u1: "sv_current sv w1 = Some u1" "cc_decode codec u1 = Inr (cr0\<lparr>cr_status := Some t, cr_version := v\<rparr>)"
    "sv_work sv w1 \<le> sv_work sv w"
    using status_lands_in_store [OF served u codec m] by blast
  obtain w2 where w2: "dc_get client kind (sv_namespace sv) (sv_name sv) w1 = (Inr u1, w2)"
    "sv_current sv w2 = Some u1" "sv_work sv w2 \<le> sv_work sv w1"
    using served u1(1) unfolding serves_dynamic_def by blast
  obtain r1 where r1: "from_cr (cc_decode codec) (cc_now codec) (Typed (cr0\<lparr>cr_status := Some t, cr_version := v\<rparr>)) = Inr r1"
    and same: "view r1 = view r0" "parts r1"
    using again [OF r0] fit0 by (auto simp: hosting_simps(3))
  have "adapter_update_status ?a r w = (Inr r1, w2)"
    using cr e fit retry w2(1) unstructured [where decode = "cc_decode codec", OF u1(2)] r1
    by (simp add: adapter_update_status_def resource_adapter_def hosting_simps(3))
  moreover have "ho_fit ?ho r1" "status_of r1 = Some st"
    using reads [OF r0] reads [OF r1] same fit0 t by (simp_all add: hosting_simps(3))
  moreover note seenI [OF w2(2) u1(2) r1]
  ultimately show "\<exists>x w'. rp_update_status (new_repo_adapter ?a listing) r w = (Inr x, w') \<and>
      ho_work ?ho w' \<le> ho_work ?ho w \<and> ho_seen ?ho w' = Some (d, fs, Some st)"
    using u1(3) w2(3) dfs by (simp add: new_repo_adapter_def hosting_simps(2))
qed

text \<open>The cluster hosts the objects of the kind.\<close>

lemma hosted:
  assumes "serves_dynamic client kind sv" and "serves_typed kc get codec req sv" and "codec_ok proper codec"
  shows "hosts (kind_hosting from_cr view status_of parts sha3 codec sv) kc req
    (\<lambda>obj. from_cr (cc_decode codec) (cc_now codec) (Typed (typed_object put obj)))
    (new_repo_adapter (resource_adapter client kind sha3 to_cr from_cr view (cc_encode codec) (cc_decode codec)
      (cc_now codec)) listing) deleted_at status_of put_status"
  unfolding hosts_def
  using hosted_reads [OF assms(2,3)] hosted_updates [OF assms(2,3)] hosted_writes [OF assms(1,3)] puts
  by (simp add: hosting_simps(3))

end

end
