(* ===== verification/Hosted_Kinds.thy ===== *)
theory Hosted_Kinds
  imports Hosting
begin

section \<open>The kinds a cluster hosts\<close>

lemma status_written:
  assumes "storable_status st"
  shows "\<exists>st'. status_to_cr message st = Inr st' \<and> status_from_cr st' = st \<and> proper_status st'"
  using status_comes_back [OF assms] status_to_cr_proper by metis

lemmas metadata_defs = tenant_metadata_def tenant_regional_metadata_def workspace_regional_metadata_def
  network_regional_metadata_def global_tenant_metadata.defs regional_metadata.defs regional_network_metadata.defs

lemmas reading_defs = read_cr_def Let_def optional_status_from_cr_def own_scope_def own_network_scope_def

lemmas writing_defs = optional_status_to_cr_def has_conditions_def Let_def new_object_def

interpretation workspace_hosted: hosted_kind workspace_view put_workspace_status "workspace_to_cr codec sha3" "\<lambda>decode. workspace_from_cr codec decode sha3"
    "\<lambda>r. PlainScope (own_scope r)" "wss_status" "put_workspace_cr_status" "\<lambda>t. proper_status (wss_status t)" "\<lambda>r. True" for codec sha3
proof (unfold_locales, goal_cases)
  case (1 t)
  show ?case by (simp add: put_workspace_cr_status_def)
next
  case (2 t)
  then show ?case by (simp add: proper_status_def)
next
  case (3 decode u cr now)
  then show ?case by (simp add: workspace_from_cr_def read_cr_def)
next
  case (4 decode now cr r)
  then show ?case
    by (auto simp: workspace_from_cr_def reading_defs metadata_defs workspace.defs workspace_view_def workspace_status_from_cr_def workspace_status_to_cr_def split: option.splits)
next
  case (5 r st)
  from status_written [OF 5(2)] obtain st' where st': "status_to_cr (''failed to map resource state domain to CR'') st = Inr st'" "status_from_cr st' = st"
    "proper_status st'" by blast
  with 5 show ?case
    by (auto simp: workspace_to_cr_def workspace_from_cr_def workspace_view_def writing_defs reading_defs metadata_defs workspace.defs workspace_status_from_cr_def workspace_status_to_cr_def workspace_status_written_def)
next
  case (6 decode now cr r fs v)
  then show ?case by (auto simp: workspace_from_cr_def reading_defs metadata_defs workspace.defs split: option.splits)
next
  case (7 st r)
  then show ?case by (auto simp: put_workspace_status_def own_scope_def own_network_scope_def split: option.splits)
qed

interpretation network_hosted: hosted_kind network_view put_network_status "network_to_cr sha3" "\<lambda>decode. network_from_cr decode sha3"
    "\<lambda>r. PlainScope (own_scope r)" "ncs_status" "put_network_cr_status" "\<lambda>t. proper_status (ncs_status t)" "\<lambda>r. True" for sha3
proof (unfold_locales, goal_cases)
  case (1 t)
  show ?case by (simp add: put_network_cr_status_def)
next
  case (2 t)
  then show ?case by (simp add: proper_status_def)
next
  case (3 decode u cr now)
  then show ?case by (simp add: network_from_cr_def read_cr_def)
next
  case (4 decode now cr r)
  then show ?case
    by (auto simp: network_from_cr_def reading_defs metadata_defs network.defs network_view_def network_status_from_cr_def network_status_to_cr_def split: option.splits)
next
  case (5 r st)
  from status_written [OF 5(2)] obtain st' where st': "status_to_cr (''failed to convert resource state to CR'') st = Inr st'" "status_from_cr st' = st"
    "proper_status st'" by blast
  with 5 show ?case
    by (auto simp: network_to_cr_def network_from_cr_def network_view_def writing_defs reading_defs metadata_defs network.defs network_status_from_cr_def network_status_to_cr_def)
next
  case (6 decode now cr r fs v)
  then show ?case by (auto simp: network_from_cr_def reading_defs metadata_defs network.defs split: option.splits)
next
  case (7 st r)
  then show ?case by (auto simp: put_network_status_def own_scope_def own_network_scope_def split: option.splits)
qed

interpretation internet_gateway_hosted: hosted_kind internet_gateway_view put_internet_gateway_status "internet_gateway_to_cr sha3" "\<lambda>decode. internet_gateway_from_cr decode sha3"
    "\<lambda>r. PlainScope (own_scope r)" "\<lambda>st. st" "\<lambda>st s. st" "\<lambda>t. proper_status (t)" "\<lambda>r. True" for sha3
proof (unfold_locales, goal_cases)
  case (1 t)
  show ?case by simp
next
  case (2 t)
  then show ?case by (simp add: proper_status_def)
next
  case (3 decode u cr now)
  then show ?case by (simp add: internet_gateway_from_cr_def read_cr_def)
next
  case (4 decode now cr r)
  then show ?case
    by (auto simp: internet_gateway_from_cr_def reading_defs metadata_defs internet_gateway.defs internet_gateway_view_def internet_gateway_status_from_cr_def internet_gateway_status_to_cr_def split: option.splits)
next
  case (5 r st)
  from status_written [OF 5(2)] obtain st' where st': "status_to_cr (''failed to convert resource state to CR'') st = Inr st'" "status_from_cr st' = st"
    "proper_status st'" by blast
  with 5 show ?case
    by (auto simp: internet_gateway_to_cr_def internet_gateway_from_cr_def internet_gateway_view_def writing_defs reading_defs metadata_defs internet_gateway.defs internet_gateway_status_from_cr_def internet_gateway_status_to_cr_def)
next
  case (6 decode now cr r fs v)
  then show ?case by (auto simp: internet_gateway_from_cr_def reading_defs metadata_defs internet_gateway.defs split: option.splits)
next
  case (7 st r)
  then show ?case by (auto simp: put_internet_gateway_status_def own_scope_def own_network_scope_def split: option.splits)
qed

interpretation nic_hosted: hosted_kind nic_view put_nic_status "nic_to_cr sha3" "\<lambda>decode. nic_from_cr decode sha3"
    "\<lambda>r. PlainScope (own_scope r)" "nicst_status" "put_nic_cr_status" "\<lambda>t. proper_status (nicst_status t)" "\<lambda>r. True" for sha3
proof (unfold_locales, goal_cases)
  case (1 t)
  show ?case by (simp add: put_nic_cr_status_def)
next
  case (2 t)
  then show ?case by (simp add: proper_status_def)
next
  case (3 decode u cr now)
  then show ?case by (simp add: nic_from_cr_def read_cr_def)
next
  case (4 decode now cr r)
  then show ?case
    by (auto simp: nic_from_cr_def reading_defs metadata_defs nic.defs nic_view_def nic_status_from_cr_def nic_status_to_cr_def split: option.splits)
next
  case (5 r st)
  from status_written [OF 5(2)] obtain st' where st': "status_to_cr (''failed to convert resource state to CR'') st = Inr st'" "status_from_cr st' = st"
    "proper_status st'" by blast
  with 5 show ?case
    by (auto simp: nic_to_cr_def nic_from_cr_def nic_view_def writing_defs reading_defs metadata_defs nic.defs nic_status_from_cr_def nic_status_to_cr_def)
next
  case (6 decode now cr r fs v)
  then show ?case by (auto simp: nic_from_cr_def reading_defs metadata_defs nic.defs split: option.splits)
next
  case (7 st r)
  then show ?case by (auto simp: put_nic_status_def own_scope_def own_network_scope_def split: option.splits)
qed

interpretation public_ip_hosted: hosted_kind public_ip_view put_public_ip_status "public_ip_to_cr sha3" "\<lambda>decode. public_ip_from_cr decode sha3"
    "\<lambda>r. PlainScope (own_scope r)" "pist_status" "put_public_ip_cr_status" "\<lambda>t. proper_status (pist_status t)" "\<lambda>r. True" for sha3
proof (unfold_locales, goal_cases)
  case (1 t)
  show ?case by (simp add: put_public_ip_cr_status_def)
next
  case (2 t)
  then show ?case by (simp add: proper_status_def)
next
  case (3 decode u cr now)
  then show ?case by (simp add: public_ip_from_cr_def read_cr_def)
next
  case (4 decode now cr r)
  then show ?case
    by (auto simp: public_ip_from_cr_def reading_defs metadata_defs public_ip.defs public_ip_view_def public_ip_status_from_cr_def public_ip_status_to_cr_def split: option.splits)
next
  case (5 r st)
  from status_written [OF 5(2)] obtain st' where st': "status_to_cr (''failed to convert resource state to CR'') st = Inr st'" "status_from_cr st' = st"
    "proper_status st'" by blast
  with 5 show ?case
    by (auto simp: public_ip_to_cr_def public_ip_from_cr_def public_ip_view_def writing_defs reading_defs metadata_defs public_ip.defs public_ip_status_from_cr_def public_ip_status_to_cr_def)
next
  case (6 decode now cr r fs v)
  then show ?case by (auto simp: public_ip_from_cr_def reading_defs metadata_defs public_ip.defs split: option.splits)
next
  case (7 st r)
  then show ?case by (auto simp: put_public_ip_status_def own_scope_def own_network_scope_def split: option.splits)
qed

interpretation route_table_hosted: hosted_kind route_table_view put_route_table_status "route_table_to_cr sha3" "\<lambda>decode. route_table_from_cr decode sha3"
    "\<lambda>r. NetworkScoped (own_network_scope r)" "rtst_status" "put_route_table_cr_status" "\<lambda>t. proper_status (rtst_status t) \<and> list_all proper_status (rtst_routes t)" "\<lambda>r. pred_option (\<lambda>s. list_all storable_status (rtst_routes s)) (rt_status r)" for sha3
proof (unfold_locales, goal_cases)
  case (1 t)
  show ?case by (simp add: put_route_table_cr_status_def)
next
  case (2 t)
  then show ?case by (simp add: proper_status_def)
next
  case (3 decode u cr now)
  then show ?case by (simp add: route_table_from_cr_def read_cr_def)
next
  case (4 decode now cr r)
  then show ?case
    by (auto simp: route_table_from_cr_def reading_defs metadata_defs route_table.defs route_table_view_def route_table_status_from_cr_def route_table_status_to_cr_def split: option.splits)
next
  case (5 r st)
  from status_written [OF 5(2)] obtain st' where st': "status_to_cr (''failed to convert resource state to CR'') st = Inr st'" "status_from_cr st' = st"
    "proper_status st'" by blast
  from 5(1,4) obtain s where s: "rt_status r = Some s" "list_all storable_status (rtst_routes s)" by (auto simp: route_table_view_def)
  from statuses_come_back [OF s(2)] obtain out where out: "statuses_to_cr ''failed to convert route status state to CR'' (rtst_routes s) = Inr out"
    "map status_from_cr out = rtst_routes s" "list_all proper_status out" using statuses_to_cr_proper by metis
  with 5 st' s out show ?case
    by (auto simp: route_table_to_cr_def route_table_from_cr_def route_table_view_def writing_defs reading_defs metadata_defs route_table.defs route_table_status_from_cr_def route_table_status_to_cr_def)
next
  case (6 decode now cr r fs v)
  then show ?case by (auto simp: route_table_from_cr_def reading_defs metadata_defs route_table.defs split: option.splits)
next
  case (7 st r)
  then show ?case by (auto simp: put_route_table_status_def own_scope_def own_network_scope_def zero_route_table_status_def split: option.splits)
qed

interpretation subnet_hosted: hosted_kind subnet_view put_subnet_status "subnet_to_cr sha3" "\<lambda>decode. subnet_from_cr decode sha3"
    "\<lambda>r. NetworkScoped (own_network_scope r)" "snst_status" "put_subnet_cr_status" "\<lambda>t. proper_status (snst_status t)" "\<lambda>r. True" for sha3
proof (unfold_locales, goal_cases)
  case (1 t)
  show ?case by (simp add: put_subnet_cr_status_def)
next
  case (2 t)
  then show ?case by (simp add: proper_status_def)
next
  case (3 decode u cr now)
  then show ?case by (simp add: subnet_from_cr_def read_cr_def)
next
  case (4 decode now cr r)
  then show ?case
    by (auto simp: subnet_from_cr_def reading_defs metadata_defs subnet.defs subnet_view_def subnet_status_from_cr_def subnet_status_to_cr_def split: option.splits)
next
  case (5 r st)
  from status_written [OF 5(2)] obtain st' where st': "status_to_cr (''failed to convert resource state to CR'') st = Inr st'" "status_from_cr st' = st"
    "proper_status st'" by blast
  with 5 show ?case
    by (auto simp: subnet_to_cr_def subnet_from_cr_def subnet_view_def writing_defs reading_defs metadata_defs subnet.defs subnet_status_from_cr_def subnet_status_to_cr_def)
next
  case (6 decode now cr r fs v)
  then show ?case by (auto simp: subnet_from_cr_def reading_defs metadata_defs subnet.defs split: option.splits)
next
  case (7 st r)
  then show ?case by (auto simp: put_subnet_status_def own_scope_def own_network_scope_def split: option.splits)
qed

interpretation security_group_hosted: hosted_kind security_group_view put_security_group_status "security_group_to_cr sha3" "\<lambda>decode. security_group_from_cr decode sha3"
    "\<lambda>r. PlainScope (own_scope r)" "sgst_status" "put_security_group_cr_status" "\<lambda>t. proper_status (sgst_status t) \<and> list_all proper_status (sgst_rules t)" "\<lambda>r. pred_option (\<lambda>s. list_all storable_status (sgst_rules s)) (sg_status r)" for sha3
proof (unfold_locales, goal_cases)
  case (1 t)
  show ?case by (simp add: put_security_group_cr_status_def)
next
  case (2 t)
  then show ?case by (simp add: proper_status_def)
next
  case (3 decode u cr now)
  then show ?case by (simp add: security_group_from_cr_def read_cr_def)
next
  case (4 decode now cr r)
  then show ?case
    by (auto simp: security_group_from_cr_def reading_defs metadata_defs security_group.defs security_group_view_def security_group_status_from_cr_def security_group_status_to_cr_def split: option.splits)
next
  case (5 r st)
  from status_written [OF 5(2)] obtain st' where st': "status_to_cr (''failed to convert resource state to CR'') st = Inr st'" "status_from_cr st' = st"
    "proper_status st'" by blast
  from 5(1,4) obtain s where s: "sg_status r = Some s" "list_all storable_status (sgst_rules s)" by (auto simp: security_group_view_def)
  from statuses_come_back [OF s(2)] obtain out where out: "statuses_to_cr ''failed to convert rule status state to CR'' (sgst_rules s) = Inr out"
    "map status_from_cr out = sgst_rules s" "list_all proper_status out" using statuses_to_cr_proper by metis
  with 5 st' s out show ?case
    by (auto simp: security_group_to_cr_def security_group_from_cr_def security_group_view_def writing_defs reading_defs metadata_defs security_group.defs security_group_status_from_cr_def security_group_status_to_cr_def)
next
  case (6 decode now cr r fs v)
  then show ?case by (auto simp: security_group_from_cr_def reading_defs metadata_defs security_group.defs split: option.splits)
next
  case (7 st r)
  then show ?case by (auto simp: put_security_group_status_def own_scope_def own_network_scope_def zero_security_group_status_def split: option.splits)
qed

interpretation security_group_rule_hosted: hosted_kind security_group_rule_view put_security_group_rule_status "security_group_rule_to_cr sha3" "\<lambda>decode. security_group_rule_from_cr decode sha3"
    "\<lambda>r. PlainScope (own_scope r)" "\<lambda>st. st" "\<lambda>st s. st" "\<lambda>t. proper_status (t)" "\<lambda>r. True" for sha3
proof (unfold_locales, goal_cases)
  case (1 t)
  show ?case by simp
next
  case (2 t)
  then show ?case by (simp add: proper_status_def)
next
  case (3 decode u cr now)
  then show ?case by (simp add: security_group_rule_from_cr_def read_cr_def)
next
  case (4 decode now cr r)
  then show ?case
    by (auto simp: security_group_rule_from_cr_def reading_defs metadata_defs security_group_rule.defs security_group_rule_view_def security_group_rule_status_from_cr_def security_group_rule_status_to_cr_def split: option.splits)
next
  case (5 r st)
  from status_written [OF 5(2)] obtain st' where st': "status_to_cr (''failed to convert resource state to CR'') st = Inr st'" "status_from_cr st' = st"
    "proper_status st'" by blast
  with 5 show ?case
    by (auto simp: security_group_rule_to_cr_def security_group_rule_from_cr_def security_group_rule_view_def writing_defs reading_defs metadata_defs security_group_rule.defs security_group_rule_status_from_cr_def security_group_rule_status_to_cr_def)
next
  case (6 decode now cr r fs v)
  then show ?case by (auto simp: security_group_rule_from_cr_def reading_defs metadata_defs security_group_rule.defs split: option.splits)
next
  case (7 st r)
  then show ?case by (auto simp: put_security_group_rule_status_def own_scope_def own_network_scope_def split: option.splits)
qed

interpretation role_hosted: hosted_kind role_view put_role_status "role_to_cr sha3" "\<lambda>decode. role_from_cr decode sha3"
    "\<lambda>r. PlainScope (own_scope r)" "\<lambda>st. st" "\<lambda>st s. st" "\<lambda>t. proper_status (t)" "\<lambda>r. True" for sha3
proof (unfold_locales, goal_cases)
  case (1 t)
  show ?case by simp
next
  case (2 t)
  then show ?case by (simp add: proper_status_def)
next
  case (3 decode u cr now)
  then show ?case by (simp add: role_from_cr_def read_cr_def)
next
  case (4 decode now cr r)
  then show ?case
    by (auto simp: role_from_cr_def reading_defs metadata_defs role.defs role_view_def role_status_from_cr_def role_status_to_cr_def split: option.splits)
next
  case (5 r st)
  from status_written [OF 5(2)] obtain st' where st': "status_to_cr (''role '' @ md_name r @ '': failed to map resource state domain to CR'') st = Inr st'" "status_from_cr st' = st"
    "proper_status st'" by blast
  with 5 show ?case
    by (auto simp: role_to_cr_def role_from_cr_def role_view_def writing_defs reading_defs metadata_defs role.defs role_status_from_cr_def role_status_to_cr_def)
next
  case (6 decode now cr r fs v)
  then show ?case by (auto simp: role_from_cr_def reading_defs metadata_defs role.defs split: option.splits)
next
  case (7 st r)
  then show ?case by (auto simp: put_role_status_def own_scope_def own_network_scope_def split: option.splits)
qed

interpretation role_assignment_hosted: hosted_kind role_assignment_view put_role_assignment_status "role_assignment_to_cr sha3" "\<lambda>decode. role_assignment_from_cr decode sha3"
    "\<lambda>r. PlainScope (own_scope r)" "\<lambda>st. st" "\<lambda>st s. st" "\<lambda>t. proper_status (t)" "\<lambda>r. True" for sha3
proof (unfold_locales, goal_cases)
  case (1 t)
  show ?case by simp
next
  case (2 t)
  then show ?case by (simp add: proper_status_def)
next
  case (3 decode u cr now)
  then show ?case by (simp add: role_assignment_from_cr_def read_cr_def)
next
  case (4 decode now cr r)
  then show ?case
    by (auto simp: role_assignment_from_cr_def reading_defs metadata_defs role_assignment.defs role_assignment_view_def role_assignment_status_from_cr_def role_assignment_status_to_cr_def split: option.splits)
next
  case (5 r st)
  from status_written [OF 5(2)] obtain st' where st': "status_to_cr (''failed to convert resource state to CR'') st = Inr st'" "status_from_cr st' = st"
    "proper_status st'" by blast
  with 5 show ?case
    by (auto simp: role_assignment_to_cr_def role_assignment_from_cr_def role_assignment_view_def writing_defs reading_defs metadata_defs role_assignment.defs role_assignment_status_from_cr_def role_assignment_status_to_cr_def)
next
  case (6 decode now cr r fs v)
  then show ?case by (auto simp: role_assignment_from_cr_def reading_defs metadata_defs role_assignment.defs split: option.splits)
next
  case (7 st r)
  then show ?case by (auto simp: put_role_assignment_status_def own_scope_def own_network_scope_def split: option.splits)
qed

subsection \<open>From the object to its provider and back\<close>

text \<open>
  A kind whose handler runs the shared lifecycle, with a controller over repository adapter,
  converters and plugin: a live object becomes active on the server, a marked one leaves it.
\<close>

locale clustered_kind =
    hosted_kind status_of put_status to_cr from_cr view get put proper parts +
    plain_reconciler deleted_at status_of put_status reconcile
  for status_of :: "'m common_metadata_scheme \<Rightarrow> status option"
    and put_status :: "status \<Rightarrow> 'm common_metadata_scheme \<Rightarrow> 'm common_metadata_scheme"
    and to_cr :: "'m common_metadata_scheme option \<Rightarrow> go_error + ('s, 't) custom_resource"
    and from_cr :: "(uobject, 's, 't) decoder \<Rightarrow> time \<Rightarrow> (uobject, 's, 't) client_object
      \<Rightarrow> go_error + 'm common_metadata_scheme"
    and view :: "'m common_metadata_scheme \<Rightarrow> scoped"
    and get :: "'t \<Rightarrow> status" and put :: "status \<Rightarrow> 't option \<Rightarrow> 't" and proper :: "'t \<Rightarrow> bool"
    and parts :: "'m common_metadata_scheme \<Rightarrow> bool"
    and reconcile :: "('m common_metadata_scheme, 'w) plugin_handler \<Rightarrow> 'm common_metadata_scheme \<Rightarrow> 'w
      \<Rightarrow> reconcile_result \<times> 'm common_metadata_scheme \<times> 'w"
begin

lemma provisioned:
  assumes "serves_dynamic client kind sv" and "serves_typed kc get codec req sv" and "codec_ok proper codec"
    and "h_repo h = new_repo_adapter (resource_adapter client kind sha3 to_cr from_cr view (cc_encode codec)
      (cc_decode codec) (cc_now codec)) listing"
    and "quiet_plugin deleted_at status_of h" and "roomy h"
    and "works (kind_hosting from_cr view status_of parts sha3 codec sv) (h_create h)"
    and "ho_seen (kind_hosting from_cr view status_of parts sha3 codec sv) w = Some (False, fs, s)"
    and "tidy s" and "provisioning s"
  shows "\<exists>n \<le> 4 * sv_work sv w + 5. \<exists>fs' s'. finalizer_name \<in> set fs' \<and> phase_of s' = Phase StateActive \<and>
    ho_seen (kind_hosting from_cr view status_of parts sha3 codec sv)
      (rounds (controller_reconcile kc
        (\<lambda>obj. from_cr (cc_decode codec) (cc_now codec) (Typed (typed_object put obj))) (reconcile h) after m now req) n w)
      = Some (False, fs', s')"
  using eventually_adopted_active [OF _ assms(5,6,7,8,9,10), of kc req] hosted [OF assms(1-3)] assms(4)
  by (simp add: hosting_simps(2))

lemma released:
  assumes "serves_dynamic client kind sv" and "serves_typed kc get codec req sv" and "codec_ok proper codec"
    and "h_repo h = new_repo_adapter (resource_adapter client kind sha3 to_cr from_cr view (cc_encode codec)
      (cc_decode codec) (cc_now codec)) listing"
    and "quiet_plugin deleted_at status_of h"
    and "works (kind_hosting from_cr view status_of parts sha3 codec sv) (h_delete h)"
    and "finalizer_name \<in> set fs" "\<forall>f \<in> set fs. equal_fold f finalizer_name"
    and "ho_seen (kind_hosting from_cr view status_of parts sha3 codec sv) w = Some (True, fs, s)" and "tidy s"
  shows "\<exists>n \<le> 4 * sv_work sv w + 4. sv_current sv
      (rounds (controller_reconcile kc
        (\<lambda>obj. from_cr (cc_decode codec) (cc_now codec) (Typed (typed_object put obj))) (reconcile h) after m now req) n w)
      = None"
  using eventually_released [OF _ assms(5,6,7,8,9,10), of kc req] hosted [OF assms(1-3)] assms(4)
  by (simp add: hosting_simps(1,2))

end

interpretation workspace_clustered: clustered_kind workspace_view put_workspace_status "workspace_to_cr codec sha3" "\<lambda>decode. workspace_from_cr codec decode sha3"
    "\<lambda>r. PlainScope (own_scope r)" "wss_status" "put_workspace_cr_status" "\<lambda>t. proper_status (wss_status t)" "\<lambda>r. True" workspace_handle_reconcile for codec sha3
  by unfold_locales

interpretation network_clustered: clustered_kind network_view put_network_status "network_to_cr sha3" "\<lambda>decode. network_from_cr decode sha3"
    "\<lambda>r. PlainScope (own_scope r)" "ncs_status" "put_network_cr_status" "\<lambda>t. proper_status (ncs_status t)" "\<lambda>r. True" network_handle_reconcile for sha3
  by unfold_locales

interpretation internet_gateway_clustered: clustered_kind internet_gateway_view put_internet_gateway_status "internet_gateway_to_cr sha3" "\<lambda>decode. internet_gateway_from_cr decode sha3"
    "\<lambda>r. PlainScope (own_scope r)" "\<lambda>st. st" "\<lambda>st s. st" "\<lambda>t. proper_status (t)" "\<lambda>r. True" internet_gateway_handle_reconcile for sha3
  by unfold_locales

interpretation nic_clustered: clustered_kind nic_view put_nic_status "nic_to_cr sha3" "\<lambda>decode. nic_from_cr decode sha3"
    "\<lambda>r. PlainScope (own_scope r)" "nicst_status" "put_nic_cr_status" "\<lambda>t. proper_status (nicst_status t)" "\<lambda>r. True" nic_handle_reconcile for sha3
  by unfold_locales

interpretation public_ip_clustered: clustered_kind public_ip_view put_public_ip_status "public_ip_to_cr sha3" "\<lambda>decode. public_ip_from_cr decode sha3"
    "\<lambda>r. PlainScope (own_scope r)" "pist_status" "put_public_ip_cr_status" "\<lambda>t. proper_status (pist_status t)" "\<lambda>r. True" public_ip_handle_reconcile for sha3
  by unfold_locales

interpretation route_table_clustered: clustered_kind route_table_view put_route_table_status "route_table_to_cr sha3" "\<lambda>decode. route_table_from_cr decode sha3"
    "\<lambda>r. NetworkScoped (own_network_scope r)" "rtst_status" "put_route_table_cr_status" "\<lambda>t. proper_status (rtst_status t) \<and> list_all proper_status (rtst_routes t)" "\<lambda>r. pred_option (\<lambda>s. list_all storable_status (rtst_routes s)) (rt_status r)" route_table_handle_reconcile for sha3
  by unfold_locales

interpretation subnet_clustered: clustered_kind subnet_view put_subnet_status "subnet_to_cr sha3" "\<lambda>decode. subnet_from_cr decode sha3"
    "\<lambda>r. NetworkScoped (own_network_scope r)" "snst_status" "put_subnet_cr_status" "\<lambda>t. proper_status (snst_status t)" "\<lambda>r. True" subnet_handle_reconcile for sha3
  by unfold_locales

interpretation security_group_clustered: clustered_kind security_group_view put_security_group_status "security_group_to_cr sha3" "\<lambda>decode. security_group_from_cr decode sha3"
    "\<lambda>r. PlainScope (own_scope r)" "sgst_status" "put_security_group_cr_status" "\<lambda>t. proper_status (sgst_status t) \<and> list_all proper_status (sgst_rules t)" "\<lambda>r. pred_option (\<lambda>s. list_all storable_status (sgst_rules s)) (sg_status r)" security_group_handle_reconcile for sha3
  by unfold_locales

interpretation security_group_rule_clustered: clustered_kind security_group_rule_view put_security_group_rule_status "security_group_rule_to_cr sha3" "\<lambda>decode. security_group_rule_from_cr decode sha3"
    "\<lambda>r. PlainScope (own_scope r)" "\<lambda>st. st" "\<lambda>st s. st" "\<lambda>t. proper_status (t)" "\<lambda>r. True" security_group_rule_handle_reconcile for sha3
  by unfold_locales

interpretation role_clustered: clustered_kind role_view put_role_status "role_to_cr sha3" "\<lambda>decode. role_from_cr decode sha3"
    "\<lambda>r. PlainScope (own_scope r)" "\<lambda>st. st" "\<lambda>st s. st" "\<lambda>t. proper_status (t)" "\<lambda>r. True" role_handle_reconcile for sha3
  by unfold_locales

interpretation role_assignment_clustered: clustered_kind role_assignment_view put_role_assignment_status "role_assignment_to_cr sha3" "\<lambda>decode. role_assignment_from_cr decode sha3"
    "\<lambda>r. PlainScope (own_scope r)" "\<lambda>st. st" "\<lambda>st s. st" "\<lambda>t. proper_status (t)" "\<lambda>r. True" role_assignment_handle_reconcile for sha3
  by unfold_locales

end
