(* ===== verification/Cluster_Properties.thy ===== *)
theory Cluster_Properties
  imports Hosted_Kinds
begin

section \<open>From the stored object to its provider and back\<close>

text \<open>
  What the controllers of \<^verbatim>\<open>NewController\<close> come to in a cluster: an object that is stored becomes active,
  a marked one is gone, after a bounded number of reconciles, through the manager's client, the
  generic controller, the plugin handler, the repository adapter and the converters of its kind.
\<close>

definition v1_kind :: "string \<Rightarrow> string \<Rightarrow> gvr" where
  "v1_kind api_group resource = \<lparr>gvr_group = api_group, gvr_version = ''v1'', gvr_resource = resource\<rparr>"

text \<open>The operations of a plugin leave deletion mark and status of the resource to the handler.\<close>

definition minds_its_business :: "('r \<Rightarrow> bool) \<Rightarrow> ('r \<Rightarrow> status option) \<Rightarrow> ('r, 'w, 'e) plugin_scheme \<Rightarrow> bool" where
  "minds_its_business deleted status_of plugin \<longleftrightarrow>
     quiet deleted status_of (pl_create plugin) \<and> quiet deleted status_of (pl_update plugin) \<and>
     quiet deleted status_of (pl_delete plugin)"

definition room_for_retries :: "'l \<Rightarrow> 'l builder_option option list \<Rightarrow> bool" where
  "room_for_retries l opts \<longleftrightarrow>
     bo_max_conditions (apply_options l opts) \<le> 0 \<or> 2 \<le> bo_max_conditions (apply_options l opts)"

definition activates_objects where
  "activates_objects status_of from_cr view parts get proper kind build \<longleftrightarrow>
    (\<forall>env codec listing client plugin opts l req sv w fs s.
      serves_dynamic (ce_client env) kind sv \<and> serves_typed client get codec req sv \<and> codec_ok proper codec \<longrightarrow>
      minds_its_business deleted_at status_of plugin \<and>
      works (kind_hosting (from_cr env) view status_of parts (ce_sha3 env) codec sv) (pl_create plugin) \<and>
      room_for_retries l opts \<longrightarrow>
      ho_seen (kind_hosting (from_cr env) view status_of parts (ce_sha3 env) codec sv) w = Some (False, fs, s) \<longrightarrow>
      tidy s \<longrightarrow> provisioning s \<longrightarrow>
      (\<exists>n \<le> 4 * sv_work sv w + 5. \<exists>fs' s'. finalizer_name \<in> set fs' \<and> phase_of s' = Phase StateActive \<and>
        ho_seen (kind_hosting (from_cr env) view status_of parts (ce_sha3 env) codec sv)
          (rounds (build env codec listing client plugin opts l req) n w) = Some (False, fs', s')))"

definition releases_objects where
  "releases_objects status_of from_cr view parts get proper kind build \<longleftrightarrow>
    (\<forall>env codec listing client plugin opts l req sv w fs s.
      serves_dynamic (ce_client env) kind sv \<and> serves_typed client get codec req sv \<and> codec_ok proper codec \<longrightarrow>
      minds_its_business deleted_at status_of plugin \<and>
      works (kind_hosting (from_cr env) view status_of parts (ce_sha3 env) codec sv) (pl_delete plugin) \<longrightarrow>
      finalizer_name \<in> set fs \<and> (\<forall>f \<in> set fs. equal_fold f finalizer_name) \<longrightarrow>
      ho_seen (kind_hosting (from_cr env) view status_of parts (ce_sha3 env) codec sv) w = Some (True, fs, s) \<longrightarrow>
      tidy s \<longrightarrow>
      (\<exists>n \<le> 4 * sv_work sv w + 4.
        sv_current sv (rounds (build env codec listing client plugin opts l req) n w) = None))"

subsection \<open>A small cluster\<close>

text \<open>
  A server with one role, whose provider has some calls left before it succeeds: the status is kept
  as JSON, every update moves the version on, and a marked object without finalizers goes.
\<close>

definition condition_json :: "status_condition \<Rightarrow> json" where
  "condition_json c = JArray [JInt (int (c_last c)), JString (c_message c), JString (c_reason c),
     JString (state_string (c_state c)), JString (c_type c), JInt (c_occurrences c)]"

definition json_string :: "json \<Rightarrow> string" where
  "json_string j = (case j of JString s \<Rightarrow> s | _ \<Rightarrow> [])"

definition json_int :: "json \<Rightarrow> int" where
  "json_int j = (case j of JInt i \<Rightarrow> i | _ \<Rightarrow> 0)"

definition json_items :: "json \<Rightarrow> json list" where
  "json_items j = (case j of JArray xs \<Rightarrow> xs | _ \<Rightarrow> [])"

definition json_at :: "json list \<Rightarrow> nat \<Rightarrow> json" where
  "json_at xs i = (if i < length xs then xs ! i else JNull)"

definition json_condition :: "json \<Rightarrow> status_condition" where
  "json_condition j = (let xs = json_items j in
     \<lparr>c_last = nat (json_int (json_at xs 0)), c_message = json_string (json_at xs 1), c_reason = json_string (json_at xs 2),
      c_state = state_of_string (json_string (json_at xs 3)), c_type = json_string (json_at xs 4),
      c_occurrences = json_int (json_at xs 5)\<rparr>)"

definition status_json :: "status \<Rightarrow> json_map" where
  "status_json st = [(''conditions'', JArray (map condition_json (st_conditions st))),
     (''state'', JString (state_string (st_state st)))]"

definition json_status :: "json_map \<Rightarrow> status" where
  "json_status m =
     \<lparr>st_state = state_of_string (json_string (case map_of m ''state'' of None \<Rightarrow> JNull | Some j \<Rightarrow> j)),
      st_conditions = map json_condition (json_items (case map_of m ''conditions'' of None \<Rightarrow> JNull | Some j \<Rightarrow> j))\<rparr>"

definition decode_role :: "(uobject, role_cr_spec, status) decoder" where
  "decode_role u = (case nested_map u ''status'' of
     Inl err \<Rightarrow> Inl err
   | Inr st \<Rightarrow> Inr \<lparr>cr_gvk = role_gvk, cr_name = uo_name u, cr_namespace = [], cr_labels = uo_labels u,
       cr_annotations = [], cr_finalizers = uo_finalizers u, cr_version = uo_version u, cr_created = 0,
       cr_deleted = uo_deletion u, cr_common_annotations = [], cr_common_extensions = [], cr_common_labels = [],
       cr_spec = \<lparr>rocs_permissions = []\<rparr>, cr_status = map_option json_status st\<rparr>)"

definition encode_role :: "(role_cr_spec, status) custom_resource \<Rightarrow> go_error + uobject" where
  "encode_role cr = Inr \<lparr>uo_name = cr_name cr, uo_labels = cr_labels cr, uo_annotations = [], uo_finalizers = [],
     uo_deletion = None, uo_version = cr_version cr,
     uo_fields = (case cr_status cr of None \<Rightarrow> [] | Some st \<Rightarrow> [(''status'', JObject (status_json st))])\<rparr>"

definition role_codec :: "(role_cr_spec, status) cr_codec" where
  "role_codec = \<lparr>cc_encode = encode_role, cc_decode = decode_role, cc_now = 7\<rparr>"

type_synonym small_cluster = "uobject option \<times> nat"

definition small_dynamic :: "small_cluster dyn_client" where
  "small_dynamic =
    \<lparr>dc_get = (\<lambda>kind ns name w. case fst w of None \<Rightarrow> (Inl (GoError ''not found''), w) | Some u \<Rightarrow> (Inr u, w)),
     dc_list = (\<lambda>options kind ns w. (Inr ([], []), w)), dc_create = (\<lambda>kind ns u w. (Inr u, w)),
     dc_update = (\<lambda>kind ns u w. (Inr u, w)),
     dc_update_status = (\<lambda>kind ns u w. (Inr (u\<lparr>uo_version := ''2''\<rparr>), (Some (u\<lparr>uo_version := ''2''\<rparr>), snd w))),
     dc_delete = (\<lambda>kind ns name version w. (None, w)), dc_retry = (\<lambda>f w. f w)\<rparr>"

definition small_typed :: "((role_cr_spec, status) typed_kube_object, small_cluster) kube_client" where
  "small_typed =
    \<lparr>kc_get = (\<lambda>name w. case fst w of None \<Rightarrow> (Inl (GoError ''not found''), w)
       | Some u \<Rightarrow> (map_sum (\<lambda>err. err) (object_of (\<lambda>st. st)) (decode_role u), w)),
     kc_update = (\<lambda>obj w. (None, if ko_deletion obj \<noteq> None \<and> ko_finalizers obj = [] then (None, snd w)
       else (map_option (\<lambda>u. u\<lparr>uo_finalizers := ko_finalizers obj, uo_version := ''3''\<rparr>) (fst w), snd w))),
     kc_status_update = (\<lambda>obj w. (None, w))\<rparr>"

definition small_op :: "(role, small_cluster) delegated" where
  "small_op r w = (if snd w = 0 then (None, r, w) else (Some (Sentinel ErrStillProcessing), r, (fst w, snd w - 1)))"

definition small_plugin :: "(role, small_cluster) plugin" where
  "small_plugin = \<lparr>pl_create = small_op, pl_update = bypass_delegated, pl_delete = small_op\<rparr>"

definition small_env :: "small_cluster controller_env" where
  "small_env = \<lparr>ce_client = small_dynamic, ce_sha3 = (\<lambda>s. s), ce_clock = (\<lambda>w. 9), ce_decode_ref = (\<lambda>m. Inl (GoError [])),
     ce_json = \<lparr>jc_marshal = (\<lambda>j. None), jc_unmarshal = (\<lambda>s. None), jc_sprint = (\<lambda>j. [])\<rparr>\<rparr>"

definition small_role :: "time option \<Rightarrow> string list \<Rightarrow> uobject" where
  "small_role deletion fs = \<lparr>uo_name = ''reader'', uo_labels = [(internal_tenant_label, ''t'')], uo_annotations = [],
     uo_finalizers = fs, uo_deletion = deletion, uo_version = ''1'', uo_fields = []\<rparr>"

definition small_served :: "small_cluster served" where
  "small_served = \<lparr>sv_namespace = compute_namespace (\<lambda>s. s) \<lparr>sc_tenant = ''t'', sc_workspace = []\<rparr>,
     sv_name = ''reader'', sv_current = fst, sv_work = snd\<rparr>"

definition small_rounds :: "nat \<Rightarrow> small_cluster \<Rightarrow> small_cluster" where
  "small_rounds = rounds (new_role_controller small_env role_codec (\<lambda>params w. (Inr ([], None), w)) small_typed
     small_plugin [] () ''reader'')"

lemma json_condition_back: "proper_state (c_state c) \<Longrightarrow> json_condition (condition_json c) = c"
  by (cases c) (simp add: condition_json_def json_condition_def json_string_def json_int_def json_items_def json_at_def Let_def
      proper_state_def eval_nat_numeral)

lemma json_status_back: "proper_status st \<Longrightarrow> json_status (status_json st) = st"
  by (cases st) (auto simp: status_json_def json_status_def json_string_def json_items_def proper_status_def list_all_iff
      json_condition_back intro: map_idI, simp_all add: proper_state_def)

lemma read_state_proper: "proper_state (state_of_string s)"
  by (simp add: proper_state_def state_of_string_def)

lemma json_status_proper: "proper_status (json_status m)"
  by (auto simp: json_status_def json_condition_def proper_status_def list_all_iff read_state_proper Let_def)

lemma role_codec_ok: "codec_ok proper_status role_codec"
proof -
  have status_only: "nested_map ((set_nested_map u m ''status'')\<lparr>uo_version := v\<rparr>) ''status'' = Inr (Some m)" for u m v
    by (simp add: nested_map_def set_nested_map_def)
  have kept: "uo_name ((set_nested_map u m k)\<lparr>uo_version := v\<rparr>) = uo_name u" "uo_labels ((set_nested_map u m k)\<lparr>uo_version := v\<rparr>) = uo_labels u"
    "uo_finalizers ((set_nested_map u m k)\<lparr>uo_version := v\<rparr>) = uo_finalizers u"
    "uo_deletion ((set_nested_map u m k)\<lparr>uo_version := v\<rparr>) = uo_deletion u" for u m k v
    by (simp_all add: set_nested_map_def)
  show ?thesis
    unfolding codec_ok_def role_codec_def
    by (auto simp: encode_role_def decode_role_def status_only kept json_status_back json_status_proper
        nested_map_def [of "\<lparr>uo_name = _, uo_labels = _, uo_annotations = _, uo_finalizers = _, uo_deletion = _,
          uo_version = _, uo_fields = _\<rparr>"]
        option.pred_map comp_def option.pred_True split: sum.splits option.splits)
qed

lemma small_served_simps [simp]: "sv_current small_served = fst" "sv_work small_served = snd"
    "sv_name small_served = ''reader''"
    "sv_namespace small_served = compute_namespace (\<lambda>s. s) \<lparr>sc_tenant = ''t'', sc_workspace = []\<rparr>"
  by (simp_all add: small_served_def)

text \<open>Its role, live and without a status, and marked with the finalizer.\<close>

lemma small_cluster_serves:
  "serves_dynamic (ce_client small_env) kind small_served"
  "serves_typed small_typed (\<lambda>st. st) role_codec req small_served"
proof -
  show "serves_dynamic (ce_client small_env) kind small_served"
    unfolding serves_dynamic_def by (auto simp: small_env_def small_dynamic_def)
  have "decode_role (u\<lparr>uo_finalizers := fs, uo_version := v\<rparr>) = Inr (cr\<lparr>cr_finalizers := fs, cr_version := v\<rparr>)"
    if "decode_role u = Inr cr" for u fs v cr
    using that by (auto simp: decode_role_def nested_map_def split: sum.splits option.splits json.splits)
  then show "serves_typed small_typed (\<lambda>st. st) role_codec req small_served"
    unfolding serves_typed_def by (auto simp: small_typed_def role_codec_def)
qed

lemma workspace_plugin_handler_fields:
  "h_repo (new_workspace_plugin_handler repo plugin m now) = repo"
  "h_create (new_workspace_plugin_handler repo plugin m now) = pl_create plugin"
  "h_delete (new_workspace_plugin_handler repo plugin m now) = pl_delete plugin"
  "roomy (new_workspace_plugin_handler repo plugin m now) \<longleftrightarrow> m \<le> 0 \<or> 2 \<le> m"
  "quiet_plugin deleted status_of (new_workspace_plugin_handler repo plugin m now) \<longleftrightarrow> minds_its_business deleted status_of plugin"
  by (simp_all add: new_workspace_plugin_handler_def roomy_def quiet_plugin_def minds_its_business_def)

lemma network_plugin_handler_fields:
  "h_repo (new_network_plugin_handler repo plugin m now) = repo"
  "h_create (new_network_plugin_handler repo plugin m now) = pl_create plugin"
  "h_delete (new_network_plugin_handler repo plugin m now) = pl_delete plugin"
  "roomy (new_network_plugin_handler repo plugin m now) \<longleftrightarrow> m \<le> 0 \<or> 2 \<le> m"
  "quiet_plugin deleted status_of (new_network_plugin_handler repo plugin m now) \<longleftrightarrow> minds_its_business deleted status_of plugin"
  by (simp_all add: new_network_plugin_handler_def roomy_def quiet_plugin_def minds_its_business_def)

lemma internet_gateway_plugin_handler_fields:
  "h_repo (new_internet_gateway_plugin_handler repo plugin m now) = repo"
  "h_create (new_internet_gateway_plugin_handler repo plugin m now) = pl_create plugin"
  "h_delete (new_internet_gateway_plugin_handler repo plugin m now) = pl_delete plugin"
  "roomy (new_internet_gateway_plugin_handler repo plugin m now) \<longleftrightarrow> m \<le> 0 \<or> 2 \<le> m"
  "quiet_plugin deleted status_of (new_internet_gateway_plugin_handler repo plugin m now) \<longleftrightarrow> minds_its_business deleted status_of plugin"
  by (simp_all add: new_internet_gateway_plugin_handler_def roomy_def quiet_plugin_def minds_its_business_def)

lemma nic_plugin_handler_fields:
  "h_repo (new_nic_plugin_handler repo plugin m now) = repo"
  "h_create (new_nic_plugin_handler repo plugin m now) = pl_create plugin"
  "h_delete (new_nic_plugin_handler repo plugin m now) = pl_delete plugin"
  "roomy (new_nic_plugin_handler repo plugin m now) \<longleftrightarrow> m \<le> 0 \<or> 2 \<le> m"
  "quiet_plugin deleted status_of (new_nic_plugin_handler repo plugin m now) \<longleftrightarrow> minds_its_business deleted status_of plugin"
  by (simp_all add: new_nic_plugin_handler_def roomy_def quiet_plugin_def minds_its_business_def)

lemma public_ip_plugin_handler_fields:
  "h_repo (new_public_ip_plugin_handler repo plugin m now) = repo"
  "h_create (new_public_ip_plugin_handler repo plugin m now) = pl_create plugin"
  "h_delete (new_public_ip_plugin_handler repo plugin m now) = pl_delete plugin"
  "roomy (new_public_ip_plugin_handler repo plugin m now) \<longleftrightarrow> m \<le> 0 \<or> 2 \<le> m"
  "quiet_plugin deleted status_of (new_public_ip_plugin_handler repo plugin m now) \<longleftrightarrow> minds_its_business deleted status_of plugin"
  by (simp_all add: new_public_ip_plugin_handler_def roomy_def quiet_plugin_def minds_its_business_def)

lemma route_table_plugin_handler_fields:
  "h_repo (new_route_table_plugin_handler repo plugin m now) = repo"
  "h_create (new_route_table_plugin_handler repo plugin m now) = pl_create plugin"
  "h_delete (new_route_table_plugin_handler repo plugin m now) = pl_delete plugin"
  "roomy (new_route_table_plugin_handler repo plugin m now) \<longleftrightarrow> m \<le> 0 \<or> 2 \<le> m"
  "quiet_plugin deleted status_of (new_route_table_plugin_handler repo plugin m now) \<longleftrightarrow> minds_its_business deleted status_of plugin"
  by (simp_all add: new_route_table_plugin_handler_def roomy_def quiet_plugin_def minds_its_business_def)

lemma subnet_plugin_handler_fields:
  "h_repo (new_subnet_plugin_handler repo plugin m now) = repo"
  "h_create (new_subnet_plugin_handler repo plugin m now) = pl_create plugin"
  "h_delete (new_subnet_plugin_handler repo plugin m now) = pl_delete plugin"
  "roomy (new_subnet_plugin_handler repo plugin m now) \<longleftrightarrow> m \<le> 0 \<or> 2 \<le> m"
  "quiet_plugin deleted status_of (new_subnet_plugin_handler repo plugin m now) \<longleftrightarrow> minds_its_business deleted status_of plugin"
  by (simp_all add: new_subnet_plugin_handler_def roomy_def quiet_plugin_def minds_its_business_def)

lemma security_group_plugin_handler_fields:
  "h_repo (new_security_group_plugin_handler repo plugin m now) = repo"
  "h_create (new_security_group_plugin_handler repo plugin m now) = pl_create plugin"
  "h_delete (new_security_group_plugin_handler repo plugin m now) = pl_delete plugin"
  "roomy (new_security_group_plugin_handler repo plugin m now) \<longleftrightarrow> m \<le> 0 \<or> 2 \<le> m"
  "quiet_plugin deleted status_of (new_security_group_plugin_handler repo plugin m now) \<longleftrightarrow> minds_its_business deleted status_of plugin"
  by (simp_all add: new_security_group_plugin_handler_def roomy_def quiet_plugin_def minds_its_business_def)

lemma security_group_rule_plugin_handler_fields:
  "h_repo (new_security_group_rule_plugin_handler repo plugin m now) = repo"
  "h_create (new_security_group_rule_plugin_handler repo plugin m now) = pl_create plugin"
  "h_delete (new_security_group_rule_plugin_handler repo plugin m now) = pl_delete plugin"
  "roomy (new_security_group_rule_plugin_handler repo plugin m now) \<longleftrightarrow> m \<le> 0 \<or> 2 \<le> m"
  "quiet_plugin deleted status_of (new_security_group_rule_plugin_handler repo plugin m now) \<longleftrightarrow> minds_its_business deleted status_of plugin"
  by (simp_all add: new_security_group_rule_plugin_handler_def roomy_def quiet_plugin_def minds_its_business_def)

lemma role_plugin_handler_fields:
  "h_repo (new_role_plugin_handler repo plugin m now) = repo"
  "h_create (new_role_plugin_handler repo plugin m now) = pl_create plugin"
  "h_delete (new_role_plugin_handler repo plugin m now) = pl_delete plugin"
  "roomy (new_role_plugin_handler repo plugin m now) \<longleftrightarrow> m \<le> 0 \<or> 2 \<le> m"
  "quiet_plugin deleted status_of (new_role_plugin_handler repo plugin m now) \<longleftrightarrow> minds_its_business deleted status_of plugin"
  by (simp_all add: new_role_plugin_handler_def roomy_def quiet_plugin_def minds_its_business_def)

lemma role_assignment_plugin_handler_fields:
  "h_repo (new_role_assignment_plugin_handler repo plugin m now) = repo"
  "h_create (new_role_assignment_plugin_handler repo plugin m now) = pl_create plugin"
  "h_delete (new_role_assignment_plugin_handler repo plugin m now) = pl_delete plugin"
  "roomy (new_role_assignment_plugin_handler repo plugin m now) \<longleftrightarrow> m \<le> 0 \<or> 2 \<le> m"
  "quiet_plugin deleted status_of (new_role_assignment_plugin_handler repo plugin m now) \<longleftrightarrow> minds_its_business deleted status_of plugin"
  by (simp_all add: new_role_assignment_plugin_handler_def roomy_def quiet_plugin_def minds_its_business_def)

lemmas plugin_handler_fields = workspace_plugin_handler_fields
  network_plugin_handler_fields
  internet_gateway_plugin_handler_fields
  nic_plugin_handler_fields
  public_ip_plugin_handler_fields
  route_table_plugin_handler_fields
  subnet_plugin_handler_fields
  security_group_plugin_handler_fields
  security_group_rule_plugin_handler_fields
  role_plugin_handler_fields
  role_assignment_plugin_handler_fields

lemmas new_controller_defs = new_workspace_controller_def workspace_adapter_def
  new_network_controller_def network_adapter_def
  new_internet_gateway_controller_def internet_gateway_adapter_def
  new_nic_controller_def nic_adapter_def
  new_public_ip_controller_def public_ip_adapter_def
  new_route_table_controller_def route_table_adapter_def
  new_subnet_controller_def subnet_adapter_def
  new_security_group_controller_def security_group_adapter_def
  new_security_group_rule_controller_def security_group_rule_adapter_def
  new_role_controller_def role_adapter_def
  new_role_assignment_controller_def role_assignment_adapter_def v1_kind_def

text \<open>What the controller sees of the role.\<close>

abbreviation small_hosting :: "(role, small_cluster) hosting" where
  "small_hosting \<equiv> kind_hosting (\<lambda>decode. role_from_cr decode (ce_sha3 small_env)) (\<lambda>r. PlainScope (own_scope r)) role_view
     (\<lambda>r. True) (ce_sha3 small_env) role_codec small_served"

lemma small_role_seen:
  "ho_seen small_hosting (Some (small_role d fs), n) = Some (d \<noteq> None, fs, Some (pending_status 7))"
    by (simp add: kind_hosting_def small_env_def role_codec_def decode_role_def small_role_def nested_map_def
        role_from_cr_def read_cr_def Let_def optional_status_from_cr_def tenant_metadata_def
        global_tenant_metadata.defs role.defs role_view_def own_scope_def resolve_namespace_def
        get_internal_labels_def map_index_def)

lemma small_plugin_works:
  "minds_its_business deleted_at role_view small_plugin" "works small_hosting small_op"
  by (auto simp: minds_its_business_def quiet_def small_plugin_def small_op_def bypass_delegated_def works_def
      kind_hosting_def split: if_splits)

lemma pending_is_fresh: "tidy (Some (pending_status now))" "provisioning (Some (pending_status now))"
  by (auto simp: tidy_def provisioning_def well_formed_def pending_status_def push_condition_def
      default_pending_condition_def peek_conditions_def empty_status_def status_ok_def storable_status_def lifecycle_states_def)

text \<open>
  C8. Stored objects become active. For each of the eleven kinds that run the shared lifecycle, take
  the controller \<^verbatim>\<open>NewController\<close> builds, an API server that does what it is documented to do with an object
  nobody else writes, and a plugin that leaves mark and status to the platform and whose Create, whenever
  it does not succeed, has less to do. Then a live object that is pending, being created or failed
  in creation carries the cleanup finalizer and has the stored state active after at most 4 k + 5
  reconciles, for the k steps the provider had to do: through the manager's client, the
  generic controller, the handler, \<^verbatim>\<open>UpdateStatus\<close> of the adapter and both converters.
\<close>

theorem controllers_activate_objects:
  "activates_objects workspace_view (\<lambda>env decode. workspace_from_cr (ce_json env) decode (ce_sha3 env)) (\<lambda>r. PlainScope (own_scope r)) (\<lambda>r. True) (wss_status) (\<lambda>t. proper_status (wss_status t))
       (v1_kind ''workspace.v1.secapi.cloud'' ''workspaces'') new_workspace_controller \<and>
     activates_objects network_view (\<lambda>env decode. network_from_cr decode (ce_sha3 env)) (\<lambda>r. PlainScope (own_scope r)) (\<lambda>r. True) (ncs_status) (\<lambda>t. proper_status (ncs_status t))
       (v1_kind ''network.v1.secapi.cloud'' ''networks'') new_network_controller \<and>
     activates_objects internet_gateway_view (\<lambda>env decode. internet_gateway_from_cr decode (ce_sha3 env)) (\<lambda>r. PlainScope (own_scope r)) (\<lambda>r. True) (\<lambda>st. st) (\<lambda>t. proper_status (t))
       (v1_kind ''network.v1.secapi.cloud'' ''internet-gateways'') new_internet_gateway_controller \<and>
     activates_objects nic_view (\<lambda>env decode. nic_from_cr decode (ce_sha3 env)) (\<lambda>r. PlainScope (own_scope r)) (\<lambda>r. True) (nicst_status) (\<lambda>t. proper_status (nicst_status t))
       (v1_kind ''network.v1.secapi.cloud'' ''nics'') new_nic_controller \<and>
     activates_objects public_ip_view (\<lambda>env decode. public_ip_from_cr decode (ce_sha3 env)) (\<lambda>r. PlainScope (own_scope r)) (\<lambda>r. True) (pist_status) (\<lambda>t. proper_status (pist_status t))
       (v1_kind ''network.v1.secapi.cloud'' ''public-ips'') new_public_ip_controller \<and>
     activates_objects route_table_view (\<lambda>env decode. route_table_from_cr decode (ce_sha3 env)) (\<lambda>r. NetworkScoped (own_network_scope r)) (\<lambda>r. pred_option (\<lambda>s. list_all storable_status (rtst_routes s)) (rt_status r)) (rtst_status) (\<lambda>t. proper_status (rtst_status t) \<and> list_all proper_status (rtst_routes t))
       (v1_kind ''network.v1.secapi.cloud'' ''route-tables'') new_route_table_controller \<and>
     activates_objects subnet_view (\<lambda>env decode. subnet_from_cr decode (ce_sha3 env)) (\<lambda>r. NetworkScoped (own_network_scope r)) (\<lambda>r. True) (snst_status) (\<lambda>t. proper_status (snst_status t))
       (v1_kind ''network.v1.secapi.cloud'' ''subnets'') new_subnet_controller \<and>
     activates_objects security_group_view (\<lambda>env decode. security_group_from_cr decode (ce_sha3 env)) (\<lambda>r. PlainScope (own_scope r)) (\<lambda>r. pred_option (\<lambda>s. list_all storable_status (sgst_rules s)) (sg_status r)) (sgst_status) (\<lambda>t. proper_status (sgst_status t) \<and> list_all proper_status (sgst_rules t))
       (v1_kind ''network.v1.secapi.cloud'' ''security-groups'') new_security_group_controller \<and>
     activates_objects security_group_rule_view (\<lambda>env decode. security_group_rule_from_cr decode (ce_sha3 env)) (\<lambda>r. PlainScope (own_scope r)) (\<lambda>r. True) (\<lambda>st. st) (\<lambda>t. proper_status (t))
       (v1_kind ''network.v1.secapi.cloud'' ''security-group-rules'') new_security_group_rule_controller \<and>
     activates_objects role_view (\<lambda>env decode. role_from_cr decode (ce_sha3 env)) (\<lambda>r. PlainScope (own_scope r)) (\<lambda>r. True) (\<lambda>st. st) (\<lambda>t. proper_status (t))
       (v1_kind ''authorization.v1.secapi.cloud'' ''roles'') new_role_controller \<and>
     activates_objects role_assignment_view (\<lambda>env decode. role_assignment_from_cr decode (ce_sha3 env)) (\<lambda>r. PlainScope (own_scope r)) (\<lambda>r. True) (\<lambda>st. st) (\<lambda>t. proper_status (t))
       (v1_kind ''authorization.v1.secapi.cloud'' ''role-assignments'') new_role_assignment_controller"
  unfolding activates_objects_def new_controller_defs Let_def
  by (intro conjI allI impI; elim conjE; rule
      workspace_clustered.provisioned network_clustered.provisioned internet_gateway_clustered.provisioned
      nic_clustered.provisioned public_ip_clustered.provisioned route_table_clustered.provisioned
      subnet_clustered.provisioned security_group_clustered.provisioned
      security_group_rule_clustered.provisioned role_clustered.provisioned
      role_assignment_clustered.provisioned; simp add: plugin_handler_fields room_for_retries_def)

lemma controllers_activate_objects_witness:
  "\<exists>n \<le> 13. \<exists>fs s. finalizer_name \<in> set fs \<and> phase_of s = Phase StateActive \<and>
     ho_seen small_hosting (small_rounds n (Some (small_role None []), 2)) = Some (False, fs, s)"
proof -
  have "activates_objects role_view (\<lambda>env decode. role_from_cr decode (ce_sha3 env)) (\<lambda>r. PlainScope (own_scope r))
      (\<lambda>r. True) (\<lambda>st. st) (\<lambda>t. proper_status (t)) (v1_kind ''authorization.v1.secapi.cloud'' ''roles'')
      (new_role_controller :: small_cluster controller_env \<Rightarrow> _ \<Rightarrow> _ \<Rightarrow> _ \<Rightarrow> _ \<Rightarrow> unit builder_option option list \<Rightarrow> _)"
    using controllers_activate_objects by blast
  from this [unfolded activates_objects_def, rule_format, of small_env small_served small_typed role_codec "''reader''" small_plugin
      "()" "[]" "(Some (small_role None []), 2)" "[]" "Some (pending_status 7)"]
  show ?thesis
    using small_cluster_serves role_codec_ok small_plugin_works pending_is_fresh small_role_seen [of None "[]" 2]
    by (simp add: room_for_retries_def apply_options_Nil default_max_conditions_def small_plugin_def small_rounds_def)
qed

text \<open>
  C9. Marked objects are released. In the same setting, for a plugin whose Delete has less to do
  whenever it does not succeed, an object that is marked for deletion and held by the cleanup finalizer alone
  is gone from the server after at most 4 k + 4 reconciles, whatever its state was: the
  handler takes it to deleting, Delete runs until it succeeds, and the controller reads the object
  again and takes its finalizer off.
\<close>

theorem controllers_release_objects:
  "releases_objects workspace_view (\<lambda>env decode. workspace_from_cr (ce_json env) decode (ce_sha3 env)) (\<lambda>r. PlainScope (own_scope r)) (\<lambda>r. True) (wss_status) (\<lambda>t. proper_status (wss_status t))
       (v1_kind ''workspace.v1.secapi.cloud'' ''workspaces'') new_workspace_controller \<and>
     releases_objects network_view (\<lambda>env decode. network_from_cr decode (ce_sha3 env)) (\<lambda>r. PlainScope (own_scope r)) (\<lambda>r. True) (ncs_status) (\<lambda>t. proper_status (ncs_status t))
       (v1_kind ''network.v1.secapi.cloud'' ''networks'') new_network_controller \<and>
     releases_objects internet_gateway_view (\<lambda>env decode. internet_gateway_from_cr decode (ce_sha3 env)) (\<lambda>r. PlainScope (own_scope r)) (\<lambda>r. True) (\<lambda>st. st) (\<lambda>t. proper_status (t))
       (v1_kind ''network.v1.secapi.cloud'' ''internet-gateways'') new_internet_gateway_controller \<and>
     releases_objects nic_view (\<lambda>env decode. nic_from_cr decode (ce_sha3 env)) (\<lambda>r. PlainScope (own_scope r)) (\<lambda>r. True) (nicst_status) (\<lambda>t. proper_status (nicst_status t))
       (v1_kind ''network.v1.secapi.cloud'' ''nics'') new_nic_controller \<and>
     releases_objects public_ip_view (\<lambda>env decode. public_ip_from_cr decode (ce_sha3 env)) (\<lambda>r. PlainScope (own_scope r)) (\<lambda>r. True) (pist_status) (\<lambda>t. proper_status (pist_status t))
       (v1_kind ''network.v1.secapi.cloud'' ''public-ips'') new_public_ip_controller \<and>
     releases_objects route_table_view (\<lambda>env decode. route_table_from_cr decode (ce_sha3 env)) (\<lambda>r. NetworkScoped (own_network_scope r)) (\<lambda>r. pred_option (\<lambda>s. list_all storable_status (rtst_routes s)) (rt_status r)) (rtst_status) (\<lambda>t. proper_status (rtst_status t) \<and> list_all proper_status (rtst_routes t))
       (v1_kind ''network.v1.secapi.cloud'' ''route-tables'') new_route_table_controller \<and>
     releases_objects subnet_view (\<lambda>env decode. subnet_from_cr decode (ce_sha3 env)) (\<lambda>r. NetworkScoped (own_network_scope r)) (\<lambda>r. True) (snst_status) (\<lambda>t. proper_status (snst_status t))
       (v1_kind ''network.v1.secapi.cloud'' ''subnets'') new_subnet_controller \<and>
     releases_objects security_group_view (\<lambda>env decode. security_group_from_cr decode (ce_sha3 env)) (\<lambda>r. PlainScope (own_scope r)) (\<lambda>r. pred_option (\<lambda>s. list_all storable_status (sgst_rules s)) (sg_status r)) (sgst_status) (\<lambda>t. proper_status (sgst_status t) \<and> list_all proper_status (sgst_rules t))
       (v1_kind ''network.v1.secapi.cloud'' ''security-groups'') new_security_group_controller \<and>
     releases_objects security_group_rule_view (\<lambda>env decode. security_group_rule_from_cr decode (ce_sha3 env)) (\<lambda>r. PlainScope (own_scope r)) (\<lambda>r. True) (\<lambda>st. st) (\<lambda>t. proper_status (t))
       (v1_kind ''network.v1.secapi.cloud'' ''security-group-rules'') new_security_group_rule_controller \<and>
     releases_objects role_view (\<lambda>env decode. role_from_cr decode (ce_sha3 env)) (\<lambda>r. PlainScope (own_scope r)) (\<lambda>r. True) (\<lambda>st. st) (\<lambda>t. proper_status (t))
       (v1_kind ''authorization.v1.secapi.cloud'' ''roles'') new_role_controller \<and>
     releases_objects role_assignment_view (\<lambda>env decode. role_assignment_from_cr decode (ce_sha3 env)) (\<lambda>r. PlainScope (own_scope r)) (\<lambda>r. True) (\<lambda>st. st) (\<lambda>t. proper_status (t))
       (v1_kind ''authorization.v1.secapi.cloud'' ''role-assignments'') new_role_assignment_controller"
  unfolding releases_objects_def new_controller_defs Let_def
  by (intro conjI allI impI; elim conjE; rule
      workspace_clustered.released network_clustered.released internet_gateway_clustered.released
      nic_clustered.released public_ip_clustered.released route_table_clustered.released
      subnet_clustered.released security_group_clustered.released security_group_rule_clustered.released
      role_clustered.released role_assignment_clustered.released; simp add: plugin_handler_fields room_for_retries_def)

lemma controllers_release_objects_witness:
  "\<exists>n \<le> 12. fst (small_rounds n (Some (small_role (Some 5) [finalizer_name]), 2)) = None"
proof -
  have "releases_objects role_view (\<lambda>env decode. role_from_cr decode (ce_sha3 env)) (\<lambda>r. PlainScope (own_scope r))
      (\<lambda>r. True) (\<lambda>st. st) (\<lambda>t. proper_status (t)) (v1_kind ''authorization.v1.secapi.cloud'' ''roles'')
      (new_role_controller :: small_cluster controller_env \<Rightarrow> _ \<Rightarrow> _ \<Rightarrow> _ \<Rightarrow> _ \<Rightarrow> unit builder_option option list \<Rightarrow> _)"
    using controllers_release_objects by blast
  from this [unfolded releases_objects_def, rule_format, of small_env small_served small_typed role_codec "''reader''" small_plugin
      "[finalizer_name]" "(Some (small_role (Some 5) [finalizer_name]), 2)" "Some (pending_status 7)"]
  show ?thesis
    using small_cluster_serves role_codec_ok small_plugin_works pending_is_fresh small_role_seen [of "Some 5" "[finalizer_name]" 2]
    by (simp add: small_plugin_def small_rounds_def)
qed

end
