(* ===== verification/Http_Server.thy ===== *)
theory Http_Server
  imports Rest
begin

section \<open>The HTTP server of a gateway: \<^verbatim>\<open>gateway/internal/httpserver\<close>\<close>

text \<open>
  The defaults of a server, the readiness gate with the two probes, and \<^verbatim>\<open>Serve\<close> as a step relation of
  the threads that share a server: the main goroutine, the goroutine inside \<^verbatim>\<open>net/http\<close>'s \<^verbatim>\<open>Serve\<close>, the
  clients, and the signal that cancels the context. Their steps interleave in any order. The lemmas say
  what a returned \<^verbatim>\<open>Serve\<close> leaves behind, when the gate is open, and that it never hangs on its own
  threads. Loggers are dropped; durations are in nanoseconds.
\<close>

subsection \<open>Options and defaults\<close>

definition seconds :: "int \<Rightarrow> int" where
  "seconds n = n * 10 ^ 9"

definition default_shutdown_timeout :: int where
  "default_shutdown_timeout = seconds 25"

record 'h server_options =
  so_addr :: string
  so_handler :: 'h
  so_read_timeout :: int
  so_write_timeout :: int
  so_idle_timeout :: int
  so_header_timeout :: int
  so_max_header_bytes :: int

text \<open>The fields of \<^verbatim>\<open>http.Server\<close> that \<^verbatim>\<open>New\<close> sets.\<close>

record 'h http_server =
  sr_addr :: string
  sr_handler :: 'h
  sr_read_timeout :: int
  sr_write_timeout :: int
  sr_idle_timeout :: int
  sr_read_header_timeout :: int
  sr_max_header_bytes :: int

definition new_http_server :: "'h server_options \<Rightarrow> 'h http_server" where
  "new_http_server opts =
    (let o1 = (if so_read_timeout opts = 0 then opts\<lparr>so_read_timeout := seconds 30\<rparr> else opts);
         o2 = (if so_write_timeout o1 = 0 then o1\<lparr>so_write_timeout := seconds 60\<rparr> else o1);
         o3 = (if so_idle_timeout o2 = 0 then o2\<lparr>so_idle_timeout := seconds 120\<rparr> else o2);
         o4 = (if so_header_timeout o3 = 0 then o3\<lparr>so_header_timeout := seconds 10\<rparr> else o3);
         o5 = (if so_max_header_bytes o4 = 0 then o4\<lparr>so_max_header_bytes := 2 ^ 20\<rparr> else o4)
     in \<lparr>sr_addr = so_addr o5, sr_handler = so_handler o5, sr_read_timeout = so_read_timeout o5,
         sr_write_timeout = so_write_timeout o5, sr_idle_timeout = so_idle_timeout o5,
         sr_read_header_timeout = so_header_timeout o5, sr_max_header_bytes = so_max_header_bytes o5\<rparr>)"

subsection \<open>The readiness gate and the probes: \<^verbatim>\<open>health.go\<close>\<close>

definition default_ready_check_timeout :: int where
  "default_ready_check_timeout = seconds 2"

text \<open>A pointer to a gate, which may be nil, by the value of its flag.\<close>

type_synonym readiness = "bool option"

definition new_readiness :: readiness where
  "new_readiness = Some False"

definition readiness_set :: "bool \<Rightarrow> readiness \<Rightarrow> readiness" where
  "readiness_set ready r = (case r of None \<Rightarrow> None | Some b \<Rightarrow> Some ready)"

definition readiness_ready :: "readiness \<Rightarrow> bool" where
  "readiness_ready r = (case r of None \<Rightarrow> False | Some b \<Rightarrow> b)"

text \<open>
  A check under the timeout of its context, which may be nil; a plain answer is a status and a text.
  \<^verbatim>\<open>http.Error\<close> ends the text it is given with a line feed of its own.
\<close>

type_synonym 'w check = "int \<Rightarrow> 'w \<Rightarrow> go_error option \<times> 'w"

type_synonym plain_answer = "nat \<times> string"

definition line :: "string \<Rightarrow> string" where
  "line s = s @ [char_of (10 :: nat)]"

definition http_error :: "string \<Rightarrow> nat \<Rightarrow> plain_answer" where
  "http_error message status = (status, line message)"

definition live_handler :: "'w \<Rightarrow> plain_answer \<times> 'w" where
  "live_handler w = ((200, line ''ok''), w)"

fun run_checks :: "'w check option list \<Rightarrow> 'w \<Rightarrow> go_error option \<times> 'w" where
  "run_checks [] w = (None, w)"
| "run_checks (None # checks) w = run_checks checks w"
| "run_checks (Some check # checks) w =
    (case check default_ready_check_timeout w of
       (Some err, w1) \<Rightarrow> (Some err, w1)
     | (None, w1) \<Rightarrow> run_checks checks w1)"

definition ready_handler :: "readiness \<Rightarrow> 'w check option list \<Rightarrow> 'w \<Rightarrow> plain_answer \<times> 'w" where
  "ready_handler gate checks w =
    (if \<not> readiness_ready gate then (http_error (line ''not ready'') 503, w)
     else (case run_checks checks w of
         (Some err, w1) \<Rightarrow> (http_error (line ''not ready'') 503, w1)
       | (None, w1) \<Rightarrow> ((200, line ''ok''), w1)))"

text \<open>
  What a mux serves besides the routes of a provider: patterns with the handler behind each, which
  reads the gate when it is called. The mux may be nil.
\<close>

type_synonym 'w probe = "readiness \<Rightarrow> 'w \<Rightarrow> plain_answer \<times> 'w"

definition register_probes ::
  "'w check option list \<Rightarrow> (string \<times> 'w probe) list option \<Rightarrow> (string \<times> 'w probe) list option" where
  "register_probes checks mux =
    (case mux of
       None \<Rightarrow> None
     | Some routes \<Rightarrow> Some (routes @ [(''GET /healthz'', \<lambda>gate. live_handler),
         (''GET /readyz'', \<lambda>gate. ready_handler gate checks)]))"

subsection \<open>\<^verbatim>\<open>Serve\<close>\<close>

text \<open>
  What \<^verbatim>\<open>net/http\<close>'s \<^verbatim>\<open>Serve\<close> returns: \<^verbatim>\<open>ErrServerClosed\<close> or another error. Where the main goroutine is:
  \<open>Selected_Error\<close> and \<open>Selected_Done\<close> are the arms of \<^verbatim>\<open>select\<close> before the gate is closed, \<open>Gate_Closed\<close>
  is before \<^verbatim>\<open>Shutdown\<close>, \<open>Draining\<close> inside it, \<open>Closing\<close> before \<^verbatim>\<open>Close\<close>, and the two \<open>Awaiting\<close> phases
  receive from the channel. The loop is the goroutine that accepts.
\<close>

datatype serve_outcome = ServerClosed | ServeFailed go_error

datatype serve_phase =
    Binding
  | Selecting
  | Selected_Error serve_outcome
  | Selected_Done
  | Gate_Closed
  | Draining
  | Closing go_error
  | Awaiting
  | Awaiting_Closed go_error
  | Returned "go_error option"

datatype accept_loop = Unstarted | Spawned | Accepting | Ended

text \<open>
  \<open>sg_channel\<close> is the buffered channel, \<open>sg_stopping\<close> the flag of a server that shuts down, \<open>sg_port\<close> that
  the listener is open, \<open>sg_requests\<close> the requests in flight.
\<close>

record serving =
  sg_phase :: serve_phase
  sg_loop :: accept_loop
  sg_channel :: "serve_outcome option"
  sg_cancelled :: bool
  sg_stopping :: bool
  sg_port :: bool
  sg_requests :: nat
  sg_gate :: readiness

definition serve_called :: "bool \<Rightarrow> readiness \<Rightarrow> serving" where
  "serve_called has_server gate =
    \<lparr>sg_phase = (if has_server then Binding else Returned (Some (GoError ''http server is nil''))),
     sg_loop = Unstarted, sg_channel = None, sg_cancelled = False, sg_stopping = False, sg_port = False,
     sg_requests = 0, sg_gate = gate\<rparr>"

definition serve_result :: "serve_outcome \<Rightarrow> go_error option" where
  "serve_result r = (case r of ServerClosed \<Rightarrow> None | ServeFailed err \<Rightarrow> Some err)"

text \<open>
  Who moves. \<^verbatim>\<open>Shutdown\<close> and \<^verbatim>\<open>Close\<close> close the listener of a loop that tracks it; a loop that has not
  begun by then closes it itself and returns \<^verbatim>\<open>ErrServerClosed\<close>. \<^verbatim>\<open>Shutdown\<close> returns nil only when no
  request is in flight; when its budget is spent, or a listener does not close, it returns an error.
  With both arms of \<^verbatim>\<open>select\<close> ready, either is taken.
\<close>

datatype actor = Main | Loop | Client | Signal

definition stop_listening :: "serving \<Rightarrow> serving" where
  "stop_listening s = s\<lparr>sg_stopping := True, sg_port := (sg_port s \<and> sg_loop s \<noteq> Accepting)\<rparr>"

inductive serve_step :: "string \<Rightarrow> actor \<Rightarrow> serving \<Rightarrow> serving \<Rightarrow> bool" for addr where
  listen_fails: "sg_phase s = Binding \<Longrightarrow>
    serve_step addr Main s (s\<lparr>sg_phase := Returned (Some (wrapf (''listen '' @ addr) err))\<rparr>)"
| listens: "sg_phase s = Binding \<Longrightarrow>
    serve_step addr Main s (s\<lparr>sg_phase := Selecting, sg_loop := Spawned, sg_port := True\<rparr>)"
| select_error: "sg_phase s = Selecting \<Longrightarrow> sg_channel s = Some r \<Longrightarrow>
    serve_step addr Main s (s\<lparr>sg_phase := Selected_Error r, sg_channel := None\<rparr>)"
| select_done: "sg_phase s = Selecting \<Longrightarrow> sg_cancelled s \<Longrightarrow>
    serve_step addr Main s (s\<lparr>sg_phase := Selected_Done\<rparr>)"
| error_returned: "sg_phase s = Selected_Error r \<Longrightarrow>
    serve_step addr Main s (s\<lparr>sg_phase := Returned (serve_result r), sg_gate := readiness_set False (sg_gate s)\<rparr>)"
| gate_closed: "sg_phase s = Selected_Done \<Longrightarrow>
    serve_step addr Main s (s\<lparr>sg_phase := Gate_Closed, sg_gate := readiness_set False (sg_gate s)\<rparr>)"
| shutdown: "sg_phase s = Gate_Closed \<Longrightarrow>
    serve_step addr Main s ((stop_listening s)\<lparr>sg_phase := Draining\<rparr>)"
| drained: "sg_phase s = Draining \<Longrightarrow> sg_requests s = 0 \<Longrightarrow>
    serve_step addr Main s (s\<lparr>sg_phase := Awaiting\<rparr>)"
| budget_spent: "sg_phase s = Draining \<Longrightarrow>
    serve_step addr Main s (s\<lparr>sg_phase := Closing err\<rparr>)"
| closes: "sg_phase s = Closing err \<Longrightarrow>
    serve_step addr Main s ((stop_listening s)\<lparr>sg_phase := Awaiting_Closed err\<rparr>)"
| received: "sg_phase s = Awaiting \<Longrightarrow> sg_channel s = Some r \<Longrightarrow>
    serve_step addr Main s (s\<lparr>sg_phase := Returned (serve_result r), sg_channel := None\<rparr>)"
| received_closed: "sg_phase s = Awaiting_Closed err \<Longrightarrow> sg_channel s = Some r \<Longrightarrow>
    serve_step addr Main s (s\<lparr>sg_phase := Returned (Some (wrapf ''HTTP server shutdown'' err)), sg_channel := None\<rparr>)"
| accepts: "sg_loop s = Spawned \<Longrightarrow> \<not> sg_stopping s \<Longrightarrow>
    serve_step addr Loop s (s\<lparr>sg_loop := Accepting\<rparr>)"
| breaks: "sg_loop s = Accepting \<Longrightarrow> \<not> sg_stopping s \<Longrightarrow>
    serve_step addr Loop s (s\<lparr>sg_loop := Ended, sg_port := False, sg_channel := Some (ServeFailed err)\<rparr>)"
| stops: "sg_loop s = Spawned \<or> sg_loop s = Accepting \<Longrightarrow> sg_stopping s \<Longrightarrow>
    serve_step addr Loop s (s\<lparr>sg_loop := Ended, sg_port := False, sg_channel := Some ServerClosed\<rparr>)"
| request: "sg_loop s = Accepting \<Longrightarrow> sg_port s \<Longrightarrow>
    serve_step addr Client s (s\<lparr>sg_requests := Suc (sg_requests s)\<rparr>)"
| answered: "sg_requests s = Suc n \<Longrightarrow>
    serve_step addr Client s (s\<lparr>sg_requests := n\<rparr>)"
| signal: "serve_step addr Signal s (s\<lparr>sg_cancelled := True\<rparr>)"

inductive_cases serve_stepE: "serve_step addr who s t"

definition serve_run :: "string \<Rightarrow> readiness \<Rightarrow> serving \<Rightarrow> bool" where
  "serve_run addr gate s \<longleftrightarrow> (\<lambda>s t. \<exists>who. serve_step addr who s t)\<^sup>*\<^sup>* (serve_called True gate) s"

lemma serve_run_start: "serve_run addr gate (serve_called True gate)"
  by (simp add: serve_run_def)

lemma serve_run_step: "serve_run addr gate s \<Longrightarrow> serve_step addr who s t \<Longrightarrow> serve_run addr gate t"
  unfolding serve_run_def by (rule rtranclp.rtrancl_into_rtrancl) auto

text \<open>For runs that are written out: the next state up to equality.\<close>

lemma serve_run_to: "serve_run addr gate s \<Longrightarrow> serve_step addr who s t \<Longrightarrow> t = u \<Longrightarrow> serve_run addr gate u"
  using serve_run_step by simp

lemma serve_run_induct [consumes 1, case_names start step]:
  assumes "serve_run addr gate s" and "P (serve_called True gate)"
    and "\<And>s t who. serve_run addr gate s \<Longrightarrow> P s \<Longrightarrow> serve_step addr who s t \<Longrightarrow> P t"
  shows "P s"
  using assms(1) unfolding serve_run_def
  by (induction rule: rtranclp_induct) (use assms(2,3) in \<open>auto simp: serve_run_def\<close>)

subsection \<open>What holds whatever the order\<close>

lemma readiness_set_False [simp]: "\<not> readiness_ready (readiness_set False r)"
  by (simp add: readiness_ready_def readiness_set_def split: option.splits)

text \<open>
  What the main goroutine knows where it is. The outcome of the loop is sent once, is in the channel
  until it is received, and by then the port is free; while the flag of a shutdown is not set it is a
  failure. \<open>sound\<close> is what holds of listener and loop everywhere but before the listener and at the end.
\<close>

definition sound :: "serving \<Rightarrow> bool" where
  "sound s \<longleftrightarrow> sg_loop s \<noteq> Unstarted \<and>
     (if sg_loop s = Ended then sg_channel s \<noteq> None else sg_channel s = None) \<and>
     (sg_channel s = Some ServerClosed \<longrightarrow> sg_stopping s)"

definition stopped_sound :: "serving \<Rightarrow> bool" where
  "stopped_sound s \<longleftrightarrow> sound s \<and> sg_stopping s \<and> sg_cancelled s \<and> \<not> readiness_ready (sg_gate s)"

fun knows :: "serve_phase \<Rightarrow> serving \<Rightarrow> bool" where
  "knows Binding s = (sg_loop s = Unstarted \<and> sg_channel s = None \<and> \<not> sg_stopping s)"
| "knows Selecting s = (sound s \<and> \<not> sg_stopping s)"
| "knows (Selected_Error r) s = (r \<noteq> ServerClosed \<and> sg_loop s = Ended \<and> sg_channel s = None \<and> \<not> sg_stopping s)"
| "knows Selected_Done s = (sound s \<and> \<not> sg_stopping s \<and> sg_cancelled s)"
| "knows Gate_Closed s = (sound s \<and> \<not> sg_stopping s \<and> sg_cancelled s \<and> \<not> readiness_ready (sg_gate s))"
| "knows Draining s = stopped_sound s"
| "knows (Closing err) s = stopped_sound s"
| "knows Awaiting s = (stopped_sound s \<and> sg_requests s = 0)"
| "knows (Awaiting_Closed err) s = stopped_sound s"
| "knows (Returned r) s = (sg_channel s = None \<and>
     (sg_loop s = Unstarted \<and> r \<noteq> None \<and> \<not> sg_stopping s \<or>
      sg_loop s = Ended \<and> \<not> readiness_ready (sg_gate s) \<and> (sg_stopping s \<longrightarrow> sg_cancelled s) \<and>
      (r = None \<longrightarrow> sg_stopping s \<and> sg_cancelled s \<and> sg_requests s = 0)))"

definition serve_ok :: "serving \<Rightarrow> bool" where
  "serve_ok s \<longleftrightarrow> knows (sg_phase s) s \<and>
     (sg_port s \<longrightarrow> sg_loop s = Spawned \<or> sg_loop s = Accepting \<and> \<not> sg_stopping s)"

lemmas serve_defs = serve_ok_def sound_def stopped_sound_def stop_listening_def serve_result_def

lemma serve_ok_step:
  assumes ok: "serve_ok s" and move: "serve_step addr who s t"
  shows "serve_ok t"
  using move ok
proof cases
  case (select_error r)
  with ok show ?thesis by (auto simp: serve_defs split: if_splits)
next
  case (error_returned r)
  with ok show ?thesis by (cases r) (auto simp: serve_defs simp del: not_None_eq)
next
  case (received r)
  with ok show ?thesis by (cases r) (auto simp: serve_defs simp del: not_None_eq split: if_splits)
next
  case listens with ok show ?thesis by (auto simp: serve_defs)
next
  case select_done with ok show ?thesis by (auto simp: serve_defs)
next
  case gate_closed with ok show ?thesis by (auto simp: serve_defs)
next
  case shutdown with ok show ?thesis by (auto simp: serve_defs)
next
  case drained with ok show ?thesis by (auto simp: serve_defs)
next
  case budget_spent with ok show ?thesis by (auto simp: serve_defs)
next
  case listen_fails with ok show ?thesis by (auto simp: serve_defs)
next
  case closes with ok show ?thesis by (auto simp: serve_defs)
next
  case received_closed with ok show ?thesis by (auto simp: serve_defs split: if_splits)
qed (cases "sg_phase s"; auto simp: serve_defs simp del: not_None_eq split: if_splits)+

lemma serve_ok_run: "serve_run addr gate s \<Longrightarrow> serve_ok s"
proof (induction rule: serve_run_induct)
  case start
  then show ?case by (simp add: serve_called_def serve_defs)
next
  case (step s t who)
  from serve_ok_step [OF step.IH step.hyps(2)] show ?case .
qed

text \<open>A gate that was open closes only after a signal or the end of the loop.\<close>

lemma gate_step:
  assumes "serve_step addr who s t" and "serve_ok s"
    and "readiness_ready (sg_gate s) \<or> sg_cancelled s \<or> sg_loop s = Ended"
  shows "readiness_ready (sg_gate t) \<or> sg_cancelled t \<or> sg_loop t = Ended"
  using assms by cases (auto simp: serve_defs)

lemma gate_run:
  assumes "serve_run addr gate s" and "readiness_ready gate"
  shows "readiness_ready (sg_gate s) \<or> sg_cancelled s \<or> sg_loop s = Ended"
  using assms
proof (induction rule: serve_run_induct)
  case start
  then show ?case by (simp add: serve_called_def)
next
  case (step s t who)
  then show ?case using gate_step serve_ok_run by blast
qed

subsection \<open>\<^verbatim>\<open>Serve\<close> ends\<close>

text \<open>How many moves main goroutine and loop have left at most.\<close>

fun phase_rank :: "serve_phase \<Rightarrow> nat" where
  "phase_rank Binding = 10"
| "phase_rank Selecting = 7"
| "phase_rank Selected_Done = 6"
| "phase_rank Gate_Closed = 5"
| "phase_rank Draining = 4"
| "phase_rank (Closing err) = 3"
| "phase_rank Awaiting = 2"
| "phase_rank (Awaiting_Closed err) = 2"
| "phase_rank (Selected_Error r) = 1"
| "phase_rank (Returned r) = 0"

fun loop_rank :: "accept_loop \<Rightarrow> nat" where
  "loop_rank Spawned = 2"
| "loop_rank Accepting = 1"
| "loop_rank _ = 0"

definition serve_rank :: "serving \<Rightarrow> nat" where
  "serve_rank s = phase_rank (sg_phase s) + loop_rank (sg_loop s)"

lemma rank_step:
  assumes "serve_step addr who s t" and "serve_ok s"
  shows "serve_rank t + (if who = Main \<or> who = Loop then 1 else 0) \<le> serve_rank s"
  using assms by cases (auto simp: serve_rank_def stop_listening_def serve_ok_def)

text \<open>A run with \<open>n\<close> moves of the server's own threads, between any moves of clients and signals.\<close>

inductive own_moves :: "string \<Rightarrow> nat \<Rightarrow> serving \<Rightarrow> serving \<Rightarrow> bool" for addr where
  none: "own_moves addr 0 s s"
| own: "own_moves addr n s t \<Longrightarrow> serve_step addr who t u \<Longrightarrow> who = Main \<or> who = Loop \<Longrightarrow> own_moves addr (Suc n) s u"
| others: "own_moves addr n s t \<Longrightarrow> serve_step addr who t u \<Longrightarrow> who = Client \<or> who = Signal \<Longrightarrow> own_moves addr n s u"

lemma own_moves_rank:
  assumes "own_moves addr n s t" and "serve_ok s"
  shows "n + serve_rank t \<le> serve_rank s \<and> serve_ok t"
  using assms
proof induction
  case (own n s t who u)
  with rank_step [OF own.hyps(2)] serve_ok_step [OF _ own.hyps(2)] show ?case by auto
next
  case (others n s t who u)
  with rank_step [OF others.hyps(2)] serve_ok_step [OF _ others.hyps(2)] show ?case by auto
qed simp

lemma own_move_possible:
  assumes ok: "serve_ok s" and cancelled: "sg_cancelled s" and open_end: "\<forall>r. sg_phase s \<noteq> Returned r"
  shows "\<exists>who t. (who = Main \<or> who = Loop) \<and> serve_step addr who s t"
proof -
  have loop: "(\<exists>r. sg_channel s = Some r) \<or> (\<exists>t. serve_step addr Loop s t)"
    if "sg_phase s = Awaiting \<or> (\<exists>err. sg_phase s = Awaiting_Closed err)"
  proof -
    from that ok have "sound s" "sg_stopping s" by (auto simp: serve_ok_def stopped_sound_def)
    then show ?thesis
      by (cases "sg_loop s") (auto simp: sound_def intro: serve_step.stops)
  qed
  show ?thesis
  proof (cases "sg_phase s")
    case (Returned r)
    with open_end show ?thesis by simp
  next
    case Awaiting
    with loop show ?thesis using serve_step.received by blast
  next
    case (Awaiting_Closed err)
    with loop show ?thesis using serve_step.received_closed by blast
  qed (use cancelled in \<open>blast intro: serve_step.intros\<close>)+
qed

subsection \<open>What a server leaves behind\<close>

definition returned :: "serving \<Rightarrow> bool" where
  "returned s \<longleftrightarrow> (case sg_phase s of Returned r \<Rightarrow> True | _ \<Rightarrow> False)"

lemma returned_iff: "returned s \<longleftrightarrow> (\<exists>r. sg_phase s = Returned r)"
  by (simp add: returned_def split: serve_phase.splits)

text \<open>
  C27. \<^verbatim>\<open>Serve\<close> stops cleanly. Whatever the interleaving of a server whose gate was open when it was
  called: before a signal the gate is open as long as connections are accepted, and from
  \<^verbatim>\<open>Shutdown\<close> on it is closed and clients can only finish what they began; a \<^verbatim>\<open>Serve\<close> that returned left no
  listener and none of its own goroutines behind (handlers that a forced \<^verbatim>\<open>Close\<close> cut off may run on, which
  is outside the model), and one that returned nil was told to stop and finished every
  request; its own threads never make more than ten moves, and after a signal one of them can move
  until it has returned.
\<close>

theorem serve_stops_cleanly:
  assumes "serve_run addr (Some True) s"
  shows "(sg_loop s = Accepting \<and> \<not> sg_cancelled s \<longrightarrow> readiness_ready (sg_gate s)) \<and>
    (sg_stopping s \<longrightarrow> sg_cancelled s \<and> \<not> readiness_ready (sg_gate s) \<and>
      (\<forall>t. serve_step addr Client s t \<longrightarrow> sg_requests t < sg_requests s)) \<and>
    (returned s \<longrightarrow> \<not> sg_port s \<and> sg_loop s \<in> {Unstarted, Ended} \<and> sg_channel s = None) \<and>
    (sg_phase s = Returned None \<longrightarrow> sg_cancelled s \<and> sg_requests s = 0) \<and>
    (\<forall>n t. own_moves addr n s t \<longrightarrow> n \<le> 10) \<and>
    (sg_cancelled s \<and> \<not> returned s \<longrightarrow> (\<exists>who t. (who = Main \<or> who = Loop) \<and> serve_step addr who s t))"
proof -
  from assms have ok: "serve_ok s" by (rule serve_ok_run)
  from assms have gate: "readiness_ready (sg_gate s) \<or> sg_cancelled s \<or> sg_loop s = Ended"
    by (rule gate_run) (simp add: readiness_ready_def)
  have stopping: "sg_cancelled s \<and> \<not> readiness_ready (sg_gate s) \<and> \<not> (sg_loop s = Accepting \<and> sg_port s)"
    if "sg_stopping s"
    using ok that by (cases "sg_phase s") (auto simp: serve_defs)
  have "sg_requests t < sg_requests s" if "sg_stopping s" "serve_step addr Client s t" for t
    using that(2) stopping [OF that(1)] by cases auto
  moreover have "\<not> sg_port s \<and> sg_loop s \<in> {Unstarted, Ended} \<and> sg_channel s = None" if "returned s"
    using ok that by (auto simp: returned_iff serve_ok_def)
  moreover have "sg_cancelled s \<and> sg_requests s = 0" if "sg_phase s = Returned None"
    using ok that by (auto simp: serve_ok_def)
  moreover have "n \<le> 10" if "own_moves addr n s t" for n t
  proof -
    have "phase_rank (sg_phase s) + loop_rank (sg_loop s) \<le> 10"
      using ok by (cases "sg_phase s"; cases "sg_loop s"; simp add: serve_ok_def)
    with own_moves_rank [OF that ok] show ?thesis by (simp add: serve_rank_def)
  qed
  ultimately show ?thesis
    using gate stopping own_move_possible [OF ok] by (auto simp: returned_iff)
qed

text \<open>A server that is told to stop with a request in flight, and finishes it.\<close>

definition finished :: serving where
  "finished = \<lparr>sg_phase = Returned None, sg_loop = Ended, sg_channel = None, sg_cancelled = True,
     sg_stopping = True, sg_port = False, sg_requests = 0, sg_gate = Some False\<rparr>"

lemma finished_run: "serve_run '':8080'' (Some True) finished"
proof -
  let ?run = "serve_run '':8080'' (Some True)"
  note simps = serve_called_def stop_listening_def serve_result_def readiness_set_def finished_def
  let ?s3 = "(serve_called True (Some True))\<lparr>sg_phase := Selecting, sg_loop := Accepting, sg_port := True, sg_requests := 1\<rparr>"
  let ?s6 = "?s3\<lparr>sg_cancelled := True, sg_phase := Gate_Closed, sg_gate := Some False\<rparr>"
  let ?s9 = "?s6\<lparr>sg_stopping := True, sg_port := False, sg_requests := 0, sg_phase := Awaiting\<rparr>"
  have "?run ?s3"
    by (rule serve_run_to [OF serve_run_step [OF serve_run_step [OF serve_run_start serve_step.listens]
        serve_step.accepts] serve_step.request]) (simp_all add: simps)
  then have "?run ?s6"
    by (rule serve_run_to [OF serve_run_step [OF serve_run_step [OF _ serve_step.signal] serve_step.select_done]
        serve_step.gate_closed]) (simp_all add: simps)
  then have "?run ?s9"
    by (rule serve_run_to [OF serve_run_step [OF serve_run_step [OF _ serve_step.shutdown] serve_step.answered]
        serve_step.drained]) (simp_all add: simps)
  then show ?thesis
    by (rule serve_run_to [OF serve_run_step [OF _ serve_step.stops] serve_step.received [where r = ServerClosed]]) (simp_all add: simps)
qed

lemma serve_stops_cleanly_witness: "sg_cancelled finished \<and> sg_requests finished = 0 \<and> sg_channel finished = None"
proof -
  have "returned finished" "sg_phase finished = Returned None" by (simp_all add: returned_iff finished_def)
  with serve_stops_cleanly [OF finished_run] show ?thesis by blast
qed

text \<open>
  The error \<^verbatim>\<open>Serve\<close> drops when its drain fails need not be \<^verbatim>\<open>ErrServerClosed\<close>: the loop may have failed
  just before the signal was taken.
\<close>

lemma failure_may_be_dropped:
  "\<exists>s. serve_run addr gate s \<and> sg_phase s = Awaiting_Closed drain_err \<and> sg_channel s = Some (ServeFailed err)"
proof -
  note simps = serve_called_def stop_listening_def
  let ?s3 = "(serve_called True gate)\<lparr>sg_phase := Selecting, sg_loop := Ended, sg_channel := Some (ServeFailed err)\<rparr>"
  let ?s6 = "?s3\<lparr>sg_cancelled := True, sg_phase := Gate_Closed, sg_gate := readiness_set False gate\<rparr>"
  let ?s9 = "?s6\<lparr>sg_stopping := True, sg_phase := Awaiting_Closed drain_err\<rparr>"
  have "serve_run addr gate ?s3"
    by (rule serve_run_to [OF serve_run_step [OF serve_run_step [OF serve_run_start serve_step.listens]
        serve_step.accepts] serve_step.breaks]) (simp_all add: simps)
  then have "serve_run addr gate ?s6"
    by (rule serve_run_to [OF serve_run_step [OF serve_run_step [OF _ serve_step.signal] serve_step.select_done]
        serve_step.gate_closed]) (simp_all add: simps)
  then have "serve_run addr gate ?s9"
    by (rule serve_run_to [OF serve_run_step [OF serve_run_step [OF _ serve_step.shutdown] serve_step.budget_spent]
        serve_step.closes]) (simp_all add: simps)
  then show ?thesis by (intro exI [of _ ?s9]) (simp add: simps)
qed

end
