(* ===== verification/Gateway_Servers.thy ===== *)
theory Gateway_Servers
  imports Http_Server Middleware Controllers
begin

section \<open>The two gateways as they start: \<^verbatim>\<open>gateway/cmd\<close>\<close>

text \<open>
  \<^verbatim>\<open>startRegional\<close> and \<^verbatim>\<open>startGlobal\<close> with what they call on the way: the region of the process
  (\<^verbatim>\<open>framework/frontend/config\<close>), the client (\<^verbatim>\<open>internal/kubeclient\<close>), the start of the cached checker.
  Every early return is an error; what is started is the server over a mux, with its readiness gate, and
  \<open>Http_Server\<close> says what becomes of it. client-go, the files, the environment and the router the SDK
  generates for a provider's endpoints are fields of an environment. Loggers are dropped.
\<close>

subsection \<open>The region: \<^verbatim>\<open>singleton.go\<close>\<close>

record region_config =
  rc_once :: bool
  rc_region :: string

definition set_region :: "string \<Rightarrow> region_config \<Rightarrow> region_config" where
  "set_region region c = (if rc_once c then c else \<lparr>rc_once = True, rc_region = region\<rparr>)"

subsection \<open>The client: \<^verbatim>\<open>kubeclient.go\<close>\<close>

text \<open>A \<^verbatim>\<open>rest.Config\<close> with the fields the code looks at and the address of the server.\<close>

record rest_config =
  cf_host :: string
  cf_qps :: int
  cf_burst :: int
  cf_user_agent :: string

definition default_qps :: int where
  "default_qps = 5"

definition default_burst :: int where
  "default_burst = 10"

definition default_user_agent :: string where
  "default_user_agent = ''ecp-gateway''"

definition apply_client_defaults :: "rest_config \<Rightarrow> rest_config" where
  "apply_client_defaults cfg =
    (let c1 = (if cf_qps cfg = 0 then cfg\<lparr>cf_qps := default_qps\<rparr> else cfg);
         c2 = (if cf_burst c1 = 0 then c1\<lparr>cf_burst := default_burst\<rparr> else c1)
     in if cf_user_agent c2 = [] then c2\<lparr>cf_user_agent := default_user_agent\<rparr> else c2)"

record 'w kube_handles =
  kh_client :: "'w dyn_client"
  kh_clientset :: "'w clientset option"

text \<open>
  What a process is given: environment variables, in-cluster and file configuration, the two client
  constructors, the path of the user's kubeconfig, the request for the server's version, the files and libraries of the authenticators, what
  \<^verbatim>\<open>WaitForCacheSync\<close> reports for each kind, the policy's repositories over a client, and the
  router of a provider over its endpoints.
\<close>

record ('key, 'o, 'u, 'out, 'w) gateway_env =
  ge_getenv :: "string \<Rightarrow> string"
  ge_in_cluster :: "go_error + rest_config"
  ge_build_config :: "string \<Rightarrow> go_error + rest_config"
  ge_home_kubeconfig :: string
  ge_dynamic :: "rest_config \<Rightarrow> go_error + 'w dyn_client"
  ge_clientset :: "rest_config \<Rightarrow> go_error + 'w clientset"
  ge_version :: "'w clientset \<Rightarrow> 'w check"
  ge_auth :: "('key, 'w) auth_env"
  ge_synced :: "(gvr \<times> bool) list"
  ge_glob :: globber
  ge_cache :: "'w dyn_client \<Rightarrow> ('o, 'u, 'w) policy_cache"
  ge_sha3 :: "string \<Rightarrow> string"
  ge_role_codec :: "(role_cr_spec, status) cr_codec"
  ge_assignment_codec :: "(role_assignment_cr_spec, status) cr_codec"
  ge_role_lister :: "(role, 'w) lister"
  ge_assignment_lister :: "(role_assignment, 'w) lister"
  ge_observe :: "'w \<Rightarrow> 'w"
  ge_unrouted :: "string \<Rightarrow> http_request \<Rightarrow> 'out http_response option"
  ge_router :: "string \<Rightarrow> 'w kube_handles \<Rightarrow> ('out, 'w) handler"

text \<open>A nil configuration is refused; the defaults are written into the caller's.\<close>

definition new_from_config ::
  "('key, 'o, 'u, 'out, 'w) gateway_env \<Rightarrow> rest_config option \<Rightarrow> go_error + 'w kube_handles" where
  "new_from_config env cfg =
    (case cfg of
       None \<Rightarrow> Inl (GoError ''rest.Config cannot be nil'')
     | Some c0 \<Rightarrow>
         (let c = apply_client_defaults c0 in
          case ge_dynamic env c of
            Inl err \<Rightarrow> Inl err
          | Inr client \<Rightarrow>
              (case ge_clientset env c of
                 Inl err \<Rightarrow> Inl err
               | Inr cs \<Rightarrow> Inr \<lparr>kh_client = client, kh_clientset = Some cs\<rparr>)))"

definition new_kube_client :: "('key, 'o, 'u, 'out, 'w) gateway_env \<Rightarrow> go_error + 'w kube_handles" where
  "new_kube_client env =
    (case ge_build_config env (ge_home_kubeconfig env) of
       Inl err \<Rightarrow> Inl (wrapf ''failed to load kubeconfig'' err)
     | Inr config \<Rightarrow> new_from_config env (Some config))"

definition check_api_server ::
  "('key, 'o, 'u, 'out, 'w) gateway_env \<Rightarrow> 'w kube_handles option \<Rightarrow> 'w check" where
  "check_api_server env c timeout w =
    (case c of
       None \<Rightarrow> (Some (GoError ''kubernetes client is not configured''), w)
     | Some handles \<Rightarrow>
         (case kh_clientset handles of
            None \<Rightarrow> (Some (GoError ''kubernetes client is not configured''), w)
          | Some cs \<Rightarrow> ge_version env cs timeout w))"

subsection \<open>Starting the checker\<close>

text \<open>
  \<^verbatim>\<open>CachedChecker.Start\<close>: the first kind that is not synced, in the order the map is walked. Only the
  cached checker has a \<^verbatim>\<open>Start\<close>, which the instrumented one forwards to.
\<close>

fun cached_start :: "(gvr \<times> bool) list \<Rightarrow> go_error option" where
  "cached_start [] = None"
| "cached_start ((kind, ok) # synced) =
    (if \<not> ok then Some (GoError (''informer cache sync timed out for '' @ gvr_resource kind))
     else cached_start synced)"

definition start_checker :: "auth_flags \<Rightarrow> 'w authorize option \<Rightarrow> (gvr \<times> bool) list \<Rightarrow> go_error option" where
  "start_checker flags checker synced =
    (case checker of
       None \<Rightarrow> None
     | Some authorize \<Rightarrow> if fl_authz_cache flags then cached_start synced else None)"

text \<open>The flags before the command line is read.\<close>

definition registered_flags :: auth_flags where
  "registered_flags =
    \<lparr>fl_enabled = False, fl_auth_plugin = ''dummy'', fl_jwt_signing_method = ''ES256'', fl_jwt_secret_file = [],
     fl_dummy_users_file = [], fl_authz_cache = False, fl_authz_enabled = True,
     fl_authz_skip_providers = [''seca.region'']\<rparr>"

subsection \<open>What is mounted\<close>

text \<open>
  A mux: the probes, the patterns that are served without authentication, and the providers, each with the
  handler the SDK's router makes of its middlewares.
\<close>

record ('out, 'w) mount =
  mt_provider :: string
  mt_base_url :: string
  mt_handler :: "('out, 'w) handler"

record ('out, 'w) gateway_mux =
  gm_probes :: "(string \<times> 'w probe) list"
  gm_open :: "string list"
  gm_mounts :: "('out, 'w) mount list"

record ('out, 'w) started =
  sd_server :: "('out, 'w) gateway_mux http_server"
  sd_gate :: readiness

text \<open>
  What both commands do before they mount a provider: the configuration, the client, the authenticator and
  the checker, and the start of the checker.
\<close>

definition load_config :: "('key, 'o, 'u, 'out, 'w) gateway_env \<Rightarrow> string \<Rightarrow> go_error + rest_config" where
  "load_config env kubeconfig =
    (case ge_in_cluster env of
       Inr config \<Rightarrow> Inr config
     | Inl err0 \<Rightarrow>
         (case ge_build_config env kubeconfig of
            Inl err \<Rightarrow> Inl (wrapf (''build kubeconfig '' @ kubeconfig) err)
          | Inr config \<Rightarrow> Inr config))"

definition role_reader :: "('key, 'o, 'u, 'out, 'w) gateway_env \<Rightarrow> 'w dyn_client \<Rightarrow> (role, 'w) repo" where
  "role_reader env client =
     (let codec = ge_role_codec env in
      new_repo_adapter (role_adapter client (ge_sha3 env) (cc_encode codec) (cc_decode codec) (cc_now codec))
        (ge_role_lister env))"

definition role_assignment_reader ::
  "('key, 'o, 'u, 'out, 'w) gateway_env \<Rightarrow> 'w dyn_client \<Rightarrow> (role_assignment, 'w) repo" where
  "role_assignment_reader env client =
     (let codec = ge_assignment_codec env in
      new_repo_adapter (role_assignment_adapter client (ge_sha3 env) (cc_encode codec) (cc_decode codec) (cc_now codec))
        (ge_assignment_lister env))"

definition open_gateway ::
  "('key, 'o, 'u, 'out, 'w) gateway_env \<Rightarrow> auth_flags \<Rightarrow> string
   \<Rightarrow> go_error + 'w kube_handles \<times> 'w authenticate option \<times> 'w authorize option" where
  "open_gateway env flags kubeconfig =
    (case load_config env kubeconfig of
       Inl err \<Rightarrow> Inl err
     | Inr config \<Rightarrow>
         (case new_from_config env (Some config) of
            Inl err \<Rightarrow> Inl (wrapf ''create kubeclient'' err)
          | Inr handles \<Rightarrow>
              (let client = kh_client handles in
               case build_auth flags (ge_auth env) True (ge_observe env)
                   (cached_authorize (ge_glob env) (ge_cache env client))
                   (checker_authorize (ge_glob env) (role_reader env client) (role_assignment_reader env client)) of
                 Inl err \<Rightarrow> Inl (wrapf ''build auth chain'' err)
               | Inr (authenticator, checker) \<Rightarrow>
                   (case start_checker flags checker (ge_synced env) of
                      Some err \<Rightarrow> Inl (wrapf ''start authz cache'' err)
                    | None \<Rightarrow> Inr (handles, authenticator, checker)))))"

text \<open>
  A call of the SDK's \<^verbatim>\<open>HandlerWithOptions\<close>. Its router answers some requests by itself, before any
  middleware: those with no route, and those whose path, query or header parameters do not bind to the
  operation's (a 400); \<open>ge_unrouted\<close> is what it answers then. Only an operation is wrapped.
\<close>

definition mount_provider ::
  "('key, 'o, 'u, 'out, 'w) gateway_env \<Rightarrow> auth_flags \<Rightarrow> string
   \<Rightarrow> 'w kube_handles \<times> 'w authenticate option \<times> 'w authorize option \<Rightarrow> string \<times> string \<Rightarrow> ('out, 'w) mount" where
  "mount_provider env flags region opened p =
    (case (opened, p) of ((handles, authenticator, checker), (provider, base_url)) \<Rightarrow>
      \<lparr>mt_provider = provider, mt_base_url = base_url,
       mt_handler = (\<lambda>r w. case ge_unrouted env provider r of
           Some answer \<Rightarrow> (answer, w)
         | None \<Rightarrow> wrap_handler
             (provider_mws (Some flags) authenticator checker region provider base_url (ge_observe env))
             (ge_router env provider handles) r w)\<rparr>)"

text \<open>The mux with the probes, the metrics and the providers, and the server over it once all is wired.\<close>

definition serve_gateway ::
  "('key, 'o, 'u, 'out, 'w) gateway_env \<Rightarrow> auth_flags \<Rightarrow> string \<Rightarrow> string
   \<Rightarrow> 'w kube_handles \<times> 'w authenticate option \<times> 'w authorize option \<Rightarrow> (string \<times> string) list
   \<Rightarrow> ('out, 'w) started" where
  "serve_gateway env flags region addr opened providers =
    (let probes = register_probes [Some (check_api_server env (Some (fst opened)))] (Some []);
         mux = \<lparr>gm_probes = the probes, gm_open = [''/metrics''],
           gm_mounts = map (mount_provider env flags region opened) providers\<rparr>
     in \<lparr>sd_server = new_http_server \<lparr>so_addr = addr, so_handler = mux, so_read_timeout = 0, so_write_timeout = 0,
           so_idle_timeout = 0, so_header_timeout = 0, so_max_header_bytes = 0\<rparr>,
         sd_gate = readiness_set True new_readiness\<rparr>)"

definition regional_providers :: "(string \<times> string) list" where
  "regional_providers =
    [(''seca.compute'', ''/providers/seca.compute''), (''seca.network'', ''/providers/seca.network''),
     (''seca.storage'', ''/providers/seca.storage''), (''seca.workspace'', ''/providers/seca.workspace'')]"

definition global_providers :: "(string \<times> string) list" where
  "global_providers =
    [(''seca.region'', ''/providers/seca.region''), (''seca.authorization'', ''/providers/seca.authorization'')]"

definition start_regional ::
  "('key, 'o, 'u, 'out, 'w) gateway_env \<Rightarrow> auth_flags \<Rightarrow> string \<Rightarrow> string \<Rightarrow> string \<Rightarrow> region_config
   \<Rightarrow> (go_error + ('out, 'w) started) \<times> region_config" where
  "start_regional env flags region_flag addr kubeconfig cfg =
    (let region = trim_space (if region_flag = [] then ge_getenv env ''REGION'' else region_flag) in
     if region = [] then
       (Inl (GoError ''region is required: set --region or the REGION environment variable''), cfg)
     else (let cfg1 = set_region region cfg in
       case open_gateway env flags kubeconfig of
         Inl err \<Rightarrow> (Inl err, cfg1)
       | Inr opened \<Rightarrow> (Inr (serve_gateway env flags (rc_region cfg1) addr opened regional_providers), cfg1)))"

definition start_global ::
  "('key, 'o, 'u, 'out, 'w) gateway_env \<Rightarrow> auth_flags \<Rightarrow> string \<Rightarrow> string \<Rightarrow> region_config
   \<Rightarrow> (go_error + ('out, 'w) started) \<times> region_config" where
  "start_global env flags addr kubeconfig cfg =
    (case open_gateway env flags kubeconfig of
       Inl err \<Rightarrow> (Inl err, cfg)
     | Inr opened \<Rightarrow> (Inr (serve_gateway env flags (rc_region cfg) addr opened global_providers), cfg))"

text \<open>What the commands make of the outcome of \<^verbatim>\<open>Serve\<close> and of an error: the exit code of the process.\<close>

definition serve_error :: "go_error option \<Rightarrow> go_error option" where
  "serve_error result = map_option (wrapf ''serve'') result"

definition exit_code :: "go_error option \<Rightarrow> nat" where
  "exit_code err = (case err of None \<Rightarrow> 0 | Some e \<Rightarrow> 1)"

subsection \<open>Every provider is behind the gate\<close>

text \<open>A started process with the region its claims carry, and the policy its checker decides by.\<close>

definition gateway_starts ::
  "('key, 'o, 'u, 'out, 'w) gateway_env \<Rightarrow> auth_flags \<Rightarrow> string \<Rightarrow> ('out, 'w) started \<Rightarrow> bool" where
  "gateway_starts env flags region st \<longleftrightarrow>
     (\<exists>flag addr kubeconfig cfg cfg1. start_regional env flags flag addr kubeconfig cfg = (Inr st, cfg1) \<and> region = rc_region cfg1) \<or>
     (\<exists>addr kubeconfig cfg. start_global env flags addr kubeconfig cfg = (Inr st, cfg) \<and> region = rc_region cfg)"

definition gateway_policy where
  "gateway_policy env flags client =
     (if fl_authz_cache flags then cached_policy (ge_cache env client)
      else direct_policy (role_reader env client) (role_assignment_reader env client))"

lemma mounts_of_serve_gateway [simp]:
  "gm_mounts (sr_handler (sd_server (serve_gateway env flags region addr opened providers)))
     = map (mount_provider env flags region opened) providers"
  by (simp add: serve_gateway_def new_http_server_def Let_def)

lemma mount_provider_simps [simp]:
  "mt_provider (mount_provider env flags region opened p) = fst p"
  "mt_base_url (mount_provider env flags region opened p) = snd p"
  by (simp_all add: mount_provider_def split: prod.splits)

lemma started_is_opened:
  assumes "gateway_starts env flags region st"
  obtains addr kubeconfig opened providers where "open_gateway env flags kubeconfig = Inr opened"
    "st = serve_gateway env flags region addr opened providers"
    "providers = regional_providers \<or> providers = global_providers"
proof -
  from assms consider flag addr kubeconfig cfg cfg1 where
      "start_regional env flags flag addr kubeconfig cfg = (Inr st, cfg1)" "region = rc_region cfg1"
    | addr kubeconfig cfg where "start_global env flags addr kubeconfig cfg = (Inr st, cfg)" "region = rc_region cfg"
    unfolding gateway_starts_def by blast
  then show thesis
  proof cases
    case 1
    then show thesis
      by (cases "open_gateway env flags kubeconfig") (auto simp: start_regional_def Let_def split: if_splits intro: that)
  next
    case 2
    then show thesis
      by (cases "open_gateway env flags kubeconfig") (auto simp: start_global_def intro: that)
  qed
qed

lemma opened_with_checker:
  assumes "open_gateway env flags kubeconfig = Inr opened" and "fl_enabled flags" and "fl_authz_enabled flags"
  obtains handles authenticate authorize where "opened = (handles, Some authenticate, Some authorize)"
    "build_authenticator flags (ge_auth env) = Inr authenticate"
    "policy_checker authorize (gateway_policy env flags (kh_client handles)) (ge_glob env)"
proof -
  let ?checker = "\<lambda>client. if fl_authz_cache flags then cached_authorize (ge_glob env) (ge_cache env client)
    else checker_authorize (ge_glob env) (role_reader env client) (role_assignment_reader env client)"
  from assms obtain handles authenticate where
    "opened = (handles, Some authenticate, Some (instrumented_authorize (ge_observe env) (?checker (kh_client handles))))"
    "build_authenticator flags (ge_auth env) = Inr authenticate"
    by (auto simp: open_gateway_def build_auth_def Let_def split: sum.splits if_splits option.splits)
  moreover have "policy_checker (instrumented_authorize (ge_observe env) (?checker (kh_client handles)))
      (gateway_policy env flags (kh_client handles)) (ge_glob env)"
    by (cases "fl_authz_cache flags")
       (simp_all add: gateway_policy_def instrumented.policy_checker_axioms instrumented_cached.policy_checker_axioms)
  ultimately show thesis by (rule that)
qed

text \<open>A process whose region is blank does not start, and one that starts does so with its gate open.\<close>

lemma blank_region_is_refused:
  assumes "trim_space (if flag = [] then ge_getenv env ''REGION'' else flag) = []"
  shows "start_regional env flags flag addr kubeconfig cfg =
    (Inl (GoError ''region is required: set --region or the REGION environment variable''), cfg)"
  using assms by (simp add: start_regional_def)

lemma started_gate: "gateway_starts env flags region st \<Longrightarrow> sd_gate st = Some True"
  by (elim started_is_opened)
     (simp add: serve_gateway_def new_readiness_def readiness_set_def Let_def)

text \<open>
  C26. Whatever a gateway serves, policy grants. With authentication and authorization switched on, take
  a regional or global gateway that started and a provider it mounted that is not exempted: a request it
  answers with anything but a refusal brought a token the configured authenticator accepts, and the
  policy of the configured checker, direct or cached, grants its claim in the region of the process. The one
  exception are requests that come to no operation, because the SDK's router finds no route or cannot bind
  their parameters: they get the router's own answer, and nothing happens.
\<close>

theorem gateway_serves_what_policy_grants:
  assumes "gateway_starts env flags region st"
    and "fl_enabled flags" and "fl_authz_enabled flags"
    and "m \<in> set (gm_mounts (sr_handler (sd_server st)))"
    and "mt_provider m \<notin> set (fl_authz_skip_providers flags)"
    and "mt_handler m r w = (response, w')" and "\<not> refused response"
  shows "(ge_unrouted env (mt_provider m) r = Some response \<and> w' = w) \<or>
    (\<exists>authenticate client. build_authenticator flags (ge_auth env) = Inr authenticate \<and>
      granted_by (gateway_policy env flags client) (ge_glob env) authenticate
        (seca_claim_extractor region (mt_provider m) (mt_base_url m)) r w)"
proof -
  from assms(1) obtain addr kubeconfig opened providers where opened: "open_gateway env flags kubeconfig = Inr opened"
    and st: "st = serve_gateway env flags region addr opened providers"
    by (rule started_is_opened)
  from opened assms(2,3) obtain handles authenticate authorize where
    o: "opened = (handles, Some authenticate, Some authorize)"
    and built: "build_authenticator flags (ge_auth env) = Inr authenticate"
    and checker: "policy_checker authorize (gateway_policy env flags (kh_client handles)) (ge_glob env)"
    by (rule opened_with_checker)
  from assms(4) st obtain p where m: "m = mount_provider env flags region opened p" by auto
  show ?thesis
  proof (cases "ge_unrouted env (fst p) r")
    case None
    then have "granted_by (gateway_policy env flags (kh_client handles)) (ge_glob env) authenticate
        (seca_claim_extractor region (fst p) (snd p)) r w"
      using policy_checker.gate_grants [OF checker, of "Some flags" "fst p"] assms(5-7)
      by (auto simp: m o mount_provider_def authz_skipped_def split: prod.splits)
    with built show ?thesis by (auto simp: m)
  next
    case (Some answer)
    with assms(6) show ?thesis by (auto simp: m o mount_provider_def split: prod.splits)
  qed
qed

text \<open>A regional gateway with one user, one role and one assignment, and routers that answer 200.\<close>

definition small_auth :: "(unit, unit) auth_env" where
  "small_auth = \<lparr>en_read_file = (\<lambda>f. Inr f), en_parse_users = (\<lambda>data. Inr [(''alice'', ''pw'')]),
     en_signing_method = (\<lambda>s. False), en_pem_decode = (\<lambda>s. None), en_parse_pkix = (\<lambda>s. Inl (GoError [])),
     en_codec = \<lparr>tk_base64_std = Some, tk_base64_url = (\<lambda>s. None),
       tk_json = (\<lambda>s. Some \<lparr>tp_username = s, tp_password = ''pw'', tp_scope = None\<rparr>)\<rparr>,
     en_jwt = (\<lambda>key signing token w. Inl (GoError []))\<rparr>"

definition small_client :: "unit dyn_client" where
  "small_client =
    \<lparr>dc_get = (\<lambda>kind ns name w. (Inl (GoError []), w)), dc_list = (\<lambda>options kind ns w. (Inr ([], []), w)),
     dc_create = (\<lambda>kind ns u w. (Inr u, w)), dc_update = (\<lambda>kind ns u w. (Inr u, w)),
     dc_update_status = (\<lambda>kind ns u w. (Inr u, w)), dc_delete = (\<lambda>kind ns name version w. (None, w)),
     dc_retry = (\<lambda>f w. f w)\<rparr>"

definition no_codec :: "('s, 't) cr_codec" where
  "no_codec = \<lparr>cc_encode = (\<lambda>cr. Inl (GoError [])), cc_decode = (\<lambda>u. Inl (GoError [])), cc_now = 0\<rparr>"

definition small_gateway_env :: "(unit, string, string, string, unit) gateway_env" where
  "small_gateway_env =
    \<lparr>ge_getenv = (\<lambda>name. '' eu ''), ge_in_cluster = Inr \<lparr>cf_host = ''api'', cf_qps = 0, cf_burst = 0, cf_user_agent = []\<rparr>,
     ge_build_config = (\<lambda>f. Inl (GoError [])), ge_home_kubeconfig = [], ge_dynamic = (\<lambda>c. Inr small_client),
     ge_clientset = (\<lambda>c. Inr \<lparr>cs_ns_create = (\<lambda>n l w. (None, w)), cs_ns_delete = (\<lambda>n w. (None, w)), cs_ns_get = (\<lambda>n w. (Inr [], w))\<rparr>),
     ge_version = (\<lambda>cs timeout w. (None, w)), ge_auth = small_auth, ge_synced = [], ge_glob = exact_glob,
     ge_cache = (\<lambda>client. small_cache), ge_sha3 = (\<lambda>s. s), ge_role_codec = no_codec, ge_assignment_codec = no_codec,
     ge_role_lister = (\<lambda>params w. (Inr ([network_role], None), w)),
     ge_assignment_lister = (\<lambda>params w. (Inr ([readers], None), w)), ge_observe = id,
     ge_unrouted = (\<lambda>provider r. None),
     ge_router = (\<lambda>provider handles r w. (\<lparr>rs_status = 200, rs_body = Encoded provider\<rparr>, w))\<rparr>"

definition small_flags :: auth_flags where
  "small_flags = registered_flags\<lparr>fl_enabled := True, fl_dummy_users_file := ''users''\<rparr>"

lemma trim_eu [simp]: "trim_space '' eu '' = ''eu''"
  by (simp add: trim_space_def is_space_def)

definition small_opened :: "unit kube_handles \<times> unit authenticate option \<times> unit authorize option" where
  "small_opened =
    (\<lparr>kh_client = small_client, kh_clientset = Some \<lparr>cs_ns_create = (\<lambda>n l w. (None, w)),
        cs_ns_delete = (\<lambda>n w. (None, w)), cs_ns_get = (\<lambda>n w. (Inr [], w))\<rparr>\<rparr>,
     Some (dummy_authenticate (en_codec small_auth) [(''alice'', ''pw'')]),
     Some (instrumented_authorize id (checker_authorize exact_glob (role_reader small_gateway_env small_client)
       (role_assignment_reader small_gateway_env small_client))))"

lemma small_opens: "open_gateway small_gateway_env small_flags [] = Inr small_opened"
  by (simp add: open_gateway_def load_config_def small_gateway_env_def new_from_config_def build_auth_def
      small_flags_def registered_flags_def build_authenticator_def small_auth_def start_checker_def small_opened_def
      Let_def id_def)

lemma small_starts:
  "gateway_starts small_gateway_env small_flags ''eu''
     (serve_gateway small_gateway_env small_flags ''eu'' '':8080'' small_opened regional_providers)"
proof -
  have "start_regional small_gateway_env small_flags [] '':8080'' [] \<lparr>rc_once = False, rc_region = []\<rparr> =
      (Inr (serve_gateway small_gateway_env small_flags ''eu'' '':8080'' small_opened regional_providers),
       \<lparr>rc_once = True, rc_region = ''eu''\<rparr>)"
    by (simp add: start_regional_def small_opens set_region_def Let_def) (simp add: small_gateway_env_def)
  then show ?thesis unfolding gateway_starts_def by force
qed

lemma small_mount_serves:
  "mt_handler (mount_provider small_gateway_env small_flags ''eu'' small_opened (''seca.network'', ''/providers/seca.network''))
     (list_request ''Bearer alice'') () = (\<lparr>rs_status = 200, rs_body = Encoded ''seca.network''\<rparr>, ())"
proof -
  have bearer: "bearer_token (list_request ''Bearer alice'') = Some ''alice''"
    by (simp add: bearer_token_def list_request_def split_two_def equal_fold_def to_lower_def lower_char_def)
  have skip: "\<not> authz_skipped (Some small_flags) ''seca.network''"
    by (simp add: authz_skipped_def small_flags_def registered_flags_def)
  show ?thesis
    unfolding mount_provider_def small_opened_def
    by (simp add: provider_chain [OF skip] metrics_middleware_def new_authentication_def bearer new_authorization_def
        list_request_claim dummy_authenticate_def small_auth_def instrumented_authorize_def checker_authorize_def
        load_policy_def role_reader_def role_assignment_reader_def new_repo_adapter_def small_gateway_env_def
        evaluate_def token_scope_covers_def empty_token_scope_def readers_def slice_covers_def roles_by_name_def
        network_role_def reader_role_def match_resource_def exact_glob_def Let_def)
qed

lemma gateway_serves_what_policy_grants_witness:
  "\<exists>authenticate client. build_authenticator small_flags (ge_auth small_gateway_env) = Inr authenticate \<and>
    granted_by (gateway_policy small_gateway_env small_flags client) (ge_glob small_gateway_env) authenticate
      (seca_claim_extractor ''eu'' ''seca.network'' ''/providers/seca.network'') (list_request ''Bearer alice'') ()"
proof -
  let ?m = "mount_provider small_gateway_env small_flags ''eu'' small_opened (''seca.network'', ''/providers/seca.network'')"
  have "?m \<in> set (gm_mounts (sr_handler (sd_server
      (serve_gateway small_gateway_env small_flags ''eu'' '':8080'' small_opened regional_providers))))"
    by (simp add: regional_providers_def)
  from gateway_serves_what_policy_grants [OF small_starts _ _ this _ small_mount_serves] show ?thesis
    by (simp add: small_flags_def registered_flags_def refused_def small_gateway_env_def)
qed

end
