(* ===== verification/Spec2Isabelle.thy ===== *)
theory Spec2Isabelle
  imports Workspace_Handler Network_Handlers Network_Edge_Handlers Authorization_Handlers
    Image_Handler Block_Storage_Handler Instance_Handler Handler_Properties Controller Dependencies Middleware
    Storage_Properties Label_Filter Instance_Api Stored_Resources Catalog_Conversion
    Api_Properties Catalog_Api Aruba_Properties Dummy_Properties Ionos_Properties Cluster_Properties
    Gateway_Servers
begin

text \<open>
  \<^bold>\<open>The program.\<close> The control plane of the European cloud platform stores resources (workspaces,
  networks and what belongs to them, volumes, images, instances, roles and role assignments) as
  custom resources of a Kubernetes API server. Three processes work on them. A regional and a global
  API server (\<^verbatim>\<open>gateway\<close>, with the endpoints of \<^verbatim>\<open>resource/*/frontend\<close> and the helpers of
  \<^verbatim>\<open>framework/frontend\<close>) authenticate a request, ask the policy of roles and role assignments whether
  it is granted, convert the body to the domain form of the resource and call the repository adapter
  (\<^verbatim>\<open>framework/backend/kubernetes/adapter.go\<close>), which converts it to its stored form and writes it to
  the namespace of its scope. A provider's controller (\<^verbatim>\<open>framework/backend/kubernetes/controller\<close>)
  watches the objects, keeps a finalizer on each and calls the plugin handler of the kind
  (\<^verbatim>\<open>resource/*/backend/kubernetes/plugin_handler.go\<close>), which calls the provider's plugin
  (\<^verbatim>\<open>csp/*\<close>) and records the outcome as a condition of the resource's status through the same adapter.

  \<^bold>\<open>The world.\<close> Every operation that reaches outside the value in hand takes and returns a world of
  any type: the API server, the provider, the clock. The services behind it (the dynamic client, the
  plugin, the policy cache, the token verifier) are records of functions over this world, arguments of
  the definitions that use them. So are the libraries that are not in the repository: the glob
  matcher, SHA3, JWT verification, JSON and apimachinery's conversion between typed and unstructured
  objects, \<^verbatim>\<open>ParseFloat\<close>, the random source. What a theorem needs of them is a named hypothesis of
  its statement. Errors of the API server are seen through the predicates the code asks of them.
  \<^verbatim>\<open>log.Fatal\<close> and a panic are results of their own.

  \<^bold>\<open>Theories.\<close>
  \<^item> \<open>Prelude\<close>: Go's string functions, string-keyed maps, automation. \<open>Decimal\<close>: \<^verbatim>\<open>strconv\<close> on integers.
    \<open>Json_Text\<close>: the JSON values of a workspace, as text.
  \<^item> \<open>Kernel_Errors\<close>: error values with \<^verbatim>\<open>errors.Is\<close> and \<^verbatim>\<open>errors.As\<close>, their kinds, the mapping of the
    API server's errors (\<^verbatim>\<open>kernel/errors.go\<close>, \<^verbatim>\<open>kubernetes/errors.go\<close>).
  \<^item> \<open>Status\<close>: conditions, how they are pushed, trimmed and retracted, and their stored form
    (\<^verbatim>\<open>common/domain/status.go\<close>, \<^verbatim>\<open>common/backend/conditions.go\<close>). \<open>Resource_Model\<close>: metadata, scopes, list
    parameters. \<open>Ports\<close>: the interfaces of the kernel as records, \<^verbatim>\<open>kubernetes/plugin.go\<close>.
  \<^item> \<open>Reconcile_Common\<close>: \<^verbatim>\<open>HandleUpdate\<close>. \<open>Lifecycle\<close>: the abstract lifecycle machine \<open>lc_step\<close> and a
    reference pass. \<open>Reconcilers\<close>: the interfaces of plugin handlers as locales, with safety and
    progress proved once. \<open>Workspace_Handler\<close>, \<open>Network_Handlers\<close>, \<open>Network_Edge_Handlers\<close>,
    \<open>Authorization_Handlers\<close>, \<open>Image_Handler\<close>, \<open>Block_Storage_Handler\<close>, \<open>Instance_Handler\<close>: the fourteen
    handlers and their interpretations. \<open>Handler_Properties\<close>, \<open>Storage_Properties\<close>: what follows.
  \<^item> \<open>References\<close>, \<open>Dependencies\<close>: resource paths, the stored form of a reference, the resolver that
    looks up states and referrers (\<^verbatim>\<open>common/backend/mapper.go\<close>, \<^verbatim>\<open>dependency.go\<close>).
  \<^item> \<open>Namespaces\<close>, \<open>Adapter\<close>, \<open>Labels\<close>, \<open>Label_Filter\<close>: the repository adapter, the adapter that owns
    child namespaces, the stored form of labels, listing with selectors and limits.
    \<open>Controller\<close>: one call of \<^verbatim>\<open>Reconcile\<close> with the finalizer protocol.
  \<^item> \<open>Cr_Conversion\<close>, \<open>Network_Conversion\<close>, \<open>Resource_Conversion\<close>, \<open>Catalog_Conversion\<close>: the converters
    between domain and stored form of every kind. \<open>Stored_Resources\<close>: the adapters the servers build of them.
  \<^item> \<open>Rest\<close>: the generic GET, LIST, PUT and DELETE and the RFC 7807 errors. \<open>Api_Conversion\<close>,
    \<open>Network_Api\<close>, \<open>Resource_Api\<close>, \<open>Catalog_Api\<close>, \<open>Instance_Api\<close>: API forms, converters and endpoints of
    every kind, the power actions of instances. \<open>Api_Properties\<close>: API and store together.
  \<^item> \<open>Authz\<close>: the policy evaluator and the two checkers (\<^verbatim>\<open>gateway/internal/authz/seca\<close>). \<open>Middleware\<close>:
    authenticators, middlewares, claims of routes and the order the servers wire them in.
  \<^item> \<open>Plugin_Contract\<close>: what the platform does with the answers of any plugin. \<open>Aruba_Conversion\<close>,
    \<open>Aruba_Plugin\<close>, \<open>Aruba_Compute\<close>: the Aruba plugin (\<^verbatim>\<open>csp/aruba/pkg/adapter\<close>), its converters, tables and
    names, the delegated operation with its two bundles and the handlers of every kind. \<open>Aruba_Contract\<close>:
    their shared passes as locales. \<open>Aruba_Groups\<close>, \<open>Aruba_Instances\<close>: what deleting a security group
    and creating an instance come to. \<open>Aruba_Watch\<close>: the threads of a watch as a step relation.
    \<open>Aruba_Memory\<close>: a server for the witnesses. \<open>Aruba_Properties\<close>: the properties.
  \<^item> \<open>Go_Time\<close>: RFC 3339 instants, written and read. \<open>Dummy_Plugin\<close>, \<open>Dummy_Properties\<close>: the plugin
    without a cloud (\<^verbatim>\<open>csp/dummy/pkg/plugin\<close>), its simulated operations and updates, a locale for each.
  \<^item> \<open>Ionos_Plugin\<close>, \<open>Ionos_Contract\<close>, \<open>Ionos_Properties\<close>: the IONOS plugin (\<^verbatim>\<open>csp/ionos\<close>), its stores
    over Crossplane objects, and the contract of a kind with such an object.
  \<^item> \<open>Controllers\<close>: the options, the set of controllers and the \<^verbatim>\<open>NewController\<close> of every kind. \<open>Cluster\<close>:
    what reconciling an object comes to over any server that keeps it. \<open>Hosting\<close>, \<open>Hosted_Kinds\<close>: the stored objects
    of eleven kinds as such a server. \<open>Cluster_Properties\<close>: their way from creation to release.
  \<^item> \<open>Http_Server\<close>: the defaults of an HTTP server, its readiness gate and probes, and \<^verbatim>\<open>Serve\<close> as a step
    relation of its threads (\<^verbatim>\<open>gateway/internal/httpserver\<close>). \<open>Gateway_Servers\<close>: the two gateways as they start
    (\<^verbatim>\<open>gateway/cmd\<close>, \<^verbatim>\<open>internal/kubeclient\<close>, \<^verbatim>\<open>framework/frontend/config\<close>).

  A Go struct is a record with its fields, a pointer an option, an enumeration a datatype, an interface
  a record of functions; maps are association lists in key order where the order is seen. Go integers
  of the model count sizes, versions and occurrences, are \<open>int\<close> and are never near their bounds,
  except where \<open>Decimal\<close> and \<open>Label_Filter\<close> check the range a parser accepts.

  \<^bold>\<open>Theorems.\<close> C1 to C7: every pass of a handler is a move of the lifecycle machine, deletion is final,
  nothing becomes active without a successful Create, progress, bounds and updates. C8 and C9: the built
  controllers take a stored object to active and a marked one out of the store. C10 to C12: volumes
  and images with their dependencies. C13 to C19: the Aruba plugin under the handlers and the controller: what is
  active or released has or has lost its object, what can never be released, the references of a
  server, the reaping of groups, tags, and watches. C20 to C22: the dummy plugin's delays and updates, and
  its deletions, which are over at once. C23 and C24: the IONOS plugin follows its objects, and what their
  names cost. C25, C26, C32, C33 and C36: the policy, what a started gateway serves by it, what its checkers decide from
  the listings of policy, and the claims of routes. C27: how a server stops. C28 to C31, C34 and C39: what the
  adapter writes with and without a version, what it leaves alone, what it rolls back, namespaces,
  and every kind through the store. C35: referrers. C37, C38, C40:
  selectors, power actions, and the API on top of the store. A hypothesis about a server
  (\<open>serves\<close>, \<open>serves_dynamic\<close>, \<open>serves_typed\<close>, \<open>reapable\<close>, \<open>adding\<close>, \<open>keeps\<close>, \<open>api_object\<close>,
  \<open>removes_unfinalized\<close>, \<open>namespace_server\<close>, \<open>lists_children\<close>, \<open>keeps_owner\<close>, \<open>serves_selector\<close>) says what an API server
  does with the objects it keeps; the witnesses discharge it for one in memory. Deletion on it is not
  immediate: in \<open>Adapter\<close> a deleted namespace or owner may be marked first and go away (\<open>fades\<close>) at any later
  call, and a terminating namespace still answers reads and blocks a creation.

  \<^bold>\<open>Bounds.\<close> Progress is measured on the world by any function \<open>m\<close> that a refusal of the provider
  decreases. A new resource is active after at most 4 m + 4 passes (four arms: accept, admit, create,
  retry), a marked one is deleted after at most 4 m + 4; a controller takes one reconcile more for its
  finalizer. The threads of a server make at most ten moves. The power actions make at
  most five attempts, the adapter's conflict retries as many as its backoff has steps, both as in the code. No other
  recursion needs fuel.

  \<^bold>\<open>Not modelled.\<close> Generated code: deep copies, CRD types other than the fields the converters touch, mocks; the
  generators under \<^verbatim>\<open>framework/backend/kubernetes/cmd\<close> that emit it, which run before a build and
  not in the platform. The parsing of the command line, loggers, the exporter of metrics, informers and
  \<^verbatim>\<open>SetupWithManager\<close>, the \<^verbatim>\<open>main\<close> of every delegator, which are I/O over third-party packages. Tests and
  benchmarks. Log lines and spans are dropped throughout. Time passes only where a world
  says so: no theorem is about how long a call takes, except those of the dummy plugin's own clock.
\<close>

end
